(* ===== verification/Prelude.thy ===== *)
theory Prelude
  imports Main "HOL-Library.AList" "HOL-Library.Char_ord" "HOL-Library.List_Lexorder"
    "HOL-Library.Multiset" "HOL-Library.Product_Lexorder"
begin

text \<open>
  The vocabulary of the development: the parts of the Go language and its standard library
  that the modelled packages use, and the generic lemmas the components share.

  \<^item> A Go string is a \<open>string\<close>. Each \<open>char\<close> stands for one Unicode code point below 256,
    and every library function is given the meaning Go gives it on such code points:
    \<open>TrimSpace\<close> strips the eight white space characters of that range, \<open>ToLower\<close> maps
    the ASCII and the Latin-1 capital letters. The order on strings is the lexicographic
    order of code points, which is the order of their UTF-8 encodings.
  \<^item> A pointer that is only read is an \<open>option\<close>: \<open>nil\<close> is \<open>None\<close>.
  \<^item> A \<open>time.Time\<close> is an \<open>int\<close>, the instant in nanoseconds; the zero time is \<open>0\<close>.
  \<^item> A Go \<open>int\<close> or \<open>int64\<close> is an \<open>int\<close>, and additions on stored values wrap at 64 bits.
  \<^item> A Go map is an association list with distinct keys (\<open>AList\<close>): a \<open>range\<close> loop over
    a map sees its entries in the order of that list, and results that the code sorts
    afterwards are shown not to depend on it.
\<close>

named_theorems repo_simps \<open>unfolding rules for repository operations\<close>
named_theorems status_simps \<open>case tables of the lifecycle predicates\<close>

type_synonym time = int
type_synonym ('k, 'v) gomap = "('k \<times> 'v) list"

section \<open>Machine integers\<close>

definition wrap64 :: "int \<Rightarrow> int" where
  "wrap64 x = (x + 2 ^ 63) mod 2 ^ 64 - 2 ^ 63"

abbreviation max_int64 :: int where
  "max_int64 \<equiv> 2 ^ 63 - 1"

lemma wrap64_id [simp]: "- (2 ^ 63) \<le> x \<Longrightarrow> x < 2 ^ 63 \<Longrightarrow> wrap64 x = x"
  by (simp add: wrap64_def)

lemma wrap64_range: "- (2 ^ 63) \<le> wrap64 x" "wrap64 x < 2 ^ 63"
  using pos_mod_bound [of "2 ^ 64" "x + 2 ^ 63"] pos_mod_sign [of "2 ^ 64" "x + 2 ^ 63"]
  by (auto simp: wrap64_def)

lemma wrap64_overflow: "wrap64 (max_int64 + 1) = - (2 ^ 63)"
  by (simp add: wrap64_def)

section \<open>Strings\<close>

definition is_space :: "char \<Rightarrow> bool" where
  "is_space c \<longleftrightarrow> List.member [CHR 0x09, CHR 0x0A, CHR 0x0B, CHR 0x0C, CHR 0x0D, CHR 0x20, CHR 0x85, CHR 0xA0] c"

definition TrimSpace :: "string \<Rightarrow> string" where
  "TrimSpace s = rev (dropWhile is_space (rev (dropWhile is_space s)))"

definition char_lower :: "char \<Rightarrow> char" where
  "char_lower c =
     (let n = of_char c :: nat
      in if (65 \<le> n \<and> n \<le> 90) \<or> (192 \<le> n \<and> n \<le> 222 \<and> n \<noteq> 215) then char_of (n + 32) else c)"

definition ToLower :: "string \<Rightarrow> string" where
  "ToLower s = map char_lower s"

definition HasPrefix :: "string \<Rightarrow> string \<Rightarrow> bool" where
  "HasPrefix s p \<longleftrightarrow> take (length p) s = p"

definition HasSuffix :: "string \<Rightarrow> string \<Rightarrow> bool" where
  "HasSuffix s p \<longleftrightarrow> length p \<le> length s \<and> drop (length s - length p) s = p"

definition TrimPrefix :: "string \<Rightarrow> string \<Rightarrow> string" where
  "TrimPrefix s p = (if HasPrefix s p then drop (length p) s else s)"

definition TrimSuffix :: "string \<Rightarrow> string \<Rightarrow> string" where
  "TrimSuffix s p = (if HasSuffix s p then take (length s - length p) s else s)"

definition EqualFold :: "string \<Rightarrow> string \<Rightarrow> bool" where
  "EqualFold s t \<longleftrightarrow> ToLower s = ToLower t"

definition TrimRightChar :: "char \<Rightarrow> string \<Rightarrow> string" where
  "TrimRightChar c s = rev (dropWhile (\<lambda>x. x = c) (rev s))"

definition ContainsAny :: "string \<Rightarrow> string \<Rightarrow> bool" where
  "ContainsAny s chars \<longleftrightarrow> list_ex (\<lambda>c. List.member chars c) s"

text \<open>\<open>strings.Split\<close> with a separator of one character.\<close>

fun SplitChar :: "char \<Rightarrow> string \<Rightarrow> string list" where
  "SplitChar d [] = [[]]"
| "SplitChar d (c # cs) =
     (if c = d then [] # SplitChar d cs
      else (case SplitChar d cs of [] \<Rightarrow> [[c]] | w # ws \<Rightarrow> (c # w) # ws))"

lemma SplitChar_not_Nil [simp]: "SplitChar d s \<noteq> []"
  by (induction s) (auto split: list.splits)

fun JoinChar :: "char \<Rightarrow> string list \<Rightarrow> string" where
  "JoinChar d [] = []"
| "JoinChar d [w] = w"
| "JoinChar d (w # v # ws) = w @ d # JoinChar d (v # ws)"

lemma JoinChar_SplitChar: "JoinChar d (SplitChar d s) = s"
proof (induction s)
  case Nil
  then show ?case by simp
next
  case (Cons c s)
  obtain w ws where split: "SplitChar d s = w # ws"
    using SplitChar_not_Nil [of d s] by (cases "SplitChar d s") auto
  with Cons show ?case
    by (cases ws) auto
qed

lemma SplitChar_no_sep: "w \<in> set (SplitChar d s) \<Longrightarrow> d \<notin> set w"
proof (induction s arbitrary: w)
  case Nil
  then show ?case by simp
next
  case (Cons c s)
  then show ?case
    by (cases "SplitChar d s") (auto split: if_splits)
qed

lemma SplitChar_append_sep: "SplitChar d (q @ d # w) = SplitChar d q @ SplitChar d w"
proof (induction q)
  case (Cons c q)
  then show ?case by (cases "SplitChar d q") auto
qed simp

lemma SplitChar_plain: "d \<notin> set w \<Longrightarrow> SplitChar d w = [w]"
  by (induction w) auto

lemma SplitChar_JoinChar:
  "\<forall>s \<in> set ss. d \<notin> set s \<Longrightarrow> ss \<noteq> [] \<Longrightarrow> SplitChar d (JoinChar d ss) = ss"
proof (induction d ss rule: JoinChar.induct)
  case (3 d w v ws)
  then show ?case by (simp add: SplitChar_append_sep SplitChar_plain)
qed (auto simp: SplitChar_plain)

subsection \<open>Decimal numerals\<close>

fun digits_of_nat :: "nat \<Rightarrow> string" where
  "digits_of_nat n =
     (if n < 10 then [char_of (48 + n)] else digits_of_nat (n div 10) @ [char_of (48 + n mod 10)])"

declare digits_of_nat.simps [simp del]

definition pad_left :: "nat \<Rightarrow> char \<Rightarrow> string \<Rightarrow> string" where
  "pad_left w c s = replicate (w - length s) c @ s"

text \<open>\<open>strconv.FormatInt(i, 10)\<close> and \<open>fmt.Sprintf("%d", i)\<close>.\<close>

definition FormatInt :: "int \<Rightarrow> string" where
  "FormatInt i = (if i < 0 then CHR ''-'' # digits_of_nat (nat (- i)) else digits_of_nat (nat i))"

text \<open>\<open>fmt.Sprintf("%03d", i)\<close>: the sign counts towards the width.\<close>

definition Format03d :: "int \<Rightarrow> string" where
  "Format03d i =
     (if i < 0 then CHR ''-'' # pad_left 2 CHR ''0'' (digits_of_nat (nat (- i)))
      else pad_left 3 CHR ''0'' (digits_of_nat (nat i)))"

text \<open>\<open>fmt.Sprintf("%q", s)\<close>: Go quotes a string with escapes for what does not print.\<close>

definition hex_digit :: "nat \<Rightarrow> char" where
  "hex_digit n = ''0123456789abcdef'' ! (n mod 16)"

definition quote_char :: "char \<Rightarrow> string" where
  "quote_char c =
     (let n = of_char c :: nat
      in if n = 34 \<or> n = 92 then [CHR 0x5C, c]
         else if n = 7 then [CHR 0x5C, CHR ''a''] else if n = 8 then [CHR 0x5C, CHR ''b'']
         else if n = 9 then [CHR 0x5C, CHR ''t''] else if n = 10 then [CHR 0x5C, CHR ''n'']
         else if n = 11 then [CHR 0x5C, CHR ''v''] else if n = 12 then [CHR 0x5C, CHR ''f'']
         else if n = 13 then [CHR 0x5C, CHR ''r'']
         else if n < 32 \<or> n = 127 then [CHR 0x5C, CHR ''x'', hex_digit (n div 16), hex_digit n]
         else if 128 \<le> n \<and> n \<le> 160 \<or> n = 173 then [CHR 0x5C, CHR ''u'', CHR ''0'', CHR ''0'', hex_digit (n div 16), hex_digit n]
         else [c])"

definition Quote :: "string \<Rightarrow> string" where
  "Quote s = CHR 0x22 # concat (map quote_char s) @ [CHR 0x22]"

text \<open>The value of a string of decimal digits, the inverse of \<open>digits_of_nat\<close>.\<close>

definition digit_val :: "char \<Rightarrow> nat" where
  "digit_val c = of_char c - 48"

definition is_digit :: "char \<Rightarrow> bool" where
  "is_digit c \<longleftrightarrow> 48 \<le> (of_char c :: nat) \<and> (of_char c :: nat) \<le> 57"

definition nat_of_digits :: "string \<Rightarrow> nat" where
  "nat_of_digits s = foldl (\<lambda>n c. 10 * n + digit_val c) 0 s"

lemma nat_of_digits_snoc: "nat_of_digits (s @ [c]) = 10 * nat_of_digits s + digit_val c"
  by (simp add: nat_of_digits_def)

lemma digit_char [simp]: "n < 10 \<Longrightarrow> digit_val (char_of (48 + n)) = n" "n < 10 \<Longrightarrow> is_digit (char_of (48 + n))"
  by (simp_all add: digit_val_def is_digit_def)

lemma nat_of_digits_of_nat [simp]: "nat_of_digits (digits_of_nat n) = n"
proof (induction n rule: digits_of_nat.induct)
  case (1 n)
  show ?case
  proof (cases "n < 10")
    case True
    then show ?thesis by (simp add: digits_of_nat.simps [of n] nat_of_digits_def)
  next
    case False
    with 1 show ?thesis
      by (simp add: digits_of_nat.simps [of n] nat_of_digits_snoc)
  qed
qed

lemma nat_of_digits_zeros: "nat_of_digits (replicate k CHR ''0'' @ s) = nat_of_digits s"
proof (induction k)
  case 0
  then show ?case by simp
next
  case (Suc k)
  then show ?case
    by (simp add: nat_of_digits_def digit_val_def)
qed

lemma nat_of_digits_pad_left [simp]: "nat_of_digits (pad_left w CHR ''0'' s) = nat_of_digits s"
  by (simp add: pad_left_def nat_of_digits_zeros)

lemma digits_of_nat_not_Nil [simp]: "digits_of_nat n \<noteq> []"
  by (simp add: digits_of_nat.simps [of n])

lemma digits_of_nat_digits: "c \<in> set (digits_of_nat n) \<Longrightarrow> is_digit c"
proof (induction n rule: digits_of_nat.induct)
  case (1 n)
  then show ?case
    by (auto simp: digits_of_nat.simps [of n] split: if_splits)
qed

lemma pad_left_digits: "(\<And>c. c \<in> set s \<Longrightarrow> is_digit c) \<Longrightarrow> c \<in> set (pad_left w CHR ''0'' s) \<Longrightarrow> is_digit c"
  by (auto simp: pad_left_def is_digit_def split: if_splits)

lemma Format03d_inject: "Format03d i = Format03d j \<Longrightarrow> i = j"
proof -
  assume eq: "Format03d i = Format03d j"
  have dash: "\<not> is_digit CHR ''-''" by (simp add: is_digit_def)
  have no_dash: "CHR ''-'' \<notin> set (pad_left w CHR ''0'' (digits_of_nat n))" for w n
    using pad_left_digits [of "digits_of_nat n" "CHR ''-''" w] digits_of_nat_digits dash by blast
  have nonneg: "Format03d k = pad_left 3 CHR ''0'' (digits_of_nat (nat k))" if "0 \<le> k" for k
    using that by (simp add: Format03d_def)
  have neg: "Format03d k = CHR ''-'' # pad_left 2 CHR ''0'' (digits_of_nat (nat (- k)))" if "k < 0" for k
    using that by (simp add: Format03d_def)
  show "i = j"
  proof (cases "i < 0"; cases "j < 0")
    assume "i < 0" "j < 0"
    then have "nat (- i) = nat (- j)"
      using eq by (metis list.inject nat_of_digits_of_nat nat_of_digits_pad_left neg)
    with \<open>i < 0\<close> \<open>j < 0\<close> show ?thesis by simp
  next
    assume "i < 0" "\<not> j < 0"
    then show ?thesis using eq no_dash by (metis list.set_intros(1) neg nonneg not_less)
  next
    assume "\<not> i < 0" "j < 0"
    then show ?thesis using eq no_dash by (metis list.set_intros(1) neg nonneg not_less)
  next
    assume "\<not> i < 0" "\<not> j < 0"
    then have "nat i = nat j"
      using eq by (metis nat_of_digits_of_nat nat_of_digits_pad_left nonneg not_less)
    with \<open>\<not> i < 0\<close> \<open>\<not> j < 0\<close> show ?thesis by simp
  qed
qed

subsection \<open>Trimming\<close>

lemma dropWhile_id: "s = [] \<or> \<not> P (hd s) \<Longrightarrow> dropWhile P s = s"
  by (cases s) auto

lemma dropWhile_hd: "dropWhile P s = [] \<or> \<not> P (hd (dropWhile P s))"
  by (induction s) auto

lemma last_dropWhile: "dropWhile P s \<noteq> [] \<Longrightarrow> last (dropWhile P s) = last s"
  by (induction s) auto

lemma TrimSpace_Nil [simp]: "TrimSpace [] = []"
  by (simp add: TrimSpace_def)

text \<open>A string is trimmed when it is empty or starts and ends with a character that is no space.\<close>

definition trimmed :: "string \<Rightarrow> bool" where
  "trimmed s \<longleftrightarrow> s = [] \<or> (\<not> is_space (hd s) \<and> \<not> is_space (last s))"

lemma trimmed_Nil [simp]: "trimmed []"
  by (simp add: trimmed_def)

lemma TrimSpace_id: "trimmed s \<Longrightarrow> TrimSpace s = s"
  by (cases "s = []") (auto simp: trimmed_def TrimSpace_def dropWhile_id hd_rev)

lemma trimmed_TrimSpace [simp, intro]: "trimmed (TrimSpace s)"
proof -
  let ?t = "dropWhile is_space s"
  let ?u = "dropWhile is_space (rev ?t)"
  show ?thesis
  proof (cases "?u = []")
    case True
    then show ?thesis by (metis TrimSpace_def trimmed_def rev.simps(1))
  next
    case False
    then have t: "?t \<noteq> []" by (metis dropWhile.simps(1) rev.simps(1))
    have "last (rev ?u) = hd ?u" using False by (simp add: last_rev)
    then have l: "\<not> is_space (last (rev ?u))" using dropWhile_hd [of is_space "rev ?t"] False by metis
    have "hd (rev ?u) = last ?u" using False by (simp add: hd_rev)
    also have "\<dots> = last (rev ?t)" using False by (rule last_dropWhile)
    also have "\<dots> = hd ?t" using t by (simp add: last_rev)
    finally have "\<not> is_space (hd (rev ?u))" using dropWhile_hd [of is_space s] t by metis
    with l show ?thesis by (metis TrimSpace_def trimmed_def)
  qed
qed

lemma TrimSpace_idem [simp]: "TrimSpace (TrimSpace s) = TrimSpace s"
  by (rule TrimSpace_id) simp

lemma TrimSpace_eq_Nil: "TrimSpace s = [] \<longleftrightarrow> (\<forall>c \<in> set s. is_space c)"
proof
  assume "TrimSpace s = []"
  then have "\<forall>c \<in> set (dropWhile is_space s). is_space c"
    by (simp add: TrimSpace_def)
  then have "dropWhile is_space s = []"
    by (metis dropWhile_hd list.set_sel(1))
  then show "\<forall>c \<in> set s. is_space c" by simp
next
  assume "\<forall>c \<in> set s. is_space c"
  then have "dropWhile is_space s = []" by simp
  then show "TrimSpace s = []" unfolding TrimSpace_def by (simp only: rev.simps dropWhile.simps)
qed

subsection \<open>Lower case\<close>

lemma char_lower_idem [simp]: "char_lower (char_lower c) = char_lower c"
proof -
  have lt: "(of_char c :: nat) < 256" by simp
  have inv: "of_char (char_of n :: char) = n" if "n < 256" for n :: nat
    using that by simp
  show ?thesis
    using lt by (auto simp: char_lower_def Let_def inv)
qed

lemma ToLower_idem [simp]: "ToLower (ToLower s) = ToLower s"
  by (simp add: ToLower_def)

lemma is_space_code: "is_space c \<Longrightarrow> (of_char c :: nat) \<in> {9, 10, 11, 12, 13, 32, 133, 160}"
  by (auto simp: is_space_def)

lemma is_space_char_lower [simp]: "is_space (char_lower c) = is_space c"
proof (cases "char_lower c = c")
  case False
  let ?n = "of_char c :: nat"
  have n: "65 \<le> ?n \<and> ?n \<le> 90 \<or> 192 \<le> ?n \<and> ?n \<le> 222" and l: "char_lower c = char_of (?n + 32)"
    using False by (auto simp: char_lower_def Let_def split: if_splits)
  then have "(of_char (char_lower c) :: nat) = ?n + 32" by (auto simp: mod_less)
  with n show ?thesis using is_space_code [of c] is_space_code [of "char_lower c"] by auto
qed simp

lemma trimmed_ToLower: "trimmed s \<Longrightarrow> trimmed (ToLower s)"
  by (cases "s = []") (auto simp: trimmed_def ToLower_def hd_map last_map)

lemma TrimSpace_ToLower [simp]: "TrimSpace (ToLower (TrimSpace s)) = ToLower (TrimSpace s)"
  by (rule TrimSpace_id) (rule trimmed_ToLower, simp)

section \<open>Maps\<close>

text \<open>\<open>m[k]\<close> on a missing key yields the zero value of the element type.\<close>

definition gm_get_or :: "'v \<Rightarrow> ('k, 'v) gomap \<Rightarrow> 'k \<Rightarrow> 'v" where
  "gm_get_or d m k = (case map_of m k of None \<Rightarrow> d | Some v \<Rightarrow> v)"

abbreviation gm_put :: "'k \<Rightarrow> 'v \<Rightarrow> ('k, 'v) gomap \<Rightarrow> ('k, 'v) gomap" where
  "gm_put \<equiv> AList.update"

abbreviation gm_ok :: "('k, 'v) gomap \<Rightarrow> bool" where
  "gm_ok m \<equiv> distinct (map fst m)"

lemma map_of_put [simp]: "map_of (gm_put k v m) k' = (if k' = k then Some v else map_of m k')"
  by (simp add: update_conv')

lemma gm_get_or_put [simp]: "gm_get_or d (gm_put k v m) k' = (if k' = k then v else gm_get_or d m k')"
  by (simp add: gm_get_or_def)

lemma gm_get_or_Nil [simp]: "gm_get_or d [] k = d"
  by (simp add: gm_get_or_def)

lemma gm_ok_put [simp]: "gm_ok m \<Longrightarrow> gm_ok (gm_put k v m)"
  by (rule distinct_update)

lemma map_of_set_put: "gm_ok m \<Longrightarrow> (k', v') \<in> set (gm_put k v m) \<longleftrightarrow> (if k' = k then v' = v else (k', v') \<in> set m)"
  by (metis gm_ok_put map_of_put map_of_eq_Some_iff option.inject)

text \<open>
  Writing the value that is already stored changes nothing: the association list is the
  same, not only the map it stands for.
\<close>

lemma gm_put_same: "map_of m k = Some v \<Longrightarrow> gm_put k v m = m"
  by (induction m) (auto split: if_splits)

section \<open>Searching and updating slices\<close>

text \<open>The loop \<open>for idx := range xs { if !p(xs[idx]) { continue }; ... return }\<close>.\<close>

fun find_index :: "('a \<Rightarrow> bool) \<Rightarrow> 'a list \<Rightarrow> nat option" where
  "find_index p [] = None"
| "find_index p (x # xs) = (if p x then Some 0 else map_option Suc (find_index p xs))"

lemma find_index_SomeD: "find_index p xs = Some i \<Longrightarrow> i < length xs \<and> p (xs ! i) \<and> (\<forall>j < i. \<not> p (xs ! j))"
  by (induction xs arbitrary: i) (auto simp: less_Suc_eq_0_disj split: if_splits)

lemma find_index_None: "find_index p xs = None \<longleftrightarrow> (\<forall>x \<in> set xs. \<not> p x)"
  by (induction xs) auto

lemma find_index_update:
  assumes "find_index p xs = Some i" and "p x"
  shows "find_index p (xs[i := x]) = Some i"
  using assms by (induction xs arbitrary: i) (auto split: if_splits nat.splits)

lemma find_index_update_other:
  assumes "i < length xs" and "p (xs ! i) = p x"
  shows "find_index p (xs[i := x]) = find_index p xs"
  using assms by (induction xs arbitrary: i) (auto split: nat.splits)

lemma nth_list_update_at: "k < length xs \<Longrightarrow> xs[i := x] ! k = (if k = i then x else xs ! k)"
  by (cases "k = i") simp_all

lemma find_index_map_cong:
  assumes "\<And>x. x \<in> set xs \<Longrightarrow> p (f x) = p x"
  shows "find_index p (map f xs) = find_index p xs"
  using assms by (induction xs) auto

section \<open>Sorting\<close>

text \<open>
  \<open>sort.Slice(xs, less)\<close>, as the stable insertion sort by the code's own \<open>less\<close> function. Go
  does not promise stability; where the sorted elements have distinct keys every correct sort
  gives this result, which \<open>comparator.sort_unique\<close> states.
\<close>

fun insert_by :: "('a \<Rightarrow> 'a \<Rightarrow> bool) \<Rightarrow> 'a \<Rightarrow> 'a list \<Rightarrow> 'a list" where
  "insert_by lt x [] = [x]"
| "insert_by lt x (y # ys) = (if lt y x then y # insert_by lt x ys else x # y # ys)"

definition sort_slice :: "('a \<Rightarrow> 'a \<Rightarrow> bool) \<Rightarrow> 'a list \<Rightarrow> 'a list" where
  "sort_slice lt xs = foldr (insert_by lt) xs []"

lemma mset_insert_by [simp]: "mset (insert_by lt x ys) = add_mset x (mset ys)"
  by (induction ys) auto

lemma mset_sort_slice [simp]: "mset (sort_slice lt xs) = mset xs"
  by (induction xs) (auto simp: sort_slice_def)

lemma set_sort_slice [simp]: "set (sort_slice lt xs) = set xs"
  by (metis mset_sort_slice set_mset_mset)

lemma length_sort_slice [simp]: "length (sort_slice lt xs) = length xs"
  by (metis mset_sort_slice size_mset)

lemma sort_slice_Nil [simp]: "sort_slice lt [] = []"
  by (simp add: sort_slice_def)

text \<open>
  A comparison function is good for sorting when, on the elements it is applied to, it compares
  some key of a linear order. The comparisons of the code are chains of \<open>if\<close>s; each interpretation
  of these locales exhibits the key such a chain compares. \<open>comparator\<close> is the case without a
  restriction on the elements.
\<close>

locale comparator_on =
  fixes lt :: "'a \<Rightarrow> 'a \<Rightarrow> bool" and key :: "'a \<Rightarrow> 'k::linorder" and ok :: "'a \<Rightarrow> bool"
  assumes lt_key_on: "ok x \<Longrightarrow> ok y \<Longrightarrow> lt x y \<longleftrightarrow> key x < key y"
begin

lemma insert_by_key_on: "ok x \<Longrightarrow> \<forall>y \<in> set ys. ok y \<Longrightarrow> insert_by lt x ys = insort_key key x ys"
  by (induction ys) (auto simp: lt_key_on)

lemma sort_slice_key_on: "\<forall>x \<in> set xs. ok x \<Longrightarrow> sort_slice lt xs = sort_key key xs"
  by (induction xs) (auto simp: sort_slice_def insert_by_key_on)

lemma sort_sorted_on: "\<forall>x \<in> set xs. ok x \<Longrightarrow> sorted (map key (sort_slice lt xs))"
  by (simp add: sort_slice_key_on)

lemma sort_ordered_on: "\<forall>x \<in> set xs. ok x \<Longrightarrow> sorted_wrt (\<lambda>x y. \<not> lt y x) (sort_slice lt xs)"
proof -
  assume ok: "\<forall>x \<in> set xs. ok x"
  have "sorted_wrt (\<lambda>x y. key x \<le> key y) (sort_slice lt xs)"
    using sort_sorted_on [OF ok] by (simp add: sorted_map)
  then show ?thesis
    by (rule sorted_wrt_mono_rel [rotated]) (use ok in \<open>auto simp: lt_key_on not_less\<close>)
qed

lemma sort_unique_on:
  assumes "mset xs = mset ys" and "inj_on key (set xs)" and "\<forall>x \<in> set xs. ok x"
  shows "sort_slice lt xs = sort_slice lt ys"
proof -
  have "\<forall>y \<in> set ys. ok y" using assms(1,3) by (metis set_mset_mset)
  then show ?thesis
    using assms by (simp add: sort_slice_key_on sort_key_inj_key_eq)
qed

lemma sort_min_on: "x \<in> set xs \<Longrightarrow> \<forall>x \<in> set xs. ok x \<Longrightarrow> \<not> lt x (hd (sort_slice lt xs))"
proof -
  assume x: "x \<in> set xs" and ok: "\<forall>x \<in> set xs. ok x"
  then have mem: "x \<in> set (sort_slice lt xs)" by simp
  show ?thesis
  proof (cases "sort_slice lt xs")
    case Nil
    with mem show ?thesis by simp
  next
    case (Cons y ys)
    then have y: "ok y" using ok by (metis list.set_intros(1) set_sort_slice)
    from Cons mem sort_ordered_on [OF ok] x ok y show ?thesis by (auto simp: lt_key_on)
  qed
qed

end

text \<open>The single-pass search for the least element: keep the candidate unless a smaller one comes.\<close>

definition keep_least :: "('a \<Rightarrow> 'a \<Rightarrow> bool) \<Rightarrow> 'a \<Rightarrow> 'a option \<Rightarrow> 'a option" where
  "keep_least lt x acc = (case acc of None \<Rightarrow> Some x | Some e \<Rightarrow> if lt x e then Some x else Some e)"

lemma keep_least_simps [simp]:
  "keep_least lt x None = Some x" "keep_least lt x (Some e) = Some (if lt x e then x else e)"
  by (simp_all add: keep_least_def)

locale comparator = comparator_on lt key "\<lambda>_. True"
  for lt :: "'a \<Rightarrow> 'a \<Rightarrow> bool" and key :: "'a \<Rightarrow> 'k::linorder"
begin

lemma lt_key: "lt x y \<longleftrightarrow> key x < key y"
  by (simp add: lt_key_on)

lemma sort_slice_key: "sort_slice lt xs = sort_key key xs"
  by (simp add: sort_slice_key_on)

lemma sort_sorted: "sorted (map key (sort_slice lt xs))"
  by (simp add: sort_slice_key)

lemma sort_ordered: "sorted_wrt (\<lambda>x y. \<not> lt y x) (sort_slice lt xs)"
  by (simp add: sort_ordered_on)

lemma sort_unique: "mset xs = mset ys \<Longrightarrow> inj_on key (set xs) \<Longrightarrow> sort_slice lt xs = sort_slice lt ys"
  by (simp add: sort_unique_on)

lemma sort_min: "x \<in> set xs \<Longrightarrow> \<not> lt x (hd (sort_slice lt xs))"
  by (simp add: sort_min_on)

lemma fold_keep_least:
  "\<exists>m. fold (keep_least lt) xs (Some a) = Some m \<and> m \<in> insert a (set xs) \<and>
     (\<forall>x \<in> insert a (set xs). key m \<le> key x)"
proof (induction xs arbitrary: a)
  case (Cons x xs)
  let ?a = "if lt x a then x else a"
  obtain m where m: "fold (keep_least lt) xs (Some ?a) = Some m" "m \<in> insert ?a (set xs)"
    "\<forall>y \<in> insert ?a (set xs). key m \<le> key y" using Cons by blast
  have "key ?a \<le> key x" "key ?a \<le> key a" by (auto simp: lt_key)
  with m(3) have "key m \<le> key x" "key m \<le> key a" by (meson insertI1 order_trans)+
  with m show ?case by (intro exI [of _ m]) (auto split: if_splits)
qed simp

lemma fold_keep_least_sort:
  assumes "inj_on key (set xs)"
  shows "fold (keep_least lt) xs None = (case sort_slice lt xs of [] \<Rightarrow> None | x # _ \<Rightarrow> Some x)"
proof (cases xs)
  case Nil
  then show ?thesis by simp
next
  case (Cons a ys)
  obtain m where m: "fold (keep_least lt) ys (Some a) = Some m" "m \<in> set xs" "\<forall>x \<in> set xs. key m \<le> key x"
    using fold_keep_least [of ys a] by (auto simp: Cons)
  have "sort_slice lt xs \<noteq> []" using Cons by (metis length_sort_slice list.size(3) length_0_conv list.distinct(1))
  then obtain h zs where h: "sort_slice lt xs = h # zs" by (cases "sort_slice lt xs") auto
  have "h \<in> set xs" by (metis h list.set_intros(1) set_sort_slice)
  moreover have "key h \<le> key m" using sort_min [OF m(2)] by (simp add: h lt_key not_less)
  ultimately have "h = m" using m assms by (meson inj_onD order_antisym)
  with m(1) show ?thesis by (simp add: h) (simp add: Cons)
qed

end

end
