(* ===== verification/Dependency_Graph.thy ===== *)
theory Dependency_Graph
  imports Prelude
begin

text \<open>
  Algorithms on dependency graphs: the cycle search of \<open>pipeline/validate.go\<close> and the ancestor,
  depth and nearest-common-ancestor searches of \<open>service/build/execution_planner.go\<close>.

  A graph is the Go map from a node to the list of the nodes it depends on. The recursive searches
  of the code have no bound of their own; here they carry a fuel argument and yield \<open>None\<close> when it
  runs out. The cycle search is shown never to run out with the fuel it is given, on any graph;
  the depth search never on an acyclic graph, and always on a node of a cycle, where the Go
  recursion does not end.
\<close>

type_synonym graph = "(string, string list) gomap"

definition succs :: "graph \<Rightarrow> string \<Rightarrow> string list" where
  "succs g n = gm_get_or [] g n"

text \<open>All nodes a graph mentions, and the fuel that bounds every path without repetition.\<close>

definition graph_nodes :: "graph \<Rightarrow> string list" where
  "graph_nodes g = concat (map (\<lambda>(n, ds). n # ds) g)"

definition graph_fuel :: "graph \<Rightarrow> nat" where
  "graph_fuel g = Suc (length (graph_nodes g))"

section \<open>Cycle search\<close>

fun visit :: "nat \<Rightarrow> graph \<Rightarrow> string \<Rightarrow> (string, nat) gomap \<Rightarrow> (bool \<times> (string, nat) gomap) option"
  and visit_each :: "nat \<Rightarrow> graph \<Rightarrow> string list \<Rightarrow> (string, nat) gomap \<Rightarrow> (bool \<times> (string, nat) gomap) option" where
  "visit 0 g node states = None"
| "visit (Suc fuel) g node states =
     (if gm_get_or 0 states node = 1 then Some (True, states)
      else if gm_get_or 0 states node = 2 then Some (False, states)
      else case visit_each fuel g (succs g node) (gm_put node 1 states) of
        None \<Rightarrow> None
      | Some (found, states1) \<Rightarrow>
          (if found then Some (True, states1) else Some (False, gm_put node 2 states1)))"
| "visit_each fuel g [] states = Some (False, states)"
| "visit_each fuel g (dependency # rest) states =
     (case visit fuel g dependency states of
        None \<Rightarrow> None
      | Some (found, states1) \<Rightarrow>
          (if found then Some (True, states1) else visit_each fuel g rest states1))"

text \<open>The outer loop visits every key of the map, like the inner one visits dependencies.\<close>

definition cycle_search :: "graph \<Rightarrow> (bool \<times> (string, nat) gomap) option" where
  "cycle_search g = visit_each (graph_fuel g) g (map fst g) []"

definition hasDependencyCycle :: "graph \<Rightarrow> bool" where
  "hasDependencyCycle dependenciesByName =
     (case cycle_search dependenciesByName of Some (found, _) \<Rightarrow> found | None \<Rightarrow> True)"

section \<open>Ancestors\<close>

function ancestor_loop :: "graph \<Rightarrow> string list \<Rightarrow> string list \<Rightarrow> string list" where
  "ancestor_loop g stack ancestors =
     (if stack = [] then ancestors
      else (let current = last stack; stack1 = butlast stack
            in if current \<in> set ancestors then ancestor_loop g stack1 ancestors
               else ancestor_loop g (stack1 @ succs g current) (current # ancestors)))"
  by pat_completeness auto

lemma succs_nodes: "set (succs g n) \<subseteq> set (graph_nodes g)"
proof (cases "map_of g n")
  case (Some ds)
  then have "(n, ds) \<in> set g" by (rule map_of_SomeD)
  then show ?thesis using Some by (force simp: succs_def gm_get_or_def graph_nodes_def)
qed (simp add: succs_def gm_get_or_def)

termination ancestor_loop
proof (relation "measures [\<lambda>(g, stack, ancestors). card (set (graph_nodes g) \<union> set stack - set ancestors),
    \<lambda>(g, stack, ancestors). length stack]", goal_cases)
  case (2 g stack ancestors current stack1)
  have sub: "set (graph_nodes g) \<union> set stack1 - set ancestors \<subseteq> set (graph_nodes g) \<union> set stack - set ancestors"
    using 2 in_set_butlastD by fastforce
  then have "card (set (graph_nodes g) \<union> set stack1 - set ancestors) \<le> card (set (graph_nodes g) \<union> set stack - set ancestors)"
    by (intro card_mono) auto
  with 2 show ?case by auto
next
  case (3 g stack ancestors current stack1)
  have "current \<in> set stack" using 3 by simp
  have st1: "set stack1 \<subseteq> set stack" using 3 by (auto dest: in_set_butlastD)
  let ?S = "set (graph_nodes g) \<union> set stack - set ancestors"
  have "set (graph_nodes g) \<union> set (stack1 @ succs g current) - set (current # ancestors) \<subseteq> ?S - {current}"
    using st1 succs_nodes [of g current] by auto
  then have "card (set (graph_nodes g) \<union> set (stack1 @ succs g current) - set (current # ancestors)) \<le> card (?S - {current})"
    by (intro card_mono) auto
  also have "\<dots> < card ?S" using \<open>current \<in> set stack\<close> 3 by (intro card_Diff1_less) auto
  finally have "card (set (graph_nodes g) \<union> set (stack1 @ succs g current) - set (current # ancestors)) < card ?S" .
  with 3 show ?case by auto
qed simp

declare ancestor_loop.simps [simp del]

definition ancestorNodeIDs :: "string \<Rightarrow> graph \<Rightarrow> string list" where
  "ancestorNodeIDs nodeID dependenciesByNodeID = ancestor_loop dependenciesByNodeID [nodeID] []"

section \<open>Depth and nearest common ancestor\<close>

text \<open>Depths are at most the number of nodes, so the Go \<open>int\<close> additions do not wrap.\<close>

fun nodeDepth :: "nat \<Rightarrow> graph \<Rightarrow> string \<Rightarrow> (string, int) gomap \<Rightarrow> (int \<times> (string, int) gomap) option"
  and depth_each :: "nat \<Rightarrow> graph \<Rightarrow> string list \<Rightarrow> int \<Rightarrow> (string, int) gomap \<Rightarrow> (int \<times> (string, int) gomap) option" where
  "nodeDepth 0 g nodeID depthByNodeID = None"
| "nodeDepth (Suc fuel) g nodeID depthByNodeID =
     (case map_of depthByNodeID nodeID of
        Some depth \<Rightarrow> Some (depth, depthByNodeID)
      | None \<Rightarrow>
          (case depth_each fuel g (succs g nodeID) 0 depthByNodeID of
             None \<Rightarrow> None
           | Some (depth, memo) \<Rightarrow> Some (depth, gm_put nodeID depth memo)))"
| "depth_each fuel g [] depth memo = Some (depth, memo)"
| "depth_each fuel g (d # ds) depth memo =
     (case nodeDepth fuel g d memo of
        None \<Rightarrow> None
      | Some (depth0, memo1) \<Rightarrow>
          (let candidateDepth = depth0 + 1
           in depth_each fuel g ds (if candidateDepth > depth then candidateDepth else depth) memo1))"

definition commonAncestors :: "string list \<Rightarrow> graph \<Rightarrow> string list" where
  "commonAncestors dependencies g =
     fold (\<lambda>dependency common. filter (\<lambda>candidate. candidate \<in> set (ancestorNodeIDs dependency g)) common)
       (tl dependencies) (ancestorNodeIDs (hd dependencies) g)"

fun nearest_loop ::
  "nat \<Rightarrow> graph \<Rightarrow> string list \<Rightarrow> string \<Rightarrow> int \<Rightarrow> (string, int) gomap \<Rightarrow> string option" where
  "nearest_loop fuel g [] nearest nearestDepth memo = Some nearest"
| "nearest_loop fuel g (candidate # rest) nearest nearestDepth memo =
     (case nodeDepth fuel g candidate memo of
        None \<Rightarrow> None
      | Some (candidateDepth, memo1) \<Rightarrow>
          (if candidateDepth > nearestDepth \<or> (candidateDepth = nearestDepth \<and> candidate < nearest)
           then nearest_loop fuel g rest candidate candidateDepth memo1
           else nearest_loop fuel g rest nearest nearestDepth memo1))"

definition nearestCommonAncestor :: "string list \<Rightarrow> graph \<Rightarrow> string option" where
  "nearestCommonAncestor dependencies g =
     (if length dependencies = 0 then Some []
      else nearest_loop (graph_fuel g) g (commonAncestors dependencies g) [] (- 1) [])"

section \<open>Edges\<close>

definition edges :: "graph \<Rightarrow> (string \<times> string) set" where
  "edges g = {(n, d). d \<in> set (succs g n)}"

lemma edges_nodes: "(n, d) \<in> edges g \<Longrightarrow> n \<in> set (map fst g) \<and> n \<in> set (graph_nodes g) \<and> d \<in> set (graph_nodes g)"
proof -
  assume e: "(n, d) \<in> edges g"
  then obtain ds where m: "map_of g n = Some ds" "d \<in> set ds"
    by (cases "map_of g n") (auto simp: edges_def succs_def gm_get_or_def)
  then have "(n, ds) \<in> set g" by (metis map_of_SomeD)
  with m show ?thesis by (force simp: graph_nodes_def)
qed

lemma finite_edges: "finite (edges g)"
proof (rule finite_subset)
  show "edges g \<subseteq> set (graph_nodes g) \<times> set (graph_nodes g)" using edges_nodes by auto
qed simp

section \<open>The cycle search is correct\<close>

abbreviation color :: "(string, nat) gomap \<Rightarrow> string \<Rightarrow> nat" where
  "color \<equiv> gm_get_or 0"

definition gray :: "(string, nat) gomap \<Rightarrow> string set" where
  "gray st = {n. color st n = 1}"

definition black :: "(string, nat) gomap \<Rightarrow> string set" where
  "black st = {n. color st n = 2}"

text \<open>Finished nodes have only finished successors and lie on no cycle.\<close>

definition search_inv :: "graph \<Rightarrow> (string, nat) gomap \<Rightarrow> bool" where
  "search_inv g st \<longleftrightarrow>
     (\<forall>n \<in> black st. set (succs g n) \<subseteq> black st) \<and> acyclic {(n, d) \<in> edges g. n \<in> black st}"

lemma acyclic_insert_source:
  assumes "acyclic r" "\<And>y. (y, n) \<notin> r" "n \<notin> D"
  shows "acyclic (r \<union> {n} \<times> D)"
proof (rule acyclicI, rule allI, rule notI)
  have no_in: "(y, n) \<notin> r \<union> {n} \<times> D" for y using assms(2,3) by auto
  fix x assume cyc: "(x, x) \<in> (r \<union> {n} \<times> D)\<^sup>+"
  have step: "(a, b) \<in> (r \<union> {n} \<times> D)\<^sup>+ \<Longrightarrow> a \<noteq> n \<Longrightarrow> (a, b) \<in> r\<^sup>+ \<and> b \<noteq> n" for a b
  proof (induction rule: trancl_induct)
    case (base y)
    then show ?case using no_in by auto
  next
    case (step y z)
    then show ?case using no_in by (auto intro: trancl_into_trancl)
  qed
  have "x \<noteq> n" using cyc no_in by (metis tranclE)
  with step [OF cyc] assms(1) show False by (auto simp: acyclic_def)
qed

lemma search_inv_finish:
  assumes inv: "search_inv g st" and s: "set (succs g node) \<subseteq> black st" and gr: "node \<in> gray st"
  shows "search_inv g (gm_put node 2 st)" "black (gm_put node 2 st) = insert node (black st)"
proof -
  have nb: "node \<notin> black st" using gr by (simp add: gray_def black_def)
  show b: "black (gm_put node 2 st) = insert node (black st)"
    by (auto simp: black_def)
  let ?r = "{(n, d) \<in> edges g. n \<in> black st}"
  have in_black: "(y, d) \<in> ?r \<Longrightarrow> d \<in> black st" for y d
    using inv by (auto simp: search_inv_def edges_def)
  have eq: "{(n, d) \<in> edges g. n \<in> insert node (black st)} = ?r \<union> {node} \<times> set (succs g node)"
    by (auto simp: edges_def)
  have "acyclic (?r \<union> {node} \<times> set (succs g node))"
  proof (rule acyclic_insert_source)
    show "acyclic ?r" using inv by (simp add: search_inv_def)
    show "(y, node) \<notin> ?r" for y using in_black nb by blast
    show "node \<notin> set (succs g node)" using nb s by blast
  qed
  with inv s show "search_inv g (gm_put node 2 st)"
    unfolding search_inv_def b eq by blast
qed

lemma search_inv_gray:
  assumes "search_inv g st" "color st node \<noteq> 1" "color st node \<noteq> 2"
  shows "search_inv g (gm_put node 1 st)" "black (gm_put node 1 st) = black st"
    "gray (gm_put node 1 st) = insert node (gray st)"
proof -
  show b: "black (gm_put node 1 st) = black st" using assms(3) by (auto simp: black_def)
  show "gray (gm_put node 1 st) = insert node (gray st)" by (auto simp: gray_def)
  show "search_inv g (gm_put node 1 st)" using assms(1) unfolding search_inv_def b .
qed

lemma visit_correct:
  "visit fuel g node st = Some (found, st') \<Longrightarrow> search_inv g st \<Longrightarrow>
   \<forall>x \<in> gray st. (x, node) \<in> (edges g)\<^sup>+ \<Longrightarrow>
   if found then \<not> acyclic (edges g)
   else search_inv g st' \<and> gray st' = gray st \<and> black st \<subseteq> black st' \<and> node \<in> black st'"
  "visit_each fuel g ds st = Some (found, st') \<Longrightarrow> search_inv g st \<Longrightarrow>
   \<forall>x \<in> gray st. \<forall>d \<in> set ds. (x, d) \<in> (edges g)\<^sup>+ \<Longrightarrow>
   if found then \<not> acyclic (edges g)
   else search_inv g st' \<and> gray st' = gray st \<and> black st \<subseteq> black st' \<and> set ds \<subseteq> black st'"
proof (induction fuel g node st and fuel g ds st arbitrary: found st' and found st' rule: visit_visit_each.induct)
  case (2 fuel g node st)
  show ?case
  proof (cases "color st node = 1 \<or> color st node = 2")
    case True
    with 2 show ?thesis by (auto simp: gray_def black_def acyclic_def)
  next
    case False
    note g1 = search_inv_gray [OF 2(3)] and white = False
    obtain f st1 where e: "visit_each fuel g (succs g node) (gm_put node 1 st) = Some (f, st1)"
      using 2(2) False by (auto split: option.splits)
    have reach: "\<forall>x \<in> gray (gm_put node 1 st). \<forall>d \<in> set (succs g node). (x, d) \<in> (edges g)\<^sup>+"
      using 2(4) white g1(3) by (auto simp: edges_def intro: trancl_into_trancl r_into_trancl)
    from white have IH: "if f then \<not> acyclic (edges g)
      else search_inv g st1 \<and> gray st1 = insert node (gray st) \<and> black st \<subseteq> black st1 \<and> set (succs g node) \<subseteq> black st1"
      using 2(1) [OF _ _ e _ reach] g1 by auto
    show ?thesis
    proof (cases f)
      case True
      with 2(2) e white IH show ?thesis by auto
    next
      case False
      with 2(2) e white have res: "found = False" "st' = gm_put node 2 st1" by auto
      from False IH have st1: "search_inv g st1" "set (succs g node) \<subseteq> black st1" "node \<in> gray st1"
        "gray st1 = insert node (gray st)" "black st \<subseteq> black st1" by auto
      have "gray (gm_put node 2 st1) = gray st" using st1(4) white by (auto simp: gray_def)
      with search_inv_finish [OF st1(1-3)] st1(5) show ?thesis by (auto simp: res)
    qed
  qed
next
  case (4 fuel g d ds st)
  obtain f st1 where e: "visit fuel g d st = Some (f, st1)" using 4(3) by (auto split: option.splits)
  have IH: "if f then \<not> acyclic (edges g)
    else search_inv g st1 \<and> gray st1 = gray st \<and> black st \<subseteq> black st1 \<and> d \<in> black st1"
    using 4(1) [OF e 4(4)] 4(5) by simp
  show ?case
  proof (cases f)
    case True
    with 4(3) e IH show ?thesis by auto
  next
    case False
    with 4(3) e have "visit_each fuel g ds st1 = Some (found, st')" by simp
    moreover from False IH have st1: "search_inv g st1" "gray st1 = gray st" "black st \<subseteq> black st1" "d \<in> black st1" by auto
    moreover have "\<forall>x \<in> gray st1. \<forall>d \<in> set ds. (x, d) \<in> (edges g)\<^sup>+" using 4(5) st1(2) by simp
    ultimately have "if found then \<not> acyclic (edges g)
      else search_inv g st' \<and> gray st' = gray st1 \<and> black st1 \<subseteq> black st' \<and> set ds \<subseteq> black st'"
      using 4(2) [OF e refl False] by blast
    with st1 show ?thesis by (auto split: if_splits)
  qed
qed auto

text \<open>Colors are never taken back, and each visit of a fresh node uses one up.\<close>

definition colored :: "(string, nat) gomap \<Rightarrow> string set" where
  "colored st = {n. color st n = 1 \<or> color st n = 2}"

lemma visit_colored:
  "visit fuel g node st = Some (found, st') \<Longrightarrow> colored st \<subseteq> colored st'"
  "visit_each fuel g ds st = Some (found, st') \<Longrightarrow> colored st \<subseteq> colored st'"
proof (induction fuel g node st and fuel g ds st arbitrary: found st' and found st' rule: visit_visit_each.induct)
  case (2 fuel g node st)
  show ?case
  proof (cases "color st node = 1 \<or> color st node = 2")
    case True
    with 2 show ?thesis by auto
  next
    case False
    then obtain f st1 where e: "visit_each fuel g (succs g node) (gm_put node 1 st) = Some (f, st1)"
      using 2(2) by (auto split: option.splits)
    have "colored (gm_put node 1 st) \<subseteq> colored st1" using 2(1) [OF _ _ e] False by auto
    moreover have "colored st \<subseteq> colored (gm_put node 1 st)" "colored st1 \<subseteq> colored (gm_put node 2 st1)"
      by (auto simp: colored_def)
    ultimately show ?thesis using 2(2) e False by (auto split: if_splits)
  qed
next
  case (4 fuel g d ds st)
  obtain f st1 where e: "visit fuel g d st = Some (f, st1)" using 4(3) by (auto split: option.splits)
  with 4(1) [OF e] 4(2) [OF e refl] 4(3) show ?case by (cases f) auto
qed auto

lemma visit_total:
  "finite U \<Longrightarrow> \<forall>n \<in> U. set (succs g n) \<subseteq> U \<Longrightarrow> node \<in> U \<Longrightarrow> card (U - colored st) < fuel \<Longrightarrow>
   visit fuel g node st \<noteq> None"
  "finite U \<Longrightarrow> \<forall>n \<in> U. set (succs g n) \<subseteq> U \<Longrightarrow> set ds \<subseteq> U \<Longrightarrow> card (U - colored st) < fuel \<Longrightarrow>
   visit_each fuel g ds st \<noteq> None"
proof (induction fuel g node st and fuel g ds st rule: visit_visit_each.induct)
  case (2 fuel g node st)
  show ?case
  proof (cases "color st node = 1 \<or> color st node = 2")
    case False
    then have ps: "U - colored (gm_put node 1 st) \<subset> U - colored st"
      using 2(4) by (auto simp: colored_def)
    have "card (U - colored (gm_put node 1 st)) < fuel"
      using psubset_card_mono [OF finite_Diff [OF 2(2)] ps] 2(5) by simp
    moreover have "set (succs g node) \<subseteq> U" using 2(3,4) by blast
    ultimately have "visit_each fuel g (succs g node) (gm_put node 1 st) \<noteq> None"
      using 2(1) [OF _ _ 2(2,3)] False by auto
    then show ?thesis using False by auto
  qed auto
next
  case (4 fuel g d ds st)
  have "visit fuel g d st \<noteq> None" using 4(1) [OF 4(3,4) _ 4(6)] 4(5) by simp
  then obtain f st1 where e: "visit fuel g d st = Some (f, st1)" by auto
  have "card (U - colored st1) \<le> card (U - colored st)"
    using visit_colored(1) [OF e] 4(3) by (intro card_mono) auto
  then have "card (U - colored st1) < fuel" using 4(6) by simp
  with 4(2) [OF e refl _ 4(3,4)] 4(5) e show ?case by auto
qed auto

lemma cycle_search_total: "cycle_search g \<noteq> None"
  unfolding cycle_search_def
proof (rule visit_total(2))
  show "finite (set (graph_nodes g))" by simp
  show "\<forall>n \<in> set (graph_nodes g). set (succs g n) \<subseteq> set (graph_nodes g)" using succs_nodes by blast
  show "set (map fst g) \<subseteq> set (graph_nodes g)" by (force simp: graph_nodes_def)
  have "card (set (graph_nodes g) - colored []) \<le> card (set (graph_nodes g))" by (simp add: card_mono)
  also have "\<dots> \<le> length (graph_nodes g)" by (rule card_length)
  finally show "card (set (graph_nodes g) - colored []) < graph_fuel g" by (simp add: graph_fuel_def)
qed

lemma hasDependencyCycle_iff: "hasDependencyCycle g \<longleftrightarrow> \<not> acyclic (edges g)"
proof -
  obtain f st where e: "visit_each (graph_fuel g) g (map fst g) [] = Some (f, st)"
    using cycle_search_total [of g] by (auto simp: cycle_search_def)
  have inv: "search_inv g []" "gray [] = {}" by (simp_all add: search_inv_def gray_def black_def acyclic_def)
  from visit_correct(2) [OF e inv(1)] inv(2)
  have res: "if f then \<not> acyclic (edges g) else search_inv g st \<and> set (map fst g) \<subseteq> black st" by (auto split: if_splits)
  have "acyclic (edges g)" if "\<not> f"
  proof -
    have "edges g = {(n, d) \<in> edges g. n \<in> black st}" using res that edges_nodes by fastforce
    with res that show ?thesis unfolding search_inv_def by metis
  qed
  with res show ?thesis by (auto simp: hasDependencyCycle_def cycle_search_def e)
qed

section \<open>Ancestors are the reachable nodes\<close>

lemma ancestor_loop_spec:
  "(\<forall>a \<in> set anc. \<forall>d \<in> set (succs g a). d \<in> set anc \<union> set stack) \<Longrightarrow>
   set (ancestor_loop g stack anc) = set anc \<union> (edges g)\<^sup>* `` set stack"
proof (induction g stack anc rule: ancestor_loop.induct)
  case (1 g stack anc)
  show ?case
  proof (cases "stack = []")
    case True
    then show ?thesis by (simp add: ancestor_loop.simps [of g "[]"])
  next
    case False
    define cur where "cur = last stack"
    define st1 where "st1 = butlast stack"
    have st: "set stack = insert cur (set st1)"
      using False by (metis append_butlast_last_id cur_def st1_def list.simps(15) rotate1.simps(2) set_rotate1)
    show ?thesis
    proof (cases "cur \<in> set anc")
      case True
      have closed: "\<forall>a \<in> set anc. \<forall>d \<in> set (succs g a). d \<in> set anc \<union> set st1"
        using 1(3) True unfolding st by blast
      have anc_closed: "(edges g)\<^sup>* `` set anc \<subseteq> set anc \<union> (edges g)\<^sup>* `` set st1"
      proof clarify
        fix a x assume ax: "(a, x) \<in> (edges g)\<^sup>*" and rest: "a \<in> set anc" "x \<notin> (edges g)\<^sup>* `` set st1"
        from ax rest show "x \<in> set anc"
        proof (induction rule: converse_rtrancl_induct)
          case (step y z)
          then have "z \<in> set anc \<union> set st1" using closed by (auto simp: edges_def)
          with step show ?case by blast
        qed simp
      qed
      have "set (ancestor_loop g stack anc) = set anc \<union> (edges g)\<^sup>* `` set st1"
        using 1(1) [OF False cur_def st1_def] True closed False
        by (simp add: ancestor_loop.simps [of g stack] cur_def st1_def Let_def)
      then show ?thesis using True anc_closed unfolding st by blast
    next
      case new: False
      have closed: "\<forall>a \<in> set (cur # anc). \<forall>d \<in> set (succs g a). d \<in> set (cur # anc) \<union> set (st1 @ succs g cur)"
        using 1(3) unfolding st by auto
      have "set (ancestor_loop g stack anc) = set (cur # anc) \<union> (edges g)\<^sup>* `` set (st1 @ succs g cur)"
        using 1(2) [OF False cur_def st1_def] new closed False
        by (simp add: ancestor_loop.simps [of g stack] cur_def st1_def Let_def)
      moreover have "(edges g)\<^sup>* `` {cur} = insert cur ((edges g)\<^sup>* `` set (succs g cur))"
        by (auto simp: edges_def elim: converse_rtranclE intro: converse_rtrancl_into_rtrancl)
      ultimately show ?thesis unfolding st by auto
    qed
  qed
qed

lemma ancestors_iff: "m \<in> set (ancestorNodeIDs n g) \<longleftrightarrow> (n, m) \<in> (edges g)\<^sup>*"
  using ancestor_loop_spec [of "[]" g "[n]"] by (auto simp: ancestorNodeIDs_def)

lemma commonAncestors_iff:
  assumes "deps \<noteq> []"
  shows "m \<in> set (commonAncestors deps g) \<longleftrightarrow> (\<forall>d \<in> set deps. (d, m) \<in> (edges g)\<^sup>*)"
proof -
  have "m \<in> set (fold (\<lambda>d common. filter (\<lambda>c. c \<in> set (ancestorNodeIDs d g)) common) ds acc) \<longleftrightarrow>
      m \<in> set acc \<and> (\<forall>d \<in> set ds. (d, m) \<in> (edges g)\<^sup>*)" for ds acc
    by (induction ds arbitrary: acc) (auto simp: ancestors_iff)
  then show ?thesis using assms by (cases deps) (auto simp: commonAncestors_def ancestors_iff)
qed

section \<open>Depth\<close>

text \<open>The depth of a node is the length of its longest dependency path.\<close>

definition path_lengths :: "graph \<Rightarrow> string \<Rightarrow> nat set" where
  "path_lengths g n = {k. \<exists>m. (n, m) \<in> edges g ^^ k}"

definition depth :: "graph \<Rightarrow> string \<Rightarrow> int" where
  "depth g n = int (Max (path_lengths g n))"

definition descendants :: "graph \<Rightarrow> string \<Rightarrow> string set" where
  "descendants g n = {m. (n, m) \<in> (edges g)\<^sup>+}"

lemma descendants_nodes: "descendants g n \<subseteq> set (graph_nodes g)"
proof
  fix m assume "m \<in> descendants g n"
  then show "m \<in> set (graph_nodes g)"
    unfolding descendants_def by (auto dest!: tranclD2 edges_nodes)
qed

lemma finite_descendants [simp]: "finite (descendants g n)"
  by (rule finite_subset [OF descendants_nodes]) simp

lemma descendants_bound: "card (descendants g n) < graph_fuel g"
proof -
  have "card (descendants g n) \<le> card (set (graph_nodes g))" by (rule card_mono [OF _ descendants_nodes]) simp
  also have "\<dots> \<le> length (graph_nodes g)" by (rule card_length)
  finally show ?thesis by (simp add: graph_fuel_def)
qed

lemma descendants_less:
  assumes "acyclic (edges g)" "d \<in> set (succs g n)"
  shows "card (descendants g d) < card (descendants g n)"
proof (rule psubset_card_mono)
  have e: "(n, d) \<in> edges g" using assms(2) by (simp add: edges_def)
  show "descendants g d \<subset> descendants g n"
  proof
    show "descendants g d \<subseteq> descendants g n"
      using e by (auto simp: descendants_def intro: trancl_into_trancl2)
    have "d \<in> descendants g n" "d \<notin> descendants g d"
      using e assms(1) by (auto simp: descendants_def acyclic_def)
    then show "descendants g d \<noteq> descendants g n" by blast
  qed
qed simp

lemma path_length_bound:
  assumes "acyclic (edges g)"
  shows "(n, m) \<in> edges g ^^ k \<Longrightarrow> k \<le> card (descendants g n)"
proof (induction k arbitrary: n)
  case (Suc k)
  then obtain d where "(n, d) \<in> edges g" "(d, m) \<in> edges g ^^ k" by (meson relpow_Suc_D2)
  with Suc.IH descendants_less [OF assms, of d n] show ?case by (force simp: edges_def)
qed simp

lemma path_lengths_props:
  assumes "acyclic (edges g)"
  shows "finite (path_lengths g n)" "0 \<in> path_lengths g n"
    "path_lengths g n = insert 0 (\<Union>d \<in> set (succs g n). Suc ` path_lengths g d)"
proof -
  show "finite (path_lengths g n)"
    by (rule finite_subset [of _ "{..card (descendants g n)}"])
      (auto simp: path_lengths_def dest: path_length_bound [OF assms])
  show "0 \<in> path_lengths g n" by (auto simp: path_lengths_def)
  have "k \<in> path_lengths g n \<longleftrightarrow> k = 0 \<or> (\<exists>d \<in> set (succs g n). k \<in> Suc ` path_lengths g d)" for k
  proof (cases k)
    case (Suc j)
    have "k \<in> path_lengths g n \<longleftrightarrow> (\<exists>m d. (n, d) \<in> edges g \<and> (d, m) \<in> edges g ^^ j)"
      unfolding path_lengths_def Suc by (auto simp del: relpow.simps intro: relpow_Suc_I2 dest!: relpow_Suc_D2)
    then show ?thesis by (auto simp: Suc path_lengths_def edges_def)
  qed (auto simp: path_lengths_def)
  then show "path_lengths g n = insert 0 (\<Union>d \<in> set (succs g n). Suc ` path_lengths g d)" by auto
qed

lemma depth_nonneg [simp]: "0 \<le> depth g n"
  by (simp add: depth_def)

lemma depth_edge:
  assumes "acyclic (edges g)" "(n, d) \<in> edges g"
  shows "depth g d < depth g n"
proof -
  have "Max (path_lengths g d) \<in> path_lengths g d"
    using path_lengths_props [OF assms(1), of d] by (intro Max_in) auto
  then have "Suc (Max (path_lengths g d)) \<in> path_lengths g n"
    using assms(2) path_lengths_props(3) [OF assms(1), of n] by (auto simp: edges_def)
  then have "Suc (Max (path_lengths g d)) \<le> Max (path_lengths g n)"
    using path_lengths_props(1) [OF assms(1)] by (intro Max_ge)
  then show ?thesis by (simp add: depth_def)
qed

lemma depth_trancl: "(n, d) \<in> (edges g)\<^sup>+ \<Longrightarrow> acyclic (edges g) \<Longrightarrow> depth g d < depth g n"
  by (induction rule: trancl_induct) (auto dest: depth_edge)

definition max_depth :: "graph \<Rightarrow> string list \<Rightarrow> int \<Rightarrow> int" where
  "max_depth g ds k = fold (\<lambda>d k. if depth g d + 1 > k then depth g d + 1 else k) ds k"

lemma max_depth_props:
  "k \<le> max_depth g ds k" "d \<in> set ds \<Longrightarrow> depth g d + 1 \<le> max_depth g ds k"
  "max_depth g ds k = k \<or> (\<exists>d \<in> set ds. max_depth g ds k = depth g d + 1)"
proof -
  have "k \<le> max_depth g ds k \<and> (\<forall>d \<in> set ds. depth g d + 1 \<le> max_depth g ds k) \<and>
     (max_depth g ds k = k \<or> (\<exists>d \<in> set ds. max_depth g ds k = depth g d + 1))" for k
  proof (induction ds arbitrary: k)
    case (Cons a ds)
    let ?k = "if depth g a + 1 > k then depth g a + 1 else k"
    have "max_depth g (a # ds) k = max_depth g ds ?k" by (simp add: max_depth_def)
    with Cons.IH [of ?k] show ?case by (auto split: if_splits)
  qed (simp add: max_depth_def)
  then show "k \<le> max_depth g ds k" "d \<in> set ds \<Longrightarrow> depth g d + 1 \<le> max_depth g ds k"
    "max_depth g ds k = k \<or> (\<exists>d \<in> set ds. max_depth g ds k = depth g d + 1)" by blast+
qed

lemma depth_rec:
  assumes "acyclic (edges g)"
  shows "max_depth g (succs g n) 0 = depth g n"
proof (rule antisym)
  show "max_depth g (succs g n) 0 \<le> depth g n"
  proof (cases "max_depth g (succs g n) 0 = 0")
    case False
    then obtain d where d: "d \<in> set (succs g n)" "max_depth g (succs g n) 0 = depth g d + 1"
      using max_depth_props(3) [of g "succs g n" 0] by blast
    with depth_edge [OF assms, of n d] show ?thesis by (simp add: edges_def)
  qed simp
  have "Max (path_lengths g n) \<in> path_lengths g n"
    using path_lengths_props [OF assms, of n] by (intro Max_in) auto
  then consider "Max (path_lengths g n) = 0"
    | d k where "d \<in> set (succs g n)" "k \<in> path_lengths g d" "Max (path_lengths g n) = Suc k"
    using path_lengths_props(3) [OF assms, of n] by auto
  then show "depth g n \<le> max_depth g (succs g n) 0"
  proof cases
    case 1
    then show ?thesis using max_depth_props(1) by (simp add: depth_def)
  next
    case 2
    have "k \<le> Max (path_lengths g d)" using 2 path_lengths_props(1) [OF assms] by (intro Max_ge)
    then have "depth g n \<le> depth g d + 1" using 2 by (simp add: depth_def)
    with max_depth_props(2) [OF 2(1), of g 0] show ?thesis by simp
  qed
qed

definition memo_ok :: "graph \<Rightarrow> (string, int) gomap \<Rightarrow> bool" where
  "memo_ok g memo \<longleftrightarrow> (\<forall>n d. map_of memo n = Some d \<longrightarrow> d = depth g n)"

lemma nodeDepth_correct:
  "acyclic (edges g) \<Longrightarrow> memo_ok g memo \<Longrightarrow> card (descendants g n) < fuel \<Longrightarrow>
   \<exists>memo'. nodeDepth fuel g n memo = Some (depth g n, memo') \<and> memo_ok g memo'"
  "acyclic (edges g) \<Longrightarrow> memo_ok g memo \<Longrightarrow> \<forall>d \<in> set ds. card (descendants g d) < fuel \<Longrightarrow>
   \<exists>memo'. depth_each fuel g ds k memo = Some (max_depth g ds k, memo') \<and> memo_ok g memo'"
proof (induction fuel g n memo and fuel g ds k memo rule: nodeDepth_depth_each.induct)
  case (2 fuel g n memo)
  show ?case
  proof (cases "map_of memo n")
    case (Some d)
    with 2 show ?thesis by (auto simp: memo_ok_def)
  next
    case None
    have "\<forall>d \<in> set (succs g n). card (descendants g d) < fuel"
      using descendants_less [OF 2(2)] 2(4) by fastforce
    from 2(1) [OF None 2(2,3) this] obtain memo' where
      e: "depth_each fuel g (succs g n) 0 memo = Some (max_depth g (succs g n) 0, memo')" "memo_ok g memo'" by blast
    then show ?thesis using None depth_rec [OF 2(2), of n] by (auto simp: memo_ok_def)
  qed
next
  case (4 fuel g d ds k memo)
  obtain memo1 where e: "nodeDepth fuel g d memo = Some (depth g d, memo1)" "memo_ok g memo1"
    using 4(1) [OF 4(3,4)] 4(5) by auto
  from 4(2) [OF e(1) refl refl 4(3) e(2)] 4(5) obtain memo2 where
    "depth_each fuel g ds (if depth g d + 1 > k then depth g d + 1 else k) memo1
      = Some (max_depth g ds (if depth g d + 1 > k then depth g d + 1 else k), memo2)" "memo_ok g memo2" by auto
  with e show ?case by (simp add: max_depth_def Let_def)
qed (simp_all add: max_depth_def)

section \<open>The nearest common ancestor\<close>

definition nearer :: "graph \<Rightarrow> string \<Rightarrow> string \<Rightarrow> bool" where
  "nearer g a b \<longleftrightarrow> depth g a > depth g b \<or> (depth g a = depth g b \<and> a < b)"

interpretation nearest_order: comparator "nearer g" "\<lambda>c. (- depth g c, c)"
  by unfold_locales (auto simp: nearer_def)

lemma nearest_loop_fold:
  assumes "acyclic (edges g)" "memo_ok g memo"
  shows "nearest_loop (graph_fuel g) g cs (case best of None \<Rightarrow> [] | Some c \<Rightarrow> c)
      (case best of None \<Rightarrow> - 1 | Some c \<Rightarrow> depth g c) memo =
    Some (case fold (keep_least (nearer g)) cs best of None \<Rightarrow> [] | Some c \<Rightarrow> c)"
  using assms(2)
proof (induction cs arbitrary: best memo)
  case (Cons c cs)
  obtain memo1 where e: "nodeDepth (graph_fuel g) g c memo = Some (depth g c, memo1)" "memo_ok g memo1"
    using nodeDepth_correct(1) [OF assms(1) Cons.prems descendants_bound] by blast
  have gt: "depth g c > - 1" using depth_nonneg [of g c] by linarith
  show ?case
  proof (cases best)
    case None
    with e gt Cons.IH [OF e(2), of "Some c"] show ?thesis by simp
  next
    case (Some b)
    with e Cons.IH [OF e(2), of "Some c"] Cons.IH [OF e(2), of "Some b"] show ?thesis
      by (simp add: nearer_def)
  qed
qed simp

lemma nearestCommonAncestor_eq:
  assumes "acyclic (edges g)" "deps \<noteq> []"
  shows "nearestCommonAncestor deps g =
    Some (case fold (keep_least (nearer g)) (commonAncestors deps g) None of None \<Rightarrow> [] | Some c \<Rightarrow> c)"
  using nearest_loop_fold [OF assms(1), of "[]" "commonAncestors deps g" None] assms(2)
  by (simp add: nearestCommonAncestor_def memo_ok_def)

definition common_ancestor :: "graph \<Rightarrow> string list \<Rightarrow> string \<Rightarrow> bool" where
  "common_ancestor g deps c \<longleftrightarrow> (\<forall>d \<in> set deps. (d, c) \<in> (edges g)\<^sup>*)"

lemma nearestCommonAncestor_none:
  assumes "acyclic (edges g)" "deps \<noteq> []" "\<not> (\<exists>c. common_ancestor g deps c)"
  shows "nearestCommonAncestor deps g = Some []"
proof -
  have "commonAncestors deps g = []"
    using commonAncestors_iff [OF assms(2), of "hd (commonAncestors deps g)" g] assms(3) hd_in_set
    unfolding common_ancestor_def by blast
  then show ?thesis using nearestCommonAncestor_eq [OF assms(1,2)] by simp
qed

lemma nearestCommonAncestor_some:
  assumes "acyclic (edges g)" "deps \<noteq> []" "common_ancestor g deps c0"
  obtains r where "nearestCommonAncestor deps g = Some r" "common_ancestor g deps r"
    "\<And>c. common_ancestor g deps c \<Longrightarrow> (- depth g r, r) \<le> (- depth g c, c)"
proof -
  have mem: "c \<in> set (commonAncestors deps g) \<longleftrightarrow> common_ancestor g deps c" for c
    using commonAncestors_iff [OF assms(2), of c g] by (simp add: common_ancestor_def)
  then have "commonAncestors deps g \<noteq> []" using assms(3) by force
  then obtain a cs where Cons: "commonAncestors deps g = a # cs" by (meson neq_Nil_conv)
  obtain m where m: "fold (keep_least (nearer g)) cs (Some a) = Some m" "m \<in> insert a (set cs)"
    "\<forall>x \<in> insert a (set cs). (- depth g m, m) \<le> (- depth g x, x)"
    using nearest_order.fold_keep_least [of g cs a] by blast
  have "set (commonAncestors deps g) = insert a (set cs)" by (simp add: Cons)
  with m(2,3) mem have "common_ancestor g deps m"
    "\<And>c. common_ancestor g deps c \<Longrightarrow> (- depth g m, m) \<le> (- depth g c, c)" by blast+
  moreover have "nearestCommonAncestor deps g = Some m"
    using nearestCommonAncestor_eq [OF assms(1,2)] m(1) by (simp add: Cons)
  ultimately show thesis using that by blast
qed

section \<open>Depth search on cycles\<close>

lemma nearestCommonAncestor_total:
  assumes "acyclic (edges g)" "deps \<noteq> []"
  shows "\<exists>r. nearestCommonAncestor deps g = Some r"
  using nearestCommonAncestor_none [OF assms] nearestCommonAncestor_some [OF assms] by metis

lemma nearest_base:
  assumes "acyclic (edges g)" "deps \<noteq> []"
  obtains r where "nearestCommonAncestor deps g = Some r"
    "if \<exists>c. common_ancestor g deps c
     then common_ancestor g deps r \<and> (\<forall>c. common_ancestor g deps c \<longrightarrow> (c, r) \<notin> (edges g)\<^sup>+) else r = []"
proof (cases "\<exists>c. common_ancestor g deps c")
  case True
  then obtain r where r: "nearestCommonAncestor deps g = Some r" "common_ancestor g deps r"
    "\<And>c. common_ancestor g deps c \<Longrightarrow> (- depth g r, r) \<le> (- depth g c, c)"
    using nearestCommonAncestor_some [OF assms] by blast
  have "(c, r) \<notin> (edges g)\<^sup>+" if "common_ancestor g deps c" for c
    using depth_trancl [OF _ assms(1), of c r] r(3) [OF that] by auto
  with r(1,2) True that show ?thesis by auto
qed (use nearestCommonAncestor_none [OF assms] that in auto)

definition reaches_cycle :: "graph \<Rightarrow> string \<Rightarrow> bool" where
  "reaches_cycle g n \<longleftrightarrow> (\<exists>x. (n, x) \<in> (edges g)\<^sup>* \<and> (x, x) \<in> (edges g)\<^sup>+)"

lemma reaches_cycle_step: "reaches_cycle g n \<longleftrightarrow> (\<exists>d \<in> set (succs g n). reaches_cycle g d)"
proof
  assume "reaches_cycle g n"
  then obtain x where x: "(n, x) \<in> (edges g)\<^sup>*" "(x, x) \<in> (edges g)\<^sup>+" by (auto simp: reaches_cycle_def)
  then have "(n, x) \<in> (edges g)\<^sup>+" by (meson rtrancl_trancl_trancl)
  then obtain d where "(n, d) \<in> edges g" "(d, x) \<in> (edges g)\<^sup>*" by (meson tranclD)
  with x show "\<exists>d \<in> set (succs g n). reaches_cycle g d" by (auto simp: reaches_cycle_def edges_def)
next
  assume "\<exists>d \<in> set (succs g n). reaches_cycle g d"
  then show "reaches_cycle g n"
    unfolding reaches_cycle_def by (auto simp: edges_def intro: converse_rtrancl_into_rtrancl)
qed

lemma nodeDepth_diverges:
  "\<forall>m. reaches_cycle g m \<longrightarrow> map_of memo m = None \<Longrightarrow>
   (reaches_cycle g n \<longrightarrow> nodeDepth fuel g n memo = None) \<and>
   (\<forall>v memo'. nodeDepth fuel g n memo = Some (v, memo') \<longrightarrow> (\<forall>m. reaches_cycle g m \<longrightarrow> map_of memo' m = None))"
  "\<forall>m. reaches_cycle g m \<longrightarrow> map_of memo m = None \<Longrightarrow>
   ((\<exists>d \<in> set ds. reaches_cycle g d) \<longrightarrow> depth_each fuel g ds k memo = None) \<and>
   (\<forall>v memo'. depth_each fuel g ds k memo = Some (v, memo') \<longrightarrow> (\<forall>m. reaches_cycle g m \<longrightarrow> map_of memo' m = None))"
proof (induction fuel g n memo and fuel g ds k memo rule: nodeDepth_depth_each.induct)
  case (2 fuel g n memo)
  show ?case
  proof (cases "map_of memo n")
    case None
    note IH = 2(1) [OF None 2(2)]
    show ?thesis
    proof (cases "reaches_cycle g n")
      case True
      with IH None show ?thesis by (simp add: reaches_cycle_step [of g n, symmetric])
    next
      case False
      with IH None show ?thesis by (auto split: option.splits)
    qed
  qed (use 2 in auto)
next
  case (4 fuel g d ds k memo)
  note IH1 = 4(1) [OF 4(3)]
  show ?case
  proof (cases "nodeDepth fuel g d memo")
    case (Some p)
    obtain v memo1 where p: "p = (v, memo1)" by fastforce
    with IH1 Some have "\<not> reaches_cycle g d" "\<forall>m. reaches_cycle g m \<longrightarrow> map_of memo1 m = None" by auto
    with 4(2) [OF Some p [symmetric] refl] Some p show ?thesis by (simp add: Let_def)
  qed simp
qed simp_all

section \<open>Properties\<close>

text \<open>
  C37: The cycle search of pipeline validation is correct and total: it always ends, and it reports a
  cycle exactly when the dependency graph has one, whatever order the map is traversed in.
\<close>

theorem cycle_search_correct:
  "cycle_search g \<noteq> None \<and> (hasDependencyCycle g \<longleftrightarrow> (\<exists>x. (x, x) \<in> (edges g)\<^sup>+))"
  using cycle_search_total hasDependencyCycle_iff by (auto simp: acyclic_def)

text \<open>
  The nearest common ancestor of a fan-in. On an acyclic graph the search ends; if the
  dependencies have a common ancestor it returns one that all of them reach and that no other common
  ancestor lies below, the least name among the deepest; otherwise it returns the empty string.
\<close>

theorem nearest_common_ancestor_correct:
  assumes "acyclic (edges g)" and "deps \<noteq> []"
  shows "\<exists>r. nearestCommonAncestor deps g = Some r \<and>
    (if \<exists>c. common_ancestor g deps c
     then common_ancestor g deps r \<and>
          (\<forall>c. common_ancestor g deps c \<longrightarrow>
             (c, r) \<notin> (edges g)\<^sup>+ \<and> depth g c \<le> depth g r \<and> (depth g c = depth g r \<longrightarrow> r \<le> c))
     else r = [])"
proof (cases "\<exists>c. common_ancestor g deps c")
  case True
  then obtain r where r: "nearestCommonAncestor deps g = Some r" "common_ancestor g deps r"
    "\<And>c. common_ancestor g deps c \<Longrightarrow> (- depth g r, r) \<le> (- depth g c, c)"
    using nearestCommonAncestor_some [OF assms] by blast
  have "(c, r) \<notin> (edges g)\<^sup>+ \<and> depth g c \<le> depth g r \<and> (depth g c = depth g r \<longrightarrow> r \<le> c)"
    if "common_ancestor g deps c" for c
    using depth_trancl [OF _ assms(1), of c r] r(3) [OF that] by auto
  with r(1,2) True show ?thesis by auto
next
  case False
  with nearestCommonAncestor_none [OF assms] show ?thesis by simp
qed

theorem nearest_common_ancestor_correct_witness:
  "nearestCommonAncestor [''b'', ''c''] [(''b'', [''a'']), (''c'', [''a''])] = Some ''a''"
proof -
  let ?g = "[(''b'', [''a'']), (''c'', [''a''])] :: graph"
  have "\<not> hasDependencyCycle ?g" by code_simp
  then have ac: "acyclic (edges ?g)" by (simp add: hasDependencyCycle_iff)
  have e: "(n, m) \<in> edges ?g \<longleftrightarrow> (n = ''b'' \<or> n = ''c'') \<and> m = ''a''" for n m
    by (auto simp: edges_def succs_def gm_get_or_def)
  have rt: "(n, m) \<in> (edges ?g)\<^sup>* \<Longrightarrow> n = m \<or> m = ''a''" for n m
    by (induction rule: rtrancl_induct) (auto simp: e)
  have only: "common_ancestor ?g [''b'', ''c''] c \<longleftrightarrow> c = ''a''" for c
    using rt [of "''b''" c] rt [of "''c''" c] by (auto simp: common_ancestor_def e intro: r_into_rtrancl)
  from nearest_common_ancestor_correct [OF ac, of "[''b'', ''c'']"]
  show ?thesis unfolding only by auto
qed

text \<open>
  Why planning needs a validated graph. From a node that reaches a cycle the depth recursion
  never returns, however deep the stack; on an acyclic graph a stack one deeper than the graph
  has entries is enough, and the result is the length of the longest dependency path.
\<close>

theorem depth_search_terminates_iff_acyclic:
  "(reaches_cycle g n \<longrightarrow> (\<forall>fuel. nodeDepth fuel g n [] = None)) \<and>
   (acyclic (edges g) \<longrightarrow> (\<exists>memo. nodeDepth (graph_fuel g) g n [] = Some (depth g n, memo)))"
  using nodeDepth_diverges(1) [of g "[]" n] nodeDepth_correct(1) [of g "[]" n "graph_fuel g"] descendants_bound
  by (fastforce simp: memo_ok_def)

theorem depth_search_terminates_iff_acyclic_witness:
  "nodeDepth 100 [(''a'', [''b'']), (''b'', [''a''])] ''a'' [] = None \<and>
   nodeDepth (graph_fuel [(''a'', [''b''])]) [(''a'', [''b''])] ''a'' [] \<noteq> None"
proof -
  let ?g = "[(''a'', [''b'']), (''b'', [''a''])] :: graph" and ?h = "[(''a'', [''b''])] :: graph"
  have "(''a'', ''b'') \<in> edges ?g" "(''b'', ''a'') \<in> edges ?g"
    by (simp_all add: edges_def succs_def gm_get_or_def)
  then have "(''a'', ''a'') \<in> (edges ?g)\<^sup>+" by (meson trancl.simps)
  then have "reaches_cycle ?g ''a''" by (auto simp: reaches_cycle_def)
  moreover have "\<not> hasDependencyCycle ?h" by code_simp
  then have "acyclic (edges ?h)" by (simp add: hasDependencyCycle_iff)
  ultimately show ?thesis
    using depth_search_terminates_iff_acyclic [of ?g "''a''"] depth_search_terminates_iff_acyclic [of ?h "''a''"] by auto
qed

end
