(* ===== verification/Go_Paths.thy ===== *)
theory Go_Paths
  imports Prelude
begin

text \<open>
  The lexical path functions of Go's \<open>path\<close> and (on Unix) \<open>path/filepath\<close> that the code calls, and
  what a cleaned path says about where the original path leads.
\<close>

section \<open>Definitions\<close>

text \<open>
  \<open>path.Clean\<close>: the segments are pushed on a stack (top first); empty and \<open>.\<close> segments vanish, \<open>..\<close>
  removes the segment before it, is kept at the start of a relative path and vanishes at the root.
\<close>

fun clean_stack :: "bool \<Rightarrow> string list \<Rightarrow> string list \<Rightarrow> string list" where
  "clean_stack rooted [] stack = stack"
| "clean_stack rooted (s # ss) stack =
     (if s = [] \<or> s = ''.'' then clean_stack rooted ss stack
      else if s = ''..'' then
        (case stack of
           [] \<Rightarrow> clean_stack rooted ss (if rooted then [] else [''..''])
         | t # ts \<Rightarrow> (if t = ''..'' then clean_stack rooted ss (''..'' # stack) else clean_stack rooted ss ts))
      else clean_stack rooted ss (s # stack))"

definition path_IsAbs :: "string \<Rightarrow> bool" where
  "path_IsAbs p \<longleftrightarrow> HasPrefix p ''/''"

definition clean_segments :: "string \<Rightarrow> string list" where
  "clean_segments p = rev (clean_stack (path_IsAbs p) (SplitChar CHR ''/'' p) [])"

definition path_Clean :: "string \<Rightarrow> string" where
  "path_Clean p =
     (let joined = JoinChar CHR ''/'' (clean_segments p)
      in if path_IsAbs p then CHR ''/'' # joined else if joined = [] then ''.'' else joined)"

text \<open>\<open>path.Dir\<close>: everything up to the last slash, cleaned.\<close>

definition path_Dir :: "string \<Rightarrow> string" where
  "path_Dir p = path_Clean (rev (dropWhile (\<lambda>c. c \<noteq> CHR ''/'') (rev p)))"

definition path_Join2 :: "string \<Rightarrow> string \<Rightarrow> string" where
  "path_Join2 a b =
     (let elems = filter (\<lambda>e. e \<noteq> []) [a, b]
      in if elems = [] then [] else path_Clean (JoinChar CHR ''/'' elems))"

text \<open>\<open>strings.ReplaceAll(s, "\\", "/")\<close>.\<close>

definition slashes :: "string \<Rightarrow> string" where
  "slashes s = map (\<lambda>c. if c = CHR 0x5C then CHR ''/'' else c) s"

fun strip_common :: "string list \<Rightarrow> string list \<Rightarrow> string list \<times> string list" where
  "strip_common (b # bs) (t # ts) = (if b = t then strip_common bs ts else (b # bs, t # ts))"
| "strip_common bs ts = (bs, ts)"

text \<open>
  \<open>filepath.Rel\<close>; \<open>None\<close> is the error. A base of \<open>.\<close> counts as empty, a target of \<open>.\<close> does not. The
  search for \<open>..\<close> looks at the first differing base segment only.
\<close>

definition filepath_Rel :: "string \<Rightarrow> string \<Rightarrow> string option" where
  "filepath_Rel basepath targpath =
     (let base0 = path_Clean basepath; targ = path_Clean targpath
      in if targ = base0 then Some ''.''
         else (let base = (if base0 = ''.'' then [] else base0)
               in if path_IsAbs base \<noteq> path_IsAbs targ then None
                  else (let segs = (\<lambda>p. filter (\<lambda>s. s \<noteq> []) (SplitChar CHR ''/'' p));
                            (b, t) = strip_common (segs base) (segs targ)
                        in if b \<noteq> [] \<and> t \<noteq> [] \<and> hd b = ''..'' then None
                           else Some (JoinChar CHR ''/'' (map (\<lambda>_. ''..'') b @ t)))))"

section \<open>Where a path leads\<close>

text \<open>
  Walking the segments of a relative path from a directory, counting how deep below the start we
  are; the walk fails when it would leave the start directory.
\<close>

fun walk :: "nat \<Rightarrow> string list \<Rightarrow> nat option" where
  "walk d [] = Some d"
| "walk d (s # ss) =
     (if s = [] \<or> s = ''.'' then walk d ss
      else if s = ''..'' then (case d of 0 \<Rightarrow> None | Suc d' \<Rightarrow> walk d' ss)
      else walk (Suc d) ss)"

definition stays_inside :: "string \<Rightarrow> bool" where
  "stays_inside p \<longleftrightarrow> \<not> path_IsAbs p \<and> walk 0 (SplitChar CHR ''/'' p) \<noteq> None"

lemma clean_stack_dots:
  "last stack = ''..'' \<Longrightarrow> stack \<noteq> [] \<Longrightarrow>
   clean_stack False ss stack \<noteq> [] \<and> last (clean_stack False ss stack) = ''..''"
proof (induction ss arbitrary: stack)
  case (Cons s ss)
  obtain t ts where st: "stack = t # ts" using Cons.prems(2) by (cases stack) auto
  show ?case
  proof (cases "s = ''..''")
    case True
    show ?thesis
    proof (cases "t = ''..''")
      case True
      with \<open>s = ''..''\<close> show ?thesis using Cons.IH [of "''..'' # stack"] Cons.prems by (simp add: st)
    next
      case False
      then have "ts \<noteq> []" "last ts = ''..''" using Cons.prems by (auto simp: st split: if_splits)
      with \<open>s = ''..''\<close> False show ?thesis using Cons.IH [of ts] by (simp add: st)
    qed
  next
    case False
    then show ?thesis using Cons.IH [of stack] Cons.IH [of "s # stack"] Cons.prems by auto
  qed
qed simp

lemma clean_stack_skip: "s = [] \<or> s = ''.'' \<Longrightarrow> clean_stack r (s # ss) stack = clean_stack r ss stack"
  by (simp only: clean_stack.simps if_True)

lemma clean_stack_push:
  "s \<noteq> [] \<Longrightarrow> s \<noteq> ''.'' \<Longrightarrow> s \<noteq> ''..'' \<Longrightarrow> clean_stack r (s # ss) stack = clean_stack r ss (s # stack)"
  by (simp only: clean_stack.simps if_False simp_thms)

lemma clean_stack_walk:
  "''..'' \<notin> set stack \<Longrightarrow>
   (walk (length stack) ss = None \<longrightarrow>
      clean_stack False ss stack \<noteq> [] \<and> last (clean_stack False ss stack) = ''..'') \<and>
   (walk (length stack) ss \<noteq> None \<longrightarrow> ''..'' \<notin> set (clean_stack False ss stack))"
proof (induction ss arbitrary: stack)
  case (Cons s ss)
  note IH = Cons.IH and ok = Cons.prems
  consider (skip) "s = [] \<or> s = ''.''" | (up) "s = ''..''" | (push) "s \<noteq> []" "s \<noteq> ''.''" "s \<noteq> ''..''" by blast
  then show ?case
  proof cases
    case skip
    then have "walk (length stack) (s # ss) = walk (length stack) ss" by (simp only: walk.simps if_True)
    with Cons show ?thesis by (simp only: clean_stack_skip [OF skip])
  next
    case up
    show ?thesis
    proof (cases stack)
      case Nil
      with up show ?thesis using clean_stack_dots [of "[''..'']" ss] by simp
    next
      case (Cons t ts)
      with ok have "t \<noteq> ''..''" "''..'' \<notin> set ts" by auto
      with up Cons IH [of ts] show ?thesis by simp
    qed
  next
    case push
    then have "walk (length stack) (s # ss) = walk (length (s # stack)) ss" by simp
    with Cons.IH [of "s # stack"] Cons.prems push(3) show ?thesis by (simp only: clean_stack_push [OF push]) auto
  qed
qed simp

lemma clean_stack_elems:
  "x \<in> set (clean_stack r ss stack) \<Longrightarrow> x \<in> set stack \<or> x = ''..'' \<or> (x \<in> set ss \<and> x \<noteq> [])"
proof (induction ss arbitrary: stack)
  case (Cons s ss)
  consider (skip) "s = [] \<or> s = ''.''" | (up) "s = ''..''" | (push) "s \<noteq> []" "s \<noteq> ''.''" "s \<noteq> ''..''" by blast
  then show ?case
  proof cases
    case skip
    from Cons.IH [of stack] Cons.prems show ?thesis unfolding clean_stack_skip [OF skip] by auto
  next
    case up
    show ?thesis
    proof (cases stack)
      case Nil
      with up Cons.IH [of "if r then [] else [''..'']"] Cons.prems show ?thesis by (cases r) auto
    next
      case (Cons t ts)
      with up Cons.IH [of ts] Cons.IH [of "''..'' # stack"] Cons.prems show ?thesis
        by (cases "t = ''..''") auto
    qed
  next
    case push
    from Cons.IH [of "s # stack"] Cons.prems push(1) show ?thesis unfolding clean_stack_push [OF push] by auto
  qed
qed simp

lemma clean_stack_no_slash:
  assumes "\<forall>s \<in> set ss. CHR ''/'' \<notin> set s" "x \<in> set (clean_stack r ss [])"
  shows "CHR ''/'' \<notin> set x"
  using clean_stack_elems [OF assms(2)] assms(1) by auto

lemma clean_stack_nonempty: "[] \<notin> set (clean_stack r ss [])"
  using clean_stack_elems [of "[]" r ss "[]"] by auto

lemma JoinChar_hd_segment:
  "ss \<noteq> [] \<Longrightarrow> hd ss = ''..'' \<longleftrightarrow> JoinChar CHR ''/'' ss = ''..'' \<or> HasPrefix (JoinChar CHR ''/'' ss) ''../''"
  if "\<forall>s \<in> set ss. CHR ''/'' \<notin> set s"
proof -
  assume ne: "ss \<noteq> []"
  then obtain s rest where ss: "ss = s # rest" by (cases ss) auto
  have no: "CHR ''/'' \<notin> set s" using that ss by simp
  show ?thesis
  proof (cases rest)
    case Nil
    have "\<not> HasPrefix s ''../''"
    proof
      assume "HasPrefix s ''../''"
      then have "take 3 s = ''../''" by (simp add: HasPrefix_def numeral_3_eq_3)
      then have "CHR ''/'' \<in> set (take 3 s)" by simp
      then show False using no by (meson in_set_takeD)
    qed
    then show ?thesis by (simp add: ss Nil)
  next
    case (Cons t ts)
    have "HasPrefix (s @ CHR ''/'' # JoinChar CHR ''/'' (t # ts)) ''../'' \<longleftrightarrow> s = ''..''"
    proof
      assume "HasPrefix (s @ CHR ''/'' # JoinChar CHR ''/'' (t # ts)) ''../''"
      then have p: "take 3 (s @ CHR ''/'' # JoinChar CHR ''/'' (t # ts)) = ''../''"
        by (simp add: HasPrefix_def numeral_3_eq_3)
      show "s = ''..''"
        using p no by (cases s; cases "tl s"; cases "tl (tl s)") (auto simp: numeral_3_eq_3)
    qed (simp add: HasPrefix_def)
    moreover have "s @ CHR ''/'' # JoinChar CHR ''/'' (t # ts) \<noteq> ''..''"
    proof
      assume "s @ CHR ''/'' # JoinChar CHR ''/'' (t # ts) = ''..''"
      then have "CHR ''/'' \<in> set ''..''" by (metis in_set_conv_decomp)
      then show False by simp
    qed
    ultimately show ?thesis by (simp add: ss Cons)
  qed
qed

lemma JoinChar_empty: "[] \<notin> set ss \<Longrightarrow> JoinChar c ss = [] \<longleftrightarrow> ss = []"
  by (cases "(c, ss)" rule: JoinChar.cases) auto

lemma JoinChar_relative:
  assumes "\<forall>s \<in> set ss. CHR ''/'' \<notin> set s" and "[] \<notin> set ss"
  shows "\<not> HasPrefix (JoinChar CHR ''/'' ss) ''/''"
proof (cases ss)
  case (Cons w ws)
  with assms obtain x w' where "w = x # w'" "x \<noteq> CHR ''/''" by (cases w) auto
  with Cons show ?thesis by (cases ws) (auto simp: HasPrefix_def)
qed (simp add: HasPrefix_def)

text \<open>
  The test the code applies to a cleaned path (relative, not \<open>..\<close>, no leading \<open>../\<close>) accepts exactly
  the paths that never leave the directory they start from.
\<close>

lemma clean_stays_inside:
  "stays_inside p \<longleftrightarrow>
     \<not> path_IsAbs (path_Clean p) \<and> path_Clean p \<noteq> ''..'' \<and> \<not> HasPrefix (path_Clean p) ''../''"
proof (cases "path_IsAbs p")
  case True
  then show ?thesis by (simp add: stays_inside_def path_Clean_def path_IsAbs_def HasPrefix_def Let_def)
next
  case False
  let ?segs = "SplitChar CHR ''/'' p"
  let ?c = "clean_stack False ?segs []"
  have no: "\<forall>s \<in> set (rev ?c). CHR ''/'' \<notin> set s"
    using clean_stack_no_slash [of ?segs _ False] SplitChar_no_sep by auto
  have ne: "[] \<notin> set ?c" by (rule clean_stack_nonempty)
  have cl: "path_Clean p = (if ?c = [] then ''.'' else JoinChar CHR ''/'' (rev ?c))"
  proof -
    have "JoinChar CHR ''/'' (rev ?c) = [] \<longleftrightarrow> ?c = []"
      using ne JoinChar_empty [of "rev ?c"] by auto
    then show ?thesis by (simp add: path_Clean_def clean_segments_def False Let_def)
  qed
  have rel: "\<not> path_IsAbs (path_Clean p)"
    using JoinChar_relative [OF no] ne by (auto simp: cl path_IsAbs_def HasPrefix_def)
  have dots: "path_Clean p = ''..'' \<or> HasPrefix (path_Clean p) ''../'' \<longleftrightarrow> ?c \<noteq> [] \<and> last ?c = ''..''"
  proof (cases "?c = []")
    case True
    then show ?thesis by (simp add: cl HasPrefix_def)
  next
    case c: False
    with JoinChar_hd_segment [OF no] show ?thesis by (simp add: cl hd_rev)
  qed
  have "walk 0 ?segs = None \<longleftrightarrow> ?c \<noteq> [] \<and> last ?c = ''..''"
  proof (cases "walk 0 ?segs")
    case (Some d)
    then have "''..'' \<notin> set ?c" using clean_stack_walk [of "[]" ?segs] by simp
    then have "\<not> (?c \<noteq> [] \<and> last ?c = ''..'')" 
      by (rule contrapos_nn) (elim conjE, erule subst, rule last_in_set)
    with Some show ?thesis by simp
  qed (use clean_stack_walk [of "[]" ?segs] in simp)
  with rel dots False show ?thesis by (auto simp: stays_inside_def)
qed

end
