(* ===== verification/Lifecycle.thy ===== *)
theory Lifecycle
  imports Prelude
begin

text \<open>
  The lifecycle rules every component obeys: the status enumerations of
  \<open>domain/build.go\<close>, \<open>domain/build_step.go\<close> and \<open>domain/execution_job.go\<close>, the transition
  predicates of \<open>domain/lifecycle.go\<close>, the completion and advancement decisions of
  \<open>repository/completion_decision.go\<close> and the priorities of \<open>domain/priority.go\<close>.

  The locale \<open>lifecycle\<close> states what a lifecycle promises its users (terminal states are
  final, other states can move on, a rank grows along every transition) and derives what
  follows for whole runs. It is interpreted on the build, step and job transition rules.
\<close>

section \<open>Status enumerations\<close>

datatype BuildStatus =
  BuildStatusPending | BuildStatusQueued | BuildStatusPreparing | BuildStatusRunning
| BuildStatusSuccess | BuildStatusFailed | BuildStatusCanceled

datatype BuildStepStatus =
  BuildStepStatusPending | BuildStepStatusRunning | BuildStepStatusSuccess
| BuildStepStatusFailed | BuildStepStatusCanceled

datatype ExecutionJobStatus =
  ExecutionJobStatusQueued | ExecutionJobStatusRunning | ExecutionJobStatusSuccess
| ExecutionJobStatusFailed | ExecutionJobStatusCanceled

datatype ExecutionFailureKind =
  ExecutionFailureKindExecution | ExecutionFailureKindTimeout | ExecutionFailureKindWorkspace

text \<open>The wire form of a build status, the string constants of \<open>domain/build.go\<close>.\<close>

fun BuildStatus_string :: "BuildStatus \<Rightarrow> string" where
  "BuildStatus_string BuildStatusPending = ''pending''"
| "BuildStatus_string BuildStatusQueued = ''queued''"
| "BuildStatus_string BuildStatusPreparing = ''preparing''"
| "BuildStatus_string BuildStatusRunning = ''running''"
| "BuildStatus_string BuildStatusSuccess = ''success''"
| "BuildStatus_string BuildStatusFailed = ''failed''"
| "BuildStatus_string BuildStatusCanceled = ''canceled''"

section \<open>Transition predicates\<close>

definition IsTerminalBuildStatus :: "BuildStatus \<Rightarrow> bool" where
  "IsTerminalBuildStatus status \<longleftrightarrow>
     status = BuildStatusSuccess \<or> status = BuildStatusFailed \<or> status = BuildStatusCanceled"

definition IsTerminalStepStatus :: "BuildStepStatus \<Rightarrow> bool" where
  "IsTerminalStepStatus status \<longleftrightarrow>
     status = BuildStepStatusSuccess \<or> status = BuildStepStatusFailed \<or> status = BuildStepStatusCanceled"

definition IsTerminalExecutionJobStatus :: "ExecutionJobStatus \<Rightarrow> bool" where
  "IsTerminalExecutionJobStatus status \<longleftrightarrow>
     status = ExecutionJobStatusSuccess \<or> status = ExecutionJobStatusFailed \<or>
     status = ExecutionJobStatusCanceled"

definition CanCancelBuild :: "BuildStatus \<Rightarrow> bool" where
  "CanCancelBuild status \<longleftrightarrow>
     status = BuildStatusQueued \<or> status = BuildStatusPreparing \<or> status = BuildStatusRunning"

fun CanTransitionBuild :: "BuildStatus \<Rightarrow> BuildStatus \<Rightarrow> bool" where
  "CanTransitionBuild BuildStatusPending tgt = (tgt = BuildStatusQueued)"
| "CanTransitionBuild BuildStatusQueued tgt = (tgt = BuildStatusPreparing \<or> tgt = BuildStatusCanceled)"
| "CanTransitionBuild BuildStatusPreparing tgt =
     (tgt = BuildStatusRunning \<or> tgt = BuildStatusFailed \<or> tgt = BuildStatusCanceled)"
| "CanTransitionBuild BuildStatusRunning tgt =
     (tgt = BuildStatusSuccess \<or> tgt = BuildStatusFailed \<or> tgt = BuildStatusCanceled)"
| "CanTransitionBuild _ tgt = False"

fun CanTransitionStep :: "BuildStepStatus \<Rightarrow> BuildStepStatus \<Rightarrow> bool" where
  "CanTransitionStep BuildStepStatusPending tgt = (tgt = BuildStepStatusRunning)"
| "CanTransitionStep BuildStepStatusRunning tgt =
     (tgt = BuildStepStatusSuccess \<or> tgt = BuildStepStatusFailed)"
| "CanTransitionStep _ tgt = False"

definition CanCancelStep :: "BuildStepStatus \<Rightarrow> bool" where
  "CanCancelStep src \<longleftrightarrow> src = BuildStepStatusPending \<or> src = BuildStepStatusRunning"

definition CanCancelExecutionJob :: "ExecutionJobStatus \<Rightarrow> bool" where
  "CanCancelExecutionJob src \<longleftrightarrow>
     src = ExecutionJobStatusQueued \<or> src = ExecutionJobStatusRunning"

lemmas lifecycle_defs [status_simps] =
  IsTerminalBuildStatus_def IsTerminalStepStatus_def IsTerminalExecutionJobStatus_def
  CanCancelBuild_def CanCancelStep_def CanCancelExecutionJob_def

lemma terminal_simps [simp]:
  "\<not> IsTerminalBuildStatus BuildStatusPending" "\<not> IsTerminalBuildStatus BuildStatusQueued"
  "\<not> IsTerminalBuildStatus BuildStatusPreparing" "\<not> IsTerminalBuildStatus BuildStatusRunning"
  "IsTerminalBuildStatus BuildStatusSuccess" "IsTerminalBuildStatus BuildStatusFailed"
  "IsTerminalBuildStatus BuildStatusCanceled"
  "\<not> IsTerminalStepStatus BuildStepStatusPending" "\<not> IsTerminalStepStatus BuildStepStatusRunning"
  "IsTerminalStepStatus BuildStepStatusSuccess" "IsTerminalStepStatus BuildStepStatusFailed"
  "IsTerminalStepStatus BuildStepStatusCanceled"
  "\<not> IsTerminalExecutionJobStatus ExecutionJobStatusQueued"
  "\<not> IsTerminalExecutionJobStatus ExecutionJobStatusRunning"
  "IsTerminalExecutionJobStatus ExecutionJobStatusSuccess"
  "IsTerminalExecutionJobStatus ExecutionJobStatusFailed"
  "IsTerminalExecutionJobStatus ExecutionJobStatusCanceled"
  by (simp_all add: status_simps)

section \<open>Priorities and page parameters\<close>

definition MinPriority :: int where "MinPriority = 1"
definition MaxPriority :: int where "MaxPriority = 10"
definition DefaultPriority :: int where "DefaultPriority = 5"

definition NormalizePriority :: "int \<Rightarrow> int" where
  "NormalizePriority p = (if p = 0 then DefaultPriority else p)"

definition ValidPriority :: "int \<Rightarrow> bool" where
  "ValidPriority p \<longleftrightarrow> p \<ge> MinPriority \<and> p \<le> MaxPriority"

lemma NormalizePriority_valid: "p = 0 \<or> ValidPriority p \<Longrightarrow> ValidPriority (NormalizePriority p)"
  by (auto simp: NormalizePriority_def ValidPriority_def DefaultPriority_def MinPriority_def MaxPriority_def)

section \<open>Completion decisions\<close>

datatype StepCompletionOutcome =
  StepCompletionCompleted | StepCompletionDuplicateTerminal
| StepCompletionStaleClaim | StepCompletionInvalidTransition

record StepCompletionDecision =
  scd_Outcome :: StepCompletionOutcome
  scd_AllowUpdate :: bool

record BuildAdvancementDecision =
  bad_FailBuild :: bool
  bad_SucceedBuild :: bool
  bad_AdvanceCurrentStepIndex :: bool
  bad_NextStepIndex :: int

definition DecideStepCompletion ::
  "BuildStepStatus \<Rightarrow> BuildStepStatus \<Rightarrow> bool \<Rightarrow> bool \<Rightarrow> StepCompletionDecision" where
  "DecideStepCompletion currentStatus targetStatus claimRequired claimMatches =
     (if \<not> CanTransitionStep BuildStepStatusRunning targetStatus
      then \<lparr>scd_Outcome = StepCompletionInvalidTransition, scd_AllowUpdate = False\<rparr>
      else if currentStatus \<noteq> BuildStepStatusRunning
      then (if IsTerminalStepStatus currentStatus
            then \<lparr>scd_Outcome = StepCompletionDuplicateTerminal, scd_AllowUpdate = False\<rparr>
            else \<lparr>scd_Outcome = StepCompletionInvalidTransition, scd_AllowUpdate = False\<rparr>)
      else if claimRequired \<and> \<not> claimMatches
      then \<lparr>scd_Outcome = StepCompletionStaleClaim, scd_AllowUpdate = False\<rparr>
      else \<lparr>scd_Outcome = StepCompletionCompleted, scd_AllowUpdate = True\<rparr>)"

definition ClassifyCompletionConflict :: "BuildStepStatus \<Rightarrow> bool \<Rightarrow> StepCompletionOutcome" where
  "ClassifyCompletionConflict currentStatus claimRequired =
     (if IsTerminalStepStatus currentStatus then StepCompletionDuplicateTerminal
      else if claimRequired \<and> currentStatus = BuildStepStatusRunning then StepCompletionStaleClaim
      else StepCompletionInvalidTransition)"

definition DecideBuildAdvancement :: "BuildStepStatus \<Rightarrow> int \<Rightarrow> bool \<Rightarrow> BuildAdvancementDecision" where
  "DecideBuildAdvancement completedStepStatus completedStepIndex hasNext =
     (let nxt = wrap64 (completedStepIndex + 1);
          none = \<lparr>bad_FailBuild = False, bad_SucceedBuild = False,
                  bad_AdvanceCurrentStepIndex = False, bad_NextStepIndex = 0\<rparr>
      in if completedStepStatus = BuildStepStatusFailed then none\<lparr>bad_FailBuild := True\<rparr>
         else if completedStepStatus = BuildStepStatusSuccess then
           (if hasNext then none\<lparr>bad_AdvanceCurrentStepIndex := True, bad_NextStepIndex := nxt\<rparr>
            else none\<lparr>bad_SucceedBuild := True, bad_NextStepIndex := nxt\<rparr>)
         else none)"

lemma DecideStepCompletion_allow:
  "scd_AllowUpdate (DecideStepCompletion cur tgt req ok) \<longleftrightarrow>
     cur = BuildStepStatusRunning \<and> CanTransitionStep cur tgt \<and> (req \<longrightarrow> ok)"
  by (auto simp: DecideStepCompletion_def)

lemma DecideStepCompletion_completed:
  "scd_Outcome (DecideStepCompletion cur tgt req ok) = StepCompletionCompleted \<longleftrightarrow>
     scd_AllowUpdate (DecideStepCompletion cur tgt req ok)"
  by (auto simp: DecideStepCompletion_def)

section \<open>What a lifecycle promises\<close>

locale lifecycle =
  fixes allowed :: "'s \<Rightarrow> 's \<Rightarrow> bool"
    and terminal :: "'s \<Rightarrow> bool"
    and rank :: "'s \<Rightarrow> nat"
    and height :: nat
  assumes terminal_final: "terminal s \<Longrightarrow> \<not> allowed s t"
    and live: "\<not> terminal s \<Longrightarrow> \<exists>t. allowed s t"
    and rank_less: "allowed s t \<Longrightarrow> rank s < rank t"
    and rank_height: "rank s \<le> height"
begin

lemma reach_rank: "allowed\<^sup>*\<^sup>* s t \<Longrightarrow> s = t \<or> rank s < rank t"
  by (induction rule: rtranclp_induct) (auto dest: rank_less)

lemma terminal_absorbing: "terminal s \<Longrightarrow> allowed\<^sup>*\<^sup>* s t \<Longrightarrow> t = s"
  by (metis converse_rtranclpE terminal_final)

lemma no_return: "allowed s t \<Longrightarrow> \<not> allowed\<^sup>*\<^sup>* t s"
  using reach_rank rank_less by fastforce

lemma reaches_terminal: "\<exists>t. allowed\<^sup>*\<^sup>* s t \<and> terminal t"
proof (induction "height - rank s" arbitrary: s rule: less_induct)
  case less
  show ?case
  proof (cases "terminal s")
    case True
    then show ?thesis by blast
  next
    case False
    then obtain u where u: "allowed s u" using live by blast
    have "height - rank u < height - rank s"
      using rank_less [OF u] rank_height [of u] by linarith
    then obtain t where "allowed\<^sup>*\<^sup>* u t" "terminal t" using less by blast
    with u show ?thesis by (meson converse_rtranclp_into_rtranclp)
  qed
qed

lemma run_rank: "successively allowed (s # xs) \<Longrightarrow> rank s + length xs \<le> height"
proof (induction xs arbitrary: s)
  case Nil
  then show ?case by (simp add: rank_height)
next
  case (Cons t xs)
  then have "rank s < rank t" "rank t + length xs \<le> height"
    by (auto intro: rank_less)
  then show ?case by simp
qed

lemma run_length: "successively allowed xs \<Longrightarrow> length xs \<le> Suc height"
  using run_rank by (cases xs) fastforce+

end

fun build_rank :: "BuildStatus \<Rightarrow> nat" where
  "build_rank BuildStatusPending = 0"
| "build_rank BuildStatusQueued = 1"
| "build_rank BuildStatusPreparing = 2"
| "build_rank BuildStatusRunning = 3"
| "build_rank _ = 4"

fun step_rank :: "BuildStepStatus \<Rightarrow> nat" where
  "step_rank BuildStepStatusPending = 0"
| "step_rank BuildStepStatusRunning = 1"
| "step_rank _ = 2"

text \<open>
  All moves of a step: the completion transitions, and the cancellation that
  \<open>CanCancelStep\<close> allows as a bulk operation.
\<close>

definition step_move :: "BuildStepStatus \<Rightarrow> BuildStepStatus \<Rightarrow> bool" where
  "step_move src tgt \<longleftrightarrow>
     CanTransitionStep src tgt \<or> (CanCancelStep src \<and> tgt = BuildStepStatusCanceled)"

text \<open>
  The moves of a durable execution job that \<open>execution_job_repository.go\<close> performs: a claim
  of a queued job, a completion of a running one, a cancellation of either.
\<close>

fun job_move :: "ExecutionJobStatus \<Rightarrow> ExecutionJobStatus \<Rightarrow> bool" where
  "job_move ExecutionJobStatusQueued tgt =
     (tgt = ExecutionJobStatusRunning \<or> tgt = ExecutionJobStatusCanceled)"
| "job_move ExecutionJobStatusRunning tgt =
     (tgt = ExecutionJobStatusSuccess \<or> tgt = ExecutionJobStatusFailed \<or> tgt = ExecutionJobStatusCanceled)"
| "job_move _ tgt = False"

fun job_rank :: "ExecutionJobStatus \<Rightarrow> nat" where
  "job_rank ExecutionJobStatusQueued = 0"
| "job_rank ExecutionJobStatusRunning = 1"
| "job_rank _ = 2"

interpretation build_lifecycle: lifecycle CanTransitionBuild IsTerminalBuildStatus build_rank 4
proof unfold_locales
  fix s t
  show "IsTerminalBuildStatus s \<Longrightarrow> \<not> CanTransitionBuild s t" by (cases s) (auto simp: status_simps)
  show "\<not> IsTerminalBuildStatus s \<Longrightarrow> \<exists>t. CanTransitionBuild s t" by (cases s) (auto simp: status_simps)
  show "CanTransitionBuild s t \<Longrightarrow> build_rank s < build_rank t" by (cases s) auto
  show "build_rank s \<le> 4" by (cases s) auto
qed

interpretation step_lifecycle: lifecycle step_move IsTerminalStepStatus step_rank 2
proof unfold_locales
  fix s t
  show "IsTerminalStepStatus s \<Longrightarrow> \<not> step_move s t" by (cases s) (auto simp: status_simps step_move_def)
  show "\<not> IsTerminalStepStatus s \<Longrightarrow> \<exists>t. step_move s t" by (cases s) (auto simp: status_simps step_move_def)
  show "step_move s t \<Longrightarrow> step_rank s < step_rank t"
    by (cases s) (auto simp: status_simps step_move_def)
  show "step_rank s \<le> 2" by (cases s) auto
qed

interpretation job_lifecycle: lifecycle job_move IsTerminalExecutionJobStatus job_rank 2
proof unfold_locales
  fix s t
  show "IsTerminalExecutionJobStatus s \<Longrightarrow> \<not> job_move s t" by (cases s) (auto simp: status_simps)
  show "\<not> IsTerminalExecutionJobStatus s \<Longrightarrow> \<exists>t. job_move s t" by (cases s) (auto simp: status_simps)
  show "job_move s t \<Longrightarrow> job_rank s < job_rank t" by (cases s) auto
  show "job_rank s \<le> 2" by (cases s) auto
qed

section \<open>Facts about the tables\<close>

lemma CanCancelBuild_transition: "CanCancelBuild s \<longleftrightarrow> CanTransitionBuild s BuildStatusCanceled"
  by (cases s) (auto simp: status_simps)

lemma CanCancelStep_iff: "CanCancelStep s \<longleftrightarrow> \<not> IsTerminalStepStatus s"
  by (cases s) (auto simp: status_simps)

lemma CanCancelExecutionJob_iff: "CanCancelExecutionJob s \<longleftrightarrow> \<not> IsTerminalExecutionJobStatus s"
  by (cases s) (auto simp: status_simps)

text \<open>The only way into \<open>running\<close> is through \<open>preparing\<close>, and into \<open>preparing\<close> through \<open>queued\<close>.\<close>

lemma CanTransitionBuild_into:
  "CanTransitionBuild s BuildStatusQueued \<longleftrightarrow> s = BuildStatusPending"
  "CanTransitionBuild s BuildStatusPreparing \<longleftrightarrow> s = BuildStatusQueued"
  "CanTransitionBuild s BuildStatusRunning \<longleftrightarrow> s = BuildStatusPreparing"
  "CanTransitionBuild s BuildStatusSuccess \<longleftrightarrow> s = BuildStatusRunning"
  "\<not> CanTransitionBuild s BuildStatusPending"
  by (cases s; simp)+

text \<open>
  C36: Terminal build states are final, every state can be driven to a terminal one, and a run of
  legal build transitions has at most five states, so no build can cycle.
\<close>

theorem build_lifecycle_terminates:
  "(\<forall>s t. IsTerminalBuildStatus s \<and> CanTransitionBuild\<^sup>*\<^sup>* s t \<longrightarrow> t = s) \<and>
   (\<forall>s. \<exists>t. CanTransitionBuild\<^sup>*\<^sup>* s t \<and> IsTerminalBuildStatus t) \<and>
   (\<forall>xs. successively CanTransitionBuild xs \<longrightarrow> length xs \<le> 5)"
  using build_lifecycle.terminal_absorbing build_lifecycle.reaches_terminal
    build_lifecycle.run_length by auto

theorem build_lifecycle_terminates_witness:
  "length [BuildStatusPending, BuildStatusQueued, BuildStatusPreparing, BuildStatusRunning, BuildStatusSuccess] \<le> 5
   \<and> successively CanTransitionBuild
       [BuildStatusPending, BuildStatusQueued, BuildStatusPreparing, BuildStatusRunning, BuildStatusSuccess]"
  using build_lifecycle_terminates by simp

end
