(* ===== verification/Build_Domain.thy ===== *)
theory Build_Domain
  imports Lifecycle
begin

text \<open>
  The data of builds and steps (\<open>domain/build.go\<close>, \<open>build_step.go\<close>, \<open>build_trigger.go\<close>,
  \<open>source_spec.go\<close>, \<open>cache.go\<close>, \<open>image_build.go\<close>, \<open>node_id.go\<close>) with the normalisations that
  every build passes through before it is stored, and the errors of the repositories.

  Field selectors carry the prefix of their struct (\<open>b_\<close> for \<open>Build\<close>, \<open>s_\<close> for \<open>BuildStep\<close>,
  \<open>t_\<close> for \<open>BuildTrigger\<close>), then the Go field name. String-typed enumerations that the code
  trims and compares as strings (trigger kinds and types, cache policies) stay strings.
\<close>

section \<open>Errors\<close>

datatype go_error =
  ErrBuildNotFound
| ErrInvalidBuildStatusTransition
| ErrInvalidBuildStepTransition
| ErrApplicationVersionConflict
| ErrExecutionJobNotFound
| Errorf string

section \<open>Optional strings\<close>

definition trimOptional :: "string option \<Rightarrow> string option" where
  "trimOptional value =
     (case value of None \<Rightarrow> None
      | Some v \<Rightarrow> (let trimmed = TrimSpace v in if trimmed = [] then None else Some trimmed))"

definition readOptionalStringPtr :: "string \<Rightarrow> string option" where
  "readOptionalStringPtr value = (let trimmed = TrimSpace value in if trimmed = [] then None else Some trimmed)"

definition readOptionalString :: "string option \<Rightarrow> string" where
  "readOptionalString value = (case value of None \<Rightarrow> [] | Some v \<Rightarrow> v)"

lemma trimOptional_None [simp]: "trimOptional None = None"
  by (simp add: trimOptional_def)

lemma trimOptional_Some: "trimOptional x = Some v \<Longrightarrow> v \<noteq> [] \<and> trimmed v"
  by (auto simp: trimOptional_def Let_def split: option.splits if_splits)

lemma trimOptional_idem [simp]: "trimOptional (trimOptional x) = trimOptional x"
  by (auto simp: trimOptional_def Let_def split: option.splits if_splits)

section \<open>Sources\<close>

record SourceSpec =
  ss_RepositoryURL :: string
  ss_Ref :: "string option"
  ss_CommitSHA :: "string option"

definition NewSourceSpec :: "string \<Rightarrow> string \<Rightarrow> string \<Rightarrow> SourceSpec option" where
  "NewSourceSpec repositoryURL ref commitSHA =
     (let repo = TrimSpace repositoryURL
      in if repo = [] then None
         else Some \<lparr>ss_RepositoryURL = repo,
                    ss_Ref = readOptionalStringPtr ref,
                    ss_CommitSHA = readOptionalStringPtr commitSHA\<rparr>)"

section \<open>Cache configuration\<close>

definition CachePolicyPullPush :: string where "CachePolicyPullPush = ''pull-push''"
definition CachePolicyPull :: string where "CachePolicyPull = ''pull''"
definition CachePolicyPush :: string where "CachePolicyPush = ''push''"
definition CachePolicyOff :: string where "CachePolicyOff = ''off''"

lemmas CachePolicy_defs = CachePolicyPullPush_def CachePolicyPull_def CachePolicyPush_def CachePolicyOff_def

definition NormalizeCachePolicy :: "string \<Rightarrow> string" where
  "NormalizeCachePolicy value =
     (let trimmed = ToLower (TrimSpace value)
      in if trimmed = CachePolicyPull \<or> trimmed = CachePolicyPush \<or> trimmed = CachePolicyOff \<or>
            trimmed = CachePolicyPullPush
         then trimmed else CachePolicyPullPush)"

record StepCacheConfig =
  cc_Preset :: string
  cc_Policy :: string
  cc_ComponentPolicies :: "(string, string) gomap"

definition StepCacheConfig_Clone :: "StepCacheConfig option \<Rightarrow> StepCacheConfig option" where
  "StepCacheConfig_Clone c =
     (case c of None \<Rightarrow> None
      | Some c \<Rightarrow> Some \<lparr>cc_Preset = TrimSpace (cc_Preset c), cc_Policy = cc_Policy c,
          cc_ComponentPolicies = map (\<lambda>(component, policy). (component, NormalizeCachePolicy policy))
                                   (cc_ComponentPolicies c)\<rparr>)"

lemma NormalizeCachePolicy_range:
  "NormalizeCachePolicy v \<in> {CachePolicyPull, CachePolicyPush, CachePolicyOff, CachePolicyPullPush}"
  by (auto simp: NormalizeCachePolicy_def Let_def)

lemma NormalizeCachePolicy_fixed:
  "v \<in> {CachePolicyPull, CachePolicyPush, CachePolicyOff, CachePolicyPullPush} \<Longrightarrow> NormalizeCachePolicy v = v"
  by (elim insertE) (simp_all add: CachePolicy_defs NormalizeCachePolicy_def ToLower_def TrimSpace_def is_space_def char_lower_def)

lemma NormalizeCachePolicy_idem [simp]: "NormalizeCachePolicy (NormalizeCachePolicy v) = NormalizeCachePolicy v"
  by (rule NormalizeCachePolicy_fixed) (rule NormalizeCachePolicy_range)

lemma StepCacheConfig_Clone_idem [simp]: "StepCacheConfig_Clone (StepCacheConfig_Clone c) = StepCacheConfig_Clone c"
  by (auto simp: StepCacheConfig_Clone_def split: option.splits)

section \<open>Remote image builds\<close>

definition ExecutionKindShell :: string where "ExecutionKindShell = ''shell''"
definition ExecutionKindImageBuild :: string where "ExecutionKindImageBuild = ''image_build''"

record ImageBuildArtifactInput =
  ibi_Name :: string
  ibi_Destination :: string
  ibi_Platform :: string

record RemoteImageBuildSpec =
  rib_ContextPath :: string
  rib_DockerfilePath :: string
  rib_Target :: string
  rib_BuildArgs :: "(string, string) gomap"
  rib_TargetImageReference :: string
  rib_ArtifactInputs :: "ImageBuildArtifactInput list"

section \<open>Triggers\<close>

definition BuildTriggerKindManual :: string where "BuildTriggerKindManual = ''manual''"
definition BuildTriggerKindWebhook :: string where "BuildTriggerKindWebhook = ''webhook''"
definition BuildTriggerKindArtifact :: string where "BuildTriggerKindArtifact = ''artifact''"
definition BuildTriggerTypeManual :: string where "BuildTriggerTypeManual = ''manual''"
definition BuildTriggerTypeRerun :: string where "BuildTriggerTypeRerun = ''rerun''"
definition BuildTriggerTypeWebhook :: string where "BuildTriggerTypeWebhook = ''webhook''"

record PullRequestSnapshot =
  pr_Number :: int
  pr_Action :: string
  pr_URL :: string
  pr_BaseRef :: string
  pr_BaseSHA :: string
  pr_HeadRef :: string
  pr_HeadSHA :: string
  pr_SourceMode :: string

record BuildTrigger =
  t_Kind :: string
  t_SCMProvider :: "string option"
  t_EventType :: "string option"
  t_RepositoryOwner :: "string option"
  t_RepositoryName :: "string option"
  t_RepositoryURL :: "string option"
  t_RawRef :: "string option"
  t_Ref :: "string option"
  t_RefType :: "string option"
  t_RefName :: "string option"
  t_Deleted :: "bool option"
  t_CommitSHA :: "string option"
  t_DeliveryID :: "string option"
  t_Actor :: "string option"
  t_ProducerProjectID :: "string option"
  t_ProducerJobID :: "string option"
  t_ProducerBuildID :: "string option"
  t_ArtifactID :: "string option"
  t_ArtifactPath :: "string option"
  t_ArtifactName :: "string option"
  t_ArtifactSizeBytes :: "int option"
  t_ArtifactChecksumSHA256 :: "string option"
  t_PullRequest :: "PullRequestSnapshot option"

definition normalizePullRequestSnapshot :: "PullRequestSnapshot \<Rightarrow> PullRequestSnapshot" where
  "normalizePullRequestSnapshot snapshot = snapshot\<lparr>
     pr_Action := ToLower (TrimSpace (pr_Action snapshot)),
     pr_URL := TrimSpace (pr_URL snapshot),
     pr_BaseRef := TrimSpace (pr_BaseRef snapshot),
     pr_BaseSHA := TrimSpace (pr_BaseSHA snapshot),
     pr_HeadRef := TrimSpace (pr_HeadRef snapshot),
     pr_HeadSHA := TrimSpace (pr_HeadSHA snapshot),
     pr_SourceMode := TrimSpace (pr_SourceMode snapshot)\<rparr>"

definition NormalizeBuildTrigger :: "BuildTrigger \<Rightarrow> BuildTrigger" where
  "NormalizeBuildTrigger in0 =
     (let trimmedKind = TrimSpace (t_Kind in0);
          in1 = in0\<lparr>
            t_Kind := (if trimmedKind = [] then BuildTriggerKindManual else trimmedKind),
            t_SCMProvider := trimOptional (t_SCMProvider in0),
            t_EventType := trimOptional (t_EventType in0),
            t_RepositoryOwner := trimOptional (t_RepositoryOwner in0),
            t_RepositoryName := trimOptional (t_RepositoryName in0),
            t_RepositoryURL := trimOptional (t_RepositoryURL in0),
            t_RawRef := trimOptional (t_RawRef in0),
            t_Ref := trimOptional (t_Ref in0),
            t_RefType := trimOptional (t_RefType in0),
            t_RefName := trimOptional (t_RefName in0),
            t_CommitSHA := trimOptional (t_CommitSHA in0),
            t_DeliveryID := trimOptional (t_DeliveryID in0),
            t_Actor := trimOptional (t_Actor in0),
            t_ProducerProjectID := trimOptional (t_ProducerProjectID in0),
            t_ProducerJobID := trimOptional (t_ProducerJobID in0),
            t_ProducerBuildID := trimOptional (t_ProducerBuildID in0),
            t_ArtifactID := trimOptional (t_ArtifactID in0),
            t_ArtifactPath := trimOptional (t_ArtifactPath in0),
            t_ArtifactName := trimOptional (t_ArtifactName in0),
            t_ArtifactChecksumSHA256 := trimOptional (t_ArtifactChecksumSHA256 in0),
            t_PullRequest := map_option normalizePullRequestSnapshot (t_PullRequest in0)\<rparr>;
          in2 = (if t_RefName in1 = None \<and> t_Ref in1 \<noteq> None then in1\<lparr>t_RefName := t_Ref in1\<rparr> else in1);
          in3 = (if t_Ref in2 = None \<and> t_RefName in2 \<noteq> None then in2\<lparr>t_Ref := t_RefName in2\<rparr> else in2)
      in in3)"

section \<open>Builds\<close>

record Build =
  b_ID :: string
  b_BuildNumber :: int
  b_ProjectID :: string
  b_JobID :: "string option"
  b_Priority :: int
  b_Status :: BuildStatus
  b_CreatedAt :: time
  b_QueuedAt :: "time option"
  b_StartedAt :: "time option"
  b_FinishedAt :: "time option"
  b_CurrentStepIndex :: int
  b_AttemptNumber :: int
  b_RerunOfBuildID :: "string option"
  b_RerunFromStepIdx :: "int option"
  b_ErrorMessage :: "string option"
  b_ApplicationVersion :: "string option"
  b_RegisteredRepositoryID :: "string option"
  b_SCMConnectionID :: "string option"
  b_ProviderRepositoryID :: "string option"
  b_PipelineConfigYAML :: "string option"
  b_PipelineName :: "string option"
  b_PipelineSource :: "string option"
  b_PipelinePath :: "string option"
  b_Source :: "SourceSpec option"
  b_RepoURL :: "string option"
  b_Ref :: "string option"
  b_CommitSHA :: "string option"
  b_SourceRef :: "string option"
  b_SourceSHA :: "string option"
  b_SourceAuthorName :: "string option"
  b_SourceAuthorEmail :: "string option"
  b_SourceCommitterName :: "string option"
  b_SourceCommitterEmail :: "string option"
  b_TriggerType :: string
  b_TriggeredBy :: "string option"
  b_Trigger :: BuildTrigger
  b_RequestedImageRef :: "string option"
  b_ResolvedImageRef :: "string option"
  b_ImageSourceKind :: string
  b_ManagedImageID :: "string option"
  b_ManagedImageVersionID :: "string option"

fun check_snapshot_values :: "string option list \<Rightarrow> nat \<Rightarrow> string + nat" where
  "check_snapshot_values [] present = Inr present"
| "check_snapshot_values (None # vs) present = check_snapshot_values vs present"
| "check_snapshot_values (Some v # vs) present =
     (if TrimSpace v = [] then Inl ''repository identity snapshot fields are required when present''
      else check_snapshot_values vs (Suc present))"

definition ValidateRepositoryIdentitySnapshot ::
  "string option \<Rightarrow> string option \<Rightarrow> string option \<Rightarrow> go_error option" where
  "ValidateRepositoryIdentitySnapshot registeredRepositoryID scmConnectionID providerRepositoryID =
     (let values = [registeredRepositoryID, scmConnectionID, providerRepositoryID]
      in case check_snapshot_values values 0 of
           Inl msg \<Rightarrow> Some (Errorf msg)
         | Inr present \<Rightarrow>
             (if present \<noteq> 0 \<and> present \<noteq> length values
              then Some (Errorf ''repository identity snapshot must be all present or all absent'')
              else None))"

definition Build_ValidateRepositoryIdentitySnapshot :: "Build \<Rightarrow> go_error option" where
  "Build_ValidateRepositoryIdentitySnapshot b =
     ValidateRepositoryIdentitySnapshot (b_RegisteredRepositoryID b) (b_SCMConnectionID b) (b_ProviderRepositoryID b)"

text \<open>
  The three blocks of \<open>NormalizeBuildMetadata\<close> that fill what the caller left out: the source ref,
  the source commit and the trigger type.
\<close>

definition fill_source_ref :: "BuildTrigger \<Rightarrow> Build \<Rightarrow> Build" where
  "fill_source_ref trigger in1 =
     (if b_SourceRef in1 = None then
        (if Option.bind (b_Source in1) ss_Ref \<noteq> None
         then in1\<lparr>b_SourceRef := trimOptional (Option.bind (b_Source in1) ss_Ref)\<rparr>
         else if b_Ref in1 \<noteq> None then in1\<lparr>b_SourceRef := trimOptional (b_Ref in1)\<rparr>
         else if t_Ref trigger \<noteq> None then in1\<lparr>b_SourceRef := trimOptional (t_Ref trigger)\<rparr>
         else in1)
      else in1)"

definition fill_source_sha :: "BuildTrigger \<Rightarrow> Build \<Rightarrow> Build" where
  "fill_source_sha trigger in2 =
     (if b_SourceSHA in2 = None then
        (if Option.bind (b_Source in2) ss_CommitSHA \<noteq> None
         then in2\<lparr>b_SourceSHA := trimOptional (Option.bind (b_Source in2) ss_CommitSHA)\<rparr>
         else if b_CommitSHA in2 \<noteq> None then in2\<lparr>b_SourceSHA := trimOptional (b_CommitSHA in2)\<rparr>
         else if t_CommitSHA trigger \<noteq> None
         then in2\<lparr>b_SourceSHA := trimOptional (t_CommitSHA trigger)\<rparr>
         else in2)
      else in2)"

definition fill_trigger_type :: "BuildTrigger \<Rightarrow> Build \<Rightarrow> Build" where
  "fill_trigger_type trigger in4 =
     (let trimmedTriggerType = TrimSpace (b_TriggerType in4)
      in if trimmedTriggerType = [] then
           (if b_RerunOfBuildID in4 \<noteq> None then in4\<lparr>b_TriggerType := BuildTriggerTypeRerun\<rparr>
            else if t_Kind trigger = BuildTriggerKindWebhook then in4\<lparr>b_TriggerType := BuildTriggerTypeWebhook\<rparr>
            else if TrimSpace (t_Kind trigger) \<noteq> [] then in4\<lparr>b_TriggerType := TrimSpace (t_Kind trigger)\<rparr>
            else in4\<lparr>b_TriggerType := BuildTriggerTypeManual\<rparr>)
         else in4\<lparr>b_TriggerType := trimmedTriggerType\<rparr>)"

definition NormalizeBuildMetadata :: "Build \<Rightarrow> Build" where
  "NormalizeBuildMetadata in0 =
     (let trigger = NormalizeBuildTrigger (b_Trigger in0);
          in1 = in0\<lparr>
            b_Trigger := trigger,
            b_SourceRef := trimOptional (b_SourceRef in0),
            b_SourceSHA := trimOptional (b_SourceSHA in0),
            b_SourceAuthorName := trimOptional (b_SourceAuthorName in0),
            b_SourceAuthorEmail := trimOptional (b_SourceAuthorEmail in0),
            b_SourceCommitterName := trimOptional (b_SourceCommitterName in0),
            b_SourceCommitterEmail := trimOptional (b_SourceCommitterEmail in0),
            b_TriggeredBy := trimOptional (b_TriggeredBy in0)\<rparr>;
          in2 = fill_source_ref trigger in1;
          in3 = fill_source_sha trigger in2;
          in4 = (if b_TriggeredBy in3 = None then in3\<lparr>b_TriggeredBy := trimOptional (t_Actor trigger)\<rparr> else in3)
      in fill_trigger_type trigger in4)"

section \<open>Build steps\<close>

record BuildStep =
  s_ID :: string
  s_BuildID :: string
  s_StepIndex :: int
  s_NodeID :: string
  s_GroupName :: "string option"
  s_DependsOnNodes :: "string list"
  s_Name :: string
  s_ExecutionKind :: string
  s_RemoteImageBuild :: "RemoteImageBuildSpec option"
  s_Image :: string
  s_Command :: string
  s_Args :: "string list"
  s_Env :: "(string, string) gomap"
  s_WorkingDir :: string
  s_TimeoutSeconds :: int
  s_ArtifactPaths :: "string list"
  s_Cache :: "StepCacheConfig option"
  s_Status :: BuildStepStatus
  s_WorkerID :: "string option"
  s_ClaimToken :: "string option"
  s_ClaimedAt :: "time option"
  s_LeaseExpiresAt :: "time option"
  s_StartedAt :: "time option"
  s_FinishedAt :: "time option"
  s_ExitCode :: "int option"
  s_Stdout :: "string option"
  s_Stderr :: "string option"
  s_ErrorMessage :: "string option"
  s_RequestedImageRef :: "string option"
  s_ResolvedImageRef :: "string option"
  s_ImageSourceKind :: string
  s_ManagedImageID :: "string option"
  s_ManagedImageVersionID :: "string option"

definition FallbackNodeID :: "int \<Rightarrow> string" where
  "FallbackNodeID stepIndex = ''node-'' @ Format03d stepIndex"

lemma FallbackNodeID_inject [simp]: "FallbackNodeID i = FallbackNodeID j \<longleftrightarrow> i = j"
  by (auto simp: FallbackNodeID_def dest: Format03d_inject)

section \<open>Requests to the repositories\<close>

record StepUpdate =
  u_Status :: BuildStepStatus
  u_WorkerID :: "string option"
  u_ExitCode :: "int option"
  u_Stdout :: "string option"
  u_Stderr :: "string option"
  u_ErrorMessage :: "string option"
  u_StartedAt :: "time option"
  u_FinishedAt :: "time option"

record StepClaim =
  c_WorkerID :: string
  c_ClaimToken :: string
  c_ClaimedAt :: time
  c_LeaseExpiresAt :: time

record CompleteStepRequest =
  r_BuildID :: string
  r_StepIndex :: int
  r_ClaimToken :: string
  r_RequireClaim :: bool
  r_Update :: StepUpdate

record SourceProvenanceUpdate =
  p_CommitSHA :: string
  p_AuthorName :: string
  p_AuthorEmail :: string
  p_CommitterName :: string
  p_CommitterEmail :: string

record ListParams =
  lp_Limit :: int
  lp_Offset :: int
  lp_ProjectID :: string

record QueueListParams =
  qp_ProjectID :: string
  qp_Status :: string

definition DefaultPageLimit :: int where "DefaultPageLimit = 50"
definition MaxPageLimit :: int where "MaxPageLimit = 200"

definition ClampPageParams :: "ListParams \<Rightarrow> int \<times> int" where
  "ClampPageParams p =
     (let limit0 = (if lp_Limit p \<le> 0 then DefaultPageLimit else lp_Limit p);
          limit = (if limit0 > MaxPageLimit then MaxPageLimit else limit0);
          offset = (if lp_Offset p < 0 then 0 else lp_Offset p)
      in (limit, offset))"

lemma ClampPageParams_bounds:
  "ClampPageParams p = (limit, offset) \<Longrightarrow> 1 \<le> limit \<and> limit \<le> MaxPageLimit \<and> 0 \<le> offset"
  by (auto simp: ClampPageParams_def Let_def DefaultPageLimit_def MaxPageLimit_def split: if_splits)

lemma ClampPageParams_id:
  "1 \<le> lp_Limit p \<Longrightarrow> lp_Limit p \<le> MaxPageLimit \<Longrightarrow> 0 \<le> lp_Offset p \<Longrightarrow>
   ClampPageParams p = (lp_Limit p, lp_Offset p)"
  by (simp add: ClampPageParams_def)

section \<open>Normalisation is idempotent\<close>

lemma normalizePullRequestSnapshot_fields:
  "pr_Number (normalizePullRequestSnapshot p) = pr_Number p"
  "trimmed (pr_HeadSHA (normalizePullRequestSnapshot p))"
  by (simp_all add: normalizePullRequestSnapshot_def)

lemma NormalizeBuildTrigger_refs:
  "t_Ref (NormalizeBuildTrigger t) = None \<longleftrightarrow> t_RefName (NormalizeBuildTrigger t) = None"
  by (auto simp: NormalizeBuildTrigger_def Let_def)

lemma NormalizeBuildTrigger_kind:
  "t_Kind (NormalizeBuildTrigger t) =
     (if TrimSpace (t_Kind t) = [] then BuildTriggerKindManual else TrimSpace (t_Kind t))"
  by (simp add: NormalizeBuildTrigger_def Let_def)

lemma fill_sel [simp]:
  "b_ID (fill_source_ref t b) = b_ID b" "b_Status (fill_source_ref t b) = b_Status b"
  "b_BuildNumber (fill_source_ref t b) = b_BuildNumber b" "b_JobID (fill_source_ref t b) = b_JobID b"
  "b_Priority (fill_source_ref t b) = b_Priority b" "b_AttemptNumber (fill_source_ref t b) = b_AttemptNumber b"
  "b_ID (fill_source_sha t b) = b_ID b" "b_Status (fill_source_sha t b) = b_Status b"
  "b_BuildNumber (fill_source_sha t b) = b_BuildNumber b" "b_JobID (fill_source_sha t b) = b_JobID b"
  "b_Priority (fill_source_sha t b) = b_Priority b" "b_AttemptNumber (fill_source_sha t b) = b_AttemptNumber b"
  "b_ID (fill_trigger_type t b) = b_ID b" "b_Status (fill_trigger_type t b) = b_Status b"
  "b_BuildNumber (fill_trigger_type t b) = b_BuildNumber b" "b_JobID (fill_trigger_type t b) = b_JobID b"
  "b_Priority (fill_trigger_type t b) = b_Priority b" "b_AttemptNumber (fill_trigger_type t b) = b_AttemptNumber b"
  by (simp_all add: fill_source_ref_def fill_source_sha_def fill_trigger_type_def Let_def)

lemma fill_validate [simp]:
  "Build_ValidateRepositoryIdentitySnapshot (fill_source_ref t b) = Build_ValidateRepositoryIdentitySnapshot b"
  "Build_ValidateRepositoryIdentitySnapshot (fill_source_sha t b) = Build_ValidateRepositoryIdentitySnapshot b"
  "Build_ValidateRepositoryIdentitySnapshot (fill_trigger_type t b) = Build_ValidateRepositoryIdentitySnapshot b"
  by (simp_all add: Build_ValidateRepositoryIdentitySnapshot_def fill_source_ref_def fill_source_sha_def
      fill_trigger_type_def Let_def)

lemma validate_frame [simp]:
  "Build_ValidateRepositoryIdentitySnapshot (b\<lparr>b_ID := i\<rparr>) = Build_ValidateRepositoryIdentitySnapshot b"
  "Build_ValidateRepositoryIdentitySnapshot (b\<lparr>b_AttemptNumber := n\<rparr>) = Build_ValidateRepositoryIdentitySnapshot b"
  "Build_ValidateRepositoryIdentitySnapshot (b\<lparr>b_BuildNumber := n\<rparr>) = Build_ValidateRepositoryIdentitySnapshot b"
  "Build_ValidateRepositoryIdentitySnapshot (b\<lparr>b_Priority := n\<rparr>) = Build_ValidateRepositoryIdentitySnapshot b"
  "Build_ValidateRepositoryIdentitySnapshot (b\<lparr>b_Trigger := t\<rparr>) = Build_ValidateRepositoryIdentitySnapshot b"
  "Build_ValidateRepositoryIdentitySnapshot (b\<lparr>b_TriggeredBy := o1\<rparr>) = Build_ValidateRepositoryIdentitySnapshot b"
  "Build_ValidateRepositoryIdentitySnapshot (b\<lparr>b_SourceRef := o1\<rparr>) = Build_ValidateRepositoryIdentitySnapshot b"
  "Build_ValidateRepositoryIdentitySnapshot (b\<lparr>b_SourceSHA := o1\<rparr>) = Build_ValidateRepositoryIdentitySnapshot b"
  "Build_ValidateRepositoryIdentitySnapshot (b\<lparr>b_SourceAuthorName := o1\<rparr>) = Build_ValidateRepositoryIdentitySnapshot b"
  "Build_ValidateRepositoryIdentitySnapshot (b\<lparr>b_SourceAuthorEmail := o1\<rparr>) = Build_ValidateRepositoryIdentitySnapshot b"
  "Build_ValidateRepositoryIdentitySnapshot (b\<lparr>b_SourceCommitterName := o1\<rparr>) = Build_ValidateRepositoryIdentitySnapshot b"
  "Build_ValidateRepositoryIdentitySnapshot (b\<lparr>b_SourceCommitterEmail := o1\<rparr>) = Build_ValidateRepositoryIdentitySnapshot b"
  by (simp_all add: Build_ValidateRepositoryIdentitySnapshot_def)

text \<open>Normalisation touches neither the identity of a build nor what schedules it.\<close>

lemma NormalizeBuildMetadata_sel [simp]:
  "b_ID (NormalizeBuildMetadata b) = b_ID b" "b_Status (NormalizeBuildMetadata b) = b_Status b"
  "b_BuildNumber (NormalizeBuildMetadata b) = b_BuildNumber b" "b_JobID (NormalizeBuildMetadata b) = b_JobID b"
  "b_Priority (NormalizeBuildMetadata b) = b_Priority b"
  "b_AttemptNumber (NormalizeBuildMetadata b) = b_AttemptNumber b"
  "Build_ValidateRepositoryIdentitySnapshot (NormalizeBuildMetadata b) = Build_ValidateRepositoryIdentitySnapshot b"
  by (simp_all add: NormalizeBuildMetadata_def Let_def)

end
