(* ===== verification/Build_Repository.thy ===== *)
theory Build_Repository
  imports Build_Domain
begin

text \<open>
  The build store, \<open>repository/memory/build_repository.go\<close>: builds and their steps, build
  numbering, claims, leases, guarded completion and cancellation.

  The state is the record \<open>BuildRepository\<close>; each method is a function from the state to the
  new state and the Go results. A method runs under the repository's mutex, so one call is one
  atomic step. The instants \<open>time.Now()\<close> returns and the identifiers \<open>uuid.NewString()\<close> returns
  are arguments. A zero \<open>domain.BuildStep{}\<close> or \<open>domain.Build{}\<close> result is \<open>None\<close>.
\<close>

section \<open>State\<close>

record BuildRepository =
  br_builds :: "(string, Build) gomap"
  br_buildSteps :: "(string, BuildStep list) gomap"
  br_nextAnonymousNumber :: int
  br_nextNumberByJob :: "(string, int) gomap"

definition NewBuildRepository :: BuildRepository where
  "NewBuildRepository =
     \<lparr>br_builds = [], br_buildSteps = [], br_nextAnonymousNumber = 1, br_nextNumberByJob = []\<rparr>"

text \<open>The reads \<open>r.builds[id]\<close> and \<open>r.buildSteps[id]\<close>.\<close>

definition get_build :: "BuildRepository \<Rightarrow> string \<Rightarrow> Build option" where
  "get_build r i = map_of (br_builds r) i"

definition get_steps :: "BuildRepository \<Rightarrow> string \<Rightarrow> BuildStep list" where
  "get_steps r i = gm_get_or [] (br_buildSteps r) i"

definition set_steps :: "string \<Rightarrow> BuildStep list \<Rightarrow> BuildRepository \<Rightarrow> BuildRepository" where
  "set_steps i steps r = r\<lparr>br_buildSteps := gm_put i steps (br_buildSteps r)\<rparr>"

definition cloneBuildApplicationVersion :: "Build \<Rightarrow> Build" where
  "cloneBuildApplicationVersion build =
     (case b_ApplicationVersion build of None \<Rightarrow> build
      | Some version \<Rightarrow> build\<lparr>b_ApplicationVersion := Some version\<rparr>)"

definition cloneStep :: "BuildStep \<Rightarrow> BuildStep" where
  "cloneStep step = step\<lparr>s_Cache := StepCacheConfig_Clone (s_Cache step)\<rparr>"

definition storeBuildLocked :: "Build \<Rightarrow> BuildRepository \<Rightarrow> BuildRepository" where
  "storeBuildLocked build r =
     r\<lparr>br_builds := gm_put (b_ID build) (cloneBuildApplicationVersion build) (br_builds r)\<rparr>"

section \<open>Build numbers\<close>

definition normalizeBuildJobID :: "string option \<Rightarrow> string option" where
  "normalizeBuildJobID jobID =
     (case jobID of None \<Rightarrow> None
      | Some j \<Rightarrow> (let trimmed = TrimSpace j in if trimmed = [] then None else Some trimmed))"

definition nextBuildNumberLocked :: "string option \<Rightarrow> BuildRepository \<Rightarrow> BuildRepository \<times> int" where
  "nextBuildNumberLocked jobID r =
     (case normalizeBuildJobID jobID of
        Some normalizedJobID \<Rightarrow>
          (let nxt0 = gm_get_or 0 (br_nextNumberByJob r) normalizedJobID;
               nxt = (if nxt0 \<le> 0 then 1 else nxt0)
           in (r\<lparr>br_nextNumberByJob := gm_put normalizedJobID (wrap64 (nxt + 1)) (br_nextNumberByJob r)\<rparr>, nxt))
      | None \<Rightarrow>
          (let nxt = (if br_nextAnonymousNumber r \<le> 0 then 1 else br_nextAnonymousNumber r)
           in (r\<lparr>br_nextAnonymousNumber := wrap64 (nxt + 1)\<rparr>, nxt)))"

definition observeBuildNumberLocked :: "string option \<Rightarrow> int \<Rightarrow> BuildRepository \<Rightarrow> BuildRepository" where
  "observeBuildNumberLocked jobID buildNumber r =
     (if buildNumber \<le> 0 then r
      else case normalizeBuildJobID jobID of
        Some normalizedJobID \<Rightarrow>
          (if buildNumber \<ge> gm_get_or 0 (br_nextNumberByJob r) normalizedJobID
           then r\<lparr>br_nextNumberByJob := gm_put normalizedJobID (wrap64 (buildNumber + 1)) (br_nextNumberByJob r)\<rparr>
           else r)
      | None \<Rightarrow>
          (if buildNumber \<ge> br_nextAnonymousNumber r
           then r\<lparr>br_nextAnonymousNumber := wrap64 (buildNumber + 1)\<rparr>
           else r))"

definition assignBuildNumberLocked :: "Build \<Rightarrow> BuildRepository \<Rightarrow> BuildRepository \<times> Build" where
  "assignBuildNumberLocked build r =
     (if b_BuildNumber build > 0
      then (observeBuildNumberLocked (b_JobID build) (b_BuildNumber build) r, build)
      else (let (r', n) = nextBuildNumberLocked (b_JobID build) r
            in (r', build\<lparr>b_BuildNumber := n\<rparr>)))"

section \<open>Creation\<close>

text \<open>The common first half of \<open>Create\<close> and \<open>CreateQueuedBuild\<close>.\<close>

definition prepare_new_build :: "string \<Rightarrow> Build \<Rightarrow> BuildRepository \<Rightarrow> BuildRepository \<times> Build" where
  "prepare_new_build uuid build r =
     (let build1 = (if b_ID build = [] then build\<lparr>b_ID := uuid\<rparr> else build);
          build2 = (if b_AttemptNumber build1 \<le> 0 then build1\<lparr>b_AttemptNumber := 1\<rparr> else build1);
          (r', build3) = assignBuildNumberLocked build2 r;
          build4 = build3\<lparr>b_Priority := NormalizePriority (b_Priority build3)\<rparr>;
          build5 = build4\<lparr>b_Trigger := NormalizeBuildTrigger (b_Trigger build4)\<rparr>
      in (r', NormalizeBuildMetadata build5))"

definition Create :: "string \<Rightarrow> Build \<Rightarrow> BuildRepository \<Rightarrow> BuildRepository \<times> (go_error + Build)" where
  "Create uuid build r =
     (let (r1, build1) = prepare_new_build uuid build r
      in case Build_ValidateRepositoryIdentitySnapshot build1 of
           Some err \<Rightarrow> (r1, Inl err)
         | None \<Rightarrow> (storeBuildLocked build1 r1, Inr (cloneBuildApplicationVersion build1)))"

definition step_less :: "BuildStep \<Rightarrow> BuildStep \<Rightarrow> bool" where
  "step_less a b \<longleftrightarrow> s_StepIndex a < s_StepIndex b"

definition adopt_step :: "string \<Rightarrow> string \<Rightarrow> BuildStep \<Rightarrow> BuildStep" where
  "adopt_step uuid buildID step =
     (let step1 = (if s_ID step = [] then step\<lparr>s_ID := uuid\<rparr> else step)
      in cloneStep (step1\<lparr>s_BuildID := buildID\<rparr>))"

definition adopt_steps :: "(nat \<Rightarrow> string) \<Rightarrow> string \<Rightarrow> BuildStep list \<Rightarrow> BuildStep list" where
  "adopt_steps uuids buildID steps =
     sort_slice step_less (map (\<lambda>(k, step). adopt_step (uuids k) buildID step) (enumerate 0 steps))"

definition CreateQueuedBuild ::
  "string \<Rightarrow> (nat \<Rightarrow> string) \<Rightarrow> time \<Rightarrow> Build \<Rightarrow> BuildStep list \<Rightarrow> BuildRepository \<Rightarrow>
     BuildRepository \<times> (go_error + Build)" where
  "CreateQueuedBuild uuid uuids now build steps r =
     (let (r1, build1) = prepare_new_build uuid build r
      in case Build_ValidateRepositoryIdentitySnapshot build1 of
           Some err \<Rightarrow> (r1, Inl err)
         | None \<Rightarrow>
             (let build2 = build1\<lparr>b_Status := BuildStatusQueued, b_CurrentStepIndex := 0, b_ErrorMessage := None\<rparr>;
                  build3 = (if b_QueuedAt build2 = None then build2\<lparr>b_QueuedAt := Some now\<rparr> else build2);
                  r2 = storeBuildLocked build3 r1
              in (set_steps (b_ID build3) (adopt_steps uuids (b_ID build3) steps) r2,
                  Inr (cloneBuildApplicationVersion build3))))"

definition QueueBuild ::
  "(nat \<Rightarrow> string) \<Rightarrow> time \<Rightarrow> string \<Rightarrow> BuildStep list \<Rightarrow> BuildRepository \<Rightarrow>
     BuildRepository \<times> (go_error + Build)" where
  "QueueBuild uuids now i steps r =
     (case get_build r i of
        None \<Rightarrow> (r, Inl ErrBuildNotFound)
      | Some build \<Rightarrow>
          (let build1 = build\<lparr>b_Status := BuildStatusQueued\<rparr>;
               build2 = (if b_QueuedAt build1 = None then build1\<lparr>b_QueuedAt := Some now\<rparr> else build1);
               build3 = build2\<lparr>b_CurrentStepIndex := 0, b_ErrorMessage := None\<rparr>;
               r1 = storeBuildLocked build3 r
           in (set_steps i (adopt_steps uuids i steps) r1, Inr (cloneBuildApplicationVersion build3))))"

section \<open>Reading and simple updates\<close>

definition GetByID :: "string \<Rightarrow> BuildRepository \<Rightarrow> go_error + Build" where
  "GetByID i r =
     (case get_build r i of None \<Rightarrow> Inl ErrBuildNotFound
      | Some build \<Rightarrow> Inr (cloneBuildApplicationVersion build))"

definition GetStepsByBuildID :: "string \<Rightarrow> BuildRepository \<Rightarrow> go_error + BuildStep list" where
  "GetStepsByBuildID buildID r =
     (case get_build r buildID of None \<Rightarrow> Inl ErrBuildNotFound
      | Some _ \<Rightarrow> Inr (sort_slice step_less (map cloneStep (get_steps r buildID))))"

text \<open>A read-modify-write of one stored build.\<close>

definition update_build ::
  "string \<Rightarrow> (Build \<Rightarrow> Build) \<Rightarrow> BuildRepository \<Rightarrow> BuildRepository \<times> (go_error + Build)" where
  "update_build i f r =
     (case get_build r i of None \<Rightarrow> (r, Inl ErrBuildNotFound)
      | Some build \<Rightarrow> (storeBuildLocked (f build) r, Inr (cloneBuildApplicationVersion (f build))))"

definition SetApplicationVersionIfUnset ::
  "string \<Rightarrow> string \<Rightarrow> BuildRepository \<Rightarrow> BuildRepository \<times> (go_error + Build)" where
  "SetApplicationVersionIfUnset i version r =
     (case get_build r i of
        None \<Rightarrow> (r, Inl ErrBuildNotFound)
      | Some build \<Rightarrow>
          (let trimmed = TrimSpace version
           in if trimmed = [] then (r, Inl ErrApplicationVersionConflict)
              else case b_ApplicationVersion build of
                Some v \<Rightarrow>
                  (if v = trimmed then (r, Inr (cloneBuildApplicationVersion build))
                   else (r, Inl ErrApplicationVersionConflict))
              | None \<Rightarrow>
                  (let build1 = build\<lparr>b_ApplicationVersion := Some trimmed\<rparr>
                   in (storeBuildLocked build1 r, Inr (cloneBuildApplicationVersion build1)))))"

definition apply_status :: "time \<Rightarrow> BuildStatus \<Rightarrow> string option \<Rightarrow> Build \<Rightarrow> Build" where
  "apply_status now status errorMessage build =
     (let build1 = build\<lparr>b_Status := status\<rparr>;
          build2 = (if status = BuildStatusQueued \<and> b_QueuedAt build1 = None
                    then build1\<lparr>b_QueuedAt := Some now\<rparr> else build1);
          build3 = (if status = BuildStatusRunning \<and> b_StartedAt build2 = None
                    then build2\<lparr>b_StartedAt := Some now\<rparr> else build2);
          build4 = (if IsTerminalBuildStatus status then build3\<lparr>b_FinishedAt := Some now\<rparr> else build3)
      in if status = BuildStatusFailed \<or> status = BuildStatusCanceled
         then build4\<lparr>b_ErrorMessage := errorMessage\<rparr>
         else build4\<lparr>b_ErrorMessage := None\<rparr>)"

definition UpdateStatus ::
  "time \<Rightarrow> string \<Rightarrow> BuildStatus \<Rightarrow> string option \<Rightarrow> BuildRepository \<Rightarrow> BuildRepository \<times> (go_error + Build)" where
  "UpdateStatus now i status errorMessage r = update_build i (apply_status now status errorMessage) r"

definition apply_provenance :: "SourceProvenanceUpdate \<Rightarrow> Build \<Rightarrow> Build" where
  "apply_provenance update build =
     (let trimmed = TrimSpace (p_CommitSHA update);
          build1 = (if trimmed = [] then build\<lparr>b_CommitSHA := None, b_SourceSHA := None\<rparr>
                    else build\<lparr>b_CommitSHA := Some trimmed, b_SourceSHA := Some trimmed\<rparr>);
          build2 = build1\<lparr>
            b_SourceAuthorName := readOptionalStringPtr (p_AuthorName update),
            b_SourceAuthorEmail := readOptionalStringPtr (p_AuthorEmail update),
            b_SourceCommitterName := readOptionalStringPtr (p_CommitterName update),
            b_SourceCommitterEmail := readOptionalStringPtr (p_CommitterEmail update)\<rparr>
      in build2\<lparr>b_Source := NewSourceSpec (readOptionalString (b_RepoURL build2))
                             (readOptionalString (b_Ref build2)) (readOptionalString (b_CommitSHA build2))\<rparr>)"

definition UpdateSourceProvenance ::
  "string \<Rightarrow> SourceProvenanceUpdate \<Rightarrow> BuildRepository \<Rightarrow> BuildRepository \<times> (go_error + Build)" where
  "UpdateSourceProvenance i update r = update_build i (apply_provenance update) r"

definition UpdateSourceCommitSHA ::
  "string \<Rightarrow> string \<Rightarrow> BuildRepository \<Rightarrow> BuildRepository \<times> (go_error + Build)" where
  "UpdateSourceCommitSHA i commitSHA r =
     UpdateSourceProvenance i \<lparr>p_CommitSHA = commitSHA, p_AuthorName = [], p_AuthorEmail = [],
                               p_CommitterName = [], p_CommitterEmail = []\<rparr> r"

definition UpdateImageExecution ::
  "string \<Rightarrow> string option \<Rightarrow> string option \<Rightarrow> string \<Rightarrow> string option \<Rightarrow> string option \<Rightarrow>
     BuildRepository \<Rightarrow> BuildRepository \<times> (go_error + Build)" where
  "UpdateImageExecution i requestedRef resolvedRef sourceKind managedImageID managedImageVersionID r =
     update_build i (\<lambda>build. build\<lparr>b_RequestedImageRef := requestedRef, b_ResolvedImageRef := resolvedRef,
       b_ImageSourceKind := sourceKind, b_ManagedImageID := managedImageID,
       b_ManagedImageVersionID := managedImageVersionID\<rparr>) r"

definition UpdateCurrentStepIndex ::
  "string \<Rightarrow> int \<Rightarrow> BuildRepository \<Rightarrow> BuildRepository \<times> (go_error + Build)" where
  "UpdateCurrentStepIndex i currentStepIndex r =
     update_build i (\<lambda>build. build\<lparr>b_CurrentStepIndex := currentStepIndex\<rparr>) r"

section \<open>The dependency test\<close>

definition effective_node :: "BuildStep \<Rightarrow> string" where
  "effective_node step =
     (let nodeID = TrimSpace (s_NodeID step)
      in if nodeID = [] then FallbackNodeID (s_StepIndex step) else nodeID)"

text \<open>Later steps overwrite earlier ones with the same node id, as the map writes do.\<close>

definition stepStatusByNodeID :: "BuildStep list \<Rightarrow> (string, BuildStepStatus) gomap" where
  "stepStatusByNodeID steps = fold (\<lambda>step m. gm_put (effective_node step) (s_Status step) m) steps []"

definition isStepRunnable ::
  "BuildStep \<Rightarrow> BuildStep list \<Rightarrow> (string, BuildStepStatus) gomap \<Rightarrow> bool" where
  "isStepRunnable step steps statusByNode =
     (if TrimSpace (s_NodeID step) \<noteq> []
      then list_all (\<lambda>dep. map_of statusByNode (TrimSpace dep) = Some BuildStepStatusSuccess) (s_DependsOnNodes step)
      else list_all (\<lambda>previous. s_StepIndex previous \<ge> s_StepIndex step \<or>
                                s_Status previous = BuildStepStatusSuccess) steps)"

section \<open>Claims and leases\<close>

definition step_at :: "int \<Rightarrow> BuildStep list \<Rightarrow> nat option" where
  "step_at stepIndex steps = find_index (\<lambda>s. s_StepIndex s = stepIndex) steps"

definition ClaimStepIfPending ::
  "string \<Rightarrow> int \<Rightarrow> string option \<Rightarrow> time \<Rightarrow> BuildRepository \<Rightarrow>
     BuildRepository \<times> (go_error + BuildStep option)" where
  "ClaimStepIfPending buildID stepIndex workerID startedAt r =
     (if get_build r buildID = None then (r, Inl ErrBuildNotFound)
      else if \<not> CanTransitionStep BuildStepStatusPending BuildStepStatusRunning
      then (r, Inl ErrInvalidBuildStepTransition)
      else
        (let steps = get_steps r buildID; statusByNode = stepStatusByNodeID steps
         in case step_at stepIndex steps of
              None \<Rightarrow> (r, Inr None)
            | Some idx \<Rightarrow>
                (let st = steps ! idx
                 in if s_Status st \<noteq> BuildStepStatusPending then (r, Inr None)
                    else if \<not> isStepRunnable st steps statusByNode then (r, Inr None)
                    else
                      (let st1 = st\<lparr>s_Status := BuildStepStatusRunning\<rparr>;
                           st2 = (if workerID \<noteq> None then st1\<lparr>s_WorkerID := workerID\<rparr> else st1);
                           st3 = st2\<lparr>s_StartedAt := Some startedAt\<rparr>
                       in (set_steps buildID (steps[idx := st3]) r, Inr (Some (cloneStep st3)))))))"

definition take_claim :: "StepClaim \<Rightarrow> BuildStep \<Rightarrow> BuildStep" where
  "take_claim claim st = st\<lparr>s_WorkerID := Some (c_WorkerID claim), s_ClaimToken := Some (c_ClaimToken claim),
     s_ClaimedAt := Some (c_ClaimedAt claim), s_LeaseExpiresAt := Some (c_LeaseExpiresAt claim)\<rparr>"

definition ClaimPendingStep ::
  "string \<Rightarrow> int \<Rightarrow> StepClaim \<Rightarrow> BuildRepository \<Rightarrow> BuildRepository \<times> (go_error + BuildStep option)" where
  "ClaimPendingStep buildID stepIndex claim r =
     (if get_build r buildID = None then (r, Inl ErrBuildNotFound)
      else if \<not> CanTransitionStep BuildStepStatusPending BuildStepStatusRunning
      then (r, Inl ErrInvalidBuildStepTransition)
      else
        (let steps = get_steps r buildID; statusByNode = stepStatusByNodeID steps
         in case step_at stepIndex steps of
              None \<Rightarrow> (r, Inr None)
            | Some idx \<Rightarrow>
                (let st = steps ! idx
                 in if s_Status st \<noteq> BuildStepStatusPending then (r, Inr None)
                    else if \<not> isStepRunnable st steps statusByNode then (r, Inr None)
                    else
                      (let st1 = take_claim claim (st\<lparr>s_Status := BuildStepStatusRunning\<rparr>);
                           st2 = (if s_StartedAt st1 = None then st1\<lparr>s_StartedAt := Some (c_ClaimedAt claim)\<rparr> else st1)
                       in (set_steps buildID (steps[idx := st2]) r, Inr (Some (cloneStep st2)))))))"

definition ReclaimExpiredStep ::
  "string \<Rightarrow> int \<Rightarrow> time \<Rightarrow> StepClaim \<Rightarrow> BuildRepository \<Rightarrow>
     BuildRepository \<times> (go_error + BuildStep option)" where
  "ReclaimExpiredStep buildID stepIndex reclaimBefore claim r =
     (if get_build r buildID = None then (r, Inl ErrBuildNotFound)
      else
        (let steps = get_steps r buildID
         in case step_at stepIndex steps of
              None \<Rightarrow> (r, Inr None)
            | Some idx \<Rightarrow>
                (let st = steps ! idx
                 in if s_Status st \<noteq> BuildStepStatusRunning then (r, Inr None)
                    else if (case s_LeaseExpiresAt st of None \<Rightarrow> True | Some l \<Rightarrow> l > reclaimBefore)
                    then (r, Inr None)
                    else
                      (let st1 = take_claim claim st
                       in (set_steps buildID (steps[idx := st1]) r, Inr (Some (cloneStep st1)))))))"

definition RenewStepLease ::
  "string \<Rightarrow> int \<Rightarrow> string \<Rightarrow> time \<Rightarrow> BuildRepository \<Rightarrow>
     BuildRepository \<times> BuildStep option \<times> StepCompletionOutcome \<times> go_error option" where
  "RenewStepLease buildID stepIndex claimToken leaseExpiresAt r =
     (if get_build r buildID = None then (r, None, StepCompletionInvalidTransition, Some ErrBuildNotFound)
      else
        (let steps = get_steps r buildID
         in case step_at stepIndex steps of
              None \<Rightarrow> (r, None, StepCompletionInvalidTransition, Some ErrBuildNotFound)
            | Some idx \<Rightarrow>
                (let st = steps ! idx
                 in if IsTerminalStepStatus (s_Status st)
                    then (r, Some (cloneStep st), StepCompletionDuplicateTerminal, None)
                    else if s_Status st \<noteq> BuildStepStatusRunning
                    then (r, None, StepCompletionInvalidTransition, None)
                    else if s_ClaimToken st \<noteq> Some claimToken
                    then (r, Some (cloneStep st), StepCompletionStaleClaim, None)
                    else
                      (let st1 = st\<lparr>s_LeaseExpiresAt := Some leaseExpiresAt\<rparr>
                       in (set_steps buildID (steps[idx := st1]) r, Some (cloneStep st1), StepCompletionCompleted, None)))))"

section \<open>Step updates and completion\<close>

text \<open>The field assignments shared by the three functions that record a step result.\<close>

definition apply_step_update :: "StepUpdate \<Rightarrow> BuildStep \<Rightarrow> BuildStep" where
  "apply_step_update update st =
     (let st1 = st\<lparr>s_Status := u_Status update\<rparr>;
          st2 = (if u_WorkerID update \<noteq> None then st1\<lparr>s_WorkerID := u_WorkerID update\<rparr> else st1);
          st3 = (if u_ExitCode update \<noteq> None then st2\<lparr>s_ExitCode := u_ExitCode update\<rparr> else st2);
          st4 = (if u_Stdout update \<noteq> None then st3\<lparr>s_Stdout := u_Stdout update\<rparr> else st3);
          st5 = (if u_Stderr update \<noteq> None then st4\<lparr>s_Stderr := u_Stderr update\<rparr> else st4);
          st6 = (if u_Status update = BuildStepStatusFailed
                 then st5\<lparr>s_ErrorMessage := u_ErrorMessage update\<rparr> else st5\<lparr>s_ErrorMessage := None\<rparr>);
          st7 = (if u_StartedAt update \<noteq> None then st6\<lparr>s_StartedAt := u_StartedAt update\<rparr> else st6);
          st8 = (if u_FinishedAt update \<noteq> None then st7\<lparr>s_FinishedAt := u_FinishedAt update\<rparr> else st7)
      in st8)"

definition UpdateStepByIndex ::
  "string \<Rightarrow> int \<Rightarrow> StepUpdate \<Rightarrow> BuildRepository \<Rightarrow> BuildRepository \<times> (go_error + BuildStep)" where
  "UpdateStepByIndex buildID stepIndex update r =
     (if get_build r buildID = None then (r, Inl ErrBuildNotFound)
      else
        (let steps = get_steps r buildID
         in case step_at stepIndex steps of
              None \<Rightarrow> (r, Inl ErrBuildNotFound)
            | Some idx \<Rightarrow>
                (let st1 = apply_step_update update (steps ! idx)
                 in (set_steps buildID (steps[idx := st1]) r, Inr (cloneStep st1)))))"

text \<open>The result pairs the step with the flag that says whether it was completed.\<close>

definition CompleteStepIfRunning ::
  "string \<Rightarrow> int \<Rightarrow> StepUpdate \<Rightarrow> BuildRepository \<Rightarrow>
     BuildRepository \<times> (go_error + (BuildStep option \<times> bool))" where
  "CompleteStepIfRunning buildID stepIndex update r =
     (if get_build r buildID = None then (r, Inl ErrBuildNotFound)
      else
        (let steps = get_steps r buildID
         in case step_at stepIndex steps of
              None \<Rightarrow> (r, Inr (None, False))
            | Some idx \<Rightarrow>
                (let st = steps ! idx
                 in if s_Status st \<noteq> BuildStepStatusRunning then (r, Inr (Some (cloneStep st), False))
                    else if \<not> CanTransitionStep (s_Status st) (u_Status update)
                    then (r, Inl ErrInvalidBuildStepTransition)
                    else
                      (let st1 = apply_step_update update st
                       in (set_steps buildID (steps[idx := st1]) r, Inr (Some (cloneStep st1), True))))))"

record buildStepProgressStats =
  ps_totalCount :: nat
  ps_successCount :: nat
  ps_failedCount :: nat
  ps_pendingCount :: nat
  ps_runningCount :: nat

definition count_step :: "BuildStep \<Rightarrow> buildStepProgressStats \<Rightarrow> buildStepProgressStats" where
  "count_step step stats =
     (case s_Status step of
        BuildStepStatusSuccess \<Rightarrow> stats\<lparr>ps_successCount := Suc (ps_successCount stats)\<rparr>
      | BuildStepStatusFailed \<Rightarrow> stats\<lparr>ps_failedCount := Suc (ps_failedCount stats)\<rparr>
      | BuildStepStatusPending \<Rightarrow> stats\<lparr>ps_pendingCount := Suc (ps_pendingCount stats)\<rparr>
      | BuildStepStatusRunning \<Rightarrow> stats\<lparr>ps_runningCount := Suc (ps_runningCount stats)\<rparr>
      | BuildStepStatusCanceled \<Rightarrow> stats)"

definition loadBuildStepProgressStats :: "BuildStep list \<Rightarrow> buildStepProgressStats" where
  "loadBuildStepProgressStats steps =
     fold count_step steps
       \<lparr>ps_totalCount = length steps, ps_successCount = 0, ps_failedCount = 0, ps_pendingCount = 0, ps_runningCount = 0\<rparr>"

definition progress_message :: string where
  "progress_message = ''build cannot make further progress toward success''"

text \<open>
  The tail of \<open>completeStepLocked\<close>: how the build moves once its step list is updated. \<open>None\<close> is
  the early return with an invalid transition.
\<close>

definition advance_build :: "time \<Rightarrow> BuildStep list \<Rightarrow> string option \<Rightarrow> Build \<Rightarrow> Build option" where
  "advance_build now steps stepError build =
     (let stats = loadBuildStepProgressStats steps
      in if ps_totalCount stats > 0 \<and> ps_successCount stats = ps_totalCount stats then
           (if \<not> CanTransitionBuild (b_Status build) BuildStatusSuccess then None
            else Some (build\<lparr>b_Status := BuildStatusSuccess, b_FinishedAt := Some now, b_ErrorMessage := None\<rparr>))
         else if ps_runningCount stats = 0 then
           (let statusByNode = stepStatusByNodeID steps;
                runnableExists = list_ex (\<lambda>candidate. s_Status candidate = BuildStepStatusPending \<and>
                                            isStepRunnable candidate steps statusByNode) steps
            in if \<not> runnableExists \<and> (ps_failedCount stats > 0 \<or> ps_pendingCount stats > 0) then
                 (if \<not> CanTransitionBuild (b_Status build) BuildStatusFailed then None
                  else Some (build\<lparr>b_Status := BuildStatusFailed, b_FinishedAt := Some now,
                               b_ErrorMessage := (case stepError of Some e \<Rightarrow> Some e
                                                  | None \<Rightarrow> Some progress_message)\<rparr>))
               else Some build)
         else Some build)"

definition clear_claim :: "BuildStep \<Rightarrow> BuildStep" where
  "clear_claim st = st\<lparr>s_ClaimToken := None, s_ClaimedAt := None, s_LeaseExpiresAt := None\<rparr>"

text \<open>
  The step slice is updated in place before the build is examined, so the early return of
  \<open>advance_build\<close> would leave the updated steps behind: the model keeps that.
\<close>

definition completeStepLocked ::
  "time \<Rightarrow> CompleteStepRequest \<Rightarrow> BuildRepository \<Rightarrow>
     BuildRepository \<times> BuildStep option \<times> StepCompletionOutcome \<times> go_error option" where
  "completeStepLocked now request r =
     (case get_build r (r_BuildID request) of
        None \<Rightarrow> (r, None, StepCompletionInvalidTransition, Some ErrBuildNotFound)
      | Some build \<Rightarrow>
          (let steps = get_steps r (r_BuildID request)
           in case step_at (r_StepIndex request) steps of
                None \<Rightarrow> (r, None, StepCompletionInvalidTransition, Some ErrBuildNotFound)
              | Some idx \<Rightarrow>
                  (let st = steps ! idx;
                       claimMatches = (if r_RequireClaim request
                                       then s_ClaimToken st = Some (r_ClaimToken request) else True);
                       completion = DecideStepCompletion (s_Status st) (u_Status (r_Update request))
                                      (r_RequireClaim request) claimMatches
                   in if \<not> scd_AllowUpdate completion then
                        (if scd_Outcome completion = StepCompletionDuplicateTerminal
                         then (r, Some (cloneStep st), scd_Outcome completion, None)
                         else if scd_Outcome completion = StepCompletionStaleClaim
                         then (r, Some (cloneStep st), scd_Outcome completion, None)
                         else (r, None, scd_Outcome completion, None))
                      else if b_Status build \<noteq> BuildStatusRunning
                      then (r, None, StepCompletionInvalidTransition, None)
                      else
                        (let st1 = apply_step_update (r_Update request) st;
                             st2 = (if IsTerminalStepStatus (u_Status (r_Update request))
                                    then clear_claim st1 else st1);
                             steps1 = steps[idx := st2];
                             build1 = (if u_Status (r_Update request) = BuildStepStatusSuccess \<and>
                                          wrap64 (r_StepIndex request + 1) > b_CurrentStepIndex build
                                       then build\<lparr>b_CurrentStepIndex := wrap64 (r_StepIndex request + 1)\<rparr>
                                       else build)
                         in case advance_build now steps1 (s_ErrorMessage st2) build1 of
                              None \<Rightarrow> (set_steps (r_BuildID request) steps1 r, None,
                                        StepCompletionInvalidTransition, None)
                            | Some build2 \<Rightarrow>
                                (set_steps (r_BuildID request) steps1 (storeBuildLocked build2 r),
                                 Some (cloneStep st2), StepCompletionCompleted, None)))))"

definition CompleteStep ::
  "time \<Rightarrow> CompleteStepRequest \<Rightarrow> BuildRepository \<Rightarrow>
     BuildRepository \<times> BuildStep option \<times> StepCompletionOutcome \<times> go_error option" where
  "CompleteStep now request r = completeStepLocked now request r"

section \<open>Cancellation\<close>

definition cancel_step :: "string option \<Rightarrow> time \<Rightarrow> BuildStep \<Rightarrow> BuildStep" where
  "cancel_step reasonPtr canceledAt st =
     (if \<not> CanCancelStep (s_Status st) then st
      else
        (let st1 = clear_claim (st\<lparr>s_Status := BuildStepStatusCanceled\<rparr>);
             st2 = (if s_StartedAt st1 = None then st1\<lparr>s_StartedAt := Some canceledAt\<rparr> else st1);
             st3 = (if s_FinishedAt st2 = None then st2\<lparr>s_FinishedAt := Some canceledAt\<rparr> else st2)
         in if reasonPtr \<noteq> None then st3\<lparr>s_ErrorMessage := reasonPtr\<rparr> else st3))"

definition CancelBuild ::
  "string \<Rightarrow> string \<Rightarrow> time \<Rightarrow> BuildRepository \<Rightarrow> BuildRepository \<times> (go_error + (Build \<times> nat))" where
  "CancelBuild i reason canceledAt r =
     (case get_build r i of
        None \<Rightarrow> (r, Inl ErrBuildNotFound)
      | Some build \<Rightarrow>
          (if \<not> CanCancelBuild (b_Status build) then (r, Inl ErrInvalidBuildStatusTransition)
           else
             (let trimmedReason = TrimSpace reason;
                  reasonPtr = (if trimmedReason = [] then None else Some trimmedReason);
                  steps = get_steps r i;
                  updatedSteps = length (filter (\<lambda>st. CanCancelStep (s_Status st)) steps);
                  r1 = set_steps i (map (cancel_step reasonPtr canceledAt) steps) r;
                  build1 = build\<lparr>b_Status := BuildStatusCanceled\<rparr>;
                  build2 = (if b_FinishedAt build1 = None then build1\<lparr>b_FinishedAt := Some canceledAt\<rparr> else build1);
                  build3 = build2\<lparr>b_ErrorMessage := reasonPtr\<rparr>
              in (storeBuildLocked build3 r1, Inr (cloneBuildApplicationVersion build3, updatedSteps)))))"

section \<open>Basic facts\<close>

lemma cloneBuildApplicationVersion_id [simp]: "cloneBuildApplicationVersion build = build"
  by (cases "b_ApplicationVersion build") (simp_all add: cloneBuildApplicationVersion_def)

lemma get_build_store [simp]:
  "get_build (storeBuildLocked b r) i = (if i = b_ID b then Some b else get_build r i)"
  by (simp add: storeBuildLocked_def get_build_def)

lemma get_build_set_steps [simp]: "get_build (set_steps j steps r) i = get_build r i"
  by (simp add: set_steps_def get_build_def)

lemma get_steps_set_steps [simp]:
  "get_steps (set_steps j steps r) i = (if i = j then steps else get_steps r i)"
  by (simp add: set_steps_def get_steps_def)

lemma get_steps_store [simp]: "get_steps (storeBuildLocked b r) i = get_steps r i"
  by (simp add: storeBuildLocked_def get_steps_def)

lemma counters_frame [simp]:
  "br_nextNumberByJob (set_steps j steps r) = br_nextNumberByJob r"
  "br_nextAnonymousNumber (set_steps j steps r) = br_nextAnonymousNumber r"
  "br_nextNumberByJob (storeBuildLocked b r) = br_nextNumberByJob r"
  "br_nextAnonymousNumber (storeBuildLocked b r) = br_nextAnonymousNumber r"
  by (simp_all add: set_steps_def storeBuildLocked_def)

lemma get_new [simp]: "get_build NewBuildRepository i = None" "get_steps NewBuildRepository i = []"
  by (simp_all add: NewBuildRepository_def get_build_def get_steps_def)

lemma cloneStep_sel [simp]:
  "s_StepIndex (cloneStep st) = s_StepIndex st" "s_Status (cloneStep st) = s_Status st"
  "s_ClaimToken (cloneStep st) = s_ClaimToken st" "s_LeaseExpiresAt (cloneStep st) = s_LeaseExpiresAt st"
  "s_BuildID (cloneStep st) = s_BuildID st" "s_NodeID (cloneStep st) = s_NodeID st"
  "s_DependsOnNodes (cloneStep st) = s_DependsOnNodes st" "s_ID (cloneStep st) = s_ID st"
  by (simp_all add: cloneStep_def)

lemma cloneStep_idem [simp]: "cloneStep (cloneStep st) = cloneStep st"
  by (simp add: cloneStep_def)

lemma step_atD:
  assumes "step_at k steps = Some idx"
  shows "idx < length steps" "s_StepIndex (steps ! idx) = k"
  using find_index_SomeD [OF assms [unfolded step_at_def]] by auto

lemma step_at_distinct:
  assumes "distinct (map s_StepIndex steps)" "j < length steps"
  shows "step_at (s_StepIndex (steps ! j)) steps = Some j"
proof -
  have "step_at (s_StepIndex (steps ! j)) steps \<noteq> None" using assms(2) by (auto simp: step_at_def find_index_None)
  then obtain i where i: "step_at (s_StepIndex (steps ! j)) steps = Some i" by auto
  with step_atD [OF i] assms have "i = j" by (auto simp: distinct_conv_nth)
  with i show ?thesis by simp
qed

lemma step_at_update:
  "step_at k steps = Some idx \<Longrightarrow> s_StepIndex st = k \<Longrightarrow> step_at k (steps[idx := st]) = Some idx"
  unfolding step_at_def by (rule find_index_update) auto

interpretation step_order: comparator step_less s_StepIndex
  by unfold_locales (simp add: step_less_def)

text \<open>The update functions keep a step's identity; only the fields of the result change.\<close>

lemma apply_step_update_sel [simp]:
  "s_Status (apply_step_update u st) = u_Status u"
  "s_StepIndex (apply_step_update u st) = s_StepIndex st"
  "s_BuildID (apply_step_update u st) = s_BuildID st"
  "s_NodeID (apply_step_update u st) = s_NodeID st"
  "s_ID (apply_step_update u st) = s_ID st"
  "s_DependsOnNodes (apply_step_update u st) = s_DependsOnNodes st"
  "s_ClaimToken (apply_step_update u st) = s_ClaimToken st"
  "s_ErrorMessage (apply_step_update u st) =
     (if u_Status u = BuildStepStatusFailed then u_ErrorMessage u else None)"
  by (simp_all add: apply_step_update_def Let_def)

lemma take_claim_sel [simp]:
  "s_Status (take_claim c st) = s_Status st" "s_StepIndex (take_claim c st) = s_StepIndex st"
  "s_BuildID (take_claim c st) = s_BuildID st" "s_NodeID (take_claim c st) = s_NodeID st"
  "s_ID (take_claim c st) = s_ID st" "s_DependsOnNodes (take_claim c st) = s_DependsOnNodes st"
  "s_ClaimToken (take_claim c st) = Some (c_ClaimToken c)"
  "s_LeaseExpiresAt (take_claim c st) = Some (c_LeaseExpiresAt c)"
  "s_StartedAt (take_claim c st) = s_StartedAt st"
  by (simp_all add: take_claim_def)

lemma clear_claim_sel [simp]:
  "s_Status (clear_claim st) = s_Status st" "s_StepIndex (clear_claim st) = s_StepIndex st"
  "s_BuildID (clear_claim st) = s_BuildID st" "s_NodeID (clear_claim st) = s_NodeID st"
  "s_ID (clear_claim st) = s_ID st" "s_DependsOnNodes (clear_claim st) = s_DependsOnNodes st"
  "s_ClaimToken (clear_claim st) = None" "s_LeaseExpiresAt (clear_claim st) = None"
  "s_ErrorMessage (clear_claim st) = s_ErrorMessage st"
  by (simp_all add: clear_claim_def)

lemma cancel_step_sel [simp]:
  "s_StepIndex (cancel_step m t st) = s_StepIndex st"
  "s_BuildID (cancel_step m t st) = s_BuildID st" "s_NodeID (cancel_step m t st) = s_NodeID st"
  "s_ID (cancel_step m t st) = s_ID st" "s_DependsOnNodes (cancel_step m t st) = s_DependsOnNodes st"
  "s_Status (cancel_step m t st) =
     (if CanCancelStep (s_Status st) then BuildStepStatusCanceled else s_Status st)"
  by (simp_all add: cancel_step_def Let_def)

lemma cancel_step_terminal: "IsTerminalStepStatus (s_Status st) \<Longrightarrow> cancel_step m t st = st"
  by (simp add: cancel_step_def CanCancelStep_iff)

end
