(* ===== verification/Step_Completion.thy ===== *)
theory Step_Completion
  imports Build_Repository
begin

text \<open>
  What guarded completion promises (\<open>CompleteStep\<close> of \<open>repository/memory/build_repository.go\<close>):
  when a report is accepted, that a rejected report changes nothing, and that the status of
  the build is the one derived from the statuses of its steps.
\<close>

section \<open>Progress statistics count steps\<close>

abbreviation count_status :: "BuildStepStatus \<Rightarrow> BuildStep list \<Rightarrow> nat" where
  "count_status s steps \<equiv> length (filter (\<lambda>st. s_Status st = s) steps)"

lemma fold_count_step:
  "ps_totalCount (fold count_step steps acc) = ps_totalCount acc"
  "ps_successCount (fold count_step steps acc) = ps_successCount acc + count_status BuildStepStatusSuccess steps"
  "ps_failedCount (fold count_step steps acc) = ps_failedCount acc + count_status BuildStepStatusFailed steps"
  "ps_pendingCount (fold count_step steps acc) = ps_pendingCount acc + count_status BuildStepStatusPending steps"
  "ps_runningCount (fold count_step steps acc) = ps_runningCount acc + count_status BuildStepStatusRunning steps"
  by (induction steps arbitrary: acc) (simp_all add: count_step_def split: BuildStepStatus.splits)

lemma stats_counts [simp]:
  "ps_totalCount (loadBuildStepProgressStats steps) = length steps"
  "ps_successCount (loadBuildStepProgressStats steps) = count_status BuildStepStatusSuccess steps"
  "ps_failedCount (loadBuildStepProgressStats steps) = count_status BuildStepStatusFailed steps"
  "ps_pendingCount (loadBuildStepProgressStats steps) = count_status BuildStepStatusPending steps"
  "ps_runningCount (loadBuildStepProgressStats steps) = count_status BuildStepStatusRunning steps"
  by (simp_all add: loadBuildStepProgressStats_def fold_count_step)

lemma count_status_pos: "0 < count_status s steps \<longleftrightarrow> (\<exists>st \<in> set steps. s_Status st = s)"
  by (auto simp: filter_empty_conv)

lemma count_status_zero: "count_status s steps = 0 \<longleftrightarrow> (\<forall>st \<in> set steps. s_Status st \<noteq> s)"
  by (auto simp: filter_empty_conv)

lemma count_status_all: "count_status s steps = length steps \<longleftrightarrow> (\<forall>st \<in> set steps. s_Status st = s)"
proof
  assume "count_status s steps = length steps"
  then show "\<forall>st \<in> set steps. s_Status st = s"
    by (metis (mono_tags, lifting) length_filter_less less_irrefl)
next
  assume "\<forall>st \<in> set steps. s_Status st = s"
  then show "count_status s steps = length steps" by simp
qed

section \<open>The derived build status\<close>

definition all_succeeded :: "BuildStep list \<Rightarrow> bool" where
  "all_succeeded steps \<longleftrightarrow> steps \<noteq> [] \<and> (\<forall>st \<in> set steps. s_Status st = BuildStepStatusSuccess)"

definition runnable_pending :: "BuildStep list \<Rightarrow> bool" where
  "runnable_pending steps \<longleftrightarrow>
     (\<exists>st \<in> set steps. s_Status st = BuildStepStatusPending \<and>
        isStepRunnable st steps (stepStatusByNodeID steps))"

text \<open>A running build is out of work: nothing runs, nothing can start, and something is left over.\<close>

definition out_of_work :: "BuildStep list \<Rightarrow> bool" where
  "out_of_work steps \<longleftrightarrow>
     (\<forall>st \<in> set steps. s_Status st \<noteq> BuildStepStatusRunning) \<and> \<not> runnable_pending steps \<and>
     (\<exists>st \<in> set steps. s_Status st = BuildStepStatusFailed \<or> s_Status st = BuildStepStatusPending)"

text \<open>The contract of build progression: a function of the step list alone.\<close>

definition derived_status :: "BuildStep list \<Rightarrow> BuildStatus" where
  "derived_status steps =
     (if all_succeeded steps then BuildStatusSuccess
      else if out_of_work steps then BuildStatusFailed
      else BuildStatusRunning)"

lemma advance_build_running:
  assumes "b_Status build = BuildStatusRunning"
  shows "\<exists>build'. advance_build now steps err build = Some build' \<and> b_ID build' = b_ID build \<and>
           b_Status build' = derived_status steps \<and>
           b_ApplicationVersion build' = b_ApplicationVersion build \<and>
           b_BuildNumber build' = b_BuildNumber build \<and> b_JobID build' = b_JobID build"
proof -
  have all: "(0 < length steps \<and> count_status BuildStepStatusSuccess steps = length steps) = all_succeeded steps"
    unfolding all_succeeded_def count_status_all by auto
  have run: "(count_status BuildStepStatusRunning steps = 0) = (\<forall>st \<in> set steps. s_Status st \<noteq> BuildStepStatusRunning)"
    by (rule count_status_zero)
  have rest: "(0 < count_status BuildStepStatusFailed steps \<or> 0 < count_status BuildStepStatusPending steps)
    = (\<exists>st \<in> set steps. s_Status st = BuildStepStatusFailed \<or> s_Status st = BuildStepStatusPending)"
    unfolding count_status_pos by blast
  have ex: "list_ex (\<lambda>candidate. s_Status candidate = BuildStepStatusPending \<and>
      isStepRunnable candidate steps (stepStatusByNodeID steps)) steps = runnable_pending steps"
    by (simp add: runnable_pending_def list_ex_iff)
  show ?thesis
    unfolding advance_build_def Let_def stats_counts all ex run rest derived_status_def out_of_work_def
    using assms by (simp split: option.split)
qed

lemma advance_build_some: "b_Status build = BuildStatusRunning \<Longrightarrow> advance_build now steps err build \<noteq> None"
  using advance_build_running by fastforce

section \<open>When a report is accepted\<close>

text \<open>The guard of an accepted completion, read off the stored state.\<close>

definition completable :: "CompleteStepRequest \<Rightarrow> BuildRepository \<Rightarrow> bool" where
  "completable req r \<longleftrightarrow>
     (\<exists>build idx. get_build r (r_BuildID req) = Some build \<and> b_Status build = BuildStatusRunning \<and>
        step_at (r_StepIndex req) (get_steps r (r_BuildID req)) = Some idx \<and>
        s_Status (get_steps r (r_BuildID req) ! idx) = BuildStepStatusRunning \<and>
        CanTransitionStep BuildStepStatusRunning (u_Status (r_Update req)) \<and>
        (r_RequireClaim req \<longrightarrow>
           s_ClaimToken (get_steps r (r_BuildID req) ! idx) = Some (r_ClaimToken req)))"

text \<open>The step that an accepted completion writes.\<close>

definition completed_step :: "CompleteStepRequest \<Rightarrow> BuildStep \<Rightarrow> BuildStep" where
  "completed_step req st = clear_claim (apply_step_update (r_Update req) st)"

lemma CanTransitionStep_terminal: "CanTransitionStep BuildStepStatusRunning t \<Longrightarrow> IsTerminalStepStatus t"
  by (auto simp: status_simps)

lemma completeStepLocked_accept:
  assumes "completable req r"
  obtains build idx build' where
    "get_build r (r_BuildID req) = Some build" "b_Status build = BuildStatusRunning"
    "step_at (r_StepIndex req) (get_steps r (r_BuildID req)) = Some idx"
    "b_ID build' = b_ID build"
    "b_Status build' = derived_status ((get_steps r (r_BuildID req))[idx := completed_step req (get_steps r (r_BuildID req) ! idx)])"
    "b_ApplicationVersion build' = b_ApplicationVersion build"
    "b_BuildNumber build' = b_BuildNumber build" "b_JobID build' = b_JobID build"
    "completeStepLocked now req r =
       (set_steps (r_BuildID req)
          ((get_steps r (r_BuildID req))[idx := completed_step req (get_steps r (r_BuildID req) ! idx)])
          (storeBuildLocked build' r),
        Some (cloneStep (completed_step req (get_steps r (r_BuildID req) ! idx))),
        StepCompletionCompleted, None)"
proof -
  let ?steps = "get_steps r (r_BuildID req)"
  from assms obtain build idx where
    b: "get_build r (r_BuildID req) = Some build" "b_Status build = BuildStatusRunning" and
    i: "step_at (r_StepIndex req) ?steps = Some idx" and
    s: "s_Status (?steps ! idx) = BuildStepStatusRunning" and
    t: "CanTransitionStep BuildStepStatusRunning (u_Status (r_Update req))" and
    c: "r_RequireClaim req \<longrightarrow> s_ClaimToken (?steps ! idx) = Some (r_ClaimToken req)"
    unfolding completable_def by blast
  let ?build1 = "if u_Status (r_Update req) = BuildStepStatusSuccess \<and>
       wrap64 (r_StepIndex req + 1) > b_CurrentStepIndex build
     then build\<lparr>b_CurrentStepIndex := wrap64 (r_StepIndex req + 1)\<rparr> else build"
  let ?st = "completed_step req (?steps ! idx)"
  have st: "(if IsTerminalStepStatus (u_Status (r_Update req))
      then clear_claim (apply_step_update (r_Update req) (?steps ! idx))
      else apply_step_update (r_Update req) (?steps ! idx)) = ?st"
    using CanTransitionStep_terminal [OF t] by (simp add: completed_step_def)
  have b1: "b_Status ?build1 = BuildStatusRunning" "b_ID ?build1 = b_ID build"
    "b_ApplicationVersion ?build1 = b_ApplicationVersion build"
    "b_BuildNumber ?build1 = b_BuildNumber build" "b_JobID ?build1 = b_JobID build"
    using b by simp_all
  obtain build' where adv: "advance_build now (?steps[idx := ?st]) (s_ErrorMessage ?st) ?build1 = Some build'"
    and f: "b_ID build' = b_ID build" "b_Status build' = derived_status (?steps[idx := ?st])"
      "b_ApplicationVersion build' = b_ApplicationVersion build"
      "b_BuildNumber build' = b_BuildNumber build" "b_JobID build' = b_JobID build"
    using advance_build_running [OF b1(1), of now "?steps[idx := ?st]" "s_ErrorMessage ?st"] b1(2-) by auto
  have allow: "scd_AllowUpdate (DecideStepCompletion (s_Status (?steps ! idx)) (u_Status (r_Update req))
     (r_RequireClaim req) (if r_RequireClaim req then s_ClaimToken (?steps ! idx) = Some (r_ClaimToken req) else True))"
    using s t c by (simp add: DecideStepCompletion_allow)
  have "completeStepLocked now req r =
       (set_steps (r_BuildID req) (?steps[idx := ?st]) (storeBuildLocked build' r),
        Some (cloneStep ?st), StepCompletionCompleted, None)"
    unfolding completeStepLocked_def Let_def b(1) option.case i st
    using allow b(2) adv by simp
  with b i f show thesis using that by blast
qed

lemma completeStepLocked_reject:
  assumes "\<not> completable req r"
  shows "fst (completeStepLocked now req r) = r"
    and "fst (snd (snd (completeStepLocked now req r))) \<noteq> StepCompletionCompleted"
proof -
  let ?steps = "get_steps r (r_BuildID req)"
  have "fst (completeStepLocked now req r) = r \<and>
        fst (snd (snd (completeStepLocked now req r))) \<noteq> StepCompletionCompleted"
  proof (cases "get_build r (r_BuildID req)")
    case None
    then show ?thesis by (simp add: completeStepLocked_def)
  next
    case (Some build)
    show ?thesis
    proof (cases "step_at (r_StepIndex req) ?steps")
      case None
      with Some show ?thesis by (simp add: completeStepLocked_def)
    next
      case i: (Some idx)
      let ?c = "DecideStepCompletion (s_Status (?steps ! idx)) (u_Status (r_Update req)) (r_RequireClaim req)
         (if r_RequireClaim req then s_ClaimToken (?steps ! idx) = Some (r_ClaimToken req) else True)"
      show ?thesis
      proof (cases "scd_AllowUpdate ?c")
        case True
        then have "b_Status build \<noteq> BuildStatusRunning"
          using assms Some i unfolding completable_def DecideStepCompletion_allow
          by (auto split: if_splits)
        then show ?thesis
          unfolding completeStepLocked_def Let_def Some option.case i using True by simp
      next
        case False
        define c where "c = ?c"
        from False have "scd_Outcome c \<noteq> StepCompletionCompleted" "\<not> scd_AllowUpdate c"
          by (simp_all only: c_def DecideStepCompletion_completed not_False_eq_True)
        then show ?thesis
          unfolding completeStepLocked_def Let_def Some option.case i c_def [symmetric] by simp
      qed
    qed
  qed
  then show "fst (completeStepLocked now req r) = r"
    and "fst (snd (snd (completeStepLocked now req r))) \<noteq> StepCompletionCompleted" by simp_all
qed

lemma completeStepLocked_outcome:
  "fst (snd (snd (completeStepLocked now req r))) = StepCompletionCompleted \<longleftrightarrow> completable req r"
  by (metis completeStepLocked_accept completeStepLocked_reject(2) fst_conv snd_conv)

end
