(* ===== verification/Store_Invariant.thy ===== *)
theory Store_Invariant
  imports Step_Completion
begin

text \<open>
  The invariant of the build store and the evolution of its steps. \<open>store_step\<close> is the step
  relation of the store, with one rule per method of \<open>BuildRepository\<close> that writes; every
  reachable store satisfies \<open>repo_wf\<close>. For the guarded methods (claims, renewals, completions,
  cancellation) the theory shows that every step follows the step lifecycle and that a
  terminal step never changes; the service layer builds on these facts.
\<close>

section \<open>Well-formed stores\<close>

definition repo_wf :: "BuildRepository \<Rightarrow> bool" where
  "repo_wf r \<longleftrightarrow>
     gm_ok (br_builds r) \<and> gm_ok (br_buildSteps r) \<and>
     (\<forall>i b. get_build r i = Some b \<longrightarrow> b_ID b = i) \<and>
     (\<forall>i. get_steps r i \<noteq> [] \<longrightarrow> get_build r i \<noteq> None) \<and>
     (\<forall>i. sorted (map s_StepIndex (get_steps r i))) \<and>
     (\<forall>i. \<forall>st \<in> set (get_steps r i). s_BuildID st = i)"

lemma repo_wfD:
  assumes "repo_wf r"
  shows "gm_ok (br_builds r)" "gm_ok (br_buildSteps r)"
    "get_build r i = Some b \<Longrightarrow> b_ID b = i"
    "get_steps r i \<noteq> [] \<Longrightarrow> get_build r i \<noteq> None"
    "sorted (map s_StepIndex (get_steps r i))"
    "st \<in> set (get_steps r i) \<Longrightarrow> s_BuildID st = i"
  using assms unfolding repo_wf_def by auto

lemma repo_wf_new: "repo_wf NewBuildRepository"
  unfolding repo_wf_def by (simp, simp add: NewBuildRepository_def)

lemma repo_wf_counters:
  "br_builds r' = br_builds r \<Longrightarrow> br_buildSteps r' = br_buildSteps r \<Longrightarrow> repo_wf r \<Longrightarrow> repo_wf r'"
  unfolding repo_wf_def get_build_def get_steps_def by metis

lemma repo_wf_store [intro]: "repo_wf r \<Longrightarrow> repo_wf (storeBuildLocked b r)"
  unfolding repo_wf_def by (auto, auto simp: storeBuildLocked_def)

lemma repo_wf_set_steps:
  assumes "repo_wf r" "get_build r i \<noteq> None" "sorted (map s_StepIndex steps)"
    "\<And>st. st \<in> set steps \<Longrightarrow> s_BuildID st = i"
  shows "repo_wf (set_steps i steps r)"
proof -
  have "br_builds (set_steps i steps r) = br_builds r" "gm_ok (br_buildSteps (set_steps i steps r))"
    using assms(1) by (auto simp: set_steps_def dest: repo_wfD)
  with assms show ?thesis
    unfolding repo_wf_def by simp
qed

text \<open>Replacing steps one for one, with their index and build kept, keeps the invariant.\<close>

lemma repo_wf_replace:
  assumes wf: "repo_wf r" and "map s_StepIndex steps = map s_StepIndex (get_steps r i)"
    and "map s_BuildID steps = map s_BuildID (get_steps r i)" and "get_build r i \<noteq> None"
  shows "repo_wf (set_steps i steps r)"
proof (rule repo_wf_set_steps [OF wf assms(4)])
  show "sorted (map s_StepIndex steps)" using repo_wfD(5) [OF wf, of i] assms(2) by simp
  fix st assume "st \<in> set steps"
  then have "s_BuildID st \<in> set (map s_BuildID (get_steps r i))" by (metis assms(3) image_eqI list.set_map)
  then show "s_BuildID st = i" using repo_wfD(6) [OF wf] by auto
qed

lemma map_update_same: "idx < length xs \<Longrightarrow> f x = f (xs ! idx) \<Longrightarrow> map f (xs[idx := x]) = map f xs"
  by (metis list_update_id map_update)

lemma repo_wf_update_step:
  assumes "repo_wf r" "get_build r i \<noteq> None" "step_at k (get_steps r i) = Some idx"
    "s_StepIndex st = s_StepIndex (get_steps r i ! idx)" "s_BuildID st = s_BuildID (get_steps r i ! idx)"
  shows "repo_wf (set_steps i ((get_steps r i)[idx := st]) r)"
  using step_atD(1) [OF assms(3)] assms by (intro repo_wf_replace) (auto simp: map_update_same)

section \<open>How steps evolve\<close>

definition step_evolves :: "BuildStep \<Rightarrow> BuildStep \<Rightarrow> bool" where
  "step_evolves a b \<longleftrightarrow>
     s_ID b = s_ID a \<and> s_BuildID b = s_BuildID a \<and> s_StepIndex b = s_StepIndex a \<and>
     s_NodeID b = s_NodeID a \<and> s_DependsOnNodes b = s_DependsOnNodes a \<and>
     step_move\<^sup>*\<^sup>* (s_Status a) (s_Status b) \<and> (IsTerminalStepStatus (s_Status a) \<longrightarrow> b = a)"

text \<open>
  One store evolves into another when every step that was there is still at its place and has
  evolved; builds and steps may have been added.
\<close>

definition evolves :: "BuildRepository \<Rightarrow> BuildRepository \<Rightarrow> bool" where
  "evolves r r' \<longleftrightarrow>
     (\<forall>i k. k < length (get_steps r i) \<longrightarrow>
        k < length (get_steps r' i) \<and> step_evolves (get_steps r i ! k) (get_steps r' i ! k))"

lemma step_evolves_refl [simp, intro]: "step_evolves a a"
  by (simp add: step_evolves_def)

lemma step_evolves_trans: "step_evolves a b \<Longrightarrow> step_evolves b c \<Longrightarrow> step_evolves a c"
  unfolding step_evolves_def by (auto intro: rtranclp_trans)

lemma evolves_refl [simp, intro]: "evolves r r"
  by (simp add: evolves_def)

lemma evolves_trans: "evolves a b \<Longrightarrow> evolves b c \<Longrightarrow> evolves a c"
  unfolding evolves_def by (meson step_evolves_trans)

lemma evolves_frame: "br_buildSteps r' = br_buildSteps r \<Longrightarrow> evolves r r'"
  by (simp add: evolves_def get_steps_def)

lemma evolves_store [intro]: "evolves r (storeBuildLocked b r)"
  by (rule evolves_frame) (simp add: storeBuildLocked_def)

lemma evolves_set_steps:
  assumes "\<And>k. k < length (get_steps r i) \<Longrightarrow>
      k < length steps \<and> step_evolves (get_steps r i ! k) (steps ! k)"
  shows "evolves r (set_steps i steps r)"
  using assms by (simp add: evolves_def)

lemma evolves_update_step:
  assumes "step_evolves (get_steps r i ! idx) st"
  shows "evolves r (set_steps i ((get_steps r i)[idx := st]) r)"
proof (rule evolves_set_steps)
  fix k assume k: "k < length (get_steps r i)"
  then show "k < length ((get_steps r i)[idx := st]) \<and>
      step_evolves (get_steps r i ! k) ((get_steps r i)[idx := st] ! k)"
    using assms by (cases "k = idx") simp_all
qed

lemma step_evolvesI:
  assumes "s_ID b = s_ID a" "s_BuildID b = s_BuildID a" "s_StepIndex b = s_StepIndex a"
    "s_NodeID b = s_NodeID a" "s_DependsOnNodes b = s_DependsOnNodes a"
    "s_Status b = s_Status a \<or> step_move (s_Status a) (s_Status b)" "\<not> IsTerminalStepStatus (s_Status a)"
  shows "step_evolves a b"
  using assms unfolding step_evolves_def by auto

section \<open>Effect of the guarded methods\<close>

text \<open>
  Each guarded method either leaves the store as it is or replaces one step of an existing
  build by one that evolves from it.
\<close>

definition one_step :: "BuildRepository \<Rightarrow> BuildRepository \<Rightarrow> bool" where
  "one_step r r' \<longleftrightarrow> r' = r \<or>
     (\<exists>i k idx st. get_build r i \<noteq> None \<and> step_at k (get_steps r i) = Some idx \<and>
        step_evolves (get_steps r i ! idx) st \<and> r' = set_steps i ((get_steps r i)[idx := st]) r)"

lemma one_stepI:
  "get_build r i \<noteq> None \<Longrightarrow> step_at k (get_steps r i) = Some idx \<Longrightarrow>
   step_evolves (get_steps r i ! idx) st \<Longrightarrow> one_step r (set_steps i ((get_steps r i)[idx := st]) r)"
  unfolding one_step_def by blast

lemma one_step_refl [simp]: "one_step r r"
  by (simp add: one_step_def)

lemma one_step_wf: "one_step r r' \<Longrightarrow> repo_wf r \<Longrightarrow> repo_wf r'"
  unfolding one_step_def by (auto simp: step_evolves_def intro!: repo_wf_update_step)

lemma one_step_evolves: "one_step r r' \<Longrightarrow> evolves r r'"
  unfolding one_step_def by (auto intro: evolves_update_step)

lemma pending_to_running: "step_move BuildStepStatusPending BuildStepStatusRunning"
  by (simp add: step_move_def)

lemma ClaimStepIfPending_one_step: "one_step r (fst (ClaimStepIfPending i k w t r))"
  unfolding ClaimStepIfPending_def Let_def
  by (auto split: option.split intro!: one_stepI step_evolvesI simp: pending_to_running)

lemma ClaimPendingStep_one_step: "one_step r (fst (ClaimPendingStep i k c r))"
  unfolding ClaimPendingStep_def Let_def
  by (auto split: option.split intro!: one_stepI step_evolvesI simp: pending_to_running)

lemma ReclaimExpiredStep_one_step: "one_step r (fst (ReclaimExpiredStep i k b c r))"
  unfolding ReclaimExpiredStep_def Let_def
  by (auto split: option.split intro!: one_stepI step_evolvesI)

lemma RenewStepLease_one_step: "one_step r (fst (RenewStepLease i k tok l r))"
  unfolding RenewStepLease_def Let_def
  by (auto split: option.split intro!: one_stepI step_evolvesI)

lemma CompleteStepIfRunning_one_step: "one_step r (fst (CompleteStepIfRunning i k u r))"
  unfolding CompleteStepIfRunning_def Let_def
  by (auto split: option.split intro!: one_stepI step_evolvesI simp: step_move_def)

lemmas one_step_methods =
  ClaimStepIfPending_one_step ClaimPendingStep_one_step ReclaimExpiredStep_one_step
  RenewStepLease_one_step CompleteStepIfRunning_one_step

lemma completed_step_evolves:
  assumes "s_Status st = BuildStepStatusRunning"
    and "CanTransitionStep BuildStepStatusRunning (u_Status (r_Update req))"
  shows "step_evolves st (completed_step req st)"
  using assms by (intro step_evolvesI) (auto simp: completed_step_def step_move_def status_simps)

lemma CompleteStep_effect:
  "fst (CompleteStep now req r) = r \<or>
   (\<exists>build'. one_step (storeBuildLocked build' r) (fst (CompleteStep now req r)))"
proof (cases "completable req r")
  case True
  then obtain build idx build' where
    b: "get_build r (r_BuildID req) = Some build" and
    i: "step_at (r_StepIndex req) (get_steps r (r_BuildID req)) = Some idx" and
    eq: "completeStepLocked now req r =
       (set_steps (r_BuildID req)
          ((get_steps r (r_BuildID req))[idx := completed_step req (get_steps r (r_BuildID req) ! idx)])
          (storeBuildLocked build' r),
        Some (cloneStep (completed_step req (get_steps r (r_BuildID req) ! idx))),
        StepCompletionCompleted, None)"
    by (rule completeStepLocked_accept [where now = now]) blast
  have "step_evolves (get_steps r (r_BuildID req) ! idx)
          (completed_step req (get_steps r (r_BuildID req) ! idx))"
    using True i by (auto simp: completable_def intro: completed_step_evolves)
  then have "one_step (storeBuildLocked build' r) (fst (completeStepLocked now req r))"
    unfolding eq using b i
    by (simp only: fst_conv get_steps_store [symmetric, of r _ build'])
      (rule one_stepI, auto)
  then show ?thesis by (auto simp: CompleteStep_def)
next
  case False
  then show ?thesis by (simp add: CompleteStep_def completeStepLocked_reject)
qed

lemma CompleteStep_wf: "repo_wf r \<Longrightarrow> repo_wf (fst (CompleteStep now req r))"
  using CompleteStep_effect [of now req r] by (metis one_step_wf repo_wf_store)

lemma CompleteStep_evolves: "evolves r (fst (CompleteStep now req r))"
  using CompleteStep_effect [of now req r] by (metis evolves_refl evolves_store evolves_trans one_step_evolves)

lemma cancel_step_evolves: "step_evolves st (cancel_step m t st)"
proof (cases "IsTerminalStepStatus (s_Status st)")
  case True
  then show ?thesis by (simp add: cancel_step_terminal)
next
  case False
  then show ?thesis
    by (intro step_evolvesI) (auto simp: step_move_def CanCancelStep_iff)
qed

lemma CancelBuild_wf: "repo_wf r \<Longrightarrow> repo_wf (fst (CancelBuild i m t r))"
  unfolding CancelBuild_def Let_def
  by (auto split: option.split intro!: repo_wf_store repo_wf_replace simp: comp_def)

lemma CancelBuild_evolves: "evolves r (fst (CancelBuild i m t r))"
  unfolding CancelBuild_def Let_def
  by (auto split: option.split intro!: evolves_trans [OF evolves_set_steps evolves_store]
      simp: cancel_step_evolves)

lemma update_build_wf: "repo_wf r \<Longrightarrow> repo_wf (fst (update_build i f r))"
  by (auto simp: update_build_def split: option.split)

lemma update_build_evolves: "evolves r (fst (update_build i f r))"
  by (auto simp: update_build_def split: option.split)

lemma SetApplicationVersionIfUnset_effect:
  "fst (SetApplicationVersionIfUnset i v r) = r \<or> (\<exists>b. fst (SetApplicationVersionIfUnset i v r) = storeBuildLocked b r)"
  by (auto simp: SetApplicationVersionIfUnset_def Let_def split: option.split)

lemma SetApplicationVersionIfUnset_wf: "repo_wf r \<Longrightarrow> repo_wf (fst (SetApplicationVersionIfUnset i v r))"
  using SetApplicationVersionIfUnset_effect by (metis repo_wf_store)

lemma SetApplicationVersionIfUnset_evolves: "evolves r (fst (SetApplicationVersionIfUnset i v r))"
  using SetApplicationVersionIfUnset_effect by (metis evolves_refl evolves_store)

lemma UpdateStepByIndex_wf: "repo_wf r \<Longrightarrow> repo_wf (fst (UpdateStepByIndex i k u r))"
  unfolding UpdateStepByIndex_def Let_def
  by (auto split: option.split intro!: repo_wf_update_step)

section \<open>Creation\<close>

lemma assignBuildNumberLocked_frame:
  assumes "assignBuildNumberLocked b r = (r', b')"
  shows "br_builds r' = br_builds r" "br_buildSteps r' = br_buildSteps r" "b_ID b' = b_ID b"
    "Build_ValidateRepositoryIdentitySnapshot b' = Build_ValidateRepositoryIdentitySnapshot b"
  using assms
  by (auto simp: assignBuildNumberLocked_def nextBuildNumberLocked_def observeBuildNumberLocked_def Let_def
      split: if_splits option.splits)

lemma prepare_new_build_frame:
  assumes "prepare_new_build uuid b r = (r', b')"
  shows "br_builds r' = br_builds r" "br_buildSteps r' = br_buildSteps r"
    "b_ID b' = (if b_ID b = [] then uuid else b_ID b)"
    "Build_ValidateRepositoryIdentitySnapshot b' = Build_ValidateRepositoryIdentitySnapshot b"
proof -
  let ?b1 = "if b_ID b = [] then b\<lparr>b_ID := uuid\<rparr> else b"
  let ?b2 = "if b_AttemptNumber ?b1 \<le> 0 then ?b1\<lparr>b_AttemptNumber := 1\<rparr> else ?b1"
  obtain r1 b3 where a: "assignBuildNumberLocked ?b2 r = (r1, b3)" by fastforce
  from assms have eq: "r' = r1" "b_ID b' = b_ID b3"
    "Build_ValidateRepositoryIdentitySnapshot b' = Build_ValidateRepositoryIdentitySnapshot b3"
    unfolding prepare_new_build_def Let_def a by auto
  show "br_builds r' = br_builds r" "br_buildSteps r' = br_buildSteps r"
    "b_ID b' = (if b_ID b = [] then uuid else b_ID b)"
    "Build_ValidateRepositoryIdentitySnapshot b' = Build_ValidateRepositoryIdentitySnapshot b"
    using assignBuildNumberLocked_frame [OF a] by (simp_all add: eq)
qed

lemma prepare_new_build_wf: "prepare_new_build uuid b r = (r', b') \<Longrightarrow> repo_wf r \<Longrightarrow> repo_wf r'"
  using prepare_new_build_frame repo_wf_counters by metis

lemma Create_wf: "repo_wf r \<Longrightarrow> repo_wf (fst (Create uuid b r))"
  by (auto simp: Create_def split: prod.splits option.split intro: prepare_new_build_wf)

text \<open>Creation fails only on an incomplete repository identity.\<close>

lemma Create_succeeds:
  assumes "Build_ValidateRepositoryIdentitySnapshot b = None"
  shows "\<exists>r' b'. Create uuid b r = (r', Inr b')"
proof -
  obtain r1 b1 where p: "prepare_new_build uuid b r = (r1, b1)" by fastforce
  from prepare_new_build_frame(4) [OF p] assms show ?thesis by (simp add: Create_def p)
qed

lemma adopt_step_sel [simp]: "s_BuildID (adopt_step u i st) = i" "s_StepIndex (adopt_step u i st) = s_StepIndex st"
  "s_Status (adopt_step u i st) = s_Status st"
  by (simp_all add: adopt_step_def Let_def)

lemma adopt_steps_props:
  "sorted (map s_StepIndex (adopt_steps us i steps))" "st \<in> set (adopt_steps us i steps) \<Longrightarrow> s_BuildID st = i"
  by (auto simp: adopt_steps_def step_order.sort_sorted)

lemma CreateQueuedBuild_wf: "repo_wf r \<Longrightarrow> repo_wf (fst (CreateQueuedBuild uuid us now b steps r))"
  by (auto simp: CreateQueuedBuild_def Let_def adopt_steps_props split: prod.splits option.split
      intro!: repo_wf_set_steps repo_wf_store intro: prepare_new_build_wf)

lemma QueueBuild_wf:
  assumes "repo_wf r"
  shows "repo_wf (fst (QueueBuild us now i steps r))"
proof (cases "get_build r i")
  case None
  with assms show ?thesis by (simp add: QueueBuild_def)
next
  case (Some b)
  with assms have "b_ID b = i" by (auto dest: repo_wfD)
  with assms Some show ?thesis
    by (auto simp: QueueBuild_def Let_def adopt_steps_props intro!: repo_wf_set_steps repo_wf_store)
qed

section \<open>Every reachable store is well formed\<close>

text \<open>The methods that change stored builds and steps, and the two that create builds.\<close>

inductive update_step :: "BuildRepository \<Rightarrow> BuildRepository \<Rightarrow> bool" where
  queue: "update_step r (fst (QueueBuild us now i steps r))"
| update_status: "update_step r (fst (UpdateStatus now i status msg r))"
| set_version: "update_step r (fst (SetApplicationVersionIfUnset i v r))"
| provenance: "update_step r (fst (UpdateSourceProvenance i p r))"
| commit_sha: "update_step r (fst (UpdateSourceCommitSHA i sha r))"
| image: "update_step r (fst (UpdateImageExecution i a1 a2 a3 a4 a5 r))"
| step_index: "update_step r (fst (UpdateCurrentStepIndex i k r))"
| claim_if_pending: "update_step r (fst (ClaimStepIfPending i k w t r))"
| claim: "update_step r (fst (ClaimPendingStep i k c r))"
| reclaim: "update_step r (fst (ReclaimExpiredStep i k before c r))"
| renew: "update_step r (fst (RenewStepLease i k tok l r))"
| update_step_by_index: "update_step r (fst (UpdateStepByIndex i k u r))"
| complete_if_running: "update_step r (fst (CompleteStepIfRunning i k u r))"
| complete: "update_step r (fst (CompleteStep now req r))"
| cancel: "update_step r (fst (CancelBuild i reason t r))"

inductive store_step :: "BuildRepository \<Rightarrow> BuildRepository \<Rightarrow> bool" where
  create: "store_step r (fst (Create uuid b r))"
| create_queued: "store_step r (fst (CreateQueuedBuild uuid us now b steps r))"
| update: "update_step r r' \<Longrightarrow> store_step r r'"

lemma update_step_wf: "update_step r r' \<Longrightarrow> repo_wf r \<Longrightarrow> repo_wf r'"
  by (induction rule: update_step.induct)
    (simp_all add: QueueBuild_wf UpdateStatus_def update_build_wf
      SetApplicationVersionIfUnset_wf UpdateSourceProvenance_def UpdateSourceCommitSHA_def
      UpdateImageExecution_def UpdateCurrentStepIndex_def UpdateStepByIndex_wf CompleteStep_wf
      CancelBuild_wf one_step_wf [OF ClaimStepIfPending_one_step] one_step_wf [OF ClaimPendingStep_one_step]
      one_step_wf [OF ReclaimExpiredStep_one_step] one_step_wf [OF RenewStepLease_one_step]
      one_step_wf [OF CompleteStepIfRunning_one_step])

lemma store_step_wf: "store_step r r' \<Longrightarrow> repo_wf r \<Longrightarrow> repo_wf r'"
  by (induction rule: store_step.induct) (simp_all add: Create_wf CreateQueuedBuild_wf update_step_wf)

lemma reachable_wf: "store_step\<^sup>*\<^sup>* NewBuildRepository r \<Longrightarrow> repo_wf r"
  by (induction rule: rtranclp_induct) (auto simp: repo_wf_new store_step_wf)

end
