(* ===== verification/Fixtures.thy ===== *)
theory Fixtures
  imports Build_Repository
begin

text \<open>
  Concrete builds, steps, claims and reports. The witnesses of the properties evaluate the model
  on them, so that the hypotheses of every property are seen to be satisfiable.
\<close>

definition blank_trigger :: BuildTrigger where
  "blank_trigger = \<lparr>t_Kind = [], t_SCMProvider = None, t_EventType = None, t_RepositoryOwner = None,
     t_RepositoryName = None, t_RepositoryURL = None, t_RawRef = None, t_Ref = None, t_RefType = None,
     t_RefName = None, t_Deleted = None, t_CommitSHA = None, t_DeliveryID = None, t_Actor = None,
     t_ProducerProjectID = None, t_ProducerJobID = None, t_ProducerBuildID = None, t_ArtifactID = None,
     t_ArtifactPath = None, t_ArtifactName = None, t_ArtifactSizeBytes = None,
     t_ArtifactChecksumSHA256 = None, t_PullRequest = None\<rparr>"

definition blank_build :: "string \<Rightarrow> BuildStatus \<Rightarrow> Build" where
  "blank_build i status = \<lparr>b_ID = i, b_BuildNumber = 0, b_ProjectID = ''project'', b_JobID = None,
     b_Priority = 0, b_Status = status, b_CreatedAt = 0, b_QueuedAt = None, b_StartedAt = None,
     b_FinishedAt = None, b_CurrentStepIndex = 0, b_AttemptNumber = 0, b_RerunOfBuildID = None,
     b_RerunFromStepIdx = None, b_ErrorMessage = None, b_ApplicationVersion = None,
     b_RegisteredRepositoryID = None, b_SCMConnectionID = None, b_ProviderRepositoryID = None,
     b_PipelineConfigYAML = None, b_PipelineName = None, b_PipelineSource = None, b_PipelinePath = None,
     b_Source = None, b_RepoURL = None, b_Ref = None, b_CommitSHA = None, b_SourceRef = None,
     b_SourceSHA = None, b_SourceAuthorName = None, b_SourceAuthorEmail = None,
     b_SourceCommitterName = None, b_SourceCommitterEmail = None, b_TriggerType = [],
     b_TriggeredBy = None, b_Trigger = blank_trigger, b_RequestedImageRef = None,
     b_ResolvedImageRef = None, b_ImageSourceKind = [], b_ManagedImageID = None,
     b_ManagedImageVersionID = None\<rparr>"

definition blank_step :: "string \<Rightarrow> int \<Rightarrow> string \<Rightarrow> string list \<Rightarrow> BuildStepStatus \<Rightarrow> BuildStep" where
  "blank_step i k node deps status = \<lparr>s_ID = node, s_BuildID = i, s_StepIndex = k, s_NodeID = node,
     s_GroupName = None, s_DependsOnNodes = deps, s_Name = node, s_ExecutionKind = [],
     s_RemoteImageBuild = None, s_Image = [], s_Command = [], s_Args = [], s_Env = [],
     s_WorkingDir = [], s_TimeoutSeconds = 0, s_ArtifactPaths = [], s_Cache = None, s_Status = status,
     s_WorkerID = None, s_ClaimToken = None, s_ClaimedAt = None, s_LeaseExpiresAt = None,
     s_StartedAt = None, s_FinishedAt = None, s_ExitCode = None, s_Stdout = None, s_Stderr = None,
     s_ErrorMessage = None, s_RequestedImageRef = None, s_ResolvedImageRef = None,
     s_ImageSourceKind = [], s_ManagedImageID = None, s_ManagedImageVersionID = None\<rparr>"

definition report :: "BuildStepStatus \<Rightarrow> StepUpdate" where
  "report status = \<lparr>u_Status = status, u_WorkerID = None, u_ExitCode = None, u_Stdout = None,
     u_Stderr = None, u_ErrorMessage = None, u_StartedAt = None, u_FinishedAt = None\<rparr>"

definition claim_by :: "string \<Rightarrow> string \<Rightarrow> time \<Rightarrow> StepClaim" where
  "claim_by worker tok t = \<lparr>c_WorkerID = worker, c_ClaimToken = tok, c_ClaimedAt = t, c_LeaseExpiresAt = t + 60\<rparr>"

definition completion_of :: "string \<Rightarrow> int \<Rightarrow> string \<Rightarrow> BuildStepStatus \<Rightarrow> CompleteStepRequest" where
  "completion_of i k tok status =
     \<lparr>r_BuildID = i, r_StepIndex = k, r_ClaimToken = tok, r_RequireClaim = True, r_Update = report status\<rparr>"

text \<open>
  A running build with two steps: \<open>compile\<close>, held by worker one with token \<open>t1\<close> until instant 70,
  and \<open>test\<close>, which waits for it.
\<close>

definition compile_step :: BuildStep where
  "compile_step = take_claim (claim_by ''w1'' ''t1'' 10) (blank_step ''b1'' 0 ''compile'' [] BuildStepStatusRunning)"

definition test_step :: BuildStep where
  "test_step = blank_step ''b1'' 1 ''test'' [''compile''] BuildStepStatusPending"

definition two_step_store :: BuildRepository where
  "two_step_store = \<lparr>br_builds = [(''b1'', blank_build ''b1'' BuildStatusRunning)],
     br_buildSteps = [(''b1'', [compile_step, test_step])],
     br_nextAnonymousNumber = 1, br_nextNumberByJob = []\<rparr>"

lemmas fixture_defs =
  blank_trigger_def blank_build_def blank_step_def report_def claim_by_def completion_of_def
  compile_step_def test_step_def two_step_store_def take_claim_def

lemma two_step_store_get [simp]:
  "get_build two_step_store ''b1'' = Some (blank_build ''b1'' BuildStatusRunning)"
  "get_steps two_step_store ''b1'' = [compile_step, test_step]"
  by (simp_all add: two_step_store_def get_build_def get_steps_def gm_get_or_def)

lemma fixture_steps [simp]:
  "step_at 0 [compile_step, test_step] = Some 0" "step_at 1 [compile_step, test_step] = Some (Suc 0)"
  "s_Status compile_step = BuildStepStatusRunning" "s_Status test_step = BuildStepStatusPending"
  "s_ClaimToken compile_step = Some ''t1''" "s_LeaseExpiresAt compile_step = Some 70"
  "s_NodeID compile_step = ''compile''" "s_NodeID test_step = ''test''"
  "s_DependsOnNodes compile_step = []" "s_DependsOnNodes test_step = [''compile'']"
  "s_StepIndex compile_step = 0" "s_StepIndex test_step = 1"
  "s_BuildID compile_step = ''b1''" "s_BuildID test_step = ''b1''"
  by (simp_all add: fixture_defs step_at_def)

lemma fixture_build [simp]:
  "b_Status (blank_build i s) = s" "b_ID (blank_build i s) = i" "b_BuildNumber (blank_build i s) = 0"
  "b_JobID (blank_build i s) = None" "b_ApplicationVersion (blank_build i s) = None"
  by (simp_all add: blank_build_def)

lemma fixture_request [simp]:
  "r_BuildID (completion_of i k tok s) = i" "r_StepIndex (completion_of i k tok s) = k"
  "r_ClaimToken (completion_of i k tok s) = tok" "r_RequireClaim (completion_of i k tok s)"
  "u_Status (r_Update (completion_of i k tok s)) = s" "c_ClaimToken (claim_by w tok t) = tok"
  "c_LeaseExpiresAt (claim_by w tok t) = t + 60"
  by (simp_all add: completion_of_def report_def claim_by_def)

end
