(* ===== verification/Build_Queries.thy ===== *)
theory Build_Queries
  imports Store_Invariant Fixtures
begin

text \<open>
  The listing methods of the build store (\<open>List\<close>, \<open>ListActive\<close>, \<open>ListPaged\<close>, \<open>ListQueue\<close>, \<open>ListByJobID\<close>,
  \<open>ListLatestByJobIDs\<close>). Each ranges over a Go map, whose order is arbitrary, and sorts; the lemmas
  show that the results do not depend on that order, that pages tile the full list, and that the
  single-pass search for the latest build of each job agrees with the sorted listing.
\<close>

section \<open>Definitions\<close>

definition newest_less :: "Build \<Rightarrow> Build \<Rightarrow> bool" where
  "newest_less a b \<longleftrightarrow>
     (if b_CreatedAt a = b_CreatedAt b then b_ID a < b_ID b else b_CreatedAt a > b_CreatedAt b)"

text \<open>The values of the build map in the order a \<open>range\<close> loop sees them.\<close>

definition stored_builds :: "BuildRepository \<Rightarrow> Build list" where
  "stored_builds r = map (\<lambda>(_, build). cloneBuildApplicationVersion build) (br_builds r)"

definition List :: "BuildRepository \<Rightarrow> Build list" where
  "List r = sort_slice newest_less (stored_builds r)"

definition ListActive :: "BuildRepository \<Rightarrow> Build list" where
  "ListActive r = sort_slice newest_less
     (filter (\<lambda>build. \<not> (b_Status build \<noteq> BuildStatusPreparing \<and> b_Status build \<noteq> BuildStatusQueued \<and>
                            b_Status build \<noteq> BuildStatusRunning)) (stored_builds r))"

definition clampMemoryPageParams :: "ListParams \<Rightarrow> int \<times> int" where
  "clampMemoryPageParams p = ClampPageParams p"

text \<open>The slice \<open>all[offset:end]\<close> of \<open>ListPaged\<close>; \<open>offset\<close> and \<open>limit\<close> are non-negative there.\<close>

definition ListPaged :: "ListParams \<Rightarrow> BuildRepository \<Rightarrow> Build list" where
  "ListPaged params r =
     (let all0 = List r;
          all = (if TrimSpace (lp_ProjectID params) \<noteq> []
                 then filter (\<lambda>build. b_ProjectID build = lp_ProjectID params) all0 else all0);
          (limit, offset) = clampMemoryPageParams params
      in if offset \<ge> int (length all) then []
         else (let end0 = offset + limit;
                   end1 = (if end0 > int (length all) then int (length all) else end0)
               in take (nat end1 - nat offset) (drop (nat offset) all)))"

record QueueEntry =
  qe_Build :: Build
  qe_ProjectName :: "string option"
  qe_ProjectSlug :: "string option"
  qe_JobName :: "string option"
  qe_WorkerID :: "string option"
  qe_LeaseExpiresAt :: "time option"

definition queueStatusRank :: "BuildStatus \<Rightarrow> int" where
  "queueStatusRank status =
     (case status of BuildStatusQueued \<Rightarrow> 0 | BuildStatusRunning \<Rightarrow> 1 | _ \<Rightarrow> 2)"

definition queueOrderTime :: "Build \<Rightarrow> time" where
  "queueOrderTime build = (case b_QueuedAt build of Some t \<Rightarrow> t | None \<Rightarrow> b_CreatedAt build)"

definition runningOrderTime :: "Build \<Rightarrow> time" where
  "runningOrderTime build = (case b_StartedAt build of Some t \<Rightarrow> t | None \<Rightarrow> b_CreatedAt build)"

definition queue_less :: "QueueEntry \<Rightarrow> QueueEntry \<Rightarrow> bool" where
  "queue_less x y =
     (let left = qe_Build x; right = qe_Build y;
          tail = (if b_CreatedAt left \<noteq> b_CreatedAt right then b_CreatedAt left < b_CreatedAt right
                  else b_ID left < b_ID right)
      in if b_Status left \<noteq> b_Status right
         then queueStatusRank (b_Status left) < queueStatusRank (b_Status right)
         else if b_Status left = BuildStatusQueued then
           (if b_Priority left \<noteq> b_Priority right then b_Priority left > b_Priority right
            else if queueOrderTime left \<noteq> queueOrderTime right then queueOrderTime left < queueOrderTime right
            else tail)
         else if b_Status left = BuildStatusRunning then
           (if runningOrderTime left \<noteq> runningOrderTime right
            then runningOrderTime left < runningOrderTime right else tail)
         else tail)"

definition ListQueue :: "QueueListParams \<Rightarrow> BuildRepository \<Rightarrow> QueueEntry list" where
  "ListQueue params r =
     (let statusFilter = TrimSpace (qp_Status params);
          projectIDFilter = TrimSpace (qp_ProjectID params);
          entries = map (\<lambda>build. \<lparr>qe_Build = build, qe_ProjectName = None, qe_ProjectSlug = None,
                                  qe_JobName = None, qe_WorkerID = None, qe_LeaseExpiresAt = None\<rparr>)
            (filter (\<lambda>build.
               \<not> (b_Status build \<noteq> BuildStatusQueued \<and> b_Status build \<noteq> BuildStatusRunning) \<and>
               \<not> (projectIDFilter \<noteq> [] \<and> b_ProjectID build \<noteq> projectIDFilter) \<and>
               \<not> (statusFilter \<noteq> [] \<and> BuildStatus_string (b_Status build) \<noteq> statusFilter)) (stored_builds r))
      in sort_slice queue_less entries)"

definition ListByJobID :: "string \<Rightarrow> BuildRepository \<Rightarrow> Build list" where
  "ListByJobID jobID r =
     sort_slice newest_less (filter (\<lambda>build. b_JobID build = Some jobID) (stored_builds r))"

definition note_latest :: "string list \<Rightarrow> Build \<Rightarrow> (string, Build) gomap \<Rightarrow> (string, Build) gomap" where
  "note_latest wanted build latest =
     (case b_JobID build of
        None \<Rightarrow> latest
      | Some jobID \<Rightarrow>
          (if jobID \<notin> set wanted then latest
           else case map_of latest jobID of
             None \<Rightarrow> gm_put jobID build latest
           | Some existing \<Rightarrow>
               (if b_CreatedAt build > b_CreatedAt existing \<or>
                   (b_CreatedAt build = b_CreatedAt existing \<and> b_ID build < b_ID existing)
                then gm_put jobID build latest else latest)))"

definition ListLatestByJobIDs :: "string list \<Rightarrow> BuildRepository \<Rightarrow> (string, Build) gomap" where
  "ListLatestByJobIDs jobIDs r =
     (if jobIDs = [] then []
      else (let wanted = filter (\<lambda>jobID. TrimSpace jobID \<noteq> []) jobIDs
            in fold (note_latest wanted) (stored_builds r) []))"

lemma two_step_store_wf: "repo_wf two_step_store"
  by (auto simp: repo_wf_def two_step_store_def get_build_def get_steps_def gm_get_or_def
      split: if_splits)

section \<open>The orders\<close>

interpretation newest: comparator newest_less "\<lambda>b. (- b_CreatedAt b, b_ID b)"
  by unfold_locales (auto simp: newest_less_def)

definition queue_key :: "QueueEntry \<Rightarrow> int \<times> int \<times> int \<times> int \<times> string" where
  "queue_key e =
     (let b = qe_Build e
      in if b_Status b = BuildStatusQueued
         then (0, - b_Priority b, queueOrderTime b, b_CreatedAt b, b_ID b)
         else (1, 0, runningOrderTime b, b_CreatedAt b, b_ID b))"

interpretation queue_order: comparator_on queue_less queue_key
  "\<lambda>e. b_Status (qe_Build e) = BuildStatusQueued \<or> b_Status (qe_Build e) = BuildStatusRunning"
  by unfold_locales
    (auto simp: queue_less_def queue_key_def Let_def queueStatusRank_def split: if_splits)

lemma stored_builds_eq: "stored_builds r = map snd (br_builds r)"
  by (auto simp: stored_builds_def)

lemma stored_builds_get:
  assumes "repo_wf r"
  shows "b \<in> set (stored_builds r) \<longleftrightarrow> get_build r (b_ID b) = Some b"
proof -
  have ok: "gm_ok (br_builds r)" by (rule repo_wfD(1) [OF assms])
  have "b \<in> set (stored_builds r) \<longleftrightarrow> (\<exists>i. (i, b) \<in> set (br_builds r))"
    by (force simp: stored_builds_eq)
  also have "\<dots> \<longleftrightarrow> (\<exists>i. get_build r i = Some b)"
    using ok by (simp add: get_build_def map_of_eq_Some_iff)
  also have "\<dots> \<longleftrightarrow> get_build r (b_ID b) = Some b"
    using repo_wfD(3) [OF assms] by blast
  finally show ?thesis .
qed

lemma stored_builds_ids:
  assumes "repo_wf r"
  shows "distinct (map b_ID (stored_builds r))"
proof -
  have "map b_ID (stored_builds r) = map fst (br_builds r)"
    using repo_wfD(1,3) [OF assms] by (auto simp: stored_builds_eq get_build_def)
  with repo_wfD(1) [OF assms] show ?thesis by simp
qed

lemma stored_builds_same_id:
  assumes "repo_wf r" "b \<in> set (stored_builds r)" "c \<in> set (stored_builds r)" "b_ID b = b_ID c"
  shows "b = c"
proof -
  note get = stored_builds_get [OF assms(1), THEN iffD1]
  have "Some b = Some c" using get [OF assms(2)] get [OF assms(3)] unfolding assms(4) by (rule trans [OF sym])
  then show ?thesis by (rule option.inject [THEN iffD1])
qed

lemma inj_newest: "repo_wf r \<Longrightarrow> inj_on (\<lambda>b. (- b_CreatedAt b, b_ID b)) (set (stored_builds r))"
  by (rule inj_onI) (metis prod.inject stored_builds_same_id)

lemma inj_newest_filter:
  "repo_wf r \<Longrightarrow> inj_on (\<lambda>b. (- b_CreatedAt b, b_ID b)) (set (filter P (stored_builds r)))"
  by (rule inj_on_subset [OF inj_newest]) auto

section \<open>Listings do not depend on the map order\<close>

definition queue_entry :: "Build \<Rightarrow> QueueEntry" where
  "queue_entry build = \<lparr>qe_Build = build, qe_ProjectName = None, qe_ProjectSlug = None,
     qe_JobName = None, qe_WorkerID = None, qe_LeaseExpiresAt = None\<rparr>"

definition in_queue :: "QueueListParams \<Rightarrow> Build \<Rightarrow> bool" where
  "in_queue p build \<longleftrightarrow>
     (b_Status build = BuildStatusQueued \<or> b_Status build = BuildStatusRunning) \<and>
     (TrimSpace (qp_ProjectID p) = [] \<or> b_ProjectID build = TrimSpace (qp_ProjectID p)) \<and>
     (TrimSpace (qp_Status p) = [] \<or> BuildStatus_string (b_Status build) = TrimSpace (qp_Status p))"

lemma ListQueue_eq:
  "ListQueue p r = sort_slice queue_less (map queue_entry (filter (in_queue p) (stored_builds r)))"
proof -
  have "(\<lambda>build. \<not> (b_Status build \<noteq> BuildStatusQueued \<and> b_Status build \<noteq> BuildStatusRunning) \<and>
      \<not> (TrimSpace (qp_ProjectID p) \<noteq> [] \<and> b_ProjectID build \<noteq> TrimSpace (qp_ProjectID p)) \<and>
      \<not> (TrimSpace (qp_Status p) \<noteq> [] \<and> BuildStatus_string (b_Status build) \<noteq> TrimSpace (qp_Status p))) = in_queue p"
    by (rule ext) (auto simp: in_queue_def)
  then show ?thesis by (simp add: ListQueue_def Let_def queue_entry_def [abs_def])
qed

lemma queue_entries_ok:
  "\<forall>e \<in> set (map queue_entry (filter (in_queue p) bs)).
     b_Status (qe_Build e) = BuildStatusQueued \<or> b_Status (qe_Build e) = BuildStatusRunning"
  by (auto simp: queue_entry_def in_queue_def)

lemma queue_key_inj:
  assumes "repo_wf r"
  shows "inj_on queue_key (set (map queue_entry (filter (in_queue p) (stored_builds r))))"
proof (rule inj_onI)
  fix x y assume xy: "x \<in> set (map queue_entry (filter (in_queue p) (stored_builds r)))"
    "y \<in> set (map queue_entry (filter (in_queue p) (stored_builds r)))" and k: "queue_key x = queue_key y"
  then obtain b c where b: "x = queue_entry b" "b \<in> set (stored_builds r)"
    and c: "y = queue_entry c" "c \<in> set (stored_builds r)" by auto
  have "b_ID b = b_ID c" using k by (auto simp: b c queue_key_def queue_entry_def Let_def split: if_splits)
  then have "b = c" by (rule stored_builds_same_id [OF assms b(2) c(2)])
  then show "x = y" by (simp add: b c)
qed

text \<open>
  Listings are determined by the set of stored builds. \<open>List\<close> returns every stored build exactly
  once, newest first with ties broken by identifier, and none of the sorted listings depends on the
  order in which the build map is traversed.
\<close>

theorem listings_deterministic:
  assumes "repo_wf r" and "mset (br_builds r') = mset (br_builds r)"
  shows "set (List r) = {b. get_build r (b_ID b) = Some b} \<and> distinct (map b_ID (List r)) \<and>
    sorted_wrt (\<lambda>a b. b_CreatedAt a > b_CreatedAt b \<or> (b_CreatedAt a = b_CreatedAt b \<and> b_ID a < b_ID b)) (List r) \<and>
    List r' = List r \<and> ListActive r' = ListActive r \<and> ListByJobID j r' = ListByJobID j r \<and>
    ListQueue p r' = ListQueue p r"
proof -
  have m: "mset (stored_builds r') = mset (stored_builds r)"
    using assms(2) by (simp add: stored_builds_eq)
  have mf: "mset (filter P (stored_builds r)) = mset (filter P (stored_builds r'))" for P
    using m by simp
  have ids: "distinct (map b_ID (List r))"
    using stored_builds_ids [OF assms(1)] unfolding List_def
    by (metis mset_map mset_sort_slice mset_eq_imp_distinct_iff)
  have "sorted_wrt (\<lambda>x y. (- b_CreatedAt x, b_ID x) \<le> (- b_CreatedAt y, b_ID y)) (List r)"
    using newest.sort_sorted [of "stored_builds r"] by (simp add: List_def sorted_map)
  moreover have "sorted_wrt (\<lambda>x y. b_ID x \<noteq> b_ID y) (List r)"
    using ids by (simp add: sorted_wrt_iff_nth_less distinct_conv_nth)
  ultimately have "sorted_wrt (\<lambda>x y. (- b_CreatedAt x, b_ID x) \<le> (- b_CreatedAt y, b_ID y) \<and> b_ID x \<noteq> b_ID y) (List r)"
    by (simp add: sorted_wrt_iff_nth_less)
  then have srt: "sorted_wrt (\<lambda>a b. b_CreatedAt a > b_CreatedAt b \<or> (b_CreatedAt a = b_CreatedAt b \<and> b_ID a < b_ID b)) (List r)"
    by (rule sorted_wrt_mono_rel [rotated]) auto
  have st: "set (List r) = {b. get_build r (b_ID b) = Some b}"
    using stored_builds_get [OF assms(1)] by (auto simp: List_def)
  have q: "ListQueue p r = ListQueue p r'"
    unfolding ListQueue_eq using mf [of "in_queue p"]
    by (intro queue_order.sort_unique_on queue_key_inj [OF assms(1)] queue_entries_ok) (simp del: mset_filter)
  have l: "List r = List r'" unfolding List_def
    by (rule newest.sort_unique [OF m [symmetric] inj_newest [OF assms(1)]])
  have f: "sort_slice newest_less (filter P (stored_builds r)) = sort_slice newest_less (filter P (stored_builds r'))" for P
    by (rule newest.sort_unique [OF mf inj_newest_filter [OF assms(1)]])
  show ?thesis
    using ids srt q l f st by (simp add: ListActive_def ListByJobID_def)
qed

theorem listings_deterministic_witness:
  "distinct (map b_ID (List two_step_store)) \<and>
   set (List two_step_store) = {b. get_build two_step_store (b_ID b) = Some b} \<and>
   List two_step_store = [blank_build ''b1'' BuildStatusRunning]"
  using listings_deterministic [OF two_step_store_wf refl]
  by (simp add: List_def stored_builds_def two_step_store_def sort_slice_def)

section \<open>Paging\<close>

text \<open>The listing that the pages of a project, or of all projects, are cut from.\<close>

definition visible :: "string \<Rightarrow> BuildRepository \<Rightarrow> Build list" where
  "visible project r =
     (if TrimSpace project \<noteq> [] then filter (\<lambda>build. b_ProjectID build = project) (List r) else List r)"

lemma ListPaged_slice:
  "ListPaged params r = take (nat (fst (ClampPageParams params)))
     (drop (nat (snd (ClampPageParams params))) (visible (lp_ProjectID params) r))"
proof -
  obtain limit offset where c: "ClampPageParams params = (limit, offset)" by fastforce
  have b: "1 \<le> limit" "0 \<le> offset" using ClampPageParams_bounds [OF c] by auto
  let ?all = "visible (lp_ProjectID params) r"
  have eq: "ListPaged params r =
      (if offset \<ge> int (length ?all) then []
       else take (nat (if offset + limit > int (length ?all) then int (length ?all) else offset + limit) - nat offset)
              (drop (nat offset) ?all))"
    by (simp add: ListPaged_def Let_def clampMemoryPageParams_def c visible_def)
  show ?thesis
  proof (cases "offset \<ge> int (length ?all)")
    case True
    then have "length ?all \<le> nat offset" by linarith
    with True show ?thesis by (simp add: eq c)
  next
    case False
    show ?thesis
    proof (cases "offset + limit > int (length ?all)")
      case True
      then have "length ?all - nat offset \<le> nat limit" using b by linarith
      with True False show ?thesis by (simp add: eq c)
    next
      case False2: False
      have "nat (offset + limit) - nat offset = nat limit" using b by linarith
      with False False2 show ?thesis by (simp add: eq c)
    qed
  qed
qed

lemma take_drop_tiles:
  "concat (map (\<lambda>k. take l (drop (k * l) xs)) [0..<n]) = take (n * l) xs"
proof (induction n)
  case (Suc n)
  have "take (Suc n * l) xs = take (n * l) xs @ take l (drop (n * l) xs)"
    by (simp only: mult_Suc add.commute [of l] take_add)
  with Suc show ?case by simp
qed simp

text \<open>
  Paging loses and repeats nothing. With any page size the server accepts, consecutive pages
  concatenate to the leading part of the full listing, and enough pages give all of it.
\<close>

theorem pages_tile_listing:
  assumes "1 \<le> l" and "l \<le> MaxPageLimit"
  shows "concat (map (\<lambda>k. ListPaged \<lparr>lp_Limit = l, lp_Offset = int k * l, lp_ProjectID = project\<rparr> r) [0..<n])
           = take (n * nat l) (visible project r)"
proof -
  have "ListPaged \<lparr>lp_Limit = l, lp_Offset = int k * l, lp_ProjectID = project\<rparr> r
      = take (nat l) (drop (k * nat l) (visible project r))" for k
    using assms by (simp add: ListPaged_slice ClampPageParams_id nat_mult_distrib)
  then show ?thesis by (simp add: take_drop_tiles)
qed

theorem pages_tile_listing_witness:
  "concat (map (\<lambda>k. ListPaged \<lparr>lp_Limit = 1, lp_Offset = int k * 1, lp_ProjectID = []\<rparr> two_step_store) [0..<2])
     = [blank_build ''b1'' BuildStatusRunning]"
  using pages_tile_listing [of 1 "[]" two_step_store 2]
  by (simp add: visible_def MaxPageLimit_def List_def stored_builds_def two_step_store_def sort_slice_def)

section \<open>The queue\<close>

text \<open>
  The queue listing shows work in the order it will be taken up. Queued builds come before
  running ones; a queued build is never listed after another queued build of lower priority, or of
  equal priority that was queued later.
\<close>

theorem queue_listing_order:
  assumes "i < k" and "k < length (ListQueue p r)"
    and "a = qe_Build (ListQueue p r ! i)" and "b = qe_Build (ListQueue p r ! k)"
  shows "(b_Status a = BuildStatusQueued \<or> b_Status a = BuildStatusRunning) \<and>
    (b_Status b = BuildStatusQueued \<longrightarrow>
       b_Status a = BuildStatusQueued \<and> b_Priority a \<ge> b_Priority b \<and>
       (b_Priority a = b_Priority b \<longrightarrow> queueOrderTime a \<le> queueOrderTime b))"
proof -
  let ?q = "ListQueue p r"
  have ok: "b_Status (qe_Build e) = BuildStatusQueued \<or> b_Status (qe_Build e) = BuildStatusRunning"
    if "e \<in> set ?q" for e
    using that queue_entries_ok [of p "stored_builds r"] by (auto simp: ListQueue_eq)
  have mem: "?q ! i \<in> set ?q" "?q ! k \<in> set ?q" using assms(1,2) by simp_all
  have "sorted (map queue_key ?q)"
    unfolding ListQueue_eq by (rule queue_order.sort_sorted_on [OF queue_entries_ok])
  then have "queue_key (?q ! i) \<le> queue_key (?q ! k)"
    using assms(1,2) by (simp add: sorted_map sorted_wrt_iff_nth_less)
  then show ?thesis
    using ok [OF mem(1)] ok [OF mem(2)] assms(3,4)
    by (auto simp: queue_key_def Let_def split: if_splits)
qed

definition queued_store :: BuildRepository where
  "queued_store = \<lparr>br_builds =
     [(''lo'', (blank_build ''lo'' BuildStatusQueued)\<lparr>b_Priority := 3\<rparr>),
      (''hi'', (blank_build ''hi'' BuildStatusQueued)\<lparr>b_Priority := 9\<rparr>)],
     br_buildSteps = [], br_nextAnonymousNumber = 1, br_nextNumberByJob = []\<rparr>"

theorem queue_listing_order_witness:
  "b_Priority (qe_Build (ListQueue \<lparr>qp_ProjectID = [], qp_Status = []\<rparr> queued_store ! 0)) \<ge>
   b_Priority (qe_Build (ListQueue \<lparr>qp_ProjectID = [], qp_Status = []\<rparr> queued_store ! 1))"
proof -
  let ?q = "ListQueue \<lparr>qp_ProjectID = [], qp_Status = []\<rparr> queued_store"
  have q: "map (\<lambda>e. b_Status (qe_Build e)) ?q = [BuildStatusQueued, BuildStatusQueued]"
    by (simp add: ListQueue_eq queued_store_def stored_builds_def in_queue_def queue_entry_def sort_slice_def
        queue_less_def Let_def blank_build_def)
  then have len: "length ?q = 2" by (metis length_map length_Cons list.size(3) numeral_2_eq_2)
  have "b_Status (qe_Build (?q ! 1)) = BuildStatusQueued"
    using q len by (metis nth_map One_nat_def lessI nth_Cons_0 nth_Cons_Suc numeral_2_eq_2)
  then show ?thesis using queue_listing_order [of 0 1 _ queued_store, OF _ _ refl refl] len by simp
qed

section \<open>The latest build of each job\<close>

lemma note_latest_lookup:
  "map_of (note_latest wanted build latest) j =
     (if b_JobID build = Some j \<and> j \<in> set wanted then keep_least newest_less build (map_of latest j)
      else map_of latest j)"
  by (cases "b_JobID build")
    (auto simp: note_latest_def keep_least_def newest_less_def split: option.split)

lemma fold_note_latest:
  "map_of (fold (note_latest wanted) bs latest) j =
     (if j \<in> set wanted then fold (keep_least newest_less) (filter (\<lambda>b. b_JobID b = Some j) bs) (map_of latest j)
      else map_of latest j)"
  by (induction bs arbitrary: latest) (auto simp: note_latest_lookup)

text \<open>
  The one-pass \<open>ListLatestByJobIDs\<close> is equivalent to asking for each job separately: for every
  requested job that is not blank it returns the first build of \<open>ListByJobID\<close>, and nothing for jobs
  without builds or not requested.
\<close>

theorem latest_by_job_equivalent:
  assumes "repo_wf r"
  shows "map_of (ListLatestByJobIDs jobIDs r) j =
    (if j \<in> set jobIDs \<and> TrimSpace j \<noteq> []
     then (case ListByJobID j r of [] \<Rightarrow> None | b # _ \<Rightarrow> Some b) else None)"
proof -
  have "fold (keep_least newest_less) (filter (\<lambda>b. b_JobID b = Some j) (stored_builds r)) None =
      (case ListByJobID j r of [] \<Rightarrow> None | b # _ \<Rightarrow> Some b)"
    unfolding ListByJobID_def by (rule newest.fold_keep_least_sort [OF inj_newest_filter [OF assms]])
  then show ?thesis by (auto simp: ListLatestByJobIDs_def Let_def fold_note_latest)
qed

definition job_store :: BuildRepository where
  "job_store = \<lparr>br_builds =
     [(''old'', (blank_build ''old'' BuildStatusSuccess)\<lparr>b_JobID := Some ''j'', b_CreatedAt := 1\<rparr>),
      (''new'', (blank_build ''new'' BuildStatusQueued)\<lparr>b_JobID := Some ''j'', b_CreatedAt := 2\<rparr>)],
     br_buildSteps = [], br_nextAnonymousNumber = 1, br_nextNumberByJob = []\<rparr>"

lemma job_store_wf: "repo_wf job_store"
  by (auto simp: repo_wf_def job_store_def get_build_def get_steps_def split: if_splits)

theorem latest_by_job_equivalent_witness:
  "map_option b_ID (map_of (ListLatestByJobIDs [''j''] job_store) ''j'') = Some ''new''"
  unfolding latest_by_job_equivalent [OF job_store_wf]
  by (simp add: ListByJobID_def stored_builds_def job_store_def sort_slice_def newest_less_def TrimSpace_def is_space_def)

end
