(* ===== verification/Store_Writes.thy ===== *)
theory Store_Writes
  imports Store_Invariant
begin

text \<open>
  Every write of the build store with a label that says what a caller has to know about it: which build it creates
  or queues, which status it sets without a guard, and which status it gives a step without a guard. All the other
  methods check the state of the step they write. A run in which certain labels do not occur is the
  hypothesis of what the store promises about one build.
\<close>

section \<open>Labelled writes\<close>

datatype store_write =
    CreateOf string
  | QueueOf string
  | StatusOf string BuildStatus
  | StepUpdateOf string BuildStepStatus
  | GuardedWrite

definition created_id :: "string \<Rightarrow> Build \<Rightarrow> string" where
  "created_id uuid b = (if b_ID b = [] then uuid else b_ID b)"

inductive write_step :: "store_write \<Rightarrow> BuildRepository \<Rightarrow> BuildRepository \<Rightarrow> bool" where
  create: "write_step (CreateOf (created_id uuid b)) r (fst (Create uuid b r))"
| create_queued: "write_step (CreateOf (created_id uuid b)) r (fst (CreateQueuedBuild uuid us now b steps r))"
| queue: "write_step (QueueOf i) r (fst (QueueBuild us now i steps r))"
| update_status: "write_step (StatusOf i status) r (fst (UpdateStatus now i status msg r))"
| update_step_by_index: "write_step (StepUpdateOf i (u_Status u)) r (fst (UpdateStepByIndex i k u r))"
| set_version: "write_step GuardedWrite r (fst (SetApplicationVersionIfUnset i v r))"
| provenance: "write_step GuardedWrite r (fst (UpdateSourceProvenance i p r))"
| commit_sha: "write_step GuardedWrite r (fst (UpdateSourceCommitSHA i sha r))"
| image: "write_step GuardedWrite r (fst (UpdateImageExecution i a1 a2 a3 a4 a5 r))"
| step_index: "write_step GuardedWrite r (fst (UpdateCurrentStepIndex i k r))"
| claim_if_pending: "write_step GuardedWrite r (fst (ClaimStepIfPending i k w t r))"
| claim: "write_step GuardedWrite r (fst (ClaimPendingStep i k c r))"
| reclaim: "write_step GuardedWrite r (fst (ReclaimExpiredStep i k before c r))"
| renew: "write_step GuardedWrite r (fst (RenewStepLease i k tok l r))"
| complete_if_running: "write_step GuardedWrite r (fst (CompleteStepIfRunning i k u r))"
| complete: "write_step GuardedWrite r (fst (CompleteStep now req r))"
| cancel: "write_step GuardedWrite r (fst (CancelBuild i reason t r))"

text \<open>No method is left out: the labelled writes are the steps of the store.\<close>

lemma write_step_complete: "store_step r r' \<longleftrightarrow> (\<exists>lab. write_step lab r r')"
proof
  have "\<exists>lab. write_step lab a b" if "update_step a b" for a b
    using that by (cases rule: update_step.cases) (blast intro: write_step.intros)+
  moreover assume "store_step r r'"
  ultimately show "\<exists>lab. write_step lab r r'"
    by (auto elim!: store_step.cases intro: write_step.intros)
next
  assume "\<exists>lab. write_step lab r r'"
  then show "store_step r r'"
    by (auto elim!: write_step.cases intro: store_step.intros update_step.intros)
qed

definition writes_but :: "store_write set \<Rightarrow> BuildRepository \<Rightarrow> BuildRepository \<Rightarrow> bool" where
  "writes_but X = (\<lambda>r r'. \<exists>lab. lab \<notin> X \<and> write_step lab r r')\<^sup>*\<^sup>*"

lemma writes_but_refl [simp, intro]: "writes_but X r r"
  by (simp add: writes_but_def)

lemma writes_but_one: "lab \<notin> X \<Longrightarrow> write_step lab r r' \<Longrightarrow> writes_but X r r'"
  unfolding writes_but_def by (rule r_into_rtranclp) blast

lemma writes_but_induct [consumes 1, case_names start next_write]:
  assumes "writes_but X r r'" and "P r"
    and "\<And>lab a b. P a \<Longrightarrow> writes_but X r a \<Longrightarrow> lab \<notin> X \<Longrightarrow> write_step lab a b \<Longrightarrow> P b"
  shows "P r'"
  using assms(1) unfolding writes_but_def
proof (induction rule: rtranclp_induct)
  case base
  show ?case by (rule assms(2))
next
  case (step a b)
  then show ?case using assms(3) unfolding writes_but_def by blast
qed

lemma write_step_wf: "write_step lab r r' \<Longrightarrow> repo_wf r \<Longrightarrow> repo_wf r'"
  using store_step_wf write_step_complete by blast

section \<open>The effect on one build\<close>

lemma update_build_keeps: "get_build r i \<noteq> None \<Longrightarrow> get_build (fst (update_build j f r)) i \<noteq> None"
  by (auto simp: update_build_def split: option.split)

lemma one_step_build: "one_step r r' \<Longrightarrow> get_build r' i = get_build r i"
  unfolding one_step_def by auto

lemma prepared_get:
  assumes "prepare_new_build uuid b r = (r', b')"
  shows "get_build r' i = get_build r i" "get_steps r' i = get_steps r i"
  using prepare_new_build_frame [OF assms] by (simp_all add: get_build_def get_steps_def)

text \<open>A stored build stays stored.\<close>

lemma write_step_build: "write_step lab r r' \<Longrightarrow> get_build r i \<noteq> None \<Longrightarrow> get_build r' i \<noteq> None"
proof (induction rule: write_step.induct)
  case (create uuid b r)
  then show ?case by (auto simp: Create_def prepared_get split: prod.splits option.split)
next
  case (create_queued uuid b r us now steps)
  then show ?case by (auto simp: CreateQueuedBuild_def Let_def prepared_get split: prod.splits option.split)
next
  case (queue j r us now steps)
  then show ?case by (auto simp: QueueBuild_def Let_def split: option.split)
next
  case (set_version r j v)
  then show ?case using SetApplicationVersionIfUnset_effect [of j v r] by auto
next
  case (update_step_by_index j u r k)
  then show ?case by (auto simp: UpdateStepByIndex_def Let_def split: option.split)
next
  case (complete r now req)
  then show ?case using CompleteStep_effect [of now req r] one_step_build by fastforce
next
  case (cancel r j reason t)
  then show ?case by (auto simp: CancelBuild_def Let_def split: option.split)
qed (simp_all only: UpdateStatus_def UpdateSourceProvenance_def UpdateSourceCommitSHA_def UpdateImageExecution_def
    UpdateCurrentStepIndex_def update_build_keeps one_step_build [OF ClaimStepIfPending_one_step]
    one_step_build [OF ClaimPendingStep_one_step] one_step_build [OF ReclaimExpiredStep_one_step]
    one_step_build [OF RenewStepLease_one_step] one_step_build [OF CompleteStepIfRunning_one_step] not_False_eq_True)

definition evolves_at :: "string \<Rightarrow> BuildRepository \<Rightarrow> BuildRepository \<Rightarrow> bool" where
  "evolves_at i r r' \<longleftrightarrow>
     (\<forall>k < length (get_steps r i). k < length (get_steps r' i) \<and> step_evolves (get_steps r i ! k) (get_steps r' i ! k))"

lemma evolves_everywhere: "evolves r r' \<Longrightarrow> evolves_at i r r'"
  by (simp add: evolves_def evolves_at_def)

lemma evolves_at_same: "get_steps r' i = get_steps r i \<Longrightarrow> evolves_at i r r'"
  by (simp add: evolves_at_def)

lemma evolves_at_trans: "evolves_at i a b \<Longrightarrow> evolves_at i b c \<Longrightarrow> evolves_at i a c"
  unfolding evolves_at_def by (meson step_evolves_trans)

text \<open>The writes that may replace or rewrite steps of a build without a look at their state.\<close>

definition resets :: "string \<Rightarrow> store_write set" where
  "resets i = {CreateOf i, QueueOf i} \<union> range (StepUpdateOf i)"

lemma Create_steps: "get_steps (fst (Create uuid b r)) i = get_steps r i"
  by (auto simp: Create_def prepared_get split: prod.splits option.split)

lemma CreateQueuedBuild_others:
  "created_id uuid b \<noteq> i \<Longrightarrow> get_steps (fst (CreateQueuedBuild uuid us now b steps r)) i = get_steps r i"
  by (auto simp: CreateQueuedBuild_def Let_def prepared_get created_id_def prepare_new_build_frame(3) split: prod.splits option.split)

lemma QueueBuild_steps: "j \<noteq> i \<Longrightarrow> get_steps (fst (QueueBuild us now j steps r)) i = get_steps r i"
  by (auto simp: QueueBuild_def Let_def split: option.split)

lemma UpdateStepByIndex_steps: "j \<noteq> i \<Longrightarrow> get_steps (fst (UpdateStepByIndex j k u r)) i = get_steps r i"
  by (auto simp: UpdateStepByIndex_def Let_def split: option.split)

lemma write_step_evolves: "write_step lab r r' \<Longrightarrow> lab \<notin> resets i \<Longrightarrow> evolves_at i r r'"
proof (induction rule: write_step.induct)
  case (create uuid b r)
  show ?case by (simp add: evolves_at_same Create_steps)
next
  case (create_queued uuid b r us now steps)
  then show ?case by (auto simp: resets_def intro: evolves_at_same CreateQueuedBuild_others)
next
  case (queue j r us now steps)
  then show ?case by (auto simp: resets_def intro: evolves_at_same QueueBuild_steps)
next
  case (update_step_by_index j u r k)
  then show ?case by (auto simp: resets_def intro: evolves_at_same UpdateStepByIndex_steps)
qed (simp_all only: UpdateStatus_def UpdateSourceProvenance_def UpdateSourceCommitSHA_def UpdateImageExecution_def
    UpdateCurrentStepIndex_def evolves_everywhere [OF update_build_evolves] evolves_everywhere [OF SetApplicationVersionIfUnset_evolves]
    evolves_everywhere [OF CompleteStep_evolves] evolves_everywhere [OF CancelBuild_evolves] evolves_everywhere [OF one_step_evolves] one_step_methods)

lemma writes_but_evolves:
  assumes "writes_but X r r'" and "resets i \<subseteq> X"
  shows "evolves_at i r r'"
  using assms(1)
proof (induction rule: writes_but_induct)
  case (next_write lab a b)
  then show ?case using write_step_evolves [of lab a b i] evolves_at_trans assms(2) by blast
qed (simp add: evolves_at_same)

lemma writes_but_build: "writes_but X r r' \<Longrightarrow> get_build r i \<noteq> None \<Longrightarrow> get_build r' i \<noteq> None"
  by (induction rule: writes_but_induct) (auto dest: write_step_build)

lemma writes_but_wf: "writes_but X r r' \<Longrightarrow> repo_wf r \<Longrightarrow> repo_wf r'"
  by (induction rule: writes_but_induct) (auto dest: write_step_wf)

section \<open>Steps keep their place and are not put back\<close>

definition not_reset :: "string \<Rightarrow> BuildRepository \<Rightarrow> BuildRepository \<Rightarrow> bool" where
  "not_reset i r r' \<longleftrightarrow>
     (\<forall>k < length (get_steps r i). k < length (get_steps r' i) \<and> s_StepIndex (get_steps r' i ! k) = s_StepIndex (get_steps r i ! k) \<and>
        (s_Status (get_steps r i ! k) \<noteq> BuildStepStatusPending \<longrightarrow> s_Status (get_steps r' i ! k) \<noteq> BuildStepStatusPending))"

lemma not_reset_trans: "not_reset i a b \<Longrightarrow> not_reset i b c \<Longrightarrow> not_reset i a c"
  unfolding not_reset_def by metis

lemma step_move_pending: "step_move\<^sup>*\<^sup>* s BuildStepStatusPending \<Longrightarrow> s = BuildStepStatusPending"
  using step_lifecycle.reach_rank by fastforce

lemma evolves_not_reset: "evolves_at i r r' \<Longrightarrow> not_reset i r r'"
  unfolding evolves_at_def not_reset_def step_evolves_def by (metis step_move_pending)

lemma find_index_prefix:
  assumes "find_index p xs = Some i" "\<And>k. k < length xs \<Longrightarrow> k < length ys \<and> p (ys ! k) = p (xs ! k)"
  shows "find_index p ys = Some i"
proof -
  from find_index_SomeD [OF assms(1)] have i: "i < length xs" "p (xs ! i)" "\<forall>j<i. \<not> p (xs ! j)" by auto
  then have y: "i < length ys" "p (ys ! i)" "\<forall>j<i. \<not> p (ys ! j)" using assms(2) by auto
  then have "ys ! i \<in> set ys" by simp
  with y(2) obtain j where j: "find_index p ys = Some j" using find_index_None [of p ys] by blast
  from find_index_SomeD [OF j] y have "j = i" by (meson linorder_neqE_nat)
  with j show ?thesis by simp
qed

lemma not_reset_step_at:
  assumes "not_reset i r r'" "step_at k (get_steps r i) = Some idx"
  shows "step_at k (get_steps r' i) = Some idx"
  unfolding step_at_def
  by (rule find_index_prefix [OF assms(2) [unfolded step_at_def]]) (use assms(1) in \<open>auto simp: not_reset_def\<close>)

text \<open>The writes that may make a step of a build pending again.\<close>

definition reopens :: "string \<Rightarrow> store_write set" where
  "reopens i = {CreateOf i, QueueOf i, StepUpdateOf i BuildStepStatusPending}"

lemma UpdateStepByIndex_not_reset:
  assumes "u_Status u \<noteq> BuildStepStatusPending"
  shows "not_reset i r (fst (UpdateStepByIndex i k u r))"
proof (cases "get_build r i = None \<or> step_at k (get_steps r i) = None")
  case True
  then show ?thesis by (auto simp: UpdateStepByIndex_def not_reset_def)
next
  case False
  then obtain idx where at: "step_at k (get_steps r i) = Some idx" and b: "get_build r i \<noteq> None" by blast
  have "get_steps (fst (UpdateStepByIndex i k u r)) i = (get_steps r i)[idx := apply_step_update u (get_steps r i ! idx)]"
    using at b by (auto simp: UpdateStepByIndex_def Let_def)
  then show ?thesis using assms step_atD(1) [OF at] by (simp add: not_reset_def nth_list_update apply_step_update_sel)
qed

lemma write_step_not_reset:
  assumes "write_step lab r r'" and "lab \<notin> reopens i"
  shows "not_reset i r r'"
proof (cases "lab \<in> resets i")
  case True
  then obtain s where "lab = StepUpdateOf i s" "s \<noteq> BuildStepStatusPending"
    using assms(2) by (auto simp: resets_def reopens_def)
  with assms(1) show ?thesis by (auto elim!: write_step.cases intro: UpdateStepByIndex_not_reset)
next
  case False
  then show ?thesis using write_step_evolves [OF assms(1)] evolves_not_reset by blast
qed

lemma writes_but_not_reset:
  assumes "writes_but (reopens i) r r'"
  shows "not_reset i r r'"
  using assms
proof (induction rule: writes_but_induct)
  case start
  show ?case by (simp add: not_reset_def)
next
  case (next_write lab a b)
  then show ?case using write_step_not_reset not_reset_trans by blast
qed

section \<open>A canceled build\<close>

text \<open>The status of a stored build.\<close>

definition status_of :: "BuildRepository \<Rightarrow> string \<Rightarrow> BuildStatus option" where
  "status_of r i = map_option b_Status (get_build r i)"

lemma one_step_status: "one_step r r' \<Longrightarrow> status_of r' i = status_of r i"
  by (simp add: status_of_def one_step_build)

lemma store_status: "status_of (storeBuildLocked b r) i = (if b_ID b = i then Some (b_Status b) else status_of r i)"
  by (simp add: status_of_def)

lemma update_build_status:
  assumes "repo_wf r" and "\<And>b. b_ID (f b) = b_ID b" and "\<And>b. j \<noteq> i \<or> b_Status (f b) = b_Status b"
  shows "status_of (fst (update_build j f r)) i = status_of r i"
  using assms(2,3) repo_wfD(3) [OF assms(1), of j]
  by (auto simp: update_build_def store_status split: option.split) (auto simp: status_of_def)

lemma builder_sel:
  "b_ID (apply_provenance p b) = b_ID b" "b_Status (apply_provenance p b) = b_Status b" "b_ID (apply_status now st m b) = b_ID b"
  "b_Status (apply_status now st m b) = st"
  by (simp_all add: apply_provenance_def apply_status_def Let_def)

lemma CompleteStep_status:
  assumes "repo_wf r" and "status_of r i = Some BuildStatusCanceled"
  shows "status_of (fst (CompleteStep now req r)) i = status_of r i"
proof (cases "completable req r")
  case True
  then obtain build idx build' where
    b: "get_build r (r_BuildID req) = Some build" "b_Status build = BuildStatusRunning" and b': "b_ID build' = b_ID build" and
    eq: "fst (completeStepLocked now req r) = set_steps (r_BuildID req)
       ((get_steps r (r_BuildID req))[idx := completed_step req (get_steps r (r_BuildID req) ! idx)]) (storeBuildLocked build' r)"
    by (rule completeStepLocked_accept [where now = now]) (metis fst_conv)
  have "r_BuildID req \<noteq> i" using assms(2) b by (auto simp: status_of_def)
  then show ?thesis using b' repo_wfD(3) [OF assms(1) b(1)] by (simp add: CompleteStep_def eq status_of_def)
next
  case False
  then show ?thesis by (simp add: CompleteStep_def completeStepLocked_reject)
qed

lemma CancelBuild_status:
  assumes "repo_wf r" and "status_of r i = Some BuildStatusCanceled"
  shows "status_of (fst (CancelBuild j reason t r)) i = status_of r i"
proof (cases "get_build r j")
  case None
  then show ?thesis by (simp add: CancelBuild_def)
next
  case (Some b)
  then have "b_ID b = j" "j = i \<Longrightarrow> b_Status b = BuildStatusCanceled" using assms(2) repo_wfD(3) [OF assms(1)] by (auto simp: status_of_def)
  with Some show ?thesis by (auto simp: CancelBuild_def Let_def status_of_def status_simps)
qed

text \<open>The writes that may take a build out of the canceled status.\<close>

definition revives :: "string \<Rightarrow> store_write set" where
  "revives i = {CreateOf i, QueueOf i} \<union> StatusOf i ` (UNIV - {BuildStatusCanceled})"

lemma write_step_status:
  assumes "write_step lab r r'" and "repo_wf r" and "status_of r i = Some BuildStatusCanceled" and "lab \<notin> revives i"
  shows "status_of r' i = Some BuildStatusCanceled"
  using assms
proof (induction rule: write_step.induct)
  case (create uuid b r)
  then show ?case by (auto simp: revives_def Create_def store_status status_of_def prepared_get created_id_def
      prepare_new_build_frame(3) split: prod.splits option.split)
next
  case (create_queued uuid b r us now steps)
  then show ?case by (auto simp: revives_def CreateQueuedBuild_def Let_def status_of_def prepared_get created_id_def
      prepare_new_build_frame(3) split: prod.splits option.split)
next
  case (queue j r us now steps)
  then have j: "j \<noteq> i" by (auto simp: revives_def)
  show ?case
  proof (cases "get_build r j")
    case None
    then show ?thesis using queue(2) by (simp add: QueueBuild_def)
  next
    case (Some b)
    then have "b_ID b \<noteq> i" using j repo_wfD(3) [OF queue(1)] by auto
    then show ?thesis using Some j queue(2) by (simp add: QueueBuild_def Let_def status_of_def)
  qed
next
  case (update_status j status r now msg)
  show ?case
  proof (cases "j = i")
    case True
    then have "status = BuildStatusCanceled" using update_status(3) by (auto simp: revives_def)
    moreover obtain b where "get_build r i = Some b" "b_ID b = i"
      using update_status(2) repo_wfD(3) [OF update_status(1)] by (auto simp: status_of_def)
    ultimately show ?thesis using True by (simp add: UpdateStatus_def update_build_def store_status builder_sel)
  next
    case False
    then have "status_of (fst (UpdateStatus now j status msg r)) i = status_of r i"
      unfolding UpdateStatus_def by (intro update_build_status) (simp_all add: update_status builder_sel)
    then show ?thesis using update_status(2) by (simp)
  qed
next
  case (update_step_by_index j u r k)
  then show ?case by (auto simp: UpdateStepByIndex_def Let_def status_of_def split: option.split)
next
  case (set_version r j v)
  show ?case
  proof (cases "get_build r j")
    case None
    then show ?thesis using set_version(2) by (simp add: SetApplicationVersionIfUnset_def)
  next
    case (Some b)
    then have "b_ID b = j" using repo_wfD(3) [OF set_version(1)] by auto
    then show ?thesis using Some set_version(2) by (auto simp: SetApplicationVersionIfUnset_def Let_def status_of_def split: option.splits)
  qed
next
  case (complete r now req)
  then show ?case using CompleteStep_status by (simp)
next
  case (cancel r j reason t)
  then show ?case using CancelBuild_status by (simp)
qed (simp_all add: UpdateSourceProvenance_def UpdateSourceCommitSHA_def UpdateImageExecution_def
    UpdateCurrentStepIndex_def update_build_status builder_sel one_step_status [OF ClaimStepIfPending_one_step]
    one_step_status [OF ClaimPendingStep_one_step] one_step_status [OF ReclaimExpiredStep_one_step]
    one_step_status [OF RenewStepLease_one_step] one_step_status [OF CompleteStepIfRunning_one_step])

lemma writes_but_canceled:
  assumes "writes_but (revives i) r r'" and "repo_wf r" and "status_of r i = Some BuildStatusCanceled"
  shows "status_of r' i = Some BuildStatusCanceled"
  using assms(1)
proof (induction rule: writes_but_induct)
  case (next_write lab a b)
  then show ?case using write_step_status [OF next_write(4)] writes_but_wf [OF next_write(2) assms(2)] by blast
qed (rule assms(3))

end
