(* ===== verification/Store_Properties.thy ===== *)
theory Store_Properties
  imports Build_Queries Store_Writes
begin

text \<open>
  The contract of the build store towards its callers: guarded completion, exclusive claims,
  fencing of workers that lost their lease, cancellation, write-once versions and build numbers.
\<close>

section \<open>Runs of guarded methods\<close>

text \<open>
  The methods that workers, the recovery loop and the cancel endpoint call on a build in flight.
  The label of a step is the claim token it hands out, if any.
\<close>

inductive worker_step :: "string option \<Rightarrow> BuildRepository \<Rightarrow> BuildRepository \<Rightarrow> bool" where
  claim: "worker_step (Some (c_ClaimToken c)) r (fst (ClaimPendingStep i k c r))"
| reclaim: "worker_step (Some (c_ClaimToken c)) r (fst (ReclaimExpiredStep i k before c r))"
| renew: "worker_step None r (fst (RenewStepLease i k t l r))"
| complete: "worker_step None r (fst (CompleteStep now req r))"
| cancel: "worker_step None r (fst (CancelBuild i reason t r))"
| status: "worker_step None r (fst (UpdateStatus now i st msg r))"

definition worker_run :: "BuildRepository \<Rightarrow> BuildRepository \<Rightarrow> bool" where
  "worker_run = (\<lambda>r r'. \<exists>lab. worker_step lab r r')\<^sup>*\<^sup>*"

text \<open>Runs in which nobody is handed the token \<open>tok\<close>.\<close>

definition run_without :: "string \<Rightarrow> BuildRepository \<Rightarrow> BuildRepository \<Rightarrow> bool" where
  "run_without tok = (\<lambda>r r'. \<exists>lab. lab \<noteq> Some tok \<and> worker_step lab r r')\<^sup>*\<^sup>*"

lemma worker_step_evolves: "worker_step lab r r' \<Longrightarrow> evolves r r'"
  by (induction rule: worker_step.induct)
    (simp_all add: one_step_evolves [OF ClaimPendingStep_one_step] one_step_evolves [OF ReclaimExpiredStep_one_step]
      one_step_evolves [OF RenewStepLease_one_step] CompleteStep_evolves CancelBuild_evolves
      UpdateStatus_def update_build_evolves)

lemma CompleteStep_build: "get_build r i \<noteq> None \<Longrightarrow> get_build (fst (CompleteStep now req r)) i \<noteq> None"
  using CompleteStep_effect [of now req r] one_step_build by fastforce

lemma worker_step_build: "worker_step lab r r' \<Longrightarrow> get_build r i \<noteq> None \<Longrightarrow> get_build r' i \<noteq> None"
proof (induction rule: worker_step.induct)
  case (cancel r j reason t)
  then show ?case by (auto simp: CancelBuild_def Let_def split: option.split)
next
  case (status r now j st msg)
  then show ?case by (auto simp: UpdateStatus_def update_build_def split: option.split)
qed (simp_all only: CompleteStep_build one_step_build [OF ClaimPendingStep_one_step] one_step_build [OF ReclaimExpiredStep_one_step]
    one_step_build [OF RenewStepLease_one_step] not_False_eq_True)

lemma worker_run_invariants:
  assumes "worker_run r r'"
  shows "evolves r r'" "get_build r i \<noteq> None \<Longrightarrow> get_build r' i \<noteq> None"
  using assms unfolding worker_run_def
  by (induction rule: rtranclp_induct)
    (auto intro: evolves_trans worker_step_evolves dest: worker_step_build)

lemma run_without_run: "run_without tok r r' \<Longrightarrow> worker_run r r'"
  unfolding run_without_def worker_run_def by (rule rtranclp_mono [THEN predicate2D, rotated]) auto

text \<open>A token that nobody hands out is gained by no step.\<close>

definition no_gain :: "string \<Rightarrow> BuildRepository \<Rightarrow> BuildRepository \<Rightarrow> bool" where
  "no_gain tok r r' \<longleftrightarrow>
     (\<forall>i k. k < length (get_steps r i) \<longrightarrow> s_ClaimToken (get_steps r' i ! k) = Some tok \<longrightarrow>
        s_ClaimToken (get_steps r i ! k) = Some tok)"

lemma no_gain_refl [simp]: "no_gain tok r r"
  by (simp add: no_gain_def)

lemma no_gain_frame: "br_buildSteps r' = br_buildSteps r \<Longrightarrow> no_gain tok r r'"
  by (simp add: no_gain_def get_steps_def)

lemma no_gain_update:
  assumes "s_ClaimToken st = Some tok \<Longrightarrow> s_ClaimToken (get_steps r i ! idx) = Some tok"
  shows "no_gain tok r (set_steps i ((get_steps r i)[idx := st]) r)"
  using assms by (auto simp: no_gain_def nth_list_update_at split: if_splits)

lemma cancel_step_token: "s_ClaimToken (cancel_step m t st) = Some tok \<Longrightarrow> s_ClaimToken st = Some tok"
  by (auto simp: cancel_step_def Let_def split: if_splits)

lemma CompleteStep_no_gain: "no_gain tok r (fst (CompleteStep now req r))"
proof (cases "completable req r")
  case True
  then obtain idx build' where eq: "fst (CompleteStep now req r) =
       set_steps (r_BuildID req)
          ((get_steps r (r_BuildID req))[idx := completed_step req (get_steps r (r_BuildID req) ! idx)])
          (storeBuildLocked build' r)"
    unfolding CompleteStep_def by (metis completeStepLocked_accept fst_conv)
  show ?thesis unfolding eq by (auto simp: no_gain_def nth_list_update_at completed_step_def split: if_splits)
next
  case False
  then show ?thesis by (simp add: CompleteStep_def completeStepLocked_reject)
qed

lemma worker_step_no_gain: "worker_step lab r r' \<Longrightarrow> lab \<noteq> Some tok \<Longrightarrow> no_gain tok r r'"
proof (induction rule: worker_step.induct)
  case (claim c r i k)
  then show ?case
    by (auto simp: ClaimPendingStep_def Let_def split: option.split intro!: no_gain_update)
next
  case (reclaim c r i k before)
  then show ?case
    by (auto simp: ReclaimExpiredStep_def Let_def split: option.split intro!: no_gain_update)
next
  case (renew r i k t l)
  then show ?case
    by (auto simp: RenewStepLease_def Let_def split: option.split intro!: no_gain_update)
next
  case (cancel r i reason t)
  then show ?case
    by (auto simp: CancelBuild_def Let_def no_gain_def dest: cancel_step_token split: option.split)
next
  case (status r now i st msg)
  then show ?case
    by (auto simp: UpdateStatus_def update_build_def storeBuildLocked_def intro!: no_gain_frame split: option.split)
qed (simp add: CompleteStep_no_gain)

text \<open>An evolved store finds every step where it was.\<close>

lemma evolves_step_at:
  assumes "evolves r r'" "step_at k (get_steps r i) = Some idx"
  shows "step_at k (get_steps r' i) = Some idx" "step_evolves (get_steps r i ! idx) (get_steps r' i ! idx)"
proof -
  show "step_at k (get_steps r' i) = Some idx"
    unfolding step_at_def
  proof (rule find_index_prefix [OF assms(2) [unfolded step_at_def]])
    fix j assume "j < length (get_steps r i)"
    with assms(1) have "j < length (get_steps r' i)" "step_evolves (get_steps r i ! j) (get_steps r' i ! j)"
      unfolding evolves_def by blast+
    then show "j < length (get_steps r' i) \<and>
        (s_StepIndex (get_steps r' i ! j) = k) = (s_StepIndex (get_steps r i ! j) = k)"
      by (simp add: step_evolves_def)
  qed
  show "step_evolves (get_steps r i ! idx) (get_steps r' i ! idx)"
    using assms step_atD(1) unfolding evolves_def by blast
qed

section \<open>Completion\<close>

text \<open>
  C1: \<open>CompleteStep\<close> is exactly guarded: it reports completion if and only if the build is running,
  the step is running, the reported status is a legal end of a running step and, when a claim is
  required, the claim token is the stored one; in every other case the store is left untouched.
\<close>

theorem complete_step_guarded:
  "(fst (snd (snd (CompleteStep now req r))) = StepCompletionCompleted \<longleftrightarrow> completable req r) \<and>
   (\<not> completable req r \<longrightarrow> fst (CompleteStep now req r) = r)"
  unfolding CompleteStep_def by (simp add: completeStepLocked_outcome completeStepLocked_reject)

theorem complete_step_guarded_witness:
  "fst (snd (snd (CompleteStep 20 (completion_of ''b1'' 0 ''t1'' BuildStepStatusSuccess) two_step_store)))
     = StepCompletionCompleted \<and>
   fst (CompleteStep 20 (completion_of ''b1'' 0 ''stale'' BuildStepStatusSuccess) two_step_store) = two_step_store"
proof -
  have "completable (completion_of ''b1'' 0 ''t1'' BuildStepStatusSuccess) two_step_store"
    by (simp add: completable_def)
  moreover have "\<not> completable (completion_of ''b1'' 0 ''stale'' BuildStepStatusSuccess) two_step_store"
    by (simp add: completable_def)
  ultimately show ?thesis using complete_step_guarded by blast
qed

text \<open>
  How a report that reaches a step is classified. The order of the tests matters: an illegal
  target is invalid even for a finished step, a finished step makes the report a duplicate even
  when the claim is stale, and a stale claim is reported before the status of the build is seen.
\<close>

theorem complete_step_outcome:
  assumes "get_build r (r_BuildID req) = Some build"
    and "step_at (r_StepIndex req) (get_steps r (r_BuildID req)) = Some idx"
    and "st = get_steps r (r_BuildID req) ! idx"
  shows "fst (snd (snd (CompleteStep now req r))) =
    (if u_Status (r_Update req) \<noteq> BuildStepStatusSuccess \<and> u_Status (r_Update req) \<noteq> BuildStepStatusFailed
     then StepCompletionInvalidTransition
     else if IsTerminalStepStatus (s_Status st) then StepCompletionDuplicateTerminal
     else if s_Status st = BuildStepStatusPending then StepCompletionInvalidTransition
     else if r_RequireClaim req \<and> s_ClaimToken st \<noteq> Some (r_ClaimToken req) then StepCompletionStaleClaim
     else if b_Status build \<noteq> BuildStatusRunning then StepCompletionInvalidTransition
     else StepCompletionCompleted)"
proof (cases "completable req r")
  case True
  then show ?thesis
    using assms completeStepLocked_outcome [of now req r]
    by (auto simp: CompleteStep_def completable_def)
next
  case False
  with assms show ?thesis
    by (cases "s_Status st")
      (auto simp: completable_def CompleteStep_def completeStepLocked_def DecideStepCompletion_def Let_def
        split: if_splits)
qed

theorem complete_step_outcome_witness:
  "fst (snd (snd (CompleteStep 20 (completion_of ''b1'' 0 ''stale'' BuildStepStatusSuccess) two_step_store)))
     = StepCompletionStaleClaim"
  by (subst complete_step_outcome [of _ _ "blank_build ''b1'' BuildStatusRunning" 0 compile_step]) simp_all

text \<open>
  C2: An accepted completion refines the abstract rule of build progression: exactly the reported
  step changes, it ends with the reported status and without a claim, and the stored status of the
  build becomes the status derived from its step list: success when all steps succeeded, failed
  when no step runs or can start and some step failed or is stuck, running otherwise. Builds other
  than the reported one are untouched. So a failed step alone does not fail the build, as
  \<open>state-machine.md\<close> has it: the build goes on while another step runs or can start.
\<close>

theorem complete_step_refines_derived_status:
  assumes "repo_wf r" and "completable req r" and "r' = fst (CompleteStep now req r)"
  shows "\<exists>idx build'.
    step_at (r_StepIndex req) (get_steps r (r_BuildID req)) = Some idx \<and>
    get_steps r' (r_BuildID req) =
      (get_steps r (r_BuildID req))[idx := completed_step req (get_steps r (r_BuildID req) ! idx)] \<and>
    get_build r' (r_BuildID req) = Some build' \<and>
    b_Status build' = derived_status (get_steps r' (r_BuildID req)) \<and>
    (\<forall>i. i \<noteq> r_BuildID req \<longrightarrow> get_build r' i = get_build r i \<and> get_steps r' i = get_steps r i)"
proof -
  let ?i = "r_BuildID req" and ?steps = "get_steps r (r_BuildID req)"
  obtain build idx build' where
    b: "get_build r ?i = Some build" and i: "step_at (r_StepIndex req) ?steps = Some idx" and
    id: "b_ID build' = b_ID build" and
    st: "b_Status build' = derived_status (?steps[idx := completed_step req (?steps ! idx)])" and
    eq: "completeStepLocked now req r =
       (set_steps ?i (?steps[idx := completed_step req (?steps ! idx)]) (storeBuildLocked build' r),
        Some (cloneStep (completed_step req (?steps ! idx))), StepCompletionCompleted, None)"
    by (rule completeStepLocked_accept [OF assms(2), where now = now]) blast
  have "b_ID build' = ?i" using repo_wfD(3) [OF assms(1) b] id by simp
  then show ?thesis
    using b i st unfolding assms(3) CompleteStep_def eq
    by (intro exI [of _ idx] exI [of _ build']) auto
qed

theorem complete_step_refines_derived_status_witness:
  "\<exists>build'. get_build (fst (CompleteStep 20 (completion_of ''b1'' 0 ''t1'' BuildStepStatusFailed) two_step_store)) ''b1''
     = Some build' \<and> b_Status build' = BuildStatusFailed"
proof -
  let ?req = "completion_of ''b1'' 0 ''t1'' BuildStepStatusFailed"
  let ?st = "completed_step ?req compile_step"
  have "completable ?req two_step_store" by (simp add: completable_def)
  from complete_step_refines_derived_status [OF two_step_store_wf this refl, of 20]
  obtain build' where b: "get_build (fst (CompleteStep 20 ?req two_step_store)) ''b1'' = Some build'"
    and s: "b_Status build' = derived_status [?st, test_step]"
    by auto
  have sel: "s_Status ?st = BuildStepStatusFailed" "s_NodeID ?st = ''compile''" "s_StepIndex ?st = 0"
    by (simp_all add: completed_step_def)
  have "derived_status [?st, test_step] = BuildStatusFailed"
    by (simp add: derived_status_def all_succeeded_def out_of_work_def runnable_pending_def sel
        isStepRunnable_def stepStatusByNodeID_def effective_node_def TrimSpace_def is_space_def)
  with b s show ?thesis by simp
qed

text \<open>
  The two cases in which \<open>state-machine.md\<close> says otherwise: a step fails while another one runs, and the build stays
  running; the last running step succeeds while a pending one can never start, and the build fails without a failed step.
\<close>

theorem build_status_unlike_documented:
  "map_option b_Status (get_build (fst (CompleteStep 20 (completion_of ''b1'' 0 ''t1'' BuildStepStatusFailed)
       (set_steps ''b1'' [compile_step, test_step\<lparr>s_Status := BuildStepStatusRunning\<rparr>] two_step_store))) ''b1'') = Some BuildStatusRunning \<and>
   (let r = fst (CompleteStep 20 (completion_of ''b1'' 0 ''t1'' BuildStepStatusSuccess)
          (set_steps ''b1'' [compile_step, test_step\<lparr>s_DependsOnNodes := [''gone'']\<rparr>] two_step_store))
    in map_option b_Status (get_build r ''b1'') = Some BuildStatusFailed \<and>
       (\<forall>st \<in> set (get_steps r ''b1''). s_Status st \<noteq> BuildStepStatusFailed))"
  by code_simp

section \<open>Claims\<close>

lemma ClaimPendingStep_Some:
  assumes "ClaimPendingStep i k c r = (r1, Inr (Some st))"
  obtains idx st1 where "get_build r i \<noteq> None" "step_at k (get_steps r i) = Some idx"
    "s_Status (get_steps r i ! idx) = BuildStepStatusPending"
    "isStepRunnable (get_steps r i ! idx) (get_steps r i) (stepStatusByNodeID (get_steps r i))"
    "s_Status st1 = BuildStepStatusRunning" "s_ClaimToken st1 = Some (c_ClaimToken c)"
    "s_StepIndex st1 = k"
    "st = cloneStep st1" "r1 = set_steps i ((get_steps r i)[idx := st1]) r"
proof -
  let ?steps = "get_steps r i"
  from assms obtain idx where
    g: "get_build r i \<noteq> None" "step_at k ?steps = Some idx" "s_Status (?steps ! idx) = BuildStepStatusPending"
    "isStepRunnable (?steps ! idx) ?steps (stepStatusByNodeID ?steps)"
    unfolding ClaimPendingStep_def Let_def by (auto split: if_splits option.splits)
  define st0 where "st0 = take_claim c ((?steps ! idx)\<lparr>s_Status := BuildStepStatusRunning\<rparr>)"
  define st1 where "st1 = (if s_StartedAt st0 = None then st0\<lparr>s_StartedAt := Some (c_ClaimedAt c)\<rparr> else st0)"
  have sel: "s_Status st1 = BuildStepStatusRunning" "s_ClaimToken st1 = Some (c_ClaimToken c)" "s_StepIndex st1 = k"
    using step_atD(2) [OF g(2)] by (auto simp: st1_def st0_def)
  have "ClaimPendingStep i k c r = (set_steps i (?steps[idx := st1]) r, Inr (Some (cloneStep st1)))"
    using g by (simp add: ClaimPendingStep_def Let_def st1_def st0_def)
  with assms g sel that show thesis by simp
qed

lemma ClaimPendingStep_not_pending:
  assumes "get_build r i \<noteq> None" "step_at k (get_steps r i) = Some idx"
    "s_Status (get_steps r i ! idx) \<noteq> BuildStepStatusPending"
  shows "ClaimPendingStep i k c r = (r, Inr None)"
  using assms by (auto simp: ClaimPendingStep_def Let_def)

lemma ClaimStepIfPending_not_pending:
  assumes "get_build r i \<noteq> None" "step_at k (get_steps r i) = Some idx"
    "s_Status (get_steps r i ! idx) \<noteq> BuildStepStatusPending"
  shows "ClaimStepIfPending i k w t r = (r, Inr None)"
  using assms by (auto simp: ClaimStepIfPending_def Let_def status_simps)

text \<open>
  C5: Claims are exclusive. A claim succeeds only on a pending step whose dependencies have all
  succeeded; it makes the step running under the claim's token; and whatever methods of the store are
  called afterwards, by whomever, no second claim of that step succeeds as long as the build is neither
  created nor queued again and nobody sets one of its steps back to pending with \<open>UpdateStepByIndex\<close>.
\<close>

theorem claim_exclusive:
  assumes "ClaimPendingStep i k c r = (r1, Inr (Some st))"
    and "writes_but {CreateOf i, QueueOf i, StepUpdateOf i BuildStepStatusPending} r1 r2"
  shows "(\<exists>idx. step_at k (get_steps r i) = Some idx \<and>
           s_Status (get_steps r i ! idx) = BuildStepStatusPending \<and>
           isStepRunnable (get_steps r i ! idx) (get_steps r i) (stepStatusByNodeID (get_steps r i))) \<and>
         s_Status st = BuildStepStatusRunning \<and> s_ClaimToken st = Some (c_ClaimToken c) \<and>
         ClaimPendingStep i k c' r2 = (r2, Inr None) \<and> ClaimStepIfPending i k w t r2 = (r2, Inr None)"
proof -
  from ClaimPendingStep_Some [OF assms(1)] obtain idx st1 where
    c: "get_build r i \<noteq> None" "step_at k (get_steps r i) = Some idx"
    "s_Status (get_steps r i ! idx) = BuildStepStatusPending"
    "isStepRunnable (get_steps r i ! idx) (get_steps r i) (stepStatusByNodeID (get_steps r i))" and
    s: "s_Status st1 = BuildStepStatusRunning" "s_ClaimToken st1 = Some (c_ClaimToken c)" "s_StepIndex st1 = k" and
    eq: "st = cloneStep st1" "r1 = set_steps i ((get_steps r i)[idx := st1]) r" by metis
  have at1: "step_at k (get_steps r1 i) = Some idx" using c(2) s(3) by (simp add: eq step_at_update)
  have "s_Status (get_steps r1 i ! idx) = BuildStepStatusRunning"
    using step_atD(1) [OF c(2)] s by (simp add: eq)
  moreover have kept: "not_reset i r1 r2" by (rule writes_but_not_reset) (use assms(2) in \<open>simp add: reopens_def\<close>)
  ultimately have "s_Status (get_steps r2 i ! idx) \<noteq> BuildStepStatusPending"
    using step_atD(1) [OF at1] unfolding not_reset_def by simp
  moreover have "get_build r2 i \<noteq> None"
    by (rule writes_but_build [OF assms(2)]) (use c(1) in \<open>simp add: eq\<close>)
  moreover note not_reset_step_at [OF kept at1]
  ultimately have "ClaimPendingStep i k c' r2 = (r2, Inr None)" "ClaimStepIfPending i k w t r2 = (r2, Inr None)"
    by (blast intro: ClaimPendingStep_not_pending ClaimStepIfPending_not_pending)+
  with c s eq show ?thesis by simp
qed

lemma compile_only:
  "isStepRunnable compile_step steps m" "stepStatusByNodeID [compile_step, test_step] =
     [(''compile'', BuildStepStatusRunning), (''test'', BuildStepStatusPending)]"
  by (simp_all add: isStepRunnable_def stepStatusByNodeID_def effective_node_def TrimSpace_def is_space_def)

definition pending_store :: BuildRepository where
  "pending_store = set_steps ''b1'' [compile_step\<lparr>s_Status := BuildStepStatusPending\<rparr>] two_step_store"

theorem claim_exclusive_witness:
  "\<exists>r1 st. ClaimPendingStep ''b1'' 0 (claim_by ''w1'' ''t1'' 5) pending_store = (r1, Inr (Some st)) \<and>
     (let r2 = fst (QueueBuild (\<lambda>_. ''s9'') 6 ''b2'' [compile_step] r1)
      in ClaimPendingStep ''b1'' 0 (claim_by ''w2'' ''t2'' 6) r2 = (r2, Inr None))"
proof -
  have "\<exists>r1 st. ClaimPendingStep ''b1'' 0 (claim_by ''w1'' ''t1'' 5) pending_store = (r1, Inr (Some st))"
    by (simp add: ClaimPendingStep_def pending_store_def step_at_def isStepRunnable_def Let_def
        TrimSpace_def is_space_def)
  then obtain r1 st where
    c: "ClaimPendingStep ''b1'' 0 (claim_by ''w1'' ''t1'' 5) pending_store = (r1, Inr (Some st))" by blast
  have "QueueOf ''b2'' \<notin> {CreateOf ''b1'', QueueOf ''b1'', StepUpdateOf ''b1'' BuildStepStatusPending}" by simp
  note claim_exclusive [OF c writes_but_one [OF this write_step.queue]]
  then show ?thesis unfolding Let_def using c by blast
qed

text \<open>
  Queueing is the exception, and the store does not guard it: \<open>QueueBuild\<close> replaces the steps of a build whatever
  its status is. The service checks the status on a read of its own, so a caller that read the build while it was pending
  can queue it after a worker has claimed a step, and the step is handed out a second time.
\<close>

theorem queued_again_claimed_again:
  "\<exists>r1 st r2 st'. ClaimPendingStep ''b1'' 0 (claim_by ''w1'' ''t1'' 5) pending_store = (r1, Inr (Some st)) \<and>
     ClaimPendingStep ''b1'' 0 (claim_by ''w2'' ''t2'' 7)
       (fst (QueueBuild (\<lambda>_. ''s9'') 6 ''b1'' [compile_step\<lparr>s_Status := BuildStepStatusPending\<rparr>] r1)) = (r2, Inr (Some st'))"
  by (simp add: ClaimPendingStep_def QueueBuild_def adopt_steps_def adopt_step_def cloneStep_def sort_slice_def pending_store_def step_at_def isStepRunnable_def Let_def
      TrimSpace_def is_space_def)

section \<open>Fencing\<close>

lemma ReclaimExpiredStep_Some:
  assumes "ReclaimExpiredStep i k before c r = (r1, Inr (Some st))"
  obtains idx l where "get_build r i \<noteq> None" "step_at k (get_steps r i) = Some idx"
    "s_Status (get_steps r i ! idx) = BuildStepStatusRunning"
    "s_LeaseExpiresAt (get_steps r i ! idx) = Some l" "l \<le> before"
    "r1 = set_steps i ((get_steps r i)[idx := take_claim c (get_steps r i ! idx)]) r"
    "st = cloneStep (take_claim c (get_steps r i ! idx))"
  using assms unfolding ReclaimExpiredStep_def Let_def
  by (auto split: if_splits option.splits)

lemma run_without_no_gain: "run_without tok r r' \<Longrightarrow> no_gain tok r r'"
  unfolding run_without_def
proof (induction rule: rtranclp_induct)
  case (step r1 r2)
  have "evolves r r1" using step(1) run_without_run worker_run_invariants(1) run_without_def by metis
  moreover have "no_gain tok r1 r2" using step(2) worker_step_no_gain by blast
  ultimately show ?case using step(3) unfolding no_gain_def evolves_def by blast
qed simp

lemma RenewStepLease_stale:
  assumes "step_at k (get_steps r i) = Some idx" "s_ClaimToken (get_steps r i ! idx) \<noteq> Some tok"
  shows "fst (RenewStepLease i k tok l r) = r \<and> fst (snd (snd (RenewStepLease i k tok l r))) \<noteq> StepCompletionCompleted"
  using assms by (auto simp: RenewStepLease_def Let_def)

text \<open>
  C6: Fencing. Once a running step whose lease has expired is reclaimed under another token, the
  previous holder is locked out for good: in every later store that claims, renewals, completions, status
  writes and cancelations lead to, unless its old token is handed out again, its completion report and
  its lease renewal are refused and change nothing.
\<close>

theorem reclaim_fences_old_holder:
  assumes "ReclaimExpiredStep i k before c r = (r1, Inr (Some st))" and "c_ClaimToken c \<noteq> old"
    and "run_without old r1 r2"
    and "r_BuildID req = i" "r_StepIndex req = k" "r_RequireClaim req" "r_ClaimToken req = old"
  shows "fst (CompleteStep now req r2) = r2 \<and>
         fst (snd (snd (CompleteStep now req r2))) \<noteq> StepCompletionCompleted \<and>
         fst (RenewStepLease i k old l r2) = r2 \<and>
         fst (snd (snd (RenewStepLease i k old l r2))) \<noteq> StepCompletionCompleted"
proof -
  from ReclaimExpiredStep_Some [OF assms(1)] obtain idx where
    at0: "step_at k (get_steps r i) = Some idx" and
    eq: "r1 = set_steps i ((get_steps r i)[idx := take_claim c (get_steps r i ! idx)]) r" by metis
  have at1: "step_at k (get_steps r1 i) = Some idx"
    using at0 step_atD(2) [OF at0] by (simp add: eq step_at_update)
  have "s_ClaimToken (get_steps r1 i ! idx) = Some (c_ClaimToken c)"
    using step_atD(1) [OF at0] by (simp add: eq)
  with run_without_no_gain [OF assms(3)] assms(2) step_atD(1) [OF at1]
  have tok: "s_ClaimToken (get_steps r2 i ! idx) \<noteq> Some old" unfolding no_gain_def by fastforce
  have at2: "step_at k (get_steps r2 i) = Some idx"
    by (rule evolves_step_at(1) [OF worker_run_invariants(1) [OF run_without_run [OF assms(3)]] at1])
  have "\<not> completable req r2" using at2 tok assms(4-) by (simp add: completable_def)
  then show ?thesis
    using RenewStepLease_stale [OF at2 tok] completeStepLocked_reject [of req r2 now]
    by (simp add: CompleteStep_def)
qed

theorem reclaim_fences_old_holder_witness:
  "\<exists>r1 st. ReclaimExpiredStep ''b1'' 0 100 (claim_by ''w2'' ''t2'' 100) two_step_store = (r1, Inr (Some st)) \<and>
     fst (CompleteStep 101 (completion_of ''b1'' 0 ''t1'' BuildStepStatusSuccess) r1) = r1"
proof -
  have "\<exists>r1 st. ReclaimExpiredStep ''b1'' 0 100 (claim_by ''w2'' ''t2'' 100) two_step_store = (r1, Inr (Some st))"
    by (simp add: ReclaimExpiredStep_def Let_def)
  then obtain r1 st where
    c: "ReclaimExpiredStep ''b1'' 0 100 (claim_by ''w2'' ''t2'' 100) two_step_store = (r1, Inr (Some st))" by blast
  have "c_ClaimToken (claim_by ''w2'' ''t2'' 100) \<noteq> ''t1''" "run_without ''t1'' r1 r1"
    by (simp_all add: run_without_def)
  from reclaim_fences_old_holder [OF c this, of "completion_of ''b1'' 0 ''t1'' BuildStepStatusSuccess" 101 0] c
  show ?thesis by auto
qed

section \<open>Cancellation\<close>

lemma CancelBuild_Inr:
  assumes "CancelBuild i reason t r = (r1, Inr (b', n))"
  obtains build m where "get_build r i = Some build" "CanCancelBuild (b_Status build)"
    "b_Status b' = BuildStatusCanceled" "b_ID b' = b_ID build" "b_FinishedAt b' \<noteq> None"
    "r1 = storeBuildLocked b' (set_steps i (map (cancel_step m t) (get_steps r i)) r)"
    "n = length (filter (\<lambda>st. \<not> IsTerminalStepStatus (s_Status st)) (get_steps r i))"
proof -
  from assms obtain build where g: "get_build r i = Some build" "CanCancelBuild (b_Status build)"
    unfolding CancelBuild_def Let_def by (cases "get_build r i") (auto split: if_splits)
  define m where "m = (if TrimSpace reason = [] then None else Some (TrimSpace reason))"
  define b1 where "b1 = build\<lparr>b_Status := BuildStatusCanceled\<rparr>"
  define b2 where "b2 = (if b_FinishedAt b1 = None then b1\<lparr>b_FinishedAt := Some t\<rparr> else b1)"
  have "CancelBuild i reason t r =
      (storeBuildLocked (b2\<lparr>b_ErrorMessage := m\<rparr>) (set_steps i (map (cancel_step m t) (get_steps r i)) r),
       Inr (b2\<lparr>b_ErrorMessage := m\<rparr>, length (filter (\<lambda>st. CanCancelStep (s_Status st)) (get_steps r i))))"
    unfolding CancelBuild_def Let_def g(1) option.case m_def [symmetric] b1_def [symmetric] b2_def [symmetric]
    using g(2) by simp
  with assms have "b' = b2\<lparr>b_ErrorMessage := m\<rparr>"
    "r1 = storeBuildLocked b' (set_steps i (map (cancel_step m t) (get_steps r i)) r)"
    "n = length (filter (\<lambda>st. \<not> IsTerminalStepStatus (s_Status st)) (get_steps r i))"
    by (auto simp: CanCancelStep_iff)
  moreover have "b_Status b2 = BuildStatusCanceled" "b_ID b2 = b_ID build" "b_FinishedAt b2 \<noteq> None"
    by (auto simp: b2_def b1_def)
  ultimately show thesis using that [OF g] by simp
qed

lemma CancelBuild_steps_terminal:
  assumes "CancelBuild i reason t r = (r1, Inr (b', n))" "k < length (get_steps r1 i)"
  shows "IsTerminalStepStatus (s_Status (get_steps r1 i ! k))"
    "IsTerminalStepStatus (s_Status (get_steps r i ! k)) \<Longrightarrow> get_steps r1 i ! k = get_steps r i ! k"
proof -
  obtain b m where r1: "r1 = storeBuildLocked b (set_steps i (map (cancel_step m t) (get_steps r i)) r)"
    by (rule CancelBuild_Inr [OF assms(1)]) blast
  with assms(2) have at: "get_steps r1 i ! k = cancel_step m t (get_steps r i ! k)" by simp
  show "IsTerminalStepStatus (s_Status (get_steps r1 i ! k))"
    unfolding at by (simp add: CanCancelStep_iff)
  show "IsTerminalStepStatus (s_Status (get_steps r i ! k)) \<Longrightarrow> get_steps r1 i ! k = get_steps r i ! k"
    unfolding at by (rule cancel_step_terminal)
qed

text \<open>
  C7: Cancellation is complete. When \<open>CancelBuild\<close> succeeds, the build was queued, preparing
  or running, it is now canceled with a finish time, every step is terminal, steps that had already
  finished keep their result and the returned count is the number of steps it stopped. Whatever methods of the store
  are called afterwards, as long as the build is neither created nor queued again and none of its steps is written with
  \<open>UpdateStepByIndex\<close>, no step of the build changes and no report for it is accepted. The build itself stays canceled
  as long as it is neither created nor queued again nor given another status with \<open>UpdateStatus\<close>; the store does not guard
  these three writes, and callers that rely on an older read do reach them.
\<close>

theorem cancel_build_final:
  assumes "repo_wf r" and "CancelBuild i reason t r = (r1, Inr (b', n))" 
    and "writes_but ({CreateOf i, QueueOf i} \<union> range (StepUpdateOf i)) r1 r2"
    and "writes_but ({CreateOf i, QueueOf i} \<union> StatusOf i ` (UNIV - {BuildStatusCanceled})) r1 r3"
  shows "(\<exists>build. get_build r i = Some build \<and> CanCancelBuild (b_Status build)) \<and>
    get_build r1 i = Some b' \<and> b_Status b' = BuildStatusCanceled \<and> b_FinishedAt b' \<noteq> None \<and>
    n = length (filter (\<lambda>st. \<not> IsTerminalStepStatus (s_Status st)) (get_steps r i)) \<and>
    (\<forall>k < length (get_steps r1 i).
       IsTerminalStepStatus (s_Status (get_steps r1 i ! k)) \<and>
       (IsTerminalStepStatus (s_Status (get_steps r i ! k)) \<longrightarrow> get_steps r1 i ! k = get_steps r i ! k) \<and>
       get_steps r2 i ! k = get_steps r1 i ! k) \<and>
    (\<forall>now req k. r_BuildID req = i \<and> r_StepIndex req = k \<and> step_at k (get_steps r1 i) \<noteq> None \<longrightarrow>
       fst (CompleteStep now req r2) = r2) \<and>
    (\<exists>b3. get_build r3 i = Some b3 \<and> b_Status b3 = BuildStatusCanceled)"
proof -
  obtain build m where
    b: "get_build r i = Some build" "CanCancelBuild (b_Status build)" "b_Status b' = BuildStatusCanceled"
      "b_ID b' = b_ID build" "b_FinishedAt b' \<noteq> None" and
    r1: "r1 = storeBuildLocked b' (set_steps i (map (cancel_step m t) (get_steps r i)) r)" and
    n: "n = length (filter (\<lambda>st. \<not> IsTerminalStepStatus (s_Status st)) (get_steps r i))"
    by (rule CancelBuild_Inr [OF assms(2)])
  have g: "get_build r1 i = Some b'" using b(4) repo_wfD(3) [OF assms(1) b(1)] by (simp add: r1)
  have ev: "evolves_at i r1 r2" by (rule writes_but_evolves [OF assms(3)]) (simp add: resets_def)
  have same: "get_steps r2 i ! k = get_steps r1 i ! k" if k: "k < length (get_steps r1 i)" for k
    using ev k CancelBuild_steps_terminal(1) [OF assms(2) k] unfolding evolves_at_def step_evolves_def by metis
  have "repo_wf r1" using CancelBuild_wf [OF assms(1), of i reason t] assms(2) by simp
  then have "status_of r3 i = Some BuildStatusCanceled"
    by (rule writes_but_canceled [OF assms(4) [folded revives_def]]) (simp add: status_of_def g b(3))
  then have canceled: "\<exists>b3. get_build r3 i = Some b3 \<and> b_Status b3 = BuildStatusCanceled" by (auto simp: status_of_def)
  have rej: "fst (CompleteStep now req r2) = r2"
    if req: "r_BuildID req = i" "step_at (r_StepIndex req) (get_steps r1 i) = Some idx" for now req idx
  proof -
    have "IsTerminalStepStatus (s_Status (get_steps r2 i ! idx))"
      using step_atD(1) [OF req(2)] same CancelBuild_steps_terminal(1) [OF assms(2)] by metis
    then have "\<not> completable req r2"
      using not_reset_step_at [OF evolves_not_reset [OF ev] req(2)] req(1) by (auto simp: completable_def)
    then show ?thesis by (simp add: CompleteStep_def completeStepLocked_reject)
  qed
  show ?thesis
    using b g n same rej canceled CancelBuild_steps_terminal [OF assms(2)] by auto
qed

theorem cancel_build_final_witness:
  "\<exists>r1 b'. CancelBuild ''b1'' ''stop'' 30 two_step_store = (r1, Inr (b', 2)) \<and> b_Status b' = BuildStatusCanceled \<and>
     fst (CompleteStep 31 (completion_of ''b1'' 0 ''t1'' BuildStepStatusSuccess) r1) = r1 \<and>
     (\<exists>b3. get_build (fst (CompleteStep 31 (completion_of ''b1'' 0 ''t1'' BuildStepStatusSuccess) r1)) ''b1'' = Some b3 \<and>
        b_Status b3 = BuildStatusCanceled)"
proof -
  have "\<exists>r1 b'. CancelBuild ''b1'' ''stop'' 30 two_step_store = (r1, Inr (b', 2))"
    by (simp add: CancelBuild_def Let_def status_simps)
  then obtain r1 b' where c: "CancelBuild ''b1'' ''stop'' 30 two_step_store = (r1, Inr (b', 2))" by blast
  have "GuardedWrite \<notin> {CreateOf ''b1'', QueueOf ''b1''} \<union> StatusOf ''b1'' ` (UNIV - {BuildStatusCanceled})" by auto
  note late = writes_but_one [OF this write_step.complete [of r1 31 "completion_of ''b1'' 0 ''t1'' BuildStepStatusSuccess"]]
  note final = cancel_build_final [OF two_step_store_wf c writes_but_refl late]
  have "map s_StepIndex (get_steps r1 ''b1'') = [0, 1]"
    by (rule CancelBuild_Inr [OF c]) simp
  then have "step_at 0 (get_steps r1 ''b1'') \<noteq> None"
    by (auto simp: step_at_def find_index_None)
  then have "fst (CompleteStep 31 (completion_of ''b1'' 0 ''t1'' BuildStepStatusSuccess) r1) = r1"
    using final by simp
  with final c show ?thesis by blast
qed

section \<open>Application versions are written once\<close>

definition version_of :: "BuildRepository \<Rightarrow> string \<Rightarrow> string option" where
  "version_of r i = Option.bind (get_build r i) b_ApplicationVersion"

text \<open>What every method but the two that create builds keeps of a stored build.\<close>

definition same_identity :: "Build \<Rightarrow> Build \<Rightarrow> bool" where
  "same_identity b b' \<longleftrightarrow>
     b_ID b' = b_ID b \<and> b_BuildNumber b' = b_BuildNumber b \<and> b_JobID b' = b_JobID b \<and>
     (b_ApplicationVersion b \<noteq> None \<longrightarrow> b_ApplicationVersion b' = b_ApplicationVersion b)"

definition keeps_identity :: "BuildRepository \<Rightarrow> BuildRepository \<Rightarrow> bool" where
  "keeps_identity r r' \<longleftrightarrow>
     br_nextNumberByJob r' = br_nextNumberByJob r \<and> br_nextAnonymousNumber r' = br_nextAnonymousNumber r \<and>
     (\<forall>i. rel_option same_identity (get_build r i) (get_build r' i))"

lemma same_identity_refl [simp]: "same_identity b b"
  by (simp add: same_identity_def)

lemma rel_same_identity_refl [simp]: "rel_option same_identity x x"
  by (rule option.rel_refl) simp

lemma keeps_identity_same_builds:
  "br_builds r' = br_builds r \<Longrightarrow> br_nextNumberByJob r' = br_nextNumberByJob r \<Longrightarrow>
   br_nextAnonymousNumber r' = br_nextAnonymousNumber r \<Longrightarrow> keeps_identity r r'"
  by (simp add: keeps_identity_def get_build_def)

lemma keeps_identity_refl [simp]: "keeps_identity r r"
  by (rule keeps_identity_same_builds) simp_all

lemma keeps_identity_set_steps: "keeps_identity r r' \<Longrightarrow> keeps_identity r (set_steps i steps r')"
  by (simp add: keeps_identity_def)

lemma store_set_steps: "storeBuildLocked b (set_steps i steps r) = set_steps i steps (storeBuildLocked b r)"
  by (simp add: storeBuildLocked_def set_steps_def)

lemma keeps_identity_store:
  assumes "repo_wf r" "get_build r i = Some b" "same_identity b b'"
  shows "keeps_identity r (storeBuildLocked b' r)"
proof -
  have "b_ID b' = i" using assms repo_wfD(3) by (auto simp: same_identity_def)
  with assms show ?thesis by (simp add: keeps_identity_def)
qed

lemma keeps_identity_update_build:
  assumes "repo_wf r" "\<And>b. same_identity b (f b)"
  shows "keeps_identity r (fst (update_build i f r))"
  using assms by (auto simp: update_build_def intro: keeps_identity_store split: option.split)

lemma one_step_keeps_identity: "one_step r r' \<Longrightarrow> keeps_identity r r'"
  unfolding one_step_def by (auto intro: keeps_identity_set_steps)

lemma CompleteStep_keeps_identity:
  assumes "repo_wf r"
  shows "keeps_identity r (fst (CompleteStep now req r))"
proof (cases "completable req r")
  case True
  obtain build idx build' where "get_build r (r_BuildID req) = Some build" "b_ID build' = b_ID build"
    "b_ApplicationVersion build' = b_ApplicationVersion build"
    "b_BuildNumber build' = b_BuildNumber build" "b_JobID build' = b_JobID build" and
    "completeStepLocked now req r = (set_steps (r_BuildID req)
          ((get_steps r (r_BuildID req))[idx := completed_step req (get_steps r (r_BuildID req) ! idx)])
          (storeBuildLocked build' r),
        Some (cloneStep (completed_step req (get_steps r (r_BuildID req) ! idx))), StepCompletionCompleted, None)"
    by (rule completeStepLocked_accept [OF True, where now = now]) blast
  moreover from this have "same_identity build build'" by (simp add: same_identity_def)
  ultimately have "get_build r (r_BuildID req) = Some build" "same_identity build build'"
    "fst (completeStepLocked now req r) = set_steps (r_BuildID req)
          ((get_steps r (r_BuildID req))[idx := completed_step req (get_steps r (r_BuildID req) ! idx)])
          (storeBuildLocked build' r)" by simp_all
  with assms show ?thesis
    by (simp add: CompleteStep_def keeps_identity_set_steps keeps_identity_store)
next
  case False
  then show ?thesis by (simp add: CompleteStep_def completeStepLocked_reject)
qed

lemma CancelBuild_keeps_identity:
  assumes "repo_wf r"
  shows "keeps_identity r (fst (CancelBuild i reason t r))"
proof -
  have "keeps_identity r (storeBuildLocked b' (set_steps i steps r))"
    if "get_build r i = Some b" "same_identity b b'" for b b' steps
    using keeps_identity_store [OF assms that] by (simp add: store_set_steps keeps_identity_set_steps)
  then show ?thesis
    by (simp add: CancelBuild_def Let_def same_identity_def split: option.split)
qed

lemma QueueBuild_keeps_identity:
  "repo_wf r \<Longrightarrow> keeps_identity r (fst (QueueBuild us now i steps r))"
  by (auto simp: QueueBuild_def Let_def same_identity_def
      intro!: keeps_identity_set_steps intro: keeps_identity_store split: option.split)

lemma SetApplicationVersionIfUnset_keeps_identity:
  "repo_wf r \<Longrightarrow> keeps_identity r (fst (SetApplicationVersionIfUnset i v r))"
  by (auto simp: SetApplicationVersionIfUnset_def Let_def same_identity_def
      intro: keeps_identity_store split: option.split)

lemma UpdateStepByIndex_keeps_identity: "keeps_identity r (fst (UpdateStepByIndex i k u r))"
  by (auto simp: UpdateStepByIndex_def Let_def intro: keeps_identity_set_steps split: option.split)

lemma apply_same_identity:
  "same_identity b (apply_status now s m b)" "same_identity b (apply_provenance p b)"
  "same_identity b (b\<lparr>b_CurrentStepIndex := k\<rparr>)"
  "same_identity b (b\<lparr>b_RequestedImageRef := a1, b_ResolvedImageRef := a2, b_ImageSourceKind := a3,
     b_ManagedImageID := a4, b_ManagedImageVersionID := a5\<rparr>)"
  by (simp_all add: same_identity_def apply_status_def apply_provenance_def Let_def)

lemma update_step_keeps_identity: "update_step r r' \<Longrightarrow> repo_wf r \<Longrightarrow> keeps_identity r r'"
  by (induction rule: update_step.induct)
    (simp_all add: QueueBuild_keeps_identity SetApplicationVersionIfUnset_keeps_identity
      UpdateStepByIndex_keeps_identity CompleteStep_keeps_identity CancelBuild_keeps_identity
      UpdateStatus_def UpdateSourceCommitSHA_def UpdateSourceProvenance_def UpdateImageExecution_def
      UpdateCurrentStepIndex_def keeps_identity_update_build apply_same_identity
      one_step_keeps_identity [OF ClaimStepIfPending_one_step] one_step_keeps_identity [OF ClaimPendingStep_one_step]
      one_step_keeps_identity [OF ReclaimExpiredStep_one_step] one_step_keeps_identity [OF RenewStepLease_one_step]
      one_step_keeps_identity [OF CompleteStepIfRunning_one_step])

lemma keeps_identity_version:
  "keeps_identity r r' \<Longrightarrow> version_of r i = Some v \<Longrightarrow> version_of r' i = Some v"
  by (cases "get_build r i"; cases "get_build r' i")
    (auto simp: keeps_identity_def version_of_def same_identity_def dest: spec [of _ i])

lemma update_run_version:
  assumes "update_step\<^sup>*\<^sup>* r r'" "repo_wf r" "version_of r i = Some v"
  shows "repo_wf r' \<and> version_of r' i = Some v"
  using assms
  by (induction rule: rtranclp_induct)
    (auto intro: update_step_wf keeps_identity_version update_step_keeps_identity)

text \<open>
  C8: The application version of a build is written once. After \<open>SetApplicationVersionIfUnset\<close> has
  stored a version, no sequence of updates changes it: setting the same version again succeeds and
  changes nothing, setting another one is the conflict error and changes nothing.
\<close>

theorem application_version_write_once:
  assumes "repo_wf r" and "SetApplicationVersionIfUnset i v r = (r1, Inr b)" and "update_step\<^sup>*\<^sup>* r1 r2"
  shows "version_of r1 i = Some (TrimSpace v) \<and> version_of r2 i = Some (TrimSpace v) \<and>
     (if TrimSpace w = TrimSpace v
      then \<exists>b2. SetApplicationVersionIfUnset i w r2 = (r2, Inr b2) \<and> get_build r2 i = Some b2
      else SetApplicationVersionIfUnset i w r2 = (r2, Inl ErrApplicationVersionConflict))"
proof -
  obtain b0 where b0: "get_build r i = Some b0"
    using assms(2) by (cases "get_build r i") (simp_all add: SetApplicationVersionIfUnset_def)
  with repo_wfD(3) [OF assms(1)] have "b_ID b0 = i" by blast
  with b0 assms(2) have ne: "TrimSpace v \<noteq> []" and v1: "version_of r1 i = Some (TrimSpace v)"
    by (auto simp: SetApplicationVersionIfUnset_def Let_def version_of_def split: if_splits option.splits)
  have "repo_wf r1" using SetApplicationVersionIfUnset_wf [OF assms(1), of i v] assms(2) by simp
  from update_run_version [OF assms(3) this v1] have v2: "version_of r2 i = Some (TrimSpace v)" by simp
  then obtain b2 where "get_build r2 i = Some b2" "b_ApplicationVersion b2 = Some (TrimSpace v)"
    by (auto simp: version_of_def bind_eq_Some_conv)
  with ne v1 v2 show ?thesis by (simp add: SetApplicationVersionIfUnset_def Let_def)
qed

theorem application_version_write_once_witness:
  "\<exists>r1 b. SetApplicationVersionIfUnset ''b1'' '' 1.2.3 '' two_step_store = (r1, Inr b) \<and>
     version_of r1 ''b1'' = Some ''1.2.3'' \<and>
     SetApplicationVersionIfUnset ''b1'' ''2.0.0'' r1 = (r1, Inl ErrApplicationVersionConflict)"
proof -
  have t: "TrimSpace '' 1.2.3 '' = ''1.2.3''" "TrimSpace ''2.0.0'' = ''2.0.0''"
    by (simp_all add: TrimSpace_def is_space_def)
  have "\<exists>r1 b. SetApplicationVersionIfUnset ''b1'' '' 1.2.3 '' two_step_store = (r1, Inr b)"
    by (simp add: SetApplicationVersionIfUnset_def Let_def t)
  then obtain r1 b where s: "SetApplicationVersionIfUnset ''b1'' '' 1.2.3 '' two_step_store = (r1, Inr b)" by blast
  from application_version_write_once [OF two_step_store_wf s rtranclp.rtrancl_refl, of "''2.0.0''"] s
  show ?thesis by (auto simp: t)
qed

section \<open>Build numbers\<close>

definition next_number :: "string option \<Rightarrow> BuildRepository \<Rightarrow> int" where
  "next_number jobID r =
     (case normalizeBuildJobID jobID of
        Some j \<Rightarrow> gm_get_or 0 (br_nextNumberByJob r) j
      | None \<Rightarrow> br_nextAnonymousNumber r)"

text \<open>Every stored build number is positive and below the counter of its job.\<close>

definition numbers_ok :: "BuildRepository \<Rightarrow> bool" where
  "numbers_ok r \<longleftrightarrow>
     (\<forall>i b. get_build r i = Some b \<longrightarrow> 1 \<le> b_BuildNumber b \<and> b_BuildNumber b < next_number (b_JobID b) r)"

lemma assign_number:
  assumes "assignBuildNumberLocked b r = (r', b')"
    and "0 \<le> next_number (b_JobID b) r" "next_number (b_JobID b) r < max_int64" "b_BuildNumber b < max_int64"
  shows "b_JobID b' = b_JobID b" "1 \<le> b_BuildNumber b'"
    "b_BuildNumber b \<le> 0 \<Longrightarrow> b_BuildNumber b' = max 1 (next_number (b_JobID b) r)"
    "next_number j r' = (if normalizeBuildJobID j = normalizeBuildJobID (b_JobID b)
       then max (next_number j r) (b_BuildNumber b' + 1) else next_number j r)"
  using assms
  by (auto simp: assignBuildNumberLocked_def nextBuildNumberLocked_def observeBuildNumberLocked_def
      next_number_def Let_def split: if_splits option.splits)

lemma prepare_new_build_number:
  assumes "prepare_new_build uuid b r = (r', b')"
    and "0 \<le> next_number (b_JobID b) r" "next_number (b_JobID b) r < max_int64" "b_BuildNumber b < max_int64"
  shows "b_JobID b' = b_JobID b" "1 \<le> b_BuildNumber b'"
    "b_BuildNumber b \<le> 0 \<Longrightarrow> b_BuildNumber b' = max 1 (next_number (b_JobID b) r)"
    "next_number j r' = (if normalizeBuildJobID j = normalizeBuildJobID (b_JobID b)
       then max (next_number j r) (b_BuildNumber b' + 1) else next_number j r)"
proof -
  let ?b1 = "if b_ID b = [] then b\<lparr>b_ID := uuid\<rparr> else b"
  define b2 where "b2 = (if b_AttemptNumber ?b1 \<le> 0 then ?b1\<lparr>b_AttemptNumber := 1\<rparr> else ?b1)"
  have sel: "b_JobID b2 = b_JobID b" "b_BuildNumber b2 = b_BuildNumber b" by (simp_all add: b2_def)
  obtain r1 b3 where a: "assignBuildNumberLocked b2 r = (r1, b3)" by fastforce
  from assms(1) have eq: "r' = r1" "b_JobID b' = b_JobID b3" "b_BuildNumber b' = b_BuildNumber b3"
    unfolding prepare_new_build_def Let_def b2_def [symmetric] a by auto
  note assign = assign_number [OF a, unfolded sel, OF assms(2-4)]
  show "b_JobID b' = b_JobID b" "1 \<le> b_BuildNumber b'"
    "b_BuildNumber b \<le> 0 \<Longrightarrow> b_BuildNumber b' = max 1 (next_number (b_JobID b) r)"
    "next_number j r' = (if normalizeBuildJobID j = normalizeBuildJobID (b_JobID b)
       then max (next_number j r) (b_BuildNumber b' + 1) else next_number j r)"
    using assign by (simp_all add: eq)
qed

lemma next_number_cong:
  "br_nextNumberByJob r' = br_nextNumberByJob r \<Longrightarrow> br_nextAnonymousNumber r' = br_nextAnonymousNumber r \<Longrightarrow>
   next_number j r' = next_number j r"
  by (simp add: next_number_def split: option.split)

lemma keeps_identity_numbers:
  assumes "keeps_identity r r'" "numbers_ok r"
  shows "numbers_ok r'"
  unfolding numbers_ok_def
proof (intro allI impI)
  fix i b' assume "get_build r' i = Some b'"
  with assms(1) obtain b where "get_build r i = Some b" "same_identity b b'"
    unfolding keeps_identity_def by (metis option_rel_Some2)
  with assms show "1 \<le> b_BuildNumber b' \<and> b_BuildNumber b' < next_number (b_JobID b') r'"
    using next_number_cong [of r' r] by (simp add: numbers_ok_def same_identity_def keeps_identity_def)
qed

lemma numbers_ok_store:
  assumes ok: "numbers_ok r" and b': "1 \<le> b_BuildNumber b'" "b_JobID b' = j"
    and builds: "br_builds r' = br_builds r"
    and nxt: "\<And>j'. next_number j' r' = (if normalizeBuildJobID j' = normalizeBuildJobID j
       then max (next_number j' r) (b_BuildNumber b' + 1) else next_number j' r)"
  shows "numbers_ok (storeBuildLocked b' r')"
  unfolding numbers_ok_def
proof (intro allI impI)
  fix i b assume g: "get_build (storeBuildLocked b' r') i = Some b"
  have n: "next_number j' (storeBuildLocked b' r') = next_number j' r'" for j'
    by (rule next_number_cong) simp_all
  show "1 \<le> b_BuildNumber b \<and> b_BuildNumber b < next_number (b_JobID b) (storeBuildLocked b' r')"
  proof (cases "i = b_ID b'")
    case True
    with g have "b = b'" by simp
    then show ?thesis using b' by (simp only: n nxt) simp
  next
    case False
    with g have "get_build r' i = Some b" by simp
    with builds have "get_build r i = Some b" by (simp add: get_build_def)
    with ok show ?thesis by (auto simp: numbers_ok_def n nxt less_max_iff_disj)
  qed
qed

text \<open>
  Build numbers. While the job's counter has not reached the end of \<open>int64\<close>, creating a build
  that carries no number gives it a number greater than that of every stored build of the same job
  (builds without a job count as one group), and the invariant behind this is kept by both ways of
  creating a build and by every update of the store.
\<close>

theorem build_numbers_increase:
  assumes "numbers_ok r" and "repo_wf r"
    and "0 \<le> next_number (b_JobID b) r" and "next_number (b_JobID b) r < max_int64" and "b_BuildNumber b < max_int64"
  shows "(\<forall>r' b'. Create uuid b r = (r', Inr b') \<longrightarrow>
      numbers_ok r' \<and>
      (b_BuildNumber b \<le> 0 \<longrightarrow>
        (\<forall>i b0. get_build r i = Some b0 \<and> normalizeBuildJobID (b_JobID b0) = normalizeBuildJobID (b_JobID b) \<longrightarrow>
           b_BuildNumber b0 < b_BuildNumber b'))) \<and>
    (\<forall>r'. (\<exists>us now steps b'. CreateQueuedBuild uuid us now b steps r = (r', Inr b')) \<longrightarrow> numbers_ok r') \<and>
    (\<forall>r'. update_step r r' \<longrightarrow> numbers_ok r')"
proof -
  obtain r1 b1 where p: "prepare_new_build uuid b r = (r1, b1)" by fastforce
  note num = prepare_new_build_number [OF p assms(3-5)]
  note st = numbers_ok_store [OF assms(1) _ _ prepare_new_build_frame(1) [OF p], where j = "b_JobID b"]
  have less: "b_BuildNumber b0 < b_BuildNumber b1"
    if "b_BuildNumber b \<le> 0" "get_build r i = Some b0"
      "normalizeBuildJobID (b_JobID b0) = normalizeBuildJobID (b_JobID b)" for i b0
  proof -
    have "b_BuildNumber b0 < next_number (b_JobID b0) r" using assms(1) that by (auto simp: numbers_ok_def)
    then show ?thesis using num(3) that by (simp add: next_number_def)
  qed
  have create: "numbers_ok r'" "b' = b1" if "Create uuid b r = (r', Inr b')" for r' b'
    using that num by (auto simp: Create_def p intro!: st split: option.splits)
  have queued: "numbers_ok r'" if "CreateQueuedBuild uuid us now b steps r = (r', Inr b')" for r' b' us now steps
  proof -
    from that obtain b2 steps' where r': "r' = set_steps (b_ID b2) steps' (storeBuildLocked b2 r1)"
      and b2: "b_BuildNumber b2 = b_BuildNumber b1" "b_JobID b2 = b_JobID b1"
      by (auto simp: CreateQueuedBuild_def p Let_def split: option.splits)
    have "numbers_ok (storeBuildLocked b2 r1)" using num b2 by (auto intro!: st)
    then show ?thesis
      unfolding r' numbers_ok_def by (simp add: next_number_cong [of "set_steps _ _ _" "storeBuildLocked b2 r1"])
  qed
  have upd: "numbers_ok r'" if "update_step r r'" for r'
    using keeps_identity_numbers update_step_keeps_identity that assms(1,2) by blast
  show ?thesis using create less queued upd by blast
qed

theorem build_numbers_increase_witness:
  "\<exists>r1 b1. Create ''b1'' (blank_build ''b1'' BuildStatusPending) NewBuildRepository = (r1, Inr b1) \<and> numbers_ok r1"
proof -
  let ?b = "blank_build ''b1'' BuildStatusPending"
  have "Build_ValidateRepositoryIdentitySnapshot ?b = None"
    by (simp add: Build_ValidateRepositoryIdentitySnapshot_def ValidateRepositoryIdentitySnapshot_def blank_build_def)
  then have c: "\<exists>r1 b1. Create ''b1'' ?b NewBuildRepository = (r1, Inr b1)" by (rule Create_succeeds)
  have ok: "numbers_ok NewBuildRepository" by (simp add: numbers_ok_def)
  have "next_number (b_JobID ?b) NewBuildRepository = 1"
    by (simp add: next_number_def normalizeBuildJobID_def NewBuildRepository_def)
  then have n: "0 \<le> next_number (b_JobID ?b) NewBuildRepository"
    "next_number (b_JobID ?b) NewBuildRepository < max_int64" by simp_all
  have "b_BuildNumber ?b < max_int64" by simp
  from build_numbers_increase [OF ok repo_wf_new n this, THEN conjunct1] c show ?thesis by blast
qed

end
