(* ===== verification/Execution_Job_Store.thy ===== *)
theory Execution_Job_Store
  imports Store_Properties
begin

text \<open>
  The durable execution jobs, \<open>repository/memory/execution_job_repository.go\<close>: one job per attempt of
  a step, claimed by workers in priority order, leased, completed together with its step, and
  cancelled with its build.

  The field \<open>builds\<close> of the Go struct points to the build store; here the build store is an argument
  (\<open>None\<close> is the nil interface), and the methods that write through the pointer return its new state.
  \<open>ClaimNextRunnableJob\<close> releases the lock between choosing candidates and taking one; the two
  critical sections are separate definitions, so that other methods may run between them.
\<close>

section \<open>Data\<close>

record SourceSnapshotRef =
  sn_RepositoryURL :: string
  sn_CommitSHA :: string
  sn_RefName :: "string option"
  sn_ArchiveURI :: "string option"
  sn_ArchiveDigest :: "string option"

record ArtifactRef =
  ar_Name :: string
  ar_URI :: string
  ar_Digest :: "string option"
  ar_MediaType :: "string option"
  ar_SizeBytes :: "int option"
  ar_SourceStep :: "int option"

record ExecutionPhaseTiming =
  pt_Name :: string
  pt_StartedAt :: "time option"
  pt_FinishedAt :: "time option"

record ExecutionTiming =
  et_Phases :: "ExecutionPhaseTiming list"

record ExecutionJob =
  j_ID :: string
  j_BuildID :: string
  j_StepID :: string
  j_NodeID :: string
  j_GroupName :: "string option"
  j_DependsOnNodeIDs :: "string list"
  j_Name :: string
  j_StepIndex :: int
  j_AttemptNumber :: int
  j_RetryOfJobID :: "string option"
  j_LineageRootJobID :: "string option"
  j_Status :: ExecutionJobStatus
  j_QueueName :: "string option"
  j_Image :: string
  j_WorkingDir :: string
  j_Command :: "string list"
  j_Environment :: "(string, string) gomap"
  j_TimeoutSeconds :: "int option"
  j_PipelineFilePath :: "string option"
  j_ContextDir :: "string option"
  j_Source :: SourceSnapshotRef
  j_SpecVersion :: int
  j_SpecDigest :: "string option"
  j_ResolvedSpecJSON :: string
  j_ClaimToken :: "string option"
  j_ClaimedBy :: "string option"
  j_ClaimExpiresAt :: "time option"
  j_CreatedAt :: time
  j_StartedAt :: "time option"
  j_FinishedAt :: "time option"
  j_ErrorMessage :: "string option"
  j_FailureKind :: "ExecutionFailureKind option"
  j_ExitCode :: "int option"
  j_OutputRefs :: "ArtifactRef list"
  j_Timing :: "ExecutionTiming option"

record ExecutionJobRepository =
  jr_jobsByID :: "(string, ExecutionJob) gomap"
  jr_jobsByStep :: "(string, string list) gomap"
  jr_jobsByBuild :: "(string, string list) gomap"

record buildClaimOrder =
  co_priority :: int
  co_queuedAt :: time
  co_status :: BuildStatus

record CompleteSuccessfulStepAndJobRequest =
  cs_JobID :: string
  cs_ClaimToken :: string
  cs_FinishedAt :: time
  cs_ExitCode :: int
  cs_StepRequest :: CompleteStepRequest

record CompleteFailedStepAndJobRequest =
  cf_JobID :: string
  cf_ClaimToken :: string
  cf_FinishedAt :: time
  cf_ErrorMessage :: string
  cf_FailureKind :: ExecutionFailureKind
  cf_ExitCode :: "int option"
  cf_StepRequest :: CompleteStepRequest

definition NewExecutionJobRepository :: ExecutionJobRepository where
  "NewExecutionJobRepository = \<lparr>jr_jobsByID = [], jr_jobsByStep = [], jr_jobsByBuild = []\<rparr>"

definition get_job :: "ExecutionJobRepository \<Rightarrow> string \<Rightarrow> ExecutionJob option" where
  "get_job r i = map_of (jr_jobsByID r) i"

definition put_job :: "string \<Rightarrow> ExecutionJob \<Rightarrow> ExecutionJobRepository \<Rightarrow> ExecutionJobRepository" where
  "put_job i job r = r\<lparr>jr_jobsByID := gm_put i job (jr_jobsByID r)\<rparr>"

definition step_jobs :: "ExecutionJobRepository \<Rightarrow> string \<Rightarrow> string list" where
  "step_jobs r i = gm_get_or [] (jr_jobsByStep r) i"

definition build_jobs :: "ExecutionJobRepository \<Rightarrow> string \<Rightarrow> string list" where
  "build_jobs r i = gm_get_or [] (jr_jobsByBuild r) i"

section \<open>Copies\<close>

definition cloneArtifactRefs :: "ArtifactRef list \<Rightarrow> ArtifactRef list" where
  "cloneArtifactRefs refs = (if length refs = 0 then [] else refs)"

definition cloneExecutionTiming :: "ExecutionTiming option \<Rightarrow> ExecutionTiming option" where
  "cloneExecutionTiming timing =
     (case timing of None \<Rightarrow> None
      | Some t \<Rightarrow> Some \<lparr>et_Phases = map (\<lambda>phase. \<lparr>pt_Name = pt_Name phase, pt_StartedAt = pt_StartedAt phase,
                                              pt_FinishedAt = pt_FinishedAt phase\<rparr>) (et_Phases t)\<rparr>)"

definition cloneExecutionJob :: "ExecutionJob \<Rightarrow> ExecutionJob" where
  "cloneExecutionJob job =
     job\<lparr>j_OutputRefs := cloneArtifactRefs (j_OutputRefs job), j_Timing := cloneExecutionTiming (j_Timing job)\<rparr>"

section \<open>Creation\<close>

definition normalizeAttemptNumber :: "int \<Rightarrow> int" where
  "normalizeAttemptNumber value = (if value < 1 then 1 else value)"

text \<open>What the comparisons read of \<open>r.jobsByID[id]\<close>; a missing entry reads as the zero struct.\<close>

definition sort_fields :: "ExecutionJobRepository \<Rightarrow> string \<Rightarrow> int \<times> int \<times> time \<times> string" where
  "sort_fields r i =
     (case get_job r i of None \<Rightarrow> (0, 0, 0, [])
      | Some job \<Rightarrow> (j_StepIndex job, j_AttemptNumber job, j_CreatedAt job, j_ID job))"

definition build_job_less :: "ExecutionJobRepository \<Rightarrow> string \<Rightarrow> string \<Rightarrow> bool" where
  "build_job_less r a b =
     (let (lStep, lAttempt, lCreated, lID) = sort_fields r a; (rStep, rAttempt, rCreated, rID) = sort_fields r b
      in if lStep = rStep then
           (if lAttempt = rAttempt then (if lCreated = rCreated then lID < rID else lCreated < rCreated)
            else lAttempt < rAttempt)
         else lStep < rStep)"

definition step_job_less :: "ExecutionJobRepository \<Rightarrow> string \<Rightarrow> string \<Rightarrow> bool" where
  "step_job_less r a b =
     (let (lStep, lAttempt, lCreated, lID) = sort_fields r a; (rStep, rAttempt, rCreated, rID) = sort_fields r b
      in if lAttempt = rAttempt then (if lCreated = rCreated then lID < rID else lCreated < rCreated)
         else lAttempt < rAttempt)"

fun sort_jobs_loop ::
  "ExecutionJob list \<Rightarrow> string list \<Rightarrow> string list \<Rightarrow> ExecutionJobRepository \<Rightarrow> ExecutionJobRepository" where
  "sort_jobs_loop [] buildSeen stepSeen r = r"
| "sort_jobs_loop (job # jobs) buildSeen stepSeen r =
     (let (buildSeen1, r1) =
            (if j_BuildID job \<in> set buildSeen then (buildSeen, r)
             else (j_BuildID job # buildSeen,
                   r\<lparr>jr_jobsByBuild := gm_put (j_BuildID job)
                      (sort_slice (build_job_less r) (build_jobs r (j_BuildID job))) (jr_jobsByBuild r)\<rparr>));
          (stepSeen1, r2) =
            (if j_StepID job \<in> set stepSeen then (stepSeen, r1)
             else (j_StepID job # stepSeen,
                   r1\<lparr>jr_jobsByStep := gm_put (j_StepID job)
                      (sort_slice (step_job_less r1) (step_jobs r1 (j_StepID job))) (jr_jobsByStep r1)\<rparr>))
      in sort_jobs_loop jobs buildSeen1 stepSeen1 r2)"

definition sortBuildAndStepJobsLocked :: "ExecutionJob list \<Rightarrow> ExecutionJobRepository \<Rightarrow> ExecutionJobRepository" where
  "sortBuildAndStepJobsLocked jobs r = sort_jobs_loop jobs [] [] r"

definition prepare_job :: "ExecutionJob \<Rightarrow> ExecutionJob" where
  "prepare_job job0 =
     (let job1 = job0\<lparr>j_AttemptNumber := normalizeAttemptNumber (j_AttemptNumber job0)\<rparr>
      in if TrimSpace (j_NodeID job1) = [] then job1\<lparr>j_NodeID := FallbackNodeID (j_StepIndex job1)\<rparr> else job1)"

definition add_job :: "ExecutionJob \<Rightarrow> ExecutionJobRepository \<Rightarrow> ExecutionJobRepository" where
  "add_job job r =
     (let r1 = put_job (j_ID job) (cloneExecutionJob job) r;
          r2 = r1\<lparr>jr_jobsByStep := gm_put (j_StepID job) (step_jobs r1 (j_StepID job) @ [j_ID job]) (jr_jobsByStep r1)\<rparr>
      in r2\<lparr>jr_jobsByBuild := gm_put (j_BuildID job) (build_jobs r2 (j_BuildID job) @ [j_ID job]) (jr_jobsByBuild r2)\<rparr>)"

definition CreateJobsForBuild ::
  "ExecutionJob list \<Rightarrow> ExecutionJobRepository \<Rightarrow> ExecutionJobRepository \<times> ExecutionJob list" where
  "CreateJobsForBuild jobs r =
     (sortBuildAndStepJobsLocked jobs (fold (\<lambda>job. add_job (prepare_job job)) jobs r),
      map (\<lambda>job. cloneExecutionJob (prepare_job job)) jobs)"

section \<open>Reading\<close>

text \<open>An identifier without a stored job reads as the zero struct, \<open>None\<close>.\<close>

definition GetJobsByBuildID :: "string \<Rightarrow> ExecutionJobRepository \<Rightarrow> ExecutionJob option list" where
  "GetJobsByBuildID buildID r = map (\<lambda>i. map_option cloneExecutionJob (get_job r i)) (build_jobs r buildID)"

definition GetJobByID :: "string \<Rightarrow> ExecutionJobRepository \<Rightarrow> go_error + ExecutionJob" where
  "GetJobByID i r =
     (case get_job r i of None \<Rightarrow> Inl ErrExecutionJobNotFound | Some job \<Rightarrow> Inr (cloneExecutionJob job))"

definition GetJobByStepID :: "string \<Rightarrow> ExecutionJobRepository \<Rightarrow> go_error + ExecutionJob option" where
  "GetJobByStepID stepID r =
     (let ids = step_jobs r stepID
      in if length ids = 0 then Inl ErrExecutionJobNotFound
         else Inr (map_option cloneExecutionJob (get_job r (last ids))))"

definition GetJobTiming :: "string \<Rightarrow> ExecutionJobRepository \<Rightarrow> go_error + ExecutionTiming option" where
  "GetJobTiming jobID r =
     (case get_job r jobID of None \<Rightarrow> Inl ErrExecutionJobNotFound
      | Some job \<Rightarrow> Inr (cloneExecutionTiming (j_Timing job)))"

definition GetJobTimings :: "string list \<Rightarrow> ExecutionJobRepository \<Rightarrow> (string, ExecutionTiming option) gomap" where
  "GetJobTimings jobIDs r =
     fold (\<lambda>jobID timings.
        case get_job r jobID of None \<Rightarrow> timings
        | Some job \<Rightarrow> (if j_Timing job = None then timings
                      else gm_put jobID (cloneExecutionTiming (j_Timing job)) timings)) jobIDs []"

section \<open>Claims\<close>

definition effective_job_node :: "ExecutionJob \<Rightarrow> string" where
  "effective_job_node job =
     (let nodeID = TrimSpace (j_NodeID job)
      in if nodeID = [] then FallbackNodeID (j_StepIndex job) else nodeID)"

definition note_latest_job ::
  "(string, ExecutionJob) gomap \<Rightarrow> string \<Rightarrow> (string, ExecutionJob) gomap \<Rightarrow> (string, ExecutionJob) gomap" where
  "note_latest_job jobsByID i latest =
     (case map_of jobsByID i of
        None \<Rightarrow> latest
      | Some job \<Rightarrow>
          (let nodeID = effective_job_node job
           in case map_of latest nodeID of
                None \<Rightarrow> gm_put nodeID job latest
              | Some existing \<Rightarrow>
                  (if j_AttemptNumber job > j_AttemptNumber existing \<or>
                      (j_AttemptNumber job = j_AttemptNumber existing \<and> j_CreatedAt job > j_CreatedAt existing)
                   then gm_put nodeID job latest else latest)))"

definition latestJobsByNodeID ::
  "string list \<Rightarrow> (string, ExecutionJob) gomap \<Rightarrow> (string, ExecutionJob) gomap" where
  "latestJobsByNodeID jobIDs jobsByID = fold (note_latest_job jobsByID) jobIDs []"

definition isJobRunnable :: "ExecutionJob \<Rightarrow> (string, ExecutionJob) gomap \<Rightarrow> bool" where
  "isJobRunnable job latestByNode =
     list_all (\<lambda>dep. case map_of latestByNode (TrimSpace dep) of
                       None \<Rightarrow> False
                     | Some upstream \<Rightarrow> j_Status upstream = ExecutionJobStatusSuccess) (j_DependsOnNodeIDs job)"

definition isClaimCandidate :: "ExecutionJob \<Rightarrow> (string, ExecutionJob) gomap \<Rightarrow> time \<Rightarrow> bool" where
  "isClaimCandidate job latestByNode now =
     (if \<not> isJobRunnable job latestByNode then False
      else if j_Status job = ExecutionJobStatusQueued then True
      else j_Status job = ExecutionJobStatusRunning \<and>
           (case j_ClaimExpiresAt job of None \<Rightarrow> False | Some l \<Rightarrow> \<not> l > now))"

text \<open>The loop caches \<open>latestJobsByNodeID\<close> per build; the cache holds what is computed here.\<close>

definition claimCandidatesLocked :: "time \<Rightarrow> ExecutionJobRepository \<Rightarrow> ExecutionJob list \<times> string list" where
  "claimCandidatesLocked now r =
     (let candidates = filter (\<lambda>job. isClaimCandidate job
             (latestJobsByNodeID (build_jobs r (j_BuildID job)) (jr_jobsByID r)) now) (map snd (jr_jobsByID r))
      in (candidates, remdups (map j_BuildID candidates)))"

definition defaultBuildClaimOrder :: buildClaimOrder where
  "defaultBuildClaimOrder = \<lparr>co_priority = DefaultPriority, co_queuedAt = 0, co_status = BuildStatusRunning\<rparr>"

definition build_claim_order :: "BuildRepository option \<Rightarrow> string \<Rightarrow> buildClaimOrder" where
  "build_claim_order builds buildID =
     (case builds of None \<Rightarrow> defaultBuildClaimOrder
      | Some b \<Rightarrow>
          (case GetByID buildID b of
             Inl _ \<Rightarrow> defaultBuildClaimOrder
           | Inr build \<Rightarrow>
               \<lparr>co_priority = NormalizePriority (b_Priority build),
                co_queuedAt = (case b_QueuedAt build of Some t \<Rightarrow> t | None \<Rightarrow> b_CreatedAt build),
                co_status = b_Status build\<rparr>))"

definition loadBuildClaimOrders :: "BuildRepository option \<Rightarrow> string list \<Rightarrow> (string, buildClaimOrder) gomap" where
  "loadBuildClaimOrders builds buildIDs = map (\<lambda>i. (i, build_claim_order builds i)) buildIDs"

text \<open>Every candidate's build has an entry, so the lookup never falls back to the zero struct.\<close>

definition order_of :: "(string, buildClaimOrder) gomap \<Rightarrow> ExecutionJob \<Rightarrow> buildClaimOrder" where
  "order_of orders job = gm_get_or defaultBuildClaimOrder orders (j_BuildID job)"

definition candidate_less :: "(string, buildClaimOrder) gomap \<Rightarrow> ExecutionJob \<Rightarrow> ExecutionJob \<Rightarrow> bool" where
  "candidate_less orders x y =
     (let left = order_of orders x; right = order_of orders y
      in if co_priority left \<noteq> co_priority right then co_priority left > co_priority right
         else if co_queuedAt left \<noteq> co_queuedAt right then co_queuedAt left < co_queuedAt right
         else if j_CreatedAt x = j_CreatedAt y then
           (if j_StepIndex x = j_StepIndex y then
              (if j_AttemptNumber x = j_AttemptNumber y then j_ID x < j_ID y
               else j_AttemptNumber x < j_AttemptNumber y)
            else j_StepIndex x < j_StepIndex y)
         else j_CreatedAt x < j_CreatedAt y)"

definition take_job_claim :: "StepClaim \<Rightarrow> ExecutionJob \<Rightarrow> ExecutionJob" where
  "take_job_claim claim job =
     (let job1 = job\<lparr>j_Status := ExecutionJobStatusRunning, j_ClaimedBy := Some (c_WorkerID claim),
                   j_ClaimToken := Some (c_ClaimToken claim), j_ClaimExpiresAt := Some (c_LeaseExpiresAt claim)\<rparr>
      in if j_StartedAt job1 = None then job1\<lparr>j_StartedAt := Some (c_ClaimedAt claim)\<rparr> else job1)"

text \<open>The second critical section: take the first candidate that still is one.\<close>

fun claim_first ::
  "StepClaim \<Rightarrow> (string, buildClaimOrder) gomap \<Rightarrow> ExecutionJob list \<Rightarrow> ExecutionJobRepository \<Rightarrow>
     ExecutionJobRepository \<times> ExecutionJob option" where
  "claim_first claim orders [] r = (r, None)"
| "claim_first claim orders (candidate # rest) r =
     (let buildStatus = co_status (order_of orders candidate)
      in if buildStatus \<noteq> BuildStatusQueued \<and> buildStatus \<noteq> BuildStatusRunning
         then claim_first claim orders rest r
         else case get_job r (j_ID candidate) of
           None \<Rightarrow> claim_first claim orders rest r
         | Some job \<Rightarrow>
             (let latestByNode = latestJobsByNodeID (build_jobs r (j_BuildID job)) (jr_jobsByID r)
              in if \<not> isClaimCandidate job latestByNode (c_ClaimedAt claim)
                 then claim_first claim orders rest r
                 else (let job1 = take_job_claim claim job
                       in (put_job (j_ID job1) job1 r, Some (cloneExecutionJob job1)))))"

text \<open>A call that no other method interrupts: both critical sections see the same store.\<close>

definition ClaimNextRunnableJob ::
  "BuildRepository option \<Rightarrow> StepClaim \<Rightarrow> ExecutionJobRepository \<Rightarrow> ExecutionJobRepository \<times> ExecutionJob option" where
  "ClaimNextRunnableJob builds claim r =
     (let (candidates, buildIDs) = claimCandidatesLocked (c_ClaimedAt claim) r
      in if length candidates = 0 then (r, None)
         else (let orders = loadBuildClaimOrders builds buildIDs
               in claim_first claim orders (sort_slice (candidate_less orders) candidates) r))"

definition ClaimJobByStepID ::
  "BuildRepository option \<Rightarrow> string \<Rightarrow> StepClaim \<Rightarrow> ExecutionJobRepository \<Rightarrow>
     ExecutionJobRepository \<times> (go_error + (ExecutionJob \<times> bool))" where
  "ClaimJobByStepID builds stepID claim r =
     (let ids = step_jobs r stepID
      in if length ids = 0 then (r, Inl ErrExecutionJobNotFound)
         else case get_job r (last ids) of
           None \<Rightarrow> (r, Inl ErrExecutionJobNotFound)
         | Some job \<Rightarrow>
             (if j_Status job \<noteq> ExecutionJobStatusQueued \<and> j_Status job \<noteq> ExecutionJobStatusRunning
              then (r, Inr (cloneExecutionJob job, False))
              else if (case builds of None \<Rightarrow> False
                       | Some b \<Rightarrow> (case GetByID (j_BuildID job) b of Inl _ \<Rightarrow> True
                                    | Inr build \<Rightarrow> b_Status build \<noteq> BuildStatusRunning))
              then (r, Inr (cloneExecutionJob job, False))
              else (let job1 = take_job_claim claim job
                    in (put_job (last ids) job1 r, Inr (cloneExecutionJob job1, True)))))"

section \<open>Leases and completion\<close>

text \<open>The guard that renewals, timing updates and completions share.\<close>

definition with_held_job ::
  "string \<Rightarrow> string \<Rightarrow> (ExecutionJob \<Rightarrow> ExecutionJob) \<Rightarrow> ExecutionJobRepository \<Rightarrow>
     ExecutionJobRepository \<times> ExecutionJob option \<times> StepCompletionOutcome \<times> go_error option" where
  "with_held_job jobID claimToken f r =
     (case get_job r jobID of
        None \<Rightarrow> (r, None, StepCompletionInvalidTransition, Some ErrExecutionJobNotFound)
      | Some job \<Rightarrow>
          (if IsTerminalExecutionJobStatus (j_Status job)
           then (r, Some (cloneExecutionJob job), StepCompletionDuplicateTerminal, None)
           else if j_Status job \<noteq> ExecutionJobStatusRunning
           then (r, Some (cloneExecutionJob job), StepCompletionInvalidTransition, None)
           else if j_ClaimToken job \<noteq> Some claimToken
           then (r, Some (cloneExecutionJob job), StepCompletionStaleClaim, None)
           else (put_job jobID (f job) r, Some (cloneExecutionJob (f job)), StepCompletionCompleted, None)))"

definition RenewJobLease ::
  "string \<Rightarrow> string \<Rightarrow> time \<Rightarrow> ExecutionJobRepository \<Rightarrow>
     ExecutionJobRepository \<times> ExecutionJob option \<times> StepCompletionOutcome \<times> go_error option" where
  "RenewJobLease jobID claimToken leaseExpiresAt r =
     with_held_job jobID claimToken (\<lambda>job. job\<lparr>j_ClaimExpiresAt := Some leaseExpiresAt\<rparr>) r"

definition UpdateJobTiming ::
  "string \<Rightarrow> string \<Rightarrow> ExecutionTiming \<Rightarrow> ExecutionJobRepository \<Rightarrow>
     ExecutionJobRepository \<times> ExecutionJob option \<times> StepCompletionOutcome \<times> go_error option" where
  "UpdateJobTiming jobID claimToken timing r =
     with_held_job jobID claimToken (\<lambda>job. job\<lparr>j_Timing := cloneExecutionTiming (Some timing)\<rparr>) r"

definition finish_job ::
  "time \<Rightarrow> ExecutionJobStatus \<Rightarrow> string option \<Rightarrow> ExecutionFailureKind option \<Rightarrow> int option \<Rightarrow>
     ArtifactRef list \<Rightarrow> ExecutionJob \<Rightarrow> ExecutionJob" where
  "finish_job finishedAt status errorMessage failureKind exitCode outputRefs job =
     job\<lparr>j_Status := status, j_FinishedAt := Some finishedAt, j_ErrorMessage := errorMessage,
        j_FailureKind := failureKind, j_ExitCode := exitCode, j_OutputRefs := cloneArtifactRefs outputRefs,
        j_ClaimToken := None, j_ClaimedBy := None, j_ClaimExpiresAt := None\<rparr>"

definition completeJobLocked ::
  "string \<Rightarrow> string \<Rightarrow> time \<Rightarrow> ExecutionJobStatus \<Rightarrow> string option \<Rightarrow> ExecutionFailureKind option \<Rightarrow>
     int option \<Rightarrow> ArtifactRef list \<Rightarrow> ExecutionJobRepository \<Rightarrow>
     ExecutionJobRepository \<times> ExecutionJob option \<times> StepCompletionOutcome \<times> go_error option" where
  "completeJobLocked jobID claimToken finishedAt status errorMessage failureKind exitCode outputRefs r =
     with_held_job jobID claimToken (finish_job finishedAt status errorMessage failureKind exitCode outputRefs) r"

definition CompleteJobSuccess ::
  "string \<Rightarrow> string \<Rightarrow> time \<Rightarrow> int \<Rightarrow> ArtifactRef list \<Rightarrow> ExecutionJobRepository \<Rightarrow>
     ExecutionJobRepository \<times> ExecutionJob option \<times> StepCompletionOutcome \<times> go_error option" where
  "CompleteJobSuccess jobID claimToken finishedAt exitCode outputRefs r =
     completeJobLocked jobID claimToken finishedAt ExecutionJobStatusSuccess None None (Some exitCode) outputRefs r"

definition CompleteJobFailure ::
  "string \<Rightarrow> string \<Rightarrow> time \<Rightarrow> string \<Rightarrow> ExecutionFailureKind \<Rightarrow> int option \<Rightarrow> ArtifactRef list \<Rightarrow>
     ExecutionJobRepository \<Rightarrow>
     ExecutionJobRepository \<times> ExecutionJob option \<times> StepCompletionOutcome \<times> go_error option" where
  "CompleteJobFailure jobID claimToken finishedAt errorMessage failureKind exitCode outputRefs r =
     completeJobLocked jobID claimToken finishedAt ExecutionJobStatusFailed (Some errorMessage) (Some failureKind)
       exitCode outputRefs r"

text \<open>
  The two stores after an atomic completion, with the step result (its zero value is
  \<open>(None, None)\<close>), the job, the outcome and the error. \<open>now\<close> is the instant of the lease check and
  \<open>now2\<close> the one that \<open>completeStepLocked\<close> reads.
\<close>

definition complete_step_and_job ::
  "time \<Rightarrow> time \<Rightarrow> string \<Rightarrow> string \<Rightarrow> CompleteStepRequest \<Rightarrow>
     (ExecutionJobRepository \<Rightarrow> ExecutionJobRepository \<times> ExecutionJob option \<times> StepCompletionOutcome \<times> go_error option) \<Rightarrow>
     BuildRepository option \<Rightarrow> ExecutionJobRepository \<Rightarrow>
     BuildRepository option \<times> ExecutionJobRepository \<times>
       (BuildStep option \<times> StepCompletionOutcome option) \<times> ExecutionJob option \<times> StepCompletionOutcome \<times> go_error option" where
  "complete_step_and_job now now2 jobID claimToken stepRequest complete builds r =
     (case get_job r jobID of
        None \<Rightarrow> (builds, r, (None, None), None, StepCompletionInvalidTransition, Some ErrExecutionJobNotFound)
      | Some job \<Rightarrow>
          (if IsTerminalExecutionJobStatus (j_Status job)
           then (builds, r, (None, None), Some (cloneExecutionJob job), StepCompletionDuplicateTerminal, None)
           else if j_Status job \<noteq> ExecutionJobStatusRunning \<or> j_ClaimToken job \<noteq> Some claimToken \<or>
                   (case j_ClaimExpiresAt job of None \<Rightarrow> True | Some l \<Rightarrow> \<not> l > now)
           then (builds, r, (None, None), Some (cloneExecutionJob job), StepCompletionStaleClaim, None)
           else case builds of
             None \<Rightarrow> (builds, r, (None, None), None, StepCompletionInvalidTransition, Some ErrBuildNotFound)
           | Some b \<Rightarrow>
               (let (b1, step, stepOutcome, stepErr) = completeStepLocked now2 stepRequest b
                in if stepErr \<noteq> None \<or> stepOutcome \<noteq> StepCompletionCompleted
                   then (Some b1, r, (step, Some stepOutcome), None, stepOutcome, stepErr)
                   else (let (r1, jobResult, outcome, jobErr) = complete r
                         in (Some b1, r1, (step, Some stepOutcome), jobResult, outcome, jobErr)))))"

definition CompleteSuccessfulStepAndJob ::
  "time \<Rightarrow> time \<Rightarrow> CompleteSuccessfulStepAndJobRequest \<Rightarrow> BuildRepository option \<Rightarrow> ExecutionJobRepository \<Rightarrow>
     BuildRepository option \<times> ExecutionJobRepository \<times>
       (BuildStep option \<times> StepCompletionOutcome option) \<times> ExecutionJob option \<times> StepCompletionOutcome \<times> go_error option" where
  "CompleteSuccessfulStepAndJob now now2 request builds r =
     complete_step_and_job now now2 (cs_JobID request) (cs_ClaimToken request) (cs_StepRequest request)
       (completeJobLocked (cs_JobID request) (cs_ClaimToken request) (cs_FinishedAt request)
          ExecutionJobStatusSuccess None None (Some (cs_ExitCode request)) []) builds r"

definition CompleteFailedStepAndJob ::
  "time \<Rightarrow> time \<Rightarrow> CompleteFailedStepAndJobRequest \<Rightarrow> BuildRepository option \<Rightarrow> ExecutionJobRepository \<Rightarrow>
     BuildRepository option \<times> ExecutionJobRepository \<times>
       (BuildStep option \<times> StepCompletionOutcome option) \<times> ExecutionJob option \<times> StepCompletionOutcome \<times> go_error option" where
  "CompleteFailedStepAndJob now now2 request builds r =
     complete_step_and_job now now2 (cf_JobID request) (cf_ClaimToken request) (cf_StepRequest request)
       (completeJobLocked (cf_JobID request) (cf_ClaimToken request) (cf_FinishedAt request)
          ExecutionJobStatusFailed (Some (cf_ErrorMessage request)) (Some (cf_FailureKind request))
          (cf_ExitCode request) []) builds r"

section \<open>Cancellation\<close>

definition cancel_job :: "string \<Rightarrow> time \<Rightarrow> ExecutionJob \<Rightarrow> ExecutionJob" where
  "cancel_job reason canceledAt job =
     (let job1 = job\<lparr>j_Status := ExecutionJobStatusCanceled, j_FailureKind := None, j_ClaimToken := None,
                   j_ClaimedBy := None, j_ClaimExpiresAt := None\<rparr>;
          job2 = (if j_StartedAt job1 = None then job1\<lparr>j_StartedAt := Some canceledAt\<rparr> else job1);
          job3 = (if j_FinishedAt job2 = None then job2\<lparr>j_FinishedAt := Some canceledAt\<rparr> else job2)
      in if TrimSpace reason \<noteq> [] then job3\<lparr>j_ErrorMessage := Some (TrimSpace reason)\<rparr> else job3)"

fun cancel_jobs :: "string \<Rightarrow> time \<Rightarrow> string list \<Rightarrow> ExecutionJobRepository \<Rightarrow> ExecutionJobRepository \<times> nat" where
  "cancel_jobs reason canceledAt [] r = (r, 0)"
| "cancel_jobs reason canceledAt (i # ids) r =
     (case get_job r i of
        None \<Rightarrow> cancel_jobs reason canceledAt ids r
      | Some job \<Rightarrow>
          (if \<not> CanCancelExecutionJob (j_Status job) then cancel_jobs reason canceledAt ids r
           else (let (r1, n) = cancel_jobs reason canceledAt ids (put_job i (cancel_job reason canceledAt job) r)
                 in (r1, Suc n))))"

definition CancelJobsForBuild ::
  "string \<Rightarrow> string \<Rightarrow> time \<Rightarrow> ExecutionJobRepository \<Rightarrow> ExecutionJobRepository \<times> nat" where
  "CancelJobsForBuild buildID reason canceledAt r = cancel_jobs reason canceledAt (build_jobs r buildID) r"

end
