(* ===== verification/Planner.thy ===== *)
theory Planner
  imports Dependency_Graph Go_Paths Execution_Job_Store Fixtures
begin

text \<open>
  The execution planner (\<open>service/build/execution_planner.go\<close>): it turns the steps of a build into the
  execution jobs that workers claim, and derives for each job which workspace it starts from.

  \<open>ToJSON\<close> (\<open>json.Marshal\<close> of the specification), the SHA-256 digest, the job identifiers
  (\<open>uuid.NewString\<close>) and the clock are arguments. The planner recurses along dependencies without a
  guard against cycles; a result of \<open>None\<close> is a recursion that does not end.
\<close>

section \<open>Workspace inputs\<close>

text \<open>\<open>WorkspaceInputModeUnset\<close> is the zero value of the string type, which no plan uses.\<close>

datatype WorkspaceInputMode =
  WorkspaceInputModeUnset
| WorkspaceInputModeSource
| WorkspaceInputModePredecessor
| WorkspaceInputModeFanIn

record WorkspaceInputPlan =
  wi_Mode :: WorkspaceInputMode
  wi_ProducerNodeID :: string
  wi_CommonAncestorNodeID :: string
  wi_IsolatedWritableDescendant :: bool

definition effectiveWorkspaceNodeID :: "BuildStep \<Rightarrow> string" where
  "effectiveWorkspaceNodeID step =
     (let nodeID = TrimSpace (s_NodeID step)
      in if nodeID \<noteq> [] then nodeID else FallbackNodeID (s_StepIndex step))"

text \<open>The loop of \<open>precedingWorkspaceNodeID\<close>: \<open>best\<close> is the candidate found so far, \<open>None\<close> for index \<open>-1\<close>.\<close>

definition better_predecessor :: "BuildStep \<Rightarrow> BuildStep \<Rightarrow> BuildStep option \<Rightarrow> BuildStep option" where
  "better_predecessor step candidate best =
     (if s_StepIndex candidate \<ge> s_StepIndex step \<or> s_StepIndex candidate < 0 then best
      else (case best of
              None \<Rightarrow> Some candidate
            | Some b \<Rightarrow> (if s_StepIndex candidate > s_StepIndex b then Some candidate else best)))"

definition precedingWorkspaceNodeID :: "BuildStep \<Rightarrow> BuildStep list \<Rightarrow> string option" where
  "precedingWorkspaceNodeID step steps =
     map_option effectiveWorkspaceNodeID (fold (better_predecessor step) steps None)"

fun unique_known_loop :: "string list \<Rightarrow> string list \<Rightarrow> string list \<Rightarrow> string list" where
  "unique_known_loop knownNodeIDs [] result = result"
| "unique_known_loop knownNodeIDs (dependency # rest) result =
     (let nodeID = TrimSpace dependency
      in if nodeID = [] \<or> nodeID \<notin> set knownNodeIDs \<or> nodeID \<in> set result
         then unique_known_loop knownNodeIDs rest result
         else unique_known_loop knownNodeIDs rest (result @ [nodeID]))"

definition uniqueKnownDependencies :: "string list \<Rightarrow> string list \<Rightarrow> string list" where
  "uniqueKnownDependencies dependencies knownNodeIDs = unique_known_loop knownNodeIDs dependencies []"

text \<open>The dependencies one step is planned with: the known ones it names, or its predecessor.\<close>

definition workspace_dependencies :: "BuildStep list \<Rightarrow> BuildStep \<Rightarrow> string list" where
  "workspace_dependencies steps step =
     (let dependencies = uniqueKnownDependencies (s_DependsOnNodes step) (map effectiveWorkspaceNodeID steps)
      in if TrimSpace (s_NodeID step) = [] \<and> length dependencies = 0
         then (case precedingWorkspaceNodeID step steps of
                 Some predecessorNodeID \<Rightarrow> [predecessorNodeID] | None \<Rightarrow> dependencies)
         else dependencies)"

definition dependencies_by_node :: "BuildStep list \<Rightarrow> graph" where
  "dependencies_by_node steps =
     fold (\<lambda>step. gm_put (effectiveWorkspaceNodeID step) (workspace_dependencies steps step)) steps []"

definition count_dependent :: "string \<Rightarrow> (string, int) gomap \<Rightarrow> (string, int) gomap" where
  "count_dependent dependencyNodeID counts =
     gm_put dependencyNodeID (gm_get_or 0 counts dependencyNodeID + 1) counts"

definition dependent_counts :: "BuildStep list \<Rightarrow> (string, int) gomap" where
  "dependent_counts steps = fold (\<lambda>step. fold count_dependent (workspace_dependencies steps step)) steps []"

definition plan_step :: "graph \<Rightarrow> (string, int) gomap \<Rightarrow> string \<Rightarrow> WorkspaceInputPlan option" where
  "plan_step dependenciesByNodeID dependentCountByNodeID nodeID =
     (let dependencies = succs dependenciesByNodeID nodeID
      in case dependencies of
           [] \<Rightarrow> Some \<lparr>wi_Mode = WorkspaceInputModeSource, wi_ProducerNodeID = [],
                       wi_CommonAncestorNodeID = [], wi_IsolatedWritableDescendant = False\<rparr>
         | [producerNodeID] \<Rightarrow>
             Some \<lparr>wi_Mode = WorkspaceInputModePredecessor, wi_ProducerNodeID = producerNodeID,
                   wi_CommonAncestorNodeID = [],
                   wi_IsolatedWritableDescendant = gm_get_or 0 dependentCountByNodeID producerNodeID > 1\<rparr>
         | _ \<Rightarrow>
             (case nearestCommonAncestor dependencies dependenciesByNodeID of
                None \<Rightarrow> None
              | Some ancestor \<Rightarrow>
                  Some \<lparr>wi_Mode = WorkspaceInputModeFanIn, wi_ProducerNodeID = [],
                        wi_CommonAncestorNodeID = ancestor, wi_IsolatedWritableDescendant = False\<rparr>))"

definition planWorkspaceInputs :: "BuildStep list \<Rightarrow> WorkspaceInputPlan list option" where
  "planWorkspaceInputs steps =
     those (map (\<lambda>step. plan_step (dependencies_by_node steps) (dependent_counts steps)
                          (effectiveWorkspaceNodeID step)) steps)"

section \<open>Job specifications\<close>

record ExecutionJobSpec =
  es_Version :: int
  es_ExecutionKind :: string
  es_Image :: string
  es_WorkingDir :: string
  es_Command :: "string list"
  es_Environment :: "(string, string) gomap"
  es_TimeoutSeconds :: int
  es_PipelineFilePath :: string
  es_ContextDir :: string
  es_Source :: SourceSnapshotRef
  es_WorkspaceInput :: WorkspaceInputPlan
  es_RemoteImageBuild :: "RemoteImageBuildSpec option"

definition plannerSourceRepositoryURL :: "SourceSpec option \<Rightarrow> string option \<Rightarrow> string" where
  "plannerSourceRepositoryURL spec fallback =
     (case spec of
        Some s \<Rightarrow> TrimSpace (ss_RepositoryURL s)
      | None \<Rightarrow> (case fallback of None \<Rightarrow> [] | Some f \<Rightarrow> TrimSpace f))"

definition plannerSourceCommitSHA :: "SourceSpec option \<Rightarrow> string option \<Rightarrow> string" where
  "plannerSourceCommitSHA spec fallback =
     (case Option.bind spec ss_CommitSHA of
        Some sha \<Rightarrow> TrimSpace sha
      | None \<Rightarrow> (case fallback of None \<Rightarrow> [] | Some f \<Rightarrow> TrimSpace f))"

definition plannerSourceRef :: "SourceSpec option \<Rightarrow> string option" where
  "plannerSourceRef spec =
     (case Option.bind spec ss_Ref of
        None \<Rightarrow> None
      | Some ref \<Rightarrow> (let v = TrimSpace ref in if v = [] then None else Some v))"

definition plannerContextDirFromPipelinePath :: "string option \<Rightarrow> string" where
  "plannerContextDirFromPipelinePath pipelinePath =
     (case pipelinePath of
        None \<Rightarrow> ''.''
      | Some p \<Rightarrow>
          (let normalized = TrimSpace p
           in if normalized = [] then ''.''
              else (let dir = path_Clean (path_Dir (slashes normalized)) in if dir = [] then ''.'' else dir)))"

definition cloneEnv :: "(string, string) gomap \<Rightarrow> (string, string) gomap" where
  "cloneEnv env = fold (\<lambda>(key, val). gm_put key val) env []"

definition mergePlannerEnv :: "(string, string) gomap \<Rightarrow> (string, string) gomap \<Rightarrow> (string, string) gomap" where
  "mergePlannerEnv base extra = fold (\<lambda>(key, val). gm_put key val) extra (cloneEnv base)"

definition put_optional :: "string \<Rightarrow> string option \<Rightarrow> (string, string) gomap \<Rightarrow> (string, string) gomap" where
  "put_optional key v env = (case v of None \<Rightarrow> env | Some x \<Rightarrow> gm_put key x env)"

definition plannerTriggerEnv :: "BuildTrigger \<Rightarrow> (string, string) gomap" where
  "plannerTriggerEnv trigger0 =
     (let trigger = NormalizeBuildTrigger trigger0
      in if t_Kind trigger \<noteq> BuildTriggerKindArtifact then []
         else (put_optional ''COYOTE_TRIGGER_ARTIFACT_CHECKSUM_SHA256'' (t_ArtifactChecksumSHA256 trigger)
             \<circ> put_optional ''COYOTE_TRIGGER_ARTIFACT_SIZE_BYTES'' (map_option FormatInt (t_ArtifactSizeBytes trigger))
             \<circ> put_optional ''COYOTE_TRIGGER_ARTIFACT_NAME'' (t_ArtifactName trigger)
             \<circ> put_optional ''COYOTE_TRIGGER_ARTIFACT_PATH'' (t_ArtifactPath trigger)
             \<circ> put_optional ''COYOTE_TRIGGER_ARTIFACT_ID'' (t_ArtifactID trigger)
             \<circ> put_optional ''COYOTE_TRIGGER_BUILD_ID'' (t_ProducerBuildID trigger)
             \<circ> put_optional ''COYOTE_TRIGGER_JOB_ID'' (t_ProducerJobID trigger)
             \<circ> put_optional ''COYOTE_TRIGGER_PROJECT_ID'' (t_ProducerProjectID trigger))
            [(''COYOTE_TRIGGER_TYPE'', ''artifact_uploaded'')])"

definition optionalPointer :: "string \<Rightarrow> string option" where
  "optionalPointer v = (let trimmed = TrimSpace v in if trimmed = [] then None else Some trimmed)"

definition optionalValue :: "string option \<Rightarrow> string" where
  "optionalValue v = (case v of None \<Rightarrow> [] | Some x \<Rightarrow> TrimSpace x)"

definition defaultValue :: "string \<Rightarrow> string \<Rightarrow> string" where
  "defaultValue v fallback = (let trimmed = TrimSpace v in if trimmed = [] then fallback else trimmed)"

definition maxInt :: "int \<Rightarrow> int \<Rightarrow> int" where
  "maxInt v minimum = (if v < minimum then minimum else v)"

definition cloneRemoteImageBuildSpec :: "RemoteImageBuildSpec option \<Rightarrow> RemoteImageBuildSpec option" where
  "cloneRemoteImageBuildSpec spec =
     (case spec of
        None \<Rightarrow> None
      | Some s \<Rightarrow> Some \<lparr>rib_ContextPath = rib_ContextPath s, rib_DockerfilePath = rib_DockerfilePath s,
          rib_Target = rib_Target s, rib_BuildArgs = fold (\<lambda>(key, val). gm_put key val) (rib_BuildArgs s) [],
          rib_TargetImageReference = rib_TargetImageReference s,
          rib_ArtifactInputs = rib_ArtifactInputs s\<rparr>)"

definition BuildSpecDigest :: "(string \<Rightarrow> string) \<Rightarrow> string \<Rightarrow> string option" where
  "BuildSpecDigest sha256_hex specJSON =
     (let trimmed = TrimSpace specJSON in if trimmed = [] then None else Some (sha256_hex trimmed))"

record BuildExecutionPlanner =
  pl_specVersion :: int
  pl_clock :: time

definition NewBuildExecutionPlanner :: "time \<Rightarrow> BuildExecutionPlanner" where
  "NewBuildExecutionPlanner now = \<lparr>pl_specVersion = 1, pl_clock = now\<rparr>"

definition plan_spec :: "BuildExecutionPlanner \<Rightarrow> Build \<Rightarrow> string \<Rightarrow> WorkspaceInputPlan \<Rightarrow> BuildStep \<Rightarrow> ExecutionJobSpec" where
  "plan_spec p build image0 workspacePlan step =
     (let resolvedImage = TrimSpace image0;
          executionKind = (if s_ExecutionKind step = [] then ExecutionKindShell else s_ExecutionKind step);
          stepImage0 = TrimSpace (s_Image step);
          stepImage = (if stepImage0 = [] then resolvedImage else stepImage0)
      in \<lparr>es_Version = pl_specVersion p,
          es_ExecutionKind = executionKind,
          es_Image = stepImage,
          es_WorkingDir = defaultValue (s_WorkingDir step) ''.'',
          es_Command = defaultValue (s_Command step) ''sh'' # s_Args step,
          es_Environment = mergePlannerEnv (s_Env step) (plannerTriggerEnv (b_Trigger build)),
          es_TimeoutSeconds = maxInt (s_TimeoutSeconds step) 0,
          es_PipelineFilePath = optionalValue (b_PipelinePath build),
          es_ContextDir = plannerContextDirFromPipelinePath (b_PipelinePath build),
          es_Source = \<lparr>sn_RepositoryURL = plannerSourceRepositoryURL (b_Source build) (b_RepoURL build),
                       sn_CommitSHA = plannerSourceCommitSHA (b_Source build) (b_CommitSHA build),
                       sn_RefName = plannerSourceRef (b_Source build),
                       sn_ArchiveURI = None, sn_ArchiveDigest = None\<rparr>,
          es_WorkspaceInput = workspacePlan,
          es_RemoteImageBuild = cloneRemoteImageBuildSpec (s_RemoteImageBuild step)\<rparr>)"

definition plan_job ::
  "(string \<Rightarrow> string) \<Rightarrow> BuildExecutionPlanner \<Rightarrow> Build \<Rightarrow> BuildStep \<Rightarrow> ExecutionJobSpec \<Rightarrow> string \<Rightarrow> string \<Rightarrow> ExecutionJob" where
  "plan_job sha256_hex p build step spec specJSON jobID =
     \<lparr>j_ID = jobID,
      j_BuildID = b_ID build,
      j_StepID = s_ID step,
      j_NodeID = effectiveWorkspaceNodeID step,
      j_GroupName = trimOptional (s_GroupName step),
      j_DependsOnNodeIDs = s_DependsOnNodes step,
      j_Name = s_Name step,
      j_StepIndex = s_StepIndex step,
      j_AttemptNumber = 1,
      j_RetryOfJobID = None,
      j_LineageRootJobID = Some jobID,
      j_Status = ExecutionJobStatusQueued,
      j_QueueName = None,
      j_Image = es_Image spec,
      j_WorkingDir = es_WorkingDir spec,
      j_Command = es_Command spec,
      j_Environment = es_Environment spec,
      j_TimeoutSeconds = Some (s_TimeoutSeconds step),
      j_PipelineFilePath = optionalPointer (es_PipelineFilePath spec),
      j_ContextDir = optionalPointer (es_ContextDir spec),
      j_Source = es_Source spec,
      j_SpecVersion = pl_specVersion p,
      j_SpecDigest = BuildSpecDigest sha256_hex specJSON,
      j_ResolvedSpecJSON = specJSON,
      j_ClaimToken = None, j_ClaimedBy = None, j_ClaimExpiresAt = None,
      j_CreatedAt = pl_clock p,
      j_StartedAt = None, j_FinishedAt = None, j_ErrorMessage = None, j_FailureKind = None, j_ExitCode = None,
      j_OutputRefs = [],
      j_Timing = None\<rparr>"

text \<open>The loop of \<open>Plan\<close> over the steps, their workspace plans and the identifiers drawn for the jobs.\<close>

fun plan_loop ::
  "(ExecutionJobSpec \<Rightarrow> go_error + string) \<Rightarrow> (string \<Rightarrow> string) \<Rightarrow> BuildExecutionPlanner \<Rightarrow> Build \<Rightarrow> string \<Rightarrow>
   BuildStep list \<Rightarrow> WorkspaceInputPlan list \<Rightarrow> (nat \<Rightarrow> string) \<Rightarrow> nat \<Rightarrow> ExecutionJob list \<Rightarrow> go_error + ExecutionJob list" where
  "plan_loop ToJSON sha256_hex p build image0 (step # steps) (wp # wps) uuid n jobs =
     (let spec = plan_spec p build image0 wp step
      in case ToJSON spec of
           Inl err \<Rightarrow> Inl err
         | Inr specJSON \<Rightarrow>
             plan_loop ToJSON sha256_hex p build image0 steps wps uuid (Suc n)
               (jobs @ [plan_job sha256_hex p build step spec specJSON (uuid n)]))"
| "plan_loop ToJSON sha256_hex p build image0 _ _ uuid n jobs = Inr jobs"

definition Plan ::
  "(ExecutionJobSpec \<Rightarrow> go_error + string) \<Rightarrow> (string \<Rightarrow> string) \<Rightarrow> (nat \<Rightarrow> string) \<Rightarrow> BuildExecutionPlanner \<Rightarrow>
   Build \<Rightarrow> BuildStep list \<Rightarrow> string \<Rightarrow> (go_error + ExecutionJob list) option" where
  "Plan ToJSON sha256_hex uuid p build steps image0 =
     (if length steps = 0 then Some (Inr [])
      else (case planWorkspaceInputs steps of
              None \<Rightarrow> None
            | Some workspacePlans \<Rightarrow>
                Some (plan_loop ToJSON sha256_hex p build image0 steps workspacePlans uuid 0 [])))"

section \<open>What the loops compute\<close>

lemma unique_known_loop_spec:
  "set (unique_known_loop known ds acc) =
     set acc \<union> {TrimSpace d | d. d \<in> set ds \<and> TrimSpace d \<noteq> [] \<and> TrimSpace d \<in> set known}"
  "distinct acc \<Longrightarrow> distinct (unique_known_loop known ds acc)"
  by (induction ds arbitrary: acc) (auto simp: Let_def)

lemma uniqueKnownDependencies_set:
  "n \<in> set (uniqueKnownDependencies ds known) \<longleftrightarrow> n \<noteq> [] \<and> n \<in> set known \<and> n \<in> TrimSpace ` set ds"
  by (auto simp: uniqueKnownDependencies_def unique_known_loop_spec)

lemma uniqueKnownDependencies_distinct [simp]: "distinct (uniqueKnownDependencies ds known)"
  by (simp add: uniqueKnownDependencies_def unique_known_loop_spec)

lemma better_predecessor_spec:
  "case fold (better_predecessor step) steps best of
     None \<Rightarrow> best = None \<and> (\<forall>c \<in> set steps. \<not> (0 \<le> s_StepIndex c \<and> s_StepIndex c < s_StepIndex step))
   | Some b \<Rightarrow> (best = Some b \<or> b \<in> set steps \<and> 0 \<le> s_StepIndex b \<and> s_StepIndex b < s_StepIndex step) \<and>
       (\<forall>b0. best = Some b0 \<longrightarrow> s_StepIndex b0 \<le> s_StepIndex b) \<and>
       (\<forall>c \<in> set steps. 0 \<le> s_StepIndex c \<and> s_StepIndex c < s_StepIndex step \<longrightarrow> s_StepIndex c \<le> s_StepIndex b)"
proof (induction steps arbitrary: best)
  case (Cons c steps)
  show ?case
    using Cons.IH [of "better_predecessor step c best"]
    by (cases best) (auto simp: better_predecessor_def split: option.splits if_splits)
qed (simp split: option.splits)

lemma precedingWorkspaceNodeID_Some:
  assumes "precedingWorkspaceNodeID step steps = Some n"
  obtains b where "b \<in> set steps" "n = effectiveWorkspaceNodeID b" "0 \<le> s_StepIndex b" "s_StepIndex b < s_StepIndex step"
    "\<And>c. c \<in> set steps \<Longrightarrow> 0 \<le> s_StepIndex c \<Longrightarrow> s_StepIndex c < s_StepIndex step \<Longrightarrow> s_StepIndex c \<le> s_StepIndex b"
  using assms better_predecessor_spec [where step = step and steps = steps and best = None] that
  by (auto simp: precedingWorkspaceNodeID_def)

lemma precedingWorkspaceNodeID_None:
  "precedingWorkspaceNodeID step steps = None \<longleftrightarrow>
   (\<forall>c \<in> set steps. \<not> (0 \<le> s_StepIndex c \<and> s_StepIndex c < s_StepIndex step))"
proof -
  have "fold (better_predecessor step) steps None = None \<longleftrightarrow>
    (\<forall>c \<in> set steps. \<not> (0 \<le> s_StepIndex c \<and> s_StepIndex c < s_StepIndex step))"
    using better_predecessor_spec [where step = step and steps = steps and best = None] by (cases "fold (better_predecessor step) steps None") force+
  then show ?thesis by (simp add: precedingWorkspaceNodeID_def)
qed

lemma workspace_dependencies_known:
  "set (workspace_dependencies steps step) \<subseteq> effectiveWorkspaceNodeID ` set steps"
  by (auto simp: workspace_dependencies_def Let_def uniqueKnownDependencies_set
      split: option.splits if_splits elim: precedingWorkspaceNodeID_Some)

lemma workspace_dependencies_distinct [simp]: "distinct (workspace_dependencies steps step)"
  by (auto simp: workspace_dependencies_def Let_def split: option.splits)

lemma succs_put [simp]: "succs (gm_put k ds g) n = (if n = k then ds else succs g n)"
  by (simp add: succs_def)

lemma fold_put_succs:
  assumes "distinct (map f steps)"
  shows "succs (fold (\<lambda>step. gm_put (f step) (g step)) steps m) n =
    (case find (\<lambda>step. f step = n) steps of Some step \<Rightarrow> g step | None \<Rightarrow> succs m n)"
  using assms
proof (induction steps arbitrary: m)
  case (Cons s steps)
  have "find (\<lambda>step. f step = f s) steps = None" using Cons.prems by (simp add: find_None_iff) (metis imageI)
  with Cons show ?case by (auto split: option.splits)
qed simp

lemma succs_planned:
  assumes "distinct (map effectiveWorkspaceNodeID steps)" "step \<in> set steps"
  shows "succs (dependencies_by_node steps) (effectiveWorkspaceNodeID step) = workspace_dependencies steps step"
proof -
  have "find (\<lambda>s. effectiveWorkspaceNodeID s = effectiveWorkspaceNodeID step) steps = Some step"
    using assms by (induction steps) auto
  then show ?thesis by (simp add: dependencies_by_node_def fold_put_succs [OF assms(1)])
qed

lemma edges_planned:
  assumes "distinct (map effectiveWorkspaceNodeID steps)" "(n, d) \<in> edges (dependencies_by_node steps)"
  obtains step where "step \<in> set steps" "n = effectiveWorkspaceNodeID step" "d \<in> set (workspace_dependencies steps step)"
proof -
  have "d \<in> set (succs (dependencies_by_node steps) n)" using assms(2) by (simp add: edges_def)
  then obtain step where s: "find (\<lambda>step. effectiveWorkspaceNodeID step = n) steps = Some step"
    "d \<in> set (workspace_dependencies steps step)"
    unfolding dependencies_by_node_def fold_put_succs [OF assms(1)]
    by (auto simp: succs_def split: option.splits)
  from s(1) have "step \<in> set steps" "n = effectiveWorkspaceNodeID step" by (auto simp: find_Some_iff)
  with s(2) show ?thesis by (rule that [rotated 2])
qed

lemma count_dependent_fold:
  "distinct ds \<Longrightarrow> gm_get_or 0 (fold count_dependent ds m) d = gm_get_or 0 m d + (if d \<in> set ds then 1 else 0)"
  by (induction ds arbitrary: m) (auto simp: count_dependent_def)

lemma count_steps_fold:
  "gm_get_or 0 (fold (\<lambda>step. fold count_dependent (workspace_dependencies steps step)) xs m) d =
   gm_get_or 0 m d + int (length (filter (\<lambda>step. d \<in> set (workspace_dependencies steps step)) xs))"
  by (induction xs arbitrary: m) (auto simp: count_dependent_fold)

lemma two_in_filter: "i < length xs \<Longrightarrow> P (xs ! i) \<Longrightarrow> 1 < length (filter P xs) \<longleftrightarrow> (\<exists>j < length xs. j \<noteq> i \<and> P (xs ! j))"
proof -
  assume i: "i < length xs" "P (xs ! i)"
  define A where "A = {j. j < length xs \<and> P (xs ! j)}"
  have "finite A" by (simp add: A_def)
  then have "1 < card A \<longleftrightarrow> A - {i} \<noteq> {}"
    using i card_gt_0_iff [of "A - {i}"] by (simp add: A_def)
  then show ?thesis by (auto simp: length_filter_conv_card A_def)
qed

lemma shared_producer:
  assumes "i < length steps" "d \<in> set (workspace_dependencies steps (steps ! i))"
  shows "1 < gm_get_or 0 (dependent_counts steps) d \<longleftrightarrow>
    (\<exists>j < length steps. j \<noteq> i \<and> d \<in> set (workspace_dependencies steps (steps ! j)))"
  using two_in_filter [OF assms(1), of "\<lambda>s. d \<in> set (workspace_dependencies steps s)"] assms(2)
  by (simp add: dependent_counts_def count_steps_fold)

lemma those_map_Some: "(\<And>x. x \<in> set xs \<Longrightarrow> f x \<noteq> None) \<Longrightarrow> those (map f xs) = Some (map (\<lambda>x. the (f x)) xs)"
  by (induction xs) (auto split: option.splits)

lemma plan_step_total: "acyclic (edges g) \<Longrightarrow> plan_step g counts n \<noteq> None"
proof -
  assume ac: "acyclic (edges g)"
  have "nearestCommonAncestor (succs g n) g \<noteq> None" if "succs g n \<noteq> []"
    using nearestCommonAncestor_total [OF ac that] by auto
  then show ?thesis by (auto simp: plan_step_def Let_def split: list.splits option.splits)
qed

lemma planWorkspaceInputs_acyclic:
  assumes "acyclic (edges (dependencies_by_node steps))"
  shows "planWorkspaceInputs steps =
    Some (map (\<lambda>step. the (plan_step (dependencies_by_node steps) (dependent_counts steps)
                              (effectiveWorkspaceNodeID step))) steps)"
  unfolding planWorkspaceInputs_def by (rule those_map_Some) (rule plan_step_total [OF assms])

text \<open>Dependencies that all point to smaller step indices cannot form a cycle.\<close>

lemma acyclic_by_index:
  assumes d: "distinct (map effectiveWorkspaceNodeID steps)"
    and fwd: "\<And>s t. s \<in> set steps \<Longrightarrow> t \<in> set steps \<Longrightarrow>
      effectiveWorkspaceNodeID t \<in> set (workspace_dependencies steps s) \<Longrightarrow> s_StepIndex t < s_StepIndex s"
  shows "acyclic (edges (dependencies_by_node steps))"
proof -
  define idx where "idx n = s_StepIndex (the (find (\<lambda>s. effectiveWorkspaceNodeID s = n) steps))" for n
  have idx: "idx (effectiveWorkspaceNodeID s) = s_StepIndex s" if "s \<in> set steps" for s
  proof -
    have "find (\<lambda>s'. effectiveWorkspaceNodeID s' = effectiveWorkspaceNodeID s) steps = Some s"
      using d that by (induction steps) auto
    then show ?thesis by (simp add: idx_def)
  qed
  have edge: "idx m < idx n" if e: "(n, m) \<in> edges (dependencies_by_node steps)" for n m
  proof -
    obtain s where s: "s \<in> set steps" "n = effectiveWorkspaceNodeID s" "m \<in> set (workspace_dependencies steps s)"
      by (rule edges_planned [OF d e])
    then obtain t where t: "t \<in> set steps" "m = effectiveWorkspaceNodeID t"
      using workspace_dependencies_known by fastforce
    show ?thesis using fwd [OF s(1) t(1)] s t by (simp add: idx)
  qed
  have "idx m < idx n" if "(n, m) \<in> (edges (dependencies_by_node steps))\<^sup>+" for n m
    using that
  proof (induction rule: trancl_induct)
    case (step y z)
    from edge [OF step.hyps(2)] step.IH show ?case by (rule less_trans)
  qed (rule edge)
  then show ?thesis by (fastforce simp: acyclic_def)
qed

text \<open>
  The contract of the plan of the \<open>i\<close>-th step: what its workspace starts from, as a function of the
  dependency graph alone.
\<close>

definition input_plan_ok :: "BuildStep list \<Rightarrow> nat \<Rightarrow> WorkspaceInputPlan \<Rightarrow> bool" where
  "input_plan_ok steps i plan \<longleftrightarrow>
     (let deps = workspace_dependencies steps (steps ! i); g = dependencies_by_node steps in
      if deps = [] then wi_Mode plan = WorkspaceInputModeSource
      else if length deps = 1 then
        wi_Mode plan = WorkspaceInputModePredecessor \<and> wi_ProducerNodeID plan = hd deps \<and>
        (wi_IsolatedWritableDescendant plan \<longleftrightarrow>
           (\<exists>j < length steps. j \<noteq> i \<and> hd deps \<in> set (workspace_dependencies steps (steps ! j))))
      else
        wi_Mode plan = WorkspaceInputModeFanIn \<and>
        (if \<exists>c. common_ancestor g deps c
         then common_ancestor g deps (wi_CommonAncestorNodeID plan) \<and>
              (\<forall>c. common_ancestor g deps c \<longrightarrow> (c, wi_CommonAncestorNodeID plan) \<notin> (edges g)\<^sup>+)
         else wi_CommonAncestorNodeID plan = []))"

lemma plan_step_meets_contract:
  assumes d: "distinct (map effectiveWorkspaceNodeID steps)" and ac: "acyclic (edges (dependencies_by_node steps))"
    and i: "i < length steps"
  shows "input_plan_ok steps i
    (the (plan_step (dependencies_by_node steps) (dependent_counts steps) (effectiveWorkspaceNodeID (steps ! i))))"
proof -
  let ?g = "dependencies_by_node steps"
  define deps where "deps = workspace_dependencies steps (steps ! i)"
  have succs: "succs ?g (effectiveWorkspaceNodeID (steps ! i)) = deps"
    using succs_planned [OF d] i by (simp add: deps_def)
  consider "deps = []" | p where "deps = [p]" | a b ds where "deps = a # b # ds"
    by (cases deps; cases "tl deps") auto
  then show ?thesis
  proof cases
    case 1
    then show ?thesis by (simp add: input_plan_ok_def plan_step_def succs flip: deps_def)
  next
    case 2
    with shared_producer [OF i, of p] show ?thesis
      by (simp add: input_plan_ok_def plan_step_def succs flip: deps_def)
  next
    case 3
    obtain r where r: "nearestCommonAncestor deps ?g = Some r"
      "if \<exists>c. common_ancestor ?g deps c
       then common_ancestor ?g deps r \<and> (\<forall>c. common_ancestor ?g deps c \<longrightarrow> (c, r) \<notin> (edges ?g)\<^sup>+) else r = []"
      using nearest_base [OF ac, of deps] 3 by auto
    then have "the (plan_step ?g (dependent_counts steps) (effectiveWorkspaceNodeID (steps ! i))) =
        \<lparr>wi_Mode = WorkspaceInputModeFanIn, wi_ProducerNodeID = [],
         wi_CommonAncestorNodeID = r, wi_IsolatedWritableDescendant = False\<rparr>"
      using 3 by (simp add: plan_step_def succs)
    with r(2) have "input_plan_ok steps i (the (plan_step ?g (dependent_counts steps) (effectiveWorkspaceNodeID (steps ! i))))
        \<longleftrightarrow> deps \<noteq> [] \<and> length deps \<noteq> 1"
      unfolding input_plan_ok_def Let_def deps_def [symmetric] by simp
    with 3 show ?thesis by simp
  qed
qed

text \<open>Steps without node identifiers, the form of builds that predate dependency graphs.\<close>

definition legacy_steps :: "BuildStep list \<Rightarrow> bool" where
  "legacy_steps steps \<longleftrightarrow>
     (\<forall>i < length steps. s_StepIndex (steps ! i) = int i \<and> TrimSpace (s_NodeID (steps ! i)) = [] \<and>
        s_DependsOnNodes (steps ! i) = [])"

lemma legacy_node: "legacy_steps steps \<Longrightarrow> i < length steps \<Longrightarrow> effectiveWorkspaceNodeID (steps ! i) = FallbackNodeID (int i)"
  by (simp add: legacy_steps_def effectiveWorkspaceNodeID_def)

lemma legacy_distinct: "legacy_steps steps \<Longrightarrow> distinct (map effectiveWorkspaceNodeID steps)"
  by (simp add: distinct_conv_nth legacy_node)

lemma legacy_dependencies:
  assumes l: "legacy_steps steps" and i: "i < length steps"
  shows "workspace_dependencies steps (steps ! i) = (if i = 0 then [] else [FallbackNodeID (int i - 1)])"
proof -
  have idx: "s_StepIndex (steps ! j) = int j" if "j < length steps" for j using l that by (simp add: legacy_steps_def)
  have none: "uniqueKnownDependencies (s_DependsOnNodes (steps ! i)) known = []" for known
    using l i by (simp add: legacy_steps_def uniqueKnownDependencies_def)
  have pre: "precedingWorkspaceNodeID (steps ! i) steps = (if i = 0 then None else Some (FallbackNodeID (int i - 1)))"
  proof (cases "precedingWorkspaceNodeID (steps ! i) steps")
    case None
    have "i = 0"
    proof (rule ccontr)
      assume "i \<noteq> 0"
      with i have "steps ! (i - 1) \<in> set steps" "s_StepIndex (steps ! (i - 1)) = int i - 1" by (auto simp: idx)
      with None \<open>i \<noteq> 0\<close> show False by (auto simp: precedingWorkspaceNodeID_None idx [OF i])
    qed
    with None show ?thesis by simp
  next
    case (Some n)
    then obtain b where b: "b \<in> set steps" "n = effectiveWorkspaceNodeID b" "s_StepIndex b < int i"
      "\<And>c. c \<in> set steps \<Longrightarrow> 0 \<le> s_StepIndex c \<Longrightarrow> s_StepIndex c < int i \<Longrightarrow> s_StepIndex c \<le> s_StepIndex b"
      by (rule precedingWorkspaceNodeID_Some) (auto simp: idx [OF i])
    then obtain k where k: "k < length steps" "b = steps ! k" by (auto simp: in_set_conv_nth)
    with b(3) have "k < i" by (simp add: idx)
    moreover have "i - 1 \<le> k" using b(4) [of "steps ! (i - 1)"] i \<open>k < i\<close> k by (simp add: idx)
    ultimately have "int k = int i - 1" by simp
    with Some b(2) k \<open>k < i\<close> show ?thesis by (simp add: legacy_node [OF l])
  qed
  have "TrimSpace (s_NodeID (steps ! i)) = []" using l i by (simp add: legacy_steps_def)
  then show ?thesis by (simp add: workspace_dependencies_def none pre)
qed

lemma legacy_acyclic: "legacy_steps steps \<Longrightarrow> acyclic (edges (dependencies_by_node steps))"
proof (rule acyclic_by_index)
  assume l: "legacy_steps steps"
  show "distinct (map effectiveWorkspaceNodeID steps)" by (rule legacy_distinct [OF l])
  fix s t assume "s \<in> set steps" "t \<in> set steps" and dep: "effectiveWorkspaceNodeID t \<in> set (workspace_dependencies steps s)"
  then obtain i j where ij: "i < length steps" "s = steps ! i" "j < length steps" "t = steps ! j"
    by (auto simp: in_set_conv_nth)
  with dep show "s_StepIndex t < s_StepIndex s"
    using l by (auto simp: legacy_node legacy_dependencies legacy_steps_def split: if_splits)
qed

lemma plan_loop_ok:
  assumes "\<And>spec. \<exists>json. ToJSON spec = Inr json"
  shows "length wps = length steps \<Longrightarrow>
    plan_loop ToJSON sha p build image0 steps wps uuid n jobs =
      Inr (jobs @ map (\<lambda>i. let spec = plan_spec p build image0 (wps ! i) (steps ! i)
                          in plan_job sha p build (steps ! i) spec (projr (ToJSON spec)) (uuid (n + i))) [0..<length steps])"
proof (induction steps arbitrary: wps n jobs)
  case (Cons s steps)
  then obtain wp wps' where w: "wps = wp # wps'" "length wps' = length steps" by (cases wps) auto
  obtain json where "ToJSON (plan_spec p build image0 wp s) = Inr json" using assms by blast
  with Cons.IH [OF w(2)] show ?case
    by (simp add: w(1) Let_def map_upt_Suc del: upt_Suc)
qed simp

lemma fold_put_map_of:
  "distinct (map fst extra) \<Longrightarrow>
   map_of (fold (\<lambda>(k, v). gm_put k v) extra m) k = (case map_of extra k of Some v \<Rightarrow> Some v | None \<Rightarrow> map_of m k)"
proof (induction extra arbitrary: m)
  case (Cons e extra)
  have "map_of extra (fst e) = None" using Cons.prems by (simp add: map_of_eq_None_iff)
  with Cons show ?case by (cases e) (auto split: option.splits)
qed simp

lemma mergePlannerEnv_lookup:
  "gm_ok base \<Longrightarrow> gm_ok extra \<Longrightarrow>
   map_of (mergePlannerEnv base extra) k = (case map_of extra k of Some v \<Rightarrow> Some v | None \<Rightarrow> map_of base k)"
  by (auto simp: mergePlannerEnv_def cloneEnv_def fold_put_map_of split: option.splits)

lemma put_optional_ok [simp]: "gm_ok m \<Longrightarrow> gm_ok (put_optional k v m)"
  by (auto simp: put_optional_def split: option.splits)

lemma plannerTriggerEnv_ok [simp]: "gm_ok (plannerTriggerEnv t)"
  unfolding plannerTriggerEnv_def Let_def comp_apply
  by (rule if_split [THEN iffD2]) simp

section \<open>Concrete step lists\<close>

lemma all_less_two: "(\<forall>i < length [a, b]. P i) \<longleftrightarrow> P 0 \<and> P 1" "(\<forall>i < 2. P i) \<longleftrightarrow> P (0::nat) \<and> P 1"
  by (auto simp: less_Suc_eq numeral_2_eq_2)

definition diamond_steps :: "BuildStep list" where
  "diamond_steps =
     [blank_step ''b'' 0 ''a'' [] BuildStepStatusPending, blank_step ''b'' 1 ''l'' [''a''] BuildStepStatusPending,
      blank_step ''b'' 2 ''r'' [''a''] BuildStepStatusPending, blank_step ''b'' 3 ''z'' [''l'', ''r''] BuildStepStatusPending]"

definition plain_steps :: "BuildStep list" where
  "plain_steps = [blank_step ''b'' 0 [] [] BuildStepStatusPending, blank_step ''b'' 1 [] [] BuildStepStatusPending]"

lemma diamond_distinct: "distinct (map effectiveWorkspaceNodeID diamond_steps)"
  by code_simp

lemma diamond_acyclic: "acyclic (edges (dependencies_by_node diamond_steps))"
proof -
  have "\<not> hasDependencyCycle (dependencies_by_node diamond_steps)" by code_simp
  then show ?thesis by (simp add: hasDependencyCycle_iff)
qed

section \<open>Properties\<close>

text \<open>
  C38: For steps with distinct node identifiers whose dependencies have no cycle, \<open>planWorkspaceInputs\<close>
  returns one plan per step. A step with no dependency starts from the source. A step with one
  dependency starts from the workspace of that producer, and gets an isolated copy exactly when another
  step depends on the same producer. A step with more dependencies is a fan-in; its base is the common
  ancestor of all its dependencies below which no other common ancestor lies, or the source
  (an empty name) when they have none.
\<close>

theorem workspace_plan_correct:
  assumes "distinct (map effectiveWorkspaceNodeID steps)" and "acyclic (edges (dependencies_by_node steps))"
  shows "\<exists>plans. planWorkspaceInputs steps = Some plans \<and> length plans = length steps \<and>
    (\<forall>i < length steps. input_plan_ok steps i (plans ! i))"
  using plan_step_meets_contract [OF assms] by (simp add: planWorkspaceInputs_acyclic [OF assms(2)])

theorem workspace_plan_correct_witness:
  "\<exists>plans. planWorkspaceInputs diamond_steps = Some plans \<and> length plans = 4 \<and>
     input_plan_ok diamond_steps 1 (plans ! 1) \<and> input_plan_ok diamond_steps 3 (plans ! 3)"
proof -
  have "length diamond_steps = 4" by (simp add: diamond_steps_def)
  with workspace_plan_correct [OF diamond_distinct diamond_acyclic] show ?thesis by auto
qed

text \<open>
  A build whose steps carry no node identifiers is planned as a chain: the first step starts from the
  source, and every later step continues in the unshared workspace of the step with the index just
  below its own.
\<close>

theorem legacy_plan_is_a_chain:
  assumes "legacy_steps steps"
  shows "\<exists>plans. planWorkspaceInputs steps = Some plans \<and> length plans = length steps \<and>
    (\<forall>i < length steps.
       if i = 0 then wi_Mode (plans ! i) = WorkspaceInputModeSource
       else wi_Mode (plans ! i) = WorkspaceInputModePredecessor \<and>
            wi_ProducerNodeID (plans ! i) = FallbackNodeID (int i - 1) \<and>
            \<not> wi_IsolatedWritableDescendant (plans ! i))"
proof -
  have ac: "acyclic (edges (dependencies_by_node steps))" by (rule legacy_acyclic [OF assms])
  have "input_plan_ok steps i (the (plan_step (dependencies_by_node steps) (dependent_counts steps)
      (effectiveWorkspaceNodeID (steps ! i))))" if "i < length steps" for i
    by (rule plan_step_meets_contract [OF legacy_distinct [OF assms] ac that])
  then show ?thesis
    by (auto simp: planWorkspaceInputs_acyclic [OF ac] input_plan_ok_def legacy_dependencies [OF assms] Let_def
        split: if_splits)
qed

theorem legacy_plan_is_a_chain_witness:
  "\<exists>plans. planWorkspaceInputs plain_steps = Some plans \<and> wi_Mode (plans ! 0) = WorkspaceInputModeSource \<and>
     wi_ProducerNodeID (plans ! 1) = ''node-000''"
proof -
  have two: "length plain_steps = 2" by (simp add: plain_steps_def)
  then have "legacy_steps plain_steps"
    unfolding legacy_steps_def two all_less_two by (simp add: plain_steps_def blank_step_def TrimSpace_def)
  moreover note two
  moreover have "FallbackNodeID 0 = ''node-000''" by code_simp
  ultimately show ?thesis
    using legacy_plan_is_a_chain [of plain_steps] by (auto simp: all_less_two)
qed

text \<open>
  When every specification can be encoded, \<open>Plan\<close> returns exactly one job per step, in the order of
  the steps. Each job is queued as a first attempt, carries the identity, node, dependencies and index
  of its step, records the encoding of the specification it was planned with, and sees the step's
  environment overlaid with the environment of the trigger.
\<close>

theorem plan_mirrors_steps:
  assumes "steps \<noteq> []" and "acyclic (edges (dependencies_by_node steps))"
    and "\<And>spec. \<exists>json. ToJSON spec = Inr json" and "\<And>step. step \<in> set steps \<Longrightarrow> gm_ok (s_Env step)"
  shows "\<exists>plans jobs. planWorkspaceInputs steps = Some plans \<and>
    Plan ToJSON sha uuid p build steps image0 = Some (Inr jobs) \<and> length jobs = length steps \<and>
    (\<forall>i < length steps. let job = jobs ! i; step = steps ! i in
       j_ID job = uuid i \<and> j_BuildID job = b_ID build \<and> j_StepID job = s_ID step \<and>
       j_NodeID job = effectiveWorkspaceNodeID step \<and> j_DependsOnNodeIDs job = s_DependsOnNodes step \<and>
       j_StepIndex job = s_StepIndex step \<and> j_Status job = ExecutionJobStatusQueued \<and> j_AttemptNumber job = 1 \<and>
       ToJSON (plan_spec p build image0 (plans ! i) step) = Inr (j_ResolvedSpecJSON job) \<and>
       (\<forall>k. map_of (j_Environment job) k =
          (case map_of (plannerTriggerEnv (b_Trigger build)) k of
             Some v \<Rightarrow> Some v | None \<Rightarrow> map_of (s_Env step) k)))"
proof -
  obtain plans where plans: "planWorkspaceInputs steps = Some plans" "length plans = length steps"
    using planWorkspaceInputs_acyclic [OF assms(2)] by simp
  have json: "ToJSON spec = Inr (projr (ToJSON spec))" for spec
    using assms(3) [of spec] by auto
  show ?thesis
    using assms(1) plans
    by (auto simp: Plan_def plan_loop_ok [OF assms(3)] plan_job_def Let_def plan_spec_def mergePlannerEnv_lookup
        assms(4) json [symmetric])
qed

theorem plan_mirrors_steps_witness:
  "\<exists>jobs. Plan (\<lambda>spec. Inr (es_Image spec)) (\<lambda>s. s) (\<lambda>n. FallbackNodeID (int n)) (NewBuildExecutionPlanner 7)
     (blank_build ''b'' BuildStatusPending) diamond_steps ''golang'' = Some (Inr jobs) \<and> length jobs = 4"
proof -
  have "length diamond_steps = 4" "diamond_steps \<noteq> []" "\<And>step. step \<in> set diamond_steps \<Longrightarrow> gm_ok (s_Env step)"
    by (auto simp: diamond_steps_def blank_step_def)
  with plan_mirrors_steps [OF _ diamond_acyclic, of "\<lambda>spec. Inr (es_Image spec)" "\<lambda>s. s" "\<lambda>n. FallbackNodeID (int n)"
      "NewBuildExecutionPlanner 7" "blank_build ''b'' BuildStatusPending" "''golang''"]
  show ?thesis by auto
qed

end
