(* ===== verification/Regex.thy ===== *)
theory Regex
  imports Prelude
begin

text \<open>
  Regular expressions as the code writes them for \<open>regexp.MustCompile\<close>, matched against a whole string
  (every modelled pattern is anchored with \<open>^\<close> and \<open>$\<close>). \<open>matches\<close> decides by derivatives; \<open>lang\<close> is
  the set of strings a pattern describes.
\<close>

datatype regex =
  Empty_Set
| Empty_Word
| Chars "char list"
| Seq regex regex
| Alt regex regex
| Star regex

section \<open>The matcher\<close>

fun nullable :: "regex \<Rightarrow> bool" where
  "nullable Empty_Set = False"
| "nullable Empty_Word = True"
| "nullable (Chars cs) = False"
| "nullable (Seq r s) = (nullable r \<and> nullable s)"
| "nullable (Alt r s) = (nullable r \<or> nullable s)"
| "nullable (Star r) = True"

text \<open>Composition with the trivial cases removed, which keeps the derivatives small.\<close>

fun seq' :: "regex \<Rightarrow> regex \<Rightarrow> regex" where
  "seq' Empty_Set s = Empty_Set"
| "seq' Empty_Word s = s"
| "seq' r s = Seq r s"

fun alt' :: "regex \<Rightarrow> regex \<Rightarrow> regex" where
  "alt' Empty_Set s = s"
| "alt' r s = (if s = Empty_Set \<or> s = r then r else Alt r s)"

fun deriv :: "char \<Rightarrow> regex \<Rightarrow> regex" where
  "deriv c Empty_Set = Empty_Set"
| "deriv c Empty_Word = Empty_Set"
| "deriv c (Chars cs) = (if List.member cs c then Empty_Word else Empty_Set)"
| "deriv c (Seq r s) =
     (if nullable r then alt' (seq' (deriv c r) s) (deriv c s) else seq' (deriv c r) s)"
| "deriv c (Alt r s) = alt' (deriv c r) (deriv c s)"
| "deriv c (Star r) = seq' (deriv c r) (Star r)"

fun matches :: "regex \<Rightarrow> string \<Rightarrow> bool" where
  "matches r [] = nullable r"
| "matches r (c # cs) = matches (deriv c r) cs"

section \<open>The language of a pattern\<close>

inductive_set star_words :: "string set \<Rightarrow> string set" for A where
  star_nil: "[] \<in> star_words A"
| star_cons: "u \<in> A \<Longrightarrow> v \<in> star_words A \<Longrightarrow> u @ v \<in> star_words A"

fun lang :: "regex \<Rightarrow> string set" where
  "lang Empty_Set = {}"
| "lang Empty_Word = {[]}"
| "lang (Chars cs) = {[c] | c. c \<in> set cs}"
| "lang (Seq r s) = {u @ v | u v. u \<in> lang r \<and> v \<in> lang s}"
| "lang (Alt r s) = lang r \<union> lang s"
| "lang (Star r) = star_words (lang r)"

lemma nullable_iff: "nullable r \<longleftrightarrow> [] \<in> lang r"
  by (induction r) (auto intro: star_nil)

lemma lang_seq' [simp]: "lang (seq' r s) = lang (Seq r s)"
  by (induction r s rule: seq'.induct) auto

lemma lang_alt' [simp]: "lang (alt' r s) = lang (Alt r s)"
  by (induction r s rule: alt'.induct) auto

lemma star_words_Cons: "c # w \<in> star_words A \<longleftrightarrow> (\<exists>u v. w = u @ v \<and> c # u \<in> A \<and> v \<in> star_words A)"
proof
  assume "c # w \<in> star_words A"
  then show "\<exists>u v. w = u @ v \<and> c # u \<in> A \<and> v \<in> star_words A"
  proof (induction "c # w" arbitrary: w rule: star_words.induct)
    case (star_cons u v)
    then show ?case by (cases u) auto
  qed
next
  assume "\<exists>u v. w = u @ v \<and> c # u \<in> A \<and> v \<in> star_words A"
  then show "c # w \<in> star_words A" using star_cons [of "c # u" A v for u v] by force
qed

lemma lang_deriv: "w \<in> lang (deriv c r) \<longleftrightarrow> c # w \<in> lang r"
proof (induction r arbitrary: w)
  case (Seq r s)
  then show ?case by (auto simp: nullable_iff Cons_eq_append_conv)
next
  case (Star r)
  then show ?case by (auto simp: star_words_Cons)
qed auto

theorem matches_iff: "matches r w \<longleftrightarrow> w \<in> lang r"
  by (induction w arbitrary: r) (simp_all add: nullable_iff lang_deriv)

section \<open>Common patterns\<close>

definition plus :: "regex \<Rightarrow> regex" where "plus r = Seq r (Star r)"
definition opt :: "regex \<Rightarrow> regex" where "opt r = Alt Empty_Word r"
definition lit :: "char \<Rightarrow> regex" where "lit c = Chars [c]"

definition lower_letters :: string where "lower_letters = ''abcdefghijklmnopqrstuvwxyz''"
definition upper_letters :: string where "upper_letters = ''ABCDEFGHIJKLMNOPQRSTUVWXYZ''"
definition digits :: string where "digits = ''0123456789''"

lemma star_words_chars: "w \<in> star_words {[c] | c. c \<in> set cs} \<longleftrightarrow> set w \<subseteq> set cs"
proof (induction w)
  case (Cons c w)
  have "(c # w \<in> star_words {[c] | c. c \<in> set cs}) \<longleftrightarrow> c \<in> set cs \<and> w \<in> star_words {[c] | c. c \<in> set cs}"
    by (auto simp: star_words_Cons)
  with Cons show ?case by simp
qed (simp add: star_nil)

lemma lang_chars_star [simp]: "lang (Star (Chars cs)) = {w. set w \<subseteq> set cs}"
  using star_words_chars by auto

lemma matches_head_tail:
  "matches (Seq (Chars a) (Star (Chars b))) w \<longleftrightarrow> w \<noteq> [] \<and> hd w \<in> set a \<and> set (tl w) \<subseteq> set b"
proof -
  have "w \<in> lang (Seq (Chars a) (Star (Chars b))) \<longleftrightarrow> (\<exists>c v. w = c # v \<and> c \<in> set a \<and> set v \<subseteq> set b)"
    unfolding lang.simps(4) lang_chars_star by (auto simp: append_eq_Cons_conv) (metis append_Cons append_Nil)
  then show ?thesis unfolding matches_iff by (cases w) auto
qed

end
