(* ===== verification/Versioning.thy ===== *)
theory Versioning
  imports Regex Go_Paths Build_Domain
begin

text \<open>
  Version numbers (\<open>versioning/application_version.go\<close>, \<open>artifact_template.go\<close>, \<open>release.go\<close>): the
  SemVer check of application versions, version templates with placeholders, and the choice of the
  next patch release. Reading a version from a workspace file is file system access and not modelled.
\<close>

section \<open>Application versions\<close>

definition numeric_pattern :: regex where
  "numeric_pattern = Alt (lit CHR ''0'') (Seq (Chars ''123456789'') (Star (Chars digits)))"

definition identifier_chars :: string where
  "identifier_chars = digits @ upper_letters @ lower_letters @ ''-''"

definition identifier_pattern :: regex where
  "identifier_pattern =
     Alt numeric_pattern
       (Seq (Star (Chars identifier_chars))
         (Seq (Chars (upper_letters @ lower_letters @ ''-'')) (Star (Chars identifier_chars))))"

definition applicationVersionSemVerPattern :: regex where
  "applicationVersionSemVerPattern =
     Seq numeric_pattern (Seq (lit CHR ''.'') (Seq numeric_pattern (Seq (lit CHR ''.'') (Seq numeric_pattern
       (opt (Seq (lit CHR ''-'') (Seq identifier_pattern (Star (Seq (lit CHR ''.'') identifier_pattern)))))))))"

record ApplicationVersionConfig =
  av_Value :: string
  av_Template :: string
  av_File :: string

definition ApplicationVersionConfig_Empty :: "ApplicationVersionConfig \<Rightarrow> bool" where
  "ApplicationVersionConfig_Empty c \<longleftrightarrow>
     TrimSpace (av_Value c) = [] \<and> TrimSpace (av_Template c) = [] \<and> TrimSpace (av_File c) = []"

definition normalizeApplicationVersion :: "string \<Rightarrow> string + string" where
  "normalizeApplicationVersion v =
     (let trimmed = TrimSpace v
      in if \<not> matches applicationVersionSemVerPattern trimmed
         then Inl (''application version must be SemVer without build metadata: '' @ Quote trimmed)
         else Inr trimmed)"

definition ValidateApplicationVersion :: "string \<Rightarrow> string option" where
  "ValidateApplicationVersion v = (case normalizeApplicationVersion v of Inl err \<Rightarrow> Some err | Inr _ \<Rightarrow> None)"

definition validateApplicationVersionFilePath :: "string \<Rightarrow> string option" where
  "validateApplicationVersionFilePath v =
     (let trimmed = TrimSpace v; cleaned = path_Clean trimmed
      in if trimmed = [] then Some ''application version file is required''
         else if path_IsAbs trimmed then Some ''application version file must be workspace-relative''
         else if cleaned = ''.'' \<or> cleaned = ''..'' \<or> HasPrefix cleaned ''../''
         then Some ''application version file must be workspace-relative and must not traverse parent directories''
         else None)"

section \<open>Templates\<close>

text \<open>
  The matches of \<open>\{([a-z_]+)\}\<close> from the left: each with the text before it and the name inside the
  braces, then the text after the last match.
\<close>

definition is_name_char :: "char \<Rightarrow> bool" where
  "is_name_char c \<longleftrightarrow> List.member (CHR ''_'' # lower_letters) c"

definition match_placeholder :: "string \<Rightarrow> (string \<times> string) option" where
  "match_placeholder s =
     (case s of
        [] \<Rightarrow> None
      | c # rest \<Rightarrow>
          (let name = takeWhile is_name_char rest; after = dropWhile is_name_char rest
           in if c = CHR ''{'' \<and> name \<noteq> [] \<and> after \<noteq> [] \<and> hd after = CHR ''}'' then Some (name, tl after) else None))"

lemma match_placeholder_shorter: "match_placeholder s = Some (name, rest) \<Longrightarrow> length rest < length s"
proof (cases s)
  case (Cons c cs)
  assume "match_placeholder s = Some (name, rest)"
  then have "rest = tl (dropWhile is_name_char cs)" by (auto simp: Cons match_placeholder_def Let_def split: if_splits)
  moreover have "length (dropWhile is_name_char cs) \<le> length cs" by (rule length_dropWhile_le)
  ultimately show ?thesis by (simp add: Cons)
qed (simp add: match_placeholder_def)

function template_matches :: "string \<Rightarrow> string \<Rightarrow> (string \<times> string) list \<times> string" where
  "template_matches before [] = ([], before)"
| "template_matches before (c # s) =
     (case match_placeholder (c # s) of
        Some (name, rest) \<Rightarrow> (let (ms, trailing) = template_matches [] rest in ((before, name) # ms, trailing))
      | None \<Rightarrow> template_matches (before @ [c]) s)"
  by pat_completeness auto
termination
  by (relation "measure (\<lambda>(_, s). length s)") (auto dest: match_placeholder_shorter)

text \<open>The two validators share their loop and differ in their messages and in the names they support.\<close>

fun check_matches :: "string \<Rightarrow> (string \<Rightarrow> bool) \<Rightarrow> (string \<times> string) list \<Rightarrow> string \<Rightarrow> string option" where
  "check_matches what supported [] trailing =
     (if ContainsAny trailing ''{}'' then Some (what @ '' contains malformed placeholders'') else None)"
| "check_matches what supported ((before, name) # ms) trailing =
     (if ContainsAny before ''{}'' then Some (what @ '' contains malformed placeholders'')
      else if \<not> supported name then Some (what @ '' placeholder '' @ Quote name @ '' is not supported'')
      else check_matches what supported ms trailing)"

definition isSupportedArtifactTemplatePlaceholder :: "string \<Rightarrow> bool" where
  "isSupportedArtifactTemplatePlaceholder name \<longleftrightarrow>
     name \<in> {''build_number'', ''git_sha'', ''git_short_sha'', ''git_ref''}"

definition ValidateArtifactVersionTemplate :: "string \<Rightarrow> string option" where
  "ValidateArtifactVersionTemplate template =
     (let trimmed = TrimSpace template
      in if trimmed = [] then Some ''artifact version template is required''
         else (let (ms, trailing) = template_matches [] trimmed
               in if length ms = 0 then None
                  else check_matches ''artifact version template'' isSupportedArtifactTemplatePlaceholder ms trailing))"

definition ValidateArtifactVersionConfig :: "string \<Rightarrow> string \<Rightarrow> string option" where
  "ValidateArtifactVersionConfig template channel =
     (let trimmedTemplate = TrimSpace template; trimmedChannel = TrimSpace channel
      in if trimmedTemplate = [] \<and> trimmedChannel = []
         then Some ''artifact version template or channel is required''
         else if trimmedTemplate = [] \<and> trimmedChannel \<noteq> []
         then Some ''artifact version channel requires a template''
         else ValidateArtifactVersionTemplate trimmedTemplate)"

definition optionalString :: "string option \<Rightarrow> string" where
  "optionalString v = (case v of None \<Rightarrow> [] | Some x \<Rightarrow> TrimSpace x)"

definition optionalSourceString :: "SourceSpec option \<Rightarrow> bool \<Rightarrow> string" where
  "optionalSourceString source wantCommit =
     (case source of
        None \<Rightarrow> []
      | Some s \<Rightarrow> (if wantCommit then optionalString (ss_CommitSHA s) else optionalString (ss_Ref s)))"

fun first_nonempty :: "string list \<Rightarrow> string" where
  "first_nonempty [] = []"
| "first_nonempty (v # vs) = (if v \<noteq> [] then v else first_nonempty vs)"

definition artifactTemplateGitSHA :: "Build \<Rightarrow> string" where
  "artifactTemplateGitSHA build = first_nonempty
     [optionalString (b_SourceSHA build), optionalString (b_CommitSHA build),
      optionalSourceString (b_Source build) True, optionalString (t_CommitSHA (b_Trigger build))]"

definition artifactTemplateGitRef :: "Build \<Rightarrow> string" where
  "artifactTemplateGitRef build = first_nonempty
     [optionalString (b_SourceRef build), optionalString (b_Ref build),
      optionalSourceString (b_Source build) False, optionalString (t_Ref (b_Trigger build))]"

definition artifactTemplatePlaceholderValue :: "string \<Rightarrow> Build \<Rightarrow> string + string" where
  "artifactTemplatePlaceholderValue name build =
     (if name = ''build_number'' then
        (if b_BuildNumber build \<le> 0
         then Inl ''artifact version template token {build_number} requires build number metadata''
         else Inr (FormatInt (b_BuildNumber build)))
      else if name = ''git_sha'' then
        (let sha = artifactTemplateGitSHA build
         in if sha = [] then Inl ''artifact version template token {git_sha} requires git sha metadata'' else Inr sha)
      else if name = ''git_short_sha'' then
        (let sha = artifactTemplateGitSHA build
         in if sha = [] then Inl ''artifact version template token {git_short_sha} requires git sha metadata''
            else Inr (if length sha > 8 then take 8 sha else sha))
      else if name = ''git_ref'' then
        (let ref = artifactTemplateGitRef build
         in if ref = [] then Inl ''artifact version template token {git_ref} requires git ref metadata'' else Inr ref)
      else Inl (''artifact version template placeholder '' @ Quote name @ '' is not supported''))"

text \<open>\<open>ReplaceAllStringFunc\<close> with a function that may fail: the first failure is the result.\<close>

fun replace_matches :: "(string \<Rightarrow> string + string) \<Rightarrow> (string \<times> string) list \<Rightarrow> string \<Rightarrow> string + string" where
  "replace_matches value_of [] trailing = Inr trailing"
| "replace_matches value_of ((before, name) # ms) trailing =
     (case value_of name of
        Inl err \<Rightarrow> Inl err
      | Inr v \<Rightarrow>
          (case replace_matches value_of ms trailing of Inl err \<Rightarrow> Inl err | Inr rest \<Rightarrow> Inr (before @ v @ rest)))"

definition ResolveArtifactVersionTemplate :: "string \<Rightarrow> Build \<Rightarrow> string + string" where
  "ResolveArtifactVersionTemplate template build =
     (let trimmed = TrimSpace template
      in case ValidateArtifactVersionTemplate trimmed of
           Some err \<Rightarrow> Inl err
         | None \<Rightarrow>
             (let (ms, trailing) = template_matches [] trimmed
              in case replace_matches (\<lambda>name. artifactTemplatePlaceholderValue name build) ms trailing of
                   Inl err \<Rightarrow> Inl err
                 | Inr resolved \<Rightarrow> Inr (TrimSpace resolved)))"

section \<open>Configured application versions\<close>

definition ValidateApplicationVersionConfig :: "ApplicationVersionConfig \<Rightarrow> string option" where
  "ValidateApplicationVersionConfig config =
     (let sources = length (filter (\<lambda>v. TrimSpace v \<noteq> []) [av_Value config, av_Template config, av_File config])
      in if sources > 1 then Some ''exactly one of value, template, or file may be configured''
         else if sources = 0 then None
         else if TrimSpace (av_Value config) \<noteq> [] then ValidateApplicationVersion (av_Value config)
         else if TrimSpace (av_Template config) \<noteq> [] then ValidateArtifactVersionTemplate (av_Template config)
         else validateApplicationVersionFilePath (av_File config))"

definition ResolveApplicationVersion :: "ApplicationVersionConfig \<Rightarrow> Build \<Rightarrow> string + string" where
  "ResolveApplicationVersion config build =
     (case ValidateApplicationVersionConfig config of
        Some err \<Rightarrow> Inl err
      | None \<Rightarrow>
          (if TrimSpace (av_Value config) \<noteq> [] then normalizeApplicationVersion (av_Value config)
           else if TrimSpace (av_Template config) = [] then Inr []
           else (case ResolveArtifactVersionTemplate (av_Template config) build of
                   Inl err \<Rightarrow> Inl err
                 | Inr resolved \<Rightarrow> normalizeApplicationVersion resolved)))"

section \<open>Releases\<close>

text \<open>\<open>strconv.Atoi\<close>: an optional sign and decimal digits, within 64 bits.\<close>

definition Atoi :: "string \<Rightarrow> int option" where
  "Atoi s =
     (let (negative, ds) = (case s of [] \<Rightarrow> (False, []) | c # cs \<Rightarrow>
            (if c = CHR ''-'' then (True, cs) else if c = CHR ''+'' then (False, cs) else (False, s)))
      in if ds = [] \<or> \<not> list_all is_digit ds then None
         else (let n = (if negative then - int (nat_of_digits ds) else int (nat_of_digits ds))
               in if - (2 ^ 63) \<le> n \<and> n < 2 ^ 63 then Some n else None))"

definition parseReleasePart :: "string \<Rightarrow> string + int" where
  "parseReleasePart v =
     (if v = [] then Inl ''release version segments must be numeric''
      else if length v > 1 \<and> HasPrefix v ''0'' then Inl ''release version segments must not contain leading zeroes''
      else (case Atoi v of
              None \<Rightarrow> Inl ''release version segments must be numeric''
            | Some parsed \<Rightarrow>
                (if parsed < 0 then Inl ''release version segments must be numeric'' else Inr parsed)))"

record semverSeries =
  sv_Major :: int
  sv_Minor :: int

definition parseSemverSeries :: "string \<Rightarrow> string + semverSeries" where
  "parseSemverSeries v =
     (let trimmed = TrimSpace v
      in if trimmed = [] then Inl ''release.version is required for semver-patch strategy''
         else (case SplitChar CHR ''.'' trimmed of
                 [a, b] \<Rightarrow>
                   (case parseReleasePart a of
                      Inl err \<Rightarrow> Inl err
                    | Inr major \<Rightarrow>
                        (case parseReleasePart b of
                           Inl err \<Rightarrow> Inl err
                         | Inr minor \<Rightarrow> Inr \<lparr>sv_Major = major, sv_Minor = minor\<rparr>))
               | _ \<Rightarrow> Inl ''release.version for semver-patch strategy must be major.minor''))"

text \<open>The patch number of an existing version that belongs to the series.\<close>

definition patch_of :: "semverSeries \<Rightarrow> string \<Rightarrow> int option" where
  "patch_of series candidate =
     (case SplitChar CHR ''.'' (TrimSpace candidate) of
        [a, b, c] \<Rightarrow>
          (case (parseReleasePart a, parseReleasePart b, parseReleasePart c) of
             (Inr major, Inr minor, Inr patch) \<Rightarrow>
               (if major \<noteq> sv_Major series \<or> minor \<noteq> sv_Minor series then None else Some patch)
           | _ \<Rightarrow> None)
      | _ \<Rightarrow> None)"

definition bump_patch :: "semverSeries \<Rightarrow> string \<Rightarrow> int \<Rightarrow> int" where
  "bump_patch series candidate nextPatch =
     (case patch_of series candidate of
        None \<Rightarrow> nextPatch
      | Some patch \<Rightarrow> (if patch \<ge> nextPatch then wrap64 (patch + 1) else nextPatch))"

definition render_version :: "int \<Rightarrow> int \<Rightarrow> int \<Rightarrow> string" where
  "render_version major minor patch = FormatInt major @ ''.'' @ FormatInt minor @ ''.'' @ FormatInt patch"

definition resolveNextPatch :: "semverSeries \<Rightarrow> string list \<Rightarrow> string" where
  "resolveNextPatch series existing =
     render_version (sv_Major series) (sv_Minor series) (fold (bump_patch series) existing 0)"

definition isSupportedPlaceholder :: "string \<Rightarrow> bool" where
  "isSupportedPlaceholder name \<longleftrightarrow>
     name \<in> {''build_number'', ''attempt_number'', ''commit_sha'', ''short_commit_sha''}"

definition validateTemplate :: "string \<Rightarrow> string option" where
  "validateTemplate v =
     (let trimmed = TrimSpace v
      in if trimmed = [] then Some ''release.template is required for template strategy''
         else (let (ms, trailing) = template_matches [] trimmed
               in if length ms = 0 then None else check_matches ''release.template'' isSupportedPlaceholder ms trailing))"

definition release_commit_sha :: "Build \<Rightarrow> string" where
  "release_commit_sha build =
     (case b_CommitSHA build of
        Some sha \<Rightarrow> TrimSpace sha
      | None \<Rightarrow> (case Option.bind (b_Source build) ss_CommitSHA of Some sha \<Rightarrow> TrimSpace sha | None \<Rightarrow> []))"

definition releasePlaceholderValue :: "string \<Rightarrow> Build \<Rightarrow> string" where
  "releasePlaceholderValue name build =
     (if name = ''build_number'' then (if b_BuildNumber build \<le> 0 then [] else FormatInt (b_BuildNumber build))
      else if name = ''attempt_number'' then
        FormatInt (if b_AttemptNumber build \<le> 0 then 1 else b_AttemptNumber build)
      else if name = ''commit_sha'' then release_commit_sha build
      else if name = ''short_commit_sha'' then
        (let v = release_commit_sha build in if length v > 8 then take 8 v else v)
      else [])"

definition renderTemplate :: "string \<Rightarrow> Build \<Rightarrow> string + string" where
  "renderTemplate template build =
     (case validateTemplate template of
        Some err \<Rightarrow> Inl err
      | None \<Rightarrow>
          (let (ms, trailing) = template_matches [] template
           in case replace_matches (\<lambda>name. Inr (releasePlaceholderValue name build)) ms trailing of
                Inl err \<Rightarrow> Inl err
              | Inr resolved \<Rightarrow> Inr (TrimSpace resolved)))"

record ReleaseConfig =
  rc_Strategy :: string
  rc_Version :: string
  rc_Template :: string

definition NormalizeStrategy :: "string \<Rightarrow> string" where
  "NormalizeStrategy v = (let s = TrimSpace (ToLower v) in if s = [] then ''manual'' else s)"

definition Config_Empty :: "ReleaseConfig \<Rightarrow> bool" where
  "Config_Empty c \<longleftrightarrow> TrimSpace (rc_Strategy c) = [] \<and> TrimSpace (rc_Version c) = [] \<and> TrimSpace (rc_Template c) = []"

definition ValidateConfig :: "ReleaseConfig \<Rightarrow> string option" where
  "ValidateConfig config =
     (let strategy = NormalizeStrategy (rc_Strategy config)
      in if strategy = ''manual'' then
           (if TrimSpace (rc_Version config) = [] then Some ''release.version is required for manual strategy'' else None)
         else if strategy = ''semver-patch'' then
           (case parseSemverSeries (rc_Version config) of Inl err \<Rightarrow> Some err | Inr _ \<Rightarrow> None)
         else if strategy = ''template'' then validateTemplate (rc_Template config)
         else Some ''release.strategy must be one of manual, semver-patch, or template'')"

definition ResolveVersion :: "ReleaseConfig \<Rightarrow> Build \<Rightarrow> string list \<Rightarrow> string + string" where
  "ResolveVersion config build existing =
     (case ValidateConfig config of
        Some err \<Rightarrow> Inl err
      | None \<Rightarrow>
          (let strategy = NormalizeStrategy (rc_Strategy config)
           in if strategy = ''manual'' then Inr (TrimSpace (rc_Version config))
              else if strategy = ''semver-patch'' then
                (case parseSemverSeries (rc_Version config) of
                   Inl err \<Rightarrow> Inl err
                 | Inr series \<Rightarrow> Inr (resolveNextPatch series existing))
              else if strategy = ''template'' then renderTemplate (TrimSpace (rc_Template config)) build
              else Inl (''unsupported release strategy '' @ Quote (rc_Strategy config))))"

end
