(* ===== verification/Pipeline_Schema.thy ===== *)
theory Pipeline_Schema
  imports Versioning
begin

text \<open>
  The pipeline file (\<open>pipeline/schema.go\<close>, \<open>resolved.go\<close>, \<open>loader.go\<close>, \<open>cache.go\<close>, \<open>release_identity.go\<close>)
  and the cache presets (\<open>cache/preset.go\<close>): its data, how a parsed file is resolved into executable
  steps with node identifiers and dependencies.

  A \<open>StepDef\<close> holds its fields in a record and its optional group beside it, since a group contains
  steps again. The YAML library is an argument: \<open>Parse\<close> takes the decoder of whole documents and
  \<open>parseArtifactDeclaration\<close> the decoder of one mapping node.
\<close>

section \<open>Artifacts\<close>

definition ParseArtifactType :: "string \<Rightarrow> string option" where
  "ParseArtifactType v =
     (let t = TrimSpace v
      in if t \<in> {''docker_image'', ''npm_package'', ''generic'', ''unknown''} then Some t else None)"

record ArtifactVersionDeclaration =
  avd_Template :: string
  avd_Channel :: string
  avd_InheritApplicationVersion :: "bool option"

record ArtifactDeclaration =
  ad_Name :: string
  ad_Path :: string
  ad_Type :: string
  ad_Platform :: string
  ad_Version :: "ArtifactVersionDeclaration option"

record ArtifactDef =
  a_Paths :: "string list"
  a_Declarations :: "ArtifactDeclaration list"

text \<open>The part of \<open>yaml.Node\<close> the code reads; documents and aliases are \<open>OtherNode\<close>.\<close>

datatype yaml_node =
  ScalarNode string
| SequenceNode "yaml_node list"
| MappingNode "(yaml_node \<times> yaml_node) list"
| OtherNode

fun node_Value :: "yaml_node \<Rightarrow> string" where
  "node_Value (ScalarNode v) = v"
| "node_Value _ = []"

record artifactPathObject =
  ao_Name :: string
  ao_Path :: string
  ao_Type :: string
  ao_Platform :: string
  ao_Version :: "ArtifactVersionDeclaration option"

definition path_declaration :: "string \<Rightarrow> ArtifactDeclaration" where
  "path_declaration p = \<lparr>ad_Name = [], ad_Path = p, ad_Type = [], ad_Platform = [], ad_Version = None\<rparr>"

definition parseArtifactDeclaration ::
  "(yaml_node \<Rightarrow> string + artifactPathObject) \<Rightarrow> yaml_node \<Rightarrow> string + ArtifactDeclaration" where
  "parseArtifactDeclaration Decode node =
     (case node of
        ScalarNode v \<Rightarrow> Inr (path_declaration v)
      | MappingNode _ \<Rightarrow>
          (case Decode node of
             Inl err \<Rightarrow> Inl err
           | Inr obj \<Rightarrow>
               Inr \<lparr>ad_Name = ao_Name obj, ad_Path = ao_Path obj,
                    ad_Type = (case ParseArtifactType (ao_Type obj) of Some t \<Rightarrow> t | None \<Rightarrow> []),
                    ad_Platform = ao_Platform obj, ad_Version = ao_Version obj\<rparr>)
      | _ \<Rightarrow> Inl ''must be a string or object with path'')"

fun parse_items ::
  "(yaml_node \<Rightarrow> string + artifactPathObject) \<Rightarrow> nat \<Rightarrow> yaml_node list \<Rightarrow> ArtifactDeclaration list \<Rightarrow> string + ArtifactDeclaration list" where
  "parse_items Decode idx [] declarations = Inr declarations"
| "parse_items Decode idx (item # items) declarations =
     (case parseArtifactDeclaration Decode item of
        Inl err \<Rightarrow> Inl (''invalid artifacts['' @ FormatInt (int idx) @ '']: '' @ err)
      | Inr declaration \<Rightarrow> parse_items Decode (Suc idx) items (declarations @ [declaration]))"

lemma find_paths_smaller:
  "find (\<lambda>(k, _). node_Value k = ''paths'') entries = Some (k, v) \<Longrightarrow> size v < size (MappingNode entries)"
proof -
  assume "find (\<lambda>(k, _). node_Value k = ''paths'') entries = Some (k, v)"
  then have "(k, v) \<in> set entries" by (metis find_Some_iff nth_mem)
  then show ?thesis by (induction entries) auto
qed

function parseArtifactDeclarationsNode ::
  "(yaml_node \<Rightarrow> string + artifactPathObject) \<Rightarrow> yaml_node \<Rightarrow> string + ArtifactDeclaration list" where
  "parseArtifactDeclarationsNode Decode (SequenceNode items) = parse_items Decode 0 items []"
| "parseArtifactDeclarationsNode Decode (MappingNode entries) =
     (case find (\<lambda>(k, _). node_Value k = ''paths'') entries of
        Some (_, v) \<Rightarrow> parseArtifactDeclarationsNode Decode v
      | None \<Rightarrow>
          (case parseArtifactDeclaration Decode (MappingNode entries) of
             Inl err \<Rightarrow> Inl err | Inr declaration \<Rightarrow> Inr [declaration]))"
| "parseArtifactDeclarationsNode Decode (ScalarNode v) = Inr [path_declaration v]"
| "parseArtifactDeclarationsNode Decode OtherNode = Inl ''artifacts must be a sequence or mapping''"
  by pat_completeness auto
termination
  by (relation "measure (\<lambda>(_, n). size n)") (auto dest: find_paths_smaller)

definition UnmarshalYAML ::
  "(yaml_node \<Rightarrow> string + artifactPathObject) \<Rightarrow> yaml_node option \<Rightarrow> string + ArtifactDef" where
  "UnmarshalYAML Decode node =
     (case node of
        None \<Rightarrow> Inr \<lparr>a_Paths = [], a_Declarations = []\<rparr>
      | Some n \<Rightarrow>
          (case parseArtifactDeclarationsNode Decode n of
             Inl err \<Rightarrow> Inl err
           | Inr declarations \<Rightarrow> Inr \<lparr>a_Paths = map ad_Path declarations, a_Declarations = declarations\<rparr>))"

section \<open>The pipeline file\<close>

record CacheDef =
  cd_Preset :: string
  cd_Policy :: string
  cd_Components :: "(string, string) gomap"

record ApplicationVersionDef =
  avf_Value :: string
  avf_Template :: string
  avf_File :: string

record ReleaseDef =
  rd_Artifacts :: "string list"
  rd_Images :: "string list"
  rd_AutoChannel :: string

record PipelineMeta =
  pm_Name :: string
  pm_Image :: string
  pm_Cache :: "CacheDef option"
  pm_ApplicationVersion :: "ApplicationVersionDef option"
  pm_Release :: "ReleaseDef option"

record ImageBuildArtifactInputDef =
  ai_Name :: string
  ai_Destination :: string
  ai_Platform :: string

record ImageBuildDef =
  ib_Context :: string
  ib_Dockerfile :: string
  ib_Target :: string
  ib_BuildArgs :: "(string, string) gomap"
  ib_Image :: string
  ib_Artifacts :: "ImageBuildArtifactInputDef list"

record StepFields =
  sf_Name :: string
  sf_DependsOn :: "string list option"
  sf_Image :: string
  sf_ImageBuild :: "ImageBuildDef option"
  sf_Run :: string
  sf_Command :: string
  sf_TimeoutSeconds :: "int option"
  sf_WorkingDir :: string
  sf_Env :: "(string, string) gomap"
  sf_Artifacts :: ArtifactDef
  sf_Cache :: "CacheDef option"

datatype StepDef = StepDef (sd_Group: "(string \<times> StepDef list) option") (sd_Fields: StepFields)

record PipelineFile =
  pf_Version :: int
  pf_Pipeline :: PipelineMeta
  pf_Env :: "(string, string) gomap"
  pf_Steps :: "StepDef list"
  pf_Artifacts :: ArtifactDef

definition hydrateStepRunAlias :: "StepDef \<Rightarrow> StepDef" where
  "hydrateStepRunAlias step =
     (let f = sd_Fields step
      in if TrimSpace (sf_Run f) = []
         then StepDef (sd_Group step) (f\<lparr>sf_Run := TrimSpace (sf_Command f)\<rparr>) else step)"

definition hydrate_step :: "StepDef \<Rightarrow> StepDef" where
  "hydrate_step step0 =
     (let step = hydrateStepRunAlias step0
      in case sd_Group step of
           None \<Rightarrow> step
         | Some (name, steps) \<Rightarrow> StepDef (Some (name, map hydrateStepRunAlias steps)) (sd_Fields step))"

definition Parse :: "(string \<Rightarrow> string + PipelineFile) \<Rightarrow> string \<Rightarrow> string + PipelineFile" where
  "Parse Decode data =
     (case Decode data of
        Inl err \<Rightarrow> Inl (''pipeline YAML parse error: '' @ err)
      | Inr pf \<Rightarrow> Inr (pf\<lparr>pf_Steps := map hydrate_step (pf_Steps pf)\<rparr>))"

section \<open>Cache presets\<close>

record Preset =
  ps_Name :: string
  ps_CachePaths :: "string list"
  ps_FingerprintFiles :: "string list"

record Component =
  co_Name :: string
  co_CachePath :: string
  co_FingerprintFiles :: "string list"
  co_KeyDimensions :: "string list"

definition normalizeWorkingDir :: "string \<Rightarrow> string" where
  "normalizeWorkingDir workingDir =
     (let trimmed = TrimSpace workingDir
      in if trimmed = [] \<or> trimmed = ''.'' then ''.''
         else (let cleaned = path_Clean (slashes trimmed) in if cleaned = [] then ''.'' else cleaned))"

text \<open>\<open>None\<close> is \<open>ErrUnknownPreset\<close>.\<close>

definition ResolvePreset :: "string \<Rightarrow> string \<Rightarrow> Preset option" where
  "ResolvePreset name workingDir =
     (let normalized = ToLower (TrimSpace name); baseDir = normalizeWorkingDir workingDir
      in if normalized = ''node'' then
           Some \<lparr>ps_Name = ''node'', ps_CachePaths = [''/root/.npm''],
                 ps_FingerprintFiles = [path_Join2 baseDir ''package-lock.json'']\<rparr>
         else if normalized = ''python-uv'' then
           Some \<lparr>ps_Name = ''python-uv'', ps_CachePaths = [''/root/.cache/uv''],
                 ps_FingerprintFiles = [path_Join2 baseDir ''uv.lock'']\<rparr>
         else if normalized = ''go'' then
           Some \<lparr>ps_Name = ''go'', ps_CachePaths = [''/go/pkg/mod'', ''/root/.cache/go-build''],
                 ps_FingerprintFiles = [path_Join2 baseDir ''go.sum'']\<rparr>
         else None)"

definition ResolvePresetComponents :: "string \<Rightarrow> string \<Rightarrow> Component list option" where
  "ResolvePresetComponents name workingDir =
     (case ResolvePreset name workingDir of
        None \<Rightarrow> None
      | Some preset \<Rightarrow>
          Some (if ps_Name preset \<noteq> ''go''
                then [\<lparr>co_Name = ps_Name preset, co_CachePath = hd (ps_CachePaths preset),
                       co_FingerprintFiles = ps_FingerprintFiles preset, co_KeyDimensions = []\<rparr>]
                else [\<lparr>co_Name = ''go-module'', co_CachePath = ''/go/pkg/mod'',
                       co_FingerprintFiles = ps_FingerprintFiles preset, co_KeyDimensions = [''cache-v2'']\<rparr>,
                      \<lparr>co_Name = ''go-build'', co_CachePath = ''/root/.cache/go-build'',
                       co_FingerprintFiles = ps_FingerprintFiles preset, co_KeyDimensions = [''cache-v2'']\<rparr>]))"

definition SupportedPresets :: "string list" where
  "SupportedPresets = [''node'', ''python-uv'', ''go'']"

definition IsSupportedPreset :: "string \<Rightarrow> bool" where
  "IsSupportedPreset name \<longleftrightarrow> ResolvePreset name ''.'' \<noteq> None"

definition IsSupportedPolicy :: "string \<Rightarrow> bool" where
  "IsSupportedPolicy v \<longleftrightarrow>
     (let policy = NormalizeCachePolicy v; trimmed = ToLower (TrimSpace v)
      in (policy = CachePolicyPullPush \<or> policy = CachePolicyPull \<or> policy = CachePolicyPush \<or> policy = CachePolicyOff) \<and>
         (trimmed = [] \<or> trimmed = CachePolicyPullPush \<or> trimmed = CachePolicyPull \<or> trimmed = CachePolicyPush \<or>
          trimmed = CachePolicyOff))"

definition resolveCache :: "CacheDef option \<Rightarrow> StepCacheConfig option" where
  "resolveCache def0 =
     (case def0 of
        None \<Rightarrow> None
      | Some d \<Rightarrow>
          (let preset = TrimSpace (cd_Preset d); policy = NormalizeCachePolicy (cd_Policy d)
           in case ResolvePresetComponents preset ''.'' of
                None \<Rightarrow> Some \<lparr>cc_Preset = preset, cc_Policy = policy, cc_ComponentPolicies = []\<rparr>
              | Some components \<Rightarrow>
                  Some \<lparr>cc_Preset = preset, cc_Policy = policy,
                        cc_ComponentPolicies =
                          fold (\<lambda>component. gm_put (co_Name component)
                                  (case map_of (cd_Components d) (co_Name component) of
                                     Some override \<Rightarrow> NormalizeCachePolicy override | None \<Rightarrow> policy))
                            components []\<rparr>))"

section \<open>Resolution\<close>

record ResolvedStep =
  rs_NodeID :: string
  rs_GroupName :: string
  rs_DependsOnNodeIDs :: "string list"
  rs_Name :: string
  rs_ExecutionKind :: string
  rs_RemoteImageBuild :: "RemoteImageBuildSpec option"
  rs_Image :: string
  rs_Run :: string
  rs_WorkingDir :: string
  rs_Env :: "(string, string) gomap"
  rs_TimeoutSeconds :: int
  rs_ArtifactPaths :: "string list"
  rs_ArtifactDecls :: "ArtifactDeclaration list"
  rs_Cache :: "StepCacheConfig option"

record ExecutionNode =
  en_NodeID :: string
  en_GroupName :: string
  en_DependsOnNodeIDs :: "string list"
  en_Step :: ResolvedStep

record ResolvedRelease =
  rr_Artifacts :: "string list"
  rr_Images :: "string list"
  rr_AutoChannel :: string

record ResolvedPipeline =
  rp_Name :: string
  rp_Image :: string
  rp_Env :: "(string, string) gomap"
  rp_ApplicationVersion :: ApplicationVersionConfig
  rp_Release :: "ResolvedRelease option"
  rp_Steps :: "ResolvedStep list"
  rp_Plan :: "ExecutionNode list"
  rp_Artifacts :: ArtifactDef
  rp_Cache :: "StepCacheConfig option"

definition copyEnv :: "(string, string) gomap \<Rightarrow> (string, string) gomap" where
  "copyEnv src = fold (\<lambda>(k, v). gm_put k v) src []"

definition mergeEnv :: "(string, string) gomap \<Rightarrow> (string, string) gomap \<Rightarrow> (string, string) gomap" where
  "mergeEnv base override = fold (\<lambda>(k, v). gm_put k v) override (copyEnv base)"

definition trimStrings :: "string list \<Rightarrow> string list" where
  "trimStrings values = filter (\<lambda>t. t \<noteq> []) (map TrimSpace values)"

definition resolveRelease :: "ReleaseDef option \<Rightarrow> ResolvedRelease option" where
  "resolveRelease def0 =
     (case def0 of
        None \<Rightarrow> None
      | Some d \<Rightarrow> Some \<lparr>rr_Artifacts = trimStrings (rd_Artifacts d), rr_Images = trimStrings (rd_Images d),
                         rr_AutoChannel = TrimSpace (rd_AutoChannel d)\<rparr>)"

definition resolveApplicationVersion :: "ApplicationVersionDef option \<Rightarrow> ApplicationVersionConfig" where
  "resolveApplicationVersion def0 =
     (case def0 of
        None \<Rightarrow> \<lparr>av_Value = [], av_Template = [], av_File = []\<rparr>
      | Some d \<Rightarrow> \<lparr>av_Value = TrimSpace (avf_Value d), av_Template = TrimSpace (avf_Template d),
                    av_File = TrimSpace (avf_File d)\<rparr>)"

definition buildNodeID :: "nat \<Rightarrow> string" where
  "buildNodeID index = ''node-'' @ Format03d (int index)"

definition resolveStepDef :: "StepDef \<Rightarrow> (string, string) gomap \<Rightarrow> StepCacheConfig option \<Rightarrow> ResolvedStep" where
  "resolveStepDef sd pipelineEnv pipelineCache =
     (let f = sd_Fields sd;
          merged = mergeEnv pipelineEnv (sf_Env f);
          timeout = (case sf_TimeoutSeconds f of Some t \<Rightarrow> t | None \<Rightarrow> 0);
          stepCache = (if sf_Cache f \<noteq> None then resolveCache (sf_Cache f) else pipelineCache);
          step = \<lparr>rs_NodeID = [], rs_GroupName = [], rs_DependsOnNodeIDs = [], rs_Name = sf_Name f,
                  rs_ExecutionKind = ExecutionKindShell, rs_RemoteImageBuild = None,
                  rs_Image = TrimSpace (sf_Image f), rs_Run = sf_Run f, rs_WorkingDir = sf_WorkingDir f,
                  rs_Env = merged, rs_TimeoutSeconds = timeout, rs_ArtifactPaths = a_Paths (sf_Artifacts f),
                  rs_ArtifactDecls = a_Declarations (sf_Artifacts f), rs_Cache = StepCacheConfig_Clone stepCache\<rparr>
      in case sf_ImageBuild f of
           None \<Rightarrow> step
         | Some ib \<Rightarrow>
             step\<lparr>rs_ExecutionKind := ExecutionKindImageBuild,
                  rs_RemoteImageBuild := Some
                    \<lparr>rib_ContextPath = TrimSpace (ib_Context ib), rib_DockerfilePath = TrimSpace (ib_Dockerfile ib),
                     rib_Target = TrimSpace (ib_Target ib), rib_BuildArgs = copyEnv (ib_BuildArgs ib),
                     rib_TargetImageReference = TrimSpace (ib_Image ib),
                     rib_ArtifactInputs = map (\<lambda>input. \<lparr>ibi_Name = TrimSpace (ai_Name input),
                        ibi_Destination = TrimSpace (ai_Destination input), ibi_Platform = TrimSpace (ai_Platform input)\<rparr>)
                        (ib_Artifacts ib)\<rparr>,
                  rs_Image := [], rs_Run := []\<rparr>)"

text \<open>
  The state of the loop of \<open>Resolve\<close>: the nodes built so far, the explicit dependencies by node, the
  frontier and the next node index.
\<close>

record resolve_state =
  st_nodes :: "ExecutionNode list"
  st_explicit :: "(string, string list option) gomap"
  st_frontier :: "string list"
  st_next :: nat

definition add_node ::
  "(string, string) gomap \<Rightarrow> StepCacheConfig option \<Rightarrow> string \<Rightarrow> string list \<Rightarrow> StepDef \<Rightarrow> resolve_state \<Rightarrow> resolve_state" where
  "add_node env cache groupName deps sd st =
     (let nodeID = buildNodeID (st_next st);
          step = (resolveStepDef sd env cache)\<lparr>rs_NodeID := nodeID, rs_GroupName := groupName, rs_DependsOnNodeIDs := deps\<rparr>
      in st\<lparr>st_nodes := st_nodes st @
              [\<lparr>en_NodeID = nodeID, en_GroupName = groupName, en_DependsOnNodeIDs = deps, en_Step = step\<rparr>],
            st_explicit := gm_put nodeID (sf_DependsOn (sd_Fields sd)) (st_explicit st),
            st_next := Suc (st_next st)\<rparr>)"

definition resolve_step :: "(string, string) gomap \<Rightarrow> StepCacheConfig option \<Rightarrow> StepDef \<Rightarrow> resolve_state \<Rightarrow> resolve_state" where
  "resolve_step env cache sd st =
     (case sd_Group sd of
        None \<Rightarrow> (add_node env cache [] (st_frontier st) sd st)\<lparr>st_frontier := [buildNodeID (st_next st)]\<rparr>
      | Some (name, steps) \<Rightarrow>
          (fold (add_node env cache (TrimSpace name) (st_frontier st)) steps st)
            \<lparr>st_frontier := map buildNodeID [st_next st..<st_next st + length steps]\<rparr>)"

definition resolveDependencyNames :: "string list \<Rightarrow> (string, string) gomap \<Rightarrow> string list" where
  "resolveDependencyNames names nameToNodeID =
     List.map_filter (\<lambda>name. map_of nameToNodeID (ToLower (TrimSpace name))) names"

definition name_to_node :: "ExecutionNode list \<Rightarrow> (string, string) gomap" where
  "name_to_node nodes = fold (\<lambda>node. gm_put (ToLower (TrimSpace (rs_Name (en_Step node)))) (en_NodeID node)) nodes []"

definition apply_explicit ::
  "(string, string list option) gomap \<Rightarrow> (string, string) gomap \<Rightarrow> ExecutionNode \<Rightarrow> ExecutionNode" where
  "apply_explicit explicitDependencies nameToNodeID node =
     (case map_of explicitDependencies (en_NodeID node) of
        Some (Some explicit) \<Rightarrow>
          (let dependencies = resolveDependencyNames explicit nameToNodeID
           in node\<lparr>en_DependsOnNodeIDs := dependencies, en_Step := (en_Step node)\<lparr>rs_DependsOnNodeIDs := dependencies\<rparr>\<rparr>)
      | _ \<Rightarrow> node)"

definition resolve_nodes :: "PipelineFile \<Rightarrow> ExecutionNode list" where
  "resolve_nodes pf =
     (let st = fold (resolve_step (copyEnv (pf_Env pf)) (resolveCache (pm_Cache (pf_Pipeline pf)))) (pf_Steps pf)
                 \<lparr>st_nodes = [], st_explicit = [], st_frontier = [], st_next = 0\<rparr>
      in map (apply_explicit (st_explicit st) (name_to_node (st_nodes st))) (st_nodes st))"

definition Resolve :: "PipelineFile \<Rightarrow> ResolvedPipeline" where
  "Resolve pf =
     (let nodes = resolve_nodes pf
      in \<lparr>rp_Name = pm_Name (pf_Pipeline pf), rp_Image = TrimSpace (pm_Image (pf_Pipeline pf)),
          rp_Env = copyEnv (pf_Env pf),
          rp_ApplicationVersion = resolveApplicationVersion (pm_ApplicationVersion (pf_Pipeline pf)),
          rp_Release = resolveRelease (pm_Release (pf_Pipeline pf)),
          rp_Steps = map en_Step nodes, rp_Plan = nodes, rp_Artifacts = pf_Artifacts pf,
          rp_Cache = StepCacheConfig_Clone (resolveCache (pm_Cache (pf_Pipeline pf)))\<rparr>)"

section \<open>A small pipeline, for witnesses\<close>

definition demo_step :: "string \<Rightarrow> string list option \<Rightarrow> StepDef" where
  "demo_step name deps = StepDef None \<lparr>sf_Name = name, sf_DependsOn = deps, sf_Image = [], sf_ImageBuild = None,
     sf_Run = ''make'', sf_Command = [], sf_TimeoutSeconds = None, sf_WorkingDir = [], sf_Env = [],
     sf_Artifacts = \<lparr>a_Paths = [], a_Declarations = []\<rparr>, sf_Cache = None\<rparr>"

definition demo_group :: "string \<Rightarrow> StepDef list \<Rightarrow> StepDef" where
  "demo_group name steps = StepDef (Some (name, steps)) (sd_Fields (demo_step [] None)\<lparr>sf_Run := []\<rparr>)"

definition demo_pipeline :: PipelineFile where
  "demo_pipeline = \<lparr>pf_Version = 1,
     pf_Pipeline = \<lparr>pm_Name = ''demo'', pm_Image = ''golang'', pm_Cache = None, pm_ApplicationVersion = None, pm_Release = None\<rparr>,
     pf_Env = [], pf_Steps = [demo_step ''lint'' None, demo_group ''tests'' [demo_step ''unit'' None, demo_step ''e2e'' None],
       demo_step ''package'' (Some ['' Unit ''])],
     pf_Artifacts = \<lparr>a_Paths = [], a_Declarations = []\<rparr>\<rparr>"

end
