(* ===== verification/Pipeline_Validate.thy ===== *)
theory Pipeline_Validate
  imports Pipeline_Schema Dependency_Graph
begin

text \<open>
  The semantic checks of a parsed pipeline file (\<open>pipeline/validate.go\<close>, \<open>errors.go\<close>). \<open>Validate\<close>
  returns the list of all problems, each with the field it is about; the empty list is Go's \<open>nil\<close>.
  The flag and the name sets that the loops thread through are explicit results.
\<close>

record ValidationError =
  ve_Field :: string
  ve_Message :: string

abbreviation verr :: "string \<Rightarrow> string \<Rightarrow> ValidationError" where
  "verr f m \<equiv> \<lparr>ve_Field = f, ve_Message = m\<rparr>"

definition ValidationError_Error :: "ValidationError \<Rightarrow> string" where
  "ValidationError_Error e = (if ve_Field e \<noteq> [] then ve_Field e @ '': '' @ ve_Message e else ve_Message e)"

definition ValidationErrors_Error :: "ValidationError list \<Rightarrow> string" where
  "ValidationErrors_Error errs =
     (case errs of
        [] \<Rightarrow> ''validation failed''
      | [e] \<Rightarrow> ValidationError_Error e
      | _ \<Rightarrow> fold (\<lambda>e msg. msg @ [CHR 0x0A] @ ''  - '' @ ValidationError_Error e) errs
               (FormatInt (int (length errs)) @ '' validation errors:''))"

section \<open>Names and paths\<close>

definition validEnvKey :: regex where
  "validEnvKey = Seq (Chars (lower_letters @ upper_letters @ ''_'')) (Star (Chars (lower_letters @ upper_letters @ digits @ ''_'')))"

definition validLogicalImageName :: regex where
  "validLogicalImageName = Seq (Chars (lower_letters @ digits)) (Star (Chars (lower_letters @ digits @ ''._/-'')))"

definition validDockerStageName :: regex where
  "validDockerStageName = Seq (Chars (lower_letters @ digits)) (Star (Chars (lower_letters @ digits @ ''_.-'')))"

definition validTargetPlatform :: "string \<Rightarrow> bool" where
  "validTargetPlatform v \<longleftrightarrow>
     (case SplitChar CHR ''/'' (TrimSpace v) of
        [a, b] \<Rightarrow> a \<noteq> [] \<and> b \<noteq> [] \<and> \<not> ContainsAny v [CHR 0x5C, CHR '' '']
      | _ \<Rightarrow> False)"

definition validImageBuildRepositoryPath :: "string \<Rightarrow> bool \<Rightarrow> bool" where
  "validImageBuildRepositoryPath v allowCurrentDirectory \<longleftrightarrow>
     (let trimmed = TrimSpace v
      in if trimmed = [] \<or> v \<noteq> trimmed \<or> CHR 0x5C \<in> set trimmed \<or> path_IsAbs trimmed \<or> path_Clean trimmed \<noteq> trimmed
         then False else allowCurrentDirectory \<or> trimmed \<noteq> ''.'')"

definition validImageBuildContextPath :: "string \<Rightarrow> bool" where
  "validImageBuildContextPath v \<longleftrightarrow>
     (let trimmed = TrimSpace v
      in validImageBuildRepositoryPath trimmed False \<and> trimmed \<noteq> ''..'' \<and> \<not> HasPrefix trimmed ''../'')"

definition validateArtifactPathPattern :: "string \<Rightarrow> string option" where
  "validateArtifactPathPattern pattern =
     (if CHR 0x5C \<in> set pattern then Some ''artifact path must use forward slashes''
      else if HasPrefix pattern ''/'' then Some ''artifact path must be relative''
      else if ''..'' \<in> set (SplitChar CHR ''/'' pattern) then Some ''artifact path must stay within workspace''
      else None)"

definition pathPatternHasWildcard :: "string \<Rightarrow> bool" where
  "pathPatternHasWildcard pattern \<longleftrightarrow> ContainsAny pattern ''*?[''"

section \<open>Artifacts and caches\<close>

definition validateArtifactVersionDeclaration :: "ArtifactVersionDeclaration \<Rightarrow> string option" where
  "validateArtifactVersionDeclaration declaration =
     (case avd_InheritApplicationVersion declaration of
        Some inherit \<Rightarrow>
          (if inherit then Some ''inherit_application_version must be false''
           else if TrimSpace (avd_Template declaration) \<noteq> []
           then Some ''inherit_application_version cannot be combined with template''
           else if TrimSpace (avd_Channel declaration) \<noteq> [] then Some ''channel requires a template''
           else None)
      | None \<Rightarrow> ValidateArtifactVersionConfig (avd_Template declaration) (avd_Channel declaration))"

definition declarationsForValidation :: "ArtifactDef \<Rightarrow> ArtifactDeclaration list" where
  "declarationsForValidation d =
     (if length (a_Declarations d) > 0 then a_Declarations d else map path_declaration (a_Paths d))"

text \<open>One artifact declaration; \<open>named\<close> is set for top-level artifacts, whose names need exact paths.\<close>

definition validate_declaration :: "bool \<Rightarrow> string \<Rightarrow> ArtifactDeclaration \<Rightarrow> ValidationError list" where
  "validate_declaration named field declaration =
     (let trimmed = TrimSpace (ad_Path declaration)
      in if trimmed = [] then [verr field ''artifact path is required'']
         else (case validateArtifactPathPattern trimmed of Some err \<Rightarrow> [verr field err] | None \<Rightarrow> []) @
              (if ad_Type declaration \<noteq> [] \<and> ParseArtifactType (ad_Type declaration) = None
               then [verr (field @ ''.type'') (''unsupported artifact type '' @ Quote (ad_Type declaration))] else []) @
              (case ad_Version declaration of
                 None \<Rightarrow> []
               | Some v \<Rightarrow> (case validateArtifactVersionDeclaration v of
                              Some err \<Rightarrow> [verr (field @ ''.version'') err] | None \<Rightarrow> [])) @
              (if named \<and> TrimSpace (ad_Name declaration) \<noteq> [] \<and> pathPatternHasWildcard trimmed
               then [verr (field @ ''.name'') ''artifact name requires an exact path declaration''] else []))"

definition at_index :: "string \<Rightarrow> nat \<Rightarrow> string" where
  "at_index prefix i = prefix @ ''['' @ FormatInt (int i) @ '']''"

definition validate_declarations :: "bool \<Rightarrow> string \<Rightarrow> ArtifactDeclaration list \<Rightarrow> ValidationError list" where
  "validate_declarations named prefix ds =
     concat (map (\<lambda>(i, d). validate_declaration named (at_index prefix i) d) (enumerate 0 ds))"

definition validate_env_keys :: "string \<Rightarrow> (string, string) gomap \<Rightarrow> ValidationError list" where
  "validate_env_keys field env =
     concat (map (\<lambda>(key, _). if \<not> matches validEnvKey key then [verr field (''invalid env key '' @ Quote key)] else []) env)"

definition policy_message :: string where
  "policy_message = ''policy must be one of: pull-push, pull, push, off''"

definition validate_components :: "string \<Rightarrow> string \<Rightarrow> Component list \<Rightarrow> (string, string) gomap \<Rightarrow> ValidationError list" where
  "validate_components fieldPrefix preset components overrides =
     concat (map (\<lambda>(component, componentPolicy).
        (if component \<notin> set (map co_Name components)
         then [verr (fieldPrefix @ ''.components.'' @ component)
                 (''unknown cache component '' @ Quote component @ '' for preset '' @ Quote preset)] else []) @
        (if \<not> IsSupportedPolicy componentPolicy
         then [verr (fieldPrefix @ ''.components.'' @ component) policy_message] else [])) overrides)"

definition validateCacheDef :: "string \<Rightarrow> CacheDef option \<Rightarrow> ValidationError list" where
  "validateCacheDef fieldPrefix def0 =
     (case def0 of
        None \<Rightarrow> []
      | Some d \<Rightarrow>
          (let preset = TrimSpace (cd_Preset d); policy = TrimSpace (cd_Policy d)
           in (if preset = [] then [verr (fieldPrefix @ ''.preset'') ''preset is required when cache is set'']
               else if \<not> IsSupportedPreset preset
               then [verr (fieldPrefix @ ''.preset'') (''unknown cache preset '' @ Quote preset)]
               else (case ResolvePresetComponents preset ''.'' of
                       None \<Rightarrow> [verr (fieldPrefix @ ''.preset'') ''unknown cache preset'']
                     | Some components \<Rightarrow> validate_components fieldPrefix preset components (cd_Components d))) @
              (if policy \<noteq> [] \<and> \<not> IsSupportedPolicy policy then [verr (fieldPrefix @ ''.policy'') policy_message] else [])))"

section \<open>Steps\<close>

fun validate_inputs :: "string \<Rightarrow> nat \<Rightarrow> ImageBuildArtifactInputDef list \<Rightarrow> string list \<Rightarrow> ValidationError list" where
  "validate_inputs prefix index [] seenArtifacts = []"
| "validate_inputs prefix index (input # inputs) seenArtifacts =
     (let inputPrefix = at_index (prefix @ ''.image_build.artifacts'') index; name = TrimSpace (ai_Name input)
      in (if name = [] then [verr (inputPrefix @ ''.name'') ''is required'']
          else if name \<in> set seenArtifacts then [verr (inputPrefix @ ''.name'') (''duplicate artifact '' @ Quote name)]
          else []) @
         (if \<not> validImageBuildContextPath (ai_Destination input)
          then [verr (inputPrefix @ ''.destination'') ''must be a normalized build-context-relative path''] else []) @
         (if TrimSpace (ai_Platform input) \<noteq> [] \<and> \<not> validTargetPlatform (ai_Platform input)
          then [verr (inputPrefix @ ''.platform'') ''must be an os/arch platform''] else []) @
         validate_inputs prefix (Suc index) inputs
           (if name = [] \<or> name \<in> set seenArtifacts then seenArtifacts else name # seenArtifacts))"

definition validate_dockerfile :: "string \<Rightarrow> ImageBuildDef \<Rightarrow> ValidationError list" where
  "validate_dockerfile prefix ib =
     (if \<not> validImageBuildRepositoryPath (ib_Dockerfile ib) False
      then [verr (prefix @ ''.image_build.dockerfile'') ''must be a normalized repository-relative path'']
      else (case filepath_Rel (ib_Context ib) (ib_Dockerfile ib) of
              None \<Rightarrow> [verr (prefix @ ''.image_build.dockerfile'') ''must resolve within image_build.context'']
            | Some rel \<Rightarrow>
                (if rel = ''..'' \<or> HasPrefix rel ''../''
                 then [verr (prefix @ ''.image_build.dockerfile'') ''must resolve within image_build.context''] else [])))"

definition validate_image_build :: "string \<Rightarrow> StepFields \<Rightarrow> ImageBuildDef \<Rightarrow> ValidationError list" where
  "validate_image_build prefix f ib =
     (if TrimSpace (sf_Image f) \<noteq> [] then [verr (prefix @ ''.image'') ''image_build step must not set container image''] else []) @
     (if \<not> validImageBuildRepositoryPath (ib_Context ib) True
      then [verr (prefix @ ''.image_build.context'') ''must be a normalized repository-relative path''] else []) @
     validate_dockerfile prefix ib @
     (if TrimSpace (ib_Image ib) = [] then [verr (prefix @ ''.image_build.image'') ''is required'']
      else if \<not> matches validLogicalImageName (ib_Image ib) \<or> path_Clean (ib_Image ib) \<noteq> ib_Image ib \<or> HasPrefix (ib_Image ib) ''/''
      then [verr (prefix @ ''.image_build.image'') ''must be a relative logical image name''] else []) @
     (if TrimSpace (ib_Target ib) \<noteq> [] \<and> \<not> matches validDockerStageName (TrimSpace (ib_Target ib))
      then [verr (prefix @ ''.image_build.target'') ''must be a valid Docker stage name''] else []) @
     concat (map (\<lambda>(key, v). if \<not> matches validEnvKey key \<or> TrimSpace v = []
        then [verr (prefix @ ''.image_build.build_args'') (''invalid build argument '' @ Quote key)] else []) (ib_BuildArgs ib)) @
     validate_inputs prefix 0 (ib_Artifacts ib) []"

definition validate_working_dir :: "string \<Rightarrow> string \<Rightarrow> ValidationError list" where
  "validate_working_dir prefix workingDir =
     (if workingDir \<noteq> [] then
        (let cleaned = path_Clean workingDir
         in if path_IsAbs cleaned \<or> cleaned = ''..'' \<or> HasPrefix cleaned ''../''
            then [verr (prefix @ ''.working_dir'') ''must be a relative path''] else [])
      else [])"

text \<open>\<open>validateStepDef\<close> returns the problems and the names seen so far.\<close>

definition validateStepDef :: "StepDef \<Rightarrow> string \<Rightarrow> string list \<Rightarrow> ValidationError list \<times> string list" where
  "validateStepDef step prefix seen =
     (let f = sd_Fields step; name = TrimSpace (sf_Name f); lower = ToLower name;
          nameErrs = (if name = [] then [verr (prefix @ ''.name'') ''step name is required'']
                      else if lower \<in> set seen then [verr (prefix @ ''.name'') (''duplicate step name '' @ Quote name)]
                      else []);
          runErrs = (if TrimSpace (sf_Run f) = [] then
                       (if sf_ImageBuild f = None then [verr (prefix @ ''.run'') ''run command is required''] else [])
                     else if sf_ImageBuild f \<noteq> None then [verr prefix ''step must specify exactly one execution kind'']
                     else []);
          imageErrs = (case sf_ImageBuild f of None \<Rightarrow> [] | Some ib \<Rightarrow> validate_image_build prefix f ib);
          timeoutErrs = (case sf_TimeoutSeconds f of
                           Some t \<Rightarrow> (if t \<le> 0 then [verr (prefix @ ''.timeout_seconds'') ''must be > 0 when set''] else [])
                         | None \<Rightarrow> [])
      in (nameErrs @ runErrs @ imageErrs @ timeoutErrs @ validate_working_dir prefix (sf_WorkingDir f) @
          validate_env_keys (prefix @ ''.env'') (sf_Env f) @
          validate_declarations False (prefix @ ''.artifacts.paths'') (declarationsForValidation (sf_Artifacts f)) @
          validateCacheDef (prefix @ ''.cache'') (sf_Cache f),
          if name = [] then seen else lower # seen))"

definition validateGroupWrapperStep :: "StepDef \<Rightarrow> string \<Rightarrow> ValidationError list" where
  "validateGroupWrapperStep step prefix =
     (let f = sd_Fields step;
          forbid = (\<lambda>present field. if present then [verr (prefix @ ''.'' @ field) (''group wrapper must not set '' @ field)] else [])
      in forbid (TrimSpace (sf_Name f) \<noteq> []) ''name'' @
         forbid (sf_DependsOn f \<noteq> None) ''depends_on'' @
         forbid (TrimSpace (sf_Image f) \<noteq> []) ''image'' @
         forbid (sf_ImageBuild f \<noteq> None) ''image_build'' @
         forbid (TrimSpace (sf_Run f) \<noteq> []) ''run'' @
         forbid (TrimSpace (sf_Command f) \<noteq> []) ''command'' @
         forbid (sf_TimeoutSeconds f \<noteq> None) ''timeout_seconds'' @
         forbid (TrimSpace (sf_WorkingDir f) \<noteq> []) ''working_dir'' @
         forbid (length (sf_Env f) > 0) ''env'' @
         forbid (length (a_Paths (sf_Artifacts f)) > 0) ''artifacts'' @
         forbid (sf_Cache f \<noteq> None) ''cache'')"

section \<open>Dependencies\<close>

record stepDependencyRef =
  dr_name :: string
  dr_dependsOn :: "string list option"
  dr_implicitDependencies :: "string list"
  dr_field :: string

definition known_names :: "stepDependencyRef list \<Rightarrow> (string, string) gomap" where
  "known_names refs =
     fold (\<lambda>ref m. let name = TrimSpace (dr_name ref) in if name \<noteq> [] then gm_put (ToLower name) name m else m) refs []"

fun check_dependencies ::
  "(string, string) gomap \<Rightarrow> string \<Rightarrow> string \<Rightarrow> nat \<Rightarrow> string list \<Rightarrow> string list \<Rightarrow> graph \<Rightarrow> ValidationError list \<times> graph" where
  "check_dependencies names field name index [] seen g = ([], g)"
| "check_dependencies names field name index (dependency # rest) seen g =
     (let trimmed = TrimSpace dependency; key = ToLower trimmed; at = at_index field index
      in if trimmed = [] \<or> gm_get_or [] names key = [] then
           (let (errs, g') = check_dependencies names field name (Suc index) rest seen g
            in (verr at (''unknown dependency '' @ Quote dependency) # errs, g'))
         else if key = ToLower name then
           (let (errs, g') = check_dependencies names field name (Suc index) rest seen g
            in (verr at ''step cannot depend on itself'' # errs, g'))
         else if key \<in> set seen then
           (let (errs, g') = check_dependencies names field name (Suc index) rest seen g
            in (verr at (''duplicate dependency '' @ Quote dependency) # errs, g'))
         else check_dependencies names field name (Suc index) rest (key # seen)
                (gm_put (ToLower name) (gm_get_or [] g (ToLower name) @ [key]) g))"

fun check_refs :: "(string, string) gomap \<Rightarrow> stepDependencyRef list \<Rightarrow> graph \<Rightarrow> ValidationError list \<times> graph" where
  "check_refs names [] g = ([], g)"
| "check_refs names (ref # refs) g =
     (let name = TrimSpace (dr_name ref)
      in if name = [] then check_refs names refs g
         else (let dependencies = (case dr_dependsOn ref of Some ds \<Rightarrow> ds | None \<Rightarrow> dr_implicitDependencies ref);
                   (errs, g') = check_dependencies names (dr_field ref) name 0 dependencies [] g;
                   (errs', g'') = check_refs names refs g'
               in (errs @ errs', g'')))"

definition validateStepDependencies :: "stepDependencyRef list \<Rightarrow> ValidationError list" where
  "validateStepDependencies refs =
     (let (errs, dependenciesByName) = check_refs (known_names refs) refs []
      in errs @ (if hasDependencyCycle dependenciesByName
                 then [verr ''steps'' ''step dependencies must not contain a cycle''] else []))"

section \<open>Releases\<close>

fun collectImageStepNames :: "StepDef \<Rightarrow> string list" where
  "collectImageStepNames (StepDef None f) = (if sf_ImageBuild f \<noteq> None then [TrimSpace (sf_Name f)] else [])"
| "collectImageStepNames (StepDef (Some (_, steps)) f) = concat (map collectImageStepNames steps)"

definition is_letter :: "char \<Rightarrow> bool" where
  "is_letter c \<longleftrightarrow>
     (let n = of_char c :: nat
      in (65 \<le> n \<and> n \<le> 90) \<or> (97 \<le> n \<and> n \<le> 122) \<or> n = 170 \<or> n = 181 \<or> n = 186 \<or>
         (192 \<le> n \<and> n \<noteq> 215 \<and> n \<noteq> 247))"

fun release_identity_loop :: "string \<Rightarrow> bool \<Rightarrow> string \<Rightarrow> string" where
  "release_identity_loop [] separator result = result"
| "release_identity_loop (c # cs) separator result =
     (if is_letter c \<or> is_digit c
      then release_identity_loop cs False ((if separator \<and> result \<noteq> [] then result @ ''-'' else result) @ [c])
      else release_identity_loop cs True result)"

definition normalizedReleaseImageIdentity :: "string \<Rightarrow> string" where
  "normalizedReleaseImageIdentity name = release_identity_loop (ToLower (TrimSpace name)) False []"

fun check_release_artifacts ::
  "(string, ArtifactDeclaration) gomap \<Rightarrow> nat \<Rightarrow> string list \<Rightarrow> string list \<Rightarrow> ValidationError list" where
  "check_release_artifacts artifactNames index [] seen = []"
| "check_release_artifacts artifactNames index (name0 # rest) seen =
     (let field = at_index ''pipeline.release.artifacts'' index; name = TrimSpace name0
      in case (if name = [] then None else map_of artifactNames name) of
           None \<Rightarrow> verr field ''must reference a named top-level artifact declaration'' #
                     check_release_artifacts artifactNames (Suc index) rest seen
         | Some declaration \<Rightarrow>
             (if pathPatternHasWildcard (ad_Path declaration)
              then [verr field ''must reference an exact non-glob artifact path''] else []) @
             (if name \<in> set seen then [verr field ''duplicate release artifact''] else []) @
             check_release_artifacts artifactNames (Suc index) rest (name # seen))"

fun check_release_images ::
  "string list \<Rightarrow> nat \<Rightarrow> string list \<Rightarrow> string list \<Rightarrow> (string, string) gomap \<Rightarrow> ValidationError list" where
  "check_release_images imageSteps index [] seen keys = []"
| "check_release_images imageSteps index (name0 # rest) seen keys =
     (let field = at_index ''pipeline.release.images'' index; name = TrimSpace name0
      in if name = [] \<or> name \<notin> set imageSteps
         then verr field ''must reference an image_build step'' # check_release_images imageSteps (Suc index) rest seen keys
         else
           (let dup = (if name \<in> set seen then [verr field ''duplicate release image''] else []);
                outputKey = normalizedReleaseImageIdentity name
            in if outputKey = []
               then dup @ verr field ''must normalize to a non-empty release image output key'' #
                    check_release_images imageSteps (Suc index) rest (name # seen) keys
               else dup @
                    (case map_of keys outputKey of
                       Some existing \<Rightarrow>
                         (if existing \<noteq> name
                          then [verr field (''release image output key '' @ Quote outputKey @ '' collides with '' @ Quote existing)]
                          else [])
                     | None \<Rightarrow> []) @
                    check_release_images imageSteps (Suc index) rest (name # seen) (gm_put outputKey name keys)))"

definition named_artifacts :: "ArtifactDef \<Rightarrow> (string, ArtifactDeclaration) gomap" where
  "named_artifacts d =
     fold (\<lambda>declaration m. let name = TrimSpace (ad_Name declaration) in if name \<noteq> [] then gm_put name declaration m else m)
       (declarationsForValidation d) []"

definition validateReleaseDef :: "PipelineFile \<Rightarrow> ValidationError list" where
  "validateReleaseDef pf =
     (case pm_Release (pf_Pipeline pf) of
        None \<Rightarrow> []
      | Some release \<Rightarrow>
          (if pm_ApplicationVersion (pf_Pipeline pf) = None
           then [verr ''pipeline.release'' ''requires pipeline.application_version''] else []) @
          (if length (rd_Artifacts release) = 0 \<and> length (rd_Images release) = 0
           then [verr ''pipeline.release'' ''must declare at least one artifact or image''] else []) @
          check_release_artifacts (named_artifacts (pf_Artifacts pf)) 0 (rd_Artifacts release) [] @
          check_release_images (concat (map collectImageStepNames (pf_Steps pf))) 0 (rd_Images release) [] [] @
          (if TrimSpace (rd_AutoChannel release) \<noteq> [] \<and> TrimSpace (rd_AutoChannel release) \<noteq> ''latest''
           then [verr ''pipeline.release.auto_channel'' ''only latest may advance automatically''] else []))"

section \<open>The whole file\<close>

text \<open>The state of the loop over the steps: problems, dependency references, seen names, frontier, step count.\<close>

record validate_state =
  vs_errs :: "ValidationError list"
  vs_refs :: "stepDependencyRef list"
  vs_seen :: "string list"
  vs_frontier :: "string list"
  vs_count :: nat

definition check_step :: "string \<Rightarrow> string list \<Rightarrow> StepDef \<Rightarrow> validate_state \<Rightarrow> validate_state" where
  "check_step prefix implicit step st =
     (let (errs, seen) = validateStepDef step prefix (vs_seen st)
      in st\<lparr>vs_errs := vs_errs st @ errs,
            vs_refs := vs_refs st @ [\<lparr>dr_name = sf_Name (sd_Fields step), dr_dependsOn = sf_DependsOn (sd_Fields step),
                                     dr_implicitDependencies = implicit, dr_field = prefix @ ''.depends_on''\<rparr>],
            vs_seen := seen, vs_count := Suc (vs_count st)\<rparr>)"

fun check_group ::
  "string \<Rightarrow> string list \<Rightarrow> nat \<Rightarrow> StepDef list \<Rightarrow> string list \<Rightarrow> validate_state \<Rightarrow> validate_state \<times> string list" where
  "check_group prefix implicit j [] groupFrontier st = (st, groupFrontier)"
| "check_group prefix implicit j (groupStep # rest) groupFrontier st =
     (let field = at_index (prefix @ ''.group.steps'') j
      in if sd_Group groupStep \<noteq> None
         then check_group prefix implicit (Suc j) rest groupFrontier
                (st\<lparr>vs_errs := vs_errs st @ [verr (field @ ''.group'') ''nested groups are not allowed'']\<rparr>)
         else check_group prefix implicit (Suc j) rest (groupFrontier @ [sf_Name (sd_Fields groupStep)])
                (check_step field implicit groupStep st))"

definition check_top :: "nat \<Rightarrow> StepDef \<Rightarrow> validate_state \<Rightarrow> validate_state" where
  "check_top i step st =
     (let prefix = at_index ''steps'' i
      in case sd_Group step of
           None \<Rightarrow> (check_step prefix (vs_frontier st) step st)\<lparr>vs_frontier := [sf_Name (sd_Fields step)]\<rparr>
         | Some (name, steps) \<Rightarrow>
             (let st1 = st\<lparr>vs_errs := vs_errs st @ validateGroupWrapperStep step prefix @
                        (if TrimSpace name = [] then [verr (prefix @ ''.group.name'') ''group name is required''] else [])\<rparr>
              in if length steps = 0
                 then st1\<lparr>vs_errs := vs_errs st1 @ [verr (prefix @ ''.group.steps'') ''group must contain at least one step'']\<rparr>
                 else (let (st2, groupFrontier) = check_group prefix (vs_frontier st) 0 steps [] st1
                       in st2\<lparr>vs_frontier := groupFrontier\<rparr>)))"

fun check_steps :: "nat \<Rightarrow> StepDef list \<Rightarrow> validate_state \<Rightarrow> validate_state" where
  "check_steps i [] st = st"
| "check_steps i (step # steps) st = check_steps (Suc i) steps (check_top i step st)"

definition validate_application_version :: "PipelineMeta \<Rightarrow> ValidationError list" where
  "validate_application_version meta =
     (case pm_ApplicationVersion meta of
        None \<Rightarrow> []
      | Some d \<Rightarrow>
          (let config = \<lparr>av_Value = avf_Value d, av_Template = avf_Template d, av_File = avf_File d\<rparr>
           in if ApplicationVersionConfig_Empty config
              then [verr ''pipeline.application_version'' ''exactly one of value, template, or file must be configured'']
              else (case ValidateApplicationVersionConfig config of
                      Some err \<Rightarrow> [verr ''pipeline.application_version'' err] | None \<Rightarrow> [])))"

definition validate_header :: "PipelineFile \<Rightarrow> ValidationError list" where
  "validate_header pf =
     (if pf_Version pf \<noteq> 1
      then [verr ''version'' (''unsupported version '' @ FormatInt (pf_Version pf) @ '', must be 1'')] else []) @
     (if pm_Image (pf_Pipeline pf) \<noteq> [] \<and> TrimSpace (pm_Image (pf_Pipeline pf)) = []
      then [verr ''pipeline.image'' ''must be non-empty when set''] else []) @
     validateCacheDef ''pipeline.cache'' (pm_Cache (pf_Pipeline pf)) @
     validate_application_version (pf_Pipeline pf) @
     validateReleaseDef pf @
     validate_env_keys ''env'' (pf_Env pf) @
     validate_declarations True ''artifacts.paths'' (declarationsForValidation (pf_Artifacts pf))"

definition Validate :: "PipelineFile \<Rightarrow> ValidationError list" where
  "Validate pf =
     (let errs = validate_header pf
      in if length (pf_Steps pf) = 0 then errs @ [verr ''steps'' ''at least one step is required'']
         else (let st = check_steps 0 (pf_Steps pf) \<lparr>vs_errs = errs, vs_refs = [], vs_seen = [], vs_frontier = [], vs_count = 0\<rparr>
               in vs_errs st @
                  (if vs_count st = 0 then [verr ''steps'' ''at least one step is required''] else []) @
                  validateStepDependencies (vs_refs st)))"

definition ParseAndValidate :: "(string \<Rightarrow> string + PipelineFile) \<Rightarrow> string \<Rightarrow> string + PipelineFile" where
  "ParseAndValidate Decode data =
     (case Parse Decode data of
        Inl err \<Rightarrow> Inl err
      | Inr pf \<Rightarrow> (case Validate pf of [] \<Rightarrow> Inr pf | errs \<Rightarrow> Inl (ValidationErrors_Error errs)))"

definition LoadAndResolve :: "(string \<Rightarrow> string + PipelineFile) \<Rightarrow> string \<Rightarrow> string + ResolvedPipeline" where
  "LoadAndResolve Decode data =
     (case ParseAndValidate Decode data of Inl err \<Rightarrow> Inl err | Inr pf \<Rightarrow> Inr (Resolve pf))"

end
