(* ===== verification/Pipeline_Layout.thy ===== *)
theory Pipeline_Layout
  imports Pipeline_Validate
begin

text \<open>
  The loops of \<open>Resolve\<close> and \<open>Validate\<close> walk over the same steps, one collecting nodes with identifiers,
  the other dependency references with names. \<open>layout\<close> is what both compute: the executable steps in
  order, each with the positions of the steps it implicitly waits for.
\<close>

fun layout :: "nat \<Rightarrow> nat list \<Rightarrow> StepDef list \<Rightarrow> (StepDef \<times> nat list) list" where
  "layout n fr [] = []"
| "layout n fr (sd # sds) =
     (case sd_Group sd of
        None \<Rightarrow> (sd, fr) # layout (Suc n) [n] sds
      | Some (_, steps) \<Rightarrow> map (\<lambda>s. (s, fr)) steps @ layout (n + length steps) [n..<n + length steps] sds)"

definition step_name :: "StepDef \<Rightarrow> string" where
  "step_name sd = sf_Name (sd_Fields sd)"

definition step_key :: "StepDef \<Rightarrow> string" where
  "step_key sd = ToLower (TrimSpace (step_name sd))"

definition entry_name :: "StepDef \<times> nat list \<Rightarrow> string" where "entry_name e = step_name (fst e)"
definition entry_key :: "StepDef \<times> nat list \<Rightarrow> string" where "entry_key e = step_key (fst e)"

lemma entry_pair [simp]:
  "entry_name (s, fr) = step_name s" "entry_key (s, fr) = step_key s"
  "entry_name \<circ> (\<lambda>s. (s, fr)) = step_name" "entry_key \<circ> (\<lambda>s. (s, fr)) = step_key"
  by (auto simp: entry_name_def entry_key_def)

text \<open>Implicit dependencies point to earlier positions.\<close>

lemma layout_backward:
  "\<forall>k \<in> set fr. k < n \<Longrightarrow> i < length (layout n fr sds) \<Longrightarrow> k \<in> set (snd (layout n fr sds ! i)) \<Longrightarrow> k < n + i"
proof (induction n fr sds arbitrary: i rule: layout.induct)
  case (2 n fr sd sds)
  show ?case
  proof (cases "sd_Group sd")
    case None
    with 2(1) [OF None, of "i - 1"] 2(3-5) show ?thesis by (cases i) fastforce+
  next
    case (Some p)
    then obtain g steps where p: "sd_Group sd = Some (g, steps)" by (cases p) auto
    let ?m = "length steps"
    show ?thesis
    proof (cases "i < ?m")
      case True
      with 2(3-5) show ?thesis by (auto simp: p nth_append dest: bspec)
    next
      case False
      with 2(2) [OF p refl, of "i - ?m"] 2(4,5) show ?thesis by (simp add: p nth_append)
    qed
  qed
qed simp

section \<open>Resolution follows the layout\<close>

definition layout_node ::
  "(string, string) gomap \<Rightarrow> StepCacheConfig option \<Rightarrow> nat \<Rightarrow> string \<Rightarrow> StepDef \<times> nat list \<Rightarrow> ExecutionNode \<Rightarrow> bool" where
  "layout_node env cache i gname entry node \<longleftrightarrow>
     (let deps = map buildNodeID (snd entry)
      in node = \<lparr>en_NodeID = buildNodeID i, en_GroupName = gname, en_DependsOnNodeIDs = deps,
                 en_Step = (resolveStepDef (fst entry) env cache)
                   \<lparr>rs_NodeID := buildNodeID i, rs_GroupName := gname, rs_DependsOnNodeIDs := deps\<rparr>\<rparr>)"

text \<open>The nodes built so far are the first entries of a layout, and each has its explicit dependencies recorded.\<close>

definition resolved_upto ::
  "(string, string) gomap \<Rightarrow> StepCacheConfig option \<Rightarrow> (StepDef \<times> nat list) list \<Rightarrow> resolve_state \<Rightarrow> bool" where
  "resolved_upto env cache entries st \<longleftrightarrow>
     st_next st = length entries \<and> length (st_nodes st) = length entries \<and>
     (\<forall>i < length entries. (\<exists>gname. layout_node env cache i gname (entries ! i) (st_nodes st ! i)) \<and>
        map_of (st_explicit st) (buildNodeID i) = Some (sf_DependsOn (sd_Fields (fst (entries ! i)))))"

lemma buildNodeID_inject [simp]: "buildNodeID i = buildNodeID j \<longleftrightarrow> i = j"
  by (auto simp: buildNodeID_def dest: Format03d_inject)

lemma add_node_resolved:
  assumes "resolved_upto env cache entries st"
  shows "resolved_upto env cache (entries @ [(sd, fr)]) (add_node env cache gname (map buildNodeID fr) sd st)"
  using assms
  by (auto simp: resolved_upto_def add_node_def Let_def layout_node_def nth_append less_Suc_eq)

lemma add_node_frontier [simp]: "st_frontier (add_node env cache gname deps sd st) = st_frontier st"
  by (simp add: add_node_def Let_def)

lemma add_nodes_resolved:
  assumes "resolved_upto env cache entries st"
  shows "resolved_upto env cache (entries @ map (\<lambda>s. (s, fr)) steps)
           (fold (add_node env cache gname (map buildNodeID fr)) steps st)"
  using assms
proof (induction steps arbitrary: entries st)
  case (Cons s steps)
  from Cons.IH [OF add_node_resolved [OF Cons.prems, of s fr gname]] show ?case by simp
qed simp

lemma resolved_upto_frontier [simp]: "resolved_upto env cache entries (st\<lparr>st_frontier := f\<rparr>) = resolved_upto env cache entries st"
  by (simp add: resolved_upto_def)

lemma resolve_steps_layout:
  assumes "resolved_upto env cache entries st" "st_frontier st = map buildNodeID fr"
  shows "resolved_upto env cache (entries @ layout (length entries) fr sds) (fold (resolve_step env cache) sds st)"
  using assms
proof (induction sds arbitrary: entries st fr)
  case (Cons sd sds)
  have n: "st_next st = length entries" using Cons.prems by (simp add: resolved_upto_def)
  show ?case
  proof (cases "sd_Group sd")
    case None
    have "resolved_upto env cache (entries @ [(sd, fr)]) (resolve_step env cache sd st)"
      using add_node_resolved [OF Cons.prems(1), of sd fr "[]"] Cons.prems(2) by (simp add: resolve_step_def None)
    moreover have "st_frontier (resolve_step env cache sd st) = map buildNodeID [length entries]"
      by (simp add: resolve_step_def None n)
    ultimately have "resolved_upto env cache ((entries @ [(sd, fr)]) @ layout (length (entries @ [(sd, fr)])) [length entries] sds)
        (fold (resolve_step env cache) sds (resolve_step env cache sd st))" by (rule Cons.IH)
    then show ?thesis by (simp add: None)
  next
    case (Some p)
    then obtain g steps where p: "sd_Group sd = Some (g, steps)" by (cases p) auto
    let ?es = "entries @ map (\<lambda>s. (s, fr)) steps"
    have "resolved_upto env cache ?es (resolve_step env cache sd st)"
      using add_nodes_resolved [OF Cons.prems(1), of fr steps "TrimSpace g"] Cons.prems(2) by (simp add: resolve_step_def p)
    moreover have "st_frontier (resolve_step env cache sd st) = map buildNodeID [length entries..<length entries + length steps]"
      by (simp add: resolve_step_def p n)
    ultimately have "resolved_upto env cache (?es @ layout (length ?es) [length entries..<length entries + length steps] sds)
        (fold (resolve_step env cache) sds (resolve_step env cache sd st))" by (rule Cons.IH)
    then show ?thesis by (simp add: p)
  qed
qed simp

section \<open>Validation follows the layout\<close>

definition ref_of :: "string list \<Rightarrow> StepDef \<times> nat list \<Rightarrow> stepDependencyRef \<Rightarrow> bool" where
  "ref_of names entry ref \<longleftrightarrow>
     dr_name ref = step_name (fst entry) \<and> dr_dependsOn ref = sf_DependsOn (sd_Fields (fst entry)) \<and>
     dr_implicitDependencies ref = map (nth names) (snd entry)"

text \<open>
  What the loop of \<open>Validate\<close> has established after some entries without a problem: the references are
  those of the layout, and the step names are not blank and pairwise different up to case.
\<close>

definition validated_upto :: "(StepDef \<times> nat list) list \<Rightarrow> validate_state \<Rightarrow> bool" where
  "validated_upto entries st \<longleftrightarrow>
     list_all2 (ref_of (map entry_name entries)) entries (vs_refs st) \<and>
     vs_seen st = rev (map entry_key entries) \<and>
     distinct (map entry_key entries) \<and>
     (\<forall>e \<in> set entries. TrimSpace (entry_name e) \<noteq> []) \<and>
     (\<forall>i < length entries. \<forall>k \<in> set (snd (entries ! i)). k < i)"

lemma ref_of_extend:
  "list_all2 (ref_of names) entries refs \<Longrightarrow> \<forall>e \<in> set entries. \<forall>k \<in> set (snd e). k < length names \<Longrightarrow>
   list_all2 (ref_of (names @ extra)) entries refs"
  by (induction rule: list_all2_induct) (auto simp: ref_of_def nth_append)

lemma check_step_errs: "vs_errs (check_step prefix implicit step st) = vs_errs st @ fst (validateStepDef step prefix (vs_seen st))"
  by (simp add: check_step_def Let_def split: prod.splits)

lemma check_step_frontier [simp]: "vs_frontier (check_step prefix implicit step st) = vs_frontier st"
  by (simp add: check_step_def Let_def split: prod.splits)

lemma validateStepDef_name:
  assumes "fst (validateStepDef step prefix seen) = []"
  shows "TrimSpace (step_name step) \<noteq> []" "step_key step \<notin> set seen" "snd (validateStepDef step prefix seen) = step_key step # seen"
  using assms by (auto simp: validateStepDef_def Let_def step_key_def step_name_def split: if_splits)

lemma check_step_validated:
  assumes v: "validated_upto entries st" and e: "vs_errs (check_step prefix implicit step st) = []"
    and i: "implicit = map (nth (map entry_name entries)) fr" and fr: "\<forall>k \<in> set fr. k < length entries"
  shows "validated_upto (entries @ [(step, fr)]) (check_step prefix implicit step st)"
proof -
  let ?names = "map entry_name entries"
  have "fst (validateStepDef step prefix (vs_seen st)) = []" using e by (simp add: check_step_errs)
  note name = validateStepDef_name [OF this]
  have "\<forall>e \<in> set entries. \<forall>k \<in> set (snd e). k < length ?names"
  proof (intro ballI)
    fix e k assume "e \<in> set entries" "k \<in> set (snd e)"
    then obtain j where "j < length entries" "k \<in> set (snd (entries ! j))" by (auto simp: in_set_conv_nth)
    then have "k < j" using v by (simp add: validated_upto_def)
    with \<open>j < length entries\<close> show "k < length ?names" by simp
  qed
  then have old: "list_all2 (ref_of (?names @ [step_name step])) entries (vs_refs st)"
    using v by (intro ref_of_extend) (auto simp: validated_upto_def)
  have new: "ref_of (?names @ [step_name step]) (step, fr)
      \<lparr>dr_name = step_name step, dr_dependsOn = sf_DependsOn (sd_Fields step), dr_implicitDependencies = implicit,
       dr_field = prefix @ ''.depends_on''\<rparr>"
    using fr by (auto simp: ref_of_def i nth_append)
  have st: "vs_refs (check_step prefix implicit step st) = vs_refs st @
      [\<lparr>dr_name = step_name step, dr_dependsOn = sf_DependsOn (sd_Fields step), dr_implicitDependencies = implicit,
        dr_field = prefix @ ''.depends_on''\<rparr>]"
    "vs_seen (check_step prefix implicit step st) = step_key step # vs_seen st"
    using name(3) by (auto simp: check_step_def Let_def step_name_def split: prod.splits)
  show ?thesis
    unfolding validated_upto_def st
    using v old new name(1,2) fr
    by (auto simp: validated_upto_def list_all2_appendI nth_append less_Suc_eq)
qed

lemma check_group_errs: "\<exists>es. vs_errs (fst (check_group prefix implicit j steps gf st)) = vs_errs st @ es"
proof (induction steps arbitrary: j gf st)
  case (Cons s steps)
  show ?case
  proof (cases "sd_Group s = None")
    case True
    obtain es where "vs_errs (fst (check_group prefix implicit (Suc j) steps (gf @ [sf_Name (sd_Fields s)])
        (check_step (at_index (prefix @ ''.group.steps'') j) implicit s st))) =
        vs_errs (check_step (at_index (prefix @ ''.group.steps'') j) implicit s st) @ es" using Cons.IH by blast
    with True show ?thesis by (simp add: check_step_errs Let_def)
  next
    case False
    then show ?thesis
      using Cons.IH [of "Suc j" gf "st\<lparr>vs_errs := vs_errs st @ [verr (at_index (prefix @ ''.group.steps'') j @ ''.group'') ''nested groups are not allowed'']\<rparr>"]
      by (auto simp: Let_def)
  qed
qed simp

lemma check_group_validated:
  assumes "validated_upto entries st" "check_group prefix implicit j steps gf st = (st', gf')" "vs_errs st' = []"
    "implicit = map (nth (map entry_name entries)) fr" "\<forall>k \<in> set fr. k < length entries"
  shows "validated_upto (entries @ map (\<lambda>s. (s, fr)) steps) st' \<and> gf' = gf @ map step_name steps"
  using assms
proof (induction steps arbitrary: entries j gf st)
  case (Cons s steps)
  let ?field = "at_index (prefix @ ''.group.steps'') j"
  have "sd_Group s = None"
  proof (rule ccontr)
    assume "sd_Group s \<noteq> None"
    with Cons.prems(2) have "check_group prefix implicit (Suc j) steps gf
        (st\<lparr>vs_errs := vs_errs st @ [verr (?field @ ''.group'') ''nested groups are not allowed'']\<rparr>) = (st', gf')"
      by (simp add: Let_def)
    then obtain es where "vs_errs st' = (vs_errs st @ [verr (?field @ ''.group'') ''nested groups are not allowed'']) @ es"
      using check_group_errs [of prefix implicit "Suc j" steps gf
        "st\<lparr>vs_errs := vs_errs st @ [verr (?field @ ''.group'') ''nested groups are not allowed'']\<rparr>"] by auto
    with Cons.prems(3) show False by simp
  qed
  then have rec: "check_group prefix implicit (Suc j) steps (gf @ [step_name s]) (check_step ?field implicit s st) = (st', gf')"
    using Cons.prems(2) by (simp add: Let_def step_name_def)
  then have "vs_errs (check_step ?field implicit s st) = []"
    using check_group_errs [of prefix implicit "Suc j" steps "gf @ [step_name s]" "check_step ?field implicit s st"] Cons.prems(3) by auto
  then have v: "validated_upto (entries @ [(s, fr)]) (check_step ?field implicit s st)"
    using Cons.prems by (intro check_step_validated) auto
  have "implicit = map (nth (map entry_name (entries @ [(s, fr)]))) fr"
    using Cons.prems(4,5) by (auto simp: nth_append)
  moreover have "\<forall>k \<in> set fr. k < length (entries @ [(s, fr)])" using Cons.prems(5) by auto
  ultimately show ?case using Cons.IH [OF v rec Cons.prems(3)] by simp
qed simp

lemma check_top_errs: "\<exists>es. vs_errs (check_top i step st) = vs_errs st @ es"
proof (cases "sd_Group step")
  case None
  then show ?thesis by (simp add: check_top_def check_step_errs)
next
  case (Some p)
  then obtain g steps where p: "sd_Group step = Some (g, steps)" by (cases p) auto
  let ?st1 = "st\<lparr>vs_errs := vs_errs st @ validateGroupWrapperStep step (at_index ''steps'' i) @
      (if TrimSpace g = [] then [verr (at_index ''steps'' i @ ''.group.name'') ''group name is required''] else [])\<rparr>"
  obtain st2 gf where c: "check_group (at_index ''steps'' i) (vs_frontier st) 0 steps [] ?st1 = (st2, gf)" by fastforce
  then obtain es where "vs_errs st2 = vs_errs ?st1 @ es"
    using check_group_errs [of "at_index ''steps'' i" "vs_frontier st" 0 steps "[]" ?st1] by auto
  with c show ?thesis by (simp add: check_top_def p Let_def)
qed

lemma check_steps_errs: "\<exists>es. vs_errs (check_steps i steps st) = vs_errs st @ es"
proof (induction steps arbitrary: i st)
  case (Cons s steps)
  then show ?case using check_top_errs by (metis append_assoc check_steps.simps(2))
qed simp

text \<open>A validated group contributes its steps, a validated single step itself.\<close>

lemma check_top_validated:
  assumes v: "validated_upto entries st" and e: "vs_errs (check_top i sd st) = []"
    and f: "vs_frontier st = map (nth (map entry_name entries)) fr" "\<forall>k \<in> set fr. k < length entries"
  shows "case sd_Group sd of
      None \<Rightarrow> validated_upto (entries @ [(sd, fr)]) (check_top i sd st) \<and> vs_frontier (check_top i sd st) = [step_name sd]
    | Some (_, steps) \<Rightarrow> validated_upto (entries @ map (\<lambda>s. (s, fr)) steps) (check_top i sd st) \<and>
        vs_frontier (check_top i sd st) = map step_name steps"
proof (cases "sd_Group sd")
  case None
  have "validated_upto (entries @ [(sd, fr)]) (check_step (at_index ''steps'' i) (vs_frontier st) sd st)"
    using v e f by (intro check_step_validated) (auto simp: check_top_def None)
  then show ?thesis by (simp add: None check_top_def validated_upto_def step_name_def)
next
  case (Some p)
  then obtain g steps where p: "sd_Group sd = Some (g, steps)" by (cases p) auto
  let ?st1 = "st\<lparr>vs_errs := vs_errs st @ validateGroupWrapperStep sd (at_index ''steps'' i) @
      (if TrimSpace g = [] then [verr (at_index ''steps'' i @ ''.group.name'') ''group name is required''] else [])\<rparr>"
  obtain st2 gf where c: "check_group (at_index ''steps'' i) (vs_frontier st) 0 steps [] ?st1 = (st2, gf)" by fastforce
  have ne: "length steps \<noteq> 0" using e by (auto simp: check_top_def p Let_def split: if_splits)
  then have top: "check_top i sd st = st2\<lparr>vs_frontier := gf\<rparr>" using c by (simp add: check_top_def p Let_def)
  have v1: "validated_upto entries ?st1" using v by (simp add: validated_upto_def)
  have "validated_upto (entries @ map (\<lambda>s. (s, fr)) steps) st2 \<and> gf = [] @ map step_name steps"
    using e top by (intro check_group_validated [OF v1 c _ f]) simp
  then show ?thesis by (simp add: p top validated_upto_def)
qed

lemma check_steps_layout:
  assumes "validated_upto entries st" "vs_errs (check_steps i sds st) = []"
    "vs_frontier st = map (nth (map entry_name entries)) fr" "\<forall>k \<in> set fr. k < length entries"
  shows "validated_upto (entries @ layout (length entries) fr sds) (check_steps i sds st)"
  using assms
proof (induction sds arbitrary: entries st fr i)
  case (Cons sd sds)
  obtain es where "vs_errs (check_steps (Suc i) sds (check_top i sd st)) = vs_errs (check_top i sd st) @ es"
    using check_steps_errs by blast
  with Cons.prems(2) have e: "vs_errs (check_top i sd st) = []" by simp
  note top = check_top_validated [OF Cons.prems(1) e Cons.prems(3,4)]
  show ?case
  proof (cases "sd_Group sd")
    case None
    let ?es = "entries @ [(sd, fr)]"
    have "validated_upto (?es @ layout (length ?es) [length entries] sds) (check_steps (Suc i) sds (check_top i sd st))"
      using top Cons.prems(2) by (intro Cons.IH) (auto simp: None nth_append)
    then show ?thesis by (simp add: None)
  next
    case (Some p)
    then obtain g steps where p: "sd_Group sd = Some (g, steps)" by (cases p) auto
    let ?es = "entries @ map (\<lambda>s. (s, fr)) steps"
    have "vs_frontier (check_top i sd st) = map (nth (map entry_name ?es)) [length entries..<length entries + length steps]"
      using top by (auto simp: p nth_append intro!: nth_equalityI)
    then have "validated_upto (?es @ layout (length ?es) [length entries..<length entries + length steps] sds)
        (check_steps (Suc i) sds (check_top i sd st))"
      using top Cons.prems(2) by (intro Cons.IH) (simp_all add: p)
    then show ?thesis by (simp add: p)
  qed
qed simp

section \<open>The graph that validation checks\<close>

definition dep_key :: "string \<Rightarrow> string" where
  "dep_key d = ToLower (TrimSpace d)"

lemma step_key_dep: "step_key sd = dep_key (step_name sd)"
  by (simp add: step_key_def dep_key_def)

definition ref_deps :: "stepDependencyRef \<Rightarrow> string list" where
  "ref_deps ref = (case dr_dependsOn ref of Some ds \<Rightarrow> ds | None \<Rightarrow> dr_implicitDependencies ref)"

lemma check_dependencies_graph:
  assumes "check_dependencies names field name i ds seen g = ([], g')"
  shows "(\<forall>n. succs g' n = (if n = ToLower name then succs g n @ map dep_key ds else succs g n)) \<and>
    (\<forall>d \<in> set ds. gm_get_or [] names (dep_key d) \<noteq> [])"
  using assms
proof (induction ds arbitrary: i seen g)
  case (Cons d' ds)
  have step: "check_dependencies names field name (Suc i) ds (dep_key d' # seen)
      (gm_put (ToLower name) (gm_get_or [] g (ToLower name) @ [dep_key d']) g) = ([], g')"
    "gm_get_or [] names (dep_key d') \<noteq> []"
    using Cons.prems by (auto simp: Let_def dep_key_def split: if_splits prod.splits)
  from Cons.IH [OF step(1)] step(2) show ?case by (simp add: succs_def)
qed simp

lemma check_refs_graph:
  assumes "check_refs names refs g = ([], g')" "\<forall>r \<in> set refs. TrimSpace (dr_name r) \<noteq> []"
    "distinct (map (dep_key \<circ> dr_name) refs)" "\<forall>r \<in> set refs. succs g (dep_key (dr_name r)) = []"
  shows "(\<forall>r \<in> set refs. succs g' (dep_key (dr_name r)) = map dep_key (ref_deps r) \<and>
            (\<forall>d \<in> set (ref_deps r). gm_get_or [] names (dep_key d) \<noteq> [])) \<and>
         (\<forall>n. n \<notin> set (map (dep_key \<circ> dr_name) refs) \<longrightarrow> succs g' n = succs g n)"
  using assms
proof (induction refs arbitrary: g)
  case (Cons r refs)
  let ?name = "TrimSpace (dr_name r)"
  obtain errs g1 where g1: "check_dependencies names (dr_field r) ?name 0 (ref_deps r) [] g = (errs, g1)" by fastforce
  obtain errs2 g2 where g2: "check_refs names refs g1 = (errs2, g2)" by fastforce
  from Cons.prems(1,2) g1 g2 have e: "errs = []" "errs2 = []" "g2 = g'"
    by (auto simp: ref_deps_def Let_def split: option.splits)
  have r: "succs g1 n = (if n = ToLower ?name then succs g n @ map dep_key (ref_deps r) else succs g n)"
    "\<forall>d \<in> set (ref_deps r). gm_get_or [] names (dep_key d) \<noteq> []" for n
    using check_dependencies_graph [OF g1 [unfolded e(1)]] by auto
  have key: "ToLower ?name = dep_key (dr_name r)" by (simp add: dep_key_def)
  have "\<forall>r' \<in> set refs. succs g1 (dep_key (dr_name r')) = []"
    using Cons.prems(3,4) by (auto simp: r(1) key image_iff)
  from Cons.IH [OF g2 [unfolded e] _ _ this] Cons.prems(2,3)
  have IH: "\<forall>r \<in> set refs. succs g' (dep_key (dr_name r)) = map dep_key (ref_deps r) \<and>
            (\<forall>d \<in> set (ref_deps r). gm_get_or [] names (dep_key d) \<noteq> [])"
    "\<forall>n. n \<notin> set (map (dep_key \<circ> dr_name) refs) \<longrightarrow> succs g' n = succs g1 n" by auto
  have "succs g' (dep_key (dr_name r)) = map dep_key (ref_deps r)"
    using IH(2) Cons.prems(3,4) by (simp add: r(1) key)
  with IH r show ?case by (auto simp: key)
qed simp

lemma known_names_ref:
  "gm_get_or [] (known_names refs) k \<noteq> [] \<Longrightarrow> k \<in> set (map (dep_key \<circ> dr_name) refs)"
proof -
  have "gm_get_or [] (fold (\<lambda>ref m. let name = TrimSpace (dr_name ref) in if name \<noteq> [] then gm_put (ToLower name) name m else m) refs m) k \<noteq> [] \<Longrightarrow>
      k \<in> set (map (dep_key \<circ> dr_name) refs) \<or> gm_get_or [] m k \<noteq> []" for m
  proof (induction refs arbitrary: m)
    case (Cons r refs)
    from Cons.IH [of "let name = TrimSpace (dr_name r) in if name \<noteq> [] then gm_put (ToLower name) name m else m"] Cons.prems
    show ?case by (auto simp: dep_key_def Let_def split: if_splits)
  qed simp
  from this [of "[]"] show "gm_get_or [] (known_names refs) k \<noteq> [] \<Longrightarrow> k \<in> set (map (dep_key \<circ> dr_name) refs)"
    by (simp add: known_names_def)
qed

text \<open>The names a step depends on, explicit or implicit.\<close>

definition dep_names :: "(StepDef \<times> nat list) list \<Rightarrow> nat \<Rightarrow> string list" where
  "dep_names entries i =
     (case sf_DependsOn (sd_Fields (fst (entries ! i))) of
        Some ds \<Rightarrow> ds | None \<Rightarrow> map (nth (map entry_name entries)) (snd (entries ! i)))"

abbreviation pipeline_layout :: "PipelineFile \<Rightarrow> (StepDef \<times> nat list) list" where
  "pipeline_layout pf \<equiv> layout 0 [] (pf_Steps pf)"

lemma validate_layout:
  assumes "Validate pf = []"
  obtains st where "validated_upto (pipeline_layout pf) st" "validateStepDependencies (vs_refs st) = []"
    "validate_header pf = []" "pf_Steps pf \<noteq> []"
proof -
  let ?init = "\<lparr>vs_errs = validate_header pf, vs_refs = [], vs_seen = [], vs_frontier = [], vs_count = 0\<rparr>"
  let ?st = "check_steps 0 (pf_Steps pf) ?init"
  from assms have ne: "pf_Steps pf \<noteq> []" by (auto simp: Validate_def)
  with assms have e: "vs_errs ?st = []" "validateStepDependencies (vs_refs ?st) = []" by (auto simp: Validate_def Let_def)
  obtain es where "vs_errs ?st = validate_header pf @ es"
    using check_steps_errs [of 0 "pf_Steps pf" ?init] unfolding validate_state.select_convs by blast
  then have h: "validate_header pf = []" using e(1) by (metis append_is_Nil_conv)
  have "validated_upto ([] @ layout (length ([] :: (StepDef \<times> nat list) list)) [] (pf_Steps pf)) ?st"
    by (rule check_steps_layout) (simp_all add: e validated_upto_def)
  with e(2) h ne show ?thesis by (intro that) auto
qed

lemma validated_graph:
  assumes "Validate pf = []"
  obtains g where "acyclic (edges g)" "distinct (map entry_key (pipeline_layout pf))"
    "\<And>i. i < length (pipeline_layout pf) \<Longrightarrow>
       succs g (entry_key (pipeline_layout pf ! i)) = map dep_key (dep_names (pipeline_layout pf) i) \<and>
       dep_key ` set (dep_names (pipeline_layout pf) i) \<subseteq> set (map entry_key (pipeline_layout pf))"
proof -
  let ?es = "pipeline_layout pf"
  obtain st where st: "validated_upto ?es st" "validateStepDependencies (vs_refs st) = []"
    by (rule validate_layout [OF assms])
  obtain errs g where c: "check_refs (known_names (vs_refs st)) (vs_refs st) [] = (errs, g)" by fastforce
  from st(2) c have e: "errs = []" "\<not> hasDependencyCycle g" by (auto simp: validateStepDependencies_def split: if_splits)
  have l2: "list_all2 (ref_of (map entry_name ?es)) ?es (vs_refs st)" using st(1) by (simp add: validated_upto_def)
  then have len: "length (vs_refs st) = length ?es" by (simp add: list_all2_lengthD)
  have ref: "ref_of (map entry_name ?es) (?es ! i) (vs_refs st ! i)" if "i < length ?es" for i
    using l2 that by (simp add: list_all2_nthD)
  have name: "dr_name (vs_refs st ! i) = entry_name (?es ! i)" if "i < length ?es" for i
    using ref [OF that] by (simp add: ref_of_def entry_name_def)
  have names: "map (dep_key \<circ> dr_name) (vs_refs st) = map entry_key ?es"
    by (rule nth_equalityI) (auto simp: len name entry_key_def entry_name_def step_key_dep)
  have d: "distinct (map entry_key ?es)" using st(1) by (simp add: validated_upto_def)
  have nb: "\<forall>r \<in> set (vs_refs st). TrimSpace (dr_name r) \<noteq> []"
    proof
    fix r assume "r \<in> set (vs_refs st)"
    then obtain i where i: "i < length ?es" "r = vs_refs st ! i" by (auto simp: in_set_conv_nth len)
    then show "TrimSpace (dr_name r) \<noteq> []" using st(1) by (simp add: validated_upto_def name)
  qed
  have g: "\<forall>r \<in> set (vs_refs st). succs g (dep_key (dr_name r)) = map dep_key (ref_deps r) \<and>
      (\<forall>d \<in> set (ref_deps r). gm_get_or [] (known_names (vs_refs st)) (dep_key d) \<noteq> [])"
    using check_refs_graph [OF c [unfolded e(1)] nb] names d by (simp add: succs_def)
  show ?thesis
  proof (rule that [of g])
    show "acyclic (edges g)" using e(2) by (simp add: hasDependencyCycle_iff)
    show "distinct (map entry_key ?es)" by (rule d)
    fix i assume i: "i < length ?es"
    have deps: "ref_deps (vs_refs st ! i) = dep_names ?es i"
      using ref [OF i] by (simp add: ref_of_def ref_deps_def dep_names_def split: option.splits)
    have r: "vs_refs st ! i \<in> set (vs_refs st)" using i len by simp
    have key: "dep_key (dr_name (vs_refs st ! i)) = entry_key (?es ! i)"
      by (simp add: name [OF i] entry_key_def entry_name_def step_key_dep)
    have "dep_key d \<in> set (map entry_key ?es)" if "d \<in> set (dep_names ?es i)" for d
      using g r that known_names_ref [of "vs_refs st" "dep_key d"] unfolding names deps [symmetric] by blast
    then show "succs g (entry_key (?es ! i)) = map dep_key (dep_names ?es i) \<and>
       dep_key ` set (dep_names ?es i) \<subseteq> set (map entry_key ?es)"
      using g r by (auto simp: deps simp flip: key)
  qed
qed

end
