(* ===== verification/Build_Creation.thy ===== *)
theory Build_Creation
  imports Planner Pipeline_Layout
begin

text \<open>
  How steps of a new build come about (\<open>service/build/creation.go\<close>): from a resolved pipeline, from a
  named template or from custom commands; and how retries and reruns clone the builds, steps and jobs
  they repeat (\<open>service/build/retry_rerun.go\<close>). Fresh identifiers (\<open>uuid.NewString\<close>) are arguments.
\<close>

section \<open>Steps from a resolved pipeline\<close>

definition buildOptionalStringPtr :: "string \<Rightarrow> string option" where
  "buildOptionalStringPtr v = (let trimmed = TrimSpace v in if trimmed = [] then None else Some trimmed)"

definition ImageSourceKindExternal :: string where
  "ImageSourceKindExternal = ''external''"

text \<open>A \<open>domain.BuildStep\<close> literal that sets only its identity, build, index and the status pending.\<close>

definition zero_step :: "string \<Rightarrow> string \<Rightarrow> int \<Rightarrow> BuildStep" where
  "zero_step i buildID k = \<lparr>s_ID = i, s_BuildID = buildID, s_StepIndex = k, s_NodeID = [],
     s_GroupName = None, s_DependsOnNodes = [], s_Name = [], s_ExecutionKind = [],
     s_RemoteImageBuild = None, s_Image = [], s_Command = [], s_Args = [], s_Env = [],
     s_WorkingDir = [], s_TimeoutSeconds = 0, s_ArtifactPaths = [], s_Cache = None, s_Status = BuildStepStatusPending,
     s_WorkerID = None, s_ClaimToken = None, s_ClaimedAt = None, s_LeaseExpiresAt = None,
     s_StartedAt = None, s_FinishedAt = None, s_ExitCode = None, s_Stdout = None, s_Stderr = None,
     s_ErrorMessage = None, s_RequestedImageRef = None, s_ResolvedImageRef = None,
     s_ImageSourceKind = [], s_ManagedImageID = None, s_ManagedImageVersionID = None\<rparr>"

definition pipeline_step_to_domain :: "string \<Rightarrow> string \<Rightarrow> nat \<Rightarrow> ResolvedStep \<Rightarrow> BuildStep" where
  "pipeline_step_to_domain i buildID idx rs =
     (let workingDir = (if rs_WorkingDir rs = [] then ''.'' else rs_WorkingDir rs);
          artifactPaths = rs_ArtifactPaths rs @ filter (\<lambda>p. p \<noteq> []) (map (TrimSpace \<circ> ad_Path) (rs_ArtifactDecls rs))
      in (zero_step i buildID (int idx))
           \<lparr>s_NodeID := rs_NodeID rs, s_GroupName := trimOptional (Some (rs_GroupName rs)),
            s_DependsOnNodes := rs_DependsOnNodeIDs rs, s_Name := rs_Name rs, s_ExecutionKind := rs_ExecutionKind rs,
            s_RemoteImageBuild := cloneRemoteImageBuildSpec (rs_RemoteImageBuild rs), s_Image := rs_Image rs,
            s_Command := ''sh'', s_Args := [''-c'', rs_Run rs], s_Env := rs_Env rs, s_WorkingDir := workingDir,
            s_TimeoutSeconds := rs_TimeoutSeconds rs, s_ArtifactPaths := artifactPaths,
            s_Cache := StepCacheConfig_Clone (rs_Cache rs), s_Status := BuildStepStatusPending,
            s_RequestedImageRef := buildOptionalStringPtr (TrimSpace (rs_Image rs)),
            s_ImageSourceKind := ImageSourceKindExternal\<rparr>)"

definition pipelineStepsToDomain :: "(nat \<Rightarrow> string) \<Rightarrow> string \<Rightarrow> ResolvedStep list \<Rightarrow> BuildStep list" where
  "pipelineStepsToDomain uuid buildID steps =
     map (\<lambda>(idx, rs). pipeline_step_to_domain (uuid idx) buildID idx rs) (enumerate 0 steps)"

section \<open>Steps from templates\<close>

record CreateBuildStepInput =
  ci_Name :: string
  ci_Command :: string
  ci_Args :: "string list"
  ci_Env :: "(string, string) gomap"
  ci_WorkingDir :: string
  ci_TimeoutSeconds :: int

record QueueBuildCustomStepInput =
  qi_Name :: string
  qi_Command :: string

definition default_args :: "string list" where
  "default_args = [''-c'', ''echo coyote-ci worker default step && exit 0'']"

definition normalizeCreateStepInput :: "CreateBuildStepInput \<Rightarrow> CreateBuildStepInput" where
  "normalizeCreateStepInput in0 =
     (let out1 = (if TrimSpace (ci_Command in0) = [] then in0\<lparr>ci_Command := ''sh''\<rparr> else in0);
          out2 = (if length (ci_Args out1) = 0 then out1\<lparr>ci_Args := default_args\<rparr> else out1);
          out3 = (if TrimSpace (ci_WorkingDir out2) = [] then out2\<lparr>ci_WorkingDir := ''.''\<rparr> else out2)
      in if ci_TimeoutSeconds out3 < 0 then out3\<lparr>ci_TimeoutSeconds := 0\<rparr> else out3)"

definition step_from_input :: "string \<Rightarrow> string \<Rightarrow> nat \<Rightarrow> CreateBuildStepInput \<Rightarrow> BuildStep" where
  "step_from_input i buildID idx input =
     (let normalized = normalizeCreateStepInput input
      in (zero_step i buildID (int idx))
           \<lparr>s_NodeID := FallbackNodeID (int idx), s_Name := ci_Name normalized, s_Command := ci_Command normalized,
            s_Args := ci_Args normalized, s_Env := ci_Env normalized, s_WorkingDir := ci_WorkingDir normalized,
            s_TimeoutSeconds := ci_TimeoutSeconds normalized, s_Status := BuildStepStatusPending\<rparr>)"

definition domainStepsFromInputs :: "(nat \<Rightarrow> string) \<Rightarrow> string \<Rightarrow> CreateBuildStepInput list \<Rightarrow> BuildStep list" where
  "domainStepsFromInputs uuid buildID stepInputs =
     map (\<lambda>(idx, input). step_from_input (uuid idx) buildID idx input) (enumerate 0 stepInputs)"

definition sh_input :: "string \<Rightarrow> string \<Rightarrow> CreateBuildStepInput" where
  "sh_input name script = \<lparr>ci_Name = name, ci_Command = ''sh'', ci_Args = [''-c'', script], ci_Env = [],
     ci_WorkingDir = ''.'', ci_TimeoutSeconds = 0\<rparr>"

definition template_inputs :: "string \<Rightarrow> CreateBuildStepInput list" where
  "template_inputs normalizedTemplate =
     (if normalizedTemplate = ''test'' then
        [sh_input ''setup'' ''echo running setup && exit 0'', sh_input ''test'' ''echo running tests && exit 0'',
         sh_input ''teardown'' ''echo running teardown && exit 0'']
      else if normalizedTemplate = ''build'' then
        [sh_input ''install'' ''echo installing dependencies && exit 0'',
         sh_input ''compile'' ''echo compiling project && exit 0'']
      else if normalizedTemplate = ''fail'' then
        [sh_input ''setup'' ''echo success && exit 0'', sh_input ''verify'' ''echo failure 1>&2 && exit 1'']
      else [sh_input ''default'' ''echo coyote-ci worker default step && exit 0''])"

definition buildStepsForTemplate :: "(nat \<Rightarrow> string) \<Rightarrow> string \<Rightarrow> string \<Rightarrow> BuildStep list" where
  "buildStepsForTemplate uuid buildID template =
     domainStepsFromInputs uuid buildID (template_inputs (ToLower (TrimSpace template)))"

definition defaultBuildSteps :: "string \<Rightarrow> string \<Rightarrow> BuildStep list" where
  "defaultBuildSteps i buildID =
     [(zero_step i buildID 0)\<lparr>s_NodeID := FallbackNodeID 0, s_Name := ''default'', s_Command := ''sh'',
        s_Args := default_args, s_WorkingDir := ''.'', s_Status := BuildStepStatusPending\<rparr>]"

fun custom_inputs :: "nat \<Rightarrow> QueueBuildCustomStepInput list \<Rightarrow> go_error + CreateBuildStepInput list" where
  "custom_inputs idx [] = Inr []"
| "custom_inputs idx (step # steps) =
     (let command = TrimSpace (qi_Command step); name0 = TrimSpace (qi_Name step);
          name = (if name0 = [] then ''step-'' @ FormatInt (int idx + 1) else name0)
      in if command = [] then Inl (Errorf ''custom template step command is required'')
         else (case custom_inputs (Suc idx) steps of
                 Inl err \<Rightarrow> Inl err | Inr rest \<Rightarrow> Inr (sh_input name command # rest)))"

definition buildStepsForCustomTemplate ::
  "(nat \<Rightarrow> string) \<Rightarrow> string \<Rightarrow> QueueBuildCustomStepInput list \<Rightarrow> go_error + BuildStep list" where
  "buildStepsForCustomTemplate uuid buildID customSteps =
     (if length customSteps = 0 then Inl (Errorf ''custom template requires at least one step'')
      else (case custom_inputs 0 customSteps of
              Inl err \<Rightarrow> Inl err | Inr inputs \<Rightarrow> Inr (domainStepsFromInputs uuid buildID inputs)))"

section \<open>Clones for retries and reruns\<close>

definition optionalStringValue :: "string option \<Rightarrow> string" where
  "optionalStringValue v = (case v of None \<Rightarrow> [] | Some x \<Rightarrow> TrimSpace x)"

definition cloneSourceSpec :: "SourceSpec option \<Rightarrow> SourceSpec option" where
  "cloneSourceSpec spec =
     (case spec of
        None \<Rightarrow> None
      | Some s \<Rightarrow> NewSourceSpec (ss_RepositoryURL s) (optionalStringValue (ss_Ref s)) (optionalStringValue (ss_CommitSHA s)))"

definition cloneBuildTrigger :: "BuildTrigger \<Rightarrow> BuildTrigger" where
  "cloneBuildTrigger source =
     (let normalized = NormalizeBuildTrigger source
      in \<lparr>t_Kind = t_Kind normalized, t_SCMProvider = t_SCMProvider normalized, t_EventType = t_EventType normalized,
          t_RepositoryOwner = t_RepositoryOwner normalized, t_RepositoryName = t_RepositoryName normalized,
          t_RepositoryURL = t_RepositoryURL normalized, t_RawRef = t_RawRef normalized, t_Ref = t_Ref normalized,
          t_RefType = t_RefType normalized, t_RefName = t_RefName normalized, t_Deleted = t_Deleted normalized,
          t_CommitSHA = t_CommitSHA normalized, t_DeliveryID = t_DeliveryID normalized, t_Actor = t_Actor normalized,
          t_ProducerProjectID = None, t_ProducerJobID = None, t_ProducerBuildID = None, t_ArtifactID = None,
          t_ArtifactPath = None, t_ArtifactName = None, t_ArtifactSizeBytes = None, t_ArtifactChecksumSHA256 = None,
          t_PullRequest = t_PullRequest normalized\<rparr>)"

definition buildAttemptFromSource :: "string \<Rightarrow> Build \<Rightarrow> time \<Rightarrow> int option \<Rightarrow> Build" where
  "buildAttemptFromSource buildID source now rerunFrom =
     (let attempt = wrap64 (maxInt (b_AttemptNumber source) 1 + 1)
      in NormalizeBuildMetadata
          \<lparr>b_ID = buildID, b_BuildNumber = 0, b_ProjectID = b_ProjectID source, b_JobID = b_JobID source,
           b_Priority = NormalizePriority (b_Priority source), b_Status = BuildStatusQueued, b_CreatedAt = now,
           b_QueuedAt = Some now, b_StartedAt = None, b_FinishedAt = None, b_CurrentStepIndex = 0,
           b_AttemptNumber = attempt, b_RerunOfBuildID = Some (b_ID source), b_RerunFromStepIdx = rerunFrom,
           b_ErrorMessage = None, b_ApplicationVersion = None,
           b_RegisteredRepositoryID = b_RegisteredRepositoryID source, b_SCMConnectionID = b_SCMConnectionID source,
           b_ProviderRepositoryID = b_ProviderRepositoryID source, b_PipelineConfigYAML = b_PipelineConfigYAML source,
           b_PipelineName = b_PipelineName source, b_PipelineSource = b_PipelineSource source,
           b_PipelinePath = b_PipelinePath source, b_Source = cloneSourceSpec (b_Source source),
           b_RepoURL = b_RepoURL source, b_Ref = b_Ref source, b_CommitSHA = b_CommitSHA source,
           b_SourceRef = b_SourceRef source, b_SourceSHA = b_SourceSHA source, b_SourceAuthorName = None,
           b_SourceAuthorEmail = None, b_SourceCommitterName = None, b_SourceCommitterEmail = None,
           b_TriggerType = BuildTriggerTypeRerun, b_TriggeredBy = None, b_Trigger = cloneBuildTrigger (b_Trigger source),
           b_RequestedImageRef = b_RequestedImageRef source, b_ResolvedImageRef = b_ResolvedImageRef source,
           b_ImageSourceKind = b_ImageSourceKind source, b_ManagedImageID = b_ManagedImageID source,
           b_ManagedImageVersionID = b_ManagedImageVersionID source\<rparr>)"

definition cloneStepForAttempt :: "string \<Rightarrow> string \<Rightarrow> BuildStep \<Rightarrow> int \<Rightarrow> BuildStep" where
  "cloneStepForAttempt i buildID sourceStep newStepIndex =
     (zero_step i buildID newStepIndex)
       \<lparr>s_NodeID := defaultValue (s_NodeID sourceStep) (FallbackNodeID newStepIndex),
        s_GroupName := s_GroupName sourceStep, s_DependsOnNodes := s_DependsOnNodes sourceStep,
        s_Name := s_Name sourceStep, s_ExecutionKind := s_ExecutionKind sourceStep,
        s_RemoteImageBuild := cloneRemoteImageBuildSpec (s_RemoteImageBuild sourceStep), s_Image := s_Image sourceStep,
        s_Command := s_Command sourceStep, s_Args := s_Args sourceStep, s_Env := cloneEnv (s_Env sourceStep),
        s_WorkingDir := defaultValue (s_WorkingDir sourceStep) ''.'',
        s_TimeoutSeconds := maxInt (s_TimeoutSeconds sourceStep) 0, s_ArtifactPaths := s_ArtifactPaths sourceStep,
        s_Cache := StepCacheConfig_Clone (s_Cache sourceStep), s_Status := BuildStepStatusPending,
        s_RequestedImageRef := s_RequestedImageRef sourceStep, s_ResolvedImageRef := s_ResolvedImageRef sourceStep,
        s_ImageSourceKind := s_ImageSourceKind sourceStep, s_ManagedImageID := s_ManagedImageID sourceStep,
        s_ManagedImageVersionID := s_ManagedImageVersionID sourceStep\<rparr>"

definition lineageRootFromPrior :: "ExecutionJob \<Rightarrow> string option" where
  "lineageRootFromPrior prior =
     (case j_LineageRootJobID prior of
        Some root \<Rightarrow> (if root \<noteq> [] then Some root else Some (j_ID prior)) | None \<Rightarrow> Some (j_ID prior))"

definition cloneJobAttempt ::
  "(string \<Rightarrow> string) \<Rightarrow> string \<Rightarrow> ExecutionJob \<Rightarrow> string \<Rightarrow> BuildStep \<Rightarrow> int \<Rightarrow> string option \<Rightarrow> string option \<Rightarrow> time \<Rightarrow> ExecutionJob" where
  "cloneJobAttempt sha256_hex jobID prior newBuildID newStep attemptNumber retryOfJobID lineageRootJobID now =
     \<lparr>j_ID = jobID, j_BuildID = newBuildID, j_StepID = s_ID newStep, j_NodeID = [], j_GroupName = None,
      j_DependsOnNodeIDs = [], j_Name = (if j_Name prior = [] then s_Name newStep else j_Name prior),
      j_StepIndex = s_StepIndex newStep, j_AttemptNumber = maxInt attemptNumber 1, j_RetryOfJobID = retryOfJobID,
      j_LineageRootJobID = lineageRootJobID, j_Status = ExecutionJobStatusQueued, j_QueueName = j_QueueName prior,
      j_Image = j_Image prior, j_WorkingDir = defaultValue (j_WorkingDir prior) ''.'', j_Command = j_Command prior,
      j_Environment = cloneEnv (j_Environment prior), j_TimeoutSeconds = j_TimeoutSeconds prior,
      j_PipelineFilePath = j_PipelineFilePath prior, j_ContextDir = j_ContextDir prior, j_Source = j_Source prior,
      j_SpecVersion = j_SpecVersion prior,
      j_SpecDigest = (if j_SpecDigest prior = None then BuildSpecDigest sha256_hex (j_ResolvedSpecJSON prior)
                      else j_SpecDigest prior),
      j_ResolvedSpecJSON = j_ResolvedSpecJSON prior, j_ClaimToken = None, j_ClaimedBy = None, j_ClaimExpiresAt = None,
      j_CreatedAt = now, j_StartedAt = None, j_FinishedAt = None, j_ErrorMessage = None, j_FailureKind = None,
      j_ExitCode = None, j_OutputRefs = [], j_Timing = None\<rparr>"

definition cloneRetryJobAttempt ::
  "(string \<Rightarrow> string) \<Rightarrow> string \<Rightarrow> ExecutionJob \<Rightarrow> string \<Rightarrow> BuildStep \<Rightarrow> time \<Rightarrow> ExecutionJob" where
  "cloneRetryJobAttempt sha256_hex jobID prior newBuildID newStep now =
     cloneJobAttempt sha256_hex jobID prior newBuildID newStep (wrap64 (maxInt (j_AttemptNumber prior) 1 + 1))
       (Some (j_ID prior)) (lineageRootFromPrior prior) now"

definition cloneJobAttemptFromPrior ::
  "(string \<Rightarrow> string) \<Rightarrow> string \<Rightarrow> ExecutionJob \<Rightarrow> string \<Rightarrow> BuildStep \<Rightarrow> time \<Rightarrow> ExecutionJob" where
  "cloneJobAttemptFromPrior sha256_hex jobID prior newBuildID newStep now =
     cloneJobAttempt sha256_hex jobID prior newBuildID newStep (wrap64 (maxInt (j_AttemptNumber prior) 1 + 1))
       (Some (j_ID prior)) (lineageRootFromPrior prior) now"

text \<open>\<open>ToJSON\<close> is called for its string only; an error leaves the empty string.\<close>

definition fallbackRerunJobFromStep ::
  "(ExecutionJobSpec \<Rightarrow> go_error + string) \<Rightarrow> (string \<Rightarrow> string) \<Rightarrow> string \<Rightarrow> Build \<Rightarrow> BuildStep \<Rightarrow> string \<Rightarrow> time \<Rightarrow> ExecutionJob" where
  "fallbackRerunJobFromStep ToJSON sha256_hex jobID build step image0 now =
     (let command = defaultValue (s_Command step) ''sh'' # s_Args step;
          source = \<lparr>sn_RepositoryURL = plannerSourceRepositoryURL (b_Source build) (b_RepoURL build),
                    sn_CommitSHA = plannerSourceCommitSHA (b_Source build) (b_CommitSHA build),
                    sn_RefName = plannerSourceRef (b_Source build), sn_ArchiveURI = None, sn_ArchiveDigest = None\<rparr>;
          spec = \<lparr>es_Version = 1, es_ExecutionKind = [], es_Image = TrimSpace image0,
                  es_WorkingDir = defaultValue (s_WorkingDir step) ''.'', es_Command = command,
                  es_Environment = cloneEnv (s_Env step), es_TimeoutSeconds = maxInt (s_TimeoutSeconds step) 0,
                  es_PipelineFilePath = optionalValue (b_PipelinePath build),
                  es_ContextDir = plannerContextDirFromPipelinePath (b_PipelinePath build), es_Source = source,
                  es_WorkspaceInput = \<lparr>wi_Mode = WorkspaceInputModeUnset, wi_ProducerNodeID = [],
                    wi_CommonAncestorNodeID = [], wi_IsolatedWritableDescendant = False\<rparr>,
                  es_RemoteImageBuild = None\<rparr>;
          specJSON = (case ToJSON spec of Inr json \<Rightarrow> json | Inl _ \<Rightarrow> [])
      in \<lparr>j_ID = jobID, j_BuildID = b_ID build, j_StepID = s_ID step, j_NodeID = [], j_GroupName = None,
          j_DependsOnNodeIDs = [], j_Name = s_Name step, j_StepIndex = s_StepIndex step, j_AttemptNumber = 1,
          j_RetryOfJobID = None, j_LineageRootJobID = Some jobID, j_Status = ExecutionJobStatusQueued, j_QueueName = None,
          j_Image = es_Image spec, j_WorkingDir = es_WorkingDir spec, j_Command = command,
          j_Environment = es_Environment spec, j_TimeoutSeconds = Some (s_TimeoutSeconds step),
          j_PipelineFilePath = optionalPointer (es_PipelineFilePath spec),
          j_ContextDir = optionalPointer (es_ContextDir spec), j_Source = source, j_SpecVersion = 1,
          j_SpecDigest = BuildSpecDigest sha256_hex specJSON, j_ResolvedSpecJSON = specJSON, j_ClaimToken = None,
          j_ClaimedBy = None, j_ClaimExpiresAt = None, j_CreatedAt = now, j_StartedAt = None, j_FinishedAt = None,
          j_ErrorMessage = None, j_FailureKind = None, j_ExitCode = None, j_OutputRefs = [], j_Timing = None\<rparr>)"

definition note_latest_step_job :: "ExecutionJob \<Rightarrow> (int, ExecutionJob) gomap \<Rightarrow> (int, ExecutionJob) gomap" where
  "note_latest_step_job job out =
     (case map_of out (j_StepIndex job) of
        None \<Rightarrow> gm_put (j_StepIndex job) job out
      | Some current \<Rightarrow>
          (if j_AttemptNumber job > j_AttemptNumber current \<or>
              (j_AttemptNumber job = j_AttemptNumber current \<and> j_CreatedAt job > j_CreatedAt current)
           then gm_put (j_StepIndex job) job out else out))"

definition latestJobsByStepIndex :: "ExecutionJob list \<Rightarrow> (int, ExecutionJob) gomap" where
  "latestJobsByStepIndex jobs = fold note_latest_step_job jobs []"

definition validateBuildRerunContext :: "Build \<Rightarrow> BuildStep list \<Rightarrow> go_error option" where
  "validateBuildRerunContext sourceBuild sourceSteps =
     (if TrimSpace (b_ID sourceBuild) = [] \<or> TrimSpace (b_ProjectID sourceBuild) = []
      then Some (Errorf ''build rerun context is unavailable'')
      else if \<not> IsTerminalBuildStatus (b_Status sourceBuild) then Some ErrInvalidBuildStatusTransition
      else if length sourceSteps = 0 then Some (Errorf ''build rerun context is unavailable'')
      else None)"

end
