(* ===== verification/Repo_Paths.thy ===== *)
theory Repo_Paths
  imports Go_Paths Pipeline_Schema
begin

text \<open>
  Where pipelines and steps live in a repository (\<open>service/build/repo_paths.go\<close>): the path of the
  pipeline file and the working directories of its steps, and that neither leaves the repository.
\<close>

section \<open>Cleaned paths\<close>

text \<open>What \<open>clean_stack\<close> computes: proper segments on top of the \<open>..\<close> it could not resolve.\<close>

definition proper :: "string \<Rightarrow> bool" where
  "proper s \<longleftrightarrow> s \<noteq> [] \<and> s \<noteq> ''.'' \<and> s \<noteq> ''..''"

definition normal :: "bool \<Rightarrow> string list \<Rightarrow> bool" where
  "normal r stack \<longleftrightarrow>
     (\<exists>k ts. stack = ts @ replicate k ''..'' \<and> list_all proper ts \<and> (r \<longrightarrow> k = 0))"

lemma normal_Nil [simp]: "normal r []"
  by (simp add: normal_def)

lemma normal_push: "normal r stack \<Longrightarrow> proper s \<Longrightarrow> normal r (s # stack)"
  unfolding normal_def by (metis append_Cons list.pred_inject(2))

lemma normal_up:
  assumes "normal r stack"
  shows "normal r (case stack of [] \<Rightarrow> (if r then [] else [''..'']) | t # ts \<Rightarrow> (if t = ''..'' then ''..'' # stack else ts))"
proof -
  obtain k ts where s: "stack = ts @ replicate k ''..''" "list_all proper ts" "r \<longrightarrow> k = 0"
    using assms by (auto simp: normal_def)
  show ?thesis
  proof (cases ts)
    case Nil
    have "normal False (''..'' # replicate k ''..'')"
      unfolding normal_def by (rule exI [of _ "Suc k"], rule exI [of _ "[]"]) simp
    with Nil s show ?thesis by (cases k) (auto simp: normal_def)
  next
    case (Cons t ts')
    then have "proper t" "list_all proper ts'" using s(2) by auto
    with Cons s show ?thesis by (auto simp: normal_def proper_def)
  qed
qed

lemma clean_stack_normal: "normal r stack \<Longrightarrow> normal r (clean_stack r ss stack)"
proof (induction ss arbitrary: stack)
  case (Cons s ss)
  consider (skip) "s = [] \<or> s = ''.''" | (up) "s = ''..''" | (push) "s \<noteq> []" "s \<noteq> ''.''" "s \<noteq> ''..''" by blast
  then show ?case
  proof cases
    case skip
    with Cons show ?thesis by (simp only: clean_stack_skip [OF skip])
  next
    case up
    have "clean_stack r (s # ss) stack =
        clean_stack r ss (case stack of [] \<Rightarrow> (if r then [] else [''..'']) | t # ts \<Rightarrow> (if t = ''..'' then ''..'' # stack else ts))"
      using up by (simp split: list.split)
    with Cons.IH [OF normal_up [OF Cons.prems]] show ?thesis by simp
  next
    case push
    with Cons.IH [OF normal_push [OF Cons.prems]] show ?thesis by (simp only: clean_stack_push [OF push] proper_def simp_thms)
  qed
qed simp

lemma clean_stack_dotdots: "clean_stack False (replicate k ''..'' @ ss) (replicate j ''..'') = clean_stack False ss (replicate (k + j) ''..'')"
proof (induction k arbitrary: j)
  case (Suc k)
  have "clean_stack False (''..'' # replicate k ''..'' @ ss) (replicate j ''..'') =
      clean_stack False (replicate k ''..'' @ ss) (replicate (Suc j) ''..'')"
    by (cases j) simp_all
  with Suc.IH [of "Suc j"] show ?case by simp
qed simp

lemma clean_stack_proper: "list_all proper ss \<Longrightarrow> clean_stack r ss stack = rev ss @ stack"
proof (induction ss arbitrary: stack)
  case (Cons s ss)
  then have s: "s \<noteq> []" "s \<noteq> ''.''" "s \<noteq> ''..''" by (auto simp: proper_def)
  with Cons show ?case by (simp only: clean_stack_push [OF s] list.pred_inject) simp
qed simp

lemma clean_stack_fixed:
  assumes "normal r stack"
  shows "clean_stack r (rev stack) [] = stack"
proof -
  obtain k ts where s: "stack = ts @ replicate k ''..''" "list_all proper ts" "r \<longrightarrow> k = 0"
    using assms by (auto simp: normal_def)
  have p: "list_all proper (rev ts)" using s(2) by (simp add: list_all_iff)
  show ?thesis
  proof (cases r)
    case True
    with s clean_stack_proper [OF p] show ?thesis by simp
  next
    case False
    with s clean_stack_dotdots [of k "rev ts" 0] clean_stack_proper [OF p, of False] show ?thesis by simp
  qed
qed

lemma clean_segments_plain:
  "\<forall>s \<in> set (clean_segments p). CHR ''/'' \<notin> set s" "[] \<notin> set (clean_segments p)"
  using clean_stack_no_slash [of "SplitChar CHR ''/'' p"] SplitChar_no_sep [of _ "CHR ''/''" p] clean_stack_nonempty
  by (auto simp: clean_segments_def)

lemma clean_segments_fixed: "clean_stack (path_IsAbs p) (clean_segments p) [] = rev (clean_segments p)"
  using clean_stack_fixed [OF clean_stack_normal [OF normal_Nil]] by (simp add: clean_segments_def)

lemma clean_stack_root: "clean_stack r ([] # ss) stack = clean_stack r ss stack"
  by simp

text \<open>Cleaning a cleaned path changes nothing.\<close>

lemma path_Clean_idem [simp]: "path_Clean (path_Clean p) = path_Clean p"
proof (cases "clean_segments p = []")
  case True
  have "clean_segments ''.'' = []" "clean_segments ''/'' = []" "path_IsAbs ''/''" "\<not> path_IsAbs ''.''"
    by (simp_all add: clean_segments_def path_IsAbs_def HasPrefix_def)
  then show ?thesis using True by (cases "path_IsAbs p") (simp_all add: path_Clean_def)
next
  case False
  let ?j = "JoinChar CHR ''/'' (clean_segments p)"
  have split: "SplitChar CHR ''/'' ?j = clean_segments p"
    by (rule SplitChar_JoinChar [OF clean_segments_plain(1) False])
  have ne: "?j \<noteq> []" using False clean_segments_plain(2) [of p] by (simp add: JoinChar_empty)
  show ?thesis
  proof (cases "path_IsAbs p")
    case True
    then have "path_IsAbs (CHR ''/'' # ?j)" by (simp add: path_IsAbs_def HasPrefix_def)
    then have "clean_segments (CHR ''/'' # ?j) = clean_segments p"
      using clean_segments_fixed [of p] True by (simp add: clean_segments_def [of "CHR ''/'' # ?j"] split)
    with True \<open>path_IsAbs (CHR ''/'' # ?j)\<close> show ?thesis by (simp add: path_Clean_def Let_def)
  next
    case rel: False
    have "\<not> path_IsAbs ?j" using JoinChar_relative [OF clean_segments_plain] by (simp add: path_IsAbs_def)
    moreover then have "clean_segments ?j = clean_segments p"
      using clean_segments_fixed [of p] rel by (simp add: clean_segments_def [of ?j] split)
    ultimately show ?thesis using rel ne by (simp add: path_Clean_def Let_def)
  qed
qed

lemma stays_inside_Clean [simp]: "stays_inside (path_Clean p) = stays_inside p"
  by (simp add: clean_stays_inside)

lemma path_IsAbs_Clean [simp]: "path_IsAbs (path_Clean p) = path_IsAbs p"
proof (cases "path_IsAbs p")
  case True
  then show ?thesis by (simp add: path_Clean_def path_IsAbs_def HasPrefix_def Let_def)
next
  case False
  then show ?thesis
    using JoinChar_relative [OF clean_segments_plain, of p] by (auto simp: path_Clean_def path_IsAbs_def HasPrefix_def Let_def)
qed

section \<open>Directories and joins\<close>

lemma walk_prefix: "walk d (xs @ ys) \<noteq> None \<Longrightarrow> walk d xs \<noteq> None"
proof (induction xs arbitrary: d)
  case (Cons x xs)
  then show ?case by (cases d) (auto split: if_splits)
qed simp

lemma walk_skip: "walk d (xs @ [[]]) = walk d xs"
  by (induction xs arbitrary: d) (auto split: nat.split)

lemma path_IsAbs_append: "path_IsAbs a \<Longrightarrow> path_IsAbs (a @ b)"
  by (cases a) (auto simp: path_IsAbs_def HasPrefix_def)

text \<open>The directory of a path that stays inside stays inside as well.\<close>

lemma stays_inside_Dir:
  assumes "stays_inside p"
  shows "stays_inside (path_Dir p)"
proof -
  let ?w = "rev (takeWhile (\<lambda>c. c \<noteq> CHR ''/'') (rev p))" and ?q = "rev (dropWhile (\<lambda>c. c \<noteq> CHR ''/'') (rev p))"
  have p: "p = ?q @ ?w" by (metis rev_append rev_rev_ident takeWhile_dropWhile_id)
  have w: "CHR ''/'' \<notin> set ?w" by (auto dest: set_takeWhileD)
  have "stays_inside ?q"
  proof (cases "dropWhile (\<lambda>c. c \<noteq> CHR ''/'') (rev p)")
    case Nil
    have "stays_inside []" by (simp add: stays_inside_def path_IsAbs_def HasPrefix_def)
    then show ?thesis by (simp only: Nil rev.simps)
  next
    case (Cons c cs)
    then have "c = CHR ''/''" by (metis (mono_tags, lifting) dropWhile_eq_Cons_conv)
    with Cons have q: "?q = rev cs @ [CHR ''/'']" by simp
    then have "SplitChar CHR ''/'' p = SplitChar CHR ''/'' (rev cs) @ [?w]"
      using p SplitChar_append_sep [of "CHR ''/''" "rev cs" ?w] SplitChar_plain [OF w] by simp
    moreover have "SplitChar CHR ''/'' ?q = SplitChar CHR ''/'' (rev cs) @ [[]]"
      using q SplitChar_append_sep [of "CHR ''/''" "rev cs" "[]"] by simp
    moreover have "\<not> path_IsAbs ?q"
      using assms p path_IsAbs_append [of ?q ?w] by (metis stays_inside_def)
    ultimately show ?thesis
      using assms walk_prefix [of 0 "SplitChar CHR ''/'' (rev cs)" "[?w]"] by (simp add: stays_inside_def walk_skip)
  qed
  then show ?thesis by (simp add: path_Dir_def)
qed

lemma path_Clean_nonempty [simp]: "path_Clean p \<noteq> []"
  by (simp add: path_Clean_def Let_def)

lemma path_Join2_relative:
  assumes "\<not> path_IsAbs a" "a \<noteq> []" "b \<noteq> []"
  shows "\<not> path_IsAbs (path_Join2 a b)"
proof -
  have "\<not> path_IsAbs (a @ CHR ''/'' # b)" using assms by (cases a) (auto simp: path_IsAbs_def HasPrefix_def)
  then show ?thesis using assms by (simp add: path_Join2_def)
qed

lemma path_Join2_Clean [simp]: "a \<noteq> [] \<Longrightarrow> path_Clean (path_Join2 a b) = path_Join2 a b"
  by (simp add: path_Join2_def)

section \<open>The code\<close>

definition pipelineFilePath :: string where
  "pipelineFilePath = ''.coyote/pipeline.yml''"

definition ErrInvalidPipelinePath :: string where
  "ErrInvalidPipelinePath = ''invalid pipeline path''"

definition path_error :: "string \<Rightarrow> go_error" where
  "path_error msg = Errorf (ErrInvalidPipelinePath @ '': '' @ msg)"

definition leaves_root :: "string \<Rightarrow> bool" where
  "leaves_root p \<longleftrightarrow> p = ''..'' \<or> HasPrefix p ''../''"

text \<open>On Unix \<open>filepath.VolumeName\<close> is empty and \<open>filepath.ToSlash\<close> the identity.\<close>

definition resolveRepoPipelinePath :: "string \<Rightarrow> string \<Rightarrow> go_error + (string \<times> string)" where
  "resolveRepoPipelinePath repoRoot requestedPath =
     (let trimmed0 = TrimSpace requestedPath;
          trimmed = (if trimmed0 = [] then pipelineFilePath else trimmed0)
      in if path_IsAbs trimmed then Inl (path_error ''must be a relative path'')
         else (let cleaned = path_Clean trimmed
               in if cleaned = ''.'' then Inl (path_error ''must point to a file'')
                  else if leaves_root cleaned then Inl (path_error ''must stay within repository root'')
                  else (let absPath = path_Join2 repoRoot cleaned
                        in case filepath_Rel repoRoot absPath of
                             None \<Rightarrow> Inl (path_error ''unable to resolve path'')
                           | Some rel \<Rightarrow>
                               (if leaves_root rel then Inl (path_error ''must stay within repository root'')
                                else Inr (absPath, cleaned)))))"

definition pipeline_dir :: "string \<Rightarrow> string" where
  "pipeline_dir pipelinePath =
     (let normalized = path_Clean (TrimSpace pipelinePath)
      in if normalized \<noteq> pipelineFilePath then path_Clean (path_Dir normalized) else ''.'')"

definition step_working_dir :: "string \<Rightarrow> nat \<Rightarrow> string \<Rightarrow> go_error + string" where
  "step_working_dir pipelineDir i workingDir =
     (let stepDir = TrimSpace workingDir; field = ''steps['' @ FormatInt (int i) @ ''].working_dir ''
      in if stepDir = [] \<or> stepDir = ''.'' then Inr pipelineDir
         else if path_IsAbs stepDir then Inl (path_error (field @ ''must be relative''))
         else (let normalizedStepDir = path_Clean (slashes stepDir)
               in if leaves_root normalizedStepDir then Inl (path_error (field @ ''escapes repository root''))
                  else (let combined = path_Clean (path_Join2 pipelineDir normalizedStepDir)
                        in if leaves_root combined then Inl (path_error (field @ ''escapes repository root''))
                           else Inr combined)))"

fun resolve_working_dirs :: "string \<Rightarrow> nat \<Rightarrow> ResolvedStep list \<Rightarrow> go_error + ResolvedStep list" where
  "resolve_working_dirs pipelineDir i [] = Inr []"
| "resolve_working_dirs pipelineDir i (step # steps) =
     (case step_working_dir pipelineDir i (rs_WorkingDir step) of
        Inl err \<Rightarrow> Inl err
      | Inr dir \<Rightarrow> (case resolve_working_dirs pipelineDir (Suc i) steps of
                      Inl err \<Rightarrow> Inl err | Inr rest \<Rightarrow> Inr (step\<lparr>rs_WorkingDir := dir\<rparr> # rest)))"

definition resolveRepoStepWorkingDirs :: "string \<Rightarrow> ResolvedPipeline \<Rightarrow> go_error + ResolvedPipeline" where
  "resolveRepoStepWorkingDirs pipelinePath resolved =
     (case resolve_working_dirs (pipeline_dir pipelinePath) 0 (rp_Steps resolved) of
        Inl err \<Rightarrow> Inl err | Inr steps \<Rightarrow> Inr (resolved\<lparr>rp_Steps := steps\<rparr>))"

section \<open>Nothing leaves the repository\<close>

lemma inside_clean: "\<not> path_IsAbs p \<Longrightarrow> \<not> leaves_root (path_Clean p) \<Longrightarrow> stays_inside p"
  by (simp add: clean_stays_inside leaves_root_def)

lemma pipeline_path_inside:
  assumes "resolveRepoPipelinePath root p = Inr (absPath, eff)"
  shows "stays_inside eff" "path_Clean eff = eff" "eff \<noteq> ''.''" "absPath = path_Join2 root eff"
  using assms inside_clean
  by (auto simp: resolveRepoPipelinePath_def Let_def split: if_splits option.splits)

lemma pipeline_dir_inside:
  assumes "stays_inside (TrimSpace p)"
  shows "stays_inside (pipeline_dir p)"
proof -
  have "stays_inside ''.''" by (simp add: stays_inside_def path_IsAbs_def HasPrefix_def)
  with assms stays_inside_Dir show ?thesis by (simp add: pipeline_dir_def Let_def)
qed

lemma pipeline_dir_nonempty: "pipeline_dir p \<noteq> []"
  by (simp add: pipeline_dir_def Let_def)

lemma step_working_dir_inside:
  assumes "step_working_dir d i w = Inr dir" "stays_inside d" "d \<noteq> []"
  shows "stays_inside dir"
proof -
  have rel: "\<not> path_IsAbs d" using assms(2) by (simp add: stays_inside_def)
  have "stays_inside (path_Join2 d (path_Clean s))" if "\<not> leaves_root (path_Clean (path_Join2 d (path_Clean s)))" for s
    using inside_clean [OF path_Join2_relative [OF rel assms(3)]] that by simp
  with assms show ?thesis by (auto simp: step_working_dir_def Let_def split: if_splits)
qed

lemma resolve_working_dirs_all:
  assumes "resolve_working_dirs d i steps = Inr steps'" "stays_inside d" "d \<noteq> []"
  shows "list_all2 (\<lambda>a b. b = a\<lparr>rs_WorkingDir := rs_WorkingDir b\<rparr> \<and> stays_inside (rs_WorkingDir b)) steps steps'"
  using assms
proof (induction steps arbitrary: i steps')
  case (Cons step steps)
  then obtain dir rest where "step_working_dir d i (rs_WorkingDir step) = Inr dir"
    "resolve_working_dirs d (Suc i) steps = Inr rest" "steps' = step\<lparr>rs_WorkingDir := dir\<rparr> # rest"
    by (auto split: sum.splits)
  with Cons step_working_dir_inside show ?case by simp
qed simp

section \<open>Properties\<close>

text \<open>
  C35: The path of the pipeline file in a repository. A requested path is accepted only if it is relative
  and, followed segment by segment from the repository root, never leaves it; the accepted path is
  clean, names something below the root, and is resolved against the root. Every other path is
  refused: absolute ones, those that lead back to the root, and those that leave it.
\<close>

theorem pipeline_path_confined:
  "(resolveRepoPipelinePath root p = Inr (absPath, eff) \<longrightarrow>
      stays_inside eff \<and> path_Clean eff = eff \<and> eff \<noteq> ''.'' \<and> absPath = path_Join2 root eff) \<and>
   (TrimSpace p \<noteq> [] \<and> (\<not> stays_inside (TrimSpace p) \<or> path_Clean (TrimSpace p) = ''.'') \<longrightarrow>
      (\<exists>msg. resolveRepoPipelinePath root p = Inl (path_error msg)))"
proof (intro conjI impI)
  assume "resolveRepoPipelinePath root p = Inr (absPath, eff)"
  from pipeline_path_inside [OF this]
  show "stays_inside eff" "path_Clean eff = eff" "eff \<noteq> ''.''" "absPath = path_Join2 root eff" by blast+
next
  assume "TrimSpace p \<noteq> [] \<and> (\<not> stays_inside (TrimSpace p) \<or> path_Clean (TrimSpace p) = ''.'')"
  then have ne: "TrimSpace p \<noteq> []" and out: "\<not> stays_inside (TrimSpace p) \<or> path_Clean (TrimSpace p) = ''.''" by blast+
  from out inside_clean
  consider "path_IsAbs (TrimSpace p)" | "path_Clean (TrimSpace p) = ''.''" | "leaves_root (path_Clean (TrimSpace p))" by blast
  then show "\<exists>msg. resolveRepoPipelinePath root p = Inl (path_error msg)"
    unfolding resolveRepoPipelinePath_def Let_def if_not_P [OF ne] by cases metis+
qed

theorem pipeline_path_confined_witness:
  "resolveRepoPipelinePath ''/src'' '' ci//./a/../b.yml '' = Inr (''/src/ci/b.yml'', ''ci/b.yml'') \<and> stays_inside ''ci/b.yml'' \<and>
   (\<exists>msg. resolveRepoPipelinePath ''/src'' ''ci/../../b.yml'' = Inl (path_error msg))"
proof -
  have r: "resolveRepoPipelinePath ''/src'' '' ci//./a/../b.yml '' = Inr (''/src/ci/b.yml'', ''ci/b.yml'')" by code_simp
  have "TrimSpace ''ci/../../b.yml'' \<noteq> []" "\<not> stays_inside (TrimSpace ''ci/../../b.yml'')" by code_simp+
  with r pipeline_path_confined [of "''/src''" "'' ci//./a/../b.yml ''" "''/src/ci/b.yml''" "''ci/b.yml''"]
    pipeline_path_confined [of "''/src''" "''ci/../../b.yml''"] show ?thesis by blast
qed

text \<open>
  The working directories of the steps of a repository pipeline. When the path of the pipeline file
  itself stays inside the repository, every step gets a working directory that stays inside it, and
  nothing else of the step changes; the number and order of the steps are kept.
\<close>

theorem working_dirs_confined:
  assumes "resolveRepoStepWorkingDirs path resolved = Inr resolved'" "stays_inside (TrimSpace path)"
  shows "list_all2 (\<lambda>a b. b = a\<lparr>rs_WorkingDir := rs_WorkingDir b\<rparr> \<and> stays_inside (rs_WorkingDir b))
           (rp_Steps resolved) (rp_Steps resolved')"
  using assms resolve_working_dirs_all [OF _ pipeline_dir_inside [OF assms(2)] pipeline_dir_nonempty]
  by (auto simp: resolveRepoStepWorkingDirs_def split: sum.splits)

theorem working_dirs_confined_witness:
  "\<exists>resolved'. resolveRepoStepWorkingDirs ''ci/p.yml'' (Resolve demo_pipeline) = Inr resolved' \<and>
     length (rp_Steps resolved') = 4 \<and> (\<forall>b \<in> set (rp_Steps resolved'). stays_inside (rs_WorkingDir b))"
proof -
  have "case resolveRepoStepWorkingDirs ''ci/p.yml'' (Resolve demo_pipeline) of Inl _ \<Rightarrow> False | Inr p' \<Rightarrow> length (rp_Steps p') = 4"
    by code_simp
  then obtain p' where p': "resolveRepoStepWorkingDirs ''ci/p.yml'' (Resolve demo_pipeline) = Inr p'" "length (rp_Steps p') = 4"
    by (simp split: sum.splits)
  have "stays_inside (TrimSpace ''ci/p.yml'')" by code_simp
  from working_dirs_confined [OF p'(1) this] have "\<forall>b \<in> set (rp_Steps p'). stays_inside (rs_WorkingDir b)"
    by (auto simp: list_all2_conv_all_nth in_set_conv_nth)
  with p' show ?thesis by blast
qed

text \<open>
  The two checks do not add up. The pipeline path is checked before surrounding white space is removed
  a second time, so that a directory named \<open> ..\<close> (a space and two dots) passes the first check and
  makes the steps run in the parent of the repository. Without the first check, which inline pipelines
  do not perform, a plain \<open>../\<close> prefix is enough.
\<close>

theorem working_dir_escapes:
  "(\<exists>eff. resolveRepoPipelinePath ''/src'' ''x/../ ../p.yml'' = Inr (''/src/ ../p.yml'', eff) \<and>
     step_working_dir (pipeline_dir eff) 0 [] = Inr ''..'') \<and> \<not> stays_inside ''..'' \<and>
   step_working_dir (pipeline_dir ''../other/p.yml'') 0 [] = Inr ''../other'' \<and> \<not> stays_inside ''../other''"
proof -
  have r: "resolveRepoPipelinePath ''/src'' ''x/../ ../p.yml'' = Inr (''/src/ ../p.yml'', '' ../p.yml'')" by code_simp
  have d: "pipeline_dir '' ../p.yml'' = ''..''" "pipeline_dir ''../other/p.yml'' = ''../other''" by code_simp+
  have w: "step_working_dir dir 0 [] = Inr dir" for dir by (simp add: step_working_dir_def)
  have n: "\<not> stays_inside ''..''" "\<not> stays_inside ''../other''" by code_simp+
  have "\<exists>eff. resolveRepoPipelinePath ''/src'' ''x/../ ../p.yml'' = Inr (''/src/ ../p.yml'', eff) \<and>
     step_working_dir (pipeline_dir eff) 0 [] = Inr ''..''" by (rule exI [of _ "'' ../p.yml''"]) (simp only: r d(1) w simp_thms)
  then show ?thesis using d(2) n w by simp
qed

end
