(* ===== verification/Build_Service.thy ===== *)
theory Build_Service
  imports Build_Creation Repo_Paths
begin

text \<open>
  The build service (\<open>service/build\<close>): creation of builds, retries and reruns, queueing, cancelation,
  status changes and the handling of step results, over the build store, the job store and the store
  of declared outputs.

  A service operation maps the state to the new state and its result. The collaborators that only get
  told about builds (commit status reporter, notifier, release snapshotter, log sink) are present or
  absent; the calls they get are recorded in \<open>bs_calls\<close>. Code the repository does not contain is in
  \<open>Externals\<close>: the YAML decoder, JSON encoding, SHA-256, the check that a string is an absolute
  \<open>https\<close> URL, the answer of the log sink, fresh identifiers and the current time. One instant stands
  for all readings of the clock in one request.
\<close>

section \<open>Declared outputs\<close>

datatype ExecutionJobOutputStatus =
  ExecutionJobOutputStatusDeclared | ExecutionJobOutputStatusAvailable | ExecutionJobOutputStatusMissing

record ExecutionJobOutput =
  o_ID :: string
  o_JobID :: string
  o_BuildID :: string
  o_Name :: string
  o_Kind :: string
  o_DeclaredPath :: string
  o_DestinationURI :: "string option"
  o_ContentType :: "string option"
  o_SizeBytes :: "int option"
  o_Digest :: "string option"
  o_Status :: ExecutionJobOutputStatus
  o_CreatedAt :: time

record ExecutionJobOutputRepository =
  or_outputsByID :: "(string, ExecutionJobOutput) gomap"
  or_outputsByBuild :: "(string, string list) gomap"
  or_outputsByJob :: "(string, string list) gomap"

definition NewExecutionJobOutputRepository :: ExecutionJobOutputRepository where
  "NewExecutionJobOutputRepository = \<lparr>or_outputsByID = [], or_outputsByBuild = [], or_outputsByJob = []\<rparr>"

definition add_output :: "ExecutionJobOutput \<Rightarrow> ExecutionJobOutputRepository \<Rightarrow> ExecutionJobOutputRepository" where
  "add_output out r =
     \<lparr>or_outputsByID = gm_put (o_ID out) out (or_outputsByID r),
      or_outputsByBuild = gm_put (o_BuildID out) (gm_get_or [] (or_outputsByBuild r) (o_BuildID out) @ [o_ID out]) (or_outputsByBuild r),
      or_outputsByJob = gm_put (o_JobID out) (gm_get_or [] (or_outputsByJob r) (o_JobID out) @ [o_ID out]) (or_outputsByJob r)\<rparr>"

definition CreateMany ::
  "ExecutionJobOutput list \<Rightarrow> ExecutionJobOutputRepository \<Rightarrow> ExecutionJobOutputRepository \<times> ExecutionJobOutput list" where
  "CreateMany outputs r = (fold add_output outputs r, outputs)"

definition output_less :: "ExecutionJobOutput \<Rightarrow> ExecutionJobOutput \<Rightarrow> bool" where
  "output_less a b =
     (if o_CreatedAt a = o_CreatedAt b then o_ID a < o_ID b else o_CreatedAt a < o_CreatedAt b)"

definition collectOrdered :: "string list \<Rightarrow> ExecutionJobOutputRepository \<Rightarrow> ExecutionJobOutput list" where
  "collectOrdered ids r = sort_slice output_less (List.map_filter (map_of (or_outputsByID r)) ids)"

definition ListByBuildID :: "string \<Rightarrow> ExecutionJobOutputRepository \<Rightarrow> ExecutionJobOutput list" where
  "ListByBuildID buildID r = collectOrdered (gm_get_or [] (or_outputsByBuild r) buildID) r"

definition ListByJobID_outputs :: "string \<Rightarrow> ExecutionJobOutputRepository \<Rightarrow> ExecutionJobOutput list" where
  "ListByJobID_outputs jobID r = collectOrdered (gm_get_or [] (or_outputsByJob r) jobID) r"

section \<open>State and errors\<close>

text \<open>
  The repository package and the service package have error values of the same names;
  \<open>Repo\<close> and \<open>Svc\<close> tell them apart, as \<open>errors.Is\<close> does.
\<close>

datatype svc_error = Repo go_error | Svc go_error

definition mapRepoErr :: "svc_error \<Rightarrow> svc_error" where
  "mapRepoErr err =
     (if err = Repo ErrBuildNotFound then Svc ErrBuildNotFound
      else if err = Repo ErrInvalidBuildStatusTransition then Svc ErrInvalidBuildStatusTransition
      else if err = Repo ErrInvalidBuildStepTransition then Svc ErrInvalidBuildStepTransition
      else err)"

datatype service_call =
  NotifyBuildStatus Build
| NotifyTerminalBuild Build
| FailBuildRelease Build
| WriteLogs string string string
| WritePreparationLog string string
| EnsureSnapshot Build

record BuildService =
  bs_buildRepo :: BuildRepository
  bs_executionJobRepo :: "ExecutionJobRepository option"
  bs_jobRepoSeesBuilds :: bool
  bs_executionOutputRepo :: "ExecutionJobOutputRepository option"
  bs_scmStatusReporter :: bool
  bs_buildNotifier :: bool
  bs_releaseSnapshotter :: bool
  bs_workspaceRevisionPublication :: bool
  bs_defaultExecutionImage :: string
  bs_calls :: "service_call list"

record Externals =
  x_Decode :: "string \<Rightarrow> string + PipelineFile"
  x_ToJSON :: "ExecutionJobSpec \<Rightarrow> go_error + string"
  x_sha256_hex :: "string \<Rightarrow> string"
  x_httpsURL :: "string \<Rightarrow> bool"
  x_writeLogs :: "string \<Rightarrow> string \<Rightarrow> string \<Rightarrow> go_error option"
  x_uuid :: "nat \<Rightarrow> string"
  x_now :: time

definition record_call :: "service_call \<Rightarrow> BuildService \<Rightarrow> BuildService" where
  "record_call c s = s\<lparr>bs_calls := bs_calls s @ [c]\<rparr>"

definition job_repo_builds :: "BuildService \<Rightarrow> BuildRepository option" where
  "job_repo_builds s = (if bs_jobRepoSeesBuilds s then Some (bs_buildRepo s) else None)"

definition SetExecutionJobRepository :: "ExecutionJobRepository \<Rightarrow> BuildService \<Rightarrow> BuildService" where
  "SetExecutionJobRepository repo s = s\<lparr>bs_executionJobRepo := Some repo, bs_jobRepoSeesBuilds := True\<rparr>"

section \<open>Status changes and their followers (lifecycle.go)\<close>

definition shouldNotifyBuildStatus :: "BuildStatus \<Rightarrow> bool" where
  "shouldNotifyBuildStatus status \<longleftrightarrow> status = BuildStatusFailed \<or> status = BuildStatusSuccess"

definition notifySCMBuildStatus :: "Build \<Rightarrow> BuildService \<Rightarrow> BuildService" where
  "notifySCMBuildStatus build s =
     (if \<not> bs_scmStatusReporter s then s else record_call (NotifyBuildStatus build) s)"

definition notifyTerminalBuild :: "Build \<Rightarrow> BuildService \<Rightarrow> BuildService" where
  "notifyTerminalBuild build s =
     (if \<not> bs_buildNotifier s \<or> \<not> IsTerminalBuildStatus (b_Status build) then s
      else (let authoritativeBuild =
                  (if shouldNotifyBuildStatus (b_Status build)
                   then (case GetByID (b_ID build) (bs_buildRepo s) of Inl _ \<Rightarrow> build | Inr persistedBuild \<Rightarrow> persistedBuild)
                   else build)
            in record_call (NotifyTerminalBuild authoritativeBuild) s))"

definition postTerminalBuild :: "Build \<Rightarrow> BuildService \<Rightarrow> BuildService" where
  "postTerminalBuild build s =
     (if \<not> IsTerminalBuildStatus (b_Status build) then s
      else (let s1 = notifyTerminalBuild build s
            in if bs_releaseSnapshotter s1 then record_call (FailBuildRelease build) s1 else s1))"

definition postTerminalBuildByID :: "string \<Rightarrow> BuildService \<Rightarrow> BuildService" where
  "postTerminalBuildByID buildID s =
     (case GetByID buildID (bs_buildRepo s) of Inl _ \<Rightarrow> s | Inr build \<Rightarrow> postTerminalBuild build s)"

definition persistBuildStatus ::
  "Externals \<Rightarrow> string \<Rightarrow> BuildStatus \<Rightarrow> string option \<Rightarrow> BuildService \<Rightarrow> BuildService \<times> (svc_error + Build)" where
  "persistBuildStatus x i toStatus errorMessage s =
     (case UpdateStatus (x_now x) i toStatus errorMessage (bs_buildRepo s) of
        (repo, Inl err) \<Rightarrow> (s\<lparr>bs_buildRepo := repo\<rparr>, Inl (Repo err))
      | (repo, Inr build) \<Rightarrow>
          (postTerminalBuild build (notifySCMBuildStatus build (s\<lparr>bs_buildRepo := repo\<rparr>)), Inr build))"

definition transitionBuildStatus ::
  "Externals \<Rightarrow> string \<Rightarrow> BuildStatus \<Rightarrow> string option \<Rightarrow> BuildService \<Rightarrow> BuildService \<times> (svc_error + Build)" where
  "transitionBuildStatus x i toStatus errorMessage s =
     (case GetByID i (bs_buildRepo s) of
        Inl err \<Rightarrow> (s, Inl (mapRepoErr (Repo err)))
      | Inr build \<Rightarrow>
          (if \<not> CanTransitionBuild (b_Status build) toStatus then (s, Inl (Svc ErrInvalidBuildStatusTransition))
           else persistBuildStatus x i toStatus errorMessage s))"

definition FailBuild :: "Externals \<Rightarrow> string \<Rightarrow> BuildService \<Rightarrow> BuildService \<times> (svc_error + Build)" where
  "FailBuild x i s = transitionBuildStatus x i BuildStatusFailed None s"

definition cancelExecutionJobsForBuild :: "string \<Rightarrow> string \<Rightarrow> time \<Rightarrow> BuildService \<Rightarrow> BuildService" where
  "cancelExecutionJobsForBuild i reason canceledAt s =
     (case bs_executionJobRepo s of
        None \<Rightarrow> s
      | Some jobs \<Rightarrow> s\<lparr>bs_executionJobRepo := Some (fst (CancelJobsForBuild i reason canceledAt jobs))\<rparr>)"

definition cancel_reason :: string where
  "cancel_reason = ''build canceled by operator request''"

text \<open>
  The store offers the atomic \<open>CancelBuild\<close> and does not cancel jobs with it, so that the branch for
  stores without it is never taken.
\<close>

definition CancelBuild_service :: "Externals \<Rightarrow> string \<Rightarrow> BuildService \<Rightarrow> BuildService \<times> (svc_error + Build)" where
  "CancelBuild_service x i s =
     (case GetByID i (bs_buildRepo s) of
        Inl err \<Rightarrow> (s, Inl (mapRepoErr (Repo err)))
      | Inr build \<Rightarrow>
          (if \<not> CanCancelBuild (b_Status build) then (s, Inl (Svc ErrInvalidBuildStatusTransition))
           else (case CancelBuild i cancel_reason (x_now x) (bs_buildRepo s) of
                   (repo, Inl err) \<Rightarrow> (s\<lparr>bs_buildRepo := repo\<rparr>, Inl (mapRepoErr (Repo err)))
                 | (repo, Inr (canceled, _)) \<Rightarrow>
                     (cancelExecutionJobsForBuild i cancel_reason (x_now x)
                        (postTerminalBuild canceled (notifySCMBuildStatus canceled (s\<lparr>bs_buildRepo := repo\<rparr>))),
                      Inr canceled))))"

section \<open>Step results (completion.go)\<close>

record RunStepRequest =
  q_BuildID :: string
  q_JobID :: string
  q_StepID :: string
  q_StepIndex :: int
  q_StepName :: string
  q_WorkerID :: string
  q_ClaimToken :: string
  q_RequireAtomicExecutionCompletion :: bool
  q_Image :: string
  q_Command :: string
  q_Args :: "string list"
  q_Env :: "(string, string) gomap"
  q_WorkingDir :: string
  q_TimeoutSeconds :: int
  q_CacheMounts :: "(string \<times> string) list"

datatype RunStepStatus = RunStepStatusSuccess | RunStepStatusFailed

record RunStepResult =
  res_Status :: RunStepStatus
  res_ExitCode :: int
  res_TimedOut :: bool
  res_Stdout :: string
  res_Stderr :: string
  res_StartedAt :: time
  res_FinishedAt :: time

record StepCompletionReport =
  cr_Step :: "BuildStep option"
  cr_CompletionOutcome :: StepCompletionOutcome
  cr_SideEffectErr :: "svc_error option"

definition executionFailureKind :: "RunStepResult \<Rightarrow> ExecutionFailureKind" where
  "executionFailureKind result =
     (if HasPrefix (res_Stderr result) ''workspace revision: '' then ExecutionFailureKindWorkspace
      else if res_TimedOut result then ExecutionFailureKindTimeout
      else ExecutionFailureKindExecution)"

definition step_error :: "RunStepResult \<Rightarrow> string option" where
  "step_error result =
     (if res_Status result = RunStepStatusFailed then
        (let message = TrimSpace (res_Stderr result) in if message \<noteq> [] then Some message else None)
      else None)"

definition failure_message :: "RunStepResult \<Rightarrow> string" where
  "failure_message result = (case step_error result of Some m \<Rightarrow> m | None \<Rightarrow> ''step execution failed'')"

definition completion_update :: "RunStepResult \<Rightarrow> StepUpdate" where
  "completion_update result =
     \<lparr>u_Status = (if res_Status result = RunStepStatusFailed then BuildStepStatusFailed else BuildStepStatusSuccess),
      u_WorkerID = None, u_ExitCode = Some (res_ExitCode result),
      u_Stdout = (if res_Stdout result \<noteq> [] then Some (res_Stdout result) else None),
      u_Stderr = (if res_Stderr result \<noteq> [] then Some (res_Stderr result) else None),
      u_ErrorMessage = step_error result, u_StartedAt = Some (res_StartedAt result),
      u_FinishedAt = Some (res_FinishedAt result)\<rparr>"

definition completion_request :: "RunStepRequest \<Rightarrow> RunStepResult \<Rightarrow> CompleteStepRequest" where
  "completion_request request result =
     \<lparr>r_BuildID = q_BuildID request, r_StepIndex = q_StepIndex request, r_ClaimToken = TrimSpace (q_ClaimToken request),
      r_RequireClaim = True, r_Update = completion_update result\<rparr>"

definition report_of :: "BuildStep option \<Rightarrow> StepCompletionOutcome \<Rightarrow> StepCompletionReport" where
  "report_of step outcome = \<lparr>cr_Step = step, cr_CompletionOutcome = outcome, cr_SideEffectErr = None\<rparr>"

text \<open>The two log writes at the end; the second is skipped when the first fails.\<close>

definition write_output_logs ::
  "Externals \<Rightarrow> RunStepRequest \<Rightarrow> RunStepResult \<Rightarrow> StepCompletionReport \<Rightarrow> BuildService \<Rightarrow> BuildService \<times> StepCompletionReport" where
  "write_output_logs x request result rep s =
     (let b = q_BuildID request; n = q_StepName request; s1 = record_call (WriteLogs b n (res_Stdout result)) s
      in case x_writeLogs x b n (res_Stdout result) of
           Some err \<Rightarrow> (s1, rep\<lparr>cr_SideEffectErr := Some (Svc err)\<rparr>)
         | None \<Rightarrow>
             (let s2 = record_call (WriteLogs b n (res_Stderr result)) s1
              in case x_writeLogs x b n (res_Stderr result) of
                   Some err \<Rightarrow> (s2, rep\<lparr>cr_SideEffectErr := Some (Svc err)\<rparr>)
                 | None \<Rightarrow> (s2, rep)))"

definition finish_report ::
  "Externals \<Rightarrow> RunStepRequest \<Rightarrow> RunStepResult \<Rightarrow> bool \<Rightarrow> StepCompletionReport \<Rightarrow> BuildService \<Rightarrow>
     BuildService \<times> StepCompletionReport \<times> svc_error option" where
  "finish_report x request result skipLegacyLogWrite rep s =
     (let s1 = postTerminalBuildByID (q_BuildID request) s
      in if skipLegacyLogWrite then (s1, rep, None)
         else (let (s2, rep2) = write_output_logs x request result rep s1 in (s2, rep2, None)))"

text \<open>The two branches that complete step and job in one transaction.\<close>

definition complete_atomically ::
  "Externals \<Rightarrow> RunStepRequest \<Rightarrow> RunStepResult \<Rightarrow> bool \<Rightarrow> BuildService \<Rightarrow>
     BuildService \<times> StepCompletionReport \<times> svc_error option" where
  "complete_atomically x request result skipLegacyLogWrite s =
     (case bs_executionJobRepo s of
        None \<Rightarrow>
          (s, report_of None StepCompletionInvalidTransition,
           Some (Svc (Errorf (''execution job repository does not support atomic '' @
             (if res_Status result = RunStepStatusFailed then ''failed'' else ''successful'') @ '' completion''))))
      | Some jobs \<Rightarrow>
          (let token = TrimSpace (q_ClaimToken request); now = x_now x;
               (builds', jobs', (step, _), _, outcome, err) =
                 (if res_Status result = RunStepStatusFailed
                  then CompleteFailedStepAndJob now now
                    \<lparr>cf_JobID = q_JobID request, cf_ClaimToken = token, cf_FinishedAt = res_FinishedAt result,
                     cf_ErrorMessage = failure_message result, cf_FailureKind = executionFailureKind result,
                     cf_ExitCode = Some (res_ExitCode result), cf_StepRequest = completion_request request result\<rparr>
                    (job_repo_builds s) jobs
                  else CompleteSuccessfulStepAndJob now now
                    \<lparr>cs_JobID = q_JobID request, cs_ClaimToken = token, cs_FinishedAt = res_FinishedAt result,
                     cs_ExitCode = res_ExitCode result, cs_StepRequest = completion_request request result\<rparr>
                    (job_repo_builds s) jobs);
               s1 = s\<lparr>bs_executionJobRepo := Some jobs',
                      bs_buildRepo := (case builds' of Some b \<Rightarrow> b | None \<Rightarrow> bs_buildRepo s)\<rparr>
           in case err of
                Some e \<Rightarrow> (s1, report_of None StepCompletionInvalidTransition, Some (mapRepoErr (Repo e)))
              | None \<Rightarrow> finish_report x request result skipLegacyLogWrite (report_of step outcome) s1))"

text \<open>The job of a step that was completed on its own; only an error is reported, not the outcome.\<close>

definition complete_job_after_step ::
  "RunStepRequest \<Rightarrow> RunStepResult \<Rightarrow> StepCompletionReport \<Rightarrow> BuildService \<Rightarrow> BuildService \<times> StepCompletionReport" where
  "complete_job_after_step request result rep s =
     (case bs_executionJobRepo s of
        None \<Rightarrow> (s, rep)
      | Some jobs \<Rightarrow>
          (if TrimSpace (q_JobID request) = [] then (s, rep)
           else (let token = TrimSpace (q_ClaimToken request);
                     (jobs', _, _, jobErr) =
                       (if res_Status result = RunStepStatusFailed
                        then CompleteJobFailure (q_JobID request) token (res_FinishedAt result) (failure_message result)
                               (executionFailureKind result) (Some (res_ExitCode result)) [] jobs
                        else CompleteJobSuccess (q_JobID request) token (res_FinishedAt result) (res_ExitCode result) [] jobs);
                     s1 = s\<lparr>bs_executionJobRepo := Some jobs'\<rparr>
                 in case jobErr of
                      None \<Rightarrow> (s1, rep)
                    | Some e \<Rightarrow> (s1, rep\<lparr>cr_SideEffectErr := Some (Repo e)\<rparr>))))"

definition handleStepResult ::
  "Externals \<Rightarrow> RunStepRequest \<Rightarrow> RunStepResult \<Rightarrow> bool \<Rightarrow> BuildService \<Rightarrow>
     BuildService \<times> StepCompletionReport \<times> svc_error option" where
  "handleStepResult x request result skipLegacyLogWrite s =
     (let atomic = q_RequireAtomicExecutionCompletion request; failed = (res_Status result = RunStepStatusFailed)
      in if TrimSpace (q_ClaimToken request) = [] then (s, report_of None StepCompletionInvalidTransition, None)
         else if TrimSpace (q_JobID request) \<noteq> [] \<and>
                 (atomic \<or> (\<not> failed \<and> bs_workspaceRevisionPublication s))
         then complete_atomically x request result skipLegacyLogWrite s
         else (case CompleteStep (x_now x) (completion_request request result) (bs_buildRepo s) of
                 (repo, step, outcome, Some err) \<Rightarrow>
                   (s\<lparr>bs_buildRepo := repo\<rparr>, report_of None StepCompletionInvalidTransition, Some (mapRepoErr (Repo err)))
               | (repo, step, outcome, None) \<Rightarrow>
                   (let s1 = s\<lparr>bs_buildRepo := repo\<rparr>
                    in if outcome \<noteq> StepCompletionCompleted then (s1, report_of step outcome, None)
                       else (let (s2, rep) = complete_job_after_step request result (report_of step outcome) s1
                             in finish_report x request result skipLegacyLogWrite rep s2))))"

end
