(* ===== verification/Build_Requests.thy ===== *)
theory Build_Requests
  imports Build_Service
begin

text \<open>
  The requests that make builds: \<open>CreateBuild\<close> and \<open>CreateBuildFromPipeline\<close> (\<open>build_create.go\<close>),
  queueing from templates (\<open>read_queue.go\<close>), retries and reruns (\<open>retry_rerun.go\<close>), and the durable
  jobs they leave behind (\<open>execution_orchestration.go\<close>). The result \<open>None\<close> means that the request never
  returns (the planner's depth search on cyclic dependencies). An error that wraps another with
  \<open>fmt.Errorf\<close> and \<open>%w\<close> is the wrapped one, which is what \<open>errors.Is\<close> sees.
\<close>

section \<open>Inputs\<close>

record CreateBuildTriggerInput =
  ti_Kind :: string
  ti_SCMProvider :: string
  ti_EventType :: string
  ti_RepositoryOwner :: string
  ti_RepositoryName :: string
  ti_RepositoryURL :: string
  ti_RawRef :: string
  ti_Ref :: string
  ti_RefType :: string
  ti_RefName :: string
  ti_Deleted :: "bool option"
  ti_CommitSHA :: string
  ti_DeliveryID :: string
  ti_Actor :: string
  ti_ProducerProjectID :: string
  ti_ProducerJobID :: string
  ti_ProducerBuildID :: string
  ti_ArtifactID :: string
  ti_ArtifactPath :: string
  ti_ArtifactName :: string
  ti_ArtifactSizeBytes :: "int option"
  ti_ArtifactChecksumSHA256 :: string
  ti_PullRequest :: "PullRequestSnapshot option"

definition manual_trigger :: BuildTrigger where
  "manual_trigger = blank_trigger\<lparr>t_Kind := BuildTriggerKindManual\<rparr>"

definition toDomainBuildTrigger :: "CreateBuildTriggerInput option \<Rightarrow> BuildTrigger" where
  "toDomainBuildTrigger input =
     (case input of
        None \<Rightarrow> manual_trigger
      | Some i \<Rightarrow> NormalizeBuildTrigger
          \<lparr>t_Kind = ti_Kind i, t_SCMProvider = buildOptionalStringPtr (ti_SCMProvider i),
           t_EventType = buildOptionalStringPtr (ti_EventType i),
           t_RepositoryOwner = buildOptionalStringPtr (ti_RepositoryOwner i),
           t_RepositoryName = buildOptionalStringPtr (ti_RepositoryName i),
           t_RepositoryURL = buildOptionalStringPtr (ti_RepositoryURL i), t_RawRef = buildOptionalStringPtr (ti_RawRef i),
           t_Ref = buildOptionalStringPtr (ti_Ref i), t_RefType = buildOptionalStringPtr (ti_RefType i),
           t_RefName = buildOptionalStringPtr (ti_RefName i), t_Deleted = ti_Deleted i,
           t_CommitSHA = buildOptionalStringPtr (ti_CommitSHA i), t_DeliveryID = buildOptionalStringPtr (ti_DeliveryID i),
           t_Actor = buildOptionalStringPtr (ti_Actor i),
           t_ProducerProjectID = buildOptionalStringPtr (ti_ProducerProjectID i),
           t_ProducerJobID = buildOptionalStringPtr (ti_ProducerJobID i),
           t_ProducerBuildID = buildOptionalStringPtr (ti_ProducerBuildID i),
           t_ArtifactID = buildOptionalStringPtr (ti_ArtifactID i), t_ArtifactPath = buildOptionalStringPtr (ti_ArtifactPath i),
           t_ArtifactName = buildOptionalStringPtr (ti_ArtifactName i), t_ArtifactSizeBytes = ti_ArtifactSizeBytes i,
           t_ArtifactChecksumSHA256 = buildOptionalStringPtr (ti_ArtifactChecksumSHA256 i), t_PullRequest = ti_PullRequest i\<rparr>)"

definition isSupportedPullRequestAction :: "string \<Rightarrow> bool" where
  "isSupportedPullRequestAction action \<longleftrightarrow> action \<in> {''opened'', ''reopened'', ''synchronize''}"

definition PullRequestSourceModeHead :: string where
  "PullRequestSourceModeHead = ''head''"

definition ValidatePullRequestSnapshot :: "(string \<Rightarrow> bool) \<Rightarrow> PullRequestSnapshot \<Rightarrow> go_error option" where
  "ValidatePullRequestSnapshot httpsURL snapshot0 =
     (let snapshot = normalizePullRequestSnapshot snapshot0
      in if pr_Number snapshot \<le> 0 then Some (Errorf ''pull request number must be positive'')
         else if \<not> isSupportedPullRequestAction (pr_Action snapshot) then Some (Errorf ''pull request action is unsupported'')
         else if \<not> httpsURL (pr_URL snapshot) then Some (Errorf ''pull request URL must be an absolute HTTPS URL'')
         else if pr_BaseRef snapshot = [] \<or> pr_BaseSHA snapshot = [] \<or> pr_HeadRef snapshot = [] \<or> pr_HeadSHA snapshot = []
         then Some (Errorf ''pull request base and head refs and SHAs are required'')
         else if pr_SourceMode snapshot \<noteq> PullRequestSourceModeHead
         then Some (Errorf ''pull request source mode must be head'')
         else None)"

definition BuildTrigger_Validate :: "(string \<Rightarrow> bool) \<Rightarrow> BuildTrigger \<Rightarrow> go_error option" where
  "BuildTrigger_Validate httpsURL t =
     (case t_PullRequest t of
        None \<Rightarrow> None
      | Some pr \<Rightarrow>
          (case ValidatePullRequestSnapshot httpsURL pr of
             Some err \<Rightarrow> Some err
           | None \<Rightarrow>
               (if t_Kind t \<noteq> BuildTriggerKindWebhook \<or> t_SCMProvider t \<noteq> Some ''github'' \<or> t_EventType t \<noteq> Some ''pull_request''
                then Some (Errorf ''pull request snapshot requires a GitHub pull_request webhook trigger'')
                else if t_CommitSHA t \<noteq> Some (pr_HeadSHA pr)
                then Some (Errorf ''pull request trigger commit SHA must match the head SHA'')
                else if t_Ref t \<noteq> Some (pr_HeadRef pr) then Some (Errorf ''pull request trigger ref must match the head ref'')
                else if t_RefName t \<noteq> Some (pr_HeadRef pr)
                then Some (Errorf ''pull request trigger ref name must match the head ref'')
                else None)))"

record RepositoryIdentitySnapshot =
  ris_RegisteredRepositoryID :: string
  ris_SCMConnectionID :: string
  ris_ProviderRepositoryID :: string

definition RepositoryIdentitySnapshot_Validate :: "RepositoryIdentitySnapshot \<Rightarrow> go_error option" where
  "RepositoryIdentitySnapshot_Validate s =
     (if TrimSpace (ris_RegisteredRepositoryID s) = [] \<or> TrimSpace (ris_SCMConnectionID s) = [] \<or>
         TrimSpace (ris_ProviderRepositoryID s) = []
      then Some (Errorf ''repository identity snapshot fields are required'') else None)"

definition applyBuildRepositoryIdentity :: "Build \<Rightarrow> RepositoryIdentitySnapshot option \<Rightarrow> go_error + Build" where
  "applyBuildRepositoryIdentity build snapshot =
     (case snapshot of
        None \<Rightarrow> Inr build
      | Some sn \<Rightarrow>
          (case RepositoryIdentitySnapshot_Validate sn of
             Some err \<Rightarrow> Inl err
           | None \<Rightarrow>
               (let build1 = build\<lparr>b_RegisteredRepositoryID := Some (TrimSpace (ris_RegisteredRepositoryID sn)),
                                   b_SCMConnectionID := Some (TrimSpace (ris_SCMConnectionID sn)),
                                   b_ProviderRepositoryID := Some (TrimSpace (ris_ProviderRepositoryID sn))\<rparr>
                in case Build_ValidateRepositoryIdentitySnapshot build1 of Some err \<Rightarrow> Inl err | None \<Rightarrow> Inr build1)))"

record CreateBuildSourceInput =
  si_RepositoryURL :: string
  si_Ref :: string
  si_CommitSHA :: string

definition buildSourceSpecFromInput :: "CreateBuildSourceInput option \<Rightarrow> go_error + SourceSpec option" where
  "buildSourceSpecFromInput input =
     (case input of
        None \<Rightarrow> Inr None
      | Some i \<Rightarrow>
          (let repoURL = TrimSpace (si_RepositoryURL i); ref = TrimSpace (si_Ref i); commitSHA = TrimSpace (si_CommitSHA i)
           in if repoURL = [] then Inl (Errorf ''repo_url is required'')
              else if ref = [] \<and> commitSHA = [] then Inl (Errorf ''ref or commit_sha is required'')
              else Inr (NewSourceSpec repoURL ref commitSHA)))"

definition buildSourceRepositoryURL :: "SourceSpec option \<Rightarrow> string" where
  "buildSourceRepositoryURL spec = (case spec of None \<Rightarrow> [] | Some s \<Rightarrow> TrimSpace (ss_RepositoryURL s))"

definition buildSourceRef :: "SourceSpec option \<Rightarrow> string option" where
  "buildSourceRef spec = (case spec of None \<Rightarrow> None | Some s \<Rightarrow> trimOptional (ss_Ref s))"

definition buildSourceCommitSHA :: "SourceSpec option \<Rightarrow> string option" where
  "buildSourceCommitSHA spec = (case spec of None \<Rightarrow> None | Some s \<Rightarrow> trimOptional (ss_CommitSHA s))"

definition validateRequestedBuildPriority :: "int \<Rightarrow> go_error option" where
  "validateRequestedBuildPriority priority =
     (if priority = 0 then None
      else if \<not> ValidPriority priority then Some (Errorf ''priority must be between 1 and 10'') else None)"

record CreateBuildInput =
  bi_ProjectID :: string
  bi_JobID :: "string option"
  bi_Priority :: int
  bi_Steps :: "CreateBuildStepInput list"
  bi_Source :: "CreateBuildSourceInput option"
  bi_Trigger :: "CreateBuildTriggerInput option"
  bi_RepositoryIdentity :: "RepositoryIdentitySnapshot option"

record CreatePipelineBuildInput =
  pi_ProjectID :: string
  pi_JobID :: "string option"
  pi_Priority :: int
  pi_PipelineYAML :: string
  pi_PipelinePath :: string
  pi_Source :: "CreateBuildSourceInput option"
  pi_Trigger :: "CreateBuildTriggerInput option"
  pi_RepositoryIdentity :: "RepositoryIdentitySnapshot option"

section \<open>Durable jobs\<close>

definition resolveExecutionImage :: "Externals \<Rightarrow> BuildService \<Rightarrow> Build \<Rightarrow> string" where
  "resolveExecutionImage x s build =
     (let defaultImage = TrimSpace (bs_defaultExecutionImage s)
      in case b_PipelineConfigYAML build of
           None \<Rightarrow> defaultImage
         | Some yaml \<Rightarrow>
             (let yamlText = TrimSpace yaml
              in if yamlText = [] then defaultImage
                 else (case LoadAndResolve (x_Decode x) yamlText of
                         Inl _ \<Rightarrow> defaultImage
                       | Inr resolved \<Rightarrow> (if rp_Image resolved \<noteq> [] then rp_Image resolved else defaultImage))))"

definition declared_output :: "Externals \<Rightarrow> nat \<Rightarrow> Build \<Rightarrow> ExecutionJob \<Rightarrow> nat \<Rightarrow> string \<Rightarrow> ExecutionJobOutput" where
  "declared_output x off build lastJob idx name =
     \<lparr>o_ID = x_uuid x (off + idx), o_JobID = j_ID lastJob, o_BuildID = b_ID build,
      o_Name = ''output-'' @ FormatInt (int idx + 1), o_Kind = ''artifact'', o_DeclaredPath = name, o_DestinationURI = None,
      o_ContentType = None, o_SizeBytes = None, o_Digest = None, o_Status = ExecutionJobOutputStatusDeclared,
      o_CreatedAt = x_now x\<rparr>"

text \<open>Called with at least one job only.\<close>

definition declaredOutputsForBuild :: "Externals \<Rightarrow> nat \<Rightarrow> Build \<Rightarrow> ExecutionJob list \<Rightarrow> ExecutionJobOutput list" where
  "declaredOutputsForBuild x off build jobs =
     (case b_PipelineConfigYAML build of
        None \<Rightarrow> []
      | Some yaml \<Rightarrow>
          (if TrimSpace yaml = [] then []
           else (case LoadAndResolve (x_Decode x) (TrimSpace yaml) of
                   Inl _ \<Rightarrow> []
                 | Inr resolved \<Rightarrow>
                     map (\<lambda>(idx, name). declared_output x off build (last jobs) idx name)
                       (filter (\<lambda>(idx, name). name \<noteq> []) (enumerate 0 (map TrimSpace (a_Paths (rp_Artifacts resolved))))))))"

definition createDurableJobsForBuild ::
  "Externals \<Rightarrow> nat \<Rightarrow> Build \<Rightarrow> BuildStep list \<Rightarrow> BuildService \<Rightarrow> (BuildService \<times> svc_error option) option" where
  "createDurableJobsForBuild x off build steps s =
     (case bs_executionJobRepo s of
        None \<Rightarrow> Some (s, None)
      | Some repo \<Rightarrow>
          (if length steps = 0 then Some (s, None)
           else (case Plan (x_ToJSON x) (x_sha256_hex x) (\<lambda>i. x_uuid x (off + i)) (NewBuildExecutionPlanner (x_now x))
                        build steps (resolveExecutionImage x s build) of
                   None \<Rightarrow> None
                 | Some (Inl err) \<Rightarrow> Some (s, Some (Svc err))
                 | Some (Inr jobs) \<Rightarrow>
                     (let s1 = s\<lparr>bs_executionJobRepo := Some (fst (CreateJobsForBuild jobs repo))\<rparr>
                      in case bs_executionOutputRepo s of
                           None \<Rightarrow> Some (s1, None)
                         | Some outs \<Rightarrow>
                             (let declared = (if length jobs = 0 then [] else declaredOutputsForBuild x (off + length jobs) build jobs)
                              in if length declared = 0 then Some (s1, None)
                                 else Some (s1\<lparr>bs_executionOutputRepo := Some (fst (CreateMany declared outs))\<rparr>, None))))))"

text \<open>The common end of the requests: durable jobs, then the commit status of the queued build.\<close>

definition jobs_then_notify ::
  "Externals \<Rightarrow> nat \<Rightarrow> Build \<Rightarrow> BuildStep list \<Rightarrow> BuildService \<Rightarrow> (BuildService \<times> (svc_error + Build)) option" where
  "jobs_then_notify x off queuedBuild steps s =
     (case createDurableJobsForBuild x off queuedBuild steps s of
        None \<Rightarrow> None
      | Some (s1, Some err) \<Rightarrow> Some (s1, Inl err)
      | Some (s1, None) \<Rightarrow> Some (notifySCMBuildStatus queuedBuild s1, Inr queuedBuild))"

section \<open>Creating builds\<close>

definition new_build :: "string \<Rightarrow> time \<Rightarrow> BuildStatus \<Rightarrow> string \<Rightarrow> string option \<Rightarrow> int \<Rightarrow> SourceSpec option \<Rightarrow> BuildTrigger \<Rightarrow> Build" where
  "new_build i now status projectID jobID priority sourceSpec trigger =
     \<lparr>b_ID = i, b_BuildNumber = 0, b_ProjectID = projectID, b_JobID = jobID, b_Priority = NormalizePriority priority,
      b_Status = status, b_CreatedAt = now, b_QueuedAt = None, b_StartedAt = None, b_FinishedAt = None,
      b_CurrentStepIndex = 0, b_AttemptNumber = 1, b_RerunOfBuildID = None, b_RerunFromStepIdx = None,
      b_ErrorMessage = None, b_ApplicationVersion = None, b_RegisteredRepositoryID = None, b_SCMConnectionID = None,
      b_ProviderRepositoryID = None, b_PipelineConfigYAML = None, b_PipelineName = None, b_PipelineSource = None,
      b_PipelinePath = None, b_Source = sourceSpec, b_RepoURL = buildOptionalStringPtr (buildSourceRepositoryURL sourceSpec),
      b_Ref = buildSourceRef sourceSpec, b_CommitSHA = buildSourceCommitSHA sourceSpec, b_SourceRef = None,
      b_SourceSHA = None, b_SourceAuthorName = None, b_SourceAuthorEmail = None, b_SourceCommitterName = None,
      b_SourceCommitterEmail = None, b_TriggerType = [], b_TriggeredBy = None, b_Trigger = trigger,
      b_RequestedImageRef = None, b_ResolvedImageRef = None, b_ImageSourceKind = ImageSourceKindExternal,
      b_ManagedImageID = None, b_ManagedImageVersionID = None\<rparr>"

text \<open>Repository identity, metadata and trigger checks that both creation requests end with.\<close>

definition finish_new_build :: "Externals \<Rightarrow> RepositoryIdentitySnapshot option \<Rightarrow> Build \<Rightarrow> go_error + Build" where
  "finish_new_build x identity build =
     (case applyBuildRepositoryIdentity build identity of
        Inl err \<Rightarrow> Inl err
      | Inr build1 \<Rightarrow>
          (let build2 = NormalizeBuildMetadata build1
           in case BuildTrigger_Validate (x_httpsURL x) (b_Trigger build2) of Some err \<Rightarrow> Inl err | None \<Rightarrow> Inr build2))"

definition requested_step :: "Externals \<Rightarrow> string \<Rightarrow> nat \<Rightarrow> CreateBuildStepInput \<Rightarrow> BuildStep" where
  "requested_step x buildID idx step =
     (let normalized = normalizeCreateStepInput step; name0 = TrimSpace (ci_Name normalized);
          name = (if name0 = [] then ''step-'' @ FormatInt (int idx + 1) else name0)
      in (zero_step (x_uuid x (Suc idx)) buildID (int idx))
           \<lparr>s_Name := name, s_Command := ci_Command normalized, s_Args := ci_Args normalized, s_Env := ci_Env normalized,
            s_WorkingDir := ci_WorkingDir normalized, s_TimeoutSeconds := ci_TimeoutSeconds normalized,
            s_Status := BuildStepStatusPending, s_ImageSourceKind := ImageSourceKindExternal\<rparr>)"

definition queue_new_build ::
  "Externals \<Rightarrow> Build \<Rightarrow> BuildStep list \<Rightarrow> BuildService \<Rightarrow> (BuildService \<times> (svc_error + Build)) option" where
  "queue_new_build x build steps s =
     (case CreateQueuedBuild (x_uuid x 0) (\<lambda>k. x_uuid x (Suc k)) (x_now x) build steps (bs_buildRepo s) of
        (repo, Inl err) \<Rightarrow> Some (s\<lparr>bs_buildRepo := repo\<rparr>, Inl (Repo err))
      | (repo, Inr queuedBuild) \<Rightarrow> jobs_then_notify x (Suc (length steps)) queuedBuild steps (s\<lparr>bs_buildRepo := repo\<rparr>))"

definition CreateBuild ::
  "Externals \<Rightarrow> CreateBuildInput \<Rightarrow> BuildService \<Rightarrow> (BuildService \<times> (svc_error + Build)) option" where
  "CreateBuild x input s =
     (if bi_ProjectID input = [] then Some (s, Inl (Svc (Errorf ''project_id is required'')))
      else case validateRequestedBuildPriority (bi_Priority input) of
        Some err \<Rightarrow> Some (s, Inl (Svc err))
      | None \<Rightarrow>
          (case buildSourceSpecFromInput (bi_Source input) of
             Inl err \<Rightarrow> Some (s, Inl (Svc err))
           | Inr sourceSpec \<Rightarrow>
               (case finish_new_build x (bi_RepositoryIdentity input)
                       (new_build (x_uuid x 0) (x_now x) BuildStatusPending (bi_ProjectID input) (bi_JobID input)
                          (bi_Priority input) sourceSpec (toDomainBuildTrigger (bi_Trigger input))) of
                  Inl err \<Rightarrow> Some (s, Inl (Svc err))
                | Inr build \<Rightarrow>
                    (if length (bi_Steps input) > 0
                     then queue_new_build x build
                            (map (\<lambda>(idx, step). requested_step x (b_ID build) idx step) (enumerate 0 (bi_Steps input))) s
                     else (case Create (x_uuid x 0) build (bs_buildRepo s) of
                             (repo, Inl err) \<Rightarrow> Some (s\<lparr>bs_buildRepo := repo\<rparr>, Inl (Repo err))
                           | (repo, Inr createdBuild) \<Rightarrow>
                               Some (notifySCMBuildStatus createdBuild (s\<lparr>bs_buildRepo := repo\<rparr>), Inr createdBuild))))))"

definition pipeline_build :: "Externals \<Rightarrow> CreatePipelineBuildInput \<Rightarrow> SourceSpec option \<Rightarrow> ResolvedPipeline \<Rightarrow> Build" where
  "pipeline_build x input sourceSpec resolved =
     (new_build (x_uuid x 0) (x_now x) BuildStatusQueued (pi_ProjectID input) (pi_JobID input) (pi_Priority input) sourceSpec
        (toDomainBuildTrigger (pi_Trigger input)))
       \<lparr>b_PipelineConfigYAML := Some (TrimSpace (pi_PipelineYAML input)),
        b_PipelineName := (if rp_Name resolved \<noteq> [] then Some (rp_Name resolved) else None),
        b_PipelineSource := Some ''inline'',
        b_PipelinePath := (let p = TrimSpace (pi_PipelinePath input) in if p \<noteq> [] then Some p else None),
        b_RequestedImageRef := buildOptionalStringPtr (TrimSpace (rp_Image resolved))\<rparr>"

definition CreateBuildFromPipeline ::
  "Externals \<Rightarrow> CreatePipelineBuildInput \<Rightarrow> BuildService \<Rightarrow> (BuildService \<times> (svc_error + Build)) option" where
  "CreateBuildFromPipeline x input s =
     (if pi_ProjectID input = [] then Some (s, Inl (Svc (Errorf ''project_id is required'')))
      else case validateRequestedBuildPriority (pi_Priority input) of
        Some err \<Rightarrow> Some (s, Inl (Svc err))
      | None \<Rightarrow>
          (let yamlText = TrimSpace (pi_PipelineYAML input)
           in if yamlText = [] then Some (s, Inl (Svc (Errorf ''pipeline YAML is required'')))
              else case buildSourceSpecFromInput (pi_Source input) of
                Inl err \<Rightarrow> Some (s, Inl (Svc err))
              | Inr sourceSpec \<Rightarrow>
                  (case LoadAndResolve (x_Decode x) yamlText of
                     Inl err \<Rightarrow> Some (s, Inl (Svc (Errorf err)))
                   | Inr resolved0 \<Rightarrow>
                       (let pipelinePath = TrimSpace (pi_PipelinePath input)
                        in case (if pipelinePath \<noteq> [] then resolveRepoStepWorkingDirs pipelinePath resolved0 else Inr resolved0) of
                             Inl err \<Rightarrow> Some (s, Inl (Svc err))
                           | Inr resolved \<Rightarrow>
                               (case finish_new_build x (pi_RepositoryIdentity input) (pipeline_build x input sourceSpec resolved) of
                                  Inl err \<Rightarrow> Some (s, Inl (Svc err))
                                | Inr build \<Rightarrow>
                                    queue_new_build x build
                                      (pipelineStepsToDomain (\<lambda>i. x_uuid x (Suc i)) (x_uuid x 0) (rp_Steps resolved)) s)))))"

section \<open>Queueing from a template\<close>

definition queue_with_steps ::
  "Externals \<Rightarrow> string \<Rightarrow> BuildStep list \<Rightarrow> BuildService \<Rightarrow> (BuildService \<times> (svc_error + Build)) option" where
  "queue_with_steps x i steps s =
     (case QueueBuild (\<lambda>k. x_uuid x k) (x_now x) i steps (bs_buildRepo s) of
        (repo, Inl err) \<Rightarrow> Some (s\<lparr>bs_buildRepo := repo\<rparr>, Inl (Repo err))
      | (repo, Inr queuedBuild) \<Rightarrow> jobs_then_notify x (length steps) queuedBuild steps (s\<lparr>bs_buildRepo := repo\<rparr>))"

definition QueueBuildWithTemplateAndCustomSteps ::
  "Externals \<Rightarrow> string \<Rightarrow> string \<Rightarrow> QueueBuildCustomStepInput list \<Rightarrow> BuildService \<Rightarrow>
     (BuildService \<times> (svc_error + Build)) option" where
  "QueueBuildWithTemplateAndCustomSteps x i template customSteps s =
     (case GetByID i (bs_buildRepo s) of
        Inl err \<Rightarrow> Some (s, Inl (mapRepoErr (Repo err)))
      | Inr build \<Rightarrow>
          (if \<not> CanTransitionBuild (b_Status build) BuildStatusQueued then Some (s, Inl (Svc ErrInvalidBuildStatusTransition))
           else (let normalizedTemplate = ToLower (TrimSpace template)
                 in if normalizedTemplate = ''custom''
                    then (case buildStepsForCustomTemplate (x_uuid x) i customSteps of
                            Inl err \<Rightarrow> Some (s, Inl (Svc err))
                          | Inr steps \<Rightarrow> queue_with_steps x i steps s)
                    else queue_with_steps x i (buildStepsForTemplate (x_uuid x) i normalizedTemplate) s)))"

definition QueueBuild_service ::
  "Externals \<Rightarrow> string \<Rightarrow> BuildService \<Rightarrow> (BuildService \<times> (svc_error + Build)) option" where
  "QueueBuild_service x i s = QueueBuildWithTemplateAndCustomSteps x i [] [] s"

section \<open>Retries and reruns\<close>

definition job_repo_error :: "go_error \<Rightarrow> svc_error" where
  "job_repo_error err = (if err = ErrExecutionJobNotFound then Svc ErrExecutionJobNotFound else Repo err)"

definition cloned_output :: "Externals \<Rightarrow> string \<Rightarrow> string \<Rightarrow> nat \<Rightarrow> ExecutionJobOutput \<Rightarrow> ExecutionJobOutput" where
  "cloned_output x createdJobID newBuildID k out =
     \<lparr>o_ID = x_uuid x k, o_JobID = createdJobID, o_BuildID = newBuildID, o_Name = o_Name out, o_Kind = o_Kind out,
      o_DeclaredPath = o_DeclaredPath out, o_DestinationURI = None, o_ContentType = None, o_SizeBytes = None,
      o_Digest = None, o_Status = ExecutionJobOutputStatusDeclared, o_CreatedAt = x_now x\<rparr>"

text \<open>The loop over the Go map takes its entries in the order of the list that stands for it.\<close>

definition cloneDeclaredOutputsForAttempts ::
  "Externals \<Rightarrow> nat \<Rightarrow> (string, string) gomap \<Rightarrow> string \<Rightarrow> BuildService \<Rightarrow> BuildService" where
  "cloneDeclaredOutputsForAttempts x off sourceToCreatedJobID newBuildID s =
     (case bs_executionOutputRepo s of
        None \<Rightarrow> s
      | Some repo \<Rightarrow>
          (let found = concat (map (\<lambda>(sourceJobID, createdJobID).
                         map (\<lambda>out. (createdJobID, out)) (ListByJobID_outputs sourceJobID repo)) sourceToCreatedJobID);
               clonedOutputs = map (\<lambda>(k, createdJobID, out). cloned_output x createdJobID newBuildID (off + k) out) (enumerate 0 found)
           in if length clonedOutputs = 0 then s
              else s\<lparr>bs_executionOutputRepo := Some (fst (CreateMany clonedOutputs repo))\<rparr>))"

definition RetryJob ::
  "Externals \<Rightarrow> string \<Rightarrow> BuildService \<Rightarrow> BuildService \<times> (svc_error + (Build \<times> ExecutionJob))" where
  "RetryJob x jobID s =
     (case bs_executionJobRepo s of
        None \<Rightarrow> (s, Inl (Svc (Errorf ''execution job repository not configured'')))
      | Some jobs \<Rightarrow>
          (case GetJobByID jobID jobs of
             Inl err \<Rightarrow> (s, Inl (job_repo_error err))
           | Inr failedJob \<Rightarrow>
               (if j_Status failedJob \<noteq> ExecutionJobStatusFailed
                then (s, Inl (Svc (Errorf ''execution job is not retryable'')))
                else case GetByID (j_BuildID failedJob) (bs_buildRepo s) of
                  Inl err \<Rightarrow> (s, Inl (mapRepoErr (Repo err)))
                | Inr sourceBuild \<Rightarrow>
                    (case GetStepsByBuildID (j_BuildID failedJob) (bs_buildRepo s) of
                       Inl err \<Rightarrow> (s, Inl (mapRepoErr (Repo err)))
                     | Inr sourceSteps \<Rightarrow>
                         (case find (\<lambda>st. s_StepIndex st = j_StepIndex failedJob) sourceSteps of
                            None \<Rightarrow> (s, Inl (Svc (Errorf ''invalid rerun step index'')))
                          | Some sourceStep \<Rightarrow>
                              (let now = x_now x;
                                   newBuild = buildAttemptFromSource (x_uuid x 0) sourceBuild now (Some (j_StepIndex failedJob));
                                   newStep = cloneStepForAttempt (x_uuid x 1) (b_ID newBuild) sourceStep 0
                               in case CreateQueuedBuild (x_uuid x 0) (\<lambda>k. x_uuid x (Suc k)) now newBuild [newStep] (bs_buildRepo s) of
                                    (repo, Inl err) \<Rightarrow> (s\<lparr>bs_buildRepo := repo\<rparr>, Inl (Repo err))
                                  | (repo, Inr createdBuild) \<Rightarrow>
                                      (let newJob = cloneRetryJobAttempt (x_sha256_hex x) (x_uuid x 2) failedJob (b_ID createdBuild) newStep now;
                                           (jobs1, createdJobs) = CreateJobsForBuild [newJob] jobs;
                                           s1 = s\<lparr>bs_buildRepo := repo, bs_executionJobRepo := Some jobs1\<rparr>
                                       in if length createdJobs = 0 then (s1, Inl (Repo ErrExecutionJobNotFound))
                                          else (notifySCMBuildStatus createdBuild
                                                  (cloneDeclaredOutputsForAttempts x 3 [(j_ID failedJob, j_ID (hd createdJobs))]
                                                     (b_ID createdBuild) s1),
                                                Inr (createdBuild, hd createdJobs)))))))))"

text \<open>
  The jobs of a partial rerun: a clone of the last job of the step it repeats, or a job made from the
  step when there is none; beside them the map from cloned to new job identifiers.
\<close>

definition rerun_job ::
  "Externals \<Rightarrow> string \<Rightarrow> Build \<Rightarrow> (int, ExecutionJob) gomap \<Rightarrow> string \<Rightarrow> BuildStep \<Rightarrow> BuildStep \<Rightarrow> ExecutionJob \<times> string option" where
  "rerun_job x defaultImage createdBuild latestJobByStep jobID sourceStep newStep =
     (case map_of latestJobByStep (s_StepIndex sourceStep) of
        Some sourceJob \<Rightarrow>
          (cloneJobAttemptFromPrior (x_sha256_hex x) jobID sourceJob (b_ID createdBuild) newStep (x_now x), Some (j_ID sourceJob))
      | None \<Rightarrow>
          (fallbackRerunJobFromStep (x_ToJSON x) (x_sha256_hex x) jobID createdBuild newStep defaultImage (x_now x), None))"

definition RerunBuildFromStep ::
  "Externals \<Rightarrow> string \<Rightarrow> int \<Rightarrow> BuildService \<Rightarrow> BuildService \<times> (svc_error + Build)" where
  "RerunBuildFromStep x buildID stepIndex s =
     (case bs_executionJobRepo s of
        None \<Rightarrow> (s, Inl (Svc (Errorf ''execution job repository not configured'')))
      | Some jobs \<Rightarrow>
          (case GetByID buildID (bs_buildRepo s) of
             Inl err \<Rightarrow> (s, Inl (mapRepoErr (Repo err)))
           | Inr sourceBuild \<Rightarrow>
               (case GetStepsByBuildID buildID (bs_buildRepo s) of
                  Inl err \<Rightarrow> (s, Inl (mapRepoErr (Repo err)))
                | Inr sourceSteps \<Rightarrow>
                    (let selected = sort_slice step_less (filter (\<lambda>st. s_StepIndex st \<ge> stepIndex) sourceSteps); n = length selected
                     in if n = 0 then (s, Inl (Svc (Errorf ''invalid rerun step index'')))
                        else (let now = x_now x;
                                  newBuild = buildAttemptFromSource (x_uuid x 0) sourceBuild now (Some stepIndex);
                                  newSteps = map (\<lambda>(idx, st). cloneStepForAttempt (x_uuid x (Suc idx)) (b_ID newBuild) st (int idx))
                                               (enumerate 0 selected)
                              in case CreateQueuedBuild (x_uuid x 0) (\<lambda>k. x_uuid x (Suc k)) now newBuild newSteps (bs_buildRepo s) of
                                   (repo, Inl err) \<Rightarrow> (s\<lparr>bs_buildRepo := repo\<rparr>, Inl (Repo err))
                                 | (repo, Inr createdBuild) \<Rightarrow>
                                     (let latestJobByStep = latestJobsByStepIndex (List.map_filter id (GetJobsByBuildID (b_ID sourceBuild) jobs));
                                          made = map (\<lambda>(k, st, new). rerun_job x (resolveExecutionImage x s sourceBuild) createdBuild
                                                    latestJobByStep (x_uuid x (Suc (n + k))) st new)
                                                   (enumerate 0 (zip selected newSteps));
                                          sourceToCreatedJobID = fold (\<lambda>(job, source) m. case source of None \<Rightarrow> m | Some i \<Rightarrow> gm_put i (j_ID job) m) made [];
                                          s1 = s\<lparr>bs_buildRepo := repo, bs_executionJobRepo := Some (fst (CreateJobsForBuild (map fst made) jobs))\<rparr>
                                      in (notifySCMBuildStatus createdBuild
                                            (cloneDeclaredOutputsForAttempts x (Suc (2 * n)) sourceToCreatedJobID (b_ID createdBuild) s1),
                                          Inr createdBuild)))))))"

definition RerunBuildFromJob ::
  "Externals \<Rightarrow> string \<Rightarrow> BuildService \<Rightarrow> BuildService \<times> (svc_error + Build)" where
  "RerunBuildFromJob x jobID s =
     (case bs_executionJobRepo s of
        None \<Rightarrow> (s, Inl (Svc (Errorf ''execution job repository not configured'')))
      | Some jobs \<Rightarrow>
          (case GetJobByID jobID jobs of
             Inl err \<Rightarrow> (s, Inl (job_repo_error err))
           | Inr job \<Rightarrow> RerunBuildFromStep x (j_BuildID job) (j_StepIndex job) s))"

definition RerunBuild ::
  "Externals \<Rightarrow> string \<Rightarrow> BuildService \<Rightarrow> (BuildService \<times> (svc_error + Build)) option" where
  "RerunBuild x buildID s =
     (case GetByID buildID (bs_buildRepo s) of
        Inl err \<Rightarrow> Some (s, Inl (mapRepoErr (Repo err)))
      | Inr sourceBuild \<Rightarrow>
          (case GetStepsByBuildID buildID (bs_buildRepo s) of
             Inl err \<Rightarrow> Some (s, Inl (mapRepoErr (Repo err)))
           | Inr sourceSteps0 \<Rightarrow>
               (case validateBuildRerunContext sourceBuild sourceSteps0 of
                  Some err \<Rightarrow> Some (s, Inl (Svc err))
                | None \<Rightarrow>
                    (let sourceSteps = sort_slice step_less sourceSteps0;
                         newBuild = buildAttemptFromSource (x_uuid x 0) sourceBuild (x_now x) None;
                         newSteps = map (\<lambda>(idx, st). cloneStepForAttempt (x_uuid x (Suc idx)) (b_ID newBuild) st (int idx))
                                      (enumerate 0 sourceSteps)
                     in queue_new_build x newBuild newSteps s))))"

section \<open>Claims and leases through the service (read_queue.go)\<close>

definition ClaimNextRunnableJob_service :: "StepClaim \<Rightarrow> BuildService \<Rightarrow> BuildService \<times> ExecutionJob option" where
  "ClaimNextRunnableJob_service claim s =
     (case bs_executionJobRepo s of
        None \<Rightarrow> (s, None)
      | Some jobs \<Rightarrow>
          (let (jobs1, res) = ClaimNextRunnableJob (job_repo_builds s) claim jobs
           in (s\<lparr>bs_executionJobRepo := Some jobs1\<rparr>, res)))"

definition ClaimJobByStepID_service ::
  "string \<Rightarrow> StepClaim \<Rightarrow> BuildService \<Rightarrow> BuildService \<times> (svc_error + ExecutionJob option)" where
  "ClaimJobByStepID_service stepID claim s =
     (case bs_executionJobRepo s of
        None \<Rightarrow> (s, Inr None)
      | Some jobs \<Rightarrow>
          (case ClaimJobByStepID (job_repo_builds s) stepID claim jobs of
             (jobs1, Inl err) \<Rightarrow> (s\<lparr>bs_executionJobRepo := Some jobs1\<rparr>, Inl (Repo err))
           | (jobs1, Inr (job, claimed)) \<Rightarrow>
               (s\<lparr>bs_executionJobRepo := Some jobs1\<rparr>, Inr (if claimed then Some job else None))))"

definition ClaimPendingStep_service ::
  "string \<Rightarrow> int \<Rightarrow> StepClaim \<Rightarrow> BuildService \<Rightarrow> BuildService \<times> (svc_error + BuildStep option)" where
  "ClaimPendingStep_service buildID stepIndex claim s =
     (case ClaimPendingStep buildID stepIndex claim (bs_buildRepo s) of
        (repo, Inl err) \<Rightarrow> (s\<lparr>bs_buildRepo := repo\<rparr>, Inl (mapRepoErr (Repo err)))
      | (repo, Inr step) \<Rightarrow> (s\<lparr>bs_buildRepo := repo\<rparr>, Inr step))"

definition ReclaimExpiredStep_service ::
  "string \<Rightarrow> int \<Rightarrow> time \<Rightarrow> StepClaim \<Rightarrow> BuildService \<Rightarrow> BuildService \<times> (svc_error + BuildStep option)" where
  "ReclaimExpiredStep_service buildID stepIndex reclaimBefore claim s =
     (case ReclaimExpiredStep buildID stepIndex reclaimBefore claim (bs_buildRepo s) of
        (repo, Inl err) \<Rightarrow> (s\<lparr>bs_buildRepo := repo\<rparr>, Inl (mapRepoErr (Repo err)))
      | (repo, Inr step) \<Rightarrow> (s\<lparr>bs_buildRepo := repo\<rparr>, Inr step))"

definition ErrStaleStepClaim :: svc_error where
  "ErrStaleStepClaim = Svc (Errorf ''stale step claim'')"

text \<open>A renewal answers whether it succeeded, or with an error; the step or job it returns is not used.\<close>

definition RenewJobLease_service ::
  "string \<Rightarrow> string \<Rightarrow> time \<Rightarrow> BuildService \<Rightarrow> BuildService \<times> (svc_error + bool)" where
  "RenewJobLease_service jobID claimToken leaseExpiresAt s =
     (case bs_executionJobRepo s of
        None \<Rightarrow> (s, Inr False)
      | Some jobs \<Rightarrow>
          (let (jobs1, _, outcome, err) = RenewJobLease jobID claimToken leaseExpiresAt jobs;
               s1 = s\<lparr>bs_executionJobRepo := Some jobs1\<rparr>
           in case err of
                Some e \<Rightarrow> (s1, Inl (Repo e))
              | None \<Rightarrow>
                  (if outcome = StepCompletionCompleted then (s1, Inr True)
                   else if outcome = StepCompletionStaleClaim then (s1, Inl ErrStaleStepClaim) else (s1, Inr False))))"

definition RenewStepLease_service ::
  "string \<Rightarrow> int \<Rightarrow> string \<Rightarrow> time \<Rightarrow> BuildService \<Rightarrow> BuildService \<times> (svc_error + bool)" where
  "RenewStepLease_service buildID stepIndex claimToken leaseExpiresAt s =
     (let (repo, _, outcome, err) = RenewStepLease buildID stepIndex claimToken leaseExpiresAt (bs_buildRepo s);
          s1 = s\<lparr>bs_buildRepo := repo\<rparr>
      in case err of
           Some e \<Rightarrow> (s1, Inl (mapRepoErr (Repo e)))
         | None \<Rightarrow>
             (if outcome = StepCompletionCompleted then (s1, Inr True)
              else if outcome = StepCompletionStaleClaim then (s1, Inl ErrStaleStepClaim)
              else (s1, Inl (Svc ErrInvalidBuildStepTransition))))"

end
