(* ===== verification/Build_Preparation.thy ===== *)
theory Build_Preparation
  imports Build_Requests
begin

text \<open>
  Preparing a queued build (\<open>service/build/source.go\<close>): workspace, source checkout, trigger artifact,
  application version, and the two status changes around them. What the file system, Git and the
  release snapshotter answer is in \<open>PreparationIO\<close>. The request is split where the code gives up
  control for long: \<open>begin_preparation\<close>, the work, and \<open>finish_preparation\<close>, so that what other
  requests do in between can be placed there.
\<close>

section \<open>Source of a build\<close>

record ResolvedBuildSourceSpec =
  rb_RepositoryURL :: string
  rb_Ref :: string
  rb_CommitSHA :: string
  rb_RepositoryIdentity :: "RepositoryIdentitySnapshot option"
  rb_HasSource :: bool

definition buildReadOptionalString :: "string option \<Rightarrow> string" where
  "buildReadOptionalString v = (case v of None \<Rightarrow> [] | Some s \<Rightarrow> TrimSpace s)"

definition build_identity :: "Build \<Rightarrow> RepositoryIdentitySnapshot option" where
  "build_identity build =
     (if b_RegisteredRepositoryID build \<noteq> None \<and> b_SCMConnectionID build \<noteq> None \<and> b_ProviderRepositoryID build \<noteq> None
      then Some \<lparr>ris_RegisteredRepositoryID = buildReadOptionalString (b_RegisteredRepositoryID build),
                 ris_SCMConnectionID = buildReadOptionalString (b_SCMConnectionID build),
                 ris_ProviderRepositoryID = buildReadOptionalString (b_ProviderRepositoryID build)\<rparr>
      else None)"

definition buildSourceSpecFromBuild :: "Build \<Rightarrow> ResolvedBuildSourceSpec" where
  "buildSourceSpecFromBuild build =
     (case b_Source build of
        Some spec \<Rightarrow>
          (let url = TrimSpace (ss_RepositoryURL spec)
           in \<lparr>rb_RepositoryURL = url, rb_Ref = buildReadOptionalString (ss_Ref spec),
               rb_CommitSHA = buildReadOptionalString (ss_CommitSHA spec),
               rb_RepositoryIdentity = build_identity build, rb_HasSource = (url \<noteq> [])\<rparr>)
      | None \<Rightarrow>
          (let url = buildReadOptionalString (b_RepoURL build)
           in \<lparr>rb_RepositoryURL = url, rb_Ref = buildReadOptionalString (b_Ref build),
               rb_CommitSHA = buildReadOptionalString (b_CommitSHA build),
               rb_RepositoryIdentity = build_identity build, rb_HasSource = (url \<noteq> [])\<rparr>))"

text \<open>The error values of the source package the code distinguishes; every error carries its text.\<close>

datatype source_error_kind =
  ErrRepositoryURLRequired | ErrCloneFailed | ErrRefNotFound | ErrCommitNotFound | ErrCheckoutTargetRequired
| ErrCheckoutFailed | ErrResolveCommitFailed | ErrSourceResolverNotConfigured | ErrExecutionWorkspaceRootNotConfigured
| OtherSourceError

type_synonym source_error = "source_error_kind \<times> string"

definition withBuildSourceFailureDetail :: "string \<Rightarrow> string \<Rightarrow> string" where
  "withBuildSourceFailureDetail base errText =
     (let detail = TrimSpace errText; prefix = base @ '':''
      in if detail = [] \<or> detail = base then base
         else if HasPrefix detail prefix then detail else prefix @ '' '' @ detail)"

definition classifyBuildSourceFailureReason :: "source_error \<Rightarrow> ResolvedBuildSourceSpec \<Rightarrow> string" where
  "classifyBuildSourceFailureReason err sourceSpec =
     (case fst err of
        ErrRepositoryURLRequired \<Rightarrow> ''repository URL is required''
      | ErrCloneFailed \<Rightarrow> withBuildSourceFailureDetail ''repository clone failed'' (snd err)
      | ErrRefNotFound \<Rightarrow> ''ref not found: '' @ rb_Ref sourceSpec
      | ErrCommitNotFound \<Rightarrow> ''commit not found: '' @ rb_CommitSHA sourceSpec
      | ErrCheckoutTargetRequired \<Rightarrow> ''ref or commit_sha is required''
      | ErrCheckoutFailed \<Rightarrow> withBuildSourceFailureDetail ''repository checkout failed'' (snd err)
      | ErrResolveCommitFailed \<Rightarrow> withBuildSourceFailureDetail ''unable to resolve final commit SHA'' (snd err)
      | ErrSourceResolverNotConfigured \<Rightarrow> ''source resolver not configured''
      | ErrExecutionWorkspaceRootNotConfigured \<Rightarrow> ''execution workspace root not configured''
      | OtherSourceError \<Rightarrow> withBuildSourceFailureDetail ''source checkout failed'' (snd err))"

record PreparationIO =
  io_workspaceRoot :: string
  io_prepareWorkspace :: "string option"
  io_sourceResolver :: bool
  io_materialize :: "ResolvedBuildSourceSpec \<Rightarrow> source_error + string"
  io_commitMetadata :: "(string \<times> string \<times> string \<times> string) option"
  io_handoff :: "string option"
  io_readVersionFile :: "string \<Rightarrow> string + string"
  io_ensureSnapshot :: "Build \<Rightarrow> string option"
  io_formatFailureReason :: "string \<Rightarrow> string"

definition go_error_text :: "go_error \<Rightarrow> string" where
  "go_error_text err =
     (case err of
        ErrBuildNotFound \<Rightarrow> ''build not found''
      | ErrInvalidBuildStatusTransition \<Rightarrow> ''invalid build status transition''
      | ErrInvalidBuildStepTransition \<Rightarrow> ''invalid build step transition''
      | ErrApplicationVersionConflict \<Rightarrow> ''application version is already set to a different value''
      | ErrExecutionJobNotFound \<Rightarrow> ''execution job not found''
      | Errorf msg \<Rightarrow> msg)"

definition error_text :: "svc_error \<Rightarrow> string" where
  "error_text err = (case err of Repo e \<Rightarrow> go_error_text e | Svc e \<Rightarrow> go_error_text e)"

section \<open>Steps of the preparation\<close>

definition emitBuildPreparationLog :: "string \<Rightarrow> string \<Rightarrow> BuildService \<Rightarrow> BuildService" where
  "emitBuildPreparationLog buildID line s =
     (let trimmedBuildID = TrimSpace buildID; trimmedLine = TrimSpace line
      in if trimmedBuildID = [] \<or> trimmedLine = [] then s
         else record_call (WritePreparationLog trimmedBuildID trimmedLine) s)"

definition resolveBuildSourceInWorkspace ::
  "PreparationIO \<Rightarrow> string \<Rightarrow> ResolvedBuildSourceSpec \<Rightarrow> BuildService \<Rightarrow> BuildService \<times> (source_error + string)" where
  "resolveBuildSourceInWorkspace io buildID sourceSpec s =
     (if \<not> io_sourceResolver io then (s, Inl (ErrSourceResolverNotConfigured, ''source resolver not configured''))
      else if io_workspaceRoot io = [] then (s, Inl (ErrExecutionWorkspaceRootNotConfigured, ''execution workspace root not configured''))
      else (case io_materialize io sourceSpec of
              Inl err \<Rightarrow> (s, Inl err)
            | Inr resolvedCommit \<Rightarrow>
                (let commit = TrimSpace resolvedCommit
                 in if commit = [] then (s, Inl (ErrResolveCommitFailed, ''unable to resolve final commit SHA''))
                    else (let update = (case io_commitMetadata io of
                                  None \<Rightarrow> \<lparr>p_CommitSHA = commit, p_AuthorName = [], p_AuthorEmail = [], p_CommitterName = [], p_CommitterEmail = []\<rparr>
                                | Some (an, ae, cn, ce) \<Rightarrow>
                                    \<lparr>p_CommitSHA = commit, p_AuthorName = an, p_AuthorEmail = ae, p_CommitterName = cn, p_CommitterEmail = ce\<rparr>)
                          in case UpdateSourceProvenance (TrimSpace buildID) update (bs_buildRepo s) of
                               (repo, Inl err) \<Rightarrow> (s\<lparr>bs_buildRepo := repo\<rparr>, Inl (OtherSourceError, ''persisting resolved commit SHA: '' @ go_error_text err))
                             | (repo, Inr build) \<Rightarrow> (notifySCMBuildStatus build (s\<lparr>bs_buildRepo := repo\<rparr>), Inr commit)))))"

definition resolveApplicationVersionForBuild ::
  "Externals \<Rightarrow> PreparationIO \<Rightarrow> string \<Rightarrow> BuildService \<Rightarrow> BuildService \<times> (svc_error + Build)" where
  "resolveApplicationVersionForBuild x io buildID s =
     (case GetByID buildID (bs_buildRepo s) of
        Inl err \<Rightarrow> (s, Inl (Repo err))
      | Inr build \<Rightarrow>
          (if b_ApplicationVersion build \<noteq> None then (s, Inr build)
           else case b_PipelineConfigYAML build of
             None \<Rightarrow> (s, Inr build)
           | Some yaml \<Rightarrow>
               (if TrimSpace yaml = [] then (s, Inr build)
                else case LoadAndResolve (x_Decode x) yaml of
                  Inl err \<Rightarrow> (s, Inl (Svc (Errorf (''load pipeline application version configuration: '' @ err))))
                | Inr resolved \<Rightarrow>
                    (let config = rp_ApplicationVersion resolved
                     in if ApplicationVersionConfig_Empty config then (s, Inr build)
                        else case (if TrimSpace (av_File config) \<noteq> [] then
                                     (if io_workspaceRoot io = [] then Inl ''execution workspace root not configured''
                                      else io_readVersionFile io (av_File config))
                                   else ResolveApplicationVersion config build) of
                          Inl err \<Rightarrow> (s, Inl (Svc (Errorf err)))
                        | Inr version \<Rightarrow>
                            (case SetApplicationVersionIfUnset buildID version (bs_buildRepo s) of
                               (repo, Inl err) \<Rightarrow> (s\<lparr>bs_buildRepo := repo\<rparr>, Inl (Repo err))
                             | (repo, Inr build') \<Rightarrow> (s\<lparr>bs_buildRepo := repo\<rparr>, Inr build'))))))"

section \<open>The whole preparation\<close>

definition begin_preparation ::
  "Externals \<Rightarrow> string \<Rightarrow> BuildService \<Rightarrow> BuildService \<times> (svc_error + (Build \<times> bool))" where
  "begin_preparation x buildID s =
     (case GetByID buildID (bs_buildRepo s) of
        Inl err \<Rightarrow> (s, Inl (mapRepoErr (Repo err)))
      | Inr build \<Rightarrow>
          (if b_Status build = BuildStatusRunning \<or> b_Status build = BuildStatusPreparing then (s, Inr (build, False))
           else if b_Status build \<noteq> BuildStatusQueued then (s, Inl (Svc ErrInvalidBuildStatusTransition))
           else (case transitionBuildStatus x buildID BuildStatusPreparing None s of
                   (s1, Inl err) \<Rightarrow> (s1, Inl err)
                 | (s1, Inr build1) \<Rightarrow> (emitBuildPreparationLog buildID ''Preparing build workspace'' s1, Inr (build1, True)))))"

definition fail_preparation :: "Externals \<Rightarrow> string \<Rightarrow> string \<Rightarrow> BuildService \<Rightarrow> BuildService \<times> (svc_error + Build)" where
  "fail_preparation x buildID message s =
     (case persistBuildStatus x buildID BuildStatusFailed (Some message) s of
        (s1, Inl err) \<Rightarrow> (s1, Inl (mapRepoErr err)) | (s1, Inr failed) \<Rightarrow> (s1, Inr failed))"

text \<open>Each part of the work answers with the message the build fails with, if it does.\<close>

definition prepare_source :: "PreparationIO \<Rightarrow> string \<Rightarrow> Build \<Rightarrow> BuildService \<Rightarrow> BuildService \<times> string option" where
  "prepare_source io buildID build s =
     (let sourceSpec = buildSourceSpecFromBuild build
      in if \<not> rb_HasSource sourceSpec then (s, None)
         else (case resolveBuildSourceInWorkspace io buildID sourceSpec (emitBuildPreparationLog buildID ''Checking out source'' s) of
                 (s1, Inl err) \<Rightarrow> (s1, Some (classifyBuildSourceFailureReason err sourceSpec))
               | (s1, Inr _) \<Rightarrow> (emitBuildPreparationLog buildID ''Source checkout complete'' s1, None)))"

definition prepare_handoff :: "PreparationIO \<Rightarrow> string \<Rightarrow> Build \<Rightarrow> BuildService \<Rightarrow> BuildService \<times> string option" where
  "prepare_handoff io buildID build s =
     (if t_Kind (NormalizeBuildTrigger (b_Trigger build)) \<noteq> BuildTriggerKindArtifact then (s, None)
      else (let s1 = emitBuildPreparationLog buildID ''Preparing trigger artifact handoff'' s
            in case io_handoff io of
                 None \<Rightarrow> (emitBuildPreparationLog buildID ''Trigger artifact handoff complete'' s1, None)
               | Some msg \<Rightarrow>
                   (emitBuildPreparationLog buildID (io_formatFailureReason io msg)
                      (emitBuildPreparationLog buildID ''Trigger artifact handoff failed'' s1), Some msg)))"

definition prepare_version ::
  "Externals \<Rightarrow> PreparationIO \<Rightarrow> string \<Rightarrow> BuildService \<Rightarrow> BuildService \<times> (string + Build)" where
  "prepare_version x io buildID s =
     (case resolveApplicationVersionForBuild x io buildID s of
        (s1, Inr build) \<Rightarrow> (s1, Inr build)
      | (s1, Inl err) \<Rightarrow>
          (let message = ''application version resolution failed: '' @ error_text err
           in (emitBuildPreparationLog buildID (io_formatFailureReason io message)
                 (emitBuildPreparationLog buildID ''Application version resolution failed'' s1), Inl message)))"

definition prepare_release :: "PreparationIO \<Rightarrow> string \<Rightarrow> Build \<Rightarrow> BuildService \<Rightarrow> BuildService \<times> string option" where
  "prepare_release io buildID build s =
     (case b_ApplicationVersion build of
        None \<Rightarrow> (s, None)
      | Some version \<Rightarrow>
          (let s1 = emitBuildPreparationLog buildID (''Resolved application version: '' @ version) s
           in if \<not> bs_releaseSnapshotter s1 then (s1, None)
              else (record_call (EnsureSnapshot build) s1,
                    map_option (\<lambda>err. ''application release initialization failed: '' @ err) (io_ensureSnapshot io build))))"

definition finish_preparation :: "Externals \<Rightarrow> string \<Rightarrow> BuildService \<Rightarrow> BuildService \<times> (svc_error + Build)" where
  "finish_preparation x buildID s =
     transitionBuildStatus x buildID BuildStatusRunning None (emitBuildPreparationLog buildID ''Build workspace ready'' s)"

definition prepare_work ::
  "Externals \<Rightarrow> PreparationIO \<Rightarrow> string \<Rightarrow> Build \<Rightarrow> BuildService \<Rightarrow> BuildService \<times> (svc_error + Build)" where
  "prepare_work x io buildID build s =
     (case io_prepareWorkspace io of
        Some message \<Rightarrow> fail_preparation x buildID message s
      | None \<Rightarrow>
          (case prepare_source io buildID build s of
             (s1, Some reason) \<Rightarrow> fail_preparation x buildID reason s1
           | (s1, None) \<Rightarrow>
               (case prepare_handoff io buildID build s1 of
                  (s2, Some message) \<Rightarrow> fail_preparation x buildID message s2
                | (s2, None) \<Rightarrow>
                    (case prepare_version x io buildID s2 of
                       (s3, Inl message) \<Rightarrow> fail_preparation x buildID message s3
                     | (s3, Inr build3) \<Rightarrow>
                         (case prepare_release io buildID build3 s3 of
                            (s4, Some message) \<Rightarrow>
                              (case fail_preparation x buildID message s4 of
                                 (s5, Inl err) \<Rightarrow> (s5, Inl err)
                               | (s5, Inr failed) \<Rightarrow> (record_call (FailBuildRelease failed) s5, Inr failed))
                          | (s4, None) \<Rightarrow> finish_preparation x buildID s4)))))"

definition PrepareBuildExecution ::
  "Externals \<Rightarrow> PreparationIO \<Rightarrow> string \<Rightarrow> BuildService \<Rightarrow> BuildService \<times> (svc_error + Build)" where
  "PrepareBuildExecution x io i s =
     (let buildID = TrimSpace i
      in case begin_preparation x buildID s of
           (s1, Inl err) \<Rightarrow> (s1, Inl err)
         | (s1, Inr (build, proceed)) \<Rightarrow>
             (if \<not> proceed then (s1, Inr build) else prepare_work x io buildID build s1))"

definition StartBuild ::
  "Externals \<Rightarrow> PreparationIO \<Rightarrow> string \<Rightarrow> BuildService \<Rightarrow> BuildService \<times> (svc_error + Build)" where
  "StartBuild x io i s = PrepareBuildExecution x io i s"

end
