(* ===== verification/Worker_Registry.thy ===== *)
theory Worker_Registry
  imports Build_Repository
begin

text \<open>
  The registry of workers that reported a heartbeat (\<open>domain/worker.go\<close>,
  \<open>repository/memory/worker_repository.go\<close>). It is kept for display: no claim depends on it.
\<close>

record DomainWorker =
  dw_ID :: string
  dw_Name :: string
  dw_LastHeartbeatAt :: time
  dw_CreatedAt :: time
  dw_UpdatedAt :: time

record WorkerHeartbeat =
  hb_ID :: string
  hb_Name :: string
  hb_HeartbeatAt :: time

type_synonym WorkerRepository = "(string, DomainWorker) gomap"

definition NewWorkerRepository :: WorkerRepository where
  "NewWorkerRepository = []"

definition workerDisplayName :: "string \<Rightarrow> string \<Rightarrow> string" where
  "workerDisplayName name fallback =
     (let trimmed = TrimSpace name in if trimmed \<noteq> [] then trimmed else TrimSpace fallback)"

definition UpsertHeartbeat :: "WorkerHeartbeat \<Rightarrow> WorkerRepository \<Rightarrow> WorkerRepository \<times> DomainWorker" where
  "UpsertHeartbeat heartbeat r =
     (let now = hb_HeartbeatAt heartbeat;
          worker0 = (case map_of r (hb_ID heartbeat) of
            None \<Rightarrow> \<lparr>dw_ID = hb_ID heartbeat, dw_Name = [], dw_LastHeartbeatAt = 0, dw_CreatedAt = now, dw_UpdatedAt = 0\<rparr>
          | Some worker \<Rightarrow> worker);
          worker = worker0\<lparr>dw_Name := workerDisplayName (hb_Name heartbeat) (hb_ID heartbeat),
                           dw_LastHeartbeatAt := now, dw_UpdatedAt := now\<rparr>
      in (gm_put (dw_ID worker) worker r, worker))"

definition worker_less :: "DomainWorker \<Rightarrow> DomainWorker \<Rightarrow> bool" where
  "worker_less a b = (if dw_Name a = dw_Name b then dw_ID a < dw_ID b else dw_Name a < dw_Name b)"

definition ListWorkers :: "WorkerRepository \<Rightarrow> DomainWorker list" where
  "ListWorkers r = sort_slice worker_less (map snd r)"

section \<open>One row per worker\<close>

definition registry_wf :: "WorkerRepository \<Rightarrow> bool" where
  "registry_wf r \<longleftrightarrow> distinct (map fst r) \<and> (\<forall>i worker. map_of r i = Some worker \<longrightarrow> dw_ID worker = i)"

lemma registry_wf_new: "registry_wf NewWorkerRepository"
  by (simp add: registry_wf_def NewWorkerRepository_def)

lemma UpsertHeartbeat_wf:
  assumes "registry_wf r"
  shows "registry_wf (fst (UpsertHeartbeat hb r))"
    and "map_of (fst (UpsertHeartbeat hb r)) (hb_ID hb) = Some (snd (UpsertHeartbeat hb r))"
    and "i \<noteq> hb_ID hb \<Longrightarrow> map_of (fst (UpsertHeartbeat hb r)) i = map_of r i"
    and "dw_CreatedAt (snd (UpsertHeartbeat hb r)) = (case map_of r (hb_ID hb) of None \<Rightarrow> hb_HeartbeatAt hb | Some w \<Rightarrow> dw_CreatedAt w)"
    and "dw_LastHeartbeatAt (snd (UpsertHeartbeat hb r)) = hb_HeartbeatAt hb"
  using assms by (auto simp: registry_wf_def UpsertHeartbeat_def Let_def split: option.splits if_splits)

end
