(* ===== verification/Worker.thy ===== *)
theory Worker
  imports Build_Preparation Build_Queries Worker_Registry "HOL-Library.Signed_Division" "HOL-Library.Word"
begin

text \<open>
  The worker (\<open>service/worker\<close>): one poll that queues and prepares builds and claims a step, through the
  job store first and through the steps of running builds otherwise (\<open>claim.go\<close>, \<open>helpers.go\<close>), the
  renewal of its lease and how often it renews (\<open>lease.go\<close>).

  The token of the \<open>k\<close>-th claim of a poll is \<open>tok k\<close>; \<open>xs i\<close> and \<open>io i\<close> are the externals of the
  requests made for build \<open>i\<close>. A worker's own operations run one after the other, so that the
  compare-and-swap in \<open>reserveHeartbeatWrite\<close> succeeds at once.
\<close>

unbundle bit_operations_syntax

section \<open>Data\<close>

record WorkerRunnableStep =
  wr_BuildID :: string
  wr_JobID :: string
  wr_StepID :: string
  wr_StepIndex :: int
  wr_StepName :: string
  wr_ExecutionKind :: string
  wr_RemoteImageBuild :: "RemoteImageBuildSpec option"
  wr_WorkerID :: string
  wr_ClaimToken :: string
  wr_NodeID :: string
  wr_AttemptNumber :: int
  wr_Image :: string
  wr_Command :: string
  wr_Args :: "string list"
  wr_Env :: "(string, string) gomap"
  wr_WorkingDir :: string
  wr_TimeoutSeconds :: int
  wr_Cache :: "StepCacheConfig option"

record ExecutionWorkerService =
  w_builds :: BuildService
  w_workerID :: string
  w_leaseDuration :: int
  w_workerRepo :: "WorkerRepository option"
  w_heartbeatWriteInterval :: int
  w_lastHeartbeatWriteAt :: int
  w_claimsWon :: int
  w_reclaimsWon :: int
  w_renewalsWon :: int
  w_renewalsStale :: int
  w_staleComplete :: int
  w_reclaimMisses :: int

definition NewExecutionWorkerServiceWithLease :: "string \<Rightarrow> BuildService \<Rightarrow> string \<Rightarrow> int \<Rightarrow> ExecutionWorkerService" where
  "NewExecutionWorkerServiceWithLease uuid builds workerID leaseDuration =
     (let trimmed = TrimSpace workerID
      in \<lparr>w_builds = builds, w_workerID = (if trimmed = [] then uuid else trimmed),
          w_leaseDuration = (if leaseDuration \<le> 0 then 45 * 1000000000 else leaseDuration),
          w_workerRepo = None, w_heartbeatWriteInterval = 5 * 1000000000, w_lastHeartbeatWriteAt = 0,
          w_claimsWon = 0, w_reclaimsWon = 0, w_renewalsWon = 0, w_renewalsStale = 0, w_staleComplete = 0, w_reclaimMisses = 0\<rparr>)"

definition SetWorkerRepository :: "WorkerRepository \<Rightarrow> ExecutionWorkerService \<Rightarrow> ExecutionWorkerService" where
  "SetWorkerRepository repo w = w\<lparr>w_workerRepo := Some repo\<rparr>"

record WorkerLeaseRecoveryStats =
  ls_ClaimsWon :: int
  ls_ReclaimsWon :: int
  ls_RenewalsWon :: int
  ls_RenewalsStale :: int
  ls_StaleComplete :: int
  ls_ReclaimMisses :: int

definition RecoveryStats :: "ExecutionWorkerService \<Rightarrow> WorkerLeaseRecoveryStats" where
  "RecoveryStats w = \<lparr>ls_ClaimsWon = w_claimsWon w, ls_ReclaimsWon = w_reclaimsWon w, ls_RenewalsWon = w_renewalsWon w,
     ls_RenewalsStale = w_renewalsStale w, ls_StaleComplete = w_staleComplete w, ls_ReclaimMisses = w_reclaimMisses w\<rparr>"

section \<open>Helpers (helpers.go)\<close>

fun first_runnable :: "bool \<Rightarrow> BuildStep list \<Rightarrow> BuildStep option" where
  "first_runnable allPreviousSucceeded [] = None"
| "first_runnable allPreviousSucceeded (step # steps) =
     (if s_Status step = BuildStepStatusSuccess then first_runnable allPreviousSucceeded steps
      else if s_Status step = BuildStepStatusPending then (if allPreviousSucceeded then Some step else None)
      else first_runnable False steps)"

definition workerFirstRunnableStep :: "BuildStep list \<Rightarrow> BuildStep option" where
  "workerFirstRunnableStep steps = first_runnable True steps"

fun workerFirstReclaimableRunningStep :: "BuildStep list \<Rightarrow> time \<Rightarrow> BuildStep option" where
  "workerFirstReclaimableRunningStep [] now = None"
| "workerFirstReclaimableRunningStep (step # steps) now =
     (if s_Status step = BuildStepStatusSuccess then workerFirstReclaimableRunningStep steps now
      else if s_Status step \<noteq> BuildStepStatusRunning then None
      else (case s_LeaseExpiresAt step of
              None \<Rightarrow> None | Some l \<Rightarrow> (if l > now then None else Some step)))"

definition workerDefaultString :: "string \<Rightarrow> string \<Rightarrow> string" where
  "workerDefaultString v fallback = (if v = [] then fallback else v)"

definition workerDefaultArgs :: "string list \<Rightarrow> string list" where
  "workerDefaultArgs args = (if length args = 0 then default_args else args)"

definition workerMaxInt :: "int \<Rightarrow> int \<Rightarrow> int" where
  "workerMaxInt v minimum = (if v < minimum then minimum else v)"

definition workerTimeoutFromJob :: "ExecutionJob \<Rightarrow> int" where
  "workerTimeoutFromJob job = (case j_TimeoutSeconds job of None \<Rightarrow> 0 | Some t \<Rightarrow> workerMaxInt t 0)"

definition workerCommandFromJob :: "ExecutionJob \<Rightarrow> string" where
  "workerCommandFromJob job = (case j_Command job of [] \<Rightarrow> ''sh'' | c # _ \<Rightarrow> workerDefaultString c ''sh'')"

definition workerArgsFromJob :: "ExecutionJob \<Rightarrow> string list" where
  "workerArgsFromJob job = (if length (j_Command job) \<le> 1 then workerDefaultArgs [] else tl (j_Command job))"

definition workerEnvFromJob :: "ExecutionJob \<Rightarrow> (string, string) gomap" where
  "workerEnvFromJob job = cloneEnv (j_Environment job)"

text \<open>The worker's own copy of an image build keeps everything but the artifact inputs.\<close>

definition worker_cloneRemoteImageBuildSpec :: "RemoteImageBuildSpec option \<Rightarrow> RemoteImageBuildSpec option" where
  "worker_cloneRemoteImageBuildSpec spec =
     (case spec of
        None \<Rightarrow> None
      | Some s \<Rightarrow> Some \<lparr>rib_ContextPath = rib_ContextPath s, rib_DockerfilePath = rib_DockerfilePath s,
          rib_Target = rib_Target s, rib_BuildArgs = rib_BuildArgs s,
          rib_TargetImageReference = rib_TargetImageReference s, rib_ArtifactInputs = []\<rparr>)"

section \<open>Leases (lease.go)\<close>

definition newStepClaim :: "string \<Rightarrow> time \<Rightarrow> ExecutionWorkerService \<Rightarrow> StepClaim" where
  "newStepClaim token now w =
     \<lparr>c_WorkerID = w_workerID w, c_ClaimToken = token, c_ClaimedAt = now, c_LeaseExpiresAt = now + w_leaseDuration w\<rparr>"

text \<open>\<open>fnv.New32a\<close>: offset basis and prime of the 32-bit hash, one byte at a time.\<close>

definition fnv32a :: "string \<Rightarrow> 32 word" where
  "fnv32a bytes = fold (\<lambda>c h. (h XOR of_char c) * 16777619) bytes 2166136261"

definition heartbeatInterval :: "int \<Rightarrow> int" where
  "heartbeatInterval leaseDuration =
     (let interval = leaseDuration sdiv 3 in if interval \<le> 0 then 1000000000 else interval)"

definition heartbeatIntervalForStep :: "int \<Rightarrow> string \<Rightarrow> string \<Rightarrow> int" where
  "heartbeatIntervalForStep leaseDuration workerID claimToken =
     (let base = heartbeatInterval leaseDuration; window = base sdiv 5
      in if window \<le> 0 then base
         else (let spread = 2 * window + 1;
                   offset = uint (fnv32a (workerID @ claimToken)) smod spread - window;
                   interval0 = base + offset;
                   minInterval = 100 * 1000000;
                   interval = (if interval0 < minInterval then minInterval else interval0);
                   maxInterval = leaseDuration - leaseDuration sdiv 10
               in if maxInterval > minInterval \<and> interval > maxInterval then maxInterval else interval))"

definition reserveHeartbeatWrite :: "time \<Rightarrow> bool \<Rightarrow> ExecutionWorkerService \<Rightarrow> ExecutionWorkerService \<times> bool" where
  "reserveHeartbeatWrite now force w =
     (if force \<or> w_heartbeatWriteInterval w \<le> 0 then (w\<lparr>w_lastHeartbeatWriteAt := now\<rparr>, True)
      else if w_lastHeartbeatWriteAt w \<noteq> 0 \<and> now - w_lastHeartbeatWriteAt w < w_heartbeatWriteInterval w then (w, False)
      else (w\<lparr>w_lastHeartbeatWriteAt := now\<rparr>, True))"

definition recordHeartbeat :: "time \<Rightarrow> bool \<Rightarrow> ExecutionWorkerService \<Rightarrow> ExecutionWorkerService" where
  "recordHeartbeat now force w =
     (case w_workerRepo w of
        None \<Rightarrow> w
      | Some repo \<Rightarrow>
          (let (w1, reserved) = reserveHeartbeatWrite now force w
           in if \<not> reserved then w1
              else w1\<lparr>w_workerRepo := Some (fst (UpsertHeartbeat
                      \<lparr>hb_ID = w_workerID w, hb_Name = w_workerID w, hb_HeartbeatAt = now\<rparr> repo))\<rparr>))"

definition renewStepLease ::
  "time \<Rightarrow> WorkerRunnableStep \<Rightarrow> ExecutionWorkerService \<Rightarrow> ExecutionWorkerService \<times> (svc_error + bool)" where
  "renewStepLease now step w =
     (let leaseExpiresAt = now + w_leaseDuration w;
          stale = (\<lambda>w. w\<lparr>w_renewalsStale := w_renewalsStale w + 1\<rparr>);
          renew_step = (\<lambda>w.
            (case RenewStepLease_service (wr_BuildID step) (wr_StepIndex step) (wr_ClaimToken step) leaseExpiresAt (w_builds w) of
               (s1, Inl err) \<Rightarrow>
                 (let w1 = w\<lparr>w_builds := s1\<rparr> in if err = ErrStaleStepClaim then (stale w1, Inr False) else (w1, Inl err))
             | (s1, Inr renewed) \<Rightarrow>
                 (let w1 = w\<lparr>w_builds := s1\<rparr>
                  in if \<not> renewed then (stale w1, Inr False)
                     else (w1\<lparr>w_renewalsWon := w_renewalsWon w1 + 1\<rparr>, Inr True))))
      in if wr_JobID step = [] then renew_step w
         else (case RenewJobLease_service (wr_JobID step) (wr_ClaimToken step) leaseExpiresAt (w_builds w) of
                 (s1, Inl err) \<Rightarrow>
                   (let w1 = w\<lparr>w_builds := s1\<rparr> in if err = ErrStaleStepClaim then (stale w1, Inr False) else (w1, Inl err))
               | (s1, Inr renewed) \<Rightarrow>
                   (let w1 = w\<lparr>w_builds := s1\<rparr>
                    in if \<not> renewed then (stale w1, Inr False) else renew_step w1)))"

section \<open>Claims (claim.go)\<close>

definition ApplicationVersionEnvironmentKey :: string where
  "ApplicationVersionEnvironmentKey = ''COYOTE_APPLICATION_VERSION''"

definition environmentFromDurableBuild ::
  "string \<Rightarrow> (string, string) gomap \<Rightarrow> BuildService \<Rightarrow> svc_error + (string, string) gomap" where
  "environmentFromDurableBuild buildID environment s =
     (case GetByID buildID (bs_buildRepo s) of
        Inl err \<Rightarrow> Inl (mapRepoErr (Repo err))
      | Inr build \<Rightarrow>
          (case b_ApplicationVersion build of
             None \<Rightarrow> Inr environment
           | Some v \<Rightarrow> Inr (gm_put ApplicationVersionEnvironmentKey v environment)))"

definition mirrorJobClaimToStep ::
  "ExecutionJob \<Rightarrow> StepClaim \<Rightarrow> ExecutionWorkerService \<Rightarrow> ExecutionWorkerService \<times> (svc_error + StepCacheConfig option)" where
  "mirrorJobClaimToStep job claim w =
     (if j_StepID job = [] then (w, Inr None)
      else (case ClaimPendingStep_service (j_BuildID job) (j_StepIndex job) claim (w_builds w) of
              (s1, Inl err) \<Rightarrow> (w\<lparr>w_builds := s1\<rparr>, Inl err)
            | (s1, Inr (Some step)) \<Rightarrow> (w\<lparr>w_builds := s1\<rparr>, Inr (s_Cache step))
            | (s1, Inr None) \<Rightarrow>
                (case ReclaimExpiredStep_service (j_BuildID job) (j_StepIndex job) (c_ClaimedAt claim) claim s1 of
                   (s2, Inl err) \<Rightarrow> (w\<lparr>w_builds := s2\<rparr>, Inl err)
                 | (s2, Inr (Some step)) \<Rightarrow>
                     (w\<lparr>w_builds := s2, w_reclaimsWon := w_reclaimsWon w + 1\<rparr>, Inr (s_Cache step))
                 | (s2, Inr None) \<Rightarrow> (w\<lparr>w_builds := s2\<rparr>, Inl (Svc ErrInvalidBuildStepTransition)))))"

definition runnable_from_job ::
  "ExecutionJob \<Rightarrow> StepClaim \<Rightarrow> string \<Rightarrow> RemoteImageBuildSpec option \<Rightarrow> (string, string) gomap \<Rightarrow> StepCacheConfig option \<Rightarrow> WorkerRunnableStep" where
  "runnable_from_job job claim kind remote environment cache =
     \<lparr>wr_BuildID = j_BuildID job, wr_JobID = j_ID job, wr_StepID = j_StepID job, wr_StepIndex = j_StepIndex job,
      wr_StepName = j_Name job, wr_ExecutionKind = (if kind = [] then ExecutionKindShell else kind),
      wr_RemoteImageBuild = worker_cloneRemoteImageBuildSpec remote, wr_WorkerID = c_WorkerID claim,
      wr_ClaimToken = c_ClaimToken claim, wr_NodeID = j_NodeID job, wr_AttemptNumber = j_AttemptNumber job,
      wr_Image = j_Image job, wr_Command = workerCommandFromJob job, wr_Args = workerArgsFromJob job, wr_Env = environment,
      wr_WorkingDir = workerDefaultString (j_WorkingDir job) ''.'', wr_TimeoutSeconds = workerTimeoutFromJob job,
      wr_Cache = StepCacheConfig_Clone cache\<rparr>"

definition claimRunnableStepFromJobs ::
  "(string \<Rightarrow> go_error + ExecutionJobSpec) \<Rightarrow> string \<Rightarrow> time \<Rightarrow> ExecutionWorkerService \<Rightarrow>
     ExecutionWorkerService \<times> (svc_error + WorkerRunnableStep option)" where
  "claimRunnableStepFromJobs UnmarshalSpec token now w =
     (let claim = newStepClaim token now w
      in case ClaimNextRunnableJob_service claim (w_builds w) of
           (s1, None) \<Rightarrow> (w\<lparr>w_builds := s1\<rparr>, Inr None)
         | (s1, Some job) \<Rightarrow>
             (case mirrorJobClaimToStep job claim (w\<lparr>w_builds := s1\<rparr>) of
                (w2, Inl err) \<Rightarrow> (w2, Inl err)
              | (w2, Inr cache) \<Rightarrow>
                  (let w3 = w2\<lparr>w_claimsWon := w_claimsWon w2 + 1\<rparr>;
                       spec = (if TrimSpace (j_ResolvedSpecJSON job) = [] then Inr ([], None)
                               else (case UnmarshalSpec (j_ResolvedSpecJSON job) of
                                       Inl err \<Rightarrow> Inl err | Inr sp \<Rightarrow> Inr (es_ExecutionKind sp, es_RemoteImageBuild sp)))
                   in case spec of
                        Inl err \<Rightarrow> (w3, Inl (Svc err))
                      | Inr (kind, remote) \<Rightarrow>
                          (case environmentFromDurableBuild (j_BuildID job) (workerEnvFromJob job) (w_builds w3) of
                             Inl err \<Rightarrow> (w3, Inl err)
                           | Inr environment \<Rightarrow> (w3, Inr (Some (runnable_from_job job claim kind remote environment cache)))))))"

definition runnable_from_step :: "string \<Rightarrow> BuildStep \<Rightarrow> StepClaim \<Rightarrow> WorkerRunnableStep" where
  "runnable_from_step buildID step claim =
     \<lparr>wr_BuildID = buildID, wr_JobID = [], wr_StepID = s_ID step, wr_StepIndex = s_StepIndex step, wr_StepName = s_Name step,
      wr_ExecutionKind = [], wr_RemoteImageBuild = None, wr_WorkerID = c_WorkerID claim, wr_ClaimToken = c_ClaimToken claim,
      wr_NodeID = [], wr_AttemptNumber = 0, wr_Image = [], wr_Command = workerDefaultString (s_Command step) ''sh'',
      wr_Args = workerDefaultArgs (s_Args step), wr_Env = s_Env step, wr_WorkingDir = workerDefaultString (s_WorkingDir step) ''.'',
      wr_TimeoutSeconds = workerMaxInt (s_TimeoutSeconds step) 0, wr_Cache = StepCacheConfig_Clone (s_Cache step)\<rparr>"

definition bindRunnableStepFromJob ::
  "WorkerRunnableStep \<Rightarrow> StepClaim \<Rightarrow> ExecutionWorkerService \<Rightarrow> ExecutionWorkerService \<times> (svc_error + WorkerRunnableStep)" where
  "bindRunnableStepFromJob step claim w =
     (if wr_StepID step = [] then (w, Inr step)
      else (case ClaimJobByStepID_service (wr_StepID step) claim (w_builds w) of
              (s1, Inl _) \<Rightarrow> (w\<lparr>w_builds := s1\<rparr>, Inr step)
            | (s1, Inr None) \<Rightarrow> (w\<lparr>w_builds := s1\<rparr>, Inr step)
            | (s1, Inr (Some job)) \<Rightarrow>
                (case environmentFromDurableBuild (j_BuildID job) (workerEnvFromJob job) s1 of
                   Inl err \<Rightarrow> (w\<lparr>w_builds := s1\<rparr>, Inl err)
                 | Inr environment \<Rightarrow>
                     (w\<lparr>w_builds := s1\<rparr>,
                      Inr (step\<lparr>wr_JobID := j_ID job, wr_Image := j_Image job, wr_Command := workerCommandFromJob job,
                               wr_Args := workerArgsFromJob job, wr_Env := environment,
                               wr_WorkingDir := workerDefaultString (j_WorkingDir job) ''.'',
                               wr_TimeoutSeconds := (case j_TimeoutSeconds job of
                                  None \<Rightarrow> wr_TimeoutSeconds step | Some t \<Rightarrow> workerMaxInt t 0)\<rparr>)))))"

section \<open>One poll\<close>

definition is_queued :: "Build \<Rightarrow> bool" where
  "is_queued build \<longleftrightarrow> b_Status build = BuildStatusPending \<or> b_Status build = BuildStatusQueued"

definition queued_time :: "Build \<Rightarrow> time" where
  "queued_time build = (case b_QueuedAt build of None \<Rightarrow> b_CreatedAt build | Some t \<Rightarrow> t)"

definition poll_less :: "Build \<Rightarrow> Build \<Rightarrow> bool" where
  "poll_less left right =
     (if is_queued left \<noteq> is_queued right then is_queued left
      else if is_queued left \<and> b_Priority left \<noteq> b_Priority right then b_Priority left > b_Priority right
      else if is_queued left \<and> queued_time left \<noteq> queued_time right then queued_time left < queued_time right
      else if b_CreatedAt left \<noteq> b_CreatedAt right then b_CreatedAt left < b_CreatedAt right
      else b_ID left < b_ID right)"

definition prepare_one ::
  "(string \<Rightarrow> PreparationIO) \<Rightarrow> (string \<Rightarrow> Externals) \<Rightarrow> Build \<Rightarrow> BuildService \<Rightarrow> BuildService \<times> (svc_error + Build)" where
  "prepare_one io xs build s =
     (if b_Status build \<noteq> BuildStatusQueued then (s, Inr build)
      else (case PrepareBuildExecution (xs (b_ID build)) (io (b_ID build)) (b_ID build) s of
              (s1, Inl err) \<Rightarrow> (s1, if err = Svc ErrInvalidBuildStatusTransition then Inr build else Inl err)
            | (s1, Inr prepared) \<Rightarrow> (s1, Inr prepared)))"

fun prepare_builds ::
  "(string \<Rightarrow> PreparationIO) \<Rightarrow> (string \<Rightarrow> Externals) \<Rightarrow> Build list \<Rightarrow> BuildService \<Rightarrow>
     (BuildService \<times> (svc_error + Build list)) option" where
  "prepare_builds io xs [] s = Some (s, Inr [])"
| "prepare_builds io xs (build # builds) s =
     (case (if IsTerminalBuildStatus (b_Status build) then Some (s, Inr build)
            else if b_Status build = BuildStatusPending then
              (case QueueBuild_service (xs (b_ID build)) (b_ID build) s of
                 None \<Rightarrow> None
               | Some (s1, Inl err) \<Rightarrow> Some (s1, if err = Svc ErrInvalidBuildStatusTransition then Inr build else Inl err)
               | Some (s1, Inr queuedBuild) \<Rightarrow> Some (prepare_one io xs queuedBuild s1))
            else Some (prepare_one io xs build s)) of
        None \<Rightarrow> None
      | Some (s1, Inl err) \<Rightarrow> Some (s1, Inl err)
      | Some (s1, Inr build') \<Rightarrow>
          (case prepare_builds io xs builds s1 of
             None \<Rightarrow> None
           | Some (s2, Inl err) \<Rightarrow> Some (s2, Inl err)
           | Some (s2, Inr rest) \<Rightarrow> Some (s2, Inr (build' # rest))))"

definition prepareQueuedBuilds ::
  "(string \<Rightarrow> PreparationIO) \<Rightarrow> (string \<Rightarrow> Externals) \<Rightarrow> BuildService \<Rightarrow> (BuildService \<times> (svc_error + Build list)) option" where
  "prepareQueuedBuilds io xs s = prepare_builds io xs (sort_slice poll_less (List (bs_buildRepo s))) s"

text \<open>One build of the claim loop: \<open>Inr None\<close> goes on to the next build.\<close>

definition claim_in_build ::
  "string \<Rightarrow> time \<Rightarrow> Build \<Rightarrow> ExecutionWorkerService \<Rightarrow> ExecutionWorkerService \<times> (svc_error + WorkerRunnableStep option)" where
  "claim_in_build token now build w =
     (case GetStepsByBuildID (b_ID build) (bs_buildRepo (w_builds w)) of
        Inl err \<Rightarrow> (w, Inl (mapRepoErr (Repo err)))
      | Inr steps \<Rightarrow>
          (case workerFirstRunnableStep steps of
             None \<Rightarrow> (w, Inr None)
           | Some nextStep \<Rightarrow>
               (let claim = newStepClaim token now w
                in case ClaimPendingStep_service (b_ID build) (s_StepIndex nextStep) claim (w_builds w) of
                     (s1, Inl err) \<Rightarrow> (w\<lparr>w_builds := s1\<rparr>, Inl err)
                   | (s1, Inr None) \<Rightarrow> (w\<lparr>w_builds := s1\<rparr>, Inr None)
                   | (s1, Inr (Some claimedStep)) \<Rightarrow>
                       (case bindRunnableStepFromJob (runnable_from_step (b_ID build) claimedStep claim) claim
                               (w\<lparr>w_builds := s1, w_claimsWon := w_claimsWon w + 1\<rparr>) of
                          (w2, Inl err) \<Rightarrow> (w2, Inl err) | (w2, Inr bound) \<Rightarrow> (w2, Inr (Some bound))))))"

definition queue_then_claim ::
  "(string \<Rightarrow> Externals) \<Rightarrow> string \<Rightarrow> time \<Rightarrow> Build \<Rightarrow> ExecutionWorkerService \<Rightarrow>
     (ExecutionWorkerService \<times> (svc_error + WorkerRunnableStep option)) option" where
  "queue_then_claim xs token now build w =
     (if b_Status build = BuildStatusRunning then Some (claim_in_build token now build w)
      else if b_Status build = BuildStatusPending then
        (case QueueBuild_service (xs (b_ID build)) (b_ID build) (w_builds w) of
           None \<Rightarrow> None
         | Some (s1, Inl err) \<Rightarrow>
             Some (w\<lparr>w_builds := s1\<rparr>, if err = Svc ErrInvalidBuildStatusTransition then Inr None else Inl err)
         | Some (s1, Inr queuedBuild) \<Rightarrow> Some (claim_in_build token now queuedBuild (w\<lparr>w_builds := s1\<rparr>)))
      else Some (w, Inr None))"

fun claim_loop ::
  "(string \<Rightarrow> Externals) \<Rightarrow> (nat \<Rightarrow> string) \<Rightarrow> time \<Rightarrow> Build list \<Rightarrow> ExecutionWorkerService \<Rightarrow>
     (ExecutionWorkerService \<times> (svc_error + WorkerRunnableStep option)) option" where
  "claim_loop xs tok now [] w = Some (w, Inr None)"
| "claim_loop xs tok now (build # builds) w =
     (case queue_then_claim xs (tok 0) now build w of
        None \<Rightarrow> None
      | Some (w1, Inr None) \<Rightarrow> claim_loop xs (\<lambda>k. tok (Suc k)) now builds w1
      | Some result \<Rightarrow> Some result)"

definition reclaim_in_build ::
  "string \<Rightarrow> time \<Rightarrow> Build \<Rightarrow> ExecutionWorkerService \<Rightarrow> ExecutionWorkerService \<times> (svc_error + WorkerRunnableStep option)" where
  "reclaim_in_build token now build w =
     (if b_Status build \<noteq> BuildStatusRunning then (w, Inr None)
      else (case GetStepsByBuildID (b_ID build) (bs_buildRepo (w_builds w)) of
              Inl err \<Rightarrow> (w, Inl (mapRepoErr (Repo err)))
            | Inr steps \<Rightarrow>
                (case workerFirstReclaimableRunningStep steps now of
                   None \<Rightarrow> (w, Inr None)
                 | Some runningStep \<Rightarrow>
                     (let claim = newStepClaim token now w
                      in case ReclaimExpiredStep_service (b_ID build) (s_StepIndex runningStep) (c_ClaimedAt claim) claim (w_builds w) of
                           (s1, Inl err) \<Rightarrow> (w\<lparr>w_builds := s1\<rparr>, Inl err)
                         | (s1, Inr None) \<Rightarrow> (w\<lparr>w_builds := s1, w_reclaimMisses := w_reclaimMisses w + 1\<rparr>, Inr None)
                         | (s1, Inr (Some reclaimedStep)) \<Rightarrow>
                             (case bindRunnableStepFromJob (runnable_from_step (b_ID build) reclaimedStep claim) claim
                                     (w\<lparr>w_builds := s1, w_reclaimsWon := w_reclaimsWon w + 1\<rparr>) of
                                (w2, Inl err) \<Rightarrow> (w2, Inl err) | (w2, Inr bound) \<Rightarrow> (w2, Inr (Some bound)))))))"

fun reclaim_loop ::
  "(nat \<Rightarrow> string) \<Rightarrow> time \<Rightarrow> Build list \<Rightarrow> ExecutionWorkerService \<Rightarrow>
     ExecutionWorkerService \<times> (svc_error + WorkerRunnableStep option)" where
  "reclaim_loop tok now [] w = (w, Inr None)"
| "reclaim_loop tok now (build # builds) w =
     (case reclaim_in_build (tok 0) now build w of
        (w1, Inr None) \<Rightarrow> reclaim_loop (\<lambda>k. tok (Suc k)) now builds w1
      | result \<Rightarrow> result)"

definition ClaimRunnableStep ::
  "(string \<Rightarrow> PreparationIO) \<Rightarrow> (string \<Rightarrow> Externals) \<Rightarrow> (string \<Rightarrow> go_error + ExecutionJobSpec) \<Rightarrow> (nat \<Rightarrow> string) \<Rightarrow> time \<Rightarrow>
     ExecutionWorkerService \<Rightarrow> (ExecutionWorkerService \<times> (svc_error + WorkerRunnableStep option)) option" where
  "ClaimRunnableStep io xs UnmarshalSpec tok now w0 =
     (let w = recordHeartbeat now False w0
      in case prepareQueuedBuilds io xs (w_builds w) of
        None \<Rightarrow> None
      | Some (s1, Inl err) \<Rightarrow> Some (w\<lparr>w_builds := s1\<rparr>, Inl err)
      | Some (s1, Inr builds) \<Rightarrow>
          (let n = length builds
           in case claimRunnableStepFromJobs UnmarshalSpec (tok 0) now (w\<lparr>w_builds := s1\<rparr>) of
                (w1, Inr None) \<Rightarrow>
                  (case claim_loop xs (\<lambda>k. tok (Suc k)) now builds w1 of
                     None \<Rightarrow> None
                   | Some (w2, Inr None) \<Rightarrow>
                       (case reclaim_loop (\<lambda>k. tok (Suc (n + k))) now builds w2 of
                          (w3, Inr None) \<Rightarrow>
                            Some (if n > 0 then w3\<lparr>w_reclaimMisses := w_reclaimMisses w3 + 1\<rparr> else w3, Inr None)
                        | result \<Rightarrow> Some result)
                   | Some result \<Rightarrow> Some result)
              | result \<Rightarrow> Some result))"

end
