(* ===== verification/Pipeline_Properties.thy ===== *)
theory Pipeline_Properties
  imports Build_Creation Store_Properties
begin

text \<open>
  What a pipeline file that passes validation promises the rest of the system: its steps get distinct
  node identifiers, every dependency names another step of the build, no dependencies form a cycle,
  the planner returns, and a build made from it never gets stuck while work is left.
\<close>

section \<open>Resolved nodes\<close>

lemma map_of_fold_put:
  "distinct (map f xs) \<Longrightarrow> x \<in> set xs \<Longrightarrow> map_of (fold (\<lambda>x. gm_put (f x) (v x)) xs m) (f x) = Some (v x)"
proof (induction xs arbitrary: m)
  case (Cons y ys)
  have other: "map_of (fold (\<lambda>x. gm_put (f x) (v x)) zs m') k = map_of m' k" if "k \<notin> f ` set zs" for zs m' k
    using that by (induction zs arbitrary: m') auto
  show ?case
  proof (cases "x \<in> set ys")
    case False
    with Cons.prems have "x = y" "f y \<notin> f ` set ys" by auto
    then show ?thesis by (simp add: other)
  qed (use Cons in simp)
qed simp

lemma rs_Name_resolve [simp]: "rs_Name (resolveStepDef sd env cache) = step_name sd"
  by (simp add: resolveStepDef_def Let_def step_name_def split: option.splits)

text \<open>Node \<open>i\<close> of a resolved pipeline, with its dependencies as positions in the layout.\<close>

lemma resolved_node:
  assumes d: "distinct (map entry_key (pipeline_layout pf))"
    and known: "\<And>i. i < length (pipeline_layout pf) \<Longrightarrow>
      dep_key ` set (dep_names (pipeline_layout pf) i) \<subseteq> set (map entry_key (pipeline_layout pf))"
    and earlier: "\<And>i k. i < length (pipeline_layout pf) \<Longrightarrow> k \<in> set (snd (pipeline_layout pf ! i)) \<Longrightarrow> k < length (pipeline_layout pf)"
  shows "length (resolve_nodes pf) = length (pipeline_layout pf)"
    and "i < length (pipeline_layout pf) \<Longrightarrow> en_NodeID (resolve_nodes pf ! i) = buildNodeID i \<and>
      rs_NodeID (en_Step (resolve_nodes pf ! i)) = buildNodeID i \<and>
      rs_Name (en_Step (resolve_nodes pf ! i)) = entry_name (pipeline_layout pf ! i) \<and>
      rs_DependsOnNodeIDs (en_Step (resolve_nodes pf ! i)) = en_DependsOnNodeIDs (resolve_nodes pf ! i) \<and>
      list_all2 (\<lambda>name node. \<exists>j < length (pipeline_layout pf). entry_key (pipeline_layout pf ! j) = dep_key name \<and> node = buildNodeID j)
        (dep_names (pipeline_layout pf) i) (en_DependsOnNodeIDs (resolve_nodes pf ! i))"
proof -
  let ?es = "pipeline_layout pf"
  let ?env = "copyEnv (pf_Env pf)" and ?cache = "resolveCache (pm_Cache (pf_Pipeline pf))"
  define st where "st = fold (resolve_step ?env ?cache) (pf_Steps pf) \<lparr>st_nodes = [], st_explicit = [], st_frontier = [], st_next = 0\<rparr>"
  have "resolved_upto ?env ?cache ([] @ layout (length ([] :: (StepDef \<times> nat list) list)) [] (pf_Steps pf)) st"
    unfolding st_def by (rule resolve_steps_layout) (simp_all add: resolved_upto_def)
  then have r: "resolved_upto ?env ?cache ?es st" by simp
  have nodes: "resolve_nodes pf = map (apply_explicit (st_explicit st) (name_to_node (st_nodes st))) (st_nodes st)"
    by (simp add: resolve_nodes_def st_def Let_def)
  have len: "length (st_nodes st) = length ?es" using r by (simp add: resolved_upto_def)
  then show "length (resolve_nodes pf) = length ?es" by (simp add: nodes)
  have node: "\<exists>gname. layout_node ?env ?cache i gname (?es ! i) (st_nodes st ! i)"
    "map_of (st_explicit st) (buildNodeID i) = Some (sf_DependsOn (sd_Fields (fst (?es ! i))))" if "i < length ?es" for i
    using r that by (auto simp: resolved_upto_def)
  have name: "dep_key (rs_Name (en_Step (st_nodes st ! i))) = entry_key (?es ! i)" "en_NodeID (st_nodes st ! i) = buildNodeID i"
    if "i < length ?es" for i
    using node(1) [OF that] by (auto simp: layout_node_def Let_def entry_key_def step_key_dep)
  have names: "map (\<lambda>node. dep_key (rs_Name (en_Step node))) (st_nodes st) = map entry_key ?es"
    by (rule nth_equalityI) (simp_all add: len name)
  have lookup: "map_of (name_to_node (st_nodes st)) (entry_key (?es ! j)) = Some (buildNodeID j)" if "j < length ?es" for j
    using map_of_fold_put [of "\<lambda>node. dep_key (rs_Name (en_Step node))" "st_nodes st" "st_nodes st ! j" en_NodeID "[]"]
      d names name [OF that] that len by (simp add: name_to_node_def dep_key_def)
  assume i: "i < length ?es"
  obtain gname where n: "layout_node ?env ?cache i gname (?es ! i) (st_nodes st ! i)" using node(1) [OF i] by blast
  have ri: "resolve_nodes pf ! i = apply_explicit (st_explicit st) (name_to_node (st_nodes st)) (st_nodes st ! i)"
    using i len by (simp add: nodes)
  let ?P = "\<lambda>name node. \<exists>j < length ?es. entry_key (?es ! j) = dep_key name \<and> node = buildNodeID j"
  show "en_NodeID (resolve_nodes pf ! i) = buildNodeID i \<and>
      rs_NodeID (en_Step (resolve_nodes pf ! i)) = buildNodeID i \<and>
      rs_Name (en_Step (resolve_nodes pf ! i)) = entry_name (pipeline_layout pf ! i) \<and>
      rs_DependsOnNodeIDs (en_Step (resolve_nodes pf ! i)) = en_DependsOnNodeIDs (resolve_nodes pf ! i) \<and>
      list_all2 ?P (dep_names ?es i) (en_DependsOnNodeIDs (resolve_nodes pf ! i))"
  proof (cases "sf_DependsOn (sd_Fields (fst (?es ! i)))")
    case None
    have "list_all2 ?P (map (nth (map entry_name ?es)) (snd (?es ! i))) (map buildNodeID (snd (?es ! i)))"
      using earlier [OF i] by (auto simp: list_all2_map1 list_all2_map2 list_all2_same entry_key_def entry_name_def step_key_dep)
    with n show ?thesis
      by (simp add: ri apply_explicit_def name(2) [OF i] node(2) [OF i] None layout_node_def Let_def dep_names_def entry_name_def)
  next
    case (Some ds)
    have "list_all2 ?P ds (resolveDependencyNames ds (name_to_node (st_nodes st)))"
      if "dep_key ` set ds \<subseteq> set (map entry_key ?es)"
      using that
    proof (induction ds)
      case (Cons d ds)
      then obtain j where "j < length ?es" "entry_key (?es ! j) = dep_key d" by (auto simp: in_set_conv_nth image_iff)
      with Cons lookup [of j] show ?case
        by (auto simp: resolveDependencyNames_def map_filter_simps dep_key_def)
    qed (simp add: resolveDependencyNames_def map_filter_simps)
    with known [OF i] Some n show ?thesis
      by (simp add: ri apply_explicit_def name(2) [OF i] node(2) [OF i] Let_def layout_node_def dep_names_def entry_name_def)
  qed
qed

section \<open>Sound dependency graphs of builds\<close>

definition waits_for :: "BuildStep list \<Rightarrow> (string \<times> string) set" where
  "waits_for steps = {(effective_node st, TrimSpace d) | st d. st \<in> set steps \<and> d \<in> set (s_DependsOnNodes st)}"

lemma waits_forI: "st \<in> set steps \<Longrightarrow> d \<in> set (s_DependsOnNodes st) \<Longrightarrow> (effective_node st, TrimSpace d) \<in> waits_for steps"
  by (auto simp: waits_for_def)

definition sound_graph :: "BuildStep list \<Rightarrow> bool" where
  "sound_graph steps \<longleftrightarrow>
     (\<forall>st \<in> set steps. TrimSpace (s_NodeID st) \<noteq> []) \<and> distinct (map effective_node steps) \<and>
     (\<forall>st \<in> set steps. TrimSpace ` set (s_DependsOnNodes st) \<subseteq> effective_node ` set steps) \<and>
     acyclic (waits_for steps)"

lemma finite_waits_for: "finite (waits_for steps)"
proof -
  have "waits_for steps = (\<Union>st \<in> set steps. (\<lambda>d. (effective_node st, TrimSpace d)) ` set (s_DependsOnNodes st))"
    by (auto simp: waits_for_def)
  then show ?thesis by simp
qed

lemma status_lookup:
  assumes "distinct (map effective_node steps)" "st \<in> set steps"
  shows "map_of (stepStatusByNodeID steps) (effective_node st) = Some (s_Status st)"
  using map_of_fold_put [OF assms, of s_Status "[]"] by (simp add: stepStatusByNodeID_def)

text \<open>
  Progress: among pending steps, one that waits for no other pending step is runnable unless a step it
  waits for runs or ended without success.
\<close>

lemma sound_graph_progress:
  assumes g: "sound_graph steps" and p: "st0 \<in> set steps" "s_Status st0 = BuildStepStatusPending"
    and ok: "\<And>st. st \<in> set steps \<Longrightarrow> s_Status st = BuildStepStatusPending \<or> s_Status st = BuildStepStatusSuccess"
  shows "runnable_pending steps"
proof -
  let ?pending = "{n. \<exists>st \<in> set steps. n = effective_node st \<and> s_Status st = BuildStepStatusPending}"
  have "wf ((waits_for steps)\<inverse>)"
    using g finite_waits_for by (intro finite_acyclic_wf_converse) (auto simp: sound_graph_def)
  moreover have "effective_node st0 \<in> ?pending" using p by blast
  ultimately obtain n where n: "n \<in> ?pending" "\<And>m. (m, n) \<in> (waits_for steps)\<inverse> \<Longrightarrow> m \<notin> ?pending"
    by (rule wfE_min) blast
  then obtain st where st: "st \<in> set steps" "n = effective_node st" "s_Status st = BuildStepStatusPending" by blast
  have "map_of (stepStatusByNodeID steps) (TrimSpace d) = Some BuildStepStatusSuccess" if d: "d \<in> set (s_DependsOnNodes st)" for d
  proof -
    have "TrimSpace d \<in> effective_node ` set steps" using g st(1) d unfolding sound_graph_def by blast
    then obtain t where t: "t \<in> set steps" "TrimSpace d = effective_node t" by auto
    have "(TrimSpace d, n) \<in> (waits_for steps)\<inverse>" using st d by (auto simp: waits_for_def)
    then have "s_Status t \<noteq> BuildStepStatusPending" using n(2) t by blast
    with ok [OF t(1)] status_lookup [OF _ t(1)] g show ?thesis by (auto simp: t(2) sound_graph_def)
  qed
  then have "isStepRunnable st steps (stepStatusByNodeID steps)"
    using g st(1) by (auto simp: isStepRunnable_def list_all_iff sound_graph_def)
  with st show ?thesis by (auto simp: runnable_pending_def)
qed

text \<open>Soundness depends only on the node identifiers, indices and dependencies, not on the order of the steps.\<close>

definition shape :: "BuildStep \<Rightarrow> string \<times> int \<times> string list" where
  "shape st = (s_NodeID st, s_StepIndex st, s_DependsOnNodes st)"

lemma shape_effective: "shape a = shape b \<Longrightarrow> effective_node a = effective_node b"
  by (simp add: shape_def effective_node_def Let_def)

lemma sound_graph_mset:
  assumes eq: "mset (map shape xs) = mset (map shape ys)" and g: "sound_graph xs"
  shows "sound_graph ys"
proof -
  define node :: "string \<times> int \<times> string list \<Rightarrow> string" where "node = (\<lambda>(n, k, _). let t = TrimSpace n in if t = [] then FallbackNodeID k else t)"
  have node: "effective_node st = node (shape st)" for st by (simp add: node_def shape_def effective_node_def)
  have set: "shape ` set xs = shape ` set ys" using eq by (metis list.set_map set_mset_mset)
  have "map effective_node zs = map node (map shape zs)" for zs by (simp add: node)
  then have "mset (map effective_node xs) = mset (map effective_node ys)" using eq by (metis mset_map)
  then have d: "distinct (map effective_node ys)" and ns: "effective_node ` set ys = effective_node ` set xs"
    using g by (metis mset_eq_imp_distinct_iff sound_graph_def, metis list.set_map mset_eq_setD)
  have partner: "\<exists>x \<in> set xs. s_NodeID x = s_NodeID y \<and> s_DependsOnNodes x = s_DependsOnNodes y \<and> effective_node x = effective_node y"
    if "y \<in> set ys" for y
  proof -
    have "shape y \<in> shape ` set xs" using set that by simp
    then obtain x where "x \<in> set xs" "shape x = shape y" by auto
    then show ?thesis using shape_effective [of x y] by (auto simp: shape_def)
  qed
  have "waits_for ys \<subseteq> waits_for xs"
  proof
    fix e assume "e \<in> waits_for ys"
    then obtain y d where y: "y \<in> set ys" "d \<in> set (s_DependsOnNodes y)" "e = (effective_node y, TrimSpace d)"
      by (auto simp: waits_for_def)
    obtain x where "x \<in> set xs" "s_DependsOnNodes x = s_DependsOnNodes y" "effective_node x = effective_node y"
      using partner [OF y(1)] by blast
    then show "e \<in> waits_for xs" using waits_forI [of x xs d] y(2,3) by simp
  qed
  then have "acyclic (waits_for ys)" using g by (auto simp: sound_graph_def intro: acyclic_subset)
  moreover have "TrimSpace (s_NodeID y) \<noteq> [] \<and> TrimSpace ` set (s_DependsOnNodes y) \<subseteq> effective_node ` set ys" if y: "y \<in> set ys" for y
  proof -
    from partner [OF y] obtain x where "x \<in> set xs" "s_NodeID x = s_NodeID y" "s_DependsOnNodes x = s_DependsOnNodes y" by blast
    with g show ?thesis unfolding ns sound_graph_def by metis
  qed
  ultimately show ?thesis using d by (simp add: sound_graph_def)
qed

lemma indices_mset:
  assumes "mset (map shape xs) = mset (map shape ys)" "distinct (map s_StepIndex xs)"
  shows "distinct (map s_StepIndex ys)"
proof -
  have "map s_StepIndex zs = map (fst \<circ> snd) (map shape zs)" for zs by (simp add: shape_def)
  then have "mset (map s_StepIndex xs) = mset (map s_StepIndex ys)" using assms(1) by (metis mset_map)
  with assms(2) show ?thesis by (metis mset_eq_imp_distinct_iff)
qed

lemma effective_node_same: "effectiveWorkspaceNodeID = effective_node"
  by (rule ext) (simp add: effectiveWorkspaceNodeID_def effective_node_def Let_def)

text \<open>The planner's graph is part of the wait-for relation, so the planner returns.\<close>

lemma sound_graph_plannable:
  assumes "sound_graph steps"
  shows "acyclic (edges (dependencies_by_node steps))"
proof -
  have d: "distinct (map effectiveWorkspaceNodeID steps)"
    using assms by (simp add: sound_graph_def effective_node_same)
  have "edges (dependencies_by_node steps) \<subseteq> waits_for steps"
  proof
    fix e assume "e \<in> edges (dependencies_by_node steps)"
    then obtain n m where e: "e = (n, m)" "(n, m) \<in> edges (dependencies_by_node steps)" by (cases e) auto
    then obtain st where st: "st \<in> set steps" "n = effectiveWorkspaceNodeID st" "m \<in> set (workspace_dependencies steps st)"
      using edges_planned [OF d] by blast
    have "TrimSpace (s_NodeID st) \<noteq> []" using assms st(1) by (simp add: sound_graph_def)
    then have "m \<in> TrimSpace ` set (s_DependsOnNodes st)"
      using st(3) by (simp add: workspace_dependencies_def Let_def uniqueKnownDependencies_set)
    with st e show "e \<in> waits_for steps" by (auto simp: waits_for_def effective_node_same)
  qed
  with assms show ?thesis by (auto simp: sound_graph_def intro: acyclic_subset)
qed

section \<open>From a valid file to a sound build\<close>

lemma trimmed_buildNodeID: "TrimSpace (buildNodeID i) = buildNodeID i"
proof (rule TrimSpace_id)
  let ?d = "pad_left 3 CHR ''0'' (digits_of_nat i)"
  have ne: "?d \<noteq> []" by (simp add: pad_left_def)
  then have "is_digit (last ?d)" using pad_left_digits [of "digits_of_nat i" "last ?d" 3] digits_of_nat_digits by auto
  then have "\<not> is_space (last ?d)" by (auto simp: is_digit_def is_space_def)
  with ne show "trimmed (buildNodeID i)" by (simp add: trimmed_def buildNodeID_def Format03d_def is_space_def)
qed

lemma buildNodeID_nonempty [simp]: "buildNodeID i \<noteq> []"
  by (simp add: buildNodeID_def)

lemma domain_step:
  assumes "i < length rss"
  shows "s_NodeID (pipelineStepsToDomain uuid b rss ! i) = rs_NodeID (rss ! i)"
    "s_DependsOnNodes (pipelineStepsToDomain uuid b rss ! i) = rs_DependsOnNodeIDs (rss ! i)"
    "s_Name (pipelineStepsToDomain uuid b rss ! i) = rs_Name (rss ! i)"
  using assms by (simp_all add: pipelineStepsToDomain_def nth_enumerate_eq pipeline_step_to_domain_def Let_def)

text \<open>The steps of the build that a pipeline file gives, and what they depend on by name.\<close>

definition build_steps_of :: "(nat \<Rightarrow> string) \<Rightarrow> string \<Rightarrow> PipelineFile \<Rightarrow> BuildStep list" where
  "build_steps_of uuid b pf = pipelineStepsToDomain uuid b (rp_Steps (Resolve pf))"

lemma build_indices: "distinct (map s_StepIndex (build_steps_of uuid b pf))"
proof -
  have "map s_StepIndex (build_steps_of uuid b pf) = map int [0..<length (rp_Steps (Resolve pf))]"
    by (rule nth_equalityI)
      (simp_all add: build_steps_of_def pipelineStepsToDomain_def nth_enumerate_eq pipeline_step_to_domain_def Let_def zero_step_def)
  then show ?thesis by (simp add: distinct_map)
qed

lemma valid_steps:
  assumes "Validate pf = []"
  shows "length (build_steps_of uuid b pf) = length (pipeline_layout pf)"
    and "i < length (pipeline_layout pf) \<Longrightarrow> s_NodeID (build_steps_of uuid b pf ! i) = buildNodeID i \<and>
      s_Name (build_steps_of uuid b pf ! i) = entry_name (pipeline_layout pf ! i) \<and>
      list_all2 (\<lambda>name node. \<exists>j < length (pipeline_layout pf). entry_key (pipeline_layout pf ! j) = dep_key name \<and> node = buildNodeID j)
        (dep_names (pipeline_layout pf) i) (s_DependsOnNodes (build_steps_of uuid b pf ! i))"
proof -
  obtain g where ac: "acyclic (edges g)" and g: "distinct (map entry_key (pipeline_layout pf))"
    "\<And>i. i < length (pipeline_layout pf) \<Longrightarrow>
       succs g (entry_key (pipeline_layout pf ! i)) = map dep_key (dep_names (pipeline_layout pf) i) \<and>
       dep_key ` set (dep_names (pipeline_layout pf) i) \<subseteq> set (map entry_key (pipeline_layout pf))"
    using validated_graph [OF assms] by blast
  have earlier: "k < length (pipeline_layout pf)" if "i < length (pipeline_layout pf)" "k \<in> set (snd (pipeline_layout pf ! i))" for i k
    using layout_backward [of "[]" 0 i "pf_Steps pf" k] that by simp
  have known: "dep_key ` set (dep_names (pipeline_layout pf) i) \<subseteq> set (map entry_key (pipeline_layout pf))"
    if "i < length (pipeline_layout pf)" for i using g(2) that by blast
  have node: "length (resolve_nodes pf) = length (pipeline_layout pf)" by (rule resolved_node(1) [OF g(1) known earlier])
  show len: "length (build_steps_of uuid b pf) = length (pipeline_layout pf)"
    by (simp add: build_steps_of_def pipelineStepsToDomain_def Resolve_def Let_def node)
  assume i: "i < length (pipeline_layout pf)"
  have "i < length (rp_Steps (Resolve pf))" "rp_Steps (Resolve pf) ! i = en_Step (resolve_nodes pf ! i)"
    using i node by (simp_all add: Resolve_def Let_def)
  with resolved_node(2) [OF g(1) known earlier i] show "s_NodeID (build_steps_of uuid b pf ! i) = buildNodeID i \<and>
      s_Name (build_steps_of uuid b pf ! i) = entry_name (pipeline_layout pf ! i) \<and>
      list_all2 (\<lambda>name node. \<exists>j < length (pipeline_layout pf). entry_key (pipeline_layout pf ! j) = dep_key name \<and> node = buildNodeID j)
        (dep_names (pipeline_layout pf) i) (s_DependsOnNodes (build_steps_of uuid b pf ! i))"
    by (simp add: build_steps_of_def domain_step)
qed

lemma valid_steps_sound:
  assumes "Validate pf = []"
  shows "sound_graph (build_steps_of uuid b pf)"
proof -
  let ?es = "pipeline_layout pf" and ?steps = "build_steps_of uuid b pf"
  obtain g where g: "acyclic (edges g)" "distinct (map entry_key ?es)"
    "\<And>i. i < length ?es \<Longrightarrow> succs g (entry_key (?es ! i)) = map dep_key (dep_names ?es i) \<and>
       dep_key ` set (dep_names ?es i) \<subseteq> set (map entry_key ?es)"
    using validated_graph [OF assms] by blast
  note len = valid_steps(1) [OF assms, of uuid b] and step = valid_steps(2) [OF assms, of _ uuid b]
  have eff: "effective_node (?steps ! i) = buildNodeID i" if "i < length ?es" for i
    using step [OF that] by (simp add: effective_node_def trimmed_buildNodeID)
  have effs: "map effective_node ?steps = map buildNodeID [0..<length ?es]"
    by (rule nth_equalityI) (simp_all add: len eff)
  have dep: "\<exists>j < length ?es. d = buildNodeID j \<and> entry_key (?es ! j) \<in> dep_key ` set (dep_names ?es i)"
    if i: "i < length ?es" and d: "d \<in> set (s_DependsOnNodes (?steps ! i))" for i d
  proof -
    from d obtain k where "k < length (s_DependsOnNodes (?steps ! i))" "d = s_DependsOnNodes (?steps ! i) ! k"
      by (auto simp: in_set_conv_nth)
    moreover note l2 = conjunct2 [OF conjunct2 [OF step [OF i]]]
    ultimately obtain j where "j < length ?es" "entry_key (?es ! j) = dep_key (dep_names ?es i ! k)" "d = buildNodeID j"
        "k < length (dep_names ?es i)"
      using list_all2_nthD2 [OF l2, of k] list_all2_lengthD [OF l2] by auto
    then show ?thesis by (intro exI [of _ j]) auto
  qed
  define h where "h n = entry_key (?es ! inv buildNodeID n)" for n
  have inj: "inj buildNodeID" by (auto simp: inj_def)
  have "waits_for ?steps \<subseteq> inv_image (edges g) h"
  proof
    fix e assume "e \<in> waits_for ?steps"
    then obtain i d where i: "i < length ?es" "d \<in> set (s_DependsOnNodes (?steps ! i))" "e = (effective_node (?steps ! i), TrimSpace d)"
      by (auto simp: waits_for_def in_set_conv_nth len)
    then obtain j where j: "j < length ?es" "d = buildNodeID j" "entry_key (?es ! j) \<in> dep_key ` set (dep_names ?es i)"
      using dep by blast
    then have "(entry_key (?es ! i), entry_key (?es ! j)) \<in> edges g" using g(3) [OF i(1)] by (simp add: edges_def)
    then show "e \<in> inv_image (edges g) h"
      using i(1,3) j(2) by (simp add: h_def eff trimmed_buildNodeID inv_f_f [OF inj])
  qed
  moreover have "wf (inv_image ((edges g)\<inverse>) h)"
    by (intro wf_inv_image finite_acyclic_wf_converse finite_edges g(1))
  then have "acyclic ((inv_image ((edges g)\<inverse>) h)\<inverse>)" by (intro acyclic_converse [THEN iffD2] wf_acyclic)
  moreover have "(inv_image ((edges g)\<inverse>) h)\<inverse> = inv_image (edges g) h" by (auto simp: inv_image_def)
  ultimately have ac: "acyclic (waits_for ?steps)" using acyclic_subset by metis
  have "TrimSpace (s_NodeID st) \<noteq> [] \<and> TrimSpace ` set (s_DependsOnNodes st) \<subseteq> effective_node ` set ?steps"
    if "st \<in> set ?steps" for st
  proof -
    from that obtain i where i: "i < length ?es" "st = ?steps ! i" by (auto simp: in_set_conv_nth len)
    have nodes: "effective_node ` set ?steps = buildNodeID ` {0..<length ?es}"
      using effs by (metis list.set_map set_upt)
    have "TrimSpace d \<in> effective_node ` set ?steps" if "d \<in> set (s_DependsOnNodes st)" for d
    proof -
      obtain j where "j < length ?es" "d = buildNodeID j"
        using dep [OF i(1), of d] \<open>d \<in> set (s_DependsOnNodes st)\<close> i(2) by auto
      then show ?thesis by (simp add: nodes trimmed_buildNodeID)
    qed
    moreover have "TrimSpace (s_NodeID st) \<noteq> []" using step [OF i(1)] i(2) by (simp add: trimmed_buildNodeID)
    ultimately show ?thesis by blast
  qed
  moreover have "distinct (map effective_node ?steps)" unfolding effs by (simp add: distinct_map inj_on_def)
  ultimately show ?thesis using ac unfolding sound_graph_def by blast
qed

section \<open>Runs keep the shape of a build\<close>

lemma one_step_length: "one_step r r' \<Longrightarrow> length (get_steps r' i) = length (get_steps r i)"
  by (auto simp: one_step_def)

lemma CompleteStep_length: "length (get_steps (fst (CompleteStep now req r)) i) = length (get_steps r i)"
  using CompleteStep_effect [of now req r] by (auto dest: one_step_length [of _ _ i])

lemma worker_step_length: "worker_step lab r r' \<Longrightarrow> length (get_steps r' i) = length (get_steps r i)"
proof (induction rule: worker_step.induct)
  case (cancel r j reason t)
  then show ?case by (auto simp: CancelBuild_def Let_def split: option.split)
next
  case (status r now j st msg)
  then show ?case by (auto simp: UpdateStatus_def update_build_def split: option.split)
qed (rule one_step_length [OF ClaimPendingStep_one_step] one_step_length [OF ReclaimExpiredStep_one_step]
    one_step_length [OF RenewStepLease_one_step] CompleteStep_length)+

lemma worker_run_shape:
  assumes "worker_run r r'"
  shows "map shape (get_steps r' i) = map shape (get_steps r i)"
proof -
  have "length (get_steps r' i) = length (get_steps r i)"
    using assms unfolding worker_run_def by (induction rule: rtranclp_induct) (auto dest: worker_step_length [of _ _ _ i])
  moreover have "shape (get_steps r' i ! k) = shape (get_steps r i ! k)" if "k < length (get_steps r i)" for k
    using worker_run_invariants(1) [OF assms] that by (simp add: evolves_def step_evolves_def shape_def)
  ultimately show ?thesis by (intro nth_equalityI) simp_all
qed

lemma adopt_steps_shape: "mset (map shape (adopt_steps us b steps)) = mset (map shape steps)"
proof -
  have "map shape (map (\<lambda>(k, step). adopt_step (us k) b step) (enumerate 0 steps)) = map shape steps"
    by (rule nth_equalityI) (auto simp: nth_enumerate_eq adopt_step_def shape_def cloneStep_def Let_def)
  then show ?thesis by (metis adopt_steps_def mset_map mset_sort_slice)
qed

lemma CreateQueuedBuild_steps:
  assumes "CreateQueuedBuild uuid us now build steps r = (r1, Inr build')"
  shows "get_steps r1 (b_ID build') = adopt_steps us (b_ID build') steps" "get_build r1 (b_ID build') \<noteq> None"
  using assms
  by (auto simp: CreateQueuedBuild_def Let_def cloneBuildApplicationVersion_def split: prod.splits option.splits if_splits)

lemma CreateQueuedBuild_succeeds:
  assumes "Build_ValidateRepositoryIdentitySnapshot b = None"
  shows "\<exists>r' b'. CreateQueuedBuild uuid us now b steps r = (r', Inr b') \<and> b_ID b' = (if b_ID b = [] then uuid else b_ID b)"
proof -
  obtain r1 b1 where p: "prepare_new_build uuid b r = (r1, b1)" by fastforce
  from prepare_new_build_frame(3,4) [OF p] assms show ?thesis
    by (simp add: CreateQueuedBuild_def p Let_def cloneBuildApplicationVersion_def)
qed

section \<open>A small pipeline\<close>

lemma demo_valid: "Validate demo_pipeline = []"
  by code_simp

section \<open>Properties\<close>

text \<open>
  C39: A pipeline file that passes validation resolves to a sound build. Step \<open>i\<close> gets the node identifier
  \<open>node-i\<close>; its dependencies are exactly the nodes of the steps it names in \<open>depends_on\<close> (or, without
  \<open>depends_on\<close>, of the steps before it), matched without regard to case or surrounding space; every
  dependency is a step of the build, there are no cycles, and the execution planner returns a plan.
\<close>

theorem validated_pipeline_is_sound:
  assumes "Validate pf = []"
  shows "let steps = build_steps_of uuid b pf in
    length steps = length (pipeline_layout pf) \<and> sound_graph steps \<and>
    (\<exists>plans. planWorkspaceInputs steps = Some plans \<and> length plans = length steps) \<and>
    (\<forall>i < length steps. s_NodeID (steps ! i) = buildNodeID i \<and>
       list_all2 (\<lambda>name node. \<exists>j < length steps. dep_key (s_Name (steps ! j)) = dep_key name \<and> node = s_NodeID (steps ! j))
         (dep_names (pipeline_layout pf) i) (s_DependsOnNodes (steps ! i)))"
proof -
  let ?steps = "build_steps_of uuid b pf"
  note len = valid_steps(1) [OF assms, of uuid b] and step = valid_steps(2) [OF assms, of _ uuid b]
  have sound: "sound_graph ?steps" by (rule valid_steps_sound [OF assms])
  have plans: "\<exists>plans. planWorkspaceInputs ?steps = Some plans \<and> length plans = length ?steps"
    using planWorkspaceInputs_acyclic [OF sound_graph_plannable [OF sound]] by simp
  have key: "dep_key (s_Name (?steps ! j)) = entry_key (pipeline_layout pf ! j)" if "j < length (pipeline_layout pf)" for j
    using step [OF that] by (simp add: entry_key_def entry_name_def step_key_dep)
  have "list_all2 (\<lambda>name node. \<exists>j < length ?steps. dep_key (s_Name (?steps ! j)) = dep_key name \<and> node = s_NodeID (?steps ! j))
      (dep_names (pipeline_layout pf) i) (s_DependsOnNodes (?steps ! i))" if i: "i < length (pipeline_layout pf)" for i
    using conjunct2 [OF conjunct2 [OF step [OF i]]] by (rule list_all2_mono) (use key step in \<open>auto simp: len\<close>)
  with sound plans step show ?thesis by (simp add: len Let_def)
qed

theorem validated_pipeline_is_sound_witness:
  "let steps = build_steps_of (\<lambda>n. FallbackNodeID (int n)) ''b'' demo_pipeline in
    length steps = 4 \<and> sound_graph steps \<and> s_DependsOnNodes (steps ! 3) = [''node-001''] \<and>
    (\<exists>plans. planWorkspaceInputs steps = Some plans \<and> length plans = 4)"
proof -
  let ?steps = "build_steps_of (\<lambda>n. FallbackNodeID (int n)) ''b'' demo_pipeline"
  have "length (pipeline_layout demo_pipeline) = 4" "s_DependsOnNodes (?steps ! 3) = [''node-001'']" by code_simp+
  with validated_pipeline_is_sound [OF demo_valid, of "\<lambda>n. FallbackNodeID (int n)" "''b''"] show ?thesis
    unfolding Let_def by auto
qed

text \<open>
  C40: A build made from a valid pipeline never gets stuck. Whatever workers, the recovery loop and the
  operator have done to the store since the build was queued: as long as some step of the build is
  pending and every other step is pending or succeeded, there is a pending step that the next claim
  obtains.
\<close>

theorem validated_build_never_stuck:
  assumes "Validate pf = []"
    and "CreateQueuedBuild uuid us now build (build_steps_of ids b pf) r = (r1, Inr build')"
    and "worker_run r1 r2"
    and "st0 \<in> set (get_steps r2 (b_ID build'))" "s_Status st0 = BuildStepStatusPending"
    and "\<And>st. st \<in> set (get_steps r2 (b_ID build')) \<Longrightarrow>
           s_Status st = BuildStepStatusPending \<or> s_Status st = BuildStepStatusSuccess"
  shows "\<exists>k r3 st. ClaimPendingStep (b_ID build') k c r2 = (r3, Inr (Some st)) \<and> s_Status st = BuildStepStatusRunning"
proof -
  let ?i = "b_ID build'"
  let ?steps = "get_steps r2 ?i"
  have m: "mset (map shape (build_steps_of ids b pf)) = mset (map shape ?steps)"
    using worker_run_shape [OF assms(3), of ?i] CreateQueuedBuild_steps(1) [OF assms(2)] adopt_steps_shape by metis
  then have "sound_graph ?steps" using valid_steps_sound [OF assms(1)] sound_graph_mset by blast
  then have "runnable_pending ?steps" by (rule sound_graph_progress [OF _ assms(4,5)]) (rule assms(6))
  then obtain j where j: "j < length ?steps" "s_Status (?steps ! j) = BuildStepStatusPending"
    "isStepRunnable (?steps ! j) ?steps (stepStatusByNodeID ?steps)"
    by (auto simp: runnable_pending_def in_set_conv_nth)
  have at: "step_at (s_StepIndex (?steps ! j)) ?steps = Some j"
    using step_at_distinct [OF _ j(1)] indices_mset [OF m] build_indices by blast
  have "get_build r2 ?i \<noteq> None" by (rule worker_run_invariants(2) [OF assms(3) CreateQueuedBuild_steps(2) [OF assms(2)]])
  then show ?thesis
    using j at by (intro exI [of _ "s_StepIndex (?steps ! j)"])
      (auto simp: ClaimPendingStep_def Let_def cloneStep_def)
qed

theorem validated_build_never_stuck_witness:
  "\<exists>r1 build' k r3 st.
     CreateQueuedBuild ''b'' (\<lambda>_. []) 0 (blank_build ''b'' BuildStatusPending)
       (build_steps_of (\<lambda>n. FallbackNodeID (int n)) ''b'' demo_pipeline) NewBuildRepository = (r1, Inr build') \<and>
     ClaimPendingStep (b_ID build') k (claim_by ''w'' ''t'' 5) r1 = (r3, Inr (Some st)) \<and>
     s_Status st = BuildStepStatusRunning"
proof -
  let ?steps = "build_steps_of (\<lambda>n. FallbackNodeID (int n)) ''b'' demo_pipeline"
  let ?create = "CreateQueuedBuild ''b'' (\<lambda>_. []) 0 (blank_build ''b'' BuildStatusPending) ?steps NewBuildRepository"
  have "Build_ValidateRepositoryIdentitySnapshot (blank_build ''b'' BuildStatusPending) = None"
    by (simp add: Build_ValidateRepositoryIdentitySnapshot_def ValidateRepositoryIdentitySnapshot_def blank_build_def)
  then obtain r1 build' where c: "?create = (r1, Inr build')" and id: "b_ID build' = ''b''"
    using CreateQueuedBuild_succeeds [of "blank_build ''b'' BuildStatusPending"] by fastforce
  have all: "list_all (\<lambda>st. s_Status st = BuildStepStatusPending) (adopt_steps (\<lambda>_. []) ''b'' ?steps)"
    "adopt_steps (\<lambda>_. []) ''b'' ?steps \<noteq> []" by code_simp+
  note steps = CreateQueuedBuild_steps(1) [OF c, unfolded id]
  have run: "worker_run r1 r1" by (simp add: worker_run_def)
  have "\<exists>k r3 st. ClaimPendingStep (b_ID build') k (claim_by ''w'' ''t'' 5) r1 = (r3, Inr (Some st)) \<and> s_Status st = BuildStepStatusRunning"
    by (rule validated_build_never_stuck [OF demo_valid c run, of "hd (get_steps r1 ''b'')"])
      (use all in \<open>auto simp: id steps list_all_iff\<close>)
  with c show ?thesis by blast
qed

end
