(* ===== verification/Job_Invariant.thy ===== *)
theory Job_Invariant
  imports Execution_Job_Store
begin

text \<open>
  The invariant of the execution job store: the three maps agree, the index lists are sorted, and
  each method keeps this. \<open>job_step\<close> is the step relation of the store, one rule per method that
  writes; along it, every job follows the job lifecycle and a terminal job never changes.
\<close>

section \<open>Basic facts\<close>

lemma cloneArtifactRefs_id [simp]: "cloneArtifactRefs x = x"
  by (simp add: cloneArtifactRefs_def)

lemma cloneExecutionTiming_id [simp]: "cloneExecutionTiming t = t"
proof (cases t)
  case (Some t')
  have "map (\<lambda>p. \<lparr>pt_Name = pt_Name p, pt_StartedAt = pt_StartedAt p, pt_FinishedAt = pt_FinishedAt p\<rparr>) ps = ps"
    for ps :: "ExecutionPhaseTiming list"
    by (induction ps) simp_all
  then show ?thesis using Some by (simp add: cloneExecutionTiming_def)
qed (simp add: cloneExecutionTiming_def)

lemma cloneExecutionJob_id [simp]: "cloneExecutionJob job = job"
  by (simp add: cloneExecutionJob_def)

lemma get_job_put [simp]: "get_job (put_job i job r) k = (if k = i then Some job else get_job r k)"
  by (simp add: get_job_def put_job_def)

lemma index_put_job [simp]:
  "build_jobs (put_job i job r) b = build_jobs r b" "step_jobs (put_job i job r) s = step_jobs r s"
  by (simp_all add: put_job_def build_jobs_def step_jobs_def)

lemma get_job_index_update [simp]:
  "get_job (r\<lparr>jr_jobsByBuild := m\<rparr>) k = get_job r k" "get_job (r\<lparr>jr_jobsByStep := m\<rparr>) k = get_job r k"
  by (simp_all add: get_job_def)

lemma index_update [simp]:
  "build_jobs (r\<lparr>jr_jobsByBuild := gm_put b ids (jr_jobsByBuild r)\<rparr>) b' = (if b' = b then ids else build_jobs r b')"
  "step_jobs (r\<lparr>jr_jobsByStep := gm_put s ids (jr_jobsByStep r)\<rparr>) s' = (if s' = s then ids else step_jobs r s')"
  "build_jobs (r\<lparr>jr_jobsByStep := m\<rparr>) b' = build_jobs r b'"
  "step_jobs (r\<lparr>jr_jobsByBuild := m\<rparr>) s' = step_jobs r s'"
  by (simp_all add: build_jobs_def step_jobs_def)

lemma sort_fields_cong: "get_job r' = get_job r \<Longrightarrow> sort_fields r' = sort_fields r"
  by (rule ext) (simp add: sort_fields_def)

lemma job_less_cong:
  "sort_fields r' = sort_fields r \<Longrightarrow> build_job_less r' = build_job_less r"
  "sort_fields r' = sort_fields r \<Longrightarrow> step_job_less r' = step_job_less r"
  by (simp_all add: build_job_less_def [abs_def] step_job_less_def [abs_def])

interpretation build_job_order: comparator "build_job_less r" "sort_fields r"
  by unfold_locales (auto simp: build_job_less_def split: prod.split)

interpretation step_job_order: comparator "step_job_less r" "\<lambda>i. snd (sort_fields r i)"
  by unfold_locales (auto simp: step_job_less_def split: prod.split)

lemma take_job_claim_sel [simp]:
  "j_ID (take_job_claim c job) = j_ID job" "j_BuildID (take_job_claim c job) = j_BuildID job"
  "j_StepID (take_job_claim c job) = j_StepID job" "j_NodeID (take_job_claim c job) = j_NodeID job"
  "j_StepIndex (take_job_claim c job) = j_StepIndex job" "j_AttemptNumber (take_job_claim c job) = j_AttemptNumber job"
  "j_CreatedAt (take_job_claim c job) = j_CreatedAt job"
  "j_DependsOnNodeIDs (take_job_claim c job) = j_DependsOnNodeIDs job"
  "j_Status (take_job_claim c job) = ExecutionJobStatusRunning"
  "j_ClaimToken (take_job_claim c job) = Some (c_ClaimToken c)"
  "j_ClaimExpiresAt (take_job_claim c job) = Some (c_LeaseExpiresAt c)"
  by (simp_all add: take_job_claim_def Let_def)

lemma finish_job_sel [simp]:
  "j_ID (finish_job t s e k x refs job) = j_ID job" "j_BuildID (finish_job t s e k x refs job) = j_BuildID job"
  "j_StepID (finish_job t s e k x refs job) = j_StepID job" "j_NodeID (finish_job t s e k x refs job) = j_NodeID job"
  "j_StepIndex (finish_job t s e k x refs job) = j_StepIndex job"
  "j_AttemptNumber (finish_job t s e k x refs job) = j_AttemptNumber job"
  "j_CreatedAt (finish_job t s e k x refs job) = j_CreatedAt job"
  "j_DependsOnNodeIDs (finish_job t s e k x refs job) = j_DependsOnNodeIDs job"
  "j_Status (finish_job t s e k x refs job) = s" "j_ClaimToken (finish_job t s e k x refs job) = None"
  by (simp_all add: finish_job_def)

lemma cancel_job_sel [simp]:
  "j_ID (cancel_job m t job) = j_ID job" "j_BuildID (cancel_job m t job) = j_BuildID job"
  "j_StepID (cancel_job m t job) = j_StepID job" "j_NodeID (cancel_job m t job) = j_NodeID job"
  "j_StepIndex (cancel_job m t job) = j_StepIndex job" "j_AttemptNumber (cancel_job m t job) = j_AttemptNumber job"
  "j_CreatedAt (cancel_job m t job) = j_CreatedAt job"
  "j_DependsOnNodeIDs (cancel_job m t job) = j_DependsOnNodeIDs job"
  "j_Status (cancel_job m t job) = ExecutionJobStatusCanceled" "j_ClaimToken (cancel_job m t job) = None"
  by (simp_all add: cancel_job_def Let_def)

lemma prepare_job_sel [simp]:
  "j_ID (prepare_job job) = j_ID job" "j_BuildID (prepare_job job) = j_BuildID job"
  "j_StepID (prepare_job job) = j_StepID job" "j_StepIndex (prepare_job job) = j_StepIndex job"
  "j_Status (prepare_job job) = j_Status job" "j_CreatedAt (prepare_job job) = j_CreatedAt job"
  "1 \<le> j_AttemptNumber (prepare_job job)"
  by (simp_all add: prepare_job_def Let_def normalizeAttemptNumber_def)

section \<open>The invariant\<close>

definition jobs_wf :: "ExecutionJobRepository \<Rightarrow> bool" where
  "jobs_wf r \<longleftrightarrow>
     gm_ok (jr_jobsByID r) \<and>
     (\<forall>i job. get_job r i = Some job \<longrightarrow> j_ID job = i) \<and>
     (\<forall>b. distinct (build_jobs r b) \<and> sorted (map (sort_fields r) (build_jobs r b))) \<and>
     (\<forall>s. distinct (step_jobs r s) \<and> sorted (map (\<lambda>i. snd (sort_fields r i)) (step_jobs r s))) \<and>
     (\<forall>b i. i \<in> set (build_jobs r b) \<longleftrightarrow> (\<exists>job. get_job r i = Some job \<and> j_BuildID job = b)) \<and>
     (\<forall>s i. i \<in> set (step_jobs r s) \<longleftrightarrow> (\<exists>job. get_job r i = Some job \<and> j_StepID job = s))"

lemma jobs_wfD:
  assumes "jobs_wf r"
  shows "gm_ok (jr_jobsByID r)" "get_job r i = Some job \<Longrightarrow> j_ID job = i"
    "distinct (build_jobs r b)" "sorted (map (sort_fields r) (build_jobs r b))"
    "distinct (step_jobs r s)" "sorted (map (\<lambda>i. snd (sort_fields r i)) (step_jobs r s))"
    "i \<in> set (build_jobs r b) \<longleftrightarrow> (\<exists>job. get_job r i = Some job \<and> j_BuildID job = b)"
    "i \<in> set (step_jobs r s) \<longleftrightarrow> (\<exists>job. get_job r i = Some job \<and> j_StepID job = s)"
  using assms unfolding jobs_wf_def by blast+

lemma jobs_wf_new: "jobs_wf NewExecutionJobRepository"
  by (simp add: jobs_wf_def NewExecutionJobRepository_def get_job_def build_jobs_def step_jobs_def)

text \<open>What stays of a job once it is stored.\<close>

definition same_job :: "ExecutionJob \<Rightarrow> ExecutionJob \<Rightarrow> bool" where
  "same_job a b \<longleftrightarrow>
     j_ID b = j_ID a \<and> j_BuildID b = j_BuildID a \<and> j_StepID b = j_StepID a \<and> j_NodeID b = j_NodeID a \<and>
     j_DependsOnNodeIDs b = j_DependsOnNodeIDs a \<and> j_StepIndex b = j_StepIndex a \<and>
     j_AttemptNumber b = j_AttemptNumber a \<and> j_CreatedAt b = j_CreatedAt a"

lemma same_job_refl [simp]: "same_job a a"
  by (simp add: same_job_def)

lemma same_job_ops [simp]:
  "same_job job (take_job_claim c job)" "same_job job (finish_job t s e k x refs job)"
  "same_job job (cancel_job m t job)" "same_job job (job\<lparr>j_ClaimExpiresAt := l\<rparr>)" "same_job job (job\<lparr>j_Timing := tm\<rparr>)"
  by (simp_all add: same_job_def)

lemma sort_fields_put:
  assumes "get_job r i = Some job" "same_job job job'"
  shows "sort_fields (put_job i job' r) = sort_fields r"
  using assms by (auto simp: sort_fields_def same_job_def fun_eq_iff)

lemma jobs_wf_put:
  assumes wf: "jobs_wf r" and g: "get_job r i = Some job" and same: "same_job job job'"
  shows "jobs_wf (put_job i job' r)"
proof -
  have ok: "gm_ok (jr_jobsByID (put_job i job' r))"
    using jobs_wfD(1) [OF wf] by (simp add: put_job_def)
  have id: "\<forall>k j. get_job (put_job i job' r) k = Some j \<longrightarrow> j_ID j = k"
    using jobs_wfD(2) [OF wf] g same by (auto simp: same_job_def)
  have b: "(\<exists>j. get_job (put_job i job' r) k = Some j \<and> j_BuildID j = b) = (\<exists>j. get_job r k = Some j \<and> j_BuildID j = b)" for b k
    using g same by (auto simp: same_job_def)
  have s: "(\<exists>j. get_job (put_job i job' r) k = Some j \<and> j_StepID j = b) = (\<exists>j. get_job r k = Some j \<and> j_StepID j = b)" for b k
    using g same by (auto simp: same_job_def)
  show ?thesis
    unfolding jobs_wf_def b s sort_fields_put [OF g same] index_put_job
    using ok id jobs_wfD(3-8) [OF wf] by blast
qed

section \<open>How jobs evolve\<close>

definition job_evolves :: "ExecutionJob \<Rightarrow> ExecutionJob \<Rightarrow> bool" where
  "job_evolves a b \<longleftrightarrow> same_job a b \<and> job_move\<^sup>*\<^sup>* (j_Status a) (j_Status b) \<and>
     (IsTerminalExecutionJobStatus (j_Status a) \<longrightarrow> b = a)"

definition jobs_evolve :: "ExecutionJobRepository \<Rightarrow> ExecutionJobRepository \<Rightarrow> bool" where
  "jobs_evolve r r' \<longleftrightarrow>
     (\<forall>i job. get_job r i = Some job \<longrightarrow> (\<exists>job'. get_job r' i = Some job' \<and> job_evolves job job'))"

lemma job_evolves_refl [simp]: "job_evolves a a"
  by (simp add: job_evolves_def)

lemma job_evolves_trans: "job_evolves a b \<Longrightarrow> job_evolves b c \<Longrightarrow> job_evolves a c"
  unfolding job_evolves_def same_job_def by (auto intro: rtranclp_trans)

lemma jobs_evolve_refl [simp]: "jobs_evolve r r"
  by (simp add: jobs_evolve_def)

lemma jobs_evolve_trans: "jobs_evolve a b \<Longrightarrow> jobs_evolve b c \<Longrightarrow> jobs_evolve a c"
  unfolding jobs_evolve_def by (meson job_evolves_trans)

lemma job_evolvesI:
  "same_job a b \<Longrightarrow> j_Status b = j_Status a \<or> job_move (j_Status a) (j_Status b) \<Longrightarrow>
   \<not> IsTerminalExecutionJobStatus (j_Status a) \<Longrightarrow> job_evolves a b"
  unfolding job_evolves_def by auto

lemma jobs_evolve_put:
  "get_job r i = Some job \<Longrightarrow> job_evolves job job' \<Longrightarrow> jobs_evolve r (put_job i job' r)"
  by (simp add: jobs_evolve_def)

text \<open>Every method but creation replaces jobs one at a time by jobs that evolve from them.\<close>

inductive job_update :: "ExecutionJobRepository \<Rightarrow> ExecutionJobRepository \<Rightarrow> bool" where
  "get_job r i = Some job \<Longrightarrow> job_evolves job job' \<Longrightarrow> job_update r (put_job i job' r)"

inductive_cases job_updateE: "job_update r r'"

lemma job_updates_wf: "job_update\<^sup>*\<^sup>* r r' \<Longrightarrow> jobs_wf r \<Longrightarrow> jobs_wf r'"
  by (induction rule: rtranclp_induct) (auto elim!: job_updateE intro: jobs_wf_put simp: job_evolves_def)

lemma job_updates_evolve: "job_update\<^sup>*\<^sup>* r r' \<Longrightarrow> jobs_evolve r r'"
  by (induction rule: rtranclp_induct) (auto elim!: job_updateE intro: jobs_evolve_trans jobs_evolve_put)

lemma job_updates_index: "job_update\<^sup>*\<^sup>* r r' \<Longrightarrow> build_jobs r' = build_jobs r \<and> step_jobs r' = step_jobs r"
  by (induction rule: rtranclp_induct) (auto elim!: job_updateE simp: fun_eq_iff)

lemma job_updateI:
  "get_job r i = Some job \<Longrightarrow> job_evolves job job' \<Longrightarrow> job_update\<^sup>*\<^sup>* r (put_job i job' r)"
  by (rule r_into_rtranclp) (rule job_update.intros)

section \<open>The methods\<close>

lemma claim_evolves: "j_Status job = ExecutionJobStatusQueued \<or> j_Status job = ExecutionJobStatusRunning \<Longrightarrow>
  job_evolves job (take_job_claim c job)"
  by (intro job_evolvesI) auto

lemma isClaimCandidate_status:
  "isClaimCandidate job m t \<Longrightarrow> j_Status job = ExecutionJobStatusQueued \<or> j_Status job = ExecutionJobStatusRunning"
  by (auto simp: isClaimCandidate_def split: if_splits)

text \<open>What the second critical section of a claim does, for any list of candidates.\<close>

lemma claim_first_result:
  "claim_first claim orders cs r = (r', res) \<Longrightarrow>
   (res = None \<and> r' = r) \<or>
   (\<exists>c job. c \<in> set cs \<and> get_job r (j_ID c) = Some job \<and>
      (co_status (order_of orders c) = BuildStatusQueued \<or> co_status (order_of orders c) = BuildStatusRunning) \<and>
      isClaimCandidate job (latestJobsByNodeID (build_jobs r (j_BuildID job)) (jr_jobsByID r)) (c_ClaimedAt claim) \<and>
      res = Some (take_job_claim claim job) \<and> r' = put_job (j_ID job) (take_job_claim claim job) r)"
proof (induction cs)
  case (Cons c cs)
  then show ?case
    by (cases "get_job r (j_ID c)") (auto simp: Let_def split: if_splits)
qed simp

lemma claim_first_update:
  assumes "jobs_wf r"
  shows "job_update\<^sup>*\<^sup>* r (fst (claim_first claim orders cs r))"
proof -
  obtain r' res where "claim_first claim orders cs r = (r', res)" by fastforce
  from claim_first_result [OF this] this show ?thesis
    using jobs_wfD(2) [OF assms] by (auto intro!: job_updateI claim_evolves isClaimCandidate_status)
qed

lemma ClaimNextRunnableJob_update: "jobs_wf r \<Longrightarrow> job_update\<^sup>*\<^sup>* r (fst (ClaimNextRunnableJob builds claim r))"
  by (simp add: ClaimNextRunnableJob_def Let_def claim_first_update split: prod.split)

lemma ClaimJobByStepID_update: "job_update\<^sup>*\<^sup>* r (fst (ClaimJobByStepID builds s claim r))"
  unfolding ClaimJobByStepID_def Let_def
  by (auto split: option.split intro!: job_updateI claim_evolves)

lemma with_held_job_update:
  assumes "\<And>job. j_Status job = ExecutionJobStatusRunning \<Longrightarrow> job_evolves job (f job)"
  shows "job_update\<^sup>*\<^sup>* r (fst (with_held_job i tok f r))"
  unfolding with_held_job_def using assms by (auto split: option.split intro!: job_updateI)

lemma RenewJobLease_update: "job_update\<^sup>*\<^sup>* r (fst (RenewJobLease i tok l r))"
  unfolding RenewJobLease_def by (rule with_held_job_update) (auto intro!: job_evolvesI)

lemma UpdateJobTiming_update: "job_update\<^sup>*\<^sup>* r (fst (UpdateJobTiming i tok tm r))"
  unfolding UpdateJobTiming_def by (rule with_held_job_update) (auto intro!: job_evolvesI)

lemma completeJobLocked_update:
  "s = ExecutionJobStatusSuccess \<or> s = ExecutionJobStatusFailed \<Longrightarrow>
   job_update\<^sup>*\<^sup>* r (fst (completeJobLocked i tok t s e k x refs r))"
  unfolding completeJobLocked_def by (rule with_held_job_update) (auto intro!: job_evolvesI)

lemma complete_step_and_job_update:
  assumes "job_update\<^sup>*\<^sup>* r (fst (complete r))"
  shows "job_update\<^sup>*\<^sup>* r (fst (snd (complete_step_and_job now now2 i tok req complete builds r)))"
  unfolding complete_step_and_job_def using assms by (auto split: option.split prod.split)

lemma cancel_jobs_update: "job_update\<^sup>*\<^sup>* r (fst (cancel_jobs m t ids r))"
proof (induction ids arbitrary: r)
  case (Cons i ids)
  show ?case
  proof (cases "get_job r i")
    case None
    with Cons show ?thesis by simp
  next
    case (Some job)
    have "job_update\<^sup>*\<^sup>* r (put_job i (cancel_job m t job) r)" if "CanCancelExecutionJob (j_Status job)"
      using that Some by (intro job_updateI job_evolvesI) (auto simp: CanCancelExecutionJob_def)
    with Some Cons show ?thesis by (auto split: prod.split intro: rtranclp_trans) (metis fst_conv rtranclp_trans)
  qed
qed simp

section \<open>Creation\<close>

definition index_ok :: "ExecutionJobRepository \<Rightarrow> bool" where
  "index_ok r \<longleftrightarrow>
     gm_ok (jr_jobsByID r) \<and>
     (\<forall>i job. get_job r i = Some job \<longrightarrow> j_ID job = i) \<and>
     (\<forall>b. distinct (build_jobs r b)) \<and> (\<forall>s. distinct (step_jobs r s)) \<and>
     (\<forall>b i. i \<in> set (build_jobs r b) \<longleftrightarrow> (\<exists>job. get_job r i = Some job \<and> j_BuildID job = b)) \<and>
     (\<forall>s i. i \<in> set (step_jobs r s) \<longleftrightarrow> (\<exists>job. get_job r i = Some job \<and> j_StepID job = s))"

lemma add_job_sel [simp]:
  "get_job (add_job job r) i = (if i = j_ID job then Some job else get_job r i)"
  "build_jobs (add_job job r) b = (if b = j_BuildID job then build_jobs r b @ [j_ID job] else build_jobs r b)"
  "step_jobs (add_job job r) s = (if s = j_StepID job then step_jobs r s @ [j_ID job] else step_jobs r s)"
  "gm_ok (jr_jobsByID r) \<Longrightarrow> gm_ok (jr_jobsByID (add_job job r))"
  by (simp_all add: add_job_def Let_def get_job_def put_job_def build_jobs_def step_jobs_def)

lemma index_ok_add:
  assumes "index_ok r" "get_job r (j_ID job) = None"
  shows "index_ok (add_job job r)"
  using assms unfolding index_ok_def by auto

lemma fold_add_job:
  assumes "index_ok r" "distinct (map j_ID jobs)" "\<And>job. job \<in> set jobs \<Longrightarrow> get_job r (j_ID job) = None"
  shows "index_ok (fold (\<lambda>job. add_job (prepare_job job)) jobs r)"
    and "get_job r i \<noteq> None \<Longrightarrow> get_job (fold (\<lambda>job. add_job (prepare_job job)) jobs r) i = get_job r i"
    and "b \<notin> j_BuildID ` set jobs \<Longrightarrow> build_jobs (fold (\<lambda>job. add_job (prepare_job job)) jobs r) b = build_jobs r b"
    and "s \<notin> j_StepID ` set jobs \<Longrightarrow> step_jobs (fold (\<lambda>job. add_job (prepare_job job)) jobs r) s = step_jobs r s"
proof -
  let ?f = "\<lambda>jobs r. fold (\<lambda>job. add_job (prepare_job job)) jobs r"
  have "index_ok (?f jobs r) \<and> (get_job r i \<noteq> None \<longrightarrow> get_job (?f jobs r) i = get_job r i) \<and>
    (b \<notin> j_BuildID ` set jobs \<longrightarrow> build_jobs (?f jobs r) b = build_jobs r b) \<and>
    (s \<notin> j_StepID ` set jobs \<longrightarrow> step_jobs (?f jobs r) s = step_jobs r s)"
    using assms
  proof (induction jobs arbitrary: r)
    case (Cons job jobs)
    let ?r = "add_job (prepare_job job) r"
    have "index_ok ?r" using Cons.prems by (simp add: index_ok_add)
    moreover have "get_job ?r (j_ID j) = None" if "j \<in> set jobs" for j
    proof -
      have "j_ID j \<noteq> j_ID job" using Cons.prems(2) imageI [OF that, of j_ID] by auto
      with Cons.prems(3) that show ?thesis by simp
    qed
    ultimately have IH: "index_ok (?f jobs ?r) \<and> (get_job ?r i \<noteq> None \<longrightarrow> get_job (?f jobs ?r) i = get_job ?r i) \<and>
        (b \<notin> j_BuildID ` set jobs \<longrightarrow> build_jobs (?f jobs ?r) b = build_jobs ?r b) \<and>
        (s \<notin> j_StepID ` set jobs \<longrightarrow> step_jobs (?f jobs ?r) s = step_jobs ?r s)"
      using Cons.prems by (intro Cons.IH) simp_all
    have "get_job r (j_ID job) = None" using Cons.prems by simp
    with IH show ?case by (auto split: if_splits)
  qed simp
  then show "index_ok (?f jobs r)"
    and "get_job r i \<noteq> None \<Longrightarrow> get_job (?f jobs r) i = get_job r i"
    and "b \<notin> j_BuildID ` set jobs \<Longrightarrow> build_jobs (?f jobs r) b = build_jobs r b"
    and "s \<notin> j_StepID ` set jobs \<Longrightarrow> step_jobs (?f jobs r) s = step_jobs r s" by blast+
qed

lemma sort_jobs_loop_effects:
  "get_job (sort_jobs_loop jobs bs ss r) = get_job r \<and>
   build_jobs (sort_jobs_loop jobs bs ss r) b =
     (if b \<in> j_BuildID ` set jobs \<and> b \<notin> set bs then sort_slice (build_job_less r) (build_jobs r b) else build_jobs r b) \<and>
   step_jobs (sort_jobs_loop jobs bs ss r) s =
     (if s \<in> j_StepID ` set jobs \<and> s \<notin> set ss then sort_slice (step_job_less r) (step_jobs r s) else step_jobs r s) \<and>
   jr_jobsByID (sort_jobs_loop jobs bs ss r) = jr_jobsByID r"
proof (induction jobs bs ss r rule: sort_jobs_loop.induct)
  case (2 job jobs bs ss r)
  define r1 where "r1 = (if j_BuildID job \<in> set bs then r
     else r\<lparr>jr_jobsByBuild := gm_put (j_BuildID job)
                (sort_slice (build_job_less r) (build_jobs r (j_BuildID job))) (jr_jobsByBuild r)\<rparr>)"
  define r2 where "r2 = (if j_StepID job \<in> set ss then r1
     else r1\<lparr>jr_jobsByStep := gm_put (j_StepID job)
                (sort_slice (step_job_less r1) (step_jobs r1 (j_StepID job))) (jr_jobsByStep r1)\<rparr>)"
  let ?bs = "if j_BuildID job \<in> set bs then bs else j_BuildID job # bs"
  let ?ss = "if j_StepID job \<in> set ss then ss else j_StepID job # ss"
  have step: "sort_jobs_loop (job # jobs) bs ss r = sort_jobs_loop jobs ?bs ?ss r2"
    by (simp add: r1_def r2_def Let_def)
  have g: "get_job r1 = get_job r" "get_job r2 = get_job r"
    by (simp_all add: r1_def r2_def fun_eq_iff)
  note less = job_less_cong [OF sort_fields_cong [OF g(1)]] job_less_cong [OF sort_fields_cong [OF g(2)]]
  have IH: "get_job (sort_jobs_loop jobs ?bs ?ss r2) = get_job r2"
    "build_jobs (sort_jobs_loop jobs ?bs ?ss r2) b =
       (if b \<in> j_BuildID ` set jobs \<and> b \<notin> set ?bs then sort_slice (build_job_less r2) (build_jobs r2 b) else build_jobs r2 b)"
    "step_jobs (sort_jobs_loop jobs ?bs ?ss r2) s =
       (if s \<in> j_StepID ` set jobs \<and> s \<notin> set ?ss then sort_slice (step_job_less r2) (step_jobs r2 s) else step_jobs r2 s)"
    "jr_jobsByID (sort_jobs_loop jobs ?bs ?ss r2) = jr_jobsByID r2"
    using 2 [of "(?bs, r1)" ?bs r1 "(?ss, r2)" ?ss r2] by (simp_all add: r1_def r2_def)
  have b2: "build_jobs r2 b = (if j_BuildID job \<in> set bs \<or> b \<noteq> j_BuildID job then build_jobs r b
      else sort_slice (build_job_less r) (build_jobs r b))"
    and s2: "step_jobs r2 s = (if j_StepID job \<in> set ss \<or> s \<noteq> j_StepID job then step_jobs r s
      else sort_slice (step_job_less r) (step_jobs r s))"
    using less by (auto simp: r1_def r2_def)
  show ?case unfolding step IH less b2 s2 by (auto simp: g r1_def r2_def)
qed simp

lemmas sort_jobs_loop_effect =
  sort_jobs_loop_effects [THEN conjunct1]
  sort_jobs_loop_effects [THEN conjunct2, THEN conjunct1]
  sort_jobs_loop_effects [THEN conjunct2, THEN conjunct2, THEN conjunct1]
  sort_jobs_loop_effects [THEN conjunct2, THEN conjunct2, THEN conjunct2]

lemma CreateJobsForBuild_wf:
  assumes wf: "jobs_wf r" and dist: "distinct (map j_ID jobs)"
    and fresh: "\<And>job. job \<in> set jobs \<Longrightarrow> get_job r (j_ID job) = None"
  shows "jobs_wf (fst (CreateJobsForBuild jobs r))"
    and "get_job r i \<noteq> None \<Longrightarrow> get_job (fst (CreateJobsForBuild jobs r)) i = get_job r i"
proof -
  define r1 where "r1 = fold (\<lambda>job. add_job (prepare_job job)) jobs r"
  define r2 where "r2 = fst (CreateJobsForBuild jobs r)"
  have r2: "r2 = sort_jobs_loop jobs [] [] r1"
    by (simp add: r2_def CreateJobsForBuild_def sortBuildAndStepJobsLocked_def r1_def)
  have "index_ok r" using wf unfolding jobs_wf_def index_ok_def by blast
  note add = fold_add_job [OF this dist fresh, folded r1_def]
  have g: "get_job r2 = get_job r1" by (simp add: r2 sort_jobs_loop_effect)
  note eff = sort_jobs_loop_effect [where jobs = jobs and bs = "[]" and ss = "[]" and r = r1, folded r2]
  have sf: "sort_fields r2 = sort_fields r1" by (rule sort_fields_cong [OF g])
  have old: "sort_fields r1 i = sort_fields r i" if "get_job r i \<noteq> None" for i
    using add(2) [OF _ that] by (simp add: sort_fields_def)
  have sb: "sorted (map (sort_fields r2) (build_jobs r2 b))" for b
  proof (cases "b \<in> j_BuildID ` set jobs")
    case True
    then show ?thesis using build_job_order.sort_sorted [of r1] by (simp add: eff(2) sf)
  next
    case False
    with add(3) have eq: "build_jobs r2 b = build_jobs r b" by (simp add: eff(2))
    have "map (sort_fields r1) (build_jobs r b) = map (sort_fields r) (build_jobs r b)"
      using old jobs_wfD(7) [OF wf] by (intro map_cong) auto
    with jobs_wfD(4) [OF wf, of b] show ?thesis unfolding eq sf by (simp only:)
  qed
  have ss: "sorted (map (\<lambda>i. snd (sort_fields r2 i)) (step_jobs r2 s))" for s
  proof (cases "s \<in> j_StepID ` set jobs")
    case True
    then show ?thesis using step_job_order.sort_sorted [of r1] by (simp add: eff(3) sf)
  next
    case False
    with add(4) have eq: "step_jobs r2 s = step_jobs r s" by (simp add: eff(3))
    have "map (\<lambda>i. snd (sort_fields r1 i)) (step_jobs r s) = map (\<lambda>i. snd (sort_fields r i)) (step_jobs r s)"
      using old jobs_wfD(8) [OF wf] by (intro map_cong) auto
    with jobs_wfD(6) [OF wf, of s] show ?thesis unfolding eq sf by (simp only:)
  qed
  have perm: "mset (build_jobs r2 b) = mset (build_jobs r1 b)" "mset (step_jobs r2 s) = mset (step_jobs r1 s)" for b s
    by (simp_all add: eff(2,3))
  then have "distinct (build_jobs r2 b) = distinct (build_jobs r1 b)" "set (build_jobs r2 b) = set (build_jobs r1 b)"
    "distinct (step_jobs r2 s) = distinct (step_jobs r1 s)" "set (step_jobs r2 s) = set (step_jobs r1 s)" for b s
    by (metis mset_eq_imp_distinct_iff, metis mset_eq_setD, metis mset_eq_imp_distinct_iff, metis mset_eq_setD)
  then have "index_ok r2" using add(1) unfolding index_ok_def g by (simp add: eff(4))
  then show "jobs_wf (fst (CreateJobsForBuild jobs r))"
    using sb ss unfolding r2_def [symmetric] jobs_wf_def index_ok_def by blast
  show "get_job r i \<noteq> None \<Longrightarrow> get_job (fst (CreateJobsForBuild jobs r)) i = get_job r i"
    unfolding r2_def [symmetric] g by (rule add(2))
qed

section \<open>Every reachable store is well formed\<close>

inductive job_step :: "ExecutionJobRepository \<Rightarrow> ExecutionJobRepository \<Rightarrow> bool" where
  create: "distinct (map j_ID jobs) \<Longrightarrow> \<forall>job \<in> set jobs. get_job r (j_ID job) = None \<Longrightarrow>
     job_step r (fst (CreateJobsForBuild jobs r))"
| claim_next: "job_step r (fst (claim_first claim orders candidates r))"
| claim_by_step: "job_step r (fst (ClaimJobByStepID builds s claim r))"
| renew: "job_step r (fst (RenewJobLease i tok l r))"
| timing: "job_step r (fst (UpdateJobTiming i tok tm r))"
| success: "job_step r (fst (CompleteJobSuccess i tok t x refs r))"
| failure: "job_step r (fst (CompleteJobFailure i tok t e k x refs r))"
| step_and_job_success: "job_step r (fst (snd (CompleteSuccessfulStepAndJob now now2 sreq builds r)))"
| step_and_job_failure: "job_step r (fst (snd (CompleteFailedStepAndJob now now2 freq builds r)))"
| cancel: "job_step r (fst (CancelJobsForBuild b reason t r))"

lemma job_step_cases:
  assumes "job_step r r'" "jobs_wf r"
  shows "(\<exists>jobs. distinct (map j_ID jobs) \<and> (\<forall>job \<in> set jobs. get_job r (j_ID job) = None) \<and>
            r' = fst (CreateJobsForBuild jobs r)) \<or> job_update\<^sup>*\<^sup>* r r'"
  using assms
proof (cases rule: job_step.cases)
  case (create jobs)
  then show ?thesis by blast
next
  case claim_next
  then show ?thesis using claim_first_update [OF assms(2)] by simp
qed (auto simp: CompleteJobSuccess_def CompleteJobFailure_def CompleteSuccessfulStepAndJob_def
      CompleteFailedStepAndJob_def CancelJobsForBuild_def ClaimJobByStepID_update RenewJobLease_update
      UpdateJobTiming_update cancel_jobs_update
      intro!: completeJobLocked_update complete_step_and_job_update)

lemma job_step_wf: "job_step r r' \<Longrightarrow> jobs_wf r \<Longrightarrow> jobs_wf r'"
  using job_step_cases CreateJobsForBuild_wf(1) job_updates_wf by metis

lemma job_step_evolves:
  assumes "job_step r r'" "jobs_wf r"
  shows "jobs_evolve r r'"
  using job_step_cases [OF assms]
proof (elim disjE exE conjE)
  fix jobs assume "distinct (map j_ID jobs)" "\<forall>job \<in> set jobs. get_job r (j_ID job) = None"
    "r' = fst (CreateJobsForBuild jobs r)"
  with CreateJobsForBuild_wf(2) [OF assms(2)] show ?thesis by (auto simp: jobs_evolve_def)
qed (rule job_updates_evolve)

lemma job_run:
  assumes "job_step\<^sup>*\<^sup>* r r'" "jobs_wf r"
  shows "jobs_wf r' \<and> jobs_evolve r r'"
  using assms
  by (induction rule: rtranclp_induct) (auto intro: job_step_wf jobs_evolve_trans job_step_evolves)

end
