(* ===== verification/Job_Properties.thy ===== *)
theory Job_Properties
  imports Job_Invariant
begin

text \<open>
  The contract of the execution job store: which job a claim hands out, that claims re-check
  candidates chosen earlier, that a step and its job finish together or not at all, that
  cancellation is final, and that finished jobs never change.
\<close>

section \<open>Concrete jobs\<close>

definition blank_job :: "string \<Rightarrow> string \<Rightarrow> string \<Rightarrow> int \<Rightarrow> ExecutionJobStatus \<Rightarrow> ExecutionJob" where
  "blank_job i b s k status = \<lparr>j_ID = i, j_BuildID = b, j_StepID = s, j_NodeID = s, j_GroupName = None,
     j_DependsOnNodeIDs = [], j_Name = s, j_StepIndex = k, j_AttemptNumber = 1, j_RetryOfJobID = None,
     j_LineageRootJobID = None, j_Status = status, j_QueueName = None, j_Image = [], j_WorkingDir = [],
     j_Command = [], j_Environment = [], j_TimeoutSeconds = None, j_PipelineFilePath = None,
     j_ContextDir = None, j_Source = \<lparr>sn_RepositoryURL = [], sn_CommitSHA = [], sn_RefName = None,
       sn_ArchiveURI = None, sn_ArchiveDigest = None\<rparr>,
     j_SpecVersion = 1, j_SpecDigest = None, j_ResolvedSpecJSON = [], j_ClaimToken = None,
     j_ClaimedBy = None, j_ClaimExpiresAt = None, j_CreatedAt = 0, j_StartedAt = None,
     j_FinishedAt = None, j_ErrorMessage = None, j_FailureKind = None, j_ExitCode = None,
     j_OutputRefs = [], j_Timing = None\<rparr>"

definition one_job_store :: "ExecutionJob \<Rightarrow> ExecutionJobRepository" where
  "one_job_store job = \<lparr>jr_jobsByID = [(j_ID job, job)], jr_jobsByStep = [(j_StepID job, [j_ID job])],
     jr_jobsByBuild = [(j_BuildID job, [j_ID job])]\<rparr>"

lemma one_job_store_get [simp]:
  "get_job (one_job_store job) i = (if i = j_ID job then Some job else None)"
  "build_jobs (one_job_store job) b = (if b = j_BuildID job then [j_ID job] else [])"
  "step_jobs (one_job_store job) s = (if s = j_StepID job then [j_ID job] else [])"
  by (simp_all add: one_job_store_def get_job_def build_jobs_def step_jobs_def gm_get_or_def)

lemma one_job_store_wf: "jobs_wf (one_job_store job)"
  unfolding jobs_wf_def by (auto, simp add: one_job_store_def)

lemma blank_job_sel [simp]:
  "j_ID (blank_job i b s k st) = i" "j_BuildID (blank_job i b s k st) = b" "j_StepID (blank_job i b s k st) = s"
  "j_Status (blank_job i b s k st) = st" "j_DependsOnNodeIDs (blank_job i b s k st) = []"
  "j_ClaimToken (blank_job i b s k st) = None"
  by (simp_all add: blank_job_def)

section \<open>Claims\<close>

text \<open>When a job may be handed out, in terms of the current store.\<close>

definition claimable :: "time \<Rightarrow> ExecutionJobRepository \<Rightarrow> ExecutionJob \<Rightarrow> bool" where
  "claimable now r job \<longleftrightarrow>
     get_job r (j_ID job) = Some job \<and>
     isClaimCandidate job (latestJobsByNodeID (build_jobs r (j_BuildID job)) (jr_jobsByID r)) now"

text \<open>
  A claim is decided by the store at the moment the job is taken. The second critical section of
  \<open>ClaimNextRunnableJob\<close> may run with candidates and build orders read from an older store; whatever
  they are, the job it hands out is, in the current store, queued or running with an expired lease,
  the latest attempt of each of its dependencies has succeeded, and only that job changes.
\<close>

theorem job_claim_rechecks:
  assumes "jobs_wf r" and "claim_first claim orders stale r = (r', Some job')"
  shows "\<exists>job. claimable (c_ClaimedAt claim) r job \<and> j_ID job \<in> j_ID ` set stale \<and>
     (j_Status job = ExecutionJobStatusQueued \<or>
      (j_Status job = ExecutionJobStatusRunning \<and>
       (\<exists>l. j_ClaimExpiresAt job = Some l \<and> l \<le> c_ClaimedAt claim))) \<and>
     (\<forall>dep \<in> set (j_DependsOnNodeIDs job). \<exists>up.
        map_of (latestJobsByNodeID (build_jobs r (j_BuildID job)) (jr_jobsByID r)) (TrimSpace dep) = Some up \<and>
        j_Status up = ExecutionJobStatusSuccess) \<and>
     job' = take_job_claim claim job \<and> r' = put_job (j_ID job) job' r"
proof -
  from claim_first_result [OF assms(2)] obtain c job where
    c: "c \<in> set stale" "get_job r (j_ID c) = Some job" and
    cand: "isClaimCandidate job (latestJobsByNodeID (build_jobs r (j_BuildID job)) (jr_jobsByID r)) (c_ClaimedAt claim)" and
    res: "job' = take_job_claim claim job" "r' = put_job (j_ID job) (take_job_claim claim job) r" by auto
  have id: "j_ID job = j_ID c" using jobs_wfD(2) [OF assms(1) c(2)] .
  have "j_ID job \<in> j_ID ` set stale" using c(1) id by auto
  moreover have "claimable (c_ClaimedAt claim) r job" using c cand id by (simp add: claimable_def)
  ultimately show ?thesis
    using cand res
    by (intro exI [of _ job])
      (auto simp: isClaimCandidate_def isJobRunnable_def list_all_iff split: if_splits option.splits)
qed

theorem job_claim_rechecks_witness:
  "\<exists>r' job'. claim_first (claim_by ''w'' ''t'' 5) [] [blank_job ''j1'' ''b1'' ''s1'' 0 ExecutionJobStatusQueued]
      (one_job_store (blank_job ''j1'' ''b1'' ''s1'' 0 ExecutionJobStatusQueued)) = (r', Some job') \<and>
    j_Status job' = ExecutionJobStatusRunning"
proof -
  let ?j = "blank_job ''j1'' ''b1'' ''s1'' 0 ExecutionJobStatusQueued"
  have "\<exists>r' job'. claim_first (claim_by ''w'' ''t'' 5) [] [?j] (one_job_store ?j) = (r', Some job')"
    by (simp add: order_of_def defaultBuildClaimOrder_def isClaimCandidate_def isJobRunnable_def Let_def)
  then obtain r' job' where c: "claim_first (claim_by ''w'' ''t'' 5) [] [?j] (one_job_store ?j) = (r', Some job')" by blast
  from job_claim_rechecks [OF one_job_store_wf c] have "j_Status job' = ExecutionJobStatusRunning" by auto
  with c show ?thesis by blast
qed

section \<open>Claim order\<close>

definition claim_rank :: "BuildRepository option \<Rightarrow> ExecutionJob \<Rightarrow> int \<times> time \<times> time \<times> int \<times> int \<times> string" where
  "claim_rank builds job =
     (let order = build_claim_order builds (j_BuildID job)
      in (- co_priority order, co_queuedAt order, j_CreatedAt job, j_StepIndex job, j_AttemptNumber job, j_ID job))"

definition open_build :: "BuildRepository option \<Rightarrow> ExecutionJob \<Rightarrow> bool" where
  "open_build builds job \<longleftrightarrow>
     co_status (build_claim_order builds (j_BuildID job)) = BuildStatusQueued \<or>
     co_status (build_claim_order builds (j_BuildID job)) = BuildStatusRunning"

lemma order_of_load:
  assumes "j_BuildID job \<in> set ids"
  shows "order_of (loadBuildClaimOrders builds ids) job = build_claim_order builds (j_BuildID job)"
proof -
  have "map_of (map (\<lambda>i. (i, build_claim_order builds i)) ids) (j_BuildID job)
      = Some (build_claim_order builds (j_BuildID job))"
    using assms by (simp add: map_of_map_keys map_of_map_restrict)
  then show ?thesis by (simp add: order_of_def loadBuildClaimOrders_def gm_get_or_def)
qed

lemma candidate_order:
  "comparator_on (candidate_less (loadBuildClaimOrders builds ids)) (claim_rank builds)
     (\<lambda>job. j_BuildID job \<in> set ids)"
  by unfold_locales (auto simp: candidate_less_def claim_rank_def order_of_load Let_def)

lemma claimCandidates_iff:
  assumes "jobs_wf r"
  shows "job \<in> set (fst (claimCandidatesLocked now r)) \<longleftrightarrow> claimable now r job"
proof -
  have "job \<in> snd ` set (jr_jobsByID r) \<longleftrightarrow> (\<exists>i. get_job r i = Some job)"
    using jobs_wfD(1) [OF assms] by (force simp: get_job_def map_of_eq_Some_iff)
  also have "\<dots> \<longleftrightarrow> get_job r (j_ID job) = Some job"
    using jobs_wfD(2) [OF assms] by blast
  finally show ?thesis by (auto simp: claimCandidatesLocked_def Let_def claimable_def)
qed

lemma claim_first_find:
  assumes "\<And>c. c \<in> set cs \<Longrightarrow> claimable (c_ClaimedAt claim) r c"
    and "\<And>c. c \<in> set cs \<Longrightarrow> order_of orders c = build_claim_order builds (j_BuildID c)"
  shows "claim_first claim orders cs r =
    (case List.find (open_build builds) cs of None \<Rightarrow> (r, None)
     | Some job \<Rightarrow> (put_job (j_ID job) (take_job_claim claim job) r, Some (take_job_claim claim job)))"
  using assms
proof (induction cs)
  case (Cons c cs)
  have "claimable (c_ClaimedAt claim) r c" "order_of orders c = build_claim_order builds (j_BuildID c)"
    using Cons.prems by simp_all
  with Cons show ?case by (auto simp: open_build_def claimable_def Let_def)
qed simp

lemma find_sorted_least:
  assumes "sorted (map key xs)" "List.find p xs = Some x" "y \<in> set xs" "p y"
  shows "key x \<le> (key y :: 'k::linorder)"
proof -
  obtain i where i: "i < length xs" "xs ! i = x" "\<forall>j<i. \<not> p (xs ! j)"
    using assms(2) by (auto simp: find_Some_iff)
  obtain k where k: "k < length xs" "xs ! k = y" using assms(3) by (auto simp: in_set_conv_nth)
  with i assms(4) have "i \<le> k" by (metis not_le)
  with assms(1) i k show ?thesis by (metis length_map nth_map sorted_nth_mono)
qed

text \<open>
  C4: An uninterrupted \<open>ClaimNextRunnableJob\<close> serves the best job and never comes back empty-handed
  while there is one. If no claimable job belongs to a queued or running build, nothing changes;
  otherwise it hands out the claimable job whose build has the highest priority, then the earliest
  queue time, then the oldest, lowest step, lowest attempt and least identifier.
\<close>

theorem claim_next_takes_best_job:
  assumes "jobs_wf r"
  shows "case ClaimNextRunnableJob builds claim r of
      (r', None) \<Rightarrow> r' = r \<and> \<not> (\<exists>job. claimable (c_ClaimedAt claim) r job \<and> open_build builds job)
    | (r', Some job') \<Rightarrow>
        \<exists>job. claimable (c_ClaimedAt claim) r job \<and> open_build builds job \<and>
          job' = take_job_claim claim job \<and> r' = put_job (j_ID job) job' r \<and>
          (\<forall>other. claimable (c_ClaimedAt claim) r other \<and> open_build builds other \<longrightarrow>
             claim_rank builds job \<le> claim_rank builds other)"
proof -
  obtain cands ids where cc: "claimCandidatesLocked (c_ClaimedAt claim) r = (cands, ids)" by fastforce
  have ids: "\<forall>c \<in> set cands. j_BuildID c \<in> set ids"
    using cc by (auto simp: claimCandidatesLocked_def Let_def)
  have iff: "c \<in> set cands \<longleftrightarrow> claimable (c_ClaimedAt claim) r c" for c
    using claimCandidates_iff [OF assms, of c "c_ClaimedAt claim"] cc by simp
  let ?orders = "loadBuildClaimOrders builds ids"
  let ?sorted = "sort_slice (candidate_less ?orders) cands"
  have srt: "sorted (map (claim_rank builds) ?sorted)"
    by (rule comparator_on.sort_sorted_on [OF candidate_order ids])
  have eq: "ClaimNextRunnableJob builds claim r =
      (case List.find (open_build builds) ?sorted of None \<Rightarrow> (r, None)
       | Some job \<Rightarrow> (put_job (j_ID job) (take_job_claim claim job) r, Some (take_job_claim claim job)))"
  proof (cases "cands = []")
    case True
    then show ?thesis by (simp add: ClaimNextRunnableJob_def cc)
  next
    case False
    then show ?thesis
      using iff ids
      by (simp add: ClaimNextRunnableJob_def cc Let_def) (rule claim_first_find, simp_all add: order_of_load)
  qed
  show ?thesis
  proof (cases "List.find (open_build builds) ?sorted")
    case None
    then have "\<forall>c \<in> set cands. \<not> open_build builds c" by (simp add: find_None_iff)
    with None iff show ?thesis by (auto simp: eq)
  next
    case (Some job)
    then have "job \<in> set ?sorted" "open_build builds job" unfolding find_Some_iff by (metis nth_mem)+
    moreover have "claim_rank builds job \<le> claim_rank builds other"
      if "claimable (c_ClaimedAt claim) r other" "open_build builds other" for other
      using find_sorted_least [OF srt Some] that iff by simp
    ultimately show ?thesis using Some iff by (auto simp: eq)
  qed
qed

theorem claim_next_takes_best_job_witness:
  "\<exists>r' job'. ClaimNextRunnableJob None (claim_by ''w'' ''t'' 5)
      (one_job_store (blank_job ''j1'' ''b1'' ''s1'' 0 ExecutionJobStatusQueued)) = (r', Some job')"
proof -
  let ?j = "blank_job ''j1'' ''b1'' ''s1'' 0 ExecutionJobStatusQueued"
  have "claimable (c_ClaimedAt (claim_by ''w'' ''t'' 5)) (one_job_store ?j) ?j \<and> open_build None ?j"
    by (simp add: claimable_def isClaimCandidate_def isJobRunnable_def open_build_def build_claim_order_def
        defaultBuildClaimOrder_def)
  with claim_next_takes_best_job [OF one_job_store_wf [of ?j], where builds = None and claim = "claim_by ''w'' ''t'' 5"] show ?thesis
    by (auto split: prod.splits option.splits)
qed

section \<open>Atomic completion\<close>

text \<open>The holder of a job: running, with this token, under a lease that is still open.\<close>

definition holds_job :: "time \<Rightarrow> string \<Rightarrow> string \<Rightarrow> ExecutionJobRepository \<Rightarrow> bool" where
  "holds_job now jobID tok r \<longleftrightarrow>
     (\<exists>job l. get_job r jobID = Some job \<and> j_Status job = ExecutionJobStatusRunning \<and>
        j_ClaimToken job = Some tok \<and> j_ClaimExpiresAt job = Some l \<and> now < l)"

lemma complete_step_and_job_atomic:
  assumes "complete = completeJobLocked jobID tok t status e k x refs"
    and "complete_step_and_job now now2 jobID tok req complete builds r = (builds', r', step, job', outcome, err)"
  shows "if holds_job now jobID tok r \<and> (\<exists>b. builds = Some b \<and> completable req b)
    then outcome = StepCompletionCompleted \<and> err = None \<and>
         (\<exists>b job. builds = Some b \<and> builds' = Some (fst (CompleteStep now2 req b)) \<and>
            get_job r jobID = Some job \<and> r' = put_job jobID (finish_job t status e k x refs job) r)
    else outcome \<noteq> StepCompletionCompleted \<and> builds' = builds \<and> r' = r"
proof (cases "holds_job now jobID tok r")
  case True
  then obtain job l where j: "get_job r jobID = Some job" "j_Status job = ExecutionJobStatusRunning"
    "j_ClaimToken job = Some tok" "j_ClaimExpiresAt job = Some l" "now < l" by (auto simp: holds_job_def)
  have done_job: "complete r = (put_job jobID (finish_job t status e k x refs job) r,
      Some (finish_job t status e k x refs job), StepCompletionCompleted, None)"
    using j by (simp add: assms(1) completeJobLocked_def with_held_job_def)
  show ?thesis
  proof (cases builds)
    case None
    with j assms(2) show ?thesis by (auto simp: complete_step_and_job_def)
  next
    case (Some b)
    obtain b1 st o1 e1 where c: "completeStepLocked now2 req b = (b1, st, o1, e1)" by (metis prod_cases4)
    have res: "(builds', r', step, job', outcome, err) =
        (if e1 \<noteq> None \<or> o1 \<noteq> StepCompletionCompleted then (Some b1, r, (st, Some o1), None, o1, e1)
         else (Some b1, put_job jobID (finish_job t status e k x refs job) r, (st, Some o1),
               Some (finish_job t status e k x refs job), StepCompletionCompleted, None))"
      using assms(2) j Some by (auto simp: complete_step_and_job_def c done_job)
    show ?thesis
    proof (cases "completable req b")
      case True
      then have "o1 = StepCompletionCompleted" "e1 = None" "b1 = fst (CompleteStep now2 req b)"
        using c by (auto simp: CompleteStep_def elim!: completeStepLocked_accept [where now = now2])
      with res True \<open>holds_job now jobID tok r\<close> Some j show ?thesis by auto
    next
      case False
      from completeStepLocked_reject [OF this, of now2] c have "b1 = b" "o1 \<noteq> StepCompletionCompleted" by simp_all
      with res False Some show ?thesis by auto
    qed
  qed
next
  case False
  with assms(2) show ?thesis
    by (auto simp: complete_step_and_job_def holds_job_def split: option.splits if_splits)
qed

text \<open>
  C3: A step and its job finish together or not at all. \<open>CompleteSuccessfulStepAndJob\<close> completes
  exactly when the caller holds the job under an open lease and the step report is acceptable;
  then both stores record the result, and in every other case neither store changes.
\<close>

theorem step_and_job_complete_together:
  assumes "CompleteSuccessfulStepAndJob now now2 req builds r = (builds', r', step, job', outcome, err)"
  shows "if holds_job now (cs_JobID req) (cs_ClaimToken req) r \<and>
            (\<exists>b. builds = Some b \<and> completable (cs_StepRequest req) b)
    then outcome = StepCompletionCompleted \<and> err = None \<and>
         (\<exists>b job. builds = Some b \<and> builds' = Some (fst (CompleteStep now2 (cs_StepRequest req) b)) \<and>
            get_job r (cs_JobID req) = Some job \<and>
            r' = put_job (cs_JobID req) (finish_job (cs_FinishedAt req) ExecutionJobStatusSuccess None None
                   (Some (cs_ExitCode req)) [] job) r)
    else outcome \<noteq> StepCompletionCompleted \<and> builds' = builds \<and> r' = r"
  using assms unfolding CompleteSuccessfulStepAndJob_def by (rule complete_step_and_job_atomic [OF refl])

definition held_job :: ExecutionJob where
  "held_job = take_job_claim (claim_by ''w1'' ''t1'' 10) (blank_job ''j1'' ''b1'' ''compile'' 0 ExecutionJobStatusQueued)"

definition success_request :: "string \<Rightarrow> CompleteSuccessfulStepAndJobRequest" where
  "success_request tok = \<lparr>cs_JobID = ''j1'', cs_ClaimToken = tok, cs_FinishedAt = 20, cs_ExitCode = 0,
     cs_StepRequest = completion_of ''b1'' 0 tok BuildStepStatusSuccess\<rparr>"

lemma held_job_held: "holds_job now ''j1'' ''t1'' (one_job_store held_job) \<longleftrightarrow> now < 70"
  by (auto simp: holds_job_def held_job_def)

theorem step_and_job_complete_together_witness:
  "fst (snd (snd (snd (snd (CompleteSuccessfulStepAndJob 20 21 (success_request ''t1'') (Some two_step_store)
     (one_job_store held_job)))))) = StepCompletionCompleted"
proof -
  obtain builds' r' step job' outcome err where
    c: "CompleteSuccessfulStepAndJob 20 21 (success_request ''t1'') (Some two_step_store) (one_job_store held_job)
      = (builds', r', step, job', outcome, err)" by (metis prod_cases6)
  have "completable (completion_of ''b1'' 0 ''t1'' BuildStepStatusSuccess) two_step_store"
    by (simp add: completable_def)
  with step_and_job_complete_together [OF c] held_job_held [of 20] have "outcome = StepCompletionCompleted"
    by (simp add: success_request_def)
  with c show ?thesis by simp
qed

text \<open>
  The same for failures: \<open>CompleteFailedStepAndJob\<close> records the failure in both stores or in
  neither.
\<close>

theorem failed_step_and_job_complete_together:
  assumes "CompleteFailedStepAndJob now now2 req builds r = (builds', r', step, job', outcome, err)"
  shows "if holds_job now (cf_JobID req) (cf_ClaimToken req) r \<and>
            (\<exists>b. builds = Some b \<and> completable (cf_StepRequest req) b)
    then outcome = StepCompletionCompleted \<and> err = None \<and>
         (\<exists>b job. builds = Some b \<and> builds' = Some (fst (CompleteStep now2 (cf_StepRequest req) b)) \<and>
            get_job r (cf_JobID req) = Some job \<and>
            r' = put_job (cf_JobID req) (finish_job (cf_FinishedAt req) ExecutionJobStatusFailed
                   (Some (cf_ErrorMessage req)) (Some (cf_FailureKind req)) (cf_ExitCode req) [] job) r)
    else outcome \<noteq> StepCompletionCompleted \<and> builds' = builds \<and> r' = r"
  using assms unfolding CompleteFailedStepAndJob_def by (rule complete_step_and_job_atomic [OF refl])

definition failure_request :: CompleteFailedStepAndJobRequest where
  "failure_request = \<lparr>cf_JobID = ''j1'', cf_ClaimToken = ''t1'', cf_FinishedAt = 90, cf_ErrorMessage = ''boom'',
     cf_FailureKind = ExecutionFailureKindExecution, cf_ExitCode = Some 1,
     cf_StepRequest = completion_of ''b1'' 0 ''t1'' BuildStepStatusFailed\<rparr>"

theorem failed_step_and_job_complete_together_witness:
  "fst (CompleteFailedStepAndJob 90 91 failure_request (Some two_step_store) (one_job_store held_job)) = Some two_step_store"
proof -
  obtain builds' r' step job' outcome err where
    c: "CompleteFailedStepAndJob 90 91 failure_request (Some two_step_store) (one_job_store held_job)
      = (builds', r', step, job', outcome, err)" by (metis prod_cases6)
  from failed_step_and_job_complete_together [OF c] held_job_held [of 90] have "builds' = Some two_step_store"
    by (simp add: failure_request_def)
  with c show ?thesis by simp
qed

section \<open>Finished jobs\<close>

text \<open>
  Jobs follow their lifecycle. Along every sequence of store operations, interrupted claims
  included, the store stays well formed, no job disappears or changes its identity, its status only
  moves along the lifecycle, and a finished job never changes again.
\<close>

theorem job_lifecycle_respected:
  assumes "jobs_wf r" and "job_step\<^sup>*\<^sup>* r r'" and "get_job r i = Some job"
  shows "jobs_wf r' \<and> (\<exists>job'. get_job r' i = Some job' \<and> same_job job job' \<and>
    job_move\<^sup>*\<^sup>* (j_Status job) (j_Status job') \<and>
    (IsTerminalExecutionJobStatus (j_Status job) \<longrightarrow> job' = job))"
  using job_run [OF assms(2,1)] assms(3) unfolding jobs_evolve_def job_evolves_def by blast

theorem job_lifecycle_respected_witness:
  "get_job (fst (ClaimJobByStepID None ''s'' (claim_by ''w'' ''t'' 5)
     (one_job_store (blank_job ''j'' ''b'' ''s'' 0 ExecutionJobStatusSuccess)))) ''j''
   = Some (blank_job ''j'' ''b'' ''s'' 0 ExecutionJobStatusSuccess)"
proof -
  let ?job = "blank_job ''j'' ''b'' ''s'' 0 ExecutionJobStatusSuccess"
  have "job_step\<^sup>*\<^sup>* (one_job_store ?job) (fst (ClaimJobByStepID None ''s'' (claim_by ''w'' ''t'' 5) (one_job_store ?job)))"
    by (rule r_into_rtranclp) (rule job_step.claim_by_step)
  from job_lifecycle_respected [OF one_job_store_wf this, of "''j''" ?job] show ?thesis by auto
qed

text \<open>
  \<open>GetJobByStepID\<close> returns the current attempt of a step: a stored job of that step, such that no
  stored job of the step has a higher attempt number.
\<close>

theorem get_job_by_step_latest_attempt:
  assumes "jobs_wf r" and "get_job r i = Some other" and "j_StepID other = s"
  shows "\<exists>job. GetJobByStepID s r = Inr (Some job) \<and> j_StepID job = s \<and> get_job r (j_ID job) = Some job \<and>
    j_AttemptNumber other \<le> j_AttemptNumber job"
proof -
  let ?ids = "step_jobs r s"
  have i: "i \<in> set ?ids" using jobs_wfD(8) [OF assms(1)] assms(2,3) by blast
  then have ne: "?ids \<noteq> []" by auto
  obtain job where job: "get_job r (last ?ids) = Some job" "j_StepID job = s"
    using jobs_wfD(8) [OF assms(1), of "last ?ids" s] ne by auto
  have "snd (sort_fields r i) \<le> snd (sort_fields r (last ?ids))"
  proof -
    obtain k where k: "k < length ?ids" "?ids ! k = i" using i by (auto simp: in_set_conv_nth)
    have "map (\<lambda>i. snd (sort_fields r i)) ?ids ! k \<le> map (\<lambda>i. snd (sort_fields r i)) ?ids ! (length ?ids - 1)"
      using k by (intro sorted_nth_mono [OF jobs_wfD(6) [OF assms(1)]]) auto
    with k ne show ?thesis by (simp add: last_conv_nth)
  qed
  then have "j_AttemptNumber other \<le> j_AttemptNumber job"
    using assms(2) job(1) by (auto simp: sort_fields_def)
  moreover have "GetJobByStepID s r = Inr (Some job)" using ne job by (simp add: GetJobByStepID_def)
  ultimately show ?thesis using job jobs_wfD(2) [OF assms(1) job(1)] by auto
qed

theorem get_job_by_step_latest_attempt_witness:
  "GetJobByStepID ''s'' (one_job_store (blank_job ''j'' ''b'' ''s'' 0 ExecutionJobStatusQueued))
   = Inr (Some (blank_job ''j'' ''b'' ''s'' 0 ExecutionJobStatusQueued))"
  using get_job_by_step_latest_attempt [OF one_job_store_wf,
      of "blank_job ''j'' ''b'' ''s'' 0 ExecutionJobStatusQueued" "''j''" _ "''s''"]
  by (auto split: if_splits)

section \<open>Cancellation\<close>

lemma cancel_jobs_get:
  "distinct ids \<Longrightarrow> get_job (fst (cancel_jobs m t ids r)) i =
     (if i \<in> set ids
      then map_option (\<lambda>job. if CanCancelExecutionJob (j_Status job) then cancel_job m t job else job) (get_job r i)
      else get_job r i)"
  by (induction ids arbitrary: r) (auto split: option.split prod.split simp: case_prod_beta)

lemma cancel_jobs_count:
  "distinct ids \<Longrightarrow> snd (cancel_jobs m t ids r) =
     length (filter (\<lambda>i. \<exists>job. get_job r i = Some job \<and> CanCancelExecutionJob (j_Status job)) ids)"
proof (induction ids arbitrary: r)
  case (Cons a ids)
  have "filter (\<lambda>i. \<exists>job. get_job (put_job a j r) i = Some job \<and> CanCancelExecutionJob (j_Status job)) ids =
        filter (\<lambda>i. \<exists>job. get_job r i = Some job \<and> CanCancelExecutionJob (j_Status job)) ids" for j
    using Cons.prems by (intro filter_cong) auto
  with Cons show ?case by (auto split: option.split simp: case_prod_beta)
qed simp

text \<open>
  \<open>CancelJobsForBuild\<close> stops exactly the unfinished jobs of the build: afterwards every job of the
  build is terminal, finished jobs keep their result, jobs of other builds are untouched, the count
  is the number of jobs stopped, and no later operation revives any of them.
\<close>

theorem cancel_jobs_complete:
  assumes "jobs_wf r" and "CancelJobsForBuild b reason t r = (r1, n)" and "job_step\<^sup>*\<^sup>* r1 r2"
    and "get_job r i = Some job"
  shows "(if j_BuildID job \<noteq> b then get_job r1 i = Some job
     else if IsTerminalExecutionJobStatus (j_Status job) then get_job r1 i = Some job \<and> get_job r2 i = Some job
     else get_job r1 i = Some (cancel_job reason t job) \<and> get_job r2 i = get_job r1 i) \<and>
    n = length (filter (\<lambda>i. \<exists>job. get_job r i = Some job \<and> \<not> IsTerminalExecutionJobStatus (j_Status job)) (build_jobs r b))"
proof -
  have d: "distinct (build_jobs r b)" by (rule jobs_wfD(3) [OF assms(1)])
  have r1: "r1 = fst (cancel_jobs reason t (build_jobs r b) r)" and n: "n = snd (cancel_jobs reason t (build_jobs r b) r)"
    using assms(2) by (simp_all add: CancelJobsForBuild_def)
  have mem: "i \<in> set (build_jobs r b) \<longleftrightarrow> j_BuildID job = b"
    using jobs_wfD(7) [OF assms(1)] assms(4) by auto
  have g1: "get_job r1 i = Some (if j_BuildID job = b \<and> \<not> IsTerminalExecutionJobStatus (j_Status job)
      then cancel_job reason t job else job)"
    unfolding r1 cancel_jobs_get [OF d] mem using assms(4) by (simp add: CanCancelExecutionJob_iff)
  have wf1: "jobs_wf r1" unfolding r1 by (rule job_updates_wf [OF cancel_jobs_update assms(1)])
  have "get_job r2 i = get_job r1 i" if "j_BuildID job = b"
  proof -
    have "\<exists>j1. get_job r1 i = Some j1 \<and> IsTerminalExecutionJobStatus (j_Status j1)"
      using g1 that by auto
    then show ?thesis
      using job_run [OF assms(3) wf1] unfolding jobs_evolve_def job_evolves_def by metis
  qed
  moreover have "n = length (filter (\<lambda>i. \<exists>job. get_job r i = Some job \<and> \<not> IsTerminalExecutionJobStatus (j_Status job)) (build_jobs r b))"
    unfolding n cancel_jobs_count [OF d] by (simp add: CanCancelExecutionJob_iff)
  ultimately show ?thesis using g1 by simp
qed

theorem cancel_jobs_complete_witness:
  "map_option j_Status (get_job (fst (CancelJobsForBuild ''b1'' ''stop'' 30 (one_job_store held_job))) ''j1'')
     = Some ExecutionJobStatusCanceled"
proof -
  obtain r1 n where c: "CancelJobsForBuild ''b1'' ''stop'' 30 (one_job_store held_job) = (r1, n)" by fastforce
  have "get_job (one_job_store held_job) ''j1'' = Some held_job" "j_BuildID held_job = ''b1''"
    "j_Status held_job = ExecutionJobStatusRunning"
    by (simp_all add: held_job_def)
  with cancel_jobs_complete [OF one_job_store_wf c rtranclp.rtrancl_refl, of "''j1''" held_job] c
  show ?thesis by simp
qed

end
