(* ===== verification/Service_Properties.thy ===== *)
theory Service_Properties
  imports Build_Preparation Job_Properties
begin

text \<open>
  What the build service guarantees over both stores and towards its collaborators: cancelation, step
  results, and what the separation of check and write in status changes costs.
\<close>

section \<open>A configured service\<close>

definition demo_externals :: Externals where
  "demo_externals = \<lparr>x_Decode = (\<lambda>_. Inr demo_pipeline), x_ToJSON = (\<lambda>spec. Inr (es_Image spec)), x_sha256_hex = (\<lambda>s. s),
     x_httpsURL = (\<lambda>u. HasPrefix u ''https://''), x_writeLogs = (\<lambda>_ _ _. None), x_uuid = (\<lambda>n. FallbackNodeID (int n)), x_now = 30\<rparr>"

definition demo_service :: "BuildRepository \<Rightarrow> ExecutionJobRepository \<Rightarrow> BuildService" where
  "demo_service builds jobs = \<lparr>bs_buildRepo = builds, bs_executionJobRepo = Some jobs, bs_jobRepoSeesBuilds = True,
     bs_executionOutputRepo = None, bs_scmStatusReporter = True, bs_buildNotifier = True, bs_releaseSnapshotter = True,
     bs_workspaceRevisionPublication = False, bs_defaultExecutionImage = ''alpine'', bs_calls = []\<rparr>"

lemma demo_service_sel [simp]:
  "bs_buildRepo (demo_service b j) = b" "bs_executionJobRepo (demo_service b j) = Some j" "bs_calls (demo_service b j) = []"
  "bs_scmStatusReporter (demo_service b j)" "bs_buildNotifier (demo_service b j)" "bs_releaseSnapshotter (demo_service b j)"
  "bs_jobRepoSeesBuilds (demo_service b j)"
  by (simp_all add: demo_service_def)

section \<open>Calls\<close>

lemma notifySCMBuildStatus_sel [simp]:
  "bs_buildRepo (notifySCMBuildStatus b s) = bs_buildRepo s"
  "bs_executionJobRepo (notifySCMBuildStatus b s) = bs_executionJobRepo s"
  "bs_calls (notifySCMBuildStatus b s) = bs_calls s @ (if bs_scmStatusReporter s then [NotifyBuildStatus b] else [])"
  "bs_buildNotifier (notifySCMBuildStatus b s) = bs_buildNotifier s"
  "bs_releaseSnapshotter (notifySCMBuildStatus b s) = bs_releaseSnapshotter s"
  by (simp_all add: notifySCMBuildStatus_def record_call_def)

lemma postTerminalBuild_sel [simp]:
  "bs_buildRepo (postTerminalBuild b s) = bs_buildRepo s"
  "bs_executionJobRepo (postTerminalBuild b s) = bs_executionJobRepo s"
  by (simp_all add: postTerminalBuild_def notifyTerminalBuild_def record_call_def Let_def)

text \<open>The notifier hears of a finished build as it is stored, the release service as it was returned.\<close>

definition terminal_calls :: "Build \<Rightarrow> BuildService \<Rightarrow> service_call list" where
  "terminal_calls b s =
     (if \<not> IsTerminalBuildStatus (b_Status b) then []
      else (if bs_buildNotifier s
            then [NotifyTerminalBuild (if shouldNotifyBuildStatus (b_Status b)
                    then (case GetByID (b_ID b) (bs_buildRepo s) of Inl _ \<Rightarrow> b | Inr p \<Rightarrow> p) else b)] else []) @
           (if bs_releaseSnapshotter s then [FailBuildRelease b] else []))"

lemma postTerminalBuild_calls: "bs_calls (postTerminalBuild b s) = bs_calls s @ terminal_calls b s"
  by (simp add: postTerminalBuild_def notifyTerminalBuild_def record_call_def Let_def terminal_calls_def)

lemma postTerminalBuildByID_sel [simp]:
  "bs_buildRepo (postTerminalBuildByID i s) = bs_buildRepo s"
  "bs_executionJobRepo (postTerminalBuildByID i s) = bs_executionJobRepo s"
  by (simp_all add: postTerminalBuildByID_def split: sum.split)

lemma GetByID_get: "GetByID i r = Inr b \<longleftrightarrow> get_build r i = Some b"
  by (auto simp: GetByID_def cloneBuildApplicationVersion_def split: option.split)

lemma GetByID_err: "GetByID i r = Inl e \<longleftrightarrow> get_build r i = None \<and> e = ErrBuildNotFound"
  by (auto simp: GetByID_def split: option.split)

section \<open>Cancelation\<close>

lemma cancelExecutionJobs_sel [simp]:
  "bs_buildRepo (cancelExecutionJobsForBuild i m t s) = bs_buildRepo s"
  "bs_calls (cancelExecutionJobsForBuild i m t s) = bs_calls s"
  "bs_executionJobRepo (cancelExecutionJobsForBuild i m t s) =
     map_option (\<lambda>jobs. fst (CancelJobsForBuild i m t jobs)) (bs_executionJobRepo s)"
  by (simp_all add: cancelExecutionJobsForBuild_def split: option.split)

lemma CancelJobs_get:
  assumes "jobs_wf r"
  shows "get_job (fst (CancelJobsForBuild b m t r)) i =
     map_option (\<lambda>job. if j_BuildID job = b \<and> \<not> IsTerminalExecutionJobStatus (j_Status job) then cancel_job m t job else job) (get_job r i)"
proof -
  have d: "distinct (build_jobs r b)" by (rule jobs_wfD(3) [OF assms])
  have "i \<in> set (build_jobs r b) \<longleftrightarrow> j_BuildID job = b" if "get_job r i = Some job" for job
    using jobs_wfD(7) [OF assms] that by auto
  then show ?thesis unfolding CancelJobsForBuild_def cancel_jobs_get [OF d]
    by (cases "get_job r i") (auto simp: CanCancelExecutionJob_iff)
qed

lemma CancelBuild_accepts:
  assumes "get_build r i = Some b" "CanCancelBuild (b_Status b)"
  shows "\<exists>r1 b' n. CancelBuild i reason t r = (r1, Inr (b', n))"
  using assms by (simp add: CancelBuild_def Let_def)

text \<open>
  C10: Canceling a build stops it in both stores and tells everybody once. When the service's
  \<open>CancelBuild\<close> succeeds, the stored build is canceled, no step and no job of it is left unfinished,
  steps and jobs of other builds are untouched, and the commit status reporter, the notifier and the
  release service (those that are configured) each got exactly one call about it, in this order. When
  it fails, because the build is unknown or already finished, nothing changes.
\<close>

theorem cancel_stops_build_and_jobs:
  assumes "repo_wf (bs_buildRepo s)" and "bs_executionJobRepo s = Some jobs" and "jobs_wf jobs"
    and "CancelBuild_service x i s = (s', result)"
  shows "case result of
      Inl _ \<Rightarrow> s' = s \<and> (case get_build (bs_buildRepo s) i of None \<Rightarrow> True | Some b \<Rightarrow> IsTerminalBuildStatus (b_Status b) \<or> b_Status b = BuildStatusPending)
    | Inr build \<Rightarrow>
        get_build (bs_buildRepo s') i = Some build \<and> b_Status build = BuildStatusCanceled \<and>
        (\<forall>st \<in> set (get_steps (bs_buildRepo s') i). IsTerminalStepStatus (s_Status st)) \<and>
        (\<forall>k. k \<noteq> i \<longrightarrow> get_build (bs_buildRepo s') k = get_build (bs_buildRepo s) k \<and>
                        get_steps (bs_buildRepo s') k = get_steps (bs_buildRepo s) k) \<and>
        (\<exists>jobs'. bs_executionJobRepo s' = Some jobs' \<and>
           (\<forall>k job'. get_job jobs' k = Some job' \<longrightarrow>
              (if j_BuildID job' = i then IsTerminalExecutionJobStatus (j_Status job') else get_job jobs k = Some job'))) \<and>
        bs_calls s' = bs_calls s @ (if bs_scmStatusReporter s then [NotifyBuildStatus build] else []) @
          (if bs_buildNotifier s then [NotifyTerminalBuild build] else []) @
          (if bs_releaseSnapshotter s then [FailBuildRelease build] else [])"
proof (cases "get_build (bs_buildRepo s) i")
  case None
  with assms(4) show ?thesis by (auto simp: CancelBuild_service_def GetByID_def)
next
  case (Some b)
  then have get: "GetByID i (bs_buildRepo s) = Inr b" by (simp add: GetByID_get)
  show ?thesis
  proof (cases "CanCancelBuild (b_Status b)")
    case False
    with assms(4) Some get show ?thesis
      by (cases "b_Status b") (auto simp: CancelBuild_service_def status_simps)
  next
    case True
    obtain r1 b' n where c: "CancelBuild i cancel_reason (x_now x) (bs_buildRepo s) = (r1, Inr (b', n))"
      using CancelBuild_accepts [OF Some True] by blast
    from CancelBuild_Inr [OF c] obtain m where
      b': "b_Status b' = BuildStatusCanceled" "b_ID b' = i" and
      r1: "r1 = storeBuildLocked b' (set_steps i (map (cancel_step m (x_now x)) (get_steps (bs_buildRepo s) i)) (bs_buildRepo s))"
      using Some repo_wfD(3) [OF assms(1)] by (metis option.inject)
    let ?mid = "notifySCMBuildStatus b' (s\<lparr>bs_buildRepo := r1\<rparr>)"
    have s': "s' = cancelExecutionJobsForBuild i cancel_reason (x_now x) (postTerminalBuild b' ?mid)" "result = Inr b'"
      using assms(4) get True c by (simp_all add: CancelBuild_service_def)
    have terminal: "IsTerminalStepStatus (s_Status st)" if "st \<in> set (get_steps r1 i)" for st
      using CancelBuild_steps_terminal(1) [OF c] that by (auto simp: in_set_conv_nth)
    have jobs: "if j_BuildID job' = i then IsTerminalExecutionJobStatus (j_Status job') else get_job jobs k = Some job'"
      if "get_job (fst (CancelJobsForBuild i cancel_reason (x_now x) jobs)) k = Some job'" for k job'
    proof -
      from that obtain job where job: "get_job jobs k = Some job"
        "job' = (if j_BuildID job = i \<and> \<not> IsTerminalExecutionJobStatus (j_Status job) then cancel_job cancel_reason (x_now x) job else job)"
        unfolding CancelJobs_get [OF assms(3)] by auto
      then show ?thesis by simp
    qed
    have calls: "terminal_calls b' ?mid = (if bs_buildNotifier s then [NotifyTerminalBuild b'] else []) @
        (if bs_releaseSnapshotter s then [FailBuildRelease b'] else [])"
      by (simp add: terminal_calls_def b' shouldNotifyBuildStatus_def status_simps)
    show ?thesis
      unfolding s'(2) sum.case using terminal jobs
      by (simp add: s'(1) assms(2) b' calls postTerminalBuild_calls) (simp add: r1 b')
  qed
qed

theorem cancel_stops_build_and_jobs_witness:
  "\<exists>s' build. CancelBuild_service demo_externals ''b1'' (demo_service two_step_store (one_job_store held_job)) = (s', Inr build) \<and>
     b_Status build = BuildStatusCanceled \<and>
     bs_calls s' = [NotifyBuildStatus build, NotifyTerminalBuild build, FailBuildRelease build]"
proof -
  let ?s = "demo_service two_step_store (one_job_store held_job)"
  obtain s' result where c: "CancelBuild_service demo_externals ''b1'' ?s = (s', result)" by fastforce
  have "repo_wf (bs_buildRepo ?s)" "bs_executionJobRepo ?s = Some (one_job_store held_job)" by (simp_all add: two_step_store_wf)
  note ok = cancel_stops_build_and_jobs [OF this one_job_store_wf c]
  show ?thesis
  proof (cases result)
    case (Inl e)
    with ok show ?thesis by (simp add: status_simps)
  next
    case (Inr b)
    with ok c show ?thesis by auto
  qed
qed

section \<open>Status changes\<close>

lemma apply_status_sel [simp]:
  "b_Status (apply_status now to m b) = to" "b_ID (apply_status now to m b) = b_ID b"
  by (simp_all add: apply_status_def Let_def)

lemma persistBuildStatus_known:
  assumes "get_build (bs_buildRepo s) i = Some b" "b_ID b = i"
  shows "\<exists>s' b'. persistBuildStatus x i to m s = (s', Inr b') \<and> get_build (bs_buildRepo s') i = Some b' \<and> b_Status b' = to \<and>
    bs_executionJobRepo s' = bs_executionJobRepo s \<and> get_steps (bs_buildRepo s') = get_steps (bs_buildRepo s)"
  using assms by (auto simp: persistBuildStatus_def UpdateStatus_def update_build_def cloneBuildApplicationVersion_def fun_eq_iff)

text \<open>
  A status change made on its own is legal: \<open>transitionBuildStatus\<close> succeeds exactly along the edges
  of the lifecycle, and then the store has the build with the new status; in every other case nothing
  changes. The steps and jobs are never touched.
\<close>

theorem status_change_legal:
  assumes "repo_wf (bs_buildRepo s)" and "transitionBuildStatus x i to m s = (s', result)"
  shows "if \<exists>old. get_build (bs_buildRepo s) i = Some old \<and> CanTransitionBuild (b_Status old) to
    then (\<exists>b. result = Inr b \<and> get_build (bs_buildRepo s') i = Some b \<and> b_Status b = to) \<and>
         get_steps (bs_buildRepo s') = get_steps (bs_buildRepo s) \<and> bs_executionJobRepo s' = bs_executionJobRepo s
    else s' = s \<and> result \<in> {Inl (Svc ErrBuildNotFound), Inl (Svc ErrInvalidBuildStatusTransition)}"
proof (cases "get_build (bs_buildRepo s) i")
  case None
  with assms(2) show ?thesis by (auto simp: transitionBuildStatus_def GetByID_def mapRepoErr_def)
next
  case (Some b)
  then have get: "GetByID i (bs_buildRepo s) = Inr b" by (simp add: GetByID_get)
  have "b_ID b = i" by (rule repo_wfD(3) [OF assms(1) Some])
  from persistBuildStatus_known [OF Some this, of x to m] Some get assms(2) show ?thesis
    by (auto simp: transitionBuildStatus_def split: if_splits)
qed

theorem status_change_legal_witness:
  "\<exists>s' b. transitionBuildStatus demo_externals ''b1'' BuildStatusSuccess None (demo_service two_step_store (one_job_store held_job)) = (s', Inr b) \<and>
     b_Status b = BuildStatusSuccess"
proof -
  let ?s = "demo_service two_step_store (one_job_store held_job)"
  obtain s' result where c: "transitionBuildStatus demo_externals ''b1'' BuildStatusSuccess None ?s = (s', result)" by fastforce
  have "\<exists>old. get_build (bs_buildRepo ?s) ''b1'' = Some old \<and> CanTransitionBuild (b_Status old) BuildStatusSuccess"
    by (simp add: status_simps)
  with status_change_legal [OF _ c] two_step_store_wf c show ?thesis by auto
qed

text \<open>
  Check and write of a status change are not fenced. If a build is canceled between the two halves of
  \<open>transitionBuildStatus\<close>, the write takes effect on the canceled build all the same: whatever status
  the check had allowed, the finished build is left in it.
\<close>

theorem canceled_build_revived:
  assumes "repo_wf (bs_buildRepo s)" and "get_build (bs_buildRepo s) i = Some b" and "CanTransitionBuild (b_Status b) to"
    and "CancelBuild_service x i s = (s1, Inr canceled)"
  shows "b_Status canceled = BuildStatusCanceled \<and> get_build (bs_buildRepo s1) i = Some canceled \<and>
    \<not> CanTransitionBuild (b_Status canceled) to \<and>
    (\<exists>s2 b'. persistBuildStatus x i to m s1 = (s2, Inr b') \<and> get_build (bs_buildRepo s2) i = Some b' \<and> b_Status b' = to)"
proof -
  from assms(2,4) have "CanCancelBuild (b_Status b)" by (auto simp: CancelBuild_service_def GetByID_get split: if_splits sum.splits)
  then obtain r1 b' n where c: "CancelBuild i cancel_reason (x_now x) (bs_buildRepo s) = (r1, Inr (b', n))"
    using CancelBuild_accepts [OF assms(2)] by blast
  from CancelBuild_Inr [OF c] obtain m' where
    b': "b_Status b' = BuildStatusCanceled" "b_ID b' = i" and
    r1: "r1 = storeBuildLocked b' (set_steps i (map (cancel_step m' (x_now x)) (get_steps (bs_buildRepo s) i)) (bs_buildRepo s))"
    using assms(2) repo_wfD(3) [OF assms(1)] by (metis option.inject)
  have "canceled = b'" "bs_buildRepo s1 = r1"
    using assms(2,4) c \<open>CanCancelBuild (b_Status b)\<close> by (auto simp: CancelBuild_service_def GetByID_def cloneBuildApplicationVersion_def)
  moreover have "get_build r1 i = Some b'" using b' r1 by simp
  moreover have "\<not> CanTransitionBuild BuildStatusCanceled to" by (cases to) (simp_all add: status_simps)
  ultimately show ?thesis using b' persistBuildStatus_known [of s1 i b' x to m] by auto
qed

theorem canceled_build_revived_witness:
  "\<exists>s1 canceled s2 b'. CancelBuild_service demo_externals ''b1'' (demo_service two_step_store (one_job_store held_job)) = (s1, Inr canceled) \<and>
     b_Status canceled = BuildStatusCanceled \<and>
     persistBuildStatus demo_externals ''b1'' BuildStatusSuccess None s1 = (s2, Inr b') \<and> b_Status b' = BuildStatusSuccess"
proof -
  let ?s = "demo_service two_step_store (one_job_store held_job)"
  have "\<exists>s1 canceled. CancelBuild_service demo_externals ''b1'' ?s = (s1, Inr canceled)"
    by (simp add: CancelBuild_service_def GetByID_def cloneBuildApplicationVersion_def status_simps CancelBuild_def Let_def)
  then obtain s1 canceled where c: "CancelBuild_service demo_externals ''b1'' ?s = (s1, Inr canceled)" by blast
  have "repo_wf (bs_buildRepo ?s)" "get_build (bs_buildRepo ?s) ''b1'' = Some (blank_build ''b1'' BuildStatusRunning)"
    "CanTransitionBuild (b_Status (blank_build ''b1'' BuildStatusRunning)) BuildStatusSuccess"
    by (simp_all add: two_step_store_wf status_simps)
  from canceled_build_revived [OF this c, of None] c show ?thesis by blast
qed

section \<open>Step results\<close>

lemma write_output_logs_sel:
  assumes "write_output_logs x req res rep s = (s', rep')"
  shows "bs_buildRepo s' = bs_buildRepo s" "bs_executionJobRepo s' = bs_executionJobRepo s"
    "cr_CompletionOutcome rep' = cr_CompletionOutcome rep"
  using assms by (auto simp: write_output_logs_def Let_def record_call_def split: option.splits)

lemma finish_report_sel:
  assumes "finish_report x req res skip rep s = (s', rep', err)"
  shows "bs_buildRepo s' = bs_buildRepo s" "bs_executionJobRepo s' = bs_executionJobRepo s"
    "cr_CompletionOutcome rep' = cr_CompletionOutcome rep" "err = None"
  using assms by (auto simp: finish_report_def Let_def split: if_splits prod.splits dest: write_output_logs_sel)

lemma report_of_sel [simp]: "cr_CompletionOutcome (report_of st out) = out"
  by (simp add: report_of_def)

text \<open>The job as the result of the step leaves it.\<close>

definition finished_job :: "RunStepResult \<Rightarrow> ExecutionJob \<Rightarrow> ExecutionJob" where
  "finished_job res job =
     (if res_Status res = RunStepStatusFailed
      then finish_job (res_FinishedAt res) ExecutionJobStatusFailed (Some (failure_message res))
             (Some (executionFailureKind res)) (Some (res_ExitCode res)) [] job
      else finish_job (res_FinishedAt res) ExecutionJobStatusSuccess None None (Some (res_ExitCode res)) [] job)"

lemma complete_atomically_calls:
  assumes "bs_executionJobRepo s = Some jobs" "bs_jobRepoSeesBuilds s"
    and "complete_atomically x req res skip s = (s', rep, err)"
  obtains builds' jobs' step job' out err' complete status e k where
    "complete = completeJobLocked (q_JobID req) (TrimSpace (q_ClaimToken req)) (res_FinishedAt res) status e k (Some (res_ExitCode res)) []"
    "\<And>job. finish_job (res_FinishedAt res) status e k (Some (res_ExitCode res)) [] job = finished_job res job"
    "complete_step_and_job (x_now x) (x_now x) (q_JobID req) (TrimSpace (q_ClaimToken req)) (completion_request req res) complete
       (Some (bs_buildRepo s)) jobs = (builds', jobs', step, job', out, err')"
    "bs_executionJobRepo s' = Some jobs'" "bs_buildRepo s' = (case builds' of Some b \<Rightarrow> b | None \<Rightarrow> bs_buildRepo s)"
    "cr_CompletionOutcome rep = (if err' = None then out else StepCompletionInvalidTransition)" "err = None \<longleftrightarrow> err' = None"
proof -
  let ?c = "complete_step_and_job (x_now x) (x_now x) (q_JobID req) (TrimSpace (q_ClaimToken req)) (completion_request req res)"
  let ?status = "if res_Status res = RunStepStatusFailed then ExecutionJobStatusFailed else ExecutionJobStatusSuccess"
  let ?e = "if res_Status res = RunStepStatusFailed then Some (failure_message res) else None"
  let ?k = "if res_Status res = RunStepStatusFailed then Some (executionFailureKind res) else None"
  let ?complete = "completeJobLocked (q_JobID req) (TrimSpace (q_ClaimToken req)) (res_FinishedAt res) ?status ?e ?k (Some (res_ExitCode res)) []"
  obtain builds' jobs' st so job' out err' where
    c: "?c ?complete (Some (bs_buildRepo s)) jobs = (builds', jobs', (st, so), job', out, err')"
    by (cases "?c ?complete (Some (bs_buildRepo s)) jobs") auto
  let ?s1 = "s\<lparr>bs_executionJobRepo := Some jobs', bs_buildRepo := (case builds' of Some b \<Rightarrow> b | None \<Rightarrow> bs_buildRepo s)\<rparr>"
  have run: "complete_atomically x req res skip s =
      (case err' of Some e \<Rightarrow> (?s1, report_of None StepCompletionInvalidTransition, Some (mapRepoErr (Repo e)))
       | None \<Rightarrow> finish_report x req res skip (report_of st out) ?s1)"
  proof (cases "res_Status res = RunStepStatusFailed")
    case True
    with c assms(1,2) show ?thesis by (simp add: complete_atomically_def job_repo_builds_def CompleteFailedStepAndJob_def Let_def)
  next
    case False
    with c assms(1,2) show ?thesis by (simp add: complete_atomically_def job_repo_builds_def CompleteSuccessfulStepAndJob_def Let_def)
  qed
  show thesis
  proof (cases err')
    case None
    with run assms(3) finish_report_sel [of x req res skip "report_of st out" ?s1 s' rep err] show thesis
      by (intro that [OF refl _ c]) (auto simp: finished_job_def)
  next
    case (Some e)
    with run assms(3) show thesis by (intro that [OF refl _ c]) (auto simp: finished_job_def)
  qed
qed

text \<open>
  C9: A step result that must be recorded atomically is recorded in both stores or in neither. The service
  accepts it exactly when the worker that reports it still holds the job under an open lease and the
  step report is acceptable; then the build store has the completed step and the advanced build, the
  job is finished with the same verdict, and the caller is told so. Otherwise both stores are
  untouched and the report says why.
\<close>

theorem step_result_atomic:
  assumes "q_RequireAtomicExecutionCompletion req" "TrimSpace (q_JobID req) \<noteq> []" "TrimSpace (q_ClaimToken req) \<noteq> []"
    and "bs_executionJobRepo s = Some jobs" "bs_jobRepoSeesBuilds s"
    and "handleStepResult x req res skip s = (s', rep, err)"
  shows "if holds_job (x_now x) (q_JobID req) (TrimSpace (q_ClaimToken req)) jobs \<and>
            completable (completion_request req res) (bs_buildRepo s)
    then cr_CompletionOutcome rep = StepCompletionCompleted \<and> err = None \<and>
         bs_buildRepo s' = fst (CompleteStep (x_now x) (completion_request req res) (bs_buildRepo s)) \<and>
         (\<exists>job. get_job jobs (q_JobID req) = Some job \<and>
            bs_executionJobRepo s' = Some (put_job (q_JobID req) (finished_job res job) jobs))
    else cr_CompletionOutcome rep \<noteq> StepCompletionCompleted \<and> bs_buildRepo s' = bs_buildRepo s \<and>
         bs_executionJobRepo s' = Some jobs"
proof -
  have "complete_atomically x req res skip s = (s', rep, err)"
    using assms(1-3,6) by (simp add: handleStepResult_def Let_def)
  from complete_atomically_calls [OF assms(4,5) this] obtain builds' jobs' step job' out err' complete status e k where
    c: "complete = completeJobLocked (q_JobID req) (TrimSpace (q_ClaimToken req)) (res_FinishedAt res) status e k (Some (res_ExitCode res)) []"
    "complete_step_and_job (x_now x) (x_now x) (q_JobID req) (TrimSpace (q_ClaimToken req)) (completion_request req res) complete
       (Some (bs_buildRepo s)) jobs = (builds', jobs', step, job', out, err')" and
    f: "\<And>job. finish_job (res_FinishedAt res) status e k (Some (res_ExitCode res)) [] job = finished_job res job" and
    s': "bs_executionJobRepo s' = Some jobs'" "bs_buildRepo s' = (case builds' of Some b \<Rightarrow> b | None \<Rightarrow> bs_buildRepo s)"
    "cr_CompletionOutcome rep = (if err' = None then out else StepCompletionInvalidTransition)" "err = None \<longleftrightarrow> err' = None"
    by metis
  from complete_step_and_job_atomic [OF c] show ?thesis
    by (auto simp: s' f split: if_splits)
qed

definition demo_request :: "string \<Rightarrow> RunStepRequest" where
  "demo_request tok = \<lparr>q_BuildID = ''b1'', q_JobID = ''j1'', q_StepID = ''compile'', q_StepIndex = 0, q_StepName = ''compile'',
     q_WorkerID = ''w1'', q_ClaimToken = tok, q_RequireAtomicExecutionCompletion = True, q_Image = [], q_Command = ''sh'',
     q_Args = [], q_Env = [], q_WorkingDir = ''.'', q_TimeoutSeconds = 0, q_CacheMounts = []\<rparr>"

definition demo_result :: RunStepResult where
  "demo_result = \<lparr>res_Status = RunStepStatusSuccess, res_ExitCode = 0, res_TimedOut = False, res_Stdout = ''ok'',
     res_Stderr = [], res_StartedAt = 11, res_FinishedAt = 29\<rparr>"

theorem step_result_atomic_witness:
  "cr_CompletionOutcome (fst (snd (handleStepResult demo_externals (demo_request '' t1 '') demo_result False
     (demo_service two_step_store (one_job_store held_job))))) = StepCompletionCompleted \<and>
   bs_buildRepo (fst (handleStepResult demo_externals (demo_request ''t0'') demo_result False
     (demo_service two_step_store (one_job_store held_job)))) = two_step_store"
proof -
  let ?s = "demo_service two_step_store (one_job_store held_job)"
  have t: "TrimSpace '' t1 '' = ''t1''" "TrimSpace ''t0'' = ''t0''" "TrimSpace ''j1'' = ''j1''" by code_simp+
  obtain s1 rep1 err1 where c1: "handleStepResult demo_externals (demo_request '' t1 '') demo_result False ?s = (s1, rep1, err1)"
    by (metis prod_cases3)
  obtain s2 rep2 err2 where c2: "handleStepResult demo_externals (demo_request ''t0'') demo_result False ?s = (s2, rep2, err2)"
    by (metis prod_cases3)
  have held: "holds_job 30 ''j1'' ''t1'' (one_job_store held_job)" "\<not> holds_job 30 ''j1'' ''t0'' (one_job_store held_job)"
    by (auto simp: holds_job_def held_job_def)
  have "completable (completion_request (demo_request '' t1 '') demo_result) two_step_store"
    by (simp add: completable_def completion_request_def completion_update_def demo_request_def demo_result_def t status_simps)
  with step_result_atomic [OF _ _ _ _ _ c1, of "one_job_store held_job"] held have "cr_CompletionOutcome rep1 = StepCompletionCompleted"
    by (simp add: demo_request_def t demo_externals_def)
  moreover have "bs_buildRepo s2 = two_step_store"
    using step_result_atomic [OF _ _ _ _ _ c2, of "one_job_store held_job"] held by (simp add: demo_request_def t demo_externals_def)
  ultimately show ?thesis by (simp add: c1 c2)
qed

end
