(* ===== verification/Repo_Requests.thy ===== *)
theory Repo_Requests
  imports Build_Requests
begin

text \<open>
  Creating a build from a repository (\<open>service/build/repo_create.go\<close>): the pipeline file is read from a
  fetched copy of the repository, and the pipeline's image may be replaced by a managed one
  afterwards. The fetch, the file system and the image refresh are arguments.
\<close>

record CreateRepoBuildInput =
  ri_ProjectID :: string
  ri_JobID :: "string option"
  ri_Priority :: int
  ri_RepoURL :: string
  ri_Ref :: string
  ri_CommitSHA :: string
  ri_PipelinePath :: string
  ri_Trigger :: "CreateBuildTriggerInput option"
  ri_RepositoryIdentity :: "RepositoryIdentitySnapshot option"

record ManagedImageRefreshInput =
  mi_JobID :: string
  mi_ProjectID :: string
  mi_RepositoryURL :: string
  mi_Ref :: string
  mi_BaseBranch :: string
  mi_PipelinePath :: string

record ManagedImageRefreshResult =
  mr_ManagedImageID :: string
  mr_ManagedImageVersionID :: string
  mr_DependencyFingerprint :: string
  mr_PinnedImageRef :: string
  mr_Updated :: bool
  mr_BranchName :: string
  mr_CommitSHA :: string

datatype load_error = FileNotExist | LoadFailed string

text \<open>
  Whether a fetcher is configured, what it answers for a request and a target (a local path and a
  commit, or an error text), what reading a file answers, and the image refresher when there is one.
\<close>

record RepoIO =
  rio_repoFetcher :: bool
  rio_fetch :: "CreateRepoBuildInput \<Rightarrow> string \<Rightarrow> string + (string \<times> string)"
  rio_load :: "string \<Rightarrow> load_error + string"
  rio_refresher :: "(ManagedImageRefreshInput \<Rightarrow> ManagedImageRefreshResult option) option"

definition ImageSourceKindManaged :: string where
  "ImageSourceKindManaged = ''managed''"

definition load_failure :: "string \<Rightarrow> load_error \<Rightarrow> go_error" where
  "load_failure path err =
     (case err of
        FileNotExist \<Rightarrow> Errorf (''pipeline file not found in repository: '' @ path)
      | LoadFailed msg \<Rightarrow> Errorf (''loading pipeline file: '' @ msg))"

definition repo_build :: "Externals \<Rightarrow> CreateRepoBuildInput \<Rightarrow> string \<Rightarrow> string \<Rightarrow> string \<Rightarrow> ResolvedPipeline \<Rightarrow> Build" where
  "repo_build x input commitSHA pipelinePath yamlText resolved =
     (let repoURL = TrimSpace (ri_RepoURL input); ref = TrimSpace (ri_Ref input);
          sourceCommit = (if commitSHA \<noteq> [] then commitSHA else TrimSpace (ri_CommitSHA input))
      in (new_build (x_uuid x 0) (x_now x) BuildStatusQueued (ri_ProjectID input) (ri_JobID input) (ri_Priority input)
            (NewSourceSpec repoURL ref sourceCommit) (toDomainBuildTrigger (ri_Trigger input)))
           \<lparr>b_PipelineConfigYAML := Some yamlText,
            b_PipelineName := (if rp_Name resolved \<noteq> [] then Some (rp_Name resolved) else None),
            b_PipelineSource := Some ''repo'', b_PipelinePath := Some pipelinePath,
            b_RepoURL := Some repoURL, b_Ref := buildOptionalStringPtr ref,
            b_CommitSHA := (if commitSHA \<noteq> [] then Some commitSHA else None),
            b_RequestedImageRef := buildOptionalStringPtr (TrimSpace (rp_Image resolved))\<rparr>)"

definition refresh_input :: "CreateRepoBuildInput \<Rightarrow> string \<Rightarrow> string \<Rightarrow> ManagedImageRefreshInput" where
  "refresh_input input refreshRef pipelinePath =
     \<lparr>mi_JobID = (case ri_JobID input of None \<Rightarrow> [] | Some i \<Rightarrow> TrimSpace i), mi_ProjectID = ri_ProjectID input,
      mi_RepositoryURL = ri_RepoURL input, mi_Ref = refreshRef, mi_BaseBranch = TrimSpace (ri_Ref input),
      mi_PipelinePath = pipelinePath\<rparr>"

text \<open>A refresh or a provenance update that fails is logged; the build is returned as it was queued.\<close>

definition refresh_managed_image ::
  "RepoIO \<Rightarrow> CreateRepoBuildInput \<Rightarrow> string \<Rightarrow> ResolvedPipeline \<Rightarrow> Build \<Rightarrow> BuildService \<Rightarrow> BuildService \<times> Build" where
  "refresh_managed_image io input pipelinePath resolved queuedBuild s =
     (case rio_refresher io of
        None \<Rightarrow> (s, queuedBuild)
      | Some refresh \<Rightarrow>
          (let commit = TrimSpace (ri_CommitSHA input);
               refreshRef = (if commit = [] then TrimSpace (ri_Ref input) else commit)
           in if refreshRef = [] then (s, queuedBuild)
              else case refresh (refresh_input input refreshRef pipelinePath) of
                None \<Rightarrow> (s, queuedBuild)
              | Some res \<Rightarrow>
                  (if mr_ManagedImageID res \<noteq> [] \<and> mr_ManagedImageVersionID res \<noteq> [] \<and> TrimSpace (mr_PinnedImageRef res) \<noteq> []
                   then (case UpdateImageExecution (b_ID queuedBuild) (buildOptionalStringPtr (TrimSpace (rp_Image resolved)))
                                (buildOptionalStringPtr (TrimSpace (mr_PinnedImageRef res))) ImageSourceKindManaged
                                (buildOptionalStringPtr (mr_ManagedImageID res))
                                (buildOptionalStringPtr (mr_ManagedImageVersionID res)) (bs_buildRepo s) of
                           (_, Inl _) \<Rightarrow> (s, queuedBuild)
                         | (repo, Inr updated) \<Rightarrow> (s\<lparr>bs_buildRepo := repo\<rparr>, updated))
                   else (s, queuedBuild))))"

definition CreateBuildFromRepo ::
  "Externals \<Rightarrow> RepoIO \<Rightarrow> CreateRepoBuildInput \<Rightarrow> BuildService \<Rightarrow> (BuildService \<times> (svc_error + Build)) option" where
  "CreateBuildFromRepo x io input s =
     (if ri_ProjectID input = [] then Some (s, Inl (Svc (Errorf ''project_id is required'')))
      else case validateRequestedBuildPriority (ri_Priority input) of
        Some err \<Rightarrow> Some (s, Inl (Svc err))
      | None \<Rightarrow>
          (let ref = TrimSpace (ri_Ref input); commit = TrimSpace (ri_CommitSHA input)
           in if TrimSpace (ri_RepoURL input) = [] then Some (s, Inl (Svc (Errorf ''repo_url is required'')))
              else if ref = [] \<and> commit = [] then Some (s, Inl (Svc (Errorf ''ref or commit_sha is required'')))
              else if \<not> rio_repoFetcher io then Some (s, Inl (Svc (Errorf ''repo fetcher not configured'')))
              else case rio_fetch io input (if commit = [] then ref else commit) of
                Inl msg \<Rightarrow> Some (s, Inl (Svc (Errorf (''fetching repo: '' @ msg))))
              | Inr (localPath, commitSHA) \<Rightarrow>
                  (case resolveRepoPipelinePath localPath (ri_PipelinePath input) of
                     Inl err \<Rightarrow> Some (s, Inl (Svc err))
                   | Inr (absPipelinePath, effectivePipelinePath) \<Rightarrow>
                       (case rio_load io absPipelinePath of
                          Inl err \<Rightarrow> Some (s, Inl (Svc (load_failure effectivePipelinePath err)))
                        | Inr yamlData \<Rightarrow>
                            (case LoadAndResolve (x_Decode x) yamlData of
                               Inl err \<Rightarrow> Some (s, Inl (Svc (Errorf err)))
                             | Inr resolved0 \<Rightarrow>
                                 (case resolveRepoStepWorkingDirs effectivePipelinePath resolved0 of
                                    Inl err \<Rightarrow> Some (s, Inl (Svc err))
                                  | Inr resolved \<Rightarrow>
                                      (case applyBuildRepositoryIdentity (repo_build x input commitSHA effectivePipelinePath yamlData resolved)
                                              (ri_RepositoryIdentity input) of
                                         Inl err \<Rightarrow> Some (s, Inl (Svc err))
                                       | Inr build \<Rightarrow>
                                           (case queue_new_build x (NormalizeBuildMetadata build)
                                                   (pipelineStepsToDomain (\<lambda>i. x_uuid x (Suc i)) (x_uuid x 0) (rp_Steps resolved)) s of
                                              None \<Rightarrow> None
                                            | Some (s1, Inl err) \<Rightarrow> Some (s1, Inl err)
                                            | Some (s1, Inr queuedBuild) \<Rightarrow>
                                                (let (s2, result) = refresh_managed_image io input effectivePipelinePath resolved queuedBuild s1
                                                 in Some (s2, Inr result))))))))))"

end
