(* ===== verification/Request_Properties.thy ===== *)
theory Request_Properties
  imports Pipeline_Properties Service_Properties Repo_Requests
begin

text \<open>
  What the requests that make builds guarantee: creation from a pipeline always answers and leaves a
  build that can run to its end, with one durable job per step; a full rerun does the same from a
  stored build.
\<close>

section \<open>Durable jobs\<close>

text \<open>A job that mirrors a step of a build.\<close>

definition mirrors :: "Build \<Rightarrow> BuildStep \<Rightarrow> ExecutionJob \<Rightarrow> bool" where
  "mirrors b step job \<longleftrightarrow>
     j_StepID job = s_ID step \<and> j_BuildID job = b_ID b \<and> j_StepIndex job = s_StepIndex step \<and>
     j_DependsOnNodeIDs job = s_DependsOnNodes step \<and> j_Status job = ExecutionJobStatusQueued"

lemma plan_loop_mirrors:
  "plan_loop ToJSON sha p b img steps wps uuid n jobs = Inr jobs' \<Longrightarrow> length wps = length steps \<Longrightarrow>
   \<exists>new. jobs' = jobs @ new \<and> list_all2 (mirrors b) steps new"
proof (induction steps arbitrary: wps n jobs)
  case (Cons s steps)
  from Cons.prems(2) obtain wp wps' where w: "wps = wp # wps'" "length wps' = length steps" by (cases wps) auto
  let ?spec = "plan_spec p b img wp s"
  from Cons.prems(1) w obtain json where
    "plan_loop ToJSON sha p b img steps wps' uuid (Suc n) (jobs @ [plan_job sha p b s ?spec json (uuid n)]) = Inr jobs'"
    by (auto simp: Let_def split: sum.splits)
  from Cons.IH [OF this w(2)] obtain new where
    "jobs' = jobs @ plan_job sha p b s ?spec json (uuid n) # new" "list_all2 (mirrors b) steps new" by auto
  moreover have "mirrors b s (plan_job sha p b s ?spec json (uuid n))"
    by (simp add: mirrors_def plan_job_def Let_def plan_spec_def)
  ultimately show ?case by (intro exI [of _ "plan_job sha p b s ?spec json (uuid n) # new"]) simp
qed simp

lemma createDurableJobs_returns:
  assumes "acyclic (edges (dependencies_by_node steps))"
  shows "\<exists>s' err. createDurableJobsForBuild x off b steps s = Some (s', err) \<and> bs_buildRepo s' = bs_buildRepo s \<and>
    bs_calls s' = bs_calls s \<and> bs_scmStatusReporter s' = bs_scmStatusReporter s \<and>
    (err = None \<longrightarrow> (\<forall>repo. bs_executionJobRepo s = Some repo \<longrightarrow>
       (\<exists>jobs. list_all2 (mirrors b) steps jobs \<and> bs_executionJobRepo s' = Some (fst (CreateJobsForBuild jobs repo)))))"
proof (cases "bs_executionJobRepo s")
  case None
  then show ?thesis by (simp add: createDurableJobsForBuild_def)
next
  case (Some repo)
  obtain plans where plans: "planWorkspaceInputs steps = Some plans" "length plans = length steps"
    using planWorkspaceInputs_acyclic [OF assms] by simp
  let ?plan = "Plan (x_ToJSON x) (x_sha256_hex x) (\<lambda>i. x_uuid x (off + i)) (NewBuildExecutionPlanner (x_now x)) b steps (resolveExecutionImage x s b)"
  show ?thesis
  proof (cases "steps = []")
    case True
    with Some show ?thesis by (simp add: createDurableJobsForBuild_def CreateJobsForBuild_def sortBuildAndStepJobsLocked_def)
  next
    case False
    with plans obtain res where res: "?plan = Some res" by (simp add: Plan_def)
    show ?thesis
    proof (cases res)
      case (Inl err)
      with Some False res show ?thesis by (simp add: createDurableJobsForBuild_def)
    next
      case (Inr jobs)
      with res plans False have "list_all2 (mirrors b) steps jobs"
        using plan_loop_mirrors [where jobs = "[]"] by (fastforce simp: Plan_def)
      with Inr Some False res show ?thesis
        by (cases "bs_executionOutputRepo s") (auto simp: createDurableJobsForBuild_def Let_def)
    qed
  qed
qed

text \<open>What the service's stores hold of a build that was just queued, with one job for every step.\<close>

definition identity_of :: "BuildStep \<Rightarrow> string \<times> int \<times> string list" where
  "identity_of st = (s_ID st, s_StepIndex st, s_DependsOnNodes st)"

definition mirrored_step :: "ExecutionJob \<Rightarrow> string \<times> int \<times> string list" where
  "mirrored_step job = (j_StepID job, j_StepIndex job, j_DependsOnNodeIDs job)"

definition freshly_queued :: "BuildService \<Rightarrow> BuildService \<Rightarrow> Build \<Rightarrow> bool" where
  "freshly_queued s s' b \<longleftrightarrow>
     (let stored = get_steps (bs_buildRepo s') (b_ID b)
      in b_Status b = BuildStatusQueued \<and> get_build (bs_buildRepo s') (b_ID b) = Some b \<and>
         sound_graph stored \<and> list_all (\<lambda>st. s_Status st = BuildStepStatusPending) stored \<and>
         (case bs_executionJobRepo s of
            None \<Rightarrow> True
          | Some repo \<Rightarrow>
              (\<exists>jobs. bs_executionJobRepo s' = Some (fst (CreateJobsForBuild jobs repo)) \<and>
                 mset (map mirrored_step jobs) = mset (map identity_of stored) \<and>
                 list_all (\<lambda>job. j_BuildID job = b_ID b \<and> j_Status job = ExecutionJobStatusQueued) jobs)) \<and>
         bs_calls s' = bs_calls s @ (if bs_scmStatusReporter s then [NotifyBuildStatus b] else []))"

text \<open>A request that always answers: it is refused without notifying anybody, or the build is queued.\<close>

definition answers :: "BuildService \<Rightarrow> (BuildService \<times> (svc_error + Build)) option \<Rightarrow> bool" where
  "answers s res =
     (case res of
        None \<Rightarrow> False
      | Some (s', Inl _) \<Rightarrow> bs_calls s' = bs_calls s
      | Some (s', Inr b) \<Rightarrow> freshly_queued s s' b)"

lemma answers_simps [simp]:
  "answers s (Some (s', Inl e)) \<longleftrightarrow> bs_calls s' = bs_calls s" "answers s (Some (s', Inr b)) \<longleftrightarrow> freshly_queued s s' b"
  by (simp_all add: answers_def)

lemma answersE:
  assumes "answers s res"
  obtains s1 e where "res = Some (s1, Inl e)" "bs_calls s1 = bs_calls s" | s1 b where "res = Some (s1, Inr b)" "freshly_queued s s1 b"
proof (cases res)
  case (Some a)
  with assms that show thesis by (cases a; cases "snd a") auto
qed (use assms in \<open>simp add: answers_def\<close>)

lemma mirrors_identity:
  assumes "list_all2 (mirrors b) steps jobs"
  shows "map mirrored_step jobs = map identity_of steps"
    and "list_all (\<lambda>job. j_BuildID job = b_ID b \<and> j_Status job = ExecutionJobStatusQueued) jobs"
  using assms by (induction rule: list_all2_induct) (auto simp: mirrors_def mirrored_step_def identity_of_def)

lemma adopt_steps_identity:
  assumes "\<And>k. k < length steps \<Longrightarrow> s_ID (steps ! k) = us k"
  shows "mset (map identity_of (adopt_steps us b steps)) = mset (map identity_of steps)"
proof -
  have "map identity_of (map (\<lambda>(k, step). adopt_step (us k) b step) (enumerate 0 steps)) = map identity_of steps"
    using assms by (intro nth_equalityI) (auto simp: nth_enumerate_eq adopt_step_def identity_of_def cloneStep_def Let_def)
  then show ?thesis by (metis adopt_steps_def mset_map mset_sort_slice)
qed

lemma queue_new_build_returns:
  assumes "sound_graph steps" "\<forall>st \<in> set steps. s_Status st = BuildStepStatusPending"
    and "\<And>k. k < length steps \<Longrightarrow> s_ID (steps ! k) = x_uuid x (Suc k)"
  shows "answers s (queue_new_build x build steps s)"
proof -
  let ?us = "\<lambda>k. x_uuid x (Suc k)"
  obtain r1 res where c: "CreateQueuedBuild (x_uuid x 0) ?us (x_now x) build steps (bs_buildRepo s) = (r1, res)" by fastforce
  show ?thesis
  proof (cases res)
    case (Inl err)
    with c show ?thesis by (simp add: queue_new_build_def)
  next
    case (Inr b)
    let ?s1 = "s\<lparr>bs_buildRepo := r1\<rparr>"
    have b: "b_Status b = BuildStatusQueued" "get_build r1 (b_ID b) = Some b" "get_steps r1 (b_ID b) = adopt_steps ?us (b_ID b) steps"
      using c Inr by (auto simp: CreateQueuedBuild_def Let_def cloneBuildApplicationVersion_def split: prod.splits option.splits)
    have pending: "list_all (\<lambda>st. s_Status st = BuildStepStatusPending) (get_steps r1 (b_ID b))"
      using assms(2) by (auto simp: b(3) adopt_steps_def in_set_enumerate_eq list_all_iff)
    have sound: "sound_graph (get_steps r1 (b_ID b))"
      unfolding b(3) using sound_graph_mset [OF adopt_steps_shape [symmetric] assms(1)] .
    obtain s' err where d: "createDurableJobsForBuild x (Suc (length steps)) b steps ?s1 = Some (s', err)" "bs_buildRepo s' = r1"
      "bs_calls s' = bs_calls s" "bs_scmStatusReporter s' = bs_scmStatusReporter s"
      "err = None \<longrightarrow> (\<forall>repo. bs_executionJobRepo s = Some repo \<longrightarrow>
         (\<exists>jobs. list_all2 (mirrors b) steps jobs \<and> bs_executionJobRepo s' = Some (fst (CreateJobsForBuild jobs repo))))"
      using createDurableJobs_returns [OF sound_graph_plannable [OF assms(1)], of x "Suc (length steps)" b ?s1] by auto
    have q: "queue_new_build x build steps s = jobs_then_notify x (Suc (length steps)) b steps ?s1"
      using c Inr by (simp add: queue_new_build_def)
    show ?thesis
    proof (cases err)
      case (Some e)
      with d q show ?thesis by (simp add: jobs_then_notify_def)
    next
      case None
      have ids: "mset (map identity_of (get_steps r1 (b_ID b))) = mset (map identity_of steps)"
        unfolding b(3) by (rule adopt_steps_identity) (rule assms(3))
      have jobs: "\<exists>jobs. bs_executionJobRepo s' = Some (fst (CreateJobsForBuild jobs repo)) \<and>
          mset (map mirrored_step jobs) = mset (map identity_of (get_steps r1 (b_ID b))) \<and>
          list_all (\<lambda>job. j_BuildID job = b_ID b \<and> j_Status job = ExecutionJobStatusQueued) jobs"
        if repo: "bs_executionJobRepo s = Some repo" for repo
      proof -
        obtain jobs where jobs: "list_all2 (mirrors b) steps jobs" "bs_executionJobRepo s' = Some (fst (CreateJobsForBuild jobs repo))"
          using d(5) None repo by blast
        with mirrors_identity [OF jobs(1)] ids show ?thesis by (intro exI [of _ jobs]) simp
      qed
      have "freshly_queued s (notifySCMBuildStatus b s') b"
        unfolding freshly_queued_def Let_def notifySCMBuildStatus_sel d(2,3,4)
        using b(1,2) sound pending jobs by (cases "bs_executionJobRepo s") simp_all
      with d(1) None q show ?thesis by (simp add: jobs_then_notify_def)
    qed
  qed
qed

section \<open>From a pipeline\<close>

lemma LoadAndResolve_valid:
  assumes "LoadAndResolve Decode data = Inr resolved"
  obtains pf where "Validate pf = []" "resolved = Resolve pf"
  using assms by (auto simp: LoadAndResolve_def ParseAndValidate_def split: sum.splits list.splits)

lemma resolve_working_dirs_same:
  "resolve_working_dirs d i steps = Inr steps' \<Longrightarrow> list_all2 (\<lambda>a b. b = a\<lparr>rs_WorkingDir := rs_WorkingDir b\<rparr>) steps steps'"
proof (induction steps arbitrary: i steps')
  case (Cons step steps)
  then obtain dir rest where "resolve_working_dirs d (Suc i) steps = Inr rest" "steps' = step\<lparr>rs_WorkingDir := dir\<rparr> # rest"
    by (auto split: sum.splits)
  with Cons.IH show ?case by simp
qed simp

lemma resolved_shapes:
  assumes "(if path \<noteq> [] then resolveRepoStepWorkingDirs path resolved else Inr resolved) = Inr resolved'"
  shows "map shape (pipelineStepsToDomain ids b (rp_Steps resolved')) = map shape (pipelineStepsToDomain ids b (rp_Steps resolved))"
proof -
  have l2: "list_all2 (\<lambda>a b. rs_NodeID b = rs_NodeID a \<and> rs_DependsOnNodeIDs b = rs_DependsOnNodeIDs a) (rp_Steps resolved) (rp_Steps resolved')"
  proof (cases "path = []")
    case True
    with assms show ?thesis by (simp add: list_all2_refl)
  next
    case False
    with assms obtain steps' where "resolve_working_dirs (pipeline_dir path) 0 (rp_Steps resolved) = Inr steps'" "rp_Steps resolved' = steps'"
      by (auto simp: resolveRepoStepWorkingDirs_def split: sum.splits)
    with resolve_working_dirs_same show ?thesis
      by (smt (verit, ccfv_threshold) ResolvedStep.select_convs ResolvedStep.surjective ResolvedStep.update_convs list_all2_mono)
  qed
  then show ?thesis
    by (intro nth_equalityI)
      (auto simp: pipelineStepsToDomain_def list_all2_conv_all_nth nth_enumerate_eq shape_def pipeline_step_to_domain_def Let_def zero_step_def)
qed

lemma pipeline_steps_pending: "\<forall>st \<in> set (pipelineStepsToDomain ids b rss). s_Status st = BuildStepStatusPending"
  by (auto simp: pipelineStepsToDomain_def pipeline_step_to_domain_def Let_def zero_step_def)

lemma pipeline_steps_ids: "k < length (pipelineStepsToDomain ids b rss) \<Longrightarrow> s_ID (pipelineStepsToDomain ids b rss ! k) = ids k"
  by (simp add: pipelineStepsToDomain_def nth_enumerate_eq pipeline_step_to_domain_def Let_def zero_step_def)

text \<open>Queueing the steps of a pipeline that was loaded and whose working directories were resolved.\<close>

lemma queue_pipeline_answers:
  assumes load: "LoadAndResolve (x_Decode x) yaml = Inr resolved0"
    and dirs: "(if path \<noteq> [] then resolveRepoStepWorkingDirs path resolved0 else Inr resolved0) = Inr resolved"
  shows "answers s (queue_new_build x build (pipelineStepsToDomain (\<lambda>i. x_uuid x (Suc i)) (x_uuid x 0) (rp_Steps resolved)) s)"
proof (rule queue_new_build_returns)
  let ?ids = "\<lambda>i. x_uuid x (Suc i)"
  obtain pf where pf: "Validate pf = []" "resolved0 = Resolve pf" using LoadAndResolve_valid [OF load] by blast
  have "sound_graph (pipelineStepsToDomain ?ids (x_uuid x 0) (rp_Steps resolved0))"
    using valid_steps_sound [OF pf(1)] by (simp add: build_steps_of_def pf(2))
  then show "sound_graph (pipelineStepsToDomain ?ids (x_uuid x 0) (rp_Steps resolved))"
    by (rule sound_graph_mset [rotated]) (simp add: resolved_shapes [OF dirs])
  show "\<forall>st \<in> set (pipelineStepsToDomain ?ids (x_uuid x 0) (rp_Steps resolved)). s_Status st = BuildStepStatusPending"
    by (rule pipeline_steps_pending)
qed (rule pipeline_steps_ids)

lemma pipeline_answers: "answers s (CreateBuildFromPipeline x input s)"
proof (cases "LoadAndResolve (x_Decode x) (TrimSpace (pi_PipelineYAML input))")
  case (Inl err)
  then show ?thesis by (simp add: CreateBuildFromPipeline_def Let_def split: option.split sum.split)
next
  case (Inr resolved0)
  let ?path = "TrimSpace (pi_PipelinePath input)"
  note queue = queue_pipeline_answers [OF Inr, of ?path]
  show ?thesis
  proof (cases "if ?path \<noteq> [] then resolveRepoStepWorkingDirs ?path resolved0 else Inr resolved0")
    case (Inl err)
    with Inr show ?thesis by (simp only: CreateBuildFromPipeline_def Let_def sum.case) (simp split: option.split sum.split)
  next
    fix resolved assume "(if ?path \<noteq> [] then resolveRepoStepWorkingDirs ?path resolved0 else Inr resolved0) = Inr resolved"
    with Inr queue [OF this] show ?thesis by (simp only: CreateBuildFromPipeline_def Let_def sum.case) (simp split: option.split sum.split)
  qed
qed

text \<open>
  C12: Creating a build from a pipeline always answers: the planner's recursion over the dependencies
  ends for every pipeline that passes validation. Either the request is refused and nobody is
  notified, or the build is stored as queued, its steps are all pending and form a sound graph (every
  dependency is the node of another step, and there is no cycle), the job store received one queued
  job per stored step with that step's identifier, index and dependencies, and the commit status
  reporter got one call.
\<close>

theorem create_from_pipeline_answers: "answers s (CreateBuildFromPipeline x input s)"
  by (rule pipeline_answers)

section \<open>From a repository\<close>

definition same_but_image :: "Build \<Rightarrow> Build \<Rightarrow> bool" where
  "same_but_image b b' \<longleftrightarrow>
     b' = b\<lparr>b_RequestedImageRef := b_RequestedImageRef b', b_ResolvedImageRef := b_ResolvedImageRef b',
            b_ImageSourceKind := b_ImageSourceKind b', b_ManagedImageID := b_ManagedImageID b',
            b_ManagedImageVersionID := b_ManagedImageVersionID b'\<rparr>"

lemma refresh_managed_image_keeps:
  assumes "refresh_managed_image io input path resolved b s = (s', b')" "get_build (bs_buildRepo s) (b_ID b) = Some b"
  shows "same_but_image b b' \<and> get_build (bs_buildRepo s') (b_ID b) = Some b' \<and> get_steps (bs_buildRepo s') = get_steps (bs_buildRepo s) \<and>
    bs_executionJobRepo s' = bs_executionJobRepo s \<and> bs_calls s' = bs_calls s"
  using assms
  by (auto simp: refresh_managed_image_def UpdateImageExecution_def update_build_def cloneBuildApplicationVersion_def same_but_image_def
      fun_eq_iff Let_def split: option.splits if_splits prod.splits sum.splits)

text \<open>What the request answers: refused, or queued from a path inside the repository.\<close>

definition repo_answer :: "CreateRepoBuildInput \<Rightarrow> BuildService \<Rightarrow> (BuildService \<times> (svc_error + Build)) option \<Rightarrow> bool" where
  "repo_answer input s res =
     (case res of
        None \<Rightarrow> False
      | Some (s', Inl _) \<Rightarrow> bs_calls s' = bs_calls s
      | Some (s', Inr b) \<Rightarrow>
          (\<exists>root path absPath. resolveRepoPipelinePath root (ri_PipelinePath input) = Inr (absPath, path) \<and> stays_inside path) \<and>
          (\<exists>s0 b0. freshly_queued s s0 b0 \<and> same_but_image b0 b \<and> get_build (bs_buildRepo s') (b_ID b0) = Some b \<and>
             get_steps (bs_buildRepo s') = get_steps (bs_buildRepo s0) \<and> bs_executionJobRepo s' = bs_executionJobRepo s0 \<and>
             bs_calls s' = bs_calls s0))"

lemma repo_answer_refused: "repo_answer input s (Some (s, Inl e))"
  by (simp add: repo_answer_def)

lemma repo_answer_if: "(c \<Longrightarrow> repo_answer i s u) \<Longrightarrow> (\<not> c \<Longrightarrow> repo_answer i s v) \<Longrightarrow> repo_answer i s (if c then u else v)"
  by simp

lemma repo_answer_option:
  "repo_answer i s u \<Longrightarrow> (\<And>e. repo_answer i s (f e)) \<Longrightarrow> repo_answer i s (case r of None \<Rightarrow> u | Some e \<Rightarrow> f e)"
  by (cases r) simp_all

lemma repo_answer_sum:
  "(\<And>e. repo_answer i s (f e)) \<Longrightarrow> (\<And>a. r = Inr a \<Longrightarrow> repo_answer i s (g a)) \<Longrightarrow>
   repo_answer i s (case r of Inl e \<Rightarrow> f e | Inr a \<Rightarrow> g a)"
  by (cases r) simp_all

lemma repo_answer_sum_pair:
  "(\<And>e. repo_answer i s (f e)) \<Longrightarrow> (\<And>a b. r = Inr (a, b) \<Longrightarrow> repo_answer i s (h a b)) \<Longrightarrow>
   repo_answer i s (case r of Inl e \<Rightarrow> f e | Inr (a, b) \<Rightarrow> h a b)"
  by (cases r) auto

lemma repo_answer_queue:
  assumes path: "resolveRepoPipelinePath root (ri_PipelinePath input) = Inr (absPath, path)"
    and load: "LoadAndResolve (x_Decode x) yaml = Inr resolved0" and dirs: "resolveRepoStepWorkingDirs path resolved0 = Inr resolved"
  shows "repo_answer input s
    (case queue_new_build x build (pipelineStepsToDomain (\<lambda>i. x_uuid x (Suc i)) (x_uuid x 0) (rp_Steps resolved)) s of
        None \<Rightarrow> None
      | Some (s1, Inl err) \<Rightarrow> Some (s1, Inl err)
      | Some (s1, Inr b) \<Rightarrow> (case refresh_managed_image io input path resolved b s1 of (s2, result) \<Rightarrow> Some (s2, Inr result)))"
    (is "repo_answer input s (case ?queue of None \<Rightarrow> None | Some (s1, Inl err) \<Rightarrow> _ s1 err | Some (s1, Inr b) \<Rightarrow> _ s1 b)")
proof -
  have inside: "stays_inside path" by (rule pipeline_path_inside(1) [OF path])
  have "path \<noteq> []" using pipeline_path_inside(2) [OF path] path_Clean_nonempty [of path] by auto
  then have "answers s ?queue" using queue_pipeline_answers [OF load, of path resolved] dirs by simp
  then consider s1 e where "?queue = Some (s1, Inl e)" "bs_calls s1 = bs_calls s"
    | s1 b0 where "?queue = Some (s1, Inr b0)" "freshly_queued s s1 b0"
    by (rule answersE)
  then show ?thesis
  proof cases
    case 1
    then show ?thesis by (simp add: repo_answer_def)
  next
    case (2 s1 b0)
    then have "get_build (bs_buildRepo s1) (b_ID b0) = Some b0" by (simp add: freshly_queued_def Let_def)
    moreover obtain s2 b where r: "refresh_managed_image io input path resolved b0 s1 = (s2, b)" by fastforce
    ultimately have "\<exists>s0 b0. freshly_queued s s0 b0 \<and> same_but_image b0 b \<and> get_build (bs_buildRepo s2) (b_ID b0) = Some b \<and>
        get_steps (bs_buildRepo s2) = get_steps (bs_buildRepo s0) \<and> bs_executionJobRepo s2 = bs_executionJobRepo s0 \<and> bs_calls s2 = bs_calls s0"
      using refresh_managed_image_keeps [OF r] 2(2) by blast
    with path inside 2(1) r show ?thesis by (auto simp: repo_answer_def)
  qed
qed

lemma repo_answers: "repo_answer input s (CreateBuildFromRepo x io input s)"
  unfolding CreateBuildFromRepo_def Let_def
  by (rule repo_answer_refused | (rule repo_answer_queue; assumption) | rule repo_answer_if repo_answer_sum_pair repo_answer_sum repo_answer_option)+

text \<open>
  Creating a build from a repository always answers as well. A refused request notifies nobody. An accepted
  one reads the pipeline from a clean path inside the fetched copy; its build is queued like one from a
  pipeline, and the managed image refresh that may follow changes only the image fields of the stored
  build, never its steps, its jobs or what was reported.
\<close>

theorem create_from_repo_answers: "repo_answer input s (CreateBuildFromRepo x io input s)"
  by (rule repo_answers)

section \<open>Full reruns\<close>

lemma cloneStepForAttempt_sel:
  "s_ID (cloneStepForAttempt i b st k) = i" "s_Status (cloneStepForAttempt i b st k) = BuildStepStatusPending"
  "s_DependsOnNodes (cloneStepForAttempt i b st k) = s_DependsOnNodes st" "s_StepIndex (cloneStepForAttempt i b st k) = k"
  "TrimSpace (s_NodeID st) \<noteq> [] \<Longrightarrow> effective_node (cloneStepForAttempt i b st k) = effective_node st"
  "TrimSpace (s_NodeID st) \<noteq> [] \<Longrightarrow> TrimSpace (s_NodeID (cloneStepForAttempt i b st k)) = TrimSpace (s_NodeID st)"
  by (simp_all add: cloneStepForAttempt_def zero_step_def effective_node_def defaultValue_def Let_def)

lemma sound_graph_clones:
  assumes "sound_graph steps"
  shows "sound_graph (map (\<lambda>(k, st). cloneStepForAttempt (us k) b st (int k)) (enumerate 0 steps))" (is "sound_graph ?new")
proof -
  have node: "TrimSpace (s_NodeID st) \<noteq> []" if "st \<in> set steps" for st using assms that by (simp add: sound_graph_def)
  have nodes: "map effective_node ?new = map effective_node steps"
    by (rule nth_equalityI) (use node in \<open>simp_all add: nth_enumerate_eq cloneStepForAttempt_sel\<close>)
  have deps: "map s_DependsOnNodes ?new = map s_DependsOnNodes steps"
    by (rule nth_equalityI) (simp_all add: nth_enumerate_eq cloneStepForAttempt_sel)
  have pairs: "(\<lambda>st. (effective_node st, s_DependsOnNodes st)) ` set ?new = (\<lambda>st. (effective_node st, s_DependsOnNodes st)) ` set steps"
  proof -
    have split: "map (\<lambda>st. (effective_node st, s_DependsOnNodes st)) zs = zip (map effective_node zs) (map s_DependsOnNodes zs)" for zs
      by (induction zs) simp_all
    show ?thesis unfolding set_map [symmetric] split nodes deps ..
  qed
  have waits: "waits_for zs = (\<Union>(n, ds) \<in> (\<lambda>st. (effective_node st, s_DependsOnNodes st)) ` set zs. (\<lambda>d. (n, TrimSpace d)) ` set ds)" for zs
    by (auto simp: waits_for_def)
  have "effective_node ` set ?new = effective_node ` set steps" unfolding set_map [symmetric] nodes ..
  moreover have "TrimSpace (s_NodeID st) \<noteq> []" if "st \<in> set ?new" for st
    using that node by (auto simp: in_set_enumerate_eq cloneStepForAttempt_sel)
  moreover have "TrimSpace ` set (s_DependsOnNodes st) \<subseteq> effective_node ` set steps" if "st \<in> set ?new" for st
    using assms that by (auto simp: in_set_enumerate_eq cloneStepForAttempt_sel sound_graph_def dest!: bspec [OF _ nth_mem])
  moreover have "waits_for ?new = waits_for steps" unfolding waits pairs ..
  ultimately show ?thesis using assms nodes by (simp add: sound_graph_def)
qed

text \<open>
  A full rerun keeps the graph: rerunning a build whose steps form a sound graph always answers,
  and a rerun that is accepted is queued like a new build, with all steps pending again, the same
  dependencies between them, and one new job for each.
\<close>

theorem rerun_keeps_graph:
  assumes "sound_graph (get_steps (bs_buildRepo s) i)"
  shows "answers s (RerunBuild x i s)"
proof (cases "get_build (bs_buildRepo s) i")
  case None
  then show ?thesis by (simp add: RerunBuild_def GetByID_def)
next
  case (Some b)
  let ?steps = "sort_slice step_less (sort_slice step_less (map cloneStep (get_steps (bs_buildRepo s) i)))"
  let ?new = "map (\<lambda>(k, st). cloneStepForAttempt (x_uuid x (Suc k)) (b_ID (buildAttemptFromSource (x_uuid x 0) b (x_now x) None)) st (int k)) (enumerate 0 ?steps)"
  have "shape (cloneStep st) = shape st" for st by (simp add: shape_def cloneStep_def)
  then have "mset (map shape (get_steps (bs_buildRepo s) i)) = mset (map shape ?steps)"
    by (simp add: image_mset.compositionality comp_def)
  then have "sound_graph ?new" by (intro sound_graph_clones sound_graph_mset [OF _ assms])
  then have "answers s (queue_new_build x build ?new s)" for build
    by (rule queue_new_build_returns) (auto simp: cloneStepForAttempt_sel nth_enumerate_eq)
  with Some show ?thesis
    by (simp add: RerunBuild_def GetByID_def GetStepsByBuildID_def cloneBuildApplicationVersion_def Let_def split: option.split)
qed

text \<open>A build of the demonstration store that has ended, for a rerun.\<close>

definition failed_store :: BuildRepository where
  "failed_store = two_step_store\<lparr>br_builds := [(''b1'', (blank_build ''b1'' BuildStatusFailed)\<lparr>b_ProjectID := ''p1''\<rparr>)]\<rparr>"

lemma failed_store_get:
  "get_build failed_store ''b1'' = Some ((blank_build ''b1'' BuildStatusFailed)\<lparr>b_ProjectID := ''p1''\<rparr>)"
  "get_steps failed_store ''b1'' = [compile_step, test_step]"
  by (simp_all add: failed_store_def two_step_store_def get_build_def get_steps_def gm_get_or_def)

lemma waits_for_list:
  "waits_for steps = set (concat (map (\<lambda>st. map (\<lambda>d. (effective_node st, TrimSpace d)) (s_DependsOnNodes st)) steps))"
  by (auto simp: waits_for_def)

lemma failed_store_sound: "sound_graph (get_steps failed_store ''b1'')"
proof -
  have nodes: "map effective_node [compile_step, test_step] = [''compile'', ''test'']"
    "s_DependsOnNodes compile_step = []" "s_DependsOnNodes test_step = [''compile'']" "TrimSpace ''compile'' = ''compile''"
    "s_NodeID compile_step = ''compile''" "s_NodeID test_step = ''test''" "TrimSpace ''test'' = ''test''"
    by code_simp+
  then have "waits_for [compile_step, test_step] = {(''test'', ''compile'')}"
    by (simp add: waits_for_list)
  moreover have "acyclic {(''test'', ''compile'')}" by (auto simp: acyclic_def trancl_insert)
  ultimately show ?thesis using nodes by (simp add: failed_store_get sound_graph_def)
qed

theorem rerun_keeps_graph_witness:
  "answers (demo_service failed_store (one_job_store held_job)) (RerunBuild demo_externals ''b1'' (demo_service failed_store (one_job_store held_job))) \<and>
   validateBuildRerunContext ((blank_build ''b1'' BuildStatusFailed)\<lparr>b_ProjectID := ''p1''\<rparr>) (get_steps failed_store ''b1'') = None"
  (is "answers ?s ?r \<and> _")
proof
  have "sound_graph (get_steps (bs_buildRepo ?s) ''b1'')" using failed_store_sound by simp
  from rerun_keeps_graph [OF this] show "answers ?s ?r" .
qed code_simp

end
