(* ===== verification/Worker_Properties.thy ===== *)
theory Worker_Properties
  imports Worker Request_Properties
begin

text \<open>
  What a worker can rely on: its heartbeats come in time, a step it is handed is held in the build
  store under its claim, and what becomes of the retry of a step that depends on others.
\<close>

section \<open>Heartbeats\<close>

lemma sdiv_pos: "0 \<le> (a::int) \<Longrightarrow> 0 < b \<Longrightarrow> a sdiv b = a div b"
  by (simp add: signed_divide_int_def sgn_if)

lemma smod_pos: "0 \<le> (a::int) \<Longrightarrow> 0 < b \<Longrightarrow> a smod b = a mod b"
  by (metis minus_sdiv_mult_eq_smod sdiv_pos minus_div_mult_eq_mod)

text \<open>
  With a lease of more than 200 milliseconds, a holder renews at least twice before it runs out, and never
  more often than every 100 milliseconds. With a lease of at most 100 milliseconds (but at least 15 nanoseconds) the
  lower bound wins: the first renewal comes no earlier than the end of the lease.
\<close>

theorem heartbeat_in_time:
  "(200000000 < lease \<longrightarrow> 100000000 \<le> heartbeatIntervalForStep lease worker tok \<and> 2 * heartbeatIntervalForStep lease worker tok < lease) \<and>
   (15 \<le> lease \<and> lease \<le> 100000000 \<longrightarrow> lease \<le> heartbeatIntervalForStep lease worker tok)"
proof (cases "15 \<le> lease")
  case True
  define base where "base = lease div 3"
  define window where "window = base div 5"
  define off where "off = uint (fnv32a (worker @ tok)) mod (2 * window + 1) - window"
  have base: "heartbeatInterval lease = base" "0 < base" "3 * base \<le> lease" "lease < 3 * base + 3"
    using True by (auto simp: heartbeatInterval_def sdiv_pos base_def Let_def)
  have window: "base sdiv 5 = window" "0 < window" "5 * window \<le> base"
    using base True by (auto simp: sdiv_pos window_def base_def)
  have "0 \<le> uint (fnv32a (worker @ tok)) mod (2 * window + 1)" "uint (fnv32a (worker @ tok)) mod (2 * window + 1) < 2 * window + 1"
    using window(2) pos_mod_bound [of "2 * window + 1"] by simp_all
  then have off: "- window \<le> off" "off \<le> window" by (simp_all add: off_def)
  have "lease sdiv 10 = lease div 10" using True by (simp add: sdiv_pos)
  moreover have "uint (fnv32a (worker @ tok)) smod (2 * window + 1) = uint (fnv32a (worker @ tok)) mod (2 * window + 1)"
    using window by (simp add: smod_pos)
  ultimately have "heartbeatIntervalForStep lease worker tok =
      (let t = max 100000000 (base + off); top = lease - lease div 10 in if top > 100000000 \<and> t > top then top else t)"
    using window by (simp add: heartbeatIntervalForStep_def base Let_def off_def max_def algebra_simps)
  then show ?thesis using base window off True by (auto simp: Let_def max_def)
qed simp

theorem heartbeat_in_time_witness:
  "100000000 \<le> heartbeatIntervalForStep 45000000000 ''w'' ''t'' \<and> 2 * heartbeatIntervalForStep 45000000000 ''w'' ''t'' < 45000000000 \<and>
   50000000 \<le> heartbeatIntervalForStep 50000000 ''w'' ''t''"
  using heartbeat_in_time [of 45000000000 "''w''" "''t''"] heartbeat_in_time [of 50000000 "''w''" "''t''"] by simp

section \<open>A claimed step is held\<close>

text \<open>The build store shows the step as running under the worker's claim.\<close>

definition holds_step :: "time \<Rightarrow> ExecutionWorkerService \<Rightarrow> WorkerRunnableStep \<Rightarrow> bool" where
  "holds_step now w step \<longleftrightarrow>
     (\<exists>idx. step_at (wr_StepIndex step) (get_steps (bs_buildRepo (w_builds w)) (wr_BuildID step)) = Some idx \<and>
        (let st = get_steps (bs_buildRepo (w_builds w)) (wr_BuildID step) ! idx
         in s_Status st = BuildStepStatusRunning \<and> s_ClaimToken st = Some (wr_ClaimToken step) \<and>
            s_WorkerID st = Some (w_workerID w) \<and> s_LeaseExpiresAt st = Some (now + w_leaseDuration w)))"

definition held_by :: "StepClaim \<Rightarrow> string \<Rightarrow> int \<Rightarrow> BuildRepository \<Rightarrow> bool" where
  "held_by c i k r \<longleftrightarrow>
     (\<exists>idx. step_at k (get_steps r i) = Some idx \<and>
        (let st = get_steps r i ! idx
         in s_Status st = BuildStepStatusRunning \<and> s_ClaimToken st = Some (c_ClaimToken c) \<and>
            s_WorkerID st = Some (c_WorkerID c) \<and> s_LeaseExpiresAt st = Some (c_LeaseExpiresAt c)))"

lemma held_by_update:
  assumes "step_at k (get_steps r i) = Some idx" "s_StepIndex st = k" "s_Status st = BuildStepStatusRunning"
    and "s_ClaimToken st = Some (c_ClaimToken c)" "s_WorkerID st = Some (c_WorkerID c)" "s_LeaseExpiresAt st = Some (c_LeaseExpiresAt c)"
  shows "held_by c i k (set_steps i ((get_steps r i)[idx := st]) r)"
  using assms step_atD [OF assms(1)] by (simp add: held_by_def step_at_update Let_def)

lemma take_claim_fields:
  "s_ClaimToken (take_claim c st) = Some (c_ClaimToken c)" "s_WorkerID (take_claim c st) = Some (c_WorkerID c)"
  "s_LeaseExpiresAt (take_claim c st) = Some (c_LeaseExpiresAt c)" "s_StepIndex (take_claim c st) = s_StepIndex st"
  "s_Status (take_claim c st) = s_Status st"
  by (simp_all add: take_claim_def)

lemma ClaimPendingStep_held:
  assumes "ClaimPendingStep i k c r = (r1, Inr (Some st))"
  shows "held_by c i k r1 \<and> s_StepIndex st = k"
proof -
  let ?run = "\<lambda>idx. take_claim c ((get_steps r i ! idx)\<lparr>s_Status := BuildStepStatusRunning\<rparr>)"
  let ?st = "\<lambda>idx. if s_StartedAt (?run idx) = None then (?run idx)\<lparr>s_StartedAt := Some (c_ClaimedAt c)\<rparr> else ?run idx"
  from assms obtain idx where idx: "step_at k (get_steps r i) = Some idx"
    "st = cloneStep (?st idx)" "r1 = set_steps i ((get_steps r i)[idx := ?st idx]) r"
    unfolding ClaimPendingStep_def Let_def by (auto split: if_splits option.splits)
  show ?thesis
    using step_atD(2) [OF idx(1)] held_by_update [OF idx(1), of "?st idx" c] idx(2,3) by (simp add: take_claim_fields)
qed

lemma ReclaimExpiredStep_held:
  assumes "ReclaimExpiredStep i k before c r = (r1, Inr (Some st))"
  shows "held_by c i k r1 \<and> s_StepIndex st = k"
proof -
  obtain idx where idx: "step_at k (get_steps r i) = Some idx" "s_Status (get_steps r i ! idx) = BuildStepStatusRunning"
    "r1 = set_steps i ((get_steps r i)[idx := take_claim c (get_steps r i ! idx)]) r" "st = cloneStep (take_claim c (get_steps r i ! idx))"
    using ReclaimExpiredStep_Some [OF assms] by blast
  then show ?thesis
    using step_atD(2) [OF idx(1)] held_by_update [OF idx(1), of "take_claim c (get_steps r i ! idx)" c] by (simp add: take_claim_fields)
qed

lemma holds_step_iff:
  "wr_ClaimToken step = tok \<Longrightarrow>
   holds_step now w step \<longleftrightarrow> held_by (newStepClaim tok now w) (wr_BuildID step) (wr_StepIndex step) (bs_buildRepo (w_builds w))"
  by (simp add: holds_step_def held_by_def newStepClaim_def)

text \<open>The worker's own settings do not change while it claims.\<close>

definition same_worker :: "ExecutionWorkerService \<Rightarrow> ExecutionWorkerService \<Rightarrow> bool" where
  "same_worker w w' \<longleftrightarrow> w_workerID w' = w_workerID w \<and> w_leaseDuration w' = w_leaseDuration w"

lemma newStepClaim_same: "same_worker w w' \<Longrightarrow> newStepClaim tok now w' = newStepClaim tok now w"
  by (simp add: same_worker_def newStepClaim_def)

lemma bindRunnableStep_keeps:
  assumes "bindRunnableStepFromJob step claim w = (w', Inr step')"
  shows "bs_buildRepo (w_builds w') = bs_buildRepo (w_builds w) \<and> same_worker w w' \<and> wr_BuildID step' = wr_BuildID step \<and>
    wr_StepIndex step' = wr_StepIndex step \<and> wr_ClaimToken step' = wr_ClaimToken step \<and> wr_StepID step' = wr_StepID step"
  using assms
  by (auto simp: bindRunnableStepFromJob_def ClaimJobByStepID_service_def same_worker_def split: if_splits prod.splits sum.splits option.splits)

text \<open>The outcome of any part of a poll: a step that is handed out is held.\<close>

definition claimed :: "time \<Rightarrow> ExecutionWorkerService \<Rightarrow> ExecutionWorkerService \<times> (svc_error + WorkerRunnableStep option) \<Rightarrow> bool" where
  "claimed now w outcome =
     (case outcome of
        (w', Inr (Some step)) \<Rightarrow> same_worker w w' \<and> (wr_StepID step = [] \<or> holds_step now w' step)
      | (w', _) \<Rightarrow> same_worker w w')"

lemma claimed_simps [simp]:
  "claimed now w (w', Inl e) \<longleftrightarrow> same_worker w w'" "claimed now w (w', Inr None) \<longleftrightarrow> same_worker w w'"
  "claimed now w (w', Inr (Some step)) \<longleftrightarrow> same_worker w w' \<and> (wr_StepID step = [] \<or> holds_step now w' step)"
  by (simp_all add: claimed_def)

lemma claimed_from: "same_worker w w1 \<Longrightarrow> claimed now w1 outcome \<Longrightarrow> claimed now w outcome"
  by (auto simp: claimed_def same_worker_def split: prod.splits sum.splits option.splits)

lemma same_worker_updates [simp]:
  "same_worker w (w'\<lparr>w_builds := s\<rparr>) \<longleftrightarrow> same_worker w w'" "same_worker w (w'\<lparr>w_claimsWon := n\<rparr>) \<longleftrightarrow> same_worker w w'"
  "same_worker w (w'\<lparr>w_reclaimsWon := n\<rparr>) \<longleftrightarrow> same_worker w w'" "same_worker w (w'\<lparr>w_reclaimMisses := n\<rparr>) \<longleftrightarrow> same_worker w w'"
  "same_worker w w"
  by (simp_all add: same_worker_def)

lemma mirror_holds:
  assumes "mirrorJobClaimToStep job claim w = (w', res)"
  shows "same_worker w w' \<and> (\<forall>cache. res = Inr cache \<longrightarrow> j_StepID job = [] \<or> held_by claim (j_BuildID job) (j_StepIndex job) (bs_buildRepo (w_builds w')))"
  using assms
  by (auto simp: mirrorJobClaimToStep_def ClaimPendingStep_service_def ReclaimExpiredStep_service_def
      split: if_splits prod.splits sum.splits option.splits dest: ClaimPendingStep_held ReclaimExpiredStep_held)

lemma from_jobs_claimed: "claimed now w (claimRunnableStepFromJobs U tok now w)"
proof -
  let ?c = "newStepClaim tok now w"
  obtain s1 found where c: "ClaimNextRunnableJob_service ?c (w_builds w) = (s1, found)" by fastforce
  show ?thesis
  proof (cases found)
    case None
    with c show ?thesis by (simp add: claimRunnableStepFromJobs_def Let_def)
  next
    case (Some job)
    obtain w2 res where m: "mirrorJobClaimToStep job ?c (w\<lparr>w_builds := s1\<rparr>) = (w2, res)" by fastforce
    from mirror_holds [OF m] have w2: "same_worker w w2" and
      held: "res = Inr cache \<Longrightarrow> j_StepID job = [] \<or> held_by ?c (j_BuildID job) (j_StepIndex job) (bs_buildRepo (w_builds w2))" for cache
      by (auto simp: same_worker_def)
    show ?thesis
    proof (cases res)
      case (Inl e)
      with c Some m w2 show ?thesis by (simp add: claimRunnableStepFromJobs_def Let_def)
    next
      case (Inr cache)
      let ?w3 = "w2\<lparr>w_claimsWon := w_claimsWon w2 + 1\<rparr>"
      have "wr_StepID (runnable_from_job job ?c kind remote env cache) = [] \<or> holds_step now ?w3 (runnable_from_job job ?c kind remote env cache)" for kind remote env
        using held [OF Inr] newStepClaim_same [OF w2, of tok now]
        by (auto simp: runnable_from_job_def newStepClaim_def holds_step_def held_by_def same_worker_def)
      with c Some m w2 Inr show ?thesis
        by (auto simp: claimRunnableStepFromJobs_def Let_def split: sum.split)
    qed
  qed
qed

section \<open>Granted steps\<close>

text \<open>
  What the worker relies on when it asks the build store for a step: a step that is granted is held
  under the claim afterwards, and it is the step that was asked for.
\<close>

locale step_grant =
  fixes grant :: "string \<Rightarrow> int \<Rightarrow> StepClaim \<Rightarrow> BuildRepository \<Rightarrow> BuildRepository \<times> (go_error + BuildStep option)"
  assumes grant_held: "grant i k c r = (r1, Inr (Some st)) \<Longrightarrow> held_by c i k r1 \<and> s_StepIndex st = k"
begin

text \<open>Binding a granted step to its job keeps it held.\<close>

lemma bound_claimed:
  assumes "grant i k (newStepClaim tok now w) r = (bs_buildRepo (w_builds w1), Inr (Some st))" "same_worker w w1"
    and "bindRunnableStepFromJob (runnable_from_step i st (newStepClaim tok now w)) (newStepClaim tok now w) w1 = (w2, res)"
  shows "claimed now w (w2, map_sum id Some res)"
proof (cases res)
  case (Inl e)
  with assms show ?thesis
    by (auto simp: bindRunnableStepFromJob_def same_worker_def split: if_splits prod.splits sum.splits option.splits)
next
  case (Inr step)
  from bindRunnableStep_keeps [OF assms(3) [unfolded Inr]] grant_held [OF assms(1)] assms(2) show ?thesis
    by (auto simp: Inr holds_step_def held_by_def newStepClaim_def runnable_from_step_def same_worker_def)
qed

end

interpretation claim_grant: step_grant ClaimPendingStep
  by unfold_locales (rule ClaimPendingStep_held)

interpretation reclaim_grant: step_grant "\<lambda>i k. ReclaimExpiredStep i k before" for before
  by unfold_locales (rule ReclaimExpiredStep_held)

lemma bound_result: "(case p of (w2, Inl err) \<Rightarrow> (w2, Inl err) | (w2, Inr bound) \<Rightarrow> (w2, Inr (Some bound))) = map_prod id (map_sum id Some) p"
  by (auto split: prod.split sum.split)

lemma claim_in_build_claimed: "claimed now w (claim_in_build tok now build w)"
proof (cases "GetStepsByBuildID (b_ID build) (bs_buildRepo (w_builds w))")
  case (Inl e)
  then show ?thesis by (simp add: claim_in_build_def)
next
  case (Inr steps)
  show ?thesis
  proof (cases "workerFirstRunnableStep steps")
    case None
    with Inr show ?thesis by (simp add: claim_in_build_def)
  next
    case (Some st)
    let ?c = "newStepClaim tok now w"
    obtain r1 res where c: "ClaimPendingStep (b_ID build) (s_StepIndex st) ?c (bs_buildRepo (w_builds w)) = (r1, res)" by fastforce
    consider e where "res = Inl e" | "res = Inr None" | st1 where "res = Inr (Some st1)"
      by (cases res) (auto split: option.split)
    then show ?thesis
    proof cases
      case (3 st1)
      let ?w1 = "w\<lparr>w_builds := (w_builds w)\<lparr>bs_buildRepo := r1\<rparr>, w_claimsWon := w_claimsWon w + 1\<rparr>"
      obtain w2 out where b: "bindRunnableStepFromJob (runnable_from_step (b_ID build) st1 ?c) ?c ?w1 = (w2, out)" by fastforce
      have "claimed now w (w2, map_sum id Some out)"
        by (rule claim_grant.bound_claimed [OF _ _ b]) (use c 3 in simp_all)
      with Inr Some c 3 b show ?thesis
        by (simp add: claim_in_build_def ClaimPendingStep_service_def bound_result)
    qed (use Inr Some c in \<open>simp_all add: claim_in_build_def ClaimPendingStep_service_def Let_def\<close>)
  qed
qed

lemma reclaim_in_build_claimed: "claimed now w (reclaim_in_build tok now build w)"
proof (cases "GetStepsByBuildID (b_ID build) (bs_buildRepo (w_builds w))")
  case (Inl e)
  then show ?thesis by (simp add: reclaim_in_build_def)
next
  case (Inr steps)
  show ?thesis
  proof (cases "workerFirstReclaimableRunningStep steps now")
    case None
    with Inr show ?thesis by (simp add: reclaim_in_build_def)
  next
    case (Some st)
    let ?c = "newStepClaim tok now w"
    obtain r1 res where c: "ReclaimExpiredStep (b_ID build) (s_StepIndex st) (c_ClaimedAt ?c) ?c (bs_buildRepo (w_builds w)) = (r1, res)" by fastforce
    consider e where "res = Inl e" | "res = Inr None" | st1 where "res = Inr (Some st1)"
      by (cases res) (auto split: option.split)
    then show ?thesis
    proof cases
      case (3 st1)
      let ?w1 = "w\<lparr>w_builds := (w_builds w)\<lparr>bs_buildRepo := r1\<rparr>, w_reclaimsWon := w_reclaimsWon w + 1\<rparr>"
      obtain w2 out where b: "bindRunnableStepFromJob (runnable_from_step (b_ID build) st1 ?c) ?c ?w1 = (w2, out)" by fastforce
      have "claimed now w (w2, map_sum id Some out)"
        by (rule reclaim_grant.bound_claimed [OF _ _ b]) (use c 3 in simp_all)
      with Inr Some c 3 b show ?thesis
        by (simp add: reclaim_in_build_def ReclaimExpiredStep_service_def bound_result)
    qed (use Inr Some c in \<open>simp_all add: reclaim_in_build_def ReclaimExpiredStep_service_def Let_def\<close>)
  qed
qed

lemma queue_then_claim_claimed: "queue_then_claim xs tok now build w = Some outcome \<Longrightarrow> claimed now w outcome"
  by (auto simp: queue_then_claim_def claim_in_build_claimed intro!: claimed_from [OF _ claim_in_build_claimed]
      split: if_splits option.splits sum.splits)

lemma claim_loop_claimed: "claim_loop xs tok now builds w = Some outcome \<Longrightarrow> claimed now w outcome"
proof (induction builds arbitrary: tok w)
  case (Cons build builds)
  then obtain w1 res where q: "queue_then_claim xs (tok 0) now build w = Some (w1, res)" by (auto split: option.splits)
  note c = queue_then_claim_claimed [OF q]
  show ?case
  proof (cases "res = Inr None")
    case True
    with Cons.prems q have "claim_loop xs (\<lambda>k. tok (Suc k)) now builds w1 = Some outcome" by simp
    with Cons.IH c True show ?thesis by (auto intro: claimed_from)
  next
    case False
    with Cons.prems q have "outcome = (w1, res)" by (cases res) (auto split: option.splits)
    with c show ?thesis by simp
  qed
qed auto

lemma reclaim_loop_claimed: "claimed now w (reclaim_loop tok now builds w)"
proof (induction builds arbitrary: tok w)
  case (Cons build builds)
  obtain w1 res where q: "reclaim_in_build (tok 0) now build w = (w1, res)" by fastforce
  have c: "claimed now w (w1, res)" using reclaim_in_build_claimed [of now w "tok 0" build] by (simp add: q)
  show ?case
  proof (cases "res = Inr None")
    case True
    with Cons.IH [of w1] c q show ?thesis by (auto intro: claimed_from)
  next
    case False
    with q have "reclaim_loop tok now (build # builds) w = (w1, res)" by (cases res) (auto split: option.splits)
    with c show ?thesis by simp
  qed
qed simp

lemma Inr_NoneE:
  fixes res :: "'e + 'a option"
  obtains "res = Inr None" | e where "res = Inl e" | a where "res = Inr (Some a)"
  by (cases res) (auto intro: option.exhaust)

text \<open>
  C11: A worker is handed only steps it holds. When a poll hands out a step that stands for a step of a
  build (a job may have none), the build store has that step as running under the worker's own
  identifier, the token it was handed and a lease that runs for the worker's lease duration from now;
  this holds whether the step came from the job queue, from the scan of running builds, or from the
  recovery of an expired lease.
\<close>

theorem worker_holds_claimed_step:
  assumes "ClaimRunnableStep io xs U tok now w = Some (w', Inr (Some step))"
  shows "wr_StepID step = [] \<or> holds_step now w' step"
proof -
  define u where "u = recordHeartbeat now False w"
  note a = assms [unfolded ClaimRunnableStep_def Let_def, folded u_def]
  from a obtain s1 builds where p: "prepareQueuedBuilds io xs (w_builds u) = Some (s1, Inr builds)"
    by (auto split: option.splits sum.splits)
  let ?w0 = "u\<lparr>w_builds := s1\<rparr>" and ?n = "length builds"
  obtain w1 res1 where j: "claimRunnableStepFromJobs U (tok 0) now ?w0 = (w1, res1)" by fastforce
  have c1: "claimed now u (w1, res1)" using from_jobs_claimed [of now ?w0 U "tok 0"] claimed_from [of u ?w0] by (simp add: j)
  show ?thesis
  proof (cases res1 rule: Inr_NoneE)
    case 1
    with a p j obtain w2 res2 where l: "claim_loop xs (\<lambda>k. tok (Suc k)) now builds w1 = Some (w2, res2)"
      by (auto split: option.splits)
    have c2: "claimed now u (w2, res2)" using c1 1 by (auto intro: claimed_from claim_loop_claimed [OF l])
    show ?thesis
    proof (cases res2 rule: Inr_NoneE)
      case 1
      obtain w3 res3 where r: "reclaim_loop (\<lambda>k. tok (Suc (?n + k))) now builds w2 = (w3, res3)" by fastforce
      have "claimed now w2 (w3, res3)" using reclaim_loop_claimed [of now w2] by (metis r)
      moreover have "res3 = Inr (Some step)" "w3 = w'"
        using a p j l 1 \<open>res1 = Inr None\<close> r by (cases res3 rule: Inr_NoneE; simp)+
      ultimately show ?thesis by simp
    qed (use a p j l c2 \<open>res1 = Inr None\<close> in \<open>simp_all\<close>)
  qed (use a p j c1 in \<open>simp_all\<close>)
qed

text \<open>A worker at the store with one running build and no jobs.\<close>

definition demo_worker :: ExecutionWorkerService where
  "demo_worker = NewExecutionWorkerServiceWithLease ''u'' (demo_service pending_store NewExecutionJobRepository) ''w1'' 60"

lemma demo_poll:
  "(case ClaimRunnableStep io (\<lambda>_. demo_externals) (\<lambda>_. Inl ErrBuildNotFound) (\<lambda>k. ''t'') 100 demo_worker of
      Some (w', Inr (Some step)) \<Rightarrow> wr_StepID step \<noteq> [] \<and> wr_StepName step = ''compile'' | _ \<Rightarrow> False)"
  by code_simp

theorem worker_holds_claimed_step_witness:
  "\<exists>w' step. ClaimRunnableStep (\<lambda>_. undefined) (\<lambda>_. demo_externals) (\<lambda>_. Inl ErrBuildNotFound) (\<lambda>k. ''t'') 100 demo_worker = Some (w', Inr (Some step)) \<and>
     wr_StepName step = ''compile'' \<and> holds_step 100 w' step"
proof -
  let ?poll = "ClaimRunnableStep (\<lambda>_. undefined) (\<lambda>_. demo_externals) (\<lambda>_. Inl ErrBuildNotFound) (\<lambda>k. ''t'') 100 demo_worker"
  obtain w' step where p: "?poll = Some (w', Inr (Some step))" "wr_StepID step \<noteq> []" "wr_StepName step = ''compile''"
  proof (cases ?poll)
    case (Some outcome)
    with demo_poll [of "\<lambda>_. undefined"] that show thesis by (cases outcome; cases "snd outcome" rule: Inr_NoneE) auto
  qed (use demo_poll [of "\<lambda>_. undefined"] in simp)
  from worker_holds_claimed_step [OF p(1)] p show ?thesis by auto
qed

section \<open>Retrying a step that depends on others\<close>

lemma trimmed_attempt_node: "TrimSpace (s_NodeID (cloneStepForAttempt i b st k)) \<noteq> []"
proof -
  have "TrimSpace (FallbackNodeID k) \<noteq> []" by (simp add: TrimSpace_eq_Nil FallbackNodeID_def is_space_def)
  then show ?thesis by (simp add: cloneStepForAttempt_def zero_step_def defaultValue_def Let_def)
qed

text \<open>A lone step that depends on anything is never handed out.\<close>

lemma lone_dependent_blocked:
  assumes "map shape (get_steps r i) = [shape st]" "TrimSpace (s_NodeID st) \<noteq> []" "s_DependsOnNodes st \<noteq> []" "get_build r i \<noteq> None"
  shows "ClaimPendingStep i k c r = (r, Inr None)"
proof -
  from assms(1) obtain st' where st': "get_steps r i = [st']" "shape st' = shape st" by (cases "get_steps r i") auto
  then have node: "TrimSpace (s_NodeID st') \<noteq> []" "s_DependsOnNodes st' \<noteq> []" using assms(2,3) by (simp_all add: shape_def)
  have "\<not> isStepRunnable st' [st'] (stepStatusByNodeID [st'])" if "s_Status st' = BuildStepStatusPending"
    using node that by (cases "s_DependsOnNodes st'") (auto simp: isStepRunnable_def stepStatusByNodeID_def)
  with st' assms(4) show ?thesis
    by (auto simp: ClaimPendingStep_def Let_def status_simps step_at_def split: option.split)
qed

lemma RetryJob_accepted:
  assumes "RetryJob x jobID s = (s1, Inr (build, job))" and "bs_executionJobRepo s = Some jobs" and "get_job jobs jobID = Some failed"
  obtains old st where "old \<in> set (get_steps (bs_buildRepo s) (j_BuildID failed))" "s_StepIndex old = j_StepIndex failed"
    "get_steps (bs_buildRepo s1) (b_ID build) = [st]" "TrimSpace (s_NodeID st) \<noteq> []" "s_Status st = BuildStepStatusPending"
    "s_DependsOnNodes st = s_DependsOnNodes old" "get_build (bs_buildRepo s1) (b_ID build) \<noteq> None"
    "j_StepID job = x_uuid x 1" "j_BuildID job = b_ID build" "j_StepIndex job = 0" "j_Status job = ExecutionJobStatusQueued" "j_DependsOnNodeIDs job = []"
proof -
  let ?f = "cloneExecutionJob failed"
  from assms(1-3) obtain source where source: "GetByID (j_BuildID ?f) (bs_buildRepo s) = Inr source"
    by (auto simp: RetryJob_def GetJobByID_def split: if_splits sum.splits)
  with assms obtain steps where steps: "GetStepsByBuildID (j_BuildID ?f) (bs_buildRepo s) = Inr steps"
    by (auto simp: RetryJob_def GetJobByID_def split: if_splits sum.splits)
  with assms source obtain old where old: "find (\<lambda>st. s_StepIndex st = j_StepIndex ?f) steps = Some old"
    by (auto simp: RetryJob_def GetJobByID_def split: if_splits option.splits)
  let ?b = "buildAttemptFromSource (x_uuid x 0) source (x_now x) (Some (j_StepIndex ?f))"
  let ?st = "cloneStepForAttempt (x_uuid x 1) (b_ID ?b) old 0"
  let ?us = "\<lambda>k. x_uuid x (Suc k)"
  obtain r1 res where c: "CreateQueuedBuild (x_uuid x 0) ?us (x_now x) ?b [?st] (bs_buildRepo s) = (r1, res)" by fastforce
  let ?job = "cloneRetryJobAttempt (x_sha256_hex x) (x_uuid x 2) ?f (b_ID build) ?st (x_now x)"
  have made: "res = Inr build \<and> bs_buildRepo s1 = r1 \<and> job = cloneExecutionJob (prepare_job ?job)"
    using assms source steps old c
    by (cases res) (auto simp: RetryJob_def GetJobByID_def Let_def CreateJobsForBuild_def cloneDeclaredOutputsForAttempts_def
        split: if_splits option.splits)
  have "old \<in> set steps" "s_StepIndex old = j_StepIndex failed" using old by (auto simp: find_Some_iff cloneExecutionJob_def)
  moreover have "set steps = cloneStep ` set (get_steps (bs_buildRepo s) (j_BuildID failed))"
    using steps by (auto simp: GetStepsByBuildID_def cloneExecutionJob_def split: option.splits)
  ultimately obtain old0 where old0: "old0 \<in> set (get_steps (bs_buildRepo s) (j_BuildID failed))" "old = cloneStep old0" "s_StepIndex old = j_StepIndex failed"
    by auto
  have c: "CreateQueuedBuild (x_uuid x 0) ?us (x_now x) ?b [?st] (bs_buildRepo s) = (bs_buildRepo s1, Inr build)" using c made by simp
  have stored: "get_steps (bs_buildRepo s1) (b_ID build) = [adopt_step (x_uuid x 1) (b_ID build) ?st]"
    using CreateQueuedBuild_steps(1) [OF c] by (simp add: adopt_steps_def step_order.sort_slice_key)
  show thesis
    by (rule that [OF old0(1) _ stored])
      (use old0 made CreateQueuedBuild_steps(2) [OF c] in
       \<open>simp_all add: cloneStep_def adopt_step_def trimmed_attempt_node cloneStepForAttempt_sel cloneRetryJobAttempt_def cloneJobAttempt_def
          prepare_job_def cloneExecutionJob_def Let_def\<close>)
qed

text \<open>
  C34: The retry of a failed job whose step depends on other steps can never run. \<open>RetryJob\<close> makes a build with
  that one step and copies the step's dependencies, which name nodes the new build does not have.
  Whatever workers, recovery and operators do to the build store afterwards, no claim ever obtains
  the step; and a worker that takes the new job from the queue gets an error for the step instead of
  work.
\<close>

theorem retry_of_dependent_step_stuck:
  assumes "RetryJob x jobID s = (s1, Inr (build, job))"
    and "bs_executionJobRepo s = Some jobs" and "get_job jobs jobID = Some failed"
    and "\<And>old. old \<in> set (get_steps (bs_buildRepo s) (j_BuildID failed)) \<Longrightarrow> s_StepIndex old = j_StepIndex failed \<Longrightarrow> s_DependsOnNodes old \<noteq> []"
    and "x_uuid x 1 \<noteq> []" and "w_builds w = s1"
  shows "j_Status job = ExecutionJobStatusQueued \<and> j_DependsOnNodeIDs job = [] \<and>
    (\<forall>r2 k c. worker_run (bs_buildRepo s1) r2 \<longrightarrow> ClaimPendingStep (b_ID build) k c r2 = (r2, Inr None)) \<and>
    snd (mirrorJobClaimToStep job claim w) = Inl (Svc ErrInvalidBuildStepTransition)"
proof -
  obtain old st where r: "old \<in> set (get_steps (bs_buildRepo s) (j_BuildID failed))" "s_StepIndex old = j_StepIndex failed"
    "get_steps (bs_buildRepo s1) (b_ID build) = [st]" "TrimSpace (s_NodeID st) \<noteq> []" "s_Status st = BuildStepStatusPending"
    "s_DependsOnNodes st = s_DependsOnNodes old" "get_build (bs_buildRepo s1) (b_ID build) \<noteq> None"
    "j_StepID job = x_uuid x 1" "j_BuildID job = b_ID build" "j_StepIndex job = 0" "j_Status job = ExecutionJobStatusQueued" "j_DependsOnNodeIDs job = []"
    using RetryJob_accepted [OF assms(1-3)] by blast
  have deps: "s_DependsOnNodes st \<noteq> []" using assms(4) [OF r(1,2)] r(6) by simp
  have blocked: "ClaimPendingStep (b_ID build) k c r2 = (r2, Inr None)" if "worker_run (bs_buildRepo s1) r2" for r2 k c
    by (rule lone_dependent_blocked [OF _ r(4) deps])
      (use worker_run_shape [OF that, of "b_ID build"] worker_run_invariants(2) [OF that r(7)] r(3) in simp_all)
  have "ReclaimExpiredStep (b_ID build) 0 t c (bs_buildRepo s1) = (bs_buildRepo s1, Inr None)" for t c
    using r(3,5,7) by (auto simp: ReclaimExpiredStep_def Let_def step_at_def split: option.split)
  moreover have "ClaimPendingStep (b_ID build) 0 claim (bs_buildRepo s1) = (bs_buildRepo s1, Inr None)"
    by (rule blocked) (simp add: worker_run_def)
  ultimately show ?thesis
    using blocked r(8-12) assms(5,6) by (simp add: mirrorJobClaimToStep_def ClaimPendingStep_service_def ReclaimExpiredStep_service_def)
qed

text \<open>The second step of the failed build, whose job has failed.\<close>

definition failed_service :: BuildService where
  "failed_service = demo_service failed_store (one_job_store (blank_job ''j2'' ''b1'' ''test'' 1 ExecutionJobStatusFailed))"

lemma failed_service_retry: "\<exists>s1 build job. RetryJob demo_externals ''j2'' failed_service = (s1, Inr (build, job))"
proof -
  let ?job = "blank_job ''j2'' ''b1'' ''test'' 1 ExecutionJobStatusFailed"
  let ?source = "(blank_build ''b1'' BuildStatusFailed)\<lparr>b_ProjectID := ''p1''\<rparr>"
  let ?b = "buildAttemptFromSource (x_uuid demo_externals 0) ?source (x_now demo_externals) (Some 1)"
  have "Build_ValidateRepositoryIdentitySnapshot ?b = None" by code_simp
  from CreateQueuedBuild_succeeds [OF this] obtain r1 b1 where
    "CreateQueuedBuild (x_uuid demo_externals 0) (\<lambda>k. x_uuid demo_externals (Suc k)) (x_now demo_externals) ?b
       [cloneStepForAttempt (x_uuid demo_externals 1) (b_ID ?b) (cloneStep test_step) 0] failed_store = (r1, Inr b1)" by blast
  moreover have "find (\<lambda>st. s_StepIndex st = 1) (sort_slice step_less [cloneStep compile_step, cloneStep test_step]) = Some (cloneStep test_step)"
    by code_simp
  moreover have "j_ID ?job = ''j2''" "j_BuildID ?job = ''b1''" "j_StepIndex ?job = 1" "j_Status ?job = ExecutionJobStatusFailed"
    by (simp_all add: blank_job_def)
  ultimately show ?thesis
    by (simp add: RetryJob_def failed_service_def GetJobByID_def GetByID_def GetStepsByBuildID_def failed_store_get Let_def
        CreateJobsForBuild_def cloneBuildApplicationVersion_def)
qed

theorem retry_of_dependent_step_stuck_witness:
  "\<exists>s1 build job. RetryJob demo_externals ''j2'' failed_service = (s1, Inr (build, job)) \<and> j_Status job = ExecutionJobStatusQueued \<and>
     ClaimPendingStep (b_ID build) 0 (claim_by ''w'' ''t'' 5) (bs_buildRepo s1) = (bs_buildRepo s1, Inr None)"
proof -
  obtain s1 build job where r: "RetryJob demo_externals ''j2'' failed_service = (s1, Inr (build, job))" using failed_service_retry by blast
  let ?job = "blank_job ''j2'' ''b1'' ''test'' 1 ExecutionJobStatusFailed"
  have jobs: "bs_executionJobRepo failed_service = Some (one_job_store ?job)" "get_job (one_job_store ?job) ''j2'' = Some ?job"
    by (simp_all add: failed_service_def blank_job_def)
  have "s_StepIndex compile_step = 0" "s_DependsOnNodes test_step \<noteq> []" by code_simp+
  then have deps: "s_DependsOnNodes old \<noteq> []" if "old \<in> set (get_steps (bs_buildRepo failed_service) (j_BuildID ?job))" "s_StepIndex old = j_StepIndex ?job" for old
    using that by (auto simp: failed_service_def failed_store_get blank_job_def)
  have "x_uuid demo_externals 1 \<noteq> []" by code_simp
  from retry_of_dependent_step_stuck [OF r jobs deps this, where w = "demo_worker\<lparr>w_builds := s1\<rparr>"] r show ?thesis
    by (auto simp: worker_run_def)
qed

end
