(* ===== verification/Version_Properties.thy ===== *)
theory Version_Properties
  imports Versioning
begin

text \<open>
  What the version rules promise: a new patch release is fresh and the successor of the highest one,
  the pattern of application versions is the SemVer grammar without build metadata, and the exact set
  of version templates that validation accepts.
\<close>

section \<open>Numbers and separators\<close>

lemma digits_of_nat_hd: "0 < n \<Longrightarrow> hd (digits_of_nat n) \<noteq> CHR ''0''"
proof (induction n rule: digits_of_nat.induct)
  case (1 n)
  show ?case
  proof (cases "n < 10")
    case True
    have "char_of (48 + n) \<noteq> CHR ''0''"
    proof
      assume "char_of (48 + n) = CHR ''0''"
      then have "digit_val (char_of (48 + n)) = digit_val CHR ''0''" by simp
      with True 1(2) show False by (simp add: digit_val_def)
    qed
    with True show ?thesis by (simp add: digits_of_nat.simps [of n])
  next
    case False
    with 1 show ?thesis by (simp add: digits_of_nat.simps [of n])
  qed
qed

lemma not_digit_signs [simp]: "\<not> is_digit CHR ''-''" "\<not> is_digit CHR ''+''" "\<not> is_digit CHR ''.''"
  by (simp_all add: is_digit_def)

lemma digits_of_nat_no: "\<not> is_digit c \<Longrightarrow> c \<notin> set (digits_of_nat n)"
  using digits_of_nat_digits by blast

lemma Atoi_digits: "int n < 2 ^ 63 \<Longrightarrow> Atoi (digits_of_nat n) = Some (int n)"
proof -
  assume n: "int n < 2 ^ 63"
  obtain c cs where ds: "digits_of_nat n = c # cs" using digits_of_nat_not_Nil [of n] by (cases "digits_of_nat n") auto
  then have "is_digit c" using digits_of_nat_digits [of c n] by simp
  then have "c \<noteq> CHR ''-''" "c \<noteq> CHR ''+''" by auto
  moreover have "list_all is_digit (digits_of_nat n)" using digits_of_nat_digits by (simp add: list_all_iff)
  moreover have "nat_of_digits (c # cs) = n" using ds [symmetric] by simp
  ultimately show ?thesis using n by (simp add: Atoi_def ds)
qed

lemma parseReleasePart_digits: "int n < 2 ^ 63 \<Longrightarrow> parseReleasePart (digits_of_nat n) = Inr (int n)"
proof -
  assume n: "int n < 2 ^ 63"
  have "\<not> (length (digits_of_nat n) > 1 \<and> HasPrefix (digits_of_nat n) ''0'')"
  proof (cases "n = 0")
    case True
    then show ?thesis by (simp add: digits_of_nat.simps)
  next
    case False
    then have "hd (digits_of_nat n) \<noteq> CHR ''0''" by (simp add: digits_of_nat_hd)
    then show ?thesis by (cases "digits_of_nat n") (auto simp: HasPrefix_def)
  qed
  then show ?thesis using n by (simp add: parseReleasePart_def Atoi_digits)
qed

lemma parseReleasePart_FormatInt: "0 \<le> i \<Longrightarrow> i < 2 ^ 63 \<Longrightarrow> parseReleasePart (FormatInt i) = Inr i"
  using parseReleasePart_digits [of "nat i"] by (simp add: FormatInt_def)

lemma parseReleasePart_negative: "i < 0 \<Longrightarrow> parseReleasePart (FormatInt i) \<noteq> Inr j"
proof -
  assume i: "i < 0"
  have "Atoi (FormatInt i) = None \<or> Atoi (FormatInt i) = Some i"
    using i digits_of_nat_digits [of _ "nat (- i)"] by (simp add: FormatInt_def Atoi_def list_all_iff)
  with i show ?thesis by (auto simp: parseReleasePart_def split: if_splits)
qed

lemma parseReleasePart_range: "parseReleasePart s = Inr i \<Longrightarrow> 0 \<le> i \<and> i < 2 ^ 63"
  by (auto simp: parseReleasePart_def Atoi_def Let_def split: if_splits option.splits prod.splits)

lemma FormatInt_no_dot: "0 \<le> i \<Longrightarrow> CHR ''.'' \<notin> set (FormatInt i)"
  by (simp add: FormatInt_def digits_of_nat_no)

lemma patch_of_render:
  assumes "TrimSpace c = render_version (sv_Major s) (sv_Minor s) n"
    and "0 \<le> sv_Major s" "sv_Major s < 2 ^ 63" "0 \<le> sv_Minor s" "sv_Minor s < 2 ^ 63" "0 \<le> n" "n < 2 ^ 63"
  shows "patch_of s c = Some n"
proof -
  have "SplitChar CHR ''.'' (TrimSpace c) = [FormatInt (sv_Major s), FormatInt (sv_Minor s), FormatInt n]"
    using assms by (simp add: render_version_def SplitChar_append_sep SplitChar_plain FormatInt_no_dot)
  then show ?thesis using assms by (simp add: patch_of_def parseReleasePart_FormatInt)
qed

lemma patch_of_range: "patch_of s c = Some p \<Longrightarrow> 0 \<le> p \<and> p < 2 ^ 63"
  by (auto simp: patch_of_def split: list.splits sum.splits if_splits dest: parseReleasePart_range)

section \<open>The next patch number\<close>

lemma bump_patch_fold:
  assumes "\<And>c. c \<in> set cs \<Longrightarrow> patch_of s c \<noteq> Some max_int64" and "0 \<le> k"
  shows "let n = fold (bump_patch s) cs k in
    k \<le> n \<and> (n = k \<or> (\<exists>c \<in> set cs. patch_of s c = Some (n - 1))) \<and>
    (\<forall>c \<in> set cs. \<forall>p. patch_of s c = Some p \<longrightarrow> p < n)"
  using assms
proof (induction cs arbitrary: k)
  case (Cons c cs)
  have bump: "k \<le> bump_patch s c k" "bump_patch s c k = k \<or> patch_of s c = Some (bump_patch s c k - 1)"
    "\<And>p. patch_of s c = Some p \<Longrightarrow> p < bump_patch s c k"
  proof -
    have "wrap64 (p + 1) = p + 1" if "patch_of s c = Some p" for p
      using patch_of_range [OF that] Cons.prems(1) [of c] that by (intro wrap64_id) auto
    then show "k \<le> bump_patch s c k" "bump_patch s c k = k \<or> patch_of s c = Some (bump_patch s c k - 1)"
      "\<And>p. patch_of s c = Some p \<Longrightarrow> p < bump_patch s c k"
      by (auto simp: bump_patch_def split: option.splits)
  qed
  then have "0 \<le> bump_patch s c k" using Cons.prems(2) by simp
  with Cons.IH [of "bump_patch s c k"] Cons.prems(1)
  have "let n = fold (bump_patch s) cs (bump_patch s c k) in
    bump_patch s c k \<le> n \<and> (n = bump_patch s c k \<or> (\<exists>c \<in> set cs. patch_of s c = Some (n - 1))) \<and>
    (\<forall>c \<in> set cs. \<forall>p. patch_of s c = Some p \<longrightarrow> p < n)" by simp
  with bump show ?case unfolding Let_def fold_simps by (auto intro: order_trans)
qed simp

section \<open>The SemVer grammar\<close>

lemma zero_char: "char_of (48 :: nat) = CHR ''0''"
  by code_simp

lemma char_cases_le: "c = char_of (of_char c :: nat)"
  by simp

lemma is_digit_iff: "is_digit c \<longleftrightarrow> c \<in> set digits"
proof
  assume "is_digit c"
  then have "(of_char c :: nat) \<in> {48, 49, 50, 51, 52, 53, 54, 55, 56, 57}"
    unfolding is_digit_def insert_iff empty_iff by arith
  then have "c \<in> char_of ` {48, 49, 50, 51, 52, 53, 54, 55, 56, 57 :: nat}" using char_cases_le by blast
  then show "c \<in> set digits" by (simp add: digits_def char_of_def bit_0)
qed (auto simp: digits_def is_digit_def)

lemma nonzero_digit_iff: "c \<in> set ''123456789'' \<longleftrightarrow> is_digit c \<and> c \<noteq> CHR ''0''"
  by (auto simp: is_digit_iff digits_def)

lemma digits_of_nat_of_digits:
  "w \<noteq> [] \<Longrightarrow> \<forall>c \<in> set w. is_digit c \<Longrightarrow> hd w \<noteq> CHR ''0'' \<Longrightarrow> digits_of_nat (nat_of_digits w) = w \<and> 0 < nat_of_digits w"
proof (induction w rule: rev_induct)
  case (snoc c w)
  have c: "is_digit c" "digit_val c < 10" "char_of (48 + digit_val c) = c"
    using snoc.prems by (auto simp: is_digit_def digit_val_def)
  show ?case
  proof (cases "w = []")
    case True
    have "digit_val c \<noteq> 0"
    proof
      assume "digit_val c = 0"
      then have "c = char_of (48 :: nat)" using c(3) by simp
      with snoc.prems(3) True show False by (simp add: zero_char)
    qed
    with True c show ?thesis by (simp add: nat_of_digits_def digits_of_nat.simps)
  next
    case False
    with snoc have w: "digits_of_nat (nat_of_digits w) = w" "0 < nat_of_digits w" by auto
    then show ?thesis using c by (simp add: nat_of_digits_snoc digits_of_nat.simps [of "10 * nat_of_digits w + digit_val c"])
  qed
qed simp

lemma numeric_word: "w \<in> lang numeric_pattern \<longleftrightarrow> w = ''0'' \<or> (w \<noteq> [] \<and> (\<forall>c \<in> set w. is_digit c) \<and> hd w \<noteq> CHR ''0'')"
proof -
  have "w \<in> lang numeric_pattern \<longleftrightarrow> w = ''0'' \<or> (w \<noteq> [] \<and> hd w \<in> set ''123456789'' \<and> set (tl w) \<subseteq> set digits)"
    using matches_head_tail [of "''123456789''" digits w]
    by (simp only: numeric_pattern_def lang.simps(5) matches_iff Un_iff) (simp add: lit_def)
  then show ?thesis unfolding nonzero_digit_iff by (cases w) (auto simp: is_digit_iff)
qed

lemma numeric_lang: "w \<in> lang numeric_pattern \<longleftrightarrow> (\<exists>n. w = digits_of_nat n)"
proof
  assume "w \<in> lang numeric_pattern"
  then consider "w = ''0''" | "w \<noteq> []" "\<forall>c \<in> set w. is_digit c" "hd w \<noteq> CHR ''0''" by (auto simp: numeric_word)
  then show "\<exists>n. w = digits_of_nat n"
  proof cases
    case 1
    then have "w = digits_of_nat 0" by (simp add: digits_of_nat.simps zero_char)
    then show ?thesis ..
  next
    case 2
    with digits_of_nat_of_digits [of w] show ?thesis by metis
  qed
next
  assume "\<exists>n. w = digits_of_nat n"
  then obtain n where n: "w = digits_of_nat n" ..
  show "w \<in> lang numeric_pattern"
  proof (cases "n = 0")
    case True
    then show ?thesis by (simp add: n numeric_word digits_of_nat.simps zero_char)
  next
    case False
    then show ?thesis by (simp add: n numeric_word digits_of_nat_hd digits_of_nat_digits)
  qed
qed

definition semver_identifier :: "string \<Rightarrow> bool" where
  "semver_identifier w \<longleftrightarrow> w \<noteq> [] \<and> set w \<subseteq> set identifier_chars \<and>
     ((\<forall>c \<in> set w. is_digit c) \<longrightarrow> w = ''0'' \<or> hd w \<noteq> CHR ''0'')"

lemma alnum_word:
  "w \<in> lang (Seq (Star (Chars cs)) (Seq (Chars as) (Star (Chars cs)))) \<longleftrightarrow>
   (\<exists>u c v. w = u @ c # v \<and> c \<in> set as \<and> set u \<subseteq> set cs \<and> set v \<subseteq> set cs)"
proof -
  have head: "v \<in> lang (Seq (Chars as) (Star (Chars cs))) \<longleftrightarrow> (\<exists>c v'. v = c # v' \<and> c \<in> set as \<and> set v' \<subseteq> set cs)" for v
    using matches_head_tail [of as cs v] unfolding matches_iff by (cases v) auto
  show ?thesis unfolding lang.simps(4) [of "Star (Chars cs)"] mem_Collect_eq head lang_chars_star by auto
qed

lemma identifier_lang: "w \<in> lang identifier_pattern \<longleftrightarrow> semver_identifier w"
proof -
  let ?letters = "upper_letters @ lower_letters @ ''-''"
  have chars: "set identifier_chars = set digits \<union> set ?letters" by (auto simp: identifier_chars_def)
  have disj: "\<not> is_digit c" if "c \<in> set ?letters" for c
    using that by (auto simp: upper_letters_def lower_letters_def is_digit_def)
  have split: "w \<in> lang identifier_pattern \<longleftrightarrow> w \<in> lang numeric_pattern \<or>
      (\<exists>u c v. w = u @ c # v \<and> c \<in> set ?letters \<and> set u \<subseteq> set identifier_chars \<and> set v \<subseteq> set identifier_chars)"
    by (simp only: identifier_pattern_def lang.simps(5) Un_iff alnum_word)
  show ?thesis
  proof (cases "\<forall>c \<in> set w. is_digit c")
    case True
    then have "\<not> (\<exists>u c v. w = u @ c # v \<and> c \<in> set ?letters)" using disj by fastforce
    with True split show ?thesis by (auto simp: numeric_word semver_identifier_def chars is_digit_iff)
  next
    case False
    then obtain c where c: "c \<in> set w" "\<not> is_digit c" by blast
    from False have "w \<notin> lang numeric_pattern" by (auto simp: numeric_word is_digit_def)
    moreover have "(\<exists>u c v. w = u @ c # v \<and> c \<in> set ?letters \<and> set u \<subseteq> set identifier_chars \<and> set v \<subseteq> set identifier_chars)
      \<longleftrightarrow> set w \<subseteq> set identifier_chars"
    proof
      assume sub: "set w \<subseteq> set identifier_chars"
      from c obtain u v where "w = u @ c # v" by (meson split_list)
      moreover from c sub have "c \<in> set ?letters" using chars is_digit_iff by blast
      ultimately show "\<exists>u c v. w = u @ c # v \<and> c \<in> set ?letters \<and> set u \<subseteq> set identifier_chars \<and> set v \<subseteq> set identifier_chars"
        using sub by (metis append_is_Nil_conv le_supE list.simps(15) set_append insert_subset)
    qed (auto simp: chars)
    ultimately show ?thesis using split c False by (auto simp: semver_identifier_def)
  qed
qed

lemma dotted_star:
  "w \<in> star_words {CHR ''.'' # i | i. i \<in> I} \<longleftrightarrow> (\<exists>ids. set ids \<subseteq> I \<and> w = concat (map ((#) CHR ''.'') ids))"
proof
  assume "w \<in> star_words {CHR ''.'' # i | i. i \<in> I}"
  then show "\<exists>ids. set ids \<subseteq> I \<and> w = concat (map ((#) CHR ''.'') ids)"
  proof induction
    case star_nil
    show ?case by (rule exI [of _ "[]"]) simp
  next
    case (star_cons u v)
    then obtain i ids where "u = CHR ''.'' # i" "i \<in> I" "set ids \<subseteq> I" "v = concat (map ((#) CHR ''.'') ids)" by auto
    then show ?case by (intro exI [of _ "i # ids"]) simp
  qed
next
  assume "\<exists>ids. set ids \<subseteq> I \<and> w = concat (map ((#) CHR ''.'') ids)"
  then obtain ids where "set ids \<subseteq> I" "w = concat (map ((#) CHR ''.'') ids)" by blast
  then show "w \<in> star_words {CHR ''.'' # i | i. i \<in> I}"
  proof (induction ids arbitrary: w)
    case (Cons i ids)
    then have "concat (map ((#) CHR ''.'') ids) \<in> star_words {CHR ''.'' # i | i. i \<in> I}" by simp
    with Cons.prems show ?case
      using star_cons [of "CHR ''.'' # i" "{CHR ''.'' # i | i. i \<in> I}" "concat (map ((#) CHR ''.'') ids)"] by simp
  qed (simp add: star_nil)
qed

lemma JoinChar_concat: "JoinChar c (i # ids) = i @ concat (map ((#) c) ids)"
  by (induction ids arbitrary: i) auto

definition prerelease_suffix :: "string list \<Rightarrow> string" where
  "prerelease_suffix ids = (if ids = [] then [] else CHR ''-'' # JoinChar CHR ''.'' ids)"

lemma lang_lit [simp]: "lang (lit c) = {[c]}"
  by (auto simp: lit_def)

lemma lang_Seq_lit: "w \<in> lang (Seq (lit c) r) \<longleftrightarrow> (\<exists>v. w = c # v \<and> v \<in> lang r)"
  by auto

lemma lang_Seq_numeric: "w \<in> lang (Seq numeric_pattern r) \<longleftrightarrow> (\<exists>n v. w = digits_of_nat n @ v \<and> v \<in> lang r)"
  unfolding lang.simps(4) mem_Collect_eq numeric_lang by blast

lemma prerelease_lang:
  "w \<in> lang (opt (Seq (lit CHR ''-'') (Seq identifier_pattern (Star (Seq (lit CHR ''.'') identifier_pattern))))) \<longleftrightarrow>
   (\<exists>ids. (\<forall>i \<in> set ids. semver_identifier i) \<and> w = prerelease_suffix ids)"
proof -
  have dots: "lang (Seq (lit CHR ''.'') identifier_pattern) = {CHR ''.'' # i | i. i \<in> Collect semver_identifier}"
    using lang_Seq_lit [of _ "CHR ''.''" identifier_pattern] identifier_lang by blast
  have tail: "v \<in> lang (Seq identifier_pattern (Star (Seq (lit CHR ''.'') identifier_pattern))) \<longleftrightarrow>
      (\<exists>i ids. semver_identifier i \<and> (\<forall>j \<in> set ids. semver_identifier j) \<and> v = JoinChar CHR ''.'' (i # ids))" for v
    unfolding lang.simps(4) [of identifier_pattern] lang.simps(6) dots dotted_star JoinChar_concat identifier_lang
    by blast
  have "w \<in> lang (opt (Seq (lit CHR ''-'') (Seq identifier_pattern (Star (Seq (lit CHR ''.'') identifier_pattern))))) \<longleftrightarrow>
      w = [] \<or> (\<exists>i ids. semver_identifier i \<and> (\<forall>j \<in> set ids. semver_identifier j) \<and> w = CHR ''-'' # JoinChar CHR ''.'' (i # ids))"
    unfolding opt_def lang.simps(5) Un_iff lang.simps(2) lang_Seq_lit tail by auto
  also have "\<dots> \<longleftrightarrow> (\<exists>ids. (\<forall>i \<in> set ids. semver_identifier i) \<and> w = prerelease_suffix ids)"
  proof
    assume "\<exists>ids. (\<forall>i \<in> set ids. semver_identifier i) \<and> w = prerelease_suffix ids"
    then obtain ids where "\<forall>i \<in> set ids. semver_identifier i" "w = prerelease_suffix ids" by blast
    then show "w = [] \<or> (\<exists>i ids. semver_identifier i \<and> (\<forall>j \<in> set ids. semver_identifier j) \<and> w = CHR ''-'' # JoinChar CHR ''.'' (i # ids))"
      by (cases ids) (auto simp: prerelease_suffix_def)
  next
    assume "w = [] \<or> (\<exists>i ids. semver_identifier i \<and> (\<forall>j \<in> set ids. semver_identifier j) \<and> w = CHR ''-'' # JoinChar CHR ''.'' (i # ids))"
    then show "\<exists>ids. (\<forall>i \<in> set ids. semver_identifier i) \<and> w = prerelease_suffix ids"
    proof (elim disjE exE conjE)
      assume "w = []"
      then show ?thesis by (intro exI [of _ "[]"]) (simp add: prerelease_suffix_def)
    next
      fix i ids assume "semver_identifier i" "\<forall>j \<in> set ids. semver_identifier j" "w = CHR ''-'' # JoinChar CHR ''.'' (i # ids)"
      then show ?thesis by (intro exI [of _ "i # ids"]) (simp add: prerelease_suffix_def)
    qed
  qed
  finally show ?thesis .
qed

section \<open>Templates\<close>

definition template_names :: "string \<Rightarrow> string list" where
  "template_names s = map snd (fst (template_matches [] s))"

definition template_literals :: "string \<Rightarrow> string" where
  "template_literals s = concat (map fst (fst (template_matches [] s))) @ snd (template_matches [] s)"

lemma check_matches_None:
  "check_matches what supported ms trailing = None \<longleftrightarrow>
   (\<forall>name \<in> set (map snd ms). supported name) \<and> \<not> ContainsAny (concat (map fst ms) @ trailing) ''{}''"
proof (induction ms)
  case (Cons m ms)
  obtain b n where m: "m = (b, n)" by (cases m)
  have app: "ContainsAny (xs @ ys) cs \<longleftrightarrow> ContainsAny xs cs \<or> ContainsAny ys cs" for xs ys cs
    by (simp add: ContainsAny_def)
  from Cons show ?case by (cases "ContainsAny b ''{}''"; cases "supported n") (simp_all add: m app)
qed simp

text \<open>The pieces put together again give the template back.\<close>

lemma match_placeholder_eq: "match_placeholder s = Some (name, rest) \<Longrightarrow> s = CHR ''{'' # name @ CHR ''}'' # rest"
proof (cases s)
  case (Cons c cs)
  assume "match_placeholder s = Some (name, rest)"
  then have "c = CHR ''{''" "name = takeWhile is_name_char cs" "dropWhile is_name_char cs = CHR ''}'' # rest"
    by (simp_all add: Cons match_placeholder_def Let_def split: if_splits) (cases "dropWhile is_name_char cs"; simp)
  then show ?thesis using takeWhile_dropWhile_id [of is_name_char cs] by (simp add: Cons)
qed (simp add: match_placeholder_def)

lemma template_matches_eq:
  "let (ms, trailing) = template_matches before s
   in concat (map (\<lambda>(b, n). b @ CHR ''{'' # n @ ''}'') ms) @ trailing = before @ s"
proof (induction before s rule: template_matches.induct)
  case (2 before c s)
  show ?case
  proof (cases "match_placeholder (c # s)")
    case None
    from 2(1) [OF None] show ?thesis by (simp add: None)
  next
    case (Some p)
    then obtain name rest where p: "match_placeholder (c # s) = Some (name, rest)" by (cases p) auto
    obtain ms tr where rec: "template_matches [] rest = (ms, tr)" by (cases "template_matches [] rest")
    then have "template_matches before (c # s) = ((before, name) # ms, tr)" by (simp add: p)
    with 2(2) [OF p refl] match_placeholder_eq [OF p] show ?thesis by (simp add: rec)
  qed
qed simp

lemma render_trimmed: "0 \<le> a \<Longrightarrow> 0 \<le> c \<Longrightarrow> trimmed (render_version a b c)"
proof -
  assume "0 \<le> a" "0 \<le> c"
  then have ac: "FormatInt a = digits_of_nat (nat a)" "FormatInt c = digits_of_nat (nat c)" by (simp_all add: FormatInt_def)
  have "is_digit (hd (digits_of_nat n))" "is_digit (last (digits_of_nat n))" for n
    using digits_of_nat_digits [OF hd_in_set] digits_of_nat_digits [OF last_in_set] by simp_all
  moreover have "\<not> is_space x" if "is_digit x" for x using that by (auto simp: is_digit_def is_space_def)
  ultimately show ?thesis by (simp add: trimmed_def render_version_def ac)
qed

section \<open>Properties\<close>

text \<open>
  \<open>resolveNextPatch\<close> renders \<open>major.minor.n\<close> of its series, where \<open>n\<close> is above the patch number of every
  existing version of the series and is \<open>0\<close> or the successor of one of them; the result is none of
  the existing versions. The patch numbers must leave room for a successor in 64 bits.
\<close>

theorem next_patch_fresh:
  assumes "parseSemverSeries v = Inr series"
    and "\<And>c. c \<in> set existing \<Longrightarrow> patch_of series c \<noteq> Some max_int64"
  shows "\<exists>n. resolveNextPatch series existing = render_version (sv_Major series) (sv_Minor series) n \<and>
    0 \<le> n \<and> n < 2 ^ 63 \<and>
    (\<forall>c \<in> set existing. \<forall>p. patch_of series c = Some p \<longrightarrow> p < n) \<and>
    (n = 0 \<or> (\<exists>c \<in> set existing. patch_of series c = Some (n - 1))) \<and>
    resolveNextPatch series existing \<notin> TrimSpace ` set existing"
proof -
  define n where "n = fold (bump_patch series) existing 0"
  have range: "0 \<le> sv_Major series" "sv_Major series < 2 ^ 63" "0 \<le> sv_Minor series" "sv_Minor series < 2 ^ 63"
    using assms(1)
    by (auto simp: parseSemverSeries_def Let_def split: if_splits list.splits sum.splits dest: parseReleasePart_range)
  have n: "0 \<le> n" "n = 0 \<or> (\<exists>c \<in> set existing. patch_of series c = Some (n - 1))"
    "\<forall>c \<in> set existing. \<forall>p. patch_of series c = Some p \<longrightarrow> p < n"
    using bump_patch_fold [of existing series 0] assms(2) unfolding Let_def n_def [symmetric] by auto
  have lt: "n < 2 ^ 63"
  proof (cases "n = 0")
    case False
    then obtain c where c: "c \<in> set existing" "patch_of series c = Some (n - 1)" using n(2) by blast
    with assms(2) [OF c(1)] patch_of_range [OF c(2)] show ?thesis by auto
  qed simp
  have "TrimSpace c \<noteq> render_version (sv_Major series) (sv_Minor series) n" if "c \<in> set existing" for c
    using patch_of_render [of c series n] range n(1) lt n(3) that by auto
  moreover have "resolveNextPatch series existing = render_version (sv_Major series) (sv_Minor series) n"
    by (simp add: resolveNextPatch_def n_def)
  ultimately show ?thesis using n lt by (intro exI [of _ n]) (metis (no_types, lifting) imageE)
qed

theorem next_patch_fresh_witness:
  "resolveNextPatch \<lparr>sv_Major = 1, sv_Minor = 2\<rparr> [''1.2.3'', ''1.3.9'', '' 1.2.1''] \<notin>
     TrimSpace ` set [''1.2.3'', ''1.3.9'', '' 1.2.1'']"
proof -
  have "parseSemverSeries ''1.2'' = Inr \<lparr>sv_Major = 1, sv_Minor = 2\<rparr>" by code_simp
  moreover have "list_all (\<lambda>c. patch_of \<lparr>sv_Major = 1, sv_Minor = 2\<rparr> c \<noteq> Some max_int64) [''1.2.3'', ''1.3.9'', '' 1.2.1'']"
    by code_simp
  ultimately show ?thesis
    using next_patch_fresh [of "''1.2''" "\<lparr>sv_Major = 1, sv_Minor = 2\<rparr>" "[''1.2.3'', ''1.3.9'', '' 1.2.1'']"]
    unfolding list_all_iff by blast
qed

text \<open>
  A patch number at the top of the 64-bit range overflows: the next release of such a series gets a
  negative patch number, which is not a version the parser accepts.
\<close>

theorem next_patch_overflows:
  assumes "patch_of series c = Some max_int64"
  shows "resolveNextPatch series [c] = render_version (sv_Major series) (sv_Minor series) (- (2 ^ 63)) \<and>
    (\<forall>i. parseReleasePart (FormatInt (- (2 ^ 63))) \<noteq> Inr i)"
proof -
  have "fold (bump_patch series) [c] 0 = - (2 ^ 63)" by (simp add: bump_patch_def assms wrap64_def)
  moreover have "parseReleasePart (FormatInt (- (2 ^ 63))) \<noteq> Inr i" for i
    by (rule parseReleasePart_negative) simp
  ultimately show ?thesis by (simp add: resolveNextPatch_def)
qed

theorem next_patch_overflows_witness:
  "resolveNextPatch \<lparr>sv_Major = 1, sv_Minor = 2\<rparr> [render_version 1 2 max_int64] = render_version 1 2 (- (2 ^ 63))"
proof -
  have "TrimSpace (render_version 1 2 max_int64) = render_version 1 2 max_int64"
    by (rule TrimSpace_id) (rule render_trimmed; simp)
  then have "patch_of \<lparr>sv_Major = 1, sv_Minor = 2\<rparr> (render_version 1 2 max_int64) = Some max_int64"
    by (intro patch_of_render) simp_all
  then show ?thesis using next_patch_overflows [of "\<lparr>sv_Major = 1, sv_Minor = 2\<rparr>" "render_version 1 2 max_int64"] by simp
qed

text \<open>
  The pattern of application versions accepts exactly the SemVer versions without build metadata:
  three decimal numbers without leading zeros, then optionally a hyphen and dot-separated
  pre-release identifiers of letters, digits and hyphens, where a numeric identifier has no leading
  zero.
\<close>

theorem application_version_grammar:
  "matches applicationVersionSemVerPattern s \<longleftrightarrow>
   (\<exists>major minor patch ids. (\<forall>i \<in> set ids. semver_identifier i) \<and>
      s = digits_of_nat major @ ''.'' @ digits_of_nat minor @ ''.'' @ digits_of_nat patch @ prerelease_suffix ids)"
proof
  assume "matches applicationVersionSemVerPattern s"
  then obtain a r b r' c w where "s = digits_of_nat a @ CHR ''.'' # r" "r = digits_of_nat b @ CHR ''.'' # r'"
    "r' = digits_of_nat c @ w" "\<exists>ids. (\<forall>i \<in> set ids. semver_identifier i) \<and> w = prerelease_suffix ids"
    unfolding matches_iff applicationVersionSemVerPattern_def lang_Seq_numeric lang_Seq_lit prerelease_lang by blast
  moreover from this obtain ids where "\<forall>i \<in> set ids. semver_identifier i" "w = prerelease_suffix ids" by blast
  ultimately show "\<exists>major minor patch ids. (\<forall>i \<in> set ids. semver_identifier i) \<and>
      s = digits_of_nat major @ ''.'' @ digits_of_nat minor @ ''.'' @ digits_of_nat patch @ prerelease_suffix ids"
    by (intro exI [of _ a] exI [of _ b] exI [of _ c] exI [of _ ids]) simp
next
  assume "\<exists>major minor patch ids. (\<forall>i \<in> set ids. semver_identifier i) \<and>
      s = digits_of_nat major @ ''.'' @ digits_of_nat minor @ ''.'' @ digits_of_nat patch @ prerelease_suffix ids"
  then obtain a b c ids where ids: "\<forall>i \<in> set ids. semver_identifier i"
    and s: "s = digits_of_nat a @ CHR ''.'' # digits_of_nat b @ CHR ''.'' # digits_of_nat c @ prerelease_suffix ids" by auto
  have num: "v \<in> lang r \<Longrightarrow> digits_of_nat n @ v \<in> lang (Seq numeric_pattern r)" for n v r
    using lang_Seq_numeric by blast
  have dot: "v \<in> lang r \<Longrightarrow> CHR ''.'' # v \<in> lang (Seq (lit CHR ''.'') r)" for v r
    using lang_Seq_lit by blast
  show "matches applicationVersionSemVerPattern s"
    unfolding matches_iff applicationVersionSemVerPattern_def s
    by (intro num dot prerelease_lang [THEN iffD2] exI [of _ ids] conjI ids refl)
qed

theorem application_version_grammar_witness:
  "matches applicationVersionSemVerPattern ''1.20.3-rc.1''"
proof -
  have "\<forall>i \<in> set [''rc'', ''1'']. semver_identifier i"
    by (simp add: semver_identifier_def identifier_chars_def digits_def lower_letters_def upper_letters_def is_digit_def)
  moreover have "''1.20.3-rc.1'' = digits_of_nat 1 @ ''.'' @ digits_of_nat 20 @ ''.'' @ digits_of_nat 3 @ prerelease_suffix [''rc'', ''1'']"
    by code_simp
  ultimately show ?thesis unfolding application_version_grammar by blast
qed

text \<open>
  \<open>ValidateArtifactVersionTemplate\<close> accepts a template exactly when it is not blank and either has no
  placeholder of the form \<open>{name}\<close> at all, or has only supported ones and no brace outside them. In
  the first case no brace is looked at, so a template such as \<open>1.0-{GIT_SHA}\<close> is accepted, and it
  resolves to itself.
\<close>

theorem artifact_template_acceptance:
  "(ValidateArtifactVersionTemplate t = None \<longleftrightarrow>
      TrimSpace t \<noteq> [] \<and>
      (template_names (TrimSpace t) = [] \<or>
       (\<forall>name \<in> set (template_names (TrimSpace t)). isSupportedArtifactTemplatePlaceholder name) \<and>
       \<not> ContainsAny (template_literals (TrimSpace t)) ''{}'')) \<and>
   ResolveArtifactVersionTemplate ''1.0-{GIT_SHA}'' build = Inr ''1.0-{GIT_SHA}''"
proof
  show "ValidateArtifactVersionTemplate t = None \<longleftrightarrow>
      TrimSpace t \<noteq> [] \<and>
      (template_names (TrimSpace t) = [] \<or>
       (\<forall>name \<in> set (template_names (TrimSpace t)). isSupportedArtifactTemplatePlaceholder name) \<and>
       \<not> ContainsAny (template_literals (TrimSpace t)) ''{}'')"
    by (auto simp: ValidateArtifactVersionTemplate_def template_names_def template_literals_def Let_def
        check_matches_None split: prod.splits)
  have t: "TrimSpace ''1.0-{GIT_SHA}'' = ''1.0-{GIT_SHA}''" by code_simp
  have m: "template_matches [] ''1.0-{GIT_SHA}'' = ([], ''1.0-{GIT_SHA}'')" by code_simp
  show "ResolveArtifactVersionTemplate ''1.0-{GIT_SHA}'' build = Inr ''1.0-{GIT_SHA}''"
    unfolding ResolveArtifactVersionTemplate_def ValidateArtifactVersionTemplate_def Let_def t m
    by (simp add: t)
qed

theorem artifact_template_acceptance_witness:
  "ValidateArtifactVersionTemplate ''1.0-{git_sha}'' = None"
proof -
  have "TrimSpace ''1.0-{git_sha}'' = ''1.0-{git_sha}''" "template_names ''1.0-{git_sha}'' = [''git_sha'']"
    "template_literals ''1.0-{git_sha}'' = ''1.0-''" by code_simp+
  then show ?thesis
    using artifact_template_acceptance [of "''1.0-{git_sha}''" undefined]
    by (simp add: isSupportedArtifactTemplatePlaceholder_def ContainsAny_def)
qed

end
