(* ===== verification/Delivery_Leases.thy ===== *)
theory Delivery_Leases
  imports Build_Domain
begin

text \<open>
  What the two delivery outboxes share (commit statuses and notifications): chains of validation
  checks, the doubling retry delay, and the contract of an update that is fenced by a claim.
\<close>

section \<open>Errors\<close>

text \<open>
  The errors that the outboxes and their senders return. \<open>errors.Is\<close> and \<open>errors.As\<close> look through
  the chain of wrapped errors in depth-first order; a network error carries the answer of its
  \<open>Timeout()\<close>, a publisher's error those of \<open>Retryable()\<close> and \<open>Reason()\<close>, its text and what it wraps.
\<close>

datatype dlv_error =
  ErrSCMStatusDeliveryNotFound
| ErrNotificationDeliveryNotFound
| ErrNotificationDeliveryDuplicate
| ErrCanceled
| ErrDeadlineExceeded
| ErrNet bool string
| ErrPublisher bool string string "dlv_error list"
| ErrPlain go_error
| ErrJoin "dlv_error list"

fun err_chain :: "dlv_error \<Rightarrow> dlv_error list" where
  "err_chain (ErrPublisher r reason msg es) = ErrPublisher r reason msg es # concat (map err_chain es)"
| "err_chain (ErrJoin es) = ErrJoin es # concat (map err_chain es)"
| "err_chain e = [e]"

definition err_is :: "dlv_error \<Rightarrow> dlv_error \<Rightarrow> bool" where
  "err_is e target \<longleftrightarrow> List.member (err_chain e) target"

definition is_context_error :: "dlv_error \<Rightarrow> bool" where
  "is_context_error e \<longleftrightarrow> err_is e ErrCanceled \<or> err_is e ErrDeadlineExceeded"

section \<open>Chains of checks\<close>

text \<open>
  A validator of the code is a sequence of \<open>if cond { return err }\<close> blocks: its answer is the first
  error of the sequence. A block nested under a condition is \<open>under\<close> it.
\<close>

fun first_err :: "'e option list \<Rightarrow> 'e option" where
  "first_err [] = None"
| "first_err (None # es) = first_err es"
| "first_err (Some e # es) = Some e"

definition reject :: "bool \<Rightarrow> string \<Rightarrow> go_error option" where
  "reject c msg = (if c then Some (Errorf msg) else None)"

definition under :: "bool \<Rightarrow> go_error option list \<Rightarrow> go_error option" where
  "under c es = (if c then first_err es else None)"

lemma first_err_Cons_None [simp]: "first_err (e # es) = None \<longleftrightarrow> e = None \<and> first_err es = None"
  by (cases e) auto

lemma reject_None [simp]: "reject c msg = None \<longleftrightarrow> \<not> c"
  by (simp add: reject_def)

lemma under_None [simp]: "under c es = None \<longleftrightarrow> (c \<longrightarrow> first_err es = None)"
  by (simp add: under_def)

section \<open>Retry delays\<close>

text \<open>
  \<open>for idx := 1; idx < attempt; idx++ { delay *= 2; if delay >= maxDelay { return maxDelay } }\<close>,
  with the multiplication of 64-bit durations; the argument counts the iterations left.
\<close>

fun backoff_loop :: "int \<Rightarrow> int \<Rightarrow> nat \<Rightarrow> int" where
  "backoff_loop maxDelay delay 0 = (if delay > maxDelay then maxDelay else delay)"
| "backoff_loop maxDelay delay (Suc n) =
     (let delay = wrap64 (delay * 2) in if delay \<ge> maxDelay then maxDelay else backoff_loop maxDelay delay n)"

lemma backoff_loop_closed:
  assumes "0 < delay" and "delay \<le> maxDelay" and "maxDelay < 2 ^ 62"
  shows "backoff_loop maxDelay delay n = min maxDelay (delay * 2 ^ n)"
  using assms
proof (induction n arbitrary: delay)
  case (Suc n)
  have w: "wrap64 (delay * 2) = delay * 2" using Suc.prems by (intro wrap64_id) auto
  show ?case
  proof (cases "maxDelay \<le> delay * 2")
    case True
    have "delay * 2 \<le> delay * 2 ^ Suc n" using Suc.prems by simp
    with True w show ?thesis by (simp add: min_def)
  next
    case False
    then show ?thesis using w Suc.prems Suc.IH [of "delay * 2"] by (simp add: ac_simps)
  qed
qed simp

section \<open>Updates fenced by a claim\<close>

text \<open>The answers of a sequence of updates, in the order in which the store serialises them.\<close>

fun answers :: "('in \<Rightarrow> 'st \<Rightarrow> 'st \<times> 'x) \<Rightarrow> 'in list \<Rightarrow> 'st \<Rightarrow> 'x list" where
  "answers upd [] s = []"
| "answers upd (i # is) s = snd (upd i s) # answers upd is (fst (upd i s))"

definition won :: "('res \<Rightarrow> bool) \<Rightarrow> 'err + 'res \<Rightarrow> bool" where
  "won lost x = (case x of Inl _ \<Rightarrow> False | Inr r \<Rightarrow> \<not> lost r)"

text \<open>
  The contract of the operations that change one row of an outbox. \<open>bound i\<close> says that the update \<open>i\<close> names a
  claim, and \<open>holds d i\<close> that it may be made on the row \<open>d\<close>: an update that names a claim needs the claim which the
  row records, and every update that is made takes the claim from the row.
\<close>

locale claimed_update =
  fixes upd :: "'in \<Rightarrow> 'st \<Rightarrow> 'st \<times> ('err + 'res)"
    and row :: "'st \<Rightarrow> string \<Rightarrow> 'd option"
    and target :: "'in \<Rightarrow> string"
    and bound :: "'in \<Rightarrow> bool"
    and holds :: "'d \<Rightarrow> 'in \<Rightarrow> bool"
    and lost :: "'res \<Rightarrow> bool"
    and wf :: "'st \<Rightarrow> bool"
  assumes err_unchanged: "upd i s = (s', Inl e) \<Longrightarrow> s' = s"
    and lost_iff: "upd i s = (s', Inr r) \<Longrightarrow> lost r \<longleftrightarrow> \<not> (\<exists>d. row s (target i) = Some d \<and> holds d i)"
    and lost_unchanged: "upd i s = (s', Inr r) \<Longrightarrow> lost r \<Longrightarrow> s' = s"
    and released: "wf s \<Longrightarrow> upd i s = (s', Inr r) \<Longrightarrow> \<not> lost r \<Longrightarrow> row s' (target i) = Some d \<Longrightarrow> bound j \<Longrightarrow> \<not> holds d j"
    and frame: "wf s \<Longrightarrow> upd i s = (s', x) \<Longrightarrow> k \<noteq> target i \<Longrightarrow> row s' k = row s k"
    and wf_upd: "wf s \<Longrightarrow> wf (fst (upd i s))"
begin

text \<open>A row without a claim stays without one: every later update of it that names a claim loses.\<close>

definition unclaimed :: "'st \<Rightarrow> string \<Rightarrow> bool" where
  "unclaimed s k \<longleftrightarrow> (\<forall>d j. row s k = Some d \<longrightarrow> bound j \<longrightarrow> \<not> holds d j)"

lemma unclaimed_loses: "unclaimed s (target i) \<Longrightarrow> bound i \<Longrightarrow> \<not> won lost (snd (upd i s))"
  using lost_iff [of i s] by (cases "upd i s"; cases "snd (upd i s)") (auto simp: won_def unclaimed_def)

lemma won_unclaims: "wf s \<Longrightarrow> won lost (snd (upd i s)) \<Longrightarrow> unclaimed (fst (upd i s)) (target i)"
  using released [of s i] by (cases "upd i s"; cases "snd (upd i s)") (auto simp: won_def unclaimed_def)

lemma not_won_unchanged: "\<not> won lost (snd (upd i s)) \<Longrightarrow> fst (upd i s) = s"
  using err_unchanged [of i s] lost_unchanged [of i s]
  by (cases "upd i s"; cases "snd (upd i s)") (auto simp: won_def)

lemma stays_unclaimed: "wf s \<Longrightarrow> unclaimed s (target i) \<Longrightarrow> unclaimed (fst (upd i s)) (target i)"
  using won_unclaims not_won_unchanged by (cases "won lost (snd (upd i s))") auto

lemma unclaimed_all_lose:
  assumes "wf s" and "unclaimed s k" and "\<forall>i \<in> set is. target i = k" and "n < length is" and "bound (is ! n)"
  shows "\<not> won lost (answers upd is s ! n)"
  using assms
proof (induction "is" arbitrary: s n)
  case (Cons i "is")
  have "unclaimed (fst (upd i s)) k" using stays_unclaimed [of s i] Cons.prems by simp
  then show ?case using Cons unclaimed_loses [of s i] wf_upd [of s i] by (cases n) auto
qed simp

text \<open>Once an update was made, no later update that names a claim is.\<close>

lemma later_claims_lose:
  assumes "wf s" and "\<forall>i \<in> set is. target i = k" and "m < n" and "n < length is" and "bound (is ! n)" and "won lost (answers upd is s ! m)"
  shows "\<not> won lost (answers upd is s ! n)"
  using assms
proof (induction "is" arbitrary: s m n)
  case (Cons i "is")
  then obtain l where n: "n = Suc l" by (cases n) auto
  show ?case
  proof (cases m)
    case 0
    then have "unclaimed (fst (upd i s)) k" using won_unclaims [of s i] Cons.prems by simp
    then show ?thesis using unclaimed_all_lose [of "fst (upd i s)" k "is" l] wf_upd Cons.prems by (simp add: n)
  next
    case (Suc j)
    then show ?thesis using Cons.IH [of "fst (upd i s)" j l] wf_upd Cons.prems by (simp add: n)
  qed
qed simp

lemma length_answers: "length (answers upd is s) = length is"
  by (induction "is" arbitrary: s) auto

lemma at_most_one_wins:
  assumes "wf s" and "\<forall>i \<in> set is. target i = k"
  shows "card {n. n < length is \<and> bound (is ! n) \<and> won lost (answers upd is s ! n)} \<le> 1"
proof (rule card_le_Suc0_iff_eq [THEN iffD2, unfolded One_nat_def [symmetric], rule_format])
  show "finite {n. n < length is \<and> bound (is ! n) \<and> won lost (answers upd is s ! n)}" by simp
  fix m n assume "m \<in> {n. n < length is \<and> bound (is ! n) \<and> won lost (answers upd is s ! n)}"
    "n \<in> {n. n < length is \<and> bound (is ! n) \<and> won lost (answers upd is s ! n)}"
  then show "m = n" using later_claims_lose [OF assms, of m n] later_claims_lose [OF assms, of n m] by (cases m n rule: linorder_cases) auto
qed

end

end
