(* ===== verification/SCM_Status_Delivery.thy ===== *)
theory SCM_Status_Delivery
  imports Delivery_Leases
begin

text \<open>
  Commit status deliveries (\<open>domain/scm_status_delivery.go\<close>), the rules that order them
  (\<open>repository/scm_status_delivery_ordering.go\<close>, \<open>repository/scm_status_delivery_repository.go\<close>).
  A delivery is the outbox row of one stream: the status of one commit in one repository under one
  context name. States and statuses are strings, as in the code, which trims and checks them.
\<close>

definition SCMCommitStatusStatePending :: string where [simp]: "SCMCommitStatusStatePending = ''pending''"
definition SCMCommitStatusStateSuccess :: string where [simp]: "SCMCommitStatusStateSuccess = ''success''"
definition SCMCommitStatusStateFailure :: string where [simp]: "SCMCommitStatusStateFailure = ''failure''"
definition SCMCommitStatusStateError :: string where [simp]: "SCMCommitStatusStateError = ''error''"

definition SCMStatusDeliveryStatusPending :: string where [simp]: "SCMStatusDeliveryStatusPending = ''pending''"
definition SCMStatusDeliveryStatusSending :: string where [simp]: "SCMStatusDeliveryStatusSending = ''sending''"
definition SCMStatusDeliveryStatusRetryWaiting :: string where [simp]: "SCMStatusDeliveryStatusRetryWaiting = ''retry_waiting''"
definition SCMStatusDeliveryStatusSent :: string where [simp]: "SCMStatusDeliveryStatusSent = ''sent''"
definition SCMStatusDeliveryStatusFailedPermanent :: string where [simp]: "SCMStatusDeliveryStatusFailedPermanent = ''failed_permanent''"
definition SCMStatusDeliveryStatusFailedExhausted :: string where [simp]: "SCMStatusDeliveryStatusFailedExhausted = ''failed_exhausted''"
definition SCMStatusDeliveryStatusSuperseded :: string where [simp]: "SCMStatusDeliveryStatusSuperseded = ''superseded''"

definition SCMStatusDeliveryFailureCategoryRetryable :: string where [simp]: "SCMStatusDeliveryFailureCategoryRetryable = ''retryable''"
definition SCMStatusDeliveryFailureCategoryPermanent :: string where [simp]: "SCMStatusDeliveryFailureCategoryPermanent = ''permanent''"

record SCMStatusDelivery =
  sd_ID :: string
  sd_BuildID :: string
  sd_BuildAttempt :: int
  sd_BuildCreatedAt :: time
  sd_Provider :: string
  sd_RepositoryOwner :: string
  sd_RepositoryName :: string
  sd_RegisteredRepositoryID :: "string option"
  sd_SCMConnectionID :: "string option"
  sd_ProviderRepositoryID :: "string option"
  sd_CommitSHA :: string
  sd_Context :: string
  sd_DesiredState :: string
  sd_LastSentState :: "string option"
  sd_Description :: string
  sd_DetailsURL :: "string option"
  sd_Status :: string
  sd_Attempts :: int
  sd_MaxAttempts :: int
  sd_LastAttemptAt :: "time option"
  sd_NextAttemptAt :: "time option"
  sd_ClaimedAt :: "time option"
  sd_ClaimExpiresAt :: "time option"
  sd_ClaimedBy :: "string option"
  sd_FailureCategory :: "string option"
  sd_FailureReason :: "string option"
  sd_LastError :: "string option"
  sd_SentAt :: "time option"
  sd_SupersededAt :: "time option"
  sd_CreatedAt :: time
  sd_UpdatedAt :: time

section \<open>Normal form and validity\<close>

definition trimSCMOptionalString :: "string option \<Rightarrow> string option" where
  "trimSCMOptionalString value =
     (case value of None \<Rightarrow> None
      | Some v \<Rightarrow> (let trimmed = TrimSpace v in if trimmed = [] then None else Some trimmed))"

definition normalizeSCMOptionalTime :: "time option \<Rightarrow> time option" where
  "normalizeSCMOptionalTime value = (case value of None \<Rightarrow> None | Some t \<Rightarrow> if t = 0 then None else Some t)"

definition SCMStatusDelivery_Normalize :: "SCMStatusDelivery \<Rightarrow> SCMStatusDelivery" where
  "SCMStatusDelivery_Normalize d = d\<lparr>
     sd_BuildID := TrimSpace (sd_BuildID d),
     sd_Provider := ToLower (TrimSpace (sd_Provider d)),
     sd_RepositoryOwner := TrimSpace (sd_RepositoryOwner d),
     sd_RepositoryName := TrimSpace (sd_RepositoryName d),
     sd_RegisteredRepositoryID := trimSCMOptionalString (sd_RegisteredRepositoryID d),
     sd_SCMConnectionID := trimSCMOptionalString (sd_SCMConnectionID d),
     sd_ProviderRepositoryID := trimSCMOptionalString (sd_ProviderRepositoryID d),
     sd_CommitSHA := TrimSpace (sd_CommitSHA d),
     sd_Context := TrimSpace (sd_Context d),
     sd_Description := TrimSpace (sd_Description d),
     sd_DesiredState := TrimSpace (sd_DesiredState d),
     sd_Status := TrimSpace (sd_Status d),
     sd_DetailsURL := trimSCMOptionalString (sd_DetailsURL d),
     sd_ClaimedBy := trimSCMOptionalString (sd_ClaimedBy d),
     sd_FailureReason := trimSCMOptionalString (sd_FailureReason d),
     sd_LastError := trimSCMOptionalString (sd_LastError d),
     sd_LastAttemptAt := normalizeSCMOptionalTime (sd_LastAttemptAt d),
     sd_NextAttemptAt := normalizeSCMOptionalTime (sd_NextAttemptAt d),
     sd_ClaimedAt := normalizeSCMOptionalTime (sd_ClaimedAt d),
     sd_ClaimExpiresAt := normalizeSCMOptionalTime (sd_ClaimExpiresAt d),
     sd_SentAt := normalizeSCMOptionalTime (sd_SentAt d),
     sd_SupersededAt := normalizeSCMOptionalTime (sd_SupersededAt d),
     sd_LastSentState := trimSCMOptionalString (sd_LastSentState d),
     sd_FailureCategory := trimSCMOptionalString (sd_FailureCategory d),
     sd_MaxAttempts := (if sd_MaxAttempts d \<le> 0 then 1 else sd_MaxAttempts d)\<rparr>"

definition SCMCommitStatusState_IsValid :: "string \<Rightarrow> bool" where
  "SCMCommitStatusState_IsValid s \<longleftrightarrow>
     s = SCMCommitStatusStatePending \<or> s = SCMCommitStatusStateSuccess \<or>
     s = SCMCommitStatusStateFailure \<or> s = SCMCommitStatusStateError"

definition SCMCommitStatusState_IsTerminal :: "string \<Rightarrow> bool" where
  "SCMCommitStatusState_IsTerminal s \<longleftrightarrow>
     s = SCMCommitStatusStateSuccess \<or> s = SCMCommitStatusStateFailure \<or> s = SCMCommitStatusStateError"

definition SCMStatusDeliveryStatus_IsValid :: "string \<Rightarrow> bool" where
  "SCMStatusDeliveryStatus_IsValid s \<longleftrightarrow>
     s = SCMStatusDeliveryStatusPending \<or> s = SCMStatusDeliveryStatusSending \<or>
     s = SCMStatusDeliveryStatusRetryWaiting \<or> s = SCMStatusDeliveryStatusSent \<or>
     s = SCMStatusDeliveryStatusFailedPermanent \<or> s = SCMStatusDeliveryStatusFailedExhausted \<or>
     s = SCMStatusDeliveryStatusSuperseded"

definition SCMStatusDeliveryFailureCategory_IsValid :: "string \<Rightarrow> bool" where
  "SCMStatusDeliveryFailureCategory_IsValid c \<longleftrightarrow>
     c = SCMStatusDeliveryFailureCategoryRetryable \<or> c = SCMStatusDeliveryFailureCategoryPermanent"

definition SCMStatusDelivery_IsTerminal :: "SCMStatusDelivery \<Rightarrow> bool" where
  "SCMStatusDelivery_IsTerminal d \<longleftrightarrow>
     sd_Status d = SCMStatusDeliveryStatusSent \<or> sd_Status d = SCMStatusDeliveryStatusFailedPermanent \<or>
     sd_Status d = SCMStatusDeliveryStatusFailedExhausted \<or> sd_Status d = SCMStatusDeliveryStatusSuperseded"

definition SCMStatusDelivery_ValidateIdentity :: "SCMStatusDelivery \<Rightarrow> go_error option" where
  "SCMStatusDelivery_ValidateIdentity d = first_err [
     reject (sd_BuildID d = []) ''scm status delivery build id is required'',
     reject (sd_BuildAttempt d < 0) ''scm status delivery build attempt cannot be negative'',
     reject (sd_BuildCreatedAt d = 0) ''scm status delivery build created_at is required'',
     reject (sd_Provider d = []) ''scm status delivery provider is required'',
     reject (sd_RepositoryOwner d = [] \<or> sd_RepositoryName d = [])
       ''scm status delivery repository owner and name are required'',
     map_option (\<lambda>err. case err of Errorf msg \<Rightarrow> Errorf (''scm status delivery '' @ msg) | _ \<Rightarrow> err)
       (ValidateRepositoryIdentitySnapshot (sd_RegisteredRepositoryID d) (sd_SCMConnectionID d) (sd_ProviderRepositoryID d)),
     reject (sd_CommitSHA d = []) ''scm status delivery commit sha is required'',
     reject (sd_Context d = []) ''scm status delivery context is required'',
     reject (\<not> SCMCommitStatusState_IsValid (sd_DesiredState d))
       (''unsupported scm commit status state '' @ Quote (sd_DesiredState d))]"

text \<open>The checks of \<open>Validate\<close> on the normal form, after both checks of the identity.\<close>

definition validate_row :: "SCMStatusDelivery \<Rightarrow> go_error option" where
  "validate_row d = first_err [
     reject (sd_Attempts d < 0) ''scm status delivery attempts cannot be negative'',
     reject (sd_Attempts d > sd_MaxAttempts d) ''scm status delivery attempts cannot exceed max attempts'',
     reject (\<not> SCMStatusDeliveryStatus_IsValid (sd_Status d))
       (''unsupported scm status delivery status '' @ Quote (sd_Status d)),
     (case sd_FailureCategory d of None \<Rightarrow> None
      | Some c \<Rightarrow> reject (\<not> SCMStatusDeliveryFailureCategory_IsValid c)
          (''unsupported scm status delivery failure category '' @ Quote c)),
     (case sd_LastSentState d of None \<Rightarrow> None
      | Some s \<Rightarrow> reject (\<not> SCMCommitStatusState_IsValid s)
          (''unsupported scm status delivery last sent state '' @ Quote s)),
     reject (SCMStatusDelivery_IsTerminal d \<and> sd_ClaimedBy d \<noteq> None)
       ''terminal scm status delivery cannot retain an active claim owner'',
     reject (SCMStatusDelivery_IsTerminal d \<and> sd_ClaimedAt d \<noteq> None)
       ''terminal scm status delivery cannot retain claimed_at'',
     reject (SCMStatusDelivery_IsTerminal d \<and> sd_ClaimExpiresAt d \<noteq> None)
       ''terminal scm status delivery cannot retain claim_expires_at'',
     reject (SCMStatusDelivery_IsTerminal d \<and> sd_NextAttemptAt d \<noteq> None)
       ''terminal scm status delivery cannot retain next_attempt_at'',
     under (sd_Status d = SCMStatusDeliveryStatusPending) [
       reject (sd_NextAttemptAt d \<noteq> None) ''pending scm status delivery cannot retain next_attempt_at'',
       reject (sd_ClaimedBy d \<noteq> None \<or> sd_ClaimedAt d \<noteq> None \<or> sd_ClaimExpiresAt d \<noteq> None)
         ''pending scm status delivery cannot retain active claim metadata''],
     under (sd_Status d = SCMStatusDeliveryStatusRetryWaiting) [
       reject (sd_Attempts d \<ge> sd_MaxAttempts d)
         ''retry-waiting scm status delivery requires attempts below max attempts'',
       reject (sd_NextAttemptAt d = None) ''retry-waiting scm status delivery requires next_attempt_at'',
       reject (sd_FailureCategory d \<noteq> Some SCMStatusDeliveryFailureCategoryRetryable)
         ''retry-waiting scm status delivery requires retryable failure category''],
     under (sd_Status d = SCMStatusDeliveryStatusSending) [
       reject (sd_Attempts d < 1) ''sending scm status delivery requires at least one attempt'',
       reject (sd_ClaimedBy d = None \<or> sd_ClaimedAt d = None \<or> sd_ClaimExpiresAt d = None)
         ''sending scm status delivery requires claim owner and expiry'',
       reject (\<not> (case (sd_ClaimExpiresAt d, sd_ClaimedAt d) of (Some e, Some c) \<Rightarrow> e > c | _ \<Rightarrow> False))
         ''scm status delivery claim expiry must be after claim acquisition''],
     under (sd_Status d = SCMStatusDeliveryStatusSent) [
       reject (sd_Attempts d < 1) ''sent scm status delivery requires at least one attempt'',
       reject (sd_SentAt d = None) ''sent scm status delivery requires sent_at'',
       reject (sd_LastSentState d \<noteq> Some (sd_DesiredState d))
         ''sent scm status delivery requires last_sent_state to match desired_state''],
     under (sd_Status d = SCMStatusDeliveryStatusFailedPermanent) [
       reject (sd_FailureCategory d \<noteq> Some SCMStatusDeliveryFailureCategoryPermanent)
         ''permanently failed scm status delivery requires permanent failure category''],
     under (sd_Status d = SCMStatusDeliveryStatusFailedExhausted) [
       reject (sd_Attempts d \<noteq> sd_MaxAttempts d)
         ''exhausted scm status delivery requires attempts to equal max attempts'',
       reject (sd_FailureCategory d \<noteq> Some SCMStatusDeliveryFailureCategoryRetryable)
         ''exhausted scm status delivery requires retryable failure category''],
     under (sd_Status d = SCMStatusDeliveryStatusSuperseded) [
       reject (sd_SupersededAt d = None) ''superseded scm status delivery requires superseded_at'']]"

definition SCMStatusDelivery_Validate :: "SCMStatusDelivery \<Rightarrow> go_error option" where
  "SCMStatusDelivery_Validate d = first_err [
     SCMStatusDelivery_ValidateIdentity d,
     SCMStatusDelivery_ValidateIdentity (SCMStatusDelivery_Normalize d),
     validate_row (SCMStatusDelivery_Normalize d)]"

definition SCMStatusDelivery_CanAttempt :: "SCMStatusDelivery \<Rightarrow> time \<Rightarrow> bool" where
  "SCMStatusDelivery_CanAttempt d now =
     (if SCMStatusDelivery_IsTerminal d \<or> sd_Attempts d \<ge> sd_MaxAttempts d then False
      else if sd_Status d = SCMStatusDeliveryStatusPending then True
      else if sd_Status d = SCMStatusDeliveryStatusRetryWaiting
      then (case sd_NextAttemptAt d of None \<Rightarrow> False | Some t \<Rightarrow> \<not> now < t)
      else if sd_Status d = SCMStatusDeliveryStatusSending
      then (case sd_ClaimExpiresAt d of None \<Rightarrow> False | Some t \<Rightarrow> \<not> now < t)
      else False)"

section \<open>Ordering of the builds that report on a stream\<close>

definition CompareSCMStatusDeliveryOwners :: "SCMStatusDelivery \<Rightarrow> SCMStatusDelivery \<Rightarrow> int" where
  "CompareSCMStatusDeliveryOwners existing0 incoming0 =
     (let existing = SCMStatusDelivery_Normalize existing0; incoming = SCMStatusDelivery_Normalize incoming0
      in if TrimSpace (sd_BuildID existing) = TrimSpace (sd_BuildID incoming) then 0
         else if sd_BuildAttempt existing \<noteq> sd_BuildAttempt incoming
         then (if sd_BuildAttempt existing > sd_BuildAttempt incoming then 1 else -1)
         else if sd_BuildCreatedAt existing > sd_BuildCreatedAt incoming then 1
         else if sd_BuildCreatedAt existing < sd_BuildCreatedAt incoming then -1
         else if TrimSpace (sd_BuildID existing) > TrimSpace (sd_BuildID incoming) then 1
         else -1)"

definition SCMStatusDeliveryIncomingStateObsolete :: "SCMStatusDelivery \<Rightarrow> SCMStatusDelivery \<Rightarrow> bool" where
  "SCMStatusDeliveryIncomingStateObsolete existing incoming =
     (if SCMCommitStatusState_IsTerminal (sd_DesiredState existing) \<and> \<not> SCMCommitStatusState_IsTerminal (sd_DesiredState incoming)
      then True
      else case sd_LastSentState existing of
             None \<Rightarrow> False
           | Some sent \<Rightarrow> SCMCommitStatusState_IsTerminal sent \<and> \<not> SCMCommitStatusState_IsTerminal (sd_DesiredState incoming))"

definition SCMStatusDeliveryShouldReplaceCurrentState :: "SCMStatusDelivery \<Rightarrow> SCMStatusDelivery \<Rightarrow> bool" where
  "SCMStatusDeliveryShouldReplaceCurrentState existing incoming \<longleftrightarrow> sd_DesiredState existing \<noteq> sd_DesiredState incoming"

definition SCMStatusDeliveryReassertAfterReplacement :: "SCMStatusDelivery \<Rightarrow> time \<Rightarrow> time option" where
  "SCMStatusDeliveryReassertAfterReplacement existing0 now =
     (let existing = SCMStatusDelivery_Normalize existing0
      in if sd_Status existing \<noteq> SCMStatusDeliveryStatusSending then None
         else case sd_ClaimExpiresAt existing of
                None \<Rightarrow> None
              | Some expires \<Rightarrow> (if \<not> expires > now then None else Some expires))"

section \<open>Claims\<close>

datatype SCMStatusDeliveryClaimOutcome =
  CreatedClaimed | RetryClaimed | StaleClaimReclaimed | AlreadySent | PermanentlyFailed
| AttemptsExhausted | ClaimedByOther | RetryNotDue | SupersededClaim

definition SCMStatusDeliveryClaimOutcomeFromExisting :: "SCMStatusDelivery \<Rightarrow> time \<Rightarrow> SCMStatusDeliveryClaimOutcome" where
  "SCMStatusDeliveryClaimOutcomeFromExisting delivery now =
     (if sd_Status delivery = SCMStatusDeliveryStatusSent then AlreadySent
      else if sd_Status delivery = SCMStatusDeliveryStatusFailedPermanent then PermanentlyFailed
      else if sd_Status delivery = SCMStatusDeliveryStatusFailedExhausted then AttemptsExhausted
      else if sd_Status delivery = SCMStatusDeliveryStatusSuperseded then SupersededClaim
      else if sd_Status delivery = SCMStatusDeliveryStatusSending then
        (if sd_Attempts delivery \<ge> sd_MaxAttempts delivery then AttemptsExhausted
         else case sd_ClaimExpiresAt delivery of
                None \<Rightarrow> ClaimedByOther
              | Some expires \<Rightarrow> (if \<not> now < expires then StaleClaimReclaimed else ClaimedByOther))
      else if sd_Status delivery = SCMStatusDeliveryStatusRetryWaiting then
        (if (case sd_NextAttemptAt delivery of None \<Rightarrow> False | Some due \<Rightarrow> now < due) then RetryNotDue
         else if sd_Attempts delivery \<ge> sd_MaxAttempts delivery then AttemptsExhausted
         else RetryClaimed)
      else if sd_Status delivery = SCMStatusDeliveryStatusPending then
        (if sd_Attempts delivery \<ge> sd_MaxAttempts delivery then AttemptsExhausted else RetryClaimed)
      else ClaimedByOther)"

record SCMStatusDeliveryClaimInput =
  ci_Delivery :: SCMStatusDelivery
  ci_ClaimOwner :: string
  ci_Now :: time
  ci_ClaimDuration :: int
  ci_MaxAttempts :: int

record SCMStatusDeliveryClaimResult =
  cr_Delivery :: SCMStatusDelivery
  cr_Outcome :: SCMStatusDeliveryClaimOutcome
  cr_ReassertAfter :: "time option"

datatype SCMStatusDeliveryUpdateOutcome = Updated | LostClaim

record SCMStatusDeliveryUpdateResult =
  ur_Delivery :: SCMStatusDelivery
  ur_Outcome :: SCMStatusDeliveryUpdateOutcome

record SCMStatusDeliveryMarkSentInput =
  ms_DeliveryID :: string
  ms_ClaimOwner :: string
  ms_ClaimedAt :: time
  ms_SentAt :: time
  ms_State :: string

record SCMStatusDeliveryRecordFailureInput =
  rf_DeliveryID :: string
  rf_ClaimOwner :: string
  rf_ClaimedAt :: time
  rf_FailedAt :: time
  rf_NextAttemptAt :: "time option"
  rf_FailureCategory :: string
  rf_FailureReason :: string
  rf_LastError :: "string option"

record SCMStatusDeliveryMarkSupersededInput =
  sup_DeliveryID :: string
  sup_ClaimOwner :: "string option"
  sup_ClaimedAt :: "time option"
  sup_SupersededAt :: time
  sup_Reason :: string
  sup_LastError :: "string option"

end
