(* ===== verification/SCM_Status_Store.thy ===== *)
theory SCM_Status_Store
  imports SCM_Status_Delivery
begin

text \<open>
  The in-memory store of commit status deliveries (\<open>repository/memory/scm_status_delivery_repository.go\<close>):
  the rows by ID and the index from stream keys to IDs. Every operation runs under the store's lock.
  \<open>ctx\<close> is what \<open>ctx.Err()\<close> answers when the operation starts, \<open>uuid\<close> the next \<open>uuid.NewString()\<close>.
\<close>

record SCMStatusDeliveryRepository =
  sr_deliveries :: "(string, SCMStatusDelivery) gomap"
  sr_index :: "(string, string) gomap"

definition NewSCMStatusDeliveryRepository :: SCMStatusDeliveryRepository where
  "NewSCMStatusDeliveryRepository = \<lparr>sr_deliveries = [], sr_index = []\<rparr>"

definition zeroSCMStatusDelivery :: SCMStatusDelivery where
  "zeroSCMStatusDelivery =
     \<lparr>sd_ID = [], sd_BuildID = [], sd_BuildAttempt = 0, sd_BuildCreatedAt = 0, sd_Provider = [], sd_RepositoryOwner = [],
      sd_RepositoryName = [], sd_RegisteredRepositoryID = None, sd_SCMConnectionID = None, sd_ProviderRepositoryID = None,
      sd_CommitSHA = [], sd_Context = [], sd_DesiredState = [], sd_LastSentState = None, sd_Description = [], sd_DetailsURL = None,
      sd_Status = [], sd_Attempts = 0, sd_MaxAttempts = 0, sd_LastAttemptAt = None, sd_NextAttemptAt = None, sd_ClaimedAt = None,
      sd_ClaimExpiresAt = None, sd_ClaimedBy = None, sd_FailureCategory = None, sd_FailureReason = None, sd_LastError = None,
      sd_SentAt = None, sd_SupersededAt = None, sd_CreatedAt = 0, sd_UpdatedAt = 0\<rparr>"

section \<open>Stream keys\<close>

definition scmStatusDeliveryRepositoryStreamKey :: "string \<Rightarrow> string \<Rightarrow> string \<Rightarrow> string \<Rightarrow> string" where
  "scmStatusDeliveryRepositoryStreamKey connectionID providerRepositoryID commitSHA contextName =
     ''repository|'' @ TrimSpace connectionID @ ''|'' @ TrimSpace providerRepositoryID @ ''|'' @
     TrimSpace commitSHA @ ''|'' @ TrimSpace contextName"

definition scmStatusDeliveryLegacyStreamKey :: "string \<Rightarrow> string \<Rightarrow> string \<Rightarrow> string \<Rightarrow> string \<Rightarrow> string" where
  "scmStatusDeliveryLegacyStreamKey provider repositoryOwner repositoryName commitSHA contextName =
     ToLower (TrimSpace provider) @ ''|'' @ TrimSpace repositoryOwner @ ''|'' @ TrimSpace repositoryName @ ''|'' @
     TrimSpace commitSHA @ ''|'' @ TrimSpace contextName"

definition scmStatusDeliveryKey :: "SCMStatusDelivery \<Rightarrow> string" where
  "scmStatusDeliveryKey delivery0 =
     (let delivery = SCMStatusDelivery_Normalize delivery0
      in case (sd_SCMConnectionID delivery, sd_ProviderRepositoryID delivery) of
           (Some connectionID, Some providerRepositoryID) \<Rightarrow>
             scmStatusDeliveryRepositoryStreamKey connectionID providerRepositoryID (sd_CommitSHA delivery) (sd_Context delivery)
         | _ \<Rightarrow> scmStatusDeliveryLegacyStreamKey (sd_Provider delivery) (sd_RepositoryOwner delivery)
                  (sd_RepositoryName delivery) (sd_CommitSHA delivery) (sd_Context delivery))"

section \<open>Claiming\<close>

definition normalizeSCMClaimInput :: "SCMStatusDeliveryClaimInput \<Rightarrow> go_error + (SCMStatusDelivery \<times> time \<times> string \<times> int)" where
  "normalizeSCMClaimInput input =
     (case SCMStatusDelivery_ValidateIdentity (ci_Delivery input) of
        Some err \<Rightarrow> Inl err
      | None \<Rightarrow>
          (let delivery = SCMStatusDelivery_Normalize (ci_Delivery input);
               now = ci_Now input;
               claimOwner = TrimSpace (ci_ClaimOwner input)
           in if now = 0 then Inl (Errorf ''scm status delivery claim time is required'')
              else if claimOwner = [] then Inl (Errorf ''scm status delivery claim owner is required'')
              else if ci_ClaimDuration input \<le> 0 then Inl (Errorf ''scm status delivery claim duration must be positive'')
              else if ci_MaxAttempts input \<le> 0 then Inl (Errorf ''scm status delivery max attempts must be positive'')
              else Inr (delivery, now, claimOwner, ci_ClaimDuration input)))"

definition claimSCMStatusDelivery ::
  "SCMStatusDelivery \<Rightarrow> time \<Rightarrow> string \<Rightarrow> int \<Rightarrow> SCMStatusDelivery \<times> SCMStatusDeliveryClaimOutcome" where
  "claimSCMStatusDelivery delivery0 now claimOwner claimDuration =
     (let delivery = SCMStatusDelivery_Normalize delivery0;
          outcome = SCMStatusDeliveryClaimOutcomeFromExisting delivery now
      in if outcome \<noteq> RetryClaimed \<and> outcome \<noteq> StaleClaimReclaimed then (delivery, outcome)
         else (delivery\<lparr>sd_Status := SCMStatusDeliveryStatusSending, sd_Attempts := wrap64 (sd_Attempts delivery + 1),
                 sd_LastAttemptAt := Some now, sd_NextAttemptAt := None, sd_ClaimedAt := Some now,
                 sd_ClaimExpiresAt := Some (now + claimDuration), sd_ClaimedBy := Some claimOwner,
                 sd_UpdatedAt := now\<rparr>, outcome))"

definition claimFreshSCMStatusDelivery ::
  "string \<Rightarrow> string \<Rightarrow> time \<Rightarrow> SCMStatusDelivery \<Rightarrow> time \<Rightarrow> string \<Rightarrow> int \<Rightarrow> int \<Rightarrow> string option \<Rightarrow> go_error + SCMStatusDelivery" where
  "claimFreshSCMStatusDelivery uuid deliveryID createdAt delivery0 now claimOwner claimDuration maxAttempts lastSentState =
     (let delivery1 = SCMStatusDelivery_Normalize delivery0;
          delivery = delivery1\<lparr>
            sd_ID := (if TrimSpace deliveryID = [] then uuid else TrimSpace deliveryID),
            sd_CreatedAt := (if createdAt = 0 then now else createdAt), sd_UpdatedAt := now,
            sd_Status := SCMStatusDeliveryStatusSending, sd_Attempts := 1, sd_MaxAttempts := maxAttempts,
            sd_LastAttemptAt := Some now, sd_NextAttemptAt := None, sd_ClaimedAt := Some now,
            sd_ClaimExpiresAt := Some (now + claimDuration), sd_ClaimedBy := Some claimOwner,
            sd_FailureCategory := None, sd_FailureReason := None, sd_LastError := None,
            sd_SentAt := None, sd_SupersededAt := None, sd_LastSentState := lastSentState\<rparr>
      in case SCMStatusDelivery_Validate delivery of Some err \<Rightarrow> Inl err | None \<Rightarrow> Inr delivery)"

text \<open>The answer: the row, the outcome, whether to store the row, and when to reassert.\<close>

definition reconcileSCMStatusDeliveryForClaim ::
  "string \<Rightarrow> SCMStatusDelivery \<Rightarrow> SCMStatusDelivery \<Rightarrow> time \<Rightarrow> string \<Rightarrow> int \<Rightarrow> int \<Rightarrow>
     go_error + (SCMStatusDelivery \<times> SCMStatusDeliveryClaimOutcome \<times> bool \<times> time option)" where
  "reconcileSCMStatusDeliveryForClaim uuid existing0 incoming0 now claimOwner claimDuration maxAttempts =
     (let existing = SCMStatusDelivery_Normalize existing0; incoming = SCMStatusDelivery_Normalize incoming0;
          ownerComparison = CompareSCMStatusDeliveryOwners existing incoming;
          reassertAfter = SCMStatusDeliveryReassertAfterReplacement existing now
      in if ownerComparison > 0 then Inr (existing, SupersededClaim, False, None)
         else if ownerComparison < 0 then
           (case claimFreshSCMStatusDelivery uuid (sd_ID existing) (sd_CreatedAt existing) incoming now claimOwner claimDuration maxAttempts None of
              Inl err \<Rightarrow> Inl err
            | Inr replaced \<Rightarrow> Inr (replaced, CreatedClaimed, True, reassertAfter))
         else if SCMStatusDeliveryIncomingStateObsolete existing incoming then Inr (existing, SupersededClaim, False, None)
         else if SCMStatusDeliveryShouldReplaceCurrentState existing incoming then
           (case claimFreshSCMStatusDelivery uuid (sd_ID existing) (sd_CreatedAt existing) incoming now claimOwner claimDuration maxAttempts
                   (sd_LastSentState existing) of
              Inl err \<Rightarrow> Inl err
            | Inr replaced \<Rightarrow> Inr (replaced, CreatedClaimed, True, reassertAfter))
         else (case claimSCMStatusDelivery existing now claimOwner claimDuration of
                 (claimed, outcome) \<Rightarrow>
                   Inr (claimed, outcome, outcome = RetryClaimed \<or> outcome = StaleClaimReclaimed, None)))"

definition AcquireForDelivery ::
  "string \<Rightarrow> dlv_error option \<Rightarrow> SCMStatusDeliveryClaimInput \<Rightarrow> SCMStatusDeliveryRepository \<Rightarrow>
     SCMStatusDeliveryRepository \<times> (dlv_error + SCMStatusDeliveryClaimResult)" where
  "AcquireForDelivery uuid ctx input r =
     (case ctx of Some err \<Rightarrow> (r, Inl err) | None \<Rightarrow>
      (case normalizeSCMClaimInput input of Inl err \<Rightarrow> (r, Inl (ErrPlain err))
       | Inr (delivery, now, claimOwner, claimDuration) \<Rightarrow>
           (let key = scmStatusDeliveryKey delivery
            in case map_of (sr_index r) key of
                 Some existingID \<Rightarrow>
                   (let existing = gm_get_or zeroSCMStatusDelivery (sr_deliveries r) existingID
                    in case reconcileSCMStatusDeliveryForClaim uuid existing delivery now claimOwner claimDuration (ci_MaxAttempts input) of
                         Inl err \<Rightarrow> (r, Inl (ErrPlain err))
                       | Inr (claimed, outcome, persist, reassertAfter) \<Rightarrow>
                           (if persist then r\<lparr>sr_deliveries := gm_put existingID claimed (sr_deliveries r)\<rparr> else r,
                            Inr \<lparr>cr_Delivery = claimed, cr_Outcome = outcome, cr_ReassertAfter = reassertAfter\<rparr>))
               | None \<Rightarrow>
                   (let created = delivery\<lparr>
                          sd_ID := (if TrimSpace (sd_ID delivery) = [] then uuid else sd_ID delivery),
                          sd_CreatedAt := (if sd_CreatedAt delivery = 0 then now else sd_CreatedAt delivery), sd_UpdatedAt := now,
                          sd_Status := SCMStatusDeliveryStatusSending, sd_Attempts := 1, sd_MaxAttempts := ci_MaxAttempts input,
                          sd_LastAttemptAt := Some now, sd_NextAttemptAt := None, sd_ClaimedAt := Some now,
                          sd_ClaimExpiresAt := Some (now + claimDuration), sd_ClaimedBy := Some claimOwner,
                          sd_FailureCategory := None, sd_FailureReason := None, sd_LastError := None,
                          sd_SentAt := None, sd_SupersededAt := None, sd_LastSentState := None\<rparr>
                    in case SCMStatusDelivery_Validate created of
                         Some err \<Rightarrow> (r, Inl (ErrPlain err))
                       | None \<Rightarrow>
                           (r\<lparr>sr_deliveries := gm_put (sd_ID created) created (sr_deliveries r),
                              sr_index := gm_put key (sd_ID created) (sr_index r)\<rparr>,
                            Inr \<lparr>cr_Delivery = created, cr_Outcome = CreatedClaimed, cr_ReassertAfter = None\<rparr>)))))"

section \<open>Updates by the holder of a claim\<close>

definition scmStatusDeliveryClaimMatches :: "SCMStatusDelivery \<Rightarrow> string \<Rightarrow> time \<Rightarrow> bool" where
  "scmStatusDeliveryClaimMatches delivery claimOwner claimedAt =
     (case sd_ClaimedBy delivery of None \<Rightarrow> False
      | Some by \<Rightarrow>
          (if TrimSpace by \<noteq> TrimSpace claimOwner then False
           else case sd_ClaimedAt delivery of None \<Rightarrow> False
                | Some c \<Rightarrow> (if c = 0 then False else c = claimedAt)))"

definition scmOptionalTrimmedString :: "string \<Rightarrow> string option" where
  "scmOptionalTrimmedString value = (let trimmed = TrimSpace value in if trimmed = [] then None else Some trimmed)"

definition scmNormalizeOptionalString :: "string option \<Rightarrow> string option" where
  "scmNormalizeOptionalString value =
     (case value of None \<Rightarrow> None
      | Some v \<Rightarrow> (let trimmed = TrimSpace v in if trimmed = [] then None else Some trimmed))"

definition normalizeSCMRecordFailureTime :: "time option \<Rightarrow> time option" where
  "normalizeSCMRecordFailureTime value = (case value of None \<Rightarrow> None | Some t \<Rightarrow> if t = 0 then None else Some t)"

definition store_row ::
  "SCMStatusDelivery \<Rightarrow> SCMStatusDeliveryRepository \<Rightarrow> SCMStatusDeliveryRepository \<times> (dlv_error + SCMStatusDeliveryUpdateResult)" where
  "store_row current r =
     (case SCMStatusDelivery_Validate current of
        Some err \<Rightarrow> (r, Inl (ErrPlain err))
      | None \<Rightarrow> (r\<lparr>sr_deliveries := gm_put (sd_ID current) current (sr_deliveries r)\<rparr>,
                 Inr \<lparr>ur_Delivery = current, ur_Outcome = Updated\<rparr>))"

definition MarkSent ::
  "dlv_error option \<Rightarrow> SCMStatusDeliveryMarkSentInput \<Rightarrow> SCMStatusDeliveryRepository \<Rightarrow>
     SCMStatusDeliveryRepository \<times> (dlv_error + SCMStatusDeliveryUpdateResult)" where
  "MarkSent ctx input r =
     (case ctx of Some err \<Rightarrow> (r, Inl err) | None \<Rightarrow>
      (case map_of (sr_deliveries r) (TrimSpace (ms_DeliveryID input)) of
         None \<Rightarrow> (r, Inl ErrSCMStatusDeliveryNotFound)
       | Some current \<Rightarrow>
           (if \<not> scmStatusDeliveryClaimMatches current (TrimSpace (ms_ClaimOwner input)) (ms_ClaimedAt input)
            then (r, Inr \<lparr>ur_Delivery = current, ur_Outcome = LostClaim\<rparr>)
            else store_row (current\<lparr>sd_Status := SCMStatusDeliveryStatusSent, sd_UpdatedAt := ms_SentAt input,
                   sd_SentAt := Some (ms_SentAt input), sd_LastSentState := Some (ms_State input), sd_NextAttemptAt := None,
                   sd_ClaimedAt := None, sd_ClaimExpiresAt := None, sd_ClaimedBy := None, sd_FailureCategory := None,
                   sd_FailureReason := None, sd_LastError := None, sd_SupersededAt := None\<rparr>) r)))"

definition recordFailure ::
  "dlv_error option \<Rightarrow> SCMStatusDeliveryRecordFailureInput \<Rightarrow> string \<Rightarrow> SCMStatusDeliveryRepository \<Rightarrow>
     SCMStatusDeliveryRepository \<times> (dlv_error + SCMStatusDeliveryUpdateResult)" where
  "recordFailure ctx input status r =
     (case ctx of Some err \<Rightarrow> (r, Inl err) | None \<Rightarrow>
      (case map_of (sr_deliveries r) (TrimSpace (rf_DeliveryID input)) of
         None \<Rightarrow> (r, Inl ErrSCMStatusDeliveryNotFound)
       | Some current \<Rightarrow>
           (if \<not> scmStatusDeliveryClaimMatches current (TrimSpace (rf_ClaimOwner input)) (rf_ClaimedAt input)
            then (r, Inr \<lparr>ur_Delivery = current, ur_Outcome = LostClaim\<rparr>)
            else store_row (current\<lparr>sd_Status := status, sd_UpdatedAt := rf_FailedAt input,
                   sd_NextAttemptAt := normalizeSCMRecordFailureTime (rf_NextAttemptAt input),
                   sd_ClaimedAt := None, sd_ClaimExpiresAt := None, sd_ClaimedBy := None,
                   sd_FailureCategory := Some (rf_FailureCategory input),
                   sd_FailureReason := scmOptionalTrimmedString (rf_FailureReason input),
                   sd_LastError := scmNormalizeOptionalString (rf_LastError input), sd_SupersededAt := None,
                   sd_Attempts := (if status = SCMStatusDeliveryStatusFailedExhausted \<and> sd_Attempts current < sd_MaxAttempts current
                                   then sd_MaxAttempts current else sd_Attempts current)\<rparr>) r)))"

definition RecordRetryableFailure where
  "RecordRetryableFailure ctx input = recordFailure ctx input SCMStatusDeliveryStatusRetryWaiting"

definition RecordPermanentFailure where
  "RecordPermanentFailure ctx input = recordFailure ctx input SCMStatusDeliveryStatusFailedPermanent"

definition RecordExhaustedFailure where
  "RecordExhaustedFailure ctx input = recordFailure ctx input SCMStatusDeliveryStatusFailedExhausted"

definition MarkSuperseded ::
  "dlv_error option \<Rightarrow> SCMStatusDeliveryMarkSupersededInput \<Rightarrow> SCMStatusDeliveryRepository \<Rightarrow>
     SCMStatusDeliveryRepository \<times> (dlv_error + SCMStatusDeliveryUpdateResult)" where
  "MarkSuperseded ctx input r =
     (case ctx of Some err \<Rightarrow> (r, Inl err) | None \<Rightarrow>
      (case map_of (sr_deliveries r) (TrimSpace (sup_DeliveryID input)) of
         None \<Rightarrow> (r, Inl ErrSCMStatusDeliveryNotFound)
       | Some current \<Rightarrow>
           (if (sup_ClaimOwner input \<noteq> None \<or> sup_ClaimedAt input \<noteq> None) \<and>
               \<not> (case (sup_ClaimOwner input, sup_ClaimedAt input) of
                    (Some owner, Some claimedAt) \<Rightarrow> scmStatusDeliveryClaimMatches current (TrimSpace owner) claimedAt
                  | _ \<Rightarrow> False)
            then (r, Inr \<lparr>ur_Delivery = current, ur_Outcome = LostClaim\<rparr>)
            else store_row (current\<lparr>sd_Status := SCMStatusDeliveryStatusSuperseded, sd_UpdatedAt := sup_SupersededAt input,
                   sd_SupersededAt := Some (sup_SupersededAt input), sd_NextAttemptAt := None,
                   sd_ClaimedAt := None, sd_ClaimExpiresAt := None, sd_ClaimedBy := None,
                   sd_FailureCategory := Some SCMStatusDeliveryFailureCategoryPermanent,
                   sd_FailureReason := scmOptionalTrimmedString (sup_Reason input),
                   sd_LastError := sup_LastError input\<rparr>) r)))"

section \<open>Reading\<close>

definition get_by_index :: "string \<Rightarrow> SCMStatusDeliveryRepository \<Rightarrow> dlv_error + SCMStatusDelivery" where
  "get_by_index key r =
     (case map_of (sr_index r) key of None \<Rightarrow> Inl ErrSCMStatusDeliveryNotFound
      | Some deliveryID \<Rightarrow> (case map_of (sr_deliveries r) deliveryID of None \<Rightarrow> Inl ErrSCMStatusDeliveryNotFound | Some delivery \<Rightarrow> Inr delivery))"

definition GetByKey ::
  "dlv_error option \<Rightarrow> string \<Rightarrow> string \<Rightarrow> string \<Rightarrow> string \<Rightarrow> string \<Rightarrow> SCMStatusDeliveryRepository \<Rightarrow> dlv_error + SCMStatusDelivery" where
  "GetByKey ctx provider repositoryOwner repositoryName commitSHA contextName r =
     (case ctx of Some err \<Rightarrow> Inl err
      | None \<Rightarrow> get_by_index (scmStatusDeliveryLegacyStreamKey (ToLower (TrimSpace provider)) (TrimSpace repositoryOwner)
                   (TrimSpace repositoryName) (TrimSpace commitSHA) (TrimSpace contextName)) r)"

definition GetByRepositoryIdentity ::
  "dlv_error option \<Rightarrow> string \<Rightarrow> string \<Rightarrow> string \<Rightarrow> string \<Rightarrow> SCMStatusDeliveryRepository \<Rightarrow> dlv_error + SCMStatusDelivery" where
  "GetByRepositoryIdentity ctx connectionID providerRepositoryID commitSHA contextName r =
     (case ctx of Some err \<Rightarrow> Inl err
      | None \<Rightarrow> get_by_index (scmStatusDeliveryRepositoryStreamKey connectionID providerRepositoryID commitSHA contextName) r)"

definition scmStatusDeliveryRecoverableDueAt :: "SCMStatusDelivery \<Rightarrow> time \<Rightarrow> time option" where
  "scmStatusDeliveryRecoverableDueAt delivery0 now =
     (let delivery = SCMStatusDelivery_Normalize delivery0
      in if sd_Status delivery = SCMStatusDeliveryStatusRetryWaiting then
           (case sd_NextAttemptAt delivery of None \<Rightarrow> None | Some t \<Rightarrow> if t > now then None else Some t)
         else if sd_Status delivery = SCMStatusDeliveryStatusSending then
           (case sd_ClaimExpiresAt delivery of None \<Rightarrow> None | Some t \<Rightarrow> if t > now then None else Some t)
         else None)"

definition recoverable_less :: "SCMStatusDelivery \<times> time \<Rightarrow> SCMStatusDelivery \<times> time \<Rightarrow> bool" where
  "recoverable_less a b = (if snd a \<noteq> snd b then snd a < snd b else sd_ID (fst a) < sd_ID (fst b))"

text \<open>
  \<open>ctx\<close> is read once at the start and once per row; a context that ends in the middle of the scan is
  a context that ended before it, since the scan changes nothing.
\<close>

definition ListRecoverable ::
  "dlv_error option \<Rightarrow> time \<Rightarrow> int \<Rightarrow> SCMStatusDeliveryRepository \<Rightarrow> dlv_error + SCMStatusDelivery list" where
  "ListRecoverable ctx now limit r =
     (case ctx of Some err \<Rightarrow> Inl err | None \<Rightarrow>
      (if now = 0 then Inl (ErrPlain (Errorf ''scm status delivery recoverable scan time is required''))
       else if limit \<le> 0 then Inl (ErrPlain (Errorf ''scm status delivery recoverable scan limit must be positive''))
       else let candidates = concat (map (\<lambda>(_, delivery). case scmStatusDeliveryRecoverableDueAt delivery now of
                                            None \<Rightarrow> [] | Some dueAt \<Rightarrow> [(delivery, dueAt)]) (sr_deliveries r));
                ordered = sort_slice recoverable_less candidates
            in Inr (map fst (take (nat limit) ordered))))"

end
