(* ===== verification/SCM_Status_Invariant.thy ===== *)
theory SCM_Status_Invariant
  imports SCM_Status_Store
begin

text \<open>
  The invariant of the store of commit status deliveries: every row validates, is stored under its
  trimmed ID and indexed under the key of its stream, and every index entry leads to such a row.
\<close>

section \<open>Normal forms\<close>

lemma trimSCMOptionalString_eq [simp]: "trimSCMOptionalString = trimOptional"
  by (rule ext) (simp add: trimSCMOptionalString_def trimOptional_def)

lemma normalizeSCMOptionalTime_simps [simp]:
  "normalizeSCMOptionalTime None = None"
  "normalizeSCMOptionalTime (normalizeSCMOptionalTime t) = normalizeSCMOptionalTime t"
  "x \<noteq> 0 \<Longrightarrow> normalizeSCMOptionalTime (Some x) = Some x"
  by (auto simp: normalizeSCMOptionalTime_def split: option.splits)

lemma trimOptional_trimmed [simp]: "trimmed s \<Longrightarrow> s \<noteq> [] \<Longrightarrow> trimOptional (Some s) = Some s"
  by (simp add: trimOptional_def TrimSpace_id)

lemma Normalize_idem [simp]:
  "SCMStatusDelivery_Normalize (SCMStatusDelivery_Normalize d) = SCMStatusDelivery_Normalize d"
  by (simp add: SCMStatusDelivery_Normalize_def)

lemma key_Normalize [simp]: "scmStatusDeliveryKey (SCMStatusDelivery_Normalize d) = scmStatusDeliveryKey d"
  by (simp add: scmStatusDeliveryKey_def)

lemma TrimSpace_status [simp]:
  "TrimSpace ''pending'' = ''pending''" "TrimSpace ''sending'' = ''sending''" "TrimSpace ''retry_waiting'' = ''retry_waiting''"
  "TrimSpace ''sent'' = ''sent''" "TrimSpace ''failed_permanent'' = ''failed_permanent''"
  "TrimSpace ''failed_exhausted'' = ''failed_exhausted''" "TrimSpace ''superseded'' = ''superseded''"
  "TrimSpace ''retryable'' = ''retryable''" "TrimSpace ''permanent'' = ''permanent''"
  "TrimSpace ''success'' = ''success''" "TrimSpace ''failure'' = ''failure''" "TrimSpace ''error'' = ''error''"
  by (simp_all add: TrimSpace_def is_space_def)

lemma Normalize_sel [simp]:
  "sd_ID (SCMStatusDelivery_Normalize d) = sd_ID d"
  "sd_BuildID (SCMStatusDelivery_Normalize d) = TrimSpace (sd_BuildID d)"
  "sd_BuildAttempt (SCMStatusDelivery_Normalize d) = sd_BuildAttempt d"
  "sd_BuildCreatedAt (SCMStatusDelivery_Normalize d) = sd_BuildCreatedAt d"
  "sd_RepositoryOwner (SCMStatusDelivery_Normalize d) = TrimSpace (sd_RepositoryOwner d)"
  "sd_RepositoryName (SCMStatusDelivery_Normalize d) = TrimSpace (sd_RepositoryName d)"
  "sd_RegisteredRepositoryID (SCMStatusDelivery_Normalize d) = trimOptional (sd_RegisteredRepositoryID d)"
  "sd_SCMConnectionID (SCMStatusDelivery_Normalize d) = trimOptional (sd_SCMConnectionID d)"
  "sd_ProviderRepositoryID (SCMStatusDelivery_Normalize d) = trimOptional (sd_ProviderRepositoryID d)"
  "sd_CommitSHA (SCMStatusDelivery_Normalize d) = TrimSpace (sd_CommitSHA d)"
  "sd_Context (SCMStatusDelivery_Normalize d) = TrimSpace (sd_Context d)"
  "sd_DesiredState (SCMStatusDelivery_Normalize d) = TrimSpace (sd_DesiredState d)"
  "sd_LastSentState (SCMStatusDelivery_Normalize d) = trimOptional (sd_LastSentState d)"
  "sd_Description (SCMStatusDelivery_Normalize d) = TrimSpace (sd_Description d)"
  "sd_DetailsURL (SCMStatusDelivery_Normalize d) = trimOptional (sd_DetailsURL d)"
  "sd_Status (SCMStatusDelivery_Normalize d) = TrimSpace (sd_Status d)"
  "sd_Attempts (SCMStatusDelivery_Normalize d) = sd_Attempts d"
  "sd_LastAttemptAt (SCMStatusDelivery_Normalize d) = normalizeSCMOptionalTime (sd_LastAttemptAt d)"
  "sd_NextAttemptAt (SCMStatusDelivery_Normalize d) = normalizeSCMOptionalTime (sd_NextAttemptAt d)"
  "sd_ClaimedAt (SCMStatusDelivery_Normalize d) = normalizeSCMOptionalTime (sd_ClaimedAt d)"
  "sd_ClaimExpiresAt (SCMStatusDelivery_Normalize d) = normalizeSCMOptionalTime (sd_ClaimExpiresAt d)"
  "sd_ClaimedBy (SCMStatusDelivery_Normalize d) = trimOptional (sd_ClaimedBy d)"
  "sd_FailureCategory (SCMStatusDelivery_Normalize d) = trimOptional (sd_FailureCategory d)"
  "sd_FailureReason (SCMStatusDelivery_Normalize d) = trimOptional (sd_FailureReason d)"
  "sd_LastError (SCMStatusDelivery_Normalize d) = trimOptional (sd_LastError d)"
  "sd_SentAt (SCMStatusDelivery_Normalize d) = normalizeSCMOptionalTime (sd_SentAt d)"
  "sd_SupersededAt (SCMStatusDelivery_Normalize d) = normalizeSCMOptionalTime (sd_SupersededAt d)"
  "sd_CreatedAt (SCMStatusDelivery_Normalize d) = sd_CreatedAt d"
  "sd_UpdatedAt (SCMStatusDelivery_Normalize d) = sd_UpdatedAt d"
  "sd_Provider (SCMStatusDelivery_Normalize d) = ToLower (TrimSpace (sd_Provider d))"
  "sd_MaxAttempts (SCMStatusDelivery_Normalize d) = (if sd_MaxAttempts d \<le> 0 then 1 else sd_MaxAttempts d)"
  by (simp_all add: SCMStatusDelivery_Normalize_def)

lemma Validate_None: "SCMStatusDelivery_Validate d = None \<longleftrightarrow>
   SCMStatusDelivery_ValidateIdentity d = None \<and> SCMStatusDelivery_ValidateIdentity (SCMStatusDelivery_Normalize d) = None \<and>
   validate_row (SCMStatusDelivery_Normalize d) = None"
  by (simp add: SCMStatusDelivery_Validate_def)

lemma Validate_Normalize: "SCMStatusDelivery_Validate d = None \<Longrightarrow> SCMStatusDelivery_Validate (SCMStatusDelivery_Normalize d) = None"
  by (simp add: Validate_None)

section \<open>Valid rows\<close>

definition valid_row :: "SCMStatusDelivery \<Rightarrow> bool" where
  "valid_row d \<longleftrightarrow> SCMStatusDelivery_Validate d = None \<and> sd_MaxAttempts d < 2 ^ 63"

lemmas scm_checks = validate_row_def SCMStatusDeliveryStatus_IsValid_def SCMStatusDelivery_IsTerminal_def
  SCMStatusDeliveryFailureCategory_IsValid_def

text \<open>The identity check reads nothing that a claim or an update changes.\<close>

lemma ValidateIdentity_cong:
  assumes "sd_BuildID d = sd_BuildID e" "sd_BuildAttempt d = sd_BuildAttempt e" "sd_BuildCreatedAt d = sd_BuildCreatedAt e"
    "sd_Provider d = sd_Provider e" "sd_RepositoryOwner d = sd_RepositoryOwner e" "sd_RepositoryName d = sd_RepositoryName e"
    "sd_RegisteredRepositoryID d = sd_RegisteredRepositoryID e" "sd_SCMConnectionID d = sd_SCMConnectionID e"
    "sd_ProviderRepositoryID d = sd_ProviderRepositoryID e" "sd_CommitSHA d = sd_CommitSHA e" "sd_Context d = sd_Context e"
    "sd_DesiredState d = sd_DesiredState e"
  shows "SCMStatusDelivery_ValidateIdentity d = SCMStatusDelivery_ValidateIdentity e"
  by (simp add: SCMStatusDelivery_ValidateIdentity_def assms)

lemma key_cong:
  assumes "sd_Provider d = sd_Provider e" "sd_RepositoryOwner d = sd_RepositoryOwner e" "sd_RepositoryName d = sd_RepositoryName e"
    "sd_SCMConnectionID d = sd_SCMConnectionID e" "sd_ProviderRepositoryID d = sd_ProviderRepositoryID e"
    "sd_CommitSHA d = sd_CommitSHA e" "sd_Context d = sd_Context e"
  shows "scmStatusDeliveryKey d = scmStatusDeliveryKey e"
  by (simp add: scmStatusDeliveryKey_def assms Let_def split: option.split)

text \<open>
  A claim of a waiting or expired row is the only write that the code does not validate. It keeps
  the row valid: the attempt counter has room, and the lease ends after it starts.
\<close>

lemma claim_outcome_attempts:
  assumes "SCMStatusDeliveryClaimOutcomeFromExisting d now \<in> {RetryClaimed, StaleClaimReclaimed}"
  shows "sd_Attempts d < sd_MaxAttempts d" and "\<not> SCMStatusDelivery_IsTerminal d"
  using assms
  by (auto simp: SCMStatusDeliveryClaimOutcomeFromExisting_def SCMStatusDelivery_IsTerminal_def split: if_splits option.splits)

lemma claim_valid:
  assumes d: "valid_row d" and o: "SCMStatusDeliveryClaimOutcomeFromExisting (SCMStatusDelivery_Normalize d) now \<in> {RetryClaimed, StaleClaimReclaimed}"
    and now: "0 < now" "0 < dur" and w: "trimmed owner" "owner \<noteq> []"
  shows "valid_row (fst (claimSCMStatusDelivery d now owner dur))"
proof -
  let ?n = "SCMStatusDelivery_Normalize d"
  let ?c = "fst (claimSCMStatusDelivery d now owner dur)"
  have c: "?c = ?n\<lparr>sd_Status := SCMStatusDeliveryStatusSending, sd_Attempts := wrap64 (sd_Attempts ?n + 1),
     sd_LastAttemptAt := Some now, sd_NextAttemptAt := None, sd_ClaimedAt := Some now,
     sd_ClaimExpiresAt := Some (now + dur), sd_ClaimedBy := Some owner, sd_UpdatedAt := now\<rparr>"
    using o by (auto simp: claimSCMStatusDelivery_def Let_def)
  have lt: "sd_Attempts ?n < sd_MaxAttempts ?n" using claim_outcome_attempts(1) [OF o] .
  have max: "sd_MaxAttempts ?n < 2 ^ 63" using d by (simp add: valid_row_def SCMStatusDelivery_Normalize_def)
  have row: "validate_row ?n = None" and id: "SCMStatusDelivery_ValidateIdentity ?n = None"
    using d by (simp_all add: valid_row_def Validate_None)
  have nn: "0 \<le> sd_Attempts ?n" using row by (simp add: validate_row_def)
  have at: "wrap64 (sd_Attempts ?n + 1) = sd_Attempts ?n + 1" using lt max nn by (intro wrap64_id) auto
  have n: "SCMStatusDelivery_Normalize ?c = ?c"
    by (rule SCMStatusDelivery.equality) (use now w in \<open>simp_all add: c\<close>)
  have "SCMStatusDelivery_ValidateIdentity ?c = None"
    unfolding id [symmetric] by (rule ValidateIdentity_cong) (simp_all add: c)
  moreover have "validate_row ?c = None"
    using row lt nn unfolding c at by (simp add: scm_checks now split: option.splits)
  ultimately show ?thesis using max by (simp add: valid_row_def Validate_None n) (simp add: c)
qed

section \<open>The invariant of the store\<close>

definition scm_store_wf :: "SCMStatusDeliveryRepository \<Rightarrow> bool" where
  "scm_store_wf r \<longleftrightarrow> gm_ok (sr_deliveries r) \<and> gm_ok (sr_index r) \<and>
     (\<forall>k d. map_of (sr_deliveries r) k = Some d \<longrightarrow>
        sd_ID d = k \<and> trimmed k \<and> k \<noteq> [] \<and> valid_row d \<and> map_of (sr_index r) (scmStatusDeliveryKey d) = Some k) \<and>
     (\<forall>key k. map_of (sr_index r) key = Some k \<longrightarrow>
        (\<exists>d. map_of (sr_deliveries r) k = Some d \<and> scmStatusDeliveryKey d = key))"

lemma scm_store_wf_new: "scm_store_wf NewSCMStatusDeliveryRepository"
  by (simp add: scm_store_wf_def NewSCMStatusDeliveryRepository_def)

lemma scm_wf_row:
  assumes "scm_store_wf r" "map_of (sr_deliveries r) k = Some d"
  shows "sd_ID d = k" "trimmed k" "k \<noteq> []" "valid_row d" "map_of (sr_index r) (scmStatusDeliveryKey d) = Some k"
  using assms unfolding scm_store_wf_def by blast+

lemma scm_wf_index:
  assumes "scm_store_wf r" "map_of (sr_index r) key = Some k"
  obtains d where "map_of (sr_deliveries r) k = Some d" "scmStatusDeliveryKey d = key"
  using assms unfolding scm_store_wf_def by blast

lemma scm_wf_maps: "scm_store_wf r \<Longrightarrow> gm_ok (sr_deliveries r) \<and> gm_ok (sr_index r)"
  unfolding scm_store_wf_def by blast

lemma scm_store_wfI:
  assumes "gm_ok (sr_deliveries r)" "gm_ok (sr_index r)"
    and "\<And>k d. map_of (sr_deliveries r) k = Some d \<Longrightarrow>
        sd_ID d = k \<and> trimmed k \<and> k \<noteq> [] \<and> valid_row d \<and> map_of (sr_index r) (scmStatusDeliveryKey d) = Some k"
    and "\<And>key k. map_of (sr_index r) key = Some k \<Longrightarrow> \<exists>d. map_of (sr_deliveries r) k = Some d \<and> scmStatusDeliveryKey d = key"
  shows "scm_store_wf r"
  unfolding scm_store_wf_def using assms by blast

lemma scm_wf_replace:
  assumes wf: "scm_store_wf r" and d: "map_of (sr_deliveries r) k = Some d"
    and d': "sd_ID d' = k" "scmStatusDeliveryKey d' = scmStatusDeliveryKey d" "valid_row d'"
  shows "scm_store_wf (r\<lparr>sr_deliveries := gm_put k d' (sr_deliveries r)\<rparr>)" (is "scm_store_wf ?r")
proof (rule scm_store_wfI)
  fix j e assume "map_of (sr_deliveries ?r) j = Some e"
  then show "sd_ID e = j \<and> trimmed j \<and> j \<noteq> [] \<and> valid_row e \<and> map_of (sr_index ?r) (scmStatusDeliveryKey e) = Some j"
    using scm_wf_row [OF wf, of j e] scm_wf_row [OF wf d] d' by (cases "j = k") auto
next
  fix key j assume "map_of (sr_index ?r) key = Some j"
  then obtain e where "map_of (sr_deliveries r) j = Some e" "scmStatusDeliveryKey e = key"
    using scm_wf_index [OF wf, of key j] by auto
  then show "\<exists>e. map_of (sr_deliveries ?r) j = Some e \<and> scmStatusDeliveryKey e = key"
    using d d'(2) by (cases "j = k") auto
qed (simp_all add: scm_wf_maps [OF wf])

lemma scm_wf_create:
  assumes wf: "scm_store_wf r" and new: "map_of (sr_deliveries r) k = None" "map_of (sr_index r) key = None"
    and d: "sd_ID d = k" "scmStatusDeliveryKey d = key" "valid_row d" "trimmed k" "k \<noteq> []"
  shows "scm_store_wf (r\<lparr>sr_deliveries := gm_put k d (sr_deliveries r), sr_index := gm_put key k (sr_index r)\<rparr>)"
    (is "scm_store_wf ?r")
proof (rule scm_store_wfI)
  fix j e assume "map_of (sr_deliveries ?r) j = Some e"
  then show "sd_ID e = j \<and> trimmed j \<and> j \<noteq> [] \<and> valid_row e \<and> map_of (sr_index ?r) (scmStatusDeliveryKey e) = Some j"
    using scm_wf_row [OF wf, of j e] new d by (cases "j = k") auto
next
  fix l j assume "map_of (sr_index ?r) l = Some j"
  then consider "l = key" "j = k" | e where "map_of (sr_deliveries r) j = Some e" "scmStatusDeliveryKey e = l"
    using scm_wf_index [OF wf, of l j] by (auto split: if_splits)
  then show "\<exists>e. map_of (sr_deliveries ?r) j = Some e \<and> scmStatusDeliveryKey e = l"
    using new d by cases auto
qed (simp_all add: scm_wf_maps [OF wf])

section \<open>Every operation keeps it\<close>

lemma store_row_wf:
  assumes "scm_store_wf r" "map_of (sr_deliveries r) k = Some d"
    and "sd_ID d' = sd_ID d" "scmStatusDeliveryKey d' = scmStatusDeliveryKey d" "sd_MaxAttempts d' = sd_MaxAttempts d"
  shows "scm_store_wf (fst (store_row d' r))"
proof (cases "SCMStatusDelivery_Validate d'")
  case None
  moreover have "valid_row d'"
    using None assms scm_wf_row(4) [OF assms(1,2)] by (simp add: valid_row_def)
  ultimately show ?thesis
    using scm_wf_replace [OF assms(1,2), of d'] scm_wf_row(1) [OF assms(1,2)] assms by (simp add: store_row_def)
qed (simp add: store_row_def assms)

lemma MarkSent_wf: "scm_store_wf r \<Longrightarrow> scm_store_wf (fst (MarkSent ctx input r))"
  by (auto simp: MarkSent_def split: option.splits intro!: store_row_wf key_cong)

lemma recordFailure_wf: "scm_store_wf r \<Longrightarrow> scm_store_wf (fst (recordFailure ctx input status r))"
  by (auto simp: recordFailure_def split: option.splits intro!: store_row_wf key_cong)

lemma MarkSuperseded_wf: "scm_store_wf r \<Longrightarrow> scm_store_wf (fst (MarkSuperseded ctx input r))"
  by (auto simp: MarkSuperseded_def split: option.splits intro!: store_row_wf key_cong)

lemma claimFresh_valid:
  assumes "claimFreshSCMStatusDelivery uuid k createdAt d now owner dur maxAttempts sent = Inr e" and "maxAttempts < 2 ^ 63"
  shows "valid_row e" and "scmStatusDeliveryKey e = scmStatusDeliveryKey d"
    and "trimmed k \<Longrightarrow> k \<noteq> [] \<Longrightarrow> sd_ID e = k"
proof -
  have e: "e = (SCMStatusDelivery_Normalize d)\<lparr>sd_ID := (if TrimSpace k = [] then uuid else TrimSpace k),
      sd_CreatedAt := (if createdAt = 0 then now else createdAt), sd_UpdatedAt := now,
      sd_Status := SCMStatusDeliveryStatusSending, sd_Attempts := 1, sd_MaxAttempts := maxAttempts,
      sd_LastAttemptAt := Some now, sd_NextAttemptAt := None, sd_ClaimedAt := Some now,
      sd_ClaimExpiresAt := Some (now + dur), sd_ClaimedBy := Some owner,
      sd_FailureCategory := None, sd_FailureReason := None, sd_LastError := None,
      sd_SentAt := None, sd_SupersededAt := None, sd_LastSentState := sent\<rparr>"
    and v: "SCMStatusDelivery_Validate e = None"
    using assms(1) by (auto simp: claimFreshSCMStatusDelivery_def Let_def split: option.splits)
  show "valid_row e" using v assms(2) by (simp add: valid_row_def e)
  have "scmStatusDeliveryKey e = scmStatusDeliveryKey (SCMStatusDelivery_Normalize d)" by (rule key_cong) (simp_all add: e)
  then show "scmStatusDeliveryKey e = scmStatusDeliveryKey d" by simp
  show "trimmed k \<Longrightarrow> k \<noteq> [] \<Longrightarrow> sd_ID e = k" by (simp add: e TrimSpace_id)
qed

text \<open>The row that a claim of an unknown stream creates.\<close>

definition created_row :: "string \<Rightarrow> SCMStatusDeliveryClaimInput \<Rightarrow> SCMStatusDelivery" where
  "created_row uuid input =
     (let d = SCMStatusDelivery_Normalize (ci_Delivery input); now = ci_Now input
      in d\<lparr>sd_ID := (if TrimSpace (sd_ID d) = [] then uuid else sd_ID d),
           sd_CreatedAt := (if sd_CreatedAt d = 0 then now else sd_CreatedAt d), sd_UpdatedAt := now,
           sd_Status := SCMStatusDeliveryStatusSending, sd_Attempts := 1, sd_MaxAttempts := ci_MaxAttempts input,
           sd_LastAttemptAt := Some now, sd_NextAttemptAt := None, sd_ClaimedAt := Some now,
           sd_ClaimExpiresAt := Some (now + ci_ClaimDuration input), sd_ClaimedBy := Some (TrimSpace (ci_ClaimOwner input)),
           sd_FailureCategory := None, sd_FailureReason := None, sd_LastError := None,
           sd_SentAt := None, sd_SupersededAt := None, sd_LastSentState := None\<rparr>)"

definition input_key :: "SCMStatusDeliveryClaimInput \<Rightarrow> string" where
  "input_key input = scmStatusDeliveryKey (ci_Delivery input)"

definition claim_input_ok :: "SCMStatusDeliveryClaimInput \<Rightarrow> bool" where
  "claim_input_ok input \<longleftrightarrow> SCMStatusDelivery_ValidateIdentity (ci_Delivery input) = None \<and> ci_Now input \<noteq> 0 \<and>
     TrimSpace (ci_ClaimOwner input) \<noteq> [] \<and> 0 < ci_ClaimDuration input \<and> 0 < ci_MaxAttempts input"

lemma normalizeSCMClaimInput_Inr:
  "normalizeSCMClaimInput input = Inr x \<longleftrightarrow> claim_input_ok input \<and>
     x = (SCMStatusDelivery_Normalize (ci_Delivery input), ci_Now input, TrimSpace (ci_ClaimOwner input), ci_ClaimDuration input)"
  by (auto simp: normalizeSCMClaimInput_def claim_input_ok_def Let_def split: option.splits)

lemma Acquire_error: "AcquireForDelivery uuid ctx input r = (r', Inl err) \<Longrightarrow> r' = r"
  by (auto simp: AcquireForDelivery_def Let_def split: option.splits sum.splits prod.splits)

lemma Acquire_cases:
  assumes "AcquireForDelivery uuid ctx input r = (r', Inr res)" and wf: "scm_store_wf r"
  obtains
    (created) "ctx = None" "claim_input_ok input" "map_of (sr_index r) (input_key input) = None"
      "SCMStatusDelivery_Validate (created_row uuid input) = None"
      "r' = r\<lparr>sr_deliveries := gm_put (sd_ID (created_row uuid input)) (created_row uuid input) (sr_deliveries r),
             sr_index := gm_put (input_key input) (sd_ID (created_row uuid input)) (sr_index r)\<rparr>"
      "res = \<lparr>cr_Delivery = created_row uuid input, cr_Outcome = CreatedClaimed, cr_ReassertAfter = None\<rparr>"
  | (existing) k e persist where "ctx = None" "claim_input_ok input" "map_of (sr_index r) (input_key input) = Some k"
      "map_of (sr_deliveries r) k = Some e" "scmStatusDeliveryKey e = input_key input"
      "reconcileSCMStatusDeliveryForClaim uuid e (SCMStatusDelivery_Normalize (ci_Delivery input)) (ci_Now input)
         (TrimSpace (ci_ClaimOwner input)) (ci_ClaimDuration input) (ci_MaxAttempts input) =
         Inr (cr_Delivery res, cr_Outcome res, persist, cr_ReassertAfter res)"
      "r' = (if persist then r\<lparr>sr_deliveries := gm_put k (cr_Delivery res) (sr_deliveries r)\<rparr> else r)"
proof (cases "map_of (sr_index r) (input_key input)")
  case None
  then show ?thesis
    using assms(1) by (intro created)
      (auto simp: AcquireForDelivery_def normalizeSCMClaimInput_Inr Let_def input_key_def created_row_def
        split: option.splits sum.splits prod.splits)
next
  case (Some k)
  then obtain e where e: "map_of (sr_deliveries r) k = Some e" "scmStatusDeliveryKey e = input_key input"
    using scm_wf_index [OF wf] by blast
  show ?thesis
    using assms(1) Some e
    by (auto simp: AcquireForDelivery_def normalizeSCMClaimInput_Inr Let_def input_key_def gm_get_or_def
        split: option.splits sum.splits prod.splits intro: existing [of k e])
qed

lemma Compare_Normalize [simp]:
  "CompareSCMStatusDeliveryOwners (SCMStatusDelivery_Normalize d) e = CompareSCMStatusDeliveryOwners d e"
  "CompareSCMStatusDeliveryOwners d (SCMStatusDelivery_Normalize e) = CompareSCMStatusDeliveryOwners d e"
  by (simp_all add: CompareSCMStatusDeliveryOwners_def)

lemma Reassert_Normalize [simp]:
  "SCMStatusDeliveryReassertAfterReplacement (SCMStatusDelivery_Normalize d) now = SCMStatusDeliveryReassertAfterReplacement d now"
  by (simp add: SCMStatusDeliveryReassertAfterReplacement_def)

lemma claimSCM_Normalize [simp]:
  "claimSCMStatusDelivery (SCMStatusDelivery_Normalize d) now owner dur = claimSCMStatusDelivery d now owner dur"
  by (simp add: claimSCMStatusDelivery_def)

lemma claimFresh_Normalize [simp]:
  "claimFreshSCMStatusDelivery uuid k c (SCMStatusDelivery_Normalize d) = claimFreshSCMStatusDelivery uuid k c d"
  by (rule ext)+ (simp add: claimFreshSCMStatusDelivery_def)

abbreviation "obsolete e d \<equiv> SCMStatusDeliveryIncomingStateObsolete (SCMStatusDelivery_Normalize e) (SCMStatusDelivery_Normalize d)"
abbreviation "replaces e d \<equiv> SCMStatusDeliveryShouldReplaceCurrentState (SCMStatusDelivery_Normalize e) (SCMStatusDelivery_Normalize d)"

lemma reconcile_cases:
  assumes "reconcileSCMStatusDeliveryForClaim uuid e d now owner dur maxAttempts = Inr (c, out, persist, ra)"
  obtains
    (older) "CompareSCMStatusDeliveryOwners e d > 0" "c = SCMStatusDelivery_Normalize e" "out = SupersededClaim" "\<not> persist" "ra = None"
  | (newer) "CompareSCMStatusDeliveryOwners e d < 0" "out = CreatedClaimed" "persist" "ra = SCMStatusDeliveryReassertAfterReplacement e now"
      "claimFreshSCMStatusDelivery uuid (sd_ID e) (sd_CreatedAt e) d now owner dur maxAttempts None = Inr c"
  | (obsolete) "CompareSCMStatusDeliveryOwners e d = 0" "obsolete e d"
      "c = SCMStatusDelivery_Normalize e" "out = SupersededClaim" "\<not> persist" "ra = None"
  | (replace) "CompareSCMStatusDeliveryOwners e d = 0" "\<not> obsolete e d" "replaces e d" "out = CreatedClaimed" "persist"
      "ra = SCMStatusDeliveryReassertAfterReplacement e now"
      "claimFreshSCMStatusDelivery uuid (sd_ID e) (sd_CreatedAt e) d now owner dur maxAttempts (trimOptional (sd_LastSentState e)) = Inr c"
  | (claim) "CompareSCMStatusDeliveryOwners e d = 0" "\<not> obsolete e d" "\<not> replaces e d"
      "claimSCMStatusDelivery e now owner dur = (c, out)" "persist = (out = RetryClaimed \<or> out = StaleClaimReclaimed)" "ra = None"
  using assms
  by (auto simp: reconcileSCMStatusDeliveryForClaim_def Let_def split: if_splits sum.splits prod.splits intro: that)

lemma claimSCM_outcome:
  assumes "claimSCMStatusDelivery e now owner dur = (c, out)"
  shows "out = SCMStatusDeliveryClaimOutcomeFromExisting (SCMStatusDelivery_Normalize e) now"
    and "sd_ID c = sd_ID e" and "scmStatusDeliveryKey c = scmStatusDeliveryKey e"
proof -
  have c: "c = fst (claimSCMStatusDelivery e now owner dur)" and o: "out = snd (claimSCMStatusDelivery e now owner dur)"
    using assms by auto
  show "out = SCMStatusDeliveryClaimOutcomeFromExisting (SCMStatusDelivery_Normalize e) now"
    by (simp add: o claimSCMStatusDelivery_def Let_def)
  show "sd_ID c = sd_ID e" by (simp add: c claimSCMStatusDelivery_def Let_def)
  have "scmStatusDeliveryKey c = scmStatusDeliveryKey (SCMStatusDelivery_Normalize e)"
    by (rule key_cong) (simp_all add: c claimSCMStatusDelivery_def Let_def)
  then show "scmStatusDeliveryKey c = scmStatusDeliveryKey e" by simp
qed

lemma FromExisting_not_Created: "SCMStatusDeliveryClaimOutcomeFromExisting d now \<noteq> CreatedClaimed"
  by (auto simp: SCMStatusDeliveryClaimOutcomeFromExisting_def split: option.splits)

text \<open>A row that a claim writes over an existing one keeps its place and is valid.\<close>

lemma reconcile_row:
  assumes rec: "reconcileSCMStatusDeliveryForClaim uuid e d now owner dur maxAttempts = Inr (c, out, persist, ra)" and "persist"
    and e: "valid_row e" "trimmed (sd_ID e)" "sd_ID e \<noteq> []" and key: "scmStatusDeliveryKey e = scmStatusDeliveryKey d"
    and "0 < now" "0 < dur" "trimmed owner" "owner \<noteq> []" "maxAttempts < 2 ^ 63"
  shows "valid_row c" "sd_ID c = sd_ID e" "scmStatusDeliveryKey c = scmStatusDeliveryKey e"
proof -
  have "valid_row c \<and> sd_ID c = sd_ID e \<and> scmStatusDeliveryKey c = scmStatusDeliveryKey e"
    using rec
  proof (cases rule: reconcile_cases)
    case newer
    then show ?thesis using claimFresh_valid [OF newer(5)] assms by simp
  next
    case replace
    then show ?thesis using claimFresh_valid [OF replace(7)] assms by simp
  next
    case claim
    then show ?thesis using claimSCM_outcome [OF claim(4)] claim_valid [OF e(1), of now dur owner] assms by auto
  qed (use \<open>persist\<close> in simp_all)
  then show "valid_row c" "sd_ID c = sd_ID e" "scmStatusDeliveryKey c = scmStatusDeliveryKey e" by simp_all
qed

text \<open>
  What the store asks of its callers: the clock is past the zero time, integers are 64-bit, and the
  ID of a new row (the caller's or a fresh UUID) is trimmed and not in use.
\<close>

definition acquire_pre :: "string \<Rightarrow> SCMStatusDeliveryClaimInput \<Rightarrow> SCMStatusDeliveryRepository \<Rightarrow> bool" where
  "acquire_pre uuid input r \<longleftrightarrow> 0 < ci_Now input \<and> ci_MaxAttempts input < 2 ^ 63 \<and>
     (map_of (sr_index r) (input_key input) = None \<longrightarrow>
        (let k = (if TrimSpace (sd_ID (ci_Delivery input)) = [] then uuid else sd_ID (ci_Delivery input))
         in trimmed k \<and> k \<noteq> [] \<and> map_of (sr_deliveries r) k = None))"

lemma created_row_sel:
  "sd_ID (created_row uuid input) = (if TrimSpace (sd_ID (ci_Delivery input)) = [] then uuid else sd_ID (ci_Delivery input))"
  "scmStatusDeliveryKey (created_row uuid input) = input_key input"
  "sd_MaxAttempts (created_row uuid input) = ci_MaxAttempts input"
proof -
  have "scmStatusDeliveryKey (created_row uuid input) = scmStatusDeliveryKey (SCMStatusDelivery_Normalize (ci_Delivery input))"
    by (rule key_cong) (simp_all add: created_row_def Let_def)
  then show "scmStatusDeliveryKey (created_row uuid input) = input_key input" by (simp add: input_key_def)
qed (simp_all add: created_row_def Let_def)

lemma Acquire_wf:
  assumes wf: "scm_store_wf r" and pre: "acquire_pre uuid input r"
  shows "scm_store_wf (fst (AcquireForDelivery uuid ctx input r))"
proof (cases "AcquireForDelivery uuid ctx input r")
  case (Pair r' x)
  show ?thesis
  proof (cases x)
    case (Inl err)
    then show ?thesis using Pair Acquire_error [of uuid ctx input r] wf by auto
  next
    case (Inr res)
    with Pair have "AcquireForDelivery uuid ctx input r = (r', Inr res)" by simp
    then have "scm_store_wf r'" using wf
    proof (cases rule: Acquire_cases)
      case created
      then show ?thesis
        using scm_wf_create [OF wf _ created(3), of "sd_ID (created_row uuid input)" "created_row uuid input"] pre
        by (simp add: created_row_sel acquire_pre_def Let_def valid_row_def)
    next
      case (existing k e persist)
      note e = scm_wf_row [OF wf existing(4)]
      show ?thesis
      proof (cases persist)
        case True
        have "valid_row (cr_Delivery res)" "sd_ID (cr_Delivery res) = sd_ID e" "scmStatusDeliveryKey (cr_Delivery res) = scmStatusDeliveryKey e"
          using reconcile_row [OF existing(6) True] e existing(2,5) pre
          by (simp_all add: claim_input_ok_def acquire_pre_def input_key_def)
        then show ?thesis using scm_wf_replace [OF wf existing(4)] existing(7) True e by simp
      qed (simp add: existing wf)
    qed
    then show ?thesis by (simp add: Pair)
  qed
qed

end
