(* ===== verification/SCM_Status_Reporter.thy ===== *)
theory SCM_Status_Reporter
  imports SCM_Status_Invariant Build_Preparation
begin

text \<open>
  The reporter of commit statuses (\<open>service/build/scm_status_reporting.go\<close>), its retry policy
  (\<open>scm_status_delivery_policy.go\<close>) and the drain that recovers deliveries (\<open>scm_status_recovery_drain.go\<close>).

  The reporter shares the delivery store with other processes and talks to services. What these do is
  the environment: the \<open>n\<close>-th interaction of the reporter sees the answers of \<open>Environment\<close> at \<open>n\<close>,
  and \<open>env_others n\<close> is what other processes did to the store since the interaction before. The requests
  that reached the publisher are kept in order, each with the publisher's answer.
\<close>

section \<open>Retry policy\<close>

definition defaultSCMStatusDeliveryMaxAttempts :: int where "defaultSCMStatusDeliveryMaxAttempts = 3"
definition defaultSCMStatusDeliveryClaimDuration :: int where "defaultSCMStatusDeliveryClaimDuration = 2 * (60 * 1000000000)"
definition defaultSCMStatusRetryInitialDelay :: int where "defaultSCMStatusRetryInitialDelay = 30 * 1000000000"
definition defaultSCMStatusRetryMaxDelay :: int where "defaultSCMStatusRetryMaxDelay = 10 * (60 * 1000000000)"

record scmStatusRetryPolicy =
  rpol_maxAttempts :: int
  rpol_initialDelay :: int
  rpol_maxDelay :: int

definition defaultSCMStatusRetryPolicy :: scmStatusRetryPolicy where
  "defaultSCMStatusRetryPolicy =
     \<lparr>rpol_maxAttempts = defaultSCMStatusDeliveryMaxAttempts, rpol_initialDelay = defaultSCMStatusRetryInitialDelay,
      rpol_maxDelay = defaultSCMStatusRetryMaxDelay\<rparr>"

definition scm_delayForAttempt :: "scmStatusRetryPolicy \<Rightarrow> int \<Rightarrow> int" where
  "scm_delayForAttempt p attempt =
     (if attempt \<le> 1 then rpol_initialDelay p
      else backoff_loop (rpol_maxDelay p) (rpol_initialDelay p) (nat (attempt - 1)))"

definition scmStatusClaimDuration :: "int \<Rightarrow> int" where
  "scmStatusClaimDuration value = (if value > 0 then value else defaultSCMStatusDeliveryClaimDuration)"

definition scmStatusClaimOwner :: "string \<Rightarrow> string" where
  "scmStatusClaimOwner value = (let trimmed = TrimSpace value in if trimmed \<noteq> [] then trimmed else ''inline-scm-status-reporter'')"

section \<open>Texts\<close>

definition maxSCMStatusContextLength :: int where "maxSCMStatusContextLength = 100"
definition maxSCMStatusDescriptionLength :: int where "maxSCMStatusDescriptionLength = 140"
definition maxSCMStatusStoredErrorLength :: int where "maxSCMStatusStoredErrorLength = 1024"

definition truncateSCMStatusText :: "string \<Rightarrow> int \<Rightarrow> string" where
  "truncateSCMStatusText value maxRunes =
     (let trimmed = TrimSpace value
      in if maxRunes \<le> 0 \<or> trimmed = [] then trimmed
         else if int (length trimmed) \<le> maxRunes then trimmed
         else TrimSpace (take (nat maxRunes) trimmed))"

definition scmStatusContextName :: "string \<Rightarrow> string \<Rightarrow> string" where
  "scmStatusContextName projectSlug jobID =
     (let prefix = ''coyote/''; trimmedJobID = TrimSpace jobID; trimmedSlug = TrimSpace projectSlug;
          availableSlugRunes = maxSCMStatusContextLength - int (length prefix) - int (length trimmedJobID) - 1
      in if availableSlugRunes \<le> 0 then truncateSCMStatusText (prefix @ trimmedJobID) maxSCMStatusContextLength
         else prefix @ truncateSCMStatusText trimmedSlug availableSlugRunes @ ''/'' @ trimmedJobID)"

text \<open>\<open>url.PathEscape\<close>: unreserved characters and \<open>$&+=:@\<close> stay, the bytes of the others are escaped.\<close>

definition utf8_bytes :: "char \<Rightarrow> nat list" where
  "utf8_bytes c = (let n = of_char c :: nat in if n < 128 then [n] else [192 + n div 64, 128 + n mod 64])"

definition path_escape_byte :: "nat \<Rightarrow> string" where
  "path_escape_byte n = [CHR ''%'', ''0123456789ABCDEF'' ! (n div 16), ''0123456789ABCDEF'' ! (n mod 16)]"

definition path_unescaped :: "char \<Rightarrow> bool" where
  "path_unescaped c =
     (let n = of_char c :: nat
      in 48 \<le> n \<and> n \<le> 57 \<or> 65 \<le> n \<and> n \<le> 90 \<or> 97 \<le> n \<and> n \<le> 122 \<or> List.member ''-_.~$&+=:@'' c)"

definition PathEscape :: "string \<Rightarrow> string" where
  "PathEscape s = concat (map (\<lambda>c. if path_unescaped c then [c] else concat (map path_escape_byte (utf8_bytes c))) s)"

definition buildFrontendEntityURL :: "string \<Rightarrow> string \<Rightarrow> string \<Rightarrow> string" where
  "buildFrontendEntityURL publicBaseURL pathPrefix entityID =
     (let base = TrimRightChar CHR ''/'' (TrimSpace publicBaseURL); trimmedID = TrimSpace entityID
      in if base = [] \<or> trimmedID = [] then [] else base @ pathPrefix @ PathEscape trimmedID)"

definition buildBuildDetailURL :: "string \<Rightarrow> string \<Rightarrow> string" where
  "buildBuildDetailURL publicBaseURL buildID = buildFrontendEntityURL publicBaseURL ''/builds/'' buildID"

definition scmStatusDetailsURL :: "string \<Rightarrow> string \<Rightarrow> string option" where
  "scmStatusDetailsURL publicBaseURL buildID =
     (let urlValue = buildBuildDetailURL publicBaseURL buildID in if TrimSpace urlValue = [] then None else Some urlValue)"

section \<open>What a build reports\<close>

definition scmStatusCommitSHA :: "Build \<Rightarrow> string" where
  "scmStatusCommitSHA build =
     (let trigger = NormalizeBuildTrigger (b_Trigger build);
          candidates = map TrimSpace [readOptionalString (b_CommitSHA build), readOptionalString (b_SourceSHA build),
                                      readOptionalString (t_CommitSHA trigger)]
      in case filter (\<lambda>s. s \<noteq> []) candidates of [] \<Rightarrow> [] | s # _ \<Rightarrow> s)"

fun scmStatusState :: "BuildStatus \<Rightarrow> string \<times> string" where
  "scmStatusState BuildStatusPending = (SCMCommitStatusStatePending, ''Coyote build is pending'')"
| "scmStatusState BuildStatusQueued = (SCMCommitStatusStatePending, ''Coyote build is queued'')"
| "scmStatusState BuildStatusPreparing = (SCMCommitStatusStatePending, ''Coyote build is preparing'')"
| "scmStatusState BuildStatusRunning = (SCMCommitStatusStatePending, ''Coyote build is running'')"
| "scmStatusState BuildStatusSuccess = (SCMCommitStatusStateSuccess, ''Coyote build succeeded'')"
| "scmStatusState BuildStatusFailed = (SCMCommitStatusStateFailure, ''Coyote build failed'')"
| "scmStatusState BuildStatusCanceled = (SCMCommitStatusStateError, ''Coyote build was canceled'')"

definition scmStatusStateForBuild :: "Build \<Rightarrow> string \<times> string" where
  "scmStatusStateForBuild build = scmStatusState (b_Status build)"

definition scmStatusBuildCreatedAt :: "Build \<Rightarrow> time \<Rightarrow> time" where
  "scmStatusBuildCreatedAt build fallback = (if b_CreatedAt build \<noteq> 0 then b_CreatedAt build else fallback)"

section \<open>Failures\<close>

fun dlv_error_text :: "dlv_error \<Rightarrow> string" where
  "dlv_error_text ErrSCMStatusDeliveryNotFound = ''scm status delivery not found''"
| "dlv_error_text ErrNotificationDeliveryNotFound = ''notification delivery not found''"
| "dlv_error_text ErrNotificationDeliveryDuplicate = ''notification delivery already exists''"
| "dlv_error_text ErrCanceled = ''context canceled''"
| "dlv_error_text ErrDeadlineExceeded = ''context deadline exceeded''"
| "dlv_error_text (ErrNet _ msg) = msg"
| "dlv_error_text (ErrPublisher _ _ msg _) = msg"
| "dlv_error_text (ErrPlain err) = go_error_text err"
| "dlv_error_text (ErrJoin es) = JoinChar CHR 0x0A (map dlv_error_text es)"

record scmStatusFailureDecision =
  fd_category :: string
  fd_reason :: string
  fd_retryable :: bool

text \<open>\<open>errors.As\<close> stops at the first network error, or publisher error, of the chain.\<close>

fun first_net :: "dlv_error list \<Rightarrow> bool option" where
  "first_net [] = None"
| "first_net (ErrNet timeout _ # es) = Some timeout"
| "first_net (ErrDeadlineExceeded # es) = Some True"
| "first_net (_ # es) = first_net es"

fun first_publisher :: "dlv_error list \<Rightarrow> (bool \<times> string) option" where
  "first_publisher [] = None"
| "first_publisher (ErrPublisher retryable reason _ _ # es) = Some (retryable, reason)"
| "first_publisher (_ # es) = first_publisher es"

definition classifySCMStatusDeliveryFailure :: "dlv_error \<Rightarrow> scmStatusFailureDecision" where
  "classifySCMStatusDeliveryFailure err =
     (if is_context_error err
      then \<lparr>fd_category = SCMStatusDeliveryFailureCategoryRetryable, fd_reason = ''context_canceled'', fd_retryable = True\<rparr>
      else if first_net (err_chain err) = Some True
      then \<lparr>fd_category = SCMStatusDeliveryFailureCategoryRetryable, fd_reason = ''network_timeout'', fd_retryable = True\<rparr>
      else case first_publisher (err_chain err) of
             Some (retryable, reason) \<Rightarrow>
               \<lparr>fd_category = (if retryable then SCMStatusDeliveryFailureCategoryRetryable else SCMStatusDeliveryFailureCategoryPermanent),
                fd_reason = reason, fd_retryable = retryable\<rparr>
           | None \<Rightarrow>
               \<lparr>fd_category = SCMStatusDeliveryFailureCategoryRetryable, fd_reason = ''github_status_send_failed'', fd_retryable = True\<rparr>)"

section \<open>Requests to the publisher\<close>

record SCMCommitStatusPublishRequest =
  pq_Provider :: string
  pq_RepositoryOwner :: string
  pq_RepositoryName :: string
  pq_RegisteredRepositoryID :: "string option"
  pq_SCMConnectionID :: "string option"
  pq_ProviderRepositoryID :: "string option"
  pq_CommitSHA :: string
  pq_Context :: string
  pq_State :: string
  pq_Description :: string
  pq_DetailsURL :: "string option"

text \<open>The request that \<open>executeClaimedDelivery\<close> builds, and the one of the reassertion.\<close>

definition claimed_request :: "SCMStatusDelivery \<Rightarrow> SCMCommitStatusPublishRequest" where
  "claimed_request delivery =
     \<lparr>pq_Provider = sd_Provider delivery, pq_RepositoryOwner = sd_RepositoryOwner delivery, pq_RepositoryName = sd_RepositoryName delivery,
      pq_RegisteredRepositoryID = sd_RegisteredRepositoryID delivery, pq_SCMConnectionID = sd_SCMConnectionID delivery,
      pq_ProviderRepositoryID = sd_ProviderRepositoryID delivery, pq_CommitSHA = sd_CommitSHA delivery,
      pq_Context = sd_Context delivery, pq_State = sd_DesiredState delivery, pq_Description = sd_Description delivery,
      pq_DetailsURL = sd_DetailsURL delivery\<rparr>"

definition scmStatusPublishRequest :: "SCMStatusDelivery \<Rightarrow> SCMCommitStatusPublishRequest" where
  "scmStatusPublishRequest delivery =
     \<lparr>pq_Provider = sd_Provider delivery, pq_RepositoryOwner = sd_RepositoryOwner delivery, pq_RepositoryName = sd_RepositoryName delivery,
      pq_RegisteredRepositoryID = None, pq_SCMConnectionID = None, pq_ProviderRepositoryID = None,
      pq_CommitSHA = sd_CommitSHA delivery, pq_Context = sd_Context delivery, pq_State = sd_DesiredState delivery,
      pq_Description = sd_Description delivery, pq_DetailsURL = sd_DetailsURL delivery\<rparr>"

definition scmStatusPublishEquivalent :: "SCMStatusDelivery \<Rightarrow> SCMStatusDelivery \<Rightarrow> bool" where
  "scmStatusPublishEquivalent left0 right0 =
     (let l = SCMStatusDelivery_Normalize left0; r = SCMStatusDelivery_Normalize right0
      in if sd_Provider l \<noteq> sd_Provider r \<or> sd_RepositoryOwner l \<noteq> sd_RepositoryOwner r \<or> sd_RepositoryName l \<noteq> sd_RepositoryName r \<or>
            sd_CommitSHA l \<noteq> sd_CommitSHA r \<or> sd_Context l \<noteq> sd_Context r then False
         else if sd_DesiredState l \<noteq> sd_DesiredState r \<or> sd_Description l \<noteq> sd_Description r then False
         else readOptionalString (sd_DetailsURL l) = readOptionalString (sd_DetailsURL r))"

text \<open>
  The check with which the publisher of the GitHub App starts
  (\<open>service/build/github_app_commit_status_publisher.go\<close>): a request without the repository's identity
  is an error that no retry repairs.
\<close>

definition scmStatusIdentityError :: "string \<Rightarrow> string \<Rightarrow> dlv_error" where
  "scmStatusIdentityError reason msg =
     ErrPublisher False reason (''github commit status failed: status 422: '' @ msg) []"

definition scmStatusRequestIdentity :: "SCMCommitStatusPublishRequest \<Rightarrow> dlv_error + (string \<times> string \<times> string)" where
  "scmStatusRequestIdentity req =
     (case (pq_RegisteredRepositoryID req, pq_SCMConnectionID req, pq_ProviderRepositoryID req) of
        (Some registration, Some connection, Some providerRepository) \<Rightarrow>
          (let registrationID = TrimSpace registration; connectionID = TrimSpace connection;
               providerRepositoryID = TrimSpace providerRepository
           in if registrationID = [] \<or> connectionID = [] \<or> providerRepositoryID = []
              then Inl (scmStatusIdentityError ''github_status_delivery_identity_missing'' ''repository identity snapshot is incomplete'')
              else Inr (registrationID, connectionID, providerRepositoryID))
      | _ \<Rightarrow> Inl (scmStatusIdentityError ''github_status_delivery_identity_missing'' ''repository identity snapshot is required''))"

section \<open>The environment\<close>

record Environment =
  env_now :: "nat \<Rightarrow> time"
  env_ctx :: "nat \<Rightarrow> dlv_error option"
  env_uuid :: "nat \<Rightarrow> string"
  env_build :: "nat \<Rightarrow> string \<Rightarrow> dlv_error + Build"
  env_builds :: "nat \<Rightarrow> string \<Rightarrow> dlv_error + Build list"
  env_slug :: "nat \<Rightarrow> string \<Rightarrow> dlv_error + string"
  env_publish :: "nat \<Rightarrow> SCMCommitStatusPublishRequest \<Rightarrow> dlv_error option"
  env_others :: "nat \<Rightarrow> SCMStatusDeliveryRepository \<Rightarrow> SCMStatusDeliveryRepository"

record World =
  w_deliveries :: SCMStatusDeliveryRepository
  w_tick :: nat
  w_published :: "(SCMCommitStatusPublishRequest \<times> dlv_error option) list"

definition ask :: "(nat \<Rightarrow> 'a) \<Rightarrow> World \<Rightarrow> World \<times> 'a" where
  "ask f w = (w\<lparr>w_tick := Suc (w_tick w)\<rparr>, f (w_tick w))"

definition with_store ::
  "Environment \<Rightarrow> (string \<Rightarrow> dlv_error option \<Rightarrow> SCMStatusDeliveryRepository \<Rightarrow> SCMStatusDeliveryRepository \<times> 'a) \<Rightarrow> World \<Rightarrow> World \<times> 'a" where
  "with_store env f w =
     (let n = w_tick w
      in case f (env_uuid env n) (env_ctx env n) (env_others env n (w_deliveries w)) of
           (r, x) \<Rightarrow> (w\<lparr>w_deliveries := r, w_tick := Suc n\<rparr>, x))"

definition publish :: "Environment \<Rightarrow> SCMCommitStatusPublishRequest \<Rightarrow> World \<Rightarrow> World \<times> dlv_error option" where
  "publish env req w =
     (let n = w_tick w; answer = env_publish env n req
      in (w\<lparr>w_tick := Suc n, w_published := w_published w @ [(req, answer)]\<rparr>, answer))"

record SCMStatusReporter =
  rep_publicBaseURL :: string
  rep_claimOwner :: string
  rep_claimDuration :: int
  rep_retryPolicy :: scmStatusRetryPolicy

definition NewSCMStatusReporter :: "string \<Rightarrow> string \<Rightarrow> int \<Rightarrow> SCMStatusReporter" where
  "NewSCMStatusReporter publicBaseURL claimOwner claimDuration =
     \<lparr>rep_publicBaseURL = TrimRightChar CHR ''/'' (TrimSpace publicBaseURL), rep_claimOwner = scmStatusClaimOwner claimOwner,
      rep_claimDuration = scmStatusClaimDuration claimDuration, rep_retryPolicy = defaultSCMStatusRetryPolicy\<rparr>"

section \<open>Planning and claiming a delivery\<close>

definition buildContextName :: "Environment \<Rightarrow> Build \<Rightarrow> World \<Rightarrow> World \<times> (dlv_error + string option)" where
  "buildContextName env build w =
     (let jobID = TrimSpace (readOptionalString (b_JobID build))
      in if b_JobID build = None \<or> jobID = [] then (w, Inr None)
         else case ask (\<lambda>n. env_slug env n (TrimSpace (b_ProjectID build))) w of
                (w, Inl err) \<Rightarrow> (w, Inl err)
              | (w, Inr slug) \<Rightarrow>
                  (if TrimSpace slug = [] then (w, Inr None)
                   else (w, Inr (Some (scmStatusContextName (TrimSpace slug) jobID)))))"

definition planned_delivery :: "SCMStatusReporter \<Rightarrow> Build \<Rightarrow> string \<Rightarrow> string \<Rightarrow> time \<Rightarrow> SCMStatusDelivery" where
  "planned_delivery rep build commitSHA contextName now =
     zeroSCMStatusDelivery\<lparr>
       sd_BuildID := TrimSpace (b_ID build), sd_BuildAttempt := b_AttemptNumber build,
       sd_BuildCreatedAt := scmStatusBuildCreatedAt build now, sd_Provider := ''github'',
       sd_RepositoryOwner := ''repository-snapshot'', sd_RepositoryName := ''repository-snapshot'',
       sd_RegisteredRepositoryID := b_RegisteredRepositoryID build, sd_SCMConnectionID := b_SCMConnectionID build,
       sd_ProviderRepositoryID := b_ProviderRepositoryID build, sd_CommitSHA := commitSHA, sd_Context := contextName,
       sd_DesiredState := fst (scmStatusStateForBuild build),
       sd_Description := truncateSCMStatusText (snd (scmStatusStateForBuild build)) maxSCMStatusDescriptionLength,
       sd_DetailsURL := scmStatusDetailsURL (rep_publicBaseURL rep) (b_ID build)\<rparr>"

definition planDelivery ::
  "SCMStatusReporter \<Rightarrow> Environment \<Rightarrow> Build \<Rightarrow> World \<Rightarrow> World \<times> (dlv_error + SCMStatusDelivery option)" where
  "planDelivery rep env build w =
     (if Build_ValidateRepositoryIdentitySnapshot build \<noteq> None \<or> b_RegisteredRepositoryID build = None \<or>
         b_SCMConnectionID build = None \<or> b_ProviderRepositoryID build = None
      then (w, Inr None)
      else let commitSHA = scmStatusCommitSHA build
           in if commitSHA = [] then (w, Inr None)
              else case buildContextName env build w of
                (w, Inl err) \<Rightarrow> (w, Inl err)
              | (w, Inr None) \<Rightarrow> (w, Inr None)
              | (w, Inr (Some contextName)) \<Rightarrow>
                  (case ask (env_now env) w of
                     (w, now) \<Rightarrow> (w, Inr (Some (SCMStatusDelivery_Normalize (planned_delivery rep build commitSHA contextName now))))))"

definition claim_input :: "SCMStatusReporter \<Rightarrow> SCMStatusDelivery \<Rightarrow> time \<Rightarrow> SCMStatusDeliveryClaimInput" where
  "claim_input rep delivery now =
     \<lparr>ci_Delivery = delivery, ci_ClaimOwner = rep_claimOwner rep, ci_Now = now, ci_ClaimDuration = rep_claimDuration rep,
      ci_MaxAttempts = rpol_maxAttempts (rep_retryPolicy rep)\<rparr>"

definition claim_granted :: "SCMStatusDeliveryClaimOutcome \<Rightarrow> bool" where
  "claim_granted outcome \<longleftrightarrow> outcome = CreatedClaimed \<or> outcome = RetryClaimed \<or> outcome = StaleClaimReclaimed"

definition acquire ::
  "SCMStatusReporter \<Rightarrow> Environment \<Rightarrow> SCMStatusDelivery \<Rightarrow> World \<Rightarrow> World \<times> (dlv_error + SCMStatusDeliveryClaimResult)" where
  "acquire rep env delivery w =
     (case ask (env_now env) w of
        (w, now) \<Rightarrow> with_store env (\<lambda>uuid ctx. AcquireForDelivery uuid ctx (claim_input rep delivery now)) w)"

text \<open>The answer says whether to send: the claim when it was granted.\<close>

definition acquireDelivery ::
  "SCMStatusReporter \<Rightarrow> Environment \<Rightarrow> Build \<Rightarrow> World \<Rightarrow> World \<times> (dlv_error + SCMStatusDeliveryClaimResult option)" where
  "acquireDelivery rep env build w =
     (case planDelivery rep env build w of
        (w, Inl err) \<Rightarrow> (w, Inl err)
      | (w, Inr None) \<Rightarrow> (w, Inr None)
      | (w, Inr (Some delivery)) \<Rightarrow>
          (case acquire rep env delivery w of
             (w, Inl err) \<Rightarrow> (w, Inl err)
           | (w, Inr result) \<Rightarrow> (w, Inr (if claim_granted (cr_Outcome result) then Some result else None))))"

section \<open>Closing a delivery\<close>

datatype scmStatusExecutionOutcome =
  OutcomeNone | OutcomeSent | OutcomeReassertScheduled | OutcomeRetryScheduled | OutcomePermanentlyFailed
| OutcomeAttemptsExhausted | OutcomeLostClaim | OutcomeSuperseded

definition claimedSCMStatusTimestamp :: "SCMStatusDelivery \<Rightarrow> dlv_error + time" where
  "claimedSCMStatusTimestamp delivery =
     (let missing = Inl (ErrPlain (Errorf ''scm status delivery claim timestamp is required''))
      in case sd_ClaimedAt delivery of None \<Rightarrow> missing | Some t \<Rightarrow> if t = 0 then missing else Inr t)"

text \<open>What the reporter answers for the result of an update: \<open>done\<close> unless the claim was lost.\<close>

definition closed ::
  "scmStatusExecutionOutcome \<Rightarrow> World \<times> (dlv_error + SCMStatusDeliveryUpdateResult) \<Rightarrow> World \<times> (dlv_error + scmStatusExecutionOutcome)" where
  "closed done_outcome answer =
     (case answer of
        (w, Inl err) \<Rightarrow> (w, Inl err)
      | (w, Inr result) \<Rightarrow> (w, Inr (if ur_Outcome result = LostClaim then OutcomeLostClaim else done_outcome)))"

definition markDeliverySent ::
  "SCMStatusReporter \<Rightarrow> Environment \<Rightarrow> SCMStatusDelivery \<Rightarrow> time \<Rightarrow> World \<Rightarrow> World \<times> (dlv_error + scmStatusExecutionOutcome)" where
  "markDeliverySent rep env delivery sentAt w =
     (case claimedSCMStatusTimestamp delivery of
        Inl err \<Rightarrow> (w, Inl err)
      | Inr claimedAt \<Rightarrow>
          closed OutcomeSent (with_store env (\<lambda>_ ctx. MarkSent ctx
            \<lparr>ms_DeliveryID = sd_ID delivery, ms_ClaimOwner = rep_claimOwner rep, ms_ClaimedAt = claimedAt, ms_SentAt = sentAt,
             ms_State = sd_DesiredState delivery\<rparr>) w))"

definition scmStatusFailureReasonAuthoritativeReassert :: string where
  "scmStatusFailureReasonAuthoritativeReassert = ''authoritative_reassert_pending''"

definition markDeliveryReassertPending ::
  "SCMStatusReporter \<Rightarrow> Environment \<Rightarrow> SCMStatusDelivery \<Rightarrow> time \<Rightarrow> time \<Rightarrow> World \<Rightarrow> World \<times> (dlv_error + scmStatusExecutionOutcome)" where
  "markDeliveryReassertPending rep env delivery attemptedAt reassertAt w =
     (case claimedSCMStatusTimestamp delivery of
        Inl err \<Rightarrow> (w, Inl err)
      | Inr claimedAt \<Rightarrow>
          closed OutcomeReassertScheduled (with_store env (\<lambda>_ ctx. RecordRetryableFailure ctx
            \<lparr>rf_DeliveryID = sd_ID delivery, rf_ClaimOwner = rep_claimOwner rep, rf_ClaimedAt = claimedAt, rf_FailedAt = attemptedAt,
             rf_NextAttemptAt = Some reassertAt, rf_FailureCategory = SCMStatusDeliveryFailureCategoryRetryable,
             rf_FailureReason = scmStatusFailureReasonAuthoritativeReassert, rf_LastError = None\<rparr>) w))"

definition markDeliveryFailed ::
  "SCMStatusReporter \<Rightarrow> Environment \<Rightarrow> SCMStatusDelivery \<Rightarrow> dlv_error \<Rightarrow> time \<Rightarrow> World \<Rightarrow> World \<times> (dlv_error + scmStatusExecutionOutcome)" where
  "markDeliveryFailed rep env delivery sendErr attemptedAt w =
     (case claimedSCMStatusTimestamp delivery of
        Inl err \<Rightarrow> (w, Inl err)
      | Inr claimedAt \<Rightarrow>
          (let decision = classifySCMStatusDeliveryFailure sendErr;
               message = truncateSCMStatusText (TrimSpace (dlv_error_text sendErr)) maxSCMStatusStoredErrorLength;
               input = \<lparr>rf_DeliveryID = sd_ID delivery, rf_ClaimOwner = rep_claimOwner rep, rf_ClaimedAt = claimedAt,
                 rf_FailedAt = attemptedAt, rf_NextAttemptAt = None, rf_FailureCategory = fd_category decision,
                 rf_FailureReason = fd_reason decision, rf_LastError = Some message\<rparr>
           in if fd_retryable decision \<and> sd_Attempts delivery < sd_MaxAttempts delivery
              then closed OutcomeRetryScheduled (with_store env (\<lambda>_ ctx. RecordRetryableFailure ctx
                     (input\<lparr>rf_NextAttemptAt := Some (attemptedAt + scm_delayForAttempt (rep_retryPolicy rep) (sd_Attempts delivery))\<rparr>)) w)
              else if fd_retryable decision
              then closed OutcomeAttemptsExhausted (with_store env (\<lambda>_ ctx. RecordExhaustedFailure ctx input) w)
              else closed OutcomePermanentlyFailed (with_store env (\<lambda>_ ctx. RecordPermanentFailure ctx input) w)))"

section \<open>Executing a claimed delivery\<close>

definition newer_build :: "Build \<Rightarrow> SCMStatusDelivery \<Rightarrow> Build \<Rightarrow> bool" where
  "newer_build build delivery candidate \<longleftrightarrow>
     TrimSpace (b_ID candidate) \<noteq> TrimSpace (b_ID build) \<and> scmStatusCommitSHA candidate = sd_CommitSHA delivery \<and>
     (b_AttemptNumber candidate > b_AttemptNumber build \<or>
      b_AttemptNumber candidate = b_AttemptNumber build \<and> b_CreatedAt candidate > b_CreatedAt build)"

definition isSuperseded :: "Environment \<Rightarrow> Build \<Rightarrow> SCMStatusDelivery \<Rightarrow> World \<Rightarrow> World \<times> (dlv_error + bool)" where
  "isSuperseded env build delivery w =
     (let jobID = TrimSpace (readOptionalString (b_JobID build))
      in if b_JobID build = None \<or> jobID = [] then (w, Inr False)
         else case ask (\<lambda>n. env_builds env n jobID) w of
                (w, Inl err) \<Rightarrow> (w, Inl err)
              | (w, Inr builds) \<Rightarrow> (w, Inr (list_ex (newer_build build delivery) builds)))"

definition getAuthoritativeDelivery :: "dlv_error option \<Rightarrow> SCMStatusDelivery \<Rightarrow> SCMStatusDeliveryRepository \<Rightarrow> dlv_error + SCMStatusDelivery" where
  "getAuthoritativeDelivery ctx delivery r =
     (case (sd_SCMConnectionID delivery, sd_ProviderRepositoryID delivery) of
        (Some connectionID, Some providerRepositoryID) \<Rightarrow>
          GetByRepositoryIdentity ctx connectionID providerRepositoryID (sd_CommitSHA delivery) (sd_Context delivery) r
      | _ \<Rightarrow> GetByKey ctx (sd_Provider delivery) (sd_RepositoryOwner delivery) (sd_RepositoryName delivery)
               (sd_CommitSHA delivery) (sd_Context delivery) r)"

definition reassertAuthoritativeDelivery :: "Environment \<Rightarrow> SCMStatusDelivery \<Rightarrow> World \<Rightarrow> World \<times> dlv_error option" where
  "reassertAuthoritativeDelivery env staleDelivery w =
     (case with_store env (\<lambda>_ ctx r. (r, getAuthoritativeDelivery ctx staleDelivery r)) w of
        (w, Inl err) \<Rightarrow> (if err_is err ErrSCMStatusDeliveryNotFound then (w, None) else (w, Some err))
      | (w, Inr authoritative) \<Rightarrow>
          (if scmStatusPublishEquivalent authoritative staleDelivery then (w, None)
           else case publish env (scmStatusPublishRequest authoritative) w of (w, _) \<Rightarrow> (w, None)))"

text \<open>A failure is recorded and returned; a failure to record it is joined to it.\<close>

definition fail_delivery ::
  "SCMStatusReporter \<Rightarrow> Environment \<Rightarrow> SCMStatusDelivery \<Rightarrow> dlv_error \<Rightarrow> World \<Rightarrow> World \<times> scmStatusExecutionOutcome \<times> dlv_error option" where
  "fail_delivery rep env delivery err w =
     (case ask (env_now env) w of
        (w, now) \<Rightarrow>
          (case markDeliveryFailed rep env delivery err now w of
             (w, Inl markErr) \<Rightarrow> (w, OutcomeNone, Some (ErrJoin [err, markErr]))
           | (w, Inr outcome) \<Rightarrow> (w, outcome, Some err)))"

definition supersede_delivery ::
  "SCMStatusReporter \<Rightarrow> Environment \<Rightarrow> SCMStatusDelivery \<Rightarrow> World \<Rightarrow> World \<times> scmStatusExecutionOutcome \<times> dlv_error option" where
  "supersede_delivery rep env delivery w =
     (case claimedSCMStatusTimestamp delivery of
        Inl claimErr \<Rightarrow> (w, OutcomeNone, Some claimErr)
      | Inr claimedAt \<Rightarrow>
          (case ask (env_now env) w of
             (w, now) \<Rightarrow>
               (case closed OutcomeSuperseded (with_store env (\<lambda>_ ctx. MarkSuperseded ctx
                       \<lparr>sup_DeliveryID = sd_ID delivery, sup_ClaimOwner = Some (rep_claimOwner rep), sup_ClaimedAt = Some claimedAt,
                        sup_SupersededAt = now, sup_Reason = ''newer_build_attempt_exists'', sup_LastError = None\<rparr>) w) of
                  (w, Inl err) \<Rightarrow> (w, OutcomeNone, Some err)
                | (w, Inr outcome) \<Rightarrow> (w, outcome, None))))"

text \<open>After the publisher accepted: close the delivery, or schedule its reassertion; a lost claim is reasserted at once.\<close>

definition conclude_delivery ::
  "SCMStatusReporter \<Rightarrow> Environment \<Rightarrow> SCMStatusDelivery \<Rightarrow> time option \<Rightarrow> World \<Rightarrow> World \<times> scmStatusExecutionOutcome \<times> dlv_error option" where
  "conclude_delivery rep env delivery reassertAfter w =
     (case ask (env_now env) w of
        (w, attemptedAt) \<Rightarrow>
          (case (case reassertAfter of
                   Some reassertAt \<Rightarrow> (if reassertAt > attemptedAt then markDeliveryReassertPending rep env delivery attemptedAt reassertAt w
                                     else markDeliverySent rep env delivery attemptedAt w)
                 | None \<Rightarrow> markDeliverySent rep env delivery attemptedAt w) of
             (w, Inl err) \<Rightarrow> (w, OutcomeNone, Some err)
           | (w, Inr outcome) \<Rightarrow>
               (if outcome = OutcomeLostClaim
                then (case reassertAuthoritativeDelivery env delivery w of (w, err) \<Rightarrow> (w, outcome, err))
                else (w, outcome, None))))"

definition executeClaimedDelivery ::
  "SCMStatusReporter \<Rightarrow> Environment \<Rightarrow> SCMStatusDelivery \<Rightarrow> time option \<Rightarrow> World \<Rightarrow> World \<times> scmStatusExecutionOutcome \<times> dlv_error option" where
  "executeClaimedDelivery rep env delivery reassertAfter w =
     (case ask (\<lambda>n. env_build env n (sd_BuildID delivery)) w of
        (w, Inl err) \<Rightarrow> fail_delivery rep env delivery err w
      | (w, Inr build) \<Rightarrow>
          (case isSuperseded env build delivery w of
             (w, Inl supersedeErr) \<Rightarrow> fail_delivery rep env delivery supersedeErr w
           | (w, Inr True) \<Rightarrow> supersede_delivery rep env delivery w
           | (w, Inr False) \<Rightarrow>
               (case publish env (claimed_request delivery) w of
                  (w, Some publishErr) \<Rightarrow>
                    (if is_context_error publishErr then (w, OutcomeNone, Some publishErr)
                     else fail_delivery rep env delivery publishErr w)
                | (w, None) \<Rightarrow> conclude_delivery rep env delivery reassertAfter w)))"

definition NotifyBuildStatus :: "SCMStatusReporter \<Rightarrow> Environment \<Rightarrow> Build \<Rightarrow> World \<Rightarrow> World \<times> dlv_error option" where
  "NotifyBuildStatus rep env build w =
     (case acquireDelivery rep env build w of
        (w, Inl err) \<Rightarrow> (w, Some err)
      | (w, Inr None) \<Rightarrow> (w, None)
      | (w, Inr (Some result)) \<Rightarrow>
          (case executeClaimedDelivery rep env (cr_Delivery result) (cr_ReassertAfter result) w of
             (w, _, executeErr) \<Rightarrow> (w, executeErr)))"

end
