(* ===== verification/SCM_Status_Drain.thy ===== *)
theory SCM_Status_Drain
  imports SCM_Status_Reporter
begin

text \<open>
  The drain that recovers commit status deliveries whose retry is due or whose claim ran out
  (\<open>recoverDelivery\<close> of \<open>scm_status_reporting.go\<close>, \<open>scm_status_recovery_drain.go\<close>). \<open>Run\<close> is the
  ticker loop around \<open>RunIteration\<close>, which is the unit modelled here.
\<close>

record scmStatusRecoveryAttemptResult =
  ra_claimOutcome :: "SCMStatusDeliveryClaimOutcome option"
  ra_executionOutcome :: scmStatusExecutionOutcome
  ra_rehydrationFailed :: bool

definition no_attempt :: scmStatusRecoveryAttemptResult where
  "no_attempt = \<lparr>ra_claimOutcome = None, ra_executionOutcome = OutcomeNone, ra_rehydrationFailed = False\<rparr>"

definition recoverDelivery ::
  "SCMStatusReporter \<Rightarrow> Environment \<Rightarrow> SCMStatusDelivery \<Rightarrow> World \<Rightarrow> World \<times> scmStatusRecoveryAttemptResult \<times> dlv_error option" where
  "recoverDelivery rep env candidate w =
     (case acquire rep env candidate w of
        (w, Inl err) \<Rightarrow> (w, no_attempt, Some err)
      | (w, Inr result) \<Rightarrow>
          (let attempt = no_attempt\<lparr>ra_claimOutcome := Some (cr_Outcome result)\<rparr>
           in if \<not> claim_granted (cr_Outcome result) then (w, attempt, None)
              else case ask (\<lambda>n. env_build env n (sd_BuildID candidate)) w of
                (w, Inl buildErr) \<Rightarrow>
                  (let attempt = attempt\<lparr>ra_rehydrationFailed := True\<rparr>
                   in case ask (env_now env) w of
                        (w, now) \<Rightarrow>
                          (case markDeliveryFailed rep env (cr_Delivery result) buildErr now w of
                             (w, Inl markErr) \<Rightarrow> (w, attempt, Some markErr)
                           | (w, Inr outcome) \<Rightarrow> (w, attempt\<lparr>ra_executionOutcome := outcome\<rparr>, None)))
              | (w, Inr _) \<Rightarrow>
                  (case executeClaimedDelivery rep env (cr_Delivery result) (cr_ReassertAfter result) w of
                     (w, outcome, executeErr) \<Rightarrow> (w, attempt\<lparr>ra_executionOutcome := outcome\<rparr>, executeErr))))"

record SCMStatusRecoveryIterationResult =
  ir_Scanned :: int
  ir_ClaimAcquired :: int
  ir_RetryClaimed :: int
  ir_StaleClaimReclaimed :: int
  ir_Skipped :: int
  ir_SkippedContention :: int
  ir_SkippedNotDue :: int
  ir_SkippedTerminal :: int
  ir_Sent :: int
  ir_ReassertScheduled :: int
  ir_RetryScheduled :: int
  ir_PermanentlyFailed :: int
  ir_AttemptsExhausted :: int
  ir_LostClaim :: int
  ir_Superseded :: int
  ir_RehydrationFailed :: int
  ir_Errors :: int

definition zero_iteration :: SCMStatusRecoveryIterationResult where
  "zero_iteration =
     \<lparr>ir_Scanned = 0, ir_ClaimAcquired = 0, ir_RetryClaimed = 0, ir_StaleClaimReclaimed = 0, ir_Skipped = 0, ir_SkippedContention = 0,
      ir_SkippedNotDue = 0, ir_SkippedTerminal = 0, ir_Sent = 0, ir_ReassertScheduled = 0, ir_RetryScheduled = 0,
      ir_PermanentlyFailed = 0, ir_AttemptsExhausted = 0, ir_LostClaim = 0, ir_Superseded = 0, ir_RehydrationFailed = 0, ir_Errors = 0\<rparr>"

text \<open>The three blocks of \<open>applyAttemptResult\<close>: the claim, the rehydration, the execution.\<close>

definition count_claim :: "SCMStatusDeliveryClaimOutcome option \<Rightarrow> SCMStatusRecoveryIterationResult \<Rightarrow> SCMStatusRecoveryIterationResult" where
  "count_claim outcome result =
     (case outcome of
        Some CreatedClaimed \<Rightarrow> result\<lparr>ir_ClaimAcquired := ir_ClaimAcquired result + 1\<rparr>
      | Some RetryClaimed \<Rightarrow> result\<lparr>ir_RetryClaimed := ir_RetryClaimed result + 1\<rparr>
      | Some StaleClaimReclaimed \<Rightarrow> result\<lparr>ir_StaleClaimReclaimed := ir_StaleClaimReclaimed result + 1\<rparr>
      | Some ClaimedByOther \<Rightarrow> result\<lparr>ir_Skipped := ir_Skipped result + 1, ir_SkippedContention := ir_SkippedContention result + 1\<rparr>
      | Some RetryNotDue \<Rightarrow> result\<lparr>ir_Skipped := ir_Skipped result + 1, ir_SkippedNotDue := ir_SkippedNotDue result + 1\<rparr>
      | Some _ \<Rightarrow> result\<lparr>ir_Skipped := ir_Skipped result + 1, ir_SkippedTerminal := ir_SkippedTerminal result + 1\<rparr>
      | None \<Rightarrow> result\<lparr>ir_Skipped := ir_Skipped result + 1\<rparr>)"

fun count_execution :: "scmStatusExecutionOutcome \<Rightarrow> SCMStatusRecoveryIterationResult \<Rightarrow> SCMStatusRecoveryIterationResult" where
  "count_execution OutcomeNone result = result"
| "count_execution OutcomeSent result = result\<lparr>ir_Sent := ir_Sent result + 1\<rparr>"
| "count_execution OutcomeReassertScheduled result = result\<lparr>ir_ReassertScheduled := ir_ReassertScheduled result + 1\<rparr>"
| "count_execution OutcomeRetryScheduled result = result\<lparr>ir_RetryScheduled := ir_RetryScheduled result + 1\<rparr>"
| "count_execution OutcomePermanentlyFailed result = result\<lparr>ir_PermanentlyFailed := ir_PermanentlyFailed result + 1\<rparr>"
| "count_execution OutcomeAttemptsExhausted result = result\<lparr>ir_AttemptsExhausted := ir_AttemptsExhausted result + 1\<rparr>"
| "count_execution OutcomeLostClaim result = result\<lparr>ir_LostClaim := ir_LostClaim result + 1\<rparr>"
| "count_execution OutcomeSuperseded result = result\<lparr>ir_Superseded := ir_Superseded result + 1\<rparr>"

definition applyAttemptResult ::
  "scmStatusRecoveryAttemptResult \<Rightarrow> SCMStatusRecoveryIterationResult \<Rightarrow> SCMStatusRecoveryIterationResult" where
  "applyAttemptResult attempt result =
     (let claimed = count_claim (ra_claimOutcome attempt) result;
          rehydrated = (if ra_rehydrationFailed attempt then claimed\<lparr>ir_RehydrationFailed := ir_RehydrationFailed claimed + 1\<rparr> else claimed)
      in count_execution (ra_executionOutcome attempt) rehydrated)"

text \<open>The loop over the candidates: a context that ended stops it, an error is collected.\<close>

fun drain_loop ::
  "SCMStatusReporter \<Rightarrow> Environment \<Rightarrow> SCMStatusDelivery list \<Rightarrow> SCMStatusRecoveryIterationResult \<Rightarrow> (string \<times> dlv_error) list \<Rightarrow> World \<Rightarrow>
     World \<times> SCMStatusRecoveryIterationResult \<times> (dlv_error + (string \<times> dlv_error) list)" where
  "drain_loop rep env [] result errs w = (w, result, Inr errs)"
| "drain_loop rep env (candidate # candidates) result errs w =
     (case ask (env_ctx env) w of
        (w, Some err) \<Rightarrow> (w, result, Inl err)
      | (w, None) \<Rightarrow>
          (case recoverDelivery rep env candidate w of
             (w, attempt, recoverErr) \<Rightarrow>
               (let result = applyAttemptResult attempt result
                in case recoverErr of
                     None \<Rightarrow> drain_loop rep env candidates result errs w
                   | Some err \<Rightarrow> drain_loop rep env candidates (result\<lparr>ir_Errors := ir_Errors result + 1\<rparr>)
                       (errs @ [(sd_ID candidate, err)]) w)))"

text \<open>The answer ends with the error that stopped the iteration, or the errors of its deliveries, by ID.\<close>

definition RunIteration ::
  "SCMStatusReporter \<Rightarrow> Environment \<Rightarrow> int \<Rightarrow> World \<Rightarrow>
     World \<times> SCMStatusRecoveryIterationResult \<times> (dlv_error + (string \<times> dlv_error) list)" where
  "RunIteration rep env batchSize w =
     (case ask (env_now env) w of
        (w, now) \<Rightarrow>
          (case with_store env (\<lambda>_ ctx r. (r, ListRecoverable ctx now batchSize r)) w of
             (w, Inl err) \<Rightarrow> (w, zero_iteration, Inl err)
           | (w, Inr candidates) \<Rightarrow>
               drain_loop rep env candidates (zero_iteration\<lparr>ir_Scanned := int (length candidates)\<rparr>) [] w))"

end
