(* ===== verification/SCM_Status_Properties.thy ===== *)
theory SCM_Status_Properties
  imports SCM_Status_Drain
begin

text \<open>
  What the outbox of commit statuses guarantees: the store along any sequence of operations, the
  claims, the order of the builds that report on a stream, and the reporter and its drain on top.
\<close>

section \<open>Runs of the store\<close>

text \<open>
  The store under any interleaving of its writers. \<open>meta\<close> gives the attempt number and the creation
  time of every build: the reporter copies them from the build, so rows of the same build agree.
\<close>

definition reports :: "(string \<Rightarrow> int \<times> time) \<Rightarrow> SCMStatusDelivery \<Rightarrow> bool" where
  "reports meta d \<longleftrightarrow> (sd_BuildAttempt d, sd_BuildCreatedAt d) = meta (TrimSpace (sd_BuildID d))"

inductive scm_step :: "(string \<Rightarrow> int \<times> time) \<Rightarrow> SCMStatusDeliveryRepository \<Rightarrow> SCMStatusDeliveryRepository \<Rightarrow> bool"
  for meta where
  acquired: "acquire_pre uuid input r \<Longrightarrow> reports meta (ci_Delivery input) \<Longrightarrow>
    scm_step meta r (fst (AcquireForDelivery uuid ctx input r))"
| sent: "scm_step meta r (fst (MarkSent ctx mark r))"
| failed: "scm_step meta r (fst (recordFailure ctx failure status r))"
| superseded: "scm_step meta r (fst (MarkSuperseded ctx obs r))"

text \<open>
  The rank of a row: the build that owns the stream (attempt, then creation time, then ID) and, for the
  same build, whether its reported state is final.
\<close>

definition rank :: "SCMStatusDelivery \<Rightarrow> int \<times> time \<times> string \<times> bool" where
  "rank d = (sd_BuildAttempt d, sd_BuildCreatedAt d, TrimSpace (sd_BuildID d),
             SCMCommitStatusState_IsTerminal (TrimSpace (sd_DesiredState d)))"

definition rows_report :: "(string \<Rightarrow> int \<times> time) \<Rightarrow> SCMStatusDeliveryRepository \<Rightarrow> bool" where
  "rows_report meta r \<longleftrightarrow> (\<forall>k d. map_of (sr_deliveries r) k = Some d \<longrightarrow> reports meta d)"

lemma claimFresh_rank:
  assumes "claimFreshSCMStatusDelivery uuid k c d now owner dur maxAttempts s = Inr e"
  shows "rank e = rank d" and "reports meta e = reports meta d"
  using assms by (auto simp: claimFreshSCMStatusDelivery_def Let_def rank_def reports_def split: option.splits)

lemma claimSCM_rank:
  assumes "claimSCMStatusDelivery e now owner dur = (c, out)"
  shows "rank c = rank e" and "reports meta c = reports meta e"
proof -
  have c: "c = fst (claimSCMStatusDelivery e now owner dur)" using assms by simp
  show "rank c = rank e" "reports meta c = reports meta e"
    by (simp_all add: c claimSCMStatusDelivery_def Let_def rank_def reports_def)
qed

lemma Compare_rank: "CompareSCMStatusDeliveryOwners e d < 0 \<Longrightarrow> rank e \<le> rank d"
  by (auto simp: CompareSCMStatusDeliveryOwners_def Let_def rank_def not_less less_le split: if_splits)

lemma Compare_same:
  "CompareSCMStatusDeliveryOwners e d = 0 \<longleftrightarrow> TrimSpace (sd_BuildID e) = TrimSpace (sd_BuildID d)"
  by (auto simp: CompareSCMStatusDeliveryOwners_def Let_def)

lemma replace_rank:
  assumes "CompareSCMStatusDeliveryOwners e d = 0" "\<not> obsolete e d" "reports meta e" "reports meta d"
  shows "rank e \<le> rank d"
proof -
  have "(sd_BuildAttempt e, sd_BuildCreatedAt e) = (sd_BuildAttempt d, sd_BuildCreatedAt d)"
    using assms by (simp add: Compare_same reports_def)
  then show ?thesis
    using assms by (auto simp: Compare_same rank_def SCMStatusDeliveryIncomingStateObsolete_def split: if_splits)
qed

lemma reconcile_rank:
  assumes rec: "reconcileSCMStatusDeliveryForClaim uuid e d now owner dur maxAttempts = Inr (c, out, persist, ra)" and "persist"
    and "reports meta e" "reports meta d"
  shows "rank e \<le> rank c" "reports meta c"
proof -
  have "rank e \<le> rank c \<and> reports meta c"
    using rec
  proof (cases rule: reconcile_cases)
    case newer
    then show ?thesis using claimFresh_rank [OF newer(5)] Compare_rank assms by simp
  next
    case replace
    then show ?thesis using claimFresh_rank [OF replace(7)] replace_rank assms by simp
  next
    case claim
    then show ?thesis using claimSCM_rank [OF claim(4)] assms by simp
  qed (use \<open>persist\<close> in simp_all)
  then show "rank e \<le> rank c" "reports meta c" by simp_all
qed

text \<open>A write keeps every other row and does not lower the rank of the row it replaces.\<close>

definition advances :: "(string \<Rightarrow> int \<times> time) \<Rightarrow> SCMStatusDeliveryRepository \<Rightarrow> SCMStatusDeliveryRepository \<Rightarrow> bool" where
  "advances meta r r' \<longleftrightarrow> rows_report meta r' \<and>
     (\<forall>k d. map_of (sr_deliveries r) k = Some d \<longrightarrow> (\<exists>d'. map_of (sr_deliveries r') k = Some d' \<and> rank d \<le> rank d'))"

lemma advances_refl: "rows_report meta r \<Longrightarrow> advances meta r r"
  by (simp add: advances_def)

lemma advances_put:
  assumes "rows_report meta r" "reports meta d'" "\<And>d. map_of (sr_deliveries r) k = Some d \<Longrightarrow> rank d \<le> rank d'"
    and "sr_deliveries r' = gm_put k d' (sr_deliveries r)"
  shows "advances meta r r'"
  using assms unfolding advances_def rows_report_def by auto

lemma store_row_advances:
  assumes "scm_store_wf r" "rows_report meta r" "map_of (sr_deliveries r) k = Some d" "sd_ID d' = sd_ID d" "rank d' = rank d"
    "reports meta d' = reports meta d"
  shows "advances meta r (fst (store_row d' r))"
proof (cases "SCMStatusDelivery_Validate d'")
  case None
  have "reports meta d" using assms(2,3) by (auto simp: rows_report_def)
  then show ?thesis
    using None assms scm_wf_row(1) [OF assms(1,3)] by (intro advances_put [of meta r d' k]) (auto simp: store_row_def)
qed (simp add: store_row_def advances_refl assms)

lemma scm_step_advances:
  assumes "scm_step meta r r'" and wf: "scm_store_wf r" and rep: "rows_report meta r"
  shows "advances meta r r'"
  using assms(1)
proof cases
  case (acquired uuid input ctx)
  show ?thesis
  proof (cases "AcquireForDelivery uuid ctx input r")
    case (Pair s x)
    show ?thesis
    proof (cases x)
      case (Inl err)
      then show ?thesis using Pair acquired Acquire_error [of uuid ctx input r s err] advances_refl [OF rep] by simp
    next
      case (Inr res)
      with Pair have "AcquireForDelivery uuid ctx input r = (s, Inr res)" by simp
      then have "advances meta r s" using wf
      proof (cases rule: Acquire_cases)
        case created
        have "reports meta (created_row uuid input)"
          using acquired(3) by (simp add: created_row_def reports_def Let_def)
        then show ?thesis
          using created acquired(2) rep
          by (intro advances_put [of meta r "created_row uuid input" "sd_ID (created_row uuid input)"])
            (auto simp: acquire_pre_def created_row_sel Let_def)
      next
        case (existing k e persist)
        have "reports meta e" using rep existing(4) by (auto simp: rows_report_def)
        moreover have "reports meta (SCMStatusDelivery_Normalize (ci_Delivery input))"
          using acquired(3) by (simp add: reports_def)
        ultimately show ?thesis
          using reconcile_rank [OF existing(6)] existing rep
          by (cases persist) (auto intro!: advances_put [of meta r "cr_Delivery res" k] advances_refl)
      qed
      then show ?thesis using acquired Pair by simp
    qed
  qed
next
  case (sent ctx mark)
  then show ?thesis
    by (auto simp: MarkSent_def rank_def reports_def split: option.splits
        intro!: store_row_advances [OF wf rep] advances_refl [OF rep])
next
  case (failed ctx failure status)
  then show ?thesis
    by (auto simp: recordFailure_def rank_def reports_def split: option.splits
        intro!: store_row_advances [OF wf rep] advances_refl [OF rep])
next
  case (superseded ctx obs)
  then show ?thesis
    by (auto simp: MarkSuperseded_def rank_def reports_def split: option.splits
        intro!: store_row_advances [OF wf rep] advances_refl [OF rep])
qed

lemma scm_step_wf: "scm_step meta r r' \<Longrightarrow> scm_store_wf r \<Longrightarrow> scm_store_wf r'"
  by (induction rule: scm_step.induct) (auto intro: Acquire_wf MarkSent_wf recordFailure_wf MarkSuperseded_wf)

lemma scm_run:
  assumes "(scm_step meta)\<^sup>*\<^sup>* r r'" "scm_store_wf r" "rows_report meta r"
  shows "scm_store_wf r' \<and> advances meta r r'"
  using assms
proof (induction rule: rtranclp_induct)
  case base
  then show ?case by (simp add: advances_refl)
next
  case (step s t)
  then have s: "scm_store_wf s" "advances meta r s" by simp_all
  then have t: "scm_store_wf t" "advances meta s t"
    using scm_step_wf scm_step_advances step(2) by (auto simp: advances_def)
  show ?case using s t unfolding advances_def by (meson order_trans)
qed

lemma rows_report_new: "rows_report meta NewSCMStatusDeliveryRepository"
  by (simp add: rows_report_def NewSCMStatusDeliveryRepository_def)

section \<open>What a granted claim writes\<close>

definition holds_claim :: "SCMStatusDeliveryClaimInput \<Rightarrow> SCMStatusDelivery \<Rightarrow> bool" where
  "holds_claim input c \<longleftrightarrow> sd_Status c = SCMStatusDeliveryStatusSending \<and> sd_ClaimedBy c = Some (TrimSpace (ci_ClaimOwner input)) \<and>
     sd_ClaimedAt c = Some (ci_Now input) \<and> sd_ClaimExpiresAt c = Some (ci_Now input + ci_ClaimDuration input) \<and>
     TrimSpace (sd_BuildID c) = TrimSpace (sd_BuildID (ci_Delivery input)) \<and>
     TrimSpace (sd_DesiredState c) = TrimSpace (sd_DesiredState (ci_Delivery input))"

lemma created_row_holds: "holds_claim input (created_row uuid input)"
  by (simp add: holds_claim_def created_row_def Let_def)

lemma claimFresh_holds:
  assumes "claimFreshSCMStatusDelivery uuid k c (ci_Delivery input) (ci_Now input) (TrimSpace (ci_ClaimOwner input))
     (ci_ClaimDuration input) maxAttempts s = Inr e"
  shows "holds_claim input e"
  using assms by (auto simp: claimFreshSCMStatusDelivery_def Let_def holds_claim_def split: option.splits)

lemma claimSCM_holds:
  assumes "claimSCMStatusDelivery e (ci_Now input) (TrimSpace (ci_ClaimOwner input)) (ci_ClaimDuration input) = (c, out)"
    and "claim_granted out" "TrimSpace (sd_BuildID e) = TrimSpace (sd_BuildID (ci_Delivery input))"
      "TrimSpace (sd_DesiredState e) = TrimSpace (sd_DesiredState (ci_Delivery input))"
  shows "holds_claim input c"
  using assms FromExisting_not_Created
  by (auto simp: claimSCMStatusDelivery_def Let_def holds_claim_def claim_granted_def split: if_splits)

lemma reconcile_holds:
  assumes rec: "reconcileSCMStatusDeliveryForClaim uuid e (SCMStatusDelivery_Normalize (ci_Delivery input)) (ci_Now input)
      (TrimSpace (ci_ClaimOwner input)) (ci_ClaimDuration input) maxAttempts = Inr (c, out, persist, ra)"
    and "claim_granted out"
  shows "persist \<and> holds_claim input c"
  using rec
proof (cases rule: reconcile_cases)
  case claim
  then show ?thesis
    using claimSCM_holds [OF claim(4) assms(2)] assms(2) claimSCM_outcome(1) [OF claim(4)] FromExisting_not_Created
    by (auto simp: claim_granted_def Compare_same SCMStatusDeliveryShouldReplaceCurrentState_def)
qed (use assms(2) in \<open>auto simp: claim_granted_def intro: claimFresh_holds\<close>)

lemma Acquire_grants:
  assumes acq: "AcquireForDelivery uuid ctx input r = (r', Inr res)" and "claim_granted (cr_Outcome res)"
    and wf: "scm_store_wf r" and pre: "acquire_pre uuid input r"
  obtains k where "map_of (sr_deliveries r') k = Some (cr_Delivery res)" "map_of (sr_index r') (input_key input) = Some k"
    "holds_claim input (cr_Delivery res)" "scm_store_wf r'" "claim_input_ok input"
proof -
  have wf': "scm_store_wf r'" using Acquire_wf [OF wf pre, of ctx] acq by simp
  from acq wf show ?thesis
  proof (cases rule: Acquire_cases)
    case created
    then show ?thesis using wf' created_row_holds by (intro that [of "sd_ID (created_row uuid input)"]) auto
  next
    case (existing k e persist)
    then show ?thesis using wf' reconcile_holds [OF existing(6) assms(2)] by (intro that [of k]) auto
  qed
qed

text \<open>A row in the hands of a claimer is not given to a second one before the claim ends.\<close>

lemma claimSCM_busy:
  assumes "holds_claim input c" "valid_row c" "ci_Now input \<noteq> 0" "t < ci_Now input + ci_ClaimDuration input"
  shows "SCMStatusDeliveryClaimOutcomeFromExisting (SCMStatusDelivery_Normalize c) t \<in> {ClaimedByOther, AttemptsExhausted}"
  using assms
  by (auto simp: SCMStatusDeliveryClaimOutcomeFromExisting_def holds_claim_def normalizeSCMOptionalTime_def)

lemma reconcile_busy:
  assumes "holds_claim input e" "valid_row e" "ci_Now input \<noteq> 0" "t < ci_Now input + ci_ClaimDuration input"
    and same: "TrimSpace (sd_BuildID d) = TrimSpace (sd_BuildID (ci_Delivery input))"
      "TrimSpace (sd_DesiredState d) = TrimSpace (sd_DesiredState (ci_Delivery input))"
  obtains c out where "reconcileSCMStatusDeliveryForClaim uuid e d t owner dur maxAttempts = Inr (c, out, False, None)"
    "\<not> claim_granted out"
proof -
  have eq: "CompareSCMStatusDeliveryOwners e d = 0" "\<not> replaces e d"
    using assms by (auto simp: Compare_same holds_claim_def SCMStatusDeliveryShouldReplaceCurrentState_def)
  obtain c out where c: "claimSCMStatusDelivery e t owner dur = (c, out)" by force
  have out: "out \<in> {ClaimedByOther, AttemptsExhausted}"
    using claimSCM_outcome(1) [OF c] claimSCM_busy [OF assms(1-4)] by simp
  show ?thesis
  proof (cases "obsolete e d")
    case True
    with eq show ?thesis
      by (intro that [of "SCMStatusDelivery_Normalize e" SupersededClaim])
        (simp_all add: reconcileSCMStatusDeliveryForClaim_def Let_def claim_granted_def)
  next
    case False
    with eq c out show ?thesis
      by (intro that [of c out]) (auto simp: reconcileSCMStatusDeliveryForClaim_def Let_def claim_granted_def)
  qed
qed

section \<open>Updates by claimers\<close>

text \<open>
  The five updates of a delivery. The first four name a claim; the last may name one, and is made without a look at the
  claim when it names neither an owner nor a time.
\<close>

datatype scm_update =
  USent SCMStatusDeliveryMarkSentInput
| URetryable SCMStatusDeliveryRecordFailureInput
| UPermanent SCMStatusDeliveryRecordFailureInput
| UExhausted SCMStatusDeliveryRecordFailureInput
| USuperseded SCMStatusDeliveryMarkSupersededInput

fun scm_apply :: "dlv_error option \<Rightarrow> scm_update \<Rightarrow> SCMStatusDeliveryRepository \<Rightarrow>
    SCMStatusDeliveryRepository \<times> (dlv_error + SCMStatusDeliveryUpdateResult)" where
  "scm_apply ctx (USent i) r = MarkSent ctx i r"
| "scm_apply ctx (URetryable i) r = RecordRetryableFailure ctx i r"
| "scm_apply ctx (UPermanent i) r = RecordPermanentFailure ctx i r"
| "scm_apply ctx (UExhausted i) r = RecordExhaustedFailure ctx i r"
| "scm_apply ctx (USuperseded i) r = MarkSuperseded ctx i r"

fun scm_target :: "scm_update \<Rightarrow> string" where
  "scm_target (USent i) = TrimSpace (ms_DeliveryID i)"
| "scm_target (URetryable i) = TrimSpace (rf_DeliveryID i)"
| "scm_target (UPermanent i) = TrimSpace (rf_DeliveryID i)"
| "scm_target (UExhausted i) = TrimSpace (rf_DeliveryID i)"
| "scm_target (USuperseded i) = TrimSpace (sup_DeliveryID i)"

fun scm_claim :: "scm_update \<Rightarrow> string option \<times> time option" where
  "scm_claim (USent i) = (Some (ms_ClaimOwner i), Some (ms_ClaimedAt i))"
| "scm_claim (URetryable i) = (Some (rf_ClaimOwner i), Some (rf_ClaimedAt i))"
| "scm_claim (UPermanent i) = (Some (rf_ClaimOwner i), Some (rf_ClaimedAt i))"
| "scm_claim (UExhausted i) = (Some (rf_ClaimOwner i), Some (rf_ClaimedAt i))"
| "scm_claim (USuperseded i) = (sup_ClaimOwner i, sup_ClaimedAt i)"

definition scm_bound :: "scm_update \<Rightarrow> bool" where
  "scm_bound u \<longleftrightarrow> scm_claim u \<noteq> (None, None)"

definition scm_holds :: "SCMStatusDelivery \<Rightarrow> scm_update \<Rightarrow> bool" where
  "scm_holds d u \<longleftrightarrow> (case scm_claim u of
     (Some owner, Some claimedAt) \<Rightarrow> scmStatusDeliveryClaimMatches d owner claimedAt | _ \<Rightarrow> \<not> scm_bound u)"

definition scm_lost :: "SCMStatusDeliveryUpdateResult \<Rightarrow> bool" where
  "scm_lost res \<longleftrightarrow> ur_Outcome res = LostClaim"

text \<open>The row that an update writes.\<close>

definition failed_row :: "SCMStatusDeliveryRecordFailureInput \<Rightarrow> string \<Rightarrow> SCMStatusDelivery \<Rightarrow> SCMStatusDelivery" where
  "failed_row input status d = d\<lparr>sd_Status := status, sd_UpdatedAt := rf_FailedAt input,
     sd_NextAttemptAt := normalizeSCMRecordFailureTime (rf_NextAttemptAt input),
     sd_ClaimedAt := None, sd_ClaimExpiresAt := None, sd_ClaimedBy := None, sd_FailureCategory := Some (rf_FailureCategory input),
     sd_FailureReason := scmOptionalTrimmedString (rf_FailureReason input),
     sd_LastError := scmNormalizeOptionalString (rf_LastError input), sd_SupersededAt := None,
     sd_Attempts := (if status = SCMStatusDeliveryStatusFailedExhausted \<and> sd_Attempts d < sd_MaxAttempts d
                     then sd_MaxAttempts d else sd_Attempts d)\<rparr>"

fun scm_released :: "scm_update \<Rightarrow> SCMStatusDelivery \<Rightarrow> SCMStatusDelivery" where
  "scm_released (USent i) d = d\<lparr>sd_Status := SCMStatusDeliveryStatusSent, sd_UpdatedAt := ms_SentAt i,
     sd_SentAt := Some (ms_SentAt i), sd_LastSentState := Some (ms_State i), sd_NextAttemptAt := None,
     sd_ClaimedAt := None, sd_ClaimExpiresAt := None, sd_ClaimedBy := None, sd_FailureCategory := None,
     sd_FailureReason := None, sd_LastError := None, sd_SupersededAt := None\<rparr>"
| "scm_released (URetryable i) d = failed_row i SCMStatusDeliveryStatusRetryWaiting d"
| "scm_released (UPermanent i) d = failed_row i SCMStatusDeliveryStatusFailedPermanent d"
| "scm_released (UExhausted i) d = failed_row i SCMStatusDeliveryStatusFailedExhausted d"
| "scm_released (USuperseded i) d = d\<lparr>sd_Status := SCMStatusDeliveryStatusSuperseded, sd_UpdatedAt := sup_SupersededAt i,
     sd_SupersededAt := Some (sup_SupersededAt i), sd_NextAttemptAt := None, sd_ClaimedAt := None, sd_ClaimExpiresAt := None, sd_ClaimedBy := None,
     sd_FailureCategory := Some SCMStatusDeliveryFailureCategoryPermanent,
     sd_FailureReason := scmOptionalTrimmedString (sup_Reason i), sd_LastError := sup_LastError i\<rparr>"

lemma matches_trim [simp]: "scmStatusDeliveryClaimMatches d (TrimSpace owner) t = scmStatusDeliveryClaimMatches d owner t"
  by (simp add: scmStatusDeliveryClaimMatches_def split: option.split)

lemma scm_released_sel:
  "sd_ID (scm_released u d) = sd_ID d" "scmStatusDeliveryKey (scm_released u d) = scmStatusDeliveryKey d"
  "sd_MaxAttempts (scm_released u d) = sd_MaxAttempts d" "sd_ClaimedBy (scm_released u d) = None"
  by (cases u; simp add: failed_row_def; auto intro: key_cong)+

lemma released_unheld: "scm_bound v \<Longrightarrow> \<not> scm_holds (scm_released u d) v"
  by (simp add: scm_holds_def scmStatusDeliveryClaimMatches_def scm_released_sel split: prod.split option.split)

lemmas scm_update_defs = MarkSent_def RecordRetryableFailure_def RecordPermanentFailure_def RecordExhaustedFailure_def
  recordFailure_def MarkSuperseded_def scm_holds_def scm_bound_def failed_row_def

text \<open>Every update has this form: the row is looked up, the claim compared, a released row stored.\<close>

lemma scm_apply_form:
  "scm_apply ctx u r = (case ctx of Some err \<Rightarrow> (r, Inl err) | None \<Rightarrow>
     (case map_of (sr_deliveries r) (scm_target u) of
        None \<Rightarrow> (r, Inl ErrSCMStatusDeliveryNotFound)
      | Some d \<Rightarrow> if \<not> scm_holds d u then (r, Inr \<lparr>ur_Delivery = d, ur_Outcome = LostClaim\<rparr>)
                  else store_row (scm_released u d) r))"
  by (cases u) (simp_all add: scm_update_defs split: option.split)

interpretation scm_fence: claimed_update "scm_apply ctx" "\<lambda>r. map_of (sr_deliveries r)" scm_target scm_bound scm_holds scm_lost scm_store_wf
  for ctx
proof unfold_locales
  show "scm_apply ctx i s = (s', Inl e) \<Longrightarrow> s' = s" for i s s' e
    by (auto simp: scm_apply_form store_row_def split: option.splits if_splits)
  show "scm_apply ctx i s = (s', Inr r) \<Longrightarrow> scm_lost r = (\<not> (\<exists>d. map_of (sr_deliveries s) (scm_target i) = Some d \<and> scm_holds d i))"
    for i s s' r
    by (auto simp: scm_apply_form store_row_def scm_lost_def split: option.splits if_splits)
  show "scm_apply ctx i s = (s', Inr r) \<Longrightarrow> scm_lost r \<Longrightarrow> s' = s" for i s s' r
    by (auto simp: scm_apply_form store_row_def scm_lost_def split: option.splits if_splits)
  show "\<not> scm_holds d j" if h: "scm_store_wf s" "scm_apply ctx i s = (s', Inr r)" "\<not> scm_lost r" "map_of (sr_deliveries s') (scm_target i) = Some d" "scm_bound j"
    for s i s' r d j
  proof -
    obtain e where "map_of (sr_deliveries s) (scm_target i) = Some e" "store_row (scm_released i e) s = (s', Inr r)"
      using h(2,3) by (auto simp: scm_apply_form scm_lost_def split: option.splits if_splits)
    then have "d = scm_released i e"
      using h(4) scm_wf_row(1) [OF h(1)] by (auto simp: store_row_def scm_released_sel split: option.splits)
    then show ?thesis using h(5) by (simp add: released_unheld)
  qed
  show "map_of (sr_deliveries s') k = map_of (sr_deliveries s) k"
    if "scm_store_wf s" "scm_apply ctx i s = (s', x)" "k \<noteq> scm_target i" for s i s' x k
    using that scm_wf_row(1) [OF that(1), of "scm_target i"]
    by (auto simp: scm_apply_form store_row_def scm_released_sel split: option.splits if_splits)
  show "scm_store_wf s \<Longrightarrow> scm_store_wf (fst (scm_apply ctx i s))" for s i
    using store_row_wf [of s "scm_target i" _ "scm_released i _"]
    by (auto simp: scm_apply_form scm_released_sel split: option.splits)
qed

end
