(* ===== verification/SCM_Status_Guarantees.thy ===== *)
theory SCM_Status_Guarantees
  imports SCM_Status_Properties
begin

text \<open>
  The guarantees of the commit status outbox as theorems over the code's own operations, with witnesses
  on a small repository.
\<close>

section \<open>Example data\<close>

definition ex_delivery :: SCMStatusDelivery where
  "ex_delivery = zeroSCMStatusDelivery\<lparr>sd_BuildID := ''b1'', sd_BuildAttempt := 1, sd_BuildCreatedAt := 5, sd_Provider := ''github'',
     sd_RepositoryOwner := ''o'', sd_RepositoryName := ''r'', sd_RegisteredRepositoryID := Some ''reg'',
     sd_SCMConnectionID := Some ''conn'', sd_ProviderRepositoryID := Some ''repo'', sd_CommitSHA := ''abc'',
     sd_Context := ''coyote/p/j'', sd_DesiredState := ''pending'', sd_Description := ''queued''\<rparr>"

definition ex_input :: "string \<Rightarrow> time \<Rightarrow> SCMStatusDeliveryClaimInput" where
  "ex_input owner now = \<lparr>ci_Delivery = ex_delivery, ci_ClaimOwner = owner, ci_Now = now, ci_ClaimDuration = 50, ci_MaxAttempts = 3\<rparr>"

definition ex_meta :: "string \<Rightarrow> int \<times> time" where
  "ex_meta b = (if b = ''b1'' then (1, 5) else (2, 7))"

abbreviation "ex_first \<equiv> AcquireForDelivery ''u1'' None (ex_input ''w1'' 100) NewSCMStatusDeliveryRepository"

definition ex_claimed :: SCMStatusDelivery where
  "ex_claimed = ex_delivery\<lparr>sd_ID := ''u1'', sd_CreatedAt := 100, sd_UpdatedAt := 100, sd_Status := ''sending'', sd_Attempts := 1,
     sd_MaxAttempts := 3, sd_LastAttemptAt := Some 100, sd_ClaimedAt := Some 100, sd_ClaimExpiresAt := Some 150,
     sd_ClaimedBy := Some ''w1''\<rparr>"

definition ex_store :: SCMStatusDeliveryRepository where
  "ex_store = \<lparr>sr_deliveries = [(''u1'', ex_claimed)], sr_index = [(''repository|conn|repo|abc|coyote/p/j'', ''u1'')]\<rparr>"

lemma ex_first_eq:
  "ex_first = (ex_store, Inr \<lparr>cr_Delivery = ex_claimed, cr_Outcome = CreatedClaimed, cr_ReassertAfter = None\<rparr>)"
  by code_simp

lemma ex_pre: "acquire_pre ''u1'' (ex_input ''w1'' 100) NewSCMStatusDeliveryRepository" "reports ex_meta ex_delivery"
  by (simp_all add: acquire_pre_def ex_input_def NewSCMStatusDeliveryRepository_def Let_def trimmed_def is_space_def
      ex_delivery_def zeroSCMStatusDelivery_def reports_def ex_meta_def TrimSpace_def)

lemma ex_store_run: "(scm_step ex_meta)\<^sup>*\<^sup>* NewSCMStatusDeliveryRepository ex_store"
  using scm_step.acquired [OF ex_pre(1), of ex_meta None] ex_pre(2) ex_first_eq by (simp add: ex_input_def r_into_rtranclp)

lemma ex_store_wf: "scm_store_wf ex_store"
  using scm_run [OF ex_store_run scm_store_wf_new rows_report_new] by simp

section \<open>The store\<close>

text \<open>
  C25: Whatever the writers of the delivery store do, in any order, every stored delivery passes the
  code's own validation, was attempted at most as often as allowed, and is the one found under the
  key of its stream. In particular the claim of an existing row, which the code stores without
  validating it, keeps the row valid.
\<close>

theorem scm_store_invariant:
  assumes "(scm_step meta)\<^sup>*\<^sup>* NewSCMStatusDeliveryRepository r" and "map_of (sr_deliveries r) k = Some d"
  shows "SCMStatusDelivery_Validate d = None \<and> 0 \<le> sd_Attempts d \<and> sd_Attempts d \<le> max 1 (sd_MaxAttempts d) \<and>
     sd_ID d = k \<and> get_by_index (scmStatusDeliveryKey d) r = Inr d"
proof -
  have wf: "scm_store_wf r" using scm_run [OF assms(1) scm_store_wf_new rows_report_new] by simp
  note row = scm_wf_row [OF wf assms(2)]
  have "validate_row (SCMStatusDelivery_Normalize d) = None" using row(4) by (simp add: valid_row_def Validate_None)
  then have "0 \<le> sd_Attempts d \<and> sd_Attempts d \<le> max 1 (sd_MaxAttempts d)"
    by (auto simp: validate_row_def split: if_splits)
  then show ?thesis using row assms(2) by (simp add: valid_row_def get_by_index_def)
qed

theorem scm_store_invariant_witness:
  "(scm_step ex_meta)\<^sup>*\<^sup>* NewSCMStatusDeliveryRepository ex_store \<and> SCMStatusDelivery_Validate ex_claimed = None"
  using ex_store_run scm_store_invariant [OF ex_store_run, of "''u1''" ex_claimed] by (simp add: ex_store_def)

text \<open>
  C26: A stream never goes back. Along any run of the store, the build that owns a row is never replaced by
  an older one (by attempt, then creation time, then ID), and while it stays the same build, a final state
  (success, failure, error) is never replaced by a pending one.
\<close>

theorem scm_stream_never_goes_back:
  assumes "(scm_step meta)\<^sup>*\<^sup>* NewSCMStatusDeliveryRepository r" and "(scm_step meta)\<^sup>*\<^sup>* r r'"
    and "map_of (sr_deliveries r) k = Some d"
  shows "\<exists>d'. map_of (sr_deliveries r') k = Some d' \<and> rank d \<le> rank d'"
  using scm_run [OF assms(2)] scm_run [OF assms(1) scm_store_wf_new rows_report_new] assms(3)
  by (auto simp: advances_def)

text \<open>A newer build takes the stream over, and the report of the older build that comes late is refused.\<close>

definition ex_newer :: SCMStatusDeliveryClaimInput where
  "ex_newer = (ex_input ''w2'' 120)\<lparr>ci_Delivery := ex_delivery\<lparr>sd_BuildID := ''b2'', sd_BuildAttempt := 2, sd_BuildCreatedAt := 7\<rparr>\<rparr>"

lemma ex_newer_step: "scm_step ex_meta ex_store (fst (AcquireForDelivery ''u2'' None ex_newer ex_store))"
  by (rule scm_step.acquired)
    (simp_all add: acquire_pre_def ex_newer_def ex_input_def input_key_def ex_store_def Let_def reports_def ex_meta_def
      ex_delivery_def zeroSCMStatusDelivery_def scmStatusDeliveryKey_def scmStatusDeliveryRepositoryStreamKey_def
      TrimSpace_def is_space_def trimOptional_def)

theorem scm_stream_never_goes_back_witness:
  "\<exists>d'. map_of (sr_deliveries (fst (AcquireForDelivery ''u2'' None ex_newer ex_store))) ''u1'' = Some d' \<and> rank ex_claimed \<le> rank d'"
  by (rule scm_stream_never_goes_back [OF ex_store_run r_into_rtranclp [of "scm_step ex_meta", OF ex_newer_step]])
    (simp add: ex_store_def)

text \<open>
  C27: A delivery that was claimed is not given to anybody else while the claim lasts: until it ends, every
  other request to report the same state of the same build on that stream is answered without a claim
  and changes nothing.
\<close>

theorem scm_claim_exclusive:
  assumes "scm_store_wf r" and "acquire_pre uuid input r"
    and "AcquireForDelivery uuid None input r = (r', Inr res)" and "claim_granted (cr_Outcome res)"
    and "claim_input_ok other" and "input_key other = input_key input"
    and "TrimSpace (sd_BuildID (ci_Delivery other)) = TrimSpace (sd_BuildID (ci_Delivery input))"
    and "TrimSpace (sd_DesiredState (ci_Delivery other)) = TrimSpace (sd_DesiredState (ci_Delivery input))"
    and "ci_Now other < ci_Now input + ci_ClaimDuration input"
  shows "\<exists>refused. AcquireForDelivery uuid' None other r' = (r', Inr refused) \<and> \<not> claim_granted (cr_Outcome refused)"
proof -
  obtain k where row: "map_of (sr_deliveries r') k = Some (cr_Delivery res)" "map_of (sr_index r') (input_key input) = Some k"
    and c: "holds_claim input (cr_Delivery res)" and wf: "scm_store_wf r'" and ok: "claim_input_ok input"
    using Acquire_grants [OF assms(3,4,1,2)] by blast
  have now: "ci_Now input \<noteq> 0" using ok by (simp add: claim_input_ok_def)
  obtain d out where rec: "reconcileSCMStatusDeliveryForClaim uuid' (cr_Delivery res) (SCMStatusDelivery_Normalize (ci_Delivery other))
      (ci_Now other) (TrimSpace (ci_ClaimOwner other)) (ci_ClaimDuration other) (ci_MaxAttempts other) = Inr (d, out, False, None)"
    "\<not> claim_granted out"
    by (rule reconcile_busy [OF c scm_wf_row(4) [OF wf row(1)] now assms(9),
          where d = "SCMStatusDelivery_Normalize (ci_Delivery other)"]) (use assms(7,8) in auto)
  have norm: "normalizeSCMClaimInput other =
      Inr (SCMStatusDelivery_Normalize (ci_Delivery other), ci_Now other, TrimSpace (ci_ClaimOwner other), ci_ClaimDuration other)"
    using assms(5) by (simp add: normalizeSCMClaimInput_Inr)
  show ?thesis
    using rec row assms(6) by (simp add: AcquireForDelivery_def norm input_key_def gm_get_or_def)
qed

theorem scm_claim_exclusive_witness:
  "\<exists>refused. AcquireForDelivery ''u9'' None (ex_input ''w2'' 149) ex_store = (ex_store, Inr refused) \<and> \<not> claim_granted (cr_Outcome refused)"
  by (rule scm_claim_exclusive [OF scm_store_wf_new ex_pre(1) ex_first_eq])
    (simp_all add: claim_granted_def ex_input_def input_key_def claim_input_ok_def, code_simp)

text \<open>
  C28: A claim is closed once. Of any sequence of updates that are sent for one delivery between two claims, whatever they
  are (sent, retry, permanent failure, exhausted, superseded), at most one of those that name a claim is accepted, whichever
  claim they name; all others of them are answered \<open>lost_claim\<close> or an error. Updates that name no claim, which only
  \<open>MarkSuperseded\<close> admits, may be among them: they are made any number of times, and none that names a claim is accepted
  after one of them.
\<close>

theorem scm_claim_closed_once:
  assumes "scm_store_wf r" and "\<forall>u \<in> set updates. scm_target u = k"
  shows "card {n. n < length updates \<and> scm_bound (updates ! n) \<and> won scm_lost (answers (scm_apply ctx) updates r ! n)} \<le> 1 \<and>
    (\<forall>m n. m < n \<and> n < length updates \<and> won scm_lost (answers (scm_apply ctx) updates r ! m) \<and> scm_bound (updates ! n) \<longrightarrow>
       \<not> won scm_lost (answers (scm_apply ctx) updates r ! n))"
  using scm_fence.at_most_one_wins [OF assms] scm_fence.later_claims_lose [OF assms] by blast

definition superseded_at :: "time \<Rightarrow> SCMStatusDeliveryMarkSupersededInput" where
  "superseded_at t = \<lparr>sup_DeliveryID = ''u1'', sup_ClaimOwner = None, sup_ClaimedAt = None, sup_SupersededAt = t, sup_Reason = ''late'',
     sup_LastError = None\<rparr>"

definition ex_updates :: "scm_update list" where
  "ex_updates = [USent \<lparr>ms_DeliveryID = ''u1'', ms_ClaimOwner = ''w1'', ms_ClaimedAt = 100, ms_SentAt = 120, ms_State = ''pending''\<rparr>,
     USuperseded ((superseded_at 121)\<lparr>sup_ClaimOwner := Some ''w1'', sup_ClaimedAt := Some 100\<rparr>),
     USuperseded (superseded_at 122), USuperseded (superseded_at 123)]"

theorem scm_claim_closed_once_witness:
  "map (won scm_lost) (answers (scm_apply None) ex_updates ex_store) = [True, False, True, True] \<and>
   map scm_bound ex_updates = [True, True, False, False] \<and>
   card {n. n < length ex_updates \<and> scm_bound (ex_updates ! n) \<and> won scm_lost (answers (scm_apply None) ex_updates ex_store ! n)} \<le> 1"
proof (intro conjI)
  show "map (won scm_lost) (answers (scm_apply None) ex_updates ex_store) = [True, False, True, True]" by code_simp
  show "map scm_bound ex_updates = [True, True, False, False]" by code_simp
  have "\<forall>u \<in> set ex_updates. scm_target u = ''u1''" by (simp add: ex_updates_def superseded_at_def TrimSpace_def is_space_def)
  then show "card {n. n < length ex_updates \<and> scm_bound (ex_updates ! n) \<and> won scm_lost (answers (scm_apply None) ex_updates ex_store ! n)} \<le> 1"
    using scm_claim_closed_once [OF ex_store_wf] by blast
qed

text \<open>
  A delivery that was claimed is the one a reader finds: looking the stream up by the repository's
  identity, commit and context that the claim was made with returns the claimed row.
\<close>

theorem scm_claim_lookup:
  assumes "scm_store_wf r" and "acquire_pre uuid input r"
    and "AcquireForDelivery uuid None input r = (r', Inr res)" and "claim_granted (cr_Outcome res)"
    and "sd_SCMConnectionID (ci_Delivery input) = Some connectionID" and "sd_ProviderRepositoryID (ci_Delivery input) = Some repositoryID"
  shows "GetByRepositoryIdentity None connectionID repositoryID (sd_CommitSHA (ci_Delivery input)) (sd_Context (ci_Delivery input)) r' =
     Inr (cr_Delivery res)"
proof -
  obtain k where row: "map_of (sr_deliveries r') k = Some (cr_Delivery res)" "map_of (sr_index r') (input_key input) = Some k"
    and ok: "claim_input_ok input"
    using Acquire_grants [OF assms(3,4,1,2)] by blast
  have "TrimSpace connectionID \<noteq> []" "TrimSpace repositoryID \<noteq> []"
    using ok assms(5,6)
    by (auto simp: claim_input_ok_def SCMStatusDelivery_ValidateIdentity_def ValidateRepositoryIdentitySnapshot_def Let_def
        split: sum.splits option.splits if_splits elim: check_snapshot_values.elims)
  then have "input_key input = scmStatusDeliveryRepositoryStreamKey connectionID repositoryID
      (sd_CommitSHA (ci_Delivery input)) (sd_Context (ci_Delivery input))"
    using assms(5,6) by (simp add: input_key_def scmStatusDeliveryKey_def trimOptional_def Let_def scmStatusDeliveryRepositoryStreamKey_def)
  with row show ?thesis by (simp add: GetByRepositoryIdentity_def get_by_index_def)
qed

theorem scm_claim_lookup_witness:
  "GetByRepositoryIdentity None '' conn '' ''repo'' ''abc'' ''coyote/p/j'' ex_store = Inr ex_claimed \<and>
   GetByRepositoryIdentity None ''conn'' ''repo'' ''abc'' ''coyote/p/j'' ex_store = Inr ex_claimed"
proof
  show "GetByRepositoryIdentity None '' conn '' ''repo'' ''abc'' ''coyote/p/j'' ex_store = Inr ex_claimed" by code_simp
  show "GetByRepositoryIdentity None ''conn'' ''repo'' ''abc'' ''coyote/p/j'' ex_store = Inr ex_claimed"
    using scm_claim_lookup [OF scm_store_wf_new ex_pre(1) ex_first_eq, of "''conn''" "''repo''"]
    by (simp add: claim_granted_def ex_input_def ex_delivery_def)
qed

end
