(* ===== verification/SCM_Reporter_Properties.thy ===== *)
theory SCM_Reporter_Properties
  imports SCM_Status_Guarantees
begin

text \<open>
  The reporter and the drain on top of the store: they keep its invariant whatever the other users of
  the store do in between, report what the build says, and count what they did.
\<close>

section \<open>Retry delays\<close>

text \<open>
  The delay before the next attempt doubles from the initial delay and stops at the maximal one,
  without overflow: after \<open>n\<close> attempts it is the smaller of the maximal delay and
  \<open>2^(n-1)\<close> times the initial delay.
\<close>

theorem scm_retry_delay:
  assumes "0 < rpol_initialDelay p" and "rpol_initialDelay p \<le> rpol_maxDelay p" and "rpol_maxDelay p < 2 ^ 62"
  shows "scm_delayForAttempt p attempt = min (rpol_maxDelay p) (rpol_initialDelay p * 2 ^ nat (attempt - 1))"
  using backoff_loop_closed [OF assms, of "nat (attempt - 1)"] assms
  by (auto simp: scm_delayForAttempt_def)

theorem scm_retry_delay_witness:
  "scm_delayForAttempt defaultSCMStatusRetryPolicy 3 = 120 * 1000000000 \<and> scm_delayForAttempt defaultSCMStatusRetryPolicy 90 = 600 * 1000000000"
  using scm_retry_delay [of defaultSCMStatusRetryPolicy 3] scm_retry_delay [of defaultSCMStatusRetryPolicy 90]
  by (simp add: defaultSCMStatusRetryPolicy_def defaultSCMStatusRetryInitialDelay_def defaultSCMStatusRetryMaxDelay_def)

section \<open>Index entries stay\<close>

lemma Acquire_index:
  assumes "scm_store_wf r" "map_of (sr_index r) key = Some k"
  shows "map_of (sr_index (fst (AcquireForDelivery uuid ctx input r))) key = Some k"
proof (cases "AcquireForDelivery uuid ctx input r")
  case (Pair s x)
  show ?thesis
  proof (cases x)
    case (Inl err)
    then show ?thesis using Pair Acquire_error [of uuid ctx input r s err] assms by simp
  next
    case (Inr res)
    with Pair have "AcquireForDelivery uuid ctx input r = (s, Inr res)" by simp
    then have "map_of (sr_index s) key = Some k" using assms(1)
      by (cases rule: Acquire_cases) (use assms(2) in auto)
    then show ?thesis by (simp add: Pair)
  qed
qed

lemma store_row_index [simp]: "sr_index (fst (store_row d r)) = sr_index r"
  by (simp add: store_row_def split: option.split)

lemma MarkSent_index [simp]: "sr_index (fst (MarkSent ctx i r)) = sr_index r"
  by (simp add: MarkSent_def split: option.split)

lemma recordFailure_index [simp]: "sr_index (fst (recordFailure ctx i s r)) = sr_index r"
  by (simp add: recordFailure_def split: option.split)

lemma MarkSuperseded_index [simp]: "sr_index (fst (MarkSuperseded ctx i r)) = sr_index r"
  by (simp add: MarkSuperseded_def split: option.split)

lemma scm_step_index: "scm_step meta r r' \<Longrightarrow> scm_store_wf r \<Longrightarrow> map_of (sr_index r) key = Some k \<Longrightarrow> map_of (sr_index r') key = Some k"
  by (induction rule: scm_step.induct) (auto simp: Acquire_index)

lemma scm_run_index:
  assumes "(scm_step meta)\<^sup>*\<^sup>* r r'" "scm_store_wf r" "map_of (sr_index r) key = Some k"
  shows "scm_store_wf r' \<and> map_of (sr_index r') key = Some k"
  using assms by (induction rule: rtranclp_induct) (auto intro: scm_step_index scm_step_wf)

section \<open>The store under the reporter\<close>

text \<open>
  The environment is good when the clock is past the zero time, the UUIDs drawn are trimmed, all
  different and used by nobody else, and the other processes use the store through its operations.
\<close>

definition unused :: "Environment \<Rightarrow> nat \<Rightarrow> SCMStatusDeliveryRepository \<Rightarrow> bool" where
  "unused env n r \<longleftrightarrow> (\<forall>m \<ge> n. map_of (sr_deliveries r) (env_uuid env m) = None)"

definition good_env :: "Environment \<Rightarrow> bool" where
  "good_env env \<longleftrightarrow> (\<forall>n. 0 < env_now env n \<and> trimmed (env_uuid env n) \<and> env_uuid env n \<noteq> []) \<and> inj (env_uuid env) \<and>
     (\<forall>n r. scm_store_wf r \<and> unused env n r \<longrightarrow>
        (\<exists>meta. (scm_step meta)\<^sup>*\<^sup>* r (env_others env n r)) \<and> unused env n (env_others env n r))"

definition world_ok :: "Environment \<Rightarrow> World \<Rightarrow> bool" where
  "world_ok env w \<longleftrightarrow> scm_store_wf (w_deliveries w) \<and> unused env (w_tick w) (w_deliveries w)"

text \<open>\<open>grows\<close>: the world is still good and every stream known before is known.\<close>

definition grows :: "Environment \<Rightarrow> World \<Rightarrow> World \<Rightarrow> bool" where
  "grows env w w' \<longleftrightarrow> world_ok env w' \<and>
     (\<forall>key k. map_of (sr_index (w_deliveries w)) key = Some k \<longrightarrow> map_of (sr_index (w_deliveries w')) key = Some k)"

lemma grows_refl: "world_ok env w \<Longrightarrow> grows env w w"
  by (simp add: grows_def)

lemma grows_trans: "grows env w w' \<Longrightarrow> grows env w' w'' \<Longrightarrow> grows env w w''"
  by (simp add: grows_def)

lemma grows_ok: "grows env w w' \<Longrightarrow> world_ok env w'"
  by (simp add: grows_def)

lemma unused_mono: "unused env n r \<Longrightarrow> n \<le> m \<Longrightarrow> unused env m r"
  by (simp add: unused_def)

lemma grows_ask: "world_ok env w \<Longrightarrow> grows env w (fst (ask f w))"
  by (auto simp: grows_def world_ok_def ask_def intro: unused_mono)

lemma grows_publish: "world_ok env w \<Longrightarrow> grows env w (fst (publish env req w))"
  by (auto simp: grows_def world_ok_def publish_def Let_def intro: unused_mono)

text \<open>A store operation is safe when it keeps the invariant, the index, and adds no row but under the UUID it was given.\<close>

definition safe_op :: "string \<Rightarrow> (SCMStatusDeliveryRepository \<Rightarrow> SCMStatusDeliveryRepository) \<Rightarrow> SCMStatusDeliveryRepository \<Rightarrow> bool" where
  "safe_op uuid f r \<longleftrightarrow> scm_store_wf (f r) \<and>
     (\<forall>key k. map_of (sr_index r) key = Some k \<longrightarrow> map_of (sr_index (f r)) key = Some k) \<and>
     (\<forall>k. map_of (sr_deliveries r) k = None \<longrightarrow> k \<noteq> uuid \<longrightarrow> map_of (sr_deliveries (f r)) k = None)"

lemma grows_with_store:
  assumes env: "good_env env" and w: "world_ok env w"
    and safe: "\<And>r. scm_store_wf r \<Longrightarrow> unused env (w_tick w) r \<Longrightarrow>
       (\<And>key k. map_of (sr_index (w_deliveries w)) key = Some k \<Longrightarrow> map_of (sr_index r) key = Some k) \<Longrightarrow>
       safe_op (env_uuid env (w_tick w)) (\<lambda>r. fst (f (env_uuid env (w_tick w)) (env_ctx env (w_tick w)) r)) r"
  shows "grows env w (fst (with_store env f w))"
proof -
  let ?n = "w_tick w" and ?r = "env_others env (w_tick w) (w_deliveries w)"
  let ?s = "fst (f (env_uuid env ?n) (env_ctx env ?n) ?r)"
  obtain meta where run: "(scm_step meta)\<^sup>*\<^sup>* (w_deliveries w) ?r" and un: "unused env ?n ?r"
    using env w unfolding good_env_def world_ok_def by blast
  have wf: "scm_store_wf (w_deliveries w)" using w by (simp add: world_ok_def)
  have wf': "scm_store_wf ?r" using run wf by (induction rule: rtranclp_induct) (auto intro: scm_step_wf)
  have idx: "map_of (sr_index ?r) key = Some k" if "map_of (sr_index (w_deliveries w)) key = Some k" for key k
    using scm_run_index [OF run wf that] by simp
  have s: "safe_op (env_uuid env ?n) (\<lambda>r. fst (f (env_uuid env ?n) (env_ctx env ?n) r)) ?r"
    by (rule safe [OF wf' un idx])
  have "env_uuid env m \<noteq> env_uuid env ?n" if "m \<ge> Suc ?n" for m
    using env that by (auto simp: good_env_def dest: injD)
  then have "unused env (Suc ?n) ?s" using s un by (auto simp: safe_op_def unused_def)
  then show ?thesis
    using s idx by (auto simp: grows_def world_ok_def with_store_def Let_def safe_op_def split: prod.splits)
qed

lemma safe_update:
  assumes "scm_store_wf r" "scm_store_wf (fst (g r))" "sr_index (fst (g r)) = sr_index r"
    "\<And>k. map_of (sr_deliveries r) k = None \<Longrightarrow> map_of (sr_deliveries (fst (g r))) k = None"
  shows "safe_op uuid (\<lambda>r. fst (g r)) r"
  using assms by (simp add: safe_op_def)

lemma store_row_dom:
  assumes "scm_store_wf r" "map_of (sr_deliveries r) j = Some d" "sd_ID d' = sd_ID d" "map_of (sr_deliveries r) k = None"
  shows "map_of (sr_deliveries (fst (store_row d' r))) k = None"
  using assms scm_wf_row(1) [OF assms(1,2)] by (auto simp: store_row_def split: option.split)

lemma safe_MarkSent: "scm_store_wf r \<Longrightarrow> safe_op uuid (\<lambda>r. fst (MarkSent ctx i r)) r"
  by (rule safe_update) (auto simp: MarkSent_wf, auto simp: MarkSent_def store_row_dom split: option.split)

lemma safe_recordFailure: "scm_store_wf r \<Longrightarrow> safe_op uuid (\<lambda>r. fst (recordFailure ctx i s r)) r"
  by (rule safe_update) (auto simp: recordFailure_wf, auto simp: recordFailure_def store_row_dom split: option.split)

lemma safe_MarkSuperseded: "scm_store_wf r \<Longrightarrow> safe_op uuid (\<lambda>r. fst (MarkSuperseded ctx i r)) r"
  by (rule safe_update) (auto simp: MarkSuperseded_wf, auto simp: MarkSuperseded_def store_row_dom split: option.split)

lemma safe_Acquire:
  assumes wf: "scm_store_wf r" and pre: "acquire_pre uuid input r"
    and id: "TrimSpace (sd_ID (ci_Delivery input)) = [] \<or> map_of (sr_index r) (input_key input) \<noteq> None"
  shows "safe_op uuid (\<lambda>r. fst (AcquireForDelivery uuid ctx input r)) r"
proof -
  have "map_of (sr_deliveries (fst (AcquireForDelivery uuid ctx input r))) k = None"
    if k: "map_of (sr_deliveries r) k = None" "k \<noteq> uuid" for k
  proof (cases "AcquireForDelivery uuid ctx input r")
    case (Pair s x)
    show ?thesis
    proof (cases x)
      case (Inl err)
      then show ?thesis using Pair Acquire_error [of uuid ctx input r s err] k by simp
    next
      case (Inr res)
      with Pair have "AcquireForDelivery uuid ctx input r = (s, Inr res)" by simp
      then have "map_of (sr_deliveries s) k = None" using wf
        by (cases rule: Acquire_cases) (use k id in \<open>auto simp: created_row_sel\<close>)
      then show ?thesis by (simp add: Pair)
    qed
  qed
  then show ?thesis using Acquire_wf [OF wf pre] Acquire_index [OF wf] by (simp add: safe_op_def)
qed

section \<open>Every operation of the reporter keeps the store\<close>

definition rep_ok :: "SCMStatusReporter \<Rightarrow> bool" where
  "rep_ok rep \<longleftrightarrow> rpol_maxAttempts (rep_retryPolicy rep) < 2 ^ 63"

lemma fst_closed [simp]: "fst (closed out x) = fst x"
  by (auto simp: closed_def split: prod.splits sum.splits)

lemma grows_sent:
  "good_env env \<Longrightarrow> world_ok env w \<Longrightarrow> grows env w (fst (with_store env (\<lambda>_ ctx. MarkSent ctx i) w))"
  by (rule grows_with_store) (simp_all add: safe_MarkSent)

lemma grows_failure:
  "good_env env \<Longrightarrow> world_ok env w \<Longrightarrow> grows env w (fst (with_store env (\<lambda>_ ctx. recordFailure ctx i s) w))"
  by (rule grows_with_store) (simp_all add: safe_recordFailure)

lemma grows_superseded:
  "good_env env \<Longrightarrow> world_ok env w \<Longrightarrow> grows env w (fst (with_store env (\<lambda>_ ctx. MarkSuperseded ctx i) w))"
  by (rule grows_with_store) (simp_all add: safe_MarkSuperseded)

lemma grows_read:
  "good_env env \<Longrightarrow> world_ok env w \<Longrightarrow> grows env w (fst (with_store env (\<lambda>_ ctx r. (r, g ctx r)) w))"
  by (rule grows_with_store) (simp_all add: safe_op_def)

lemma grows_markSent: "good_env env \<Longrightarrow> world_ok env w \<Longrightarrow> grows env w (fst (markDeliverySent rep env d t w))"
  by (simp add: markDeliverySent_def grows_refl grows_sent split: sum.split)

lemma grows_markReassert: "good_env env \<Longrightarrow> world_ok env w \<Longrightarrow> grows env w (fst (markDeliveryReassertPending rep env d t u w))"
  by (simp add: markDeliveryReassertPending_def RecordRetryableFailure_def grows_refl grows_failure split: sum.split)

lemma grows_markFailed: "good_env env \<Longrightarrow> world_ok env w \<Longrightarrow> grows env w (fst (markDeliveryFailed rep env d e t w))"
  by (simp add: markDeliveryFailed_def RecordRetryableFailure_def RecordExhaustedFailure_def RecordPermanentFailure_def
      Let_def grows_refl grows_failure split: sum.split)

lemma acquire_pre_env:
  assumes "good_env env" "rep_ok rep" "unused env n r" "0 < t"
    and "TrimSpace (sd_ID d) = [] \<or> map_of (sr_index r) (scmStatusDeliveryKey d) \<noteq> None"
  shows "acquire_pre (env_uuid env n) (claim_input rep d t) r"
  using assms by (auto simp: acquire_pre_def good_env_def rep_ok_def unused_def claim_input_def input_key_def Let_def)

lemma grows_acquire:
  assumes env: "good_env env" and w: "world_ok env w" and rep: "rep_ok rep"
    and id: "TrimSpace (sd_ID d) = [] \<or> map_of (sr_index (w_deliveries w)) (scmStatusDeliveryKey d) \<noteq> None"
  shows "grows env w (fst (acquire rep env d w))"
proof -
  let ?u = "fst (ask (env_now env) w)"
  have u: "grows env w ?u" "w_deliveries ?u = w_deliveries w" "w_tick ?u = Suc (w_tick w)"
    using grows_ask [OF w] by (simp_all add: ask_def)
  let ?i = "claim_input rep d (env_now env (w_tick w))"
  have "grows env ?u (fst (with_store env (\<lambda>uuid ctx. AcquireForDelivery uuid ctx ?i) ?u))"
  proof (rule grows_with_store [OF env grows_ok [OF u(1)]])
    fix r assume r: "scm_store_wf r" "unused env (w_tick ?u) r"
      and idx: "\<And>key k. map_of (sr_index (w_deliveries ?u)) key = Some k \<Longrightarrow> map_of (sr_index r) key = Some k"
    have known: "TrimSpace (sd_ID d) = [] \<or> map_of (sr_index r) (input_key ?i) \<noteq> None"
      using id idx u(2) by (auto simp: input_key_def claim_input_def)
    have "acquire_pre (env_uuid env (w_tick ?u)) ?i r"
      using env known by (intro acquire_pre_env [OF env rep r(2)]) (auto simp: good_env_def input_key_def claim_input_def)
    then show "safe_op (env_uuid env (w_tick ?u)) (\<lambda>r. fst (AcquireForDelivery (env_uuid env (w_tick ?u)) (env_ctx env (w_tick ?u)) ?i r)) r"
      using known by (intro safe_Acquire [OF r(1)]) (simp_all add: claim_input_def)
  qed
  with u(1) show ?thesis
    by (simp add: acquire_def ask_def grows_trans)
qed

text \<open>A composite operation runs one step and goes on in the world that step left.\<close>

lemma grows_bind:
  assumes "world_ok env w" "grows env w (fst x)" "\<And>w' a. x = (w', a) \<Longrightarrow> world_ok env w' \<Longrightarrow> grows env w' (fst (f w' a))"
  shows "grows env w (fst (case x of (w', a) \<Rightarrow> f w' a))"
proof (cases x)
  case (Pair w' a)
  then show ?thesis using assms grows_trans grows_ok by fastforce
qed

lemma grows_fail: "good_env env \<Longrightarrow> world_ok env w \<Longrightarrow> grows env w (fst (fail_delivery rep env d e w))"
  unfolding fail_delivery_def
  by (intro grows_bind grows_ask grows_markFailed) (auto split: sum.split simp: grows_refl)

lemma grows_supersede: "good_env env \<Longrightarrow> world_ok env w \<Longrightarrow> grows env w (fst (supersede_delivery rep env d w))"
  unfolding supersede_delivery_def
  by (cases "claimedSCMStatusTimestamp d")
    (auto intro!: grows_bind grows_ask grows_superseded split: sum.split simp: grows_refl)

lemma grows_reassert: "good_env env \<Longrightarrow> world_ok env w \<Longrightarrow> grows env w (fst (reassertAuthoritativeDelivery env d w))"
  unfolding reassertAuthoritativeDelivery_def
  by (intro grows_bind grows_read) (auto intro!: grows_bind grows_publish split: sum.split simp: grows_refl)

lemma grows_conclude: "good_env env \<Longrightarrow> world_ok env w \<Longrightarrow> grows env w (fst (conclude_delivery rep env d ra w))"
  unfolding conclude_delivery_def
  by (intro grows_bind grows_ask)
    (auto intro!: grows_bind grows_markSent grows_markReassert grows_reassert split: sum.split option.split simp: grows_refl)

lemma grows_isSuperseded: "good_env env \<Longrightarrow> world_ok env w \<Longrightarrow> grows env w (fst (isSuperseded env b d w))"
  unfolding isSuperseded_def Let_def
  by (auto intro!: grows_bind grows_ask split: sum.split simp: grows_refl)

lemma grows_execute: "good_env env \<Longrightarrow> world_ok env w \<Longrightarrow> grows env w (fst (executeClaimedDelivery rep env d ra w))"
  unfolding executeClaimedDelivery_def
  by (intro grows_bind grows_ask)
    (auto intro!: grows_bind grows_isSuperseded grows_fail grows_supersede grows_publish grows_conclude
      split: sum.split option.split bool.split simp: grows_refl)

lemma grows_context: "world_ok env w \<Longrightarrow> grows env w (fst (buildContextName env b w))"
  unfolding buildContextName_def Let_def
  by (auto intro!: grows_bind grows_ask split: sum.split simp: grows_refl)

lemma grows_plan: "world_ok env w \<Longrightarrow> grows env w (fst (planDelivery rep env b w))"
  unfolding planDelivery_def Let_def
  by (auto intro!: grows_bind grows_context grows_ask split: sum.split option.split simp: grows_refl)

lemma plan_ID:
  assumes "planDelivery rep env b w = (w', Inr (Some d))"
  shows "sd_ID d = []"
  using assms
  by (auto simp: planDelivery_def Let_def planned_delivery_def zeroSCMStatusDelivery_def ask_def
      split: if_splits prod.splits sum.splits option.splits)

lemma grows_acquireDelivery:
  assumes "good_env env" "world_ok env w" "rep_ok rep"
  shows "grows env w (fst (acquireDelivery rep env b w))"
  unfolding acquireDelivery_def
proof (rule grows_bind [OF assms(2) grows_plan [OF assms(2)]])
  fix w' a assume p: "planDelivery rep env b w = (w', a)" and w': "world_ok env w'"
  have g: "grows env w' (fst (acquire rep env d w'))" if "a = Inr (Some d)" for d
    using plan_ID [of rep env b w w' d] p that by (intro grows_acquire [OF assms(1) w' assms(3)]) simp
  show "grows env w' (fst (case a of Inl err \<Rightarrow> (w', Inl err) | Inr None \<Rightarrow> (w', Inr None)
      | Inr (Some d) \<Rightarrow> (case acquire rep env d w' of (w, Inl err) \<Rightarrow> (w, Inl err)
           | (w, Inr result) \<Rightarrow> (w, Inr (if claim_granted (cr_Outcome result) then Some result else None)))))"
    using w' g by (auto intro!: grows_bind split: sum.split option.split simp: grows_refl)
qed

lemma grows_notify:
  assumes "good_env env" "world_ok env w" "rep_ok rep"
  shows "grows env w (fst (NotifyBuildStatus rep env b w))"
  unfolding NotifyBuildStatus_def
  using assms by (intro grows_bind grows_acquireDelivery)
    (auto intro!: grows_bind grows_execute split: sum.split option.split simp: grows_refl)

lemma grows_recover:
  assumes "good_env env" "world_ok env w" "rep_ok rep" "map_of (sr_index (w_deliveries w)) (scmStatusDeliveryKey d) \<noteq> None"
  shows "grows env w (fst (recoverDelivery rep env d w))"
  unfolding recoverDelivery_def Let_def
  using assms by (intro grows_bind grows_acquire)
    (auto intro!: grows_bind grows_ask grows_markFailed grows_execute split: sum.split simp: grows_refl)

lemma grows_drain:
  assumes env: "good_env env" and rep: "rep_ok rep" and w: "world_ok env w"
    and known: "\<forall>d \<in> set ds. map_of (sr_index (w_deliveries w)) (scmStatusDeliveryKey d) \<noteq> None"
  shows "grows env w (fst (drain_loop rep env ds result errs w))"
  using w known
proof (induction ds arbitrary: result errs w)
  case (Cons d ds)
  have g: "grows env w (fst (ask (env_ctx env) w))" by (rule grows_ask [OF Cons.prems(1)])
  obtain w1 c where 1: "ask (env_ctx env) w = (w1, c)" by force
  obtain w2 a e where 2: "recoverDelivery rep env d w1 = (w2, a, e)" by (metis prod_cases3)
  have g1: "grows env w w1" using g 1 by simp
  have known1: "\<forall>d \<in> set (d # ds). map_of (sr_index (w_deliveries w1)) (scmStatusDeliveryKey d) \<noteq> None"
    using g1 Cons.prems(2) by (fastforce simp: grows_def)
  have g2: "grows env w1 w2"
    using grows_recover [OF env grows_ok [OF g1] rep, of d] known1 2 by simp
  have known2: "\<forall>d \<in> set ds. map_of (sr_index (w_deliveries w2)) (scmStatusDeliveryKey d) \<noteq> None"
    using g2 known1 by (fastforce simp: grows_def)
  have "grows env w2 (fst (drain_loop rep env ds res es w2))" for res es
    by (rule Cons.IH [OF grows_ok [OF g2] known2])
  then show ?case
    using g1 g2 by (auto simp: 1 2 Let_def split: option.split intro: grows_trans)
qed (simp add: grows_refl)

definition recoverable :: "time \<Rightarrow> SCMStatusDeliveryRepository \<Rightarrow> (SCMStatusDelivery \<times> time) list" where
  "recoverable now r = concat (map (\<lambda>(_, d). case scmStatusDeliveryRecoverableDueAt d now of None \<Rightarrow> [] | Some t \<Rightarrow> [(d, t)]) (sr_deliveries r))"

lemma set_recoverable: "(d, t) \<in> set (recoverable now r) \<longleftrightarrow> (\<exists>k. (k, d) \<in> set (sr_deliveries r)) \<and> scmStatusDeliveryRecoverableDueAt d now = Some t"
  by (force simp: recoverable_def split: option.splits)

lemma ListRecoverable_eq:
  "ListRecoverable ctx now limit r = Inr ds \<longleftrightarrow> ctx = None \<and> now \<noteq> 0 \<and> 0 < limit \<and>
     ds = map fst (take (nat limit) (sort_slice recoverable_less (recoverable now r)))"
  by (auto simp: ListRecoverable_def recoverable_def Let_def split: option.splits)

lemma ListRecoverable_rows:
  assumes "ListRecoverable ctx now limit r = Inr ds" "d \<in> set ds" "scm_store_wf r"
  shows "map_of (sr_deliveries r) (sd_ID d) = Some d \<and> scmStatusDeliveryRecoverableDueAt d now \<noteq> None"
proof -
  have "\<exists>k. (k, d) \<in> set (sr_deliveries r) \<and> scmStatusDeliveryRecoverableDueAt d now \<noteq> None"
    using assms(1,2) by (auto simp: ListRecoverable_eq set_recoverable dest!: in_set_takeD)
  then obtain k where k: "map_of (sr_deliveries r) k = Some d" "scmStatusDeliveryRecoverableDueAt d now \<noteq> None"
    using scm_wf_maps [OF assms(3)] by auto
  then show ?thesis using scm_wf_row(1) [OF assms(3) k(1)] by simp
qed

lemma grows_iteration:
  assumes env: "good_env env" and w: "world_ok env w" and rep: "rep_ok rep"
  shows "grows env w (fst (RunIteration rep env batch w))"
  unfolding RunIteration_def
proof (rule grows_bind [OF w grows_ask [OF w]])
  fix w1 now assume w1: "world_ok env w1"
  show "grows env w1 (fst (case with_store env (\<lambda>_ ctx r. (r, ListRecoverable ctx now batch r)) w1 of
      (w, Inl err) \<Rightarrow> (w, zero_iteration, Inl err)
    | (w, Inr ds) \<Rightarrow> drain_loop rep env ds (zero_iteration\<lparr>ir_Scanned := int (length ds)\<rparr>) [] w))"
  proof (rule grows_bind [OF w1 grows_read [OF env w1]])
    fix w2 a assume s: "with_store env (\<lambda>_ ctx r. (r, ListRecoverable ctx now batch r)) w1 = (w2, a)" and w2: "world_ok env w2"
    have "map_of (sr_index (w_deliveries w2)) (scmStatusDeliveryKey d) \<noteq> None" if "a = Inr ds" "d \<in> set ds" for ds d
      using s that ListRecoverable_rows [of _ now batch "w_deliveries w2" ds d] scm_wf_row(5) [of "w_deliveries w2" "sd_ID d" d] w2
      by (auto simp: with_store_def Let_def world_ok_def)
    then show "grows env w2 (fst (case a of Inl err \<Rightarrow> (w2, zero_iteration, Inl err)
        | Inr ds \<Rightarrow> drain_loop rep env ds (zero_iteration\<lparr>ir_Scanned := int (length ds)\<rparr>) [] w2))"
      using w2 by (auto simp: grows_refl split: sum.split intro!: grows_drain [OF env rep])
  qed
qed

text \<open>
  Reporting a build and an iteration of the recovery drain keep the delivery store in order, whatever
  the publisher, the build store and the clock answer, and whatever other processes do to the store
  between two calls through its operations.
\<close>

theorem scm_reporter_keeps_store:
  assumes "good_env env" and "world_ok env w" and "rep_ok rep"
  shows "scm_store_wf (w_deliveries (fst (NotifyBuildStatus rep env build w))) \<and>
     scm_store_wf (w_deliveries (fst (RunIteration rep env batchSize w)))"
  using grows_ok [OF grows_notify [OF assms, of build]] grows_ok [OF grows_iteration [OF assms, of batchSize]]
  by (simp add: world_ok_def)

definition ex_uuid :: "nat \<Rightarrow> string" where
  "ex_uuid n = replicate (Suc n) CHR ''u''"

definition ex_env :: "(nat \<Rightarrow> SCMCommitStatusPublishRequest \<Rightarrow> dlv_error option) \<Rightarrow> Build \<Rightarrow> Environment" where
  "ex_env answer build = \<lparr>env_now = (\<lambda>n. 1000 + int n), env_ctx = (\<lambda>_. None), env_uuid = ex_uuid, env_build = (\<lambda>_ _. Inr build),
     env_builds = (\<lambda>_ _. Inr [build]), env_slug = (\<lambda>_ _. Inr ''proj''), env_publish = answer, env_others = (\<lambda>_ r. r)\<rparr>"

definition ex_world :: World where
  "ex_world = \<lparr>w_deliveries = NewSCMStatusDeliveryRepository, w_tick = 0, w_published = []\<rparr>"

definition ex_reporter :: SCMStatusReporter where
  "ex_reporter = NewSCMStatusReporter ''https://ci/'' ''w1'' 50"

lemma ex_env_good: "good_env (ex_env answer build)"
proof -
  have "inj ex_uuid" by (rule injI) (auto simp: ex_uuid_def replicate_eq_replicate)
  moreover have "trimmed (ex_uuid n)" "ex_uuid n \<noteq> []" for n
    by (simp_all add: ex_uuid_def trimmed_def is_space_def del: replicate_Suc)
  ultimately show ?thesis by (auto simp: good_env_def ex_env_def)
qed

lemma ex_world_ok: "world_ok env ex_world"
  by (simp add: world_ok_def ex_world_def scm_store_wf_new unused_def) (simp add: NewSCMStatusDeliveryRepository_def)

lemma ex_reporter_ok: "rep_ok ex_reporter"
  by (simp add: rep_ok_def ex_reporter_def NewSCMStatusReporter_def defaultSCMStatusRetryPolicy_def
      defaultSCMStatusDeliveryMaxAttempts_def)

theorem scm_reporter_keeps_store_witness:
  "\<forall>build. scm_store_wf (w_deliveries (fst (NotifyBuildStatus ex_reporter (ex_env (\<lambda>_ _. None) build) build ex_world)))"
  using scm_reporter_keeps_store [OF ex_env_good ex_world_ok ex_reporter_ok] by blast

section \<open>Counting\<close>

lemma recover_attempt:
  assumes "recoverDelivery rep env d w = (w', a, e)" "ra_executionOutcome a \<noteq> OutcomeNone"
  shows "ra_claimOutcome a \<in> {Some CreatedClaimed, Some RetryClaimed, Some StaleClaimReclaimed}"
  using assms
  by (auto simp: recoverDelivery_def no_attempt_def Let_def claim_granted_def split: prod.splits sum.splits if_splits)

definition granted_count :: "SCMStatusRecoveryIterationResult \<Rightarrow> int" where
  "granted_count r = ir_ClaimAcquired r + ir_RetryClaimed r + ir_StaleClaimReclaimed r"

definition executed_count :: "SCMStatusRecoveryIterationResult \<Rightarrow> int" where
  "executed_count r = ir_Sent r + ir_ReassertScheduled r + ir_RetryScheduled r + ir_PermanentlyFailed r + ir_AttemptsExhausted r +
     ir_LostClaim r + ir_Superseded r"

lemmas count_defs = granted_count_def executed_count_def

lemma apply_counts:
  "granted_count (applyAttemptResult a r) + ir_Skipped (applyAttemptResult a r) = granted_count r + ir_Skipped r + 1"
  "ir_Errors (applyAttemptResult a r) = ir_Errors r" "ir_Scanned (applyAttemptResult a r) = ir_Scanned r"
proof -
  have e: "granted_count (count_execution x r) = granted_count r" "ir_Skipped (count_execution x r) = ir_Skipped r"
    "ir_Errors (count_execution x r) = ir_Errors r" "ir_Scanned (count_execution x r) = ir_Scanned r" for x r
    by (cases x; simp add: count_defs)+
  have c: "granted_count (count_claim out r) + ir_Skipped (count_claim out r) = granted_count r + ir_Skipped r + 1"
    "ir_Errors (count_claim out r) = ir_Errors r" "ir_Scanned (count_claim out r) = ir_Scanned r" for out r
    by (auto simp: count_claim_def count_defs split: option.split SCMStatusDeliveryClaimOutcome.split)
  have g: "granted_count (r\<lparr>ir_RehydrationFailed := n\<rparr>) = granted_count r" for r n by (simp add: count_defs)
  show "granted_count (applyAttemptResult a r) + ir_Skipped (applyAttemptResult a r) = granted_count r + ir_Skipped r + 1"
    "ir_Errors (applyAttemptResult a r) = ir_Errors r" "ir_Scanned (applyAttemptResult a r) = ir_Scanned r"
    using c by (simp_all add: applyAttemptResult_def Let_def e g)
qed

lemma apply_executed:
  assumes "ra_executionOutcome a \<noteq> OutcomeNone \<Longrightarrow> ra_claimOutcome a \<in> {Some CreatedClaimed, Some RetryClaimed, Some StaleClaimReclaimed}"
  shows "executed_count (applyAttemptResult a r) - executed_count r \<le> granted_count (applyAttemptResult a r) - granted_count r"
  using assms
  by (cases "ra_executionOutcome a")
    (auto simp: applyAttemptResult_def count_claim_def count_defs Let_def split: option.split SCMStatusDeliveryClaimOutcome.split)

lemma drain_counts:
  assumes "drain_loop rep env ds result errs w = (w', result', Inr errs')"
  shows "granted_count result' + ir_Skipped result' = granted_count result + ir_Skipped result + int (length ds) \<and>
    ir_Errors result' - ir_Errors result = int (length errs') - int (length errs) \<and> ir_Scanned result' = ir_Scanned result \<and>
    executed_count result' - executed_count result \<le> granted_count result' - granted_count result"
  using assms
proof (induction ds arbitrary: result errs w)
  case (Cons d ds)
  obtain w1 c where 1: "ask (env_ctx env) w = (w1, c)" by force
  obtain w2 a e where 2: "recoverDelivery rep env d w1 = (w2, a, e)" by (metis prod_cases3)
  let ?r = "applyAttemptResult a result"
  have x: "executed_count ?r - executed_count result \<le> granted_count ?r - granted_count result"
    using recover_attempt [OF 2] by (intro apply_executed) auto
  have g: "granted_count (r\<lparr>ir_Errors := n\<rparr>) = granted_count r" "executed_count (r\<lparr>ir_Errors := n\<rparr>) = executed_count r" for r n
    by (simp_all add: count_defs)
  show ?case
    using Cons.prems x apply_counts [of a result]
    by (auto simp: 1 2 Let_def g split: option.splits dest!: Cons.IH)
qed simp

text \<open>
  The counters of a drain iteration that ran to its end account for every delivery it scanned: each
  was claimed in one of the three ways or skipped, no more deliveries were executed than claimed, and
  the error counter is the number of errors returned.
\<close>

theorem scm_drain_accounts:
  assumes "RunIteration rep env batchSize w = (w', result, Inr errs)"
  shows "ir_Scanned result = granted_count result + ir_Skipped result \<and> executed_count result \<le> granted_count result \<and>
     ir_Errors result = int (length errs)"
proof -
  obtain w1 now where 1: "ask (env_now env) w = (w1, now)" by force
  obtain w2 x where 2: "with_store env (\<lambda>_ ctx r. (r, ListRecoverable ctx now batchSize r)) w1 = (w2, x)" by force
  then obtain ds where ds: "drain_loop rep env ds (zero_iteration\<lparr>ir_Scanned := int (length ds)\<rparr>) [] w2 = (w', result, Inr errs)"
    using assms by (cases x) (auto simp: RunIteration_def 1)
  show ?thesis using drain_counts [OF ds] by (simp add: zero_iteration_def count_defs)
qed

section \<open>What a report does\<close>

text \<open>The environment is quiet when nobody else writes to the store and no context ends.\<close>

definition quiet :: "Environment \<Rightarrow> bool" where
  "quiet env \<longleftrightarrow> (\<forall>n r. env_others env n r = r) \<and> (\<forall>n. env_ctx env n = None)"

lemma with_store_quiet:
  "quiet env \<Longrightarrow> with_store env f w = (w\<lparr>w_deliveries := fst (f (env_uuid env (w_tick w)) None (w_deliveries w)), w_tick := Suc (w_tick w)\<rparr>,
     snd (f (env_uuid env (w_tick w)) None (w_deliveries w)))"
  by (simp add: with_store_def quiet_def Let_def split: prod.split)

text \<open>The claim of \<open>rep\<close> on the row \<open>c\<close>, as the store has it.\<close>

definition claimed_in :: "SCMStatusReporter \<Rightarrow> World \<Rightarrow> SCMStatusDelivery \<Rightarrow> bool" where
  "claimed_in rep w c \<longleftrightarrow> scm_store_wf (w_deliveries w) \<and> map_of (sr_deliveries (w_deliveries w)) (sd_ID c) = Some c \<and>
     sd_Status c = SCMStatusDeliveryStatusSending \<and> sd_ClaimedBy c = Some (TrimSpace (rep_claimOwner rep)) \<and>
     (\<exists>t. sd_ClaimedAt c = Some t \<and> t \<noteq> 0)"

lemma claimed_in_ask [simp]: "claimed_in rep (fst (ask f w)) c = claimed_in rep w c"
  by (simp add: claimed_in_def ask_def)

lemma acquire_claims:
  assumes env: "good_env env" "quiet env" and w: "world_ok env w" and rep: "rep_ok rep"
    and id: "TrimSpace (sd_ID d) = [] \<or> map_of (sr_index (w_deliveries w)) (scmStatusDeliveryKey d) \<noteq> None"
    and acq: "acquire rep env d w = (w', Inr res)" "claim_granted (cr_Outcome res)"
  shows "claimed_in rep w' (cr_Delivery res)" and "w_published w' = w_published w"
proof -
  let ?i = "claim_input rep d (env_now env (w_tick w))" and ?u = "env_uuid env (Suc (w_tick w))"
  have un: "unused env (Suc (w_tick w)) (w_deliveries w)" and wf: "scm_store_wf (w_deliveries w)"
    using w by (auto simp: world_ok_def intro: unused_mono)
  have now: "0 < env_now env (w_tick w)" using env(1) by (simp add: good_env_def)
  have a: "AcquireForDelivery ?u None ?i (w_deliveries w) = (w_deliveries w', Inr res)" and p: "w_published w' = w_published w"
    using acq(1) env(2) by (auto simp: acquire_def ask_def with_store_quiet prod_eq_iff)
  show "w_published w' = w_published w" by (rule p)
  obtain k where "map_of (sr_deliveries (w_deliveries w')) k = Some (cr_Delivery res)" "holds_claim ?i (cr_Delivery res)"
    "scm_store_wf (w_deliveries w')"
    using Acquire_grants [OF a acq(2) wf acquire_pre_env [OF env(1) rep un now id]] by blast
  then show "claimed_in rep w' (cr_Delivery res)"
    using scm_wf_row(1) [of "w_deliveries w'" k] now by (auto simp: claimed_in_def holds_claim_def claim_input_def)
qed

lemma acquireDelivery_claims:
  assumes "good_env env" "quiet env" "world_ok env w" "rep_ok rep"
    and "acquireDelivery rep env build w = (w', Inr (Some res))"
  shows "claimed_in rep w' (cr_Delivery res)" and "w_published w' = w_published w"
proof -
  obtain w1 d where p: "planDelivery rep env build w = (w1, Inr (Some d))" and a: "acquire rep env d w1 = (w', Inr res)"
    and g: "claim_granted (cr_Outcome res)"
    using assms(5) by (auto simp: acquireDelivery_def split: prod.splits sum.splits option.splits if_splits)
  have w1: "world_ok env w1" using grows_ok [OF grows_plan [OF assms(3), of rep build]] p by simp
  have pub: "w_published w1 = w_published w"
    using p by (auto simp: planDelivery_def buildContextName_def ask_def Let_def
        split: if_splits prod.splits sum.splits option.splits)
  show "claimed_in rep w' (cr_Delivery res)" "w_published w' = w_published w"
    using acquire_claims [OF assms(1,2) w1 assms(4) _ a g] plan_ID [OF p] pub by simp_all
qed

text \<open>A claimed row that was published closes as sent.\<close>

lemma sent_valid:
  assumes "valid_row c" "sd_Status c = SCMStatusDeliveryStatusSending" "ms_SentAt i \<noteq> 0" "ms_State i = sd_DesiredState c"
  shows "SCMStatusDelivery_Validate (scm_released (USent i) c) = None"
proof -
  let ?d = "scm_released (USent i) c"
  have id: "SCMStatusDelivery_ValidateIdentity c = None" "SCMStatusDelivery_ValidateIdentity (SCMStatusDelivery_Normalize c) = None"
    and row: "validate_row (SCMStatusDelivery_Normalize c) = None"
    using assms(1) by (simp_all add: valid_row_def Validate_None)
  have st: "trimOptional (Some (sd_DesiredState c)) = Some (TrimSpace (sd_DesiredState c))"
    "SCMCommitStatusState_IsValid (TrimSpace (sd_DesiredState c))"
    using id by (auto simp: SCMStatusDelivery_ValidateIdentity_def SCMCommitStatusState_IsValid_def trimOptional_def)
  have "SCMStatusDelivery_ValidateIdentity ?d = SCMStatusDelivery_ValidateIdentity c"
    "SCMStatusDelivery_ValidateIdentity (SCMStatusDelivery_Normalize ?d) = SCMStatusDelivery_ValidateIdentity (SCMStatusDelivery_Normalize c)"
    by (rule ValidateIdentity_cong; simp)+
  moreover have "validate_row (SCMStatusDelivery_Normalize ?d) = None"
    using row assms(2-4) st by (auto simp: scm_checks)
  ultimately show ?thesis using id by (simp add: Validate_None)
qed

lemma markSent_claimed:
  assumes c: "claimed_in rep w c" and env: "quiet env" and t: "t \<noteq> 0"
  shows "\<exists>w' d'. markDeliverySent rep env c t w = (w', Inr OutcomeSent) \<and> w_published w' = w_published w \<and>
    map_of (sr_deliveries (w_deliveries w')) (sd_ID c) = Some d' \<and> sd_Status d' = SCMStatusDeliveryStatusSent \<and>
    sd_LastSentState d' = Some (sd_DesiredState c) \<and> sd_BuildID d' = sd_BuildID c"
proof -
  obtain t0 where t0: "sd_ClaimedAt c = Some t0" "t0 \<noteq> 0" and wf: "scm_store_wf (w_deliveries w)"
    and row: "map_of (sr_deliveries (w_deliveries w)) (sd_ID c) = Some c"
    and cl: "sd_Status c = SCMStatusDeliveryStatusSending" "sd_ClaimedBy c = Some (TrimSpace (rep_claimOwner rep))"
    using c by (auto simp: claimed_in_def)
  let ?i = "\<lparr>ms_DeliveryID = sd_ID c, ms_ClaimOwner = rep_claimOwner rep, ms_ClaimedAt = t0, ms_SentAt = t, ms_State = sd_DesiredState c\<rparr>"
  let ?d = "scm_released (USent ?i) c"
  have tr: "TrimSpace (sd_ID c) = sd_ID c" using scm_wf_row(2) [OF wf row] by (rule TrimSpace_id)
  have h: "scm_holds c (USent ?i)" using cl t0 by (simp add: scm_holds_def scmStatusDeliveryClaimMatches_def)
  have v: "SCMStatusDelivery_Validate ?d = None" using sent_valid [OF scm_wf_row(4) [OF wf row] cl(1), of ?i] t by simp
  have m: "MarkSent None ?i (w_deliveries w) = ((w_deliveries w)\<lparr>sr_deliveries := gm_put (sd_ID c) ?d (sr_deliveries (w_deliveries w))\<rparr>,
      Inr \<lparr>ur_Delivery = ?d, ur_Outcome = Updated\<rparr>)"
    using scm_apply_form [of None "USent ?i" "w_deliveries w"] h row v by (simp add: tr store_row_def)
  show ?thesis
    by (simp add: markDeliverySent_def claimedSCMStatusTimestamp_def t0 with_store_quiet [OF env] m closed_def)
qed

lemma not_overtaken:
  assumes "\<forall>n j. \<exists>bs. env_builds env n j = Inr bs \<and> list_all (\<lambda>c. \<not> newer_build b d c) bs"
  shows "\<exists>n. isSuperseded env b d w = (w\<lparr>w_tick := n\<rparr>, Inr False)"
proof (cases "b_JobID b = None \<or> TrimSpace (readOptionalString (b_JobID b)) = []")
  case True
  then have "isSuperseded env b d w = (w\<lparr>w_tick := w_tick w\<rparr>, Inr False)" by (auto simp: isSuperseded_def Let_def)
  then show ?thesis by blast
next
  case False
  obtain bs where bs: "env_builds env (w_tick w) (TrimSpace (readOptionalString (b_JobID b))) = Inr bs"
    "list_all (\<lambda>c. \<not> newer_build b d c) bs" using assms by blast
  from bs(2) have "\<not> list_ex (newer_build b d) bs" by (auto simp: list_all_iff list_ex_iff)
  with False bs(1) have "isSuperseded env b d w = (w\<lparr>w_tick := Suc (w_tick w)\<rparr>, Inr False)"
    by (auto simp: isSuperseded_def ask_def Let_def)
  then show ?thesis by blast
qed

lemma overtaken:
  assumes "\<forall>n j. \<exists>bs. env_builds env n j = Inr bs \<and> list_ex (newer_build b d) bs"
    and "b_JobID b \<noteq> None" "TrimSpace (readOptionalString (b_JobID b)) \<noteq> []"
  shows "isSuperseded env b d w = (w\<lparr>w_tick := Suc (w_tick w)\<rparr>, Inr True)"
proof -
  obtain bs where "env_builds env (w_tick w) (TrimSpace (readOptionalString (b_JobID b))) = Inr bs" "list_ex (newer_build b d) bs"
    using assms(1) by blast
  with assms(2,3) show ?thesis by (auto simp: isSuperseded_def ask_def Let_def)
qed

text \<open>
  When a report gets the claim and nothing interferes, the build's state is published exactly once and
  the delivery ends as sent: its last sent state is the state that was published.
\<close>

theorem scm_notify_sends:
  assumes "good_env env" and "quiet env" and "world_ok env w" and "rep_ok rep"
    and "acquireDelivery rep env build w = (w1, Inr (Some res))" and "cr_ReassertAfter res = None"
    and "\<forall>n. env_build env n (sd_BuildID (cr_Delivery res)) = Inr b"
    and "\<forall>n j. \<exists>bs. env_builds env n j = Inr bs \<and> list_all (\<lambda>c. \<not> newer_build b (cr_Delivery res) c) bs"
    and "\<forall>n. env_publish env n (claimed_request (cr_Delivery res)) = None"
  shows "\<exists>w' d'. NotifyBuildStatus rep env build w = (w', None) \<and>
     w_published w' = w_published w @ [(claimed_request (cr_Delivery res), None)] \<and>
     map_of (sr_deliveries (w_deliveries w')) (sd_ID (cr_Delivery res)) = Some d' \<and> sd_Status d' = SCMStatusDeliveryStatusSent \<and>
     sd_LastSentState d' = Some (pq_State (claimed_request (cr_Delivery res)))"
proof -
  let ?c = "cr_Delivery res"
  note cl = acquireDelivery_claims [OF assms(1-5)]
  let ?w2 = "w1\<lparr>w_tick := Suc (w_tick w1)\<rparr>"
  obtain n where s: "isSuperseded env b ?c ?w2 = (?w2\<lparr>w_tick := n\<rparr>, Inr False)"
    using not_overtaken [OF assms(8)] by blast
  let ?w4 = "w1\<lparr>w_published := w_published w1 @ [(claimed_request ?c, None)], w_tick := Suc (Suc n)\<rparr>"
  let ?t = "env_now env (Suc n)"
  have t: "?t \<noteq> 0" using assms(1) unfolding good_env_def by (metis less_irrefl)
  have c4: "claimed_in rep ?w4 ?c" using cl(1) by (simp add: claimed_in_def)
  obtain w5 d' where m: "markDeliverySent rep env ?c ?t ?w4 = (w5, Inr OutcomeSent)" "w_published w5 = w_published ?w4"
    "map_of (sr_deliveries (w_deliveries w5)) (sd_ID ?c) = Some d'" "sd_Status d' = SCMStatusDeliveryStatusSent"
    "sd_LastSentState d' = Some (sd_DesiredState ?c)"
    using markSent_claimed [OF c4 assms(2) t] by blast
  have "executeClaimedDelivery rep env ?c None w1 = (w5, OutcomeSent, None)"
    using m(1) assms(7,9) by (simp add: executeClaimedDelivery_def ask_def s publish_def Let_def conclude_delivery_def)
  then have "NotifyBuildStatus rep env build w = (w5, None)"
    using assms(5,6) by (simp add: NotifyBuildStatus_def)
  with m cl(2) show ?thesis by (auto simp: claimed_request_def)
qed

text \<open>
  A delivery of a build that was overtaken is not published: when a newer build of the same job and
  commit exists, the claimed delivery is closed as superseded and nothing is sent.
\<close>

theorem scm_overtaken_not_published:
  assumes "claimed_in rep w c" and "quiet env" and "\<forall>n. env_now env n \<noteq> 0"
    and "\<forall>n. env_build env n (sd_BuildID c) = Inr b" and "b_JobID b \<noteq> None" and "TrimSpace (readOptionalString (b_JobID b)) \<noteq> []"
    and "\<forall>n j. \<exists>bs. env_builds env n j = Inr bs \<and> list_ex (newer_build b c) bs"
  shows "\<exists>w' d'. executeClaimedDelivery rep env c reassertAfter w = (w', OutcomeSuperseded, None) \<and> w_published w' = w_published w \<and>
     map_of (sr_deliveries (w_deliveries w')) (sd_ID c) = Some d' \<and> sd_Status d' = SCMStatusDeliveryStatusSuperseded"
proof -
  obtain t0 where t0: "sd_ClaimedAt c = Some t0" "t0 \<noteq> 0" and wf: "scm_store_wf (w_deliveries w)"
    and row: "map_of (sr_deliveries (w_deliveries w)) (sd_ID c) = Some c"
    and cl: "sd_Status c = SCMStatusDeliveryStatusSending" "sd_ClaimedBy c = Some (TrimSpace (rep_claimOwner rep))"
    using assms(1) by (auto simp: claimed_in_def)
  let ?w2 = "w\<lparr>w_tick := Suc (w_tick w)\<rparr>"
  let ?n = "Suc (Suc (w_tick w))"
  have s: "isSuperseded env b c ?w2 = (w\<lparr>w_tick := ?n\<rparr>, Inr True)"
    using overtaken [OF assms(7,5,6), of ?w2] by simp
  let ?u = "USuperseded \<lparr>sup_DeliveryID = sd_ID c, sup_ClaimOwner = Some (rep_claimOwner rep), sup_ClaimedAt = Some t0,
    sup_SupersededAt = env_now env ?n, sup_Reason = ''newer_build_attempt_exists'', sup_LastError = None\<rparr>"
  let ?d = "scm_released ?u c"
  have tr: "TrimSpace (sd_ID c) = sd_ID c" using scm_wf_row(2) [OF wf row] by (rule TrimSpace_id)
  have h: "scm_holds c ?u" using cl t0 by (simp add: scm_holds_def scmStatusDeliveryClaimMatches_def)
  have v: "SCMStatusDelivery_Validate ?d = None"
  proof -
    have "SCMStatusDelivery_ValidateIdentity ?d = SCMStatusDelivery_ValidateIdentity c"
      "SCMStatusDelivery_ValidateIdentity (SCMStatusDelivery_Normalize ?d) = SCMStatusDelivery_ValidateIdentity (SCMStatusDelivery_Normalize c)"
      by (rule ValidateIdentity_cong; simp)+
    moreover have "validate_row (SCMStatusDelivery_Normalize ?d) = None"
      using scm_wf_row(4) [OF wf row] assms(3) cl(1)
      by (auto simp: valid_row_def Validate_None scm_checks trimOptional_def)
    ultimately show ?thesis using scm_wf_row(4) [OF wf row] by (simp add: valid_row_def Validate_None)
  qed
  have m: "scm_apply None ?u (w_deliveries w) = ((w_deliveries w)\<lparr>sr_deliveries := gm_put (sd_ID c) ?d (sr_deliveries (w_deliveries w))\<rparr>,
      Inr \<lparr>ur_Delivery = ?d, ur_Outcome = Updated\<rparr>)"
    using scm_apply_form [of None ?u "w_deliveries w"] h row v by (simp add: tr store_row_def)
  show ?thesis
    using assms(4) m by (simp add: executeClaimedDelivery_def ask_def s supersede_delivery_def claimedSCMStatusTimestamp_def t0
        with_store_quiet [OF assms(2)] closed_def)
qed

text \<open>
  The reassertion that follows a lost claim never reaches GitHub. Its request leaves out the repository's
  identity, so that the GitHub App publisher refuses it with an error that is not retried, while the
  request of the claimed delivery itself passes that check.
\<close>

theorem scm_reassert_refused:
  assumes "valid_row d" and "sd_SCMConnectionID d = Some connectionID"
  shows "(\<exists>reason msg. scmStatusRequestIdentity (scmStatusPublishRequest d) = Inl (ErrPublisher False reason msg [])) \<and>
     (\<exists>identity. scmStatusRequestIdentity (claimed_request d) = Inr identity)"
proof -
  have "ValidateRepositoryIdentitySnapshot (sd_RegisteredRepositoryID d) (Some connectionID) (sd_ProviderRepositoryID d) = None"
    using assms by (auto simp: valid_row_def Validate_None SCMStatusDelivery_ValidateIdentity_def)
  then have "\<exists>identity. scmStatusRequestIdentity (claimed_request d) = Inr identity"
    using assms(2)
    by (cases "sd_RegisteredRepositoryID d"; cases "sd_ProviderRepositoryID d")
      (auto simp: ValidateRepositoryIdentitySnapshot_def scmStatusRequestIdentity_def claimed_request_def Let_def split: if_splits)
  then show ?thesis
    by (simp add: scmStatusRequestIdentity_def scmStatusPublishRequest_def scmStatusIdentityError_def)
qed

theorem scm_reassert_refused_witness:
  "\<exists>reason msg. scmStatusRequestIdentity (scmStatusPublishRequest ex_claimed) = Inl (ErrPublisher False reason msg [])"
  using scm_reassert_refused [OF scm_wf_row(4) [OF ex_store_wf, of "''u1''"], of ex_claimed "''conn''"]
  by (simp add: ex_store_def ex_claimed_def ex_delivery_def)

definition ex_build :: Build where
  "ex_build = (blank_build ''b1'' BuildStatusSuccess)\<lparr>b_JobID := Some ''j'', b_CreatedAt := 5, b_AttemptNumber := 1,
     b_RegisteredRepositoryID := Some ''reg'', b_SCMConnectionID := Some ''conn'', b_ProviderRepositoryID := Some ''repo'',
     b_CommitSHA := Some ''abc''\<rparr>"

definition ex_rerun :: Build where
  "ex_rerun = ex_build\<lparr>b_ID := ''b2'', b_AttemptNumber := 2\<rparr>"

definition ex_accept :: "nat \<Rightarrow> SCMCommitStatusPublishRequest \<Rightarrow> dlv_error option" where
  "ex_accept n req = None"

definition ex_claim :: "World \<times> (dlv_error + SCMStatusDeliveryClaimResult option)" where
  "ex_claim = acquireDelivery ex_reporter (ex_env ex_accept ex_build) ex_build ex_world"

definition ex_result :: SCMStatusDeliveryClaimResult where
  "ex_result = (case snd ex_claim of Inr (Some res) \<Rightarrow> res | _ \<Rightarrow> \<lparr>cr_Delivery = zeroSCMStatusDelivery, cr_Outcome = AlreadySent, cr_ReassertAfter = None\<rparr>)"

lemma ex_claim_granted: "snd ex_claim = Inr (Some ex_result)" "cr_ReassertAfter ex_result = None" "sd_BuildID (cr_Delivery ex_result) = ''b1''"
  by code_simp+

lemma ex_quiet: "quiet (ex_env answer b)"
  by (simp add: quiet_def ex_env_def)

lemma ex_accepts:
  "env_build (ex_env ex_accept ex_build) n i = Inr ex_build"
  "\<exists>bs. env_builds (ex_env ex_accept ex_build) n j = Inr bs \<and> list_all (\<lambda>c. \<not> newer_build ex_build d c) bs"
  "env_publish (ex_env ex_accept ex_build) n req = None"
  by (simp_all add: ex_env_def ex_accept_def newer_build_def)

theorem scm_notify_sends_witness:
  "\<exists>w' d'. NotifyBuildStatus ex_reporter (ex_env ex_accept ex_build) ex_build ex_world = (w', None) \<and>
     w_published w' = [(claimed_request (cr_Delivery ex_result), None)] \<and>
     map_of (sr_deliveries (w_deliveries w')) (sd_ID (cr_Delivery ex_result)) = Some d' \<and> sd_Status d' = ''sent''"
proof -
  have a: "acquireDelivery ex_reporter (ex_env ex_accept ex_build) ex_build ex_world = (fst ex_claim, Inr (Some ex_result))"
    using ex_claim_granted(1) by (simp add: ex_claim_def prod_eq_iff)
  show ?thesis
    using scm_notify_sends [OF ex_env_good ex_quiet ex_world_ok ex_reporter_ok a ex_claim_granted(2), of ex_build] ex_accepts
    by (force simp: ex_world_def)
qed

definition ex_claimed_world :: World where
  "ex_claimed_world = \<lparr>w_deliveries = ex_store, w_tick = 0, w_published = []\<rparr>"

lemma ex_claimed_in: "claimed_in ex_reporter ex_claimed_world ex_claimed"
proof -
  have "sd_ID ex_claimed = ''u1''" "TrimSpace (rep_claimOwner ex_reporter) = ''w1''" by code_simp+
  then show ?thesis
    by (simp add: claimed_in_def ex_claimed_world_def ex_store_wf) (simp add: ex_store_def ex_claimed_def)
qed

theorem scm_overtaken_not_published_witness:
  "\<exists>w' d'. executeClaimedDelivery ex_reporter ((ex_env ex_accept ex_build)\<lparr>env_builds := \<lambda>_ _. Inr [ex_build, ex_rerun]\<rparr>) ex_claimed None ex_claimed_world =
     (w', OutcomeSuperseded, None) \<and> w_published w' = [] \<and>
     map_of (sr_deliveries (w_deliveries w')) ''u1'' = Some d' \<and> sd_Status d' = ''superseded''"
proof -
  let ?e = "(ex_env ex_accept ex_build)\<lparr>env_builds := \<lambda>_ _. Inr [ex_build, ex_rerun]\<rparr>"
  have b: "\<forall>n. env_build ?e n (sd_BuildID ex_claimed) = Inr ex_build" "\<forall>n. env_now ?e n \<noteq> 0" "quiet ?e" by (simp_all add: ex_env_def quiet_def)
  have j: "b_JobID ex_build \<noteq> None" "TrimSpace (readOptionalString (b_JobID ex_build)) \<noteq> []" by code_simp+
  have "newer_build ex_build ex_claimed ex_rerun" by code_simp
  then have n: "\<forall>n j. \<exists>bs. env_builds ?e n j = Inr bs \<and> list_ex (newer_build ex_build ex_claimed) bs" by simp
  have "sd_ID ex_claimed = ''u1''" "w_published ex_claimed_world = []" by (simp_all add: ex_claimed_def ex_claimed_world_def)
  then show ?thesis
    using scm_overtaken_not_published [OF ex_claimed_in b(3,2,1) j n, of None] by simp
qed

section \<open>Deliveries whose last attempt died\<close>

interpretation recoverable_order: comparator recoverable_less "\<lambda>x. (snd x, sd_ID (fst x))"
  by unfold_locales (auto simp: recoverable_less_def)

lemma insort_key_before: "\<forall>b \<in> set B. f x \<le> f b \<Longrightarrow> insort_key f x (A @ B) = insort_key f x A @ B"
proof (induction A)
  case Nil
  then show ?case by (cases B) auto
qed simp

lemma insort_key_after: "\<forall>a \<in> set A. \<not> f x \<le> f a \<Longrightarrow> insort_key f x (A @ B) = A @ insort_key f x B"
  by (induction A) auto

lemma sort_key_partition:
  assumes "\<And>x y. x \<in> set xs \<Longrightarrow> y \<in> set xs \<Longrightarrow> P x \<Longrightarrow> \<not> P y \<Longrightarrow> f x < f y"
  shows "sort_key f xs = sort_key f (filter P xs) @ sort_key f (filter (\<lambda>x. \<not> P x) xs)"
  using assms
proof (induction xs)
  case (Cons x xs)
  then have IH: "sort_key f xs = sort_key f (filter P xs) @ sort_key f (filter (\<lambda>x. \<not> P x) xs)" by simp
  show ?case
  proof (cases "P x")
    case True
    have "\<forall>b \<in> set (sort_key f (filter (\<lambda>x. \<not> P x) xs)). f x \<le> f b" using Cons.prems [of x] True by (auto intro: less_imp_le)
    with True show ?thesis by (simp add: IH insort_key_before)
  next
    case False
    have "\<forall>a \<in> set (sort_key f (filter P xs)). \<not> f x \<le> f a" using Cons.prems [of _ x] False by (auto simp: not_le)
    with False show ?thesis by (simp add: IH insort_key_after)
  qed
qed simp

lemma due_earlier:
  assumes "T \<le> now"
  shows "scmStatusDeliveryRecoverableDueAt d T =
    (case scmStatusDeliveryRecoverableDueAt d now of None \<Rightarrow> None | Some t \<Rightarrow> if t \<le> T then Some t else None)"
  using assms by (auto simp: scmStatusDeliveryRecoverableDueAt_def Let_def split: option.split)

lemma recoverable_earlier: "T \<le> now \<Longrightarrow> recoverable T r = filter (\<lambda>x. snd x \<le> T) (recoverable now r)"
  unfolding recoverable_def
  by (induction "sr_deliveries r" arbitrary: r) (auto simp: filter_concat due_earlier split: option.split intro!: arg_cong [of _ _ concat])

text \<open>A full batch at time \<open>T\<close> is the batch at every later time, as long as the rows stay: what becomes due later sorts behind it.\<close>

lemma ListRecoverable_later:
  assumes "ListRecoverable None T limit r = Inr ds" "length ds = nat limit" "T \<le> now" "0 < T"
  shows "ListRecoverable None now limit r = Inr ds"
proof -
  let ?k = "\<lambda>x :: SCMStatusDelivery \<times> time. (snd x, sd_ID (fst x))"
  let ?xs = "recoverable now r" and ?n = "nat limit"
  have ds: "ds = map fst (take ?n (sort_key ?k (filter (\<lambda>x. snd x \<le> T) ?xs)))"
    using assms(1) by (simp add: ListRecoverable_eq recoverable_order.sort_slice_key recoverable_earlier [OF assms(3)])
  have "sort_key ?k ?xs = sort_key ?k (filter (\<lambda>x. snd x \<le> T) ?xs) @ sort_key ?k (filter (\<lambda>x. \<not> snd x \<le> T) ?xs)"
    by (rule sort_key_partition) auto
  moreover have "length (sort_key ?k (filter (\<lambda>x. snd x \<le> T) ?xs)) \<ge> ?n" using ds assms(2) by simp
  ultimately have "take ?n (sort_key ?k ?xs) = take ?n (sort_key ?k (filter (\<lambda>x. snd x \<le> T) ?xs))" by simp
  then show ?thesis
    using ds assms by (auto simp: ListRecoverable_eq recoverable_order.sort_slice_key)
qed

definition last_attempt_died :: "SCMStatusDelivery \<Rightarrow> bool" where
  "last_attempt_died d \<longleftrightarrow> sd_Status d = SCMStatusDeliveryStatusSending \<and> sd_MaxAttempts d \<le> sd_Attempts d"

definition rep_runs :: "SCMStatusReporter \<Rightarrow> bool" where
  "rep_runs rep \<longleftrightarrow> 0 < rep_claimDuration rep \<and> TrimSpace (rep_claimOwner rep) \<noteq> [] \<and> 0 < rpol_maxAttempts (rep_retryPolicy rep)"

lemma died_refused:
  assumes "last_attempt_died d" "valid_row d" "scmStatusDeliveryKey d = key"
  obtains out c where "reconcileSCMStatusDeliveryForClaim uuid d (SCMStatusDelivery_Normalize d) now owner dur maxAttempts = Inr (c, out, False, None)"
    "out \<in> {AttemptsExhausted, SupersededClaim}"
proof -
  have max: "sd_MaxAttempts (SCMStatusDelivery_Normalize d) \<le> sd_Attempts d"
  proof -
    have "validate_row (SCMStatusDelivery_Normalize d) = None" using assms(2) by (simp add: valid_row_def Validate_None)
    then show ?thesis using assms(1) by (auto simp: last_attempt_died_def validate_row_def)
  qed
  have out: "SCMStatusDeliveryClaimOutcomeFromExisting (SCMStatusDelivery_Normalize d) now = AttemptsExhausted"
    using assms(1) max by (auto simp: SCMStatusDeliveryClaimOutcomeFromExisting_def last_attempt_died_def)
  have eq: "CompareSCMStatusDeliveryOwners d d = 0" "\<not> replaces d d"
    by (simp_all add: Compare_same SCMStatusDeliveryShouldReplaceCurrentState_def)
  show ?thesis
  proof (cases "obsolete d d")
    case True
    then show ?thesis
      using eq by (intro that [of "SCMStatusDelivery_Normalize d" SupersededClaim]) (simp_all add: reconcileSCMStatusDeliveryForClaim_def Let_def)
  next
    case False
    then show ?thesis
      using eq out by (intro that [of "SCMStatusDelivery_Normalize d" AttemptsExhausted])
        (simp_all add: reconcileSCMStatusDeliveryForClaim_def Let_def claimSCMStatusDelivery_def)
  qed
qed

lemma recover_died:
  assumes env: "quiet env" "\<forall>n. 0 < env_now env n" and rep: "rep_runs rep" and wf: "scm_store_wf (w_deliveries w)"
    and d: "map_of (sr_deliveries (w_deliveries w)) (sd_ID d) = Some d" "last_attempt_died d"
  shows "\<exists>out \<in> {AttemptsExhausted, SupersededClaim}. recoverDelivery rep env d w =
    (w\<lparr>w_tick := Suc (Suc (w_tick w))\<rparr>, no_attempt\<lparr>ra_claimOutcome := Some out\<rparr>, None)"
proof -
  note row = scm_wf_row [OF wf d(1)]
  let ?i = "claim_input rep d (env_now env (w_tick w))" and ?u = "env_uuid env (Suc (w_tick w))"
  have "env_now env (w_tick w) \<noteq> 0" using env(2) by (metis less_irrefl)
  then have ok: "claim_input_ok ?i"
    using rep row(4) by (simp add: claim_input_ok_def claim_input_def rep_runs_def valid_row_def Validate_None)
  obtain out c where rec: "reconcileSCMStatusDeliveryForClaim ?u d (SCMStatusDelivery_Normalize d) (env_now env (w_tick w))
      (TrimSpace (rep_claimOwner rep)) (rep_claimDuration rep) (rpol_maxAttempts (rep_retryPolicy rep)) = Inr (c, out, False, None)"
    and out: "out \<in> {AttemptsExhausted, SupersededClaim}"
    using died_refused [OF d(2) row(4) refl] by metis
  have norm: "normalizeSCMClaimInput ?i = Inr (SCMStatusDelivery_Normalize d, env_now env (w_tick w), TrimSpace (rep_claimOwner rep), rep_claimDuration rep)"
    using ok by (simp add: normalizeSCMClaimInput_Inr claim_input_def)
  have "AcquireForDelivery ?u None ?i (w_deliveries w) =
      (w_deliveries w, Inr \<lparr>cr_Delivery = c, cr_Outcome = out, cr_ReassertAfter = None\<rparr>)"
    using rec row(5) d(1) by (simp add: AcquireForDelivery_def norm gm_get_or_def) (simp add: claim_input_def)
  then have "recoverDelivery rep env d w =
      (w\<lparr>w_tick := Suc (Suc (w_tick w))\<rparr>, no_attempt\<lparr>ra_claimOutcome := Some out\<rparr>, None)"
    using out by (auto simp: recoverDelivery_def acquire_def ask_def with_store_quiet [OF env(1)] claim_granted_def)
  with out show ?thesis by blast
qed

lemma drain_died:
  assumes env: "quiet env" "\<forall>n. 0 < env_now env n" and rep: "rep_runs rep"
    and "scm_store_wf (w_deliveries w)"
    and "\<forall>d \<in> set ds. map_of (sr_deliveries (w_deliveries w)) (sd_ID d) = Some d \<and> last_attempt_died d"
  shows "w_deliveries (fst (drain_loop rep env ds result errs w)) = w_deliveries w \<and>
    w_published (fst (drain_loop rep env ds result errs w)) = w_published w"
  using assms(4,5)
proof (induction ds arbitrary: result errs w)
  case (Cons d ds)
  let ?w1 = "w\<lparr>w_tick := Suc (w_tick w)\<rparr>"
  obtain out where r: "recoverDelivery rep env d ?w1 =
      (w\<lparr>w_tick := Suc (Suc (Suc (w_tick w)))\<rparr>, no_attempt\<lparr>ra_claimOutcome := Some out\<rparr>, None)"
    using recover_died [OF env rep, of ?w1 d] Cons.prems by auto
  show ?case
    using Cons.IH [of "w\<lparr>w_tick := Suc (Suc (Suc (w_tick w)))\<rparr>"] Cons.prems env(1)
    by (simp add: ask_def r Let_def quiet_def)
qed simp

text \<open>
  Deliveries whose last allowed attempt died block the recovery drain for good. Such a row stays
  \<open>sending\<close> with an expired claim: every scan lists it, at the same place, and no claim is ever granted on it
  or recorded against it. Once a whole batch consists of such rows, no later iteration publishes anything
  or changes the store, whatever other deliveries are due.
\<close>

theorem scm_dead_claims_block_drain:
  assumes "quiet env" and "0 < T" and "\<forall>n. T \<le> env_now env n" and "rep_runs rep" and "scm_store_wf (w_deliveries w)"
    and "ListRecoverable None T batchSize (w_deliveries w) = Inr batch" and "length batch = nat batchSize"
    and "\<forall>d \<in> set batch. last_attempt_died d"
  shows "w_deliveries (((\<lambda>w. fst (RunIteration rep env batchSize w)) ^^ k) w) = w_deliveries w \<and>
     w_published (((\<lambda>w. fst (RunIteration rep env batchSize w)) ^^ k) w) = w_published w"
proof (induction k)
  case (Suc k)
  define v where "v = ((\<lambda>w. fst (RunIteration rep env batchSize w)) ^^ k) w"
  have v: "w_deliveries v = w_deliveries w" "w_published v = w_published w" using Suc by (simp_all add: v_def)
  let ?v2 = "v\<lparr>w_tick := Suc (Suc (w_tick v))\<rparr>"
  have pos: "\<forall>n. 0 < env_now env n" using assms(2,3) by (meson less_le_trans)
  have l: "ListRecoverable None (env_now env (w_tick v)) batchSize (w_deliveries v) = Inr batch"
    using ListRecoverable_later [OF assms(6,7)] assms(2,3) by (simp add: v)
  have rows: "\<forall>d \<in> set batch. map_of (sr_deliveries (w_deliveries ?v2)) (sd_ID d) = Some d \<and> last_attempt_died d"
    using ListRecoverable_rows [OF assms(6) _ assms(5)] assms(8) by (simp add: v)
  have "fst (RunIteration rep env batchSize v) =
      fst (drain_loop rep env batch (zero_iteration\<lparr>ir_Scanned := int (length batch)\<rparr>) [] ?v2)"
    by (simp add: RunIteration_def ask_def with_store_quiet [OF assms(1)] l)
  then show ?case
    using drain_died [OF assms(1) pos assms(4) _ rows] assms(5) v by (simp add: v_def [symmetric])
qed simp

text \<open>One dead row and one delivery whose retry is due, with batches of one: the retry never happens.\<close>

definition ex_dead :: SCMStatusDelivery where
  "ex_dead = ex_claimed\<lparr>sd_Attempts := 3\<rparr>"

definition ex_waiting :: SCMStatusDelivery where
  "ex_waiting = ex_claimed\<lparr>sd_ID := ''u2'', sd_CommitSHA := ''def'', sd_Status := ''retry_waiting'', sd_NextAttemptAt := Some 500,
     sd_ClaimedBy := None, sd_ClaimedAt := None, sd_ClaimExpiresAt := None, sd_FailureCategory := Some ''retryable''\<rparr>"

definition ex_blocked :: World where
  "ex_blocked = \<lparr>w_deliveries = \<lparr>sr_deliveries = [(''u2'', ex_waiting), (''u1'', ex_dead)],
     sr_index = [(''repository|conn|repo|def|coyote/p/j'', ''u2''), (''repository|conn|repo|abc|coyote/p/j'', ''u1'')]\<rparr>,
     w_tick = 0, w_published = []\<rparr>"

lemma ex_blocked_rows:
  "SCMStatusDelivery_Validate ex_dead = None" "SCMStatusDelivery_Validate ex_waiting = None"
  "scmStatusDeliveryKey ex_dead = ''repository|conn|repo|abc|coyote/p/j''" "scmStatusDeliveryKey ex_waiting = ''repository|conn|repo|def|coyote/p/j''"
  "sd_ID ex_dead = ''u1''" "sd_ID ex_waiting = ''u2''" "sd_MaxAttempts ex_dead = 3" "sd_MaxAttempts ex_waiting = 3"
  by code_simp+

lemma ex_blocked_wf: "scm_store_wf (w_deliveries ex_blocked)"
  by (rule scm_store_wfI)
    (auto simp: ex_blocked_def ex_blocked_rows valid_row_def trimmed_def is_space_def split: if_splits)

theorem scm_dead_claims_block_drain_witness:
  "\<forall>k. w_deliveries (((\<lambda>w. fst (RunIteration ex_reporter (ex_env ex_accept ex_build) 1 w)) ^^ k) ex_blocked) = w_deliveries ex_blocked"
proof
  fix k
  have b: "ListRecoverable None 1000 1 (w_deliveries ex_blocked) = Inr [ex_dead]" by code_simp
  have r: "rep_runs ex_reporter" by code_simp
  show "w_deliveries (((\<lambda>w. fst (RunIteration ex_reporter (ex_env ex_accept ex_build) 1 w)) ^^ k) ex_blocked) = w_deliveries ex_blocked"
    using scm_dead_claims_block_drain [OF ex_quiet _ _ r ex_blocked_wf b, of ex_accept ex_build k]
    by (simp add: ex_env_def last_attempt_died_def ex_dead_def ex_claimed_def)
qed

definition ex_due :: World where
  "ex_due = ex_blocked\<lparr>w_deliveries := \<lparr>sr_deliveries = [(''u2'', ex_waiting)],
     sr_index = [(''repository|conn|repo|def|coyote/p/j'', ''u2'')]\<rparr>\<rparr>"

theorem scm_drain_accounts_witness:
  "let (w', result, errs) = RunIteration ex_reporter (ex_env ex_accept ex_build) 25 ex_due
   in errs = Inr [] \<and> ir_Sent result = 1 \<and> ir_Scanned result = granted_count result + ir_Skipped result"
proof -
  obtain w' result errs where r: "RunIteration ex_reporter (ex_env ex_accept ex_build) 25 ex_due = (w', result, errs)"
    by (metis prod_cases3)
  have "snd (snd (RunIteration ex_reporter (ex_env ex_accept ex_build) 25 ex_due)) = Inr []"
    "ir_Sent (fst (snd (RunIteration ex_reporter (ex_env ex_accept ex_build) 25 ex_due))) = 1" by code_simp+
  with r have e: "errs = Inr []" "ir_Sent result = 1" by simp_all
  then show ?thesis using scm_drain_accounts [of ex_reporter "ex_env ex_accept ex_build" 25 ex_due w' result "[]"] r by simp
qed

end
