(* ===== verification/Job_Stores.thy ===== *)
theory Job_Stores
  imports Repo_Requests Build_Queries
begin

text \<open>
  Jobs and what they refer to: \<open>domain/job.go\<close>, \<open>domain/job_artifact_trigger.go\<close>, \<open>domain/project.go\<close>,
  \<open>domain/scm_repository_registration.go\<close>, \<open>domain/job_managed_image_config.go\<close>, with the in-memory stores
  of jobs, projects, registered repositories, managed image settings and credentials.
  \<open>url.Parse\<close> and the printing of a URL are arguments (\<open>URLPackage\<close>).
\<close>

section \<open>Listings\<close>

text \<open>The order of most listings: the newest first, equal times by identifier.\<close>

definition newest_first :: "('a \<Rightarrow> time) \<Rightarrow> ('a \<Rightarrow> string) \<Rightarrow> 'a \<Rightarrow> 'a \<Rightarrow> bool" where
  "newest_first created ident a b \<longleftrightarrow> (if created a = created b then ident a < ident b else created a > created b)"

definition oldest_first :: "('a \<Rightarrow> time) \<Rightarrow> ('a \<Rightarrow> string) \<Rightarrow> 'a \<Rightarrow> 'a \<Rightarrow> bool" where
  "oldest_first created ident a b \<longleftrightarrow> (if created a = created b then ident a < ident b else created a < created b)"

text \<open>The loop of the \<open>GetByIDs\<close> methods: trimmed identifiers, each looked up once.\<close>

fun lookup_each :: "string list \<Rightarrow> string list \<Rightarrow> (string, 'a) gomap \<Rightarrow> 'a list" where
  "lookup_each seen [] m = []"
| "lookup_each seen (i # ids) m =
     (let trimmedID = TrimSpace i
      in if trimmedID = [] \<or> List.member seen trimmedID then lookup_each seen ids m
         else case map_of m trimmedID of
                None \<Rightarrow> lookup_each (trimmedID # seen) ids m
              | Some x \<Rightarrow> x # lookup_each (trimmedID # seen) ids m)"

section \<open>Jobs\<close>

definition JobTriggerModeBranches :: string where "JobTriggerModeBranches = ''branches''"
definition JobTriggerModeTags :: string where "JobTriggerModeTags = ''tags''"
definition JobTriggerModeBranchesAndTags :: string where "JobTriggerModeBranchesAndTags = ''branches_and_tags''"

record JobArtifactTrigger =
  at_ProducerJobID :: string
  at_Path :: string

definition NormalizeJobArtifactTrigger :: "JobArtifactTrigger \<Rightarrow> JobArtifactTrigger" where
  "NormalizeJobArtifactTrigger trigger = \<lparr>at_ProducerJobID = TrimSpace (at_ProducerJobID trigger), at_Path = TrimSpace (at_Path trigger)\<rparr>"

fun normalize_triggers :: "string list \<Rightarrow> JobArtifactTrigger list \<Rightarrow> JobArtifactTrigger list" where
  "normalize_triggers seen [] = []"
| "normalize_triggers seen (trigger # triggers) =
     (let item = NormalizeJobArtifactTrigger trigger; key = at_ProducerJobID item @ [CHR 0x00] @ at_Path item
      in if at_ProducerJobID item = [] \<or> at_Path item = [] \<or> List.member seen key then normalize_triggers seen triggers
         else item # normalize_triggers (key # seen) triggers)"

definition NormalizeJobArtifactTriggers :: "JobArtifactTrigger list \<Rightarrow> JobArtifactTrigger list" where
  "NormalizeJobArtifactTriggers triggers = normalize_triggers [] triggers"

record JobManagedImageConfig =
  mc_ID :: string
  mc_JobID :: string
  mc_ManagedImageName :: string
  mc_PipelinePath :: string
  mc_WriteCredentialID :: string
  mc_BotBranchPrefix :: string
  mc_CommitAuthorName :: string
  mc_CommitAuthorEmail :: string
  mc_Enabled :: bool
  mc_CreatedAt :: time
  mc_UpdatedAt :: time

record JobBuildSummary =
  bsum_ID :: string
  bsum_BuildNumber :: int
  bsum_Status :: BuildStatus
  bsum_CreatedAt :: time
  bsum_FinishedAt :: "time option"
  bsum_ErrorMessage :: "string option"

record Job =
  jb_ID :: string
  jb_ProjectID :: string
  jb_Name :: string
  jb_Priority :: int
  jb_RepositoryID :: "string option"
  jb_RepositoryURL :: string
  jb_DefaultRef :: string
  jb_DefaultCommitSHA :: "string option"
  jb_PushEnabled :: bool
  jb_PullRequestEnabled :: bool
  jb_PushBranch :: "string option"
  jb_TriggerMode :: string
  jb_BranchAllowlist :: "string list"
  jb_TagAllowlist :: "string list"
  jb_ArtifactTriggers :: "JobArtifactTrigger list"
  jb_PipelineYAML :: string
  jb_PipelinePath :: "string option"
  jb_ManagedImageConfig :: "JobManagedImageConfig option"
  jb_LatestBuild :: "JobBuildSummary option"
  jb_Enabled :: bool
  jb_CreatedAt :: time
  jb_UpdatedAt :: time

section \<open>The errors of jobs and triggers\<close>

text \<open>
  The error values of the repositories and of the job service that the code compares with
  \<open>errors.Is\<close>, the errors of the build service, and those that wrap another one with \<open>%w\<close>.
\<close>

datatype job_error =
  RepoErrJobNotFound | RepoErrProjectNotFound | RepoErrProjectSlugConflict | RepoErrProjectHasJobs
| RepoErrSourceCredentialNotFound | RepoErrJobManagedImageConfigNotFound
| RepoErrSCMRepositoryRegistrationNotFound | RepoErrSCMRepositoryRegistrationDuplicate
| RepoErrWebhookDeliveryNotFound | RepoErrWebhookDeliveryDuplicate
| RepoErrArtifactTriggerDeliveryNotFound | RepoErrArtifactTriggerDeliveryDuplicate | RepoErrArtifactTriggerDeliveryRetryNotClaimable
| ErrJobNotFound | ErrProjectIDRequired | ErrJobIDRequired | ErrJobNameRequired | ErrJobProjectIDRequired
| ErrJobRepositorySourceRequired | ErrJobRepositoryAssignmentConflict | ErrJobRepositoryIDEmpty
| ErrJobRegisteredRepositoryDisabled | ErrJobRegisteredRepositoryStoreNotConfigured
| ErrJobSourceTargetRequired | ErrJobPipelineDefinitionRequired | ErrJobInvalidTriggerMode | ErrJobPriorityOutOfRange
| ErrPushEventRepositoryURLRequired | ErrWebhookProviderRepositoryIDRequired | ErrPushEventRefRequired | ErrPushEventCommitSHARequired
| ErrJobNameAmbiguous | ErrJobDisabled | ErrJobRunRefRequired | ErrJobBuildServiceNotConfigured
| ErrJobManagedImageConfigNotConfigured | ErrJobManagedImageNameRequired | ErrJobManagedImagePipelinePathRequired
| ErrJobManagedImageWriteCredentialIDRequired
| ErrJobArtifactTriggerProducerJobIDRequired | ErrJobArtifactTriggerPathRequired | ErrJobArtifactTriggerSelfReference
| ErrArtifactTriggerDeliveryQueuedBuildConflict | ErrArtifactTriggerDeliveryPendingRetryDeferred
| ErrArtifactTriggerDeliveryRetryNotSupported | ErrJobArtifactTriggerDeliveryRepositoryNotConfigured | ErrArtifactNotFound
| ErrDeliveryRepoNotConfigured | ErrDeliveryIDRequired | ErrDeliveryProviderRequired | ErrInvalidDeliveryTransition
| JobErrorf string
| BuildError svc_error
| WebhookBuildError string job_error

section \<open>The store of jobs\<close>

record JobRepository =
  jobr_jobs :: "(string, Job) gomap"

definition NewJobRepository :: JobRepository where
  "NewJobRepository = \<lparr>jobr_jobs = []\<rparr>"

abbreviation job_less :: "Job \<Rightarrow> Job \<Rightarrow> bool" where
  "job_less \<equiv> newest_first jb_CreatedAt jb_ID"

definition stored_job :: "Job \<Rightarrow> Job" where
  "stored_job job = job\<lparr>jb_ArtifactTriggers := NormalizeJobArtifactTriggers (jb_ArtifactTriggers job)\<rparr>"

definition JobRepository_Create :: "string \<Rightarrow> Job \<Rightarrow> JobRepository \<Rightarrow> JobRepository \<times> Job" where
  "JobRepository_Create uuid job r =
     (let job1 = stored_job (if jb_ID job = [] then job\<lparr>jb_ID := uuid\<rparr> else job)
      in (r\<lparr>jobr_jobs := gm_put (jb_ID job1) job1 (jobr_jobs r)\<rparr>, job1))"

definition JobRepository_Delete :: "string \<Rightarrow> JobRepository \<Rightarrow> JobRepository \<times> job_error option" where
  "JobRepository_Delete i r =
     (if map_of (jobr_jobs r) i = None then (r, Some RepoErrJobNotFound)
      else (r\<lparr>jobr_jobs := AList.delete i (jobr_jobs r)\<rparr>, None))"

text \<open>Every listing filters the values of the map and sorts them.\<close>

definition list_jobs :: "(Job \<Rightarrow> bool) \<Rightarrow> JobRepository \<Rightarrow> Job list" where
  "list_jobs p r = sort_slice job_less (filter p (map snd (jobr_jobs r)))"

definition JobRepository_List :: "JobRepository \<Rightarrow> Job list" where
  "JobRepository_List r = list_jobs (\<lambda>_. True) r"

definition JobRepository_GetByIDs :: "string list \<Rightarrow> JobRepository \<Rightarrow> Job list" where
  "JobRepository_GetByIDs ids r = sort_slice job_less (lookup_each [] ids (jobr_jobs r))"

definition JobRepository_ListPaged :: "ListParams \<Rightarrow> JobRepository \<Rightarrow> Job list" where
  "JobRepository_ListPaged params r =
     (let all = JobRepository_List r; (limit, offset) = clampMemoryPageParams params
      in if offset \<ge> int (length all) then []
         else (let end0 = offset + limit;
                   end1 = (if end0 > int (length all) then int (length all) else end0)
               in take (nat end1 - nat offset) (drop (nat offset) all)))"

definition JobRepository_ListByProjectID :: "string \<Rightarrow> JobRepository \<Rightarrow> Job list" where
  "JobRepository_ListByProjectID projectID r = list_jobs (\<lambda>job. jb_ProjectID job = projectID) r"

definition JobRepository_FindByProjectIDAndName :: "string \<Rightarrow> string \<Rightarrow> int \<Rightarrow> JobRepository \<Rightarrow> Job list" where
  "JobRepository_FindByProjectIDAndName projectID name limit r =
     (let limit1 = (if limit \<le> 0 then 1 else limit);
          out = list_jobs (\<lambda>job. jb_ProjectID job = projectID \<and> jb_Name job = name) r
      in if int (length out) > limit1 then take (nat limit1) out else out)"

definition normalizeRepositoryURLForMatch :: "string \<Rightarrow> string" where
  "normalizeRepositoryURLForMatch value =
     (let trimmed = TrimSpace (ToLower value)
      in if trimmed = [] then [] else TrimSuffix (TrimSuffix trimmed ''/'') ''.git'')"

definition JobRepository_ListPushEnabledByRepository :: "string \<Rightarrow> JobRepository \<Rightarrow> Job list" where
  "JobRepository_ListPushEnabledByRepository repositoryURL r =
     (let normalizedRepo = normalizeRepositoryURLForMatch repositoryURL
      in if normalizedRepo = [] then []
         else list_jobs (\<lambda>job. jb_Enabled job \<and> jb_PushEnabled job \<and>
                normalizeRepositoryURLForMatch (jb_RepositoryURL job) = normalizedRepo) r)"

definition assigned_to :: "string \<Rightarrow> Job \<Rightarrow> bool" where
  "assigned_to repositoryID job = (case jb_RepositoryID job of None \<Rightarrow> False | Some i \<Rightarrow> TrimSpace i = repositoryID)"

definition JobRepository_ListPushEnabledByRepositoryID :: "string \<Rightarrow> JobRepository \<Rightarrow> Job list" where
  "JobRepository_ListPushEnabledByRepositoryID repositoryID0 r =
     (let repositoryID = TrimSpace repositoryID0
      in if repositoryID = [] then []
         else list_jobs (\<lambda>job. jb_Enabled job \<and> jb_PushEnabled job \<and> assigned_to repositoryID job) r)"

definition JobRepository_ListPullRequestEnabledByRepositoryID :: "string \<Rightarrow> JobRepository \<Rightarrow> Job list" where
  "JobRepository_ListPullRequestEnabledByRepositoryID repositoryID0 r =
     (let repositoryID = TrimSpace repositoryID0
      in if repositoryID = [] then []
         else list_jobs (\<lambda>job. jb_Enabled job \<and> jb_PullRequestEnabled job \<and> assigned_to repositoryID job) r)"

definition JobRepository_GetByID :: "string \<Rightarrow> JobRepository \<Rightarrow> job_error + Job" where
  "JobRepository_GetByID i r = (case map_of (jobr_jobs r) i of None \<Rightarrow> Inl RepoErrJobNotFound | Some job \<Rightarrow> Inr job)"

definition JobRepository_Update :: "Job \<Rightarrow> JobRepository \<Rightarrow> JobRepository \<times> (job_error + Job)" where
  "JobRepository_Update job r =
     (if map_of (jobr_jobs r) (jb_ID job) = None then (r, Inl RepoErrJobNotFound)
      else let job1 = stored_job job
           in (r\<lparr>jobr_jobs := gm_put (jb_ID job1) job1 (jobr_jobs r)\<rparr>, Inr job1))"

section \<open>Projects\<close>

definition DefaultProjectSlug :: string where
  "DefaultProjectSlug = ''default''"

record Project =
  prj_ID :: string
  prj_Name :: string
  prj_Slug :: string
  prj_Description :: "string option"
  prj_IsPublic :: bool
  prj_CreatedAt :: time
  prj_UpdatedAt :: time

record ProjectRepository =
  prjr_projects :: "(string, Project) gomap"

definition NewProjectRepository :: ProjectRepository where
  "NewProjectRepository = \<lparr>prjr_projects = []\<rparr>"

definition slugExistsLocked :: "string \<Rightarrow> string \<Rightarrow> ProjectRepository \<Rightarrow> bool" where
  "slugExistsLocked slug excludeID r =
     list_ex (\<lambda>(i, project). i \<noteq> excludeID \<and> EqualFold (prj_Slug project) slug) (prjr_projects r)"

definition ProjectRepository_Create :: "string \<Rightarrow> Project \<Rightarrow> ProjectRepository \<Rightarrow> ProjectRepository \<times> (job_error + Project)" where
  "ProjectRepository_Create uuid project r =
     (let project1 = (if prj_ID project = [] then project\<lparr>prj_ID := uuid\<rparr> else project)
      in if slugExistsLocked (prj_Slug project1) [] r then (r, Inl RepoErrProjectSlugConflict)
         else (r\<lparr>prjr_projects := gm_put (prj_ID project1) project1 (prjr_projects r)\<rparr>, Inr project1))"

definition ProjectRepository_GetByID :: "string \<Rightarrow> ProjectRepository \<Rightarrow> job_error + Project" where
  "ProjectRepository_GetByID i r = (case map_of (prjr_projects r) i of None \<Rightarrow> Inl RepoErrProjectNotFound | Some p \<Rightarrow> Inr p)"

definition ProjectRepository_GetByIDs :: "string list \<Rightarrow> ProjectRepository \<Rightarrow> Project list" where
  "ProjectRepository_GetByIDs ids r = sort_slice (oldest_first prj_CreatedAt prj_ID) (lookup_each [] ids (prjr_projects r))"

definition ProjectRepository_GetBySlug :: "string \<Rightarrow> ProjectRepository \<Rightarrow> job_error + Project" where
  "ProjectRepository_GetBySlug slug r =
     (case find (\<lambda>project. prj_Slug project = slug) (map snd (prjr_projects r)) of
        None \<Rightarrow> Inl RepoErrProjectNotFound | Some project \<Rightarrow> Inr project)"

definition ProjectRepository_List :: "ProjectRepository \<Rightarrow> Project list" where
  "ProjectRepository_List r = sort_slice (oldest_first prj_CreatedAt prj_ID) (map snd (prjr_projects r))"

definition ProjectRepository_Update :: "Project \<Rightarrow> ProjectRepository \<Rightarrow> ProjectRepository \<times> (job_error + Project)" where
  "ProjectRepository_Update project r =
     (if map_of (prjr_projects r) (prj_ID project) = None then (r, Inl RepoErrProjectNotFound)
      else if slugExistsLocked (prj_Slug project) (prj_ID project) r then (r, Inl RepoErrProjectSlugConflict)
      else (r\<lparr>prjr_projects := gm_put (prj_ID project) project (prjr_projects r)\<rparr>, Inr project))"

text \<open>The store of projects holds the store of jobs, which it may lack, to refuse the deletion of a project in use.\<close>

definition ProjectRepository_Delete :: "string \<Rightarrow> JobRepository option \<Rightarrow> ProjectRepository \<Rightarrow> ProjectRepository \<times> job_error option" where
  "ProjectRepository_Delete i jobRepo r =
     (if map_of (prjr_projects r) i = None then (r, Some RepoErrProjectNotFound)
      else if (case jobRepo of None \<Rightarrow> False | Some jobs \<Rightarrow> JobRepository_ListByProjectID i jobs \<noteq> [])
      then (r, Some RepoErrProjectHasJobs)
      else (r\<lparr>prjr_projects := AList.delete i (prjr_projects r)\<rparr>, None))"

section \<open>Registered repositories\<close>

text \<open>
  \<open>url.Parse\<close> and \<open>URL.String\<close> are arguments. A URL is the fields the code reads and sets; \<open>url_rest\<close> stands for
  the ones it does not touch.
\<close>

record URL =
  url_Scheme :: string
  url_Host :: string
  url_Path :: string
  url_RawQuery :: string
  url_Fragment :: string
  url_rest :: string

record URLPackage =
  urls_Parse :: "string \<Rightarrow> URL option"
  urls_String :: "URL \<Rightarrow> string"
  urls_Hostname :: "URL \<Rightarrow> string"

definition normalizeSCMBaseURL :: "URLPackage \<Rightarrow> string \<Rightarrow> string" where
  "normalizeSCMBaseURL urls raw =
     (let trimmed = TrimSpace raw
      in if trimmed = [] then []
         else case urls_Parse urls trimmed of
                None \<Rightarrow> []
              | Some parsed \<Rightarrow>
                  (if url_Scheme parsed = [] \<or> url_Host parsed = [] then []
                   else TrimRightChar CHR ''/'' (urls_String urls
                     (parsed\<lparr>url_Path := TrimRightChar CHR ''/'' (url_Path parsed), url_RawQuery := [], url_Fragment := []\<rparr>))))"

definition isAbsoluteURL :: "URLPackage \<Rightarrow> string \<Rightarrow> bool" where
  "isAbsoluteURL urls value =
     (case urls_Parse urls (TrimSpace value) of None \<Rightarrow> False | Some parsed \<Rightarrow> url_Scheme parsed \<noteq> [] \<and> url_Host parsed \<noteq> [])"

definition truncateDomainText :: "string \<Rightarrow> int \<Rightarrow> string" where
  "truncateDomainText value maxLen = (if maxLen \<le> 0 \<or> int (length value) \<le> maxLen then value else take (nat maxLen) value)"

definition trimAndTruncateOptionalString :: "string option \<Rightarrow> int \<Rightarrow> string option" where
  "trimAndTruncateOptionalString value maxLen =
     (case value of None \<Rightarrow> None
      | Some v \<Rightarrow> (let trimmed = truncateDomainText (TrimSpace v) maxLen in if trimmed = [] then None else Some trimmed))"

definition maxSCMRepositoryTextLen :: int where
  "maxSCMRepositoryTextLen = 300"

record SCMRepositoryRegistration =
  rr_ID :: string
  rr_ConnectionID :: string
  rr_ProviderRepositoryID :: string
  rr_Owner :: string
  rr_Name :: string
  rr_FullName :: string
  rr_CloneURL :: string
  rr_WebURL :: string
  rr_DefaultBranch :: "string option"
  rr_Archived :: bool
  rr_Disabled :: bool
  rr_MetadataRefreshedAt :: time
  rr_CreatedAt :: time
  rr_UpdatedAt :: time

definition SCMRepositoryRegistration_Normalize :: "URLPackage \<Rightarrow> SCMRepositoryRegistration \<Rightarrow> SCMRepositoryRegistration" where
  "SCMRepositoryRegistration_Normalize urls r =
     r\<lparr>rr_ID := TrimSpace (rr_ID r), rr_ConnectionID := TrimSpace (rr_ConnectionID r),
       rr_ProviderRepositoryID := TrimSpace (rr_ProviderRepositoryID r),
       rr_Owner := truncateDomainText (TrimSpace (rr_Owner r)) maxSCMRepositoryTextLen,
       rr_Name := truncateDomainText (TrimSpace (rr_Name r)) maxSCMRepositoryTextLen,
       rr_FullName := truncateDomainText (TrimSpace (rr_FullName r)) maxSCMRepositoryTextLen,
       rr_CloneURL := normalizeSCMBaseURL urls (rr_CloneURL r), rr_WebURL := normalizeSCMBaseURL urls (rr_WebURL r),
       rr_DefaultBranch := trimAndTruncateOptionalString (rr_DefaultBranch r) maxSCMRepositoryTextLen\<rparr>"

definition SCMRepositoryRegistration_Validate :: "URLPackage \<Rightarrow> SCMRepositoryRegistration \<Rightarrow> job_error option" where
  "SCMRepositoryRegistration_Validate urls r0 =
     (let r = SCMRepositoryRegistration_Normalize urls r0; missing = \<lambda>what. Some (JobErrorf (''scm registered repository '' @ what))
      in if rr_ID r = [] then missing ''id is required''
         else if rr_ConnectionID r = [] then missing ''connection id is required''
         else if rr_ProviderRepositoryID r = [] then missing ''provider repository id is required''
         else if rr_Owner r = [] then missing ''owner is required''
         else if rr_Name r = [] then missing ''name is required''
         else if rr_FullName r = [] then missing ''full name is required''
         else if rr_CloneURL r = [] \<or> \<not> isAbsoluteURL urls (rr_CloneURL r) then missing ''clone url is required''
         else if rr_WebURL r = [] \<or> \<not> isAbsoluteURL urls (rr_WebURL r) then missing ''web url is required''
         else if rr_MetadataRefreshedAt r = 0 then missing ''metadata refreshed at is required''
         else if rr_CreatedAt r = 0 \<or> rr_UpdatedAt r = 0 then missing ''timestamps are required''
         else None)"

record SCMRepositoryRegistrationRepository =
  rrr_repositories :: "(string, SCMRepositoryRegistration) gomap"
  rrr_identityLookup :: "(string, string) gomap"

definition NewSCMRepositoryRegistrationRepository :: SCMRepositoryRegistrationRepository where
  "NewSCMRepositoryRegistrationRepository = \<lparr>rrr_repositories = [], rrr_identityLookup = []\<rparr>"

definition scmRegisteredRepositoryIdentityKey :: "string \<Rightarrow> string \<Rightarrow> string" where
  "scmRegisteredRepositoryIdentityKey connectionID providerRepositoryID = connectionID @ ''|'' @ providerRepositoryID"

abbreviation identity_key :: "SCMRepositoryRegistration \<Rightarrow> string" where
  "identity_key r \<equiv> scmRegisteredRepositoryIdentityKey (rr_ConnectionID r) (rr_ProviderRepositoryID r)"

definition RegistrationRepository_Create ::
  "URLPackage \<Rightarrow> SCMRepositoryRegistration \<Rightarrow> SCMRepositoryRegistrationRepository \<Rightarrow>
     SCMRepositoryRegistrationRepository \<times> (job_error + SCMRepositoryRegistration)" where
  "RegistrationRepository_Create urls registration0 r =
     (let registration = SCMRepositoryRegistration_Normalize urls registration0
      in case SCMRepositoryRegistration_Validate urls registration of
           Some err \<Rightarrow> (r, Inl err)
         | None \<Rightarrow>
             (if map_of (rrr_identityLookup r) (identity_key registration) \<noteq> None
              then (r, Inl RepoErrSCMRepositoryRegistrationDuplicate)
              else (\<lparr>rrr_repositories = gm_put (rr_ID registration) registration (rrr_repositories r),
                     rrr_identityLookup = gm_put (identity_key registration) (rr_ID registration) (rrr_identityLookup r)\<rparr>,
                    Inr registration)))"

definition RegistrationRepository_List :: "SCMRepositoryRegistrationRepository \<Rightarrow> SCMRepositoryRegistration list" where
  "RegistrationRepository_List r = sort_slice (newest_first rr_CreatedAt rr_ID) (map snd (rrr_repositories r))"

definition RegistrationRepository_GetByIDs ::
  "string list \<Rightarrow> SCMRepositoryRegistrationRepository \<Rightarrow> SCMRepositoryRegistration list" where
  "RegistrationRepository_GetByIDs ids r = sort_slice (newest_first rr_CreatedAt rr_ID) (lookup_each [] ids (rrr_repositories r))"

definition RegistrationRepository_GetByID ::
  "string \<Rightarrow> SCMRepositoryRegistrationRepository \<Rightarrow> job_error + SCMRepositoryRegistration" where
  "RegistrationRepository_GetByID i r =
     (case map_of (rrr_repositories r) i of None \<Rightarrow> Inl RepoErrSCMRepositoryRegistrationNotFound | Some x \<Rightarrow> Inr x)"

definition zeroSCMRepositoryRegistration :: SCMRepositoryRegistration where
  "zeroSCMRepositoryRegistration =
     \<lparr>rr_ID = [], rr_ConnectionID = [], rr_ProviderRepositoryID = [], rr_Owner = [], rr_Name = [], rr_FullName = [], rr_CloneURL = [],
      rr_WebURL = [], rr_DefaultBranch = None, rr_Archived = False, rr_Disabled = False, rr_MetadataRefreshedAt = 0, rr_CreatedAt = 0,
      rr_UpdatedAt = 0\<rparr>"

definition GetByConnectionIDAndProviderRepositoryID ::
  "string \<Rightarrow> string \<Rightarrow> SCMRepositoryRegistrationRepository \<Rightarrow> job_error + SCMRepositoryRegistration" where
  "GetByConnectionIDAndProviderRepositoryID connectionID providerRepositoryID r =
     (case map_of (rrr_identityLookup r)
             (scmRegisteredRepositoryIdentityKey (TrimSpace connectionID) (TrimSpace providerRepositoryID)) of
        None \<Rightarrow> Inl RepoErrSCMRepositoryRegistrationNotFound
      | Some registrationID \<Rightarrow> Inr (gm_get_or zeroSCMRepositoryRegistration (rrr_repositories r) registrationID))"

definition RegistrationRepository_Update ::
  "URLPackage \<Rightarrow> SCMRepositoryRegistration \<Rightarrow> SCMRepositoryRegistrationRepository \<Rightarrow>
     SCMRepositoryRegistrationRepository \<times> (job_error + SCMRepositoryRegistration)" where
  "RegistrationRepository_Update urls registration0 r =
     (let registration = SCMRepositoryRegistration_Normalize urls registration0
      in case SCMRepositoryRegistration_Validate urls registration of
           Some err \<Rightarrow> (r, Inl err)
         | None \<Rightarrow>
             (case map_of (rrr_repositories r) (rr_ID registration) of
                None \<Rightarrow> (r, Inl RepoErrSCMRepositoryRegistrationNotFound)
              | Some current \<Rightarrow>
                  (if (case map_of (rrr_identityLookup r) (identity_key registration) of
                         None \<Rightarrow> False | Some ownerID \<Rightarrow> ownerID \<noteq> rr_ID registration)
                   then (r, Inl RepoErrSCMRepositoryRegistrationDuplicate)
                   else (\<lparr>rrr_repositories = gm_put (rr_ID registration) registration (rrr_repositories r),
                          rrr_identityLookup = gm_put (identity_key registration) (rr_ID registration)
                            (AList.delete (identity_key current) (rrr_identityLookup r))\<rparr>,
                         Inr registration))))"

section \<open>Managed image settings and credentials\<close>

record JobManagedImageConfigRepository =
  mcr_configs :: "(string, JobManagedImageConfig) gomap"

definition NewJobManagedImageConfigRepository :: JobManagedImageConfigRepository where
  "NewJobManagedImageConfigRepository = \<lparr>mcr_configs = []\<rparr>"

definition ManagedImageConfig_GetByJobID :: "string \<Rightarrow> JobManagedImageConfigRepository \<Rightarrow> job_error + JobManagedImageConfig" where
  "ManagedImageConfig_GetByJobID jobID r =
     (case map_of (mcr_configs r) jobID of None \<Rightarrow> Inl RepoErrJobManagedImageConfigNotFound | Some c \<Rightarrow> Inr c)"

definition UpsertByJobID :: "JobManagedImageConfig \<Rightarrow> JobManagedImageConfigRepository \<Rightarrow> JobManagedImageConfigRepository \<times> JobManagedImageConfig" where
  "UpsertByJobID config r = (r\<lparr>mcr_configs := gm_put (mc_JobID config) config (mcr_configs r)\<rparr>, config)"

definition DeleteByJobID :: "string \<Rightarrow> JobManagedImageConfigRepository \<Rightarrow> JobManagedImageConfigRepository \<times> job_error option" where
  "DeleteByJobID jobID r =
     (if map_of (mcr_configs r) jobID = None then (r, Some RepoErrJobManagedImageConfigNotFound)
      else (r\<lparr>mcr_configs := AList.delete jobID (mcr_configs r)\<rparr>, None))"

record SourceCredential =
  cred_ID :: string
  cred_Name :: string
  cred_Kind :: string
  cred_Username :: "string option"
  cred_SecretRef :: string
  cred_CreatedAt :: time
  cred_UpdatedAt :: time

record SourceCredentialRepository =
  credr_credentials :: "(string, SourceCredential) gomap"

definition SourceCredential_Create :: "SourceCredential \<Rightarrow> SourceCredentialRepository \<Rightarrow> SourceCredentialRepository \<times> SourceCredential" where
  "SourceCredential_Create credential r =
     (r\<lparr>credr_credentials := gm_put (cred_ID credential) credential (credr_credentials r)\<rparr>, credential)"

definition SourceCredential_GetByID :: "string \<Rightarrow> SourceCredentialRepository \<Rightarrow> job_error + SourceCredential" where
  "SourceCredential_GetByID i r =
     (case map_of (credr_credentials r) i of None \<Rightarrow> Inl RepoErrSourceCredentialNotFound | Some c \<Rightarrow> Inr c)"

definition SourceCredential_Update ::
  "SourceCredential \<Rightarrow> SourceCredentialRepository \<Rightarrow> SourceCredentialRepository \<times> (job_error + SourceCredential)" where
  "SourceCredential_Update credential r =
     (if map_of (credr_credentials r) (cred_ID credential) = None then (r, Inl RepoErrSourceCredentialNotFound)
      else (r\<lparr>credr_credentials := gm_put (cred_ID credential) credential (credr_credentials r)\<rparr>, Inr credential))"

definition SourceCredential_Delete :: "string \<Rightarrow> SourceCredentialRepository \<Rightarrow> SourceCredentialRepository \<times> job_error option" where
  "SourceCredential_Delete i r =
     (if map_of (credr_credentials r) i = None then (r, Some RepoErrSourceCredentialNotFound)
      else (r\<lparr>credr_credentials := AList.delete i (credr_credentials r)\<rparr>, None))"

end
