(* ===== verification/Trigger_Stores.thy ===== *)
theory Trigger_Stores
  imports Job_Stores
begin

text \<open>
  The ledgers of incoming and outgoing triggers: \<open>domain/webhook_delivery.go\<close>, \<open>domain/artifact_trigger_delivery.go\<close>
  and their in-memory stores, and the references of \<open>domain/webhook_ref.go\<close>.
\<close>

section \<open>References\<close>

definition WebhookRefTypeBranch :: string where "WebhookRefTypeBranch = ''branch''"
definition WebhookRefTypeTag :: string where "WebhookRefTypeTag = ''tag''"
definition WebhookRefTypeUnknown :: string where "WebhookRefTypeUnknown = ''unknown''"

record WebhookRef =
  wr_RawRef :: string
  wr_RefType :: string
  wr_RefName :: string
  wr_Deleted :: bool

definition NormalizeWebhookRef :: "string \<Rightarrow> bool \<Rightarrow> WebhookRef" where
  "NormalizeWebhookRef rawRef deleted =
     (let trimmed = TrimSpace rawRef;
          ref = \<lparr>wr_RawRef = trimmed, wr_RefType = WebhookRefTypeUnknown, wr_RefName = [], wr_Deleted = deleted\<rparr>
      in if trimmed = [] then ref
         else (let named = (if HasPrefix trimmed ''refs/heads/''
                            then ref\<lparr>wr_RefType := WebhookRefTypeBranch, wr_RefName := TrimPrefix trimmed ''refs/heads/''\<rparr>
                            else if HasPrefix trimmed ''refs/tags/''
                            then ref\<lparr>wr_RefType := WebhookRefTypeTag, wr_RefName := TrimPrefix trimmed ''refs/tags/''\<rparr>
                            else ref\<lparr>wr_RefName := trimmed\<rparr>)
               in named\<lparr>wr_RefName := TrimSpace (wr_RefName named)\<rparr>))"

section \<open>The ledger of webhook deliveries\<close>

definition WebhookDeliveryStatusReceived :: string where "WebhookDeliveryStatusReceived = ''received''"
definition WebhookDeliveryStatusVerified :: string where "WebhookDeliveryStatusVerified = ''verified''"
definition WebhookDeliveryStatusUnsupported :: string where "WebhookDeliveryStatusUnsupported = ''unsupported''"
definition WebhookDeliveryStatusDuplicate :: string where "WebhookDeliveryStatusDuplicate = ''duplicate''"
definition WebhookDeliveryStatusMatched :: string where "WebhookDeliveryStatusMatched = ''matched''"
definition WebhookDeliveryStatusIgnoredNoMatch :: string where "WebhookDeliveryStatusIgnoredNoMatch = ''ignored_no_match''"
definition WebhookDeliveryStatusQueued :: string where "WebhookDeliveryStatusQueued = ''queued''"
definition WebhookDeliveryStatusFailed :: string where "WebhookDeliveryStatusFailed = ''failed''"

record WebhookDelivery =
  wd_ID :: string
  wd_Provider :: string
  wd_DeliveryID :: string
  wd_EventType :: "string option"
  wd_RepositoryOwner :: "string option"
  wd_RepositoryName :: "string option"
  wd_RawRef :: "string option"
  wd_RefType :: "string option"
  wd_RefName :: "string option"
  wd_TriggerRef :: "string option"
  wd_Deleted :: "bool option"
  wd_CommitSHA :: "string option"
  wd_Actor :: "string option"
  wd_Status :: string
  wd_MatchedJobID :: "string option"
  wd_QueuedBuildID :: "string option"
  wd_Reason :: "string option"
  wd_ReceivedAt :: time
  wd_UpdatedAt :: time

definition zeroWebhookDelivery :: WebhookDelivery where
  "zeroWebhookDelivery =
     \<lparr>wd_ID = [], wd_Provider = [], wd_DeliveryID = [], wd_EventType = None, wd_RepositoryOwner = None, wd_RepositoryName = None,
      wd_RawRef = None, wd_RefType = None, wd_RefName = None, wd_TriggerRef = None, wd_Deleted = None, wd_CommitSHA = None,
      wd_Actor = None, wd_Status = [], wd_MatchedJobID = None, wd_QueuedBuildID = None, wd_Reason = None, wd_ReceivedAt = 0,
      wd_UpdatedAt = 0\<rparr>"

record WebhookDeliveryRepository =
  wdr_deliveries :: "(string, WebhookDelivery) gomap"
  wdr_index :: "(string, string) gomap"

definition NewWebhookDeliveryRepository :: WebhookDeliveryRepository where
  "NewWebhookDeliveryRepository = \<lparr>wdr_deliveries = [], wdr_index = []\<rparr>"

definition deliveryLedgerKey :: "string \<Rightarrow> string \<Rightarrow> string" where
  "deliveryLedgerKey provider deliveryID = ToLower (TrimSpace provider) @ ''|'' @ TrimSpace deliveryID"

definition WebhookDelivery_Create ::
  "string \<Rightarrow> time \<Rightarrow> WebhookDelivery \<Rightarrow> WebhookDeliveryRepository \<Rightarrow> WebhookDeliveryRepository \<times> (job_error + WebhookDelivery)" where
  "WebhookDelivery_Create uuid now delivery0 r =
     (let delivery = delivery0\<lparr>wd_Provider := ToLower (TrimSpace (wd_Provider delivery0)), wd_DeliveryID := TrimSpace (wd_DeliveryID delivery0)\<rparr>;
          key = deliveryLedgerKey (wd_Provider delivery) (wd_DeliveryID delivery)
      in if key = ''|'' then (r, Inl RepoErrWebhookDeliveryDuplicate)
         else if map_of (wdr_index r) key \<noteq> None then (r, Inl RepoErrWebhookDeliveryDuplicate)
         else (let d1 = (if TrimSpace (wd_ID delivery) = [] then delivery\<lparr>wd_ID := uuid\<rparr> else delivery);
                   d2 = (if wd_ReceivedAt d1 = 0 then d1\<lparr>wd_ReceivedAt := now\<rparr> else d1);
                   d3 = (if wd_UpdatedAt d2 = 0 then d2\<lparr>wd_UpdatedAt := wd_ReceivedAt d2\<rparr> else d2);
                   d4 = (if TrimSpace (wd_Status d3) = [] then d3\<lparr>wd_Status := WebhookDeliveryStatusReceived\<rparr> else d3)
               in (\<lparr>wdr_deliveries = gm_put (wd_ID d4) d4 (wdr_deliveries r), wdr_index = gm_put key (wd_ID d4) (wdr_index r)\<rparr>,
                   Inr d4)))"

definition GetByProviderDeliveryID :: "string \<Rightarrow> string \<Rightarrow> WebhookDeliveryRepository \<Rightarrow> job_error + WebhookDelivery" where
  "GetByProviderDeliveryID provider deliveryID r =
     (case map_of (wdr_index r) (deliveryLedgerKey provider deliveryID) of
        None \<Rightarrow> Inl RepoErrWebhookDeliveryNotFound
      | Some i \<Rightarrow> (case map_of (wdr_deliveries r) i of None \<Rightarrow> Inl RepoErrWebhookDeliveryNotFound | Some d \<Rightarrow> Inr d))"

definition WebhookDelivery_Update ::
  "time \<Rightarrow> WebhookDelivery \<Rightarrow> WebhookDeliveryRepository \<Rightarrow> WebhookDeliveryRepository \<times> (job_error + WebhookDelivery)" where
  "WebhookDelivery_Update now delivery r =
     (case map_of (wdr_deliveries r) (wd_ID delivery) of
        None \<Rightarrow> (r, Inl RepoErrWebhookDeliveryNotFound)
      | Some current \<Rightarrow>
          (let d1 = (if wd_ReceivedAt delivery = 0 then delivery\<lparr>wd_ReceivedAt := wd_ReceivedAt current\<rparr> else delivery);
               d2 = (if wd_UpdatedAt d1 = 0 then d1\<lparr>wd_UpdatedAt := now\<rparr> else d1);
               d3 = d2\<lparr>wd_Provider := ToLower (TrimSpace (wd_Provider d2)), wd_DeliveryID := TrimSpace (wd_DeliveryID d2)\<rparr>
           in (r\<lparr>wdr_deliveries := gm_put (wd_ID d3) d3 (wdr_deliveries r)\<rparr>, Inr d3)))"

section \<open>The ledger of artifact triggers\<close>

definition ArtifactTriggerDeliveryStatusPending :: string where "ArtifactTriggerDeliveryStatusPending = ''pending''"
definition ArtifactTriggerDeliveryStatusQueued :: string where "ArtifactTriggerDeliveryStatusQueued = ''queued''"
definition ArtifactTriggerDeliveryStatusFailed :: string where "ArtifactTriggerDeliveryStatusFailed = ''failed''"

record ArtifactTriggerDelivery =
  ad_ID :: string
  ad_ArtifactID :: string
  ad_ConsumerJobID :: string
  ad_ProducerBuildID :: string
  ad_ProducerProjectID :: string
  ad_ProducerJobID :: string
  ad_ArtifactPath :: string
  ad_QueuedBuildID :: "string option"
  ad_ErrorMessage :: "string option"
  ad_Status :: string
  ad_CreatedAt :: time
  ad_UpdatedAt :: time

record ArtifactTriggerDeliveryRepository =
  adr_deliveries :: "(string, ArtifactTriggerDelivery) gomap"
  adr_index :: "(string, string) gomap"

definition NewArtifactTriggerDeliveryRepository :: ArtifactTriggerDeliveryRepository where
  "NewArtifactTriggerDeliveryRepository = \<lparr>adr_deliveries = [], adr_index = []\<rparr>"

definition artifactTriggerDeliveryKey :: "string \<Rightarrow> string \<Rightarrow> string" where
  "artifactTriggerDeliveryKey artifactID consumerJobID = artifactID @ [CHR 0x00] @ consumerJobID"

definition ClaimFailedForRetry ::
  "time \<Rightarrow> string \<Rightarrow> time \<Rightarrow> ArtifactTriggerDeliveryRepository \<Rightarrow> ArtifactTriggerDeliveryRepository \<times> (job_error + ArtifactTriggerDelivery)" where
  "ClaimFailedForRetry clock i updatedAt r =
     (case map_of (adr_deliveries r) (TrimSpace i) of
        None \<Rightarrow> (r, Inl RepoErrArtifactTriggerDeliveryNotFound)
      | Some delivery \<Rightarrow>
          (if ad_Status delivery \<noteq> ArtifactTriggerDeliveryStatusFailed \<or> ad_QueuedBuildID delivery \<noteq> None
           then (r, Inl RepoErrArtifactTriggerDeliveryRetryNotClaimable)
           else (let claimed = delivery\<lparr>ad_Status := ArtifactTriggerDeliveryStatusPending, ad_QueuedBuildID := None, ad_ErrorMessage := None,
                       ad_UpdatedAt := (if updatedAt = 0 then clock else updatedAt)\<rparr>
                 in (r\<lparr>adr_deliveries := gm_put (ad_ID claimed) claimed (adr_deliveries r)\<rparr>, Inr claimed))))"

definition ArtifactTriggerDelivery_Create ::
  "string \<Rightarrow> time \<Rightarrow> ArtifactTriggerDelivery \<Rightarrow> ArtifactTriggerDeliveryRepository \<Rightarrow>
     ArtifactTriggerDeliveryRepository \<times> (job_error + ArtifactTriggerDelivery)" where
  "ArtifactTriggerDelivery_Create uuid now delivery r =
     (let key = artifactTriggerDeliveryKey (ad_ArtifactID delivery) (ad_ConsumerJobID delivery)
      in if map_of (adr_index r) key \<noteq> None then (r, Inl RepoErrArtifactTriggerDeliveryDuplicate)
         else (let d1 = (if ad_ID delivery = [] then delivery\<lparr>ad_ID := uuid\<rparr> else delivery);
                   d2 = (if ad_CreatedAt d1 = 0 then d1\<lparr>ad_CreatedAt := now\<rparr> else d1);
                   d3 = (if ad_UpdatedAt d2 = 0 then d2\<lparr>ad_UpdatedAt := ad_CreatedAt d2\<rparr> else d2)
               in (\<lparr>adr_deliveries = gm_put (ad_ID d3) d3 (adr_deliveries r), adr_index = gm_put key (ad_ID d3) (adr_index r)\<rparr>,
                   Inr d3)))"

definition zeroArtifactTriggerDelivery :: ArtifactTriggerDelivery where
  "zeroArtifactTriggerDelivery =
     \<lparr>ad_ID = [], ad_ArtifactID = [], ad_ConsumerJobID = [], ad_ProducerBuildID = [], ad_ProducerProjectID = [], ad_ProducerJobID = [],
      ad_ArtifactPath = [], ad_QueuedBuildID = None, ad_ErrorMessage = None, ad_Status = [], ad_CreatedAt = 0, ad_UpdatedAt = 0\<rparr>"

definition GetByArtifactIDAndConsumerJobID ::
  "string \<Rightarrow> string \<Rightarrow> ArtifactTriggerDeliveryRepository \<Rightarrow> job_error + ArtifactTriggerDelivery" where
  "GetByArtifactIDAndConsumerJobID artifactID consumerJobID r =
     (case map_of (adr_index r) (artifactTriggerDeliveryKey artifactID consumerJobID) of
        None \<Rightarrow> Inl RepoErrArtifactTriggerDeliveryNotFound
      | Some i \<Rightarrow> Inr (gm_get_or zeroArtifactTriggerDelivery (adr_deliveries r) i))"

definition ListByProducerBuildID :: "string \<Rightarrow> ArtifactTriggerDeliveryRepository \<Rightarrow> ArtifactTriggerDelivery list" where
  "ListByProducerBuildID producerBuildID r =
     sort_slice (oldest_first ad_CreatedAt ad_ID)
       (filter (\<lambda>delivery. ad_ProducerBuildID delivery = TrimSpace producerBuildID) (map snd (adr_deliveries r)))"

definition ArtifactTriggerDelivery_Update ::
  "ArtifactTriggerDelivery \<Rightarrow> ArtifactTriggerDeliveryRepository \<Rightarrow> ArtifactTriggerDeliveryRepository \<times> (job_error + ArtifactTriggerDelivery)" where
  "ArtifactTriggerDelivery_Update delivery r =
     (if map_of (adr_deliveries r) (ad_ID delivery) = None then (r, Inl RepoErrArtifactTriggerDeliveryNotFound)
      else (r\<lparr>adr_deliveries := gm_put (ad_ID delivery) delivery (adr_deliveries r)\<rparr>, Inr delivery))"

definition ArtifactTriggerDelivery_GetByID :: "string \<Rightarrow> ArtifactTriggerDeliveryRepository \<Rightarrow> job_error + ArtifactTriggerDelivery" where
  "ArtifactTriggerDelivery_GetByID i r =
     (case map_of (adr_deliveries r) (TrimSpace i) of None \<Rightarrow> Inl RepoErrArtifactTriggerDeliveryNotFound | Some d \<Rightarrow> Inr d)"

end
