(* ===== verification/Webhook_Filter.thy ===== *)
theory Webhook_Filter
  imports Trigger_Stores
begin

text \<open>
  Which jobs an event of a source host triggers: \<open>service/webhook/trigger_filter.go\<close>, \<open>service/webhook/types.go\<close>
  and the normalisations of \<open>service/job_push.go\<close>, with the meaning of the filter of a job.
\<close>

section \<open>The filter\<close>

definition WebhookFilterDecisionMatched :: string where "WebhookFilterDecisionMatched = ''matched''"
definition WebhookFilterDecisionDeletedRef :: string where "WebhookFilterDecisionDeletedRef = ''deleted_ref''"
definition WebhookFilterDecisionUnsupportedRefType :: string where "WebhookFilterDecisionUnsupportedRefType = ''unsupported_ref_type''"
definition WebhookFilterDecisionFilteredBranch :: string where "WebhookFilterDecisionFilteredBranch = ''filtered_branch''"
definition WebhookFilterDecisionFilteredTag :: string where "WebhookFilterDecisionFilteredTag = ''filtered_tag''"
definition WebhookFilterDecisionFilteredByMode :: string where "WebhookFilterDecisionFilteredByMode = ''filtered_trigger_mode''"

record WebhookFilterConfig =
  fc_Mode :: string
  fc_BranchAllowlist :: "string list"
  fc_TagAllowlist :: "string list"

record WebhookFilterDecision =
  fdec_Matched :: bool
  fdec_Reason :: string

definition normalizeWebhookFilterMode :: "string \<Rightarrow> string" where
  "normalizeWebhookFilterMode mode =
     (let m = ToLower (TrimSpace mode)
      in if m = JobTriggerModeTags then JobTriggerModeTags
         else if m = JobTriggerModeBranchesAndTags then JobTriggerModeBranchesAndTags
         else JobTriggerModeBranches)"

definition matchesWebhookBranchAllowlist :: "string \<Rightarrow> string list \<Rightarrow> bool" where
  "matchesWebhookBranchAllowlist refName allowlist =
     (if allowlist = [] then True else list_ex (\<lambda>item. TrimSpace item = refName) allowlist)"

fun matches_tag :: "string \<Rightarrow> string list \<Rightarrow> bool" where
  "matches_tag refName [] = False"
| "matches_tag refName (item # items) =
     (let trimmed = TrimSpace item
      in if trimmed = [] then matches_tag refName items
         else if HasSuffix trimmed ''*''
         then (if HasPrefix refName (TrimSuffix trimmed ''*'') then True else matches_tag refName items)
         else if trimmed = refName then True
         else matches_tag refName items)"

definition matchesWebhookTagAllowlist :: "string \<Rightarrow> string list \<Rightarrow> bool" where
  "matchesWebhookTagAllowlist refName allowlist = (if allowlist = [] then True else matches_tag refName allowlist)"

definition webhookFilterShouldTriggerBuild :: "WebhookRef \<Rightarrow> WebhookFilterConfig \<Rightarrow> WebhookFilterDecision" where
  "webhookFilterShouldTriggerBuild ref config =
     (let no = \<lambda>reason. \<lparr>fdec_Matched = False, fdec_Reason = reason\<rparr>;
          yes = \<lparr>fdec_Matched = True, fdec_Reason = WebhookFilterDecisionMatched\<rparr>;
          mode = normalizeWebhookFilterMode (fc_Mode config)
      in if wr_Deleted ref then no WebhookFilterDecisionDeletedRef
         else if wr_RefType ref = WebhookRefTypeUnknown then no WebhookFilterDecisionUnsupportedRefType
         else if wr_RefType ref = WebhookRefTypeBranch then
           (if mode = JobTriggerModeTags then no WebhookFilterDecisionFilteredByMode
            else if \<not> matchesWebhookBranchAllowlist (wr_RefName ref) (fc_BranchAllowlist config)
            then no WebhookFilterDecisionFilteredBranch else yes)
         else if wr_RefType ref = WebhookRefTypeTag then
           (if mode = JobTriggerModeBranches then no WebhookFilterDecisionFilteredByMode
            else if \<not> matchesWebhookTagAllowlist (wr_RefName ref) (fc_TagAllowlist config)
            then no WebhookFilterDecisionFilteredTag else yes)
         else no WebhookFilterDecisionUnsupportedRefType)"

section \<open>Events\<close>

record WebhookTriggerInput =
  wi_ConnectionID :: string
  wi_SCMProvider :: string
  wi_EventType :: string
  wi_RepositoryOwner :: string
  wi_RepositoryName :: string
  wi_ProviderRepositoryID :: string
  wi_RepositoryURL :: string
  wi_RawRef :: string
  wi_Ref :: string
  wi_RefType :: string
  wi_RefName :: string
  wi_Deleted :: bool
  wi_CommitSHA :: string
  wi_PullRequest :: "PullRequestSnapshot option"
  wi_DeliveryID :: string
  wi_Actor :: string
  wi_InstallationID :: string

record WebhookMatchedBuild =
  mb_Job :: Job
  mb_Build :: Build

record WebhookTriggerResult =
  wres_SCMProvider :: string
  wres_EventType :: string
  wres_RepositoryURL :: string
  wres_RawRef :: string
  wres_Ref :: string
  wres_RefType :: string
  wres_RefName :: string
  wres_Deleted :: bool
  wres_CommitSHA :: string
  wres_MatchedJobs :: int
  wres_NoMatchReason :: "string option"
  wres_Builds :: "WebhookMatchedBuild list"

definition normalizePushRef :: "string \<Rightarrow> string" where
  "normalizePushRef value =
     (let trimmed = TrimSpace value
      in if trimmed = [] then [] else TrimPrefix (TrimPrefix trimmed ''refs/heads/'') ''refs/tags/'')"

definition normalizeWebhookRefInput :: "WebhookTriggerInput \<Rightarrow> WebhookRef" where
  "normalizeWebhookRefInput input =
     (let raw0 = TrimSpace (wi_RawRef input);
          raw = (if raw0 = [] then TrimSpace (wi_Ref input) else raw0);
          ref0 = NormalizeWebhookRef raw (wi_Deleted input);
          inputRefType = ToLower (TrimSpace (wi_RefType input));
          ref1 = (if wr_RefType ref0 = WebhookRefTypeUnknown
                  then (if inputRefType = WebhookRefTypeBranch then ref0\<lparr>wr_RefType := WebhookRefTypeBranch\<rparr>
                        else if inputRefType = WebhookRefTypeTag then ref0\<lparr>wr_RefType := WebhookRefTypeTag\<rparr> else ref0)
                  else ref0);
          ref2 = (if wr_RefName ref1 = [] then ref1\<lparr>wr_RefName := normalizePushRef (wi_RefName input)\<rparr> else ref1)
      in if wr_RefName ref2 = [] then ref2\<lparr>wr_RefName := normalizePushRef (wi_Ref input)\<rparr> else ref2)"

definition allowed_branches :: "Job \<Rightarrow> string list" where
  "allowed_branches job =
     (let allowBranches = filter (\<lambda>b. b \<noteq> []) (map normalizePushRef (jb_BranchAllowlist job))
      in if allowBranches = []
         then (case jb_PushBranch job of
                 None \<Rightarrow> []
               | Some branch \<Rightarrow> (let legacyBranch = normalizePushRef branch in if legacyBranch = [] then [] else [legacyBranch]))
         else allowBranches)"

definition toWebhookJobTriggerConfig :: "Job \<Rightarrow> WebhookFilterConfig" where
  "toWebhookJobTriggerConfig job =
     \<lparr>fc_Mode = normalizeWebhookFilterMode (jb_TriggerMode job), fc_BranchAllowlist = allowed_branches job,
      fc_TagAllowlist = map (\<lambda>item. TrimPrefix (TrimSpace item) ''refs/tags/'') (filter (\<lambda>item. TrimSpace item \<noteq> []) (jb_TagAllowlist job))\<rparr>"

section \<open>The repository an event comes from\<close>

definition TrimChar :: "char \<Rightarrow> string \<Rightarrow> string" where
  "TrimChar c s = TrimRightChar c (dropWhile (\<lambda>x. x = c) s)"

definition parseSCMRepositoryIdentity :: "URLPackage \<Rightarrow> string \<Rightarrow> string \<times> string \<times> string" where
  "parseSCMRepositoryIdentity urls rawURL =
     (let trimmed = TrimSpace rawURL
      in if trimmed = [] then ([], [], [])
         else case urls_Parse urls trimmed of
                None \<Rightarrow> ([], [], [])
              | Some parsed \<Rightarrow>
                  (if ToLower (TrimSpace (urls_Hostname urls parsed)) \<noteq> ''github.com'' then ([], [], [])
                   else case SplitChar CHR ''/'' (TrimChar CHR ''/'' (TrimSpace (url_Path parsed))) of
                          first # second # rest \<Rightarrow>
                            (let name = TrimSuffix (ToLower (TrimSpace (path_Clean second))) ''.git''
                             in (''github'', ToLower (TrimSpace first), if name = ''.'' \<or> name = ''..'' then [] else name))
                        | _ \<Rightarrow> (''github'', [], [])))"

definition matchesSCMRepositoryIdentity :: "URLPackage \<Rightarrow> string \<Rightarrow> string \<Rightarrow> string \<Rightarrow> string \<Rightarrow> bool" where
  "matchesSCMRepositoryIdentity urls jobRepositoryURL scmProvider owner name =
     (if scmProvider = [] \<or> owner = [] \<or> name = [] then True
      else case parseSCMRepositoryIdentity urls jobRepositoryURL of
             (jobProvider, jobOwner, jobName) \<Rightarrow>
               jobProvider = scmProvider \<and> jobOwner = ToLower (TrimSpace owner) \<and> jobName = ToLower (TrimSpace name))"

end
