(* ===== verification/Job_Validation.thy ===== *)
theory Job_Validation
  imports Webhook_Filter
begin

text \<open>
  The inputs of the job service and their checks: \<open>service/job_validation.go\<close>, the input types of
  \<open>service/job_service.go\<close> and the settings of \<open>service/job_managed_image.go\<close>. The job service itself
  (\<open>JobService\<close>) is a record of its stores; a store that is not configured is \<open>None\<close>.
\<close>

section \<open>Inputs\<close>

record ManagedImageConfigInput =
  mci_Enabled :: bool
  mci_ManagedImageName :: string
  mci_PipelinePath :: string
  mci_WriteCredentialID :: string
  mci_BotBranchPrefix :: "string option"
  mci_CommitAuthorName :: "string option"
  mci_CommitAuthorEmail :: "string option"

record ManagedImageConfigPatch =
  mcp_Enabled :: "bool option"
  mcp_ManagedImageName :: "string option"
  mcp_PipelinePath :: "string option"
  mcp_WriteCredentialID :: "string option"
  mcp_BotBranchPrefix :: "string option"
  mcp_CommitAuthorName :: "string option"
  mcp_CommitAuthorEmail :: "string option"

record CreateJobInput =
  cj_ProjectID :: string
  cj_ProjectSlug :: string
  cj_Name :: string
  cj_Priority :: "int option"
  cj_RepositoryID :: string
  cj_RepositoryURL :: string
  cj_DefaultRef :: string
  cj_DefaultCommitSHA :: string
  cj_PushEnabled :: "bool option"
  cj_PullRequestEnabled :: "bool option"
  cj_PushBranch :: "string option"
  cj_TriggerMode :: "string option"
  cj_BranchAllowlist :: "string list"
  cj_TagAllowlist :: "string list"
  cj_ArtifactTriggers :: "JobArtifactTrigger list"
  cj_PipelineYAML :: string
  cj_PipelinePath :: string
  cj_ManagedImage :: "ManagedImageConfigInput option"
  cj_Enabled :: "bool option"

record UpdateJobInput =
  uj_Name :: "string option"
  uj_Priority :: "int option"
  uj_RepositoryIDSet :: bool
  uj_RepositoryID :: "string option"
  uj_RepositoryURL :: "string option"
  uj_DefaultRef :: "string option"
  uj_DefaultCommitSHA :: "string option"
  uj_PushEnabled :: "bool option"
  uj_PullRequestEnabled :: "bool option"
  uj_PushBranch :: "string option"
  uj_TriggerMode :: "string option"
  uj_BranchAllowlist :: "string list option"
  uj_TagAllowlist :: "string list option"
  uj_ArtifactTriggers :: "JobArtifactTrigger list option"
  uj_PipelineYAML :: "string option"
  uj_PipelinePath :: "string option"
  uj_ManagedImageSet :: bool
  uj_ManagedImage :: "ManagedImageConfigPatch option"
  uj_Enabled :: "bool option"

section \<open>Normalisation and checks\<close>

definition trimmedStringPtr :: "string \<Rightarrow> string option" where
  "trimmedStringPtr value = (let trimmed = TrimSpace value in if trimmed = [] then None else Some trimmed)"

definition isValidTriggerMode :: "string \<Rightarrow> bool" where
  "isValidTriggerMode value \<longleftrightarrow>
     List.member [[], JobTriggerModeBranches, JobTriggerModeTags, JobTriggerModeBranchesAndTags] (ToLower (TrimSpace value))"

fun dedup_nonempty :: "string list \<Rightarrow> string list \<Rightarrow> string list" where
  "dedup_nonempty seen [] = []"
| "dedup_nonempty seen (x # xs) =
     (if x = [] \<or> List.member seen x then dedup_nonempty seen xs else x # dedup_nonempty (x # seen) xs)"

definition normalizeBranchAllowlist :: "string list \<Rightarrow> string list" where
  "normalizeBranchAllowlist values = dedup_nonempty [] (map normalizePushRef values)"

definition normalizeTagAllowlist :: "string list \<Rightarrow> string list" where
  "normalizeTagAllowlist values = dedup_nonempty [] (map (\<lambda>item. TrimSpace (TrimPrefix item ''refs/tags/'')) values)"

fun validateRawArtifactTriggers :: "JobArtifactTrigger list \<Rightarrow> job_error option" where
  "validateRawArtifactTriggers [] = None"
| "validateRawArtifactTriggers (trigger # triggers) =
     (if TrimSpace (at_ProducerJobID trigger) = [] then Some ErrJobArtifactTriggerProducerJobIDRequired
      else if TrimSpace (at_Path trigger) = [] then Some ErrJobArtifactTriggerPathRequired
      else validateRawArtifactTriggers triggers)"

definition validateCreateJobRequiredFields :: "CreateJobInput \<Rightarrow> job_error option" where
  "validateCreateJobRequiredFields input =
     (if cj_Name input = [] then Some ErrJobNameRequired
      else if cj_RepositoryID input \<noteq> [] \<and> cj_RepositoryURL input \<noteq> [] then Some ErrJobRepositoryAssignmentConflict
      else if cj_RepositoryID input = [] \<and> cj_RepositoryURL input = [] then Some ErrJobRepositorySourceRequired
      else if cj_DefaultRef input = [] \<and> cj_DefaultCommitSHA input = [] then Some ErrJobSourceTargetRequired
      else if cj_PipelineYAML input = [] \<and> cj_PipelinePath input = [] then Some ErrJobPipelineDefinitionRequired
      else if (case cj_TriggerMode input of None \<Rightarrow> False | Some mode \<Rightarrow> \<not> isValidTriggerMode mode) then Some ErrJobInvalidTriggerMode
      else if (case cj_Priority input of None \<Rightarrow> False | Some p \<Rightarrow> \<not> ValidPriority p) then Some ErrJobPriorityOutOfRange
      else validateRawArtifactTriggers (cj_ArtifactTriggers input))"

definition trimmed_input :: "CreateJobInput \<Rightarrow> CreateJobInput" where
  "trimmed_input input =
     input\<lparr>cj_ProjectID := TrimSpace (cj_ProjectID input), cj_ProjectSlug := TrimSpace (cj_ProjectSlug input),
       cj_Name := TrimSpace (cj_Name input), cj_RepositoryID := TrimSpace (cj_RepositoryID input),
       cj_RepositoryURL := TrimSpace (cj_RepositoryURL input), cj_DefaultRef := TrimSpace (cj_DefaultRef input),
       cj_DefaultCommitSHA := TrimSpace (cj_DefaultCommitSHA input), cj_PushBranch := map_option normalizePushRef (cj_PushBranch input),
       cj_TriggerMode := map_option (\<lambda>m. ToLower (TrimSpace m)) (cj_TriggerMode input),
       cj_PipelineYAML := TrimSpace (cj_PipelineYAML input), cj_PipelinePath := TrimSpace (cj_PipelinePath input)\<rparr>"

definition normalizeCreateJobInput :: "CreateJobInput \<Rightarrow> job_error + CreateJobInput" where
  "normalizeCreateJobInput input =
     (let normalized = trimmed_input input
      in case validateCreateJobRequiredFields normalized of
           Some err \<Rightarrow> Inl err
         | None \<Rightarrow> Inr (normalized\<lparr>cj_BranchAllowlist := normalizeBranchAllowlist (cj_BranchAllowlist normalized),
                     cj_TagAllowlist := normalizeTagAllowlist (cj_TagAllowlist normalized),
                     cj_ArtifactTriggers := NormalizeJobArtifactTriggers (cj_ArtifactTriggers normalized)\<rparr>))"

definition optionalJobTriggerMode :: "string \<Rightarrow> string" where
  "optionalJobTriggerMode mode = (let trimmed = TrimSpace mode in if trimmed = [] then JobTriggerModeBranches else trimmed)"

definition validateJobRequiredFields :: "Job \<Rightarrow> job_error option" where
  "validateJobRequiredFields job =
     (if TrimSpace (jb_Name job) = [] then Some ErrJobNameRequired
      else if readOptionalString (jb_RepositoryID job) = [] \<and> TrimSpace (jb_RepositoryURL job) = [] then Some ErrJobRepositorySourceRequired
      else if TrimSpace (jb_DefaultRef job) = [] \<and> TrimSpace (readOptionalString (jb_DefaultCommitSHA job)) = []
      then Some ErrJobSourceTargetRequired
      else if TrimSpace (jb_PipelineYAML job) = [] \<and> TrimSpace (readOptionalString (jb_PipelinePath job)) = []
      then Some ErrJobPipelineDefinitionRequired
      else if \<not> isValidTriggerMode (optionalJobTriggerMode (jb_TriggerMode job)) then Some ErrJobInvalidTriggerMode
      else if \<not> ValidPriority (jb_Priority job) then Some ErrJobPriorityOutOfRange
      else validateRawArtifactTriggers (NormalizeJobArtifactTriggers (jb_ArtifactTriggers job)))"

definition validatePipelineDefinition :: "string \<Rightarrow> string option \<Rightarrow> job_error option" where
  "validatePipelineDefinition pipelineYAML pipelinePath =
     (if TrimSpace pipelineYAML = [] \<and> TrimSpace (readOptionalString pipelinePath) = [] then Some ErrJobPipelineDefinitionRequired else None)"

definition normalizedPriority :: "int option \<Rightarrow> int" where
  "normalizedPriority priority = (case priority of None \<Rightarrow> DefaultPriority | Some p \<Rightarrow> NormalizePriority p)"

definition validatePipelineYAML :: "(string \<Rightarrow> string + PipelineFile) \<Rightarrow> string \<Rightarrow> job_error option" where
  "validatePipelineYAML decode yamlText =
     (let trimmed = TrimSpace yamlText
      in if trimmed = [] then Some ErrJobPipelineDefinitionRequired
         else case LoadAndResolve decode trimmed of Inl err \<Rightarrow> Some (JobErrorf err) | Inr _ \<Rightarrow> None)"

definition normalizeProjectSlug :: "string \<Rightarrow> string" where
  "normalizeProjectSlug value = TrimSpace (ToLower value)"

text \<open>
  What a request to the job service takes from outside: the clock and new identifiers by the number of the
  reading, and for the \<open>n\<close>-th build the surroundings of the build service.
\<close>

record JobExternals =
  je_now :: "nat \<Rightarrow> time"
  je_uuid :: "nat \<Rightarrow> string"
  je_builds :: "nat \<Rightarrow> Externals"
  je_repoIO :: "nat \<Rightarrow> RepoIO"
  je_urls :: URLPackage
  je_uuidParse :: "string \<Rightarrow> bool"
  je_Decode :: "string \<Rightarrow> string + PipelineFile"

record JobService =
  js_jobRepo :: JobRepository
  js_artifactTriggerDeliveries :: "ArtifactTriggerDeliveryRepository option"
  js_projects :: "ProjectRepository option"
  js_registeredRepositories :: "SCMRepositoryRegistrationRepository option"
  js_managedImageConfigs :: "JobManagedImageConfigRepository option"
  js_credentials :: "SourceCredentialRepository option"
  js_buildService :: "BuildService option"

definition resolveProjectID :: "JobExternals \<Rightarrow> string \<Rightarrow> string \<Rightarrow> JobService \<Rightarrow> job_error + string" where
  "resolveProjectID x projectID projectSlug js =
     (let trimmedID = TrimSpace projectID; trimmedSlug = TrimSpace projectSlug
      in case js_projects js of
           None \<Rightarrow> (if trimmedID = [] then Inl ErrJobProjectIDRequired else Inr trimmedID)
         | Some projects \<Rightarrow>
             (if trimmedID \<noteq> [] \<and> je_uuidParse x trimmedID
              then map_sum (\<lambda>e. e) prj_ID (ProjectRepository_GetByID trimmedID projects)
              else let slug = (if trimmedID \<noteq> [] \<and> trimmedSlug = [] then trimmedID else trimmedSlug)
                   in map_sum (\<lambda>e. e) prj_ID
                        (ProjectRepository_GetBySlug (if slug \<noteq> [] then normalizeProjectSlug slug else DefaultProjectSlug) projects)))"

section \<open>Managed image settings\<close>

definition stringOrFallback :: "string option \<Rightarrow> string \<Rightarrow> string" where
  "stringOrFallback value fallback =
     (case value of None \<Rightarrow> fallback | Some v \<Rightarrow> (let trimmed = TrimSpace v in if trimmed = [] then fallback else trimmed))"

definition validateManagedImageConfig :: "JobManagedImageConfig \<Rightarrow> job_error option" where
  "validateManagedImageConfig config =
     (if TrimSpace (mc_ManagedImageName config) = [] then Some ErrJobManagedImageNameRequired
      else if TrimSpace (mc_PipelinePath config) = [] then Some ErrJobManagedImagePipelinePathRequired
      else if TrimSpace (mc_WriteCredentialID config) = [] then Some ErrJobManagedImageWriteCredentialIDRequired
      else None)"

definition attachManagedImageConfig :: "Job \<Rightarrow> JobService \<Rightarrow> job_error + Job" where
  "attachManagedImageConfig job js =
     (case js_managedImageConfigs js of
        None \<Rightarrow> Inr job
      | Some configs \<Rightarrow>
          (if TrimSpace (jb_ID job) = [] then Inr job
           else case ManagedImageConfig_GetByJobID (jb_ID job) configs of
                  Inl err \<Rightarrow> (if err = RepoErrJobManagedImageConfigNotFound then Inr job else Inl err)
                | Inr config \<Rightarrow> Inr (job\<lparr>jb_ManagedImageConfig := Some config\<rparr>)))"

definition default_branch_prefix :: string where "default_branch_prefix = ''coyote/managed-image-refresh''"
definition default_author_name :: string where "default_author_name = ''Coyote CI Bot''"
definition default_author_email :: string where "default_author_email = ''bot@coyote-ci.local''"

definition put_config :: "JobManagedImageConfig \<Rightarrow> JobManagedImageConfigRepository \<Rightarrow> JobService \<Rightarrow> JobService \<times> (job_error + JobManagedImageConfig)" where
  "put_config config configs js =
     (case validateManagedImageConfig config of
        Some err \<Rightarrow> (js, Inl err)
      | None \<Rightarrow> (case UpsertByJobID config configs of (configs1, saved) \<Rightarrow> (js\<lparr>js_managedImageConfigs := Some configs1\<rparr>, Inr saved)))"

definition upsertManagedImageConfig ::
  "string \<Rightarrow> time \<Rightarrow> Job \<Rightarrow> ManagedImageConfigInput \<Rightarrow> JobService \<Rightarrow> JobService \<times> (job_error + JobManagedImageConfig)" where
  "upsertManagedImageConfig uuid now job input js =
     (case (js_managedImageConfigs js, js_credentials js) of
        (Some configs, Some credentials) \<Rightarrow>
          (let credentialID = TrimSpace (mci_WriteCredentialID input)
           in case SourceCredential_GetByID credentialID credentials of
                Inl err \<Rightarrow> (js, Inl err)
              | Inr _ \<Rightarrow>
                  put_config
                    \<lparr>mc_ID = uuid, mc_JobID = jb_ID job, mc_ManagedImageName = TrimSpace (mci_ManagedImageName input),
                     mc_PipelinePath = TrimSpace (mci_PipelinePath input), mc_WriteCredentialID = credentialID,
                     mc_BotBranchPrefix = stringOrFallback (mci_BotBranchPrefix input) default_branch_prefix,
                     mc_CommitAuthorName = stringOrFallback (mci_CommitAuthorName input) default_author_name,
                     mc_CommitAuthorEmail = stringOrFallback (mci_CommitAuthorEmail input) default_author_email,
                     mc_Enabled = mci_Enabled input, mc_CreatedAt = now, mc_UpdatedAt = now\<rparr> configs js)
      | _ \<Rightarrow> (js, Inl ErrJobManagedImageConfigNotConfigured))"

definition delete_config :: "string \<Rightarrow> JobManagedImageConfigRepository \<Rightarrow> JobService \<Rightarrow> JobService" where
  "delete_config jobID configs js = js\<lparr>js_managedImageConfigs := Some (fst (DeleteByJobID jobID configs))\<rparr>"

text \<open>The patched settings: of the stored ones, or of fresh ones when the job has none.\<close>

definition patched_config :: "string \<Rightarrow> time \<Rightarrow> time \<Rightarrow> ManagedImageConfigPatch \<Rightarrow> Job \<Rightarrow> JobManagedImageConfigRepository \<Rightarrow> JobManagedImageConfig" where
  "patched_config uuid created updated patch job configs =
     (let current = (case ManagedImageConfig_GetByJobID (jb_ID job) configs of
                       Inr config \<Rightarrow> config
                     | Inl _ \<Rightarrow> \<lparr>mc_ID = uuid, mc_JobID = jb_ID job, mc_ManagedImageName = [], mc_PipelinePath = [], mc_WriteCredentialID = [],
                         mc_BotBranchPrefix = default_branch_prefix, mc_CommitAuthorName = default_author_name,
                         mc_CommitAuthorEmail = default_author_email, mc_Enabled = True, mc_CreatedAt = created, mc_UpdatedAt = 0\<rparr>);
          or_keep = \<lambda>f g. case f patch of None \<Rightarrow> g current | Some v \<Rightarrow> TrimSpace v
      in current\<lparr>mc_Enabled := (case mcp_Enabled patch of None \<Rightarrow> mc_Enabled current | Some b \<Rightarrow> b),
           mc_ManagedImageName := or_keep mcp_ManagedImageName mc_ManagedImageName, mc_PipelinePath := or_keep mcp_PipelinePath mc_PipelinePath,
           mc_WriteCredentialID := or_keep mcp_WriteCredentialID mc_WriteCredentialID,
           mc_BotBranchPrefix := or_keep mcp_BotBranchPrefix mc_BotBranchPrefix, mc_CommitAuthorName := or_keep mcp_CommitAuthorName mc_CommitAuthorName,
           mc_CommitAuthorEmail := or_keep mcp_CommitAuthorEmail mc_CommitAuthorEmail, mc_UpdatedAt := updated\<rparr>)"

definition patchManagedImageConfig ::
  "string \<Rightarrow> time \<Rightarrow> time \<Rightarrow> Job \<Rightarrow> ManagedImageConfigPatch option \<Rightarrow> JobService \<Rightarrow> JobService \<times> (job_error + JobManagedImageConfig option)" where
  "patchManagedImageConfig uuid created updated job patch js =
     (case js_managedImageConfigs js of
        None \<Rightarrow> (js, Inl ErrJobManagedImageConfigNotConfigured)
      | Some configs \<Rightarrow>
          (case patch of
             None \<Rightarrow> (delete_config (jb_ID job) configs js, Inr None)
           | Some p \<Rightarrow>
               (if mcp_Enabled p = Some False then (delete_config (jb_ID job) configs js, Inr None)
                else case js_credentials js of
                       None \<Rightarrow> (js, Inl ErrJobManagedImageConfigNotConfigured)
                     | Some credentials \<Rightarrow>
                         (case (case mcp_WriteCredentialID p of
                                  None \<Rightarrow> None
                                | Some c \<Rightarrow> (if TrimSpace c = [] then Some ErrJobManagedImageWriteCredentialIDRequired
                                            else case SourceCredential_GetByID (TrimSpace c) credentials of Inl err \<Rightarrow> Some err | Inr _ \<Rightarrow> None)) of
                            Some err \<Rightarrow> (js, Inl err)
                          | None \<Rightarrow>
                              (case put_config (patched_config uuid created updated p job configs) configs js of
                                 (js1, Inl err) \<Rightarrow> (js1, Inl err)
                               | (js1, Inr saved) \<Rightarrow> (js1, Inr (Some saved)))))))"

end
