(* ===== verification/Job_Requests.thy ===== *)
theory Job_Requests
  imports Job_Validation
begin

text \<open>
  The job service (\<open>service/job_service.go\<close>): reading, creating and updating jobs, and the builds that are
  made of them. An answer is an option, as creating a build is (see \<open>CreateBuildFromPipeline\<close>);
  \<open>Trigger_Builds\<close> shows that it is never \<open>None\<close>.
\<close>

section \<open>Repositories of jobs\<close>

definition resolveAssignableRegisteredRepository :: "string \<Rightarrow> JobService \<Rightarrow> job_error + SCMRepositoryRegistration" where
  "resolveAssignableRegisteredRepository repositoryID js =
     (case js_registeredRepositories js of
        None \<Rightarrow> Inl RepoErrSCMRepositoryRegistrationNotFound
      | Some repos \<Rightarrow>
          (case RegistrationRepository_GetByID (TrimSpace repositoryID) repos of
             Inl err \<Rightarrow> Inl err
           | Inr registration \<Rightarrow> (if rr_Disabled registration then Inl ErrJobRegisteredRepositoryDisabled else Inr registration)))"

definition assigned_source :: "string \<Rightarrow> JobService \<Rightarrow> job_error + (string option \<times> string)" where
  "assigned_source repositoryID js =
     (case resolveAssignableRegisteredRepository repositoryID js of
        Inl err \<Rightarrow> Inl err
      | Inr registration \<Rightarrow> Inr (trimmedStringPtr (rr_ID registration), rr_CloneURL registration))"

definition resolveJobRepositorySource :: "string \<Rightarrow> string \<Rightarrow> JobService \<Rightarrow> job_error + (string option \<times> string)" where
  "resolveJobRepositorySource repositoryID repositoryURL js =
     (let trimmedRepositoryID = TrimSpace repositoryID; trimmedRepositoryURL = TrimSpace repositoryURL
      in if trimmedRepositoryID \<noteq> [] \<and> trimmedRepositoryURL \<noteq> [] then Inl ErrJobRepositoryAssignmentConflict
         else if trimmedRepositoryID \<noteq> [] then assigned_source trimmedRepositoryID js
         else if trimmedRepositoryURL = [] then Inl ErrJobRepositorySourceRequired
         else Inr (None, trimmedRepositoryURL))"

definition resolveUpdatedJobRepositorySource :: "Job \<Rightarrow> UpdateJobInput \<Rightarrow> JobService \<Rightarrow> job_error + (string option \<times> string)" where
  "resolveUpdatedJobRepositorySource job input js =
     (if uj_RepositoryIDSet input then
        (case uj_RepositoryID input of
           None \<Rightarrow>
             (case uj_RepositoryURL input of
                None \<Rightarrow> Inl ErrJobRepositorySourceRequired
              | Some url \<Rightarrow> (if TrimSpace url = [] then Inl ErrJobRepositorySourceRequired else Inr (None, TrimSpace url)))
         | Some i \<Rightarrow>
             (if uj_RepositoryURL input \<noteq> None then Inl ErrJobRepositoryAssignmentConflict
              else if TrimSpace i = [] then Inl ErrJobRepositoryIDEmpty
              else assigned_source (TrimSpace i) js))
      else case uj_RepositoryURL input of
        Some url \<Rightarrow> (if jb_RepositoryID job \<noteq> None then Inl ErrJobRepositoryAssignmentConflict else Inr (None, TrimSpace url))
      | None \<Rightarrow> Inr (jb_RepositoryID job, jb_RepositoryURL job))"

definition registered_identity :: "SCMRepositoryRegistration \<Rightarrow> RepositoryIdentitySnapshot" where
  "registered_identity registration =
     \<lparr>ris_RegisteredRepositoryID = rr_ID registration, ris_SCMConnectionID = rr_ConnectionID registration,
      ris_ProviderRepositoryID = rr_ProviderRepositoryID registration\<rparr>"

definition checked_identity :: "SCMRepositoryRegistration \<Rightarrow> job_error + RepositoryIdentitySnapshot" where
  "checked_identity registration =
     (case RepositoryIdentitySnapshot_Validate (registered_identity registration) of
        Some err \<Rightarrow> Inl (BuildError (Svc err)) | None \<Rightarrow> Inr (registered_identity registration))"

definition buildRepositoryIdentity :: "Job \<Rightarrow> JobService \<Rightarrow> job_error + RepositoryIdentitySnapshot option" where
  "buildRepositoryIdentity job js =
     (let repositoryID = TrimSpace (readOptionalString (jb_RepositoryID job))
      in if repositoryID = [] then Inr None
         else case js_registeredRepositories js of
                None \<Rightarrow> Inl ErrJobRegisteredRepositoryStoreNotConfigured
              | Some repos \<Rightarrow>
                  (case RegistrationRepository_GetByID repositoryID repos of
                     Inl err \<Rightarrow> Inl err
                   | Inr registration \<Rightarrow> map_sum (\<lambda>e. e) Some (checked_identity registration)))"

section \<open>Builds of jobs\<close>

text \<open>A call of the build service, whose state is part of the job service.\<close>

definition run_build ::
  "(BuildService \<Rightarrow> (BuildService \<times> (svc_error + Build)) option) \<Rightarrow> JobService \<Rightarrow> (JobService \<times> (job_error + Build)) option" where
  "run_build create js =
     (case js_buildService js of
        None \<Rightarrow> Some (js, Inl ErrJobBuildServiceNotConfigured)
      | Some s \<Rightarrow>
          (case create s of
             None \<Rightarrow> None
           | Some (s1, answer) \<Rightarrow> Some (js\<lparr>js_buildService := Some s1\<rparr>, map_sum BuildError (\<lambda>b. b) answer)))"

definition job_source :: "Job \<Rightarrow> CreateBuildSourceInput option" where
  "job_source job = Some \<lparr>si_RepositoryURL = jb_RepositoryURL job, si_Ref = jb_DefaultRef job,
     si_CommitSHA = readOptionalString (jb_DefaultCommitSHA job)\<rparr>"

definition pipeline_input ::
  "string \<Rightarrow> Job \<Rightarrow> CreateBuildTriggerInput option \<Rightarrow> RepositoryIdentitySnapshot option \<Rightarrow> CreatePipelineBuildInput" where
  "pipeline_input pipelinePath job trigger identity =
     \<lparr>pi_ProjectID = jb_ProjectID job, pi_JobID = Some (jb_ID job), pi_Priority = jb_Priority job, pi_PipelineYAML = jb_PipelineYAML job,
      pi_PipelinePath = pipelinePath, pi_Source = job_source job, pi_Trigger = trigger, pi_RepositoryIdentity = identity\<rparr>"

definition repo_input ::
  "string \<Rightarrow> Job \<Rightarrow> CreateBuildTriggerInput option \<Rightarrow> RepositoryIdentitySnapshot option \<Rightarrow> CreateRepoBuildInput" where
  "repo_input pipelinePath job trigger identity =
     \<lparr>ri_ProjectID = jb_ProjectID job, ri_JobID = Some (jb_ID job), ri_Priority = jb_Priority job, ri_RepoURL = jb_RepositoryURL job,
      ri_Ref = jb_DefaultRef job, ri_CommitSHA = readOptionalString (jb_DefaultCommitSHA job), ri_PipelinePath = TrimSpace pipelinePath,
      ri_Trigger = trigger, ri_RepositoryIdentity = identity\<rparr>"

definition createBuildForJobWithTrigger ::
  "Externals \<Rightarrow> RepoIO \<Rightarrow> Job \<Rightarrow> CreateBuildTriggerInput option \<Rightarrow> JobService \<Rightarrow> (JobService \<times> (job_error + Build)) option" where
  "createBuildForJobWithTrigger x io job trigger js =
     (if js_buildService js = None then Some (js, Inl ErrJobBuildServiceNotConfigured)
      else case buildRepositoryIdentity job js of
        Inl err \<Rightarrow> Some (js, Inl err)
      | Inr identity \<Rightarrow>
          run_build
            (if TrimSpace (jb_PipelineYAML job) \<noteq> []
             then CreateBuildFromPipeline x (pipeline_input (readOptionalString (jb_PipelinePath job)) job trigger identity)
             else if TrimSpace (readOptionalString (jb_PipelinePath job)) \<noteq> []
             then CreateBuildFromRepo x io (repo_input (readOptionalString (jb_PipelinePath job)) job trigger identity)
             else CreateBuildFromPipeline x (pipeline_input [] job trigger identity)) js)"

section \<open>Reading jobs\<close>

definition GetJob :: "string \<Rightarrow> JobService \<Rightarrow> job_error + Job" where
  "GetJob i js =
     (if TrimSpace i = [] then Inl ErrJobIDRequired
      else case JobRepository_GetByID (TrimSpace i) (js_jobRepo js) of
             Inl err \<Rightarrow> Inl (if err = RepoErrJobNotFound then ErrJobNotFound else err)
           | Inr job \<Rightarrow> attachManagedImageConfig job js)"

definition build_summary :: "Build \<Rightarrow> JobBuildSummary" where
  "build_summary build =
     \<lparr>bsum_ID = b_ID build, bsum_BuildNumber = b_BuildNumber build, bsum_Status = b_Status build, bsum_CreatedAt = b_CreatedAt build,
      bsum_FinishedAt = b_FinishedAt build, bsum_ErrorMessage = b_ErrorMessage build\<rparr>"

definition attachLatestBuilds :: "Job list \<Rightarrow> JobService \<Rightarrow> Job list" where
  "attachLatestBuilds jobs js =
     (case js_buildService js of
        None \<Rightarrow> jobs
      | Some s \<Rightarrow>
          (if jobs = [] then jobs
           else let latestBuilds = ListLatestByJobIDs (map jb_ID jobs) (bs_buildRepo s)
                in map (\<lambda>job. job\<lparr>jb_LatestBuild := map_option build_summary (map_of latestBuilds (jb_ID job))\<rparr>) jobs))"

definition ListJobs :: "JobService \<Rightarrow> Job list" where
  "ListJobs js = attachLatestBuilds (JobRepository_List (js_jobRepo js)) js"

definition GetJobsByIDs :: "string list \<Rightarrow> JobService \<Rightarrow> Job list" where
  "GetJobsByIDs ids js = JobRepository_GetByIDs ids (js_jobRepo js)"

definition GetRegisteredRepositoriesByIDs :: "string list \<Rightarrow> JobService \<Rightarrow> (string, SCMRepositoryRegistration) gomap" where
  "GetRegisteredRepositoriesByIDs ids js =
     (case js_registeredRepositories js of
        None \<Rightarrow> []
      | Some repos \<Rightarrow> (if ids = [] then [] else fold (\<lambda>item m. gm_put (rr_ID item) item m) (RegistrationRepository_GetByIDs ids repos) []))"

definition ListJobsPaged :: "ListParams \<Rightarrow> JobService \<Rightarrow> Job list" where
  "ListJobsPaged params js = attachLatestBuilds (JobRepository_ListPaged params (js_jobRepo js)) js"

definition ListJobsByProject :: "JobExternals \<Rightarrow> string \<Rightarrow> JobService \<Rightarrow> job_error + Job list" where
  "ListJobsByProject x projectID js =
     (let trimmedID = TrimSpace projectID
      in if trimmedID = [] then Inl ErrProjectIDRequired
         else case (if js_projects js \<noteq> None then resolveProjectID x trimmedID [] js else Inr trimmedID) of
                Inl err \<Rightarrow> Inl err
              | Inr resolvedProjectID \<Rightarrow> Inr (attachLatestBuilds (JobRepository_ListByProjectID resolvedProjectID (js_jobRepo js)) js))"

definition ResolveJobByProjectAndName :: "string \<Rightarrow> string \<Rightarrow> JobService \<Rightarrow> job_error + Job" where
  "ResolveJobByProjectAndName projectID name js =
     (let trimmedProjectID = TrimSpace projectID; trimmedName = TrimSpace name
      in if trimmedProjectID = [] then Inl ErrProjectIDRequired
         else if trimmedName = [] then Inl ErrJobNameRequired
         else case (case js_projects js of
                      None \<Rightarrow> None
                    | Some projects \<Rightarrow> (case ProjectRepository_GetByID trimmedProjectID projects of Inl err \<Rightarrow> Some err | Inr _ \<Rightarrow> None)) of
                Some err \<Rightarrow> Inl err
              | None \<Rightarrow>
                  (case JobRepository_FindByProjectIDAndName trimmedProjectID trimmedName 2 (js_jobRepo js) of
                     [] \<Rightarrow> Inl ErrJobNotFound
                   | [job] \<Rightarrow>
                       (case attachManagedImageConfig job js of
                          Inl err \<Rightarrow> Inl err
                        | Inr job1 \<Rightarrow> Inr (hd (attachLatestBuilds [job1] js)))
                   | _ \<Rightarrow> Inl ErrJobNameAmbiguous))"

section \<open>Creating a job\<close>

definition created_push_branch :: "CreateJobInput \<Rightarrow> string option" where
  "created_push_branch normalized =
     (case cj_PushBranch normalized of
        None \<Rightarrow> None
      | Some b \<Rightarrow> (let branch = normalizePushRef b in if cj_PushEnabled normalized = Some True \<and> branch \<noteq> [] then Some branch else None))"

definition new_job :: "string \<Rightarrow> time \<Rightarrow> string \<Rightarrow> string option \<Rightarrow> string \<Rightarrow> CreateJobInput \<Rightarrow> Job" where
  "new_job uuid now projectID repositoryID repositoryURL normalized =
     (let pushBranch = created_push_branch normalized;
          branches = normalizeBranchAllowlist (cj_BranchAllowlist normalized)
      in \<lparr>jb_ID = uuid, jb_ProjectID = projectID, jb_Name = cj_Name normalized, jb_Priority = normalizedPriority (cj_Priority normalized),
          jb_RepositoryID = repositoryID, jb_RepositoryURL = repositoryURL, jb_DefaultRef = cj_DefaultRef normalized,
          jb_DefaultCommitSHA = trimmedStringPtr (cj_DefaultCommitSHA normalized),
          jb_PushEnabled = (cj_PushEnabled normalized = Some True), jb_PullRequestEnabled = (cj_PullRequestEnabled normalized = Some True),
          jb_PushBranch = pushBranch, jb_TriggerMode = normalizeWebhookFilterMode (readOptionalString (cj_TriggerMode normalized)),
          jb_BranchAllowlist = (if branches = [] then (case pushBranch of None \<Rightarrow> [] | Some b \<Rightarrow> [b]) else branches),
          jb_TagAllowlist = normalizeTagAllowlist (cj_TagAllowlist normalized),
          jb_ArtifactTriggers = NormalizeJobArtifactTriggers (cj_ArtifactTriggers normalized),
          jb_PipelineYAML = cj_PipelineYAML normalized, jb_PipelinePath = trimmedStringPtr (cj_PipelinePath normalized),
          jb_ManagedImageConfig = None, jb_LatestBuild = None, jb_Enabled = (cj_Enabled normalized \<noteq> Some False),
          jb_CreatedAt = now, jb_UpdatedAt = now\<rparr>)"

definition triggers_itself :: "Job \<Rightarrow> bool" where
  "triggers_itself job = list_ex (\<lambda>trigger. at_ProducerJobID trigger = jb_ID job) (jb_ArtifactTriggers job)"

definition rollbackCreatedJob :: "Job \<Rightarrow> JobService \<Rightarrow> JobService" where
  "rollbackCreatedJob job js =
     (let js1 = (case (jb_ManagedImageConfig job, js_managedImageConfigs js) of
                   (Some _, Some configs) \<Rightarrow> delete_config (jb_ID job) configs js | _ \<Rightarrow> js)
      in js1\<lparr>js_jobRepo := fst (JobRepository_Delete (jb_ID job) (js_jobRepo js1))\<rparr>)"

text \<open>The checks before the job is stored, in their order.\<close>

definition prepared_job :: "JobExternals \<Rightarrow> CreateJobInput \<Rightarrow> JobService \<Rightarrow> job_error + Job" where
  "prepared_job x input js =
     (case normalizeCreateJobInput input of
        Inl err \<Rightarrow> Inl err
      | Inr normalized \<Rightarrow>
          (case resolveProjectID x (cj_ProjectID normalized) (cj_ProjectSlug normalized) js of
             Inl err \<Rightarrow> Inl err
           | Inr projectID \<Rightarrow>
               (case resolveJobRepositorySource (cj_RepositoryID normalized) (cj_RepositoryURL normalized) js of
                  Inl err \<Rightarrow> Inl err
                | Inr (repositoryID, repositoryURL) \<Rightarrow>
                    (case (if TrimSpace (cj_PipelineYAML normalized) \<noteq> [] then validatePipelineYAML (je_Decode x) (cj_PipelineYAML normalized)
                           else None) of
                       Some err \<Rightarrow> Inl err
                     | None \<Rightarrow>
                         (case validatePipelineDefinition (cj_PipelineYAML normalized) (trimmedStringPtr (cj_PipelinePath normalized)) of
                            Some err \<Rightarrow> Inl err
                          | None \<Rightarrow>
                              (let job = new_job (je_uuid x 0) (je_now x 0) projectID repositoryID repositoryURL normalized
                               in if triggers_itself job then Inl ErrJobArtifactTriggerSelfReference else Inr job))))))"

definition CreateJob :: "JobExternals \<Rightarrow> CreateJobInput \<Rightarrow> JobService \<Rightarrow> (JobService \<times> (job_error + Job)) option" where
  "CreateJob x input js =
     (case prepared_job x input js of
        Inl err \<Rightarrow> Some (js, Inl err)
      | Inr job \<Rightarrow>
          (case JobRepository_Create (je_uuid x 1) job (js_jobRepo js) of
             (repo, created0) \<Rightarrow>
               (let js1 = js\<lparr>js_jobRepo := repo\<rparr>
                in case (case cj_ManagedImage input of
                           None \<Rightarrow> (js1, Inr created0)
                         | Some m \<Rightarrow>
                             (if \<not> mci_Enabled m then (js1, Inr created0)
                              else case upsertManagedImageConfig (je_uuid x 2) (je_now x 1) created0 m js1 of
                                     (js2, Inl err) \<Rightarrow> (js2, Inl err)
                                   | (js2, Inr config) \<Rightarrow> (js2, Inr (created0\<lparr>jb_ManagedImageConfig := Some config\<rparr>)))) of
                     (js2, Inl err) \<Rightarrow> Some (js2, Inl err)
                   | (js2, Inr created) \<Rightarrow>
                       (if \<not> jb_Enabled created then Some (js2, Inr created)
                        else case createBuildForJobWithTrigger (je_builds x 0) (je_repoIO x 0) created None js2 of
                               None \<Rightarrow> None
                             | Some (js3, Inl createErr) \<Rightarrow> Some (rollbackCreatedJob created js3, Inl createErr)
                             | Some (js3, Inr _) \<Rightarrow> Some (js3, Inr created)))))"

section \<open>Updating a job\<close>

definition set_if :: "'a option \<Rightarrow> ('a \<Rightarrow> 'b) \<Rightarrow> 'b \<Rightarrow> 'b" where
  "set_if new f old = (case new of None \<Rightarrow> old | Some v \<Rightarrow> f v)"

definition updated_push_branch :: "Job \<Rightarrow> UpdateJobInput \<Rightarrow> string option" where
  "updated_push_branch job input =
     (case uj_PushBranch input of
        Some b \<Rightarrow> (let branch = normalizePushRef b in if branch = [] then None else Some branch)
      | None \<Rightarrow> (if uj_PushEnabled input = Some False then None else jb_PushBranch job))"

definition updated_job :: "Job \<Rightarrow> UpdateJobInput \<Rightarrow> string option \<Rightarrow> string \<Rightarrow> Job" where
  "updated_job job input repositoryID repositoryURL =
     (let pushBranch = updated_push_branch job input;
          branches = set_if (uj_BranchAllowlist input) normalizeBranchAllowlist (jb_BranchAllowlist job)
      in job\<lparr>jb_Name := set_if (uj_Name input) TrimSpace (jb_Name job),
           jb_Priority := set_if (uj_Priority input) (\<lambda>p. p) (jb_Priority job),
           jb_RepositoryID := repositoryID, jb_RepositoryURL := repositoryURL,
           jb_DefaultRef := set_if (uj_DefaultRef input) TrimSpace (jb_DefaultRef job),
           jb_DefaultCommitSHA := set_if (uj_DefaultCommitSHA input) trimmedStringPtr (jb_DefaultCommitSHA job),
           jb_PushEnabled := set_if (uj_PushEnabled input) (\<lambda>b. b) (jb_PushEnabled job),
           jb_PullRequestEnabled := set_if (uj_PullRequestEnabled input) (\<lambda>b. b) (jb_PullRequestEnabled job),
           jb_PushBranch := pushBranch,
           jb_TriggerMode := set_if (uj_TriggerMode input) (\<lambda>m. normalizeWebhookFilterMode (TrimSpace m)) (jb_TriggerMode job),
           jb_BranchAllowlist := (if branches = [] then (case pushBranch of None \<Rightarrow> [] | Some b \<Rightarrow> [b]) else branches),
           jb_TagAllowlist := set_if (uj_TagAllowlist input) normalizeTagAllowlist (jb_TagAllowlist job),
           jb_ArtifactTriggers := set_if (uj_ArtifactTriggers input) NormalizeJobArtifactTriggers (jb_ArtifactTriggers job),
           jb_PipelineYAML := set_if (uj_PipelineYAML input) TrimSpace (jb_PipelineYAML job),
           jb_PipelinePath := set_if (uj_PipelinePath input) trimmedStringPtr (jb_PipelinePath job),
           jb_Enabled := set_if (uj_Enabled input) (\<lambda>b. b) (jb_Enabled job)\<rparr>)"

definition check_update :: "(string \<Rightarrow> string + PipelineFile) \<Rightarrow> UpdateJobInput \<Rightarrow> Job \<Rightarrow> job_error option" where
  "check_update decode input job =
     (if (case uj_Priority input of None \<Rightarrow> False | Some p \<Rightarrow> \<not> ValidPriority p) then Some ErrJobPriorityOutOfRange
      else if (case uj_TriggerMode input of None \<Rightarrow> False | Some m \<Rightarrow> \<not> isValidTriggerMode m) then Some ErrJobInvalidTriggerMode
      else case (case uj_ArtifactTriggers input of None \<Rightarrow> None | Some triggers \<Rightarrow> validateRawArtifactTriggers triggers) of
        Some err \<Rightarrow> Some err
      | None \<Rightarrow>
          (if triggers_itself job then Some ErrJobArtifactTriggerSelfReference
           else case validateJobRequiredFields job of
             Some err \<Rightarrow> Some err
           | None \<Rightarrow>
               (case (if TrimSpace (jb_PipelineYAML job) \<noteq> [] then validatePipelineYAML decode (jb_PipelineYAML job) else None) of
                  Some err \<Rightarrow> Some err
                | None \<Rightarrow> validatePipelineDefinition (jb_PipelineYAML job) (jb_PipelinePath job))))"

definition UpdateJob :: "JobExternals \<Rightarrow> string \<Rightarrow> UpdateJobInput \<Rightarrow> JobService \<Rightarrow> JobService \<times> (job_error + Job)" where
  "UpdateJob x i input js =
     (case GetJob i js of
        Inl err \<Rightarrow> (js, Inl err)
      | Inr job0 \<Rightarrow>
          (case resolveUpdatedJobRepositorySource job0 input js of
             Inl err \<Rightarrow> (js, Inl err)
           | Inr (repositoryID, repositoryURL) \<Rightarrow>
               (let job = updated_job job0 input repositoryID repositoryURL
                in case check_update (je_Decode x) input job of
                     Some err \<Rightarrow> (js, Inl err)
                   | None \<Rightarrow>
                       (case JobRepository_Update (job\<lparr>jb_UpdatedAt := je_now x 0\<rparr>) (js_jobRepo js) of
                          (repo, Inl err) \<Rightarrow> (js\<lparr>js_jobRepo := repo\<rparr>, Inl (if err = RepoErrJobNotFound then ErrJobNotFound else err))
                        | (repo, Inr updated) \<Rightarrow>
                            (let js1 = js\<lparr>js_jobRepo := repo\<rparr>
                             in if uj_ManagedImageSet input
                                then (case patchManagedImageConfig (je_uuid x 0) (je_now x 1) (je_now x 2) updated (uj_ManagedImage input) js1 of
                                        (js2, Inl err) \<Rightarrow> (js2, Inl err)
                                      | (js2, Inr config) \<Rightarrow> (js2, Inr (updated\<lparr>jb_ManagedImageConfig := config\<rparr>)))
                                else (js1, attachManagedImageConfig updated js1))))))"

definition RunJobNow :: "JobExternals \<Rightarrow> string \<Rightarrow> string option \<Rightarrow> JobService \<Rightarrow> (JobService \<times> (job_error + Build)) option" where
  "RunJobNow x i ref js =
     (case GetJob i js of
        Inl err \<Rightarrow> Some (js, Inl err)
      | Inr job \<Rightarrow>
          (if \<not> jb_Enabled job then Some (js, Inl ErrJobDisabled)
           else case (case ref of
                        None \<Rightarrow> Inr job
                      | Some r \<Rightarrow> (if TrimSpace r = [] then Inl ErrJobRunRefRequired
                                  else Inr (job\<lparr>jb_DefaultRef := TrimSpace r, jb_DefaultCommitSHA := None\<rparr>))) of
                  Inl err \<Rightarrow> Some (js, Inl err)
                | Inr job1 \<Rightarrow> createBuildForJobWithTrigger (je_builds x 0) (je_repoIO x 0) job1 None js))"

end
