(* ===== verification/Job_Events.thy ===== *)
theory Job_Events
  imports Job_Requests
begin

text \<open>
  Builds that events trigger: pushes and pull requests (\<open>service/job_push.go\<close>), the ledger that lets every
  delivery of a webhook through once (\<open>service/webhook/ingress.go\<close>), and artifacts of other builds
  (\<open>DispatchArtifactTriggers\<close> of \<open>job_service.go\<close>, \<open>job_service_artifact_triggers.go\<close>).
\<close>

section \<open>Pushes and pull requests\<close>

text \<open>An event after its fields were trimmed, with the identity of the registered repository it comes from.\<close>

record Event =
  ev_scmProvider :: string
  ev_eventType :: string
  ev_connectionID :: string
  ev_repoURL :: string
  ev_owner :: string
  ev_name :: string
  ev_ref :: WebhookRef
  ev_commitSHA :: string
  ev_identity :: "RepositoryIdentitySnapshot option"
  ev_input :: WebhookTriggerInput

definition event_of :: "WebhookTriggerInput \<Rightarrow> Event" where
  "event_of input =
     (let scmProvider = ToLower (TrimSpace (wi_SCMProvider input)); repoURL = TrimSpace (wi_RepositoryURL input);
          owner = TrimSpace (wi_RepositoryOwner input); name = TrimSpace (wi_RepositoryName input)
      in \<lparr>ev_scmProvider = scmProvider, ev_eventType = ToLower (TrimSpace (wi_EventType input)),
          ev_connectionID = TrimSpace (wi_ConnectionID input),
          ev_repoURL = (if repoURL = [] \<and> scmProvider = ''github'' \<and> owner \<noteq> [] \<and> name \<noteq> []
                        then ''https://github.com/'' @ owner @ ''/'' @ name @ ''.git'' else repoURL),
          ev_owner = owner, ev_name = name, ev_ref = normalizeWebhookRefInput input, ev_commitSHA = TrimSpace (wi_CommitSHA input),
          ev_identity = None, ev_input = input\<rparr>)"

definition webhookNoMatchResult :: "Event \<Rightarrow> WebhookTriggerResult" where
  "webhookNoMatchResult ev =
     \<lparr>wres_SCMProvider = ev_scmProvider ev, wres_EventType = ev_eventType ev, wres_RepositoryURL = ev_repoURL ev,
      wres_RawRef = wr_RawRef (ev_ref ev), wres_Ref = wr_RefName (ev_ref ev), wres_RefType = wr_RefType (ev_ref ev),
      wres_RefName = wr_RefName (ev_ref ev), wres_Deleted = wr_Deleted (ev_ref ev), wres_CommitSHA = ev_commitSHA ev,
      wres_MatchedJobs = 0, wres_NoMatchReason = None, wres_Builds = []\<rparr>"

definition webhook_trigger :: "Event \<Rightarrow> CreateBuildTriggerInput" where
  "webhook_trigger ev =
     \<lparr>ti_Kind = ''webhook'', ti_SCMProvider = ev_scmProvider ev, ti_EventType = ev_eventType ev, ti_RepositoryOwner = ev_owner ev,
      ti_RepositoryName = ev_name ev, ti_RepositoryURL = ev_repoURL ev, ti_RawRef = wr_RawRef (ev_ref ev), ti_Ref = wr_RefName (ev_ref ev),
      ti_RefType = wr_RefType (ev_ref ev), ti_RefName = wr_RefName (ev_ref ev), ti_Deleted = Some (wr_Deleted (ev_ref ev)),
      ti_CommitSHA = ev_commitSHA ev, ti_DeliveryID = TrimSpace (wi_DeliveryID (ev_input ev)), ti_Actor = TrimSpace (wi_Actor (ev_input ev)),
      ti_ProducerProjectID = [], ti_ProducerJobID = [], ti_ProducerBuildID = [], ti_ArtifactID = [], ti_ArtifactPath = [],
      ti_ArtifactName = [], ti_ArtifactSizeBytes = None, ti_ArtifactChecksumSHA256 = [], ti_PullRequest = wi_PullRequest (ev_input ev)\<rparr>"

text \<open>The build of one matched job; its priority is left out, which the build service reads as the default.\<close>

definition webhook_build ::
  "Externals \<Rightarrow> RepoIO \<Rightarrow> Event \<Rightarrow> Job \<Rightarrow> BuildService \<Rightarrow> (BuildService \<times> (svc_error + Build)) option" where
  "webhook_build x io ev job =
     (if TrimSpace (readOptionalString (jb_PipelinePath job)) \<noteq> []
      then CreateBuildFromRepo x io
             \<lparr>ri_ProjectID = jb_ProjectID job, ri_JobID = Some (jb_ID job), ri_Priority = 0, ri_RepoURL = jb_RepositoryURL job,
              ri_Ref = wr_RefName (ev_ref ev), ri_CommitSHA = ev_commitSHA ev,
              ri_PipelinePath = TrimSpace (readOptionalString (jb_PipelinePath job)), ri_Trigger = Some (webhook_trigger ev),
              ri_RepositoryIdentity = ev_identity ev\<rparr>
      else CreateBuildFromPipeline x
             \<lparr>pi_ProjectID = jb_ProjectID job, pi_JobID = Some (jb_ID job), pi_Priority = 0, pi_PipelineYAML = jb_PipelineYAML job,
              pi_PipelinePath = [],
              pi_Source = Some \<lparr>si_RepositoryURL = jb_RepositoryURL job, si_Ref = wr_RefName (ev_ref ev), si_CommitSHA = ev_commitSHA ev\<rparr>,
              pi_Trigger = Some (webhook_trigger ev), pi_RepositoryIdentity = ev_identity ev\<rparr>)"

definition is_pull_request :: "Event \<Rightarrow> bool" where
  "is_pull_request ev \<longleftrightarrow> ev_eventType ev = ''pull_request''"

definition job_decision :: "Event \<Rightarrow> Job \<Rightarrow> WebhookFilterDecision" where
  "job_decision ev job = webhookFilterShouldTriggerBuild (ev_ref ev) (toWebhookJobTriggerConfig job)"

text \<open>The loop over the jobs; \<open>n\<close> counts them, so that every build has surroundings of its own.\<close>

fun webhook_loop ::
  "JobExternals \<Rightarrow> Event \<Rightarrow> nat \<Rightarrow> Job list \<Rightarrow> WebhookTriggerResult \<Rightarrow> string option \<Rightarrow> JobService \<Rightarrow>
     (JobService \<times> (job_error + WebhookTriggerResult)) option" where
  "webhook_loop x ev n [] result reason js = Some (js, Inr (result\<lparr>wres_NoMatchReason := reason\<rparr>))"
| "webhook_loop x ev n (job # jobs) result reason js =
     (if ev_connectionID ev = [] \<and>
         \<not> matchesSCMRepositoryIdentity (je_urls x) (jb_RepositoryURL job) (ev_scmProvider ev) (ev_owner ev) (ev_name ev)
      then webhook_loop x ev (Suc n) jobs result reason js
      else if \<not> is_pull_request ev \<and> \<not> fdec_Matched (job_decision ev job)
      then webhook_loop x ev (Suc n) jobs result (if reason = None then Some (fdec_Reason (job_decision ev job)) else reason) js
      else if ev_commitSHA ev = [] then Some (js, Inl ErrPushEventCommitSHARequired)
      else case run_build (webhook_build (je_builds x n) (je_repoIO x n) ev job) js of
             None \<Rightarrow> None
           | Some (js1, Inl buildErr) \<Rightarrow> Some (js1, Inl (WebhookBuildError (jb_ID job) buildErr))
           | Some (js1, Inr build) \<Rightarrow>
               webhook_loop x ev (Suc n) jobs
                 (result\<lparr>wres_MatchedJobs := wres_MatchedJobs result + 1,
                    wres_Builds := wres_Builds result @ [\<lparr>mb_Job = job, mb_Build = build\<rparr>]\<rparr>) reason js1)"

definition empty_config :: WebhookFilterConfig where
  "empty_config = \<lparr>fc_Mode = [], fc_BranchAllowlist = [], fc_TagAllowlist = []\<rparr>"

definition default_reason :: "Event \<Rightarrow> string option" where
  "default_reason ev =
     (let decision = webhookFilterShouldTriggerBuild (ev_ref ev) empty_config
      in if \<not> is_pull_request ev \<and> \<not> fdec_Matched decision then Some (fdec_Reason decision) else None)"

definition candidate_jobs :: "Event \<Rightarrow> JobService \<Rightarrow> job_error + (Event \<times> Job list) option" where
  "candidate_jobs ev js =
     (if ev_connectionID ev = [] then Inr (Some (ev, JobRepository_ListPushEnabledByRepository (ev_repoURL ev) (js_jobRepo js)))
      else let providerRepositoryID = TrimSpace (wi_ProviderRepositoryID (ev_input ev))
           in if providerRepositoryID = [] then Inl ErrWebhookProviderRepositoryIDRequired
              else case js_registeredRepositories js of
                None \<Rightarrow> Inl ErrJobRegisteredRepositoryStoreNotConfigured
              | Some repos \<Rightarrow>
                  (case GetByConnectionIDAndProviderRepositoryID (ev_connectionID ev) providerRepositoryID repos of
                     Inl err \<Rightarrow> (if err = RepoErrSCMRepositoryRegistrationNotFound then Inr None else Inl err)
                   | Inr registration \<Rightarrow>
                       (if rr_Disabled registration then Inr None
                        else case checked_identity registration of
                          Inl err \<Rightarrow> Inl err
                        | Inr identity \<Rightarrow>
                            Inr (Some (ev\<lparr>ev_identity := Some identity\<rparr>,
                              if is_pull_request ev then JobRepository_ListPullRequestEnabledByRepositoryID (rr_ID registration) (js_jobRepo js)
                              else JobRepository_ListPushEnabledByRepositoryID (rr_ID registration) (js_jobRepo js))))))"

definition TriggerWebhookEvent ::
  "JobExternals \<Rightarrow> WebhookTriggerInput \<Rightarrow> JobService \<Rightarrow> (JobService \<times> (job_error + WebhookTriggerResult)) option" where
  "TriggerWebhookEvent x input js =
     (let ev = event_of input
      in if js_buildService js = None then Some (js, Inl ErrJobBuildServiceNotConfigured)
         else if ev_connectionID ev = [] \<and> ev_repoURL ev = [] then Some (js, Inl ErrPushEventRepositoryURLRequired)
         else if wr_RefName (ev_ref ev) = [] then Some (js, Inl ErrPushEventRefRequired)
         else case candidate_jobs ev js of
                Inl err \<Rightarrow> Some (js, Inl err)
              | Inr None \<Rightarrow> Some (js, Inr (webhookNoMatchResult ev))
              | Inr (Some (ev1, jobs)) \<Rightarrow> webhook_loop x ev1 0 jobs (webhookNoMatchResult ev1) (default_reason ev1) js)"

record PushEventInput =
  pe_RepositoryURL :: string
  pe_Ref :: string
  pe_CommitSHA :: string

record PushEventResult =
  per_RepositoryURL :: string
  per_Ref :: string
  per_CommitSHA :: string
  per_MatchedJobs :: int
  per_Builds :: "WebhookMatchedBuild list"

definition TriggerPushEvent :: "JobExternals \<Rightarrow> PushEventInput \<Rightarrow> JobService \<Rightarrow> (JobService \<times> (job_error + PushEventResult)) option" where
  "TriggerPushEvent x input js =
     (let repoURL = TrimSpace (pe_RepositoryURL input); ref = TrimSpace (pe_Ref input); commitSHA = TrimSpace (pe_CommitSHA input)
      in if repoURL = [] then Some (js, Inl ErrPushEventRepositoryURLRequired)
         else if ref = [] then Some (js, Inl ErrPushEventRefRequired)
         else if commitSHA = [] then Some (js, Inl ErrPushEventCommitSHARequired)
         else case TriggerWebhookEvent x
                     \<lparr>wi_ConnectionID = [], wi_SCMProvider = ''github'', wi_EventType = ''push'', wi_RepositoryOwner = [], wi_RepositoryName = [],
                      wi_ProviderRepositoryID = [], wi_RepositoryURL = repoURL, wi_RawRef = ref, wi_Ref = ref, wi_RefType = WebhookRefTypeBranch,
                      wi_RefName = [], wi_Deleted = False, wi_CommitSHA = commitSHA, wi_PullRequest = None, wi_DeliveryID = [], wi_Actor = [],
                      wi_InstallationID = []\<rparr> js of
                None \<Rightarrow> None
              | Some (js1, Inl err) \<Rightarrow> Some (js1, Inl err)
              | Some (js1, Inr result) \<Rightarrow>
                  Some (js1, Inr \<lparr>per_RepositoryURL = wres_RepositoryURL result, per_Ref = wres_Ref result, per_CommitSHA = wres_CommitSHA result,
                    per_MatchedJobs = wres_MatchedJobs result, per_Builds = wres_Builds result\<rparr>))"

section \<open>The ledger of deliveries\<close>

definition isAllowedDeliveryTransition :: "string \<Rightarrow> string \<Rightarrow> bool" where
  "isAllowedDeliveryTransition from_status to_status =
     (case map_of
        [(WebhookDeliveryStatusReceived, [WebhookDeliveryStatusVerified, WebhookDeliveryStatusUnsupported, WebhookDeliveryStatusDuplicate,
            WebhookDeliveryStatusFailed]),
         (WebhookDeliveryStatusVerified, [WebhookDeliveryStatusMatched, WebhookDeliveryStatusIgnoredNoMatch, WebhookDeliveryStatusQueued,
            WebhookDeliveryStatusFailed, WebhookDeliveryStatusDuplicate]),
         (WebhookDeliveryStatusMatched, [WebhookDeliveryStatusQueued, WebhookDeliveryStatusFailed, WebhookDeliveryStatusDuplicate]),
         (WebhookDeliveryStatusQueued, [WebhookDeliveryStatusDuplicate]),
         (WebhookDeliveryStatusUnsupported, [WebhookDeliveryStatusDuplicate]),
         (WebhookDeliveryStatusIgnoredNoMatch, [WebhookDeliveryStatusDuplicate]),
         (WebhookDeliveryStatusFailed, [WebhookDeliveryStatusDuplicate]),
         (WebhookDeliveryStatusDuplicate, [WebhookDeliveryStatusDuplicate])] from_status of
        None \<Rightarrow> from_status = to_status
      | Some allowed \<Rightarrow> List.member allowed to_status)"

definition updateDelivery ::
  "time \<Rightarrow> time \<Rightarrow> WebhookDelivery \<Rightarrow> string \<Rightarrow> string option \<Rightarrow> WebhookDeliveryRepository \<Rightarrow>
     WebhookDeliveryRepository \<times> (job_error + WebhookDelivery)" where
  "updateDelivery now clock delivery next_status reason r =
     (if \<not> isAllowedDeliveryTransition (wd_Status delivery) next_status then (r, Inl ErrInvalidDeliveryTransition)
      else WebhookDelivery_Update clock (delivery\<lparr>wd_Status := next_status, wd_Reason := reason, wd_UpdatedAt := now\<rparr>) r)"

definition received_delivery :: "string \<Rightarrow> time \<Rightarrow> string \<Rightarrow> string \<Rightarrow> string \<Rightarrow> WebhookDelivery" where
  "received_delivery uuid now provider deliveryID eventType =
     zeroWebhookDelivery\<lparr>wd_ID := uuid, wd_Provider := provider, wd_DeliveryID := deliveryID, wd_Status := WebhookDeliveryStatusReceived,
       wd_ReceivedAt := now, wd_UpdatedAt := now,
       wd_EventType := (if TrimSpace eventType = [] then None else Some (ToLower (TrimSpace eventType)))\<rparr>"

text \<open>The answer says whether the delivery was received before.\<close>

definition RegisterReceived ::
  "JobExternals \<Rightarrow> string \<Rightarrow> string \<Rightarrow> string \<Rightarrow> WebhookDeliveryRepository \<Rightarrow>
     WebhookDeliveryRepository \<times> (job_error + WebhookDelivery \<times> bool)" where
  "RegisterReceived x provider0 deliveryID0 eventType r =
     (let provider = ToLower (TrimSpace provider0); deliveryID = TrimSpace deliveryID0
      in if provider = [] then (r, Inl ErrDeliveryProviderRequired)
         else if deliveryID = [] then (r, Inl ErrDeliveryIDRequired)
         else case WebhookDelivery_Create (je_uuid x 1) (je_now x 1)
                     (received_delivery (je_uuid x 0) (je_now x 0) provider deliveryID eventType) r of
                (r1, Inr created) \<Rightarrow> (r1, Inr (created, False))
              | (r1, Inl err) \<Rightarrow>
                  (if err \<noteq> RepoErrWebhookDeliveryDuplicate then (r1, Inl err)
                   else case GetByProviderDeliveryID provider deliveryID r1 of
                          Inl getErr \<Rightarrow> (r1, Inl getErr)
                        | Inr existing \<Rightarrow>
                            (case updateDelivery (je_now x 2) (je_now x 3) existing WebhookDeliveryStatusDuplicate (wd_Reason existing) r1 of
                               (r2, Inl _) \<Rightarrow> (r2, Inr (existing, True))
                             | (r2, Inr updated) \<Rightarrow> (r2, Inr (updated, True)))))"

definition optionalDeliveryString :: "string \<Rightarrow> string option" where
  "optionalDeliveryString value = (let trimmed = TrimSpace value in if trimmed = [] then None else Some trimmed)"

definition applyDeliveryTriggerMetadata :: "WebhookDelivery \<Rightarrow> WebhookTriggerInput \<Rightarrow> WebhookDelivery" where
  "applyDeliveryTriggerMetadata delivery trigger =
     delivery\<lparr>wd_EventType := optionalDeliveryString (ToLower (TrimSpace (wi_EventType trigger))),
       wd_RepositoryOwner := optionalDeliveryString (wi_RepositoryOwner trigger), wd_RepositoryName := optionalDeliveryString (wi_RepositoryName trigger),
       wd_RawRef := optionalDeliveryString (wi_RawRef trigger), wd_RefType := optionalDeliveryString (wi_RefType trigger),
       wd_RefName := optionalDeliveryString (wi_RefName trigger), wd_TriggerRef := optionalDeliveryString (wi_Ref trigger),
       wd_Deleted := Some (wi_Deleted trigger), wd_CommitSHA := optionalDeliveryString (wi_CommitSHA trigger),
       wd_Actor := optionalDeliveryString (wi_Actor trigger)\<rparr>"

definition MarkFailed_delivery ::
  "time \<Rightarrow> time \<Rightarrow> WebhookDelivery \<Rightarrow> string \<Rightarrow> WebhookDeliveryRepository \<Rightarrow> WebhookDeliveryRepository \<times> (job_error + WebhookDelivery)" where
  "MarkFailed_delivery now clock delivery reason r =
     updateDelivery now clock delivery WebhookDeliveryStatusFailed (optionalDeliveryString reason) r"

definition MarkUnsupported ::
  "time \<Rightarrow> time \<Rightarrow> WebhookDelivery \<Rightarrow> string \<Rightarrow> WebhookTriggerInput \<Rightarrow> WebhookDeliveryRepository \<Rightarrow>
     WebhookDeliveryRepository \<times> (job_error + WebhookDelivery)" where
  "MarkUnsupported now clock delivery reason trigger r =
     updateDelivery now clock (applyDeliveryTriggerMetadata delivery trigger) WebhookDeliveryStatusUnsupported (optionalDeliveryString reason) r"

definition firstMatchedIDs :: "WebhookTriggerResult \<Rightarrow> string option \<times> string option" where
  "firstMatchedIDs result =
     (case wres_Builds result of
        [] \<Rightarrow> (None, None)
      | m # ms \<Rightarrow> (optionalDeliveryString (jb_ID (mb_Job m)), optionalDeliveryString (b_ID (mb_Build m))))"

record Ingress =
  in_ledger :: WebhookDeliveryRepository
  in_jobs :: JobService

record DeliveryIngressResult =
  dir_Delivery :: WebhookDelivery
  dir_Trigger :: "WebhookTriggerResult option"

text \<open>\<open>Error()\<close> of a trigger error is an argument; the ledger stores its text.\<close>

definition ProcessVerifiedEvent ::
  "JobExternals \<Rightarrow> (job_error \<Rightarrow> string) \<Rightarrow> WebhookDelivery \<Rightarrow> WebhookTriggerInput \<Rightarrow> Ingress \<Rightarrow>
     (Ingress \<times> (job_error + DeliveryIngressResult)) option" where
  "ProcessVerifiedEvent x error_text delivery0 trigger w =
     (case updateDelivery (je_now x 0) (je_now x 1) (applyDeliveryTriggerMetadata delivery0 trigger) WebhookDeliveryStatusVerified None (in_ledger w) of
        (r1, Inl err) \<Rightarrow> Some (w\<lparr>in_ledger := r1\<rparr>, Inl err)
      | (r1, Inr verified) \<Rightarrow>
          (case TriggerWebhookEvent x trigger (in_jobs w) of
             None \<Rightarrow> None
           | Some (js, Inl triggerErr) \<Rightarrow>
               Some (\<lparr>in_ledger = fst (MarkFailed_delivery (je_now x 2) (je_now x 3) verified (error_text triggerErr) r1), in_jobs = js\<rparr>,
                     Inl triggerErr)
           | Some (js, Inr result) \<Rightarrow>
               (if wres_MatchedJobs result = 0
                then (case updateDelivery (je_now x 2) (je_now x 3) verified WebhookDeliveryStatusIgnoredNoMatch (wres_NoMatchReason result) r1 of
                        (r2, Inl err) \<Rightarrow> Some (\<lparr>in_ledger = r2, in_jobs = js\<rparr>, Inl err)
                      | (r2, Inr ignored) \<Rightarrow>
                          Some (\<lparr>in_ledger = r2, in_jobs = js\<rparr>, Inr \<lparr>dir_Delivery = ignored, dir_Trigger = Some result\<rparr>))
                else (case updateDelivery (je_now x 2) (je_now x 3)
                             (verified\<lparr>wd_MatchedJobID := fst (firstMatchedIDs result), wd_QueuedBuildID := snd (firstMatchedIDs result)\<rparr>)
                             WebhookDeliveryStatusMatched None r1 of
                        (r2, Inl err) \<Rightarrow> Some (\<lparr>in_ledger = r2, in_jobs = js\<rparr>, Inl err)
                      | (r2, Inr matched) \<Rightarrow>
                          (case updateDelivery (je_now x 4) (je_now x 5) matched WebhookDeliveryStatusQueued None r2 of
                             (r3, Inl err) \<Rightarrow> Some (\<lparr>in_ledger = r3, in_jobs = js\<rparr>, Inl err)
                           | (r3, Inr queued) \<Rightarrow>
                               Some (\<lparr>in_ledger = r3, in_jobs = js\<rparr>, Inr \<lparr>dir_Delivery = queued, dir_Trigger = Some result\<rparr>))))))"

end
