(* ===== verification/GitHub_Webhook.thy ===== *)
theory GitHub_Webhook
  imports Job_Events
begin

text \<open>
  Webhooks of GitHub, from the request to the builds: \<open>webhook/github/push.go\<close>, \<open>webhook/github/pull_request.go\<close>,
  \<open>service/webhook/github_connection_resolver.go\<close> and \<open>IngestGitHubWebhook\<close> of
  \<open>http/handler/event_handler.go\<close>. The JSON decoder, the keyed hash, the secret store and the connections are
  arguments (\<open>GitHubIO\<close>).
\<close>

section \<open>Payloads\<close>

text \<open>The fields the code decodes; a \<open>json.RawMessage\<close> is its text.\<close>

record PushPayload =
  pp_Ref :: string
  pp_After :: string
  pp_Deleted :: bool
  pp_HeadCommitID :: string
  pp_RepositoryID :: string
  pp_RepositoryName :: string
  pp_HTMLURL :: string
  pp_CloneURL :: string
  pp_URL :: string
  pp_OwnerLogin :: string
  pp_OwnerName :: string
  pp_SenderLogin :: string

record PullRequestPayload =
  pl_Action :: string
  pl_RepositoryID :: string
  pl_RepositoryName :: string
  pl_RepositoryHTMLURL :: string
  pl_OwnerLogin :: string
  pl_Number :: string
  pl_HTMLURL :: string
  pl_BaseRef :: string
  pl_BaseSHA :: string
  pl_HeadRef :: string
  pl_HeadSHA :: string
  pl_HeadRepoID :: "string option"
  pl_SenderLogin :: string

record GitHubAppRegistration =
  gar_ID :: string
  gar_WebhookSecretRef :: string

record GitHubAppInstallation =
  gai_AppRegistrationID :: string
  gai_InstallationID :: string

record SCMConnectionDetail =
  cd_ConnectionID :: string
  cd_Provider :: string
  cd_Enabled :: bool
  cd_GitHubAppRegistration :: "GitHubAppRegistration option"
  cd_GitHubAppInstallation :: "GitHubAppInstallation option"

datatype webhook_error =
  ErrUnsupportedEvent | ErrInvalidPayload
| ErrGitHubWebhookRegistrationNotFound | ErrGitHubWebhookSecretUnavailable | ErrGitHubWebhookConnectionIncompatible
| ErrSCMGitHubAppRegistrationNotFound | ErrSCMConnectionNotFound | WebhookErrorf string

record GitHubIO =
  gh_hmac :: "string \<Rightarrow> string \<Rightarrow> string"
  gh_installationID :: "string \<Rightarrow> string option"
  gh_pushPayload :: "string \<Rightarrow> PushPayload option"
  gh_pullRequestPayload :: "string \<Rightarrow> PullRequestPayload option"
  gh_httpsURL :: "string \<Rightarrow> bool"
  gh_registration :: "string \<Rightarrow> webhook_error + GitHubAppRegistration"
  gh_installation :: "string \<Rightarrow> string \<Rightarrow> webhook_error + SCMConnectionDetail"
  gh_secret :: "string \<Rightarrow> webhook_error + string"

definition VerifySignature :: "GitHubIO \<Rightarrow> string \<Rightarrow> string \<Rightarrow> string \<Rightarrow> bool" where
  "VerifySignature io secret0 payload signatureHeader =
     (let secret = TrimSpace secret0; provided = TrimSpace signatureHeader
      in if secret = [] \<or> provided = [] then False else ''sha256='' @ gh_hmac io secret payload = provided)"

definition parsePositiveIntegerID :: "string \<Rightarrow> string option" where
  "parsePositiveIntegerID raw =
     (let value = TrimSpace raw
      in if value = [] \<or> HasPrefix value [CHR 0x22] then None
         else case Atoi value of None \<Rightarrow> None | Some n \<Rightarrow> (if n \<le> 0 then None else Some (FormatInt n)))"

definition ParseAppEnvelope :: "GitHubIO \<Rightarrow> string \<Rightarrow> webhook_error + string" where
  "ParseAppEnvelope io body =
     (case gh_installationID io body of
        None \<Rightarrow> Inl ErrInvalidPayload
      | Some raw \<Rightarrow> (case parsePositiveIntegerID raw of None \<Rightarrow> Inl ErrInvalidPayload | Some i \<Rightarrow> Inr i))"

record PushEvent =
  pu_EventType :: string
  pu_RepositoryOwner :: string
  pu_RepositoryName :: string
  pu_ProviderRepositoryID :: string
  pu_RepositoryURL :: string
  pu_InstallationID :: string
  pu_RawRef :: string
  pu_Ref :: string
  pu_RefType :: string
  pu_RefName :: string
  pu_Deleted :: bool
  pu_CommitSHA :: string
  pu_DeliveryID :: string
  pu_Actor :: string

definition first_set :: "string list \<Rightarrow> string" where
  "first_set xs = (case filter (\<lambda>x. x \<noteq> []) (map TrimSpace xs) of [] \<Rightarrow> [] | x # _ \<Rightarrow> x)"

record GitHubRequest =
  gr_registrationID :: string
  gr_Event :: string
  gr_Delivery :: string
  gr_Signature :: string
  gr_Body :: "string option"

definition ParsePushEvent :: "GitHubIO \<Rightarrow> GitHubRequest \<Rightarrow> string \<Rightarrow> webhook_error + PushEvent" where
  "ParsePushEvent io req body =
     (let eventType = ToLower (TrimSpace (gr_Event req))
      in if eventType \<noteq> ''push'' then Inl ErrUnsupportedEvent
         else case ParseAppEnvelope io body of
           Inl err \<Rightarrow> Inl err
         | Inr installationID \<Rightarrow>
             (case gh_pushPayload io body of
                None \<Rightarrow> Inl ErrInvalidPayload
              | Some payload \<Rightarrow>
                  (case parsePositiveIntegerID (pp_RepositoryID payload) of
                     None \<Rightarrow> Inl ErrInvalidPayload
                   | Some providerRepositoryID \<Rightarrow>
                       (let repositoryOwner = first_set [pp_OwnerLogin payload, pp_OwnerName payload];
                            repositoryName = TrimSpace (pp_RepositoryName payload);
                            ref = NormalizeWebhookRef (pp_Ref payload) (pp_Deleted payload);
                            commitSHA = first_set [pp_After payload, pp_HeadCommitID payload]
                        in if repositoryOwner = [] \<or> repositoryName = [] \<or> wr_RefName ref = [] \<or> (\<not> wr_Deleted ref \<and> commitSHA = [])
                           then Inl ErrInvalidPayload
                           else Inr \<lparr>pu_EventType = eventType, pu_RepositoryOwner = repositoryOwner, pu_RepositoryName = repositoryName,
                             pu_ProviderRepositoryID = providerRepositoryID,
                             pu_RepositoryURL = first_set [pp_HTMLURL payload, pp_CloneURL payload, pp_URL payload],
                             pu_InstallationID = installationID, pu_RawRef = wr_RawRef ref, pu_Ref = wr_RefName ref, pu_RefType = wr_RefType ref,
                             pu_RefName = wr_RefName ref, pu_Deleted = wr_Deleted ref, pu_CommitSHA = commitSHA,
                             pu_DeliveryID = TrimSpace (gr_Delivery req), pu_Actor = TrimSpace (pp_SenderLogin payload)\<rparr>))))"

record PullRequestEvent =
  pv_EventType :: string
  pv_Action :: string
  pv_SupportedAction :: bool
  pv_SameRepository :: bool
  pv_RepositoryOwner :: string
  pv_RepositoryName :: string
  pv_ProviderRepositoryID :: string
  pv_RepositoryURL :: string
  pv_InstallationID :: string
  pv_RawRef :: string
  pv_Ref :: string
  pv_RefType :: string
  pv_RefName :: string
  pv_CommitSHA :: string
  pv_PullRequest :: "PullRequestSnapshot option"
  pv_DeliveryID :: string
  pv_Actor :: string

definition blank_pull_request :: "GitHubRequest \<Rightarrow> string \<Rightarrow> string \<Rightarrow> PullRequestPayload \<Rightarrow> PullRequestEvent" where
  "blank_pull_request req installationID repositoryID payload =
     (let action = ToLower (TrimSpace (pl_Action payload))
      in \<lparr>pv_EventType = ''pull_request'', pv_Action = action, pv_SupportedAction = isSupportedPullRequestAction action,
          pv_SameRepository = False, pv_RepositoryOwner = TrimSpace (pl_OwnerLogin payload),
          pv_RepositoryName = TrimSpace (pl_RepositoryName payload), pv_ProviderRepositoryID = repositoryID,
          pv_RepositoryURL = TrimSpace (pl_RepositoryHTMLURL payload), pv_InstallationID = installationID, pv_RawRef = [], pv_Ref = [],
          pv_RefType = [], pv_RefName = [], pv_CommitSHA = [], pv_PullRequest = None, pv_DeliveryID = TrimSpace (gr_Delivery req),
          pv_Actor = TrimSpace (pl_SenderLogin payload)\<rparr>)"

definition head_of_pull_request :: "GitHubIO \<Rightarrow> PullRequestPayload \<Rightarrow> PullRequestEvent \<Rightarrow> webhook_error + PullRequestEvent" where
  "head_of_pull_request io payload event =
     (let ref = TrimSpace (pl_HeadRef payload); commitSHA = TrimSpace (pl_HeadSHA payload)
      in case parsePositiveIntegerID (pl_Number payload) of
           None \<Rightarrow> Inl ErrInvalidPayload
         | Some prNumberText \<Rightarrow>
             (case Atoi prNumberText of
                None \<Rightarrow> Inl ErrInvalidPayload
              | Some prNumber \<Rightarrow>
                  (if ref = [] \<or> commitSHA = [] then Inl ErrInvalidPayload
                   else case t_PullRequest (NormalizeBuildTrigger (blank_trigger\<lparr>t_PullRequest := Some
                               \<lparr>pr_Number = prNumber, pr_Action = pv_Action event, pr_URL = pl_HTMLURL payload, pr_BaseRef = pl_BaseRef payload,
                                pr_BaseSHA = pl_BaseSHA payload, pr_HeadRef = ref, pr_HeadSHA = commitSHA,
                                pr_SourceMode = PullRequestSourceModeHead\<rparr>\<rparr>)) of
                          None \<Rightarrow> Inl ErrInvalidPayload
                        | Some snapshot \<Rightarrow>
                            (if ValidatePullRequestSnapshot (gh_httpsURL io) snapshot \<noteq> None then Inl ErrInvalidPayload
                             else Inr (event\<lparr>pv_Ref := ref, pv_RefName := ref, pv_RawRef := ''refs/heads/'' @ ref, pv_RefType := ''branch'',
                               pv_CommitSHA := commitSHA, pv_PullRequest := Some snapshot\<rparr>)))))"

definition ParsePullRequestEvent :: "GitHubIO \<Rightarrow> GitHubRequest \<Rightarrow> string \<Rightarrow> webhook_error + PullRequestEvent" where
  "ParsePullRequestEvent io req body =
     (if ToLower (TrimSpace (gr_Event req)) \<noteq> ''pull_request'' then Inl ErrUnsupportedEvent
      else case ParseAppEnvelope io body of
        Inl err \<Rightarrow> Inl err
      | Inr installationID \<Rightarrow>
          (case gh_pullRequestPayload io body of
             None \<Rightarrow> Inl ErrInvalidPayload
           | Some payload \<Rightarrow>
               (case parsePositiveIntegerID (pl_RepositoryID payload) of
                  None \<Rightarrow> Inl ErrInvalidPayload
                | Some repositoryID \<Rightarrow>
                    (if TrimSpace (pl_Action payload) = [] \<or> TrimSpace (pl_OwnerLogin payload) = [] \<or> TrimSpace (pl_RepositoryName payload) = []
                     then Inl ErrInvalidPayload
                     else let event = blank_pull_request req installationID repositoryID payload
                          in case pl_HeadRepoID payload of
                               None \<Rightarrow> Inr event
                             | Some rawID \<Rightarrow>
                                 (case parsePositiveIntegerID rawID of
                                    None \<Rightarrow> Inl ErrInvalidPayload
                                  | Some headRepositoryID \<Rightarrow>
                                      (let event1 = event\<lparr>pv_SameRepository := (headRepositoryID = repositoryID)\<rparr>
                                       in if \<not> pv_SupportedAction event1 \<or> \<not> pv_SameRepository event1 then Inr event1
                                          else head_of_pull_request io payload event1))))))"

section \<open>The connection of a webhook\<close>

record GitHubWebhookConnectionResolution =
  gcr_ConnectionID :: string
  gcr_Found :: bool
  gcr_Enabled :: bool

definition ResolveRegistrationSecret :: "GitHubIO \<Rightarrow> string \<Rightarrow> webhook_error + string" where
  "ResolveRegistrationSecret io registrationID =
     (case gh_registration io (TrimSpace registrationID) of
        Inl err \<Rightarrow> Inl (if err = ErrSCMGitHubAppRegistrationNotFound then ErrGitHubWebhookRegistrationNotFound else err)
      | Inr registration \<Rightarrow>
          (if TrimSpace (gar_WebhookSecretRef registration) = [] then Inl ErrGitHubWebhookSecretUnavailable
           else case gh_secret io (gar_WebhookSecretRef registration) of
                  Inl _ \<Rightarrow> Inl ErrGitHubWebhookSecretUnavailable
                | Inr secret \<Rightarrow> (if TrimSpace secret = [] then Inl ErrGitHubWebhookSecretUnavailable else Inr secret)))"

definition ResolveConnection :: "GitHubIO \<Rightarrow> string \<Rightarrow> string \<Rightarrow> webhook_error + GitHubWebhookConnectionResolution" where
  "ResolveConnection io registrationID0 installationID0 =
     (let registrationID = TrimSpace registrationID0; installationID = TrimSpace installationID0
      in case gh_installation io registrationID installationID of
           Inl err \<Rightarrow> (if err = ErrSCMConnectionNotFound then Inr \<lparr>gcr_ConnectionID = [], gcr_Found = False, gcr_Enabled = False\<rparr> else Inl err)
         | Inr detail \<Rightarrow>
             (case (cd_GitHubAppRegistration detail, cd_GitHubAppInstallation detail) of
                (Some registration, Some installation) \<Rightarrow>
                  (if cd_Provider detail \<noteq> ''github'' \<or> gar_ID registration \<noteq> registrationID \<or>
                      gai_AppRegistrationID installation \<noteq> registrationID \<or> gai_InstallationID installation \<noteq> installationID
                   then Inl ErrGitHubWebhookConnectionIncompatible
                   else Inr \<lparr>gcr_ConnectionID = cd_ConnectionID detail, gcr_Found = True, gcr_Enabled = cd_Enabled detail\<rparr>)
              | _ \<Rightarrow> Inl ErrGitHubWebhookConnectionIncompatible))"

section \<open>The handler\<close>

record PushEventMatchedJob =
  mj_JobID :: string
  mj_JobName :: string
  mj_BuildID :: string
  mj_BuildStatus :: BuildStatus

record PushEventResponse =
  pres_RepositoryURL :: string
  pres_Ref :: string
  pres_CommitSHA :: string
  pres_Duplicate :: bool
  pres_MatchedJobs :: int
  pres_CreatedBuilds :: int
  pres_Builds :: "PushEventMatchedJob list"

datatype Response = ErrorJSON nat string string | DataJSON nat PushEventResponse

definition empty_response :: PushEventResponse where
  "empty_response = \<lparr>pres_RepositoryURL = [], pres_Ref = [], pres_CommitSHA = [], pres_Duplicate = False, pres_MatchedJobs = 0,
     pres_CreatedBuilds = 0, pres_Builds = []\<rparr>"

definition result_response :: "WebhookTriggerResult \<Rightarrow> PushEventResponse" where
  "result_response result =
     \<lparr>pres_RepositoryURL = wres_RepositoryURL result, pres_Ref = wres_Ref result, pres_CommitSHA = wres_CommitSHA result, pres_Duplicate = False,
      pres_MatchedJobs = wres_MatchedJobs result, pres_CreatedBuilds = int (length (wres_Builds result)),
      pres_Builds = map (\<lambda>m. \<lparr>mj_JobID = jb_ID (mb_Job m), mj_JobName = jb_Name (mb_Job m), mj_BuildID = b_ID (mb_Build m),
        mj_BuildStatus = b_Status (mb_Build m)\<rparr>) (wres_Builds result)\<rparr>"

definition internal_error :: Response where
  "internal_error = ErrorJSON 500 ''internal_error'' ''internal server error''"

definition invalid_payload :: Response where
  "invalid_payload = ErrorJSON 400 ''invalid_request'' ''invalid github webhook payload''"

definition misconfigured :: Response where
  "misconfigured = ErrorJSON 503 ''misconfigured'' ''github webhook configuration is unavailable''"

definition head_trigger :: "string \<Rightarrow> string \<Rightarrow> string \<Rightarrow> string \<Rightarrow> WebhookTriggerInput" where
  "head_trigger connectionID eventType deliveryID installationID =
     \<lparr>wi_ConnectionID = connectionID, wi_SCMProvider = ''github'', wi_EventType = eventType, wi_RepositoryOwner = [], wi_RepositoryName = [],
      wi_ProviderRepositoryID = [], wi_RepositoryURL = [], wi_RawRef = [], wi_Ref = [], wi_RefType = [], wi_RefName = [], wi_Deleted = False,
      wi_CommitSHA = [], wi_PullRequest = None, wi_DeliveryID = deliveryID, wi_Actor = [], wi_InstallationID = installationID\<rparr>"

definition pull_request_trigger :: "string \<Rightarrow> PullRequestEvent \<Rightarrow> WebhookTriggerInput" where
  "pull_request_trigger connectionID e =
     \<lparr>wi_ConnectionID = connectionID, wi_SCMProvider = ''github'', wi_EventType = pv_EventType e, wi_RepositoryOwner = pv_RepositoryOwner e,
      wi_RepositoryName = pv_RepositoryName e, wi_ProviderRepositoryID = pv_ProviderRepositoryID e, wi_RepositoryURL = pv_RepositoryURL e,
      wi_RawRef = pv_RawRef e, wi_Ref = pv_Ref e, wi_RefType = pv_RefType e, wi_RefName = pv_RefName e, wi_Deleted = False,
      wi_CommitSHA = pv_CommitSHA e, wi_PullRequest = pv_PullRequest e, wi_DeliveryID = pv_DeliveryID e, wi_Actor = pv_Actor e,
      wi_InstallationID = pv_InstallationID e\<rparr>"

definition push_trigger :: "string \<Rightarrow> PushEvent \<Rightarrow> WebhookTriggerInput" where
  "push_trigger connectionID e =
     \<lparr>wi_ConnectionID = connectionID, wi_SCMProvider = ''github'', wi_EventType = pu_EventType e, wi_RepositoryOwner = pu_RepositoryOwner e,
      wi_RepositoryName = pu_RepositoryName e, wi_ProviderRepositoryID = pu_ProviderRepositoryID e, wi_RepositoryURL = pu_RepositoryURL e,
      wi_RawRef = pu_RawRef e, wi_Ref = pu_Ref e, wi_RefType = pu_RefType e, wi_RefName = pu_RefName e, wi_Deleted = pu_Deleted e,
      wi_CommitSHA = pu_CommitSHA e, wi_PullRequest = None, wi_DeliveryID = pu_DeliveryID e, wi_Actor = pu_Actor e,
      wi_InstallationID = pu_InstallationID e\<rparr>"

text \<open>\<open>errors.Is\<close> looks through the error that wraps the one of a build.\<close>

fun unwrapped :: "job_error \<Rightarrow> job_error" where
  "unwrapped (WebhookBuildError jobID err) = unwrapped err"
| "unwrapped err = err"

definition isBadRequestError :: "job_error \<Rightarrow> bool" where
  "isBadRequestError err \<longleftrightarrow>
     List.member [ErrJobIDRequired, ErrJobNameRequired, ErrJobRunRefRequired, ErrJobPriorityOutOfRange, ErrJobProjectIDRequired,
       RepoErrProjectNotFound, ErrJobManagedImageConfigNotConfigured, ErrJobManagedImageNameRequired, ErrJobManagedImagePipelinePathRequired,
       ErrJobManagedImageWriteCredentialIDRequired, ErrJobRepositorySourceRequired, ErrJobRepositoryAssignmentConflict, ErrJobRepositoryIDEmpty,
       ErrJobSourceTargetRequired, ErrJobInvalidTriggerMode, ErrJobPipelineDefinitionRequired, ErrPushEventRepositoryURLRequired,
       ErrPushEventRefRequired, ErrPushEventCommitSHARequired] (unwrapped err)"

text \<open>
  Before the ledger: the guards of the handler up to the connection. The left is the answer that ends the
  request; the right is the body, the connection and the installation.
\<close>

definition authenticate :: "GitHubIO \<Rightarrow> GitHubRequest \<Rightarrow> Response + (string \<times> string \<times> string)" where
  "authenticate io req =
     (let registrationID = TrimSpace (gr_registrationID req)
      in if registrationID = [] then Inl (ErrorJSON 404 ''not_found'' ''github app registration not found'')
         else if TrimSpace (gr_Event req) = [] \<or> TrimSpace (gr_Delivery req) = []
         then Inl (ErrorJSON 400 ''invalid_request'' ''missing required github webhook headers'')
         else case gr_Body req of
           None \<Rightarrow> Inl (ErrorJSON 400 ''invalid_request'' ''invalid request body'')
         | Some sent \<Rightarrow>
             (let body = take (1024 * 1024) sent
              in case ResolveRegistrationSecret io registrationID of
                   Inl err \<Rightarrow> Inl (if err = ErrGitHubWebhookRegistrationNotFound
                                  then ErrorJSON 404 ''not_found'' ''github app registration not found'' else misconfigured)
                 | Inr secret \<Rightarrow>
                     (if TrimSpace secret = [] then Inl misconfigured
                      else if \<not> VerifySignature io (TrimSpace secret) body (gr_Signature req)
                      then Inl (ErrorJSON 401 ''unauthorized'' ''invalid signature'')
                      else case ParseAppEnvelope io body of
                        Inl _ \<Rightarrow> Inl invalid_payload
                      | Inr installationID \<Rightarrow>
                          (case ResolveConnection io registrationID installationID of
                             Inl _ \<Rightarrow> Inl internal_error
                           | Inr connection \<Rightarrow>
                               (if \<not> gcr_Found connection \<or> \<not> gcr_Enabled connection then Inl (DataJSON 200 empty_response)
                                else Inr (body, gcr_ConnectionID connection, installationID))))))"

definition finish_unsupported ::
  "JobExternals \<Rightarrow> WebhookDelivery \<Rightarrow> string \<Rightarrow> WebhookTriggerInput \<Rightarrow> Ingress \<Rightarrow> Ingress \<times> Response" where
  "finish_unsupported x delivery reason trigger w =
     (case MarkUnsupported (je_now x 4) (je_now x 5) delivery reason trigger (in_ledger w) of
        (r, Inl _) \<Rightarrow> (w\<lparr>in_ledger := r\<rparr>, internal_error)
      | (r, Inr _) \<Rightarrow> (w\<lparr>in_ledger := r\<rparr>, DataJSON 202 empty_response))"

definition finish_invalid :: "JobExternals \<Rightarrow> WebhookDelivery \<Rightarrow> Ingress \<Rightarrow> Ingress \<times> Response" where
  "finish_invalid x delivery w =
     (w\<lparr>in_ledger := fst (MarkFailed_delivery (je_now x 4) (je_now x 5) delivery ''invalid github webhook payload'' (in_ledger w))\<rparr>, invalid_payload)"

text \<open>The result of \<open>ProcessVerifiedEvent\<close> as an answer; a push tells client errors apart, a pull request does not.\<close>

definition answer_processed :: "(job_error \<Rightarrow> string) \<Rightarrow> bool \<Rightarrow> job_error + DeliveryIngressResult \<Rightarrow> Response" where
  "answer_processed error_text tells answer =
     (case answer of
        Inl err \<Rightarrow> (if tells \<and> isBadRequestError err then ErrorJSON 400 ''invalid_request'' (error_text err) else internal_error)
      | Inr result \<Rightarrow> DataJSON 200 (case dir_Trigger result of None \<Rightarrow> empty_response | Some t \<Rightarrow> result_response t))"

text \<open>The surroundings after the readings that \<open>RegisterReceived\<close> made.\<close>

definition later :: "nat \<Rightarrow> JobExternals \<Rightarrow> JobExternals" where
  "later k x = x\<lparr>je_now := \<lambda>n. je_now x (n + k), je_uuid := \<lambda>n. je_uuid x (n + k)\<rparr>"

definition process_event ::
  "JobExternals \<Rightarrow> (job_error \<Rightarrow> string) \<Rightarrow> bool \<Rightarrow> WebhookDelivery \<Rightarrow> WebhookTriggerInput \<Rightarrow> Ingress \<Rightarrow> (Ingress \<times> Response) option" where
  "process_event x error_text tells delivery trigger w =
     map_option (\<lambda>(w1, answer). (w1, answer_processed error_text tells answer)) (ProcessVerifiedEvent (later 4 x) error_text delivery trigger w)"

definition handle_event ::
  "JobExternals \<Rightarrow> (job_error \<Rightarrow> string) \<Rightarrow> GitHubIO \<Rightarrow> GitHubRequest \<Rightarrow> string \<times> string \<times> string \<Rightarrow> WebhookDelivery \<Rightarrow> Ingress \<Rightarrow>
     (Ingress \<times> Response) option" where
  "handle_event x error_text io req target delivery w =
     (case target of
        (body, connectionID, installationID) \<Rightarrow>
          (let eventType = ToLower (TrimSpace (gr_Event req));
               trigger = head_trigger connectionID eventType (TrimSpace (gr_Delivery req)) installationID
           in if eventType \<noteq> ''push'' \<and> eventType \<noteq> ''pull_request''
              then Some (finish_unsupported x delivery ''unsupported event'' trigger w)
              else if eventType = ''pull_request''
              then (case ParsePullRequestEvent io req body of
                      Inl _ \<Rightarrow> Some (finish_invalid x delivery w)
                    | Inr event \<Rightarrow>
                        (if \<not> pv_SupportedAction event \<or> \<not> pv_SameRepository event
                         then Some (finish_unsupported x delivery
                                (if pv_SupportedAction event then ''pull request head repository is unsupported''
                                 else ''unsupported pull request action'') trigger w)
                         else process_event x error_text False delivery (pull_request_trigger connectionID event) w))
              else (case ParsePushEvent io req body of
                      Inl _ \<Rightarrow> Some (finish_invalid x delivery w)
                    | Inr event \<Rightarrow> process_event x error_text True delivery (push_trigger connectionID event) w)))"

definition IngestGitHubWebhook ::
  "JobExternals \<Rightarrow> (job_error \<Rightarrow> string) \<Rightarrow> GitHubIO \<Rightarrow> GitHubRequest \<Rightarrow> Ingress \<Rightarrow> (Ingress \<times> Response) option" where
  "IngestGitHubWebhook x error_text io req w =
     (case authenticate io req of
        Inl response \<Rightarrow> Some (w, response)
      | Inr target \<Rightarrow>
          (case RegisterReceived x ''github'' (TrimSpace (gr_Delivery req)) (ToLower (TrimSpace (gr_Event req))) (in_ledger w) of
             (r, Inl _) \<Rightarrow> Some (w\<lparr>in_ledger := r\<rparr>, internal_error)
           | (r, Inr (delivery, duplicate)) \<Rightarrow>
               (if duplicate then Some (w\<lparr>in_ledger := r\<rparr>, DataJSON 200 (empty_response\<lparr>pres_Duplicate := True\<rparr>))
                else handle_event x error_text io req target delivery (w\<lparr>in_ledger := r\<rparr>))))"

end
