(* ===== verification/Artifact_Triggers.thy ===== *)
theory Artifact_Triggers
  imports Job_Requests
begin

text \<open>
  Builds that artifacts of other builds trigger: \<open>DispatchArtifactTriggers\<close> of \<open>service/job_service.go\<close> and the
  retry of \<open>service/job_service_artifact_triggers.go\<close>.
\<close>

record BuildArtifact =
  ba_ID :: string
  ba_BuildID :: string
  ba_Name :: string
  ba_LogicalPath :: string
  ba_SizeBytes :: int
  ba_ChecksumSHA256 :: "string option"

text \<open>The store of artifact triggers of the job service, which the callers have checked to be configured.\<close>

definition with_deliveries ::
  "(ArtifactTriggerDeliveryRepository \<Rightarrow> ArtifactTriggerDeliveryRepository \<times> 'a) \<Rightarrow> JobService \<Rightarrow> JobService \<times> 'a" where
  "with_deliveries f js =
     (case f (case js_artifactTriggerDeliveries js of None \<Rightarrow> NewArtifactTriggerDeliveryRepository | Some r \<Rightarrow> r) of
        (r, a) \<Rightarrow> (js\<lparr>js_artifactTriggerDeliveries := Some r\<rparr>, a))"

text \<open>The fields of the producing build that a trigger reads.\<close>

record Producer =
  pd_ID :: string
  pd_ProjectID :: string
  pd_JobID :: string

definition producer_of :: "Build \<Rightarrow> Producer" where
  "producer_of build = \<lparr>pd_ID = b_ID build, pd_ProjectID = b_ProjectID build, pd_JobID = readOptionalString (b_JobID build)\<rparr>"

definition artifact_trigger :: "Producer \<Rightarrow> BuildArtifact \<Rightarrow> CreateBuildTriggerInput" where
  "artifact_trigger producerBuild artifact =
     \<lparr>ti_Kind = BuildTriggerKindArtifact, ti_SCMProvider = [], ti_EventType = [], ti_RepositoryOwner = [], ti_RepositoryName = [],
      ti_RepositoryURL = [], ti_RawRef = [], ti_Ref = [], ti_RefType = [], ti_RefName = [], ti_Deleted = None, ti_CommitSHA = [],
      ti_DeliveryID = [], ti_Actor = [], ti_ProducerProjectID = pd_ProjectID producerBuild,
      ti_ProducerJobID = TrimSpace (pd_JobID producerBuild), ti_ProducerBuildID = pd_ID producerBuild,
      ti_ArtifactID = ba_ID artifact, ti_ArtifactPath = ba_LogicalPath artifact, ti_ArtifactName = ba_Name artifact,
      ti_ArtifactSizeBytes = Some (ba_SizeBytes artifact), ti_ArtifactChecksumSHA256 = readOptionalString (ba_ChecksumSHA256 artifact),
      ti_PullRequest = None\<rparr>"

text \<open>\<open>Error()\<close> of the error that is recorded is an argument, as in the ledger of webhooks.\<close>

definition queueArtifactTriggerDelivery ::
  "JobExternals \<Rightarrow> (job_error \<Rightarrow> string) \<Rightarrow> ArtifactTriggerDelivery \<Rightarrow> Producer \<Rightarrow> BuildArtifact \<Rightarrow> Job \<Rightarrow> JobService \<Rightarrow>
     (JobService \<times> (job_error + ArtifactTriggerDelivery)) option" where
  "queueArtifactTriggerDelivery x error_text delivery producerBuild artifact consumerJob js =
     (case createBuildForJobWithTrigger (je_builds x 0) (je_repoIO x 0) consumerJob (Some (artifact_trigger producerBuild artifact)) js of
        None \<Rightarrow> None
      | Some (js1, Inl queueErr) \<Rightarrow>
          (case with_deliveries (ArtifactTriggerDelivery_Update (delivery\<lparr>ad_Status := ArtifactTriggerDeliveryStatusFailed,
                  ad_ErrorMessage := Some (error_text queueErr), ad_UpdatedAt := je_now x 2\<rparr>)) js1 of
             (js2, Inl updateErr) \<Rightarrow> Some (js2, Inl updateErr)
           | (js2, Inr _) \<Rightarrow> Some (js2, Inl queueErr))
      | Some (js1, Inr queuedBuild) \<Rightarrow>
          Some (with_deliveries (ArtifactTriggerDelivery_Update (delivery\<lparr>ad_Status := ArtifactTriggerDeliveryStatusQueued,
            ad_QueuedBuildID := Some (b_ID queuedBuild), ad_UpdatedAt := je_now x 2\<rparr>)) js1))"

definition new_delivery :: "JobExternals \<Rightarrow> Build \<Rightarrow> BuildArtifact \<Rightarrow> Job \<Rightarrow> ArtifactTriggerDelivery" where
  "new_delivery x producerBuild artifact consumerJob =
     \<lparr>ad_ID = je_uuid x 0, ad_ArtifactID = ba_ID artifact, ad_ConsumerJobID = jb_ID consumerJob, ad_ProducerBuildID = b_ID producerBuild,
      ad_ProducerProjectID = b_ProjectID producerBuild, ad_ProducerJobID = TrimSpace (readOptionalString (b_JobID producerBuild)),
      ad_ArtifactPath = ba_LogicalPath artifact, ad_QueuedBuildID = None, ad_ErrorMessage = None,
      ad_Status = ArtifactTriggerDeliveryStatusPending, ad_CreatedAt = je_now x 0, ad_UpdatedAt = je_now x 0\<rparr>"

text \<open>
  The row to queue: a new one, or the failed one that this call claims. The left ends the dispatch, without an
  error when another dispatch has the row.
\<close>

definition claim_delivery ::
  "JobExternals \<Rightarrow> Build \<Rightarrow> BuildArtifact \<Rightarrow> Job \<Rightarrow> JobService \<Rightarrow> JobService \<times> (job_error option + ArtifactTriggerDelivery)" where
  "claim_delivery x producerBuild artifact consumerJob js =
     (case with_deliveries (ArtifactTriggerDelivery_Create (je_uuid x 1) (je_now x 1) (new_delivery x producerBuild artifact consumerJob)) js of
        (js1, Inr created) \<Rightarrow> (js1, Inr created)
      | (js1, Inl err) \<Rightarrow>
          (if err \<noteq> RepoErrArtifactTriggerDeliveryDuplicate then (js1, Inl (Some err))
           else case with_deliveries (\<lambda>r. (r, GetByArtifactIDAndConsumerJobID (ba_ID artifact) (jb_ID consumerJob) r)) js1 of
             (js2, Inl getErr) \<Rightarrow> (js2, Inl (Some getErr))
           | (js2, Inr existing) \<Rightarrow>
               (if ad_Status existing \<noteq> ArtifactTriggerDeliveryStatusFailed then (js2, Inl None)
                else case with_deliveries (ClaimFailedForRetry (je_now x 1) (ad_ID existing) (je_now x 0)) js2 of
                  (js3, Inl claimErr) \<Rightarrow>
                    (js3, Inl (if claimErr = RepoErrArtifactTriggerDeliveryRetryNotClaimable then None else Some claimErr))
                | (js3, Inr claimed) \<Rightarrow>
                    (case with_deliveries (ArtifactTriggerDelivery_Update (claimed\<lparr>ad_ProducerBuildID := b_ID producerBuild,
                            ad_ProducerProjectID := b_ProjectID producerBuild,
                            ad_ProducerJobID := TrimSpace (readOptionalString (b_JobID producerBuild)),
                            ad_ArtifactPath := ba_LogicalPath artifact, ad_UpdatedAt := je_now x 0\<rparr>)) js3 of
                       (js4, Inl updateErr) \<Rightarrow> (js4, Inl (Some updateErr))
                     | (js4, Inr updated) \<Rightarrow> (js4, Inr updated)))))"

definition dispatchArtifactTriggerToJob ::
  "JobExternals \<Rightarrow> (job_error \<Rightarrow> string) \<Rightarrow> Build \<Rightarrow> BuildArtifact \<Rightarrow> Job \<Rightarrow> JobService \<Rightarrow> (JobService \<times> job_error option) option" where
  "dispatchArtifactTriggerToJob x error_text producerBuild artifact consumerJob js =
     (case claim_delivery x producerBuild artifact consumerJob js of
        (js1, Inl ended) \<Rightarrow> Some (js1, ended)
      | (js1, Inr delivery) \<Rightarrow>
          (case queueArtifactTriggerDelivery x error_text delivery (producer_of producerBuild) artifact consumerJob js1 of
             None \<Rightarrow> None
           | Some (js2, Inl err) \<Rightarrow> Some (js2, Some err)
           | Some (js2, Inr _) \<Rightarrow> Some (js2, None)))"

definition consumes :: "string \<Rightarrow> BuildArtifact \<Rightarrow> Job \<Rightarrow> bool" where
  "consumes producerJobID artifact job \<longleftrightarrow>
     jb_Enabled job \<and> TrimSpace (jb_ID job) \<noteq> [] \<and> jb_ID job \<noteq> producerJobID \<and>
     list_ex (\<lambda>trigger. at_ProducerJobID trigger = producerJobID \<and> at_Path trigger = ba_LogicalPath artifact)
       (NormalizeJobArtifactTriggers (jb_ArtifactTriggers job))"

text \<open>The loop over the jobs of the project; the \<open>n\<close>-th has surroundings of its own.\<close>

fun dispatch_loop ::
  "(nat \<Rightarrow> JobExternals) \<Rightarrow> (job_error \<Rightarrow> string) \<Rightarrow> Build \<Rightarrow> BuildArtifact \<Rightarrow> nat \<Rightarrow> Job list \<Rightarrow> JobService \<Rightarrow> (JobService \<times> job_error option) option" where
  "dispatch_loop x error_text build artifact n [] js = Some (js, None)"
| "dispatch_loop x error_text build artifact n (job # jobs) js =
     (if \<not> consumes (TrimSpace (readOptionalString (b_JobID build))) artifact job then dispatch_loop x error_text build artifact (Suc n) jobs js
      else case dispatchArtifactTriggerToJob (x n) error_text build artifact job js of
             None \<Rightarrow> None
           | Some (js1, Some err) \<Rightarrow> Some (js1, Some err)
           | Some (js1, None) \<Rightarrow> dispatch_loop x error_text build artifact (Suc n) jobs js1)"

definition DispatchArtifactTriggers ::
  "(nat \<Rightarrow> JobExternals) \<Rightarrow> (job_error \<Rightarrow> string) \<Rightarrow> Build \<Rightarrow> BuildArtifact \<Rightarrow> JobService \<Rightarrow> (JobService \<times> job_error option) option" where
  "DispatchArtifactTriggers x error_text build artifact js =
     (if js_artifactTriggerDeliveries js = None \<or> js_buildService js = None \<or> t_Kind (b_Trigger build) = BuildTriggerKindArtifact
      then Some (js, None)
      else if TrimSpace (readOptionalString (b_JobID build)) = [] then Some (js, None)
      else dispatch_loop x error_text build artifact 0 (JobRepository_ListByProjectID (b_ProjectID build) (js_jobRepo js)) js)"

section \<open>Reading and retrying\<close>

record ArtifactTriggerDeliveryView =
  adv_Delivery :: ArtifactTriggerDelivery
  adv_ConsumerJobName :: "string option"

record RetryArtifactTriggerDeliveryResult =
  rad_Result :: string
  rad_Message :: string
  rad_View :: ArtifactTriggerDeliveryView

definition artifactTriggerDeliveryView :: "ArtifactTriggerDelivery \<Rightarrow> JobService \<Rightarrow> job_error + ArtifactTriggerDeliveryView" where
  "artifactTriggerDeliveryView delivery js =
     (if TrimSpace (ad_ConsumerJobID delivery) = [] then Inr \<lparr>adv_Delivery = delivery, adv_ConsumerJobName = None\<rparr>
      else case JobRepository_GetByID (ad_ConsumerJobID delivery) (js_jobRepo js) of
             Inl err \<Rightarrow> (if err = RepoErrJobNotFound then Inr \<lparr>adv_Delivery = delivery, adv_ConsumerJobName = None\<rparr> else Inl err)
           | Inr job \<Rightarrow> Inr \<lparr>adv_Delivery = delivery, adv_ConsumerJobName = trimmedStringPtr (jb_Name job)\<rparr>)"

definition GetArtifactTriggerDeliveryByID :: "string \<Rightarrow> JobService \<Rightarrow> job_error + ArtifactTriggerDeliveryView" where
  "GetArtifactTriggerDeliveryByID deliveryID js =
     (case js_artifactTriggerDeliveries js of
        None \<Rightarrow> Inl ErrJobArtifactTriggerDeliveryRepositoryNotConfigured
      | Some r \<Rightarrow>
          (case ArtifactTriggerDelivery_GetByID (TrimSpace deliveryID) r of
             Inl err \<Rightarrow> Inl err | Inr delivery \<Rightarrow> artifactTriggerDeliveryView delivery js))"

definition ListArtifactTriggerDeliveriesByProducerBuildID :: "string \<Rightarrow> JobService \<Rightarrow> job_error + ArtifactTriggerDeliveryView list" where
  "ListArtifactTriggerDeliveriesByProducerBuildID producerBuildID js =
     (case js_artifactTriggerDeliveries js of
        None \<Rightarrow> Inl ErrJobArtifactTriggerDeliveryRepositoryNotConfigured
      | Some r \<Rightarrow>
          (let deliveries = ListByProducerBuildID (TrimSpace producerBuildID) r;
               jobs = JobRepository_GetByIDs (map ad_ConsumerJobID deliveries) (js_jobRepo js);
               jobNames = fold (\<lambda>job m. if TrimSpace (jb_Name job) = [] then m else gm_put (jb_ID job) (TrimSpace (jb_Name job)) m) jobs []
           in Inr (map (\<lambda>delivery. \<lparr>adv_Delivery = delivery, adv_ConsumerJobName = map_of jobNames (ad_ConsumerJobID delivery)\<rparr>) deliveries)))"

definition failArtifactTriggerDeliveryRetry ::
  "time \<Rightarrow> string \<Rightarrow> ArtifactTriggerDelivery \<Rightarrow> JobService \<Rightarrow> JobService" where
  "failArtifactTriggerDeliveryRetry now message delivery js =
     fst (with_deliveries (ArtifactTriggerDelivery_Update (delivery\<lparr>ad_Status := ArtifactTriggerDeliveryStatusFailed, ad_QueuedBuildID := None,
       ad_UpdatedAt := now, ad_ErrorMessage := trimmedStringPtr message\<rparr>)) js)"

definition artifactTriggerArtifactByID :: "BuildArtifact list \<Rightarrow> string \<Rightarrow> BuildArtifact option" where
  "artifactTriggerArtifactByID artifacts artifactID = find (\<lambda>artifact. ba_ID artifact = TrimSpace artifactID) artifacts"

text \<open>Why a row cannot be claimed for a retry.\<close>

definition not_claimable :: "ArtifactTriggerDeliveryView \<Rightarrow> job_error + RetryArtifactTriggerDeliveryResult" where
  "not_claimable current =
     (let delivery = adv_Delivery current
      in if ad_Status delivery = ArtifactTriggerDeliveryStatusQueued \<and> ad_QueuedBuildID delivery \<noteq> None
         then Inr \<lparr>rad_Result = ''already_satisfied'', rad_Message = ''artifact trigger delivery already points at a downstream build'',
                rad_View = current\<rparr>
         else if ad_QueuedBuildID delivery \<noteq> None then Inl ErrArtifactTriggerDeliveryQueuedBuildConflict
         else if ad_Status delivery = ArtifactTriggerDeliveryStatusPending then Inl ErrArtifactTriggerDeliveryPendingRetryDeferred
         else Inl ErrArtifactTriggerDeliveryRetryNotSupported)"

definition named_producer :: "ArtifactTriggerDelivery \<Rightarrow> Producer" where
  "named_producer claimed = \<lparr>pd_ID = ad_ProducerBuildID claimed, pd_ProjectID = ad_ProducerProjectID claimed,
     pd_JobID = TrimSpace (ad_ProducerJobID claimed)\<rparr>"

text \<open>\<open>GetBuildArtifacts\<close> of the build service, which reads the store of artifacts, is an argument.\<close>

definition RetryArtifactTriggerDelivery ::
  "JobExternals \<Rightarrow> (job_error \<Rightarrow> string) \<Rightarrow> (string \<Rightarrow> job_error + BuildArtifact list) \<Rightarrow> string \<Rightarrow> JobService \<Rightarrow>
     (JobService \<times> (job_error + RetryArtifactTriggerDeliveryResult)) option" where
  "RetryArtifactTriggerDelivery x error_text getBuildArtifacts deliveryID js =
     (if js_artifactTriggerDeliveries js = None then Some (js, Inl ErrJobArtifactTriggerDeliveryRepositoryNotConfigured)
      else if js_buildService js = None then Some (js, Inl ErrJobBuildServiceNotConfigured)
      else case with_deliveries (ClaimFailedForRetry (je_now x 1) (TrimSpace deliveryID) (je_now x 0)) js of
        (js1, Inl err) \<Rightarrow>
          (if err = RepoErrArtifactTriggerDeliveryRetryNotClaimable
           then (case GetArtifactTriggerDeliveryByID (TrimSpace deliveryID) js1 of
                   Inl getErr \<Rightarrow> Some (js1, Inl getErr) | Inr current \<Rightarrow> Some (js1, not_claimable current))
           else Some (js1, Inl err))
      | (js1, Inr claimed) \<Rightarrow>
          (let give_up = \<lambda>err. Some (failArtifactTriggerDeliveryRetry (je_now x 2) (error_text err) claimed js1, Inl err)
           in case JobRepository_GetByID (ad_ConsumerJobID claimed) (js_jobRepo js1) of
                Inl err \<Rightarrow> give_up err
              | Inr consumerJob \<Rightarrow>
                  (case getBuildArtifacts (ad_ProducerBuildID claimed) of
                     Inl err \<Rightarrow> give_up err
                   | Inr artifacts \<Rightarrow>
                       (case artifactTriggerArtifactByID artifacts (ad_ArtifactID claimed) of
                          None \<Rightarrow> give_up ErrArtifactNotFound
                        | Some artifact \<Rightarrow>
                            (case queueArtifactTriggerDelivery x error_text claimed (named_producer claimed) artifact consumerJob js1 of
                               None \<Rightarrow> None
                             | Some (js2, Inl queueErr) \<Rightarrow> Some (js2, Inl queueErr)
                             | Some (js2, Inr updated) \<Rightarrow>
                                 (case artifactTriggerDeliveryView updated js2 of
                                    Inl err \<Rightarrow> Some (js2, Inl err)
                                  | Inr view \<Rightarrow> Some (js2, Inr \<lparr>rad_Result = ''retried'', rad_Message = ''queued downstream build'', rad_View = view\<rparr>)))))))"

end
