(* ===== verification/Trigger_Builds.thy ===== *)
theory Trigger_Builds
  imports GitHub_Webhook Artifact_Triggers Worker_Properties
begin

text \<open>
  What the builds of jobs are: their project, job, priority and kind of trigger, however they were requested, and
  that every request of the job service answers.
\<close>

section \<open>Where a build comes from\<close>

definition origin :: "Build \<Rightarrow> string \<times> string option \<times> int \<times> string" where
  "origin b = (b_ProjectID b, b_JobID b, b_Priority b, t_Kind (b_Trigger b))"

definition norm_kind :: "string \<Rightarrow> string" where
  "norm_kind kind = (if TrimSpace kind = [] then BuildTriggerKindManual else TrimSpace kind)"

fun norm_origin :: "string \<times> string option \<times> int \<times> string \<Rightarrow> string \<times> string option \<times> int \<times> string" where
  "norm_origin (project, job, priority, kind) = (project, job, NormalizePriority priority, norm_kind kind)"

definition trigger_kind :: "CreateBuildTriggerInput option \<Rightarrow> string" where
  "trigger_kind trigger = (case trigger of None \<Rightarrow> BuildTriggerKindManual | Some t \<Rightarrow> norm_kind (ti_Kind t))"

lemma manual_trimmed [simp]: "TrimSpace BuildTriggerKindManual = BuildTriggerKindManual"
  by code_simp

lemma norm_kind_manual [simp]: "norm_kind BuildTriggerKindManual = BuildTriggerKindManual"
  by (simp add: norm_kind_def)

lemma norm_kind_idem [simp]: "norm_kind (norm_kind k) = norm_kind k"
  by (simp add: norm_kind_def)

lemma norm_kind_trigger_kind [simp]: "norm_kind (trigger_kind t) = trigger_kind t"
  by (simp add: trigger_kind_def split: option.split)

lemma NormalizePriority_idem [simp]: "NormalizePriority (NormalizePriority p) = NormalizePriority p"
  by (simp add: NormalizePriority_def DefaultPriority_def)

lemma trigger_kind_of: "t_Kind (toDomainBuildTrigger trigger) = trigger_kind trigger"
  by (simp add: toDomainBuildTrigger_def trigger_kind_def norm_kind_def NormalizeBuildTrigger_kind manual_trigger_def split: option.split)

lemma fill_origin [simp]: "origin (fill_source_ref t b) = origin b" "origin (fill_source_sha t b) = origin b" "origin (fill_trigger_type t b) = origin b"
  by (simp_all add: origin_def fill_source_ref_def fill_source_sha_def fill_trigger_type_def Let_def split: option.split)

lemma origin_triggered_by [simp]: "origin (b\<lparr>b_TriggeredBy := u\<rparr>) = origin b"
  by (simp add: origin_def)

lemma origin_NormalizeBuildMetadata:
  "origin (NormalizeBuildMetadata b) = (b_ProjectID b, b_JobID b, b_Priority b, norm_kind (t_Kind (b_Trigger b)))"
proof -
  let ?t = "NormalizeBuildTrigger (b_Trigger b)"
  let ?b = "b\<lparr>b_Trigger := ?t, b_SourceRef := trimOptional (b_SourceRef b), b_SourceSHA := trimOptional (b_SourceSHA b),
    b_SourceAuthorName := trimOptional (b_SourceAuthorName b), b_SourceAuthorEmail := trimOptional (b_SourceAuthorEmail b),
    b_SourceCommitterName := trimOptional (b_SourceCommitterName b), b_SourceCommitterEmail := trimOptional (b_SourceCommitterEmail b),
    b_TriggeredBy := trimOptional (b_TriggeredBy b)\<rparr>"
  have "origin (NormalizeBuildMetadata b) = origin ?b"
    unfolding NormalizeBuildMetadata_def Let_def by simp
  then show ?thesis by (simp add: origin_def norm_kind_def NormalizeBuildTrigger_kind)
qed

lemma origin_prepare: "prepare_new_build uuid b r = (r', b') \<Longrightarrow> origin b' = norm_origin (origin b)"
proof -
  assume p: "prepare_new_build uuid b r = (r', b')"
  let ?b1 = "if b_ID b = [] then b\<lparr>b_ID := uuid\<rparr> else b"
  let ?b2 = "if b_AttemptNumber ?b1 \<le> 0 then ?b1\<lparr>b_AttemptNumber := 1\<rparr> else ?b1"
  obtain r1 b3 where a: "assignBuildNumberLocked ?b2 r = (r1, b3)" by fastforce
  have "origin b3 = origin b"
    using a by (auto simp: assignBuildNumberLocked_def origin_def split: if_splits prod.splits)
  moreover have "b' = NormalizeBuildMetadata (b3\<lparr>b_Priority := NormalizePriority (b_Priority b3), b_Trigger := NormalizeBuildTrigger (b_Trigger b3)\<rparr>)"
    using p unfolding prepare_new_build_def Let_def a by simp
  ultimately show ?thesis
    by (simp add: origin_NormalizeBuildMetadata) (auto simp: origin_def norm_kind_def NormalizeBuildTrigger_kind)
qed

lemma origin_queue:
  assumes "queue_new_build x build steps s = Some (s', Inr b)"
  shows "origin b = norm_origin (origin build)"
proof -
  obtain r1 build1 where p: "prepare_new_build (x_uuid x 0) build (bs_buildRepo s) = (r1, build1)" by fastforce
  obtain r2 res where c: "CreateQueuedBuild (x_uuid x 0) (\<lambda>k. x_uuid x (Suc k)) (x_now x) build steps (bs_buildRepo s) = (r2, res)" by fastforce
  then obtain b0 where b0: "res = Inr b0" "b0 = b"
    using assms by (cases res) (auto simp: queue_new_build_def jobs_then_notify_def split: option.splits prod.splits)
  have "origin b0 = origin build1"
    using c b0 unfolding CreateQueuedBuild_def p Let_def
    by (auto simp: cloneBuildApplicationVersion_def origin_def split: option.splits if_splits)
  then show ?thesis using b0 origin_prepare [OF p] by simp
qed

lemma origin_identity: "applyBuildRepositoryIdentity build ident = Inr b \<Longrightarrow> origin b = origin build"
  by (auto simp: applyBuildRepositoryIdentity_def origin_def Let_def split: option.splits)

lemma origin_new_build [simp]:
  "origin (new_build i now status project job priority src trigger) = (project, job, NormalizePriority priority, t_Kind trigger)"
  by (simp add: new_build_def origin_def)

lemma pipeline_origin:
  assumes "CreateBuildFromPipeline x input s = Some (s', Inr b)"
  shows "origin b = (pi_ProjectID input, pi_JobID input, NormalizePriority (pi_Priority input), trigger_kind (pi_Trigger input))"
proof -
  obtain src resolved build steps where f: "finish_new_build x (pi_RepositoryIdentity input) (pipeline_build x input src resolved) = Inr build"
    and q: "queue_new_build x build steps s = Some (s', Inr b)"
    using assms unfolding CreateBuildFromPipeline_def Let_def by (auto split: if_splits option.splits sum.splits)
  have o: "origin (pipeline_build x input src resolved) = (pi_ProjectID input, pi_JobID input, NormalizePriority (pi_Priority input), trigger_kind (pi_Trigger input))"
    using origin_new_build [of "x_uuid x 0"] by (simp add: pipeline_build_def origin_def new_build_def trigger_kind_of)
  obtain b1 where b1: "applyBuildRepositoryIdentity (pipeline_build x input src resolved) (pi_RepositoryIdentity input) = Inr b1"
    "build = NormalizeBuildMetadata b1"
    using f by (auto simp: finish_new_build_def Let_def split: sum.splits option.splits)
  have "origin build = origin (pipeline_build x input src resolved)"
    using origin_identity [OF b1(1)] o unfolding b1(2) origin_NormalizeBuildMetadata by (simp add: origin_def)
  with origin_queue [OF q] o show ?thesis by simp
qed

lemma origin_refresh:
  assumes "refresh_managed_image io input path resolved b s = (s', b')" "get_build (bs_buildRepo s) (b_ID b) = Some b"
  shows "origin b' = origin b"
proof -
  have "same_but_image b b'" using refresh_managed_image_keeps [OF assms] by blast
  then show ?thesis by (cases b; cases b') (simp add: same_but_image_def origin_def)
qed

lemma createDurable_repo: "createDurableJobsForBuild x off b steps s = Some (s', e) \<Longrightarrow> bs_buildRepo s' = bs_buildRepo s"
  by (auto simp: createDurableJobsForBuild_def Let_def split: option.splits sum.splits if_splits prod.splits)

lemma queue_stored:
  assumes "queue_new_build x build steps s = Some (s', Inr b)"
  shows "get_build (bs_buildRepo s') (b_ID b) = Some b" and "b_Status b = BuildStatusQueued"
proof -
  obtain r res where c: "CreateQueuedBuild (x_uuid x 0) (\<lambda>k. x_uuid x (Suc k)) (x_now x) build steps (bs_buildRepo s) = (r, res)" by fastforce
  then obtain b0 where b0: "res = Inr b0" and j: "jobs_then_notify x (Suc (length steps)) b0 steps (s\<lparr>bs_buildRepo := r\<rparr>) = Some (s', Inr b)"
    using assms by (cases res) (auto simp: queue_new_build_def)
  obtain s1 e where d: "createDurableJobsForBuild x (Suc (length steps)) b0 steps (s\<lparr>bs_buildRepo := r\<rparr>) = Some (s1, e)"
    using j by (cases "createDurableJobsForBuild x (Suc (length steps)) b0 steps (s\<lparr>bs_buildRepo := r\<rparr>)") (simp_all add: jobs_then_notify_def prod_eq_iff)
  have s': "s' = notifySCMBuildStatus b0 s1" "b = b0"
    using j unfolding jobs_then_notify_def d by (cases e; simp)+
  have "bs_buildRepo s' = r" using createDurable_repo [OF d] by (simp add: s' notifySCMBuildStatus_sel)
  moreover have "get_build r (b_ID b0) = Some b0" "b_Status b0 = BuildStatusQueued"
    using c b0 by (auto simp: CreateQueuedBuild_def Let_def cloneBuildApplicationVersion_def split: prod.splits option.splits)
  ultimately show "get_build (bs_buildRepo s') (b_ID b) = Some b" "b_Status b = BuildStatusQueued" by (simp_all add: s'(2))
qed

lemma same_but_image_status: "same_but_image b b' \<Longrightarrow> b_Status b' = b_Status b"
  by (cases b; cases b') (simp add: same_but_image_def)

definition repo_input_origin :: "CreateRepoBuildInput \<Rightarrow> string \<times> string option \<times> int \<times> string" where
  "repo_input_origin input = (ri_ProjectID input, ri_JobID input, NormalizePriority (ri_Priority input), trigger_kind (ri_Trigger input))"

text \<open>The request is a chain of checks; the rules follow it to the build at its end.\<close>

definition has_origin :: "CreateRepoBuildInput \<Rightarrow> (BuildService \<times> (svc_error + Build)) option \<Rightarrow> bool" where
  "has_origin input res = (case res of Some (s', Inr b) \<Rightarrow> origin b = repo_input_origin input | _ \<Rightarrow> True)"

lemma has_origin_refused: "has_origin input (Some (s, Inl e))"
  by (simp add: has_origin_def)

lemma has_origin_if: "has_origin i u \<Longrightarrow> has_origin i v \<Longrightarrow> has_origin i (if c then u else v)"
  by simp

lemma has_origin_option: "has_origin i u \<Longrightarrow> (\<And>e. has_origin i (f e)) \<Longrightarrow> has_origin i (case r of None \<Rightarrow> u | Some e \<Rightarrow> f e)"
  by (cases r) simp_all

lemma has_origin_sum:
  "(\<And>e. has_origin i (f e)) \<Longrightarrow> (\<And>a. r = Inr a \<Longrightarrow> has_origin i (g a)) \<Longrightarrow> has_origin i (case r of Inl e \<Rightarrow> f e | Inr a \<Rightarrow> g a)"
  by (cases r) simp_all

lemma has_origin_sum_pair:
  "(\<And>e. has_origin i (f e)) \<Longrightarrow> (\<And>a b. r = Inr (a, b) \<Longrightarrow> has_origin i (h a b)) \<Longrightarrow>
   has_origin i (case r of Inl e \<Rightarrow> f e | Inr (a, b) \<Rightarrow> h a b)"
  by (cases r) auto

lemma has_origin_queue:
  assumes "applyBuildRepositoryIdentity (repo_build x input sha path yaml resolved) (ri_RepositoryIdentity input) = Inr build"
  shows "has_origin input
    (case queue_new_build x (NormalizeBuildMetadata build) steps s of
        None \<Rightarrow> None
      | Some (s1, Inl err) \<Rightarrow> Some (s1, Inl err)
      | Some (s1, Inr b) \<Rightarrow> (case refresh_managed_image io input path resolved b s1 of (s2, result) \<Rightarrow> Some (s2, Inr result)))"
proof (cases "queue_new_build x (NormalizeBuildMetadata build) steps s")
  case (Some a)
  show ?thesis
  proof (cases "snd a")
    case (Inr b0)
    then have q: "queue_new_build x (NormalizeBuildMetadata build) steps s = Some (fst a, Inr b0)" using Some by (cases a) simp
    obtain s2 b where r: "refresh_managed_image io input path resolved b0 (fst a) = (s2, b)" by fastforce
    have o: "origin (repo_build x input sha path yaml resolved) = repo_input_origin input"
      by (simp add: repo_build_def Let_def origin_def new_build_def trigger_kind_of repo_input_origin_def)
    have "origin (NormalizeBuildMetadata build) = repo_input_origin input"
      using origin_identity [OF assms] o unfolding origin_NormalizeBuildMetadata by (simp add: origin_def repo_input_origin_def)
    with origin_queue [OF q] origin_refresh [OF r queue_stored(1) [OF q]] show ?thesis
      by (simp add: q r has_origin_def repo_input_origin_def)
  qed (use Some in \<open>cases a, simp add: has_origin_def\<close>)
qed (simp add: has_origin_def)

lemma repo_has_origin: "has_origin input (CreateBuildFromRepo x io input s)"
  unfolding CreateBuildFromRepo_def Let_def
  by (rule has_origin_refused | (rule has_origin_queue; assumption) | rule has_origin_if has_origin_sum_pair has_origin_sum has_origin_option)+

section \<open>Builds of jobs\<close>

text \<open>What a request for a build of a job answers: an error, or a queued build with the given origin.\<close>

definition builds_of :: "string \<times> string option \<times> int \<times> string \<Rightarrow> (JobService \<times> (job_error + Build)) option \<Rightarrow> bool" where
  "builds_of o1 res = (case res of None \<Rightarrow> False | Some (js, Inl _) \<Rightarrow> True | Some (js, Inr b) \<Rightarrow> b_Status b = BuildStatusQueued \<and> origin b = o1)"

lemma builds_of_simps [simp]:
  "builds_of o1 (Some (js, Inl e))" "builds_of o1 (Some (js, Inr b)) \<longleftrightarrow> b_Status b = BuildStatusQueued \<and> origin b = o1" "\<not> builds_of o1 None"
  by (simp_all add: builds_of_def)

lemma builds_ofE:
  assumes "builds_of o1 res"
  obtains js e where "res = Some (js, Inl e)" | js b where "res = Some (js, Inr b)" "b_Status b = BuildStatusQueued" "origin b = o1"
  using assms that by (cases res; cases "snd (the res)") (auto simp: builds_of_def)

lemma run_pipeline:
  "builds_of (pi_ProjectID input, pi_JobID input, NormalizePriority (pi_Priority input), trigger_kind (pi_Trigger input))
     (run_build (CreateBuildFromPipeline x input) js)"
proof (cases "js_buildService js")
  case (Some s)
  show ?thesis
    using pipeline_answers [of s x input] pipeline_origin [of x input s] Some
    by (auto simp: run_build_def freshly_queued_def Let_def elim!: answersE)
qed (simp add: run_build_def)

lemma run_repo:
  "builds_of (repo_input_origin input) (run_build (CreateBuildFromRepo x io input) js)"
proof (cases "js_buildService js")
  case (Some s)
  obtain s' res where c: "CreateBuildFromRepo x io input s = Some (s', res)" and a: "repo_answer input s (Some (s', res))"
    using repo_answers [of input s x io] by (cases "CreateBuildFromRepo x io input s") (auto simp: repo_answer_def)
  show ?thesis
  proof (cases res)
    case (Inr b)
    then have "b_Status b = BuildStatusQueued"
      using a by (auto simp: repo_answer_def freshly_queued_def Let_def dest!: same_but_image_status)
    with Inr c Some repo_has_origin [of input x io s] show ?thesis by (simp add: run_build_def has_origin_def)
  qed (use c Some in \<open>simp add: run_build_def\<close>)
qed (simp add: run_build_def)

lemma run_pipelineI:
  "o1 = (pi_ProjectID input, pi_JobID input, NormalizePriority (pi_Priority input), trigger_kind (pi_Trigger input)) \<Longrightarrow>
   builds_of o1 (run_build (CreateBuildFromPipeline x input) js)"
  using run_pipeline by simp

lemma run_repoI: "o1 = repo_input_origin input \<Longrightarrow> builds_of o1 (run_build (CreateBuildFromRepo x io input) js)"
  using run_repo by simp

lemma create_for_job:
  "builds_of (jb_ProjectID job, Some (jb_ID job), NormalizePriority (jb_Priority job), trigger_kind trigger)
     (createBuildForJobWithTrigger x io job trigger js)"
  by (auto simp: createBuildForJobWithTrigger_def pipeline_input_def repo_input_def repo_input_origin_def split: sum.split
      intro!: run_pipelineI run_repoI)

lemma webhook_kind: "trigger_kind (Some (webhook_trigger ev)) = BuildTriggerKindWebhook"
proof -
  have "norm_kind ''webhook'' = BuildTriggerKindWebhook" by code_simp
  then show ?thesis by (simp add: trigger_kind_def webhook_trigger_def)
qed

lemma webhook_build_of:
  "builds_of (jb_ProjectID job, Some (jb_ID job), DefaultPriority, BuildTriggerKindWebhook) (run_build (webhook_build x io ev job) js)"
  by (auto simp: webhook_build_def webhook_kind repo_input_origin_def NormalizePriority_def intro!: run_pipelineI run_repoI)

end
