(* ===== verification/Trigger_Fixtures.thy ===== *)
theory Trigger_Fixtures
  imports Trigger_Builds
begin

text \<open>Concrete requests, payloads and jobs, on which the witnesses of the properties of triggers evaluate the model.\<close>

definition demo_repo_io :: RepoIO where
  "demo_repo_io = \<lparr>rio_repoFetcher = False, rio_fetch = \<lambda>_ _. Inl ''no fetcher'', rio_load = \<lambda>_. Inl FileNotExist, rio_refresher = None\<rparr>"

definition demo_urls :: URLPackage where
  "demo_urls = \<lparr>urls_Parse = \<lambda>_. None, urls_String = \<lambda>u. url_Scheme u @ ''://'' @ url_Host u @ url_Path u, urls_Hostname = url_Host\<rparr>"

definition demo_job_externals :: JobExternals where
  "demo_job_externals = \<lparr>je_now = \<lambda>n. 100 + int n, je_uuid = \<lambda>n. ''id-'' @ FormatInt (int n), je_builds = \<lambda>_. demo_externals,
     je_repoIO = \<lambda>_. demo_repo_io, je_urls = demo_urls, je_uuidParse = \<lambda>_. False, je_Decode = \<lambda>_. Inl ''no decoder''\<rparr>"

definition demo_push :: PushPayload where
  "demo_push = \<lparr>pp_Ref = ''refs/heads/main'', pp_After = ''c0ffee'', pp_Deleted = False, pp_HeadCommitID = [], pp_RepositoryID = ''42'',
     pp_RepositoryName = ''app'', pp_HTMLURL = ''https://github.com/acme/app'', pp_CloneURL = [], pp_URL = [], pp_OwnerLogin = ''acme'',
     pp_OwnerName = [], pp_SenderLogin = ''dev''\<rparr>"

definition demo_pull_request :: PullRequestPayload where
  "demo_pull_request = \<lparr>pl_Action = ''opened'', pl_RepositoryID = ''42'', pl_RepositoryName = ''app'',
     pl_RepositoryHTMLURL = ''https://github.com/acme/app'', pl_OwnerLogin = ''acme'', pl_Number = ''7'',
     pl_HTMLURL = ''https://github.com/acme/app/pull/7'', pl_BaseRef = ''main'',
     pl_BaseSHA = ''0123456789abcdef0123456789abcdef01234567'', pl_HeadRef = ''feature'',
     pl_HeadSHA = ''89abcdef0123456789abcdef0123456789abcdef'', pl_HeadRepoID = Some ''42'', pl_SenderLogin = ''dev''\<rparr>"

definition demo_github :: GitHubIO where
  "demo_github = \<lparr>gh_hmac = \<lambda>secret body. secret @ body, gh_installationID = \<lambda>_. Some ''9'', gh_pushPayload = \<lambda>_. Some demo_push,
     gh_pullRequestPayload = \<lambda>_. Some demo_pull_request, gh_httpsURL = \<lambda>u. HasPrefix u ''https://'',
     gh_registration = \<lambda>i. Inr \<lparr>gar_ID = i, gar_WebhookSecretRef = ''ref''\<rparr>,
     gh_installation = \<lambda>_ _. Inl ErrSCMConnectionNotFound, gh_secret = \<lambda>_. Inr ''secret''\<rparr>"

definition github_request :: "string \<Rightarrow> string \<Rightarrow> GitHubRequest" where
  "github_request event signature = \<lparr>gr_registrationID = ''app-1'', gr_Event = event, gr_Delivery = ''d-1'', gr_Signature = signature, gr_Body = Some ''{}''\<rparr>"

definition demo_job_service :: JobService where
  "demo_job_service = \<lparr>js_jobRepo = NewJobRepository, js_artifactTriggerDeliveries = Some NewArtifactTriggerDeliveryRepository, js_projects = None,
     js_registeredRepositories = Some NewSCMRepositoryRegistrationRepository, js_managedImageConfigs = None, js_credentials = None,
     js_buildService = None\<rparr>"

definition demo_job_input :: CreateJobInput where
  "demo_job_input = \<lparr>cj_ProjectID = ''p1'', cj_ProjectSlug = [], cj_Name = ''build'', cj_Priority = None, cj_RepositoryID = [],
     cj_RepositoryURL = ''https://github.com/acme/app'', cj_DefaultRef = ''main'', cj_DefaultCommitSHA = [], cj_PushEnabled = Some True,
     cj_PullRequestEnabled = None, cj_PushBranch = Some ''main'', cj_TriggerMode = None, cj_BranchAllowlist = [], cj_TagAllowlist = [],
     cj_ArtifactTriggers = [\<lparr>at_ProducerJobID = ''other'', at_Path = ''dist/app''\<rparr>], cj_PipelineYAML = [], cj_PipelinePath = ''.coyote/build.yml'',
     cj_ManagedImage = None, cj_Enabled = Some False\<rparr>"

definition demo_artifact :: BuildArtifact where
  "demo_artifact = \<lparr>ba_ID = ''a1'', ba_BuildID = ''b1'', ba_Name = ''app'', ba_LogicalPath = ''dist/app'', ba_SizeBytes = 10, ba_ChecksumSHA256 = None\<rparr>"

text \<open>The job that the input creates, and the service after it.\<close>

definition demo_job :: Job where
  "demo_job = new_job ''id-0'' 100 ''p1'' None ''https://github.com/acme/app''
     (case normalizeCreateJobInput demo_job_input of Inl _ \<Rightarrow> demo_job_input | Inr n \<Rightarrow> n)"

end
