(* ===== verification/Trigger_Properties.thy ===== *)
theory Trigger_Properties
  imports Trigger_Fixtures
begin

text \<open>
  What events of a source host do: which jobs they trigger, with which builds, and how references and pull requests
  survive the way from the payload to the build.
\<close>

section \<open>The filter\<close>

definition tag_pattern_matches :: "string \<Rightarrow> string \<Rightarrow> bool" where
  "tag_pattern_matches pattern name \<longleftrightarrow>
     pattern \<noteq> [] \<and> (if last pattern = CHR ''*'' then \<exists>rest. name = butlast pattern @ rest else pattern = name)"

text \<open>The reference: a filter as a set of branches and a set of tag patterns, where no entry means all.\<close>

definition filter_accepts :: "string \<Rightarrow> string set \<Rightarrow> string set \<Rightarrow> WebhookRef \<Rightarrow> bool" where
  "filter_accepts mode branches patterns ref \<longleftrightarrow>
     \<not> wr_Deleted ref \<and>
     (wr_RefType ref = WebhookRefTypeBranch \<and> mode \<noteq> JobTriggerModeTags \<and> (branches = {} \<or> wr_RefName ref \<in> branches) \<or>
      wr_RefType ref = WebhookRefTypeTag \<and> mode \<noteq> JobTriggerModeBranches \<and>
        (patterns = {} \<or> (\<exists>pattern \<in> patterns. tag_pattern_matches pattern (wr_RefName ref))))"

lemma HasPrefix_iff: "HasPrefix s p \<longleftrightarrow> (\<exists>rest. s = p @ rest)"
  unfolding HasPrefix_def by (metis append_eq_conv_conj append_take_drop_id)

lemma HasSuffix_star: "HasSuffix s ''*'' \<longleftrightarrow> s \<noteq> [] \<and> last s = CHR ''*''"
proof (cases s rule: rev_cases)
  case (snoc ys y)
  then show ?thesis by (simp add: HasSuffix_def)
qed (simp add: HasSuffix_def)

lemma TrimSuffix_star: "HasSuffix s ''*'' \<Longrightarrow> TrimSuffix s ''*'' = butlast s"
  by (simp add: TrimSuffix_def butlast_conv_take)

lemma matches_tag_iff: "matches_tag name items \<longleftrightarrow> (\<exists>item \<in> set items. tag_pattern_matches (TrimSpace item) name)"
proof (induction items)
  case (Cons item items)
  then show ?case
    by (auto simp: Let_def tag_pattern_matches_def HasSuffix_star TrimSuffix_star HasPrefix_iff)
qed simp

lemma mode_idem [simp]: "normalizeWebhookFilterMode (normalizeWebhookFilterMode m) = normalizeWebhookFilterMode m"
proof -
  have "normalizeWebhookFilterMode JobTriggerModeTags = JobTriggerModeTags" by code_simp
  moreover have "normalizeWebhookFilterMode JobTriggerModeBranchesAndTags = JobTriggerModeBranchesAndTags" by code_simp
  moreover have "normalizeWebhookFilterMode JobTriggerModeBranches = JobTriggerModeBranches" by code_simp
  ultimately show ?thesis unfolding normalizeWebhookFilterMode_def [of m] Let_def by simp
qed

lemma ref_types: "WebhookRefTypeBranch \<noteq> WebhookRefTypeUnknown" "WebhookRefTypeTag \<noteq> WebhookRefTypeUnknown" "WebhookRefTypeTag \<noteq> WebhookRefTypeBranch"
  by (simp_all add: WebhookRefTypeBranch_def WebhookRefTypeTag_def WebhookRefTypeUnknown_def)

text \<open>
  C16: The filter of a job decides as its reference. A deleted ref never triggers. A branch triggers unless the job
  listens to tags only, when the job names no branch or this one; a tag triggers unless the job listens to branches
  only, when the job has no pattern or one that the tag equals or, for a pattern that ends in a star, begins with.
\<close>

theorem webhook_filter_correct:
  "fdec_Matched (webhookFilterShouldTriggerBuild ref (toWebhookJobTriggerConfig job)) \<longleftrightarrow>
     filter_accepts (normalizeWebhookFilterMode (jb_TriggerMode job)) (TrimSpace ` set (allowed_branches job))
       (TrimSpace ` set (fc_TagAllowlist (toWebhookJobTriggerConfig job))) ref"
proof -
  let ?config = "toWebhookJobTriggerConfig job"
  have mode: "normalizeWebhookFilterMode (fc_Mode ?config) = normalizeWebhookFilterMode (jb_TriggerMode job)"
    and branches: "fc_BranchAllowlist ?config = allowed_branches job"
    by (simp_all add: toWebhookJobTriggerConfig_def)
  have b: "matchesWebhookBranchAllowlist name xs \<longleftrightarrow> TrimSpace ` set xs = {} \<or> name \<in> TrimSpace ` set xs" for name xs
    by (auto simp: matchesWebhookBranchAllowlist_def list_ex_iff)
  have t: "matchesWebhookTagAllowlist name xs \<longleftrightarrow> TrimSpace ` set xs = {} \<or> (\<exists>p \<in> TrimSpace ` set xs. tag_pattern_matches p name)" for name xs
    by (auto simp: matchesWebhookTagAllowlist_def matches_tag_iff)
  show ?thesis
    using ref_types unfolding webhookFilterShouldTriggerBuild_def Let_def filter_accepts_def mode branches b t
    by (cases "wr_RefType ref = WebhookRefTypeBranch"; cases "wr_RefType ref = WebhookRefTypeTag") auto
qed

section \<open>References on their way\<close>

lemma heads_trimmed: "trimmed name \<Longrightarrow> name \<noteq> [] \<Longrightarrow> TrimSpace (''refs/heads/'' @ name) = ''refs/heads/'' @ name"
  by (rule TrimSpace_id) (simp add: trimmed_def is_space_def)

lemma NormalizeWebhookRef_branch:
  assumes "trimmed name" and "name \<noteq> []"
  shows "NormalizeWebhookRef (''refs/heads/'' @ name) deleted =
    \<lparr>wr_RawRef = ''refs/heads/'' @ name, wr_RefType = WebhookRefTypeBranch, wr_RefName = name, wr_Deleted = deleted\<rparr>"
  using heads_trimmed [OF assms] TrimSpace_id [OF assms(1)]
  by (simp add: NormalizeWebhookRef_def Let_def HasPrefix_def TrimPrefix_def)

lemma ref_sel:
  "TrimSpace (wr_RawRef (NormalizeWebhookRef raw d)) = wr_RawRef (NormalizeWebhookRef raw d)"
  "wr_Deleted (NormalizeWebhookRef raw d) = d"
  by (simp_all add: NormalizeWebhookRef_def Let_def)

lemma ref_raw: "wr_RawRef (NormalizeWebhookRef raw d) = TrimSpace raw"
  by (simp add: NormalizeWebhookRef_def Let_def)

lemma ref_again: "NormalizeWebhookRef (wr_RawRef (NormalizeWebhookRef raw d)) d = NormalizeWebhookRef raw d"
  by (simp add: ref_raw) (simp add: NormalizeWebhookRef_def)

lemma ref_name_raw: "wr_RefName (NormalizeWebhookRef raw d) \<noteq> [] \<Longrightarrow> TrimSpace raw \<noteq> []"
  by (auto simp: NormalizeWebhookRef_def Let_def)

lemma push_event_fields:
  assumes "ParsePushEvent io req body = Inr e" and "gh_pushPayload io body = Some payload"
  shows "pu_RawRef e = wr_RawRef (NormalizeWebhookRef (pp_Ref payload) (pp_Deleted payload))"
    and "pu_RefType e = wr_RefType (NormalizeWebhookRef (pp_Ref payload) (pp_Deleted payload))"
    and "pu_Deleted e = pp_Deleted payload" and "wr_RefName (NormalizeWebhookRef (pp_Ref payload) (pp_Deleted payload)) \<noteq> []"
  using assms by (auto simp: ParsePushEvent_def Let_def ref_sel split: if_splits sum.splits option.splits)

lemma unknown_stays: "ToLower (TrimSpace WebhookRefTypeUnknown) = WebhookRefTypeUnknown"
  by code_simp

text \<open>The event the job service sees has the reference that the payload names.\<close>

lemma push_event_ref:
  assumes "ParsePushEvent io req body = Inr e" and "gh_pushPayload io body = Some payload"
  shows "ev_ref (event_of (push_trigger connectionID e)) = NormalizeWebhookRef (pp_Ref payload) (pp_Deleted payload)"
proof -
  let ?ref = "NormalizeWebhookRef (pp_Ref payload) (pp_Deleted payload)"
  note f = push_event_fields [OF assms]
  have "TrimSpace (pu_RawRef e) = pu_RawRef e" "pu_RawRef e \<noteq> []"
    using f(1) ref_sel(1) ref_name_raw [OF f(4)] by (simp_all add: ref_raw)
  moreover have "NormalizeWebhookRef (pu_RawRef e) (pu_Deleted e) = ?ref" using ref_again f(1,3) by simp
  ultimately show ?thesis
    using f(2,4) ref_types unknown_stays
    by (cases "wr_RefType ?ref = WebhookRefTypeUnknown") (simp_all add: event_of_def Let_def normalizeWebhookRefInput_def push_trigger_def)
qed

text \<open>
  A branch name survives the way of a push: when GitHub reports \<open>refs/heads/\<close> and a name, the job service
  sees the branch of that name. Names that are themselves written like references are not changed on the way.
\<close>

theorem push_branch_roundtrip:
  assumes "ParsePushEvent io req body = Inr e" and "gh_pushPayload io body = Some payload"
    and "pp_Ref payload = ''refs/heads/'' @ name" and "trimmed name" and "name \<noteq> []"
  shows "ev_ref (event_of (push_trigger connectionID e)) =
    \<lparr>wr_RawRef = ''refs/heads/'' @ name, wr_RefType = WebhookRefTypeBranch, wr_RefName = name, wr_Deleted = pp_Deleted payload\<rparr>"
  using push_event_ref [OF assms(1,2)] NormalizeWebhookRef_branch [OF assms(4,5)] assms(3) by simp

text \<open>The push event of the demonstration payload.\<close>

lemma demo_push_parsed: "\<exists>e. ParsePushEvent demo_github (github_request ''push'' []) ''{}'' = Inr e"
proof -
  have "case ParsePushEvent demo_github (github_request ''push'' []) ''{}'' of Inl _ \<Rightarrow> False | Inr _ \<Rightarrow> True" by code_simp
  then show ?thesis by (auto split: sum.splits)
qed

theorem push_branch_roundtrip_witness:
  "\<exists>e. ParsePushEvent demo_github (github_request ''push'' []) ''{}'' = Inr e \<and>
     ev_ref (event_of (push_trigger ''c1'' e)) =
       \<lparr>wr_RawRef = ''refs/heads/main'', wr_RefType = WebhookRefTypeBranch, wr_RefName = ''main'', wr_Deleted = False\<rparr>"
proof -
  obtain e where e: "ParsePushEvent demo_github (github_request ''push'' []) ''{}'' = Inr e" using demo_push_parsed by blast
  have "gh_pushPayload demo_github ''{}'' = Some demo_push" "pp_Ref demo_push = ''refs/heads/'' @ ''main''" "trimmed ''main''" "\<not> pp_Deleted demo_push"
    by (simp_all add: demo_github_def demo_push_def trimmed_def is_space_def)
  from push_branch_roundtrip [OF e this(1-3), of "''c1''"] e this(4) show ?thesis by simp
qed

section \<open>Pull requests\<close>

lemma pull_request_event_fields:
  assumes "ParsePullRequestEvent io req body = Inr e" and "pv_SupportedAction e" and "pv_SameRepository e"
  obtains snapshot where "pv_PullRequest e = Some snapshot" "ValidatePullRequestSnapshot (gh_httpsURL io) snapshot = None"
    "normalizePullRequestSnapshot snapshot = snapshot" "pv_CommitSHA e = pr_HeadSHA snapshot" "pv_Ref e = pr_HeadRef snapshot" "pv_RefName e = pr_HeadRef snapshot"
    "pv_RawRef e = ''refs/heads/'' @ pr_HeadRef snapshot" "pv_EventType e = ''pull_request''"
    "trimmed (pr_HeadRef snapshot)" "pr_HeadRef snapshot \<noteq> []" "trimmed (pr_HeadSHA snapshot)" "pr_HeadSHA snapshot \<noteq> []"
proof -
  obtain payload event where h: "head_of_pull_request io payload event = Inr e" and ev: "pv_EventType event = ''pull_request''"
    using assms by (auto simp: ParsePullRequestEvent_def blank_pull_request_def Let_def split: if_splits sum.splits option.splits)
  let ?ref = "TrimSpace (pl_HeadRef payload)" and ?sha = "TrimSpace (pl_HeadSHA payload)"
  obtain number snapshot where s: "snapshot = normalizePullRequestSnapshot
      \<lparr>pr_Number = number, pr_Action = pv_Action event, pr_URL = pl_HTMLURL payload, pr_BaseRef = pl_BaseRef payload, pr_BaseSHA = pl_BaseSHA payload,
       pr_HeadRef = ?ref, pr_HeadSHA = ?sha, pr_SourceMode = PullRequestSourceModeHead\<rparr>"
    and v: "ValidatePullRequestSnapshot (gh_httpsURL io) snapshot = None" and ne: "?ref \<noteq> []" "?sha \<noteq> []"
    and e: "e = event\<lparr>pv_Ref := ?ref, pv_RefName := ?ref, pv_RawRef := ''refs/heads/'' @ ?ref, pv_RefType := ''branch'', pv_CommitSHA := ?sha,
      pv_PullRequest := Some snapshot\<rparr>"
    using h by (auto simp: head_of_pull_request_def Let_def NormalizeBuildTrigger_def blank_trigger_def split: if_splits option.splits)
  have head: "pr_HeadRef snapshot = ?ref" "pr_HeadSHA snapshot = ?sha" "normalizePullRequestSnapshot snapshot = snapshot"
    unfolding s by (simp_all add: normalizePullRequestSnapshot_def)
  show thesis by (rule that [of snapshot]) (use v head ne ev in \<open>simp_all add: e\<close>)
qed

lemma pull_request_ref:
  assumes "ParsePullRequestEvent io req body = Inr e" and "pv_SupportedAction e" and "pv_SameRepository e" and "pv_PullRequest e = Some snapshot"
  shows "ev_ref (event_of (pull_request_trigger connectionID e)) =
    \<lparr>wr_RawRef = ''refs/heads/'' @ pr_HeadRef snapshot, wr_RefType = WebhookRefTypeBranch, wr_RefName = pr_HeadRef snapshot, wr_Deleted = False\<rparr>"
proof -
  obtain s where s: "pv_PullRequest e = Some s" "trimmed (pr_HeadRef s)" "pr_HeadRef s \<noteq> []" "pv_RawRef e = ''refs/heads/'' @ pr_HeadRef s"
    using pull_request_event_fields [OF assms(1-3)] by metis
  with assms(4) heads_trimmed [OF s(2,3)] NormalizeWebhookRef_branch [OF s(2,3)] ref_types show ?thesis
    by (simp add: event_of_def Let_def normalizeWebhookRefInput_def pull_request_trigger_def)
qed

text \<open>
  A pull request that the parser accepts is one that the build service accepts: the trigger made of it names the
  head commit and the head branch of its snapshot and passes the check that guards every new build.
\<close>

theorem pull_request_trigger_valid:
  assumes "ParsePullRequestEvent io req body = Inr e" and "pv_SupportedAction e" and "pv_SameRepository e"
  shows "BuildTrigger_Validate (gh_httpsURL io) (toDomainBuildTrigger (Some (webhook_trigger (event_of (pull_request_trigger connectionID e))))) = None"
proof -
  obtain s where s: "pv_PullRequest e = Some s" "ValidatePullRequestSnapshot (gh_httpsURL io) s = None" "normalizePullRequestSnapshot s = s"
    "pv_CommitSHA e = pr_HeadSHA s" "pv_EventType e = ''pull_request''" "trimmed (pr_HeadRef s)" "pr_HeadRef s \<noteq> []"
    "trimmed (pr_HeadSHA s)" "pr_HeadSHA s \<noteq> []"
    using pull_request_event_fields [OF assms] by metis
  let ?ev = "event_of (pull_request_trigger connectionID e)"
  have ref: "wr_RefName (ev_ref ?ev) = pr_HeadRef s" using pull_request_ref [OF assms s(1)] by simp
  have fields: "ev_scmProvider ?ev = ''github''" "ev_eventType ?ev = ''pull_request''" "ev_commitSHA ?ev = pr_HeadSHA s"
      "wi_PullRequest (ev_input ?ev) = Some s"
    using s TrimSpace_id [OF s(8)] by (simp_all add: event_of_def Let_def pull_request_trigger_def) code_simp+
  have opt: "trimOptional (buildOptionalStringPtr v) = Some v" if "trimmed v" "v \<noteq> []" for v
    using that by (simp add: buildOptionalStringPtr_def trimOptional_def Let_def TrimSpace_id)
  have lit: "trimOptional (buildOptionalStringPtr ''github'') = Some ''github''" "trimOptional (buildOptionalStringPtr ''pull_request'') = Some ''pull_request''"
    "TrimSpace ''webhook'' = BuildTriggerKindWebhook" "BuildTriggerKindWebhook \<noteq> []"
    by code_simp+
  show ?thesis
    using s(2,3) ref fields opt [OF s(6,7)] opt [OF s(8,9)] lit
    by (simp add: BuildTrigger_Validate_def toDomainBuildTrigger_def webhook_trigger_def NormalizeBuildTrigger_def Let_def)
qed

theorem pull_request_trigger_valid_witness:
  "\<exists>e. ParsePullRequestEvent demo_github (github_request ''pull_request'' []) ''{}'' = Inr e \<and> pv_SupportedAction e \<and> pv_SameRepository e \<and>
     BuildTrigger_Validate (gh_httpsURL demo_github) (toDomainBuildTrigger (Some (webhook_trigger (event_of (pull_request_trigger ''c1'' e))))) = None"
proof -
  have "case ParsePullRequestEvent demo_github (github_request ''pull_request'' []) ''{}'' of
      Inl _ \<Rightarrow> False | Inr e \<Rightarrow> pv_SupportedAction e \<and> pv_SameRepository e" by code_simp
  then obtain e where "ParsePullRequestEvent demo_github (github_request ''pull_request'' []) ''{}'' = Inr e" "pv_SupportedAction e" "pv_SameRepository e"
    by (auto split: sum.splits)
  with pull_request_trigger_valid [OF this, of "''c1''"] show ?thesis by blast
qed

section \<open>One build per job\<close>

definition triggered :: "URLPackage \<Rightarrow> Event \<Rightarrow> Job \<Rightarrow> bool" where
  "triggered urls ev job \<longleftrightarrow>
     (ev_connectionID ev = [] \<longrightarrow> matchesSCMRepositoryIdentity urls (jb_RepositoryURL job) (ev_scmProvider ev) (ev_owner ev) (ev_name ev)) \<and>
     (is_pull_request ev \<or> fdec_Matched (job_decision ev job))"

definition matching_jobs :: "URLPackage \<Rightarrow> WebhookTriggerInput \<Rightarrow> JobService \<Rightarrow> Job list" where
  "matching_jobs urls input js =
     (case candidate_jobs (event_of input) js of Inr (Some (ev, jobs)) \<Rightarrow> filter (triggered urls ev) jobs | _ \<Rightarrow> [])"

definition webhook_built :: "WebhookMatchedBuild \<Rightarrow> bool" where
  "webhook_built m \<longleftrightarrow> b_Status (mb_Build m) = BuildStatusQueued \<and>
     origin (mb_Build m) = (jb_ProjectID (mb_Job m), Some (jb_ID (mb_Job m)), DefaultPriority, BuildTriggerKindWebhook)"

text \<open>An answer that is an error, or one queued build of its own for each of the expected jobs, in their order.\<close>

definition one_build_each :: "Job list \<Rightarrow> (JobService \<times> (job_error + WebhookTriggerResult)) option \<Rightarrow> bool" where
  "one_build_each expected res =
     (case res of
        None \<Rightarrow> False
      | Some (js, Inl _) \<Rightarrow> True
      | Some (js, Inr result) \<Rightarrow>
          map mb_Job (wres_Builds result) = expected \<and> wres_MatchedJobs result = int (length expected) \<and>
          list_all webhook_built (wres_Builds result))"

lemma one_build_each_simps [simp]:
  "one_build_each expected (Some (js, Inl e))"
  "one_build_each expected (Some (js, Inr result)) \<longleftrightarrow> map mb_Job (wres_Builds result) = expected \<and> wres_MatchedJobs result = int (length expected) \<and>
     list_all webhook_built (wres_Builds result)"
  by (simp_all add: one_build_each_def)

lemma loop_triggered:
  "triggered (je_urls x) ev job \<Longrightarrow>
   webhook_loop x ev n (job # jobs) result reason js =
     (if ev_commitSHA ev = [] then Some (js, Inl ErrPushEventCommitSHARequired)
      else case run_build (webhook_build (je_builds x n) (je_repoIO x n) ev job) js of
             None \<Rightarrow> None
           | Some (js1, Inl buildErr) \<Rightarrow> Some (js1, Inl (WebhookBuildError (jb_ID job) buildErr))
           | Some (js1, Inr build) \<Rightarrow>
               webhook_loop x ev (Suc n) jobs
                 (result\<lparr>wres_MatchedJobs := wres_MatchedJobs result + 1,
                    wres_Builds := wres_Builds result @ [\<lparr>mb_Job = job, mb_Build = build\<rparr>]\<rparr>) reason js1)"
  by (auto simp: triggered_def)

lemma webhook_loop_builds:
  assumes "list_all webhook_built (wres_Builds result)" and "wres_MatchedJobs result = int (length (wres_Builds result))"
  shows "one_build_each (map mb_Job (wres_Builds result) @ filter (triggered (je_urls x) ev) jobs) (webhook_loop x ev n jobs result reason js)"
  using assms
proof (induction jobs arbitrary: n result reason js)
  case Nil
  then show ?case by (simp add: map_idI)
next
  case (Cons job jobs)
  show ?case
  proof (cases "triggered (je_urls x) ev job")
    case False
    with Cons show ?thesis by (auto simp: triggered_def)
  next
    case t: True
    show ?thesis
    proof (cases "ev_commitSHA ev = []")
      case False
      show ?thesis
        using webhook_build_of [of job "je_builds x n" "je_repoIO x n" ev js]
      proof (cases rule: builds_ofE)
        case (1 js1 e)
        with False t show ?thesis by (simp add: loop_triggered del: webhook_loop.simps(2))
      next
        case (2 js1 b)
        let ?result = "result\<lparr>wres_MatchedJobs := wres_MatchedJobs result + 1, wres_Builds := wres_Builds result @ [\<lparr>mb_Job = job, mb_Build = b\<rparr>]\<rparr>"
        have "one_build_each (map mb_Job (wres_Builds ?result) @ filter (triggered (je_urls x) ev) jobs)
            (webhook_loop x ev (Suc n) jobs ?result reason js1)"
          by (rule Cons.IH) (use Cons.prems 2 in \<open>simp_all add: webhook_built_def\<close>)
        with 2 False t show ?thesis by (simp add: loop_triggered del: webhook_loop.simps(2))
      qed
    qed (use t in \<open>simp add: loop_triggered del: webhook_loop.simps(2)\<close>)
  qed
qed

lemma trigger_one_build_each: "one_build_each (matching_jobs (je_urls x) input js) (TriggerWebhookEvent x input js)"
proof (cases "candidate_jobs (event_of input) js")
  case (Inr c)
  show ?thesis
  proof (cases c)
    case (Some p)
    then obtain ev jobs where p: "candidate_jobs (event_of input) js = Inr (Some (ev, jobs))" using Inr by (cases p) simp
    with webhook_loop_builds [of "webhookNoMatchResult ev" x ev jobs 0 "default_reason ev" js] show ?thesis
      by (simp add: TriggerWebhookEvent_def Let_def matching_jobs_def webhookNoMatchResult_def)
  qed (use Inr in \<open>simp add: TriggerWebhookEvent_def Let_def matching_jobs_def webhookNoMatchResult_def\<close>)
qed (simp add: TriggerWebhookEvent_def Let_def)

definition listens :: "WebhookTriggerInput \<Rightarrow> JobService \<Rightarrow> Job \<Rightarrow> bool" where
  "listens input js job \<longleftrightarrow>
     job \<in> snd ` set (jobr_jobs (js_jobRepo js)) \<and> jb_Enabled job \<and>
     (jb_PushEnabled job \<or> is_pull_request (event_of input) \<and> jb_PullRequestEnabled job)"

lemma matching_listens: "list_all (listens input js) (matching_jobs urls input js)"
proof -
  have "listens input js job" if c: "candidate_jobs (event_of input) js = Inr (Some (ev, jobs))" and j: "job \<in> set jobs" for ev jobs job
    using c j
    by (auto simp: candidate_jobs_def listens_def list_jobs_def JobRepository_ListPushEnabledByRepository_def
        JobRepository_ListPushEnabledByRepositoryID_def JobRepository_ListPullRequestEnabledByRepositoryID_def Let_def
        split: if_splits option.splits sum.splits)
  then show ?thesis
    by (cases "candidate_jobs (event_of input) js") (auto simp: matching_jobs_def list_all_iff split: option.splits)
qed

text \<open>
  C15: An event always gets an answer. Unless that is an error, it started exactly one build for each job that the event
  matches, in the order of the listing: queued, of the project and with the identifier of that job, as a webhook build.
  The jobs that match are stored, enabled and listen to this kind of event.
\<close>

theorem webhook_one_build_per_job:
  "one_build_each (matching_jobs (je_urls x) input js) (TriggerWebhookEvent x input js) \<and>
   list_all (listens input js) (matching_jobs (je_urls x) input js)"
  using trigger_one_build_each matching_listens by blast

text \<open>
  The priority of a job is lost on webhooks: a build that an event starts has the default priority whatever the
  priority of its job, while a build of the same job that is started by hand or by an artifact has the priority of the job.
\<close>

theorem webhook_builds_lose_priority:
  "builds_of (jb_ProjectID job, Some (jb_ID job), DefaultPriority, BuildTriggerKindWebhook) (run_build (webhook_build x io ev job) js) \<and>
   builds_of (jb_ProjectID job, Some (jb_ID job), NormalizePriority (jb_Priority job), trigger_kind trigger)
     (createBuildForJobWithTrigger x io job trigger js)"
  using webhook_build_of create_for_job by blast

end
