(* ===== verification/Trigger_Guarantees.thy ===== *)
theory Trigger_Guarantees
  imports Trigger_Fixtures
begin

text \<open>
  What the ledgers guarantee: a delivery of a webhook has an effect at most once, an unsigned one has none, and
  builds that artifacts trigger do not trigger others.
\<close>

section \<open>At most one effect\<close>

text \<open>The requests of a sequence that change what is observed of the state.\<close>

fun acting :: "('r \<Rightarrow> 's \<Rightarrow> 's) \<Rightarrow> ('s \<Rightarrow> 'e) \<Rightarrow> 'r list \<Rightarrow> 's \<Rightarrow> 'r list" where
  "acting step observed [] s = []"
| "acting step observed (r # rs) s =
     (if observed (step r s) = observed s then [] else [r]) @ acting step observed rs (step r s)"

text \<open>
  The contract of a ledger: a request has an effect only if its key is not in the ledger, and then the key is
  entered; no key is ever taken out.
\<close>

locale ledger =
  fixes step :: "'r \<Rightarrow> 's \<Rightarrow> 's" and key :: "'r \<Rightarrow> 'k" and entered :: "'s \<Rightarrow> 'k set" and observed :: "'s \<Rightarrow> 'e"
  assumes acts_once: "observed (step r s) \<noteq> observed s \<Longrightarrow> key r \<notin> entered s \<and> key r \<in> entered (step r s)"
    and keeps: "entered s \<subseteq> entered (step r s)"
begin

lemma acting_keys: "distinct (map key (acting step observed rs s)) \<and> key ` set (acting step observed rs s) \<inter> entered s = {}"
proof (induction rs arbitrary: s)
  case (Cons r rs)
  from Cons [of "step r s"] acts_once [of r s] keeps [of s r] show ?case by auto
qed simp

lemma one_effect_per_key: "distinct (map key (acting step observed rs s))"
  using acting_keys by blast

end

section \<open>The ledger of webhooks\<close>

lemma Update_index [simp]: "wdr_index (fst (WebhookDelivery_Update now d r)) = wdr_index r"
  by (simp add: WebhookDelivery_Update_def Let_def split: option.split)

lemma updateDelivery_index [simp]: "wdr_index (fst (updateDelivery now clock d st reason r)) = wdr_index r"
  by (simp add: updateDelivery_def)

lemma updateDelivery_keeps: "updateDelivery now clock d st reason r = (r', a) \<Longrightarrow> wdr_index r' = wdr_index r"
  using updateDelivery_index [of now clock d st reason r] by simp

lemma ProcessVerifiedEvent_index:
  "ProcessVerifiedEvent x message d trigger w = Some (w', a) \<Longrightarrow> wdr_index (in_ledger w') = wdr_index (in_ledger w)"
  by (auto simp: ProcessVerifiedEvent_def MarkFailed_delivery_def dest!: updateDelivery_keeps
      split: prod.splits sum.splits option.splits if_splits)

lemma handle_event_index:
  "handle_event x message io req target d w = Some (w', a) \<Longrightarrow> wdr_index (in_ledger w') = wdr_index (in_ledger w)"
  by (auto simp: handle_event_def Let_def finish_unsupported_def finish_invalid_def MarkUnsupported_def MarkFailed_delivery_def process_event_def
      dest!: updateDelivery_keeps ProcessVerifiedEvent_index split: prod.splits sum.splits option.splits if_splits)

definition ledger_keys :: "Ingress \<Rightarrow> string set" where
  "ledger_keys w = dom (map_of (wdr_index (in_ledger w)))"

lemma ledger_key_normal: "deliveryLedgerKey (ToLower (TrimSpace provider)) (TrimSpace deliveryID) = deliveryLedgerKey provider deliveryID"
  by (simp add: deliveryLedgerKey_def TrimSpace_ToLower)

lemma Create_keys:
  assumes "WebhookDelivery_Create uuid now d r = (r', a)"
  shows "map_of (wdr_index r) \<subseteq>\<^sub>m map_of (wdr_index r')"
    and "a = Inr created \<Longrightarrow> map_of (wdr_index r) (deliveryLedgerKey (wd_Provider d) (wd_DeliveryID d)) = None \<and>
      map_of (wdr_index r') (deliveryLedgerKey (wd_Provider d) (wd_DeliveryID d)) \<noteq> None"
  using assms by (auto simp: WebhookDelivery_Create_def Let_def ledger_key_normal map_le_def split: if_splits)

lemma RegisterReceived_keys:
  assumes "RegisterReceived x provider deliveryID eventType r = (r', a)"
  shows "map_of (wdr_index r) \<subseteq>\<^sub>m map_of (wdr_index r')"
    and "a = Inr (d, False) \<Longrightarrow> map_of (wdr_index r) (deliveryLedgerKey provider deliveryID) = None \<and>
      map_of (wdr_index r') (deliveryLedgerKey provider deliveryID) \<noteq> None"
proof -
  let ?d = "received_delivery (je_uuid x 0) (je_now x 0) (ToLower (TrimSpace provider)) (TrimSpace deliveryID) eventType"
  obtain r1 c where c: "WebhookDelivery_Create (je_uuid x 1) (je_now x 1) ?d r = (r1, c)" by fastforce
  have k: "deliveryLedgerKey (wd_Provider ?d) (wd_DeliveryID ?d) = deliveryLedgerKey provider deliveryID"
    by (simp add: received_delivery_def ledger_key_normal)
  note keys = Create_keys [OF c, unfolded k]
  show "map_of (wdr_index r) \<subseteq>\<^sub>m map_of (wdr_index r')"
    using assms keys(1) c
    by (auto simp: RegisterReceived_def Let_def dest!: updateDelivery_keeps split: prod.splits sum.splits if_splits)
  show "map_of (wdr_index r) (deliveryLedgerKey provider deliveryID) = None \<and> map_of (wdr_index r') (deliveryLedgerKey provider deliveryID) \<noteq> None"
    if "a = Inr (d, False)"
    using assms keys(2) c that
    by (auto simp: RegisterReceived_def Let_def split: prod.splits sum.splits if_splits)
qed

text \<open>A request with what it meets outside: the surroundings, the texts of errors and the GitHub side.\<close>

type_synonym webhook_request = "JobExternals \<times> (job_error \<Rightarrow> string) \<times> GitHubIO \<times> GitHubRequest"

fun ingest :: "webhook_request \<Rightarrow> Ingress \<Rightarrow> Ingress" where
  "ingest (x, message, io, req) w = (case IngestGitHubWebhook x message io req w of None \<Rightarrow> w | Some (w', _) \<Rightarrow> w')"

fun request_key :: "webhook_request \<Rightarrow> string" where
  "request_key (x, message, io, req) = deliveryLedgerKey ''github'' (gr_Delivery req)"

lemma ledger_key_trimmed: "deliveryLedgerKey provider (TrimSpace deliveryID) = deliveryLedgerKey provider deliveryID"
  by (simp add: deliveryLedgerKey_def)

lemma Ingest_keys:
  assumes "IngestGitHubWebhook x message io req w = Some (w', a)"
  shows "map_of (wdr_index (in_ledger w)) \<subseteq>\<^sub>m map_of (wdr_index (in_ledger w'))"
    and "in_jobs w' \<noteq> in_jobs w \<Longrightarrow> map_of (wdr_index (in_ledger w)) (deliveryLedgerKey ''github'' (gr_Delivery req)) = None \<and>
      map_of (wdr_index (in_ledger w')) (deliveryLedgerKey ''github'' (gr_Delivery req)) \<noteq> None"
proof -
  obtain r c where c: "RegisterReceived x ''github'' (TrimSpace (gr_Delivery req)) (ToLower (TrimSpace (gr_Event req))) (in_ledger w) = (r, c)" by fastforce
  note keys = RegisterReceived_keys [OF c, unfolded ledger_key_trimmed]
  show "map_of (wdr_index (in_ledger w)) \<subseteq>\<^sub>m map_of (wdr_index (in_ledger w'))"
    using assms keys(1) c
    by (auto simp: IngestGitHubWebhook_def dest!: handle_event_index split: sum.splits if_splits)
  show "map_of (wdr_index (in_ledger w)) (deliveryLedgerKey ''github'' (gr_Delivery req)) = None \<and>
      map_of (wdr_index (in_ledger w')) (deliveryLedgerKey ''github'' (gr_Delivery req)) \<noteq> None" if "in_jobs w' \<noteq> in_jobs w"
    using assms keys(2) c that
    by (auto simp: IngestGitHubWebhook_def dest!: handle_event_index split: sum.splits if_splits)
qed

interpretation webhooks: ledger ingest request_key ledger_keys in_jobs
proof
  fix r :: webhook_request and w :: Ingress
  obtain x message io req where r: "r = (x, message, io, req)" by (cases r)
  have "ledger_keys w \<subseteq> ledger_keys (ingest r w) \<and>
      (in_jobs (ingest r w) \<noteq> in_jobs w \<longrightarrow> request_key r \<notin> ledger_keys w \<and> request_key r \<in> ledger_keys (ingest r w))"
  proof (cases "IngestGitHubWebhook x message io req w")
    case (Some p)
    then obtain w' a where w': "IngestGitHubWebhook x message io req w = Some (w', a)" by (cases p) simp
    with Ingest_keys [OF w'] show ?thesis by (auto simp: r ledger_keys_def dest: map_le_implies_dom_le)
  qed (simp add: r)
  then show "in_jobs (ingest r w) \<noteq> in_jobs w \<Longrightarrow> request_key r \<notin> ledger_keys w \<and> request_key r \<in> ledger_keys (ingest r w)"
    and "ledger_keys w \<subseteq> ledger_keys (ingest r w)"
    by blast+
qed

text \<open>
  C13: A delivery has an effect at most once. However often GitHub sends its deliveries, and whatever else arrives
  in between, of the requests with one delivery identifier at most one changes the state of the job service, which
  holds the jobs, their builds and the jobs of the workers.
\<close>

theorem webhook_delivery_once: "distinct (map request_key (acting ingest in_jobs requests w))"
  by (rule webhooks.one_effect_per_key)

section \<open>Signatures\<close>

definition signed :: "GitHubIO \<Rightarrow> GitHubRequest \<Rightarrow> bool" where
  "signed io req \<longleftrightarrow>
     (\<exists>registration secret sent.
        gh_registration io (TrimSpace (gr_registrationID req)) = Inr registration \<and>
        gh_secret io (gar_WebhookSecretRef registration) = Inr secret \<and> TrimSpace secret \<noteq> [] \<and> gr_Body req = Some sent \<and>
        TrimSpace (gr_Signature req) = ''sha256='' @ gh_hmac io (TrimSpace secret) (take (1024 * 1024) sent))"

text \<open>
  C14: A request without a valid signature is refused and changes nothing. A signature is valid when it is the keyed
  hash of the first megabyte of the body under the secret of the registration that the request names.
\<close>

theorem unsigned_webhook_refused:
  assumes "\<not> signed io req"
  shows "\<exists>code kind text. IngestGitHubWebhook x message io req w = Some (w, ErrorJSON code kind text)"
proof -
  have "\<exists>code kind text. authenticate io req = Inl (ErrorJSON code kind text)"
  proof (cases "TrimSpace (gr_registrationID req) = [] \<or> TrimSpace (gr_Event req) = [] \<or> TrimSpace (gr_Delivery req) = [] \<or> gr_Body req = None")
    case False
    then obtain sent where sent: "gr_Body req = Some sent" by auto
    show ?thesis
    proof (cases "ResolveRegistrationSecret io (TrimSpace (gr_registrationID req))")
      case (Inr secret)
      with assms sent have "\<not> VerifySignature io (TrimSpace secret) (take (1024 * 1024) sent) (gr_Signature req)"
        by (fastforce simp: ResolveRegistrationSecret_def VerifySignature_def signed_def Let_def split: sum.splits if_splits)
      with Inr sent show ?thesis by (simp add: authenticate_def Let_def misconfigured_def)
    qed (use sent in \<open>simp add: authenticate_def Let_def misconfigured_def\<close>)
  qed (auto simp: authenticate_def Let_def)
  then show ?thesis by (auto simp: IngestGitHubWebhook_def)
qed

theorem unsigned_webhook_refused_witness:
  "\<not> signed demo_github (github_request ''push'' ''sha256=forged'') \<and>
   (\<exists>code kind text. IngestGitHubWebhook demo_job_externals (\<lambda>_. []) demo_github (github_request ''push'' ''sha256=forged'')
      \<lparr>in_ledger = NewWebhookDeliveryRepository, in_jobs = demo_job_service\<rparr> =
      Some (\<lparr>in_ledger = NewWebhookDeliveryRepository, in_jobs = demo_job_service\<rparr>, ErrorJSON code kind text))"
proof -
  have "TrimSpace ''sha256=forged'' \<noteq> ''sha256='' @ ''secret{}''" "TrimSpace ''secret'' = ''secret''" by code_simp+
  then have "\<not> signed demo_github (github_request ''push'' ''sha256=forged'')"
    by (simp add: signed_def demo_github_def github_request_def)
  from this unsigned_webhook_refused [OF this] show ?thesis by blast
qed

section \<open>Artifact triggers\<close>

lemma artifact_kind: "trigger_kind (Some (artifact_trigger producer artifact)) = BuildTriggerKindArtifact"
proof -
  have "norm_kind BuildTriggerKindArtifact = BuildTriggerKindArtifact" by code_simp
  then show ?thesis by (simp add: trigger_kind_def artifact_trigger_def)
qed

text \<open>
  C17: Artifact triggers do not cascade: the build that an artifact starts is recorded as such, and none of the artifacts
  of that build starts another one, so no cycle of jobs keeps itself running.
\<close>

theorem artifact_builds_do_not_cascade:
  "case createBuildForJobWithTrigger x io job (Some (artifact_trigger producer artifact)) js of
     None \<Rightarrow> False
   | Some (_, Inl _) \<Rightarrow> True
   | Some (_, Inr build) \<Rightarrow> t_Kind (b_Trigger build) = BuildTriggerKindArtifact \<and>
       DispatchArtifactTriggers y message build artifact' js' = Some (js', None)"
  using create_for_job [of job "Some (artifact_trigger producer artifact)" x io js]
  by (cases rule: builds_ofE) (simp_all add: artifact_kind origin_def DispatchArtifactTriggers_def)

definition artifact_ledger_ok :: "ArtifactTriggerDeliveryRepository \<Rightarrow> bool" where
  "artifact_ledger_ok r = list_all (\<lambda>(i, d). ad_ID d = i \<and> trimmed i) (adr_deliveries r)"

lemma ledger_row: "artifact_ledger_ok r \<Longrightarrow> map_of (adr_deliveries r) i = Some d \<Longrightarrow> ad_ID d = i \<and> trimmed i"
  by (auto simp: artifact_ledger_ok_def list_all_iff dest!: map_of_SomeD)

lemma run_build_deliveries:
  "run_build create js = Some (js', a) \<Longrightarrow> js_artifactTriggerDeliveries js' = js_artifactTriggerDeliveries js"
  by (auto simp: run_build_def split: option.splits)

lemma create_build_deliveries:
  "createBuildForJobWithTrigger x io job trigger js = Some (js', a) \<Longrightarrow> js_artifactTriggerDeliveries js' = js_artifactTriggerDeliveries js"
  by (auto simp: createBuildForJobWithTrigger_def dest: run_build_deliveries split: if_splits sum.splits)

text \<open>The row of an artifact and a job, if it is not one to retry.\<close>

definition settled :: "string \<Rightarrow> string \<Rightarrow> JobService \<Rightarrow> bool" where
  "settled artifactID jobID js =
     (case js_artifactTriggerDeliveries js of
        None \<Rightarrow> False
      | Some r \<Rightarrow> (case GetByArtifactIDAndConsumerJobID artifactID jobID r of
                    Inl _ \<Rightarrow> False | Inr d \<Rightarrow> ad_Status d \<noteq> ArtifactTriggerDeliveryStatusFailed))"

lemma settled_ends:
  assumes "settled (ba_ID artifact) (jb_ID job) js"
  shows "dispatchArtifactTriggerToJob x message build artifact job js = Some (js, None)"
proof -
  obtain r d where r: "js_artifactTriggerDeliveries js = Some r" and d: "GetByArtifactIDAndConsumerJobID (ba_ID artifact) (jb_ID job) r = Inr d"
      "ad_Status d \<noteq> ArtifactTriggerDeliveryStatusFailed"
    using assms by (auto simp: settled_def split: option.splits sum.splits)
  have k: "map_of (adr_index r) (artifactTriggerDeliveryKey (ba_ID artifact) (jb_ID job)) \<noteq> None"
    using d(1) by (auto simp: GetByArtifactIDAndConsumerJobID_def split: option.splits)
  have "js\<lparr>js_artifactTriggerDeliveries := Some r\<rparr> = js" using r by simp
  then show ?thesis
    using r d k by (simp add: dispatchArtifactTriggerToJob_def claim_delivery_def with_deliveries_def ArtifactTriggerDelivery_Create_def new_delivery_def)
qed

lemma same_deliveries: "js_artifactTriggerDeliveries js = Some r \<Longrightarrow> js\<lparr>js_artifactTriggerDeliveries := Some r\<rparr> = js"
  by simp

text \<open>A dispatch that finds nothing to do finds nothing to do the next time either.\<close>

lemma claim_ended:
  assumes "claim_delivery x build artifact job js = (js1, Inl None)" and r: "js_artifactTriggerDeliveries js = Some r"
  shows "js1 = js \<and> claim_delivery y build artifact job js = (js, Inl None)"
proof -
  obtain e where k: "map_of (adr_index r) (artifactTriggerDeliveryKey (ba_ID artifact) (jb_ID job)) \<noteq> None"
    and e: "GetByArtifactIDAndConsumerJobID (ba_ID artifact) (jb_ID job) r = Inr e"
    using assms
    by (fastforce simp: claim_delivery_def with_deliveries_def ArtifactTriggerDelivery_Create_def new_delivery_def Let_def
        split: sum.splits if_splits prod.splits)
  show ?thesis
    using assms k e same_deliveries [OF r]
    by (auto simp: claim_delivery_def with_deliveries_def ArtifactTriggerDelivery_Create_def ArtifactTriggerDelivery_Update_def ClaimFailedForRetry_def
        new_delivery_def Let_def split: sum.splits if_splits prod.splits option.splits)
qed

lemma claim_row:
  assumes c: "claim_delivery x build artifact job js = (js1, Inr d)" and r: "js_artifactTriggerDeliveries js = Some r" and ok: "artifact_ledger_ok r"
  shows "\<exists>r1. js_artifactTriggerDeliveries js1 = Some r1 \<and>
      map_of (adr_index r1) (artifactTriggerDeliveryKey (ba_ID artifact) (jb_ID job)) = Some (ad_ID d)"
proof (cases "map_of (adr_index r) (artifactTriggerDeliveryKey (ba_ID artifact) (jb_ID job))")
  case None
  with c r show ?thesis
    by (auto simp: claim_delivery_def with_deliveries_def ArtifactTriggerDelivery_Create_def new_delivery_def Let_def split: if_splits)
next
  case (Some i)
  let ?e = "gm_get_or zeroArtifactTriggerDelivery (adr_deliveries r) i"
  have st: "ad_Status ?e = ArtifactTriggerDeliveryStatusFailed"
    using c r Some by (auto simp: claim_delivery_def with_deliveries_def ArtifactTriggerDelivery_Create_def new_delivery_def
        GetByArtifactIDAndConsumerJobID_def split: if_splits)
  then obtain e where e: "map_of (adr_deliveries r) i = Some e" "?e = e"
    by (cases "map_of (adr_deliveries r) i") (auto simp: gm_get_or_def zeroArtifactTriggerDelivery_def ArtifactTriggerDeliveryStatusFailed_def)
  have "ad_ID e = i" "TrimSpace i = i" using ledger_row [OF ok e(1)] TrimSpace_id by auto
  with c r Some e st show ?thesis
    by (auto simp: claim_delivery_def with_deliveries_def ArtifactTriggerDelivery_Create_def ArtifactTriggerDelivery_Update_def ClaimFailedForRetry_def
        GetByArtifactIDAndConsumerJobID_def new_delivery_def Let_def split: sum.splits if_splits prod.splits option.splits)
qed

lemma queued_settled:
  assumes q: "queueArtifactTriggerDelivery x message d producer artifact job js = Some (js', Inr d')" and r: "js_artifactTriggerDeliveries js = Some r"
    and i: "map_of (adr_index r) (artifactTriggerDeliveryKey (ba_ID artifact) (jb_ID job)) = Some (ad_ID d)"
  shows "settled (ba_ID artifact) (jb_ID job) js'"
proof -
  obtain js1 b where b: "createBuildForJobWithTrigger (je_builds x 0) (je_repoIO x 0) job (Some (artifact_trigger producer artifact)) js = Some (js1, Inr b)"
    and u: "(js', Inr d') = with_deliveries (ArtifactTriggerDelivery_Update (d\<lparr>ad_Status := ArtifactTriggerDeliveryStatusQueued,
      ad_QueuedBuildID := Some (b_ID b), ad_UpdatedAt := je_now x 2\<rparr>)) js1"
    using q by (auto simp: queueArtifactTriggerDelivery_def split: option.splits prod.splits sum.splits)
  have "js_artifactTriggerDeliveries js1 = Some r" using create_build_deliveries [OF b] r by simp
  moreover have "ArtifactTriggerDeliveryStatusQueued \<noteq> ArtifactTriggerDeliveryStatusFailed"
    by (simp add: ArtifactTriggerDeliveryStatusQueued_def ArtifactTriggerDeliveryStatusFailed_def)
  ultimately show ?thesis
    using u i
    by (auto simp: settled_def with_deliveries_def ArtifactTriggerDelivery_Update_def GetByArtifactIDAndConsumerJobID_def split: if_splits)
qed

text \<open>
  A job is served once with an artifact: when the dispatch of an artifact to a job has succeeded, doing it again,
  at any time and under any identifiers, changes nothing and starts no second build.
\<close>

theorem artifact_dispatch_idempotent:
  assumes "js_artifactTriggerDeliveries js = Some r" and "artifact_ledger_ok r"
    and "dispatchArtifactTriggerToJob x message build artifact job js = Some (js', None)"
  shows "dispatchArtifactTriggerToJob y message' build artifact job js' = Some (js', None)"
proof -
  obtain js1 c where c: "claim_delivery x build artifact job js = (js1, c)" by fastforce
  show ?thesis
  proof (cases c)
    case (Inl e)
    with assms(3) c have "e = None" "js' = js1" by (simp_all add: dispatchArtifactTriggerToJob_def)
    with claim_ended [of x build artifact job js js1 r y] c Inl assms(1) show ?thesis by (simp add: dispatchArtifactTriggerToJob_def)
  next
    case (Inr d)
    then obtain d' where q: "queueArtifactTriggerDelivery x message d (producer_of build) artifact job js1 = Some (js', Inr d')"
      using assms(3) c by (auto simp: dispatchArtifactTriggerToJob_def split: option.splits sum.splits)
    from claim_row [OF c [unfolded Inr] assms(1,2)] queued_settled [OF q] show ?thesis by (blast intro: settled_ends)
  qed
qed

text \<open>A service that has dispatched the demonstration artifact to the job and waits for its build.\<close>

definition pending_row :: ArtifactTriggerDelivery where
  "pending_row = new_delivery demo_job_externals (blank_build ''b1'' BuildStatusSuccess) demo_artifact demo_job"

definition dispatched_ledger :: ArtifactTriggerDeliveryRepository where
  "dispatched_ledger = fst (ArtifactTriggerDelivery_Create [] 0 pending_row NewArtifactTriggerDeliveryRepository)"

theorem artifact_dispatch_idempotent_witness:
  "let js = demo_job_service\<lparr>js_artifactTriggerDeliveries := Some dispatched_ledger\<rparr>;
       dispatch = \<lambda>x. dispatchArtifactTriggerToJob x (\<lambda>_. []) (blank_build ''b1'' BuildStatusSuccess) demo_artifact demo_job
   in artifact_ledger_ok dispatched_ledger \<and> dispatch demo_job_externals js = Some (js, None) \<and> dispatch (later 9 demo_job_externals) js = Some (js, None)"
proof -
  let ?js = "demo_job_service\<lparr>js_artifactTriggerDeliveries := Some dispatched_ledger\<rparr>"
  let ?dispatch = "\<lambda>x. dispatchArtifactTriggerToJob x (\<lambda>_. []) (blank_build ''b1'' BuildStatusSuccess) demo_artifact demo_job"
  have ok: "artifact_ledger_ok dispatched_ledger" by code_simp
  have once: "?dispatch demo_job_externals ?js = Some (?js, None)" by (rule settled_ends) code_simp
  have "?dispatch (later 9 demo_job_externals) ?js = Some (?js, None)" by (rule artifact_dispatch_idempotent [OF _ ok once]) simp
  with ok once show ?thesis by (simp add: Let_def)
qed

end
