(* ===== verification/Job_Guarantees.thy ===== *)
theory Job_Guarantees
  imports Trigger_Fixtures
begin

text \<open>
  The jobs that the job service keeps: whatever it is asked, every stored job is one that can be run. The requests are
  the steps of a transition system, whose invariant is proved by rule induction.
\<close>

section \<open>Jobs that can be run\<close>

definition clean_trigger :: "Job \<Rightarrow> JobArtifactTrigger \<Rightarrow> bool" where
  "clean_trigger job t \<longleftrightarrow>
     trimmed (at_ProducerJobID t) \<and> trimmed (at_Path t) \<and> at_ProducerJobID t \<noteq> [] \<and> at_Path t \<noteq> [] \<and> at_ProducerJobID t \<noteq> jb_ID job"

definition runnable :: "Job \<Rightarrow> bool" where
  "runnable job \<longleftrightarrow>
     TrimSpace (jb_Name job) \<noteq> [] \<and>
     (readOptionalString (jb_RepositoryID job) \<noteq> [] \<or> TrimSpace (jb_RepositoryURL job) \<noteq> []) \<and>
     (TrimSpace (jb_DefaultRef job) \<noteq> [] \<or> TrimSpace (readOptionalString (jb_DefaultCommitSHA job)) \<noteq> []) \<and>
     (TrimSpace (jb_PipelineYAML job) \<noteq> [] \<or> TrimSpace (readOptionalString (jb_PipelinePath job)) \<noteq> []) \<and>
     jb_TriggerMode job \<in> {JobTriggerModeBranches, JobTriggerModeTags, JobTriggerModeBranchesAndTags} \<and>
     ValidPriority (jb_Priority job) \<and>
     (\<forall>t \<in> set (jb_ArtifactTriggers job). clean_trigger job t)"

definition listed :: "Job \<Rightarrow> JobService \<Rightarrow> bool" where
  "listed job js \<longleftrightarrow> job \<in> snd ` set (jobr_jobs (js_jobRepo js))"

definition registered_ok :: "JobService \<Rightarrow> bool" where
  "registered_ok js =
     (case js_registeredRepositories js of
        None \<Rightarrow> True | Some repos \<Rightarrow> (\<forall>(i, registration) \<in> set (rrr_repositories repos). rr_ID registration = i))"

definition jobs_ok :: "JobService \<Rightarrow> bool" where
  "jobs_ok js \<longleftrightarrow> (\<forall>job. listed job js \<longrightarrow> runnable job) \<and> registered_ok js"

lemma put_values: "snd ` set (gm_put k v m) \<subseteq> insert v (snd ` set m)"
  by (induction m) auto

lemma put_pairs: "set (gm_put k v m) \<subseteq> insert (k, v) (set m)"
  by (induction m) auto

lemma delete_pairs: "set (AList.delete k m) \<subseteq> set m"
  by (auto simp: AList.delete_eq)

section \<open>Normalised lists\<close>

lemma normalize_trigger_trimmed [simp]:
  "trimmed (at_ProducerJobID (NormalizeJobArtifactTrigger t))" "trimmed (at_Path (NormalizeJobArtifactTrigger t))"
  by (simp_all add: NormalizeJobArtifactTrigger_def)

lemma normalize_triggers_set:
  "t \<in> set (normalize_triggers seen ts) \<Longrightarrow>
   \<exists>t0 \<in> set ts. t = NormalizeJobArtifactTrigger t0 \<and> at_ProducerJobID t \<noteq> [] \<and> at_Path t \<noteq> []"
  by (induction seen ts rule: normalize_triggers.induct) (auto simp: Let_def split: if_splits)

lemma normalize_trigger_id: "trimmed (at_ProducerJobID t) \<Longrightarrow> trimmed (at_Path t) \<Longrightarrow> NormalizeJobArtifactTrigger t = t"
  by (simp add: NormalizeJobArtifactTrigger_def TrimSpace_id)

text \<open>Normalising the triggers of a job keeps them clean.\<close>

lemma stored_clean: "\<forall>t \<in> set (jb_ArtifactTriggers job). clean_trigger job t \<Longrightarrow> \<forall>t \<in> set (jb_ArtifactTriggers (stored_job job)). clean_trigger job t"
  by (fastforce simp: stored_job_def NormalizeJobArtifactTriggers_def clean_trigger_def normalize_trigger_id dest!: normalize_triggers_set)

lemma runnable_stored: "runnable job \<Longrightarrow> runnable (stored_job job)"
  using stored_clean [of job] by (simp add: runnable_def) (simp add: stored_job_def clean_trigger_def)

lemma not_self_clean:
  "\<not> list_ex (\<lambda>t. at_ProducerJobID t = jb_ID job) (NormalizeJobArtifactTriggers ts) \<Longrightarrow> t \<in> set (NormalizeJobArtifactTriggers ts) \<Longrightarrow> clean_trigger job t"
  by (auto simp: NormalizeJobArtifactTriggers_def clean_trigger_def list_ex_iff dest!: normalize_triggers_set)

lemma mode_cases: "normalizeWebhookFilterMode m \<in> {JobTriggerModeBranches, JobTriggerModeTags, JobTriggerModeBranchesAndTags}"
  by (simp add: normalizeWebhookFilterMode_def Let_def)

section \<open>Creating and updating\<close>

lemma assigned_source_named:
  assumes "registered_ok js" and "assigned_source i js = Inr (repositoryID, url)" and "TrimSpace i \<noteq> []"
  shows "readOptionalString repositoryID \<noteq> []"
proof -
  obtain repos registration where r: "js_registeredRepositories js = Some repos" "map_of (rrr_repositories repos) (TrimSpace i) = Some registration"
      "repositoryID = trimmedStringPtr (rr_ID registration)"
    using assms(2)
    by (auto simp: assigned_source_def resolveAssignableRegisteredRepository_def RegistrationRepository_GetByID_def split: option.splits sum.splits if_splits)
  then have "rr_ID registration = TrimSpace i" using assms(1) by (auto simp: registered_ok_def dest!: map_of_SomeD)
  with r(3) assms(3) show ?thesis by (simp add: trimmedStringPtr_def readOptionalString_def)
qed

lemma trimmedStringPtr_nonblank: "TrimSpace s \<noteq> [] \<Longrightarrow> TrimSpace (readOptionalString (trimmedStringPtr s)) \<noteq> []"
  by (simp add: trimmedStringPtr_def readOptionalString_def)

lemma prepared_runnable:
  assumes "prepared_job x input js = Inr job" and "registered_ok js"
  shows "runnable job \<and> jb_ID job = je_uuid x 0"
proof -
  obtain n projectID repositoryID url where n: "normalizeCreateJobInput input = Inr n"
    and src: "resolveJobRepositorySource (cj_RepositoryID n) (cj_RepositoryURL n) js = Inr (repositoryID, url)"
    and job: "job = new_job (je_uuid x 0) (je_now x 0) projectID repositoryID url n" and self: "\<not> triggers_itself job"
    using assms(1) by (auto simp: prepared_job_def Let_def split: sum.splits option.splits if_splits)
  have v: "validateCreateJobRequiredFields (trimmed_input input) = None"
    and n2: "n = (trimmed_input input)\<lparr>cj_BranchAllowlist := normalizeBranchAllowlist (cj_BranchAllowlist (trimmed_input input)),
       cj_TagAllowlist := normalizeTagAllowlist (cj_TagAllowlist (trimmed_input input)),
       cj_ArtifactTriggers := NormalizeJobArtifactTriggers (cj_ArtifactTriggers (trimmed_input input))\<rparr>"
    using n by (auto simp: normalizeCreateJobInput_def Let_def split: option.splits)
  have fields: "cj_Name n \<noteq> []" "cj_DefaultRef n \<noteq> [] \<or> cj_DefaultCommitSHA n \<noteq> []" "cj_PipelineYAML n \<noteq> [] \<or> cj_PipelinePath n \<noteq> []"
      "\<And>p. cj_Priority n = Some p \<Longrightarrow> ValidPriority p"
    using v by (auto simp: n2 validateCreateJobRequiredFields_def split: if_splits option.splits)
  have trim: "TrimSpace (cj_Name n) = cj_Name n" "TrimSpace (cj_DefaultRef n) = cj_DefaultRef n" "TrimSpace (cj_DefaultCommitSHA n) = cj_DefaultCommitSHA n"
      "TrimSpace (cj_PipelineYAML n) = cj_PipelineYAML n" "TrimSpace (cj_PipelinePath n) = cj_PipelinePath n"
    by (simp_all add: n2 trimmed_input_def)
  have priority: "ValidPriority (normalizedPriority (cj_Priority n))"
    using fields(4) NormalizePriority_valid
    by (auto simp: normalizedPriority_def ValidPriority_def DefaultPriority_def MinPriority_def MaxPriority_def split: option.split)
  have source: "readOptionalString repositoryID \<noteq> [] \<or> TrimSpace url \<noteq> []"
    using src assigned_source_named [OF assms(2), of "TrimSpace (cj_RepositoryID n)"]
    by (auto simp: resolveJobRepositorySource_def Let_def split: if_splits)
  have clean: "\<forall>t \<in> set (jb_ArtifactTriggers job). clean_trigger job t"
    using self by (auto simp: job new_job_def Let_def triggers_itself_def intro!: not_self_clean)
  have fields': "jb_Name job = cj_Name n" "jb_DefaultRef job = cj_DefaultRef n" "jb_DefaultCommitSHA job = trimmedStringPtr (cj_DefaultCommitSHA n)"
    "jb_PipelineYAML job = cj_PipelineYAML n" "jb_PipelinePath job = trimmedStringPtr (cj_PipelinePath n)" "jb_RepositoryID job = repositoryID"
    "jb_RepositoryURL job = url" "jb_Priority job = normalizedPriority (cj_Priority n)" "jb_ID job = je_uuid x 0"
    "jb_TriggerMode job = normalizeWebhookFilterMode (readOptionalString (cj_TriggerMode n))"
    by (simp_all add: job new_job_def Let_def)
  have target: "TrimSpace (jb_DefaultRef job) \<noteq> [] \<or> TrimSpace (readOptionalString (jb_DefaultCommitSHA job)) \<noteq> []"
    and pipeline: "TrimSpace (jb_PipelineYAML job) \<noteq> [] \<or> TrimSpace (readOptionalString (jb_PipelinePath job)) \<noteq> []"
    unfolding fields' trim using fields(2,3) trim trimmedStringPtr_nonblank by metis+
  show ?thesis
    unfolding runnable_def using clean source priority target pipeline fields(1) mode_cases trim(1) by (simp add: fields')
qed

lemma updated_runnable:
  assumes "runnable job0" and "check_update decode input (updated_job job0 input repositoryID url) = None"
  shows "runnable (updated_job job0 input repositoryID url)"
proof -
  let ?job = "updated_job job0 input repositoryID url"
  have v: "validateJobRequiredFields ?job = None" and self: "\<not> triggers_itself ?job"
    using assms(2) by (auto simp: check_update_def split: if_splits option.splits)
  have i: "jb_ID ?job = jb_ID job0" by (simp add: updated_job_def Let_def)
  have mode: "jb_TriggerMode ?job \<in> {JobTriggerModeBranches, JobTriggerModeTags, JobTriggerModeBranchesAndTags}"
    using assms(1) mode_cases by (simp add: updated_job_def Let_def runnable_def set_if_def split: option.split)
  have clean: "\<forall>t \<in> set (jb_ArtifactTriggers ?job). clean_trigger ?job t"
  proof (cases "uj_ArtifactTriggers input")
    case None
    then have "jb_ArtifactTriggers ?job = jb_ArtifactTriggers job0" by (simp add: updated_job_def Let_def set_if_def)
    with assms(1) i show ?thesis by (simp add: runnable_def clean_trigger_def)
  next
    case (Some ts)
    then have "jb_ArtifactTriggers ?job = NormalizeJobArtifactTriggers ts" by (simp add: updated_job_def Let_def set_if_def)
    with self not_self_clean show ?thesis by (simp add: triggers_itself_def)
  qed
  show ?thesis
    unfolding runnable_def using v mode clean by (auto simp: validateJobRequiredFields_def split: if_splits)
qed

section \<open>The requests as steps\<close>

inductive service_step :: "JobService \<Rightarrow> JobService \<Rightarrow> bool" where
  create: "CreateJob x input js = Some (js', a) \<Longrightarrow> je_uuid x 0 \<noteq> [] \<Longrightarrow> service_step js js'"
| update: "UpdateJob x i input js = (js', a) \<Longrightarrow> service_step js js'"
| run: "RunJobNow x i ref js = Some (js', a) \<Longrightarrow> service_step js js'"
| webhook: "TriggerWebhookEvent x event js = Some (js', a) \<Longrightarrow> service_step js js'"
| dispatch: "DispatchArtifactTriggers y message build artifact js = Some (js', e) \<Longrightarrow> service_step js js'"
| retry: "RetryArtifactTriggerDelivery x message artifacts i js = Some (js', a) \<Longrightarrow> service_step js js'"
| register: "js_registeredRepositories js = Some repos \<Longrightarrow> RegistrationRepository_Create urls registration repos = (repos', a) \<Longrightarrow>
    service_step js (js\<lparr>js_registeredRepositories := Some repos'\<rparr>)"
| reregister: "js_registeredRepositories js = Some repos \<Longrightarrow> RegistrationRepository_Update urls registration repos = (repos', a) \<Longrightarrow>
    service_step js (js\<lparr>js_registeredRepositories := Some repos'\<rparr>)"

text \<open>Requests that make builds leave the jobs and the registered repositories alone.\<close>

definition same_jobs :: "JobService \<Rightarrow> JobService \<Rightarrow> bool" where
  "same_jobs js js' \<longleftrightarrow> js_jobRepo js' = js_jobRepo js \<and> js_registeredRepositories js' = js_registeredRepositories js"

lemma same_jobs_refl [simp]: "same_jobs js js"
  by (simp add: same_jobs_def)

lemma same_jobs_trans: "same_jobs a b \<Longrightarrow> same_jobs b c \<Longrightarrow> same_jobs a c"
  by (simp add: same_jobs_def)

lemma same_jobs_ok: "same_jobs js js' \<Longrightarrow> jobs_ok js' = jobs_ok js"
  by (simp add: same_jobs_def jobs_ok_def listed_def registered_ok_def)

lemma run_build_same: "run_build create js = Some (js', a) \<Longrightarrow> same_jobs js js'"
  by (auto simp: run_build_def same_jobs_def split: option.splits)

lemma create_build_same: "createBuildForJobWithTrigger x io job trigger js = Some (js', a) \<Longrightarrow> same_jobs js js'"
  by (auto simp: createBuildForJobWithTrigger_def dest: run_build_same split: if_splits sum.splits)

lemma with_deliveries_same: "with_deliveries f js = (js', a) \<Longrightarrow> same_jobs js js'"
  by (auto simp: with_deliveries_def same_jobs_def split: prod.splits)

lemma fst_with_deliveries_same: "same_jobs js (fst (with_deliveries f js))"
  by (rule with_deliveries_same [of f js _ "snd (with_deliveries f js)"]) simp

lemma webhook_loop_same: "webhook_loop x ev n jobs result reason js = Some (js', a) \<Longrightarrow> same_jobs js js'"
proof (induction jobs arbitrary: n result reason js)
  case (Cons job jobs)
  from Cons.prems show ?case
    by (auto dest!: Cons.IH run_build_same intro: same_jobs_trans split: if_splits option.splits sum.splits)
qed simp

lemma webhook_same: "TriggerWebhookEvent x event js = Some (js', a) \<Longrightarrow> same_jobs js js'"
  by (auto simp: TriggerWebhookEvent_def Let_def dest: webhook_loop_same split: if_splits sum.splits option.splits)

lemma queue_same: "queueArtifactTriggerDelivery x message d producer artifact job js = Some (js', a) \<Longrightarrow> same_jobs js js'"
  by (auto simp: queueArtifactTriggerDelivery_def dest!: create_build_same with_deliveries_same [OF sym] with_deliveries_same intro: same_jobs_trans
      split: option.splits sum.splits prod.splits)

lemma claim_same: "claim_delivery x build artifact job js = (js', a) \<Longrightarrow> same_jobs js js'"
  by (auto simp: claim_delivery_def dest!: with_deliveries_same intro: same_jobs_trans split: prod.splits sum.splits if_splits)

lemma dispatch_one_same: "dispatchArtifactTriggerToJob x message build artifact job js = Some (js', e) \<Longrightarrow> same_jobs js js'"
  by (auto simp: dispatchArtifactTriggerToJob_def dest!: claim_same queue_same intro: same_jobs_trans split: prod.splits sum.splits option.splits)

lemma dispatch_loop_same: "dispatch_loop y message build artifact n jobs js = Some (js', e) \<Longrightarrow> same_jobs js js'"
proof (induction jobs arbitrary: n js)
  case (Cons job jobs)
  from Cons.prems show ?case
    by (auto dest!: Cons.IH dispatch_one_same intro: same_jobs_trans split: if_splits option.splits)
qed simp

lemma dispatch_same: "DispatchArtifactTriggers y message build artifact js = Some (js', e) \<Longrightarrow> same_jobs js js'"
  by (auto simp: DispatchArtifactTriggers_def dest: dispatch_loop_same split: if_splits)

lemma retry_same: "RetryArtifactTriggerDelivery x message artifacts i js = Some (js', a) \<Longrightarrow> same_jobs js js'"
  by (auto simp: RetryArtifactTriggerDelivery_def Let_def failArtifactTriggerDeliveryRetry_def
      dest!: with_deliveries_same queue_same intro: same_jobs_trans fst_with_deliveries_same
      split: prod.splits sum.splits option.splits if_splits)

lemma run_same: "RunJobNow x i ref js = Some (js', a) \<Longrightarrow> same_jobs js js'"
  by (auto simp: RunJobNow_def dest: create_build_same split: sum.splits option.splits if_splits)

lemma put_config_same: "put_config config configs js = (js', a) \<Longrightarrow> same_jobs js js'"
  by (auto simp: put_config_def same_jobs_def split: option.splits prod.splits)

lemma upsert_same: "upsertManagedImageConfig uuid now job input js = (js', a) \<Longrightarrow> same_jobs js js'"
  by (auto simp: upsertManagedImageConfig_def Let_def dest: put_config_same split: option.splits sum.splits prod.splits)

lemma patch_same: "patchManagedImageConfig uuid created updated job patch js = (js', a) \<Longrightarrow> same_jobs js js'"
  by (auto simp: patchManagedImageConfig_def delete_config_def same_jobs_def dest!: put_config_same split: option.splits sum.splits prod.splits if_splits)

lemma put_job_ok: "jobs_ok js \<Longrightarrow> runnable job \<Longrightarrow> jobs_ok (js\<lparr>js_jobRepo := r\<lparr>jobr_jobs := gm_put i job (jobr_jobs (js_jobRepo js))\<rparr>\<rparr>)"
  using put_values [of i job "jobr_jobs (js_jobRepo js)"] by (auto simp: jobs_ok_def listed_def registered_ok_def)

lemma rollback_ok: "jobs_ok js \<Longrightarrow> jobs_ok (rollbackCreatedJob job js)"
  using delete_pairs [of "jb_ID job" "jobr_jobs (js_jobRepo js)"]
  by (fastforce simp: rollbackCreatedJob_def jobs_ok_def listed_def registered_ok_def delete_config_def JobRepository_Delete_def Let_def split: option.split)

lemma create_ok:
  assumes "CreateJob x input js = Some (js', a)" and "je_uuid x 0 \<noteq> []" and ok: "jobs_ok js"
  shows "jobs_ok js'"
proof (cases "prepared_job x input js")
  case (Inl e)
  with assms show ?thesis by (simp add: CreateJob_def)
next
  case (Inr job)
  have job: "runnable job" "jb_ID job \<noteq> []"
    using prepared_runnable [OF Inr] ok assms(2) by (simp_all add: jobs_ok_def)
  obtain repo created0 where c: "JobRepository_Create (je_uuid x 1) job (js_jobRepo js) = (repo, created0)" by fastforce
  have ok1: "jobs_ok (js\<lparr>js_jobRepo := repo\<rparr>)"
    using c job put_job_ok [OF ok runnable_stored [OF job(1)]] by (auto simp: JobRepository_Create_def Let_def)
  then show ?thesis
    using assms(1) c Inr
    by (auto simp: CreateJob_def Let_def intro!: rollback_ok dest!: upsert_same create_build_same same_jobs_ok
        split: option.splits if_splits prod.splits sum.splits)
qed

lemma update_ok:
  assumes "UpdateJob x i input js = (js', a)" and ok: "jobs_ok js"
  shows "jobs_ok js'"
proof -
  consider "js' = js" | job0 repositoryID url repo b where "GetJob i js = Inr job0"
      "check_update (je_Decode x) input (updated_job job0 input repositoryID url) = None"
      "JobRepository_Update ((updated_job job0 input repositoryID url)\<lparr>jb_UpdatedAt := je_now x 0\<rparr>) (js_jobRepo js) = (repo, b)"
      "same_jobs (js\<lparr>js_jobRepo := repo\<rparr>) js'"
    using assms(1) by (fastforce simp: UpdateJob_def Let_def dest!: patch_same split: sum.splits prod.splits option.splits if_splits)
  then show ?thesis
  proof cases
    case 2
    let ?job = "updated_job job0 input repositoryID url"
    obtain stored where stored: "map_of (jobr_jobs (js_jobRepo js)) (TrimSpace i) = Some stored" "job0 = stored \<or> (\<exists>c. job0 = stored\<lparr>jb_ManagedImageConfig := c\<rparr>)"
      using 2(1) by (auto simp: GetJob_def attachManagedImageConfig_def JobRepository_GetByID_def split: if_splits option.splits sum.splits)
    then have "listed stored js" by (force simp: listed_def dest: map_of_SomeD)
    then have "runnable job0" using ok stored(2) by (auto simp: jobs_ok_def runnable_def clean_trigger_def)
    then have "runnable ?job" by (rule updated_runnable [OF _ 2(2)])
    then have "runnable (stored_job (?job\<lparr>jb_UpdatedAt := je_now x 0\<rparr>))" by (intro runnable_stored) (simp add: runnable_def clean_trigger_def)
    from put_job_ok [OF ok this] 2(3) ok have "jobs_ok (js\<lparr>js_jobRepo := repo\<rparr>)"
      by (auto simp: JobRepository_Update_def Let_def split: if_splits)
    with same_jobs_ok [OF 2(4)] show ?thesis by simp
  qed (use ok in simp)
qed

lemma register_ok:
  assumes "js_registeredRepositories js = Some repos" and "jobs_ok js" and "set (rrr_repositories repos') \<subseteq> insert (rr_ID registration, registration) (set (rrr_repositories repos))"
  shows "jobs_ok (js\<lparr>js_registeredRepositories := Some repos'\<rparr>)"
  using assms by (fastforce simp: jobs_ok_def listed_def registered_ok_def)

lemma register_pairs:
  "RegistrationRepository_Create urls registration repos = (repos', a) \<Longrightarrow>
     \<exists>r. set (rrr_repositories repos') \<subseteq> insert (rr_ID r, r) (set (rrr_repositories repos))"
  "RegistrationRepository_Update urls registration repos = (repos', b) \<Longrightarrow>
     \<exists>r. set (rrr_repositories repos') \<subseteq> insert (rr_ID r, r) (set (rrr_repositories repos))"
  using put_pairs [of _ _ "rrr_repositories repos"]
  by (fastforce simp: RegistrationRepository_Create_def RegistrationRepository_Update_def Let_def split: option.splits if_splits)+

lemma service_step_ok: "service_step js js' \<Longrightarrow> jobs_ok js \<Longrightarrow> jobs_ok js'"
  by (induction rule: service_step.induct)
    (auto intro: create_ok update_ok register_ok dest: run_same webhook_same dispatch_same retry_same same_jobs_ok dest!: register_pairs)

text \<open>
  C18: Every stored job can be run. Starting without jobs and registered repositories, whatever jobs are created, updated,
  run or triggered and whatever repositories are registered: each stored job has a name, a repository, a branch or
  commit to build, a pipeline, one of the three modes, a priority in the range, and artifact triggers that name a
  producer and a path and do not name the job itself.
\<close>

theorem stored_jobs_runnable:
  assumes "service_step\<^sup>*\<^sup>* js js'" and "js_jobRepo js = NewJobRepository"
    and "js_registeredRepositories js = Some NewSCMRepositoryRegistrationRepository" and "listed job js'"
  shows "runnable job"
proof -
  have "jobs_ok js" using assms(2,3) by (simp add: jobs_ok_def listed_def registered_ok_def NewJobRepository_def NewSCMRepositoryRegistrationRepository_def)
  with assms(1) have "jobs_ok js'" by (induction rule: rtranclp_induct) (auto intro: service_step_ok)
  with assms(4) show ?thesis by (simp add: jobs_ok_def)
qed

theorem stored_jobs_runnable_witness:
  "\<exists>js'. service_step\<^sup>*\<^sup>* demo_job_service js' \<and> listed demo_job js' \<and> runnable demo_job"
proof -
  have "map_option (\<lambda>(js, a). jobr_jobs (js_jobRepo js)) (CreateJob demo_job_externals demo_job_input demo_job_service) = Some [(''id-0'', demo_job)]"
    by code_simp
  then obtain js a where c: "CreateJob demo_job_externals demo_job_input demo_job_service = Some (js, a)" and jobs: "jobr_jobs (js_jobRepo js) = [(''id-0'', demo_job)]"
    by auto
  have "je_uuid demo_job_externals 0 \<noteq> []" by (simp add: demo_job_externals_def)
  then have "service_step\<^sup>*\<^sup>* demo_job_service js" using service_step.create [OF c] by blast
  moreover have "listed demo_job js" using jobs by (simp add: listed_def)
  ultimately show ?thesis
    using stored_jobs_runnable [of demo_job_service js demo_job] by (auto simp: demo_job_service_def)
qed

end
