(* ===== verification/Account_Stores.thy ===== *)
theory Account_Stores
  imports Job_Stores Regex
begin

text \<open>
  Users, project memberships and API tokens: \<open>domain/user.go\<close>, \<open>domain/api_token_scope.go\<close> and their in-memory
  stores (\<open>repository/memory/user_repository.go\<close>, \<open>repository/memory/api_token_repository.go\<close>).
\<close>

section \<open>Data\<close>

definition GlobalRoleAdmin :: string where "GlobalRoleAdmin = ''admin''"
definition GlobalRoleUser :: string where "GlobalRoleUser = ''user''"

definition ProjectMemberRoleOwner :: string where "ProjectMemberRoleOwner = ''owner''"
definition ProjectMemberRoleMaintainer :: string where "ProjectMemberRoleMaintainer = ''maintainer''"
definition ProjectMemberRoleViewer :: string where "ProjectMemberRoleViewer = ''viewer''"

record User =
  usr_ID :: string
  usr_Email :: string
  usr_DisplayName :: "string option"
  usr_GlobalRole :: string
  usr_CreatedAt :: time
  usr_UpdatedAt :: time

record APIToken =
  tok_ID :: string
  tok_UserID :: string
  tok_Name :: string
  tok_Scopes :: "string list"
  tok_TokenHash :: string
  tok_TokenPrefix :: string
  tok_ExpiresAt :: "time option"
  tok_LastUsedAt :: "time option"
  tok_RevokedAt :: "time option"
  tok_CreatedAt :: time
  tok_UpdatedAt :: time

record ProjectMembership =
  mem_ProjectID :: string
  mem_UserID :: string
  mem_Role :: string
  mem_CreatedAt :: time
  mem_UpdatedAt :: time

record ProjectMembershipWithUser =
  mwu_ProjectMembership :: ProjectMembership
  mwu_Email :: string
  mwu_DisplayName :: "string option"

text \<open>The errors of accounts; errors of the store of projects are those of \<open>Job_Stores\<close>.\<close>

datatype account_error =
  RepoErrUserNotFound | RepoErrUserEmailConflict | RepoErrProjectMembershipNotFound | RepoErrAPITokenNotFound
| ProjectStoreError job_error
| ErrUserEmailRequired | ErrUserGlobalRoleInvalid | ErrUserNotPreauthorized
| ErrProjectMembershipRoleInvalid
| ErrProjectNameRequired | ErrProjectSlugRequired | ErrProjectSlugInvalid | ErrDefaultProjectDeleteForbidden | AccErrProjectIDRequired
| ErrSourceCredentialNameRequired | ErrSourceCredentialSecretRefRequired | ErrSourceCredentialKindInvalid
| ErrUnknownAPITokenScope string | ErrAPITokenNameRequired | ErrAPITokenExpirationInvalid | ErrRandomUnavailable
| ErrAPITokenInvalidFormat | ErrAPITokenNotFound | ErrAPITokenRevoked | ErrAPITokenExpired
| APITokenInvalid account_error | APITokenRepositoryFailure account_error | APITokenOwnerResolutionFailure account_error
| ErrUnauthenticated | ErrForbidden | AuthErrProjectIDRequired | ErrProjectAuthorizationNotConfigured | ErrAPITokenIdentityUnavailable
| MissingAPITokenScopeError string

section \<open>Scopes of tokens\<close>

definition APITokenScopeBuildRead :: string where "APITokenScopeBuildRead = ''build:read''"
definition APITokenScopeBuildLogs :: string where "APITokenScopeBuildLogs = ''build:logs''"
definition APITokenScopeBuildRun :: string where "APITokenScopeBuildRun = ''build:run''"
definition APITokenScopeArtifactRead :: string where "APITokenScopeArtifactRead = ''artifact:read''"

definition APITokenScopes :: "string list" where
  "APITokenScopes = [APITokenScopeArtifactRead, APITokenScopeBuildLogs, APITokenScopeBuildRead, APITokenScopeBuildRun]"

fun normalize_scopes :: "string list \<Rightarrow> string list \<Rightarrow> account_error + string list" where
  "normalize_scopes normalized [] = Inr normalized"
| "normalize_scopes normalized (value # vs) =
     (let scope = TrimSpace value
      in if scope = [] then normalize_scopes normalized vs
         else if \<not> List.member APITokenScopes scope then Inl (ErrUnknownAPITokenScope value)
         else if List.member normalized scope then normalize_scopes normalized vs
         else normalize_scopes (normalized @ [scope]) vs)"

definition NormalizeAPITokenScopes :: "string list \<Rightarrow> account_error + string list" where
  "NormalizeAPITokenScopes values = map_sum (\<lambda>e. e) (sort_slice (<)) (normalize_scopes [] values)"

definition CloneAPITokenScopes :: "string list \<Rightarrow> string list" where
  "CloneAPITokenScopes values = values"

definition HasAPITokenScope :: "string list \<Rightarrow> string \<Rightarrow> bool" where
  "HasAPITokenScope values scope = list_ex (\<lambda>candidate. candidate = scope) values"

section \<open>The store of users\<close>

record UserRepository =
  ur_users :: "(string, User) gomap"

definition NewUserRepository :: UserRepository where
  "NewUserRepository = \<lparr>ur_users = []\<rparr>"

definition emailExistsLocked :: "string \<Rightarrow> string \<Rightarrow> UserRepository \<Rightarrow> bool" where
  "emailExistsLocked email excludeID r = list_ex (\<lambda>(i, user). i \<noteq> excludeID \<and> EqualFold (usr_Email user) email) (ur_users r)"

definition UserRepository_Create :: "string \<Rightarrow> User \<Rightarrow> UserRepository \<Rightarrow> UserRepository \<times> (account_error + User)" where
  "UserRepository_Create uuid user0 r =
     (let user = (if usr_ID user0 = [] then user0\<lparr>usr_ID := uuid\<rparr> else user0)
      in if emailExistsLocked (usr_Email user) [] r then (r, Inl RepoErrUserEmailConflict)
         else (r\<lparr>ur_users := gm_put (usr_ID user) user (ur_users r)\<rparr>, Inr user))"

definition UserRepository_GetByID :: "string \<Rightarrow> UserRepository \<Rightarrow> account_error + User" where
  "UserRepository_GetByID i r = (case map_of (ur_users r) i of None \<Rightarrow> Inl RepoErrUserNotFound | Some user \<Rightarrow> Inr user)"

definition GetByEmail :: "string \<Rightarrow> UserRepository \<Rightarrow> account_error + User" where
  "GetByEmail email r =
     (case find (\<lambda>user. EqualFold (usr_Email user) email) (map snd (ur_users r)) of None \<Rightarrow> Inl RepoErrUserNotFound | Some user \<Rightarrow> Inr user)"

definition UserRepository_List :: "UserRepository \<Rightarrow> User list" where
  "UserRepository_List r = sort_slice (oldest_first usr_CreatedAt usr_ID) (map snd (ur_users r))"

definition UserRepository_Update :: "User \<Rightarrow> UserRepository \<Rightarrow> UserRepository \<times> (account_error + User)" where
  "UserRepository_Update user r =
     (if map_of (ur_users r) (usr_ID user) = None then (r, Inl RepoErrUserNotFound)
      else if emailExistsLocked (usr_Email user) (usr_ID user) r then (r, Inl RepoErrUserEmailConflict)
      else (r\<lparr>ur_users := gm_put (usr_ID user) user (ur_users r)\<rparr>, Inr user))"

section \<open>The store of memberships\<close>

record ProjectMembershipRepository =
  pmr_memberships :: "(string, ProjectMembership) gomap"

definition NewProjectMembershipRepository :: ProjectMembershipRepository where
  "NewProjectMembershipRepository = \<lparr>pmr_memberships = []\<rparr>"

definition membershipKey :: "string \<Rightarrow> string \<Rightarrow> string" where
  "membershipKey projectID userID = projectID @ '':'' @ userID"

text \<open>
  The stores of projects and users that it consults are arguments; \<open>None\<close> is a store that is not set. The code asks them
  before it takes the lock of its own store, so they may be older than that store; a request that is served alone
  passes the current ones.
\<close>

definition Membership_Upsert ::
  "ProjectRepository option \<Rightarrow> UserRepository option \<Rightarrow> ProjectMembership \<Rightarrow> ProjectMembershipRepository \<Rightarrow>
     ProjectMembershipRepository \<times> (account_error + ProjectMembership)" where
  "Membership_Upsert projects users membership0 r =
     (case (case projects of None \<Rightarrow> None
            | Some p \<Rightarrow> (case ProjectRepository_GetByID (mem_ProjectID membership0) p of Inl err \<Rightarrow> Some (ProjectStoreError err) | Inr _ \<Rightarrow> None)) of
        Some err \<Rightarrow> (r, Inl err)
      | None \<Rightarrow>
          (case (case users of None \<Rightarrow> None
                 | Some u \<Rightarrow> (case UserRepository_GetByID (mem_UserID membership0) u of Inl err \<Rightarrow> Some err | Inr _ \<Rightarrow> None)) of
             Some err \<Rightarrow> (r, Inl err)
           | None \<Rightarrow>
               (let key = membershipKey (mem_ProjectID membership0) (mem_UserID membership0);
                    membership = (case map_of (pmr_memberships r) key of
                                    None \<Rightarrow> membership0 | Some current \<Rightarrow> membership0\<lparr>mem_CreatedAt := mem_CreatedAt current\<rparr>)
                in (r\<lparr>pmr_memberships := gm_put key membership (pmr_memberships r)\<rparr>, Inr membership))))"

definition Membership_Get :: "string \<Rightarrow> string \<Rightarrow> ProjectMembershipRepository \<Rightarrow> account_error + ProjectMembership" where
  "Membership_Get projectID userID r =
     (case map_of (pmr_memberships r) (membershipKey projectID userID) of
        None \<Rightarrow> Inl RepoErrProjectMembershipNotFound | Some membership \<Rightarrow> Inr membership)"

definition membership_less :: "ProjectMembership \<Rightarrow> ProjectMembership \<Rightarrow> bool" where
  "membership_less a b \<longleftrightarrow>
     (if mem_ProjectID a = mem_ProjectID b then mem_CreatedAt a < mem_CreatedAt b else mem_ProjectID a < mem_ProjectID b)"

definition Membership_ListByUserID :: "string \<Rightarrow> ProjectMembershipRepository \<Rightarrow> ProjectMembership list" where
  "Membership_ListByUserID userID r =
     sort_slice membership_less (filter (\<lambda>membership. mem_UserID membership = userID) (map snd (pmr_memberships r)))"

fun with_users :: "UserRepository \<Rightarrow> ProjectMembership list \<Rightarrow> account_error + ProjectMembershipWithUser list" where
  "with_users users [] = Inr []"
| "with_users users (membership # ms) =
     (case UserRepository_GetByID (mem_UserID membership) users of
        Inl err \<Rightarrow> Inl err
      | Inr user \<Rightarrow>
          map_sum (\<lambda>e. e)
            (\<lambda>out. \<lparr>mwu_ProjectMembership = membership, mwu_Email = usr_Email user, mwu_DisplayName = usr_DisplayName user\<rparr> # out)
            (with_users users ms))"

definition member_less :: "ProjectMembershipWithUser \<Rightarrow> ProjectMembershipWithUser \<Rightarrow> bool" where
  "member_less a b \<longleftrightarrow>
     (if mwu_Email a = mwu_Email b then mem_UserID (mwu_ProjectMembership a) < mem_UserID (mwu_ProjectMembership b)
      else mwu_Email a < mwu_Email b)"

definition Membership_ListByProjectID ::
  "ProjectRepository option \<Rightarrow> UserRepository \<Rightarrow> string \<Rightarrow> ProjectMembershipRepository \<Rightarrow> account_error + ProjectMembershipWithUser list" where
  "Membership_ListByProjectID projects users projectID r =
     (case (case projects of None \<Rightarrow> None
            | Some p \<Rightarrow> (case ProjectRepository_GetByID projectID p of Inl err \<Rightarrow> Some (ProjectStoreError err) | Inr _ \<Rightarrow> None)) of
        Some err \<Rightarrow> Inl err
      | None \<Rightarrow>
          map_sum (\<lambda>e. e) (sort_slice member_less)
            (with_users users (filter (\<lambda>membership. mem_ProjectID membership = projectID) (map snd (pmr_memberships r)))))"

definition Membership_Delete :: "string \<Rightarrow> string \<Rightarrow> ProjectMembershipRepository \<Rightarrow> ProjectMembershipRepository \<times> account_error option" where
  "Membership_Delete projectID userID r =
     (let key = membershipKey projectID userID
      in if map_of (pmr_memberships r) key = None then (r, Some RepoErrProjectMembershipNotFound)
         else (r\<lparr>pmr_memberships := AList.delete key (pmr_memberships r)\<rparr>, None))"

definition deleteByUserID :: "string \<Rightarrow> ProjectMembershipRepository \<Rightarrow> ProjectMembershipRepository" where
  "deleteByUserID userID r = r\<lparr>pmr_memberships := filter (\<lambda>(key, membership). mem_UserID membership \<noteq> userID) (pmr_memberships r)\<rparr>"

text \<open>
  Deleting a user deletes the memberships too, where the store of memberships is connected. This is one step here; the code
  gives up the lock of the users before it takes the one of the memberships.
\<close>

definition UserRepository_Delete ::
  "string \<Rightarrow> UserRepository \<times> ProjectMembershipRepository option \<Rightarrow>
     (UserRepository \<times> ProjectMembershipRepository option) \<times> account_error option" where
  "UserRepository_Delete i s =
     (case s of
        (r, memberships) \<Rightarrow>
          (if map_of (ur_users r) i = None then ((r, memberships), Some RepoErrUserNotFound)
           else ((r\<lparr>ur_users := AList.delete i (ur_users r)\<rparr>, map_option (deleteByUserID i) memberships), None)))"

section \<open>The store of tokens\<close>

record APITokenRepository =
  atr_tokens :: "(string, APIToken) gomap"

definition NewAPITokenRepository :: APITokenRepository where
  "NewAPITokenRepository = \<lparr>atr_tokens = []\<rparr>"

definition cloneAPIToken :: "APIToken \<Rightarrow> APIToken" where
  "cloneAPIToken token = token\<lparr>tok_Scopes := CloneAPITokenScopes (tok_Scopes token)\<rparr>"

definition APITokenRepository_Create :: "string \<Rightarrow> APIToken \<Rightarrow> APITokenRepository \<Rightarrow> APITokenRepository \<times> APIToken" where
  "APITokenRepository_Create uuid token0 r =
     (let token1 = (if tok_ID token0 = [] then token0\<lparr>tok_ID := uuid\<rparr> else token0);
          token = token1\<lparr>tok_Scopes := CloneAPITokenScopes (tok_Scopes token1)\<rparr>
      in (r\<lparr>atr_tokens := gm_put (tok_ID token) token (atr_tokens r)\<rparr>, cloneAPIToken token))"

definition APITokenRepository_ListByUserID :: "string \<Rightarrow> APITokenRepository \<Rightarrow> APIToken list" where
  "APITokenRepository_ListByUserID userID r =
     sort_slice (oldest_first tok_CreatedAt tok_ID) (map cloneAPIToken (filter (\<lambda>token. tok_UserID token = userID) (map snd (atr_tokens r))))"

definition GetByHash :: "string \<Rightarrow> APITokenRepository \<Rightarrow> account_error + APIToken" where
  "GetByHash tokenHash r =
     (case find (\<lambda>token. tok_TokenHash token = tokenHash) (map snd (atr_tokens r)) of
        None \<Rightarrow> Inl RepoErrAPITokenNotFound | Some token \<Rightarrow> Inr (cloneAPIToken token))"

definition RevokeByID :: "string \<Rightarrow> string \<Rightarrow> time \<Rightarrow> APITokenRepository \<Rightarrow> APITokenRepository \<times> account_error option" where
  "RevokeByID userID tokenID revokedAt r =
     (case map_of (atr_tokens r) tokenID of
        None \<Rightarrow> (r, Some RepoErrAPITokenNotFound)
      | Some token \<Rightarrow>
          (if tok_UserID token \<noteq> userID then (r, Some RepoErrAPITokenNotFound)
           else (r\<lparr>atr_tokens := gm_put tokenID (token\<lparr>tok_RevokedAt := Some revokedAt, tok_UpdatedAt := revokedAt\<rparr>) (atr_tokens r)\<rparr>, None)))"

definition TouchLastUsed :: "string \<Rightarrow> time \<Rightarrow> APITokenRepository \<Rightarrow> APITokenRepository \<times> account_error option" where
  "TouchLastUsed tokenID lastUsedAt r =
     (case map_of (atr_tokens r) tokenID of
        None \<Rightarrow> (r, Some RepoErrAPITokenNotFound)
      | Some token \<Rightarrow>
          (r\<lparr>atr_tokens := gm_put tokenID (token\<lparr>tok_LastUsedAt := Some lastUsedAt, tok_UpdatedAt := lastUsedAt\<rparr>) (atr_tokens r)\<rparr>, None))"

section \<open>The store of credentials\<close>

definition NewSourceCredentialRepository :: SourceCredentialRepository where
  "NewSourceCredentialRepository = \<lparr>credr_credentials = []\<rparr>"

end
