(* ===== verification/Base64.thy ===== *)
theory Base64
  imports Prelude
begin

text \<open>
  \<open>base64.RawURLEncoding\<close>: the encoding of bytes with the alphabet for URLs and without padding. As Go's decoder
  does, decoding skips line breaks, ignores the unused bits of the last digit and refuses every other
  character and a single trailing digit. Bytes are characters, digits are numbers below 64.
\<close>

definition url_alphabet :: string where
  "url_alphabet = ''ABCDEFGHIJKLMNOPQRSTUVWXYZabcdefghijklmnopqrstuvwxyz0123456789-_''"

fun encode_bytes :: "nat list \<Rightarrow> nat list" where
  "encode_bytes [] = []"
| "encode_bytes [a] = [a div 4, a mod 4 * 16]"
| "encode_bytes [a, b] = [a div 4, a mod 4 * 16 + b div 16, b mod 16 * 4]"
| "encode_bytes (a # b # c # rest) =
     [a div 4, a mod 4 * 16 + b div 16, b mod 16 * 4 + c div 64, c mod 64] @ encode_bytes rest"

fun decode_digits :: "nat list \<Rightarrow> nat list option" where
  "decode_digits [] = Some []"
| "decode_digits [p] = None"
| "decode_digits [p, q] = Some [p * 4 + q div 16]"
| "decode_digits [p, q, r] = Some [p * 4 + q div 16, q mod 16 * 16 + r div 4]"
| "decode_digits (p # q # r # t # rest) =
     map_option (\<lambda>bytes. [p * 4 + q div 16, q mod 16 * 16 + r div 4, r mod 4 * 64 + t] @ bytes) (decode_digits rest)"

definition digit_of :: "char \<Rightarrow> nat option" where
  "digit_of c = find_index (\<lambda>d. d = c) url_alphabet"

definition EncodeToString :: "string \<Rightarrow> string" where
  "EncodeToString bytes = map (\<lambda>d. url_alphabet ! d) (encode_bytes (map of_char bytes))"

definition DecodeString :: "string \<Rightarrow> string option" where
  "DecodeString text =
     (case those (map digit_of (filter (\<lambda>c. c \<noteq> CHR 0x0A \<and> c \<noteq> CHR 0x0D) text)) of
        None \<Rightarrow> None | Some ds \<Rightarrow> map_option (map char_of) (decode_digits ds))"

section \<open>Decoding undoes encoding\<close>

lemma decode_encode: "\<forall>b \<in> set bs. b < 256 \<Longrightarrow> decode_digits (encode_bytes bs) = Some bs"
proof (induction bs rule: encode_bytes.induct)
  case (2 a)
  then show ?case by simp
next
  case (3 a b)
  then have "a < 256" "b < 256" by auto
  then show ?case by simp
next
  case (4 a b c rest)
  then have "a < 256" "b < 256" "c < 256" by auto
  with 4 show ?case by simp
qed simp

lemma digit_bounds:
  fixes a b c :: nat
  assumes "a < 256" and "b < 256" and "c < 256"
  shows "a div 4 < 64" "a mod 4 * 16 + b div 16 < 64" "b mod 16 * 4 + c div 64 < 64" "a mod 4 * 16 < 64" "a mod 16 * 4 < 64"
  using assms mod_less_divisor [of 4 a] mod_less_divisor [of 16 b] mod_less_divisor [of 16 a] by linarith+

lemma encode_digits: "\<forall>b \<in> set bs. b < 256 \<Longrightarrow> d \<in> set (encode_bytes bs) \<Longrightarrow> d < 64"
proof (induction bs rule: encode_bytes.induct)
  case (4 a b c rest)
  then show ?case using digit_bounds [of a b c] by auto
next
  case (2 a)
  then show ?case using digit_bounds [of a a a] by auto
next
  case (3 a b)
  then show ?case using digit_bounds [of a b a] digit_bounds [of b b b] by auto
qed simp

lemma url_alphabet_facts: "length url_alphabet = 64" "distinct url_alphabet"
  by (simp_all add: url_alphabet_def)

lemma digit_of_nth: "d < 64 \<Longrightarrow> digit_of (url_alphabet ! d) = Some d"
proof -
  assume d: "d < 64"
  then obtain i where i: "digit_of (url_alphabet ! d) = Some i"
    using find_index_None [of "\<lambda>c. c = url_alphabet ! d" url_alphabet] url_alphabet_facts(1)
    by (cases "digit_of (url_alphabet ! d)") (auto simp: digit_of_def)
  then have "i < 64" "url_alphabet ! i = url_alphabet ! d"
    using find_index_SomeD [of "\<lambda>c. c = url_alphabet ! d" url_alphabet i] url_alphabet_facts(1) by (auto simp: digit_of_def)
  with i d url_alphabet_facts show ?thesis by (simp add: nth_eq_iff_index_eq)
qed

lemma alphabet_chars: "d < 64 \<Longrightarrow> url_alphabet ! d \<noteq> CHR 0x0A \<and> url_alphabet ! d \<noteq> CHR 0x0D \<and> url_alphabet ! d \<noteq> CHR ''.''"
proof -
  assume "d < 64"
  then have "url_alphabet ! d \<in> set url_alphabet" using url_alphabet_facts(1) by simp
  then show ?thesis by (auto simp: url_alphabet_def)
qed

lemma those_map: "(\<And>x. x \<in> set xs \<Longrightarrow> f (g x) = Some x) \<Longrightarrow> those (map (f \<circ> g) xs) = Some xs"
  by (induction xs) auto

lemma DecodeString_EncodeToString [simp]: "DecodeString (EncodeToString bytes) = Some bytes"
proof -
  let ?ds = "encode_bytes (map of_char bytes)"
  have small: "\<forall>b \<in> set (map of_char bytes). b < (256::nat)" by simp
  have "filter (\<lambda>c. c \<noteq> CHR 0x0A \<and> c \<noteq> CHR 0x0D) (EncodeToString bytes) = EncodeToString bytes"
    using encode_digits [OF small] alphabet_chars by (auto simp: EncodeToString_def intro!: filter_True)
  moreover have "those (map digit_of (EncodeToString bytes)) = Some ?ds"
    using those_map [of ?ds digit_of "\<lambda>d. url_alphabet ! d"] encode_digits [OF small] digit_of_nth by (simp add: EncodeToString_def comp_def)
  ultimately show ?thesis using decode_encode [OF small] by (simp add: DecodeString_def comp_def)
qed

lemma EncodeToString_alphabet: "set (EncodeToString bytes) \<subseteq> set url_alphabet"
proof -
  have "\<forall>b \<in> set (map of_char bytes). b < (256::nat)" by simp
  with encode_digits url_alphabet_facts(1) show ?thesis by (force simp: EncodeToString_def)
qed

lemma alphabet_plain: "\<forall>c \<in> set url_alphabet. c \<noteq> CHR ''.'' \<and> \<not> is_space c"
  by code_simp

lemma EncodeToString_no_dot: "CHR ''.'' \<notin> set (EncodeToString bytes)"
  using EncodeToString_alphabet alphabet_plain by blast

lemma EncodeToString_no_space: "c \<in> set (EncodeToString bytes) \<Longrightarrow> \<not> is_space c"
  using EncodeToString_alphabet alphabet_plain by blast

end
