(* ===== verification/Account_Services.thy ===== *)
theory Account_Services
  imports Account_Stores Job_Validation Base64
begin

text \<open>
  The services of accounts: \<open>service/user_service.go\<close>, \<open>service/project_service.go\<close>,
  \<open>service/project_membership_service.go\<close>, \<open>service/source_credential_service.go\<close> and
  \<open>service/api_token_service.go\<close>. Their state is one record of the stores.
\<close>

record Accounts =
  ac_users :: UserRepository
  ac_memberships :: ProjectMembershipRepository
  ac_projects :: ProjectRepository
  ac_jobs :: "JobRepository option"
  ac_tokens :: APITokenRepository
  ac_credentials :: SourceCredentialRepository

text \<open>The clock, new identifiers by the number of the reading, the source of random bytes and SHA-256 in hexadecimal.\<close>

record AccountExternals =
  ax_now :: time
  ax_uuid :: "nat \<Rightarrow> string"
  ax_random :: "string option"
  ax_sha256_hex :: "string \<Rightarrow> string"

record OptionalStringPatch =
  osp_Set :: bool
  osp_Value :: "string option"

definition normalizeStringPtr :: "string option \<Rightarrow> string option" where
  "normalizeStringPtr value =
     (case value of None \<Rightarrow> None | Some v \<Rightarrow> (let trimmed = TrimSpace v in if trimmed = [] then None else Some trimmed))"

section \<open>Users\<close>

record CreateUserInput =
  cu_Email :: string
  cu_DisplayName :: "string option"
  cu_GlobalRole :: string

record UpdateUserInput =
  uu_Email :: "string option"
  uu_DisplayName :: OptionalStringPatch
  uu_GlobalRole :: "string option"

definition NormalizeEmail :: "string \<Rightarrow> string" where
  "NormalizeEmail value = ToLower (TrimSpace value)"

definition normalizeGlobalRole :: "string \<Rightarrow> account_error + string" where
  "normalizeGlobalRole value =
     (let trimmed = TrimSpace value
      in if trimmed = [] then Inr GlobalRoleUser
         else if trimmed = GlobalRoleAdmin \<or> trimmed = GlobalRoleUser then Inr trimmed else Inl ErrUserGlobalRoleInvalid)"

definition put_users :: "UserRepository \<times> 'a \<Rightarrow> Accounts \<Rightarrow> Accounts \<times> 'a" where
  "put_users res s = (s\<lparr>ac_users := fst res\<rparr>, snd res)"

definition CreateUser :: "AccountExternals \<Rightarrow> CreateUserInput \<Rightarrow> Accounts \<Rightarrow> Accounts \<times> (account_error + User)" where
  "CreateUser x input s =
     (let email = NormalizeEmail (cu_Email input)
      in if email = [] then (s, Inl ErrUserEmailRequired)
         else case normalizeGlobalRole (cu_GlobalRole input) of
           Inl err \<Rightarrow> (s, Inl err)
         | Inr role \<Rightarrow>
             put_users (UserRepository_Create (ax_uuid x 1)
               \<lparr>usr_ID = ax_uuid x 0, usr_Email = email, usr_DisplayName = normalizeStringPtr (cu_DisplayName input), usr_GlobalRole = role,
                usr_CreatedAt = ax_now x, usr_UpdatedAt = ax_now x\<rparr> (ac_users s)) s)"

definition ListUsers :: "Accounts \<Rightarrow> User list" where
  "ListUsers s = UserRepository_List (ac_users s)"

definition GetUser :: "string \<Rightarrow> Accounts \<Rightarrow> account_error + User" where
  "GetUser i s =
     (let trimmed = TrimSpace i in if trimmed = [] then Inl RepoErrUserNotFound else UserRepository_GetByID trimmed (ac_users s))"

text \<open>The fields of a patched user, or the first error.\<close>

definition patched_user :: "UpdateUserInput \<Rightarrow> User \<Rightarrow> account_error + User" where
  "patched_user input current0 =
     (case (case uu_Email input of
              None \<Rightarrow> Inr current0
            | Some e \<Rightarrow> (let email = NormalizeEmail e in if email = [] then Inl ErrUserEmailRequired else Inr (current0\<lparr>usr_Email := email\<rparr>))) of
        Inl err \<Rightarrow> Inl err
      | Inr current1 \<Rightarrow>
          (let current2 = (if osp_Set (uu_DisplayName input)
                           then current1\<lparr>usr_DisplayName := normalizeStringPtr (osp_Value (uu_DisplayName input))\<rparr> else current1)
           in case uu_GlobalRole input of
                None \<Rightarrow> Inr current2
              | Some r \<Rightarrow> (case normalizeGlobalRole r of Inl roleErr \<Rightarrow> Inl roleErr | Inr role \<Rightarrow> Inr (current2\<lparr>usr_GlobalRole := role\<rparr>))))"

definition UpdateUser :: "AccountExternals \<Rightarrow> string \<Rightarrow> UpdateUserInput \<Rightarrow> Accounts \<Rightarrow> Accounts \<times> (account_error + User)" where
  "UpdateUser x i input s =
     (let trimmedID = TrimSpace i
      in if trimmedID = [] then (s, Inl RepoErrUserNotFound)
         else case UserRepository_GetByID trimmedID (ac_users s) of
           Inl err \<Rightarrow> (s, Inl err)
         | Inr current \<Rightarrow>
             (case patched_user input current of
                Inl err \<Rightarrow> (s, Inl err)
              | Inr user \<Rightarrow> put_users (UserRepository_Update (user\<lparr>usr_UpdatedAt := ax_now x\<rparr>) (ac_users s)) s))"

definition DeleteUser :: "string \<Rightarrow> Accounts \<Rightarrow> Accounts \<times> account_error option" where
  "DeleteUser i s =
     (let trimmed = TrimSpace i
      in if trimmed = [] then (s, Some RepoErrUserNotFound)
         else case UserRepository_Delete trimmed (ac_users s, Some (ac_memberships s)) of
           ((users, memberships), err) \<Rightarrow>
             (s\<lparr>ac_users := users, ac_memberships := (case memberships of None \<Rightarrow> ac_memberships s | Some m \<Rightarrow> m)\<rparr>, err))"

definition resolveExternalUser ::
  "AccountExternals \<Rightarrow> string \<Rightarrow> string option \<Rightarrow> bool \<Rightarrow> Accounts \<Rightarrow> Accounts \<times> (account_error + User)" where
  "resolveExternalUser x email displayName updateDisplayName s =
     (let normalizedEmail = NormalizeEmail email
      in if normalizedEmail = [] then (s, Inl ErrUserEmailRequired)
         else case GetByEmail normalizedEmail (ac_users s) of
           Inl err \<Rightarrow> (s, Inl (if err = RepoErrUserNotFound then ErrUserNotPreauthorized else err))
         | Inr user \<Rightarrow>
             (case (if updateDisplayName then normalizeStringPtr displayName else None) of
                None \<Rightarrow> (s, Inr user)
              | Some name \<Rightarrow>
                  (if usr_DisplayName user = Some name then (s, Inr user)
                   else put_users (UserRepository_Update (user\<lparr>usr_DisplayName := Some name, usr_UpdatedAt := ax_now x\<rparr>) (ac_users s)) s)))"

definition ResolveHeaderUser :: "AccountExternals \<Rightarrow> string \<Rightarrow> string option \<Rightarrow> Accounts \<Rightarrow> Accounts \<times> (account_error + User)" where
  "ResolveHeaderUser x email displayName s = resolveExternalUser x email displayName False s"

definition ResolveOIDCUser :: "AccountExternals \<Rightarrow> string \<Rightarrow> string option \<Rightarrow> Accounts \<Rightarrow> Accounts \<times> (account_error + User)" where
  "ResolveOIDCUser x email displayName s = resolveExternalUser x email displayName True s"

text \<open>One address of \<open>BootstrapAdmins\<close>; the result is the error that ends the loop.\<close>

definition bootstrap_admin :: "AccountExternals \<Rightarrow> string \<Rightarrow> Accounts \<Rightarrow> Accounts \<times> account_error option" where
  "bootstrap_admin x email s =
     (let normalizedEmail = NormalizeEmail email;
          promote = \<lambda>user s1.
            (if usr_GlobalRole user = GlobalRoleAdmin then (s1, None)
             else case put_users (UserRepository_Update (user\<lparr>usr_GlobalRole := GlobalRoleAdmin, usr_UpdatedAt := ax_now x\<rparr>) (ac_users s1)) s1 of
                    (s2, Inl updateErr) \<Rightarrow> (s2, Some updateErr) | (s2, Inr _) \<Rightarrow> (s2, None))
      in if normalizedEmail = [] then (s, None)
         else case GetByEmail normalizedEmail (ac_users s) of
           Inr user \<Rightarrow> promote user s
         | Inl err \<Rightarrow>
             (if err \<noteq> RepoErrUserNotFound then (s, Some err)
              else case CreateUser x \<lparr>cu_Email = normalizedEmail, cu_DisplayName = None, cu_GlobalRole = GlobalRoleAdmin\<rparr> s of
                (s1, Inr _) \<Rightarrow> (s1, None)
              | (s1, Inl createErr) \<Rightarrow>
                  (if createErr \<noteq> RepoErrUserEmailConflict then (s1, Some createErr)
                   else case GetByEmail normalizedEmail (ac_users s1) of Inl getErr \<Rightarrow> (s1, Some getErr) | Inr user \<Rightarrow> promote user s1)))"

fun BootstrapAdmins :: "(nat \<Rightarrow> AccountExternals) \<Rightarrow> nat \<Rightarrow> string list \<Rightarrow> Accounts \<Rightarrow> Accounts \<times> account_error option" where
  "BootstrapAdmins x n [] s = (s, None)"
| "BootstrapAdmins x n (email # emails) s =
     (case bootstrap_admin (x n) email s of
        (s1, Some err) \<Rightarrow> (s1, Some err)
      | (s1, None) \<Rightarrow> BootstrapAdmins x (Suc n) emails s1)"

section \<open>Projects\<close>

record CreateProjectInput =
  cp_Name :: string
  cp_Slug :: string
  cp_Description :: "string option"
  cp_IsPublic :: bool

record UpdateProjectInput =
  up_Name :: "string option"
  up_Slug :: "string option"
  up_Description :: OptionalStringPatch
  up_IsPublic :: "bool option"

definition projectSlugPattern :: regex where
  "projectSlugPattern =
     (let word = plus (Chars (lower_letters @ digits)) in Seq word (Star (Seq (lit CHR ''-'') word)))"

definition store_project :: "ProjectRepository \<times> (job_error + Project) \<Rightarrow> Accounts \<Rightarrow> Accounts \<times> (account_error + Project)" where
  "store_project res s = (s\<lparr>ac_projects := fst res\<rparr>, map_sum ProjectStoreError (\<lambda>p. p) (snd res))"

definition CreateProject :: "AccountExternals \<Rightarrow> CreateProjectInput \<Rightarrow> Accounts \<Rightarrow> Accounts \<times> (account_error + Project)" where
  "CreateProject x input s =
     (let name = TrimSpace (cp_Name input); slug = normalizeProjectSlug (cp_Slug input)
      in if name = [] then (s, Inl ErrProjectNameRequired)
         else if slug = [] then (s, Inl ErrProjectSlugRequired)
         else if \<not> matches projectSlugPattern slug then (s, Inl ErrProjectSlugInvalid)
         else store_project (ProjectRepository_Create (ax_uuid x 1)
           \<lparr>prj_ID = ax_uuid x 0, prj_Name = name, prj_Slug = slug, prj_Description = normalizeStringPtr (cp_Description input),
            prj_IsPublic = cp_IsPublic input, prj_CreatedAt = ax_now x, prj_UpdatedAt = ax_now x\<rparr> (ac_projects s)) s)"

definition GetProject :: "string \<Rightarrow> Accounts \<Rightarrow> account_error + Project" where
  "GetProject i s =
     (let trimmed = TrimSpace i
      in if trimmed = [] then Inl AccErrProjectIDRequired
         else map_sum ProjectStoreError (\<lambda>p. p) (ProjectRepository_GetByID trimmed (ac_projects s)))"

definition GetProjectsByIDs :: "string list \<Rightarrow> Accounts \<Rightarrow> Project list" where
  "GetProjectsByIDs ids s = ProjectRepository_GetByIDs ids (ac_projects s)"

definition GetProjectBySlug :: "string \<Rightarrow> Accounts \<Rightarrow> account_error + Project" where
  "GetProjectBySlug slug s =
     (let trimmed = normalizeProjectSlug slug
      in if trimmed = [] then Inl ErrProjectSlugRequired
         else map_sum ProjectStoreError (\<lambda>p. p) (ProjectRepository_GetBySlug trimmed (ac_projects s)))"

definition ListProjects :: "Accounts \<Rightarrow> Project list" where
  "ListProjects s = ProjectRepository_List (ac_projects s)"

definition patched_project :: "UpdateProjectInput \<Rightarrow> Project \<Rightarrow> account_error + Project" where
  "patched_project input current0 =
     (case (case up_Name input of
              None \<Rightarrow> Inr current0
            | Some n \<Rightarrow> (let name = TrimSpace n in if name = [] then Inl ErrProjectNameRequired else Inr (current0\<lparr>prj_Name := name\<rparr>))) of
        Inl err \<Rightarrow> Inl err
      | Inr current1 \<Rightarrow>
          (case (case up_Slug input of
                   None \<Rightarrow> Inr current1
                 | Some v \<Rightarrow> (let slug = normalizeProjectSlug v
                             in if slug = [] then Inl ErrProjectSlugRequired
                                else if \<not> matches projectSlugPattern slug then Inl ErrProjectSlugInvalid
                                else Inr (current1\<lparr>prj_Slug := slug\<rparr>))) of
             Inl err \<Rightarrow> Inl err
           | Inr current2 \<Rightarrow>
               (let current3 = (if osp_Set (up_Description input)
                                then current2\<lparr>prj_Description := normalizeStringPtr (osp_Value (up_Description input))\<rparr> else current2)
                in Inr (case up_IsPublic input of None \<Rightarrow> current3 | Some b \<Rightarrow> current3\<lparr>prj_IsPublic := b\<rparr>))))"

definition UpdateProject :: "AccountExternals \<Rightarrow> string \<Rightarrow> UpdateProjectInput \<Rightarrow> Accounts \<Rightarrow> Accounts \<times> (account_error + Project)" where
  "UpdateProject x i input s =
     (let trimmedID = TrimSpace i
      in if trimmedID = [] then (s, Inl AccErrProjectIDRequired)
         else case ProjectRepository_GetByID trimmedID (ac_projects s) of
           Inl err \<Rightarrow> (s, Inl (ProjectStoreError err))
         | Inr current \<Rightarrow>
             (case patched_project input current of
                Inl err \<Rightarrow> (s, Inl err)
              | Inr project \<Rightarrow> store_project (ProjectRepository_Update (project\<lparr>prj_UpdatedAt := ax_now x\<rparr>) (ac_projects s)) s))"

definition DeleteProject :: "string \<Rightarrow> Accounts \<Rightarrow> Accounts \<times> account_error option" where
  "DeleteProject i s =
     (let trimmed = TrimSpace i
      in if trimmed = [] then (s, Some AccErrProjectIDRequired)
         else case ProjectRepository_GetByID trimmed (ac_projects s) of
           Inl err \<Rightarrow> (s, Some (ProjectStoreError err))
         | Inr project \<Rightarrow>
             (if prj_Slug project = DefaultProjectSlug then (s, Some ErrDefaultProjectDeleteForbidden)
              else case ProjectRepository_Delete trimmed (ac_jobs s) (ac_projects s) of
                (projects, err) \<Rightarrow> (s\<lparr>ac_projects := projects\<rparr>, map_option ProjectStoreError err)))"

section \<open>Memberships\<close>

record UpsertProjectMembershipInput =
  um_ProjectID :: string
  um_UserID :: string
  um_Role :: string

definition normalizeProjectMemberRole :: "string \<Rightarrow> account_error + string" where
  "normalizeProjectMemberRole value =
     (if List.member [ProjectMemberRoleOwner, ProjectMemberRoleMaintainer, ProjectMemberRoleViewer] (TrimSpace value)
      then Inr (TrimSpace value) else Inl ErrProjectMembershipRoleInvalid)"

definition UpsertProjectMembership ::
  "AccountExternals \<Rightarrow> UpsertProjectMembershipInput \<Rightarrow> Accounts \<Rightarrow> Accounts \<times> (account_error + ProjectMembership)" where
  "UpsertProjectMembership x input s =
     (let projectID = TrimSpace (um_ProjectID input); userID = TrimSpace (um_UserID input)
      in if projectID = [] then (s, Inl (ProjectStoreError RepoErrProjectNotFound))
         else if userID = [] then (s, Inl RepoErrUserNotFound)
         else case normalizeProjectMemberRole (um_Role input) of
           Inl err \<Rightarrow> (s, Inl err)
         | Inr role \<Rightarrow>
             (case Membership_Upsert (Some (ac_projects s)) (Some (ac_users s))
                     \<lparr>mem_ProjectID = projectID, mem_UserID = userID, mem_Role = role, mem_CreatedAt = ax_now x, mem_UpdatedAt = ax_now x\<rparr>
                     (ac_memberships s) of
                (r, answer) \<Rightarrow> (s\<lparr>ac_memberships := r\<rparr>, answer)))"

definition GetProjectMembership :: "string \<Rightarrow> string \<Rightarrow> Accounts \<Rightarrow> account_error + ProjectMembership" where
  "GetProjectMembership projectID userID s = Membership_Get (TrimSpace projectID) (TrimSpace userID) (ac_memberships s)"

definition ListProjectMembershipsByUser :: "string \<Rightarrow> Accounts \<Rightarrow> ProjectMembership list" where
  "ListProjectMembershipsByUser userID s =
     (let trimmedUserID = TrimSpace userID in if trimmedUserID = [] then [] else Membership_ListByUserID trimmedUserID (ac_memberships s))"

definition ListProjectMembers :: "string \<Rightarrow> Accounts \<Rightarrow> account_error + ProjectMembershipWithUser list" where
  "ListProjectMembers projectID s =
     (let trimmedProjectID = TrimSpace projectID
      in if trimmedProjectID = [] then Inl (ProjectStoreError RepoErrProjectNotFound)
         else case ProjectRepository_GetByID trimmedProjectID (ac_projects s) of
           Inl err \<Rightarrow> Inl (ProjectStoreError err)
         | Inr _ \<Rightarrow> Membership_ListByProjectID (Some (ac_projects s)) (ac_users s) trimmedProjectID (ac_memberships s))"

definition DeleteProjectMembership :: "string \<Rightarrow> string \<Rightarrow> Accounts \<Rightarrow> Accounts \<times> account_error option" where
  "DeleteProjectMembership projectID userID s =
     (let trimmedProjectID = TrimSpace projectID; trimmedUserID = TrimSpace userID
      in if trimmedProjectID = [] then (s, Some (ProjectStoreError RepoErrProjectNotFound))
         else if trimmedUserID = [] then (s, Some RepoErrUserNotFound)
         else case Membership_Delete trimmedProjectID trimmedUserID (ac_memberships s) of (r, err) \<Rightarrow> (s\<lparr>ac_memberships := r\<rparr>, err))"

section \<open>Credentials\<close>

definition SourceCredentialKindHTTPSToken :: string where "SourceCredentialKindHTTPSToken = ''https_token''"
definition SourceCredentialKindSSHKey :: string where "SourceCredentialKindSSHKey = ''ssh_key''"

record CreateSourceCredentialInput =
  cc_Name :: string
  cc_Kind :: string
  cc_Username :: "string option"
  cc_SecretRef :: string

record UpdateSourceCredentialInput =
  uc_Name :: "string option"
  uc_Kind :: "string option"
  uc_Username :: OptionalStringPatch
  uc_SecretRef :: "string option"

definition normalizeCredentialKind :: "string \<Rightarrow> account_error + string" where
  "normalizeCredentialKind value =
     (let trimmed = TrimSpace value
      in if trimmed = SourceCredentialKindHTTPSToken \<or> trimmed = SourceCredentialKindSSHKey then Inr trimmed
         else Inl ErrSourceCredentialKindInvalid)"

definition CreateSourceCredential ::
  "AccountExternals \<Rightarrow> CreateSourceCredentialInput \<Rightarrow> Accounts \<Rightarrow> Accounts \<times> (account_error + SourceCredential)" where
  "CreateSourceCredential x input s =
     (case normalizeCredentialKind (cc_Kind input) of
        Inl err \<Rightarrow> (s, Inl err)
      | Inr kind \<Rightarrow>
          (let name = TrimSpace (cc_Name input); secretRef = TrimSpace (cc_SecretRef input)
           in if name = [] then (s, Inl ErrSourceCredentialNameRequired)
              else if secretRef = [] then (s, Inl ErrSourceCredentialSecretRefRequired)
              else case SourceCredential_Create
                     \<lparr>cred_ID = ax_uuid x 0, cred_Name = name, cred_Kind = kind, cred_Username = normalizeStringPtr (cc_Username input),
                      cred_SecretRef = secretRef, cred_CreatedAt = ax_now x, cred_UpdatedAt = ax_now x\<rparr> (ac_credentials s) of
                     (r, created) \<Rightarrow> (s\<lparr>ac_credentials := r\<rparr>, Inr created)))"

definition GetSourceCredential :: "string \<Rightarrow> Accounts \<Rightarrow> account_error + SourceCredential" where
  "GetSourceCredential i s =
     (let trimmed = TrimSpace i
      in if trimmed = [] then Inl (ProjectStoreError RepoErrSourceCredentialNotFound)
         else map_sum ProjectStoreError (\<lambda>c. c) (SourceCredential_GetByID trimmed (ac_credentials s)))"

definition patched_credential :: "UpdateSourceCredentialInput \<Rightarrow> SourceCredential \<Rightarrow> account_error + SourceCredential" where
  "patched_credential input current0 =
     (case (case uc_Name input of
              None \<Rightarrow> Inr current0
            | Some n \<Rightarrow> (let name = TrimSpace n in if name = [] then Inl ErrSourceCredentialNameRequired else Inr (current0\<lparr>cred_Name := name\<rparr>))) of
        Inl err \<Rightarrow> Inl err
      | Inr current1 \<Rightarrow>
          (case (case uc_Kind input of
                   None \<Rightarrow> Inr current1
                 | Some k \<Rightarrow> (case normalizeCredentialKind k of Inl err \<Rightarrow> Inl err | Inr kind \<Rightarrow> Inr (current1\<lparr>cred_Kind := kind\<rparr>))) of
             Inl err \<Rightarrow> Inl err
           | Inr current2 \<Rightarrow>
               (let current3 = (if osp_Set (uc_Username input)
                                then current2\<lparr>cred_Username := normalizeStringPtr (osp_Value (uc_Username input))\<rparr> else current2)
                in case uc_SecretRef input of
                     None \<Rightarrow> Inr current3
                   | Some v \<Rightarrow> (let secretRef = TrimSpace v
                               in if secretRef = [] then Inl ErrSourceCredentialSecretRefRequired
                                  else Inr (current3\<lparr>cred_SecretRef := secretRef\<rparr>)))))"

definition UpdateSourceCredential ::
  "AccountExternals \<Rightarrow> string \<Rightarrow> UpdateSourceCredentialInput \<Rightarrow> Accounts \<Rightarrow> Accounts \<times> (account_error + SourceCredential)" where
  "UpdateSourceCredential x i input s =
     (let trimmedID = TrimSpace i
      in if trimmedID = [] then (s, Inl (ProjectStoreError RepoErrSourceCredentialNotFound))
         else case SourceCredential_GetByID trimmedID (ac_credentials s) of
           Inl err \<Rightarrow> (s, Inl (ProjectStoreError err))
         | Inr current \<Rightarrow>
             (case patched_credential input current of
                Inl err \<Rightarrow> (s, Inl err)
              | Inr credential \<Rightarrow>
                  (case SourceCredential_Update (credential\<lparr>cred_UpdatedAt := ax_now x\<rparr>) (ac_credentials s) of
                     (r, answer) \<Rightarrow> (s\<lparr>ac_credentials := r\<rparr>, map_sum ProjectStoreError (\<lambda>c. c) answer))))"

definition DeleteSourceCredential :: "string \<Rightarrow> Accounts \<Rightarrow> Accounts \<times> account_error option" where
  "DeleteSourceCredential i s =
     (let trimmed = TrimSpace i
      in if trimmed = [] then (s, Some (ProjectStoreError RepoErrSourceCredentialNotFound))
         else case SourceCredential_Delete trimmed (ac_credentials s) of
           (r, err) \<Rightarrow> (s\<lparr>ac_credentials := r\<rparr>, map_option ProjectStoreError err))"

section \<open>API tokens\<close>

definition APITokenPrefix :: string where "APITokenPrefix = ''coyote_pat_''"

definition apiTokenLastUsedUpdateInterval :: time where
  "apiTokenLastUsedUpdateInterval = 5 * 60 * 1000000000"

record CreateAPITokenInput =
  ct_UserID :: string
  ct_Name :: string
  ct_ExpiresAt :: "time option"
  ct_Scopes :: "string list"

record CreatedAPIToken =
  cat_Token :: APIToken
  cat_PlaintextToken :: string

record AuthenticatedAPIToken =
  aat_User :: User
  aat_Token :: APIToken

definition HashAPIToken :: "AccountExternals \<Rightarrow> string \<Rightarrow> string" where
  "HashAPIToken x plaintext = ax_sha256_hex x plaintext"

definition DisplayAPITokenPrefix :: "string \<Rightarrow> string" where
  "DisplayAPITokenPrefix plaintext =
     (if length plaintext \<le> length APITokenPrefix + 8 then plaintext else take (length APITokenPrefix + 8) plaintext)"

text \<open>The 32 random bytes, or \<open>None\<close> when they cannot be read.\<close>

definition generatePlaintextToken :: "AccountExternals \<Rightarrow> account_error + string" where
  "generatePlaintextToken x =
     (case ax_random x of None \<Rightarrow> Inl ErrRandomUnavailable | Some buf \<Rightarrow> Inr (APITokenPrefix @ EncodeToString buf))"

definition CreateAPIToken :: "AccountExternals \<Rightarrow> CreateAPITokenInput \<Rightarrow> Accounts \<Rightarrow> Accounts \<times> (account_error + CreatedAPIToken)" where
  "CreateAPIToken x input s =
     (let userID = TrimSpace (ct_UserID input); name = TrimSpace (ct_Name input); now = ax_now x
      in if userID = [] then (s, Inl RepoErrUserNotFound)
         else case UserRepository_GetByID userID (ac_users s) of
           Inl err \<Rightarrow> (s, Inl err)
         | Inr _ \<Rightarrow>
             (if name = [] then (s, Inl ErrAPITokenNameRequired)
              else case NormalizeAPITokenScopes (ct_Scopes input) of
                Inl err \<Rightarrow> (s, Inl err)
              | Inr scopes \<Rightarrow>
                  (if (case ct_ExpiresAt input of None \<Rightarrow> False | Some e \<Rightarrow> \<not> e > now) then (s, Inl ErrAPITokenExpirationInvalid)
                   else case generatePlaintextToken x of
                     Inl err \<Rightarrow> (s, Inl err)
                   | Inr plaintext \<Rightarrow>
                       (case APITokenRepository_Create (ax_uuid x 1)
                               \<lparr>tok_ID = ax_uuid x 0, tok_UserID = userID, tok_Name = name, tok_Scopes = scopes, tok_TokenHash = HashAPIToken x plaintext,
                                tok_TokenPrefix = DisplayAPITokenPrefix plaintext, tok_ExpiresAt = ct_ExpiresAt input, tok_LastUsedAt = None,
                                tok_RevokedAt = None, tok_CreatedAt = now, tok_UpdatedAt = now\<rparr> (ac_tokens s) of
                          (r, created) \<Rightarrow> (s\<lparr>ac_tokens := r\<rparr>, Inr \<lparr>cat_Token = created, cat_PlaintextToken = plaintext\<rparr>)))))"

definition ListAPITokens :: "string \<Rightarrow> Accounts \<Rightarrow> account_error + APIToken list" where
  "ListAPITokens userID s =
     (let trimmedUserID = TrimSpace userID
      in if trimmedUserID = [] then Inl RepoErrUserNotFound else Inr (APITokenRepository_ListByUserID trimmedUserID (ac_tokens s)))"

definition RevokeAPIToken :: "AccountExternals \<Rightarrow> string \<Rightarrow> string \<Rightarrow> Accounts \<Rightarrow> Accounts \<times> account_error option" where
  "RevokeAPIToken x userID tokenID s =
     (let trimmedUserID = TrimSpace userID; trimmedTokenID = TrimSpace tokenID
      in if trimmedUserID = [] \<or> trimmedTokenID = [] then (s, Some RepoErrAPITokenNotFound)
         else case RevokeByID trimmedUserID trimmedTokenID (ax_now x) (ac_tokens s) of (r, err) \<Rightarrow> (s\<lparr>ac_tokens := r\<rparr>, err))"

definition shouldTouchAPITokenLastUsed :: "APIToken \<Rightarrow> time \<Rightarrow> bool" where
  "shouldTouchAPITokenLastUsed token now =
     (case tok_LastUsedAt token of None \<Rightarrow> True | Some t \<Rightarrow> \<not> t > now - apiTokenLastUsedUpdateInterval)"

definition AuthenticateAPIToken :: "AccountExternals \<Rightarrow> string \<Rightarrow> Accounts \<Rightarrow> Accounts \<times> (account_error + AuthenticatedAPIToken)" where
  "AuthenticateAPIToken x plaintext s =
     (let trimmed = TrimSpace plaintext; now = ax_now x
      in if \<not> HasPrefix trimmed APITokenPrefix then (s, Inl (APITokenInvalid ErrAPITokenInvalidFormat))
         else case GetByHash (HashAPIToken x trimmed) (ac_tokens s) of
           Inl err \<Rightarrow> (s, Inl (if err = RepoErrAPITokenNotFound then APITokenInvalid ErrAPITokenNotFound else APITokenRepositoryFailure err))
         | Inr token \<Rightarrow>
             (if tok_RevokedAt token \<noteq> None then (s, Inl (APITokenInvalid ErrAPITokenRevoked))
              else if (case tok_ExpiresAt token of None \<Rightarrow> False | Some e \<Rightarrow> \<not> e > now) then (s, Inl (APITokenInvalid ErrAPITokenExpired))
              else case UserRepository_GetByID (tok_UserID token) (ac_users s) of
                Inl err \<Rightarrow> (s, Inl (APITokenOwnerResolutionFailure err))
              | Inr user \<Rightarrow>
                  ((if shouldTouchAPITokenLastUsed token now then s\<lparr>ac_tokens := fst (TouchLastUsed (tok_ID token) now (ac_tokens s))\<rparr> else s),
                   Inr \<lparr>aat_User = user, aat_Token = token\<rparr>)))"

end
