(* ===== verification/Authorization.thy ===== *)
theory Authorization
  imports Account_Services
begin

text \<open>
  Who may do what: \<open>authorization/authorizer.go\<close> and the checks and the middleware of \<open>auth/auth.go\<close>, with the signed
  cookies of \<open>auth/session.go\<close> and the claims of \<open>auth/oidc.go\<close>. The keyed hash and the JSON of the cookies are arguments.
\<close>

section \<open>The authorizer\<close>

record APITokenIdentity =
  ati_ID :: string
  ati_Scopes :: "string list"

record Principal =
  pri_User :: User
  pri_APIToken :: "APITokenIdentity option"

text \<open>The lookup of memberships, with the listing by user where the lookup has one (\<open>ProjectMembershipBatchLookup\<close>).\<close>

record ProjectRoleLookup =
  prl_GetProjectMembership :: "string \<Rightarrow> string \<Rightarrow> account_error + ProjectMembership"
  prl_ListProjectMembershipsByUser :: "(string \<Rightarrow> account_error + ProjectMembership list) option"

record Authorizer =
  az_AuthDisabled :: bool
  az_Memberships :: "ProjectRoleLookup option"

definition NewAuthorizer :: "bool \<Rightarrow> ProjectRoleLookup option \<Rightarrow> Authorizer" where
  "NewAuthorizer authDisabled memberships = \<lparr>az_AuthDisabled = authDisabled, az_Memberships = memberships\<rparr>"

text \<open>The lookup that the membership service gives.\<close>

definition membership_lookup :: "Accounts \<Rightarrow> ProjectRoleLookup" where
  "membership_lookup s =
     \<lparr>prl_GetProjectMembership = \<lambda>projectID userID. GetProjectMembership projectID userID s,
      prl_ListProjectMembershipsByUser = Some (\<lambda>userID. Inr (ListProjectMembershipsByUser userID s))\<rparr>"

definition IsGlobalAdmin :: "User \<Rightarrow> bool" where
  "IsGlobalAdmin user \<longleftrightarrow> usr_GlobalRole user = GlobalRoleAdmin"

definition projectRoleRank :: "string \<Rightarrow> int" where
  "projectRoleRank role =
     (if role = ProjectMemberRoleOwner then 3 else if role = ProjectMemberRoleMaintainer then 2 else if role = ProjectMemberRoleViewer then 1 else 0)"

definition HasProjectRole :: "ProjectRoleLookup \<Rightarrow> User \<Rightarrow> string \<Rightarrow> string \<Rightarrow> account_error + bool" where
  "HasProjectRole lookup user projectID minimum =
     (case prl_GetProjectMembership lookup projectID (usr_ID user) of
        Inl err \<Rightarrow> (if err = RepoErrProjectMembershipNotFound then Inr False else Inl err)
      | Inr membership \<Rightarrow> Inr (projectRoleRank (mem_Role membership) \<ge> projectRoleRank minimum))"

definition CanAccessProject :: "Authorizer \<Rightarrow> Principal \<Rightarrow> string \<Rightarrow> string \<Rightarrow> account_error + bool" where
  "CanAccessProject a who projectID minimum =
     (if az_AuthDisabled a \<or> IsGlobalAdmin (pri_User who) then Inr True
      else case az_Memberships a of
        None \<Rightarrow> Inl ErrProjectAuthorizationNotConfigured
      | Some lookup \<Rightarrow> HasProjectRole lookup (pri_User who) projectID minimum)"

definition RequireProjectRole :: "Authorizer \<Rightarrow> Principal \<Rightarrow> string \<Rightarrow> string \<Rightarrow> account_error option" where
  "RequireProjectRole a who projectID minimum =
     (if az_AuthDisabled a then None
      else if TrimSpace projectID = [] then Some AuthErrProjectIDRequired
      else if TrimSpace (usr_ID (pri_User who)) = [] then Some ErrUnauthenticated
      else case CanAccessProject a who projectID minimum of
        Inl err \<Rightarrow> Some err
      | Inr allowed \<Rightarrow> (if allowed then None else Some ErrForbidden))"

definition RequireAPITokenScope :: "Principal \<Rightarrow> string \<Rightarrow> account_error option" where
  "RequireAPITokenScope who scope =
     (case pri_APIToken who of
        None \<Rightarrow> None
      | Some token \<Rightarrow>
          (if TrimSpace (ati_ID token) = [] then Some ErrAPITokenIdentityUnavailable
           else if HasAPITokenScope (ati_Scopes token) scope then None
           else Some (MissingAPITokenScopeError scope)))"

definition staticProjectRoleLookup :: "(string, ProjectMembership) gomap \<Rightarrow> ProjectRoleLookup" where
  "staticProjectRoleLookup memberships =
     \<lparr>prl_GetProjectMembership = \<lambda>projectID userID.
        (case map_of memberships projectID of
           None \<Rightarrow> Inl RepoErrProjectMembershipNotFound
         | Some membership \<Rightarrow> (if mem_UserID membership \<noteq> userID then Inl RepoErrProjectMembershipNotFound else Inr membership)),
      prl_ListProjectMembershipsByUser = None\<rparr>"

text \<open>A Go set of identifiers is a list without duplicates; its order is not specified.\<close>

fun allowed_projects :: "ProjectRoleLookup \<Rightarrow> User \<Rightarrow> string \<Rightarrow> string list \<Rightarrow> account_error + string list" where
  "allowed_projects lookup user minimum [] = Inr []"
| "allowed_projects lookup user minimum (projectID # ids) =
     (case HasProjectRole lookup user projectID minimum of
        Inl err \<Rightarrow> Inl err
      | Inr hasRole \<Rightarrow> map_sum (\<lambda>e. e) (\<lambda>allowed. if hasRole then projectID # allowed else allowed) (allowed_projects lookup user minimum ids))"

definition FilterProjectIDs :: "Authorizer \<Rightarrow> Principal \<Rightarrow> string list \<Rightarrow> string \<Rightarrow> account_error + string list" where
  "FilterProjectIDs a who projectIDs minimum =
     (let uniqueProjectIDs = remdups (filter (\<lambda>i. i \<noteq> []) (map TrimSpace projectIDs)); user = pri_User who
      in if uniqueProjectIDs = [] \<or> az_AuthDisabled a \<or> IsGlobalAdmin user then Inr uniqueProjectIDs
         else if TrimSpace (usr_ID user) = [] then Inl ErrUnauthenticated
         else case az_Memberships a of
           None \<Rightarrow> Inl ErrProjectAuthorizationNotConfigured
         | Some memberships \<Rightarrow>
             (case (case prl_ListProjectMembershipsByUser memberships of
                      None \<Rightarrow> Inr memberships
                    | Some listing \<Rightarrow>
                        map_sum (\<lambda>e. e) (\<lambda>ms. staticProjectRoleLookup (fold (\<lambda>m cached. gm_put (mem_ProjectID m) m cached) ms []))
                          (listing (usr_ID user))) of
                Inl err \<Rightarrow> Inl err
              | Inr lookup \<Rightarrow> allowed_projects lookup user minimum uniqueProjectIDs))"

section \<open>Checks by kind of request\<close>

definition ModeDisabled :: string where "ModeDisabled = ''disabled''"
definition ModeHeader :: string where "ModeHeader = ''header''"
definition ModeOIDC :: string where "ModeOIDC = ''oidc''"

definition MethodHeader :: string where "MethodHeader = ''header''"
definition MethodOIDC :: string where "MethodOIDC = ''oidc''"
definition MethodAPIToken :: string where "MethodAPIToken = ''api_token''"

definition ParseMode :: "string \<Rightarrow> string" where
  "ParseMode value =
     (let mode = ToLower (TrimSpace value) in if mode = ModeHeader then ModeHeader else if mode = ModeOIDC then ModeOIDC else ModeDisabled)"

definition ParseBootstrapAdminEmails :: "string \<Rightarrow> string list" where
  "ParseBootstrapAdminEmails value = remdups (filter (\<lambda>e. e \<noteq> []) (map NormalizeEmail (SplitChar CHR '','' value)))"

definition canAccessProject :: "ProjectRoleLookup option \<Rightarrow> string \<Rightarrow> User \<Rightarrow> string \<Rightarrow> string \<Rightarrow> account_error + bool" where
  "canAccessProject lookup mode user projectID minimum =
     CanAccessProject (NewAuthorizer (mode = ModeDisabled) lookup) \<lparr>pri_User = user, pri_APIToken = None\<rparr> projectID minimum"

definition CanManageUsers :: "string \<Rightarrow> User \<Rightarrow> bool" where
  "CanManageUsers mode user = (if mode = ModeDisabled then True else IsGlobalAdmin user)"

definition CanManageCredentials :: "string \<Rightarrow> User \<Rightarrow> bool" where
  "CanManageCredentials mode user = (if mode = ModeDisabled then True else IsGlobalAdmin user)"

text \<open>These two dereference the lookup without the check of \<open>CanAccessProject\<close>.\<close>

definition CanViewProjectMembers :: "ProjectRoleLookup \<Rightarrow> string \<Rightarrow> User \<Rightarrow> string \<Rightarrow> account_error + bool" where
  "CanViewProjectMembers lookup mode user projectID =
     (if mode = ModeDisabled then Inr True else if IsGlobalAdmin user then Inr True
      else HasProjectRole lookup user projectID ProjectMemberRoleViewer)"

definition CanManageProjectMembers :: "ProjectRoleLookup \<Rightarrow> string \<Rightarrow> User \<Rightarrow> string \<Rightarrow> account_error + bool" where
  "CanManageProjectMembers lookup mode user projectID =
     (if mode = ModeDisabled then Inr True else if IsGlobalAdmin user then Inr True
      else HasProjectRole lookup user projectID ProjectMemberRoleOwner)"

definition CanReadProject :: "ProjectRoleLookup option \<Rightarrow> string \<Rightarrow> User \<Rightarrow> string \<Rightarrow> account_error + bool" where
  "CanReadProject lookup mode user projectID = canAccessProject lookup mode user projectID ProjectMemberRoleViewer"

definition CanUpdateProject :: "ProjectRoleLookup option \<Rightarrow> string \<Rightarrow> User \<Rightarrow> string \<Rightarrow> account_error + bool" where
  "CanUpdateProject lookup mode user projectID = canAccessProject lookup mode user projectID ProjectMemberRoleOwner"

definition CanManageProjectJobs :: "ProjectRoleLookup option \<Rightarrow> string \<Rightarrow> User \<Rightarrow> string \<Rightarrow> account_error + bool" where
  "CanManageProjectJobs lookup mode user projectID = canAccessProject lookup mode user projectID ProjectMemberRoleMaintainer"

definition CanTriggerBuild :: "ProjectRoleLookup option \<Rightarrow> string \<Rightarrow> User \<Rightarrow> string \<Rightarrow> account_error + bool" where
  "CanTriggerBuild lookup mode user projectID = canAccessProject lookup mode user projectID ProjectMemberRoleMaintainer"

definition CanCancelBuild_auth :: "ProjectRoleLookup option \<Rightarrow> string \<Rightarrow> User \<Rightarrow> string \<Rightarrow> account_error + bool" where
  "CanCancelBuild_auth lookup mode user projectID = canAccessProject lookup mode user projectID ProjectMemberRoleMaintainer"

definition CanReadProjectResources :: "ProjectRoleLookup option \<Rightarrow> string \<Rightarrow> User \<Rightarrow> string \<Rightarrow> account_error + bool" where
  "CanReadProjectResources lookup mode user projectID = canAccessProject lookup mode user projectID ProjectMemberRoleViewer"

definition CanDownloadArtifact :: "ProjectRoleLookup option \<Rightarrow> string \<Rightarrow> User \<Rightarrow> string \<Rightarrow> account_error + bool" where
  "CanDownloadArtifact lookup mode user projectID = canAccessProject lookup mode user projectID ProjectMemberRoleViewer"

section \<open>Signed cookies\<close>

datatype SameSite = SameSiteDefaultMode | SameSiteLaxMode | SameSiteStrictMode | SameSiteNoneMode

datatype session_error = ErrSessionNotFound | ErrSessionInvalid | SessionConfigError string

record sessionPayload =
  sp_UserID :: string
  sp_ExpiresAt :: int

record authRequestPayload =
  ap_State :: string
  ap_Nonce :: string
  ap_ExpiresAt :: int

record SessionCodec =
  sc_hmac :: "string \<Rightarrow> string \<Rightarrow> string"
  sc_marshalSession :: "sessionPayload \<Rightarrow> string"
  sc_unmarshalSession :: "string \<Rightarrow> sessionPayload option"
  sc_marshalAuthRequest :: "authRequestPayload \<Rightarrow> string"
  sc_unmarshalAuthRequest :: "string \<Rightarrow> authRequestPayload option"

record Cookie =
  ck_Name :: string
  ck_Value :: string
  ck_Path :: string
  ck_MaxAge :: int
  ck_HttpOnly :: bool
  ck_Secure :: bool
  ck_SameSite :: SameSite

record CookieSessionManager =
  csm_secret :: string
  csm_cookieName :: string
  csm_authCookieName :: string
  csm_secure :: bool
  csm_sameSite :: SameSite

definition nanoseconds :: int where "nanoseconds = 1000000000"
definition defaultSessionCookieName :: string where "defaultSessionCookieName = ''coyote_session''"
definition defaultSessionTTL :: time where "defaultSessionTTL = 24 * 3600 * nanoseconds"
definition defaultAuthRequestTTL :: time where "defaultAuthRequestTTL = 600 * nanoseconds"

definition Unix :: "time \<Rightarrow> int" where
  "Unix t = t div nanoseconds"

definition NewCookieSessionManager :: "string \<Rightarrow> string \<Rightarrow> bool \<Rightarrow> SameSite \<Rightarrow> session_error + CookieSessionManager" where
  "NewCookieSessionManager secret0 cookieName0 secure sameSite0 =
     (let secret = TrimSpace secret0; trimmedName = TrimSpace cookieName0;
          cookieName = (if trimmedName = [] then defaultSessionCookieName else trimmedName);
          sameSite = (if sameSite0 = SameSiteDefaultMode then SameSiteLaxMode else sameSite0)
      in if secret = [] then Inl (SessionConfigError ''session secret is required'')
         else if sameSite = SameSiteNoneMode \<and> \<not> secure
         then Inl (SessionConfigError ''SESSION_COOKIE_SECURE must be true when SESSION_COOKIE_SAME_SITE=none'')
         else Inr \<lparr>csm_secret = secret, csm_cookieName = cookieName, csm_authCookieName = cookieName @ ''_oidc'', csm_secure = secure,
                csm_sameSite = sameSite\<rparr>)"

definition ParseSameSite :: "string \<Rightarrow> session_error + SameSite" where
  "ParseSameSite value =
     (let v = ToLower (TrimSpace value)
      in if v = [] \<or> v = ''lax'' then Inr SameSiteLaxMode else if v = ''strict'' then Inr SameSiteStrictMode
         else if v = ''none'' then Inr SameSiteNoneMode
         else Inl (SessionConfigError ''SESSION_COOKIE_SAME_SITE must be one of lax, strict, none''))"

definition sign :: "SessionCodec \<Rightarrow> CookieSessionManager \<Rightarrow> string \<Rightarrow> string" where
  "sign codec m payloadPart = EncodeToString (sc_hmac codec (csm_secret m) payloadPart)"

definition encode :: "SessionCodec \<Rightarrow> CookieSessionManager \<Rightarrow> string \<Rightarrow> string" where
  "encode codec m raw = (let payloadPart = EncodeToString raw in payloadPart @ ''.'' @ sign codec m payloadPart)"

definition decode :: "SessionCodec \<Rightarrow> CookieSessionManager \<Rightarrow> (string \<Rightarrow> 'a option) \<Rightarrow> string \<Rightarrow> session_error + 'a" where
  "decode codec m unmarshal value =
     (case SplitChar CHR ''.'' value of
        [payloadPart, signaturePart] \<Rightarrow>
          (if sign codec m payloadPart \<noteq> signaturePart then Inl ErrSessionInvalid
           else case DecodeString payloadPart of
             None \<Rightarrow> Inl ErrSessionInvalid
           | Some raw \<Rightarrow> (case unmarshal raw of None \<Rightarrow> Inl ErrSessionInvalid | Some target \<Rightarrow> Inr target))
      | _ \<Rightarrow> Inl ErrSessionInvalid)"

definition cookieWithNameAndSameSite :: "CookieSessionManager \<Rightarrow> string \<Rightarrow> string \<Rightarrow> time \<Rightarrow> string \<Rightarrow> SameSite \<Rightarrow> Cookie" where
  "cookieWithNameAndSameSite m name value maxAge path sameSite =
     \<lparr>ck_Name = name, ck_Value = value, ck_Path = path, ck_MaxAge = maxAge div nanoseconds, ck_HttpOnly = True, ck_Secure = csm_secure m,
      ck_SameSite = sameSite\<rparr>"

definition expiredCookieWithSameSite :: "CookieSessionManager \<Rightarrow> string \<Rightarrow> string \<Rightarrow> SameSite \<Rightarrow> Cookie" where
  "expiredCookieWithSameSite m name path sameSite =
     \<lparr>ck_Name = name, ck_Value = [], ck_Path = path, ck_MaxAge = -1, ck_HttpOnly = True, ck_Secure = csm_secure m, ck_SameSite = sameSite\<rparr>"

definition authRequestSameSite :: "CookieSessionManager \<Rightarrow> SameSite" where
  "authRequestSameSite m = (if csm_sameSite m = SameSiteStrictMode then SameSiteLaxMode else csm_sameSite m)"

definition CreateSession :: "SessionCodec \<Rightarrow> CookieSessionManager \<Rightarrow> time \<Rightarrow> string \<Rightarrow> session_error + Cookie" where
  "CreateSession codec m now userID =
     (let trimmedID = TrimSpace userID
      in if trimmedID = [] then Inl ErrSessionInvalid
         else Inr (cookieWithNameAndSameSite m (csm_cookieName m)
           (encode codec m (sc_marshalSession codec \<lparr>sp_UserID = trimmedID, sp_ExpiresAt = Unix (now + defaultSessionTTL)\<rparr>))
           defaultSessionTTL ''/'' (csm_sameSite m)))"

definition ClearSession :: "CookieSessionManager \<Rightarrow> Cookie" where
  "ClearSession m = expiredCookieWithSameSite m (csm_cookieName m) ''/'' (csm_sameSite m)"

text \<open>The cookies of a request by name.\<close>

definition UserID :: "SessionCodec \<Rightarrow> CookieSessionManager \<Rightarrow> time \<Rightarrow> (string, string) gomap \<Rightarrow> session_error + string" where
  "UserID codec m now cookies =
     (case map_of cookies (csm_cookieName m) of
        None \<Rightarrow> Inl ErrSessionNotFound
      | Some value \<Rightarrow>
          (case decode codec m (sc_unmarshalSession codec) value of
             Inl err \<Rightarrow> Inl err
           | Inr payload \<Rightarrow>
               (if TrimSpace (sp_UserID payload) = [] \<or> sp_ExpiresAt payload \<le> Unix now then Inl ErrSessionInvalid
                else Inr (sp_UserID payload))))"

definition CreateAuthRequest :: "SessionCodec \<Rightarrow> CookieSessionManager \<Rightarrow> time \<Rightarrow> string \<Rightarrow> string \<Rightarrow> session_error + Cookie" where
  "CreateAuthRequest codec m now state nonce =
     (let trimmedState = TrimSpace state; trimmedNonce = TrimSpace nonce
      in if trimmedState = [] \<or> trimmedNonce = [] then Inl ErrSessionInvalid
         else Inr (cookieWithNameAndSameSite m (csm_authCookieName m)
           (encode codec m (sc_marshalAuthRequest codec
             \<lparr>ap_State = trimmedState, ap_Nonce = trimmedNonce, ap_ExpiresAt = Unix (now + defaultAuthRequestTTL)\<rparr>))
           defaultAuthRequestTTL ''/auth'' (authRequestSameSite m)))"

text \<open>The answer clears the cookie whatever the outcome.\<close>

definition VerifyAuthRequest ::
  "SessionCodec \<Rightarrow> CookieSessionManager \<Rightarrow> time \<Rightarrow> (string, string) gomap \<Rightarrow> string \<Rightarrow> Cookie \<times> (session_error + string)" where
  "VerifyAuthRequest codec m now cookies receivedState =
     (expiredCookieWithSameSite m (csm_authCookieName m) ''/auth'' (authRequestSameSite m),
      case map_of cookies (csm_authCookieName m) of
        None \<Rightarrow> Inl ErrSessionNotFound
      | Some value \<Rightarrow>
          (case decode codec m (sc_unmarshalAuthRequest codec) value of
             Inl err \<Rightarrow> Inl err
           | Inr payload \<Rightarrow>
               (if ap_ExpiresAt payload \<le> Unix now then Inl ErrSessionInvalid
                else if ap_State payload \<noteq> TrimSpace receivedState then Inl ErrSessionInvalid
                else if TrimSpace (ap_Nonce payload) = [] then Inl ErrSessionInvalid
                else Inr (ap_Nonce payload))))"

section \<open>OIDC claims\<close>

record oidcClaims =
  oc_EmailVerified :: "bool option"
  oc_Email :: string
  oc_Name :: string
  oc_PreferredUsername :: string

record OIDCIdentity =
  oi_Email :: string
  oi_DisplayName :: "string option"

datatype oidc_error = ErrOIDCEmailRequired | ErrOIDCEmailNotVerified

definition identityFromOIDCClaims :: "oidcClaims \<Rightarrow> oidc_error + OIDCIdentity" where
  "identityFromOIDCClaims claims =
     (let email = TrimSpace (oc_Email claims); name = TrimSpace (oc_Name claims); username = TrimSpace (oc_PreferredUsername claims)
      in if email = [] then Inl ErrOIDCEmailRequired
         else if oc_EmailVerified claims \<noteq> Some True then Inl ErrOIDCEmailNotVerified
         else Inr \<lparr>oi_Email = email, oi_DisplayName = (if name \<noteq> [] then Some name else if username \<noteq> [] then Some username else None)\<rparr>)"

section \<open>The middleware\<close>

function Fields :: "string \<Rightarrow> string list" where
  "Fields s =
     (case dropWhile is_space s of
        [] \<Rightarrow> []
      | c # cs \<Rightarrow> (c # takeWhile (\<lambda>d. \<not> is_space d) cs) # Fields (dropWhile (\<lambda>d. \<not> is_space d) cs))"
  by pat_completeness auto
termination
proof (relation "measure length")
  fix s c cs
  assume "dropWhile is_space s = c # cs"
  then have "length (c # cs) \<le> length s" by (metis length_dropWhile_le)
  then show "(dropWhile (\<lambda>d. \<not> is_space d) cs, s) \<in> measure length"
    using length_dropWhile_le [of "\<lambda>d. \<not> is_space d" cs] by simp
qed simp

declare Fields.simps [simp del]

record AuthRequest =
  ar_Authorization :: string
  ar_UserEmail :: string
  ar_UserName :: string
  ar_Cookies :: "(string, string) gomap"

record AuthContext =
  cx_User :: "User option"
  cx_Method :: "string option"
  cx_APIToken :: "APITokenIdentity option"

datatype middleware_answer = Unauthorized string | Next AuthContext

record MiddlewareConfig =
  mw_Mode :: string
  mw_Sessions :: "CookieSessionManager option"
  mw_APITokens :: bool

definition no_context :: AuthContext where
  "no_context = \<lparr>cx_User = None, cx_Method = None, cx_APIToken = None\<rparr>"

text \<open>The token and whether the header was meant to carry one.\<close>

definition bearerToken :: "AuthRequest \<Rightarrow> string \<times> bool" where
  "bearerToken r =
     (let authorization = TrimSpace (ar_Authorization r)
      in if authorization = [] then ([], False)
         else case Fields authorization of
           [] \<Rightarrow> ([], False)
         | scheme # rest \<Rightarrow>
             (if \<not> EqualFold scheme ''Bearer'' then ([], False)
              else case rest of [token] \<Rightarrow> (token, True) | _ \<Rightarrow> ([], True)))"

definition Middleware ::
  "AccountExternals \<Rightarrow> SessionCodec \<Rightarrow> MiddlewareConfig \<Rightarrow> AuthRequest \<Rightarrow> Accounts \<Rightarrow> Accounts \<times> middleware_answer" where
  "Middleware x codec cfg r s =
     (let mode = (if mw_Mode cfg = [] then ModeDisabled else mw_Mode cfg); (token, attempted) = bearerToken r
      in if mode = ModeDisabled then (s, Next no_context)
         else if attempted then
           (if token = [] then (s, Unauthorized ''invalid api token'')
            else if \<not> mw_APITokens cfg then (s, Unauthorized ''api token auth is not configured'')
            else case AuthenticateAPIToken x token s of
              (s1, Inl _) \<Rightarrow> (s1, Unauthorized ''invalid api token'')
            | (s1, Inr authenticated) \<Rightarrow>
                (s1, Next \<lparr>cx_User = Some (aat_User authenticated), cx_Method = Some MethodAPIToken,
                   cx_APIToken = Some \<lparr>ati_ID = tok_ID (aat_Token authenticated),
                     ati_Scopes = CloneAPITokenScopes (tok_Scopes (aat_Token authenticated))\<rparr>\<rparr>))
         else if mode = ModeOIDC then
           (case mw_Sessions cfg of
              None \<Rightarrow> (s, Unauthorized ''session auth is not configured'')
            | Some m \<Rightarrow>
                (case UserID codec m (ax_now x) (ar_Cookies r) of
                   Inl _ \<Rightarrow> (s, Unauthorized ''authentication required'')
                 | Inr userID \<Rightarrow>
                     (case GetUser userID s of
                        Inl _ \<Rightarrow> (s, Unauthorized ''unable to resolve session user'')
                      | Inr user \<Rightarrow> (s, Next \<lparr>cx_User = Some user, cx_Method = Some MethodOIDC, cx_APIToken = None\<rparr>))))
         else
           (let email = TrimSpace (ar_UserEmail r); name = TrimSpace (ar_UserName r)
            in if email = [] then (s, Unauthorized ''missing user email header'')
               else case ResolveHeaderUser x email (if name = [] then None else Some name) s of
                 (s1, Inl _) \<Rightarrow> (s1, Unauthorized ''unable to resolve user'')
               | (s1, Inr user) \<Rightarrow> (s1, Next \<lparr>cx_User = Some user, cx_Method = Some MethodHeader, cx_APIToken = None\<rparr>)))"

definition PrincipalFromContext :: "AuthContext \<Rightarrow> account_error + Principal" where
  "PrincipalFromContext ctx =
     (case cx_User ctx of
        None \<Rightarrow> Inl ErrUnauthenticated
      | Some user \<Rightarrow>
          (if cx_Method ctx \<noteq> Some MethodAPIToken then Inr \<lparr>pri_User = user, pri_APIToken = None\<rparr>
           else case cx_APIToken ctx of
             None \<Rightarrow> Inl ErrAPITokenIdentityUnavailable
           | Some token \<Rightarrow> Inr \<lparr>pri_User = user, pri_APIToken = Some (token\<lparr>ati_Scopes := CloneAPITokenScopes (ati_Scopes token)\<rparr>)\<rparr>))"

definition DisabledModeUser :: User where
  "DisabledModeUser = \<lparr>usr_ID = ''disabled-mode-user'', usr_Email = ''dev@local.coyote-ci'', usr_DisplayName = Some ''Local development'',
     usr_GlobalRole = GlobalRoleAdmin, usr_CreatedAt = 0, usr_UpdatedAt = 0\<rparr>"

end
