(* ===== verification/Account_Requests.thy ===== *)
theory Account_Requests
  imports Authorization
begin

text \<open>
  The requests to the account services as an explicit sequence of steps, and what every such sequence keeps: users with
  one normalised address each, memberships of existing users stored under their own key, and tokens with known scopes.
\<close>

section \<open>Sequences of requests\<close>

datatype account_request =
  ReqCreateUser CreateUserInput
| ReqUpdateUser string UpdateUserInput
| ReqDeleteUser string
| ReqHeaderUser string "string option"
| ReqOIDCUser string "string option"
| ReqBootstrapAdmins "nat \<Rightarrow> AccountExternals" "string list"
| ReqCreateProject CreateProjectInput
| ReqUpdateProject string UpdateProjectInput
| ReqDeleteProject string
| ReqUpsertMembership UpsertProjectMembershipInput
| ReqDeleteMembership string string
| ReqCreateCredential CreateSourceCredentialInput
| ReqUpdateCredential string UpdateSourceCredentialInput
| ReqDeleteCredential string
| ReqCreateToken CreateAPITokenInput
| ReqRevokeToken string string
| ReqAuthenticate string

fun serve :: "AccountExternals \<Rightarrow> account_request \<Rightarrow> Accounts \<Rightarrow> Accounts" where
  "serve x (ReqCreateUser input) s = fst (CreateUser x input s)"
| "serve x (ReqUpdateUser i input) s = fst (UpdateUser x i input s)"
| "serve x (ReqDeleteUser i) s = fst (DeleteUser i s)"
| "serve x (ReqHeaderUser email name) s = fst (ResolveHeaderUser x email name s)"
| "serve x (ReqOIDCUser email name) s = fst (ResolveOIDCUser x email name s)"
| "serve x (ReqBootstrapAdmins xs emails) s = fst (BootstrapAdmins xs 0 emails s)"
| "serve x (ReqCreateProject input) s = fst (CreateProject x input s)"
| "serve x (ReqUpdateProject i input) s = fst (UpdateProject x i input s)"
| "serve x (ReqDeleteProject i) s = fst (DeleteProject i s)"
| "serve x (ReqUpsertMembership input) s = fst (UpsertProjectMembership x input s)"
| "serve x (ReqDeleteMembership p u) s = fst (DeleteProjectMembership p u s)"
| "serve x (ReqCreateCredential input) s = fst (CreateSourceCredential x input s)"
| "serve x (ReqUpdateCredential i input) s = fst (UpdateSourceCredential x i input s)"
| "serve x (ReqDeleteCredential i) s = fst (DeleteSourceCredential i s)"
| "serve x (ReqCreateToken input) s = fst (CreateAPIToken x input s)"
| "serve x (ReqRevokeToken u t) s = fst (RevokeAPIToken x u t s)"
| "serve x (ReqAuthenticate token) s = fst (AuthenticateAPIToken x token s)"

fun serve_all :: "(AccountExternals \<times> account_request) list \<Rightarrow> Accounts \<Rightarrow> Accounts" where
  "serve_all [] s = s"
| "serve_all ((x, req) # rs) s = serve_all rs (serve x req s)"

definition NewAccounts :: Accounts where
  "NewAccounts = \<lparr>ac_users = NewUserRepository, ac_memberships = NewProjectMembershipRepository, ac_projects = NewProjectRepository,
     ac_jobs = None, ac_tokens = NewAPITokenRepository, ac_credentials = NewSourceCredentialRepository\<rparr>"

text \<open>New identifiers have the shape of \<open>uuid.NewString\<close>: hexadecimal digits and hyphens.\<close>

definition uuid_shape :: "string \<Rightarrow> bool" where
  "uuid_shape i \<longleftrightarrow> i \<noteq> [] \<and> list_all (\<lambda>c. List.member ''0123456789abcdef-'' c) i"

definition new_ids :: "AccountExternals \<Rightarrow> bool" where
  "new_ids x \<longleftrightarrow> (\<forall>n. uuid_shape (ax_uuid x n))"

fun request_ids :: "AccountExternals \<times> account_request \<Rightarrow> bool" where
  "request_ids (x, ReqBootstrapAdmins xs emails) \<longleftrightarrow> (\<forall>n. new_ids (xs n))"
| "request_ids (x, req) \<longleftrightarrow> new_ids x"

section \<open>The invariant\<close>

definition user_ok :: "User \<Rightarrow> bool" where
  "user_ok u \<longleftrightarrow>
     uuid_shape (usr_ID u) \<and> usr_Email u \<noteq> [] \<and> NormalizeEmail (usr_Email u) = usr_Email u \<and>
     (usr_GlobalRole u = GlobalRoleAdmin \<or> usr_GlobalRole u = GlobalRoleUser)"

definition users_ok :: "UserRepository \<Rightarrow> bool" where
  "users_ok r \<longleftrightarrow>
     gm_ok (ur_users r) \<and> (\<forall>(i, u) \<in> set (ur_users r). usr_ID u = i \<and> user_ok u) \<and>
     (\<forall>i u j v. (i, u) \<in> set (ur_users r) \<longrightarrow> (j, v) \<in> set (ur_users r) \<longrightarrow> EqualFold (usr_Email u) (usr_Email v) \<longrightarrow> i = j)"

definition membership_ok :: "UserRepository \<Rightarrow> ProjectMembership \<Rightarrow> bool" where
  "membership_ok users m \<longleftrightarrow>
     mem_ProjectID m \<noteq> [] \<and> trimmed (mem_ProjectID m) \<and> map_of (ur_users users) (mem_UserID m) \<noteq> None \<and>
     List.member [ProjectMemberRoleOwner, ProjectMemberRoleMaintainer, ProjectMemberRoleViewer] (mem_Role m)"

definition memberships_ok :: "UserRepository \<Rightarrow> ProjectMembershipRepository \<Rightarrow> bool" where
  "memberships_ok users r \<longleftrightarrow>
     gm_ok (pmr_memberships r) \<and>
     (\<forall>(k, m) \<in> set (pmr_memberships r). k = membershipKey (mem_ProjectID m) (mem_UserID m) \<and> membership_ok users m)"

definition token_ok :: "APIToken \<Rightarrow> bool" where
  "token_ok t \<longleftrightarrow> tok_Name t \<noteq> [] \<and> distinct (tok_Scopes t) \<and> set (tok_Scopes t) \<subseteq> set APITokenScopes"

definition tokens_ok :: "APITokenRepository \<Rightarrow> bool" where
  "tokens_ok r \<longleftrightarrow> gm_ok (atr_tokens r) \<and> (\<forall>(i, t) \<in> set (atr_tokens r). tok_ID t = i \<and> token_ok t)"

definition accounts_ok :: "Accounts \<Rightarrow> bool" where
  "accounts_ok s \<longleftrightarrow> users_ok (ac_users s) \<and> memberships_ok (ac_users s) (ac_memberships s) \<and> tokens_ok (ac_tokens s)"

section \<open>Users\<close>

lemma uuid_chars: "\<forall>c \<in> set ''0123456789abcdef-''. \<not> is_space c \<and> c \<noteq> CHR '':''"
  by code_simp

lemma uuid_shape_trimmed: "uuid_shape i \<Longrightarrow> trimmed i \<and> i \<noteq> [] \<and> CHR '':'' \<notin> set i"
proof -
  assume i: "uuid_shape i"
  have "\<not> is_space c \<and> c \<noteq> CHR '':''" if "c \<in> set i" for c
    using i that uuid_chars unfolding uuid_shape_def list_all_iff List.member_iff by blast
  then show ?thesis using i by (auto simp: uuid_shape_def trimmed_def)
qed

lemma NormalizeEmail_idem [simp]: "NormalizeEmail (NormalizeEmail e) = NormalizeEmail e"
  by (simp add: NormalizeEmail_def)

lemma normalized_fold: "NormalizeEmail e = e \<Longrightarrow> NormalizeEmail f = f \<Longrightarrow> EqualFold e f \<longleftrightarrow> e = f"
  by (metis EqualFold_def NormalizeEmail_def ToLower_idem)

lemma normalizeGlobalRole_ok: "normalizeGlobalRole v = Inr role \<Longrightarrow> role = GlobalRoleAdmin \<or> role = GlobalRoleUser"
  by (auto simp: normalizeGlobalRole_def Let_def split: if_splits)

lemma users_okD:
  assumes "users_ok r" and "map_of (ur_users r) i = Some u"
  shows "usr_ID u = i" "user_ok u"
  using assms map_of_SomeD by (fastforce simp: users_ok_def)+

lemma users_ok_put:
  assumes r: "users_ok r" and u: "user_ok u" and e: "\<not> emailExistsLocked (usr_Email u) excluded r"
    and ex: "excluded = [] \<or> excluded = usr_ID u"
  shows "users_ok (r\<lparr>ur_users := gm_put (usr_ID u) u (ur_users r)\<rparr>)"
proof -
  have g: "gm_ok (ur_users r)" using r by (simp add: users_ok_def)
  have clash: "\<not> EqualFold (usr_Email v) (usr_Email u)" if "(j, v) \<in> set (ur_users r)" "j \<noteq> usr_ID u" for j v
  proof -
    have "j \<noteq> []" using r that(1) by (auto simp: users_ok_def user_ok_def uuid_shape_def)
    with e ex that show ?thesis by (auto simp: emailExistsLocked_def list_ex_iff)
  qed
  then have "\<not> EqualFold (usr_Email u) (usr_Email v)" if "(j, v) \<in> set (ur_users r)" "j \<noteq> usr_ID u" for j v
    using that by (metis EqualFold_def)
  with clash r u g show ?thesis by (auto simp: users_ok_def map_of_set_put split: if_splits)
qed

text \<open>A store of users that is in order and has every user of another one.\<close>

definition users_grow :: "UserRepository \<Rightarrow> UserRepository \<Rightarrow> bool" where
  "users_grow r r' \<longleftrightarrow> users_ok r' \<and> (\<forall>i. map_of (ur_users r) i \<noteq> None \<longrightarrow> map_of (ur_users r') i \<noteq> None)"

lemma users_grow_refl [intro]: "users_ok r \<Longrightarrow> users_grow r r"
  by (simp add: users_grow_def)

lemma users_grow_trans: "users_grow r r1 \<Longrightarrow> users_grow r1 r2 \<Longrightarrow> users_grow r r2"
  by (simp add: users_grow_def)

lemma Create_grows: "users_ok r \<Longrightarrow> user_ok u \<Longrightarrow> users_grow r (fst (UserRepository_Create uuid u r))"
  using users_ok_put [of r u "[]"] by (auto simp: UserRepository_Create_def Let_def users_grow_def user_ok_def uuid_shape_def)

lemma Update_grows: "users_ok r \<Longrightarrow> user_ok u \<Longrightarrow> users_grow r (fst (UserRepository_Update u r))"
  using users_ok_put [of r u "usr_ID u"] by (auto simp: UserRepository_Update_def users_grow_def)

lemma GetByEmail_stored:
  assumes "GetByEmail e r = Inr u" and "users_ok r"
  shows "map_of (ur_users r) (usr_ID u) = Some u" "EqualFold (usr_Email u) e"
proof -
  have "u \<in> snd ` set (ur_users r) \<and> EqualFold (usr_Email u) e"
    using assms(1) by (auto simp: GetByEmail_def find_Some_iff split: option.splits)
  with assms(2) show "map_of (ur_users r) (usr_ID u) = Some u" "EqualFold (usr_Email u) e"
    by (auto simp: users_ok_def)
qed

definition only_users :: "Accounts \<Rightarrow> Accounts \<Rightarrow> bool" where
  "only_users s s' \<longleftrightarrow> (\<exists>r. s' = s\<lparr>ac_users := r\<rparr> \<and> users_grow (ac_users s) r)"

lemma only_users_refl [intro]: "users_ok (ac_users s) \<Longrightarrow> only_users s s"
  unfolding only_users_def by (rule exI [of _ "ac_users s"]) auto

lemma only_users_trans: "only_users s s1 \<Longrightarrow> only_users s1 s2 \<Longrightarrow> only_users s s2"
  unfolding only_users_def using users_grow_trans by fastforce

lemma only_users_ok: "only_users s s' \<Longrightarrow> users_ok (ac_users s')"
  by (auto simp: only_users_def users_grow_def)

lemma put_users_only: "users_grow (ac_users s) (fst res) \<Longrightarrow> only_users s (fst (put_users res s))"
  by (auto simp: put_users_def only_users_def)

lemma CreateUser_only:
  assumes "users_ok (ac_users s)" and "new_ids x"
  shows "only_users s (fst (CreateUser x input s))"
  using assms
  by (auto simp: CreateUser_def Let_def new_ids_def user_ok_def dest: normalizeGlobalRole_ok split: sum.splits
      intro!: put_users_only Create_grows)

lemma patched_user_ok: "patched_user input u = Inr v \<Longrightarrow> user_ok u \<Longrightarrow> user_ok v \<and> usr_ID v = usr_ID u"
  by (auto simp: patched_user_def Let_def user_ok_def dest: normalizeGlobalRole_ok split: option.splits sum.splits if_splits)

lemma UpdateUser_only: "users_ok (ac_users s) \<Longrightarrow> only_users s (fst (UpdateUser x i input s))"
  by (auto simp: UpdateUser_def Let_def UserRepository_GetByID_def user_ok_def dest: users_okD patched_user_ok split: sum.splits option.splits
      intro!: put_users_only Update_grows)


lemma resolveExternalUser_only:
  assumes "users_ok (ac_users s)"
  shows "only_users s (fst (resolveExternalUser x email name update s))"
  using assms users_okD [OF assms GetByEmail_stored(1)]
  by (fastforce simp: resolveExternalUser_def Let_def user_ok_def split: sum.split option.split intro!: put_users_only Update_grows)

lemma promote_only:
  assumes "users_ok (ac_users s)" and "GetByEmail e (ac_users s) = Inr u"
  shows "only_users s (fst (put_users (UserRepository_Update (u\<lparr>usr_GlobalRole := GlobalRoleAdmin, usr_UpdatedAt := now\<rparr>) (ac_users s)) s))"
  using assms users_okD [OF assms(1) GetByEmail_stored(1)] by (auto simp: user_ok_def intro!: put_users_only Update_grows)

lemma fst_error_of: "fst (case p of (t, Inl e) \<Rightarrow> (t, Some e) | (t, Inr _) \<Rightarrow> (t, None)) = fst p"
  by (auto split: prod.split sum.split)

lemma bootstrap_admin_only:
  assumes ok: "users_ok (ac_users s)" and "new_ids x"
  shows "only_users s (fst (bootstrap_admin x email s))"
proof -
  let ?e = "NormalizeEmail email"
  let ?promoted = "\<lambda>u t. put_users (UserRepository_Update (u\<lparr>usr_GlobalRole := GlobalRoleAdmin, usr_UpdatedAt := ax_now x\<rparr>) (ac_users t)) t"
  obtain s1 answer where c: "CreateUser x \<lparr>cu_Email = ?e, cu_DisplayName = None, cu_GlobalRole = GlobalRoleAdmin\<rparr> s = (s1, answer)"
    by (metis surj_pair)
  have s1: "only_users s s1" using CreateUser_only [OF assms] c by (metis fst_conv)
  have direct: "only_users s (fst (?promoted u s))" if "GetByEmail ?e (ac_users s) = Inr u" for u
    using promote_only [OF ok that] .
  have later: "only_users s (fst (?promoted u s1))" if "GetByEmail ?e (ac_users s1) = Inr u" for u
    using promote_only [OF only_users_ok [OF s1] that] s1 only_users_trans by blast
  show ?thesis
    using ok s1 direct later
    by (cases answer) (auto simp: bootstrap_admin_def Let_def c fst_error_of split: sum.split)
qed

lemma BootstrapAdmins_only: "users_ok (ac_users s) \<Longrightarrow> \<forall>n. new_ids (x n) \<Longrightarrow> only_users s (fst (BootstrapAdmins x n emails s))"
proof (induction x n emails s rule: BootstrapAdmins.induct)
  case (2 x n email emails s)
  obtain s1 err where b: "bootstrap_admin (x n) email s = (s1, err)" by (metis surj_pair)
  have s1: "only_users s s1" using bootstrap_admin_only [of s "x n" email] 2(2,3) b by simp
  show ?case
    using 2(1) [OF b [symmetric]] s1 2(3) only_users_ok [OF s1] only_users_trans [OF s1] by (cases err) (simp_all add: b)
qed auto

text \<open>What only adds or patches users keeps the whole invariant.\<close>

lemma memberships_grow: "memberships_ok r m \<Longrightarrow> users_grow r r' \<Longrightarrow> memberships_ok r' m"
  by (fastforce simp: memberships_ok_def membership_ok_def users_grow_def)

lemma only_users_accounts: "accounts_ok s \<Longrightarrow> only_users s s' \<Longrightarrow> accounts_ok s'"
  by (auto simp: accounts_ok_def only_users_def users_grow_def intro: memberships_grow [unfolded users_grow_def])

lemma DeleteUser_accounts:
  assumes "accounts_ok s"
  shows "accounts_ok (fst (DeleteUser i s))"
proof -
  have users: "users_ok (r\<lparr>ur_users := AList.delete k (ur_users r)\<rparr>)" if "users_ok r" for r k
    using that by (auto simp: users_ok_def AList.delete_eq distinct_map_filter)
  have "memberships_ok (r\<lparr>ur_users := AList.delete k (ur_users r)\<rparr>) (deleteByUserID k m)" if "memberships_ok r m" for r k m
    using that by (auto simp: memberships_ok_def membership_ok_def deleteByUserID_def distinct_map_filter)
  with users assms show ?thesis
    by (auto simp: accounts_ok_def DeleteUser_def Let_def UserRepository_Delete_def)
qed

section \<open>Memberships\<close>

lemma memberships_ok_put:
  "memberships_ok users r \<Longrightarrow> membership_ok users m \<Longrightarrow>
   memberships_ok users (r\<lparr>pmr_memberships := gm_put (membershipKey (mem_ProjectID m) (mem_UserID m)) m (pmr_memberships r)\<rparr>)"
  by (auto simp: memberships_ok_def map_of_set_put split: if_splits)

lemma Membership_Upsert_ok:
  assumes "memberships_ok users r" and "mem_ProjectID m \<noteq> []" and "trimmed (mem_ProjectID m)"
    and "List.member [ProjectMemberRoleOwner, ProjectMemberRoleMaintainer, ProjectMemberRoleViewer] (mem_Role m)"
  shows "memberships_ok users (fst (Membership_Upsert projects (Some users) m r))"
proof -
  have "membership_ok users (m\<lparr>mem_CreatedAt := c\<rparr>)" "membership_ok users m" if "map_of (ur_users users) (mem_UserID m) = Some u" for c u
    using assms that by (simp_all add: membership_ok_def)
  then show ?thesis
    using assms(1) memberships_ok_put [of users r "m\<lparr>mem_CreatedAt := c\<rparr>" for c] memberships_ok_put [of users r m]
    by (auto simp: Membership_Upsert_def UserRepository_GetByID_def Let_def split: option.splits sum.splits)
qed

lemma normalizeProjectMemberRole_ok:
  "normalizeProjectMemberRole v = Inr role \<Longrightarrow> List.member [ProjectMemberRoleOwner, ProjectMemberRoleMaintainer, ProjectMemberRoleViewer] role"
  by (auto simp: normalizeProjectMemberRole_def split: if_splits)

lemma UpsertProjectMembership_accounts:
  assumes "accounts_ok s"
  shows "accounts_ok (fst (UpsertProjectMembership x input s))"
proof -
  have "memberships_ok (ac_users s) (ac_memberships s)" using assms by (simp add: accounts_ok_def)
  note up = Membership_Upsert_ok [OF this, of "\<lparr>mem_ProjectID = TrimSpace (um_ProjectID input), mem_UserID = TrimSpace (um_UserID input),
      mem_Role = role, mem_CreatedAt = ax_now x, mem_UpdatedAt = ax_now x\<rparr>" "Some (ac_projects s)" for role]
  show ?thesis
    using assms up normalizeProjectMemberRole_ok
    by (auto simp: accounts_ok_def UpsertProjectMembership_def Let_def split: sum.splits prod.splits) (metis fst_conv)
qed

lemma DeleteProjectMembership_accounts: "accounts_ok s \<Longrightarrow> accounts_ok (fst (DeleteProjectMembership p u s))"
  by (auto simp: accounts_ok_def DeleteProjectMembership_def Membership_Delete_def memberships_ok_def Let_def AList.delete_eq distinct_map_filter)

section \<open>Tokens\<close>

lemma normalize_scopes_ok:
  "normalize_scopes acc vs = Inr out \<Longrightarrow> distinct acc \<Longrightarrow> set acc \<subseteq> set APITokenScopes \<Longrightarrow> [] \<notin> set acc \<Longrightarrow>
   distinct out \<and> set out \<subseteq> set APITokenScopes \<and> set out = set acc \<union> (TrimSpace ` set vs - {[]})"
proof (induction vs arbitrary: acc)
  case (Cons v vs)
  consider (blank) "TrimSpace v = []" "normalize_scopes acc vs = Inr out"
    | (old) "TrimSpace v \<in> set acc" "normalize_scopes acc vs = Inr out"
    | (new) "TrimSpace v \<notin> set acc" "TrimSpace v \<noteq> []" "TrimSpace v \<in> set APITokenScopes" "normalize_scopes (acc @ [TrimSpace v]) vs = Inr out"
    using Cons.prems(1) by (auto simp: Let_def split: if_splits)
  then show ?case
  proof cases
    case blank
    then show ?thesis using Cons.IH [OF blank(2) Cons.prems(2-4)] by auto
  next
    case old
    then show ?thesis using Cons.IH [OF old(2) Cons.prems(2-4)] Cons.prems(4) by (simp add: insert_absorb) blast
  next
    case new
    then show ?thesis using Cons.IH [OF new(4)] Cons.prems(2-4) by (auto simp: insert_Diff_if)
  qed
qed simp

lemma NormalizeAPITokenScopes_ok:
  assumes "NormalizeAPITokenScopes vs = Inr out"
  shows "distinct out" "set out \<subseteq> set APITokenScopes" "set out = TrimSpace ` set vs - {[]}"
proof -
  obtain ns where ns: "normalize_scopes [] vs = Inr ns" "out = sort_slice (<) ns"
    using assms by (cases "normalize_scopes [] vs") (auto simp: NormalizeAPITokenScopes_def)
  have "distinct out \<longleftrightarrow> distinct ns" unfolding ns(2) by (metis mset_sort_slice distinct_count_atmost_1 mset_eq_imp_distinct_iff)
  with normalize_scopes_ok [OF ns(1)] show "distinct out" "set out \<subseteq> set APITokenScopes" "set out = TrimSpace ` set vs - {[]}"
    unfolding ns(2) by auto
qed

lemma cloneAPIToken_id [simp]: "cloneAPIToken t = t"
  by (simp add: cloneAPIToken_def CloneAPITokenScopes_def)

lemma tokens_okD: "tokens_ok r \<Longrightarrow> map_of (atr_tokens r) i = Some t \<Longrightarrow> tok_ID t = i \<and> token_ok t"
  using map_of_SomeD by (fastforce simp: tokens_ok_def)

lemma tokens_ok_put: "tokens_ok r \<Longrightarrow> token_ok t \<Longrightarrow> tok_ID t = i \<Longrightarrow> tokens_ok (r\<lparr>atr_tokens := gm_put i t (atr_tokens r)\<rparr>)"
  by (auto simp: tokens_ok_def map_of_set_put split: if_splits)

lemma RevokeByID_ok: "tokens_ok r \<Longrightarrow> tokens_ok (fst (RevokeByID u i now r))"
  by (auto simp: RevokeByID_def token_ok_def dest: tokens_okD split: option.split intro!: tokens_ok_put)

lemma TouchLastUsed_ok: "tokens_ok r \<Longrightarrow> tokens_ok (fst (TouchLastUsed i now r))"
  by (auto simp: TouchLastUsed_def token_ok_def dest: tokens_okD split: option.split intro!: tokens_ok_put)

text \<open>The ways the store of tokens changes: not at all, by a new token, by a revocation or by a mark of use.\<close>

lemma CreateAPIToken_cases:
  assumes "CreateAPIToken x input s = (s', answer)"
  obtains (refused) err where "s' = s" "answer = Inl err"
  | (created) u scopes plaintext t where "answer = Inr \<lparr>cat_Token = t, cat_PlaintextToken = plaintext\<rparr>"
      "map_of (ur_users (ac_users s)) (TrimSpace (ct_UserID input)) = Some u" "NormalizeAPITokenScopes (ct_Scopes input) = Inr scopes"
      "generatePlaintextToken x = Inr plaintext" "TrimSpace (ct_Name input) \<noteq> []"
      "case ct_ExpiresAt input of None \<Rightarrow> True | Some e \<Rightarrow> e > ax_now x"
      "t = \<lparr>tok_ID = (if ax_uuid x 0 = [] then ax_uuid x 1 else ax_uuid x 0), tok_UserID = TrimSpace (ct_UserID input), tok_Name = TrimSpace (ct_Name input),
         tok_Scopes = scopes, tok_TokenHash = HashAPIToken x plaintext, tok_TokenPrefix = DisplayAPITokenPrefix plaintext,
         tok_ExpiresAt = ct_ExpiresAt input, tok_LastUsedAt = None, tok_RevokedAt = None, tok_CreatedAt = ax_now x, tok_UpdatedAt = ax_now x\<rparr>"
      "s' = s\<lparr>ac_tokens := (ac_tokens s)\<lparr>atr_tokens := gm_put (tok_ID t) t (atr_tokens (ac_tokens s))\<rparr>\<rparr>"
proof (cases answer)
  case (Inl err)
  with assms refused show ?thesis
    by (auto simp: CreateAPIToken_def Let_def split: if_splits sum.splits option.splits prod.splits)
next
  case (Inr c)
  with assms created show ?thesis
    by (auto simp: CreateAPIToken_def Let_def UserRepository_GetByID_def APITokenRepository_Create_def CloneAPITokenScopes_def
        split: if_splits sum.splits option.splits prod.splits)
qed

lemma CreateAPIToken_accounts:
  assumes "accounts_ok s"
  shows "accounts_ok (fst (CreateAPIToken x input s))"
proof -
  obtain s' answer where c: "CreateAPIToken x input s = (s', answer)" by (metis surj_pair)
  from c show ?thesis
  proof (cases rule: CreateAPIToken_cases)
    case (refused err)
    with assms c show ?thesis by simp
  next
    case (created u scopes plaintext t)
    have "token_ok t" using created(5) NormalizeAPITokenScopes_ok [OF created(3)] by (simp add: created(7) token_ok_def)
    with assms c created(8) show ?thesis by (auto simp: accounts_ok_def intro!: tokens_ok_put)
  qed
qed

lemma RevokeAPIToken_accounts: "accounts_ok s \<Longrightarrow> accounts_ok (fst (RevokeAPIToken x u i s))"
  using RevokeByID_ok [of "ac_tokens s" "TrimSpace u" "TrimSpace i" "ax_now x"]
  by (auto simp: accounts_ok_def RevokeAPIToken_def Let_def split: prod.split)

lemma AuthenticateAPIToken_state:
  "fst (AuthenticateAPIToken x p s) = s \<or>
   (\<exists>i. fst (AuthenticateAPIToken x p s) = s\<lparr>ac_tokens := fst (TouchLastUsed i (ax_now x) (ac_tokens s))\<rparr>)"
  by (auto simp: AuthenticateAPIToken_def Let_def split: sum.split)

lemma AuthenticateAPIToken_accounts: "accounts_ok s \<Longrightarrow> accounts_ok (fst (AuthenticateAPIToken x p s))"
  using AuthenticateAPIToken_state [of x p s] TouchLastUsed_ok by (auto simp: accounts_ok_def)

text \<open>The requests on projects and credentials leave users, memberships and tokens alone.\<close>

definition same_accounts :: "Accounts \<Rightarrow> Accounts \<Rightarrow> bool" where
  "same_accounts s s' \<longleftrightarrow> ac_users s' = ac_users s \<and> ac_memberships s' = ac_memberships s \<and> ac_tokens s' = ac_tokens s"

lemma other_requests_same:
  "same_accounts s (fst (CreateProject x cp s))" "same_accounts s (fst (UpdateProject x i up s))" "same_accounts s (fst (DeleteProject i s))"
  "same_accounts s (fst (CreateSourceCredential x cc s))" "same_accounts s (fst (UpdateSourceCredential x i uc s))"
  "same_accounts s (fst (DeleteSourceCredential i s))"
  by (auto simp: same_accounts_def CreateProject_def UpdateProject_def DeleteProject_def CreateSourceCredential_def UpdateSourceCredential_def
      DeleteSourceCredential_def store_project_def Let_def split: sum.split prod.split)

lemma same_accounts_ok: "same_accounts s s' \<Longrightarrow> accounts_ok s \<Longrightarrow> accounts_ok s'"
  by (simp add: accounts_ok_def same_accounts_def)

section \<open>Every sequence\<close>

lemma accounts_users: "accounts_ok s \<Longrightarrow> users_ok (ac_users s)"
  by (simp add: accounts_ok_def)

lemma serve_accounts: "accounts_ok s \<Longrightarrow> request_ids (x, req) \<Longrightarrow> accounts_ok (serve x req s)"
proof (cases req)
  case (ReqBootstrapAdmins xs emails)
  assume "accounts_ok s" "request_ids (x, req)"
  with ReqBootstrapAdmins show ?thesis
    using only_users_accounts [OF _ BootstrapAdmins_only [of s xs 0 emails]] by (simp add: accounts_ok_def)
qed (auto simp: ResolveHeaderUser_def ResolveOIDCUser_def
    intro: only_users_accounts [OF _ CreateUser_only] only_users_accounts [OF _ UpdateUser_only] only_users_accounts [OF _ resolveExternalUser_only]
      accounts_users DeleteUser_accounts UpsertProjectMembership_accounts
      DeleteProjectMembership_accounts CreateAPIToken_accounts RevokeAPIToken_accounts AuthenticateAPIToken_accounts
      other_requests_same [THEN same_accounts_ok])

lemma serve_all_accounts: "accounts_ok s \<Longrightarrow> \<forall>r \<in> set rs. request_ids r \<Longrightarrow> accounts_ok (serve_all rs s)"
  by (induction rs s rule: serve_all.induct) (simp_all add: serve_accounts)

lemma NewAccounts_ok: "accounts_ok NewAccounts"
  by (simp add: accounts_ok_def NewAccounts_def users_ok_def memberships_ok_def tokens_ok_def NewUserRepository_def
      NewProjectMembershipRepository_def NewAPITokenRepository_def)

end
