(* ===== verification/Account_Properties.thy ===== *)
theory Account_Properties
  imports Account_Requests Fixtures
begin

text \<open>
  What accounts and authorization promise: the batch check of projects agrees with the single one, a revoked token
  is refused for good, a token and a session cookie that were issued are accepted, and the middleware lets nobody through
  who is not a stored user.
\<close>

section \<open>The lookup of memberships\<close>

text \<open>
  The contract that \<open>FilterProjectIDs\<close> relies on: the listing of a user has that user's memberships, one
  for a project, and agrees with the lookup by project.
\<close>

locale batch_lookup =
  fixes lookup :: "'s \<Rightarrow> ProjectRoleLookup" and ok :: "'s \<Rightarrow> User \<Rightarrow> bool"
  assumes listed: "ok s user \<Longrightarrow> \<exists>listing ms. prl_ListProjectMembershipsByUser (lookup s) = Some listing \<and> listing (usr_ID user) = Inr ms \<and>
      (\<forall>m \<in> set ms. mem_UserID m = usr_ID user) \<and> inj_on mem_ProjectID (set ms) \<and>
      (\<forall>p m. trimmed p \<longrightarrow> (prl_GetProjectMembership (lookup s) p (usr_ID user) = Inr m \<longleftrightarrow> m \<in> set ms \<and> mem_ProjectID m = p))"
    and missing: "ok s user \<Longrightarrow> prl_GetProjectMembership (lookup s) p (usr_ID user) = Inl err \<Longrightarrow> err = RepoErrProjectMembershipNotFound"
    and identified: "ok s user \<Longrightarrow> TrimSpace (usr_ID user) \<noteq> []"
begin

lemma cached_get:
  assumes "inj_on mem_ProjectID (set ms)"
  shows "map_of (fold (\<lambda>m cached. gm_put (mem_ProjectID m) m cached) ms []) p = Some m \<longleftrightarrow> m \<in> set ms \<and> mem_ProjectID m = p"
  using assms
proof (induction ms rule: rev_induct)
  case (snoc a ms)
  then have "inj_on mem_ProjectID (set ms)" by (simp add: inj_on_def)
  with snoc show ?case by (auto simp: inj_on_def)
qed simp

lemma role_Inr:
  assumes "ok s user"
  shows "\<exists>b. HasProjectRole (lookup s) user p minimum = Inr b"
  using missing [OF assms] by (auto simp: HasProjectRole_def split: sum.split)

lemma cached_role:
  assumes "ok s user" and "trimmed p" and "prl_ListProjectMembershipsByUser (lookup s) = Some listing" and "listing (usr_ID user) = Inr ms"
  shows "HasProjectRole (staticProjectRoleLookup (fold (\<lambda>m cached. gm_put (mem_ProjectID m) m cached) ms [])) user p minimum =
    HasProjectRole (lookup s) user p minimum"
proof -
  let ?cache = "fold (\<lambda>m cached. gm_put (mem_ProjectID m) m cached) ms []"
  have ms: "\<forall>m \<in> set ms. mem_UserID m = usr_ID user" "inj_on mem_ProjectID (set ms)"
      "\<And>m. prl_GetProjectMembership (lookup s) p (usr_ID user) = Inr m \<longleftrightarrow> m \<in> set ms \<and> mem_ProjectID m = p"
    using listed [OF assms(1)] assms(2-4) by auto
  show ?thesis
  proof (cases "map_of ?cache p")
    case None
    then have "prl_GetProjectMembership (lookup s) p (usr_ID user) = Inl RepoErrProjectMembershipNotFound"
      using ms(3) cached_get [OF ms(2), of p] missing [OF assms(1), of p] by (cases "prl_GetProjectMembership (lookup s) p (usr_ID user)") auto
    with None show ?thesis by (simp add: HasProjectRole_def staticProjectRoleLookup_def)
  next
    case (Some m)
    then have "m \<in> set ms" "mem_ProjectID m = p" using cached_get [OF ms(2)] by auto
    then have "prl_GetProjectMembership (lookup s) p (usr_ID user) = Inr m" "mem_UserID m = usr_ID user" using ms by auto
    with Some show ?thesis by (simp add: HasProjectRole_def staticProjectRoleLookup_def)
  qed
qed

lemma allowed_filter:
  assumes "\<And>p. p \<in> set ps \<Longrightarrow> HasProjectRole l user p minimum = Inr (allowed p)"
  shows "allowed_projects l user minimum ps = Inr (filter allowed ps)"
  using assms by (induction ps) auto

lemma filter_individually:
  assumes ok: "ok s (pri_User who)"
  shows "FilterProjectIDs (NewAuthorizer disabled (Some (lookup s))) who ids minimum =
    Inr (filter (\<lambda>p. RequireProjectRole (NewAuthorizer disabled (Some (lookup s))) who p minimum = None)
      (remdups (filter (\<lambda>i. i \<noteq> []) (map TrimSpace ids))))"
proof -
  let ?a = "NewAuthorizer disabled (Some (lookup s))" and ?user = "pri_User who" and ?ps = "remdups (filter (\<lambda>i. i \<noteq> []) (map TrimSpace ids))"
  have ps: "trimmed p" "TrimSpace p \<noteq> []" if "p \<in> set ?ps" for p using that by auto
  have single: "RequireProjectRole ?a who p minimum = None \<longleftrightarrow>
      disabled \<or> IsGlobalAdmin ?user \<or> HasProjectRole (lookup s) ?user p minimum = Inr True" if "p \<in> set ?ps" for p
    using ps(2) [OF that] identified [OF ok] role_Inr [OF ok, of p minimum]
    by (auto simp: RequireProjectRole_def CanAccessProject_def NewAuthorizer_def split: if_splits)
  show ?thesis
  proof (cases "disabled \<or> IsGlobalAdmin ?user \<or> ?ps = []")
    case True
    have "filter (\<lambda>p. RequireProjectRole ?a who p minimum = None) ?ps = ?ps" if "disabled \<or> IsGlobalAdmin ?user"
      by (rule filter_True) (use single that in blast)
    then have "filter (\<lambda>p. RequireProjectRole ?a who p minimum = None) ?ps = ?ps"
      using True by (cases "?ps = []") (simp_all only: filter.simps, blast)
    with True show ?thesis by (auto simp: FilterProjectIDs_def NewAuthorizer_def Let_def)
  next
    case False
    obtain listing ms where l: "prl_ListProjectMembershipsByUser (lookup s) = Some listing" "listing (usr_ID ?user) = Inr ms"
      using listed [OF ok] by blast
    let ?cached = "staticProjectRoleLookup (fold (\<lambda>m cached. gm_put (mem_ProjectID m) m cached) ms [])"
    have "HasProjectRole ?cached ?user p minimum = Inr (RequireProjectRole ?a who p minimum = None)" if "p \<in> set ?ps" for p
      using cached_role [OF ok ps(1) [OF that] l] single [OF that] False role_Inr [OF ok, of p minimum] by auto
    then have "allowed_projects ?cached ?user minimum ?ps = Inr (filter (\<lambda>p. RequireProjectRole ?a who p minimum = None) ?ps)"
      by (rule allowed_filter)
    with False l identified [OF ok] show ?thesis by (simp add: FilterProjectIDs_def NewAuthorizer_def Let_def)
  qed
qed

end

text \<open>The memberships of the services meet it, for every user with an identifier of the store.\<close>

definition identified_user :: "Accounts \<Rightarrow> User \<Rightarrow> bool" where
  "identified_user s user \<longleftrightarrow> accounts_ok s \<and> uuid_shape (usr_ID user)"

lemma membershipKey_inj:
  assumes "membershipKey p u = membershipKey q v" and "CHR '':'' \<notin> set u" and "CHR '':'' \<notin> set v"
  shows "p = q \<and> u = v"
proof -
  have "rev u @ CHR '':'' # rev p = rev v @ CHR '':'' # rev q"
    using arg_cong [OF assms(1), of rev] by (simp add: membershipKey_def)
  moreover have "takeWhile (\<lambda>c. c \<noteq> CHR '':'') (rev u @ CHR '':'' # rev p) = rev u"
      "takeWhile (\<lambda>c. c \<noteq> CHR '':'') (rev v @ CHR '':'' # rev q) = rev v"
    using assms(2,3) by (simp_all add: takeWhile_append)
  ultimately have "rev u = rev v" by metis
  then show ?thesis using assms(1) by (simp add: membershipKey_def)
qed

lemma stored_membership:
  assumes "accounts_ok s" and "(k, m) \<in> set (pmr_memberships (ac_memberships s))"
  shows "k = membershipKey (mem_ProjectID m) (mem_UserID m)" "CHR '':'' \<notin> set (mem_UserID m)" "trimmed (mem_ProjectID m)" "mem_ProjectID m \<noteq> []"
proof -
  have m: "k = membershipKey (mem_ProjectID m) (mem_UserID m)" "membership_ok (ac_users s) m"
    using assms by (auto simp: accounts_ok_def memberships_ok_def)
  then obtain u where u: "map_of (ur_users (ac_users s)) (mem_UserID m) = Some u" by (auto simp: membership_ok_def)
  have "uuid_shape (mem_UserID m)" using users_okD [OF accounts_users [OF assms(1)] u] by (auto simp: user_ok_def)
  with m show "k = membershipKey (mem_ProjectID m) (mem_UserID m)" "CHR '':'' \<notin> set (mem_UserID m)" "trimmed (mem_ProjectID m)" "mem_ProjectID m \<noteq> []"
    by (auto simp: membership_ok_def uuid_shape_trimmed)
qed

lemma get_membership_iff:
  assumes "accounts_ok s" and "uuid_shape u" and "trimmed p"
  shows "GetProjectMembership p u s = Inr m \<longleftrightarrow>
    m \<in> set (ListProjectMembershipsByUser u s) \<and> mem_ProjectID m = p"
proof -
  note u = uuid_shape_trimmed [OF assms(2)]
  let ?ms = "pmr_memberships (ac_memberships s)"
  have "gm_ok ?ms" using assms(1) by (simp add: accounts_ok_def memberships_ok_def)
  moreover have "GetProjectMembership p u s = Inr m \<longleftrightarrow> map_of ?ms (membershipKey p u) = Some m"
    using assms(3) u by (simp add: GetProjectMembership_def Membership_Get_def TrimSpace_id split: option.split)
  ultimately have "GetProjectMembership p u s = Inr m \<longleftrightarrow> (membershipKey p u, m) \<in> set ?ms" by simp
  also have "\<dots> \<longleftrightarrow> (\<exists>k. (k, m) \<in> set ?ms) \<and> mem_UserID m = u \<and> mem_ProjectID m = p"
    using stored_membership [OF assms(1)] membershipKey_inj u by (metis (no_types))
  also have "\<dots> \<longleftrightarrow> m \<in> set (ListProjectMembershipsByUser u s) \<and> mem_ProjectID m = p"
    using u by (auto simp: ListProjectMembershipsByUser_def Let_def TrimSpace_id Membership_ListByUserID_def image_iff Bex_def)
  finally show ?thesis .
qed

interpretation memberships: batch_lookup membership_lookup identified_user
proof unfold_locales
  fix s user
  assume "identified_user s user"
  then have ok: "accounts_ok s" "uuid_shape (usr_ID user)" by (simp_all add: identified_user_def)
  note u = uuid_shape_trimmed [OF ok(2)]
  let ?ms = "ListProjectMembershipsByUser (usr_ID user) s"
  have mine: "mem_UserID m = usr_ID user \<and> trimmed (mem_ProjectID m)" if "m \<in> set ?ms" for m
    using that u stored_membership(3) [OF ok(1)]
    by (auto simp: ListProjectMembershipsByUser_def Let_def TrimSpace_id Membership_ListByUserID_def)
  have "inj_on mem_ProjectID (set ?ms)"
  proof (rule inj_onI)
    fix m n
    assume "m \<in> set ?ms" "n \<in> set ?ms" "mem_ProjectID m = mem_ProjectID n"
    with get_membership_iff [OF ok, of "mem_ProjectID m"] mine have "Inr m = (Inr n :: account_error + ProjectMembership)" by metis
    then show "m = n" by simp
  qed
  then show "\<exists>listing ms. prl_ListProjectMembershipsByUser (membership_lookup s) = Some listing \<and> listing (usr_ID user) = Inr ms \<and>
      (\<forall>m \<in> set ms. mem_UserID m = usr_ID user) \<and> inj_on mem_ProjectID (set ms) \<and>
      (\<forall>p m. trimmed p \<longrightarrow> (prl_GetProjectMembership (membership_lookup s) p (usr_ID user) = Inr m \<longleftrightarrow> m \<in> set ms \<and> mem_ProjectID m = p))"
    using mine get_membership_iff [OF ok] by (simp add: membership_lookup_def)
  show "TrimSpace (usr_ID user) \<noteq> []" using u by (simp add: TrimSpace_id)
next
  fix s user p err
  assume "prl_GetProjectMembership (membership_lookup s) p (usr_ID user) = Inl err"
  then show "err = RepoErrProjectMembershipNotFound"
    by (auto simp: membership_lookup_def GetProjectMembership_def Membership_Get_def split: option.splits)
qed

section \<open>Revocation\<close>

definition revoked :: "string \<Rightarrow> APITokenRepository \<Rightarrow> bool" where
  "revoked i r \<longleftrightarrow> (\<exists>t. map_of (atr_tokens r) i = Some t \<and> tok_RevokedAt t \<noteq> None)"

lemma revoked_put_other: "revoked i r \<Longrightarrow> k \<noteq> i \<Longrightarrow> revoked i (r\<lparr>atr_tokens := gm_put k t (atr_tokens r)\<rparr>)"
  by (auto simp: revoked_def)

lemma revoked_Revoke: "revoked i r \<Longrightarrow> revoked i (fst (RevokeByID u k now r))"
  by (auto simp: revoked_def RevokeByID_def split: option.split)

lemma revoked_Touch: "revoked i r \<Longrightarrow> revoked i (fst (TouchLastUsed k now r))"
  by (auto simp: revoked_def TouchLastUsed_def split: option.split)

lemma revoked_CreateAPIToken:
  assumes "revoked i (ac_tokens s)" and "new_ids x" and "ax_uuid x 0 \<noteq> i"
  shows "revoked i (ac_tokens (fst (CreateAPIToken x input s)))"
proof -
  obtain s' answer where c: "CreateAPIToken x input s = (s', answer)" by (metis surj_pair)
  from c show ?thesis
  proof (cases rule: CreateAPIToken_cases)
    case (refused err)
    with assms c show ?thesis by simp
  next
    case (created u scopes plaintext t)
    have "tok_ID t \<noteq> i" using assms(2,3) by (auto simp: created(7) new_ids_def uuid_shape_def)
    with assms(1) c created(8) show ?thesis by (simp add: revoked_put_other)
  qed
qed

lemma only_users_tokens: "only_users s s' \<Longrightarrow> ac_tokens s' = ac_tokens s"
  by (auto simp: only_users_def)

lemma membership_requests_tokens [simp]:
  "ac_tokens (fst (UpsertProjectMembership x input s)) = ac_tokens s" "ac_tokens (fst (DeleteProjectMembership p u s)) = ac_tokens s"
  "ac_tokens (fst (DeleteUser i s)) = ac_tokens s"
  by (auto simp: UpsertProjectMembership_def DeleteProjectMembership_def DeleteUser_def Let_def split: sum.split prod.split)

lemma revoked_serve:
  assumes "revoked i (ac_tokens s)" and "accounts_ok s" and "request_ids (x, req)" and "ax_uuid x 0 \<noteq> i"
  shows "revoked i (ac_tokens (serve x req s))"
proof -
  note users = accounts_users [OF assms(2)]
  note same = CreateUser_only [OF users, THEN only_users_tokens] UpdateUser_only [OF users, THEN only_users_tokens]
    resolveExternalUser_only [OF users, THEN only_users_tokens] BootstrapAdmins_only [OF users, THEN only_users_tokens]
  show ?thesis
  proof (cases req)
    case (ReqCreateToken input)
    with assms show ?thesis by (simp add: revoked_CreateAPIToken)
  next
    case (ReqRevokeToken u t)
    with assms(1) revoked_Revoke [of i "ac_tokens s" "TrimSpace u" "TrimSpace t" "ax_now x"] show ?thesis
      by (auto simp: RevokeAPIToken_def Let_def split: prod.split)
  next
    case (ReqAuthenticate token)
    with assms(1) AuthenticateAPIToken_state [of x token s] revoked_Touch show ?thesis by auto
  qed (use assms same other_requests_same in \<open>auto simp: ResolveHeaderUser_def ResolveOIDCUser_def same_accounts_def\<close>)
qed

lemma revoked_serve_all:
  "revoked i (ac_tokens s) \<Longrightarrow> accounts_ok s \<Longrightarrow> \<forall>r \<in> set rs. request_ids r \<and> ax_uuid (fst r) 0 \<noteq> i \<Longrightarrow>
   revoked i (ac_tokens (serve_all rs s)) \<and> accounts_ok (serve_all rs s)"
  by (induction rs s rule: serve_all.induct) (simp_all add: revoked_serve serve_accounts)

lemma GetByHash_stored:
  assumes "GetByHash h r = Inr t" and "tokens_ok r"
  shows "map_of (atr_tokens r) (tok_ID t) = Some t" "tok_TokenHash t = h"
proof -
  have "t \<in> snd ` set (atr_tokens r) \<and> tok_TokenHash t = h"
    using assms(1) by (auto simp: GetByHash_def find_Some_iff split: option.splits)
  with assms(2) show "map_of (atr_tokens r) (tok_ID t) = Some t" "tok_TokenHash t = h" by (auto simp: tokens_ok_def)
qed

text \<open>Whom a token authenticates: the owner of a stored token with that hash, neither revoked nor expired.\<close>

lemma AuthenticateAPIToken_sound:
  assumes "AuthenticateAPIToken x p s = (s', Inr a)" and "accounts_ok s"
  shows "map_of (atr_tokens (ac_tokens s)) (tok_ID (aat_Token a)) = Some (aat_Token a)" "tok_RevokedAt (aat_Token a) = None"
    "case tok_ExpiresAt (aat_Token a) of None \<Rightarrow> True | Some e \<Rightarrow> e > ax_now x"
    "map_of (ur_users (ac_users s)) (tok_UserID (aat_Token a)) = Some (aat_User a)" "HasPrefix (TrimSpace p) APITokenPrefix"
    "tok_TokenHash (aat_Token a) = HashAPIToken x (TrimSpace p)" "ac_users s' = ac_users s"
proof -
  have prefix: "HasPrefix (TrimSpace p) APITokenPrefix"
    using assms(1) by (auto simp: AuthenticateAPIToken_def Let_def split: if_splits)
  obtain t where t: "GetByHash (HashAPIToken x (TrimSpace p)) (ac_tokens s) = Inr t"
    using assms(1) prefix by (cases "GetByHash (HashAPIToken x (TrimSpace p)) (ac_tokens s)") (auto simp: AuthenticateAPIToken_def Let_def)
  have r: "tok_RevokedAt t = None" and e: "\<not> (case tok_ExpiresAt t of None \<Rightarrow> False | Some e \<Rightarrow> \<not> e > ax_now x)"
    using assms(1) by (simp_all add: AuthenticateAPIToken_def Let_def prefix t split: if_splits)
  obtain u where u: "map_of (ur_users (ac_users s)) (tok_UserID t) = Some u" and a: "a = \<lparr>aat_User = u, aat_Token = t\<rparr>" and s': "ac_users s' = ac_users s"
    using assms(1)
    by (cases "map_of (ur_users (ac_users s)) (tok_UserID t)")
      (auto simp: AuthenticateAPIToken_def Let_def prefix t r e UserRepository_GetByID_def split: if_splits)
  have f: "case tok_ExpiresAt t of None \<Rightarrow> True | Some e \<Rightarrow> e > ax_now x" using e by (cases "tok_ExpiresAt t") simp_all
  have tok: "tokens_ok (ac_tokens s)" using assms(2) by (simp add: accounts_ok_def)
  show "map_of (atr_tokens (ac_tokens s)) (tok_ID (aat_Token a)) = Some (aat_Token a)" "tok_RevokedAt (aat_Token a) = None"
    "case tok_ExpiresAt (aat_Token a) of None \<Rightarrow> True | Some e \<Rightarrow> e > ax_now x"
    "map_of (ur_users (ac_users s)) (tok_UserID (aat_Token a)) = Some (aat_User a)" "HasPrefix (TrimSpace p) APITokenPrefix"
    "tok_TokenHash (aat_Token a) = HashAPIToken x (TrimSpace p)" "ac_users s' = ac_users s"
    using GetByHash_stored [OF t tok] u f r prefix s' by (simp_all add: a)
qed

lemma RevokeAPIToken_revoked: "RevokeAPIToken x u i s = (s1, None) \<Longrightarrow> revoked (TrimSpace i) (ac_tokens s1)"
  by (auto simp: RevokeAPIToken_def RevokeByID_def Let_def revoked_def split: if_splits option.splits)

section \<open>Tokens that were issued\<close>

lemma find_put:
  assumes "\<forall>e \<in> set m. \<not> P (snd e)" and "P v"
  shows "find P (map snd (gm_put k v m)) = Some v"
  using assms by (induction m) auto

lemma issued_token_authenticates:
  assumes create: "CreateAPIToken x input s = (s1, Inr c)"
    and unused: "\<forall>(i, t) \<in> set (atr_tokens (ac_tokens s)). tok_TokenHash t \<noteq> tok_TokenHash (cat_Token c)"
    and sha: "ax_sha256_hex y = ax_sha256_hex x" and fresh: "case ct_ExpiresAt input of None \<Rightarrow> True | Some e \<Rightarrow> e > ax_now y"
    and plain: "trimmed (cat_PlaintextToken c)"
  shows "\<exists>s2 u. AuthenticateAPIToken y (cat_PlaintextToken c) s1 = (s2, Inr \<lparr>aat_User = u, aat_Token = cat_Token c\<rparr>) \<and>
    map_of (ur_users (ac_users s)) (TrimSpace (ct_UserID input)) = Some u"
  using create
proof (cases rule: CreateAPIToken_cases)
  case (created u scopes plaintext t)
  have c: "cat_Token c = t" "cat_PlaintextToken c = plaintext" using created(1) by simp_all
  have t: "tok_TokenHash t = HashAPIToken y plaintext" "tok_RevokedAt t = None" "tok_ExpiresAt t = ct_ExpiresAt input" "tok_UserID t = TrimSpace (ct_UserID input)"
    using sha by (simp_all add: created(7) HashAPIToken_def)
  have "HasPrefix plaintext APITokenPrefix"
    using created(4) by (auto simp: generatePlaintextToken_def HasPrefix_def split: option.splits)
  moreover have "GetByHash (HashAPIToken y plaintext) (ac_tokens s1) = Inr t"
    using find_put [of "atr_tokens (ac_tokens s)" "\<lambda>t'. tok_TokenHash t' = HashAPIToken y plaintext" t "tok_ID t"] unused t(1) c(1)
    by (simp add: GetByHash_def created(8) case_prod_beta)
  moreover have "ac_users s1 = ac_users s" by (simp add: created(8))
  ultimately show ?thesis
    using created(2) t fresh plain c
    by (auto simp: AuthenticateAPIToken_def Let_def TrimSpace_id UserRepository_GetByID_def split: option.splits)
qed simp

lemma APITokenPrefix_no_space: "\<forall>c \<in> set APITokenPrefix. \<not> is_space c"
  by code_simp

lemma generated_plain:
  assumes "generatePlaintextToken x = Inr plaintext"
  shows "plaintext \<noteq> []" "\<forall>c \<in> set plaintext. \<not> is_space c" "trimmed plaintext"
proof -
  obtain buf where p: "plaintext = APITokenPrefix @ EncodeToString buf"
    using assms by (auto simp: generatePlaintextToken_def split: option.splits)
  have "APITokenPrefix \<noteq> []" by (simp add: APITokenPrefix_def)
  with p show "plaintext \<noteq> []" by simp
  show sp: "\<forall>c \<in> set plaintext. \<not> is_space c" using APITokenPrefix_no_space EncodeToString_no_space p by auto
  with \<open>plaintext \<noteq> []\<close> show "trimmed plaintext" by (auto simp: trimmed_def)
qed

lemma Fields_Nil: "Fields [] = []"
  by (simp add: Fields.simps)

lemma Fields_word:
  assumes "w \<noteq> []" and "\<forall>c \<in> set w. \<not> is_space c"
  shows "Fields w = [w]"
proof -
  obtain c cs where w: "w = c # cs" using assms(1) by (cases w) auto
  have cs: "takeWhile (\<lambda>d. \<not> is_space d) cs = cs" "dropWhile (\<lambda>d. \<not> is_space d) cs = []" using assms(2) w by (simp_all add: takeWhile_eq_all_conv)
  show ?thesis using assms(2) by (simp add: w Fields.simps [of "c # cs"] cs Fields_Nil)
qed

lemma Fields_space: "is_space c \<Longrightarrow> Fields (c # s) = Fields s"
  by (simp add: Fields.simps [of "c # s"] Fields.simps [of s])

lemma bearer_fields:
  assumes "w \<noteq> []" and "\<forall>c \<in> set w. \<not> is_space c"
  shows "Fields (''Bearer '' @ w) = [''Bearer'', w]"
proof -
  have sp: "is_space CHR '' ''" by code_simp
  have b: "\<not> is_space CHR ''B''" "\<not> is_space CHR ''e''" "\<not> is_space CHR ''a''" "\<not> is_space CHR ''r''" by code_simp+
  have "Fields (''Bearer '' @ w) = ''Bearer'' # Fields (CHR '' '' # w)"
    using sp b by (simp add: Fields.simps [of "CHR ''B'' # v" for v])
  then show ?thesis using Fields_space [OF sp] Fields_word [OF assms] by simp
qed

lemma bearer_header:
  assumes "w \<noteq> []" and "\<forall>c \<in> set w. \<not> is_space c"
  shows "bearerToken (r\<lparr>ar_Authorization := ''Bearer '' @ w\<rparr>) = (w, True)"
proof -
  have "\<not> is_space CHR ''B''" by code_simp
  moreover have "last (''Bearer '' @ w) = last w" using assms(1) by simp
  ultimately have "trimmed (''Bearer '' @ w)" using assms by (simp add: trimmed_def)
  then have "TrimSpace (''Bearer '' @ w) = ''Bearer '' @ w" by (rule TrimSpace_id)
  then show ?thesis using bearer_fields [OF assms] by (simp add: bearerToken_def Let_def EqualFold_def)
qed

section \<open>Cookies\<close>

text \<open>A value decodes only when it carries the signature of its payload; what was encoded decodes to its payload.\<close>

lemma decode_encode_cookie: "decode codec m unmarshal (encode codec m raw) = (case unmarshal raw of None \<Rightarrow> Inl ErrSessionInvalid | Some v \<Rightarrow> Inr v)"
proof -
  have "SplitChar CHR ''.'' (EncodeToString raw @ CHR ''.'' # sign codec m (EncodeToString raw)) = [EncodeToString raw, sign codec m (EncodeToString raw)]"
    by (simp add: SplitChar_append_sep SplitChar_plain EncodeToString_no_dot sign_def)
  then show ?thesis by (simp add: decode_def encode_def Let_def)
qed

lemma decode_signed:
  assumes "decode codec m unmarshal value = Inr v"
  shows "\<exists>payload raw. value = payload @ ''.'' @ sign codec m payload \<and> DecodeString payload = Some raw \<and> unmarshal raw = Some v"
proof -
  obtain payload signature where sp: "SplitChar CHR ''.'' value = [payload, signature]"
    using assms by (auto simp: decode_def split: list.splits)
  have "value = payload @ ''.'' @ signature" using JoinChar_SplitChar [of "CHR ''.''" "value"] sp by simp
  with assms sp show ?thesis by (auto simp: decode_def split: if_splits option.splits)
qed

end
