(* ===== verification/Account_Guarantees.thy ===== *)
theory Account_Guarantees
  imports Account_Properties
begin

text \<open>
  The properties of accounts and authorization, each with a run of the services on which it applies.
\<close>

section \<open>A run of the services\<close>

definition account_clock :: "nat \<Rightarrow> string \<Rightarrow> AccountExternals" where
  "account_clock n i = \<lparr>ax_now = int n * 1000000000, ax_uuid = \<lambda>_. i, ax_random = Some ''0123'', ax_sha256_hex = \<lambda>p. rev p\<rparr>"

definition first_requests :: "(AccountExternals \<times> account_request) list" where
  "first_requests =
     [(account_clock 1 ''a1'', ReqCreateUser \<lparr>cu_Email = '' Ann@Example.org'', cu_DisplayName = None, cu_GlobalRole = []\<rparr>),
      (account_clock 2 ''b1'', ReqCreateProject \<lparr>cp_Name = ''Core'', cp_Slug = ''core'', cp_Description = None, cp_IsPublic = False\<rparr>),
      (account_clock 3 ''c1'', ReqUpsertMembership \<lparr>um_ProjectID = ''b1'', um_UserID = ''a1'', um_Role = ''maintainer''\<rparr>)]"

definition token_input :: CreateAPITokenInput where
  "token_input = \<lparr>ct_UserID = ''a1'', ct_Name = ''ci'', ct_ExpiresAt = Some 90000000000, ct_Scopes = ['' build:read'', ''build:logs'']\<rparr>"

definition ann :: User where
  "ann = \<lparr>usr_ID = ''a1'', usr_Email = ''ann@example.org'', usr_DisplayName = None, usr_GlobalRole = GlobalRoleUser,
     usr_CreatedAt = 1000000000, usr_UpdatedAt = 1000000000\<rparr>"

lemma account_clock_ids [simp]: "new_ids (account_clock n i) \<longleftrightarrow> uuid_shape i"
  by (simp add: new_ids_def account_clock_def)

lemma account_clock_uuid: "ax_uuid (account_clock n i) k = i"
  by (simp add: account_clock_def)

lemma fixture_ids [simp]: "uuid_shape ''a1''" "uuid_shape ''b1''" "uuid_shape ''c1''" "uuid_shape ''d1''"
  by code_simp+

lemma first_requests_ids: "\<forall>r \<in> set first_requests. request_ids r"
  by (simp add: first_requests_def)

lemma first_requests_ann: "map_of (ur_users (ac_users (serve_all first_requests NewAccounts))) ''a1'' = Some ann"
  by code_simp

section \<open>The invariant of accounts\<close>

text \<open>
  C21: whatever sequence of requests is served from empty stores, users are stored under their identifier, with one
  normalised address each that no other user has in any spelling, and a known global role; memberships are stored
  under the key of their project and user, with a known role, and their user still exists; and tokens are stored under
  their identifier with known scopes without repetition.
\<close>

theorem accounts_in_order:
  assumes "\<forall>r \<in> set rs. request_ids r"
  shows "accounts_ok (serve_all rs NewAccounts)"
  using assms by (rule serve_all_accounts [OF NewAccounts_ok])

theorem accounts_in_order_witness: "accounts_ok (serve_all first_requests NewAccounts)"
  by (rule accounts_in_order) (rule first_requests_ids)

section \<open>Roles\<close>

text \<open>The roles that a role includes.\<close>

definition role_includes :: "string \<Rightarrow> string list" where
  "role_includes role =
     (if role = ''owner'' then [''owner'', ''maintainer'', ''viewer''] else if role = ''maintainer'' then [''maintainer'', ''viewer'']
      else if role = ''viewer'' then [''viewer''] else [])"

lemma projectRoleRank_includes:
  "minimum \<in> {ProjectMemberRoleOwner, ProjectMemberRoleMaintainer, ProjectMemberRoleViewer} \<Longrightarrow>
   projectRoleRank minimum \<le> projectRoleRank role \<longleftrightarrow> minimum \<in> set (role_includes role)"
  by (auto simp: projectRoleRank_def role_includes_def ProjectMemberRoleOwner_def ProjectMemberRoleMaintainer_def ProjectMemberRoleViewer_def)

lemma identified_served:
  assumes "\<forall>r \<in> set rs. request_ids r" and "map_of (ur_users (ac_users (serve_all rs NewAccounts))) i = Some user"
  shows "identified_user (serve_all rs NewAccounts) user"
proof -
  have "accounts_ok (serve_all rs NewAccounts)" using serve_all_accounts [OF NewAccounts_ok assms(1)] .
  with users_okD [OF accounts_users assms(2)] show ?thesis by (simp add: identified_user_def user_ok_def)
qed

text \<open>
  C22: for a stored user, the authorizer over the membership service grants a role of a project exactly to global
  administrators and to members whose own role includes it, and answers everybody else that it is forbidden;
  it never fails otherwise.
\<close>

theorem require_role_decides:
  assumes "\<forall>r \<in> set rs. request_ids r" and "s = serve_all rs NewAccounts" and "map_of (ur_users (ac_users s)) i = Some (pri_User who)"
    and "TrimSpace p \<noteq> []" and "minimum \<in> {ProjectMemberRoleOwner, ProjectMemberRoleMaintainer, ProjectMemberRoleViewer}"
  shows "RequireProjectRole (NewAuthorizer False (Some (membership_lookup s))) who p minimum =
    (if usr_GlobalRole (pri_User who) = GlobalRoleAdmin \<or>
        (\<exists>m \<in> set (ListProjectMembershipsByUser i s). mem_ProjectID m = TrimSpace p \<and> minimum \<in> set (role_includes (mem_Role m)))
     then None else Some ErrForbidden)"
proof -
  have ok: "identified_user s (pri_User who)" using identified_served assms(1-3) by simp
  then have acc: "accounts_ok s" and u: "uuid_shape (usr_ID (pri_User who))" by (simp_all add: identified_user_def)
  have i: "usr_ID (pri_User who) = i" using users_okD(1) [OF accounts_users [OF acc] assms(3)] .
  have nonblank: "TrimSpace (usr_ID (pri_User who)) \<noteq> []" using memberships.identified [OF ok] .
  note get = get_membership_iff [OF acc u, of "TrimSpace p"]
  have same: "GetProjectMembership p i s = GetProjectMembership (TrimSpace p) i s" by (simp add: GetProjectMembership_def)
  show ?thesis
  proof (cases "GetProjectMembership (TrimSpace p) i s")
    case (Inl err)
    then have "err = RepoErrProjectMembershipNotFound" by (auto simp: GetProjectMembership_def Membership_Get_def split: option.splits)
    with Inl get i nonblank assms(4) same show ?thesis
      by (auto simp: RequireProjectRole_def CanAccessProject_def NewAuthorizer_def IsGlobalAdmin_def HasProjectRole_def membership_lookup_def)
  next
    case (Inr m)
    then have "(\<exists>m \<in> set (ListProjectMembershipsByUser i s). mem_ProjectID m = TrimSpace p \<and> minimum \<in> set (role_includes (mem_Role m))) \<longleftrightarrow>
        minimum \<in> set (role_includes (mem_Role m))"
      using get i by (metis sum.inject(2) trimmed_TrimSpace)
    with Inr nonblank assms(4) same i projectRoleRank_includes [OF assms(5), of "mem_Role m"] show ?thesis
      by (simp add: RequireProjectRole_def CanAccessProject_def NewAuthorizer_def IsGlobalAdmin_def HasProjectRole_def membership_lookup_def)
  qed
qed

theorem require_role_decides_witness:
  "RequireProjectRole (NewAuthorizer False (Some (membership_lookup (serve_all first_requests NewAccounts)))) \<lparr>pri_User = ann, pri_APIToken = None\<rparr>
     '' b1'' ProjectMemberRoleViewer = None"
proof -
  let ?s = "serve_all first_requests NewAccounts"
  have p: "TrimSpace '' b1'' \<noteq> []" by code_simp
  have m: "\<exists>m \<in> set (ListProjectMembershipsByUser ''a1'' ?s). mem_ProjectID m = TrimSpace '' b1'' \<and> ProjectMemberRoleViewer \<in> set (role_includes (mem_Role m))"
    by code_simp
  show ?thesis
    by (subst require_role_decides [OF first_requests_ids refl, of "''a1''"]) (use p m in \<open>simp_all add: first_requests_ann\<close>)
qed

text \<open>
  C23: filtering projects with the memberships of a user loaded at once returns exactly the projects, without blanks and
  repetitions, that the check of a single project allows, in every mode and for every stored user.
\<close>

theorem filter_projects_individually:
  assumes "\<forall>r \<in> set rs. request_ids r" and "s = serve_all rs NewAccounts" and "map_of (ur_users (ac_users s)) i = Some (pri_User who)"
  shows "FilterProjectIDs (NewAuthorizer disabled (Some (membership_lookup s))) who ids minimum =
    Inr (filter (\<lambda>p. RequireProjectRole (NewAuthorizer disabled (Some (membership_lookup s))) who p minimum = None)
      (remdups (filter (\<lambda>p. p \<noteq> []) (map TrimSpace ids))))"
  using assms by (intro memberships.filter_individually) (simp add: identified_served)

theorem filter_projects_individually_witness:
  "FilterProjectIDs (NewAuthorizer False (Some (membership_lookup (serve_all first_requests NewAccounts)))) \<lparr>pri_User = ann, pri_APIToken = None\<rparr>
     ['' b1'', ''zz'', ''b1''] ProjectMemberRoleViewer =
   Inr (filter (\<lambda>p. RequireProjectRole (NewAuthorizer False (Some (membership_lookup (serve_all first_requests NewAccounts))))
       \<lparr>pri_User = ann, pri_APIToken = None\<rparr> p ProjectMemberRoleViewer = None)
     (remdups (filter (\<lambda>p. p \<noteq> []) (map TrimSpace ['' b1'', ''zz'', ''b1'']))))"
  by (rule filter_projects_individually [OF first_requests_ids refl, of "''a1''"]) (simp add: first_requests_ann)

section \<open>Tokens\<close>

text \<open>
  C20: once a token has been revoked, it authenticates nobody, with any plaintext, at any time and after any further
  requests, as long as identifiers are not issued twice.
\<close>

theorem revoked_token_refused:
  assumes "\<forall>r \<in> set rs. request_ids r" and "RevokeAPIToken x u i (serve_all rs NewAccounts) = (s1, None)"
    and "\<forall>r \<in> set later. request_ids r \<and> ax_uuid (fst r) 0 \<noteq> TrimSpace i"
  shows "case snd (AuthenticateAPIToken y plaintext (serve_all later s1)) of Inl _ \<Rightarrow> True | Inr a \<Rightarrow> tok_ID (aat_Token a) \<noteq> TrimSpace i"
proof -
  have "accounts_ok s1"
    using RevokeAPIToken_accounts [OF serve_all_accounts [OF NewAccounts_ok assms(1)], of x u i] assms(2) by simp
  with revoked_serve_all [OF RevokeAPIToken_revoked [OF assms(2)] _ assms(3)]
  have r: "revoked (TrimSpace i) (ac_tokens (serve_all later s1))" "accounts_ok (serve_all later s1)" by simp_all
  show ?thesis
  proof (cases "AuthenticateAPIToken y plaintext (serve_all later s1)")
    case (Pair s2 answer)
    then show ?thesis using AuthenticateAPIToken_sound(1,2) [OF _ r(2), of y plaintext s2] r(1)
      by (cases answer) (auto simp: revoked_def)
  qed
qed

definition token_requests :: "(AccountExternals \<times> account_request) list" where
  "token_requests = first_requests @ [(account_clock 4 ''d1'', ReqCreateToken token_input)]"

theorem revoked_token_refused_witness:
  "\<exists>s1. RevokeAPIToken (account_clock 5 ''c1'') ''a1'' ''d1'' (serve_all token_requests NewAccounts) = (s1, None) \<and>
     (case snd (AuthenticateAPIToken (account_clock 6 ''c1'') ''coyote_pat_MDEyMw'' (serve_all [(account_clock 7 ''c1'', ReqCreateToken token_input)] s1)) of
        Inl _ \<Rightarrow> True | Inr a \<Rightarrow> tok_ID (aat_Token a) \<noteq> TrimSpace ''d1'')"
proof -
  have "snd (RevokeAPIToken (account_clock 5 ''c1'') ''a1'' ''d1'' (serve_all token_requests NewAccounts)) = None" by code_simp
  then obtain s1 where s1: "RevokeAPIToken (account_clock 5 ''c1'') ''a1'' ''d1'' (serve_all token_requests NewAccounts) = (s1, None)"
    by (metis prod.collapse)
  have d: "TrimSpace ''d1'' = ''d1''" by code_simp
  have "case snd (AuthenticateAPIToken (account_clock 6 ''c1'') ''coyote_pat_MDEyMw'' (serve_all [(account_clock 7 ''c1'', ReqCreateToken token_input)] s1)) of
      Inl _ \<Rightarrow> True | Inr a \<Rightarrow> tok_ID (aat_Token a) \<noteq> TrimSpace ''d1''"
    by (rule revoked_token_refused [OF _ s1]) (use first_requests_ids d in \<open>auto simp: token_requests_def account_clock_uuid\<close>)
  with s1 show ?thesis by blast
qed

text \<open>
  C24: a token that was issued is admitted by the middleware when it is sent as a bearer token before it expires: the
  request proceeds as the owner, and the scopes it is granted are exactly those that were asked for, every
  other scope being refused by name. No stored token may have the same hash.
\<close>

theorem issued_token_admitted:
  assumes "new_ids x" and "CreateAPIToken x input s = (s1, Inr c)" and "\<forall>(i, t) \<in> set (atr_tokens (ac_tokens s)). tok_TokenHash t \<noteq> tok_TokenHash (cat_Token c)"
    and "ax_sha256_hex y = ax_sha256_hex x" and "case ct_ExpiresAt input of None \<Rightarrow> True | Some e \<Rightarrow> e > ax_now y"
    and "mw_Mode cfg \<notin> {[], ModeDisabled}" and "mw_APITokens cfg"
  shows "\<exists>s2 ctx who. Middleware y codec cfg (r\<lparr>ar_Authorization := ''Bearer '' @ cat_PlaintextToken c\<rparr>) s1 = (s2, Next ctx) \<and>
    PrincipalFromContext ctx = Inr who \<and> map_of (ur_users (ac_users s)) (TrimSpace (ct_UserID input)) = Some (pri_User who) \<and>
    (\<forall>scope. RequireAPITokenScope who scope =
       (if scope \<in> TrimSpace ` set (ct_Scopes input) - {[]} then None else Some (MissingAPITokenScopeError scope)))"
  using assms(2)
proof (cases rule: CreateAPIToken_cases)
  case (created u scopes plaintext t)
  have c: "cat_PlaintextToken c = plaintext" "cat_Token c = t" using created(1) by simp_all
  note plain = generated_plain [OF created(4)]
  obtain s2 u where auth: "AuthenticateAPIToken y plaintext s1 = (s2, Inr \<lparr>aat_User = u, aat_Token = t\<rparr>)"
    and u: "map_of (ur_users (ac_users s)) (TrimSpace (ct_UserID input)) = Some u"
    using issued_token_authenticates [OF assms(2-5)] plain(3) by (auto simp: c)
  let ?token = "\<lparr>ati_ID = tok_ID t, ati_Scopes = scopes\<rparr>"
  let ?ctx = "\<lparr>cx_User = Some u, cx_Method = Some MethodAPIToken, cx_APIToken = Some ?token\<rparr>"
  have m: "Middleware y codec cfg (r\<lparr>ar_Authorization := ''Bearer '' @ cat_PlaintextToken c\<rparr>) s1 = (s2, Next ?ctx)"
    using assms(6,7) plain(1) bearer_header [OF plain(1,2), of r]
    by (auto simp: Middleware_def c auth CloneAPITokenScopes_def created(7))
  have who: "PrincipalFromContext ?ctx = Inr \<lparr>pri_User = u, pri_APIToken = Some ?token\<rparr>"
    by (simp add: PrincipalFromContext_def CloneAPITokenScopes_def)
  have "uuid_shape (ax_uuid x 0)" using assms(1) by (simp add: new_ids_def)
  then have "TrimSpace (tok_ID t) \<noteq> []" using uuid_shape_trimmed TrimSpace_id by (simp add: created(7))
  then have "RequireAPITokenScope \<lparr>pri_User = u, pri_APIToken = Some ?token\<rparr> scope =
      (if scope \<in> TrimSpace ` set (ct_Scopes input) - {[]} then None else Some (MissingAPITokenScopeError scope))" for scope
    using NormalizeAPITokenScopes_ok(3) [OF created(3)] by (simp add: RequireAPITokenScope_def HasAPITokenScope_def list_ex_iff)
  with m who u show ?thesis by (intro exI [of _ s2] exI [of _ ?ctx] exI [of _ "\<lparr>pri_User = u, pri_APIToken = Some ?token\<rparr>"]) auto
qed simp

definition token_mode :: MiddlewareConfig where
  "token_mode = \<lparr>mw_Mode = ModeOIDC, mw_Sessions = None, mw_APITokens = True\<rparr>"

definition no_headers :: AuthRequest where
  "no_headers = \<lparr>ar_Authorization = [], ar_UserEmail = [], ar_UserName = [], ar_Cookies = []\<rparr>"

theorem issued_token_admitted_witness:
  "\<exists>s1 c. CreateAPIToken (account_clock 4 ''d1'') token_input (serve_all first_requests NewAccounts) = (s1, Inr c) \<and>
     (\<forall>codec. \<exists>s2 ctx who. Middleware (account_clock 5 ''c1'') codec token_mode (no_headers\<lparr>ar_Authorization := ''Bearer '' @ cat_PlaintextToken c\<rparr>) s1 = (s2, Next ctx) \<and>
        PrincipalFromContext ctx = Inr who)"
proof -
  let ?s = "serve_all first_requests NewAccounts"
  have "snd (CreateAPIToken (account_clock 4 ''d1'') token_input ?s) \<noteq> Inl RepoErrUserNotFound \<and>
      (case snd (CreateAPIToken (account_clock 4 ''d1'') token_input ?s) of Inl _ \<Rightarrow> False | Inr _ \<Rightarrow> True)" by code_simp
  then obtain s1 c where c: "CreateAPIToken (account_clock 4 ''d1'') token_input ?s = (s1, Inr c)"
    by (cases "CreateAPIToken (account_clock 4 ''d1'') token_input ?s") (auto split: sum.splits)
  have empty: "atr_tokens (ac_tokens ?s) = []" by code_simp
  have now: "case ct_ExpiresAt token_input of None \<Rightarrow> True | Some e \<Rightarrow> e > ax_now (account_clock 5 ''c1'')" by code_simp
  have mode: "mw_Mode token_mode \<notin> {[], ModeDisabled}" by code_simp
  have sha: "ax_sha256_hex (account_clock 5 ''c1'') = ax_sha256_hex (account_clock 4 ''d1'')" by (simp add: account_clock_def)
  have "\<exists>s2 ctx who. Middleware (account_clock 5 ''c1'') codec token_mode (no_headers\<lparr>ar_Authorization := ''Bearer '' @ cat_PlaintextToken c\<rparr>) s1 = (s2, Next ctx) \<and>
      PrincipalFromContext ctx = Inr who" for codec
    using issued_token_admitted [OF _ c _ sha now mode, of codec no_headers] by (auto simp: empty token_mode_def)
  with c show ?thesis by blast
qed

section \<open>Sessions\<close>

definition codec_ok :: "SessionCodec \<Rightarrow> bool" where
  "codec_ok codec \<longleftrightarrow>
     (\<forall>p. sc_unmarshalSession codec (sc_marshalSession codec p) = Some p) \<and>
     (\<forall>p. sc_unmarshalAuthRequest codec (sc_marshalAuthRequest codec p) = Some p)"

text \<open>
  when JSON decodes what it encoded, a session cookie that was issued names its user for the time of a session, to
  the second, and is refused from then on; and the cookie of a sign-in attempt gives back its nonce, once the state
  agrees, for ten minutes.
\<close>

theorem cookies_round_trip:
  assumes "codec_ok codec"
  shows "(case CreateSession codec m now userID of
      Inl _ \<Rightarrow> TrimSpace userID = []
    | Inr cookie \<Rightarrow> UserID codec m later [(ck_Name cookie, ck_Value cookie)] =
        (if Unix later < Unix (now + defaultSessionTTL) then Inr (TrimSpace userID) else Inl ErrSessionInvalid)) \<and>
    (case CreateAuthRequest codec m now state nonce of
      Inl _ \<Rightarrow> TrimSpace state = [] \<or> TrimSpace nonce = []
    | Inr cookie \<Rightarrow> snd (VerifyAuthRequest codec m later [(ck_Name cookie, ck_Value cookie)] received) =
        (if Unix later < Unix (now + defaultAuthRequestTTL) \<and> TrimSpace received = TrimSpace state then Inr (TrimSpace nonce) else Inl ErrSessionInvalid))"
  using assms
  by (auto simp: CreateSession_def UserID_def CreateAuthRequest_def VerifyAuthRequest_def codec_ok_def Let_def cookieWithNameAndSameSite_def
      decode_encode_cookie)

text \<open>A codec that meets the hypothesis: numbers with their sign and a closing point, and strings after their length.\<close>

definition write_int :: "int \<Rightarrow> string" where
  "write_int e = (if e < 0 then CHR ''-'' else CHR ''+'') # digits_of_nat (nat \<bar>e\<bar>) @ ''.''"

fun read_int :: "string \<Rightarrow> (int \<times> string) option" where
  "read_int [] = None"
| "read_int (c # cs) =
     (let n = int (nat_of_digits (takeWhile is_digit cs)) in Some (if c = CHR ''-'' then - n else n, drop 1 (dropWhile is_digit cs)))"

lemma read_write_int: "read_int (write_int e @ w) = Some (e, w)"
proof -
  have d: "\<forall>c \<in> set (digits_of_nat k). is_digit c" for k using digits_of_nat_digits by blast
  have dot: "\<not> is_digit CHR ''.''" by code_simp
  have "takeWhile is_digit (digits_of_nat k @ ''.'' @ w) = digits_of_nat k" "dropWhile is_digit (digits_of_nat k @ ''.'' @ w) = ''.'' @ w" for k
    using d [of k] dot by (simp_all add: takeWhile_append dropWhile_append)
  then show ?thesis by (simp add: write_int_def Let_def)
qed

definition plain_codec :: SessionCodec where
  "plain_codec =
     \<lparr>sc_hmac = \<lambda>secret payload. take 8 (rev payload) @ secret,
      sc_marshalSession = \<lambda>p. write_int (sp_ExpiresAt p) @ sp_UserID p,
      sc_unmarshalSession = \<lambda>raw. map_option (\<lambda>(e, w). \<lparr>sp_UserID = w, sp_ExpiresAt = e\<rparr>) (read_int raw),
      sc_marshalAuthRequest = \<lambda>p. write_int (ap_ExpiresAt p) @ write_int (int (length (ap_State p))) @ ap_State p @ ap_Nonce p,
      sc_unmarshalAuthRequest = \<lambda>raw.
        (case read_int raw of
           None \<Rightarrow> None
         | Some (e, w) \<Rightarrow> map_option (\<lambda>(n, v). \<lparr>ap_State = take (nat n) v, ap_Nonce = drop (nat n) v, ap_ExpiresAt = e\<rparr>) (read_int w))\<rparr>"

lemma plain_codec_ok: "codec_ok plain_codec"
  by (simp add: codec_ok_def plain_codec_def read_write_int)

definition session_manager :: CookieSessionManager where
  "session_manager = \<lparr>csm_secret = ''s'', csm_cookieName = ''coyote_session'', csm_authCookieName = ''coyote_session_oidc'', csm_secure = True,
     csm_sameSite = SameSiteLaxMode\<rparr>"

theorem cookies_round_trip_witness:
  "\<exists>cookie. CreateSession plain_codec session_manager 0 ''a1'' = Inr cookie \<and>
     UserID plain_codec session_manager 5000000000 [(ck_Name cookie, ck_Value cookie)] = Inr ''a1''"
proof -
  have "TrimSpace ''a1'' \<noteq> []" by code_simp
  then obtain cookie where c: "CreateSession plain_codec session_manager 0 ''a1'' = Inr cookie" by (simp add: CreateSession_def Let_def)
  have facts: "Unix 5000000000 < Unix (0 + defaultSessionTTL)" "TrimSpace ''a1'' = ''a1''" by code_simp+
  have "UserID plain_codec session_manager 5000000000 [(ck_Name cookie, ck_Value cookie)] = Inr ''a1''"
    using cookies_round_trip [OF plain_codec_ok, where m = session_manager and now = 0 and userID = "''a1''" and later = 5000000000] facts by (simp add: c)
  with c show ?thesis by blast
qed

section \<open>A race\<close>

text \<open>
  Requests are served one after the other above. The code does not hold the two locks together: \<open>Upsert\<close> looks the user
  up before it takes the lock of the memberships. When the user is deleted in between, the membership is stored
  after \<open>Delete\<close> has removed those of the user, and stays without a user.
\<close>

theorem membership_survives_user:
  "let s = serve_all first_requests NewAccounts;
       (users, memberships) = fst (UserRepository_Delete ''a1'' (ac_users s, Some (ac_memberships s)));
       m = \<lparr>mem_ProjectID = ''b1'', mem_UserID = ''a1'', mem_Role = ''viewer'', mem_CreatedAt = 4, mem_UpdatedAt = 4\<rparr>
   in map_of (ur_users users) ''a1'' = None \<and>
      (case memberships of None \<Rightarrow> False
       | Some r \<Rightarrow> map_of (pmr_memberships (fst (Membership_Upsert None (Some (ac_users s)) m r))) (membershipKey ''b1'' ''a1'') = Some m)"
  by code_simp

section \<open>The middleware\<close>

text \<open>
  \<open>session_for codec m now value i\<close>: the cookie value is a payload with its signature, and the payload names the user \<open>i\<close> and
  has not expired.
\<close>

definition session_for :: "SessionCodec \<Rightarrow> CookieSessionManager \<Rightarrow> time \<Rightarrow> string \<Rightarrow> string \<Rightarrow> bool" where
  "session_for codec m now value i \<longleftrightarrow>
     (\<exists>part raw session. value = part @ ''.'' @ sign codec m part \<and> DecodeString part = Some raw \<and> sc_unmarshalSession codec raw = Some session \<and>
        TrimSpace (sp_UserID session) = i \<and> i \<noteq> [] \<and> Unix now < sp_ExpiresAt session)"

lemma session_signed:
  assumes "UserID codec m now cookies = Inr u"
  obtains v where "map_of cookies (csm_cookieName m) = Some v" "session_for codec m now v (TrimSpace u)"
proof -
  obtain v p where v: "map_of cookies (csm_cookieName m) = Some v" and p: "decode codec m (sc_unmarshalSession codec) v = Inr p"
    and u: "u = sp_UserID p" "TrimSpace (sp_UserID p) \<noteq> []" "Unix now < sp_ExpiresAt p"
    using assms by (auto simp: UserID_def split: option.splits sum.splits if_splits)
  have "session_for codec m now v (TrimSpace u)"
    using decode_signed [OF p] u unfolding session_for_def by blast
  with v that show ?thesis by blast
qed

lemma header_user_stored:
  assumes "ResolveHeaderUser x email name s = (s', Inr user)" and "accounts_ok s"
  shows "map_of (ur_users (ac_users s)) (usr_ID user) = Some user" "usr_Email user = NormalizeEmail email" "s' = s"
proof -
  have g: "GetByEmail (NormalizeEmail email) (ac_users s) = Inr user" and s': "s' = s"
    using assms(1) by (auto simp: ResolveHeaderUser_def resolveExternalUser_def Let_def split: if_splits sum.splits)
  note st = GetByEmail_stored [OF g accounts_users [OF assms(2)]]
  have "user_ok user" using users_okD(2) [OF accounts_users [OF assms(2)] st(1)] .
  then show "map_of (ur_users (ac_users s)) (usr_ID user) = Some user" "usr_Email user = NormalizeEmail email" "s' = s"
    using st s' normalized_fold [of "usr_Email user" "NormalizeEmail email"] by (simp_all add: user_ok_def)
qed

lemma GetUser_stored:
  assumes "GetUser i s = Inr user" and "accounts_ok s"
  shows "map_of (ur_users (ac_users s)) (usr_ID user) = Some user" "usr_ID user = TrimSpace i"
proof -
  have g: "map_of (ur_users (ac_users s)) (TrimSpace i) = Some user"
    using assms(1) by (auto simp: GetUser_def UserRepository_GetByID_def Let_def split: if_splits option.splits)
  then show "usr_ID user = TrimSpace i" using users_okD(1) [OF accounts_users [OF assms(2)]] by metis
  with g show "map_of (ur_users (ac_users s)) (usr_ID user) = Some user" by simp
qed

text \<open>What entitles a request to proceed as a user.\<close>

definition entitled :: "AccountExternals \<Rightarrow> SessionCodec \<Rightarrow> MiddlewareConfig \<Rightarrow> AuthRequest \<Rightarrow> Accounts \<Rightarrow> AuthContext \<Rightarrow> User \<Rightarrow> bool" where
  "entitled x codec cfg r s ctx user \<longleftrightarrow>
     map_of (ur_users (ac_users s)) (usr_ID user) = Some user \<and>
     (if snd (bearerToken r) then
        cx_Method ctx = Some MethodAPIToken \<and>
        (\<exists>i t. map_of (atr_tokens (ac_tokens s)) i = Some t \<and> cx_APIToken ctx = Some \<lparr>ati_ID = i, ati_Scopes = tok_Scopes t\<rparr> \<and>
          tok_TokenHash t = HashAPIToken x (TrimSpace (fst (bearerToken r))) \<and> tok_UserID t = usr_ID user \<and> tok_RevokedAt t = None \<and>
          (case tok_ExpiresAt t of None \<Rightarrow> True | Some e \<Rightarrow> e > ax_now x))
      else cx_APIToken ctx = None \<and>
        (if mw_Mode cfg = ModeOIDC then
           cx_Method ctx = Some MethodOIDC \<and>
           (\<exists>m value. mw_Sessions cfg = Some m \<and> map_of (ar_Cookies r) (csm_cookieName m) = Some value \<and>
              session_for codec m (ax_now x) value (usr_ID user))
         else cx_Method ctx = Some MethodHeader \<and> usr_Email user = NormalizeEmail (ar_UserEmail r)))"

lemma middleware_token:
  assumes "AuthenticateAPIToken x (fst (bearerToken r)) s = (s', Inr a)" and "accounts_ok s" and "snd (bearerToken r)"
  shows "entitled x codec cfg r s \<lparr>cx_User = Some (aat_User a), cx_Method = Some MethodAPIToken,
    cx_APIToken = Some \<lparr>ati_ID = tok_ID (aat_Token a), ati_Scopes = CloneAPITokenScopes (tok_Scopes (aat_Token a))\<rparr>\<rparr> (aat_User a)"
proof -
  note a = AuthenticateAPIToken_sound [OF assms(1,2)]
  have "usr_ID (aat_User a) = tok_UserID (aat_Token a)" using users_okD(1) [OF accounts_users [OF assms(2)] a(4)] .
  with a assms(3) show ?thesis by (auto simp: entitled_def CloneAPITokenScopes_def)
qed

text \<open>
  C19: outside the disabled mode a request that the middleware lets through proceeds as a stored user, who is the owner
  of the unrevoked, unexpired token it carries, or the user that the signed and unexpired payload of its session cookie
  names, or the user with the address of the trusted header; a request that carries a bearer token never falls back to the
  other two, and no account is changed.
\<close>

theorem middleware_admits_users:
  assumes "\<forall>q \<in> set rs. request_ids q" and "s = serve_all rs NewAccounts" and "mw_Mode cfg \<notin> {[], ModeDisabled}"
  shows "case Middleware x codec cfg r s of
      (s', Unauthorized _) \<Rightarrow> ac_users s' = ac_users s
    | (s', Next ctx) \<Rightarrow> ac_users s' = ac_users s \<and> ac_memberships s' = ac_memberships s \<and> (\<exists>user. cx_User ctx = Some user \<and> entitled x codec cfg r s ctx user)"
proof -
  have ok: "accounts_ok s" using serve_all_accounts [OF NewAccounts_ok assms(1)] assms(2) by simp
  obtain token attempted where b: "bearerToken r = (token, attempted)" by (metis surj_pair)
  have keep: "ac_users s' = ac_users s \<and> ac_memberships s' = ac_memberships s" if "AuthenticateAPIToken x token s = (s', a)" for s' a
    using AuthenticateAPIToken_state [of x token s] that by auto
  have mode: "mw_Mode cfg \<noteq> []" "mw_Mode cfg \<noteq> ModeDisabled" using assms(3) by auto
  show ?thesis
  proof (cases attempted)
    case True
    obtain s1 answer where a: "AuthenticateAPIToken x token s = (s1, answer)" by (metis surj_pair)
    show ?thesis
    proof (cases answer)
      case (Inl err)
      then show ?thesis using keep [OF a] by (simp add: Middleware_def Let_def b mode a True)
    next
      case (Inr auth)
      then have "AuthenticateAPIToken x (fst (bearerToken r)) s = (s1, Inr auth)" "snd (bearerToken r)" by (simp_all add: b a True)
      then show ?thesis using keep [OF a] middleware_token [OF _ ok] Inr by (simp add: Middleware_def Let_def b mode a True)
    qed
  next
    case direct: False
    show ?thesis
    proof (cases "mw_Mode cfg = ModeOIDC")
      case True
      have "entitled x codec cfg r s \<lparr>cx_User = Some user, cx_Method = Some MethodOIDC, cx_APIToken = None\<rparr> user"
        if "mw_Sessions cfg = Some m" "UserID codec m (ax_now x) (ar_Cookies r) = Inr i" "GetUser i s = Inr user" for m i user
        using session_signed [OF that(2)] GetUser_stored [OF that(3) ok] that(1) True direct b by (simp add: entitled_def) metis
      then show ?thesis using direct True mode by (auto simp: Middleware_def b Let_def split: option.split sum.split)
    next
      case False
      have "entitled x codec cfg r s \<lparr>cx_User = Some user, cx_Method = Some MethodHeader, cx_APIToken = None\<rparr> user \<and> s' = s"
        if "ResolveHeaderUser x (TrimSpace (ar_UserEmail r)) name s = (s', Inr user)" for name s' user
        using header_user_stored [OF that ok] False direct b by (simp add: entitled_def NormalizeEmail_def)
      moreover have "ac_users s' = ac_users s" if "ResolveHeaderUser x e name s = (s', Inl err)" for e name s' err
        using that by (auto simp: ResolveHeaderUser_def resolveExternalUser_def Let_def split: if_splits sum.splits)
      ultimately show ?thesis using direct False mode by (auto simp: Middleware_def b Let_def split: prod.split sum.split)
    qed
  qed
qed

definition header_mode :: MiddlewareConfig where
  "header_mode = \<lparr>mw_Mode = ModeHeader, mw_Sessions = None, mw_APITokens = True\<rparr>"

text \<open>The same store behind sessions: the cookie names the first user.\<close>

definition oidc_mode :: MiddlewareConfig where
  "oidc_mode = \<lparr>mw_Mode = ModeOIDC, mw_Sessions = Some session_manager, mw_APITokens = True\<rparr>"

definition session_request :: AuthRequest where
  "session_request = no_headers\<lparr>ar_Cookies :=
     (case CreateSession plain_codec session_manager 0 ''a1'' of Inl _ \<Rightarrow> [] | Inr cookie \<Rightarrow> [(ck_Name cookie, ck_Value cookie)])\<rparr>"

definition admitted :: "Accounts \<times> middleware_answer \<Rightarrow> (AuthContext \<Rightarrow> bool) \<Rightarrow> bool" where
  "admitted answer P \<longleftrightarrow> (case snd answer of Unauthorized _ \<Rightarrow> False | Next ctx \<Rightarrow> P ctx)"

lemma session_request_user: "UserID plain_codec session_manager 4000000000 (ar_Cookies session_request) = Inr ''a1''"
proof -
  have "TrimSpace ''a1'' \<noteq> []" by code_simp
  then obtain cookie where c: "CreateSession plain_codec session_manager 0 ''a1'' = Inr cookie" by (simp add: CreateSession_def Let_def)
  have "Unix 4000000000 < Unix (0 + defaultSessionTTL)" "TrimSpace ''a1'' = ''a1''" by code_simp+
  then have "UserID plain_codec session_manager 4000000000 [(ck_Name cookie, ck_Value cookie)] = Inr ''a1''"
    using cookies_round_trip [OF plain_codec_ok, where m = session_manager and now = 0 and userID = "''a1''" and later = 4000000000] by (simp add: c)
  then show ?thesis by (simp add: session_request_def c)
qed

lemma session_admitted:
  "admitted (Middleware (account_clock 4 ''c1'') plain_codec oidc_mode session_request (serve_all first_requests NewAccounts)) (\<lambda>_. True)"
proof -
  have "bearerToken session_request = bearerToken no_headers" by (simp add: bearerToken_def session_request_def)
  also have "\<dots> = ([], False)" by code_simp
  finally have b: "bearerToken session_request = ([], False)" .
  have "TrimSpace ''a1'' = ''a1''" by code_simp
  then have g: "GetUser ''a1'' (serve_all first_requests NewAccounts) = Inr ann"
    using first_requests_ann by (simp add: GetUser_def UserRepository_GetByID_def Let_def)
  have "ModeOIDC \<noteq> []" "ModeOIDC \<noteq> ModeDisabled" by code_simp+
  then show ?thesis using session_request_user
    by (simp add: admitted_def Middleware_def b g Let_def oidc_mode_def account_clock_def)
qed

theorem middleware_admits_users_witness:
  "admitted (Middleware (account_clock 4 ''c1'') plain_codec header_mode (no_headers\<lparr>ar_UserEmail := ''ANN@example.org''\<rparr>) (serve_all first_requests NewAccounts))
     (\<lambda>ctx. \<exists>user. cx_User ctx = Some user \<and>
       entitled (account_clock 4 ''c1'') plain_codec header_mode (no_headers\<lparr>ar_UserEmail := ''ANN@example.org''\<rparr>) (serve_all first_requests NewAccounts) ctx user) \<and>
   admitted (Middleware (account_clock 4 ''c1'') plain_codec oidc_mode session_request (serve_all first_requests NewAccounts))
     (\<lambda>ctx. \<exists>user. cx_User ctx = Some user \<and>
       entitled (account_clock 4 ''c1'') plain_codec oidc_mode session_request (serve_all first_requests NewAccounts) ctx user)"
proof -
  let ?s = "serve_all first_requests NewAccounts" and ?r = "no_headers\<lparr>ar_UserEmail := ''ANN@example.org''\<rparr>"
  have mode: "mw_Mode header_mode \<notin> {[], ModeDisabled}" "mw_Mode oidc_mode \<notin> {[], ModeDisabled}" by code_simp+
  have "admitted (Middleware (account_clock 4 ''c1'') plain_codec header_mode ?r ?s) (\<lambda>_. True)" by code_simp
  with session_admitted middleware_admits_users [OF first_requests_ids refl mode(1), of "account_clock 4 ''c1''" plain_codec ?r]
    middleware_admits_users [OF first_requests_ids refl mode(2), of "account_clock 4 ''c1''" plain_codec session_request]
  show ?thesis by (auto simp: admitted_def split: prod.splits middleware_answer.splits)
qed

end
