(* ===== verification/Notification_Delivery.thy ===== *)
theory Notification_Delivery
  imports Delivery_Leases
begin

text \<open>
  Deliveries of notifications: \<open>domain/notification_delivery.go\<close>, \<open>repository/notification_delivery_repository.go\<close> and
  the in-memory store \<open>repository/memory/notification_delivery_repository.go\<close>. A delivery is the outbox row of one
  message: one event of one build to one destination over one transport.
\<close>

section \<open>Data\<close>

definition NotificationEventTypeBuildSucceeded :: string where [simp]: "NotificationEventTypeBuildSucceeded = ''build_succeeded''"
definition NotificationEventTypeBuildFailed :: string where [simp]: "NotificationEventTypeBuildFailed = ''build_failed''"

definition NotificationDeliveryStatusPending :: string where [simp]: "NotificationDeliveryStatusPending = ''pending''"
definition NotificationDeliveryStatusSending :: string where [simp]: "NotificationDeliveryStatusSending = ''sending''"
definition NotificationDeliveryStatusRetryWaiting :: string where [simp]: "NotificationDeliveryStatusRetryWaiting = ''retry_waiting''"
definition NotificationDeliveryStatusSent :: string where [simp]: "NotificationDeliveryStatusSent = ''sent''"
definition NotificationDeliveryStatusFailedPermanent :: string where [simp]: "NotificationDeliveryStatusFailedPermanent = ''failed_permanent''"
definition NotificationDeliveryStatusFailedExhausted :: string where [simp]: "NotificationDeliveryStatusFailedExhausted = ''failed_exhausted''"

definition NotificationDeliveryFailureCategoryRetryable :: string where [simp]: "NotificationDeliveryFailureCategoryRetryable = ''retryable''"
definition NotificationDeliveryFailureCategoryPermanent :: string where [simp]: "NotificationDeliveryFailureCategoryPermanent = ''permanent''"

definition NotificationTransportEmail :: string where [simp]: "NotificationTransportEmail = ''email''"
definition NotificationTransportSlackWebhook :: string where [simp]: "NotificationTransportSlackWebhook = ''slack_webhook''"
definition NotificationTransportSlackDM :: string where [simp]: "NotificationTransportSlackDM = ''slack_dm''"

definition NotificationDestinationKindPersonalEmail :: string where [simp]: "NotificationDestinationKindPersonalEmail = ''personal_email''"
definition NotificationDestinationKindSharedTarget :: string where [simp]: "NotificationDestinationKindSharedTarget = ''shared_target''"
definition NotificationDestinationKindSlackIdentity :: string where [simp]: "NotificationDestinationKindSlackIdentity = ''slack_identity''"

record NotificationDelivery =
  nd_ID :: string
  nd_BuildID :: string
  nd_EventType :: string
  nd_Transport :: string
  nd_DestinationKind :: string
  nd_DestinationKey :: string
  nd_NotificationTargetID :: "string option"
  nd_RecipientUserID :: "string option"
  nd_SlackWorkspaceIntegrationID :: "string option"
  nd_Recipient :: string
  nd_Status :: string
  nd_Attempts :: int
  nd_MaxAttempts :: int
  nd_LastAttemptAt :: "time option"
  nd_NextAttemptAt :: "time option"
  nd_ClaimedAt :: "time option"
  nd_ClaimExpiresAt :: "time option"
  nd_ClaimedBy :: "string option"
  nd_FailureCategory :: "string option"
  nd_FailureReason :: "string option"
  nd_LastError :: "string option"
  nd_CreatedAt :: time
  nd_UpdatedAt :: time
  nd_SentAt :: "time option"

definition trimNotificationOptionalString :: "string option \<Rightarrow> string option" where
  "trimNotificationOptionalString value =
     (case value of None \<Rightarrow> None | Some v \<Rightarrow> (let trimmed = TrimSpace v in if trimmed = [] then None else Some trimmed))"

definition normalizeNotificationOptionalTime :: "time option \<Rightarrow> time option" where
  "normalizeNotificationOptionalTime value = (case value of None \<Rightarrow> None | Some t \<Rightarrow> if t = 0 then None else Some t)"

definition maxNotificationAttempts :: "int \<Rightarrow> int" where
  "maxNotificationAttempts value = (if value \<le> 0 then 0 else value)"

definition NotificationDelivery_Normalize :: "NotificationDelivery \<Rightarrow> NotificationDelivery" where
  "NotificationDelivery_Normalize d = d\<lparr>
     nd_BuildID := TrimSpace (nd_BuildID d),
     nd_EventType := TrimSpace (nd_EventType d),
     nd_Transport := TrimSpace (nd_Transport d),
     nd_DestinationKind := TrimSpace (nd_DestinationKind d),
     nd_DestinationKey := TrimSpace (nd_DestinationKey d),
     nd_NotificationTargetID := trimNotificationOptionalString (nd_NotificationTargetID d),
     nd_RecipientUserID := trimNotificationOptionalString (nd_RecipientUserID d),
     nd_SlackWorkspaceIntegrationID := trimNotificationOptionalString (nd_SlackWorkspaceIntegrationID d),
     nd_Recipient := TrimSpace (nd_Recipient d),
     nd_Status := TrimSpace (nd_Status d),
     nd_MaxAttempts := maxNotificationAttempts (nd_MaxAttempts d),
     nd_ClaimedBy := trimNotificationOptionalString (nd_ClaimedBy d),
     nd_FailureReason := trimNotificationOptionalString (nd_FailureReason d),
     nd_LastError := trimNotificationOptionalString (nd_LastError d),
     nd_LastAttemptAt := normalizeNotificationOptionalTime (nd_LastAttemptAt d),
     nd_NextAttemptAt := normalizeNotificationOptionalTime (nd_NextAttemptAt d),
     nd_ClaimedAt := normalizeNotificationOptionalTime (nd_ClaimedAt d),
     nd_ClaimExpiresAt := normalizeNotificationOptionalTime (nd_ClaimExpiresAt d),
     nd_SentAt := normalizeNotificationOptionalTime (nd_SentAt d),
     nd_FailureCategory := trimNotificationOptionalString (nd_FailureCategory d)\<rparr>"

definition NotificationTransport_IsValid :: "string \<Rightarrow> bool" where
  "NotificationTransport_IsValid t \<longleftrightarrow>
     t = NotificationTransportEmail \<or> t = NotificationTransportSlackWebhook \<or> t = NotificationTransportSlackDM"

definition NotificationDestinationKind_IsValid :: "string \<Rightarrow> bool" where
  "NotificationDestinationKind_IsValid k \<longleftrightarrow>
     k = NotificationDestinationKindPersonalEmail \<or> k = NotificationDestinationKindSharedTarget \<or> k = NotificationDestinationKindSlackIdentity"

definition IsTransportDestinationKindValid :: "NotificationDelivery \<Rightarrow> bool" where
  "IsTransportDestinationKindValid d =
     (if nd_Transport d = NotificationTransportEmail
      then nd_DestinationKind d = NotificationDestinationKindPersonalEmail \<or> nd_DestinationKind d = NotificationDestinationKindSharedTarget
      else if nd_Transport d = NotificationTransportSlackWebhook then nd_DestinationKind d = NotificationDestinationKindSharedTarget
      else if nd_Transport d = NotificationTransportSlackDM then nd_DestinationKind d = NotificationDestinationKindSlackIdentity
      else False)"

definition NotificationDelivery_ValidateIdentity :: "NotificationDelivery \<Rightarrow> go_error option" where
  "NotificationDelivery_ValidateIdentity d = first_err [
     reject (TrimSpace (nd_BuildID d) = []) ''notification delivery build id is required'',
     reject (TrimSpace (nd_EventType d) = []) ''notification delivery event type is required'',
     reject (\<not> NotificationTransport_IsValid (nd_Transport d)) (''unsupported notification transport '' @ Quote (nd_Transport d)),
     reject (\<not> NotificationDestinationKind_IsValid (nd_DestinationKind d))
       (''unsupported notification destination kind '' @ Quote (nd_DestinationKind d)),
     reject (TrimSpace (nd_DestinationKey d) = []) ''notification delivery destination key is required'',
     reject (\<not> IsTransportDestinationKindValid d)
       (''unsupported notification delivery transport/destination combination '' @ Quote (nd_Transport d) @ ''/'' @ Quote (nd_DestinationKind d))]"

definition NotificationDeliveryStatus_IsValid :: "string \<Rightarrow> bool" where
  "NotificationDeliveryStatus_IsValid s \<longleftrightarrow>
     s = NotificationDeliveryStatusPending \<or> s = NotificationDeliveryStatusSending \<or> s = NotificationDeliveryStatusRetryWaiting \<or>
     s = NotificationDeliveryStatusSent \<or> s = NotificationDeliveryStatusFailedPermanent \<or> s = NotificationDeliveryStatusFailedExhausted"

definition NotificationDeliveryFailureCategory_IsValid :: "string \<Rightarrow> bool" where
  "NotificationDeliveryFailureCategory_IsValid c \<longleftrightarrow>
     c = NotificationDeliveryFailureCategoryRetryable \<or> c = NotificationDeliveryFailureCategoryPermanent"

definition NotificationDelivery_IsTerminal :: "NotificationDelivery \<Rightarrow> bool" where
  "NotificationDelivery_IsTerminal d \<longleftrightarrow>
     nd_Status d = NotificationDeliveryStatusSent \<or> nd_Status d = NotificationDeliveryStatusFailedPermanent \<or>
     nd_Status d = NotificationDeliveryStatusFailedExhausted"

text \<open>The checks of \<open>Validate\<close> on the normal form, after the check of the identity.\<close>

definition validate_delivery :: "NotificationDelivery \<Rightarrow> go_error option" where
  "validate_delivery d = first_err [
     reject (nd_Attempts d < 0) ''notification delivery attempts cannot be negative'',
     reject (nd_MaxAttempts d \<le> 0) ''notification delivery max attempts must be positive'',
     reject (nd_Attempts d > nd_MaxAttempts d) ''notification delivery attempts cannot exceed max attempts'',
     reject (\<not> NotificationDeliveryStatus_IsValid (nd_Status d)) (''unsupported notification delivery status '' @ Quote (nd_Status d)),
     (case nd_FailureCategory d of None \<Rightarrow> None
      | Some c \<Rightarrow> reject (\<not> NotificationDeliveryFailureCategory_IsValid c) (''unsupported notification delivery failure category '' @ Quote c)),
     reject (nd_SentAt d \<noteq> None \<and> nd_Status d \<noteq> NotificationDeliveryStatusSent) ''notification delivery sent_at requires sent status'',
     reject (nd_Status d = NotificationDeliveryStatusSent \<and> nd_SentAt d = None) ''sent notification delivery requires sent_at'',
     reject (NotificationDelivery_IsTerminal d \<and> nd_ClaimedBy d \<noteq> None) ''terminal notification delivery cannot retain an active claim owner'',
     reject (NotificationDelivery_IsTerminal d \<and> nd_ClaimedAt d \<noteq> None) ''terminal notification delivery cannot retain claimed_at'',
     reject (NotificationDelivery_IsTerminal d \<and> nd_ClaimExpiresAt d \<noteq> None) ''terminal notification delivery cannot retain claim_expires_at'',
     reject (NotificationDelivery_IsTerminal d \<and> nd_NextAttemptAt d \<noteq> None) ''terminal notification delivery cannot retain next_attempt_at'',
     under (nd_Status d = NotificationDeliveryStatusPending) [
       reject (nd_NextAttemptAt d \<noteq> None) ''pending notification delivery cannot retain next_attempt_at'',
       reject (nd_ClaimedBy d \<noteq> None \<or> nd_ClaimedAt d \<noteq> None \<or> nd_ClaimExpiresAt d \<noteq> None)
         ''pending notification delivery cannot retain active claim metadata''],
     under (nd_Status d = NotificationDeliveryStatusRetryWaiting) [
       reject (nd_Attempts d \<ge> nd_MaxAttempts d) ''retry-waiting notification delivery requires attempts below max attempts'',
       reject (nd_NextAttemptAt d = None) ''retry-waiting notification delivery requires next_attempt_at'',
       reject (nd_ClaimedBy d \<noteq> None \<or> nd_ClaimedAt d \<noteq> None \<or> nd_ClaimExpiresAt d \<noteq> None)
         ''retry-waiting notification delivery cannot retain active claim metadata'',
       reject (nd_FailureCategory d \<noteq> Some NotificationDeliveryFailureCategoryRetryable)
         ''retry-waiting notification delivery requires retryable failure category''],
     under (nd_Status d = NotificationDeliveryStatusSending) [
       reject (nd_Attempts d < 1) ''sending notification delivery requires at least one attempt'',
       reject (nd_ClaimedBy d = None \<or> nd_ClaimedAt d = None \<or> nd_ClaimExpiresAt d = None)
         ''sending notification delivery requires claim owner and expiry'',
       reject (\<not> (case (nd_ClaimExpiresAt d, nd_ClaimedAt d) of (Some e, Some c) \<Rightarrow> e > c | _ \<Rightarrow> False))
         ''notification delivery claim expiry must be after claim acquisition'',
       reject (nd_NextAttemptAt d \<noteq> None) ''sending notification delivery cannot retain next_attempt_at''],
     under (nd_Status d = NotificationDeliveryStatusFailedPermanent) [
       reject (nd_FailureCategory d \<noteq> Some NotificationDeliveryFailureCategoryPermanent)
         ''permanently failed notification delivery requires permanent failure category''],
     under (nd_Status d = NotificationDeliveryStatusFailedExhausted) [
       reject (nd_Attempts d \<noteq> nd_MaxAttempts d) ''exhausted notification delivery requires attempts to equal max attempts'',
       reject (nd_FailureCategory d \<noteq> Some NotificationDeliveryFailureCategoryRetryable)
         ''exhausted notification delivery requires retryable failure category''],
     under (nd_Status d = NotificationDeliveryStatusSent) [
       reject (nd_Attempts d < 1) ''sent notification delivery requires at least one attempt'']]"

definition NotificationDelivery_Validate :: "NotificationDelivery \<Rightarrow> go_error option" where
  "NotificationDelivery_Validate d0 =
     (let d = NotificationDelivery_Normalize d0 in first_err [NotificationDelivery_ValidateIdentity d, validate_delivery d])"

definition NotificationDelivery_CanAttempt :: "NotificationDelivery \<Rightarrow> time \<Rightarrow> bool" where
  "NotificationDelivery_CanAttempt d now =
     (if NotificationDelivery_IsTerminal d \<or> nd_Attempts d \<ge> nd_MaxAttempts d then False
      else if nd_Status d = NotificationDeliveryStatusPending then True
      else if nd_Status d = NotificationDeliveryStatusRetryWaiting then (case nd_NextAttemptAt d of None \<Rightarrow> False | Some t \<Rightarrow> \<not> now < t)
      else if nd_Status d = NotificationDeliveryStatusSending then (case nd_ClaimExpiresAt d of None \<Rightarrow> False | Some t \<Rightarrow> \<not> now < t)
      else False)"

text \<open>The keys of destinations.\<close>

definition NotificationSharedEmailTargetKey :: "string \<Rightarrow> go_error + string \<times> string" where
  "NotificationSharedEmailTargetKey targetID =
     (let trimmedTargetID = TrimSpace targetID
      in if trimmedTargetID = [] then Inl (Errorf ''shared email target id is required'')
         else Inr (NotificationDestinationKindSharedTarget, ''email-target:'' @ trimmedTargetID))"

definition NotificationSharedSlackWebhookTargetKey :: "string \<Rightarrow> go_error + string \<times> string" where
  "NotificationSharedSlackWebhookTargetKey targetID =
     (let trimmedTargetID = TrimSpace targetID
      in if trimmedTargetID = [] then Inl (Errorf ''shared slack webhook target id is required'')
         else Inr (NotificationDestinationKindSharedTarget, ''slack-webhook-target:'' @ trimmedTargetID))"

definition NotificationPersonalEmailTargetKey :: "string \<Rightarrow> go_error + string \<times> string" where
  "NotificationPersonalEmailTargetKey targetID =
     (let trimmedTargetID = TrimSpace targetID
      in if trimmedTargetID = [] then Inl (Errorf ''personal email target id is required'')
         else Inr (NotificationDestinationKindPersonalEmail, ''email-personal:'' @ trimmedTargetID))"

definition NotificationSlackDMDestinationKey :: "string \<Rightarrow> string \<Rightarrow> go_error + string \<times> string" where
  "NotificationSlackDMDestinationKey workspaceIntegrationID slackUserID =
     (let trimmedWorkspaceID = TrimSpace workspaceIntegrationID; trimmedSlackUserID = TrimSpace slackUserID
      in if trimmedWorkspaceID = [] then Inl (Errorf ''slack workspace integration id is required'')
         else if trimmedSlackUserID = [] then Inl (Errorf ''slack user id is required'')
         else Inr (NotificationDestinationKindSlackIdentity, ''slack-dm:'' @ trimmedWorkspaceID @ '':'' @ trimmedSlackUserID))"

section \<open>Claims and updates\<close>

datatype NotificationDeliveryClaimOutcome =
  NotifyCreatedClaimed | NotifyRetryClaimed | NotifyStaleClaimReclaimed | NotifyAlreadySent | NotifyPermanentlyFailed
| NotifyAttemptsExhausted | NotifyClaimedByOther | NotifyRetryNotDue

datatype NotificationDeliveryUpdateOutcome = NotifyUpdated | NotifyLostClaim

record NotificationDeliveryClaimInput =
  nci_Delivery :: NotificationDelivery
  nci_ClaimOwner :: string
  nci_Now :: time
  nci_ClaimDuration :: int
  nci_MaxAttempts :: int

record NotificationDeliveryClaimResult =
  ncr_Delivery :: NotificationDelivery
  ncr_Outcome :: NotificationDeliveryClaimOutcome

record NotificationDeliveryUpdateResult =
  nur_Delivery :: NotificationDelivery
  nur_Outcome :: NotificationDeliveryUpdateOutcome

record NotificationDeliveryMarkSentInput =
  nms_DeliveryID :: string
  nms_ClaimOwner :: string
  nms_ClaimedAt :: time
  nms_SentAt :: time

record NotificationDeliveryRecordFailureInput =
  nrf_DeliveryID :: string
  nrf_ClaimOwner :: string
  nrf_ClaimedAt :: time
  nrf_FailedAt :: time
  nrf_NextAttemptAt :: "time option"
  nrf_FailureCategory :: string
  nrf_FailureReason :: string
  nrf_LastError :: "string option"

definition NotificationDeliveryClaimOutcomeFromExisting :: "NotificationDelivery \<Rightarrow> time \<Rightarrow> NotificationDeliveryClaimOutcome" where
  "NotificationDeliveryClaimOutcomeFromExisting delivery now =
     (if nd_Status delivery = NotificationDeliveryStatusSent then NotifyAlreadySent
      else if nd_Status delivery = NotificationDeliveryStatusFailedPermanent then NotifyPermanentlyFailed
      else if nd_Status delivery = NotificationDeliveryStatusFailedExhausted then NotifyAttemptsExhausted
      else if nd_Status delivery = NotificationDeliveryStatusSending then
        (if nd_Attempts delivery \<ge> nd_MaxAttempts delivery then NotifyAttemptsExhausted
         else case nd_ClaimExpiresAt delivery of
                None \<Rightarrow> NotifyClaimedByOther
              | Some expires \<Rightarrow> (if \<not> now < expires then NotifyStaleClaimReclaimed else NotifyClaimedByOther))
      else if nd_Status delivery = NotificationDeliveryStatusRetryWaiting then
        (if (case nd_NextAttemptAt delivery of None \<Rightarrow> False | Some due \<Rightarrow> now < due) then NotifyRetryNotDue
         else if nd_Attempts delivery \<ge> nd_MaxAttempts delivery then NotifyAttemptsExhausted
         else NotifyRetryClaimed)
      else if nd_Status delivery = NotificationDeliveryStatusPending then
        (if nd_Attempts delivery \<ge> nd_MaxAttempts delivery then NotifyAttemptsExhausted else NotifyRetryClaimed)
      else NotifyClaimedByOther)"

end
