(* ===== verification/Notification_Store.thy ===== *)
theory Notification_Store
  imports Notification_Delivery
begin

text \<open>
  The in-memory store of notification deliveries (\<open>repository/memory/notification_delivery_repository.go\<close>): the rows by
  identifier, the index of logical keys and the index of recipients. Every operation runs under the store's lock;
  \<open>ctx\<close> is what \<open>ctx.Err()\<close> answers when it starts, \<open>uuid\<close> the next \<open>uuid.NewString()\<close> and \<open>wall\<close> the next \<open>time.Now()\<close>.
\<close>

record NotificationDeliveryRepository =
  ndr_deliveries :: "(string, NotificationDelivery) gomap"
  ndr_index :: "(string, string) gomap"
  ndr_recipient :: "(string, string) gomap"

definition NewNotificationDeliveryRepository :: NotificationDeliveryRepository where
  "NewNotificationDeliveryRepository = \<lparr>ndr_deliveries = [], ndr_index = [], ndr_recipient = []\<rparr>"

definition zeroNotificationDelivery :: NotificationDelivery where
  "zeroNotificationDelivery =
     \<lparr>nd_ID = [], nd_BuildID = [], nd_EventType = [], nd_Transport = [], nd_DestinationKind = [], nd_DestinationKey = [],
      nd_NotificationTargetID = None, nd_RecipientUserID = None, nd_SlackWorkspaceIntegrationID = None, nd_Recipient = [],
      nd_Status = [], nd_Attempts = 0, nd_MaxAttempts = 0, nd_LastAttemptAt = None, nd_NextAttemptAt = None, nd_ClaimedAt = None,
      nd_ClaimExpiresAt = None, nd_ClaimedBy = None, nd_FailureCategory = None, nd_FailureReason = None, nd_LastError = None,
      nd_CreatedAt = 0, nd_UpdatedAt = 0, nd_SentAt = None\<rparr>"

section \<open>Keys\<close>

definition notificationDeliveryLogicalKey :: "string \<Rightarrow> string \<Rightarrow> string \<Rightarrow> string \<Rightarrow> string" where
  "notificationDeliveryLogicalKey buildID eventType transport destinationKey =
     TrimSpace buildID @ ''|'' @ TrimSpace eventType @ ''|'' @ TrimSpace transport @ ''|'' @ TrimSpace destinationKey"

definition notificationDeliveryRecipientKey :: "string \<Rightarrow> string \<Rightarrow> string \<Rightarrow> string" where
  "notificationDeliveryRecipientKey buildID eventType recipient = TrimSpace buildID @ ''|'' @ TrimSpace eventType @ ''|'' @ TrimSpace recipient"

definition logical_key :: "NotificationDelivery \<Rightarrow> string" where
  "logical_key d = notificationDeliveryLogicalKey (nd_BuildID d) (nd_EventType d) (nd_Transport d) (nd_DestinationKey d)"

text \<open>Storing a new row under its identifier and both indexes.\<close>

definition insert_delivery :: "NotificationDelivery \<Rightarrow> NotificationDeliveryRepository \<Rightarrow> NotificationDeliveryRepository" where
  "insert_delivery delivery r =
     (let recipientKey = notificationDeliveryRecipientKey (nd_BuildID delivery) (nd_EventType delivery) (nd_Recipient delivery)
      in r\<lparr>ndr_deliveries := gm_put (nd_ID delivery) delivery (ndr_deliveries r),
           ndr_index := gm_put (logical_key delivery) (nd_ID delivery) (ndr_index r),
           ndr_recipient := (if recipientKey \<noteq> ''||'' then gm_put recipientKey (nd_ID delivery) (ndr_recipient r) else ndr_recipient r)\<rparr>)"

section \<open>Creating\<close>

definition NotificationDelivery_Create ::
  "string \<Rightarrow> time \<Rightarrow> dlv_error option \<Rightarrow> NotificationDelivery \<Rightarrow> NotificationDeliveryRepository \<Rightarrow>
     NotificationDeliveryRepository \<times> (dlv_error + NotificationDelivery)" where
  "NotificationDelivery_Create uuid wall ctx delivery0 r =
     (case ctx of Some err \<Rightarrow> (r, Inl err) | None \<Rightarrow>
      (let delivery = NotificationDelivery_Normalize delivery0
       in case NotificationDelivery_ValidateIdentity delivery of
            Some err \<Rightarrow> (r, Inl (ErrPlain err))
          | None \<Rightarrow>
              (if map_of (ndr_index r) (logical_key delivery) \<noteq> None then (r, Inl ErrNotificationDeliveryDuplicate)
               else
                 (let createdAt = (if nd_CreatedAt delivery = 0 then wall else nd_CreatedAt delivery);
                      filled = delivery\<lparr>
                        nd_ID := (if TrimSpace (nd_ID delivery) = [] then uuid else nd_ID delivery),
                        nd_CreatedAt := createdAt,
                        nd_UpdatedAt := (if nd_UpdatedAt delivery = 0 then createdAt else nd_UpdatedAt delivery),
                        nd_MaxAttempts := (if nd_MaxAttempts delivery \<le> 0 then 1 else nd_MaxAttempts delivery),
                        nd_Status := (if TrimSpace (nd_Status delivery) = [] then NotificationDeliveryStatusPending else nd_Status delivery)\<rparr>
                  in case NotificationDelivery_Validate filled of
                       Some err \<Rightarrow> (r, Inl (ErrPlain err))
                     | None \<Rightarrow> (insert_delivery filled r, Inr filled)))))"

section \<open>Claiming\<close>

definition normalizeNotificationClaimInput ::
  "NotificationDeliveryClaimInput \<Rightarrow> go_error + (NotificationDelivery \<times> time \<times> string \<times> int)" where
  "normalizeNotificationClaimInput input =
     (let delivery = NotificationDelivery_Normalize (nci_Delivery input); now = nci_Now input; claimOwner = TrimSpace (nci_ClaimOwner input)
      in case NotificationDelivery_ValidateIdentity delivery of
           Some err \<Rightarrow> Inl err
         | None \<Rightarrow>
             (if now = 0 then Inl (Errorf ''notification delivery claim time is required'')
              else if claimOwner = [] then Inl (Errorf ''notification delivery claim owner is required'')
              else if nci_ClaimDuration input \<le> 0 then Inl (Errorf ''notification delivery claim duration must be positive'')
              else if nci_MaxAttempts input \<le> 0 then Inl (Errorf ''notification delivery max attempts must be positive'')
              else Inr (delivery, now, claimOwner, nci_ClaimDuration input)))"

text \<open>The row of a new attempt; both cases of the source write the same fields.\<close>

definition attempt_row :: "NotificationDelivery \<Rightarrow> time \<Rightarrow> string \<Rightarrow> int \<Rightarrow> NotificationDelivery" where
  "attempt_row existing now claimOwner claimDuration = existing\<lparr>
     nd_Attempts := wrap64 (nd_Attempts existing + 1), nd_Status := NotificationDeliveryStatusSending, nd_LastAttemptAt := Some now,
     nd_NextAttemptAt := None, nd_ClaimedAt := Some now, nd_ClaimExpiresAt := Some (now + claimDuration),
     nd_ClaimedBy := Some claimOwner, nd_UpdatedAt := now\<rparr>"

definition claimNotificationDelivery ::
  "NotificationDelivery \<Rightarrow> time \<Rightarrow> string \<Rightarrow> int \<Rightarrow> NotificationDelivery \<times> NotificationDeliveryClaimOutcome" where
  "claimNotificationDelivery existing0 now claimOwner claimDuration =
     (let existing = NotificationDelivery_Normalize existing0
      in if NotificationDelivery_IsTerminal existing then (existing, NotificationDeliveryClaimOutcomeFromExisting existing now)
         else if nd_Attempts existing \<ge> nd_MaxAttempts existing then (existing, NotifyAttemptsExhausted)
         else if nd_Status existing = NotificationDeliveryStatusSending then
           (if (case nd_ClaimExpiresAt existing of None \<Rightarrow> False | Some expires \<Rightarrow> now < expires) then (existing, NotifyClaimedByOther)
            else (attempt_row existing now claimOwner claimDuration, NotifyStaleClaimReclaimed))
         else if nd_Status existing = NotificationDeliveryStatusRetryWaiting \<or> nd_Status existing = NotificationDeliveryStatusPending then
           (if nd_Status existing = NotificationDeliveryStatusRetryWaiting \<and>
               (case nd_NextAttemptAt existing of None \<Rightarrow> False | Some due \<Rightarrow> now < due)
            then (existing, NotifyRetryNotDue)
            else (attempt_row existing now claimOwner claimDuration, NotifyRetryClaimed))
         else (existing, NotificationDeliveryClaimOutcomeFromExisting existing now))"

definition first_claim :: "string \<Rightarrow> NotificationDelivery \<Rightarrow> time \<Rightarrow> string \<Rightarrow> int \<Rightarrow> int \<Rightarrow> NotificationDelivery" where
  "first_claim uuid delivery now claimOwner claimDuration maxAttempts = delivery\<lparr>
     nd_ID := (if TrimSpace (nd_ID delivery) = [] then uuid else nd_ID delivery),
     nd_CreatedAt := (if nd_CreatedAt delivery = 0 then now else nd_CreatedAt delivery),
     nd_UpdatedAt := now, nd_Status := NotificationDeliveryStatusSending, nd_Attempts := 1, nd_MaxAttempts := maxAttempts,
     nd_LastAttemptAt := Some now, nd_NextAttemptAt := None, nd_ClaimedAt := Some now, nd_ClaimExpiresAt := Some (now + claimDuration),
     nd_ClaimedBy := Some claimOwner, nd_FailureCategory := None, nd_FailureReason := None, nd_LastError := None, nd_SentAt := None\<rparr>"

definition Notification_AcquireForDelivery ::
  "string \<Rightarrow> dlv_error option \<Rightarrow> NotificationDeliveryClaimInput \<Rightarrow> NotificationDeliveryRepository \<Rightarrow>
     NotificationDeliveryRepository \<times> (dlv_error + NotificationDeliveryClaimResult)" where
  "Notification_AcquireForDelivery uuid ctx input r =
     (case ctx of Some err \<Rightarrow> (r, Inl err) | None \<Rightarrow>
      (case normalizeNotificationClaimInput input of
         Inl err \<Rightarrow> (r, Inl (ErrPlain err))
       | Inr (delivery, now, claimOwner, claimDuration) \<Rightarrow>
           (case map_of (ndr_index r) (logical_key delivery) of
              Some existingID \<Rightarrow>
                (case claimNotificationDelivery (gm_get_or zeroNotificationDelivery (ndr_deliveries r) existingID) now claimOwner claimDuration of
                   (claimed, outcome) \<Rightarrow>
                     (if outcome = NotifyRetryClaimed \<or> outcome = NotifyStaleClaimReclaimed
                      then r\<lparr>ndr_deliveries := gm_put existingID claimed (ndr_deliveries r)\<rparr> else r,
                      Inr \<lparr>ncr_Delivery = claimed, ncr_Outcome = outcome\<rparr>))
            | None \<Rightarrow>
                (let created = first_claim uuid delivery now claimOwner claimDuration (nci_MaxAttempts input)
                 in case NotificationDelivery_Validate created of
                      Some err \<Rightarrow> (r, Inl (ErrPlain err))
                    | None \<Rightarrow> (insert_delivery created r, Inr \<lparr>ncr_Delivery = created, ncr_Outcome = NotifyCreatedClaimed\<rparr>)))))"

section \<open>Updates by the holder of a claim\<close>

definition notificationDeliveryClaimMatches :: "NotificationDelivery \<Rightarrow> string \<Rightarrow> time \<Rightarrow> bool" where
  "notificationDeliveryClaimMatches delivery claimOwner claimedAt =
     (if nd_Status delivery \<noteq> NotificationDeliveryStatusSending then False
      else case (nd_ClaimedBy delivery, nd_ClaimedAt delivery) of
             (Some by, Some c) \<Rightarrow> TrimSpace by = claimOwner \<and> c = claimedAt
           | _ \<Rightarrow> False)"

definition normalizeNotificationRecordFailureTime :: "time option \<Rightarrow> time option" where
  "normalizeNotificationRecordFailureTime value = (case value of None \<Rightarrow> None | Some t \<Rightarrow> if t = 0 then None else Some t)"

definition trimMemoryNotificationOptionalString :: "string option \<Rightarrow> string option" where
  "trimMemoryNotificationOptionalString value =
     (case value of None \<Rightarrow> None | Some v \<Rightarrow> (let trimmed = TrimSpace v in if trimmed = [] then None else Some trimmed))"

definition store_delivery ::
  "NotificationDelivery \<Rightarrow> NotificationDeliveryRepository \<Rightarrow> NotificationDeliveryRepository \<times> (dlv_error + NotificationDeliveryUpdateResult)" where
  "store_delivery current r =
     (case NotificationDelivery_Validate current of
        Some err \<Rightarrow> (r, Inl (ErrPlain err))
      | None \<Rightarrow> (r\<lparr>ndr_deliveries := gm_put (nd_ID current) current (ndr_deliveries r)\<rparr>,
                 Inr \<lparr>nur_Delivery = current, nur_Outcome = NotifyUpdated\<rparr>))"

definition sent_row :: "time \<Rightarrow> NotificationDelivery \<Rightarrow> NotificationDelivery" where
  "sent_row sentAt current = current\<lparr>nd_Status := NotificationDeliveryStatusSent, nd_UpdatedAt := sentAt, nd_SentAt := Some sentAt,
     nd_NextAttemptAt := None, nd_ClaimedAt := None, nd_ClaimExpiresAt := None, nd_ClaimedBy := None, nd_FailureCategory := None,
     nd_FailureReason := None, nd_LastError := None\<rparr>"

definition Notification_MarkSent ::
  "dlv_error option \<Rightarrow> NotificationDeliveryMarkSentInput \<Rightarrow> NotificationDeliveryRepository \<Rightarrow>
     NotificationDeliveryRepository \<times> (dlv_error + NotificationDeliveryUpdateResult)" where
  "Notification_MarkSent ctx input r =
     (case ctx of Some err \<Rightarrow> (r, Inl err) | None \<Rightarrow>
      (case map_of (ndr_deliveries r) (TrimSpace (nms_DeliveryID input)) of
         None \<Rightarrow> (r, Inl ErrNotificationDeliveryNotFound)
       | Some current \<Rightarrow>
           (if \<not> notificationDeliveryClaimMatches current (TrimSpace (nms_ClaimOwner input)) (nms_ClaimedAt input)
            then (r, Inr \<lparr>nur_Delivery = current, nur_Outcome = NotifyLostClaim\<rparr>)
            else store_delivery (sent_row (nms_SentAt input) current) r)))"

definition failure_row :: "NotificationDeliveryRecordFailureInput \<Rightarrow> string \<Rightarrow> NotificationDelivery \<Rightarrow> NotificationDelivery" where
  "failure_row input status current =
     (let reason = TrimSpace (nrf_FailureReason input)
      in current\<lparr>nd_Status := status, nd_UpdatedAt := nrf_FailedAt input,
           nd_NextAttemptAt := (if status \<noteq> NotificationDeliveryStatusRetryWaiting then None
                                else normalizeNotificationRecordFailureTime (nrf_NextAttemptAt input)),
           nd_ClaimedAt := None, nd_ClaimExpiresAt := None, nd_ClaimedBy := None,
           nd_FailureCategory := Some (nrf_FailureCategory input), nd_FailureReason := (if reason = [] then None else Some reason),
           nd_LastError := trimMemoryNotificationOptionalString (nrf_LastError input),
           nd_Attempts := (if status = NotificationDeliveryStatusFailedExhausted \<and> nd_Attempts current < nd_MaxAttempts current
                           then nd_MaxAttempts current else nd_Attempts current)\<rparr>)"

definition Notification_recordFailure ::
  "dlv_error option \<Rightarrow> NotificationDeliveryRecordFailureInput \<Rightarrow> string \<Rightarrow> NotificationDeliveryRepository \<Rightarrow>
     NotificationDeliveryRepository \<times> (dlv_error + NotificationDeliveryUpdateResult)" where
  "Notification_recordFailure ctx input status r =
     (case ctx of Some err \<Rightarrow> (r, Inl err) | None \<Rightarrow>
      (case map_of (ndr_deliveries r) (TrimSpace (nrf_DeliveryID input)) of
         None \<Rightarrow> (r, Inl ErrNotificationDeliveryNotFound)
       | Some current \<Rightarrow>
           (if \<not> notificationDeliveryClaimMatches current (TrimSpace (nrf_ClaimOwner input)) (nrf_ClaimedAt input)
            then (r, Inr \<lparr>nur_Delivery = current, nur_Outcome = NotifyLostClaim\<rparr>)
            else store_delivery (failure_row input status current) r)))"

definition Notification_RecordRetryableFailure where
  "Notification_RecordRetryableFailure ctx input = Notification_recordFailure ctx input NotificationDeliveryStatusRetryWaiting"

definition Notification_RecordPermanentFailure where
  "Notification_RecordPermanentFailure ctx input = Notification_recordFailure ctx input NotificationDeliveryStatusFailedPermanent"

definition Notification_RecordExhaustedFailure where
  "Notification_RecordExhaustedFailure ctx input = Notification_recordFailure ctx input NotificationDeliveryStatusFailedExhausted"

text \<open>
  \<open>Update\<close> is a method of the in-memory store only, outside the interface of the repository: it writes any row that
  validates under the identifier as given, although it looks the row up under the trimmed one.
\<close>

definition Notification_Update ::
  "time \<Rightarrow> dlv_error option \<Rightarrow> NotificationDelivery \<Rightarrow> NotificationDeliveryRepository \<Rightarrow>
     NotificationDeliveryRepository \<times> (dlv_error + NotificationDelivery)" where
  "Notification_Update wall ctx delivery0 r =
     (case ctx of Some err \<Rightarrow> (r, Inl err) | None \<Rightarrow>
      (case map_of (ndr_deliveries r) (TrimSpace (nd_ID delivery0)) of
         None \<Rightarrow> (r, Inl ErrNotificationDeliveryNotFound)
       | Some current \<Rightarrow>
           (let d = NotificationDelivery_Normalize delivery0;
                keep = \<lambda>new old. (if new = [] then old else new);
                keep_opt = \<lambda>new old. (case new of None \<Rightarrow> old | Some _ \<Rightarrow> new);
                delivery = d\<lparr>
                  nd_BuildID := keep (nd_BuildID d) (nd_BuildID current), nd_EventType := keep (nd_EventType d) (nd_EventType current),
                  nd_Transport := keep (nd_Transport d) (nd_Transport current),
                  nd_DestinationKind := keep (nd_DestinationKind d) (nd_DestinationKind current),
                  nd_DestinationKey := keep (nd_DestinationKey d) (nd_DestinationKey current),
                  nd_NotificationTargetID := keep_opt (nd_NotificationTargetID d) (nd_NotificationTargetID current),
                  nd_RecipientUserID := keep_opt (nd_RecipientUserID d) (nd_RecipientUserID current),
                  nd_SlackWorkspaceIntegrationID := keep_opt (nd_SlackWorkspaceIntegrationID d) (nd_SlackWorkspaceIntegrationID current),
                  nd_Recipient := keep (nd_Recipient d) (nd_Recipient current),
                  nd_CreatedAt := (if nd_CreatedAt d = 0 then nd_CreatedAt current else nd_CreatedAt d),
                  nd_UpdatedAt := (if nd_UpdatedAt d = 0 then wall else nd_UpdatedAt d),
                  nd_MaxAttempts := (if nd_MaxAttempts d \<le> 0 then nd_MaxAttempts current else nd_MaxAttempts d)\<rparr>
            in case NotificationDelivery_Validate delivery of
                 Some err \<Rightarrow> (r, Inl (ErrPlain err))
               | None \<Rightarrow> (r\<lparr>ndr_deliveries := gm_put (nd_ID delivery) delivery (ndr_deliveries r)\<rparr>, Inr delivery))))"

section \<open>Reading\<close>

definition GetByBuildEventRecipient ::
  "dlv_error option \<Rightarrow> string \<Rightarrow> string \<Rightarrow> string \<Rightarrow> NotificationDeliveryRepository \<Rightarrow> dlv_error + NotificationDelivery" where
  "GetByBuildEventRecipient ctx buildID eventType recipient r =
     (case ctx of Some err \<Rightarrow> Inl err | None \<Rightarrow>
      (case map_of (ndr_recipient r) (notificationDeliveryRecipientKey buildID eventType recipient) of
         None \<Rightarrow> Inl ErrNotificationDeliveryNotFound
       | Some i \<Rightarrow> (case map_of (ndr_deliveries r) i of None \<Rightarrow> Inl ErrNotificationDeliveryNotFound | Some delivery \<Rightarrow> Inr delivery)))"

definition notificationDeliveryRecoverableDueAt :: "NotificationDelivery \<Rightarrow> time \<Rightarrow> time option" where
  "notificationDeliveryRecoverableDueAt delivery0 now =
     (let delivery = NotificationDelivery_Normalize delivery0
      in if nd_Status delivery = NotificationDeliveryStatusRetryWaiting then
           (case nd_NextAttemptAt delivery of None \<Rightarrow> None | Some t \<Rightarrow> if t > now then None else Some t)
         else if nd_Status delivery = NotificationDeliveryStatusSending then
           (case nd_ClaimExpiresAt delivery of None \<Rightarrow> None | Some t \<Rightarrow> if t > now then None else Some t)
         else None)"

definition due_less :: "NotificationDelivery \<times> time \<Rightarrow> NotificationDelivery \<times> time \<Rightarrow> bool" where
  "due_less a b = (if snd a \<noteq> snd b then snd a < snd b else nd_ID (fst a) < nd_ID (fst b))"

text \<open>A context that ends in the middle of the scan is one that ended before it, since the scan changes nothing.\<close>

definition Notification_ListRecoverable ::
  "dlv_error option \<Rightarrow> time \<Rightarrow> int \<Rightarrow> NotificationDeliveryRepository \<Rightarrow> dlv_error + NotificationDelivery list" where
  "Notification_ListRecoverable ctx now limit r =
     (case ctx of Some err \<Rightarrow> Inl err | None \<Rightarrow>
      (if now = 0 then Inl (ErrPlain (Errorf ''notification delivery recoverable scan time is required''))
       else if limit \<le> 0 then Inl (ErrPlain (Errorf ''notification delivery recoverable scan limit must be positive''))
       else let candidates = concat (map (\<lambda>(_, delivery). case notificationDeliveryRecoverableDueAt delivery now of
                                            None \<Rightarrow> [] | Some dueAt \<Rightarrow> [(delivery, dueAt)]) (ndr_deliveries r));
                ordered = sort_slice due_less candidates
            in Inr (map fst (take (nat limit) ordered))))"

section \<open>Retry policy\<close>

definition defaultNotificationDeliveryMaxAttempts :: int where "defaultNotificationDeliveryMaxAttempts = 3"
definition defaultNotificationDeliveryClaimDuration :: int where "defaultNotificationDeliveryClaimDuration = 2 * 60 * 1000000000"
definition defaultNotificationRetryInitialDelay :: int where "defaultNotificationRetryInitialDelay = 30 * 1000000000"
definition defaultNotificationRetryMaxDelay :: int where "defaultNotificationRetryMaxDelay = 10 * 60 * 1000000000"
definition notificationClaimSafetyMargin :: int where "notificationClaimSafetyMargin = 30 * 1000000000"

definition DefaultSMTPTimeout :: int where "DefaultSMTPTimeout = 10 * 1000000000"
definition DefaultAPITimeout :: int where "DefaultAPITimeout = 5 * 1000000000"
definition defaultSlackWebhookTimeout :: int where "defaultSlackWebhookTimeout = 5 * 1000000000"

record notificationRetryPolicy =
  nrp_maxAttempts :: int
  nrp_initialDelay :: int
  nrp_maxDelay :: int

definition minimumNotificationClaimDuration :: int where
  "minimumNotificationClaimDuration =
     (let t0 = DefaultSMTPTimeout;
          t1 = (if DefaultAPITimeout > t0 then DefaultAPITimeout else t0);
          t2 = (if defaultSlackWebhookTimeout > t1 then defaultSlackWebhookTimeout else t1)
      in t2 + notificationClaimSafetyMargin)"

text \<open>The text of the error, which prints the durations, is shortened.\<close>

definition validateNotificationClaimDuration :: "int \<Rightarrow> go_error option" where
  "validateNotificationClaimDuration value = reject (value < minimumNotificationClaimDuration) ''notification claim duration is too short''"

definition defaultNotificationRetryPolicy :: notificationRetryPolicy where
  "defaultNotificationRetryPolicy =
     \<lparr>nrp_maxAttempts = defaultNotificationDeliveryMaxAttempts, nrp_initialDelay = defaultNotificationRetryInitialDelay,
      nrp_maxDelay = defaultNotificationRetryMaxDelay\<rparr>"

definition notification_delayForAttempt :: "notificationRetryPolicy \<Rightarrow> int \<Rightarrow> int" where
  "notification_delayForAttempt p attempt =
     (if attempt \<le> 1 then nrp_initialDelay p else backoff_loop (nrp_maxDelay p) (nrp_initialDelay p) (nat (attempt - 1)))"

definition notificationClaimDuration :: "int \<Rightarrow> int" where
  "notificationClaimDuration value = (if value > 0 then value else defaultNotificationDeliveryClaimDuration)"

definition notificationClaimOwner :: "string \<Rightarrow> string" where
  "notificationClaimOwner value = (let trimmed = TrimSpace value in if trimmed \<noteq> [] then trimmed else ''inline-notifier'')"

end
