(* ===== verification/Notification_Destinations.thy ===== *)
theory Notification_Destinations
  imports Notification_Store SCM_Status_Reporter Account_Stores
begin

text \<open>
  Targets of notifications (\<open>domain/notification_subscription.go\<close>), the destinations they give
  (\<open>service/build/notification_destinations.go\<close>), and the errors of senders with their classification
  (\<open>service/build/notification_delivery_errors.go\<close>). \<open>mail.ParseAddress\<close> and \<open>url.Parse\<close> are arguments.
\<close>

section \<open>Errors\<close>

datatype notify_error =
  NStore dlv_error
| NErrBuildNotFound | NErrUserNotFound | ErrNotificationTargetNotFound | ErrUserNotificationPreferenceNotFound
| ErrUserSlackIdentityNotFound | ErrSlackWorkspaceIntegrationNotFound
| ErrInvalidMessage
| ErrSlackWebhookInvalidRequest | ErrSlackWebhookUpstreamFailure | SlackWebhookHTTPError int
| ErrRateLimited | ErrUpstreamFailure | ErrInvalidAuth | ErrTokenRevoked | ErrAccountInactive | ErrMissingScope | ErrChannelNotFound
| ErrSlackUserNotFound | ErrChannelArchived | ErrSlackUserIDInvalid | ErrMalformedResponse | ErrPostMessageFailed
| ErrEmailNotificationsDisabled | ErrEmailNotificationRecipientsNotConfigured
| NErrorf string
| NWrap string "notify_error list"
| notificationExecutionFailure string string bool string "notify_error list"
| NJoin "notify_error list"

text \<open>The chain that \<open>errors.Is\<close> and \<open>errors.As\<close> search, in their order.\<close>

fun notify_chain :: "notify_error \<Rightarrow> notify_error list" where
  "notify_chain (NStore e) = map NStore (err_chain e)"
| "notify_chain (NWrap msg es) = NWrap msg es # concat (map notify_chain es)"
| "notify_chain (notificationExecutionFailure c reason retryable msg es) =
     notificationExecutionFailure c reason retryable msg es # concat (map notify_chain es)"
| "notify_chain (NJoin es) = NJoin es # concat (map notify_chain es)"
| "notify_chain e = [e]"

definition notify_is :: "notify_error \<Rightarrow> notify_error \<Rightarrow> bool" where
  "notify_is e target \<longleftrightarrow> List.member (notify_chain e) target"

definition notify_context_error :: "notify_error \<Rightarrow> bool" where
  "notify_context_error e \<longleftrightarrow> notify_is e (NStore ErrCanceled) \<or> notify_is e (NStore ErrDeadlineExceeded)"

fun notify_text :: "notify_error \<Rightarrow> string" where
  "notify_text (NStore e) = dlv_error_text e"
| "notify_text NErrBuildNotFound = ''build not found''"
| "notify_text NErrUserNotFound = ''user not found''"
| "notify_text ErrNotificationTargetNotFound = ''notification target not found''"
| "notify_text ErrUserNotificationPreferenceNotFound = ''user notification preference not found''"
| "notify_text ErrUserSlackIdentityNotFound = ''user slack identity not found''"
| "notify_text ErrSlackWorkspaceIntegrationNotFound = ''slack workspace integration not found''"
| "notify_text ErrInvalidMessage = ''email message is invalid''"
| "notify_text ErrSlackWebhookInvalidRequest = ''slack webhook request is invalid''"
| "notify_text ErrSlackWebhookUpstreamFailure = ''slack webhook upstream failure''"
| "notify_text (SlackWebhookHTTPError code) = ''slack webhook returned status '' @ (if code < 0 then ''-'' else []) @ digits_of_nat (nat \<bar>code\<bar>)"
| "notify_text ErrRateLimited = ''slack rate limited''"
| "notify_text ErrUpstreamFailure = ''slack upstream failure''"
| "notify_text ErrInvalidAuth = ''slack invalid auth''"
| "notify_text ErrTokenRevoked = ''slack token revoked''"
| "notify_text ErrAccountInactive = ''slack account or workspace inactive''"
| "notify_text ErrMissingScope = ''slack missing scope''"
| "notify_text ErrChannelNotFound = ''slack channel not found''"
| "notify_text ErrSlackUserNotFound = ''slack user not found''"
| "notify_text ErrChannelArchived = ''slack channel is archived''"
| "notify_text ErrSlackUserIDInvalid = ''slack user id is invalid''"
| "notify_text ErrMalformedResponse = ''slack malformed response''"
| "notify_text ErrPostMessageFailed = ''slack chat.postMessage failed''"
| "notify_text ErrEmailNotificationsDisabled = ''email notifications are disabled''"
| "notify_text ErrEmailNotificationRecipientsNotConfigured = ''email notification recipients are not configured''"
| "notify_text (NErrorf msg) = msg"
| "notify_text (NWrap msg _) = msg"
| "notify_text (notificationExecutionFailure _ _ _ msg _) = msg"
| "notify_text (NJoin es) = JoinChar CHR 0x0A (map notify_text es)"

definition permanentNotificationExecutionFailure :: "string \<Rightarrow> string \<Rightarrow> notify_error list \<Rightarrow> notify_error" where
  "permanentNotificationExecutionFailure reason message cause =
     notificationExecutionFailure NotificationDeliveryFailureCategoryPermanent reason False message cause"

definition retryableNotificationExecutionFailure :: "string \<Rightarrow> string \<Rightarrow> notify_error list \<Rightarrow> notify_error" where
  "retryableNotificationExecutionFailure reason message cause =
     notificationExecutionFailure NotificationDeliveryFailureCategoryRetryable reason True message cause"

section \<open>Classification of failures\<close>

record notificationFailureDecision =
  nfd_category :: string
  nfd_reason :: string
  nfd_retryable :: bool

definition permanent_decision :: "string \<Rightarrow> notificationFailureDecision" where
  "permanent_decision reason = \<lparr>nfd_category = NotificationDeliveryFailureCategoryPermanent, nfd_reason = reason, nfd_retryable = False\<rparr>"

definition retryable_decision :: "string \<Rightarrow> notificationFailureDecision" where
  "retryable_decision reason = \<lparr>nfd_category = NotificationDeliveryFailureCategoryRetryable, nfd_reason = reason, nfd_retryable = True\<rparr>"

definition classifyEmailNotificationError :: "notify_error \<Rightarrow> notificationFailureDecision" where
  "classifyEmailNotificationError err =
     (if notify_is err ErrInvalidMessage then permanent_decision ''invalid_email_message'' else retryable_decision ''email_send_failed'')"

fun first_http :: "notify_error list \<Rightarrow> int option" where
  "first_http [] = None"
| "first_http (SlackWebhookHTTPError code # es) = Some code"
| "first_http (_ # es) = first_http es"

definition classifySlackWebhookNotificationError :: "notify_error \<Rightarrow> notificationFailureDecision" where
  "classifySlackWebhookNotificationError err =
     (if notify_is err ErrSlackWebhookInvalidRequest then permanent_decision ''invalid_slack_webhook_request''
      else if notify_is err ErrSlackWebhookUpstreamFailure then retryable_decision ''slack_webhook_upstream_failure''
      else case first_http (notify_chain err) of
        Some code \<Rightarrow> (if code = 429 \<or> code \<ge> 500 then retryable_decision ''slack_webhook_http_retryable''
                      else permanent_decision ''slack_webhook_http_permanent'')
      | None \<Rightarrow> retryable_decision ''slack_webhook_send_failed'')"

definition classifySlackDMNotificationError :: "notify_error \<Rightarrow> notificationFailureDecision" where
  "classifySlackDMNotificationError err =
     (if notify_is err ErrRateLimited \<or> notify_is err ErrUpstreamFailure then retryable_decision ''slack_dm_retryable''
      else if list_ex (notify_is err) [ErrInvalidAuth, ErrTokenRevoked, ErrAccountInactive, ErrMissingScope, ErrChannelNotFound, ErrSlackUserNotFound,
                ErrChannelArchived, ErrSlackUserIDInvalid, ErrMalformedResponse, ErrPostMessageFailed]
      then permanent_decision ''slack_dm_permanent''
      else retryable_decision ''slack_dm_send_failed'')"

fun first_net_error :: "notify_error list \<Rightarrow> bool option" where
  "first_net_error [] = None"
| "first_net_error (NStore (ErrNet timeout _) # es) = Some timeout"
| "first_net_error (_ # es) = first_net_error es"

definition classifyNotificationSendError :: "string \<Rightarrow> notify_error \<Rightarrow> notificationFailureDecision" where
  "classifyNotificationSendError transport err =
     (if notify_context_error err then \<lparr>nfd_category = [], nfd_reason = ''context_canceled'', nfd_retryable = False\<rparr>
      else if first_net_error (notify_chain err) = Some True then retryable_decision ''network_timeout''
      else if transport = NotificationTransportEmail then classifyEmailNotificationError err
      else if transport = NotificationTransportSlackWebhook then classifySlackWebhookNotificationError err
      else if transport = NotificationTransportSlackDM then classifySlackDMNotificationError err
      else permanent_decision ''unsupported_transport'')"

fun first_execution :: "notify_error list \<Rightarrow> notificationFailureDecision option" where
  "first_execution [] = None"
| "first_execution (notificationExecutionFailure c reason retryable _ _ # es) =
     Some \<lparr>nfd_category = c, nfd_reason = reason, nfd_retryable = retryable\<rparr>"
| "first_execution (_ # es) = first_execution es"

definition classifyNotificationDeliveryFailure :: "string \<Rightarrow> notify_error \<Rightarrow> notificationFailureDecision" where
  "classifyNotificationDeliveryFailure transport err =
     (case first_execution (notify_chain err) of Some decision \<Rightarrow> decision | None \<Rightarrow> classifyNotificationSendError transport err)"

section \<open>Targets\<close>

definition NotificationTargetTypeEmail :: string where [simp]: "NotificationTargetTypeEmail = ''email''"
definition NotificationTargetTypeSlackWebhook :: string where [simp]: "NotificationTargetTypeSlackWebhook = ''slack_webhook''"
definition NotificationTargetOriginManual :: string where [simp]: "NotificationTargetOriginManual = ''manual''"
definition NotificationTargetOriginConfigDefault :: string where [simp]: "NotificationTargetOriginConfigDefault = ''config_default''"

record NotificationTarget =
  nt_ID :: string
  nt_OwnerUserID :: "string option"
  nt_Type :: string
  nt_Origin :: string
  nt_Name :: string
  nt_Recipient :: string
  nt_Enabled :: bool
  nt_CreatedAt :: time
  nt_UpdatedAt :: time

record MailAddress =
  ma_String :: string
  ma_Address :: string

type_synonym mail_parser = "string \<Rightarrow> string + MailAddress"

definition trimNotificationTargetOptionalString :: "string option \<Rightarrow> string option" where
  "trimNotificationTargetOptionalString value =
     (case value of None \<Rightarrow> None | Some v \<Rightarrow> (let trimmed = TrimSpace v in if trimmed = [] then None else Some trimmed))"

definition normalizeNotificationTargetOrigin :: "string \<Rightarrow> string option \<Rightarrow> string \<Rightarrow> go_error + string" where
  "normalizeNotificationTargetOrigin targetType ownerUserID origin =
     (let trimmed0 = TrimSpace origin; trimmedOrigin = (if trimmed0 = [] then NotificationTargetOriginManual else trimmed0)
      in if trimmedOrigin = NotificationTargetOriginManual then Inr trimmedOrigin
         else if trimmedOrigin = NotificationTargetOriginConfigDefault then
           (if targetType \<noteq> NotificationTargetTypeEmail then Inl (Errorf ''config-default notification targets must be email targets'')
            else if ownerUserID \<noteq> None then Inl (Errorf ''config-default notification targets must be ownerless'')
            else Inr trimmedOrigin)
         else Inl (Errorf (''unsupported notification target origin '' @ Quote trimmedOrigin)))"

definition normalizeNotificationTargetRecipient :: "mail_parser \<Rightarrow> URLPackage \<Rightarrow> string \<Rightarrow> string \<Rightarrow> go_error + string" where
  "normalizeNotificationTargetRecipient mail urls targetType value =
     (let trimmed = TrimSpace value
      in if targetType = NotificationTargetTypeEmail then
           (case mail trimmed of
              Inl err \<Rightarrow> Inl (Errorf (''invalid notification target recipient '' @ Quote trimmed @ '': '' @ err))
            | Inr parsed \<Rightarrow> Inr (ma_String parsed))
         else if targetType = NotificationTargetTypeSlackWebhook then
           (case urls_Parse urls trimmed of
              None \<Rightarrow> Inl (Errorf ''notification target webhook_url must be a valid https URL'')
            | Some parsed \<Rightarrow>
                (if url_Scheme parsed = [] \<or> ToLower (url_Scheme parsed) \<noteq> ''https'' \<or> TrimSpace (url_Host parsed) = []
                 then Inl (Errorf ''notification target webhook_url must be a valid https URL'')
                 else Inr (urls_String urls parsed)))
         else Inl (Errorf (''unsupported notification target type '' @ Quote targetType)))"

definition NormalizeNotificationTarget :: "mail_parser \<Rightarrow> URLPackage \<Rightarrow> NotificationTarget \<Rightarrow> go_error + NotificationTarget" where
  "NormalizeNotificationTarget mail urls target0 =
     (let type0 = TrimSpace (nt_Type target0); ttype = (if type0 = [] then NotificationTargetTypeEmail else type0);
          owner = trimNotificationTargetOptionalString (nt_OwnerUserID target0)
      in if ttype \<noteq> NotificationTargetTypeEmail \<and> ttype \<noteq> NotificationTargetTypeSlackWebhook
         then Inl (Errorf (''unsupported notification target type '' @ Quote ttype))
         else case normalizeNotificationTargetRecipient mail urls ttype (nt_Recipient target0) of
           Inl err \<Rightarrow> Inl err
         | Inr recipient \<Rightarrow>
             (case normalizeNotificationTargetOrigin ttype owner (nt_Origin target0) of
                Inl err \<Rightarrow> Inl err
              | Inr origin \<Rightarrow>
                  Inr (target0\<lparr>nt_Type := ttype, nt_Recipient := recipient, nt_Name := TrimSpace (nt_Name target0), nt_OwnerUserID := owner,
                    nt_Origin := origin\<rparr>)))"

definition ValidateExplicitNotificationTarget :: "mail_parser \<Rightarrow> URLPackage \<Rightarrow> NotificationTarget \<Rightarrow> go_error + NotificationTarget" where
  "ValidateExplicitNotificationTarget mail urls target =
     (if TrimSpace (nt_Origin target) = [] then Inl (Errorf ''notification target origin is required'')
      else NormalizeNotificationTarget mail urls target)"

section \<open>Destinations\<close>

record notificationDestination =
  dst_transport :: string
  dst_destinationKind :: string
  dst_destinationKey :: string
  dst_notificationTargetID :: "string option"
  dst_recipientUserID :: "string option"
  dst_slackWorkspaceIntegrationID :: "string option"
  dst_recipient :: string
  dst_emailRecipient :: string
  dst_webhookURL :: string
  dst_slackUserID :: string
  dst_slackBotToken :: string

definition no_destination :: notificationDestination where
  "no_destination =
     \<lparr>dst_transport = [], dst_destinationKind = [], dst_destinationKey = [], dst_notificationTargetID = None, dst_recipientUserID = None,
      dst_slackWorkspaceIntegrationID = None, dst_recipient = [], dst_emailRecipient = [], dst_webhookURL = [], dst_slackUserID = [],
      dst_slackBotToken = []\<rparr>"

definition personalEmailTargetDestination :: "NotificationTarget \<Rightarrow> go_error + notificationDestination" where
  "personalEmailTargetDestination target =
     (let targetID = TrimSpace (nt_ID target); recipient = TrimSpace (nt_Recipient target)
      in case NotificationPersonalEmailTargetKey targetID of
           Inl err \<Rightarrow> Inl err
         | Inr (kind, key) \<Rightarrow>
             Inr (no_destination\<lparr>dst_transport := NotificationTransportEmail, dst_destinationKind := kind, dst_destinationKey := key,
               dst_notificationTargetID := Some targetID, dst_recipientUserID := nt_OwnerUserID target, dst_recipient := recipient,
               dst_emailRecipient := recipient\<rparr>))"

definition notificationTargetDestination :: "NotificationTarget \<Rightarrow> go_error + notificationDestination" where
  "notificationTargetDestination target =
     (let recipient = TrimSpace (nt_Recipient target); targetID = TrimSpace (nt_ID target)
      in if recipient = [] then Inr no_destination
         else if nt_Type target = NotificationTargetTypeEmail \<and> nt_OwnerUserID target \<noteq> None then personalEmailTargetDestination target
         else if nt_Type target = NotificationTargetTypeSlackWebhook then
           (case NotificationSharedSlackWebhookTargetKey targetID of
              Inl err \<Rightarrow> Inl err
            | Inr (kind, key) \<Rightarrow>
                Inr (no_destination\<lparr>dst_transport := NotificationTransportSlackWebhook, dst_destinationKind := kind, dst_destinationKey := key,
                  dst_notificationTargetID := Some targetID, dst_recipient := nt_Type target @ '':'' @ targetID, dst_webhookURL := recipient\<rparr>))
         else
           (case NotificationSharedEmailTargetKey targetID of
              Inl err \<Rightarrow> Inl err
            | Inr (kind, key) \<Rightarrow>
                Inr (no_destination\<lparr>dst_transport := NotificationTransportEmail, dst_destinationKind := kind, dst_destinationKey := key,
                  dst_notificationTargetID := Some targetID, dst_recipient := recipient, dst_emailRecipient := recipient\<rparr>)))"

definition slackDMDestination :: "string \<Rightarrow> string \<Rightarrow> string \<Rightarrow> string \<Rightarrow> go_error + notificationDestination" where
  "slackDMDestination userID workspaceIntegrationID slackUserID slackBotToken =
     (case NotificationSlackDMDestinationKey workspaceIntegrationID slackUserID of
        Inl err \<Rightarrow> Inl err
      | Inr (kind, key) \<Rightarrow>
          Inr (no_destination\<lparr>dst_transport := NotificationTransportSlackDM, dst_destinationKind := kind, dst_destinationKey := key,
            dst_recipientUserID := Some (TrimSpace userID), dst_slackWorkspaceIntegrationID := Some (TrimSpace workspaceIntegrationID),
            dst_recipient := ''slack_dm:'' @ TrimSpace workspaceIntegrationID @ '':'' @ TrimSpace slackUserID,
            dst_slackUserID := TrimSpace slackUserID, dst_slackBotToken := TrimSpace slackBotToken\<rparr>))"

definition IsSlackUserID :: "string \<Rightarrow> bool" where
  "IsSlackUserID value =
     (let trimmed = TrimSpace value
      in if trimmed = [] then False
         else if \<not> HasPrefix trimmed ''U'' \<and> \<not> HasPrefix trimmed ''W'' then False
         else list_all (\<lambda>c. let n = of_char c :: nat in 65 \<le> n \<and> n \<le> 90 \<or> 48 \<le> n \<and> n \<le> 57) trimmed)"

fun dedupe_destinations :: "string list \<Rightarrow> notificationDestination list \<Rightarrow> notificationDestination list" where
  "dedupe_destinations seen [] = []"
| "dedupe_destinations seen (destination # ds) =
     (let key = TrimSpace (dst_transport destination) @ ''|'' @ TrimSpace (dst_destinationKey destination)
      in if key = [] then dedupe_destinations seen ds
         else if List.member seen key then dedupe_destinations seen ds
         else destination # dedupe_destinations (key # seen) ds)"

definition dedupeDestinations :: "notificationDestination list \<Rightarrow> notificationDestination list" where
  "dedupeDestinations destinations = dedupe_destinations [] destinations"

end
