(* ===== verification/Notification_Sender.thy ===== *)
theory Notification_Sender
  imports Notification_Destinations
begin

text \<open>
  The notifier of finished builds (\<open>service/build/notifications.go\<close>), its planning (\<open>notification_planning.go\<close>), its
  sending (\<open>notification_execution.go\<close>), the recovery of deliveries (\<open>notification_recovery.go\<close>) and the drain
  (\<open>notification_recovery_drain.go\<close>). The clock, the contexts, the other stores, the rendering of messages and the senders are functions
  of the number of calls made so far (\<open>NotifyEnvironment\<close>), and so is what other processes do to the
  store of deliveries between two calls. Metrics and logs are left out.
\<close>

section \<open>The world of the notifier\<close>

record UserSlackIdentity =
  usi_UserID :: string
  usi_SlackWorkspaceIntegrationID :: string
  usi_SlackUserID :: string
  usi_Enabled :: bool

record SlackWorkspaceIntegration =
  swi_ID :: string
  swi_BotTokenSecret :: string
  swi_Enabled :: bool

record UserNotificationPreference =
  unp_CommitAuthorFailureEmailEnabled :: bool
  unp_CommitAuthorFailureSlackEnabled :: bool
  unp_CommitAuthorSuccessEmailEnabled :: bool
  unp_CommitAuthorSuccessSlackEnabled :: bool

record notificationContent =
  nct_subject :: string
  nct_body :: string
  nct_slackText :: string
  nct_personalSlackText :: string

datatype notify_message = EmailMessage string string string | SlackWebhookMessage string string | SlackDirectMessage string string string

record NotifyEnvironment =
  nv_now :: "nat \<Rightarrow> time"
  nv_ctx :: "nat \<Rightarrow> dlv_error option"
  nv_uuid :: "nat \<Rightarrow> string"
  nv_others :: "nat \<Rightarrow> NotificationDeliveryRepository \<Rightarrow> NotificationDeliveryRepository"
  nv_build :: "nat \<Rightarrow> string \<Rightarrow> notify_error + Build"
  nv_render :: "nat \<Rightarrow> Build \<Rightarrow> string \<Rightarrow> notify_error + notificationContent"
  nv_send :: "nat \<Rightarrow> notify_message \<Rightarrow> notify_error option"
  nv_target :: "nat \<Rightarrow> string \<Rightarrow> notify_error + NotificationTarget"
  nv_ownedTarget :: "nat \<Rightarrow> string \<Rightarrow> notify_error + NotificationTarget"
  nv_matches :: "nat \<Rightarrow> Build \<Rightarrow> string \<Rightarrow> notify_error + NotificationTarget list"
  nv_ensureTarget :: "nat \<Rightarrow> string \<Rightarrow> time \<Rightarrow> notify_error + NotificationTarget"
  nv_user :: "nat \<Rightarrow> string \<Rightarrow> notify_error + User"
  nv_preference :: "nat \<Rightarrow> string \<Rightarrow> notify_error + UserNotificationPreference"
  nv_identity :: "nat \<Rightarrow> string \<Rightarrow> notify_error + UserSlackIdentity"
  nv_workspace :: "nat \<Rightarrow> notify_error + SlackWorkspaceIntegration"
  nv_mail :: mail_parser
  nv_urls :: URLPackage

text \<open>The collaborators of the notifier may be missing (\<open>nil\<close>).\<close>

record BuildNotificationService =
  bn_enabled :: bool
  bn_defaultRecipients :: "string list"
  bn_sender :: bool
  bn_slackSender :: bool
  bn_slackClient :: bool
  bn_buildRepo :: bool
  bn_deliveryRepo :: bool
  bn_subscriptionRepo :: bool
  bn_userRepo :: bool
  bn_preferenceRepo :: bool
  bn_identityRepo :: bool
  bn_workspaceRepo :: bool
  bn_claimOwner :: string
  bn_claimDuration :: int
  bn_retryPolicy :: notificationRetryPolicy

record NotifyWorld =
  nw_deliveries :: NotificationDeliveryRepository
  nw_tick :: nat
  nw_sent :: "(string \<times> notify_message \<times> notify_error option) list"

definition nask :: "(nat \<Rightarrow> 'a) \<Rightarrow> NotifyWorld \<Rightarrow> NotifyWorld \<times> 'a" where
  "nask f w = (w\<lparr>nw_tick := Suc (nw_tick w)\<rparr>, f (nw_tick w))"

definition with_deliveries_store ::
  "NotifyEnvironment \<Rightarrow> (string \<Rightarrow> dlv_error option \<Rightarrow> NotificationDeliveryRepository \<Rightarrow> NotificationDeliveryRepository \<times> (dlv_error + 'a)) \<Rightarrow>
     NotifyWorld \<Rightarrow> NotifyWorld \<times> (notify_error + 'a)" where
  "with_deliveries_store env f w =
     (let n = nw_tick w
      in case f (nv_uuid env n) (nv_ctx env n) (nv_others env n (nw_deliveries w)) of
           (r, x) \<Rightarrow> (w\<lparr>nw_deliveries := r, nw_tick := Suc n\<rparr>, map_sum NStore (\<lambda>y. y) x))"

text \<open>A message that leaves, with the identifier of the delivery it belongs to.\<close>

definition nsend :: "NotifyEnvironment \<Rightarrow> string \<Rightarrow> notify_message \<Rightarrow> NotifyWorld \<Rightarrow> NotifyWorld \<times> notify_error option" where
  "nsend env deliveryID message w =
     (let answer = nv_send env (nw_tick w) message
      in (w\<lparr>nw_tick := Suc (nw_tick w), nw_sent := nw_sent w @ [(deliveryID, message, answer)]\<rparr>, answer))"

section \<open>Sending\<close>

definition sendDestination ::
  "BuildNotificationService \<Rightarrow> NotifyEnvironment \<Rightarrow> string \<Rightarrow> notificationDestination \<Rightarrow> notificationContent \<Rightarrow> NotifyWorld \<Rightarrow>
     NotifyWorld \<times> notify_error option" where
  "sendDestination s env deliveryID destination content w =
     (if dst_transport destination = NotificationTransportSlackWebhook then
        (if \<not> bn_slackSender s then (w, Some (NErrorf ''slack sender is not configured''))
         else nsend env deliveryID (SlackWebhookMessage (dst_webhookURL destination) (nct_slackText content)) w)
      else if dst_transport destination = NotificationTransportSlackDM then
        (if \<not> bn_slackClient s then (w, Some (NErrorf ''slack client is not configured''))
         else nsend env deliveryID (SlackDirectMessage (dst_slackBotToken destination) (dst_slackUserID destination) (nct_personalSlackText content)) w)
      else if \<not> bn_sender s then (w, Some (NErrorf ''email sender is not configured''))
      else nsend env deliveryID (EmailMessage (dst_emailRecipient destination) (nct_subject content) (nct_body content)) w)"

text \<open>The identity of a delivery, as it is handed to the store.\<close>

definition delivery_for :: "string \<Rightarrow> string \<Rightarrow> notificationDestination \<Rightarrow> NotificationDelivery" where
  "delivery_for buildID eventType destination = zeroNotificationDelivery\<lparr>
     nd_BuildID := buildID, nd_EventType := eventType, nd_Transport := dst_transport destination,
     nd_DestinationKind := dst_destinationKind destination, nd_DestinationKey := dst_destinationKey destination,
     nd_NotificationTargetID := dst_notificationTargetID destination, nd_RecipientUserID := dst_recipientUserID destination,
     nd_SlackWorkspaceIntegrationID := dst_slackWorkspaceIntegrationID destination, nd_Recipient := dst_recipient destination\<rparr>"

definition delivery_identity :: "NotificationDelivery \<Rightarrow> NotificationDelivery" where
  "delivery_identity d = zeroNotificationDelivery\<lparr>
     nd_BuildID := nd_BuildID d, nd_EventType := nd_EventType d, nd_Transport := nd_Transport d,
     nd_DestinationKind := nd_DestinationKind d, nd_DestinationKey := nd_DestinationKey d,
     nd_NotificationTargetID := nd_NotificationTargetID d, nd_RecipientUserID := nd_RecipientUserID d,
     nd_SlackWorkspaceIntegrationID := nd_SlackWorkspaceIntegrationID d, nd_Recipient := nd_Recipient d\<rparr>"

definition claim_request :: "BuildNotificationService \<Rightarrow> NotificationDelivery \<Rightarrow> time \<Rightarrow> NotificationDeliveryClaimInput" where
  "claim_request s delivery now =
     \<lparr>nci_Delivery = delivery_identity delivery, nci_ClaimOwner = bn_claimOwner s, nci_Now = now, nci_ClaimDuration = bn_claimDuration s,
      nci_MaxAttempts = nrp_maxAttempts (bn_retryPolicy s)\<rparr>"

definition granted :: "NotificationDeliveryClaimOutcome \<Rightarrow> bool" where
  "granted outcome \<longleftrightarrow> outcome = NotifyCreatedClaimed \<or> outcome = NotifyRetryClaimed \<or> outcome = NotifyStaleClaimReclaimed"

definition notifier_acquireDelivery ::
  "BuildNotificationService \<Rightarrow> NotifyEnvironment \<Rightarrow> NotificationDelivery \<Rightarrow> NotifyWorld \<Rightarrow>
     NotifyWorld \<times> (notify_error + NotificationDeliveryClaimResult \<times> bool)" where
  "notifier_acquireDelivery s env delivery w =
     (case nask (nv_now env) w of (w1, now) \<Rightarrow>
      (case with_deliveries_store env (\<lambda>uuid ctx r. Notification_AcquireForDelivery uuid ctx (claim_request s delivery now) r) w1 of
         (w2, Inl err) \<Rightarrow> (w2, Inl err)
       | (w2, Inr result) \<Rightarrow> (w2, Inr (result, granted (ncr_Outcome result)))))"

definition prepareDelivery ::
  "BuildNotificationService \<Rightarrow> NotifyEnvironment \<Rightarrow> string \<Rightarrow> string \<Rightarrow> notificationDestination \<Rightarrow> NotifyWorld \<Rightarrow>
     NotifyWorld \<times> (notify_error + NotificationDelivery \<times> bool)" where
  "prepareDelivery s env buildID eventType destination w =
     (case notifier_acquireDelivery s env (delivery_for buildID eventType destination) w of
        (w1, Inl err) \<Rightarrow> (w1, Inl err)
      | (w1, Inr (result, shouldSend)) \<Rightarrow> (w1, Inr (ncr_Delivery result, shouldSend)))"

datatype notificationExecutionOutcome =
  ExecutionNone | ExecutionSent | ExecutionRetryScheduled | ExecutionPermanentlyFailed | ExecutionAttemptsExhausted | ExecutionLostClaim

definition claimedNotificationTimestamp :: "NotificationDelivery \<Rightarrow> notify_error + time" where
  "claimedNotificationTimestamp delivery =
     (case nd_ClaimedAt delivery of
        None \<Rightarrow> Inl (NErrorf ''notification delivery claim timestamp is required'')
      | Some t \<Rightarrow> (if t = 0 then Inl (NErrorf ''notification delivery claim timestamp is required'') else Inr t))"

definition notifier_markDeliverySent ::
  "BuildNotificationService \<Rightarrow> NotifyEnvironment \<Rightarrow> NotificationDelivery \<Rightarrow> time \<Rightarrow> NotifyWorld \<Rightarrow>
     NotifyWorld \<times> (notify_error + notificationExecutionOutcome)" where
  "notifier_markDeliverySent s env delivery sentAt w =
     (case claimedNotificationTimestamp delivery of
        Inl err \<Rightarrow> (w, Inl err)
      | Inr claimedAt \<Rightarrow>
          (case with_deliveries_store env (\<lambda>_ ctx r. Notification_MarkSent ctx
                  \<lparr>nms_DeliveryID = nd_ID delivery, nms_ClaimOwner = bn_claimOwner s, nms_ClaimedAt = claimedAt, nms_SentAt = sentAt\<rparr> r) w of
             (w1, Inl err) \<Rightarrow> (w1, Inl err)
           | (w1, Inr result) \<Rightarrow> (w1, Inr (if nur_Outcome result = NotifyLostClaim then ExecutionLostClaim else ExecutionSent))))"

text \<open>The failure to record, and how: retried later, exhausted or permanent.\<close>

definition failure_input ::
  "BuildNotificationService \<Rightarrow> NotificationDelivery \<Rightarrow> notify_error \<Rightarrow> time \<Rightarrow> time \<Rightarrow> NotificationDeliveryRecordFailureInput" where
  "failure_input s delivery sendErr claimedAt attemptedAt =
     (let decision = classifyNotificationDeliveryFailure (nd_Transport delivery) sendErr
      in \<lparr>nrf_DeliveryID = nd_ID delivery, nrf_ClaimOwner = bn_claimOwner s, nrf_ClaimedAt = claimedAt, nrf_FailedAt = attemptedAt,
          nrf_NextAttemptAt = (if nfd_retryable decision \<and> nd_Attempts delivery < nd_MaxAttempts delivery
                               then Some (attemptedAt + notification_delayForAttempt (bn_retryPolicy s) (nd_Attempts delivery)) else None),
          nrf_FailureCategory = nfd_category decision, nrf_FailureReason = nfd_reason decision, nrf_LastError = Some (TrimSpace (notify_text sendErr))\<rparr>)"

definition failure_outcome :: "NotificationDelivery \<Rightarrow> notify_error \<Rightarrow> notificationExecutionOutcome" where
  "failure_outcome delivery sendErr =
     (let decision = classifyNotificationDeliveryFailure (nd_Transport delivery) sendErr
      in if nfd_retryable decision \<and> nd_Attempts delivery < nd_MaxAttempts delivery then ExecutionRetryScheduled
         else if nfd_retryable decision then ExecutionAttemptsExhausted else ExecutionPermanentlyFailed)"

definition notifier_markDeliveryFailed ::
  "BuildNotificationService \<Rightarrow> NotifyEnvironment \<Rightarrow> NotificationDelivery \<Rightarrow> notify_error \<Rightarrow> time \<Rightarrow> NotifyWorld \<Rightarrow>
     NotifyWorld \<times> (notify_error + notificationExecutionOutcome)" where
  "notifier_markDeliveryFailed s env delivery sendErr attemptedAt w =
     (case claimedNotificationTimestamp delivery of
        Inl err \<Rightarrow> (w, Inl err)
      | Inr claimedAt \<Rightarrow>
          (let input = failure_input s delivery sendErr claimedAt attemptedAt; outcome = failure_outcome delivery sendErr;
               record_op = (if outcome = ExecutionRetryScheduled then Notification_RecordRetryableFailure
                            else if outcome = ExecutionAttemptsExhausted then Notification_RecordExhaustedFailure
                            else Notification_RecordPermanentFailure)
           in case with_deliveries_store env (\<lambda>_ ctx r. record_op ctx input r) w of
                (w1, Inl err) \<Rightarrow> (w1, Inl err)
              | (w1, Inr result) \<Rightarrow> (w1, Inr (if nur_Outcome result = NotifyLostClaim then ExecutionLostClaim else outcome))))"

definition notifier_executeClaimedDelivery ::
  "BuildNotificationService \<Rightarrow> NotifyEnvironment \<Rightarrow> NotificationDelivery \<Rightarrow> notificationDestination \<Rightarrow> notificationContent \<Rightarrow> NotifyWorld \<Rightarrow>
     NotifyWorld \<times> notificationExecutionOutcome \<times> notify_error option" where
  "notifier_executeClaimedDelivery s env delivery destination content w =
     (case sendDestination s env (nd_ID delivery) destination content w of (w1, sendErr) \<Rightarrow>
      (case nask (nv_now env) w1 of (w2, attemptedAt) \<Rightarrow>
       (case sendErr of
          Some err \<Rightarrow>
            (if notify_context_error err then (w2, ExecutionNone, Some err)
             else case notifier_markDeliveryFailed s env delivery err attemptedAt w2 of
               (w3, Inl updateErr) \<Rightarrow> (w3, ExecutionNone, Some (NJoin [err, updateErr]))
             | (w3, Inr outcome) \<Rightarrow> (w3, outcome, Some err))
        | None \<Rightarrow>
            (if \<not> bn_deliveryRepo s then (w2, ExecutionSent, None)
             else case notifier_markDeliverySent s env delivery attemptedAt w2 of
               (w3, Inr outcome) \<Rightarrow> (w3, outcome, None)
             | (w3, Inl updateErr) \<Rightarrow>
                 (let persistErr = retryableNotificationExecutionFailure ''delivery_state_persist_failed'' ''persist sent delivery state failed'' [updateErr]
                  in case notifier_markDeliveryFailed s env delivery persistErr attemptedAt w3 of
                       (w4, Inl markErr) \<Rightarrow> (w4, ExecutionNone, Some (NJoin [persistErr, markErr]))
                     | (w4, Inr _) \<Rightarrow> (w4, ExecutionRetryScheduled, Some persistErr))))))"

text \<open>One destination of a finished build: the error of the loop, or the errors to add.\<close>

definition send_one ::
  "BuildNotificationService \<Rightarrow> NotifyEnvironment \<Rightarrow> Build \<Rightarrow> string \<Rightarrow> notificationDestination \<Rightarrow> NotifyWorld \<Rightarrow>
     NotifyWorld \<times> (notify_error + notify_error list)" where
  "send_one s env build eventType destination w =
     (if \<not> bn_deliveryRepo s then
        (case nask (\<lambda>n. nv_render env n build (dst_transport destination)) w of
           (w1, Inl renderErr) \<Rightarrow> (w1, Inr [renderErr])
         | (w1, Inr content) \<Rightarrow>
             (case sendDestination s env [] destination content w1 of
                (w2, None) \<Rightarrow> (w2, Inr []) | (w2, Some sendErr) \<Rightarrow> (w2, Inr [sendErr])))
      else case prepareDelivery s env (b_ID build) eventType destination w of
        (w1, Inl err) \<Rightarrow> (w1, Inl err)
      | (w1, Inr (delivery, False)) \<Rightarrow> (w1, Inr [])
      | (w1, Inr (delivery, True)) \<Rightarrow>
          (case nask (\<lambda>n. nv_render env n build (dst_transport destination)) w1 of
             (w2, Inl renderErr) \<Rightarrow>
               (if notify_context_error renderErr then (w2, Inl renderErr)
                else case nask (nv_now env) w2 of (w3, now) \<Rightarrow>
                  (case notifier_markDeliveryFailed s env delivery renderErr now w3 of
                     (w4, Inl markErr) \<Rightarrow> (w4, Inr [markErr]) | (w4, Inr _) \<Rightarrow> (w4, Inr [renderErr])))
           | (w2, Inr content) \<Rightarrow>
               (case notifier_executeClaimedDelivery s env delivery destination content w2 of
                  (w3, _, None) \<Rightarrow> (w3, Inr []) | (w3, _, Some executeErr) \<Rightarrow> (w3, Inr [executeErr]))))"

fun send_all ::
  "BuildNotificationService \<Rightarrow> NotifyEnvironment \<Rightarrow> Build \<Rightarrow> string \<Rightarrow> notify_error list \<Rightarrow> notificationDestination list \<Rightarrow> NotifyWorld \<Rightarrow>
     NotifyWorld \<times> notify_error option" where
  "send_all s env build eventType errs [] w = (w, if errs = [] then None else Some (NJoin errs))"
| "send_all s env build eventType errs (destination # ds) w =
     (case send_one s env build eventType destination w of
        (w1, Inl err) \<Rightarrow> (w1, Some err)
      | (w1, Inr new) \<Rightarrow> send_all s env build eventType (errs @ new) ds w1)"

definition sendTerminalNotification ::
  "BuildNotificationService \<Rightarrow> NotifyEnvironment \<Rightarrow> Build \<Rightarrow> string \<Rightarrow> notificationDestination list \<Rightarrow> NotifyWorld \<Rightarrow> NotifyWorld \<times> notify_error option" where
  "sendTerminalNotification s env build eventType destinations w = send_all s env build eventType [] destinations w"

section \<open>Recovery\<close>

fun buildStatusNotificationEventType :: "BuildStatus \<Rightarrow> string option" where
  "buildStatusNotificationEventType BuildStatusSuccess = Some NotificationEventTypeBuildSucceeded"
| "buildStatusNotificationEventType BuildStatusFailed = Some NotificationEventTypeBuildFailed"
| "buildStatusNotificationEventType _ = None"

text \<open>The lookup of the target of a delivery; the texts differ by kind of destination.\<close>

definition delivery_target ::
  "BuildNotificationService \<Rightarrow> NotifyEnvironment \<Rightarrow> NotificationDelivery \<Rightarrow> string \<Rightarrow> string \<Rightarrow> string \<Rightarrow> string \<Rightarrow> string \<Rightarrow> string \<Rightarrow> NotifyWorld \<Rightarrow>
     NotifyWorld \<times> (notify_error + NotificationTarget)" where
  "delivery_target s env delivery unreferenced missing missingText failedText disabled disabledText w =
     (case nd_NotificationTargetID delivery of
        None \<Rightarrow> (w, Inl (permanentNotificationExecutionFailure ''delivery_metadata_invalid'' unreferenced []))
      | Some targetID \<Rightarrow>
          (if \<not> bn_subscriptionRepo s
           then (w, Inl (retryableNotificationExecutionFailure ''rehydration_failed'' ''notification subscription repository is not configured'' []))
           else case nask (\<lambda>n. nv_target env n (TrimSpace targetID)) w of
             (w1, Inl err) \<Rightarrow>
               (w1, Inl (if notify_is err ErrNotificationTargetNotFound then permanentNotificationExecutionFailure missing missingText [err]
                         else retryableNotificationExecutionFailure ''rehydration_failed'' failedText [err]))
           | (w1, Inr target) \<Rightarrow>
               (w1, if \<not> nt_Enabled target then Inl (permanentNotificationExecutionFailure disabled disabledText []) else Inr target)))"

definition invalid_metadata :: "string \<Rightarrow> notify_error list \<Rightarrow> notify_error" where
  "invalid_metadata message cause = permanentNotificationExecutionFailure ''delivery_metadata_invalid'' message cause"

definition same_destination ::
  "NotificationDelivery \<Rightarrow> string \<Rightarrow> string \<Rightarrow> string \<Rightarrow> go_error + notificationDestination \<Rightarrow> notify_error + notificationDestination" where
  "same_destination delivery invalidText mismatch mismatchText answer =
     (case answer of
        Inl err \<Rightarrow> Inl (invalid_metadata invalidText [NStore (ErrPlain err)])
      | Inr destination \<Rightarrow>
          (if dst_destinationKey destination \<noteq> nd_DestinationKey delivery then Inl (permanentNotificationExecutionFailure mismatch mismatchText [])
           else Inr destination))"

definition rehydrateSharedEmailDestination ::
  "BuildNotificationService \<Rightarrow> NotifyEnvironment \<Rightarrow> NotificationDelivery \<Rightarrow> NotifyWorld \<Rightarrow> NotifyWorld \<times> (notify_error + notificationDestination)" where
  "rehydrateSharedEmailDestination s env delivery w =
     (case delivery_target s env delivery ''shared email delivery target reference is missing'' ''shared_target_missing''
             ''notification target no longer exists'' ''notification target lookup failed'' ''shared_target_disabled'' ''notification target is disabled'' w of
        (w1, Inl err) \<Rightarrow> (w1, Inl err)
      | (w1, Inr target) \<Rightarrow>
          (w1, case ValidateExplicitNotificationTarget (nv_mail env) (nv_urls env) target of
                 Inl err \<Rightarrow> Inl (invalid_metadata ''notification target metadata is invalid'' [NStore (ErrPlain err)])
               | Inr normalizedTarget \<Rightarrow>
                   (if nt_Type normalizedTarget \<noteq> NotificationTargetTypeEmail \<or> nt_OwnerUserID normalizedTarget \<noteq> None
                    then Inl (invalid_metadata ''notification target type no longer matches the persisted delivery'' [])
                    else same_destination delivery ''notification target metadata is invalid'' ''shared_target_mismatch''
                           ''notification target no longer matches the persisted logical destination'' (notificationTargetDestination normalizedTarget))))"

definition rehydratePersonalEmailDestination ::
  "BuildNotificationService \<Rightarrow> NotifyEnvironment \<Rightarrow> NotificationDelivery \<Rightarrow> NotifyWorld \<Rightarrow> NotifyWorld \<times> (notify_error + notificationDestination)" where
  "rehydratePersonalEmailDestination s env delivery w =
     (case delivery_target s env delivery ''personal email delivery target reference is missing'' ''personal_email_target_missing''
             ''personal notification target no longer exists'' ''personal notification target lookup failed'' ''personal_email_target_disabled''
             ''personal notification target is disabled'' w of
        (w1, Inl err) \<Rightarrow> (w1, Inl err)
      | (w1, Inr target) \<Rightarrow>
          (w1, case nt_OwnerUserID target of
                 None \<Rightarrow> Inl (invalid_metadata ''personal notification target metadata is invalid'' [])
               | Some owner \<Rightarrow>
                   (if nt_Type target \<noteq> NotificationTargetTypeEmail then Inl (invalid_metadata ''personal notification target metadata is invalid'' [])
                    else if (case nd_RecipientUserID delivery of None \<Rightarrow> False | Some u \<Rightarrow> TrimSpace u \<noteq> TrimSpace owner)
                    then Inl (permanentNotificationExecutionFailure ''personal_email_target_mismatch''
                           ''personal notification target no longer matches the persisted user'' [])
                    else same_destination delivery ''personal notification target metadata is invalid'' ''personal_email_target_mismatch''
                           ''personal notification target no longer matches the persisted logical destination'' (personalEmailTargetDestination target))))"

definition rehydrateSlackWebhookDestination ::
  "BuildNotificationService \<Rightarrow> NotifyEnvironment \<Rightarrow> NotificationDelivery \<Rightarrow> NotifyWorld \<Rightarrow> NotifyWorld \<times> (notify_error + notificationDestination)" where
  "rehydrateSlackWebhookDestination s env delivery w =
     (case delivery_target s env delivery ''slack webhook delivery target reference is missing'' ''shared_target_missing''
             ''slack webhook target no longer exists'' ''slack webhook target lookup failed'' ''shared_target_disabled''
             ''slack webhook target is disabled'' w of
        (w1, Inl err) \<Rightarrow> (w1, Inl err)
      | (w1, Inr target) \<Rightarrow>
          (w1, if nt_Type target \<noteq> NotificationTargetTypeSlackWebhook
               then Inl (invalid_metadata ''slack webhook target type no longer matches the persisted delivery'' [])
               else same_destination delivery ''slack webhook target metadata is invalid'' ''shared_target_mismatch''
                      ''slack webhook target no longer matches the persisted logical destination'' (notificationTargetDestination target)))"

text \<open>The checks of a linked workspace against a delivery.\<close>

definition slack_dm_of ::
  "NotificationDelivery \<Rightarrow> string \<Rightarrow> UserSlackIdentity \<Rightarrow> SlackWorkspaceIntegration \<Rightarrow> notify_error + notificationDestination" where
  "slack_dm_of delivery workspaceID identity integration =
     (if \<not> swi_Enabled integration
      then Inl (permanentNotificationExecutionFailure ''slack_workspace_integration_disabled'' ''slack workspace integration is disabled'' [])
      else if TrimSpace (swi_ID integration) \<noteq> TrimSpace workspaceID
      then Inl (permanentNotificationExecutionFailure ''slack_workspace_integration_mismatch''
             ''slack workspace integration no longer matches the persisted delivery'' [])
      else if TrimSpace (swi_BotTokenSecret integration) = [] \<or> \<not> IsSlackUserID (TrimSpace (usi_SlackUserID identity))
      then Inl (permanentNotificationExecutionFailure ''slack_workspace_credentials_missing'' ''slack delivery credentials are unavailable'' [])
      else same_destination delivery ''slack identity delivery metadata is invalid'' ''slack_identity_mismatch''
             ''slack identity no longer matches the persisted logical destination''
             (slackDMDestination (usi_UserID identity) (swi_ID integration) (usi_SlackUserID identity) (swi_BotTokenSecret integration)))"

definition rehydrateSlackDMDestination ::
  "BuildNotificationService \<Rightarrow> NotifyEnvironment \<Rightarrow> NotificationDelivery \<Rightarrow> NotifyWorld \<Rightarrow> NotifyWorld \<times> (notify_error + notificationDestination)" where
  "rehydrateSlackDMDestination s env delivery w =
     (case (nd_RecipientUserID delivery, nd_SlackWorkspaceIntegrationID delivery) of
        (Some userID, Some workspaceID) \<Rightarrow>
          (if \<not> bn_identityRepo s \<or> \<not> bn_workspaceRepo s \<or> \<not> bn_slackClient s
           then (w, Inl (retryableNotificationExecutionFailure ''rehydration_failed'' ''slack delivery dependencies are not configured'' []))
           else case nask (\<lambda>n. nv_identity env n (TrimSpace userID)) w of
             (w1, Inl err) \<Rightarrow>
               (w1, Inl (if notify_is err ErrUserSlackIdentityNotFound
                         then permanentNotificationExecutionFailure ''slack_identity_missing'' ''slack identity no longer exists'' [err]
                         else retryableNotificationExecutionFailure ''rehydration_failed'' ''slack identity lookup failed'' [err]))
           | (w1, Inr identity) \<Rightarrow>
               (if \<not> usi_Enabled identity
                then (w1, Inl (permanentNotificationExecutionFailure ''slack_identity_disabled'' ''slack identity is disabled'' []))
                else if TrimSpace (usi_SlackWorkspaceIntegrationID identity) \<noteq> TrimSpace workspaceID
                then (w1, Inl (permanentNotificationExecutionFailure ''slack_identity_mismatch''
                       ''slack identity no longer matches the persisted workspace'' []))
                else case nask (nv_workspace env) w1 of
                  (w2, Inl err) \<Rightarrow>
                    (w2, Inl (if notify_is err ErrSlackWorkspaceIntegrationNotFound
                              then permanentNotificationExecutionFailure ''slack_workspace_integration_missing''
                                     ''slack workspace integration is unavailable'' [err]
                              else retryableNotificationExecutionFailure ''rehydration_failed'' ''slack workspace integration lookup failed'' [err]))
                | (w2, Inr integration) \<Rightarrow> (w2, slack_dm_of delivery workspaceID identity integration)))
      | _ \<Rightarrow> (w, Inl (invalid_metadata ''slack identity delivery references are missing'' [])))"

definition rehydrateDestination ::
  "BuildNotificationService \<Rightarrow> NotifyEnvironment \<Rightarrow> NotificationDelivery \<Rightarrow> NotifyWorld \<Rightarrow> NotifyWorld \<times> (notify_error + notificationDestination)" where
  "rehydrateDestination s env delivery w =
     (if nd_Transport delivery = NotificationTransportEmail \<and> nd_DestinationKind delivery = NotificationDestinationKindSharedTarget
      then rehydrateSharedEmailDestination s env delivery w
      else if nd_Transport delivery = NotificationTransportEmail \<and> nd_DestinationKind delivery = NotificationDestinationKindPersonalEmail
      then rehydratePersonalEmailDestination s env delivery w
      else if nd_Transport delivery = NotificationTransportSlackWebhook \<and> nd_DestinationKind delivery = NotificationDestinationKindSharedTarget
      then rehydrateSlackWebhookDestination s env delivery w
      else if nd_Transport delivery = NotificationTransportSlackDM \<and> nd_DestinationKind delivery = NotificationDestinationKindSlackIdentity
      then rehydrateSlackDMDestination s env delivery w
      else (w, Inl (invalid_metadata ''notification delivery transport metadata is invalid'' [])))"

definition rehydrateDelivery ::
  "BuildNotificationService \<Rightarrow> NotifyEnvironment \<Rightarrow> NotificationDelivery \<Rightarrow> NotifyWorld \<Rightarrow>
     NotifyWorld \<times> (notify_error + Build \<times> notificationDestination)" where
  "rehydrateDelivery s env delivery w =
     (if \<not> bn_buildRepo s then (w, Inl (invalid_metadata ''notification build repository is not configured'' []))
      else case nask (\<lambda>n. nv_build env n (nd_BuildID delivery)) w of
        (w1, Inl err) \<Rightarrow>
          (w1, Inl (if notify_is err NErrBuildNotFound
                    then permanentNotificationExecutionFailure ''build_unavailable'' ''notification build is no longer available'' [err]
                    else retryableNotificationExecutionFailure ''rehydration_failed'' ''notification build rehydration failed'' [err]))
      | (w1, Inr build) \<Rightarrow>
          (if buildStatusNotificationEventType (b_Status build) \<noteq> Some (nd_EventType delivery)
           then (w1, Inl (permanentNotificationExecutionFailure ''build_event_mismatch''
                  ''notification build event no longer matches the persisted delivery'' []))
           else case rehydrateDestination s env delivery w1 of
             (w2, Inl err) \<Rightarrow> (w2, Inl err) | (w2, Inr destination) \<Rightarrow> (w2, Inr (build, destination))))"

record notificationRecoveryAttemptResult =
  nra_claimOutcome :: "NotificationDeliveryClaimOutcome option"
  nra_executionOutcome :: notificationExecutionOutcome
  nra_rehydrationFailed :: bool

text \<open>A delivery that cannot be rebuilt or rendered fails unless the context ended.\<close>

definition fail_rehydration ::
  "BuildNotificationService \<Rightarrow> NotifyEnvironment \<Rightarrow> NotificationDelivery \<Rightarrow> notify_error \<Rightarrow> notificationRecoveryAttemptResult \<Rightarrow> NotifyWorld \<Rightarrow>
     NotifyWorld \<times> notificationRecoveryAttemptResult \<times> notify_error option" where
  "fail_rehydration s env claimed err result w =
     (if notify_context_error err then (w, result, Some err)
      else case nask (nv_now env) w of (w1, now) \<Rightarrow>
        (case notifier_markDeliveryFailed s env claimed err now w1 of
           (w2, Inl markErr) \<Rightarrow> (w2, result\<lparr>nra_rehydrationFailed := True, nra_executionOutcome := ExecutionNone\<rparr>, Some markErr)
         | (w2, Inr outcome) \<Rightarrow> (w2, result\<lparr>nra_rehydrationFailed := True, nra_executionOutcome := outcome\<rparr>, None)))"

definition notifier_recoverDelivery ::
  "BuildNotificationService \<Rightarrow> NotifyEnvironment \<Rightarrow> NotificationDelivery \<Rightarrow> NotifyWorld \<Rightarrow>
     NotifyWorld \<times> notificationRecoveryAttemptResult \<times> notify_error option" where
  "notifier_recoverDelivery s env candidate w =
     (case notifier_acquireDelivery s env candidate w of
        (w1, Inl err) \<Rightarrow> (w1, \<lparr>nra_claimOutcome = None, nra_executionOutcome = ExecutionNone, nra_rehydrationFailed = False\<rparr>, Some err)
      | (w1, Inr (claimResult, shouldSend)) \<Rightarrow>
          (let claimed = ncr_Delivery claimResult;
               result = \<lparr>nra_claimOutcome = Some (ncr_Outcome claimResult), nra_executionOutcome = ExecutionNone, nra_rehydrationFailed = False\<rparr>
           in if \<not> shouldSend then (w1, result, None)
              else case rehydrateDelivery s env claimed w1 of
                (w2, Inl err) \<Rightarrow> fail_rehydration s env claimed err result w2
              | (w2, Inr (build, destination)) \<Rightarrow>
                  (case nask (\<lambda>n. nv_render env n build (dst_transport destination)) w2 of
                     (w3, Inl err) \<Rightarrow> fail_rehydration s env claimed err result w3
                   | (w3, Inr content) \<Rightarrow>
                       (case notifier_executeClaimedDelivery s env claimed destination content w3 of
                          (w4, outcome, err) \<Rightarrow> (w4, result\<lparr>nra_executionOutcome := outcome\<rparr>, err)))))"

end
