(* ===== verification/Notification_Planning.thy ===== *)
theory Notification_Planning
  imports Notification_Sender Build_Service
begin

text \<open>
  Which destinations a finished build has (\<open>notification_planning.go\<close>), the entry of the notifier (\<open>notifications.go\<close>) and
  the drain of deliveries that wait for another attempt (\<open>notification_recovery_drain.go\<close>).
\<close>

section \<open>Recipients\<close>

text \<open>The loop over the parts of the configured recipients.\<close>

fun parse_recipients :: "mail_parser \<Rightarrow> string list \<Rightarrow> go_error + string list" where
  "parse_recipients mail [] = Inr []"
| "parse_recipients mail (part # parts) =
     (let trimmed = TrimSpace part
      in if trimmed = [] then parse_recipients mail parts
         else case mail trimmed of
           Inl err \<Rightarrow> Inl (Errorf (''invalid email notification recipient '' @ Quote trimmed @ '': '' @ err))
         | Inr parsed \<Rightarrow> map_sum (\<lambda>e. e) (\<lambda>rs. ma_String parsed # rs) (parse_recipients mail parts))"

definition parseNotificationRecipients :: "mail_parser \<Rightarrow> string \<Rightarrow> go_error + string list" where
  "parseNotificationRecipients mail value = (if TrimSpace value = [] then Inr [] else parse_recipients mail (SplitChar CHR '','' value))"

definition parseNotificationRecipient :: "mail_parser \<Rightarrow> string option \<Rightarrow> string option" where
  "parseNotificationRecipient mail value =
     (case value of
        None \<Rightarrow> None
      | Some v \<Rightarrow>
          (let trimmed = TrimSpace v
           in if trimmed = [] then None else case mail trimmed of Inl _ \<Rightarrow> None | Inr parsed \<Rightarrow> Some (ma_String parsed)))"

fun dedupe_recipients :: "string list \<Rightarrow> string list \<Rightarrow> string list" where
  "dedupe_recipients seen [] = []"
| "dedupe_recipients seen (recipient # rs) =
     (let trimmed = TrimSpace recipient
      in if trimmed = [] then dedupe_recipients seen rs
         else if List.member seen trimmed then dedupe_recipients seen rs
         else trimmed # dedupe_recipients (trimmed # seen) rs)"

definition dedupeRecipients :: "string list \<Rightarrow> string list" where
  "dedupeRecipients recipients = dedupe_recipients [] recipients"

definition normalizeCommitAuthorEmail :: "mail_parser \<Rightarrow> string option \<Rightarrow> string" where
  "normalizeCommitAuthorEmail mail value =
     (case value of
        None \<Rightarrow> []
      | Some v \<Rightarrow>
          (let trimmed = TrimSpace v
           in if trimmed = [] then [] else case mail trimmed of Inl _ \<Rightarrow> [] | Inr parsed \<Rightarrow> ToLower (TrimSpace (ma_Address parsed))))"

text \<open>The service of a configuration: \<open>s\<close> has the collaborators.\<close>

definition NewBuildNotificationService ::
  "mail_parser \<Rightarrow> string \<Rightarrow> string \<Rightarrow> int \<Rightarrow> BuildNotificationService \<Rightarrow> go_error + BuildNotificationService" where
  "NewBuildNotificationService mail recipients claimOwner claimDuration0 s =
     (case (if bn_enabled s then parseNotificationRecipients mail recipients else Inr []) of
        Inl err \<Rightarrow> Inl err
      | Inr rs \<Rightarrow>
          (let claimDuration = notificationClaimDuration claimDuration0
           in case validateNotificationClaimDuration claimDuration of
                Some err \<Rightarrow> Inl err
              | None \<Rightarrow> Inr (s\<lparr>bn_defaultRecipients := rs, bn_claimOwner := notificationClaimOwner claimOwner, bn_claimDuration := claimDuration,
                         bn_retryPolicy := defaultNotificationRetryPolicy\<rparr>)))"

section \<open>Planning\<close>

definition resolveConfiguredEmailDestination ::
  "BuildNotificationService \<Rightarrow> NotifyEnvironment \<Rightarrow> string \<Rightarrow> NotifyWorld \<Rightarrow> NotifyWorld \<times> (notify_error + notificationDestination)" where
  "resolveConfiguredEmailDestination s env recipient w =
     (if \<not> bn_subscriptionRepo s then
        (w, case parseNotificationRecipient (nv_mail env) (Some recipient) of
              None \<Rightarrow> Inl (NErrorf (''invalid email notification recipient '' @ Quote (TrimSpace recipient)))
            | Some parsedRecipient \<Rightarrow>
                (case nv_mail env parsedRecipient of
                   Inl err \<Rightarrow> Inl (NErrorf (''invalid email notification recipient '' @ Quote (TrimSpace recipient) @ '': '' @ err))
                 | Inr parsedAddress \<Rightarrow>
                     Inr (no_destination\<lparr>dst_transport := NotificationTransportEmail, dst_destinationKind := NotificationDestinationKindSharedTarget,
                       dst_destinationKey := ''email-config:'' @ ToLower (TrimSpace (ma_Address parsedAddress)),
                       dst_recipient := parsedRecipient, dst_emailRecipient := parsedRecipient\<rparr>)))
      else case nask (nv_now env) w of (w1, now) \<Rightarrow>
        (case nask (\<lambda>n. nv_ensureTarget env n recipient now) w1 of
           (w2, Inl err) \<Rightarrow> (w2, Inl err)
         | (w2, Inr target) \<Rightarrow> (w2, map_sum (\<lambda>err. NStore (ErrPlain err)) (\<lambda>d. d) (notificationTargetDestination target))))"

fun configured_destinations ::
  "BuildNotificationService \<Rightarrow> NotifyEnvironment \<Rightarrow> string list \<Rightarrow> NotifyWorld \<Rightarrow> NotifyWorld \<times> (notify_error + notificationDestination list)" where
  "configured_destinations s env [] w = (w, Inr [])"
| "configured_destinations s env (recipient # rs) w =
     (case resolveConfiguredEmailDestination s env recipient w of
        (w1, Inl err) \<Rightarrow> (w1, Inl err)
      | (w1, Inr destination) \<Rightarrow>
          (case configured_destinations s env rs w1 of
             (w2, Inl err) \<Rightarrow> (w2, Inl err) | (w2, Inr ds) \<Rightarrow> (w2, Inr (destination # ds))))"

fun matched_destinations :: "NotificationTarget list \<Rightarrow> notify_error + notificationDestination list" where
  "matched_destinations [] = Inr []"
| "matched_destinations (target # ts) =
     (case notificationTargetDestination target of
        Inl err \<Rightarrow> Inl (NStore (ErrPlain err))
      | Inr destination \<Rightarrow>
          (if dst_recipient destination = [] \<and> dst_emailRecipient destination = [] \<and> dst_webhookURL destination = [] then matched_destinations ts
           else map_sum (\<lambda>e. e) (\<lambda>ds. destination # ds) (matched_destinations ts)))"

definition resolveCommitAuthorEmailDestination ::
  "BuildNotificationService \<Rightarrow> NotifyEnvironment \<Rightarrow> string \<Rightarrow> NotifyWorld \<Rightarrow> NotifyWorld \<times> (notify_error + notificationDestination option)" where
  "resolveCommitAuthorEmailDestination s env userID w =
     (case nask (\<lambda>n. nv_ownedTarget env n userID) w of
        (w1, Inl err) \<Rightarrow> (w1, if notify_is err ErrNotificationTargetNotFound then Inr None else Inl err)
      | (w1, Inr target) \<Rightarrow>
          (w1, if \<not> nt_Enabled target \<or> TrimSpace (nt_Recipient target) = [] then Inr None
               else map_sum (\<lambda>err. NStore (ErrPlain err)) Some (personalEmailTargetDestination target)))"

definition resolveCommitAuthorSlackDestination ::
  "BuildNotificationService \<Rightarrow> NotifyEnvironment \<Rightarrow> User \<Rightarrow> NotifyWorld \<Rightarrow> NotifyWorld \<times> (notify_error + notificationDestination option)" where
  "resolveCommitAuthorSlackDestination s env user w =
     (if \<not> bn_identityRepo s \<or> \<not> bn_workspaceRepo s \<or> \<not> bn_slackClient s then (w, Inr None)
      else case nask (\<lambda>n. nv_identity env n (usr_ID user)) w of
        (w1, Inl err) \<Rightarrow> (w1, if notify_is err ErrUserSlackIdentityNotFound then Inr None else Inl err)
      | (w1, Inr identity) \<Rightarrow>
          (if \<not> usi_Enabled identity then (w1, Inr None)
           else case nask (nv_workspace env) w1 of
             (w2, Inl err) \<Rightarrow> (w2, if notify_is err ErrSlackWorkspaceIntegrationNotFound then Inr None else Inl err)
           | (w2, Inr integration) \<Rightarrow>
               (w2, if \<not> swi_Enabled integration \<or> swi_ID integration \<noteq> usi_SlackWorkspaceIntegrationID identity then Inr None
                    else if TrimSpace (swi_BotTokenSecret integration) = [] \<or> \<not> IsSlackUserID (TrimSpace (usi_SlackUserID identity)) then Inr None
                    else map_sum (\<lambda>err. NStore (ErrPlain err)) Some
                           (slackDMDestination (usr_ID user) (swi_ID integration) (usi_SlackUserID identity) (swi_BotTokenSecret integration)))))"

text \<open>The personal destinations that are enabled, email before Slack.\<close>

definition author_destinations ::
  "BuildNotificationService \<Rightarrow> NotifyEnvironment \<Rightarrow> User \<Rightarrow> bool \<Rightarrow> bool \<Rightarrow> NotifyWorld \<Rightarrow> NotifyWorld \<times> (notify_error + notificationDestination list)" where
  "author_destinations s env user byEmail bySlack w =
     (case (if byEmail then resolveCommitAuthorEmailDestination s env (usr_ID user) w else (w, Inr None)) of
        (w1, Inl err) \<Rightarrow> (w1, Inl err)
      | (w1, Inr email) \<Rightarrow>
          (case (if bySlack then resolveCommitAuthorSlackDestination s env user w1 else (w1, Inr None)) of
             (w2, Inl err) \<Rightarrow> (w2, Inl err)
           | (w2, Inr slack) \<Rightarrow>
               (w2, Inr ((case email of None \<Rightarrow> [] | Some d \<Rightarrow> [d]) @ (case slack of None \<Rightarrow> [] | Some d \<Rightarrow> [d])))))"

definition resolveCommitAuthorDestinations ::
  "BuildNotificationService \<Rightarrow> NotifyEnvironment \<Rightarrow> Build \<Rightarrow> string \<Rightarrow> NotifyWorld \<Rightarrow> NotifyWorld \<times> (notify_error + notificationDestination list)" where
  "resolveCommitAuthorDestinations s env build eventType w =
     (let authorEmail = normalizeCommitAuthorEmail (nv_mail env) (b_SourceAuthorEmail build)
      in if \<not> bn_userRepo s \<or> \<not> bn_preferenceRepo s \<or> \<not> bn_subscriptionRepo s \<or> authorEmail = [] then (w, Inr [])
         else case nask (\<lambda>n. nv_user env n authorEmail) w of
           (w1, Inl err) \<Rightarrow> (w1, if notify_is err NErrUserNotFound then Inr [] else Inl err)
         | (w1, Inr user) \<Rightarrow>
             (case nask (\<lambda>n. nv_preference env n (usr_ID user)) w1 of
                (w2, Inl err) \<Rightarrow> (w2, if notify_is err ErrUserNotificationPreferenceNotFound then Inr [] else Inl err)
              | (w2, Inr preference) \<Rightarrow>
                  (if eventType = NotificationEventTypeBuildFailed
                   then author_destinations s env user (unp_CommitAuthorFailureEmailEnabled preference) (unp_CommitAuthorFailureSlackEnabled preference) w2
                   else if eventType = NotificationEventTypeBuildSucceeded
                   then author_destinations s env user (unp_CommitAuthorSuccessEmailEnabled preference) (unp_CommitAuthorSuccessSlackEnabled preference) w2
                   else (w2, Inr []))))"

definition shared_destinations ::
  "BuildNotificationService \<Rightarrow> NotifyEnvironment \<Rightarrow> Build \<Rightarrow> string \<Rightarrow> NotifyWorld \<Rightarrow> NotifyWorld \<times> (notify_error + notificationDestination list)" where
  "shared_destinations s env build eventType w =
     (if \<not> bn_subscriptionRepo s then configured_destinations s env (bn_defaultRecipients s) w
      else case nask (\<lambda>n. nv_matches env n build eventType) w of
        (w1, Inl err) \<Rightarrow> (w1, Inl err)
      | (w1, Inr targets) \<Rightarrow>
          (if targets = [] then configured_destinations s env (bn_defaultRecipients s) w1 else (w1, matched_destinations targets)))"

definition resolveTerminalDestinations ::
  "BuildNotificationService \<Rightarrow> NotifyEnvironment \<Rightarrow> Build \<Rightarrow> string \<Rightarrow> NotifyWorld \<Rightarrow> NotifyWorld \<times> (notify_error + notificationDestination list)" where
  "resolveTerminalDestinations s env build eventType w =
     (case shared_destinations s env build eventType w of
        (w1, Inl err) \<Rightarrow> (w1, Inl err)
      | (w1, Inr destinations) \<Rightarrow>
          (if eventType = NotificationEventTypeBuildFailed \<or> eventType = NotificationEventTypeBuildSucceeded then
             (case resolveCommitAuthorDestinations s env build eventType w1 of
                (w2, Inl err) \<Rightarrow> (w2, Inl err)
              | (w2, Inr personal) \<Rightarrow> (w2, Inr (dedupeDestinations (destinations @ personal))))
           else (w1, Inr (dedupeDestinations destinations))))"

section \<open>Notifying\<close>

definition NotifyTerminalBuild ::
  "BuildNotificationService option \<Rightarrow> NotifyEnvironment \<Rightarrow> Build \<Rightarrow> NotifyWorld \<Rightarrow> NotifyWorld \<times> notify_error option" where
  "NotifyTerminalBuild service env build w =
     (case service of
        None \<Rightarrow> (w, None)
      | Some s \<Rightarrow>
          (if \<not> bn_enabled s \<or> \<not> shouldNotifyBuildStatus (b_Status build) then (w, None)
           else case buildStatusNotificationEventType (b_Status build) of
             None \<Rightarrow> (w, None)
           | Some eventType \<Rightarrow>
               (case resolveTerminalDestinations s env build eventType w of
                  (w1, Inl err) \<Rightarrow> (w1, Some err)
                | (w1, Inr destinations) \<Rightarrow>
                    (if destinations = [] then (w1, None) else sendTerminalNotification s env build eventType destinations w1))))"

definition notifier_isActive :: "BuildNotificationService option \<Rightarrow> bool" where
  "notifier_isActive service =
     (case service of None \<Rightarrow> False
      | Some s \<Rightarrow> bn_enabled s \<and> (bn_sender s \<and> bn_defaultRecipients s \<noteq> [] \<or> bn_subscriptionRepo s))"

text \<open>\<open>send\<close>: one message after the other, until one fails.\<close>

fun send_texts :: "NotifyEnvironment \<Rightarrow> string list \<Rightarrow> string \<Rightarrow> string \<Rightarrow> NotifyWorld \<Rightarrow> NotifyWorld \<times> notify_error option" where
  "send_texts env [] subject body w = (w, None)"
| "send_texts env (recipient # rs) subject body w =
     (case nsend env [] (EmailMessage recipient subject body) w of
        (w1, Some err) \<Rightarrow> (w1, Some err) | (w1, None) \<Rightarrow> send_texts env rs subject body w1)"

definition sample_body :: string where
  "sample_body = JoinChar CHR 0x0A
     [''This is a dev-only sample notification from Coyote CI.'', [], ''Build ID: sample-build-failure'', ''Status: failed'',
      ''Project: Local Dev Project'', ''Job: local-mailpit-check'', [],
      ''This message was generated by POST /api/dev/notifications/sample-build.'']"

definition SendSampleBuildFailure ::
  "BuildNotificationService \<Rightarrow> NotifyEnvironment \<Rightarrow> NotifyWorld \<Rightarrow> NotifyWorld \<times> (notify_error + string list)" where
  "SendSampleBuildFailure s env w =
     (if \<not> bn_enabled s then (w, Inl ErrEmailNotificationsDisabled)
      else if bn_defaultRecipients s = [] then (w, Inl ErrEmailNotificationRecipientsNotConfigured)
      else if \<not> bn_sender s then (w, Inl (NErrorf ''email sender is not configured''))
      else case send_texts env (bn_defaultRecipients s) ''Coyote CI sample build failure notification'' sample_body w of
        (w1, Some err) \<Rightarrow> (w1, Inl err) | (w1, None) \<Rightarrow> (w1, Inr (bn_defaultRecipients s)))"

section \<open>The drain\<close>

record NotificationRecoveryIterationResult =
  nri_Scanned :: int
  nri_ClaimAcquired :: int
  nri_RetryClaimed :: int
  nri_StaleClaimReclaimed :: int
  nri_SkippedContention :: int
  nri_SkippedNotDue :: int
  nri_SkippedTerminal :: int
  nri_Skipped :: int
  nri_Sent :: int
  nri_RetryScheduled :: int
  nri_PermanentlyFailed :: int
  nri_AttemptsExhausted :: int
  nri_LostClaim :: int
  nri_RehydrationFailed :: int
  nri_Errors :: int

definition no_iteration :: NotificationRecoveryIterationResult where
  "no_iteration =
     \<lparr>nri_Scanned = 0, nri_ClaimAcquired = 0, nri_RetryClaimed = 0, nri_StaleClaimReclaimed = 0, nri_SkippedContention = 0, nri_SkippedNotDue = 0,
      nri_SkippedTerminal = 0, nri_Skipped = 0, nri_Sent = 0, nri_RetryScheduled = 0, nri_PermanentlyFailed = 0, nri_AttemptsExhausted = 0,
      nri_LostClaim = 0, nri_RehydrationFailed = 0, nri_Errors = 0\<rparr>"

definition notifier_count_claim :: "NotificationDeliveryClaimOutcome option \<Rightarrow> NotificationRecoveryIterationResult \<Rightarrow> NotificationRecoveryIterationResult" where
  "notifier_count_claim outcome r =
     (case outcome of
        Some NotifyCreatedClaimed \<Rightarrow> r\<lparr>nri_ClaimAcquired := nri_ClaimAcquired r + 1\<rparr>
      | Some NotifyRetryClaimed \<Rightarrow> r\<lparr>nri_RetryClaimed := nri_RetryClaimed r + 1\<rparr>
      | Some NotifyStaleClaimReclaimed \<Rightarrow> r\<lparr>nri_StaleClaimReclaimed := nri_StaleClaimReclaimed r + 1\<rparr>
      | Some NotifyClaimedByOther \<Rightarrow> r\<lparr>nri_Skipped := nri_Skipped r + 1, nri_SkippedContention := nri_SkippedContention r + 1\<rparr>
      | Some NotifyRetryNotDue \<Rightarrow> r\<lparr>nri_Skipped := nri_Skipped r + 1, nri_SkippedNotDue := nri_SkippedNotDue r + 1\<rparr>
      | Some NotifyAlreadySent \<Rightarrow> r\<lparr>nri_Skipped := nri_Skipped r + 1, nri_SkippedTerminal := nri_SkippedTerminal r + 1\<rparr>
      | Some NotifyPermanentlyFailed \<Rightarrow> r\<lparr>nri_Skipped := nri_Skipped r + 1, nri_SkippedTerminal := nri_SkippedTerminal r + 1\<rparr>
      | Some NotifyAttemptsExhausted \<Rightarrow> r\<lparr>nri_Skipped := nri_Skipped r + 1, nri_SkippedTerminal := nri_SkippedTerminal r + 1\<rparr>
      | None \<Rightarrow> r\<lparr>nri_Skipped := nri_Skipped r + 1\<rparr>)"

definition notifier_count_execution :: "notificationExecutionOutcome \<Rightarrow> NotificationRecoveryIterationResult \<Rightarrow> NotificationRecoveryIterationResult" where
  "notifier_count_execution outcome r =
     (case outcome of
        ExecutionSent \<Rightarrow> r\<lparr>nri_Sent := nri_Sent r + 1\<rparr>
      | ExecutionRetryScheduled \<Rightarrow> r\<lparr>nri_RetryScheduled := nri_RetryScheduled r + 1\<rparr>
      | ExecutionPermanentlyFailed \<Rightarrow> r\<lparr>nri_PermanentlyFailed := nri_PermanentlyFailed r + 1\<rparr>
      | ExecutionAttemptsExhausted \<Rightarrow> r\<lparr>nri_AttemptsExhausted := nri_AttemptsExhausted r + 1\<rparr>
      | ExecutionLostClaim \<Rightarrow> r\<lparr>nri_LostClaim := nri_LostClaim r + 1\<rparr>
      | ExecutionNone \<Rightarrow> r)"

definition notifier_applyAttemptResult ::
  "NotificationRecoveryIterationResult \<Rightarrow> notificationRecoveryAttemptResult \<Rightarrow> NotificationRecoveryIterationResult" where
  "notifier_applyAttemptResult result attempt =
     (let r1 = notifier_count_claim (nra_claimOutcome attempt) result;
          r2 = (if nra_rehydrationFailed attempt then r1\<lparr>nri_RehydrationFailed := nri_RehydrationFailed r1 + 1\<rparr> else r1)
      in notifier_count_execution (nra_executionOutcome attempt) r2)"

record NotificationRecoveryDrain =
  nrd_notifier :: BuildNotificationService
  nrd_interval :: int
  nrd_batchSize :: int

definition NewNotificationRecoveryDrain :: "BuildNotificationService option \<Rightarrow> int \<Rightarrow> int \<Rightarrow> go_error + NotificationRecoveryDrain" where
  "NewNotificationRecoveryDrain notifier interval batchSize =
     (case notifier of
        None \<Rightarrow> Inl (Errorf ''notification recovery drain requires a notifier'')
      | Some s \<Rightarrow>
          (if \<not> bn_deliveryRepo s then Inl (Errorf ''notification recovery drain requires a delivery repository'')
           else if \<not> bn_buildRepo s then Inl (Errorf ''notification recovery drain requires a build repository'')
           else if interval \<le> 0 then Inl (Errorf ''notification recovery drain interval must be positive'')
           else if batchSize \<le> 0 then Inl (Errorf ''notification recovery drain batch size must be positive'')
           else Inr \<lparr>nrd_notifier = s, nrd_interval = interval, nrd_batchSize = batchSize\<rparr>))"

text \<open>The loop over the candidates, with the counters and the errors so far.\<close>

fun recover_each ::
  "BuildNotificationService \<Rightarrow> NotifyEnvironment \<Rightarrow> NotificationRecoveryIterationResult \<Rightarrow> notify_error list \<Rightarrow> NotificationDelivery list \<Rightarrow>
     NotifyWorld \<Rightarrow> NotifyWorld \<times> NotificationRecoveryIterationResult \<times> notify_error option" where
  "recover_each s env result errs [] w = (w, result, if errs = [] then None else Some (NJoin errs))"
| "recover_each s env result errs (candidate # cs) w =
     (case nask (nv_ctx env) w of
        (w1, Some err) \<Rightarrow> (w1, result, Some (NStore err))
      | (w1, None) \<Rightarrow>
          (case notifier_recoverDelivery s env candidate w1 of
             (w2, attempt, None) \<Rightarrow> recover_each s env (notifier_applyAttemptResult result attempt) errs cs w2
           | (w2, attempt, Some recoverErr) \<Rightarrow>
               (let counted = notifier_applyAttemptResult result attempt
                in recover_each s env (counted\<lparr>nri_Errors := nri_Errors counted + 1\<rparr>)
                     (errs @ [NWrap (''delivery '' @ nd_ID candidate @ '': '' @ notify_text recoverErr) [recoverErr]]) cs w2)))"

definition Notification_RunIteration ::
  "NotificationRecoveryDrain \<Rightarrow> NotifyEnvironment \<Rightarrow> NotifyWorld \<Rightarrow> NotifyWorld \<times> NotificationRecoveryIterationResult \<times> notify_error option" where
  "Notification_RunIteration d env w =
     (case nask (nv_now env) w of (w1, now) \<Rightarrow>
      (case with_deliveries_store env (\<lambda>_ ctx r. (r, Notification_ListRecoverable ctx now (nrd_batchSize d) r)) w1 of
         (w2, Inl err) \<Rightarrow> (w2, no_iteration, Some err)
       | (w2, Inr candidates) \<Rightarrow>
           recover_each (nrd_notifier d) env (no_iteration\<lparr>nri_Scanned := int (length candidates)\<rparr>) [] candidates w2))"

end
