(* ===== verification/Notification_Invariant.thy ===== *)
theory Notification_Invariant
  imports Notification_Planning SCM_Status_Invariant
begin

text \<open>
  The invariant of the store of notification deliveries and the contract of its fenced updates: every row validates, is
  stored under its trimmed identifier and indexed under its logical key, attempts never go down, and rows that are final
  stay as they are.
\<close>

section \<open>An outbox: rows by identifier and an index of keys\<close>

definition outbox_wf :: "('d \<Rightarrow> string) \<Rightarrow> ('d \<Rightarrow> string) \<Rightarrow> ('d \<Rightarrow> bool) \<Rightarrow> (string, 'd) gomap \<Rightarrow> (string, string) gomap \<Rightarrow> bool" where
  "outbox_wf ident key ok rows index \<longleftrightarrow>
     gm_ok rows \<and> gm_ok index \<and>
     (\<forall>k d. map_of rows k = Some d \<longrightarrow> ident d = k \<and> trimmed k \<and> k \<noteq> [] \<and> ok d \<and> map_of index (key d) = Some k) \<and>
     (\<forall>l k. map_of index l = Some k \<longrightarrow> (\<exists>d. map_of rows k = Some d \<and> key d = l))"

lemma outbox_row:
  assumes "outbox_wf ident key ok rows index" "map_of rows k = Some d"
  shows "ident d = k" "trimmed k" "k \<noteq> []" "ok d" "map_of index (key d) = Some k"
  using assms unfolding outbox_wf_def by blast+

lemma outbox_index:
  assumes "outbox_wf ident key ok rows index" "map_of index l = Some k"
  obtains d where "map_of rows k = Some d" "key d = l"
  using assms unfolding outbox_wf_def by blast

lemma outbox_replace:
  assumes wf: "outbox_wf ident key ok rows index" and d: "map_of rows k = Some d" and d': "ident d' = k" "key d' = key d" "ok d'"
  shows "outbox_wf ident key ok (gm_put k d' rows) index"
proof -
  have "\<exists>e. map_of (gm_put k d' rows) j = Some e \<and> key e = l" if "map_of index l = Some j" for l j
    using outbox_index [OF wf that] d d'(2) by (metis map_of_put option.inject)
  moreover have "ident e = j \<and> trimmed j \<and> j \<noteq> [] \<and> ok e \<and> map_of index (key e) = Some j" if "map_of (gm_put k d' rows) j = Some e" for j e
    using that outbox_row [OF wf, of j e] outbox_row [OF wf d] d' by (cases "j = k") auto
  ultimately show ?thesis using wf by (simp add: outbox_wf_def)
qed

lemma outbox_create:
  assumes wf: "outbox_wf ident key ok rows index" and new: "map_of rows k = None" "map_of index (key d) = None"
    and d: "ident d = k" "ok d" "trimmed k" "k \<noteq> []"
  shows "outbox_wf ident key ok (gm_put k d rows) (gm_put (key d) k index)"
proof -
  have "\<exists>e. map_of (gm_put k d rows) j = Some e \<and> key e = l" if "map_of (gm_put (key d) k index) l = Some j" for l j
  proof (cases "l = key d")
    case False
    then have "map_of index l = Some j" using that by simp
    then obtain e where e: "map_of rows j = Some e" "key e = l" using outbox_index [OF wf] by blast
    then have "j \<noteq> k" using new(1) by auto
    with e show ?thesis by simp
  qed (use that in auto)
  moreover have "ident e = j \<and> trimmed j \<and> j \<noteq> [] \<and> ok e \<and> map_of (gm_put (key d) k index) (key e) = Some j" if "map_of (gm_put k d rows) j = Some e" for j e
    using that outbox_row [OF wf, of j e] new d by (cases "j = k") auto
  ultimately show ?thesis using wf by (simp add: outbox_wf_def)
qed

section \<open>Valid rows\<close>

lemma trimNotificationOptionalString_eq [simp]: "trimNotificationOptionalString = trimOptional"
  by (rule ext) (simp add: trimNotificationOptionalString_def trimOptional_def)

lemma normalizeNotificationOptionalTime_simps [simp]:
  "normalizeNotificationOptionalTime None = None"
  "normalizeNotificationOptionalTime (normalizeNotificationOptionalTime t) = normalizeNotificationOptionalTime t"
  "x \<noteq> 0 \<Longrightarrow> normalizeNotificationOptionalTime (Some x) = Some x"
  by (auto simp: normalizeNotificationOptionalTime_def split: option.splits)

lemma notify_Normalize_sel [simp]:
  "nd_ID (NotificationDelivery_Normalize d) = nd_ID d"
  "nd_BuildID (NotificationDelivery_Normalize d) = TrimSpace (nd_BuildID d)"
  "nd_EventType (NotificationDelivery_Normalize d) = TrimSpace (nd_EventType d)"
  "nd_Transport (NotificationDelivery_Normalize d) = TrimSpace (nd_Transport d)"
  "nd_DestinationKind (NotificationDelivery_Normalize d) = TrimSpace (nd_DestinationKind d)"
  "nd_DestinationKey (NotificationDelivery_Normalize d) = TrimSpace (nd_DestinationKey d)"
  "nd_NotificationTargetID (NotificationDelivery_Normalize d) = trimOptional (nd_NotificationTargetID d)"
  "nd_RecipientUserID (NotificationDelivery_Normalize d) = trimOptional (nd_RecipientUserID d)"
  "nd_SlackWorkspaceIntegrationID (NotificationDelivery_Normalize d) = trimOptional (nd_SlackWorkspaceIntegrationID d)"
  "nd_Recipient (NotificationDelivery_Normalize d) = TrimSpace (nd_Recipient d)"
  "nd_Status (NotificationDelivery_Normalize d) = TrimSpace (nd_Status d)"
  "nd_Attempts (NotificationDelivery_Normalize d) = nd_Attempts d"
  "nd_MaxAttempts (NotificationDelivery_Normalize d) = maxNotificationAttempts (nd_MaxAttempts d)"
  "nd_LastAttemptAt (NotificationDelivery_Normalize d) = normalizeNotificationOptionalTime (nd_LastAttemptAt d)"
  "nd_NextAttemptAt (NotificationDelivery_Normalize d) = normalizeNotificationOptionalTime (nd_NextAttemptAt d)"
  "nd_ClaimedAt (NotificationDelivery_Normalize d) = normalizeNotificationOptionalTime (nd_ClaimedAt d)"
  "nd_ClaimExpiresAt (NotificationDelivery_Normalize d) = normalizeNotificationOptionalTime (nd_ClaimExpiresAt d)"
  "nd_ClaimedBy (NotificationDelivery_Normalize d) = trimOptional (nd_ClaimedBy d)"
  "nd_FailureCategory (NotificationDelivery_Normalize d) = trimOptional (nd_FailureCategory d)"
  "nd_FailureReason (NotificationDelivery_Normalize d) = trimOptional (nd_FailureReason d)"
  "nd_LastError (NotificationDelivery_Normalize d) = trimOptional (nd_LastError d)"
  "nd_CreatedAt (NotificationDelivery_Normalize d) = nd_CreatedAt d"
  "nd_UpdatedAt (NotificationDelivery_Normalize d) = nd_UpdatedAt d"
  "nd_SentAt (NotificationDelivery_Normalize d) = normalizeNotificationOptionalTime (nd_SentAt d)"
  by (simp_all add: NotificationDelivery_Normalize_def)

lemma maxNotificationAttempts_idem [simp]: "maxNotificationAttempts (maxNotificationAttempts n) = maxNotificationAttempts n"
  by (simp add: maxNotificationAttempts_def)

lemma maxNotificationAttempts_pos: "0 < n \<Longrightarrow> maxNotificationAttempts n = n"
  by (simp add: maxNotificationAttempts_def)

lemma notify_Normalize_idem [simp]: "NotificationDelivery_Normalize (NotificationDelivery_Normalize d) = NotificationDelivery_Normalize d"
  by (rule NotificationDelivery.equality) simp_all

lemma logical_key_Normalize [simp]: "logical_key (NotificationDelivery_Normalize d) = logical_key d"
  by (simp add: logical_key_def notificationDeliveryLogicalKey_def)

lemma logical_key_cong:
  "nd_BuildID d = nd_BuildID e \<Longrightarrow> nd_EventType d = nd_EventType e \<Longrightarrow> nd_Transport d = nd_Transport e \<Longrightarrow> nd_DestinationKey d = nd_DestinationKey e \<Longrightarrow>
   logical_key d = logical_key e"
  by (simp add: logical_key_def)

lemma notify_Validate_None:
  "NotificationDelivery_Validate d = None \<longleftrightarrow>
   NotificationDelivery_ValidateIdentity (NotificationDelivery_Normalize d) = None \<and> validate_delivery (NotificationDelivery_Normalize d) = None"
  by (simp add: NotificationDelivery_Validate_def Let_def)

definition valid_delivery :: "NotificationDelivery \<Rightarrow> bool" where
  "valid_delivery d \<longleftrightarrow> NotificationDelivery_Validate d = None \<and> nd_MaxAttempts d < 2 ^ 63"

lemmas notify_checks = validate_delivery_def NotificationDeliveryStatus_IsValid_def NotificationDelivery_IsTerminal_def
  NotificationDeliveryFailureCategory_IsValid_def

lemma valid_delivery_attempts:
  assumes "valid_delivery d"
  shows "0 \<le> nd_Attempts d" "nd_Attempts d \<le> nd_MaxAttempts d" "0 < nd_MaxAttempts d"
  using assms by (auto simp: valid_delivery_def notify_Validate_None validate_delivery_def maxNotificationAttempts_def split: if_splits)

lemma claimable:
  assumes "snd (claimNotificationDelivery d now owner dur) \<in> {NotifyRetryClaimed, NotifyStaleClaimReclaimed}"
  shows "claimNotificationDelivery d now owner dur = (attempt_row (NotificationDelivery_Normalize d) now owner dur, snd (claimNotificationDelivery d now owner dur))"
    "nd_Attempts d < maxNotificationAttempts (nd_MaxAttempts d)" "\<not> NotificationDelivery_IsTerminal (NotificationDelivery_Normalize d)"
  using assms
  by (auto simp: claimNotificationDelivery_def Let_def NotificationDeliveryClaimOutcomeFromExisting_def NotificationDelivery_IsTerminal_def
      split: if_splits option.splits)

lemma attempt_valid:
  assumes d: "valid_delivery d" and lt: "nd_Attempts d < maxNotificationAttempts (nd_MaxAttempts d)"
    and nt: "\<not> NotificationDelivery_IsTerminal (NotificationDelivery_Normalize d)"
    and now: "0 < now" "0 < dur" and w: "trimmed owner" "owner \<noteq> []"
  shows "valid_delivery (attempt_row (NotificationDelivery_Normalize d) now owner dur)"
    "nd_Attempts (attempt_row (NotificationDelivery_Normalize d) now owner dur) = nd_Attempts d + 1"
proof -
  let ?n = "NotificationDelivery_Normalize d"
  let ?c = "attempt_row ?n now owner dur"
  note a = valid_delivery_attempts [OF d]
  have max: "maxNotificationAttempts (nd_MaxAttempts d) = nd_MaxAttempts d" using a(3) by (rule maxNotificationAttempts_pos)
  have lt': "nd_Attempts d < nd_MaxAttempts d" using lt max by simp
  have small: "nd_MaxAttempts d < 2 ^ 63" using d by (simp add: valid_delivery_def)
  have at: "wrap64 (nd_Attempts d + 1) = nd_Attempts d + 1" using lt' small a(1) by (intro wrap64_id) auto
  show att: "nd_Attempts ?c = nd_Attempts d + 1" by (simp add: attempt_row_def at)
  have row: "validate_delivery ?n = None" and id: "NotificationDelivery_ValidateIdentity ?n = None"
    using d by (simp_all add: valid_delivery_def notify_Validate_None)
  have n: "NotificationDelivery_Normalize ?c = ?c"
    by (rule NotificationDelivery.equality) (use now w in \<open>simp_all add: attempt_row_def\<close>)
  have "NotificationDelivery_ValidateIdentity ?c = NotificationDelivery_ValidateIdentity ?n"
    by (simp add: NotificationDelivery_ValidateIdentity_def IsTransportDestinationKindValid_def attempt_row_def)
  moreover have "validate_delivery ?c = None"
    using row nt lt' a now unfolding attempt_row_def notify_Normalize_sel at
    by (simp add: notify_checks max split: option.splits)
  ultimately show "valid_delivery ?c" using id small by (simp add: valid_delivery_def notify_Validate_None n) (simp add: attempt_row_def max)
qed

section \<open>The invariant of the store\<close>

definition notify_wf :: "NotificationDeliveryRepository \<Rightarrow> bool" where
  "notify_wf r \<longleftrightarrow> outbox_wf nd_ID logical_key valid_delivery (ndr_deliveries r) (ndr_index r)"

lemma notify_wf_new: "notify_wf NewNotificationDeliveryRepository"
  by (simp add: notify_wf_def outbox_wf_def NewNotificationDeliveryRepository_def)

lemma notify_row:
  assumes "notify_wf r" "map_of (ndr_deliveries r) k = Some d"
  shows "nd_ID d = k" "trimmed k" "k \<noteq> []" "valid_delivery d" "map_of (ndr_index r) (logical_key d) = Some k"
  using outbox_row [OF assms(1) [unfolded notify_wf_def] assms(2)] by blast+

text \<open>How a row may change: it stays the same delivery, attempts are only added, and a final row stays as it is.\<close>

definition final_delivery :: "NotificationDelivery \<Rightarrow> bool" where
  "final_delivery d \<longleftrightarrow> NotificationDelivery_IsTerminal (NotificationDelivery_Normalize d)"

definition moves :: "NotificationDelivery \<Rightarrow> NotificationDelivery \<Rightarrow> bool" where
  "moves d d' \<longleftrightarrow> nd_ID d' = nd_ID d \<and> logical_key d' = logical_key d \<and> nd_MaxAttempts d' = nd_MaxAttempts d \<and>
     nd_Attempts d \<le> nd_Attempts d' \<and> (final_delivery d \<longrightarrow> d' = d)"

definition notify_advances :: "NotificationDeliveryRepository \<Rightarrow> NotificationDeliveryRepository \<Rightarrow> bool" where
  "notify_advances r r' \<longleftrightarrow> notify_wf r' \<and>
     (\<forall>k d. map_of (ndr_deliveries r) k = Some d \<longrightarrow> (\<exists>d'. map_of (ndr_deliveries r') k = Some d' \<and> moves d d'))"

lemma moves_refl [simp]: "moves d d"
  by (simp add: moves_def)

lemma moves_trans: "moves d e \<Longrightarrow> moves e f \<Longrightarrow> moves d f"
  by (auto simp: moves_def)

lemma notify_advances_refl: "notify_wf r \<Longrightarrow> notify_advances r r"
  by (simp add: notify_advances_def)

lemma notify_advances_wf: "notify_advances r r' \<Longrightarrow> notify_wf r'"
  by (simp add: notify_advances_def)

lemma notify_advances_row:
  assumes "notify_advances r r'" "map_of (ndr_deliveries r) k = Some d"
  obtains d' where "map_of (ndr_deliveries r') k = Some d'" "moves d d'"
  using assms unfolding notify_advances_def by blast

lemma notify_advances_trans:
  assumes "notify_advances r s" "notify_advances s t"
  shows "notify_advances r t"
  unfolding notify_advances_def
proof (intro conjI allI impI)
  fix k d assume "map_of (ndr_deliveries r) k = Some d"
  then obtain e where e: "map_of (ndr_deliveries s) k = Some e" "moves d e" using notify_advances_row [OF assms(1)] by blast
  obtain f where "map_of (ndr_deliveries t) k = Some f" "moves e f" using notify_advances_row [OF assms(2) e(1)] by blast
  with e(2) show "\<exists>d'. map_of (ndr_deliveries t) k = Some d' \<and> moves d d'" using moves_trans by blast
qed (rule notify_advances_wf [OF assms(2)])

lemma notify_put_advances:
  assumes wf: "notify_wf r" and d: "map_of (ndr_deliveries r) k = Some d" and d': "moves d d'" "valid_delivery d'"
  shows "notify_advances r (r\<lparr>ndr_deliveries := gm_put k d' (ndr_deliveries r)\<rparr>)"
proof -
  have "nd_ID d' = k" "logical_key d' = logical_key d" using d'(1) notify_row(1) [OF wf d] by (simp_all add: moves_def)
  then have "outbox_wf nd_ID logical_key valid_delivery (gm_put k d' (ndr_deliveries r)) (ndr_index r)"
    using outbox_replace [OF wf [unfolded notify_wf_def] d] d'(2) by blast
  then show ?thesis using d d'(1) by (auto simp: notify_advances_def notify_wf_def)
qed

lemma notify_insert_advances:
  assumes wf: "notify_wf r" and new: "map_of (ndr_deliveries r) (nd_ID d) = None" "map_of (ndr_index r) (logical_key d) = None"
    and d: "valid_delivery d" "trimmed (nd_ID d)" "nd_ID d \<noteq> []"
  shows "notify_advances r (insert_delivery d r)"
proof -
  have "outbox_wf nd_ID logical_key valid_delivery (gm_put (nd_ID d) d (ndr_deliveries r)) (gm_put (logical_key d) (nd_ID d) (ndr_index r))"
    using outbox_create [OF wf [unfolded notify_wf_def] new(1,2) refl d] .
  moreover have "\<exists>e'. map_of (gm_put (nd_ID d) d (ndr_deliveries r)) k = Some e' \<and> moves e e'" if "map_of (ndr_deliveries r) k = Some e" for k e
    using that new(1) by auto
  ultimately show ?thesis by (simp add: notify_advances_def notify_wf_def insert_delivery_def Let_def)
qed

section \<open>Updates\<close>

lemma store_delivery_advances:
  assumes "notify_wf r" "map_of (ndr_deliveries r) k = Some d" "moves d d'"
  shows "notify_advances r (fst (store_delivery d' r))"
proof (cases "NotificationDelivery_Validate d'")
  case None
  have "nd_ID d' = k" "nd_MaxAttempts d' = nd_MaxAttempts d" using assms(3) notify_row(1) [OF assms(1,2)] by (simp_all add: moves_def)
  moreover have "nd_MaxAttempts d < 2 ^ 63" using notify_row(4) [OF assms(1,2)] by (simp add: valid_delivery_def)
  ultimately show ?thesis
    using notify_put_advances [OF assms] None by (simp add: store_delivery_def valid_delivery_def)
qed (simp add: store_delivery_def notify_advances_refl assms(1))

lemma matches_not_final: "notificationDeliveryClaimMatches d owner t \<Longrightarrow> \<not> final_delivery d"
  by (auto simp: notificationDeliveryClaimMatches_def final_delivery_def NotificationDelivery_IsTerminal_def split: if_splits)

lemma sent_row_moves: "\<not> final_delivery d \<Longrightarrow> moves d (sent_row t d)"
  by (simp add: moves_def sent_row_def logical_key_def)

lemma failure_row_moves: "\<not> final_delivery d \<Longrightarrow> moves d (failure_row input status d)"
  by (simp add: moves_def failure_row_def logical_key_def Let_def)

lemma MarkSent_advances: "notify_wf r \<Longrightarrow> notify_advances r (fst (Notification_MarkSent ctx input r))"
  by (auto simp: Notification_MarkSent_def notify_advances_refl split: option.split
      intro!: store_delivery_advances sent_row_moves dest: matches_not_final)

lemma recordFailure_advances: "notify_wf r \<Longrightarrow> notify_advances r (fst (Notification_recordFailure ctx input status r))"
  by (auto simp: Notification_recordFailure_def notify_advances_refl split: option.split
      intro!: store_delivery_advances failure_row_moves dest: matches_not_final)

section \<open>Claims\<close>

text \<open>What a caller of the store has to provide: a clock past the zero time, room for the attempts, and an unused identifier.\<close>

definition claim_id :: "string \<Rightarrow> NotificationDelivery \<Rightarrow> string" where
  "claim_id uuid d = (if TrimSpace (nd_ID d) = [] then uuid else nd_ID d)"

definition new_id :: "string \<Rightarrow> NotificationDelivery \<Rightarrow> NotificationDeliveryRepository \<Rightarrow> bool" where
  "new_id uuid d r \<longleftrightarrow> map_of (ndr_index r) (logical_key d) = None \<longrightarrow>
     trimmed (claim_id uuid d) \<and> claim_id uuid d \<noteq> [] \<and> map_of (ndr_deliveries r) (claim_id uuid d) = None"

definition notify_acquire_pre :: "string \<Rightarrow> NotificationDeliveryClaimInput \<Rightarrow> NotificationDeliveryRepository \<Rightarrow> bool" where
  "notify_acquire_pre uuid input r \<longleftrightarrow> 0 < nci_Now input \<and> nci_MaxAttempts input < 2 ^ 63 \<and> new_id uuid (nci_Delivery input) r"

abbreviation first_row :: "string \<Rightarrow> NotificationDeliveryClaimInput \<Rightarrow> NotificationDelivery" where
  "first_row uuid input \<equiv> first_claim uuid (NotificationDelivery_Normalize (nci_Delivery input)) (nci_Now input)
     (TrimSpace (nci_ClaimOwner input)) (nci_ClaimDuration input) (nci_MaxAttempts input)"

abbreviation next_row :: "NotificationDeliveryClaimInput \<Rightarrow> NotificationDelivery \<Rightarrow> NotificationDelivery" where
  "next_row input d \<equiv> attempt_row (NotificationDelivery_Normalize d) (nci_Now input) (TrimSpace (nci_ClaimOwner input)) (nci_ClaimDuration input)"

lemma normalizeNotificationClaimInput_Inr:
  "normalizeNotificationClaimInput input = Inr (d, now, owner, dur) \<Longrightarrow>
   d = NotificationDelivery_Normalize (nci_Delivery input) \<and> now = nci_Now input \<and> owner = TrimSpace (nci_ClaimOwner input) \<and> owner \<noteq> [] \<and>
   dur = nci_ClaimDuration input \<and> 0 < dur \<and> 0 < nci_MaxAttempts input"
  by (auto simp: normalizeNotificationClaimInput_def Let_def split: option.splits if_splits)

lemma notify_Acquire_cases:
  assumes acq: "Notification_AcquireForDelivery uuid ctx input r = (r', x)" and wf: "notify_wf r"
  obtains (refused) "r' = r" "\<And>res. x = Inr res \<Longrightarrow> \<not> granted (ncr_Outcome res)"
  | (created) "map_of (ndr_index r) (logical_key (nci_Delivery input)) = None" "NotificationDelivery_Validate (first_row uuid input) = None"
      "r' = insert_delivery (first_row uuid input) r" "x = Inr \<lparr>ncr_Delivery = first_row uuid input, ncr_Outcome = NotifyCreatedClaimed\<rparr>"
  | (claimed) k d out where "map_of (ndr_deliveries r) k = Some d" "map_of (ndr_index r) (logical_key (nci_Delivery input)) = Some k"
      "claimNotificationDelivery d (nci_Now input) (TrimSpace (nci_ClaimOwner input)) (nci_ClaimDuration input) = (next_row input d, out)"
      "out \<in> {NotifyRetryClaimed, NotifyStaleClaimReclaimed}" "TrimSpace (nci_ClaimOwner input) \<noteq> []" "0 < nci_ClaimDuration input"
      "r' = r\<lparr>ndr_deliveries := gm_put k (next_row input d) (ndr_deliveries r)\<rparr>" "x = Inr \<lparr>ncr_Delivery = next_row input d, ncr_Outcome = out\<rparr>"
proof (cases ctx)
  case (Some err)
  then have "r' = r" "x = Inl err" using acq by (simp_all add: Notification_AcquireForDelivery_def)
  then show ?thesis by (intro refused) simp_all
next
  case None
  show ?thesis
  proof (cases "normalizeNotificationClaimInput input")
    case (Inl err)
    then have "r' = r" "x = Inl (ErrPlain err)" using acq None by (simp_all add: Notification_AcquireForDelivery_def)
    then show ?thesis by (intro refused) simp_all
  next
    case (Inr norm)
    obtain d now owner dur where norm: "norm = (d, now, owner, dur)" by (cases norm) auto
    note n = normalizeNotificationClaimInput_Inr [OF Inr [unfolded norm]]
    show ?thesis
    proof (cases "map_of (ndr_index r) (logical_key (nci_Delivery input))")
      case none: None
      show ?thesis
      proof (cases "NotificationDelivery_Validate (first_row uuid input)")
        case None
        with acq \<open>ctx = None\<close> Inr norm n none show ?thesis by (intro created) (simp_all add: Notification_AcquireForDelivery_def Let_def)
      next
        case (Some err)
        then have "r' = r" "x = Inl (ErrPlain err)"
          using acq \<open>ctx = None\<close> Inr norm n none by (simp_all add: Notification_AcquireForDelivery_def Let_def)
        then show ?thesis by (intro refused) simp_all
      qed
    next
      case (Some k)
      obtain e where e: "map_of (ndr_deliveries r) k = Some e" using outbox_index [OF wf [unfolded notify_wf_def] Some] by blast
      obtain c out where c: "claimNotificationDelivery e (nci_Now input) (TrimSpace (nci_ClaimOwner input)) (nci_ClaimDuration input) = (c, out)"
        by fastforce
      have form: "(r', x) = (if out = NotifyRetryClaimed \<or> out = NotifyStaleClaimReclaimed
           then r\<lparr>ndr_deliveries := gm_put k c (ndr_deliveries r)\<rparr> else r, Inr \<lparr>ncr_Delivery = c, ncr_Outcome = out\<rparr>)"
        using acq \<open>ctx = None\<close> Inr norm n Some e c by (simp add: Notification_AcquireForDelivery_def gm_get_or_def)
      show ?thesis
      proof (cases "out = NotifyRetryClaimed \<or> out = NotifyStaleClaimReclaimed")
        case True
        then have "c = next_row input e" using claimable(1) [of e "nci_Now input" "TrimSpace (nci_ClaimOwner input)" "nci_ClaimDuration input"] c by simp
        moreover have "TrimSpace (nci_ClaimOwner input) \<noteq> []" "0 < nci_ClaimDuration input" using n by blast+
        ultimately show ?thesis using True form Some e c by (intro claimed) simp_all
      next
        case False
        moreover have "out \<noteq> NotifyCreatedClaimed"
          using c by (auto simp: claimNotificationDelivery_def NotificationDeliveryClaimOutcomeFromExisting_def Let_def split: if_splits option.splits)
        ultimately show ?thesis using form by (intro refused) (auto simp: granted_def)
      qed
    qed
  qed
qed

lemma first_row_sel [simp]:
  "nd_ID (first_row uuid input) = claim_id uuid (nci_Delivery input)"
  "logical_key (first_row uuid input) = logical_key (nci_Delivery input)"
  "nd_Attempts (first_row uuid input) = 1" "nd_MaxAttempts (first_row uuid input) = nci_MaxAttempts input"
  by (simp_all add: first_claim_def claim_id_def logical_key_def notificationDeliveryLogicalKey_def)

text \<open>A granted claim counts one attempt more on the row that it hands out.\<close>

lemma notify_claim_moves:
  assumes wf: "notify_wf r" and d: "map_of (ndr_deliveries r) k = Some d" and now: "0 < nci_Now input" "0 < nci_ClaimDuration input"
    and c: "claimNotificationDelivery d (nci_Now input) (TrimSpace (nci_ClaimOwner input)) (nci_ClaimDuration input) = (next_row input d, out)"
      "out \<in> {NotifyRetryClaimed, NotifyStaleClaimReclaimed}" "TrimSpace (nci_ClaimOwner input) \<noteq> []"
  shows "moves d (next_row input d)" "valid_delivery (next_row input d)" "nd_Attempts (next_row input d) = nd_Attempts d + 1"
proof -
  note row = notify_row [OF wf d]
  have cl: "nd_Attempts d < maxNotificationAttempts (nd_MaxAttempts d)" "\<not> final_delivery d"
    using claimable(2,3) [of d "nci_Now input" "TrimSpace (nci_ClaimOwner input)" "nci_ClaimDuration input"] c(1,2)
    by (auto simp: final_delivery_def)
  note v = attempt_valid [OF row(4) cl(1) cl(2) [unfolded final_delivery_def] now(1) now(2) trimmed_TrimSpace c(3)]
  show "valid_delivery (next_row input d)" "nd_Attempts (next_row input d) = nd_Attempts d + 1" by (rule v)+
  have "nd_MaxAttempts (next_row input d) = nd_MaxAttempts d"
    using valid_delivery_attempts(3) [OF row(4)] by (simp add: attempt_row_def maxNotificationAttempts_pos)
  moreover have "logical_key (next_row input d) = logical_key d" "nd_ID (next_row input d) = nd_ID d"
    by (simp_all add: attempt_row_def logical_key_def notificationDeliveryLogicalKey_def)
  ultimately show "moves d (next_row input d)" using v(2) cl(2) by (simp add: moves_def)
qed

lemma Acquire_advances:
  assumes acq: "Notification_AcquireForDelivery uuid ctx input r = (r', x)" and wf: "notify_wf r" and pre: "notify_acquire_pre uuid input r"
  shows "notify_advances r r'"
  using acq wf
proof (cases rule: notify_Acquire_cases)
  case created
  then show ?thesis
    using pre by (simp add: notify_acquire_pre_def new_id_def) (rule notify_insert_advances [OF wf], simp_all add: valid_delivery_def)
next
  case (claimed k d out)
  then show ?thesis using pre notify_claim_moves [OF wf claimed(1) _ claimed(6,3,4,5)] notify_put_advances [OF wf claimed(1)]
    by (simp add: notify_acquire_pre_def)
qed (simp add: notify_advances_refl wf)

section \<open>Runs of the store\<close>

inductive notify_step :: "NotificationDeliveryRepository \<Rightarrow> NotificationDeliveryRepository \<Rightarrow> bool" where
  created: "new_id uuid d r \<Longrightarrow> nd_MaxAttempts d < 2 ^ 63 \<Longrightarrow> notify_step r (fst (NotificationDelivery_Create uuid wall ctx d r))"
| acquired: "notify_acquire_pre uuid input r \<Longrightarrow> notify_step r (fst (Notification_AcquireForDelivery uuid ctx input r))"
| sent: "notify_step r (fst (Notification_MarkSent ctx mark r))"
| failed: "notify_step r (fst (Notification_recordFailure ctx failure status r))"

lemma Create_advances:
  assumes wf: "notify_wf r" and new: "new_id uuid d r" and max: "nd_MaxAttempts d < 2 ^ 63"
  shows "notify_advances r (fst (NotificationDelivery_Create uuid wall ctx d r))"
proof -
  let ?n = "NotificationDelivery_Normalize d"
  define createdAt where "createdAt = (if nd_CreatedAt ?n = 0 then wall else nd_CreatedAt ?n)"
  define e where "e = ?n\<lparr>nd_ID := claim_id uuid d, nd_CreatedAt := createdAt, nd_UpdatedAt := (if nd_UpdatedAt ?n = 0 then createdAt else nd_UpdatedAt ?n),
     nd_MaxAttempts := (if nd_MaxAttempts ?n \<le> 0 then 1 else nd_MaxAttempts ?n),
     nd_Status := (if TrimSpace (nd_Status ?n) = [] then NotificationDeliveryStatusPending else nd_Status ?n)\<rparr>"
  have sel: "nd_ID e = claim_id uuid d" "nd_MaxAttempts e = (if nd_MaxAttempts ?n \<le> 0 then 1 else nd_MaxAttempts ?n)"
    by (simp_all add: e_def)
  have key: "logical_key e = logical_key d" by (simp add: e_def logical_key_def notificationDeliveryLogicalKey_def)
  have form: "NotificationDelivery_Create uuid wall ctx d r =
     (case ctx of Some err \<Rightarrow> (r, Inl err) | None \<Rightarrow> case NotificationDelivery_ValidateIdentity ?n of Some err \<Rightarrow> (r, Inl (ErrPlain err))
      | None \<Rightarrow> if map_of (ndr_index r) (logical_key d) \<noteq> None then (r, Inl ErrNotificationDeliveryDuplicate)
        else case NotificationDelivery_Validate e of Some err \<Rightarrow> (r, Inl (ErrPlain err)) | None \<Rightarrow> (insert_delivery e r, Inr e))"
    unfolding NotificationDelivery_Create_def Let_def e_def createdAt_def claim_id_def notify_Normalize_sel logical_key_Normalize by (rule refl)
  have "fst (NotificationDelivery_Create uuid wall ctx d r) = r \<or> map_of (ndr_index r) (logical_key d) = None \<and>
     NotificationDelivery_Validate e = None \<and> fst (NotificationDelivery_Create uuid wall ctx d r) = insert_delivery e r"
    unfolding form by (cases ctx; cases "NotificationDelivery_ValidateIdentity ?n"; cases "NotificationDelivery_Validate e") simp_all
  moreover have "notify_advances r (insert_delivery e r)"
    if "map_of (ndr_index r) (logical_key d) = None" "NotificationDelivery_Validate e = None"
    using that new max sel key
    by (intro notify_insert_advances [OF wf]) (simp_all add: new_id_def valid_delivery_def maxNotificationAttempts_def)
  ultimately show ?thesis using notify_advances_refl [OF wf] by auto
qed

lemma notify_step_advances: "notify_step r r' \<Longrightarrow> notify_wf r \<Longrightarrow> notify_advances r r'"
proof (induction rule: notify_step.induct)
  case (acquired uuid input r ctx)
  then show ?case using Acquire_advances [OF prod.collapse [symmetric]] by blast
qed (simp_all add: Create_advances MarkSent_advances recordFailure_advances)

lemma notify_run: "notify_step\<^sup>*\<^sup>* r r' \<Longrightarrow> notify_wf r \<Longrightarrow> notify_advances r r'"
proof (induction rule: rtranclp_induct)
  case (step s t)
  then have "notify_advances r s" by simp
  then show ?case using notify_step_advances [OF step(2) notify_advances_wf] notify_advances_trans by blast
qed (rule notify_advances_refl)

text \<open>
  All writers of the store: besides those above, \<open>Update\<close> rewrites a whole row. It stores the row under the identifier it
  was given, untrimmed, and leaves the index as it is, so a caller has to name the row by its own identifier and to keep
  the build, event, transport and destination of the row, or leave them empty.
\<close>

definition keeps_field :: "string \<Rightarrow> string \<Rightarrow> bool" where
  "keeps_field new old \<longleftrightarrow> TrimSpace new = [] \<or> TrimSpace new = TrimSpace old"

definition keeps_delivery :: "NotificationDelivery \<Rightarrow> NotificationDeliveryRepository \<Rightarrow> bool" where
  "keeps_delivery d r \<longleftrightarrow> trimmed (nd_ID d) \<and> nd_MaxAttempts d < 2 ^ 63 \<and>
     (case map_of (ndr_deliveries r) (nd_ID d) of
        None \<Rightarrow> True
      | Some current \<Rightarrow> keeps_field (nd_BuildID d) (nd_BuildID current) \<and> keeps_field (nd_EventType d) (nd_EventType current) \<and>
          keeps_field (nd_Transport d) (nd_Transport current) \<and> keeps_field (nd_DestinationKey d) (nd_DestinationKey current))"

inductive notify_write :: "NotificationDeliveryRepository \<Rightarrow> NotificationDeliveryRepository \<Rightarrow> bool" where
  step: "notify_step r r' \<Longrightarrow> notify_write r r'"
| updated: "keeps_delivery d r \<Longrightarrow> notify_write r (fst (Notification_Update wall ctx d r))"

text \<open>The row that \<open>Update\<close> stores.\<close>

definition updated_row :: "time \<Rightarrow> NotificationDelivery \<Rightarrow> NotificationDelivery \<Rightarrow> NotificationDelivery" where
  "updated_row wall d current =
     (let n = NotificationDelivery_Normalize d; keep = \<lambda>new old. (if new = [] then old else new);
          keep_opt = \<lambda>new old. (case new of None \<Rightarrow> old | Some _ \<Rightarrow> new)
      in n\<lparr>nd_BuildID := keep (nd_BuildID n) (nd_BuildID current), nd_EventType := keep (nd_EventType n) (nd_EventType current),
           nd_Transport := keep (nd_Transport n) (nd_Transport current),
           nd_DestinationKind := keep (nd_DestinationKind n) (nd_DestinationKind current),
           nd_DestinationKey := keep (nd_DestinationKey n) (nd_DestinationKey current),
           nd_NotificationTargetID := keep_opt (nd_NotificationTargetID n) (nd_NotificationTargetID current),
           nd_RecipientUserID := keep_opt (nd_RecipientUserID n) (nd_RecipientUserID current),
           nd_SlackWorkspaceIntegrationID := keep_opt (nd_SlackWorkspaceIntegrationID n) (nd_SlackWorkspaceIntegrationID current),
           nd_Recipient := keep (nd_Recipient n) (nd_Recipient current),
           nd_CreatedAt := (if nd_CreatedAt n = 0 then nd_CreatedAt current else nd_CreatedAt n),
           nd_UpdatedAt := (if nd_UpdatedAt n = 0 then wall else nd_UpdatedAt n),
           nd_MaxAttempts := (if nd_MaxAttempts n \<le> 0 then nd_MaxAttempts current else nd_MaxAttempts n)\<rparr>)"

lemma Notification_Update_form:
  "Notification_Update wall ctx d r = (case ctx of Some err \<Rightarrow> (r, Inl err) | None \<Rightarrow>
     (case map_of (ndr_deliveries r) (TrimSpace (nd_ID d)) of None \<Rightarrow> (r, Inl ErrNotificationDeliveryNotFound)
      | Some current \<Rightarrow> (case NotificationDelivery_Validate (updated_row wall d current) of
          Some err \<Rightarrow> (r, Inl (ErrPlain err))
        | None \<Rightarrow> (r\<lparr>ndr_deliveries := gm_put (nd_ID (updated_row wall d current)) (updated_row wall d current) (ndr_deliveries r)\<rparr>,
            Inr (updated_row wall d current)))))"
  unfolding Notification_Update_def updated_row_def Let_def by (rule refl)

lemma updated_row_sel:
  "nd_ID (updated_row wall d c) = nd_ID d"
  "nd_BuildID (updated_row wall d c) = (if TrimSpace (nd_BuildID d) = [] then nd_BuildID c else TrimSpace (nd_BuildID d))"
  "nd_EventType (updated_row wall d c) = (if TrimSpace (nd_EventType d) = [] then nd_EventType c else TrimSpace (nd_EventType d))"
  "nd_Transport (updated_row wall d c) = (if TrimSpace (nd_Transport d) = [] then nd_Transport c else TrimSpace (nd_Transport d))"
  "nd_DestinationKey (updated_row wall d c) = (if TrimSpace (nd_DestinationKey d) = [] then nd_DestinationKey c else TrimSpace (nd_DestinationKey d))"
  "nd_MaxAttempts (updated_row wall d c) = (if maxNotificationAttempts (nd_MaxAttempts d) \<le> 0 then nd_MaxAttempts c else maxNotificationAttempts (nd_MaxAttempts d))"
  by (simp_all add: updated_row_def Let_def)

lemma kept_field: "keeps_field new old \<Longrightarrow> TrimSpace (if TrimSpace new = [] then old else TrimSpace new) = TrimSpace old"
  by (auto simp: keeps_field_def)

lemma Update_wf:
  assumes wf: "notify_wf r" and keep: "keeps_delivery d r"
  shows "notify_wf (fst (Notification_Update wall ctx d r))"
proof (cases "map_of (ndr_deliveries r) (nd_ID d)")
  case None
  then show ?thesis using wf keep by (simp add: Notification_Update_form keeps_delivery_def TrimSpace_id split: option.split)
next
  case (Some current)
  have id: "TrimSpace (nd_ID d) = nd_ID d" using keep by (simp add: keeps_delivery_def TrimSpace_id)
  let ?e = "updated_row wall d current"
  have key: "logical_key ?e = logical_key current"
    using keep by (simp add: keeps_delivery_def Some logical_key_def notificationDeliveryLogicalKey_def updated_row_sel kept_field split del: if_split)
  have "nd_MaxAttempts ?e < 2 ^ 63"
    using keep notify_row(4) [OF wf Some] by (simp add: keeps_delivery_def valid_delivery_def updated_row_sel maxNotificationAttempts_def)
  then have "notify_wf (r\<lparr>ndr_deliveries := gm_put (nd_ID d) ?e (ndr_deliveries r)\<rparr>)" if "NotificationDelivery_Validate ?e = None"
    using outbox_replace [OF wf [unfolded notify_wf_def] Some updated_row_sel(1) key] that by (simp add: notify_wf_def valid_delivery_def)
  then show ?thesis using wf by (simp add: Notification_Update_form id Some updated_row_sel(1) split: option.split)
qed

lemma notify_write_wf: "notify_write r r' \<Longrightarrow> notify_wf r \<Longrightarrow> notify_wf r'"
  by (induction rule: notify_write.induct) (use notify_step_advances notify_advances_wf Update_wf in blast)+

lemma notify_writes_wf: "notify_write\<^sup>*\<^sup>* r r' \<Longrightarrow> notify_wf r \<Longrightarrow> notify_wf r'"
  by (induction rule: rtranclp_induct) (auto intro: notify_write_wf)

end
