(* ===== verification/Notification_Properties.thy ===== *)
theory Notification_Properties
  imports Notification_Invariant
begin

text \<open>
  The contract of the fenced updates of notification deliveries, and what every operation of the notifier and of its
  drain keeps: rows only move on, and every message of a delivery is paid for by an attempt that its row counts.
\<close>

section \<open>Updates by claimers\<close>

datatype notify_update =
  NSent NotificationDeliveryMarkSentInput
| NRetryable NotificationDeliveryRecordFailureInput
| NPermanent NotificationDeliveryRecordFailureInput
| NExhausted NotificationDeliveryRecordFailureInput

fun notify_apply :: "dlv_error option \<Rightarrow> notify_update \<Rightarrow> NotificationDeliveryRepository \<Rightarrow>
    NotificationDeliveryRepository \<times> (dlv_error + NotificationDeliveryUpdateResult)" where
  "notify_apply ctx (NSent i) r = Notification_MarkSent ctx i r"
| "notify_apply ctx (NRetryable i) r = Notification_RecordRetryableFailure ctx i r"
| "notify_apply ctx (NPermanent i) r = Notification_RecordPermanentFailure ctx i r"
| "notify_apply ctx (NExhausted i) r = Notification_RecordExhaustedFailure ctx i r"

fun notify_target :: "notify_update \<Rightarrow> string" where
  "notify_target (NSent i) = TrimSpace (nms_DeliveryID i)"
| "notify_target (NRetryable i) = TrimSpace (nrf_DeliveryID i)"
| "notify_target (NPermanent i) = TrimSpace (nrf_DeliveryID i)"
| "notify_target (NExhausted i) = TrimSpace (nrf_DeliveryID i)"

fun notify_claim :: "notify_update \<Rightarrow> string \<times> time" where
  "notify_claim (NSent i) = (nms_ClaimOwner i, nms_ClaimedAt i)"
| "notify_claim (NRetryable i) = (nrf_ClaimOwner i, nrf_ClaimedAt i)"
| "notify_claim (NPermanent i) = (nrf_ClaimOwner i, nrf_ClaimedAt i)"
| "notify_claim (NExhausted i) = (nrf_ClaimOwner i, nrf_ClaimedAt i)"

fun notify_released :: "notify_update \<Rightarrow> NotificationDelivery \<Rightarrow> NotificationDelivery" where
  "notify_released (NSent i) d = sent_row (nms_SentAt i) d"
| "notify_released (NRetryable i) d = failure_row i NotificationDeliveryStatusRetryWaiting d"
| "notify_released (NPermanent i) d = failure_row i NotificationDeliveryStatusFailedPermanent d"
| "notify_released (NExhausted i) d = failure_row i NotificationDeliveryStatusFailedExhausted d"

definition notify_holds :: "NotificationDelivery \<Rightarrow> notify_update \<Rightarrow> bool" where
  "notify_holds d u \<longleftrightarrow> notificationDeliveryClaimMatches d (TrimSpace (fst (notify_claim u))) (snd (notify_claim u))"

definition notify_lost :: "NotificationDeliveryUpdateResult \<Rightarrow> bool" where
  "notify_lost res \<longleftrightarrow> nur_Outcome res = NotifyLostClaim"

lemma notify_apply_form:
  "notify_apply ctx u r = (case ctx of Some err \<Rightarrow> (r, Inl err) | None \<Rightarrow>
     (case map_of (ndr_deliveries r) (notify_target u) of
        None \<Rightarrow> (r, Inl ErrNotificationDeliveryNotFound)
      | Some d \<Rightarrow> if \<not> notify_holds d u then (r, Inr \<lparr>nur_Delivery = d, nur_Outcome = NotifyLostClaim\<rparr>)
                  else store_delivery (notify_released u d) r))"
  by (cases u) (simp_all add: Notification_MarkSent_def Notification_RecordRetryableFailure_def Notification_RecordPermanentFailure_def
      Notification_RecordExhaustedFailure_def Notification_recordFailure_def notify_holds_def split: option.split)

lemma notify_released_sel: "nd_ID (notify_released u d) = nd_ID d" "nd_ClaimedBy (notify_released u d) = None"
  by (cases u; simp add: sent_row_def failure_row_def Let_def)+

lemma notify_released_unheld: "\<not> notify_holds (notify_released u d) v"
  by (simp add: notify_holds_def notificationDeliveryClaimMatches_def notify_released_sel)

lemma notify_apply_advances: "notify_wf r \<Longrightarrow> notify_advances r (fst (notify_apply ctx u r))"
  by (cases u) (simp_all add: MarkSent_advances Notification_RecordRetryableFailure_def Notification_RecordPermanentFailure_def
      Notification_RecordExhaustedFailure_def recordFailure_advances)

interpretation notify_fence:
  claimed_update "notify_apply ctx" "\<lambda>r. map_of (ndr_deliveries r)" notify_target "\<lambda>_. True" notify_holds notify_lost notify_wf for ctx
proof unfold_locales
  show "notify_apply ctx i s = (s', Inl e) \<Longrightarrow> s' = s" for i s s' e
    by (auto simp: notify_apply_form store_delivery_def split: option.splits if_splits)
  show "notify_apply ctx i s = (s', Inr r) \<Longrightarrow>
      notify_lost r = (\<not> (\<exists>d. map_of (ndr_deliveries s) (notify_target i) = Some d \<and> notify_holds d i))" for i s s' r
    by (auto simp: notify_apply_form store_delivery_def notify_lost_def split: option.splits if_splits)
  show "notify_apply ctx i s = (s', Inr r) \<Longrightarrow> notify_lost r \<Longrightarrow> s' = s" for i s s' r
    by (auto simp: notify_apply_form store_delivery_def notify_lost_def split: option.splits if_splits)
  show "\<not> notify_holds d j"
    if h: "notify_wf s" "notify_apply ctx i s = (s', Inr r)" "\<not> notify_lost r" "map_of (ndr_deliveries s') (notify_target i) = Some d"
    for s i s' r d j
  proof -
    obtain e where e: "map_of (ndr_deliveries s) (notify_target i) = Some e" "store_delivery (notify_released i e) s = (s', Inr r)"
      using h(2,3) by (auto simp: notify_apply_form notify_lost_def split: option.splits if_splits)
    then have "d = notify_released i e"
      using h(4) notify_row(1) [OF h(1) e(1)] by (auto simp: store_delivery_def notify_released_sel split: option.splits)
    then show ?thesis by (simp add: notify_released_unheld)
  qed
  show "map_of (ndr_deliveries s') k = map_of (ndr_deliveries s) k"
    if "notify_wf s" "notify_apply ctx i s = (s', x)" "k \<noteq> notify_target i" for s i s' x k
    using that notify_row(1) [OF that(1), of "notify_target i"]
    by (auto simp: notify_apply_form store_delivery_def notify_released_sel split: option.splits if_splits)
  show "notify_wf s \<Longrightarrow> notify_wf (fst (notify_apply ctx i s))" for s i
    using notify_advances_wf notify_apply_advances by blast
qed

section \<open>Good environments\<close>

text \<open>
  The environment is good when the clock is past the zero time, the UUIDs drawn are trimmed, all different and used by
  nobody else, and the other processes use the store through its operations.
\<close>

definition notify_unused :: "NotifyEnvironment \<Rightarrow> nat \<Rightarrow> NotificationDeliveryRepository \<Rightarrow> bool" where
  "notify_unused env n r \<longleftrightarrow> (\<forall>m \<ge> n. map_of (ndr_deliveries r) (nv_uuid env m) = None)"

definition notify_env :: "NotifyEnvironment \<Rightarrow> bool" where
  "notify_env env \<longleftrightarrow> (\<forall>n. 0 < nv_now env n \<and> trimmed (nv_uuid env n) \<and> nv_uuid env n \<noteq> []) \<and> inj (nv_uuid env) \<and>
     (\<forall>n r. notify_wf r \<and> notify_unused env n r \<longrightarrow> notify_step\<^sup>*\<^sup>* r (nv_others env n r) \<and> notify_unused env n (nv_others env n r))"

definition notify_world :: "NotifyEnvironment \<Rightarrow> NotifyWorld \<Rightarrow> bool" where
  "notify_world env w \<longleftrightarrow> notify_wf (nw_deliveries w) \<and> notify_unused env (nw_tick w) (nw_deliveries w)"

section \<open>Messages and attempts\<close>

definition attempts_of :: "NotificationDeliveryRepository \<Rightarrow> string \<Rightarrow> int" where
  "attempts_of r k = (case map_of (ndr_deliveries r) k of None \<Rightarrow> 0 | Some d \<Rightarrow> nd_Attempts d)"

definition messages :: "string \<Rightarrow> NotifyWorld \<Rightarrow> int" where
  "messages k w = int (length (filter (\<lambda>m. fst m = k) (nw_sent w)))"

text \<open>
  \<open>paid c env w w'\<close>: from \<open>w\<close> to \<open>w'\<close> the rows moved on, and every delivery sent at most as many messages as its row counts
  attempts more, with \<open>c k\<close> attempts of delivery \<open>k\<close> not used yet.
\<close>

definition paid :: "(string \<Rightarrow> int) \<Rightarrow> NotifyEnvironment \<Rightarrow> NotifyWorld \<Rightarrow> NotifyWorld \<Rightarrow> bool" where
  "paid c env w w' \<longleftrightarrow> notify_world env w' \<and> notify_advances (nw_deliveries w) (nw_deliveries w') \<and>
     (\<forall>k. k \<noteq> [] \<longrightarrow> messages k w' + c k + attempts_of (nw_deliveries w) k \<le> messages k w + attempts_of (nw_deliveries w') k)"

abbreviation "settled \<equiv> paid (\<lambda>_. 0)"

abbreviation one_left :: "string \<Rightarrow> string \<Rightarrow> int" where
  "one_left k \<equiv> \<lambda>j. if j = k then 1 else 0"

lemma attempts_advance:
  assumes "notify_wf r" "notify_advances r r'"
  shows "attempts_of r k \<le> attempts_of r' k"
proof (cases "map_of (ndr_deliveries r) k")
  case None
  have "0 \<le> nd_Attempts e" if "map_of (ndr_deliveries r') k = Some e" for e
    using valid_delivery_attempts(1) [OF notify_row(4) [OF notify_advances_wf [OF assms(2)] that]] .
  with None show ?thesis by (simp add: attempts_of_def split: option.split)
next
  case (Some d)
  obtain e where "map_of (ndr_deliveries r') k = Some e" "moves d e" using notify_advances_row [OF assms(2) Some] by blast
  with Some show ?thesis by (simp add: attempts_of_def moves_def)
qed

lemma settled_refl: "notify_world env w \<Longrightarrow> settled env w w"
  by (simp add: paid_def notify_advances_refl notify_world_def)

lemma paid_trans:
  assumes "paid c env w w1" "settled env w1 w2"
  shows "paid c env w w2"
proof -
  have "messages k w2 + c k + attempts_of (nw_deliveries w) k \<le> messages k w + attempts_of (nw_deliveries w2) k" if "k \<noteq> []" for k
  proof -
    have "messages k w1 + c k + attempts_of (nw_deliveries w) k \<le> messages k w + attempts_of (nw_deliveries w1) k"
      "messages k w2 + attempts_of (nw_deliveries w1) k \<le> messages k w1 + attempts_of (nw_deliveries w2) k"
      using assms that unfolding paid_def by (blast, force)
    then show ?thesis by linarith
  qed
  then show ?thesis using assms notify_advances_trans unfolding paid_def by blast
qed

lemma paid_settled: "paid (one_left k) env w w' \<Longrightarrow> settled env w w'"
  unfolding paid_def by (smt (verit))

lemma paid_world: "paid c env w w' \<Longrightarrow> notify_world env w'"
  by (simp add: paid_def)

lemma unused_later: "notify_unused env n r \<Longrightarrow> n \<le> m \<Longrightarrow> notify_unused env m r"
  by (simp add: notify_unused_def)

lemma settled_nask: "notify_world env w \<Longrightarrow> settled env w (fst (nask f w))"
  by (auto simp: paid_def nask_def notify_world_def messages_def notify_advances_refl intro: unused_later)

text \<open>A message uses the attempt that is left.\<close>

lemma nsend_uses:
  assumes "paid (one_left k) env w0 w"
  shows "settled env w0 (fst (nsend env k msg w))"
proof -
  have m: "messages j (fst (nsend env k msg w)) = messages j w + one_left k j" for j
    by (auto simp: messages_def nsend_def Let_def)
  have w: "nw_deliveries (fst (nsend env k msg w)) = nw_deliveries w" by (simp add: nsend_def Let_def)
  have "notify_world env (fst (nsend env k msg w))"
    using paid_world [OF assms] by (auto simp: notify_world_def nsend_def Let_def intro: unused_later)
  then show ?thesis using assms unfolding paid_def by (simp add: m w)
qed

lemma settled_anonymous:
  assumes "notify_world env w"
  shows "settled env w (fst (nsend env [] msg w))"
  using assms by (auto simp: paid_def nsend_def Let_def notify_world_def messages_def notify_advances_refl intro: unused_later)

section \<open>Operations of the store\<close>

text \<open>An operation of the store on behalf of the notifier moves the rows on and adds no row but under the UUID it was given.\<close>

definition notify_op :: "string \<Rightarrow> NotificationDeliveryRepository \<Rightarrow> NotificationDeliveryRepository \<Rightarrow> bool" where
  "notify_op uuid r r' \<longleftrightarrow> notify_advances r r' \<and>
     (\<forall>k. map_of (ndr_deliveries r) k = None \<longrightarrow> k \<noteq> uuid \<longrightarrow> map_of (ndr_deliveries r') k = None)"

lemma paid_with_store:
  assumes env: "notify_env env" and w: "notify_world env w"
    and op: "\<And>r. r = nv_others env (nw_tick w) (nw_deliveries w) \<Longrightarrow> notify_wf r \<Longrightarrow> notify_unused env (nw_tick w) r \<Longrightarrow>
       notify_op (nv_uuid env (nw_tick w)) r (fst (f (nv_uuid env (nw_tick w)) (nv_ctx env (nw_tick w)) r)) \<and>
       (\<forall>k. k \<noteq> [] \<longrightarrow> c k + attempts_of r k \<le> attempts_of (fst (f (nv_uuid env (nw_tick w)) (nv_ctx env (nw_tick w)) r)) k)"
  shows "paid c env w (fst (with_deliveries_store env f w))"
proof -
  let ?n = "nw_tick w" and ?r = "nv_others env (nw_tick w) (nw_deliveries w)" and ?w = "fst (with_deliveries_store env f w)"
  let ?s = "fst (f (nv_uuid env ?n) (nv_ctx env ?n) ?r)"
  have wf: "notify_wf (nw_deliveries w)" using w by (simp add: notify_world_def)
  have run: "notify_step\<^sup>*\<^sup>* (nw_deliveries w) ?r" and un: "notify_unused env ?n ?r"
    using env w unfolding notify_env_def notify_world_def by blast+
  have adv: "notify_advances (nw_deliveries w) ?r" by (rule notify_run [OF run wf])
  note o = op [OF refl notify_advances_wf [OF adv] un]
  have adv': "notify_advances (nw_deliveries w) ?s" using o notify_advances_trans [OF adv] unfolding notify_op_def by blast
  have "nv_uuid env m \<noteq> nv_uuid env ?n" if "m \<ge> Suc ?n" for m
    using env that by (auto simp: notify_env_def dest: injD)
  then have "notify_unused env (Suc ?n) ?s" using o un unfolding notify_op_def notify_unused_def by (metis Suc_leD)
  moreover have eq: "nw_deliveries ?w = ?s" "nw_tick ?w = Suc ?n" "nw_sent ?w = nw_sent w"
    by (simp_all add: with_deliveries_store_def Let_def split: prod.split)
  ultimately have "notify_world env ?w" using adv' by (simp add: notify_world_def notify_advances_def)
  moreover have "messages k ?w = messages k w" for k by (simp add: messages_def eq)
  moreover have "c k + attempts_of (nw_deliveries w) k \<le> attempts_of ?s k" if "k \<noteq> []" for k
    using attempts_advance [OF wf adv, of k] conjunct2 [OF o] that by force
  ultimately show ?thesis using adv' unfolding paid_def eq by fastforce
qed

lemma update_op:
  assumes "notify_wf r"
  shows "notify_op uuid r (fst (notify_apply ctx u r))" "attempts_of r k \<le> attempts_of (fst (notify_apply ctx u r)) k"
proof -
  have adv: "notify_advances r (fst (notify_apply ctx u r))" by (rule notify_apply_advances [OF assms])
  have "map_of (ndr_deliveries (fst (notify_apply ctx u r))) j = None" if "map_of (ndr_deliveries r) j = None" for j
  proof (cases "j = notify_target u")
    case True
    with that show ?thesis by (simp add: notify_apply_form split: option.split)
  next
    case False
    with that show ?thesis using notify_fence.frame [OF assms prod.collapse [symmetric]] by simp
  qed
  with adv show "notify_op uuid r (fst (notify_apply ctx u r))" by (simp add: notify_op_def)
  show "attempts_of r k \<le> attempts_of (fst (notify_apply ctx u r)) k" by (rule attempts_advance [OF assms adv])
qed

lemma settled_update:
  "notify_env env \<Longrightarrow> notify_world env w \<Longrightarrow> settled env w (fst (with_deliveries_store env (\<lambda>_ ctx. notify_apply ctx u) w))"
  by (rule paid_with_store) (simp_all add: update_op)

lemma settled_read:
  "notify_env env \<Longrightarrow> notify_world env w \<Longrightarrow> settled env w (fst (with_deliveries_store env (\<lambda>_ ctx r. (r, g ctx r)) w))"
  by (rule paid_with_store) (simp_all add: notify_op_def notify_advances_refl)

text \<open>A claim that is granted leaves one attempt of its delivery to be used.\<close>

lemma acquire_op:
  assumes acq: "Notification_AcquireForDelivery uuid ctx input r = (r', x)" and wf: "notify_wf r" and pre: "notify_acquire_pre uuid input r"
    and id: "TrimSpace (nd_ID (nci_Delivery input)) = []"
  shows "notify_op uuid r r'"
    "x = Inr res \<Longrightarrow> granted (ncr_Outcome res) \<Longrightarrow> one_left (nd_ID (ncr_Delivery res)) k + attempts_of r k \<le> attempts_of r' k"
proof -
  have adv: "notify_advances r r'" by (rule Acquire_advances [OF acq wf pre])
  have "map_of (ndr_deliveries r') j = None" if "map_of (ndr_deliveries r) j = None" "j \<noteq> uuid" for j
    using acq wf by (cases rule: notify_Acquire_cases) (use that id in \<open>auto simp: insert_delivery_def Let_def claim_id_def\<close>)
  with adv show "notify_op uuid r r'" by (simp add: notify_op_def)
  assume x: "x = Inr res" "granted (ncr_Outcome res)"
  from acq wf show "one_left (nd_ID (ncr_Delivery res)) k + attempts_of r k \<le> attempts_of r' k"
  proof (cases rule: notify_Acquire_cases)
    case created
    have "map_of (ndr_deliveries r) uuid = None" using pre created(1) id by (simp add: notify_acquire_pre_def new_id_def claim_id_def)
    then show ?thesis using created x id by (simp add: attempts_of_def insert_delivery_def Let_def claim_id_def)
  next
    case (claimed j d out)
    have now: "0 < nci_Now input" using pre by (simp add: notify_acquire_pre_def)
    note m = notify_claim_moves [OF wf claimed(1) now claimed(6,3,4,5)]
    have "nd_ID (next_row input d) = j" using m(1) notify_row(1) [OF wf claimed(1)] by (simp add: moves_def)
    then show ?thesis using claimed(1,7,8) x m(3) by (simp add: attempts_of_def)
  next
    case refused
    then show ?thesis using x by simp
  qed
qed

section \<open>Operations of the notifier\<close>

definition notifier_ok :: "BuildNotificationService \<Rightarrow> bool" where
  "notifier_ok s \<longleftrightarrow> nrp_maxAttempts (bn_retryPolicy s) < 2 ^ 63"

lemma map_sum_Inr: "map_sum f (\<lambda>y. y) x = Inr y \<longleftrightarrow> x = Inr y"
  by (cases x) auto

lemma acquire_paid:
  assumes env: "notify_env env" and w: "notify_world env w" and s: "notifier_ok s" and acq: "notifier_acquireDelivery s env d w = (w', x)"
  shows "settled env w w'" and "x = Inr (res, True) \<Longrightarrow> paid (one_left (nd_ID (ncr_Delivery res))) env w w'"
proof -
  let ?w = "fst (nask (nv_now env) w)" and ?i = "claim_request s d (nv_now env (nw_tick w))"
  let ?f = "\<lambda>uuid ctx. Notification_AcquireForDelivery uuid ctx ?i"
  let ?r = "nv_others env (nw_tick ?w) (nw_deliveries ?w)"
  let ?a = "?f (nv_uuid env (nw_tick ?w)) (nv_ctx env (nw_tick ?w)) ?r"
  have w1: "settled env w ?w" by (rule settled_nask [OF w])
  have id: "TrimSpace (nd_ID (nci_Delivery ?i)) = []"
    by (simp add: claim_request_def delivery_identity_def zeroNotificationDelivery_def)
  have pre: "notify_acquire_pre (nv_uuid env (nw_tick ?w)) ?i r" if "notify_unused env (nw_tick ?w) r" for r
  proof -
    have "map_of (ndr_deliveries r) (nv_uuid env (nw_tick ?w)) = None" using that by (simp add: notify_unused_def)
    then show ?thesis using env s id
      by (simp add: notify_acquire_pre_def new_id_def claim_id_def notify_env_def notifier_ok_def claim_request_def)
  qed
  have run: "paid c env ?w (fst (with_deliveries_store env ?f ?w))"
    if "\<And>k. notify_wf ?r \<Longrightarrow> notify_unused env (nw_tick ?w) ?r \<Longrightarrow> c k + attempts_of ?r k \<le> attempts_of (fst ?a) k" for c
    using acquire_op(1) [OF prod.collapse [symmetric] _ pre id] that by (intro paid_with_store [OF env paid_world [OF w1]]) blast
  have done_: "w' = fst (with_deliveries_store env ?f ?w)"
    using acq by (auto simp: notifier_acquireDelivery_def nask_def split: prod.splits sum.splits)
  have w2: "settled env ?w w'"
    unfolding done_ by (rule run) (use attempts_advance [OF _ Acquire_advances [OF prod.collapse [symmetric] _ pre]] in force)
  show "settled env w w'" by (rule paid_trans [OF w1 w2])
  assume "x = Inr (res, True)"
  then have "snd ?a = Inr res" "granted (ncr_Outcome res)"
    using acq by (auto simp: notifier_acquireDelivery_def nask_def with_deliveries_store_def Let_def map_sum_Inr split: prod.splits sum.splits)
  then have "paid (one_left (nd_ID (ncr_Delivery res))) env ?w w'"
    unfolding done_ using acquire_op(2) [OF prod.collapse [symmetric] _ pre id] by (intro run) blast
  then show "paid (one_left (nd_ID (ncr_Delivery res))) env w w'" using w1 unfolding paid_def
    by (simp add: nask_def messages_def)
qed

lemma fst_answers [simp]: "fst (case p of (a, x) \<Rightarrow> case x of Inl e \<Rightarrow> (a, f a e) | Inr y \<Rightarrow> (a, g a y)) = fst p"
  by (cases p; cases "snd p") auto

lemma notify_apply_ops [simp]:
  "notify_apply ctx (NSent i) = Notification_MarkSent ctx i"
  "notify_apply ctx (NRetryable j) = Notification_RecordRetryableFailure ctx j"
  "notify_apply ctx (NPermanent j) = Notification_RecordPermanentFailure ctx j"
  "notify_apply ctx (NExhausted j) = Notification_RecordExhaustedFailure ctx j"
  by (rule ext, simp)+

lemma sendDestination_paid:
  assumes "paid (one_left k) env w0 w"
  shows "settled env w0 (fst (sendDestination s env k destination content w))"
  using nsend_uses [OF assms] paid_settled [OF assms] by (simp add: sendDestination_def)

lemma markSent_settled:
  assumes "notify_env env" "notify_world env w"
  shows "settled env w (fst (notifier_markDeliverySent s env d t w))"
proof (cases "claimedNotificationTimestamp d")
  case (Inr claimedAt)
  then show ?thesis
    using settled_update [OF assms, of "NSent \<lparr>nms_DeliveryID = nd_ID d, nms_ClaimOwner = bn_claimOwner s, nms_ClaimedAt = claimedAt, nms_SentAt = t\<rparr>"]
    by (simp add: notifier_markDeliverySent_def)
qed (simp add: notifier_markDeliverySent_def settled_refl assms)

lemma markFailed_settled:
  assumes "notify_env env" "notify_world env w"
  shows "settled env w (fst (notifier_markDeliveryFailed s env d e t w))"
proof (cases "claimedNotificationTimestamp d")
  case (Inr claimedAt)
  let ?i = "failure_input s d e claimedAt t"
  show ?thesis
    using settled_update [OF assms, of "NRetryable ?i"] settled_update [OF assms, of "NPermanent ?i"] settled_update [OF assms, of "NExhausted ?i"] Inr
    by (simp add: notifier_markDeliveryFailed_def Let_def)
qed (simp add: notifier_markDeliveryFailed_def settled_refl assms)

lemma execute_settled:
  assumes env: "notify_env env" and w: "paid (one_left (nd_ID d)) env w0 w"
  shows "settled env w0 (fst (notifier_executeClaimedDelivery s env d destination content w))"
proof -
  obtain w1 sendErr where send: "sendDestination s env (nd_ID d) destination content w = (w1, sendErr)" by fastforce
  let ?w = "fst (nask (nv_now env) w1)" and ?t = "nv_now env (nw_tick w1)"
  have w1: "settled env w0 w1" using sendDestination_paid [OF w, of s destination content] send by simp
  have w2: "settled env w0 ?w" using paid_trans [OF w1 settled_nask [OF paid_world [OF w1]]] .
  note failed = paid_trans [OF _ markFailed_settled [OF env paid_world]]
  show ?thesis
  proof (cases sendErr)
    case (Some err)
    then show ?thesis
      using w2 failed [OF w2 w2, of s d err ?t] send by (simp add: notifier_executeClaimedDelivery_def nask_def)
  next
    case None
    obtain w3 x where sent: "notifier_markDeliverySent s env d ?t ?w = (w3, x)" by fastforce
    have w3: "settled env w0 w3" using paid_trans [OF w2 markSent_settled [OF env paid_world [OF w2], of s d ?t]] sent by simp
    show ?thesis
    proof (cases "bn_deliveryRepo s")
      case False
      then show ?thesis using None send w2 by (simp add: notifier_executeClaimedDelivery_def nask_def)
    next
      case True
      show ?thesis
      proof (cases x)
        case (Inl updateErr)
        let ?e = "retryableNotificationExecutionFailure ''delivery_state_persist_failed'' ''persist sent delivery state failed'' [updateErr]"
        show ?thesis
          using failed [OF w3 w3, of s d ?e ?t] None True Inl send sent
          by (simp add: notifier_executeClaimedDelivery_def nask_def Let_def)
      next
        case (Inr outcome)
        then show ?thesis using None True w3 send sent by (simp add: notifier_executeClaimedDelivery_def nask_def)
      qed
    qed
  qed
qed

section \<open>Questions\<close>

text \<open>Planning and rebuilding a delivery only ask: the store and the messages stay as they are.\<close>

definition asks :: "NotifyWorld \<Rightarrow> NotifyWorld \<Rightarrow> bool" where
  "asks w w' \<longleftrightarrow> (\<exists>n \<ge> nw_tick w. w' = w\<lparr>nw_tick := n\<rparr>)"

lemma asks_refl [simp]: "asks w w"
  unfolding asks_def by (rule exI [of _ "nw_tick w"]) simp

lemma asks_update [simp]: "nw_tick w \<le> n \<Longrightarrow> asks w (w\<lparr>nw_tick := n\<rparr>)"
  unfolding asks_def by blast

lemma asks_trans: "asks w w' \<Longrightarrow> asks w' w'' \<Longrightarrow> asks w w''"
  unfolding asks_def by clarsimp (metis le_trans)

lemma asks_settled: "notify_world env w \<Longrightarrow> asks w w' \<Longrightarrow> settled env w w'"
  by (auto simp: asks_def paid_def notify_world_def messages_def notify_advances_refl intro: unused_later)

lemma asks_target [simp]: "asks w (fst (delivery_target s env d u m mt f db dt w))"
  by (simp add: delivery_target_def nask_def split: option.split sum.split)

lemma asks_SharedEmail [simp]: "asks w (fst (rehydrateSharedEmailDestination s env d w))"
  unfolding rehydrateSharedEmailDestination_def by simp

lemma asks_PersonalEmail [simp]: "asks w (fst (rehydratePersonalEmailDestination s env d w))"
  unfolding rehydratePersonalEmailDestination_def by simp

lemma asks_SlackWebhook [simp]: "asks w (fst (rehydrateSlackWebhookDestination s env d w))"
  unfolding rehydrateSlackWebhookDestination_def by simp

lemma asks_SlackDM [simp]: "asks w (fst (rehydrateSlackDMDestination s env d w))"
  by (simp add: rehydrateSlackDMDestination_def nask_def split: option.split sum.split)

lemma asks_Destination [simp]: "asks w (fst (rehydrateDestination s env d w))"
  by (simp add: rehydrateDestination_def)

lemma asks_Delivery [simp]: "asks w (fst (rehydrateDelivery s env d w))"
proof (cases "nv_build env (nw_tick w) (nd_BuildID d)")
  case (Inr build)
  have "asks w (w\<lparr>nw_tick := Suc (nw_tick w)\<rparr>)" by simp
  then have "asks w (fst (rehydrateDestination s env d (w\<lparr>nw_tick := Suc (nw_tick w)\<rparr>)))" using asks_trans asks_Destination by blast
  with Inr show ?thesis by (simp add: rehydrateDelivery_def nask_def)
qed (simp add: rehydrateDelivery_def nask_def)

section \<open>Recovery and sending\<close>

lemma fail_rehydration_paid:
  assumes env: "notify_env env" and w: "settled env w0 w"
  shows "settled env w0 (fst (fail_rehydration s env d err result w))"
proof -
  let ?w = "fst (nask (nv_now env) w)"
  have w1: "settled env w0 ?w" by (rule paid_trans [OF w settled_nask [OF paid_world [OF w]]])
  show ?thesis
    using w paid_trans [OF w1 markFailed_settled [OF env paid_world [OF w1], of s d err "nv_now env (nw_tick w)"]]
    by (simp add: fail_rehydration_def nask_def)
qed

lemma recover_settled:
  assumes env: "notify_env env" and w: "notify_world env w" and s: "notifier_ok s"
  shows "settled env w (fst (notifier_recoverDelivery s env candidate w))"
proof -
  obtain w1 x where acq: "notifier_acquireDelivery s env candidate w = (w1, x)" by fastforce
  note a = acquire_paid [OF env w s acq]
  show ?thesis
  proof (cases x)
    case (Inl err)
    then show ?thesis using acq a(1) by (simp add: notifier_recoverDelivery_def)
  next
    case (Inr y)
    obtain res shouldSend where y: "y = (res, shouldSend)" by fastforce
    show ?thesis
    proof (cases shouldSend)
      case False
      then show ?thesis using acq a(1) Inr y by (simp add: notifier_recoverDelivery_def Let_def)
    next
      case True
      let ?d = "ncr_Delivery res"
      have p: "paid (one_left (nd_ID ?d)) env w w1" using a(2) Inr y True by simp
      obtain w2 z where re: "rehydrateDelivery s env ?d w1 = (w2, z)" by fastforce
      have p2: "paid (one_left (nd_ID ?d)) env w w2"
        using paid_trans [OF p asks_settled [OF paid_world [OF p] asks_Delivery [of w1 s env ?d]]] re by simp
      have p3: "paid (one_left (nd_ID ?d)) env w (w2\<lparr>nw_tick := Suc (nw_tick w2)\<rparr>)"
        by (rule paid_trans [OF p2 asks_settled [OF paid_world [OF p2]]]) simp
      note failed = fail_rehydration_paid [OF env paid_settled]
      show ?thesis
      proof (cases z)
        case zl: (Inl err)
        then show ?thesis using acq Inr y True re failed [OF p2] by (simp add: notifier_recoverDelivery_def Let_def)
      next
        case zr: (Inr bd)
        obtain build destination where bd: "bd = (build, destination)" by fastforce
        show ?thesis
        proof (cases "nv_render env (nw_tick w2) build (dst_transport destination)")
          case (Inl err)
          then show ?thesis using acq \<open>x = Inr y\<close> y True re zr bd failed [OF p3] by (simp add: notifier_recoverDelivery_def Let_def nask_def)
        next
          case (Inr content)
          then show ?thesis using acq \<open>x = Inr y\<close> y True re zr bd execute_settled [OF env p3, of s destination content]
            by (auto simp: notifier_recoverDelivery_def Let_def nask_def split: prod.splits)
        qed
      qed
    qed
  qed
qed

lemma recover_each_settled:
  assumes env: "notify_env env" and s: "notifier_ok s"
  shows "notify_world env w \<Longrightarrow> settled env w (fst (recover_each s env result errs cs w))"
proof (induction cs arbitrary: result errs w)
  case Nil
  then show ?case by (simp add: settled_refl)
next
  case (Cons c cs)
  let ?w = "w\<lparr>nw_tick := Suc (nw_tick w)\<rparr>"
  have w1: "settled env w ?w" by (rule asks_settled [OF Cons.prems]) simp
  obtain w2 attempt err where rec: "notifier_recoverDelivery s env c ?w = (w2, attempt, err)" by (metis prod.exhaust)
  have w2: "settled env w w2" using paid_trans [OF w1 recover_settled [OF env paid_world [OF w1] s, of c]] rec by simp
  have "settled env w (fst (recover_each s env result errs cs w2))" for result errs
    using paid_trans [OF w2 Cons.IH [OF paid_world [OF w2]]] .
  then show ?case using w1 rec by (cases err) (simp_all add: nask_def Let_def split: option.split)
qed

lemma iteration_settled:
  assumes env: "notify_env env" and w: "notify_world env w" and s: "notifier_ok (nrd_notifier d)"
  shows "settled env w (fst (Notification_RunIteration d env w))"
proof -
  let ?w = "w\<lparr>nw_tick := Suc (nw_tick w)\<rparr>"
  have w1: "settled env w ?w" by (rule asks_settled [OF w]) simp
  obtain w2 x where l: "with_deliveries_store env (\<lambda>_ ctx r. (r, Notification_ListRecoverable ctx (nv_now env (nw_tick w)) (nrd_batchSize d) r)) ?w = (w2, x)"
    by fastforce
  have w2: "settled env w w2"
    using paid_trans [OF w1 settled_read [OF env paid_world [OF w1], of "\<lambda>ctx. Notification_ListRecoverable ctx (nv_now env (nw_tick w)) (nrd_batchSize d)"]] l
    by simp
  show ?thesis
    using w2 l paid_trans [OF w2 recover_each_settled [OF env s paid_world [OF w2]]]
    by (cases x) (simp_all add: Notification_RunIteration_def nask_def)
qed

lemma send_one_settled:
  assumes env: "notify_env env" and w: "notify_world env w" and s: "notifier_ok s"
  shows "settled env w (fst (send_one s env build eventType destination w))"
proof (cases "bn_deliveryRepo s")
  case False
  have tick: "settled env w (w\<lparr>nw_tick := Suc (nw_tick w)\<rparr>)" by (rule asks_settled [OF w]) simp
  have sent: "settled env w (fst (sendDestination s env [] destination content (w\<lparr>nw_tick := Suc (nw_tick w)\<rparr>)))" for content
    using paid_trans [OF tick settled_anonymous [OF paid_world [OF tick]]] tick by (simp add: sendDestination_def)
  show ?thesis
  proof (cases "nv_render env (nw_tick w) build (dst_transport destination)")
    case (Inr content)
    then show ?thesis using False sent [of content] by (auto simp: send_one_def nask_def split: prod.splits option.splits)
  qed (use False tick in \<open>simp add: send_one_def nask_def\<close>)
next
  case True
  obtain w1 x where acq: "notifier_acquireDelivery s env (delivery_for (b_ID build) eventType destination) w = (w1, x)" by fastforce
  note a = acquire_paid [OF env w s acq]
  show ?thesis
  proof (cases x)
    case (Inl err)
    then show ?thesis using True acq a(1) by (simp add: send_one_def prepareDelivery_def)
  next
    case (Inr y)
    obtain res shouldSend where y: "y = (res, shouldSend)" by fastforce
    show ?thesis
    proof (cases shouldSend)
      case False
      then show ?thesis using True acq a(1) Inr y by (simp add: send_one_def prepareDelivery_def)
    next
      case send: True
      let ?d = "ncr_Delivery res" and ?w = "w1\<lparr>nw_tick := Suc (nw_tick w1)\<rparr>"
      have p: "paid (one_left (nd_ID ?d)) env w w1" using a(2) Inr y send by simp
      have p2: "paid (one_left (nd_ID ?d)) env w ?w" by (rule paid_trans [OF p asks_settled [OF paid_world [OF p]]]) simp
      have p3: "settled env w (?w\<lparr>nw_tick := Suc (nw_tick ?w)\<rparr>)"
        by (rule paid_trans [OF paid_settled [OF p2] asks_settled [OF paid_world [OF p2] asks_update]]) simp
      show ?thesis
      proof (cases "nv_render env (nw_tick w1) build (dst_transport destination)")
        case re: (Inl err)
        then show ?thesis
          using True acq Inr y send paid_settled [OF p2] paid_trans [OF p3 markFailed_settled [OF env paid_world [OF p3], of s ?d err "nv_now env (nw_tick ?w)"]]
          by (simp add: send_one_def prepareDelivery_def nask_def)
      next
        case re: (Inr content)
        then show ?thesis
          using True acq Inr y send execute_settled [OF env p2, of s destination content]
          by (auto simp: send_one_def prepareDelivery_def nask_def split: prod.splits option.splits)
      qed
    qed
  qed
qed

lemma send_all_settled:
  assumes env: "notify_env env" and s: "notifier_ok s"
  shows "notify_world env w \<Longrightarrow> settled env w (fst (send_all s env build eventType errs ds w))"
proof (induction ds arbitrary: errs w)
  case Nil
  then show ?case by (simp add: settled_refl)
next
  case (Cons d ds)
  obtain w1 x where one: "send_one s env build eventType d w = (w1, x)" by fastforce
  have w1: "settled env w w1" using send_one_settled [OF env Cons.prems s, of build eventType d] one by simp
  show ?case using one w1 paid_trans [OF w1 Cons.IH [OF paid_world [OF w1]]] by (cases x) simp_all
qed

section \<open>Planning\<close>

lemma asks_configured [simp]: "asks w (fst (resolveConfiguredEmailDestination s env recipient w))"
  by (simp add: resolveConfiguredEmailDestination_def nask_def split: sum.split)

lemma asks_configured_all: "asks w (fst (configured_destinations s env rs w))"
proof (induction rs arbitrary: w)
  case (Cons r rs)
  obtain w1 x where one: "resolveConfiguredEmailDestination s env r w = (w1, x)" by fastforce
  have "asks w w1" using asks_configured [of w s env r] one by simp
  then show ?case using one asks_trans Cons.IH [of w1] by (cases x) auto
qed simp

lemma asks_author_email [simp]: "asks w (fst (resolveCommitAuthorEmailDestination s env u w))"
  by (simp add: resolveCommitAuthorEmailDestination_def nask_def split: sum.split)

lemma asks_author_slack [simp]: "asks w (fst (resolveCommitAuthorSlackDestination s env u w))"
  by (simp add: resolveCommitAuthorSlackDestination_def nask_def split: sum.split)

lemma asks_author: "asks w (fst (author_destinations s env u e sl w))"
proof -
  obtain w1 x where one: "(if e then resolveCommitAuthorEmailDestination s env (usr_ID u) w else (w, Inr None)) = (w1, x)" by fastforce
  have w1: "asks w w1" using one by (metis asks_author_email asks_refl fst_conv)
  obtain w2 y where two: "(if sl then resolveCommitAuthorSlackDestination s env u w1 else (w1, Inr None)) = (w2, y)" by fastforce
  have w2: "asks w1 w2" using two by (metis asks_author_slack asks_refl fst_conv)
  show ?thesis using one two w1 asks_trans [OF w1 w2] by (cases x; cases y) (simp_all add: author_destinations_def)
qed

lemma asks_personal: "asks w (fst (resolveCommitAuthorDestinations s env build eventType w))"
proof -
  have "asks w (fst (author_destinations s env u e sl (w\<lparr>nw_tick := n\<rparr>)))" if "nw_tick w \<le> n" for u e sl n
    using asks_trans [OF asks_update [OF that] asks_author] .
  then show ?thesis by (simp add: resolveCommitAuthorDestinations_def Let_def nask_def split: sum.split)
qed

lemma asks_shared: "asks w (fst (shared_destinations s env build eventType w))"
  using asks_configured_all [of w s env] asks_trans [OF asks_update asks_configured_all, of w "Suc (nw_tick w)" s env]
  by (simp add: shared_destinations_def nask_def split: sum.split)

lemma asks_terminal: "asks w (fst (resolveTerminalDestinations s env build eventType w))"
proof -
  obtain w1 x where one: "shared_destinations s env build eventType w = (w1, x)" by fastforce
  have w1: "asks w w1" using asks_shared [of w s env build eventType] one by simp
  obtain w2 y where two: "resolveCommitAuthorDestinations s env build eventType w1 = (w2, y)" by fastforce
  have w2: "asks w w2" using asks_trans [OF w1] asks_personal [of w1 s env build eventType] two by simp
  show ?thesis using one two w1 w2 by (cases x; cases y) (simp_all add: resolveTerminalDestinations_def)
qed

lemma notify_terminal_settled:
  assumes env: "notify_env env" and w: "notify_world env w" and s: "notifier_ok s"
  shows "settled env w (fst (NotifyTerminalBuild (Some s) env build w))"
proof (cases "buildStatusNotificationEventType (b_Status build)")
  case (Some eventType)
  obtain w1 x where res: "resolveTerminalDestinations s env build eventType w = (w1, x)" by fastforce
  have w1: "settled env w w1" using asks_settled [OF w asks_terminal [of w s env build eventType]] res by simp
  note sent = paid_trans [OF w1 send_all_settled [OF env s paid_world [OF w1]]]
  show ?thesis using Some res w1 sent settled_refl [OF w]
    by (cases x) (simp_all add: NotifyTerminalBuild_def sendTerminalNotification_def)
qed (simp add: NotifyTerminalBuild_def settled_refl [OF w])

end
