(* ===== verification/Notification_Guarantees.thy ===== *)
theory Notification_Guarantees
  imports Notification_Properties Fixtures
begin

text \<open>
  What the notifications of finished builds guarantee, as theorems over the code's own operations, with witnesses on a
  notifier that mails one configured recipient.
\<close>

section \<open>Runs of the notifier\<close>

text \<open>The notifier is entered when a build finishes and by every iteration of its drain.\<close>

inductive notifier_step :: "BuildNotificationService \<Rightarrow> NotifyEnvironment \<Rightarrow> NotifyWorld \<Rightarrow> NotifyWorld \<Rightarrow> bool" for s env where
  finished: "notifier_step s env w (fst (NotifyTerminalBuild (Some s) env build w))"
| drained: "nrd_notifier d = s \<Longrightarrow> notifier_step s env w (fst (Notification_RunIteration d env w))"

lemma notifier_step_settled: "notifier_step s env w w' \<Longrightarrow> notify_env env \<Longrightarrow> notify_world env w \<Longrightarrow> notifier_ok s \<Longrightarrow> settled env w w'"
  by (induction rule: notifier_step.induct) (simp_all add: notify_terminal_settled iteration_settled)

lemma notifier_run_settled:
  assumes "(notifier_step s env)\<^sup>*\<^sup>* w w'" "notify_env env" "notify_world env w" "notifier_ok s"
  shows "settled env w w'"
  using assms(1)
proof (induction rule: rtranclp_induct)
  case base
  then show ?case by (rule settled_refl [OF assms(3)])
next
  case (step w1 w2)
  show ?case by (rule paid_trans [OF step(3) notifier_step_settled [OF step(2) assms(2) paid_world [OF step(3)] assms(4)]])
qed

section \<open>Example data\<close>

definition nx_notifier :: BuildNotificationService where
  "nx_notifier = \<lparr>bn_enabled = True, bn_defaultRecipients = [''ops@x''], bn_sender = True, bn_slackSender = False, bn_slackClient = False,
     bn_buildRepo = True, bn_deliveryRepo = True, bn_subscriptionRepo = False, bn_userRepo = False, bn_preferenceRepo = False,
     bn_identityRepo = False, bn_workspaceRepo = False, bn_claimOwner = ''inline-notifier'', bn_claimDuration = 50,
     bn_retryPolicy = \<lparr>nrp_maxAttempts = 3, nrp_initialDelay = 4, nrp_maxDelay = 20\<rparr>\<rparr>"

definition nx_build :: Build where
  "nx_build = blank_build ''b1'' BuildStatusFailed"

definition nx_uuid :: "nat \<Rightarrow> string" where
  "nx_uuid n = replicate (Suc n) CHR ''u''"

definition nx_env :: "notify_error option \<Rightarrow> NotifyEnvironment" where
  "nx_env answer = \<lparr>nv_now = (\<lambda>n. 100 + 10 * int n), nv_ctx = (\<lambda>_. None), nv_uuid = nx_uuid, nv_others = (\<lambda>_ r. r),
     nv_build = (\<lambda>_ _. Inr nx_build),
     nv_render = (\<lambda>_ _ _. Inr \<lparr>nct_subject = ''failed'', nct_body = ''b1'', nct_slackText = [], nct_personalSlackText = []\<rparr>),
     nv_send = (\<lambda>_ _. answer), nv_target = (\<lambda>_ _. Inl ErrNotificationTargetNotFound), nv_ownedTarget = (\<lambda>_ _. Inl ErrNotificationTargetNotFound),
     nv_matches = (\<lambda>_ _ _. Inr []), nv_ensureTarget = (\<lambda>_ _ _. Inl ErrNotificationTargetNotFound), nv_user = (\<lambda>_ _. Inl NErrUserNotFound),
     nv_preference = (\<lambda>_ _. Inl ErrUserNotificationPreferenceNotFound), nv_identity = (\<lambda>_ _. Inl ErrUserSlackIdentityNotFound),
     nv_workspace = (\<lambda>_. Inl ErrSlackWorkspaceIntegrationNotFound), nv_mail = (\<lambda>v. Inr \<lparr>ma_String = v, ma_Address = v\<rparr>),
     nv_urls = \<lparr>urls_Parse = (\<lambda>_. None), urls_String = (\<lambda>_. []), urls_Hostname = (\<lambda>_. [])\<rparr>\<rparr>"

definition nx_world :: NotifyWorld where
  "nx_world = \<lparr>nw_deliveries = NewNotificationDeliveryRepository, nw_tick = 0, nw_sent = []\<rparr>"

abbreviation nx_after :: "notify_error option \<Rightarrow> NotifyWorld" where
  "nx_after answer \<equiv> fst (NotifyTerminalBuild (Some nx_notifier) (nx_env answer) nx_build nx_world)"

lemma nx_env_good: "notify_env (nx_env answer)"
proof -
  have "inj nx_uuid" by (rule injI) (auto simp: nx_uuid_def replicate_eq_replicate)
  moreover have "trimmed (nx_uuid n)" "nx_uuid n \<noteq> []" for n
    by (simp_all add: nx_uuid_def trimmed_def is_space_def del: replicate_Suc)
  ultimately show ?thesis by (auto simp: notify_env_def nx_env_def)
qed

lemma nx_world_good: "notify_world env nx_world" "notifier_ok nx_notifier" "nw_sent nx_world = []"
  by (simp_all add: notify_world_def nx_world_def notify_wf_new notify_unused_def notifier_ok_def nx_notifier_def)
    (simp add: NewNotificationDeliveryRepository_def)

lemma nx_run: "(notifier_step nx_notifier (nx_env answer))\<^sup>*\<^sup>* nx_world (nx_after answer)"
  by (rule r_into_rtranclp, rule notifier_step.finished)

lemma nx_sent: "map_option nd_Status (map_of (ndr_deliveries (nw_deliveries (nx_after None))) ''uu'') = Some ''sent''"
  by code_simp

lemma nx_retry: "map_option nd_Status (map_of (ndr_deliveries (nw_deliveries (nx_after (Some (NErrorf ''boom''))))) ''uu'') = Some ''retry_waiting''"
  by code_simp

lemma nx_rows:
  obtains d where "map_of (ndr_deliveries (nw_deliveries (nx_after None))) ''uu'' = Some d" "nd_Status d = ''sent''"
  using nx_sent by (auto simp: map_option_case split: option.splits)

section \<open>The store\<close>

text \<open>
  C29: Whatever \<open>Create\<close>, \<open>AcquireForDelivery\<close>, \<open>MarkSent\<close>, the records of failures and \<open>Update\<close> do, in any order, every stored
  delivery passes the code's own validation, is stored under its identifier, was attempted at most as often as allowed, and
  is the only one for its build, event, transport and destination. New rows get a trimmed identifier that no row has,
  numbers of attempts are 64-bit, the clock of a claim is past the zero time, and \<open>Update\<close> names a row by its
  trimmed identifier and keeps its build, event, transport and destination.
\<close>

theorem notification_store_invariant:
  assumes "notify_write\<^sup>*\<^sup>* NewNotificationDeliveryRepository r" and "map_of (ndr_deliveries r) k = Some d"
  shows "NotificationDelivery_Validate d = None \<and> nd_ID d = k \<and> 0 \<le> nd_Attempts d \<and> nd_Attempts d \<le> nd_MaxAttempts d \<and>
     (\<forall>j e. map_of (ndr_deliveries r) j = Some e \<and> logical_key e = logical_key d \<longrightarrow> j = k)"
proof -
  have wf: "notify_wf r" by (rule notify_writes_wf [OF assms(1) notify_wf_new])
  note row = notify_row [OF wf assms(2)]
  have "j = k" if "map_of (ndr_deliveries r) j = Some e" "logical_key e = logical_key d" for j e
    using notify_row(5) [OF wf that(1)] row(5) that(2) by simp
  then show ?thesis using row valid_delivery_attempts [OF row(4)] by (simp add: valid_delivery_def)
qed

definition nx_input :: NotificationDeliveryClaimInput where
  "nx_input = \<lparr>nci_Delivery = zeroNotificationDelivery\<lparr>nd_BuildID := ''b1'', nd_EventType := ''build_failed'', nd_Transport := ''email'',
     nd_DestinationKind := ''shared_target'', nd_DestinationKey := ''email-target:t1''\<rparr>, nci_ClaimOwner = ''w1'', nci_Now = 100,
     nci_ClaimDuration = 50, nci_MaxAttempts = 3\<rparr>"

abbreviation nx_claimed :: NotificationDeliveryRepository where
  "nx_claimed \<equiv> fst (Notification_AcquireForDelivery ''u1'' None nx_input NewNotificationDeliveryRepository)"

definition nx_longer :: NotificationDelivery where
  "nx_longer = zeroNotificationDelivery\<lparr>nd_ID := ''u1'', nd_Status := ''sending'', nd_Attempts := 1, nd_MaxAttempts := 5, nd_ClaimedBy := Some ''w1'',
     nd_ClaimedAt := Some 100, nd_ClaimExpiresAt := Some 150, nd_LastAttemptAt := Some 100\<rparr>"

abbreviation nx_updated :: NotificationDeliveryRepository where
  "nx_updated \<equiv> fst (Notification_Update 110 None nx_longer nx_claimed)"

lemma nx_longer_keeps: "keeps_delivery nx_longer r"
  by (simp add: keeps_delivery_def nx_longer_def zeroNotificationDelivery_def keeps_field_def trimmed_def is_space_def split: option.split)

lemma nx_updated_run: "notify_write\<^sup>*\<^sup>* NewNotificationDeliveryRepository nx_updated"
proof -
  have "claim_id ''u1'' (nci_Delivery nx_input) = ''u1''"
    by (simp add: claim_id_def nx_input_def zeroNotificationDelivery_def)
  then have "notify_acquire_pre ''u1'' nx_input NewNotificationDeliveryRepository"
    by (simp add: notify_acquire_pre_def new_id_def NewNotificationDeliveryRepository_def trimmed_def is_space_def) (simp add: nx_input_def)
  then have first: "notify_write NewNotificationDeliveryRepository nx_claimed" by (intro notify_write.step notify_step.acquired)
  have second: "notify_write nx_claimed nx_updated" by (rule notify_write.updated [OF nx_longer_keeps])
  show ?thesis by (rule rtranclp.rtrancl_into_rtrancl [of notify_write, OF r_into_rtranclp [of notify_write, OF first] second])
qed

theorem notification_store_invariant_witness:
  "\<exists>d. map_of (ndr_deliveries nx_updated) ''u1'' = Some d \<and> NotificationDelivery_Validate d = None \<and> nd_Attempts d \<le> nd_MaxAttempts d \<and>
     nd_MaxAttempts d = 5"
proof -
  have "map_option nd_MaxAttempts (map_of (ndr_deliveries nx_updated) ''u1'') = Some 5" by code_simp
  then obtain d where d: "map_of (ndr_deliveries nx_updated) ''u1'' = Some d" "nd_MaxAttempts d = 5" by auto
  show ?thesis using notification_store_invariant [OF nx_updated_run d(1)] d by blast
qed

text \<open>
  The condition on the identifier is needed: \<open>Update\<close> looks the row up under the trimmed identifier and stores it under
  the one it was given, so a padded one leaves two rows for the same delivery.
\<close>

theorem padded_update_adds_row:
  "let rows = ndr_deliveries (fst (Notification_Update 110 None (nx_longer\<lparr>nd_ID := '' u1''\<rparr>) nx_claimed))
   in case (map_of rows ''u1'', map_of rows '' u1'') of (Some a, Some b) \<Rightarrow> logical_key a = logical_key b | _ \<Rightarrow> False"
  by code_simp

section \<open>Messages\<close>

text \<open>
  C30: However often builds finish and the drain runs, whatever the senders and the other processes do, the notifier sends
  at most as many messages for a delivery as its row counts attempts, and never more than the maximum of the row.
\<close>

theorem notifications_bounded:
  assumes "(notifier_step s env)\<^sup>*\<^sup>* w0 w" and "notify_env env" and "notify_world env w0" and "notifier_ok s" and "nw_sent w0 = []"
    and "map_of (ndr_deliveries (nw_deliveries w)) k = Some d"
  shows "messages k w \<le> nd_Attempts d \<and> nd_Attempts d \<le> nd_MaxAttempts d"
proof -
  have p: "settled env w0 w" by (rule notifier_run_settled [OF assms(1-4)])
  have wf: "notify_wf (nw_deliveries w0)" "notify_wf (nw_deliveries w)" using assms(3) paid_world [OF p] by (simp_all add: notify_world_def)
  note row = notify_row [OF wf(2) assms(6)]
  have "messages k w + attempts_of (nw_deliveries w0) k \<le> messages k w0 + attempts_of (nw_deliveries w) k"
    using p row(3) unfolding paid_def by simp
  moreover have "0 \<le> attempts_of (nw_deliveries w0) k"
    using valid_delivery_attempts(1) [OF notify_row(4) [OF wf(1)]] by (simp add: attempts_of_def split: option.split)
  ultimately have "messages k w \<le> nd_Attempts d" using assms(5,6) by (simp add: messages_def attempts_of_def)
  then show ?thesis using valid_delivery_attempts(2) [OF row(4)] by simp
qed

theorem notifications_bounded_witness:
  "\<exists>d. map_of (ndr_deliveries (nw_deliveries (nx_after None))) ''uu'' = Some d \<and> messages ''uu'' (nx_after None) \<le> nd_Attempts d \<and>
     nd_Attempts d \<le> nd_MaxAttempts d"
proof -
  obtain d where d: "map_of (ndr_deliveries (nw_deliveries (nx_after None))) ''uu'' = Some d" using nx_rows by blast
  show ?thesis using notifications_bounded [OF nx_run nx_env_good nx_world_good d] d by blast
qed

text \<open>
  C31: A delivery that was sent or has failed for good is over: whatever follows, its row stays as it is and the notifier
  sends no further message for it.
\<close>

theorem final_delivery_silent:
  assumes "(notifier_step s env)\<^sup>*\<^sup>* w w'" and "notify_env env" and "notify_world env w" and "notifier_ok s"
    and "map_of (ndr_deliveries (nw_deliveries w)) k = Some d" and "NotificationDelivery_IsTerminal d"
  shows "map_of (ndr_deliveries (nw_deliveries w')) k = Some d \<and> messages k w' \<le> messages k w"
proof -
  have p: "settled env w w'" by (rule notifier_run_settled [OF assms(1-4)])
  have adv: "notify_advances (nw_deliveries w) (nw_deliveries w')" using p by (simp add: paid_def)
  have "final_delivery d" using assms(6) by (auto simp: final_delivery_def NotificationDelivery_IsTerminal_def)
  then have same: "map_of (ndr_deliveries (nw_deliveries w')) k = Some d"
    using notify_advances_row [OF adv assms(5)] by (auto simp: moves_def)
  have "k \<noteq> []" using assms(3,5) notify_row(3) by (auto simp: notify_world_def)
  then have "messages k w' + attempts_of (nw_deliveries w) k \<le> messages k w + attempts_of (nw_deliveries w') k"
    using p unfolding paid_def by simp
  then show ?thesis using same assms(5) by (simp add: attempts_of_def)
qed

theorem final_delivery_silent_witness:
  "\<exists>d. map_of (ndr_deliveries (nw_deliveries (fst (NotifyTerminalBuild (Some nx_notifier) (nx_env None) nx_build (nx_after None))))) ''uu'' = Some d \<and>
     nd_Status d = ''sent'' \<and>
     messages ''uu'' (fst (NotifyTerminalBuild (Some nx_notifier) (nx_env None) nx_build (nx_after None))) \<le> messages ''uu'' (nx_after None)"
proof -
  obtain d where d: "map_of (ndr_deliveries (nw_deliveries (nx_after None))) ''uu'' = Some d" "nd_Status d = ''sent''" using nx_rows by blast
  have w: "notify_world (nx_env None) (nx_after None)"
    by (rule paid_world [OF notifier_run_settled [OF nx_run nx_env_good nx_world_good(1,2)]])
  have "NotificationDelivery_IsTerminal d" using d(2) by (simp add: NotificationDelivery_IsTerminal_def)
  then show ?thesis
    using final_delivery_silent [OF r_into_rtranclp [of "notifier_step nx_notifier (nx_env None)", OF notifier_step.finished [of _ _ _ nx_build]]
        nx_env_good w nx_world_good(2) d(1)] d(2)
    by blast
qed

section \<open>Recovery\<close>

lemma target_transport:
  assumes "notificationTargetDestination t = Inr destination" "dst_destinationKey destination \<noteq> []"
  shows "nt_Type t = NotificationTargetTypeEmail \<Longrightarrow> dst_transport destination = NotificationTransportEmail"
    "nt_Type t = NotificationTargetTypeSlackWebhook \<Longrightarrow> dst_transport destination = NotificationTransportSlackWebhook"
  using assms
  by (auto simp: notificationTargetDestination_def Let_def no_destination_def personalEmailTargetDestination_def split: if_splits sum.splits)

lemma same_destination_Inr:
  "same_destination d i m mt x = Inr destination \<Longrightarrow> x = Inr destination \<and> dst_destinationKey destination = nd_DestinationKey d"
  by (auto simp: same_destination_def split: sum.splits if_splits)

lemma rehydrated_email:
  assumes "rehydrateSharedEmailDestination s env d w = (w', Inr destination)" "nd_DestinationKey d \<noteq> []"
  shows "dst_destinationKey destination = nd_DestinationKey d \<and> dst_transport destination = NotificationTransportEmail"
proof -
  obtain t where "nt_Type t = NotificationTargetTypeEmail" "notificationTargetDestination t = Inr destination"
      "dst_destinationKey destination = nd_DestinationKey d"
    using assms(1) by (auto simp: rehydrateSharedEmailDestination_def split: prod.splits sum.splits if_splits dest!: same_destination_Inr)
  then show ?thesis using target_transport(1) assms(2) by metis
qed

lemma rehydrated_personal:
  assumes "rehydratePersonalEmailDestination s env d w = (w', Inr destination)"
  shows "dst_destinationKey destination = nd_DestinationKey d \<and> dst_transport destination = NotificationTransportEmail"
proof -
  obtain t where "personalEmailTargetDestination t = Inr destination" "dst_destinationKey destination = nd_DestinationKey d"
    using assms by (auto simp: rehydratePersonalEmailDestination_def split: prod.splits sum.splits option.splits if_splits dest!: same_destination_Inr)
  then show ?thesis by (auto simp: personalEmailTargetDestination_def Let_def split: sum.splits)
qed

lemma rehydrated_webhook:
  assumes "rehydrateSlackWebhookDestination s env d w = (w', Inr destination)" "nd_DestinationKey d \<noteq> []"
  shows "dst_destinationKey destination = nd_DestinationKey d \<and> dst_transport destination = NotificationTransportSlackWebhook"
proof -
  obtain t where "nt_Type t = NotificationTargetTypeSlackWebhook" "notificationTargetDestination t = Inr destination"
      "dst_destinationKey destination = nd_DestinationKey d"
    using assms(1) by (auto simp: rehydrateSlackWebhookDestination_def split: prod.splits sum.splits if_splits dest!: same_destination_Inr)
  then show ?thesis using target_transport(2) assms(2) by metis
qed

lemma rehydrated_dm:
  assumes "rehydrateSlackDMDestination s env d w = (w', Inr destination)"
  shows "dst_destinationKey destination = nd_DestinationKey d \<and> dst_transport destination = NotificationTransportSlackDM"
proof -
  obtain workspaceID identity integration where "slack_dm_of d workspaceID identity integration = Inr destination"
    using assms by (auto simp: rehydrateSlackDMDestination_def nask_def split: prod.splits sum.splits option.splits if_splits)
  then obtain u i k b where "slackDMDestination u i k b = Inr destination" "dst_destinationKey destination = nd_DestinationKey d"
    by (auto simp: slack_dm_of_def split: if_splits dest!: same_destination_Inr)
  then show ?thesis by (auto simp: slackDMDestination_def split: sum.splits)
qed

lemma rehydrated_destination:
  assumes "rehydrateDestination s env d w = (w', Inr destination)" "nd_DestinationKey d \<noteq> []"
  shows "dst_destinationKey destination = nd_DestinationKey d \<and> dst_transport destination = nd_Transport d"
  using assms rehydrated_email rehydrated_personal rehydrated_webhook rehydrated_dm unfolding rehydrateDestination_def
  by (auto split: if_splits)

text \<open>
  C32: A delivery that is rebuilt for another attempt is the one that was planned: the message goes over the persisted
  transport to the destination with the persisted key, and reports a build that still has the persisted outcome.
\<close>

theorem recovered_delivery_same:
  assumes "rehydrateDelivery s env d w = (w', Inr (build, destination))" and "nd_DestinationKey d \<noteq> []"
  shows "dst_transport destination = nd_Transport d \<and> dst_destinationKey destination = nd_DestinationKey d \<and>
     buildStatusNotificationEventType (b_Status build) = Some (nd_EventType d)"
  using assms rehydrated_destination [of s env d _ w' destination]
  by (auto simp: rehydrateDelivery_def nask_def split: if_splits sum.splits prod.splits)

definition nx_target :: NotificationTarget where
  "nx_target = \<lparr>nt_ID = ''t1'', nt_OwnerUserID = None, nt_Type = ''email'', nt_Origin = ''manual'', nt_Name = [], nt_Recipient = ''ops@x'',
     nt_Enabled = True, nt_CreatedAt = 1, nt_UpdatedAt = 1\<rparr>"

abbreviation nx_persisted :: NotificationDelivery where
  "nx_persisted \<equiv> (nci_Delivery nx_input)\<lparr>nd_NotificationTargetID := Some ''t1''\<rparr>"

definition nx_rebuilt :: "NotifyWorld \<times> (notify_error + Build \<times> notificationDestination)" where
  "nx_rebuilt = rehydrateDelivery (nx_notifier\<lparr>bn_subscriptionRepo := True\<rparr>) ((nx_env None)\<lparr>nv_target := (\<lambda>_ _. Inr nx_target)\<rparr>) nx_persisted nx_world"

theorem recovered_delivery_same_witness:
  "\<exists>w' build destination. nx_rebuilt = (w', Inr (build, destination)) \<and> dst_destinationKey destination = ''email-target:t1'' \<and>
     buildStatusNotificationEventType (b_Status build) = Some ''build_failed''"
proof -
  have "(case snd nx_rebuilt of Inl _ \<Rightarrow> False | Inr _ \<Rightarrow> True)" by code_simp
  then obtain y where "snd nx_rebuilt = Inr y" by (auto split: sum.splits)
  then have "nx_rebuilt = (fst nx_rebuilt, Inr (fst y, snd y))" by (simp add: prod_eq_iff)
  then obtain w' build destination where r: "nx_rebuilt = (w', Inr (build, destination))" by blast
  have key: "nd_DestinationKey nx_persisted = ''email-target:t1''" "nd_EventType nx_persisted = ''build_failed''"
    by (simp_all add: nx_input_def)
  show ?thesis using recovered_delivery_same [OF r [unfolded nx_rebuilt_def]] r unfolding key by blast
qed















end
