(* ===== verification/Spec2Isabelle.thy ===== *)
theory Spec2Isabelle
  imports Worker_Properties Version_Properties SCM_Reporter_Properties Trigger_Properties Trigger_Guarantees Job_Guarantees
    Account_Guarantees Notification_Guarantees
begin

text \<open>
  Coyote CI is a continuous integration server. A control plane accepts requests for builds, turns a
  pipeline file into the steps of a build and durable jobs for them, and keeps both in a repository;
  workers poll for work, claim a step under a lease, run it and report the result; the status of the
  build follows from its steps. This development models that execution core, from
  \<open>src/backend/internal\<close>, and proves what makes it correct.

  \<^bold>\<open>The parts and how they interact.\<close>
  A request (\<open>service/build\<close>: creation, queueing, reruns) calls the pipeline package, the planner and
  both stores. A worker (\<open>service/worker\<close>) calls the build service, which calls the stores. A step
  result (\<open>HandleStepResult\<close>) changes the build store and the job store, then notifies. Both stores
  decide transitions by the rules of \<open>domain/lifecycle.go\<close> and \<open>repository/completion_decision.go\<close>.

  \<^bold>\<open>Theories and sources.\<close>
  \<^item> \<open>Prelude\<close>: Go's maps as association lists with unique keys, \<open>sort.Slice\<close> as an insertion sort by a
    comparison (the locales \<open>comparator_on\<close> and \<open>comparator\<close> have the facts of every comparison
    that follows a key), 64-bit wrap-around, strings.
  \<^item> \<open>Lifecycle\<close>: \<open>domain/lifecycle.go\<close>, \<open>domain/priority.go\<close>, \<open>repository/completion_decision.go\<close>; the
    locale \<open>lifecycle\<close> is interpreted for builds, steps and jobs.
  \<^item> \<open>Build_Domain\<close>: builds, steps, triggers, caches and their normalisations (\<open>domain\<close>).
  \<^item> \<open>Build_Repository\<close>, \<open>Build_Queries\<close>: \<open>repository/memory/build_repository.go\<close>, writes and listings.
    \<open>Step_Completion\<close> refines \<open>completeStepLocked\<close> to a status derived from the steps;
    \<open>Store_Invariant\<close> has the invariant, the step relation of all writes and how steps evolve; \<open>Store_Writes\<close> labels
    every write with what it may do to a build, so that a property can say which writes it excludes;
    \<open>Store_Properties\<close> has the properties of the store, \<open>Fixtures\<close> concrete stores for witnesses.
  \<^item> \<open>Execution_Job_Store\<close>: \<open>repository/memory/execution_job_repository.go\<close>; \<open>Job_Invariant\<close> and
    \<open>Job_Properties\<close> in the same roles.
  \<^item> \<open>Dependency_Graph\<close>, \<open>Planner\<close>: the graph searches of \<open>pipeline/validate.go\<close> and
    \<open>service/build/execution_planner.go\<close>, and the planner.
  \<^item> \<open>Regex\<close>, \<open>Versioning\<close>, \<open>Version_Properties\<close>: package \<open>versioning\<close>, with its pattern as a regular
    expression decided by derivatives.
  \<^item> \<open>Go_Paths\<close>: \<open>path.Clean\<close>, \<open>path.Join\<close>, \<open>path.Dir\<close> on slash-separated paths. \<open>Pipeline_Schema\<close>,
    \<open>Pipeline_Validate\<close>: package \<open>pipeline\<close> and \<open>cache/preset.go\<close>. \<open>Pipeline_Layout\<close> and
    \<open>Pipeline_Properties\<close> relate validation, resolution and the stored build. \<open>Repo_Paths\<close>:
    \<open>service/build/repo_paths.go\<close>.
  \<^item> \<open>Build_Creation\<close>, \<open>Build_Requests\<close>: \<open>creation.go\<close>, \<open>build_create.go\<close>, \<open>trigger.go\<close>, \<open>retry_rerun.go\<close>,
    \<open>execution_orchestration.go\<close> (durable jobs and outputs) and \<open>read_queue.go\<close> (queueing, claims,
    leases) of \<open>service/build\<close>. \<open>Repo_Requests\<close>: \<open>repo_create.go\<close>. \<open>Build_Service\<close>: \<open>lifecycle.go\<close>, \<open>completion.go\<close> and the store of
    declared outputs. \<open>Build_Preparation\<close>: \<open>source.go\<close>.
  \<^item> \<open>Worker_Registry\<close>, \<open>Worker\<close>: \<open>repository/memory/worker_repository.go\<close> and \<open>service/worker\<close>
    (\<open>claim.go\<close>, \<open>helpers.go\<close>, \<open>lease.go\<close>, \<open>service.go\<close>).
  \<^item> \<open>Service_Properties\<close>, \<open>Request_Properties\<close>, \<open>Worker_Properties\<close>: what the composition guarantees. What
    a worker relies on when a store grants it a step is the locale \<open>step_grant\<close>, interpreted for
    claims and for recoveries.

  \<^item> \<open>Delivery_Leases\<close>: what stores of outgoing deliveries share (error chains, validation chains, the doubling
    backoff) and the locale \<open>claimed_update\<close>: of the updates that name a claim, which need the current one and take it
    from the row, at most one wins. \<open>SCM_Status_Delivery\<close>, \<open>SCM_Status_Store\<close>: \<open>domain/scm_status_delivery.go\<close>,
    \<open>repository/scm_status_delivery_ordering.go\<close> and the in-memory store; \<open>SCM_Status_Invariant\<close>,
    \<open>SCM_Status_Properties\<close> and \<open>SCM_Status_Guarantees\<close> have its invariant, step relation and properties.
    \<open>SCM_Status_Reporter\<close>, \<open>SCM_Status_Drain\<close>: \<open>scm_status_reporting.go\<close>, \<open>scm_status_delivery_policy.go\<close> and
    \<open>scm_status_recovery_drain.go\<close>; \<open>SCM_Reporter_Properties\<close> has their properties.

  \<^item> \<open>Job_Stores\<close>, \<open>Trigger_Stores\<close>: jobs, projects, registered repositories, credentials and the ledgers of
    triggers with their in-memory stores. \<open>Webhook_Filter\<close>, \<open>Job_Validation\<close>, \<open>Job_Requests\<close>,
    \<open>Job_Events\<close>, \<open>Artifact_Triggers\<close>: \<open>service/job_service.go\<close> and the files beside it and
    \<open>service/webhook\<close>. \<open>GitHub_Webhook\<close>: \<open>webhook/github\<close> and the handler in
    \<open>http/handler/event_handler.go\<close>. \<open>Trigger_Builds\<close> follows a request of a job to its build,
    \<open>Trigger_Fixtures\<close> has concrete requests; \<open>Trigger_Properties\<close>, \<open>Trigger_Guarantees\<close> (with the
    locale \<open>ledger\<close>: a request acts only when its key is new) and \<open>Job_Guarantees\<close> have the properties.

  \<^item> \<open>Account_Stores\<close>, \<open>Account_Services\<close>: users, memberships and API tokens (\<open>domain/user.go\<close>,
    \<open>domain/api_token_scope.go\<close>), their in-memory stores, and the services of users, projects, memberships,
    credentials and tokens. \<open>Base64\<close>: the encoding of cookies and tokens. \<open>Authorization\<close>:
    \<open>authorization/authorizer.go\<close>, \<open>auth/auth.go\<close>, \<open>auth/session.go\<close> and the claims of \<open>auth/oidc.go\<close>.
    \<open>Account_Requests\<close> serves sequences of requests and has their invariant; \<open>Account_Properties\<close> has the locale
    \<open>batch_lookup\<close> (what the authorizer relies on when it loads memberships at once) and
    \<open>Account_Guarantees\<close> the properties.

  \<^item> \<open>Notification_Delivery\<close>, \<open>Notification_Store\<close>: \<open>domain/notification_delivery.go\<close>, the in-memory outbox of
    notifications and the retry policy. \<open>Notification_Destinations\<close>, \<open>Notification_Sender\<close>,
    \<open>Notification_Planning\<close>: \<open>notifications.go\<close> and the files \<open>notification_*.go\<close> beside it (planning, sending,
    classification of failures, recovery, drain). \<open>Notification_Invariant\<close> has the invariant of the outbox and the step
    relation of its writers, \<open>Notification_Properties\<close> interprets \<open>claimed_update\<close> for its updates and shows that every
    message is paid for by a counted attempt, \<open>Notification_Guarantees\<close> has the properties.

  \<^bold>\<open>State and errors.\<close>
  A Go struct is a record with a short prefix for its fields, a map is an association list, a pointer
  an option, an error a value of \<open>go_error\<close> (in the service \<open>Repo\<close> or \<open>Svc\<close>, as the repository and the
  service have error values of their own). Every method takes the state and returns the new one with
  its result; the mutex of a repository makes each method one atomic step. Upserting a membership and deleting a
  user are one step too, although the code uses two locks there one after the other; what can happen in between
  is a theorem of \<open>Account_Guarantees\<close>. Times are integers in
  nanoseconds. Cloning is kept where the code clones; values are not shared in HOL, so that clones of
  plain data are identities.

  \<^bold>\<open>Parameters.\<close>
  What is not in the repository or is input and output is an argument: the YAML decoder, JSON encoding and
  decoding of job specifications, SHA-256, new identifiers (the n-th one a request draws), the clock,
  whether a URL is an absolute HTTPS one, the log sink, the fetch of a repository and the refresh of
  a managed image (\<open>RepoIO\<close>), and the effects of preparation (workspace,
  checkout, artifact handoff, version file, release snapshot) in \<open>PreparationIO\<close>. The build service
  records its calls of the notifiers in its state. For the commit status reporter the clock, the build
  and project stores and the publisher are functions of the number of calls made so far
  (\<open>Environment\<close>), and so is what other processes do to the delivery store between two calls; for the notifier
  \<open>NotifyEnvironment\<close> does the same, with the rendering of messages, the senders, \<open>mail.ParseAddress\<close> and the
  stores of subscriptions, preferences and Slack identities. URL parsing
  (\<open>URLPackage\<close>), JSON payloads, the keyed hash, secrets and connections of GitHub (\<open>GitHubIO\<close>) and the
  clocks and identifiers of job requests (\<open>JobExternals\<close>) are arguments as well, and so are the clock,
  identifiers, random bytes and SHA-256 of the account services (\<open>AccountExternals\<close>) and the JSON and keyed
  hash of cookies (\<open>SessionCodec\<close>).

  \<^bold>\<open>What is shown.\<close>
  \<^item> Stores: completion happens exactly under its guard, refines the derived build status and is reported
    exactly; claims are exclusive until the build is queued again; an expired lease fences its old holder;
    cancelation stops every step, and the build stays canceled until it is queued or given a status without a guard; build
    numbers increase; an application version is written once; a step and its job complete together or
    not at all; the best candidate job is claimed and the claim is checked again; listings are sorted,
    pages tile them.
  \<^item> Graphs and planning: the cycle search ends and is exact, the depth search ends exactly on acyclic
    parts, the nearest common ancestor is deepest, workspace plans meet their contract.
  \<^item> Pipelines and versions: validation guarantees a sound dependency graph, a validated build never gets
    stuck, paths stay in the repository, the version pattern accepts exactly its grammar, next patch
    numbers are new up to the 64-bit bound.
  \<^item> Services: creation and full reruns always answer and leave a build that can run; cancelation stops build,
    steps and jobs; status changes are legal when they are not interleaved; a worker holds what it is
    handed and renews in time. The interleaving that revives a canceled build, the retry that can
    never run and the paths that escape are theorems too.
  \<^item> Commit statuses: rows stay valid whatever the writers do, a stream never goes back to an older build or
    from a final state to a pending one, a claim excludes others while it lasts and is closed once by those who name it, a
    claimed row is what a lookup finds, a granted report is published once and a build that was
    overtaken is not. The reassertion that is always refused and the dead claims that block the
    drain are theorems too.
  \<^item> Jobs and triggers: stored jobs can always be run, an event starts one build for each job it matches and the
    filter decides as its reference, a delivery acts at most once and an unsigned one never, branch
    names and pull requests arrive unchanged, artifact triggers do not cascade and are served once.
    That webhooks lose the priority of a job is a theorem too.
  \<^item> Accounts: users, memberships and tokens stay in order under every sequence of requests, roles are decided as
    by their order, the batch check agrees with the single one, a revoked token is refused for good, an issued
    token and an issued cookie are accepted, and the middleware admits stored users only, on a valid token, a signed and unexpired
    session of that user or the trusted address.
  \<^item> Notifications: rows of the outbox stay valid and unique for their destination, a delivery gets at most as many
    messages as attempts and none after it is final, and a delivery that is tried again goes to the destination that
    was planned. That a configured recipient without subscriptions is never tried again is a theorem too.

  \<^bold>\<open>Termination and fuel.\<close>
  Loops are structural recursion. The graph searches of the source recurse without a bound, so that they
  return an option and take fuel \<open>graph_fuel\<close>, one more than the length of the list of nodes: the
  searches are shown to need no more on every graph (cycle search) or on acyclic graphs (depth),
  and the depth search is shown not to return for any fuel on cyclic ones.

  \<^bold>\<open>Not modelled.\<close>
  The PostgreSQL repositories (SQL text), the HTTP, command line and MCP interfaces, the texts of notifications
  and the settings of their subscriptions, the calls to GitHub, runners, workspaces and caches on disk, the Kubernetes controller, managed
  images, releases, the exchange with an OIDC provider, generated documentation and the frontend: they are
  input and output, or other services behind interfaces that appear here as recorded calls or
  arguments. Of the program logic \<open>RunStep\<close> and \<open>ExecuteRunnableStep\<close> are left out: they
  compose the runner, the log and the artifact stores around the completion that is modelled.
\<close>

end
